(* ===== verification/Go_Prelude.thy ===== *)
theory Go_Prelude
  imports Main "HOL-Library.Char_ord" "HOL-Library.List_Lexorder" "HOL-Library.Sublist"
begin

text \<open>
  What the Go sources use of the language and its standard library, shared by every component:
  errors as values, the state-and-error computations that stand for store methods, conversions
  to int32, times and durations, and the functions of the packages strings and strconv.

  Strings are lists of bytes; the case and white-space functions are those of the packages
  strings and bytes on ASCII text (Unicode case folding and the white space outside ASCII are
  not modelled). A time.Time is its distance in nanoseconds from the Unix epoch.
\<close>

named_theorems run_simps \<open>unfolding of state-and-error computations\<close>
named_theorems keeps \<open>compositional rules for invariants of state-and-error computations\<close>

section \<open>Errors\<close>

text \<open>
  Go has one interface type for errors. The constructors are the kinds the stores tell apart:
  errors.New or fmt.Errorf without wrapping, fmt.Errorf with a wrapped error or with two of them
  (the format "%w: %w"), what the database driver reports, and the error types the packages declare.
\<close>

datatype go_error =
    ErrNew string
  | Wrapped string go_error
  | Joined go_error go_error
  | ErrNoRows
  | CheckViolation string
  | UniqueViolation string
  | ForeignKeyViolation string
  | IntegerOutOfRange
  | InsufficientCreditsError int int
  | FlavorNotAllowedError string string
  | AutoTopupPaymentError go_error

fun unwrap_all :: "go_error \<Rightarrow> go_error list" where
  "unwrap_all (Wrapped m e) = Wrapped m e # unwrap_all e"
| "unwrap_all (Joined a b) = Joined a b # unwrap_all a @ unwrap_all b"
| "unwrap_all (AutoTopupPaymentError e) = AutoTopupPaymentError e # unwrap_all e"
| "unwrap_all e = [e]"

text \<open>errors.Is: the target is somewhere in the chain of wrapped errors.\<close>

definition err_is :: "go_error \<Rightarrow> go_error \<Rightarrow> bool" where
  "err_is e target \<longleftrightarrow> target \<in> set (unwrap_all e)"

lemma err_is_simps [simp]:
  "err_is (ErrNew m) t \<longleftrightarrow> t = ErrNew m"
  "err_is ErrNoRows t \<longleftrightarrow> t = ErrNoRows"
  "err_is (CheckViolation m) t \<longleftrightarrow> t = CheckViolation m"
  "err_is (UniqueViolation m) t \<longleftrightarrow> t = UniqueViolation m"
  "err_is (ForeignKeyViolation m) t \<longleftrightarrow> t = ForeignKeyViolation m"
  "err_is IntegerOutOfRange t \<longleftrightarrow> t = IntegerOutOfRange"
  "err_is (InsufficientCreditsError a b) t \<longleftrightarrow> t = InsufficientCreditsError a b"
  "err_is (FlavorNotAllowedError x y) t \<longleftrightarrow> t = FlavorNotAllowedError x y"
  "err_is (Wrapped m e) t \<longleftrightarrow> t = Wrapped m e \<or> err_is e t"
  "err_is (Joined d e) t \<longleftrightarrow> t = Joined d e \<or> err_is d t \<or> err_is e t"
  "err_is (AutoTopupPaymentError e) t \<longleftrightarrow> t = AutoTopupPaymentError e \<or> err_is e t"
  by (auto simp: err_is_def)

section \<open>State-and-error computations\<close>

text \<open>
  A store method reads and writes a state and returns an error or a value. An early return of
  an error keeps what was written before it, unless the method runs inside a transaction.
\<close>

type_synonym ('s, 'a) go = "'s \<Rightarrow> (go_error + 'a) \<times> 's"

definition ret :: "'a \<Rightarrow> ('s, 'a) go" where
  "ret x = (\<lambda>s. (Inr x, s))"

definition fail :: "go_error \<Rightarrow> ('s, 'a) go" where
  "fail e = (\<lambda>s. (Inl e, s))"

definition andthen :: "('s, 'a) go \<Rightarrow> ('a \<Rightarrow> ('s, 'b) go) \<Rightarrow> ('s, 'b) go" where
  "andthen m k = (\<lambda>s. case m s of (Inl e, t) \<Rightarrow> (Inl e, t) | (Inr x, t) \<Rightarrow> k x t)"

text \<open>\<open>m\<close>, with both outcomes handed on: the Go code inspects the error itself.\<close>

definition attempt :: "('s, 'a) go \<Rightarrow> (go_error + 'a \<Rightarrow> ('s, 'b) go) \<Rightarrow> ('s, 'b) go" where
  "attempt m k = (\<lambda>s. case m s of (r, t) \<Rightarrow> k r t)"

text \<open>fmt.Errorf with the verb %w around whatever error comes out.\<close>

definition wrap_err :: "string \<Rightarrow> ('s, 'a) go \<Rightarrow> ('s, 'a) go" where
  "wrap_err msg m = (\<lambda>s. case m s of (Inl e, t) \<Rightarrow> (Inl (Wrapped msg e), t) | (Inr x, t) \<Rightarrow> (Inr x, t))"

text \<open>A transaction: committed when the body returns nil, rolled back otherwise.\<close>

definition with_tx :: "('s, 'a) go \<Rightarrow> ('s, 'a) go" where
  "with_tx m = (\<lambda>s. case m s of (Inl e, t) \<Rightarrow> (Inl e, s) | (Inr x, t) \<Rightarrow> (Inr x, t))"

definition lift_result :: "go_error + 'a \<Rightarrow> ('s, 'a) go" where
  "lift_result r = (\<lambda>s. (r, s))"

lemma ret_run [simp, run_simps]: "ret x s = (Inr x, s)"
  by (simp add: ret_def)

lemma fail_run [simp, run_simps]: "fail e s = (Inl e, s)"
  by (simp add: fail_def)

lemma lift_result_run [simp, run_simps]: "lift_result r s = (r, s)"
  by (simp add: lift_result_def)

lemma andthen_run [run_simps]:
  "andthen m k s = (case m s of (Inl e, t) \<Rightarrow> (Inl e, t) | (Inr x, t) \<Rightarrow> k x t)"
  by (simp add: andthen_def)

lemma attempt_run [run_simps]: "attempt m k s = (case m s of (r, t) \<Rightarrow> k r t)"
  by (simp add: attempt_def)

lemma andthen_Inr:
  "andthen m k s = (Inr y, u) \<longleftrightarrow> (\<exists>x t. m s = (Inr x, t) \<and> k x t = (Inr y, u))"
  by (auto simp: andthen_def split: prod.splits sum.splits)

lemma andthen_Inl:
  "andthen m k s = (Inl e, u) \<longleftrightarrow>
     m s = (Inl e, u) \<or> (\<exists>x t. m s = (Inr x, t) \<and> k x t = (Inl e, u))"
  by (auto simp: andthen_def split: prod.splits sum.splits)

lemma with_tx_Inr [simp]: "with_tx m s = (Inr x, t) \<longleftrightarrow> m s = (Inr x, t)"
  by (auto simp: with_tx_def split: prod.splits sum.splits)

lemma with_tx_Inl [simp]: "with_tx m s = (Inl e, t) \<longleftrightarrow> t = s \<and> (\<exists>u. m s = (Inl e, u))"
  by (auto simp: with_tx_def split: prod.splits sum.splits)

lemma wrap_err_Inr [simp]: "wrap_err w m s = (Inr x, t) \<longleftrightarrow> m s = (Inr x, t)"
  by (auto simp: wrap_err_def split: prod.splits sum.splits)

lemma wrap_err_Inl [simp]:
  "wrap_err w m s = (Inl e, t) \<longleftrightarrow> (\<exists>e'. e = Wrapped w e' \<and> m s = (Inl e', t))"
  by (auto simp: wrap_err_def split: prod.splits sum.splits)

text \<open>Rules to take a successful run apart, step by step.\<close>

lemmas ok_simps = ret_run fail_run lift_result_run attempt_run andthen_Inr with_tx_Inr wrap_err_Inr

subsection \<open>Invariants\<close>

text \<open>
  \<open>keeps_inv P m\<close>: whatever \<open>m\<close> returns, a state that satisfies \<open>P\<close> is taken to a state that
  satisfies \<open>P\<close>. The rules follow the shape of the code.
\<close>

definition keeps_inv :: "('s \<Rightarrow> bool) \<Rightarrow> ('s, 'a) go \<Rightarrow> bool" where
  "keeps_inv P m \<longleftrightarrow> (\<forall>s. P s \<longrightarrow> P (snd (m s)))"

lemma keeps_invD: "keeps_inv P m \<Longrightarrow> P s \<Longrightarrow> m s = (r, t) \<Longrightarrow> P t"
  unfolding keeps_inv_def by (metis snd_conv)

lemma keeps_invI: "(\<And>s r t. P s \<Longrightarrow> m s = (r, t) \<Longrightarrow> P t) \<Longrightarrow> keeps_inv P m"
  unfolding keeps_inv_def by (metis prod.collapse)

lemma keeps_ret [keeps, simp]: "keeps_inv P (ret x)"
  by (simp add: keeps_inv_def)

lemma keeps_fail [keeps, simp]: "keeps_inv P (fail e)"
  by (simp add: keeps_inv_def)

lemma keeps_lift [keeps, simp]: "keeps_inv P (lift_result r)"
  by (simp add: keeps_inv_def)

lemma keeps_andthen [keeps]:
  "keeps_inv P m \<Longrightarrow> (\<And>x. keeps_inv P (k x)) \<Longrightarrow> keeps_inv P (andthen m k)"
  by (auto simp: keeps_inv_def andthen_def split: prod.splits sum.splits)

lemma keeps_attempt [keeps]:
  "keeps_inv P m \<Longrightarrow> (\<And>r. keeps_inv P (k r)) \<Longrightarrow> keeps_inv P (attempt m k)"
  by (auto simp: keeps_inv_def attempt_def split: prod.splits)

lemma keeps_wrap [keeps]: "keeps_inv P m \<Longrightarrow> keeps_inv P (wrap_err w m)"
  by (auto simp: keeps_inv_def wrap_err_def split: prod.splits sum.splits)

lemma keeps_tx [keeps]: "keeps_inv P m \<Longrightarrow> keeps_inv P (with_tx m)"
  by (auto simp: keeps_inv_def with_tx_def split: prod.splits sum.splits)

lemma keeps_if [keeps]:
  "(b \<Longrightarrow> keeps_inv P m) \<Longrightarrow> (\<not> b \<Longrightarrow> keeps_inv P n) \<Longrightarrow> keeps_inv P (if b then m else n)"
  by simp

lemma keeps_sum [keeps]:
  "(\<And>e. r = Inl e \<Longrightarrow> keeps_inv P (f e)) \<Longrightarrow> (\<And>x. r = Inr x \<Longrightarrow> keeps_inv P (g x)) \<Longrightarrow>
   keeps_inv P (case r of Inl e \<Rightarrow> f e | Inr x \<Rightarrow> g x)"
  by (cases r) auto

lemma keeps_option [keeps]:
  "(r = None \<Longrightarrow> keeps_inv P f) \<Longrightarrow> (\<And>x. r = Some x \<Longrightarrow> keeps_inv P (g x)) \<Longrightarrow>
   keeps_inv P (case r of None \<Rightarrow> f | Some x \<Rightarrow> g x)"
  by (cases r) auto

lemma keeps_let [keeps]: "(\<And>x. x = v \<Longrightarrow> keeps_inv P (f x)) \<Longrightarrow> keeps_inv P (let x = v in f x)"
  by simp

text \<open>The same at one state, for steps whose effect depends on what was read before.\<close>

lemma andthen_at:
  "P (snd (m s)) \<Longrightarrow> (\<And>x t. m s = (Inr x, t) \<Longrightarrow> P (snd (k x t))) \<Longrightarrow> P (snd (andthen m k s))"
  by (auto simp: andthen_def split: prod.splits sum.splits)

lemma keeps_at: "keeps_inv P m \<Longrightarrow> P s \<Longrightarrow> P (snd (m s))"
  by (simp add: keeps_inv_def)

section \<open>Integers, times and durations\<close>

text \<open>The conversion \<open>int32(x)\<close> keeps the low 32 bits, read in two's complement.\<close>

definition int32 :: "int \<Rightarrow> int" where
  "int32 x = (x + 2147483648) mod 4294967296 - 2147483648"

definition int4 :: "int \<Rightarrow> bool" where
  "int4 x \<longleftrightarrow> - 2147483648 \<le> x \<and> x < 2147483648"

definition int64 :: "int \<Rightarrow> int" where
  "int64 x = (x + 9223372036854775808) mod 18446744073709551616 - 9223372036854775808"

lemma int32_id [simp]: "int4 x \<Longrightarrow> int32 x = x"
  by (simp add: int32_def int4_def)

lemma int4_int32 [simp]: "int4 (int32 x)"
  by (simp add: int32_def int4_def)

type_synonym go_time = int
type_synonym duration = int

text \<open>The zero time.Time is 1 January of year 1, UTC.\<close>

definition zero_time :: go_time where
  "zero_time = - 62135596800000000000"

definition is_zero_time :: "go_time \<Rightarrow> bool" where
  "is_zero_time t \<longleftrightarrow> t = zero_time"

text \<open>time.Time.Sub saturates at the smallest and largest int64.\<close>

definition time_sub :: "go_time \<Rightarrow> go_time \<Rightarrow> duration" where
  "time_sub t u = max (- 9223372036854775808) (min 9223372036854775807 (t - u))"

definition minute :: duration where "minute = 60000000000"
definition hour :: duration where "hour = 3600000000000"
definition second :: duration where "second = 1000000000"

text \<open>A nullable TIMESTAMPTZ column, and the conversions of the stores to and from time.Time.\<close>

type_synonym timestamptz = "go_time option"

definition to_timestamptz :: "go_time \<Rightarrow> timestamptz" where
  "to_timestamptz t = (if is_zero_time t then None else Some t)"

definition from_timestamptz :: "timestamptz \<Rightarrow> go_time" where
  "from_timestamptz t = (case t of None \<Rightarrow> zero_time | Some u \<Rightarrow> u)"

lemma timestamptz_roundtrip [simp]: "from_timestamptz (to_timestamptz t) = t"
  by (simp add: from_timestamptz_def to_timestamptz_def is_zero_time_def)

section \<open>Packages strings and strconv\<close>

definition is_space :: "char \<Rightarrow> bool" where
  "is_space c \<longleftrightarrow> (let n = (of_char c :: nat) in n = 32 \<or> 9 \<le> n \<and> n \<le> 13)"

definition trim_space :: "string \<Rightarrow> string" where
  "trim_space s = rev (dropWhile is_space (rev (dropWhile is_space s)))"

definition lower_char :: "char \<Rightarrow> char" where
  "lower_char c = (let n = (of_char c :: nat) in if 65 \<le> n \<and> n \<le> 90 then char_of (n + 32) else c)"

definition upper_char :: "char \<Rightarrow> char" where
  "upper_char c = (let n = (of_char c :: nat) in if 97 \<le> n \<and> n \<le> 122 then char_of (n - 32) else c)"

definition to_lower :: "string \<Rightarrow> string" where
  "to_lower s = map lower_char s"

definition to_upper :: "string \<Rightarrow> string" where
  "to_upper s = map upper_char s"

definition equal_fold :: "string \<Rightarrow> string \<Rightarrow> bool" where
  "equal_fold a b \<longleftrightarrow> to_lower a = to_lower b"

fun has_prefix :: "string \<Rightarrow> string \<Rightarrow> bool" where
  "has_prefix s [] = True"
| "has_prefix [] (p # ps) = False"
| "has_prefix (c # s) (p # ps) = (c = p \<and> has_prefix s ps)"

definition has_suffix :: "string \<Rightarrow> string \<Rightarrow> bool" where
  "has_suffix s p = has_prefix (rev s) (rev p)"

fun contains :: "string \<Rightarrow> string \<Rightarrow> bool" where
  "contains [] p = (p = [])"
| "contains (c # s) p = (has_prefix (c # s) p \<or> contains s p)"

definition trim_prefix :: "string \<Rightarrow> string \<Rightarrow> string" where
  "trim_prefix s p = (if has_prefix s p then drop (length p) s else s)"

fun index_from :: "nat \<Rightarrow> string \<Rightarrow> string \<Rightarrow> nat option" where
  "index_from i [] p = (if p = [] then Some i else None)"
| "index_from i (c # s) p = (if has_prefix (c # s) p then Some i else index_from (Suc i) s p)"

definition str_index :: "string \<Rightarrow> string \<Rightarrow> nat option" where
  "str_index s p = index_from 0 s p"

fun last_index_from :: "nat \<Rightarrow> string \<Rightarrow> string \<Rightarrow> nat option" where
  "last_index_from i [] p = (if p = [] then Some i else None)"
| "last_index_from i (c # s) p =
     (case last_index_from (Suc i) s p of
        Some j \<Rightarrow> Some j
      | None \<Rightarrow> if has_prefix (c # s) p then Some i else None)"

definition last_index :: "string \<Rightarrow> string \<Rightarrow> nat option" where
  "last_index s p = last_index_from 0 s p"

fun join :: "string list \<Rightarrow> string \<Rightarrow> string" where
  "join [] sep = []"
| "join [x] sep = x"
| "join (x # y # xs) sep = x @ sep @ join (y # xs) sep"

fun show_nat :: "nat \<Rightarrow> string" where
  "show_nat n = (if n < 10 then [char_of (48 + n)] else show_nat (n div 10) @ [char_of (48 + n mod 10)])"

declare show_nat.simps [simp del]

definition itoa :: "int \<Rightarrow> string" where
  "itoa n = (if n < 0 then CHR ''-'' # show_nat (nat (- n)) else show_nat (nat n))"

text \<open>Package encoding/hex.\<close>

definition hex_digit :: "nat \<Rightarrow> char" where
  "hex_digit n = ''0123456789abcdef'' ! (n mod 16)"

definition hex_encode :: "nat list \<Rightarrow> string" where
  "hex_encode bytes = concat (map (\<lambda>b. [hex_digit (b div 16), hex_digit b]) bytes)"

text \<open>The error texts; \<open>pg\<close> stands for the driver's own texts.\<close>

fun err_text :: "(go_error \<Rightarrow> string) \<Rightarrow> go_error \<Rightarrow> string" where
  "err_text pg (ErrNew m) = m"
| "err_text pg (Wrapped m e) = m @ '': '' @ err_text pg e"
| "err_text pg (Joined a b) = err_text pg a @ '': '' @ err_text pg b"
| "err_text pg (InsufficientCreditsError n a) =
     ''billing: insufficient credits: need '' @ itoa n @ '', have '' @ itoa a"
| "err_text pg (FlavorNotAllowedError f m) =
     ''billing: flavor \"'' @ f @ ''\" exceeds plan cap \"'' @ m @ ''\"''"
| "err_text pg (AutoTopupPaymentError e) = err_text pg e"
| "err_text pg e = pg e"

lemma has_prefix_iff: "has_prefix s p \<longleftrightarrow> prefix p s"
  by (induction s p rule: has_prefix.induct) auto

lemma contains_iff: "contains s p \<longleftrightarrow> sublist p s"
  by (induction s) (auto simp: has_prefix_iff sublist_Cons_right)

lemma has_suffix_iff: "has_suffix s p \<longleftrightarrow> suffix p s"
  by (simp add: has_suffix_def has_prefix_iff suffix_to_prefix)

lemma is_space_lower [simp]: "is_space (lower_char c) = is_space c"
  by (auto simp: is_space_def lower_char_def Let_def split: if_splits)

lemma dropWhile_stop: "xs = [] \<or> \<not> P (hd xs) \<Longrightarrow> dropWhile P xs = xs"
  by (cases xs) auto

lemma hd_dropWhile_stop: "dropWhile P xs = [] \<or> \<not> P (hd (dropWhile P xs))"
  using hd_dropWhile [of P xs] by blast

lemma trim_space_idem [simp]: "trim_space (trim_space s) = trim_space s"
proof -
  define u where "u = dropWhile is_space s"
  define v where "v = rev (dropWhile is_space (rev u))"
  have "v = [] \<or> \<not> is_space (hd v)"
  proof (cases "v = []")
    case False
    have "rev u = takeWhile is_space (rev u) @ rev v" by (simp add: v_def)
    then have "u = v @ rev (takeWhile is_space (rev u))" by (metis rev_append rev_rev_ident)
    then have "hd u = hd v" "u \<noteq> []" using False by (metis hd_append2, auto)
    then show ?thesis using hd_dropWhile_stop [of is_space s] unfolding u_def by metis
  qed simp
  then have "dropWhile is_space v = v" by (rule dropWhile_stop)
  moreover have "dropWhile is_space (rev v) = rev v" by (simp add: v_def)
  ultimately show ?thesis by (simp add: trim_space_def flip: u_def v_def)
qed

lemma trim_space_clean:
  assumes "s \<noteq> []" and "\<not> is_space (hd s)" and "\<not> is_space (last s)"
  shows "trim_space s = s"
  using assms by (simp add: trim_space_def dropWhile_stop hd_rev)

end
