(* ===== verification/Sql_Tables.thy ===== *)
theory Sql_Tables
  imports Go_Prelude
begin

text \<open>
  The part of PostgreSQL the generated queries rely on. A table is the list of its rows; a
  query names its table by a getter and an updater of the database state, as record fields give
  them. A \<open>:one\<close> query answers with the row or with the driver's no-rows error. A write is
  refused, with the state unchanged, when the table's constraints reject the new row.

  The locale \<open>keyed_table\<close> is what the stores rely on for a table with a primary key: keys stay
  distinct, a written row is the one found afterwards, other rows are left alone.
\<close>

section \<open>Queries\<close>

definition sql_get :: "('s \<Rightarrow> 'r list) \<Rightarrow> ('r \<Rightarrow> bool) \<Rightarrow> ('s, 'r) go" where
  "sql_get tab p = (\<lambda>s. case find p (tab s) of None \<Rightarrow> (Inl ErrNoRows, s) | Some r \<Rightarrow> (Inr r, s))"

definition sql_list :: "('s \<Rightarrow> 'r list) \<Rightarrow> ('r \<Rightarrow> bool) \<Rightarrow> ('s, 'r list) go" where
  "sql_list tab p = (\<lambda>s. (Inr (filter p (tab s)), s))"

text \<open>
  The constraints of a table: the CHECK constraints and column types look at the row alone, the
  unique indexes beside the primary key and the foreign keys look at the stored rows too.
\<close>

record ('s, 'r) constraints =
  row_check :: "'r \<Rightarrow> go_error option"
  ref_check :: "'s \<Rightarrow> 'r \<Rightarrow> go_error option"

definition check_row :: "('s, 'r) constraints \<Rightarrow> 's \<Rightarrow> 'r \<Rightarrow> go_error option" where
  "check_row c s r = (case row_check c r of Some e \<Rightarrow> Some e | None \<Rightarrow> ref_check c s r)"

definition replace_rows :: "('r \<Rightarrow> bool) \<Rightarrow> 'r \<Rightarrow> 'r list \<Rightarrow> 'r list" where
  "replace_rows p r' t = map (\<lambda>x. if p x then r' else x) t"

text \<open>UPDATE ... WHERE key RETURNING: \<open>p\<close> selects by primary key, so at most one row.\<close>

definition sql_update ::
  "('s \<Rightarrow> 'r list) \<Rightarrow> (('r list \<Rightarrow> 'r list) \<Rightarrow> 's \<Rightarrow> 's) \<Rightarrow> ('s, 'r) constraints \<Rightarrow>
   ('r \<Rightarrow> bool) \<Rightarrow> ('r \<Rightarrow> 'r) \<Rightarrow> ('s, 'r) go" where
  "sql_update tab upd chk p f = (\<lambda>s.
     case find p (tab s) of
       None \<Rightarrow> (Inl ErrNoRows, s)
     | Some r \<Rightarrow> (case check_row chk s (f r) of
           Some e \<Rightarrow> (Inl e, s)
         | None \<Rightarrow> (Inr (f r), upd (replace_rows p (f r)) s)))"

text \<open>INSERT ... RETURNING: the primary key must be new.\<close>

definition sql_insert ::
  "('s \<Rightarrow> 'r list) \<Rightarrow> (('r list \<Rightarrow> 'r list) \<Rightarrow> 's \<Rightarrow> 's) \<Rightarrow> ('s, 'r) constraints \<Rightarrow>
   ('r \<Rightarrow> bool) \<Rightarrow> 'r \<Rightarrow> ('s, 'r) go" where
  "sql_insert tab upd chk p r = (\<lambda>s.
     case row_check chk r of
       Some e \<Rightarrow> (Inl e, s)
     | None \<Rightarrow> (case find p (tab s) of
           Some x \<Rightarrow> (Inl (UniqueViolation ''primary key''), s)
         | None \<Rightarrow> (case ref_check chk s r of
               Some e \<Rightarrow> (Inl e, s)
             | None \<Rightarrow> (Inr r, upd (\<lambda>t. t @ [r]) s))))"

text \<open>
  INSERT ... ON CONFLICT (key) DO UPDATE: \<open>g\<close> makes the new row from the existing one. The
  CHECK constraints apply to the proposed row even when the key exists.
\<close>

definition sql_upsert ::
  "('s \<Rightarrow> 'r list) \<Rightarrow> (('r list \<Rightarrow> 'r list) \<Rightarrow> 's \<Rightarrow> 's) \<Rightarrow> ('s, 'r) constraints \<Rightarrow>
   ('r \<Rightarrow> bool) \<Rightarrow> 'r \<Rightarrow> ('r \<Rightarrow> 'r) \<Rightarrow> ('s, 'r) go" where
  "sql_upsert tab upd chk p r g = (\<lambda>s.
     case find p (tab s) of
       None \<Rightarrow> sql_insert tab upd chk p r s
     | Some x \<Rightarrow> (case row_check chk r of
           Some e \<Rightarrow> (Inl e, s)
         | None \<Rightarrow> sql_update tab upd chk p g s))"

text \<open>INSERT ... ON CONFLICT (key) DO NOTHING: whether a row was inserted.\<close>

definition sql_insert_once ::
  "('s \<Rightarrow> 'r list) \<Rightarrow> (('r list \<Rightarrow> 'r list) \<Rightarrow> 's \<Rightarrow> 's) \<Rightarrow> ('r \<Rightarrow> bool) \<Rightarrow> 'r \<Rightarrow> ('s, bool) go" where
  "sql_insert_once tab upd p r = (\<lambda>s.
     case find p (tab s) of
       Some x \<Rightarrow> (Inr False, s)
     | None \<Rightarrow> (Inr True, upd (\<lambda>t. t @ [r]) s))"

text \<open>DELETE ... WHERE: the number of rows deleted.\<close>

definition sql_delete ::
  "('s \<Rightarrow> 'r list) \<Rightarrow> (('r list \<Rightarrow> 'r list) \<Rightarrow> 's \<Rightarrow> 's) \<Rightarrow> ('r \<Rightarrow> bool) \<Rightarrow> ('s, nat) go" where
  "sql_delete tab upd p = (\<lambda>s. (Inr (length (filter p (tab s))), upd (filter (\<lambda>r. \<not> p r)) s))"

lemmas sql_defs = sql_get_def sql_list_def sql_update_def sql_insert_def sql_upsert_def
  sql_insert_once_def sql_delete_def

section \<open>Lookups\<close>

text \<open>Writes that the constraints let through.\<close>

lemma update_succeeds:
  "find p (tab s) = Some r \<Longrightarrow> check_row chk s (f r) = None \<Longrightarrow>
   sql_update tab upd chk p f s = (Inr (f r), upd (replace_rows p (f r)) s)"
  by (simp add: sql_update_def)

lemma insert_succeeds:
  "find p (tab s) = None \<Longrightarrow> check_row chk s x = None \<Longrightarrow>
   sql_insert tab upd chk p x s = (Inr x, upd (\<lambda>t. t @ [x]) s)"
  by (simp add: sql_insert_def check_row_def split: option.splits)

lemma upsert_inserts:
  "find p (tab s) = None \<Longrightarrow> check_row chk s x = None \<Longrightarrow>
   sql_upsert tab upd chk p x g s = (Inr x, upd (\<lambda>t. t @ [x]) s)"
  by (simp add: sql_upsert_def insert_succeeds)

lemma upsert_updates:
  "find p (tab s) = Some r \<Longrightarrow> row_check chk x = None \<Longrightarrow> check_row chk s (g r) = None \<Longrightarrow>
   sql_upsert tab upd chk p x g s = (Inr (g r), upd (replace_rows p (g r)) s)"
  by (simp add: sql_upsert_def update_succeeds)

lemma find_append: "find p (xs @ ys) = (case find p xs of None \<Rightarrow> find p ys | Some x \<Rightarrow> Some x)"
  by (induction xs) auto

lemma find_replace_same:
  "find p t = Some r \<Longrightarrow> p r' \<Longrightarrow> find p (replace_rows p r' t) = Some r'"
  by (induction t) (auto simp: replace_rows_def split: if_splits)

lemma find_replace_other:
  "(\<And>x. p x \<Longrightarrow> \<not> q x) \<Longrightarrow> \<not> q r' \<Longrightarrow> find q (replace_rows p r' t) = find q t"
  by (induction t) (auto simp: replace_rows_def)

lemma find_SomeD: "find p t = Some r \<Longrightarrow> r \<in> set t \<and> p r"
  by (induction t) (auto split: if_splits)

lemma find_filter_not: "(\<And>x. p x \<Longrightarrow> \<not> q x) \<Longrightarrow> find q (filter (\<lambda>r. \<not> p r) t) = find q t"
  by (induction t) auto

lemma find_filter_same: "find p (filter (\<lambda>r. \<not> p r) t) = None"
  by (induction t) auto

section \<open>Tables with a primary key\<close>

locale keyed_table =
  fixes key :: "'r \<Rightarrow> 'k"
    and tab :: "'s \<Rightarrow> 'r list"
    and upd :: "('r list \<Rightarrow> 'r list) \<Rightarrow> 's \<Rightarrow> 's"
  assumes tab_upd [simp]: "tab (upd f s) = f (tab s)"
begin

lemma insert_keeps_distinct:
  assumes "distinct (map key (tab s))" and "sql_insert tab upd chk (\<lambda>r. key r = key x) x s = (res, t)"
  shows "distinct (map key (tab t))"
proof (cases "find (\<lambda>r. key r = key x) (tab s)")
  case None
  then have "key x \<notin> set (map key (tab s))"
    by (auto simp: find_None_iff)
  with assms None show ?thesis
    by (auto simp: sql_insert_def split: option.splits)
next
  case (Some y)
  with assms show ?thesis by (auto simp: sql_insert_def split: option.splits)
qed

lemma replace_keeps_keys:
  "key r' = k \<Longrightarrow> map key (replace_rows (\<lambda>r. key r = k) r' t) = map key t"
  by (induction t) (auto simp: replace_rows_def)

lemma update_keeps_distinct:
  assumes "distinct (map key (tab s))" and "\<And>r. key (f r) = key r"
    and "sql_update tab upd chk (\<lambda>r. key r = k) f s = (res, t)"
  shows "distinct (map key (tab t))"
proof (cases "find (\<lambda>r. key r = k) (tab s)")
  case None
  with assms show ?thesis by (auto simp: sql_update_def)
next
  case (Some y)
  then have "key (f y) = k" using assms(2) by (auto dest: find_SomeD)
  with assms Some show ?thesis
    by (auto simp: sql_update_def replace_keeps_keys split: option.splits)
qed

lemma upsert_keeps_distinct:
  assumes "distinct (map key (tab s))" and "\<And>r. key (g r) = key r"
    and "sql_upsert tab upd chk (\<lambda>r. key r = key x) x g s = (res, t)"
  shows "distinct (map key (tab t))"
  using assms(3) insert_keeps_distinct [OF assms(1)] update_keeps_distinct [OF assms(1,2)] assms(1)
  by (auto simp: sql_upsert_def split: option.splits)

lemma update_lookup:
  assumes "sql_update tab upd chk (\<lambda>r. key r = k) f s = (Inr r', t)" and "\<And>r. key (f r) = key r"
  shows "find (\<lambda>r. key r = k) (tab t) = Some r'"
    and "\<And>k'. k' \<noteq> k \<Longrightarrow> find (\<lambda>r. key r = k') (tab t) = find (\<lambda>r. key r = k') (tab s)"
proof -
  obtain r where r: "find (\<lambda>r. key r = k) (tab s) = Some r" "r' = f r"
    and t: "t = upd (replace_rows (\<lambda>r. key r = k) r') s"
    using assms(1) by (auto simp: sql_update_def split: option.splits)
  then have k: "key r' = k" using assms(2) by (auto dest: find_SomeD)
  show "find (\<lambda>r. key r = k) (tab t) = Some r'"
    using r(1) k by (simp add: t find_replace_same)
  show "\<And>k'. k' \<noteq> k \<Longrightarrow> find (\<lambda>r. key r = k') (tab t) = find (\<lambda>r. key r = k') (tab s)"
    using k by (auto simp: t intro!: find_replace_other)
qed

lemma insert_lookup:
  assumes "sql_insert tab upd chk (\<lambda>r. key r = key x) x s = (Inr r', t)"
  shows "r' = x" and "find (\<lambda>r. key r = key x) (tab t) = Some x"
    and "\<And>k'. k' \<noteq> key x \<Longrightarrow> find (\<lambda>r. key r = k') (tab t) = find (\<lambda>r. key r = k') (tab s)"
  using assms by (auto simp: sql_insert_def find_append split: option.splits)

lemma insert_once_twice:
  assumes "sql_insert_once tab upd (\<lambda>r. key r = key x) x s = (Inr b, t)"
  shows "sql_insert_once tab upd (\<lambda>r. key r = key x) x t = (Inr False, t)"
  using assms by (auto simp: sql_insert_once_def find_append split: option.splits)

lemma update_cases:
  assumes "sql_update tab upd chk p f s = (res, t)"
  obtains (unchanged) e where "res = Inl e" "t = s"
  | (written) r where "find p (tab s) = Some r" "check_row chk s (f r) = None" "res = Inr (f r)"
      "t = upd (replace_rows p (f r)) s"
  using assms by (auto simp: sql_update_def split: option.splits)

lemma insert_cases:
  assumes "sql_insert tab upd chk p x s = (res, t)"
  obtains (unchanged) e where "res = Inl e" "t = s"
  | (written) "find p (tab s) = None" "check_row chk s x = None" "res = Inr x"
      "t = upd (\<lambda>t. t @ [x]) s"
  using assms by (auto simp: sql_insert_def check_row_def split: option.splits)

lemma upsert_cases:
  assumes "sql_upsert tab upd chk p x g s = (res, t)"
  obtains (unchanged) e where "res = Inl e" "t = s"
  | (inserted) "find p (tab s) = None" "check_row chk s x = None" "res = Inr x"
      "t = upd (\<lambda>t. t @ [x]) s"
  | (updated) r where "find p (tab s) = Some r" "row_check chk x = None"
      "check_row chk s (g r) = None" "res = Inr (g r)" "t = upd (replace_rows p (g r)) s"
  using assms
  by (auto simp: sql_upsert_def sql_insert_def sql_update_def check_row_def split: option.splits)

lemma set_replace_rows: "set (replace_rows p r' t) \<subseteq> insert r' (set t)"
  by (auto simp: replace_rows_def)

lemma sum_replace:
  fixes h :: "'r \<Rightarrow> int"
  assumes "distinct (map key t)" and "find (\<lambda>r. key r = k) t = Some r"
  shows "sum_list (map h (replace_rows (\<lambda>r. key r = k) r' t)) = sum_list (map h t) - h r + h r'"
  using assms
proof (induction t)
  case Nil
  then show ?case by simp
next
  case (Cons x t)
  show ?case
  proof (cases "key x = k")
    case True
    with Cons.prems(1) have "\<forall>y \<in> set t. key y \<noteq> k" by (metis distinct.simps(2) imageI list.set_map list.simps(9))
    then have "replace_rows (\<lambda>r. key r = k) r' t = t"
      by (simp add: replace_rows_def map_idI)
    with True Cons.prems show ?thesis by (simp add: replace_rows_def)
  next
    case False
    with Cons show ?thesis by (simp add: replace_rows_def)
  qed
qed

lemma find_unique:
  assumes "distinct (map key t)" and "r \<in> set t"
  shows "find (\<lambda>x. key x = key r) t = Some r"
  using assms by (induction t) (auto simp: image_iff)

end

chapter \<open>Invariants of tables\<close>

text \<open>
  Invariants of tables: the keys are distinct and every row satisfies a predicate. Each kind of
  statement keeps them when the rows it writes satisfy the predicate.
\<close>

section \<open>Updates of many rows\<close>

text \<open>UPDATE ... WHERE without RETURNING: the number of rows, none of them changed when one is refused.\<close>

definition sql_update_all ::
  "('s \<Rightarrow> 'r list) \<Rightarrow> (('r list \<Rightarrow> 'r list) \<Rightarrow> 's \<Rightarrow> 's) \<Rightarrow> ('s, 'r) constraints \<Rightarrow>
   ('r \<Rightarrow> bool) \<Rightarrow> ('r \<Rightarrow> 'r) \<Rightarrow> ('s, nat) go" where
  "sql_update_all tab upd chk p f = (\<lambda>s.
     case find (\<lambda>r. p r \<and> check_row chk s (f r) \<noteq> None) (tab s) of
       Some r \<Rightarrow> (Inl (the (check_row chk s (f r))), s)
     | None \<Rightarrow> (Inr (length (filter p (tab s))), upd (map (\<lambda>r. if p r then f r else r)) s))"

definition table_inv :: "('r \<Rightarrow> 'k) \<Rightarrow> ('r \<Rightarrow> bool) \<Rightarrow> 'r list \<Rightarrow> bool" where
  "table_inv key Q t \<longleftrightarrow> distinct (map key t) \<and> (\<forall>r \<in> set t. Q r)"

section \<open>Writes to one table\<close>

context keyed_table
begin

lemma table_inv_update:
  assumes "table_inv key Q (tab s)" and "\<And>r. key (f r) = key r"
    and "\<And>r. Q r \<Longrightarrow> r \<in> set (tab s) \<Longrightarrow> check_row chk s (f r) = None \<Longrightarrow> Q (f r)"
    and "sql_update tab upd chk (\<lambda>r. key r = k) f s = (res, t)"
  shows "table_inv key Q (tab t)"
  using assms(4)
proof (cases rule: update_cases)
  case (unchanged e)
  with assms(1) show ?thesis by simp
next
  case (written r)
  then have r: "r \<in> set (tab s)" "key r = k" by (auto dest: find_SomeD)
  have "distinct (map key (tab t))"
    using assms(1,2,4) update_keeps_distinct [of s f chk k] by (simp add: table_inv_def)
  moreover have "\<forall>x \<in> set (tab t). Q x"
    using written r assms(1,3) set_replace_rows [of "\<lambda>r. key r = k" "f r" "tab s"]
    by (auto simp: table_inv_def)
  ultimately show ?thesis by (simp add: table_inv_def)
qed

lemma table_inv_insert:
  assumes "table_inv key Q (tab s)" and "check_row chk s x = None \<Longrightarrow> Q x"
    and "sql_insert tab upd chk (\<lambda>r. key r = key x) x s = (res, t)"
  shows "table_inv key Q (tab t)"
  using assms(3)
proof (cases rule: insert_cases)
  case (unchanged e)
  with assms(1) show ?thesis by simp
next
  case written
  have "distinct (map key (tab t))"
    using assms(1,3) insert_keeps_distinct [of s chk x] by (simp add: table_inv_def)
  with written assms(1,2) show ?thesis by (simp add: table_inv_def)
qed

lemma table_inv_upsert:
  assumes "table_inv key Q (tab s)" and "check_row chk s x = None \<Longrightarrow> Q x"
    and "\<And>r. key (g r) = key r"
    and "\<And>r. Q r \<Longrightarrow> r \<in> set (tab s) \<Longrightarrow> row_check chk x = None \<Longrightarrow> check_row chk s (g r) = None \<Longrightarrow> Q (g r)"
    and "sql_upsert tab upd chk (\<lambda>r. key r = key x) x g s = (res, t)"
  shows "table_inv key Q (tab t)"
proof (cases "find (\<lambda>r. key r = key x) (tab s)")
  case None
  then have "sql_insert tab upd chk (\<lambda>r. key r = key x) x s = (res, t)"
    using assms(5) by (simp add: sql_upsert_def)
  with assms(1,2) show ?thesis by (rule table_inv_insert)
next
  case (Some r)
  show ?thesis
  proof (cases "row_check chk x")
    case None
    then have "sql_update tab upd chk (\<lambda>r. key r = key x) g s = (res, t)"
      using assms(5) Some by (simp add: sql_upsert_def)
    then show ?thesis
      using table_inv_update [OF assms(1,3)] assms(4) None by blast
  next
    case (Some e)
    with \<open>find _ _ = Some r\<close> assms(1,5) show ?thesis by (simp add: sql_upsert_def)
  qed
qed

lemma table_inv_insert_once:
  assumes "table_inv key Q (tab s)" and "Q x"
    and "sql_insert_once tab upd (\<lambda>r. key r = key x) x s = (res, t)"
  shows "table_inv key Q (tab t)"
  using assms
  by (auto simp: sql_insert_once_def table_inv_def find_None_iff split: option.splits)
    (metis (full_types))

lemma table_inv_delete:
  assumes "table_inv key Q (tab s)" and "sql_delete tab upd p s = (res, t)"
  shows "table_inv key Q (tab t)"
  using assms by (auto simp: sql_delete_def table_inv_def distinct_map_filter)

lemma update_all_cases:
  assumes "sql_update_all tab upd chk p f s = (res, t)"
  obtains (unchanged) e where "res = Inl e" "t = s"
  | (written) "res = Inr (length (filter p (tab s)))" "t = upd (map (\<lambda>r. if p r then f r else r)) s"
      "\<And>r. r \<in> set (tab s) \<Longrightarrow> p r \<Longrightarrow> check_row chk s (f r) = None"
proof (cases "find (\<lambda>r. p r \<and> check_row chk s (f r) \<noteq> None) (tab s)")
  case None
  then have "check_row chk s (f r) = None" if "r \<in> set (tab s)" "p r" for r
    using that unfolding find_None_iff by blast
  with None assms show thesis by (intro written) (simp_all add: sql_update_all_def)
next
  case (Some r)
  then have "res = Inl (the (check_row chk s (f r)))" and "t = s"
    using assms unfolding sql_update_all_def by auto
  then show thesis by (rule unchanged)
qed

lemma table_inv_update_all:
  assumes "table_inv key Q (tab s)" and "\<And>r. key (f r) = key r"
    and "\<And>r. Q r \<Longrightarrow> r \<in> set (tab s) \<Longrightarrow> p r \<Longrightarrow> check_row chk s (f r) = None \<Longrightarrow> Q (f r)"
    and "sql_update_all tab upd chk p f s = (res, t)"
  shows "table_inv key Q (tab t)"
  using assms(4)
proof (cases rule: update_all_cases)
  case (unchanged e)
  with assms(1) show ?thesis by simp
next
  case written
  have "map key (map (\<lambda>r. if p r then f r else r) l) = map key l" for l
    using assms(2) by (induction l) auto
  then have "map key (tab t) = map key (tab s)"
    using written(2) by (simp only: tab_upd)
  then have "distinct (map key (tab t))"
    using assms(1) by (simp add: table_inv_def)
  moreover have "\<forall>x \<in> set (tab t). Q x"
    using written assms(1,3) by (auto simp: table_inv_def)
  ultimately show ?thesis by (simp add: table_inv_def)
qed

end

lemma check_row_None:
  "check_row c s r = None \<longleftrightarrow> row_check c r = None \<and> ref_check c s r = None"
  by (simp add: check_row_def split: option.splits)

end
