(* ===== verification/Billing_Types.thy ===== *)
theory Billing_Types
  imports Go_Prelude
begin

text \<open>
  The data of internal/billing (types.go), its plan table (plans.go) and its sandbox flavors
  and metering arithmetic (flavor.go), with what the rest of billing relies on: flavor codes
  are normalised once, caps compare by rank, and a run is billed per started quarter of an hour.
\<close>

section \<open>types.go\<close>

definition PlanFree :: string where "PlanFree = ''free''"
definition PlanTrial :: string where "PlanTrial = ''trial''"
definition PlanStarter :: string where "PlanStarter = ''starter''"
definition PlanBuilder :: string where "PlanBuilder = PlanStarter"
definition PlanTeam :: string where "PlanTeam = ''team''"
definition PlanStudio :: string where "PlanStudio = PlanTeam"
definition PlanGrowth :: string where "PlanGrowth = ''growth''"
definition PlanBusiness :: string where "PlanBusiness = ''business''"
definition PlanStandard :: string where "PlanStandard = ''standard''"
definition PlanPro :: string where "PlanPro = ''pro''"
definition PlanMax :: string where "PlanMax = ''max''"
definition PlanEnterprise :: string where "PlanEnterprise = ''enterprise''"

definition ReservationReserved :: string where "ReservationReserved = ''reserved''"
definition ReservationCaptured :: string where "ReservationCaptured = ''captured''"
definition ReservationReleased :: string where "ReservationReleased = ''released''"
definition ReservationComped :: string where "ReservationComped = ''comped''"

lemmas plan_codes = PlanFree_def PlanTrial_def PlanStarter_def PlanBuilder_def PlanTeam_def
  PlanStudio_def PlanGrowth_def PlanBusiness_def
lemmas reservation_codes = ReservationReserved_def ReservationCaptured_def
  ReservationReleased_def ReservationComped_def

definition TopupUnitCredits :: int where "TopupUnitCredits = 100"

record account =
  OrgID :: string
  StripeCustomerID :: string
  StripeSubscriptionID :: string
  PlanCode :: string
  Status :: string
  CurrentPeriodStart :: go_time
  CurrentPeriodEnd :: go_time
  IncludedCredits :: int
  IncludedCreditsUsed :: int
  TopupCredits :: int
  MaxFlavor :: string
  PerRunMaxCredits :: int
  BillingExempt :: bool
  LastPaymentError :: string
  PendingPlanCode :: string
  PendingPlanEffectiveAt :: go_time
  CreatedAt :: go_time
  UpdatedAt :: go_time

definition IncludedRemaining :: "account \<Rightarrow> int" where
  "IncludedRemaining a = max (IncludedCredits a - IncludedCreditsUsed a) 0"

definition Balance :: "account \<Rightarrow> int" where
  "Balance a = IncludedRemaining a + TopupCredits a"

record topup_settings =
  ts_OrgID :: string
  AutoTopupEnabled :: bool
  TriggerThreshold :: int
  TargetBalance :: int
  MonthlyMaxUnits :: int
  MonthlyUnitsUsed :: int
  MonthlyMaxCents :: int
  MonthlySpendCentsUsed :: int
  MonthlyAnchorMonth :: string
  ts_CreatedAt :: go_time
  ts_UpdatedAt :: go_time

record reservation =
  res_RunID :: string
  res_OrgID :: string
  ReservedCredits :: int
  FromIncludedCredits :: int
  FromTopupCredits :: int
  res_CapturedCredits :: int
  ReleasedCredits :: int
  res_Status :: string
  res_CreatedAt :: go_time
  res_UpdatedAt :: go_time

record run_meter =
  rm_RunID :: string
  rm_OrgID :: string
  rm_Flavor :: string
  rm_Multiplier :: int
  SandboxVCPU :: int
  SandboxMemoryGiB :: int
  SandboxDiskGiB :: int
  StartedAt :: go_time
  EndedAt :: go_time
  BillableMinutes :: int
  rm_CapturedCredits :: int
  TerminalState :: string
  rm_CreatedAt :: go_time
  rm_UpdatedAt :: go_time

record repo_setting =
  rs_OrgID :: string
  rs_GitHubOwner :: string
  rs_GitHubRepo :: string
  rs_Flavor :: string
  rs_CreatedAt :: go_time
  rs_UpdatedAt :: go_time

record account_mirror =
  am_OrgID :: string
  am_StripeCustomerID :: string
  am_StripeSubscriptionID :: string
  am_PlanCode :: string
  am_Status :: string
  am_CurrentPeriodStart :: go_time
  am_CurrentPeriodEnd :: go_time
  am_IncludedCredits :: int
  am_MaxFlavor :: string
  am_PerRunMaxCredits :: int
  am_BillingExempt :: bool
  am_LastPaymentError :: string

record admission_request =
  req_OrgID :: string
  req_RunID :: string
  req_GitHubOwner :: string
  req_GitHubRepo :: string
  req_StartedAt :: go_time

text \<open>The zero value of the struct Account, returned beside an error.\<close>

definition zero_account :: account where
  "zero_account = \<lparr>OrgID = [], StripeCustomerID = [], StripeSubscriptionID = [], PlanCode = [],
     Status = [], CurrentPeriodStart = zero_time, CurrentPeriodEnd = zero_time,
     IncludedCredits = 0, IncludedCreditsUsed = 0, TopupCredits = 0, MaxFlavor = [],
     PerRunMaxCredits = 0, BillingExempt = False, LastPaymentError = [], PendingPlanCode = [],
     PendingPlanEffectiveAt = zero_time, CreatedAt = zero_time, UpdatedAt = zero_time\<rparr>"

section \<open>flavor.go\<close>

definition FlavorStandard :: string where "FlavorStandard = ''standard''"
definition FlavorPlus :: string where "FlavorPlus = ''plus''"
definition FlavorPro :: string where "FlavorPro = ''pro''"
definition FlavorMax :: string where "FlavorMax = ''max''"
definition FlavorEnterprise :: string where "FlavorEnterprise = ''enterprise''"

lemmas flavor_codes = FlavorStandard_def FlavorPlus_def FlavorPro_def FlavorMax_def
  FlavorEnterprise_def

definition ErrUnknownFlavor :: go_error where
  "ErrUnknownFlavor = ErrNew ''billing: unknown flavor''"

record flavor =
  fl_Code :: string
  fl_Label :: string
  fl_Rank :: int
  fl_VCPU :: int
  fl_MemoryGiB :: int
  fl_DiskGiB :: int
  fl_Multiplier :: int

definition standardFlavor :: flavor where
  "standardFlavor = \<lparr>fl_Code = FlavorStandard, fl_Label = ''Standard'', fl_Rank = 1,
     fl_VCPU = 2, fl_MemoryGiB = 6, fl_DiskGiB = 10, fl_Multiplier = 1\<rparr>"

definition plusFlavor :: flavor where
  "plusFlavor = \<lparr>fl_Code = FlavorPlus, fl_Label = ''Plus'', fl_Rank = 2,
     fl_VCPU = 4, fl_MemoryGiB = 8, fl_DiskGiB = 10, fl_Multiplier = 2\<rparr>"

definition flavors :: "string \<rightharpoonup> flavor" where
  "flavors = map_of
     [(FlavorStandard, standardFlavor), (FlavorPlus, plusFlavor), (FlavorPro, plusFlavor),
      (FlavorMax, plusFlavor), (FlavorEnterprise, plusFlavor)]"

definition launchFlavorOrder :: "flavor list" where
  "launchFlavorOrder = [standardFlavor, plusFlavor]"

definition ParseFlavor :: "string \<Rightarrow> go_error + flavor" where
  "ParseFlavor code0 =
     (let code1 = to_lower (trim_space code0);
          code = (if code1 = [] then FlavorStandard else code1)
      in case flavors code of None \<Rightarrow> Inl ErrUnknownFlavor | Some f \<Rightarrow> Inr f)"

definition MustFlavor :: "string \<Rightarrow> flavor" where
  "MustFlavor code = (case ParseFlavor code of
     Inl e \<Rightarrow> (case flavors FlavorStandard of Some f \<Rightarrow> f | None \<Rightarrow> standardFlavor)
   | Inr f \<Rightarrow> f)"

definition AllowedFlavors :: "string \<Rightarrow> flavor list" where
  "AllowedFlavors maxCode =
     (let maxFlavor = MustFlavor maxCode
      in filter (\<lambda>f. fl_Rank f \<le> fl_Rank maxFlavor) launchFlavorOrder)"

definition FlavorAllowed :: "string \<Rightarrow> string \<Rightarrow> bool" where
  "FlavorAllowed code maxCode = (case ParseFlavor code of
     Inl e \<Rightarrow> False
   | Inr f \<Rightarrow> fl_Rank f \<le> fl_Rank (MustFlavor maxCode))"

text \<open>
  \<open>math.Ceil(d.Minutes())\<close> on whole nanoseconds. The float64 quotient of the source rounds to
  the same integer for durations below 2^18 minutes.
\<close>

definition ceil_minutes :: "duration \<Rightarrow> int" where
  "ceil_minutes d = - ((- d) div minute)"

definition BillableCredits :: "go_time \<Rightarrow> go_time \<Rightarrow> int \<Rightarrow> int \<times> int" where
  "BillableCredits start stop multiplier0 =
     (let multiplier = (if multiplier0 < 1 then 1 else multiplier0)
      in if \<not> start < stop then (0, 0)
         else
           let minutes = max (ceil_minutes (time_sub stop start)) 1;
               blocks = (minutes + 14) div 15
           in (minutes, blocks * multiplier))"

section \<open>plans.go\<close>

record paid_plan =
  pp_Code :: string
  pp_Label :: string
  pp_MonthlyUSDCents :: int
  pp_TopupUnitUSDCents :: int
  pp_IncludedCredits :: int
  pp_MaxFlavor :: string
  pp_PerRunMaxCredits :: int

definition FreeIncludedCredits :: int where "FreeIncludedCredits = 25"
definition FreePerRunMaxCredits :: int where "FreePerRunMaxCredits = 4"

definition paidPlans :: "paid_plan list" where
  "paidPlans =
    [\<lparr>pp_Code = PlanBuilder, pp_Label = ''Builder'', pp_MonthlyUSDCents = 1900,
      pp_TopupUnitUSDCents = 2500, pp_IncludedCredits = 100, pp_MaxFlavor = FlavorStandard,
      pp_PerRunMaxCredits = 4\<rparr>,
     \<lparr>pp_Code = PlanStudio, pp_Label = ''Studio'', pp_MonthlyUSDCents = 7900,
      pp_TopupUnitUSDCents = 2200, pp_IncludedCredits = 500, pp_MaxFlavor = FlavorPlus,
      pp_PerRunMaxCredits = 12\<rparr>,
     \<lparr>pp_Code = PlanGrowth, pp_Label = ''Growth'', pp_MonthlyUSDCents = 19900,
      pp_TopupUnitUSDCents = 2000, pp_IncludedCredits = 1400, pp_MaxFlavor = FlavorPlus,
      pp_PerRunMaxCredits = 24\<rparr>,
     \<lparr>pp_Code = PlanBusiness, pp_Label = ''Business'', pp_MonthlyUSDCents = 49900,
      pp_TopupUnitUSDCents = 1600, pp_IncludedCredits = 3600, pp_MaxFlavor = FlavorPlus,
      pp_PerRunMaxCredits = 48\<rparr>]"

definition PaidPlans :: "paid_plan list" where
  "PaidPlans = paidPlans"

definition DefaultPaidPlan :: paid_plan where
  "DefaultPaidPlan = paidPlans ! 1"

definition PaidPlanByCode :: "string \<Rightarrow> paid_plan option" where
  "PaidPlanByCode code = find (\<lambda>p. pp_Code p = code) paidPlans"

definition topupUnitCentsForPlan :: "string \<Rightarrow> int" where
  "topupUnitCentsForPlan planCode =
     (let plan = (case PaidPlanByCode planCode of Some p \<Rightarrow> p | None \<Rightarrow> DefaultPaidPlan)
      in max (pp_TopupUnitUSDCents plan) 0)"

section \<open>Flavors\<close>

lemma flavors_range: "flavors c = Some f \<Longrightarrow> f = standardFlavor \<or> f = plusFlavor"
  by (auto simp: flavors_def split: if_splits)

lemma ParseFlavor_range: "ParseFlavor c = Inr f \<Longrightarrow> f = standardFlavor \<or> f = plusFlavor"
  by (auto simp: ParseFlavor_def Let_def dest: flavors_range split: option.splits if_splits)

lemma trim_lower_codes:
  "to_lower (trim_space FlavorStandard) = FlavorStandard"
  "to_lower (trim_space FlavorPlus) = FlavorPlus"
  by code_simp+

lemma ParseFlavor_codes [simp]:
  "ParseFlavor FlavorStandard = Inr standardFlavor" "ParseFlavor FlavorPlus = Inr plusFlavor"
  by (simp_all add: ParseFlavor_def Let_def trim_lower_codes flavors_def)
    (simp_all add: flavor_codes)

lemma fl_Code_simps [simp]:
  "fl_Code standardFlavor = FlavorStandard" "fl_Code plusFlavor = FlavorPlus"
  "fl_Rank standardFlavor = 1" "fl_Rank plusFlavor = 2"
  "fl_Multiplier standardFlavor = 1" "fl_Multiplier plusFlavor = 2"
  by (simp_all add: standardFlavor_def plusFlavor_def)

text \<open>A stored flavor code parses back to the flavor it came from.\<close>

lemma ParseFlavor_Code: "ParseFlavor c = Inr f \<Longrightarrow> ParseFlavor (fl_Code f) = Inr f"
  by (auto dest!: ParseFlavor_range)

lemma MustFlavor_range: "MustFlavor c = standardFlavor \<or> MustFlavor c = plusFlavor"
  by (auto simp: MustFlavor_def flavors_def dest: ParseFlavor_range split: sum.splits option.splits)

lemma MustFlavor_unknown: "ParseFlavor c = Inl e \<Longrightarrow> MustFlavor c = standardFlavor"
  by (simp add: MustFlavor_def flavors_def)

lemma flavor_bounds:
  assumes "ParseFlavor c = Inr f"
  shows "1 \<le> fl_Multiplier f \<and> fl_Multiplier f \<le> 2 \<and> 1 \<le> fl_VCPU f \<and> 1 \<le> fl_MemoryGiB f \<and>
    1 \<le> fl_DiskGiB f"
  using ParseFlavor_range [OF assms] by (auto simp: standardFlavor_def plusFlavor_def)

lemma FlavorAllowed_iff:
  "FlavorAllowed c m \<longleftrightarrow> (\<exists>f \<in> set (AllowedFlavors m). ParseFlavor c = Inr f)"
proof (cases "ParseFlavor c")
  case (Inl e)
  then show ?thesis by (simp add: FlavorAllowed_def)
next
  case (Inr f)
  then have "f = standardFlavor \<or> f = plusFlavor" by (rule ParseFlavor_range)
  with Inr show ?thesis
    by (auto simp: FlavorAllowed_def AllowedFlavors_def launchFlavorOrder_def Let_def)
qed

lemma standard_always_allowed: "FlavorAllowed FlavorStandard m"
  using MustFlavor_range [of m] by (auto simp: FlavorAllowed_def)

section \<open>Metering\<close>

lemma ceil_minutes_bounds:
  shows "(ceil_minutes d - 1) * minute < d" and "d \<le> ceil_minutes d * minute"
proof -
  note div = div_mult_mod_eq [of "- d" minute]
  have "0 < minute" by (simp add: minute_def)
  note mod = pos_mod_bound [OF this, of "- d"] pos_mod_sign [OF this, of "- d"]
  show "(ceil_minutes d - 1) * minute < d"
    using div mod unfolding ceil_minutes_def left_diff_distrib mult_minus_left mult_1 by linarith
  show "d \<le> ceil_minutes d * minute"
    using div mod unfolding ceil_minutes_def mult_minus_left by linarith
qed

lemma ceil_minutes_mono: "d \<le> d' \<Longrightarrow> ceil_minutes d \<le> ceil_minutes d'"
  by (simp add: ceil_minutes_def minute_def zdiv_mono1)

lemma ceil_minutes_pos: "0 < d \<Longrightarrow> 1 \<le> ceil_minutes d"
  using ceil_minutes_bounds(2) [of d] unfolding minute_def by linarith

lemma time_sub_pos: "start < stop \<Longrightarrow> 0 < time_sub stop start"
  by (simp add: time_sub_def)

lemma BillableCredits_started:
  assumes "start < stop"
  shows "BillableCredits start stop m =
    (ceil_minutes (time_sub stop start),
     (ceil_minutes (time_sub stop start) + 14) div 15 * max m 1)"
  using ceil_minutes_pos [OF time_sub_pos [OF assms]] assms
  by (simp add: BillableCredits_def Let_def max_def)

lemma BillableCredits_nonneg:
  "0 \<le> fst (BillableCredits s e m)" "0 \<le> snd (BillableCredits s e m)"
  by (auto simp: BillableCredits_def Let_def intro!: mult_nonneg_nonneg)

text \<open>Of a block of fifteen minutes, whatever part is used is charged, and no block is charged unused.\<close>

lemma BillableCredits_blocks:
  assumes "start < stop" and "BillableCredits start stop m = (minutes, credits)"
  shows "\<exists>blocks. credits = blocks * max m 1 \<and> 15 * (blocks - 1) < minutes \<and> minutes \<le> 15 * blocks"
proof -
  define b where "b = (minutes + 14) div 15"
  have "credits = b * max m 1"
    using assms by (auto simp: BillableCredits_started b_def)
  moreover have "15 * (b - 1) < minutes" unfolding b_def by presburger
  moreover have "minutes \<le> 15 * b" unfolding b_def by presburger
  ultimately show ?thesis by blast
qed

lemma BillableCredits_mono:
  assumes "stop \<le> stop'"
  shows "snd (BillableCredits start stop m) \<le> snd (BillableCredits start stop' m)"
proof (cases "start < stop")
  case True
  then have "start < stop'" using assms by simp
  have "time_sub stop start \<le> time_sub stop' start"
    using assms by (auto simp: time_sub_def)
  then have "(ceil_minutes (time_sub stop start) + 14) div 15 \<le> (ceil_minutes (time_sub stop' start) + 14) div 15"
    by (intro zdiv_mono1 add_right_mono ceil_minutes_mono) simp_all
  then show ?thesis
    using True \<open>start < stop'\<close> by (simp add: BillableCredits_started mult_right_mono)
next
  case False
  then show ?thesis
    using BillableCredits_nonneg(2) [of start stop' m] by (simp add: BillableCredits_def)
qed

section \<open>Plans\<close>

lemma topupUnitCents_pos: "1600 \<le> topupUnitCentsForPlan c \<and> topupUnitCentsForPlan c \<le> 2500"
  by (auto simp: topupUnitCentsForPlan_def PaidPlanByCode_def DefaultPaidPlan_def paidPlans_def
      Let_def)

lemma PaidPlanByCode_complete: "p \<in> set paidPlans \<Longrightarrow> PaidPlanByCode (pp_Code p) = Some p"
proof -
  have "\<forall>p \<in> set paidPlans. PaidPlanByCode (pp_Code p) = Some p" by code_simp
  then show "p \<in> set paidPlans \<Longrightarrow> PaidPlanByCode (pp_Code p) = Some p" by blast
qed

lemma PaidPlanByCode_sound: "PaidPlanByCode c = Some p \<Longrightarrow> p \<in> set paidPlans \<and> pp_Code p = c"
  unfolding PaidPlanByCode_def by (auto simp: find_Some_iff)

end
