(* ===== verification/Billing_Queries.thy ===== *)
theory Billing_Queries
  imports Sql_Tables Billing_Types
begin

text \<open>
  The billing tables (db/migrations, as the last migration leaves them) and the queries of
  internal/db/sqlc/billing.sql.go, one definition per query. \<open>now\<close> is the value of NOW() in the
  statement. The rows keep the columns the package reads and writes.
\<close>

section \<open>Rows and state\<close>

record account_row =
  ba_org_id :: string
  ba_stripe_customer_id :: string
  ba_stripe_subscription_id :: string
  ba_plan_code :: string
  ba_status :: string
  ba_current_period_start :: timestamptz
  ba_current_period_end :: timestamptz
  ba_included_credits :: int
  ba_included_credits_used :: int
  ba_topup_credits :: int
  ba_max_flavor :: string
  ba_per_run_max_credits :: int
  ba_billing_exempt :: bool
  ba_last_payment_error :: string
  ba_created_at :: timestamptz
  ba_updated_at :: timestamptz
  ba_pending_plan_code :: string
  ba_pending_plan_effective_at :: timestamptz

record topup_row =
  bt_org_id :: string
  bt_auto_topup_enabled :: bool
  bt_trigger_threshold :: int
  bt_target_balance :: int
  bt_monthly_max_units :: int
  bt_monthly_units_used :: int
  bt_monthly_anchor_month :: string
  bt_created_at :: timestamptz
  bt_updated_at :: timestamptz
  bt_monthly_max_cents :: int
  bt_monthly_spend_cents_used :: int

record reservation_row =
  br_run_id :: string
  br_org_id :: string
  br_reserved_credits :: int
  br_from_included_credits :: int
  br_from_topup_credits :: int
  br_captured_credits :: int
  br_released_credits :: int
  br_status :: string
  br_created_at :: timestamptz
  br_updated_at :: timestamptz

record meter_row =
  bm_run_id :: string
  bm_org_id :: string
  bm_flavor :: string
  bm_multiplier :: int
  bm_sandbox_vcpu :: int
  bm_sandbox_memory_gib :: int
  bm_sandbox_disk_gib :: int
  bm_started_at :: timestamptz
  bm_ended_at :: timestamptz
  bm_billable_minutes :: int
  bm_captured_credits :: int
  bm_terminal_state :: string
  bm_created_at :: timestamptz
  bm_updated_at :: timestamptz

record repo_setting_row =
  rb_org_id :: string
  rb_github_owner :: string
  rb_github_repo :: string
  rb_flavor :: string
  rb_created_at :: timestamptz
  rb_updated_at :: timestamptz

record stripe_event_row =
  se_event_id :: string
  se_event_type :: string
  se_org_id :: string

text \<open>\<open>agent_run_ids\<close> holds the keys of the table agent_runs, which two foreign keys refer to.\<close>

record billing_db =
  billing_accounts :: "account_row list"
  billing_topup_settings :: "topup_row list"
  billing_credit_reservations :: "reservation_row list"
  billing_run_meters :: "meter_row list"
  repo_billing_settings :: "repo_setting_row list"
  billing_stripe_events :: "stripe_event_row list"
  agent_run_ids :: "string list"

section \<open>Constraints\<close>

definition flavor_column_values :: "string list" where
  "flavor_column_values = [''standard'', ''plus'', ''pro'', ''max'', ''enterprise'']"

definition account_row_ok :: "account_row \<Rightarrow> bool" where
  "account_row_ok r \<longleftrightarrow>
     0 \<le> ba_included_credits r \<and> 0 \<le> ba_included_credits_used r \<and> 0 \<le> ba_topup_credits r \<and>
     1 \<le> ba_per_run_max_credits r \<and> ba_max_flavor r \<in> set flavor_column_values"

definition account_row_int4 :: "account_row \<Rightarrow> bool" where
  "account_row_int4 r \<longleftrightarrow> int4 (ba_included_credits r) \<and> int4 (ba_included_credits_used r) \<and>
     int4 (ba_topup_credits r) \<and> int4 (ba_per_run_max_credits r)"

definition account_constraints :: "(billing_db, account_row) constraints" where
  "account_constraints =
    \<lparr>row_check = (\<lambda>r. if \<not> account_row_int4 r then Some IntegerOutOfRange
                      else if \<not> account_row_ok r then Some (CheckViolation ''billing_accounts'')
                      else None),
     ref_check = (\<lambda>s r.
        if \<exists>x \<in> set (billing_accounts s). ba_org_id x \<noteq> ba_org_id r \<and>
             ba_stripe_customer_id r \<noteq> [] \<and> ba_stripe_customer_id x = ba_stripe_customer_id r
        then Some (UniqueViolation ''billing_accounts_stripe_customer_idx'')
        else if \<exists>x \<in> set (billing_accounts s). ba_org_id x \<noteq> ba_org_id r \<and>
             ba_stripe_subscription_id r \<noteq> [] \<and>
             ba_stripe_subscription_id x = ba_stripe_subscription_id r
        then Some (UniqueViolation ''billing_accounts_stripe_subscription_idx'')
        else None)\<rparr>"

definition topup_row_ok :: "topup_row \<Rightarrow> bool" where
  "topup_row_ok r \<longleftrightarrow>
     0 \<le> bt_trigger_threshold r \<and> 0 \<le> bt_target_balance r \<and> 0 \<le> bt_monthly_max_units r \<and>
     0 \<le> bt_monthly_units_used r \<and> 0 \<le> bt_monthly_max_cents r \<and>
     0 \<le> bt_monthly_spend_cents_used r"

definition topup_row_int4 :: "topup_row \<Rightarrow> bool" where
  "topup_row_int4 r \<longleftrightarrow> int4 (bt_trigger_threshold r) \<and> int4 (bt_target_balance r) \<and>
     int4 (bt_monthly_max_units r) \<and> int4 (bt_monthly_units_used r) \<and>
     int4 (bt_monthly_max_cents r) \<and> int4 (bt_monthly_spend_cents_used r)"

definition topup_constraints :: "(billing_db, topup_row) constraints" where
  "topup_constraints =
    \<lparr>row_check = (\<lambda>r. if \<not> topup_row_int4 r then Some IntegerOutOfRange
                      else if \<not> topup_row_ok r then Some (CheckViolation ''billing_topup_settings'')
                      else None),
     ref_check = (\<lambda>s r. if bt_org_id r \<in> ba_org_id ` set (billing_accounts s) then None
                        else Some (ForeignKeyViolation ''billing_topup_settings''))\<rparr>"

definition reservation_row_ok :: "reservation_row \<Rightarrow> bool" where
  "reservation_row_ok r \<longleftrightarrow>
     0 \<le> br_reserved_credits r \<and> 0 \<le> br_from_included_credits r \<and> 0 \<le> br_from_topup_credits r \<and>
     0 \<le> br_captured_credits r \<and> 0 \<le> br_released_credits r \<and>
     br_status r \<in> {ReservationReserved, ReservationCaptured, ReservationReleased, ReservationComped}"

definition reservation_row_int4 :: "reservation_row \<Rightarrow> bool" where
  "reservation_row_int4 r \<longleftrightarrow> int4 (br_reserved_credits r) \<and> int4 (br_from_included_credits r) \<and>
     int4 (br_from_topup_credits r) \<and> int4 (br_captured_credits r) \<and> int4 (br_released_credits r)"

definition reservation_constraints :: "(billing_db, reservation_row) constraints" where
  "reservation_constraints =
    \<lparr>row_check = (\<lambda>r. if \<not> reservation_row_int4 r then Some IntegerOutOfRange
                      else if \<not> reservation_row_ok r
                      then Some (CheckViolation ''billing_credit_reservations'') else None),
     ref_check = (\<lambda>s r. if br_run_id r \<in> set (agent_run_ids s) then None
                        else Some (ForeignKeyViolation ''billing_credit_reservations''))\<rparr>"

definition meter_row_ok :: "meter_row \<Rightarrow> bool" where
  "meter_row_ok r \<longleftrightarrow>
     1 \<le> bm_multiplier r \<and> 1 \<le> bm_sandbox_vcpu r \<and> 1 \<le> bm_sandbox_memory_gib r \<and>
     1 \<le> bm_sandbox_disk_gib r \<and> 0 \<le> bm_billable_minutes r \<and> 0 \<le> bm_captured_credits r \<and>
     bm_started_at r \<noteq> None"

definition meter_row_int4 :: "meter_row \<Rightarrow> bool" where
  "meter_row_int4 r \<longleftrightarrow> int4 (bm_multiplier r) \<and> int4 (bm_sandbox_vcpu r) \<and>
     int4 (bm_sandbox_memory_gib r) \<and> int4 (bm_sandbox_disk_gib r) \<and>
     int4 (bm_billable_minutes r) \<and> int4 (bm_captured_credits r)"

definition meter_constraints :: "(billing_db, meter_row) constraints" where
  "meter_constraints =
    \<lparr>row_check = (\<lambda>r. if \<not> meter_row_int4 r then Some IntegerOutOfRange
                      else if \<not> meter_row_ok r then Some (CheckViolation ''billing_run_meters'')
                      else None),
     ref_check = (\<lambda>s r. if bm_run_id r \<in> set (agent_run_ids s) then None
                        else Some (ForeignKeyViolation ''billing_run_meters''))\<rparr>"

definition repo_setting_constraints :: "(billing_db, repo_setting_row) constraints" where
  "repo_setting_constraints =
    \<lparr>row_check = (\<lambda>r. if rb_flavor r \<in> set flavor_column_values then None
                      else Some (CheckViolation ''repo_billing_settings'')),
     ref_check = (\<lambda>s r. None)\<rparr>"

section \<open>Accounts\<close>

definition default_account_row :: "go_time \<Rightarrow> string \<Rightarrow> account_row" where
  "default_account_row now org = \<lparr>ba_org_id = org, ba_stripe_customer_id = [],
     ba_stripe_subscription_id = [], ba_plan_code = ''free'', ba_status = ''free'',
     ba_current_period_start = None, ba_current_period_end = None, ba_included_credits = 25,
     ba_included_credits_used = 0, ba_topup_credits = 0, ba_max_flavor = ''standard'',
     ba_per_run_max_credits = 4, ba_billing_exempt = False, ba_last_payment_error = [],
     ba_created_at = Some now, ba_updated_at = Some now, ba_pending_plan_code = [],
     ba_pending_plan_effective_at = None\<rparr>"

definition update_account ::
  "string \<Rightarrow> (account_row \<Rightarrow> account_row) \<Rightarrow> (billing_db, account_row) go" where
  "update_account org f =
     sql_update billing_accounts billing_accounts_update account_constraints
       (\<lambda>r. ba_org_id r = org) f"

definition upsert_account ::
  "account_row \<Rightarrow> (account_row \<Rightarrow> account_row) \<Rightarrow> (billing_db, account_row) go" where
  "upsert_account row g =
     sql_upsert billing_accounts billing_accounts_update account_constraints
       (\<lambda>r. ba_org_id r = ba_org_id row) row g"

definition EnsureBillingAccount :: "go_time \<Rightarrow> string \<Rightarrow> (billing_db, account_row) go" where
  "EnsureBillingAccount now org = upsert_account (default_account_row now org) (\<lambda>r. r)"

definition GetBillingAccount :: "string \<Rightarrow> (billing_db, account_row) go" where
  "GetBillingAccount org = sql_get billing_accounts (\<lambda>r. ba_org_id r = org)"

definition GetBillingAccountByStripeCustomer :: "string \<Rightarrow> (billing_db, account_row) go" where
  "GetBillingAccountByStripeCustomer c = sql_get billing_accounts (\<lambda>r. ba_stripe_customer_id r = c)"

text \<open>FOR UPDATE takes the row lock; the steps of a transaction are not interleaved here.\<close>

definition LockBillingAccountForUpdate :: "string \<Rightarrow> (billing_db, account_row) go" where
  "LockBillingAccountForUpdate org = sql_get billing_accounts (\<lambda>r. ba_org_id r = org)"

definition mirror_conflict :: "go_time \<Rightarrow> account_row \<Rightarrow> account_row \<Rightarrow> account_row" where
  "mirror_conflict now excl r = r\<lparr>
     ba_stripe_customer_id := ba_stripe_customer_id excl,
     ba_stripe_subscription_id := ba_stripe_subscription_id excl,
     ba_plan_code := ba_plan_code excl,
     ba_status := ba_status excl,
     ba_current_period_start := ba_current_period_start excl,
     ba_current_period_end := ba_current_period_end excl,
     ba_included_credits := ba_included_credits excl,
     ba_included_credits_used :=
       (if ba_current_period_start r \<noteq> ba_current_period_start excl \<or>
           ba_current_period_end r \<noteq> ba_current_period_end excl
        then 0 else min (ba_included_credits_used r) (ba_included_credits excl)),
     ba_max_flavor := ba_max_flavor excl,
     ba_per_run_max_credits := ba_per_run_max_credits excl,
     ba_billing_exempt := (ba_billing_exempt r \<or> ba_billing_exempt excl),
     ba_last_payment_error := ba_last_payment_error excl,
     ba_pending_plan_code :=
       (if ba_pending_plan_code r = ba_plan_code excl then [] else ba_pending_plan_code r),
     ba_pending_plan_effective_at :=
       (if ba_pending_plan_code r = ba_plan_code excl then None
        else ba_pending_plan_effective_at r),
     ba_updated_at := Some now\<rparr>"

definition UpsertBillingAccountMirror :: "go_time \<Rightarrow> account_row \<Rightarrow> (billing_db, account_row) go" where
  "UpsertBillingAccountMirror now excl = upsert_account excl (mirror_conflict now excl)"

definition SetBillingExempt_q :: "go_time \<Rightarrow> string \<Rightarrow> bool \<Rightarrow> (billing_db, account_row) go" where
  "SetBillingExempt_q now org exempt =
     upsert_account ((default_account_row now org)\<lparr>ba_billing_exempt := exempt\<rparr>)
       (\<lambda>r. r\<lparr>ba_billing_exempt := exempt, ba_updated_at := Some now\<rparr>)"

definition ListBillingAccountOrgIDs :: "(billing_db, string list) go" where
  "ListBillingAccountOrgIDs = (\<lambda>s. (Inr (sort (map ba_org_id (billing_accounts s))), s))"

definition ListBillingExemptOrgIDs_q :: "(billing_db, string list) go" where
  "ListBillingExemptOrgIDs_q =
     (\<lambda>s. (Inr (sort (map ba_org_id (filter ba_billing_exempt (billing_accounts s)))), s))"

definition UpdateBillingStripeCustomer :: "go_time \<Rightarrow> string \<Rightarrow> string \<Rightarrow> (billing_db, account_row) go" where
  "UpdateBillingStripeCustomer now org c =
     update_account org (\<lambda>r. r\<lparr>ba_stripe_customer_id := c, ba_updated_at := Some now\<rparr>)"

definition GrantBillingTopupCredits :: "go_time \<Rightarrow> string \<Rightarrow> int \<Rightarrow> (billing_db, account_row) go" where
  "GrantBillingTopupCredits now org credits =
     update_account org (\<lambda>r. r\<lparr>ba_topup_credits := ba_topup_credits r + credits,
       ba_last_payment_error := [], ba_updated_at := Some now\<rparr>)"

definition SetBillingPendingPlanChange ::
  "go_time \<Rightarrow> string \<Rightarrow> string \<Rightarrow> timestamptz \<Rightarrow> (billing_db, account_row) go" where
  "SetBillingPendingPlanChange now org code eff =
     update_account org (\<lambda>r. r\<lparr>ba_pending_plan_code := code, ba_pending_plan_effective_at := eff,
       ba_updated_at := Some now\<rparr>)"

definition ClearBillingPendingPlanChange :: "go_time \<Rightarrow> string \<Rightarrow> (billing_db, account_row) go" where
  "ClearBillingPendingPlanChange now org =
     update_account org (\<lambda>r. r\<lparr>ba_pending_plan_code := [], ba_pending_plan_effective_at := None,
       ba_updated_at := Some now\<rparr>)"

text \<open>An :exec query: no row is no error.\<close>

definition SetBillingLastPaymentError :: "go_time \<Rightarrow> string \<Rightarrow> string \<Rightarrow> (billing_db, unit) go" where
  "SetBillingLastPaymentError now org msg =
     attempt (update_account org (\<lambda>r. r\<lparr>ba_last_payment_error := msg, ba_updated_at := Some now\<rparr>))
       (\<lambda>r. case r of Inl e \<Rightarrow> if e = ErrNoRows then ret () else fail e | Inr x \<Rightarrow> ret ())"

definition UpdateBillingReservedBalances ::
  "go_time \<Rightarrow> string \<Rightarrow> int \<Rightarrow> int \<Rightarrow> (billing_db, account_row) go" where
  "UpdateBillingReservedBalances now org included topup =
     update_account org (\<lambda>r. r\<lparr>ba_included_credits_used := ba_included_credits_used r + included,
       ba_topup_credits := ba_topup_credits r - topup, ba_updated_at := Some now\<rparr>)"

definition UpdateBillingCapturedBalances ::
  "go_time \<Rightarrow> string \<Rightarrow> int \<Rightarrow> int \<Rightarrow> (billing_db, account_row) go" where
  "UpdateBillingCapturedBalances now org included topup =
     update_account org (\<lambda>r. r\<lparr>
       ba_included_credits_used :=
         min (max (ba_included_credits_used r + included) 0) (ba_included_credits r),
       ba_topup_credits := max (ba_topup_credits r + topup) 0, ba_updated_at := Some now\<rparr>)"

section \<open>Top-up settings\<close>

text \<open>\<open>month\<close> is the value of to_char(NOW(), 'YYYY-MM'), the default of the anchor column.\<close>

definition default_topup_row :: "go_time \<Rightarrow> string \<Rightarrow> string \<Rightarrow> topup_row" where
  "default_topup_row now month org = \<lparr>bt_org_id = org, bt_auto_topup_enabled = False,
     bt_trigger_threshold = 2, bt_target_balance = 10, bt_monthly_max_units = 0,
     bt_monthly_units_used = 0, bt_monthly_anchor_month = month, bt_created_at = Some now,
     bt_updated_at = Some now, bt_monthly_max_cents = 0, bt_monthly_spend_cents_used = 0\<rparr>"

definition update_topup :: "string \<Rightarrow> (topup_row \<Rightarrow> topup_row) \<Rightarrow> (billing_db, topup_row) go" where
  "update_topup org f =
     sql_update billing_topup_settings billing_topup_settings_update topup_constraints
       (\<lambda>r. bt_org_id r = org) f"

definition EnsureBillingTopupSettings ::
  "go_time \<Rightarrow> string \<Rightarrow> string \<Rightarrow> (billing_db, topup_row) go" where
  "EnsureBillingTopupSettings now month org =
     sql_upsert billing_topup_settings billing_topup_settings_update topup_constraints
       (\<lambda>r. bt_org_id r = bt_org_id (default_topup_row now month org))
       (default_topup_row now month org) (\<lambda>r. r)"

definition LockBillingTopupSettingsForUpdate :: "string \<Rightarrow> (billing_db, topup_row) go" where
  "LockBillingTopupSettingsForUpdate org = sql_get billing_topup_settings (\<lambda>r. bt_org_id r = org)"

definition UpdateBillingTopupSettings ::
  "go_time \<Rightarrow> string \<Rightarrow> bool \<Rightarrow> int \<Rightarrow> int \<Rightarrow> int \<Rightarrow> int \<Rightarrow> (billing_db, topup_row) go" where
  "UpdateBillingTopupSettings now org enabled threshold target units cents =
     update_topup org (\<lambda>r. r\<lparr>bt_auto_topup_enabled := enabled, bt_trigger_threshold := threshold,
       bt_target_balance := target, bt_monthly_max_units := units, bt_monthly_max_cents := cents,
       bt_updated_at := Some now\<rparr>)"

definition IncrementBillingTopupMonthlyUsage ::
  "go_time \<Rightarrow> string \<Rightarrow> int \<Rightarrow> int \<Rightarrow> string \<Rightarrow> (billing_db, topup_row) go" where
  "IncrementBillingTopupMonthlyUsage now org units cents month =
     update_topup org (\<lambda>r. r\<lparr>bt_monthly_units_used := bt_monthly_units_used r + units,
       bt_monthly_spend_cents_used := bt_monthly_spend_cents_used r + cents,
       bt_monthly_anchor_month := month, bt_updated_at := Some now\<rparr>)"

definition ResetBillingTopupMonthlyUsage :: "go_time \<Rightarrow> string \<Rightarrow> string \<Rightarrow> (billing_db, topup_row) go" where
  "ResetBillingTopupMonthlyUsage now org month =
     update_topup org (\<lambda>r. r\<lparr>bt_monthly_units_used := 0, bt_monthly_spend_cents_used := 0,
       bt_monthly_anchor_month := month, bt_updated_at := Some now\<rparr>)"

section \<open>Reservations and run meters\<close>

definition GetBillingCreditReservationForUpdate :: "string \<Rightarrow> (billing_db, reservation_row) go" where
  "GetBillingCreditReservationForUpdate run =
     sql_get billing_credit_reservations (\<lambda>r. br_run_id r = run)"

definition InsertBillingCreditReservation ::
  "go_time \<Rightarrow> string \<Rightarrow> string \<Rightarrow> int \<Rightarrow> int \<Rightarrow> int \<Rightarrow> string \<Rightarrow> (billing_db, reservation_row) go" where
  "InsertBillingCreditReservation now run org reserved included topup status =
     (let row = \<lparr>br_run_id = run, br_org_id = org, br_reserved_credits = reserved,
        br_from_included_credits = included, br_from_topup_credits = topup,
        br_captured_credits = 0, br_released_credits = 0, br_status = status,
        br_created_at = Some now, br_updated_at = Some now\<rparr>
      in sql_insert billing_credit_reservations billing_credit_reservations_update
           reservation_constraints (\<lambda>r. br_run_id r = br_run_id row) row)"

definition UpdateBillingCreditReservationCaptured ::
  "go_time \<Rightarrow> string \<Rightarrow> int \<Rightarrow> int \<Rightarrow> string \<Rightarrow> (billing_db, reservation_row) go" where
  "UpdateBillingCreditReservationCaptured now run captured released status =
     sql_update billing_credit_reservations billing_credit_reservations_update
       reservation_constraints (\<lambda>r. br_run_id r = run)
       (\<lambda>r. r\<lparr>br_captured_credits := captured, br_released_credits := released,
          br_status := status, br_updated_at := Some now\<rparr>)"

definition UpsertBillingRunMeterStart ::
  "go_time \<Rightarrow> string \<Rightarrow> string \<Rightarrow> string \<Rightarrow> int \<Rightarrow> int \<Rightarrow> int \<Rightarrow> int \<Rightarrow> timestamptz \<Rightarrow> (billing_db, meter_row) go" where
  "UpsertBillingRunMeterStart now run org flavor mult vcpu mem disk started =
     (let row = \<lparr>bm_run_id = run, bm_org_id = org, bm_flavor = flavor, bm_multiplier = mult,
        bm_sandbox_vcpu = vcpu, bm_sandbox_memory_gib = mem, bm_sandbox_disk_gib = disk,
        bm_started_at = started, bm_ended_at = None, bm_billable_minutes = 0,
        bm_captured_credits = 0, bm_terminal_state = [], bm_created_at = Some now,
        bm_updated_at = Some now\<rparr>
      in sql_upsert billing_run_meters billing_run_meters_update meter_constraints
           (\<lambda>r. bm_run_id r = bm_run_id row) row
           (\<lambda>r. r\<lparr>bm_flavor := flavor, bm_multiplier := mult, bm_sandbox_vcpu := vcpu,
              bm_sandbox_memory_gib := mem, bm_sandbox_disk_gib := disk,
              bm_updated_at := Some now\<rparr>))"

definition GetBillingRunMeterForUpdate :: "string \<Rightarrow> (billing_db, meter_row) go" where
  "GetBillingRunMeterForUpdate run = sql_get billing_run_meters (\<lambda>r. bm_run_id r = run)"

definition FinalizeBillingRunMeter ::
  "go_time \<Rightarrow> string \<Rightarrow> timestamptz \<Rightarrow> int \<Rightarrow> int \<Rightarrow> string \<Rightarrow> (billing_db, meter_row) go" where
  "FinalizeBillingRunMeter now run ended minutes captured state =
     sql_update billing_run_meters billing_run_meters_update meter_constraints
       (\<lambda>r. bm_run_id r = run)
       (\<lambda>r. r\<lparr>bm_ended_at := ended, bm_billable_minutes := minutes,
          bm_captured_credits := captured, bm_terminal_state := state, bm_updated_at := Some now\<rparr>)"

definition ListBillingRunMetersByOrg :: "string \<Rightarrow> nat \<Rightarrow> (billing_db, meter_row list) go" where
  "ListBillingRunMetersByOrg org lim = (\<lambda>s. (Inr (take lim
     (rev (sort_key (\<lambda>r. from_timestamptz (bm_started_at r))
        (filter (\<lambda>r. bm_org_id r = org) (rev (billing_run_meters s)))))), s))"

section \<open>Repository settings and Stripe events\<close>

definition repo_key :: "repo_setting_row \<Rightarrow> string \<times> string \<times> string" where
  "repo_key r = (rb_org_id r, rb_github_owner r, rb_github_repo r)"

definition GetRepoBillingSetting :: "string \<Rightarrow> string \<Rightarrow> string \<Rightarrow> (billing_db, repo_setting_row) go" where
  "GetRepoBillingSetting org owner repo =
     sql_get repo_billing_settings (\<lambda>r. repo_key r = (org, owner, repo))"

definition ListRepoBillingSettingsByOrg :: "string \<Rightarrow> (billing_db, repo_setting_row list) go" where
  "ListRepoBillingSettingsByOrg org = (\<lambda>s. (Inr
     (sort_key rb_github_owner (sort_key rb_github_repo
        (filter (\<lambda>r. rb_org_id r = org) (repo_billing_settings s)))), s))"

definition UpsertRepoBillingSetting ::
  "go_time \<Rightarrow> string \<Rightarrow> string \<Rightarrow> string \<Rightarrow> string \<Rightarrow> (billing_db, repo_setting_row) go" where
  "UpsertRepoBillingSetting now org owner repo flavor =
     (let row = \<lparr>rb_org_id = org, rb_github_owner = owner, rb_github_repo = repo,
        rb_flavor = flavor, rb_created_at = Some now, rb_updated_at = Some now\<rparr>
      in sql_upsert repo_billing_settings repo_billing_settings_update repo_setting_constraints
           (\<lambda>r. repo_key r = repo_key row) row
           (\<lambda>r. r\<lparr>rb_flavor := flavor, rb_updated_at := Some now\<rparr>))"

definition DeleteRepoBillingSetting :: "string \<Rightarrow> string \<Rightarrow> string \<Rightarrow> (billing_db, unit) go" where
  "DeleteRepoBillingSetting org owner repo =
     andthen (sql_delete repo_billing_settings repo_billing_settings_update
       (\<lambda>r. repo_key r = (org, owner, repo))) (\<lambda>n. ret ())"

definition InsertBillingStripeEvent :: "string \<Rightarrow> string \<Rightarrow> string \<Rightarrow> (billing_db, bool) go" where
  "InsertBillingStripeEvent ev ty org =
     (let row = \<lparr>se_event_id = ev, se_event_type = ty, se_org_id = org\<rparr>
      in sql_insert_once billing_stripe_events billing_stripe_events_update
           (\<lambda>r. se_event_id r = se_event_id row) row)"

section \<open>The tables as keyed tables\<close>

interpretation accounts: keyed_table ba_org_id billing_accounts billing_accounts_update
  by unfold_locales simp

interpretation topups: keyed_table bt_org_id billing_topup_settings billing_topup_settings_update
  by unfold_locales simp

interpretation reservations: keyed_table br_run_id billing_credit_reservations
    billing_credit_reservations_update
  by unfold_locales simp

interpretation meters: keyed_table bm_run_id billing_run_meters billing_run_meters_update
  by unfold_locales simp

interpretation repo_settings: keyed_table repo_key repo_billing_settings repo_billing_settings_update
  by unfold_locales simp

interpretation stripe_events: keyed_table se_event_id billing_stripe_events
    billing_stripe_events_update
  by unfold_locales simp

end
