(* ===== verification/Billing_Store.thy ===== *)
theory Billing_Store
  imports Billing_Queries
begin

text \<open>
  internal/billing/store.go: the store methods over the tables, the conversions between rows and
  the package's structs, and the billing month. Every method is guarded by Enabled; \<open>en\<close> is its
  answer. \<open>now\<close> is the time of the call: time.Now() of the process and NOW() of the statement.
\<close>

section \<open>Rows as structs\<close>

definition accountFromRow :: "account_row \<Rightarrow> account" where
  "accountFromRow row = \<lparr>
     OrgID = ba_org_id row,
     StripeCustomerID = ba_stripe_customer_id row,
     StripeSubscriptionID = ba_stripe_subscription_id row,
     PlanCode = ba_plan_code row,
     Status = ba_status row,
     CurrentPeriodStart = from_timestamptz (ba_current_period_start row),
     CurrentPeriodEnd = from_timestamptz (ba_current_period_end row),
     IncludedCredits = ba_included_credits row,
     IncludedCreditsUsed = ba_included_credits_used row,
     TopupCredits = ba_topup_credits row,
     MaxFlavor = ba_max_flavor row,
     PerRunMaxCredits = ba_per_run_max_credits row,
     BillingExempt = ba_billing_exempt row,
     LastPaymentError = ba_last_payment_error row,
     PendingPlanCode = ba_pending_plan_code row,
     PendingPlanEffectiveAt = from_timestamptz (ba_pending_plan_effective_at row),
     CreatedAt = from_timestamptz (ba_created_at row),
     UpdatedAt = from_timestamptz (ba_updated_at row)\<rparr>"

definition topupSettingsFromRow :: "topup_row \<Rightarrow> topup_settings" where
  "topupSettingsFromRow row = \<lparr>
     ts_OrgID = bt_org_id row,
     AutoTopupEnabled = bt_auto_topup_enabled row,
     TriggerThreshold = bt_trigger_threshold row,
     TargetBalance = bt_target_balance row,
     MonthlyMaxUnits = bt_monthly_max_units row,
     MonthlyUnitsUsed = bt_monthly_units_used row,
     MonthlyMaxCents = bt_monthly_max_cents row,
     MonthlySpendCentsUsed = bt_monthly_spend_cents_used row,
     MonthlyAnchorMonth = bt_monthly_anchor_month row,
     ts_CreatedAt = from_timestamptz (bt_created_at row),
     ts_UpdatedAt = from_timestamptz (bt_updated_at row)\<rparr>"

definition reservationFromRow :: "reservation_row \<Rightarrow> reservation" where
  "reservationFromRow row = \<lparr>
     res_RunID = br_run_id row,
     res_OrgID = br_org_id row,
     ReservedCredits = br_reserved_credits row,
     FromIncludedCredits = br_from_included_credits row,
     FromTopupCredits = br_from_topup_credits row,
     res_CapturedCredits = br_captured_credits row,
     ReleasedCredits = br_released_credits row,
     res_Status = br_status row,
     res_CreatedAt = from_timestamptz (br_created_at row),
     res_UpdatedAt = from_timestamptz (br_updated_at row)\<rparr>"

definition runMeterFromRow :: "meter_row \<Rightarrow> run_meter" where
  "runMeterFromRow row = \<lparr>
     rm_RunID = bm_run_id row,
     rm_OrgID = bm_org_id row,
     rm_Flavor = bm_flavor row,
     rm_Multiplier = bm_multiplier row,
     SandboxVCPU = bm_sandbox_vcpu row,
     SandboxMemoryGiB = bm_sandbox_memory_gib row,
     SandboxDiskGiB = bm_sandbox_disk_gib row,
     StartedAt = from_timestamptz (bm_started_at row),
     EndedAt = from_timestamptz (bm_ended_at row),
     BillableMinutes = bm_billable_minutes row,
     rm_CapturedCredits = bm_captured_credits row,
     TerminalState = bm_terminal_state row,
     rm_CreatedAt = from_timestamptz (bm_created_at row),
     rm_UpdatedAt = from_timestamptz (bm_updated_at row)\<rparr>"

definition repoSettingFromRow :: "repo_setting_row \<Rightarrow> repo_setting" where
  "repoSettingFromRow row =
     (let flavor = (case ParseFlavor (rb_flavor row) of
        Inr parsed \<Rightarrow> fl_Code parsed | Inl e \<Rightarrow> rb_flavor row)
      in \<lparr>rs_OrgID = rb_org_id row, rs_GitHubOwner = rb_github_owner row,
          rs_GitHubRepo = rb_github_repo row, rs_Flavor = flavor,
          rs_CreatedAt = from_timestamptz (rb_created_at row),
          rs_UpdatedAt = from_timestamptz (rb_updated_at row)\<rparr>)"

lemma accountFromRow_simps [simp]:
  "OrgID (accountFromRow r) = ba_org_id r"
  "PlanCode (accountFromRow r) = ba_plan_code r"
  "IncludedCredits (accountFromRow r) = ba_included_credits r"
  "IncludedCreditsUsed (accountFromRow r) = ba_included_credits_used r"
  "TopupCredits (accountFromRow r) = ba_topup_credits r"
  "MaxFlavor (accountFromRow r) = ba_max_flavor r"
  "PerRunMaxCredits (accountFromRow r) = ba_per_run_max_credits r"
  "BillingExempt (accountFromRow r) = ba_billing_exempt r"
  by (simp_all add: accountFromRow_def)

section \<open>The billing month\<close>

text \<open>
  \<open>t.UTC().Format("2006-01")\<close>: the civil year and month of a day counted from the Unix epoch,
  by eras of 400 years that start in March.
\<close>

definition day_ns :: int where "day_ns = 86400000000000"

definition civil_month :: "int \<Rightarrow> int \<times> int" where
  "civil_month days =
     (let z = days + 719468;
          era = z div 146097;
          doe = z mod 146097;
          yoe = (doe - doe div 1460 + doe div 36524 - doe div 146096) div 365;
          doy = doe - (365 * yoe + yoe div 4 - yoe div 100);
          mp = (5 * doy + 2) div 153;
          m = (if mp < 10 then mp + 3 else mp - 9);
          y = yoe + era * 400 + (if m \<le> 2 then 1 else 0)
      in (y, m))"

definition pad :: "nat \<Rightarrow> string \<Rightarrow> string" where
  "pad n s = replicate (n - length s) CHR ''0'' @ s"

definition currentBillingMonth :: "go_time \<Rightarrow> go_time \<Rightarrow> string" where
  "currentBillingMonth now t0 =
     (let t = (if is_zero_time t0 then now else t0);
          ym = civil_month (t div day_ns)
      in pad 4 (itoa (fst ym)) @ ''-'' @ pad 2 (itoa (snd ym)))"

section \<open>Store methods\<close>

definition not_enabled :: "('s, 'a) go" where
  "not_enabled = fail ErrNoRows"

definition EnsureAccount :: "bool \<Rightarrow> go_time \<Rightarrow> string \<Rightarrow> (billing_db, account) go" where
  "EnsureAccount en now org =
     (if \<not> en then not_enabled
      else andthen (wrap_err ''ensure billing account'' (EnsureBillingAccount now org))
        (\<lambda>row. ret (accountFromRow row)))"

definition GetAccount :: "bool \<Rightarrow> string \<Rightarrow> (billing_db, account) go" where
  "GetAccount en org =
     (if \<not> en then not_enabled
      else andthen (GetBillingAccount org) (\<lambda>row. ret (accountFromRow row)))"

definition FindAccountByStripeCustomer :: "bool \<Rightarrow> string \<Rightarrow> (billing_db, account) go" where
  "FindAccountByStripeCustomer en customer =
     (if \<not> en then not_enabled
      else andthen (GetBillingAccountByStripeCustomer customer) (\<lambda>row. ret (accountFromRow row)))"

text \<open>The defaults filled into a mirror before it is written.\<close>

definition mirror_defaults :: "account_mirror \<Rightarrow> account_mirror" where
  "mirror_defaults m0 =
     (let m1 = (if am_PlanCode m0 = [] then m0\<lparr>am_PlanCode := PlanFree\<rparr> else m0);
          m2 = (if am_Status m1 = [] then m1\<lparr>am_Status := am_PlanCode m1\<rparr> else m1);
          m3 = (if am_MaxFlavor m2 = [] then m2\<lparr>am_MaxFlavor := FlavorStandard\<rparr> else m2)
      in if am_PerRunMaxCredits m3 < 1 then m3\<lparr>am_PerRunMaxCredits := 4\<rparr> else m3)"

definition mirror_row :: "go_time \<Rightarrow> account_mirror \<Rightarrow> account_row" where
  "mirror_row now m = (default_account_row now (am_OrgID m))\<lparr>
     ba_stripe_customer_id := am_StripeCustomerID m,
     ba_stripe_subscription_id := am_StripeSubscriptionID m,
     ba_plan_code := am_PlanCode m,
     ba_status := am_Status m,
     ba_current_period_start := to_timestamptz (am_CurrentPeriodStart m),
     ba_current_period_end := to_timestamptz (am_CurrentPeriodEnd m),
     ba_included_credits := int32 (max (am_IncludedCredits m) 0),
     ba_max_flavor := am_MaxFlavor m,
     ba_per_run_max_credits := int32 (am_PerRunMaxCredits m),
     ba_billing_exempt := am_BillingExempt m,
     ba_last_payment_error := am_LastPaymentError m\<rparr>"

definition UpsertAccountMirror :: "bool \<Rightarrow> go_time \<Rightarrow> account_mirror \<Rightarrow> (billing_db, account) go" where
  "UpsertAccountMirror en now mirror =
     (if \<not> en then not_enabled
      else andthen (wrap_err ''upsert billing account mirror''
             (UpsertBillingAccountMirror now (mirror_row now (mirror_defaults mirror))))
        (\<lambda>row. ret (accountFromRow row)))"

definition SetBillingExempt :: "bool \<Rightarrow> go_time \<Rightarrow> string \<Rightarrow> bool \<Rightarrow> (billing_db, account) go" where
  "SetBillingExempt en now org exempt =
     (if \<not> en then not_enabled
      else andthen (wrap_err ''set billing exemption'' (SetBillingExempt_q now org exempt))
        (\<lambda>row. ret (accountFromRow row)))"

definition ListAccountOrgIDs :: "bool \<Rightarrow> (billing_db, string list) go" where
  "ListAccountOrgIDs en =
     (if \<not> en then not_enabled
      else wrap_err ''list billing account org ids'' ListBillingAccountOrgIDs)"

definition ListBillingExemptOrgIDs :: "bool \<Rightarrow> (billing_db, string list) go" where
  "ListBillingExemptOrgIDs en =
     (if \<not> en then not_enabled
      else wrap_err ''list billing exempt org ids'' ListBillingExemptOrgIDs_q)"

definition SetStripeCustomer :: "bool \<Rightarrow> go_time \<Rightarrow> string \<Rightarrow> string \<Rightarrow> (billing_db, account) go" where
  "SetStripeCustomer en now org customer =
     (if \<not> en then not_enabled
      else andthen (EnsureAccount en now org) (\<lambda>_.
        andthen (wrap_err ''set stripe customer'' (UpdateBillingStripeCustomer now org customer))
          (\<lambda>row. ret (accountFromRow row))))"

definition SetPendingPlanChange ::
  "bool \<Rightarrow> go_time \<Rightarrow> string \<Rightarrow> string \<Rightarrow> go_time \<Rightarrow> (billing_db, account) go" where
  "SetPendingPlanChange en now org planCode effectiveAt =
     (if \<not> en then not_enabled
      else andthen (wrap_err ''set billing pending plan change''
             (SetBillingPendingPlanChange now org planCode (to_timestamptz effectiveAt)))
        (\<lambda>row. ret (accountFromRow row)))"

definition ClearPendingPlanChange :: "bool \<Rightarrow> go_time \<Rightarrow> string \<Rightarrow> (billing_db, account) go" where
  "ClearPendingPlanChange en now org =
     (if \<not> en then not_enabled
      else andthen (wrap_err ''clear billing pending plan change'' (ClearBillingPendingPlanChange now org))
        (\<lambda>row. ret (accountFromRow row)))"

definition GrantTopupCredits :: "bool \<Rightarrow> go_time \<Rightarrow> string \<Rightarrow> int \<Rightarrow> (billing_db, account) go" where
  "GrantTopupCredits en now org credits =
     (if \<not> en then not_enabled
      else if credits \<le> 0 then GetAccount en org
      else andthen (EnsureAccount en now org) (\<lambda>_.
        andthen (wrap_err ''grant top-up credits'' (GrantBillingTopupCredits now org (int32 credits)))
          (\<lambda>row. ret (accountFromRow row))))"

definition grantTopupCreditsOnceTx ::
  "go_time \<Rightarrow> string \<Rightarrow> string \<Rightarrow> string \<Rightarrow> int \<Rightarrow> (billing_db, account \<times> bool) go" where
  "grantTopupCreditsOnceTx now eventID eventType org credits =
     andthen (InsertBillingStripeEvent eventID eventType org) (\<lambda>inserted.
       if \<not> inserted then
         andthen (GetBillingAccount org) (\<lambda>row. ret (accountFromRow row, False))
       else
         andthen (EnsureBillingAccount now org) (\<lambda>_.
           andthen (GrantBillingTopupCredits now org (int32 credits))
             (\<lambda>row. ret (accountFromRow row, True))))"

definition GrantTopupCreditsOnce ::
  "bool \<Rightarrow> go_time \<Rightarrow> string \<Rightarrow> string \<Rightarrow> string \<Rightarrow> int \<Rightarrow> (billing_db, account \<times> bool) go" where
  "GrantTopupCreditsOnce en now eventID eventType org credits =
     (if \<not> en then not_enabled
      else if eventID = [] then
        andthen (GrantTopupCredits en now org credits) (\<lambda>acct. ret (acct, True))
      else if credits \<le> 0 then
        andthen (GetAccount en org) (\<lambda>acct. ret (acct, False))
      else wrap_err ''grant top-up credits once''
        (with_tx (grantTopupCreditsOnceTx now eventID eventType org credits)))"

definition SetLastPaymentError :: "bool \<Rightarrow> go_time \<Rightarrow> string \<Rightarrow> string \<Rightarrow> (billing_db, unit) go" where
  "SetLastPaymentError en now org msg =
     (if \<not> en then not_enabled
      else andthen (EnsureAccount en now org) (\<lambda>_. SetBillingLastPaymentError now org msg))"

definition ensureTopupSettings :: "go_time \<Rightarrow> string \<Rightarrow> (billing_db, topup_settings) go" where
  "ensureTopupSettings now org =
     andthen (wrap_err ''ensure top-up settings''
        (EnsureBillingTopupSettings now (currentBillingMonth now now) org)) (\<lambda>row.
       let settings = topupSettingsFromRow row; month = currentBillingMonth now now
       in if MonthlyAnchorMonth settings \<noteq> month then
            andthen (wrap_err ''reset top-up monthly usage'' (ResetBillingTopupMonthlyUsage now org month))
              (\<lambda>row'. ret (topupSettingsFromRow row'))
          else ret settings)"

definition EnsureTopupSettings :: "bool \<Rightarrow> go_time \<Rightarrow> string \<Rightarrow> (billing_db, topup_settings) go" where
  "EnsureTopupSettings en now org = (if \<not> en then not_enabled else ensureTopupSettings now org)"

definition UpdateTopupSettings ::
  "bool \<Rightarrow> go_time \<Rightarrow> string \<Rightarrow> topup_settings \<Rightarrow> (billing_db, topup_settings) go" where
  "UpdateTopupSettings en now org settings =
     (if \<not> en then not_enabled
      else andthen (EnsureAccount en now org) (\<lambda>_.
        andthen (EnsureTopupSettings en now org) (\<lambda>_.
          andthen (wrap_err ''update top-up settings''
              (UpdateBillingTopupSettings now org (AutoTopupEnabled settings)
                (int32 (max (TriggerThreshold settings) 0)) (int32 (max (TargetBalance settings) 0))
                (int32 (max (MonthlyMaxUnits settings) 0)) (int32 (max (MonthlyMaxCents settings) 0))))
            (\<lambda>row. ret (topupSettingsFromRow row)))))"

record overview =
  ov_Account :: account
  ov_TopupSettings :: topup_settings
  ov_RecentMeters :: "run_meter list"
  ov_AllowedFlavors :: "flavor list"

definition Overview :: "bool \<Rightarrow> go_time \<Rightarrow> string \<Rightarrow> int \<Rightarrow> (billing_db, overview) go" where
  "Overview en now org meterLimit =
     andthen (EnsureAccount en now org) (\<lambda>acct.
       andthen (EnsureTopupSettings en now org) (\<lambda>settings.
         let lim = (if meterLimit \<le> 0 then 10 else meterLimit)
         in andthen (wrap_err ''list billing run meters'' (ListBillingRunMetersByOrg org (nat lim)))
              (\<lambda>rows. ret \<lparr>ov_Account = acct, ov_TopupSettings = settings,
                 ov_RecentMeters = map runMeterFromRow rows,
                 ov_AllowedFlavors = AllowedFlavors (MaxFlavor acct)\<rparr>)))"

definition RepoFlavor :: "bool \<Rightarrow> string \<Rightarrow> string \<Rightarrow> string \<Rightarrow> (billing_db, flavor) go" where
  "RepoFlavor en org owner repo =
     (if \<not> en then ret (MustFlavor FlavorStandard)
      else attempt (GetRepoBillingSetting org owner repo) (\<lambda>r. case r of
          Inl e \<Rightarrow> if err_is e ErrNoRows then ret (MustFlavor FlavorStandard) else fail e
        | Inr row \<Rightarrow> lift_result (ParseFlavor (rb_flavor row))))"

definition add_setting :: "(string \<rightharpoonup> repo_setting) \<Rightarrow> repo_setting_row \<Rightarrow> (string \<rightharpoonup> repo_setting)" where
  "add_setting m row =
     (let setting = repoSettingFromRow row
      in m(rs_GitHubOwner setting @ ''/'' @ rs_GitHubRepo setting \<mapsto> setting))"

definition ListRepoSettings :: "bool \<Rightarrow> string \<Rightarrow> (billing_db, string \<rightharpoonup> repo_setting) go" where
  "ListRepoSettings en org =
     (if \<not> en then ret Map.empty
      else andthen (wrap_err ''list repo billing settings'' (ListRepoBillingSettingsByOrg org))
        (\<lambda>rows. ret (foldl add_setting Map.empty rows)))"

definition SetRepoFlavor ::
  "bool \<Rightarrow> go_time \<Rightarrow> string \<Rightarrow> string \<Rightarrow> string \<Rightarrow> string \<Rightarrow> (billing_db, repo_setting) go" where
  "SetRepoFlavor en now org owner repo flavorCode =
     (if \<not> en then not_enabled
      else andthen (EnsureAccount en now org) (\<lambda>acct.
        andthen (lift_result (ParseFlavor flavorCode)) (\<lambda>flavor.
          if \<not> BillingExempt acct \<and> \<not> FlavorAllowed (fl_Code flavor) (MaxFlavor acct)
          then fail (FlavorNotAllowedError (fl_Code flavor) (MaxFlavor acct))
          else if fl_Code flavor = FlavorStandard then
            andthen (wrap_err ''delete standard repo billing setting''
                (DeleteRepoBillingSetting org owner repo))
              (\<lambda>_. ret \<lparr>rs_OrgID = org, rs_GitHubOwner = owner, rs_GitHubRepo = repo,
                 rs_Flavor = FlavorStandard, rs_CreatedAt = zero_time, rs_UpdatedAt = zero_time\<rparr>)
          else
            andthen (wrap_err ''set repo billing flavor''
                (UpsertRepoBillingSetting now org owner repo (fl_Code flavor)))
              (\<lambda>row. ret (repoSettingFromRow row)))))"

end
