(* ===== verification/Billing_Reservation.thy ===== *)
theory Billing_Reservation
  imports Billing_Store
begin

text \<open>
  internal/billing/reservation.go: admission of a run against the account (credits are moved into
  a reservation) and its finalisation (the captured part is kept, the rest is given back).
\<close>

definition upsertRunMeterStart ::
  "go_time \<Rightarrow> string \<Rightarrow> string \<Rightarrow> flavor \<Rightarrow> go_time \<Rightarrow> (billing_db, unit) go" where
  "upsertRunMeterStart now runID org flavor startedAt =
     andthen (wrap_err ''start run meter''
        (UpsertBillingRunMeterStart now runID org (fl_Code flavor) (int32 (fl_Multiplier flavor))
          (int32 (fl_VCPU flavor)) (int32 (fl_MemoryGiB flavor)) (int32 (fl_DiskGiB flavor))
          (to_timestamptz startedAt)))
      (\<lambda>_. ret ())"

definition admitRunTx ::
  "go_time \<Rightarrow> string \<Rightarrow> string \<Rightarrow> int \<Rightarrow> flavor \<Rightarrow> go_time \<Rightarrow> (billing_db, reservation \<times> account) go" where
  "admitRunTx now org runID credits flavor startedAt =
     attempt (GetBillingCreditReservationForUpdate runID) (\<lambda>r. case r of
       Inr existing \<Rightarrow>
         andthen (LockBillingAccountForUpdate org) (\<lambda>row.
           andthen (upsertRunMeterStart now runID org flavor startedAt)
             (\<lambda>_. ret (reservationFromRow existing, accountFromRow row)))
     | Inl e \<Rightarrow>
         if \<not> err_is e ErrNoRows then fail e
         else andthen (LockBillingAccountForUpdate org) (\<lambda>row.
           let account = accountFromRow row in
           if BillingExempt account then
             andthen (InsertBillingCreditReservation now runID org 0 0 0 ReservationComped) (\<lambda>inserted.
               andthen (upsertRunMeterStart now runID org flavor startedAt)
                 (\<lambda>_. ret (reservationFromRow inserted, account)))
           else
             let available = Balance account in
             if available < credits then fail (InsufficientCreditsError credits available)
             else
               let fromIncluded = min credits (IncludedRemaining account);
                   fromTopup = credits - fromIncluded
               in andthen (UpdateBillingReservedBalances now org (int32 fromIncluded) (int32 fromTopup)) (\<lambda>row'.
                    andthen (InsertBillingCreditReservation now runID org (int32 credits)
                        (int32 fromIncluded) (int32 fromTopup) ReservationReserved) (\<lambda>inserted.
                      andthen (upsertRunMeterStart now runID org flavor startedAt)
                        (\<lambda>_. ret (reservationFromRow inserted, accountFromRow row'))))))"

definition AdmitRun ::
  "bool \<Rightarrow> go_time \<Rightarrow> string \<Rightarrow> string \<Rightarrow> int \<Rightarrow> flavor \<Rightarrow> go_time \<Rightarrow> (billing_db, reservation \<times> account) go" where
  "AdmitRun en now org runID credits0 flavor startedAt0 =
     (if \<not> en then not_enabled
      else
        let credits = (if credits0 < 0 then 0 else credits0);
            startedAt = (if is_zero_time startedAt0 then now else startedAt0)
        in with_tx (admitRunTx now org runID credits flavor startedAt))"

definition finalizeRunMeter ::
  "go_time \<Rightarrow> string \<Rightarrow> go_time \<Rightarrow> int \<Rightarrow> int \<Rightarrow> string \<Rightarrow> (billing_db, unit) go" where
  "finalizeRunMeter now runID endedAt minutes credits terminalState =
     andthen (FinalizeBillingRunMeter now runID (to_timestamptz endedAt) (int32 minutes) (int32 credits)
        terminalState) (\<lambda>_. ret ())"

definition captureDeltas :: "reservation \<Rightarrow> int \<Rightarrow> int \<times> int \<times> int" where
  "captureDeltas res captured0 =
     (let captured = (if captured0 < 0 then 0 else captured0);
          capturedIncluded = min captured (FromIncludedCredits res);
          remainingCapture = max (captured - capturedIncluded) 0;
          capturedTopup = min remainingCapture (FromTopupCredits res);
          releasedIncluded = max (FromIncludedCredits res - capturedIncluded) 0;
          releasedTopup = max (FromTopupCredits res - capturedTopup) 0;
          extra = max (captured - ReservedCredits res) 0
      in (releasedIncluded, releasedTopup, extra))"

text \<open>The part of finalizeRunTx for a reservation that still holds credits.\<close>

definition settleReserved ::
  "go_time \<Rightarrow> string \<Rightarrow> string \<Rightarrow> go_time \<Rightarrow> reservation \<Rightarrow> int \<Rightarrow> int \<Rightarrow> (billing_db, unit) go" where
  "settleReserved now runID terminalState endedAt res minutes credits0 =
     andthen (LockBillingAccountForUpdate (res_OrgID res)) (\<lambda>_.
       let credits = (if 0 < ReservedCredits res then min credits0 (ReservedCredits res) else credits0)
       in andthen (finalizeRunMeter now runID endedAt minutes credits terminalState) (\<lambda>_.
         case captureDeltas res credits of (releasedIncluded, releasedTopup, extraCredits) \<Rightarrow>
           let includedDelta = - releasedIncluded + extraCredits;
               topupDelta = releasedTopup
           in andthen (UpdateBillingCapturedBalances now (res_OrgID res) (int32 includedDelta) (int32 topupDelta)) (\<lambda>_.
             let released = releasedIncluded + releasedTopup;
                 status = (if 0 < released then ReservationReleased else ReservationCaptured)
             in andthen (UpdateBillingCreditReservationCaptured now runID (int32 credits) (int32 released) status)
                  (\<lambda>_. ret ()))))"

definition finalizeRunTx ::
  "go_time \<Rightarrow> string \<Rightarrow> string \<Rightarrow> go_time \<Rightarrow> (billing_db, unit) go" where
  "finalizeRunTx now runID terminalState0 endedAt =
     attempt (GetBillingRunMeterForUpdate runID) (\<lambda>r. case r of
       Inl e \<Rightarrow> if err_is e ErrNoRows then ret () else fail e
     | Inr meterRow \<Rightarrow>
         let meter = runMeterFromRow meterRow in
         if TerminalState meter \<noteq> [] then ret ()
         else
           case BillableCredits (StartedAt meter) endedAt (rm_Multiplier meter) of (minutes, credits) \<Rightarrow>
           let terminalState = (if terminalState0 = [] then ''unknown'' else terminalState0) in
           attempt (GetBillingCreditReservationForUpdate runID) (\<lambda>r2. case r2 of
             Inl e \<Rightarrow>
               if err_is e ErrNoRows
               then finalizeRunMeter now runID endedAt minutes credits terminalState
               else fail e
           | Inr resRow \<Rightarrow>
               let res = reservationFromRow resRow in
               if res_Status res = ReservationComped then
                 andthen (finalizeRunMeter now runID endedAt minutes credits terminalState) (\<lambda>_.
                   andthen (UpdateBillingCreditReservationCaptured now runID (int32 credits) 0 ReservationComped)
                     (\<lambda>_. ret ()))
               else if res_Status res \<noteq> ReservationReserved then
                 finalizeRunMeter now runID endedAt minutes credits terminalState
               else settleReserved now runID terminalState endedAt res minutes credits))"

definition FinalizeRun :: "bool \<Rightarrow> go_time \<Rightarrow> string \<Rightarrow> string \<Rightarrow> go_time \<Rightarrow> (billing_db, unit) go" where
  "FinalizeRun en now runID terminalState endedAt0 =
     (if \<not> en \<or> runID = [] then ret ()
      else
        let endedAt = (if is_zero_time endedAt0 then now else endedAt0)
        in with_tx (finalizeRunTx now runID terminalState endedAt))"

end
