(* ===== verification/Billing_Invariant.thy ===== *)
theory Billing_Invariant
  imports Billing_Reservation
begin

text \<open>
  What every billing operation keeps true of the tables: primary keys are distinct, the rows
  satisfy their constraints, no account has used more than it includes, and every reservation is
  split between included and top-up credits without remainder.
\<close>

definition account_inv :: "account_row \<Rightarrow> bool" where
  "account_inv r \<longleftrightarrow> account_row_ok r \<and> account_row_int4 r \<and>
     ba_included_credits_used r \<le> ba_included_credits r"

definition reservation_inv :: "reservation_row \<Rightarrow> bool" where
  "reservation_inv r \<longleftrightarrow> reservation_row_ok r \<and> reservation_row_int4 r \<and>
     br_from_included_credits r + br_from_topup_credits r = br_reserved_credits r"

definition meter_inv :: "meter_row \<Rightarrow> bool" where
  "meter_inv r \<longleftrightarrow> meter_row_ok r \<and> meter_row_int4 r"

definition topup_inv :: "topup_row \<Rightarrow> bool" where
  "topup_inv r \<longleftrightarrow> topup_row_ok r \<and> topup_row_int4 r"

definition repo_setting_inv :: "repo_setting_row \<Rightarrow> bool" where
  "repo_setting_inv r \<longleftrightarrow> rb_flavor r \<in> set flavor_column_values"

definition billing_ok :: "billing_db \<Rightarrow> bool" where
  "billing_ok s \<longleftrightarrow>
     table_inv ba_org_id account_inv (billing_accounts s) \<and>
     table_inv bt_org_id topup_inv (billing_topup_settings s) \<and>
     table_inv br_run_id reservation_inv (billing_credit_reservations s) \<and>
     table_inv bm_run_id meter_inv (billing_run_meters s) \<and>
     table_inv repo_key repo_setting_inv (repo_billing_settings s) \<and>
     table_inv se_event_id (\<lambda>_. True) (billing_stripe_events s)"

lemmas row_checks = check_row_def account_constraints_def topup_constraints_def
  reservation_constraints_def meter_constraints_def repo_setting_constraints_def

lemma check_account [simp]:
  "row_check account_constraints r = None \<longleftrightarrow> account_row_int4 r \<and> account_row_ok r"
  by (simp add: account_constraints_def)

lemma check_topup [simp]:
  "row_check topup_constraints r = None \<longleftrightarrow> topup_row_int4 r \<and> topup_row_ok r"
  by (simp add: topup_constraints_def)

lemma check_reservation [simp]:
  "row_check reservation_constraints r = None \<longleftrightarrow> reservation_row_int4 r \<and> reservation_row_ok r"
  by (simp add: reservation_constraints_def)

lemma check_meter [simp]:
  "row_check meter_constraints r = None \<longleftrightarrow> meter_row_int4 r \<and> meter_row_ok r"
  by (simp add: meter_constraints_def)

declare check_row_None [simp]

section \<open>Each query keeps the invariant\<close>

text \<open>The queries write one table through a record update, so the others stand as they were.\<close>

lemma account_writes_frame:
  assumes "update_account org f s = (res, t) \<or> upsert_account row g s = (res, t)"
  shows "billing_topup_settings t = billing_topup_settings s \<and>
    billing_credit_reservations t = billing_credit_reservations s \<and>
    billing_run_meters t = billing_run_meters s \<and>
    repo_billing_settings t = repo_billing_settings s \<and>
    billing_stripe_events t = billing_stripe_events s \<and> agent_run_ids t = agent_run_ids s"
  using assms
  by (auto simp: update_account_def upsert_account_def sql_defs split: option.splits)

lemma keeps_update_account:
  assumes "\<And>r. ba_org_id (f r) = ba_org_id r"
    and "\<And>r. account_inv r \<Longrightarrow> account_row_ok (f r) \<Longrightarrow>
      ba_included_credits_used (f r) \<le> ba_included_credits (f r)"
  shows "keeps_inv billing_ok (update_account org f)"
proof (rule keeps_invI)
  fix s res t assume s: "billing_ok s" and run: "update_account org f s = (res, t)"
  have "table_inv ba_org_id account_inv (billing_accounts t)"
    using s assms run unfolding update_account_def billing_ok_def
    by (elim conjE accounts.table_inv_update [rotated 3]) (auto simp: account_inv_def)
  then show "billing_ok t"
    using s account_writes_frame [OF disjI1 [OF run]] by (auto simp: billing_ok_def)
qed

lemma keeps_upsert_account:
  assumes "ba_included_credits_used row \<le> ba_included_credits row"
    and "\<And>r. ba_org_id (g r) = ba_org_id r"
    and "\<And>r. account_inv r \<Longrightarrow> account_row_ok row \<Longrightarrow> account_row_ok (g r) \<Longrightarrow>
      ba_included_credits_used (g r) \<le> ba_included_credits (g r)"
  shows "keeps_inv billing_ok (upsert_account row g)"
proof (rule keeps_invI)
  fix s res t assume s: "billing_ok s" and run: "upsert_account row g s = (res, t)"
  have "table_inv ba_org_id account_inv (billing_accounts t)"
    using s assms run unfolding upsert_account_def billing_ok_def
    by (elim conjE accounts.table_inv_upsert [rotated 4]) (auto simp: account_inv_def)
  then show "billing_ok t"
    using s account_writes_frame [OF disjI2 [OF run]] by (auto simp: billing_ok_def)
qed

text \<open>The same for the other tables, one lemma per kind of write.\<close>

lemma keeps_topup_update:
  assumes "\<And>r. bt_org_id (f r) = bt_org_id r"
  shows "keeps_inv billing_ok (update_topup org f)"
proof (rule keeps_invI)
  fix s res t assume s: "billing_ok s" and run: "update_topup org f s = (res, t)"
  have "table_inv bt_org_id topup_inv (billing_topup_settings t)"
    using s assms run unfolding update_topup_def billing_ok_def
    by (elim conjE topups.table_inv_update [rotated 3]) (auto simp: topup_inv_def)
  then show "billing_ok t"
    using s run by (auto simp: billing_ok_def update_topup_def elim!: topups.update_cases)
qed

lemma keeps_EnsureBillingTopupSettings:
  "keeps_inv billing_ok (EnsureBillingTopupSettings now month org)"
proof (rule keeps_invI)
  fix s res t
  assume s: "billing_ok s" and run: "EnsureBillingTopupSettings now month org s = (res, t)"
  have "table_inv bt_org_id topup_inv (billing_topup_settings t)"
    using s run unfolding EnsureBillingTopupSettings_def billing_ok_def
    by (elim conjE topups.table_inv_upsert [rotated 4]) (auto simp: topup_inv_def)
  then show "billing_ok t"
    using s run by (auto simp: billing_ok_def EnsureBillingTopupSettings_def elim!: topups.upsert_cases)
qed

lemma keeps_InsertBillingCreditReservation:
  assumes "included + topup = reserved"
  shows "keeps_inv billing_ok (InsertBillingCreditReservation now run org reserved included topup status)"
proof (rule keeps_invI)
  fix s res t
  assume s: "billing_ok s"
    and run: "InsertBillingCreditReservation now run org reserved included topup status s = (res, t)"
  have "table_inv br_run_id reservation_inv (billing_credit_reservations t)"
    using s assms run unfolding InsertBillingCreditReservation_def billing_ok_def Let_def
    by (elim conjE reservations.table_inv_insert [rotated 2]) (auto simp: reservation_inv_def)
  then show "billing_ok t"
    using s run
    by (auto simp: billing_ok_def InsertBillingCreditReservation_def Let_def elim!: reservations.insert_cases)
qed

lemma keeps_UpdateBillingCreditReservationCaptured:
  "keeps_inv billing_ok (UpdateBillingCreditReservationCaptured now run captured released status)"
proof (rule keeps_invI)
  fix s res t
  assume s: "billing_ok s"
    and run: "UpdateBillingCreditReservationCaptured now run captured released status s = (res, t)"
  have "table_inv br_run_id reservation_inv (billing_credit_reservations t)"
    using s run unfolding UpdateBillingCreditReservationCaptured_def billing_ok_def
    by (elim conjE reservations.table_inv_update [rotated 3]) (auto simp: reservation_inv_def)
  then show "billing_ok t"
    using s run
    by (auto simp: billing_ok_def UpdateBillingCreditReservationCaptured_def elim!: reservations.update_cases)
qed

lemma keeps_UpsertBillingRunMeterStart:
  "keeps_inv billing_ok (UpsertBillingRunMeterStart now run org flavor mult vcpu mem disk started)"
proof (rule keeps_invI)
  fix s res t
  assume s: "billing_ok s"
    and run: "UpsertBillingRunMeterStart now run org flavor mult vcpu mem disk started s = (res, t)"
  have "table_inv bm_run_id meter_inv (billing_run_meters t)"
    using s run unfolding UpsertBillingRunMeterStart_def billing_ok_def Let_def
    by (elim conjE meters.table_inv_upsert [rotated 4]) (auto simp: meter_inv_def)
  then show "billing_ok t"
    using s run
    by (auto simp: billing_ok_def UpsertBillingRunMeterStart_def Let_def elim!: meters.upsert_cases)
qed

lemma keeps_FinalizeBillingRunMeter:
  "keeps_inv billing_ok (FinalizeBillingRunMeter now run ended minutes captured st)"
proof (rule keeps_invI)
  fix s res t
  assume s: "billing_ok s" and run: "FinalizeBillingRunMeter now run ended minutes captured st s = (res, t)"
  have "table_inv bm_run_id meter_inv (billing_run_meters t)"
    using s run unfolding FinalizeBillingRunMeter_def billing_ok_def
    by (elim conjE meters.table_inv_update [rotated 3]) (auto simp: meter_inv_def)
  then show "billing_ok t"
    using s run by (auto simp: billing_ok_def FinalizeBillingRunMeter_def elim!: meters.update_cases)
qed

lemma keeps_UpsertRepoBillingSetting:
  "keeps_inv billing_ok (UpsertRepoBillingSetting now org owner repo flavor)"
proof (rule keeps_invI)
  fix s res t
  assume s: "billing_ok s" and run: "UpsertRepoBillingSetting now org owner repo flavor s = (res, t)"
  have "table_inv repo_key repo_setting_inv (repo_billing_settings t)"
    using s run unfolding UpsertRepoBillingSetting_def billing_ok_def Let_def
    by (elim conjE repo_settings.table_inv_upsert [rotated 4])
      (auto simp: repo_setting_inv_def repo_setting_constraints_def repo_key_def split: if_splits)
  then show "billing_ok t"
    using s run
    by (auto simp: billing_ok_def UpsertRepoBillingSetting_def Let_def elim!: repo_settings.upsert_cases)
qed

lemma keeps_DeleteRepoBillingSetting: "keeps_inv billing_ok (DeleteRepoBillingSetting org owner repo)"
  unfolding DeleteRepoBillingSetting_def
proof (intro keeps)
  show "keeps_inv billing_ok (sql_delete repo_billing_settings repo_billing_settings_update
      (\<lambda>r. repo_key r = (org, owner, repo)))"
    by (auto simp: keeps_inv_def billing_ok_def sql_delete_def table_inv_def distinct_map_filter)
qed

lemma keeps_InsertBillingStripeEvent: "keeps_inv billing_ok (InsertBillingStripeEvent ev ty org)"
proof (rule keeps_invI)
  fix s res t assume s: "billing_ok s" and run: "InsertBillingStripeEvent ev ty org s = (res, t)"
  have "table_inv se_event_id (\<lambda>_. True) (billing_stripe_events t)"
    using s run unfolding InsertBillingStripeEvent_def billing_ok_def Let_def
    by (elim conjE stripe_events.table_inv_insert_once [rotated 2]) auto
  then show "billing_ok t"
    using s run
    by (auto simp: billing_ok_def InsertBillingStripeEvent_def sql_insert_once_def Let_def split: option.splits)
qed

lemma keeps_reads:
  "keeps_inv P (sql_get tab p)" "keeps_inv P (GetBillingAccount org)"
  "keeps_inv P (GetBillingAccountByStripeCustomer c)" "keeps_inv P (LockBillingAccountForUpdate org)"
  "keeps_inv P (LockBillingTopupSettingsForUpdate org)"
  "keeps_inv P (GetBillingCreditReservationForUpdate run)" "keeps_inv P (GetBillingRunMeterForUpdate run)"
  "keeps_inv P (GetRepoBillingSetting org owner repo)" "keeps_inv P (ListBillingRunMetersByOrg org n)"
  "keeps_inv P (ListRepoBillingSettingsByOrg org)" "keeps_inv P ListBillingAccountOrgIDs"
  "keeps_inv P ListBillingExemptOrgIDs_q"
proof -
  show get: "keeps_inv P (sql_get tab p)" for tab p
    by (auto simp: keeps_inv_def sql_get_def split: option.splits)
  show "keeps_inv P (GetBillingAccount org)" "keeps_inv P (GetBillingAccountByStripeCustomer c)"
    "keeps_inv P (LockBillingAccountForUpdate org)" "keeps_inv P (LockBillingTopupSettingsForUpdate org)"
    "keeps_inv P (GetBillingCreditReservationForUpdate run)" "keeps_inv P (GetBillingRunMeterForUpdate run)"
    "keeps_inv P (GetRepoBillingSetting org owner repo)"
    unfolding GetBillingAccount_def GetBillingAccountByStripeCustomer_def
      LockBillingAccountForUpdate_def LockBillingTopupSettingsForUpdate_def
      GetBillingCreditReservationForUpdate_def GetBillingRunMeterForUpdate_def GetRepoBillingSetting_def
    by (rule get)+
qed (simp_all add: keeps_inv_def ListBillingRunMetersByOrg_def ListRepoBillingSettingsByOrg_def
    ListBillingAccountOrgIDs_def ListBillingExemptOrgIDs_q_def)

lemma keeps_account_queries:
  "keeps_inv billing_ok (EnsureBillingAccount now org)"
  "keeps_inv billing_ok (SetBillingExempt_q now org b)"
  "keeps_inv billing_ok (UpdateBillingStripeCustomer now org c)"
  "keeps_inv billing_ok (GrantBillingTopupCredits now org n)"
  "keeps_inv billing_ok (SetBillingPendingPlanChange now org code eff)"
  "keeps_inv billing_ok (ClearBillingPendingPlanChange now org)"
  "keeps_inv billing_ok (SetBillingLastPaymentError now org msg)"
  "keeps_inv billing_ok (UpdateBillingCapturedBalances now org i tp)"
  unfolding EnsureBillingAccount_def SetBillingExempt_q_def UpdateBillingStripeCustomer_def
    GrantBillingTopupCredits_def SetBillingPendingPlanChange_def ClearBillingPendingPlanChange_def
    SetBillingLastPaymentError_def UpdateBillingCapturedBalances_def
  by (intro keeps keeps_update_account keeps_upsert_account;
      simp add: account_inv_def account_row_ok_def default_account_row_def)+

lemma keeps_UpsertBillingAccountMirror:
  "ba_included_credits_used row \<le> ba_included_credits row \<Longrightarrow>
   keeps_inv billing_ok (UpsertBillingAccountMirror now row)"
  unfolding UpsertBillingAccountMirror_def
  by (rule keeps_upsert_account)
    (auto simp: mirror_conflict_def account_inv_def account_row_ok_def)

lemma keeps_topup_queries:
  "keeps_inv billing_ok (UpdateBillingTopupSettings now org b th tg u c)"
  "keeps_inv billing_ok (IncrementBillingTopupMonthlyUsage now org u c m)"
  "keeps_inv billing_ok (ResetBillingTopupMonthlyUsage now org m)"
  unfolding UpdateBillingTopupSettings_def IncrementBillingTopupMonthlyUsage_def
    ResetBillingTopupMonthlyUsage_def
  by (rule keeps_topup_update; simp)+

lemmas keeps_queries = keeps_reads keeps_account_queries keeps_topup_queries
  keeps_EnsureBillingTopupSettings keeps_UpdateBillingCreditReservationCaptured
  keeps_UpsertBillingRunMeterStart keeps_FinalizeBillingRunMeter keeps_UpsertRepoBillingSetting
  keeps_DeleteRepoBillingSetting keeps_InsertBillingStripeEvent

end
