(* ===== verification/Billing_Ledger.thy ===== *)
theory Billing_Ledger
  imports Billing_Invariant
begin

text \<open>
  Admission and finalisation as movements of credits. First both keep the invariant of the
  tables; then their successful outcomes are described by what they do to the account and the
  reservation; then the ledger law: the credits of an account, those its open reservations hold
  and those its settled reservations captured add up to the same sum after every run step.
\<close>

section \<open>Store methods keep the invariant\<close>

lemma keeps_not_enabled [keeps]: "keeps_inv P not_enabled"
  by (simp add: not_enabled_def)

lemma keeps_upsertRunMeterStart: "keeps_inv billing_ok (upsertRunMeterStart now run org fl st)"
  unfolding upsertRunMeterStart_def by (intro keeps keeps_queries)

lemma keeps_finalizeRunMeter: "keeps_inv billing_ok (finalizeRunMeter now run e m c st)"
  unfolding finalizeRunMeter_def by (intro keeps keeps_queries)

lemma keeps_settleReserved: "keeps_inv billing_ok (settleReserved now run ts e res m c)"
  unfolding settleReserved_def Let_def split_beta
  by (intro keeps keeps_queries keeps_finalizeRunMeter)

lemma keeps_finalizeRunTx: "keeps_inv billing_ok (finalizeRunTx now run ts e)"
  unfolding finalizeRunTx_def Let_def split_beta
  by (intro keeps keeps_queries keeps_finalizeRunMeter keeps_settleReserved)

lemma keeps_FinalizeRun: "keeps_inv billing_ok (FinalizeRun en now run ts e)"
  unfolding FinalizeRun_def Let_def by (intro keeps keeps_finalizeRunTx)

lemma keeps_EnsureAccount: "keeps_inv billing_ok (EnsureAccount en now org)"
  unfolding EnsureAccount_def by (intro keeps keeps_queries)

lemma keeps_GetAccount: "keeps_inv billing_ok (GetAccount en org)"
  unfolding GetAccount_def by (intro keeps keeps_queries)

lemma keeps_GrantTopupCredits: "keeps_inv billing_ok (GrantTopupCredits en now org n)"
  unfolding GrantTopupCredits_def
  by (intro keeps keeps_queries keeps_EnsureAccount keeps_GetAccount)

lemma keeps_GrantTopupCreditsOnce: "keeps_inv billing_ok (GrantTopupCreditsOnce en now ev ty org n)"
  unfolding GrantTopupCreditsOnce_def grantTopupCreditsOnceTx_def
  by (intro keeps keeps_queries keeps_GrantTopupCredits keeps_GetAccount)

lemma mirror_row_used: "ba_included_credits_used (mirror_row now m) \<le> ba_included_credits (mirror_row now m) \<or>
    \<not> 0 \<le> ba_included_credits (mirror_row now m)"
  by (simp add: mirror_row_def default_account_row_def)

lemma keeps_UpsertAccountMirror:
  assumes "int4 (am_IncludedCredits mirror)"
  shows "keeps_inv billing_ok (UpsertAccountMirror en now mirror)"
proof -
  have "am_IncludedCredits (mirror_defaults mirror) = am_IncludedCredits mirror"
    by (simp add: mirror_defaults_def Let_def)
  then have "ba_included_credits_used (mirror_row now (mirror_defaults mirror))
      \<le> ba_included_credits (mirror_row now (mirror_defaults mirror))"
    using assms by (simp add: mirror_row_def default_account_row_def int4_def max_def)
  then show ?thesis
    unfolding UpsertAccountMirror_def by (intro keeps keeps_UpsertBillingAccountMirror)
qed

lemma keeps_ensureTopupSettings: "keeps_inv billing_ok (ensureTopupSettings now org)"
  unfolding ensureTopupSettings_def Let_def by (intro keeps keeps_queries)

lemma keeps_store_methods:
  "keeps_inv billing_ok (FindAccountByStripeCustomer en customer)"
  "keeps_inv billing_ok (SetBillingExempt en now org b)"
  "keeps_inv billing_ok (ListAccountOrgIDs en)"
  "keeps_inv billing_ok (ListBillingExemptOrgIDs en)"
  "keeps_inv billing_ok (SetStripeCustomer en now org customer)"
  "keeps_inv billing_ok (SetPendingPlanChange en now org code eff)"
  "keeps_inv billing_ok (ClearPendingPlanChange en now org)"
  "keeps_inv billing_ok (SetLastPaymentError en now org msg)"
  "keeps_inv billing_ok (EnsureTopupSettings en now org)"
  "keeps_inv billing_ok (UpdateTopupSettings en now org settings)"
  "keeps_inv billing_ok (Overview en now org lim)"
  "keeps_inv billing_ok (RepoFlavor en org owner repo)"
  "keeps_inv billing_ok (ListRepoSettings en org)"
  "keeps_inv billing_ok (SetRepoFlavor en now org owner repo code)"
  unfolding FindAccountByStripeCustomer_def SetBillingExempt_def ListAccountOrgIDs_def
    ListBillingExemptOrgIDs_def SetStripeCustomer_def SetPendingPlanChange_def
    ClearPendingPlanChange_def SetLastPaymentError_def EnsureTopupSettings_def
    UpdateTopupSettings_def Overview_def RepoFlavor_def ListRepoSettings_def SetRepoFlavor_def Let_def
  by (intro keeps keeps_queries keeps_EnsureAccount keeps_ensureTopupSettings)+

lemmas keeps_store = keeps_store_methods keeps_EnsureAccount keeps_GetAccount keeps_GrantTopupCredits
  keeps_GrantTopupCreditsOnce keeps_FinalizeRun keeps_ensureTopupSettings

section \<open>Lookups\<close>

definition account_of :: "billing_db \<Rightarrow> string \<Rightarrow> account_row option" where
  "account_of s org = find (\<lambda>r. ba_org_id r = org) (billing_accounts s)"

definition reservation_of :: "billing_db \<Rightarrow> string \<Rightarrow> reservation_row option" where
  "reservation_of s run = find (\<lambda>r. br_run_id r = run) (billing_credit_reservations s)"

definition meter_of :: "billing_db \<Rightarrow> string \<Rightarrow> meter_row option" where
  "meter_of s run = find (\<lambda>r. bm_run_id r = run) (billing_run_meters s)"

lemma lock_account_run [run_simps]:
  "LockBillingAccountForUpdate org s =
     (case account_of s org of None \<Rightarrow> (Inl ErrNoRows, s) | Some r \<Rightarrow> (Inr r, s))"
  by (simp add: LockBillingAccountForUpdate_def sql_get_def account_of_def)

lemma get_reservation_run [run_simps]:
  "GetBillingCreditReservationForUpdate run s =
     (case reservation_of s run of None \<Rightarrow> (Inl ErrNoRows, s) | Some r \<Rightarrow> (Inr r, s))"
  by (simp add: GetBillingCreditReservationForUpdate_def sql_get_def reservation_of_def)

lemma get_meter_run [run_simps]:
  "GetBillingRunMeterForUpdate run s =
     (case meter_of s run of None \<Rightarrow> (Inl ErrNoRows, s) | Some r \<Rightarrow> (Inr r, s))"
  by (simp add: GetBillingRunMeterForUpdate_def sql_get_def meter_of_def)

lemma account_of_inv: "billing_ok s \<Longrightarrow> account_of s org = Some r \<Longrightarrow> account_inv r \<and> ba_org_id r = org"
  by (auto simp: billing_ok_def table_inv_def account_of_def dest: find_SomeD)

lemma reservation_of_inv:
  "billing_ok s \<Longrightarrow> reservation_of s run = Some r \<Longrightarrow> reservation_inv r \<and> br_run_id r = run"
  by (auto simp: billing_ok_def table_inv_def reservation_of_def dest: find_SomeD)

section \<open>Outcomes of the two transactions\<close>

text \<open>The meter queries leave the accounts and the reservations alone.\<close>

lemma meter_start_frame:
  assumes "upsertRunMeterStart now run org fl st s = (res, t)"
  shows "billing_accounts t = billing_accounts s \<and>
    billing_credit_reservations t = billing_credit_reservations s"
  using assms
  by (auto simp: upsertRunMeterStart_def andthen_def wrap_err_def UpsertBillingRunMeterStart_def
      sql_defs Let_def split: option.splits sum.splits prod.splits)

lemma meter_finalize_frame:
  assumes "finalizeRunMeter now run e m c st s = (res, t)"
  shows "billing_accounts t = billing_accounts s \<and>
    billing_credit_reservations t = billing_credit_reservations s"
  using assms
  by (auto simp: finalizeRunMeter_def andthen_def FinalizeBillingRunMeter_def
      sql_defs split: option.splits sum.splits prod.splits)

definition reserved_row :: "go_time \<Rightarrow> account_row \<Rightarrow> int \<Rightarrow> int \<Rightarrow> account_row" where
  "reserved_row now r included topup =
     r\<lparr>ba_included_credits_used := ba_included_credits_used r + included,
       ba_topup_credits := ba_topup_credits r - topup, ba_updated_at := Some now\<rparr>"

definition captured_row :: "go_time \<Rightarrow> account_row \<Rightarrow> int \<Rightarrow> int \<Rightarrow> account_row" where
  "captured_row now r included topup =
     r\<lparr>ba_included_credits_used :=
         min (max (ba_included_credits_used r + included) 0) (ba_included_credits r),
       ba_topup_credits := max (ba_topup_credits r + topup) 0, ba_updated_at := Some now\<rparr>"

definition new_reservation ::
  "go_time \<Rightarrow> string \<Rightarrow> string \<Rightarrow> int \<Rightarrow> int \<Rightarrow> int \<Rightarrow> string \<Rightarrow> reservation_row" where
  "new_reservation now run org reserved included topup status =
     \<lparr>br_run_id = run, br_org_id = org, br_reserved_credits = reserved,
      br_from_included_credits = included, br_from_topup_credits = topup,
      br_captured_credits = 0, br_released_credits = 0, br_status = status,
      br_created_at = Some now, br_updated_at = Some now\<rparr>"

lemma reserve_balances_run:
  assumes "UpdateBillingReservedBalances now org i tp s = (Inr row', t)"
  obtains r where "account_of s org = Some r" "row' = reserved_row now r i tp"
    "account_row_ok row'" "account_row_int4 row'"
    "t = s\<lparr>billing_accounts := replace_rows (\<lambda>r. ba_org_id r = org) row' (billing_accounts s)\<rparr>"
  using assms unfolding UpdateBillingReservedBalances_def update_account_def
  by (elim accounts.update_cases) (auto simp: account_of_def reserved_row_def)

lemma capture_balances_run:
  assumes "UpdateBillingCapturedBalances now org i tp s = (Inr row', t)"
  obtains r where "account_of s org = Some r" "row' = captured_row now r i tp"
    "t = s\<lparr>billing_accounts := replace_rows (\<lambda>r. ba_org_id r = org) row' (billing_accounts s)\<rparr>"
  using assms unfolding UpdateBillingCapturedBalances_def update_account_def
  by (elim accounts.update_cases) (auto simp: account_of_def captured_row_def)

lemma insert_reservation_run:
  assumes "InsertBillingCreditReservation now run org n i tp st s = (Inr row, t)"
  shows "row = new_reservation now run org n i tp st" and "reservation_of s run = None"
    and "reservation_row_ok row"
    and "t = s\<lparr>billing_credit_reservations := billing_credit_reservations s @ [row]\<rparr>"
  using assms unfolding InsertBillingCreditReservation_def Let_def
  by (auto simp: reservation_of_def new_reservation_def elim!: reservations.insert_cases)

lemma capture_reservation_run:
  assumes "UpdateBillingCreditReservationCaptured now run c rel st s = (Inr row, t)"
  obtains r where "reservation_of s run = Some r"
    "row = r\<lparr>br_captured_credits := c, br_released_credits := rel, br_status := st,
       br_updated_at := Some now\<rparr>"
    "t = s\<lparr>billing_credit_reservations :=
       replace_rows (\<lambda>r. br_run_id r = run) row (billing_credit_reservations s)\<rparr>"
  using assms unfolding UpdateBillingCreditReservationCaptured_def
  by (elim reservations.update_cases) (auto simp: reservation_of_def)

subsection \<open>Admission\<close>

lemma IncludedRemaining_row: "account_inv r \<Longrightarrow> IncludedRemaining (accountFromRow r) =
    ba_included_credits r - ba_included_credits_used r"
  by (simp add: IncludedRemaining_def account_inv_def)

lemma Balance_row: "account_inv r \<Longrightarrow> Balance (accountFromRow r) =
    ba_included_credits r - ba_included_credits_used r + ba_topup_credits r"
  by (simp add: Balance_def IncludedRemaining_row)

definition included_part :: "account_row \<Rightarrow> int \<Rightarrow> int" where
  "included_part a credits = min credits (ba_included_credits a - ba_included_credits_used a)"

lemma included_part_bounds:
  "account_inv a \<Longrightarrow> 0 \<le> credits \<Longrightarrow> 0 \<le> included_part a credits \<and> included_part a credits \<le> credits"
  by (simp add: included_part_def account_inv_def)

lemma int4_between: "int4 n \<Longrightarrow> 0 \<le> m \<Longrightarrow> m \<le> n \<Longrightarrow> int4 m"
  by (simp add: int4_def)

lemma AdmitRun_existing:
  assumes "reservation_of s run = Some e"
    and "AdmitRun True now org run credits fl st s = (Inr (res, acct), t)"
  shows "res = reservationFromRow e" and "billing_accounts t = billing_accounts s"
    and "billing_credit_reservations t = billing_credit_reservations s"
  using assms
  by (auto simp: AdmitRun_def admitRunTx_def Let_def ok_simps lock_account_run get_reservation_run
      dest: meter_start_frame split: option.splits)

lemma AdmitRun_new:
  assumes ok: "billing_ok s" and credits: "0 \<le> credits" "int4 credits"
    and new: "reservation_of s run = None"
    and run: "AdmitRun True now org run credits fl st s = (Inr (res, acct), t)"
  obtains (comped) a where "account_of s org = Some a" "ba_billing_exempt a"
      "billing_accounts t = billing_accounts s" "acct = accountFromRow a"
      "res = reservationFromRow (new_reservation now run org 0 0 0 ReservationComped)"
      "billing_credit_reservations t =
         billing_credit_reservations s @ [new_reservation now run org 0 0 0 ReservationComped]"
  | (reserved) a where "account_of s org = Some a" "\<not> ba_billing_exempt a"
      "credits \<le> Balance (accountFromRow a)"
      "acct = accountFromRow (reserved_row now a (included_part a credits) (credits - included_part a credits))"
      "res = reservationFromRow (new_reservation now run org credits (included_part a credits)
         (credits - included_part a credits) ReservationReserved)"
      "billing_accounts t = replace_rows (\<lambda>r. ba_org_id r = org)
         (reserved_row now a (included_part a credits) (credits - included_part a credits)) (billing_accounts s)"
      "billing_credit_reservations t = billing_credit_reservations s @
         [new_reservation now run org credits (included_part a credits)
            (credits - included_part a credits) ReservationReserved]"
proof -
  define started where "started = (if is_zero_time st then now else st)"
  have tx: "admitRunTx now org run credits fl started s = (Inr (res, acct), t)"
    using run credits(1) by (simp add: AdmitRun_def Let_def started_def)
  then obtain a where a: "account_of s org = Some a"
    using new by (auto simp: admitRunTx_def ok_simps lock_account_run get_reservation_run Let_def split: option.splits)
  have inv: "account_inv a" using ok a by (simp add: account_of_inv)
  note ip = included_part_bounds [OF inv credits(1)]
  have i4: "int4 (included_part a credits)" "int4 (credits - included_part a credits)"
    using int4_between [OF credits(2)] ip by simp_all
  show thesis
  proof (cases "ba_billing_exempt a")
    case True
    with tx new a obtain row u where
      ins: "InsertBillingCreditReservation now run org 0 0 0 ReservationComped s = (Inr row, u)"
      and m: "upsertRunMeterStart now run org fl started u = (Inr (), t)"
      and res: "res = reservationFromRow row" "acct = accountFromRow a"
      by (auto simp: admitRunTx_def ok_simps lock_account_run get_reservation_run Let_def)
    show thesis
      using comped [OF a True] insert_reservation_run [OF ins] meter_start_frame [OF m] res by simp
  next
    case False
    have bal: "credits \<le> Balance (accountFromRow a)"
      using tx new a False by (auto simp: admitRunTx_def ok_simps lock_account_run get_reservation_run Let_def split: if_splits)
    have part: "min credits (IncludedRemaining (accountFromRow a)) = included_part a credits"
      by (simp add: included_part_def IncludedRemaining_row [OF inv])
    from tx new a False bal obtain row' u ins v where
      upd: "UpdateBillingReservedBalances now org (included_part a credits)
        (credits - included_part a credits) s = (Inr row', u)"
      and ins: "InsertBillingCreditReservation now run org credits (included_part a credits)
        (credits - included_part a credits) ReservationReserved u = (Inr ins, v)"
      and m: "upsertRunMeterStart now run org fl started v = (Inr (), t)"
      and res: "res = reservationFromRow ins" "acct = accountFromRow row'"
      by (auto simp: admitRunTx_def ok_simps lock_account_run get_reservation_run Let_def part i4 credits(2))
    from reserve_balances_run [OF upd] a
    have row': "row' = reserved_row now a (included_part a credits) (credits - included_part a credits)"
      and u: "u = s\<lparr>billing_accounts := replace_rows (\<lambda>r. ba_org_id r = org) row' (billing_accounts s)\<rparr>"
      by auto
    show thesis
      using reserved [OF a False bal] row' u insert_reservation_run [OF ins] meter_start_frame [OF m] res
      by simp
  qed
qed

lemma reserve_balances_keeps:
  assumes "billing_ok s" and "account_of s org = Some a" and "0 \<le> credits"
    and "i = included_part a credits"
  shows "billing_ok (snd (UpdateBillingReservedBalances now org i tp s))"
proof -
  obtain r t where run: "UpdateBillingReservedBalances now org i tp s = (r, t)"
    by (metis prod.collapse)
  have le: "ba_included_credits_used a + i \<le> ba_included_credits a"
    using assms by (simp add: included_part_def)
  have a: "find (\<lambda>r. ba_org_id r = org) (billing_accounts s) = Some a"
    using assms(2) by (simp add: account_of_def)
  have "table_inv ba_org_id account_inv (billing_accounts t)"
    using run assms(1) le a unfolding UpdateBillingReservedBalances_def update_account_def billing_ok_def
    by (elim conjE accounts.update_cases)
      (auto simp: table_inv_def accounts.replace_keeps_keys account_inv_def
        dest!: find_SomeD subsetD [OF accounts.set_replace_rows])
  then show ?thesis
    using assms(1) run account_writes_frame [OF disjI1 [OF run [unfolded UpdateBillingReservedBalances_def]]]
    by (auto simp: billing_ok_def)
qed

lemma keeps_AdmitRun:
  assumes "int4 credits"
  shows "keeps_inv billing_ok (AdmitRun en now org run credits fl st)"
proof -
  have "keeps_inv billing_ok (admitRunTx now org run n fl started)" if n: "0 \<le> n" "int4 n" for n started
  proof (rule keeps_invI)
    fix s r t assume ok: "billing_ok s" and run: "admitRunTx now org run n fl started s = (r, t)"
    note keep = keeps_upsertRunMeterStart keeps_InsertBillingCreditReservation keeps_ret keeps_fail
    show "billing_ok t"
    proof (cases "reservation_of s run = None \<and> (\<exists>a. account_of s org = Some a \<and>
        \<not> ba_billing_exempt a \<and> n \<le> Balance (accountFromRow a))")
      case True
      then obtain a where a: "account_of s org = Some a" by blast
      have inv: "account_inv a" using ok a by (simp add: account_of_inv)
      let ?i = "included_part a n" and ?t = "n - included_part a n"
      have i4: "int4 ?i" "int4 ?t"
        using int4_between [OF n(2)] included_part_bounds [OF inv n(1)] by simp_all
      have "t = snd (andthen (UpdateBillingReservedBalances now org ?i ?t) (\<lambda>row'.
          andthen (InsertBillingCreditReservation now run org n ?i ?t ReservationReserved) (\<lambda>inserted.
            andthen (upsertRunMeterStart now run org fl started)
              (\<lambda>_. ret (reservationFromRow inserted, accountFromRow row')))) s)"
        using run True a n i4
        by (auto simp: admitRunTx_def attempt_run lock_account_run get_reservation_run Let_def
            andthen_run [of "LockBillingAccountForUpdate org"]
            IncludedRemaining_row [OF inv] included_part_def)
      moreover have "billing_ok \<dots>"
      proof (rule andthen_at)
        show ok': "billing_ok (snd (UpdateBillingReservedBalances now org ?i ?t s))"
          by (rule reserve_balances_keeps [OF ok a n(1) refl])
        fix row' u assume "UpdateBillingReservedBalances now org ?i ?t s = (Inr row', u)"
        with ok' have u: "billing_ok u" by simp
        show "billing_ok (snd (andthen (InsertBillingCreditReservation now run org n ?i ?t ReservationReserved)
            (\<lambda>inserted. andthen (upsertRunMeterStart now run org fl started)
              (\<lambda>_. ret (reservationFromRow inserted, accountFromRow row'))) u))"
          by (rule keeps_at [where P = billing_ok, OF _ u]) (intro keeps_andthen keep; simp)
      qed
      ultimately show ?thesis by simp
    next
      case False
      have existing: "keeps_inv billing_ok (andthen (upsertRunMeterStart now run org fl started) (\<lambda>_. ret x))" for x :: "reservation \<times> account"
        by (intro keeps_andthen keep)
      have comped: "keeps_inv billing_ok (andthen (InsertBillingCreditReservation now run org 0 0 0 ReservationComped)
          (\<lambda>inserted. andthen (upsertRunMeterStart now run org fl started) (\<lambda>_. ret (reservationFromRow inserted, acc))))" for acc
        by (intro keeps_andthen keep) simp
      show ?thesis
        using run ok False keeps_invD [OF existing ok] keeps_invD [OF comped ok]
        by (auto simp: admitRunTx_def attempt_run lock_account_run get_reservation_run Let_def
            andthen_run [of "LockBillingAccountForUpdate org"]
            split: option.splits if_splits)
    qed
  qed
  then show ?thesis
    using assms unfolding AdmitRun_def Let_def by (auto intro!: keeps simp: int4_def)
qed

subsection \<open>Finalisation\<close>

text \<open>The split of a settled reservation: what is charged and what goes back to each side.\<close>

definition charged :: "reservation_row \<Rightarrow> int \<Rightarrow> int" where
  "charged r credits = min credits (br_reserved_credits r)"

definition back_included :: "reservation_row \<Rightarrow> int \<Rightarrow> int" where
  "back_included r credits = br_from_included_credits r - min (charged r credits) (br_from_included_credits r)"

definition back_topup :: "reservation_row \<Rightarrow> int \<Rightarrow> int" where
  "back_topup r credits = br_reserved_credits r - charged r credits - back_included r credits"

definition settled_row :: "go_time \<Rightarrow> reservation_row \<Rightarrow> int \<Rightarrow> reservation_row" where
  "settled_row now r credits = r\<lparr>br_captured_credits := charged r credits,
     br_released_credits := br_reserved_credits r - charged r credits,
     br_status := (if charged r credits < br_reserved_credits r then ReservationReleased
       else ReservationCaptured),
     br_updated_at := Some now\<rparr>"

lemma captureDeltas_row:
  assumes "reservation_inv r" and "0 \<le> credits"
  shows "captureDeltas (reservationFromRow r) (charged r credits) =
    (back_included r credits, back_topup r credits, 0)"
  using assms
  by (auto simp: captureDeltas_def reservationFromRow_def Let_def charged_def back_included_def
      back_topup_def reservation_inv_def reservation_row_ok_def)

lemma back_bounds:
  assumes "reservation_inv r" and "0 \<le> credits"
  shows "0 \<le> back_included r credits" and "back_included r credits \<le> br_from_included_credits r"
    and "0 \<le> back_topup r credits" and "back_topup r credits \<le> br_from_topup_credits r"
    and "0 \<le> charged r credits" and "charged r credits \<le> br_reserved_credits r"
  using assms
  by (auto simp: charged_def back_included_def back_topup_def reservation_inv_def reservation_row_ok_def)

definition billed :: "meter_row \<Rightarrow> go_time \<Rightarrow> int" where
  "billed m endedAt = snd (BillableCredits (from_timestamptz (bm_started_at m)) endedAt (bm_multiplier m))"

lemma billed_nonneg: "0 \<le> billed m e"
  by (simp add: billed_def BillableCredits_nonneg)

lemma settle_outcome:
  assumes ok: "billing_ok s" and r: "reservation_of s run = Some r" "0 < br_reserved_credits r"
    and credits: "0 \<le> credits"
    and run: "settleReserved now run ts e (reservationFromRow r) minutes credits s = (Inr (), t)"
  obtains a where "account_of s (br_org_id r) = Some a"
    "billing_accounts t = replace_rows (\<lambda>x. ba_org_id x = br_org_id r)
       (captured_row now a (- back_included r credits) (back_topup r credits)) (billing_accounts s)"
    "billing_credit_reservations t = replace_rows (\<lambda>x. br_run_id x = run) (settled_row now r credits)
       (billing_credit_reservations s)"
proof -
  have inv: "reservation_inv r" using ok r(1) by (simp add: reservation_of_inv)
  note b = back_bounds [OF inv credits]
  have i4: "int4 (charged r credits)" "int4 (- back_included r credits)" "int4 (back_topup r credits)"
    "int4 (br_reserved_credits r - charged r credits)"
    using inv b by (auto simp: reservation_inv_def reservation_row_int4_def reservation_row_ok_def int4_def)
  have sum: "back_included r credits + back_topup r credits = br_reserved_credits r - charged r credits"
    by (simp add: back_topup_def)
  have sel: "res_OrgID (reservationFromRow r) = br_org_id r"
    "ReservedCredits (reservationFromRow r) = br_reserved_credits r"
    by (simp_all add: reservationFromRow_def)
  obtain a where a: "account_of s (br_org_id r) = Some a"
    using run by (auto simp: settleReserved_def ok_simps lock_account_run sel split: option.splits)
  note delta = captureDeltas_row [OF inv credits]
  have "settleReserved now run ts e (reservationFromRow r) minutes credits s =
      andthen (finalizeRunMeter now run e minutes (charged r credits) ts) (\<lambda>_.
        andthen (UpdateBillingCapturedBalances now (br_org_id r) (- back_included r credits)
            (back_topup r credits)) (\<lambda>_.
          andthen (UpdateBillingCreditReservationCaptured now run (charged r credits)
              (br_reserved_credits r - charged r credits)
              (if charged r credits < br_reserved_credits r then ReservationReleased
               else ReservationCaptured)) (\<lambda>_. ret ()))) s"
    unfolding settleReserved_def sel andthen_run [of "LockBillingAccountForUpdate (br_org_id r)"]
      lock_account_run a Let_def charged_def [symmetric]
    by (simp add: r(2) delta sum i4)
  with run obtain u row v x where
    m: "finalizeRunMeter now run e minutes (charged r credits) ts s = (Inr (), u)"
    and c: "UpdateBillingCapturedBalances now (br_org_id r) (- back_included r credits)
      (back_topup r credits) u = (Inr row, v)"
    and f: "UpdateBillingCreditReservationCaptured now run (charged r credits)
      (br_reserved_credits r - charged r credits)
      (if charged r credits < br_reserved_credits r then ReservationReleased else ReservationCaptured) v
        = (Inr x, t)"
    by (auto simp: andthen_Inr)
  note frame = meter_finalize_frame [OF m]
  from capture_balances_run [OF c] a frame
  have v: "v = u\<lparr>billing_accounts := replace_rows (\<lambda>x. ba_org_id x = br_org_id r)
      (captured_row now a (- back_included r credits) (back_topup r credits)) (billing_accounts u)\<rparr>"
    by (auto simp: account_of_def)
  have "reservation_of v run = Some r"
    using r(1) frame v by (simp add: reservation_of_def)
  with capture_reservation_run [OF f]
  have "t = v\<lparr>billing_credit_reservations := replace_rows (\<lambda>x. br_run_id x = run)
      (settled_row now r credits) (billing_credit_reservations v)\<rparr>"
    unfolding settled_row_def by fastforce
  with that [OF a] v frame show thesis by simp
qed

lemma finalizeRunTx_not_reserved:
  assumes run: "finalizeRunTx now run ts e s = (Inr (), t)"
    and not: "\<not> (\<exists>m r. meter_of s run = Some m \<and> bm_terminal_state m = [] \<and>
      reservation_of s run = Some r \<and> br_status r = ReservationReserved)"
  obtains (still) "billing_accounts t = billing_accounts s"
      "billing_credit_reservations t = billing_credit_reservations s"
  | (comped) r n where "reservation_of s run = Some r" "br_status r = ReservationComped"
      "billing_accounts t = billing_accounts s"
      "billing_credit_reservations t = replace_rows (\<lambda>x. br_run_id x = run)
         (r\<lparr>br_captured_credits := n, br_released_credits := 0, br_status := ReservationComped,
            br_updated_at := Some now\<rparr>) (billing_credit_reservations s)"
proof -
  have "(billing_accounts t = billing_accounts s \<and>
      billing_credit_reservations t = billing_credit_reservations s) \<or>
    (\<exists>r u n x. reservation_of s run = Some r \<and> br_status r = ReservationComped \<and>
      billing_accounts u = billing_accounts s \<and>
      billing_credit_reservations u = billing_credit_reservations s \<and>
      UpdateBillingCreditReservationCaptured now run n 0 ReservationComped u = (Inr x, t))"
    using run not
    by (fastforce simp: finalizeRunTx_def ok_simps get_meter_run get_reservation_run Let_def
        runMeterFromRow_def reservationFromRow_def dest!: meter_finalize_frame
        split: option.splits if_splits prod.splits)
  then show thesis
    by (elim disjE exE conjE capture_reservation_run)
      (use still comped in \<open>auto simp: reservation_of_def\<close>)
qed

lemma finalizeRunTx_reserved:
  assumes run: "finalizeRunTx now run ts e s = (Inr (), t)"
    and m: "meter_of s run = Some m" "bm_terminal_state m = []"
    and r: "reservation_of s run = Some r" "br_status r = ReservationReserved"
  obtains ts' minutes where
    "settleReserved now run ts' e (reservationFromRow r) minutes (billed m e) s = (Inr (), t)"
proof -
  obtain minutes where bill: "BillableCredits (StartedAt (runMeterFromRow m)) e
      (rm_Multiplier (runMeterFromRow m)) = (minutes, billed m e)"
    by (cases "BillableCredits (StartedAt (runMeterFromRow m)) e (rm_Multiplier (runMeterFromRow m))")
      (simp add: billed_def runMeterFromRow_def)
  have "TerminalState (runMeterFromRow m) = []" "res_Status (reservationFromRow r) = ReservationReserved"
    using m(2) r(2) by (simp_all add: runMeterFromRow_def reservationFromRow_def)
  then have "settleReserved now run (if ts = [] then ''unknown'' else ts) e (reservationFromRow r)
      minutes (billed m e) s = (Inr (), t)"
    using run
    by (simp add: finalizeRunTx_def attempt_run get_meter_run get_reservation_run Let_def m(1) r(1) bill
        reservation_codes)
  with that show thesis by blast
qed

text \<open>The three things a successful finalisation can have done to accounts and reservations.\<close>

lemma FinalizeRun_outcome:
  assumes ok: "billing_ok s" and pos: "\<forall>r \<in> set (billing_credit_reservations s).
      br_status r = ReservationReserved \<longrightarrow> 0 < br_reserved_credits r"
    and run: "FinalizeRun True now run ts e s = (Inr (), t)"
    and ended: "ended = (if is_zero_time e then now else e)"
  obtains (still) "billing_accounts t = billing_accounts s"
      "billing_credit_reservations t = billing_credit_reservations s"
  | (comped) r n where "reservation_of s run = Some r" "br_status r = ReservationComped"
      "billing_accounts t = billing_accounts s"
      "billing_credit_reservations t = replace_rows (\<lambda>x. br_run_id x = run)
         (r\<lparr>br_captured_credits := n, br_released_credits := 0, br_status := ReservationComped,
            br_updated_at := Some now\<rparr>) (billing_credit_reservations s)"
  | (settled) r a m where "reservation_of s run = Some r" "br_status r = ReservationReserved"
      "meter_of s run = Some m" "bm_terminal_state m = []" "account_of s (br_org_id r) = Some a"
      "billing_accounts t = replace_rows (\<lambda>x. ba_org_id x = br_org_id r)
         (captured_row now a (- back_included r (billed m ended)) (back_topup r (billed m ended)))
         (billing_accounts s)"
      "billing_credit_reservations t = replace_rows (\<lambda>x. br_run_id x = run)
         (settled_row now r (billed m ended)) (billing_credit_reservations s)"
proof (cases "run = []")
  case True
  with run still show thesis by (simp add: FinalizeRun_def)
next
  case False
  then have tx: "finalizeRunTx now run ts ended s = (Inr (), t)"
    using run by (simp add: FinalizeRun_def Let_def ended)
  show thesis
  proof (cases "\<exists>m r. meter_of s run = Some m \<and> bm_terminal_state m = [] \<and>
      reservation_of s run = Some r \<and> br_status r = ReservationReserved")
    case False
    from finalizeRunTx_not_reserved [OF tx False] still comped show thesis by blast
  next
    case True
    then obtain m r where m: "meter_of s run = Some m" "bm_terminal_state m = []"
      and r: "reservation_of s run = Some r" "br_status r = ReservationReserved" by blast
    then have p: "0 < br_reserved_credits r"
      using pos by (auto simp: reservation_of_def dest: find_SomeD)
    from finalizeRunTx_reserved [OF tx m r] obtain ts' minutes where
      "settleReserved now run ts' ended (reservationFromRow r) minutes (billed m ended) s = (Inr (), t)" .
    from settle_outcome [OF ok r(1) p billed_nonneg this] settled [OF r m] show thesis by blast
  qed
qed

end
