(* ===== verification/Billing_Conservation.thy ===== *)
theory Billing_Conservation
  imports Billing_Ledger
begin

text \<open>
  The ledger of an organisation: its balance, the credits its open reservations hold and the
  credits its settled reservations captured. Admissions and finalisations, in any order and
  number, succeeding or failing, move credits between the three and keep their sum.
\<close>

definition holds :: "reservation_row \<Rightarrow> int" where
  "holds r = (if br_status r = ReservationReserved then br_reserved_credits r else 0)"

definition holds_included :: "reservation_row \<Rightarrow> int" where
  "holds_included r = (if br_status r = ReservationReserved then br_from_included_credits r else 0)"

definition kept :: "reservation_row \<Rightarrow> int" where
  "kept r = (if br_status r \<in> {ReservationCaptured, ReservationReleased}
             then br_captured_credits r else 0)"

definition of_org :: "string \<Rightarrow> (reservation_row \<Rightarrow> int) \<Rightarrow> reservation_row \<Rightarrow> int" where
  "of_org org h r = (if br_org_id r = org then h r else 0)"

definition org_total :: "billing_db \<Rightarrow> string \<Rightarrow> (reservation_row \<Rightarrow> int) \<Rightarrow> int" where
  "org_total s org h = sum_list (map (of_org org h) (billing_credit_reservations s))"

definition org_balance :: "billing_db \<Rightarrow> string \<Rightarrow> int" where
  "org_balance s org = (case account_of s org of None \<Rightarrow> 0 | Some a \<Rightarrow> Balance (accountFromRow a))"

definition ledger :: "billing_db \<Rightarrow> string \<Rightarrow> int" where
  "ledger s org = org_balance s org + org_total s org holds + org_total s org kept"

text \<open>What an account counts as used covers what its open reservations took from it.\<close>

definition covered :: "billing_db \<Rightarrow> bool" where
  "covered s \<longleftrightarrow> (\<forall>org a. account_of s org = Some a \<longrightarrow>
     org_total s org holds_included \<le> ba_included_credits_used a)"

definition all_positive :: "billing_db \<Rightarrow> bool" where
  "all_positive s \<longleftrightarrow> (\<forall>r \<in> set (billing_credit_reservations s).
     br_status r = ReservationReserved \<longrightarrow> 0 < br_reserved_credits r)"

definition ledger_ok :: "billing_db \<Rightarrow> bool" where
  "ledger_ok s \<longleftrightarrow> billing_ok s \<and> covered s \<and> all_positive s"

text \<open>The admissions of the service: it asks for a positive number of credits, or for none when
  the account it read is comped. (A request for no credits on an account that is charged is one
  the store would accept and the service never makes; its run would be metered beyond what it
  reserved.)\<close>

definition is_comped :: "billing_db \<Rightarrow> string \<Rightarrow> bool" where
  "is_comped s org \<longleftrightarrow> (case account_of s org of None \<Rightarrow> False | Some a \<Rightarrow> ba_billing_exempt a)"

definition service_asks :: "billing_db \<Rightarrow> string \<Rightarrow> int \<Rightarrow> bool" where
  "service_asks s org credits \<longleftrightarrow> int4 credits \<and> (1 \<le> credits \<or> credits = 0 \<and> is_comped s org)"

lemma service_asksD:
  assumes "service_asks s org credits"
  shows "0 \<le> credits" "int4 credits"
    and "account_of s org = Some a \<Longrightarrow> \<not> ba_billing_exempt a \<Longrightarrow> 0 < credits"
  using assms by (auto simp: service_asks_def is_comped_def)

inductive run_step :: "billing_db \<Rightarrow> billing_db \<Rightarrow> bool" where
  admitted: "service_asks s org credits \<Longrightarrow>
     AdmitRun True now org run credits fl started s = (r, t) \<Longrightarrow> run_step s t"
| finalized: "FinalizeRun True now run state ended s = (r, t) \<Longrightarrow> run_step s t"

section \<open>Totals\<close>

lemma of_org_nonneg: "(\<And>r. 0 \<le> h r) \<Longrightarrow> 0 \<le> of_org org h r"
  by (simp add: of_org_def)

lemma org_total_append:
  assumes "billing_credit_reservations t = billing_credit_reservations s @ [r]"
  shows "org_total t org h = org_total s org h + of_org org h r"
  using assms by (simp add: org_total_def)

lemma org_total_replace:
  assumes "billing_ok s" and "reservation_of s run = Some r"
    and "billing_credit_reservations t = replace_rows (\<lambda>x. br_run_id x = run) r' (billing_credit_reservations s)"
  shows "org_total t org h = org_total s org h - of_org org h r + of_org org h r'"
  using assms reservations.sum_replace [of "billing_credit_reservations s" run r "of_org org h" r']
  by (simp add: org_total_def billing_ok_def table_inv_def reservation_of_def)

lemma holds_included_le_total:
  assumes ok: "billing_ok s" and r: "reservation_of s run = Some r"
  shows "of_org org holds_included r \<le> org_total s org holds_included"
proof -
  have "r \<in> set (billing_credit_reservations s)"
    using r by (auto simp: reservation_of_def dest: find_SomeD)
  moreover have "\<forall>x \<in> set (billing_credit_reservations s). 0 \<le> of_org org holds_included x"
    using ok by (auto simp: billing_ok_def table_inv_def reservation_inv_def reservation_row_ok_def
        of_org_def holds_included_def)
  ultimately show ?thesis
    unfolding org_total_def by (intro member_le_sum_list) auto
qed

lemma account_of_replace:
  assumes "account_of s k = Some a" and "ba_org_id a' = k"
    and "billing_accounts t = replace_rows (\<lambda>x. ba_org_id x = k) a' (billing_accounts s)"
  shows "account_of t org = (if org = k then Some a' else account_of s org)"
  using assms by (auto simp: account_of_def find_replace_same intro!: find_replace_other)

lemma unchanged_ledger:
  assumes "billing_accounts t = billing_accounts s"
    and "billing_credit_reservations t = billing_credit_reservations s"
  shows "ledger t org = ledger s org" and "covered t = covered s" and "all_positive t = all_positive s"
  using assms
  by (simp_all add: ledger_def org_balance_def org_total_def account_of_def covered_def all_positive_def)

lemma row_totals [simp]:
  "holds (new_reservation now run org n i tp ReservationReserved) = n"
  "holds_included (new_reservation now run org n i tp ReservationReserved) = i"
  "kept (new_reservation now run org n i tp ReservationReserved) = 0"
  "holds (new_reservation now run org n i tp ReservationComped) = 0"
  "holds_included (new_reservation now run org n i tp ReservationComped) = 0"
  "kept (new_reservation now run org n i tp ReservationComped) = 0"
  "holds (settled_row now r c) = 0" "holds_included (settled_row now r c) = 0"
  "kept (settled_row now r c) = charged r c"
  by (simp_all add: holds_def holds_included_def kept_def new_reservation_def settled_row_def
      reservation_codes)

lemma row_orgs [simp]:
  "br_org_id (new_reservation now run org n i tp st) = org"
  "br_org_id (settled_row now r c) = br_org_id r"
  "ba_org_id (reserved_row now a i tp) = ba_org_id a"
  "ba_org_id (captured_row now a i tp) = ba_org_id a"
  by (simp_all add: new_reservation_def settled_row_def reserved_row_def captured_row_def)

section \<open>Admission keeps the ledger\<close>

lemma reserved_row_balance:
  assumes "account_inv a" and "0 \<le> credits" and "credits \<le> Balance (accountFromRow a)"
  shows "Balance (accountFromRow (reserved_row now a (included_part a credits) (credits - included_part a credits)))
    = Balance (accountFromRow a) - credits"
  using assms
  by (cases "credits \<le> ba_included_credits a - ba_included_credits_used a")
    (simp_all add: Balance_def IncludedRemaining_def reserved_row_def included_part_def account_inv_def)

lemma admit_ledger:
  assumes ok: "ledger_ok s" and asks: "service_asks s org credits"
    and run: "AdmitRun True now org run credits fl started s = (Inr (res, acct), t)"
  shows "ledger t o' = ledger s o' \<and> covered t \<and> all_positive t"
proof (cases "reservation_of s run")
  case (Some e)
  from unchanged_ledger [OF AdmitRun_existing(2,3) [OF this run]] ok show ?thesis
    by (simp add: ledger_ok_def)
next
  case None
  have bok: "billing_ok s" and cov: "covered s" and pos: "all_positive s" using ok by (auto simp: ledger_ok_def)
  note credits = service_asksD [OF asks]
  from bok credits(1,2) None run show ?thesis
  proof (cases rule: AdmitRun_new)
    case (comped a)
    note tot = org_total_append [OF comped(6)]
    have acc: "account_of t o'' = account_of s o''" for o''
      using comped(3) by (simp add: account_of_def)
    have "all_positive t"
      using pos comped(6) by (auto simp: all_positive_def new_reservation_def reservation_codes)
    then show ?thesis
      using cov by (auto simp: ledger_def org_balance_def covered_def tot acc of_org_def)
  next
    case (reserved a)
    have inv: "account_inv a" and oid: "ba_org_id a = org"
      using account_of_inv [OF bok reserved(1)] by auto
    note tot = org_total_append [OF reserved(7)]
    note acc = account_of_replace [OF reserved(1) _ reserved(6), simplified row_orgs oid, OF refl]
    note bal = reserved_row_balance [OF inv credits(1) reserved(3)]
    have "all_positive t"
      using pos reserved(7) credits(3) [OF reserved(1,2)]
      by (auto simp: all_positive_def new_reservation_def)
    moreover have "covered t"
      using cov reserved(1) by (auto simp: covered_def tot acc of_org_def reserved_row_def)
    moreover have "ledger t o' = ledger s o'"
      using reserved(1) by (auto simp: ledger_def org_balance_def tot acc bal of_org_def)
    ultimately show ?thesis by blast
  qed
qed

section \<open>Finalisation keeps the ledger\<close>

lemma captured_row_used:
  assumes "account_inv a" and "0 \<le> bi" and "bi \<le> ba_included_credits_used a" and "0 \<le> bt"
  shows "ba_included_credits_used (captured_row now a (- bi) bt) = ba_included_credits_used a - bi"
    and "Balance (accountFromRow (captured_row now a (- bi) bt)) = Balance (accountFromRow a) + bi + bt"
  using assms
  by (auto simp: captured_row_def Balance_def IncludedRemaining_def account_inv_def account_row_ok_def)

lemma all_positive_replace:
  assumes "all_positive s" and "br_status r' \<noteq> ReservationReserved"
    and "billing_credit_reservations t = replace_rows p r' (billing_credit_reservations s)"
  shows "all_positive t"
  using assms reservations.set_replace_rows [of p r' "billing_credit_reservations s"]
  by (auto simp: all_positive_def)

lemma finalize_ledger:
  assumes ok: "ledger_ok s" and run: "FinalizeRun True now run state ended s = (Inr (), t)"
  shows "ledger t o' = ledger s o' \<and> covered t \<and> all_positive t"
proof -
  have bok: "billing_ok s" and cov: "covered s" and pos: "all_positive s" using ok by (auto simp: ledger_ok_def)
  from bok pos [unfolded all_positive_def] run refl show ?thesis
  proof (cases rule: FinalizeRun_outcome)
    case still
    from unchanged_ledger [OF still] cov pos show ?thesis by simp
  next
    case (comped r n)
    note tot = org_total_replace [OF bok comped(1) comped(4)]
    have acc: "account_of t o'' = account_of s o''" for o''
      using comped(3) by (simp add: account_of_def)
    have "all_positive t"
      by (rule all_positive_replace [OF pos _ comped(4)]) (simp add: reservation_codes)
    then show ?thesis
      using cov comped(2)
      by (auto simp: ledger_def org_balance_def covered_def tot acc of_org_def holds_def
          holds_included_def kept_def reservation_codes)
  next
    case (settled r a m)
    let ?c = "billed m (if is_zero_time ended then now else ended)"
    have inv: "reservation_inv r" using reservation_of_inv [OF bok settled(1)] by simp
    note bounds = back_bounds [OF inv billed_nonneg, of m "if is_zero_time ended then now else ended"]
    have ainv: "account_inv a" and oid: "ba_org_id a = br_org_id r"
      using account_of_inv [OF bok settled(5)] by auto
    have "of_org (br_org_id r) holds_included r \<le> org_total s (br_org_id r) holds_included"
      by (rule holds_included_le_total [OF bok settled(1)])
    then have used: "br_from_included_credits r \<le> ba_included_credits_used a"
      using cov settled(2,5) by (force simp: covered_def of_org_def holds_included_def)
    then have "back_included r ?c \<le> ba_included_credits_used a" using bounds(2) by linarith
    note new = captured_row_used [OF ainv bounds(1) this bounds(3)]
    note tot = org_total_replace [OF bok settled(1,7)]
    note acc = account_of_replace [OF settled(5) _ settled(6), simplified row_orgs oid, OF refl]
    have sum: "back_included r ?c + back_topup r ?c = br_reserved_credits r - charged r ?c"
      by (simp add: back_topup_def)
    have "all_positive t"
      by (rule all_positive_replace [OF pos _ settled(7)]) (simp add: settled_row_def reservation_codes)
    moreover have "org_total t k holds_included \<le> ba_included_credits_used b"
      if b: "account_of t k = Some b" for k b
    proof (cases "k = br_org_id r")
      case True
      have "org_total s (br_org_id r) holds_included \<le> ba_included_credits_used a"
        using cov settled(5) by (simp add: covered_def)
      with True b bounds(2) settled(2) show ?thesis
        by (simp add: tot acc of_org_def holds_included_def [of r], auto simp: new(1))
    next
      case False
      with b cov show ?thesis by (simp add: covered_def tot acc of_org_def)
    qed
    then have "covered t" by (simp add: covered_def)
    moreover have "ledger t o' = ledger s o'"
      using settled(2,5) sum
      by (cases "o' = br_org_id r") (simp_all add: ledger_def org_balance_def tot acc new of_org_def holds_def [of r] kept_def [of r]
          reservation_codes)
    ultimately show ?thesis by blast
  qed
qed

section \<open>Runs\<close>

lemma AdmitRun_failed: "AdmitRun True now org run n fl st s = (Inl e, t) \<Longrightarrow> t = s"
  by (simp add: AdmitRun_def Let_def)

lemma FinalizeRun_failed: "FinalizeRun True now run state e s = (Inl err, t) \<Longrightarrow> t = s"
  by (simp add: FinalizeRun_def Let_def split: if_splits)

lemma run_step_ledger:
  assumes "run_step s t" and ok: "ledger_ok s"
  shows "ledger_ok t \<and> ledger t org = ledger s org"
  using assms(1)
proof cases
  case (admitted org' credits now run fl started r)
  have "billing_ok t"
    using keeps_invD [OF keeps_AdmitRun [OF service_asksD(2) [OF admitted(1)]] _ admitted(2)] ok by (simp add: ledger_ok_def)
  then show ?thesis
    using admitted ok admit_ledger [OF ok admitted(1)]
    by (cases r) (auto simp: ledger_ok_def dest: AdmitRun_failed)
next
  case (finalized now run state ended r)
  have "billing_ok t"
    using keeps_invD [OF keeps_FinalizeRun _ finalized(1)] ok by (simp add: ledger_ok_def)
  then show ?thesis
    using finalized ok finalize_ledger [OF ok]
    by (cases r) (auto simp: ledger_ok_def dest: FinalizeRun_failed)
qed

lemma run_steps_ledger:
  "run_step\<^sup>*\<^sup>* s t \<Longrightarrow> ledger_ok s \<Longrightarrow> ledger_ok t \<and> ledger t org = ledger s org"
  by (induction rule: rtranclp_induct) (use run_step_ledger in fastforce)+

end
