(* ===== verification/Billing_Topup.thy ===== *)
theory Billing_Topup
  imports Billing_Ledger
begin

text \<open>
  internal/billing/topup.go: the loop that buys top-up units until an account can admit a run.

  The purchase is a call to the payment provider between two transactions. It is a parameter: a
  computation on the database state, because the provider's webhook may be handled meanwhile,
  that answers with an invoice id or an error. \<open>sha\<close> stands for the hex digest of the first half
  of SHA-256. \<open>clock i\<close> is the time of the i-th pass of the loop, and the loop is given as much
  \<open>fuel\<close> as passes may be needed: None means that it is still running.
\<close>

record attempt =
  at_account :: account
  at_idempotencyKey :: string
  at_target :: int
  at_topupUnitCents :: int
  at_shouldPurchase :: bool

definition autoTopupIdempotencyKey ::
  "(string \<Rightarrow> string) \<Rightarrow> string \<Rightarrow> string \<Rightarrow> string \<Rightarrow> int \<Rightarrow> int \<Rightarrow> string" where
  "autoTopupIdempotencyKey sha org planCode billingMonth nextUnit topupUnitCents =
     ''hetchy-auto-topup-'' @ sha (org @ ''|'' @ planCode @ ''|'' @ billingMonth @ ''|'' @
       itoa nextUnit @ ''|'' @ itoa topupUnitCents)"

text \<open>The decision of an attempt, from the locked account and settings.\<close>

definition no_purchase :: "account \<Rightarrow> attempt" where
  "no_purchase a = \<lparr>at_account = a, at_idempotencyKey = [], at_target = 0, at_topupUnitCents = 0,
     at_shouldPurchase = False\<rparr>"

definition decideTopup ::
  "(string \<Rightarrow> string) \<Rightarrow> string \<Rightarrow> int \<Rightarrow> bool \<Rightarrow> int \<Rightarrow> account \<Rightarrow> topup_settings \<Rightarrow> attempt" where
  "decideTopup sha org reserveCredits triggered target0 account settings =
     (if \<not> AutoTopupEnabled settings \<or> (\<not> triggered \<and> TriggerThreshold settings < Balance account)
      then no_purchase account
      else
        let target = (if target0 \<le> 0 then max (TargetBalance settings) reserveCredits else target0);
            topupUnitCents = topupUnitCentsForPlan (PlanCode account)
        in if target \<le> Balance account \<or>
              (0 < MonthlyMaxCents settings \<and>
               MonthlyMaxCents settings < MonthlySpendCentsUsed settings + topupUnitCents)
           then no_purchase account
           else \<lparr>at_account = account,
                 at_idempotencyKey = autoTopupIdempotencyKey sha org (PlanCode account)
                   (MonthlyAnchorMonth settings) (MonthlyUnitsUsed settings + 1) topupUnitCents,
                 at_target = target, at_topupUnitCents = topupUnitCents, at_shouldPurchase = True\<rparr>)"

definition prepareAutoTopupAttempt ::
  "(string \<Rightarrow> string) \<Rightarrow> go_time \<Rightarrow> string \<Rightarrow> int \<Rightarrow> bool \<Rightarrow> int \<Rightarrow> (billing_db, attempt) go" where
  "prepareAutoTopupAttempt sha now org reserveCredits triggered target =
     with_tx (andthen (LockBillingAccountForUpdate org) (\<lambda>row.
       andthen (ensureTopupSettings now org) (\<lambda>_.
         andthen (LockBillingTopupSettingsForUpdate org) (\<lambda>settingsRow.
           ret (decideTopup sha org reserveCredits triggered target (accountFromRow row)
             (topupSettingsFromRow settingsRow))))))"

definition grantTopupCreditsForInvoice ::
  "go_time \<Rightarrow> string \<Rightarrow> string \<Rightarrow> int \<Rightarrow> (billing_db, account \<times> bool) go" where
  "grantTopupCreditsForInvoice now invoiceID org credits =
     (let grant = andthen (GrantBillingTopupCredits now org (int32 credits))
        (\<lambda>row. ret (accountFromRow row, True))
      in if invoiceID \<noteq> [] then
           andthen (InsertBillingStripeEvent invoiceID ''invoice.paid'' org) (\<lambda>inserted.
             if \<not> inserted then
               andthen (GetBillingAccount org) (\<lambda>row. ret (accountFromRow row, False))
             else grant)
         else grant)"

definition incrementTopupMonthlyUsage ::
  "go_time \<Rightarrow> string \<Rightarrow> int \<Rightarrow> int \<Rightarrow> (billing_db, topup_settings) go" where
  "incrementTopupMonthlyUsage now org units cents =
     andthen (wrap_err ''increment monthly top-up usage''
        (IncrementBillingTopupMonthlyUsage now org (int32 (max units 0)) (int32 (max cents 0))
          (currentBillingMonth now now)))
       (\<lambda>row. ret (topupSettingsFromRow row))"

definition completeAutoTopupAttempt ::
  "go_time \<Rightarrow> string \<Rightarrow> string \<Rightarrow> int \<Rightarrow> (billing_db, account) go" where
  "completeAutoTopupAttempt now org invoiceID topupUnitCents =
     with_tx (andthen (LockBillingAccountForUpdate org) (\<lambda>_.
       andthen (ensureTopupSettings now org) (\<lambda>_.
         andthen (LockBillingTopupSettingsForUpdate org) (\<lambda>_.
           andthen (grantTopupCreditsForInvoice now (trim_space invoiceID) org TopupUnitCredits)
             (\<lambda>res. case res of (updated, processed) \<Rightarrow>
               if processed then
                 andthen (incrementTopupMonthlyUsage now org 1 topupUnitCents) (\<lambda>_. ret updated)
               else ret updated)))))"

definition ErrAutoTopupNotConfigured :: go_error where
  "ErrAutoTopupNotConfigured = ErrNew ''billing: auto top-up is not configured''"

type_synonym purchase = "account \<Rightarrow> string \<Rightarrow> (billing_db, string) go"

fun autoTopupLoop ::
  "(string \<Rightarrow> string) \<Rightarrow> (nat \<Rightarrow> go_time) \<Rightarrow> purchase option \<Rightarrow> string \<Rightarrow> int \<Rightarrow> nat \<Rightarrow> nat \<Rightarrow>
   bool \<Rightarrow> int \<Rightarrow> billing_db \<Rightarrow> ((go_error + account) \<times> billing_db) option" where
  "autoTopupLoop sha clock purchase org reserveCredits 0 i triggered target s = None"
| "autoTopupLoop sha clock purchase org reserveCredits (Suc fuel) i triggered target s =
     (case prepareAutoTopupAttempt sha (clock i) org reserveCredits triggered target s of
        (Inl e, s1) \<Rightarrow> Some (Inl e, s1)
      | (Inr att, s1) \<Rightarrow>
          let account = at_account att in
          if \<not> at_shouldPurchase att then
            if Balance account < reserveCredits
            then Some (Inl (InsufficientCreditsError reserveCredits (Balance account)), s1)
            else Some (Inr account, s1)
          else case purchase of
            None \<Rightarrow> Some (Inl ErrAutoTopupNotConfigured, s1)
          | Some buy \<Rightarrow>
              (case buy account (at_idempotencyKey att) s1 of
                 (Inl e, s2) \<Rightarrow> Some (Inl (AutoTopupPaymentError e), s2)
               | (Inr invoiceID, s2) \<Rightarrow>
                   let grantKey = (if trim_space invoiceID = [] then at_idempotencyKey att
                                   else trim_space invoiceID)
                   in case completeAutoTopupAttempt (clock i) org grantKey (at_topupUnitCents att) s2 of
                        (Inl e, s3) \<Rightarrow> Some (Inl e, s3)
                      | (Inr updated, s3) \<Rightarrow>
                          if at_target att \<le> Balance updated then Some (Inr updated, s3)
                          else autoTopupLoop sha clock purchase org reserveCredits fuel (Suc i) True
                                 (at_target att) s3))"

definition AutoTopup ::
  "bool \<Rightarrow> (string \<Rightarrow> string) \<Rightarrow> (nat \<Rightarrow> go_time) \<Rightarrow> nat \<Rightarrow> string \<Rightarrow> int \<Rightarrow> purchase option \<Rightarrow> billing_db \<Rightarrow>
   ((go_error + account) \<times> billing_db) option" where
  "AutoTopup en sha clock fuel org reserveCredits purchase s =
     (if \<not> en then Some (Inl ErrNoRows, s)
      else autoTopupLoop sha clock purchase org reserveCredits fuel 0 False 0 s)"

section \<open>Single passes\<close>

lemma decideTopup_purchase:
  assumes "at_shouldPurchase (decideTopup sha org n trig tg a st)"
  shows "AutoTopupEnabled st" and "Balance a < at_target (decideTopup sha org n trig tg a st)"
    and "at_target (decideTopup sha org n trig tg a st) = (if tg \<le> 0 then max (TargetBalance st) n else tg)"
    and "at_account (decideTopup sha org n trig tg a st) = a"
    and "at_topupUnitCents (decideTopup sha org n trig tg a st) = topupUnitCentsForPlan (PlanCode a)"
    and "0 < MonthlyMaxCents st \<longrightarrow>
      MonthlySpendCentsUsed st + topupUnitCentsForPlan (PlanCode a) \<le> MonthlyMaxCents st"
  using assms by (auto simp: decideTopup_def no_purchase_def Let_def split: if_splits)

lemma decideTopup_account [simp]: "at_account (decideTopup sha org n trig tg a st) = a"
  by (simp add: decideTopup_def no_purchase_def Let_def)

definition topup_of :: "billing_db \<Rightarrow> string \<Rightarrow> topup_row option" where
  "topup_of s org = find (\<lambda>r. bt_org_id r = org) (billing_topup_settings s)"

definition has_event :: "billing_db \<Rightarrow> string \<Rightarrow> bool" where
  "has_event s ev \<longleftrightarrow> find (\<lambda>r. se_event_id r = ev) (billing_stripe_events s) \<noteq> None"

lemma lock_topup_run:
  "LockBillingTopupSettingsForUpdate org s =
     (case topup_of s org of None \<Rightarrow> (Inl ErrNoRows, s) | Some r \<Rightarrow> (Inr r, s))"
  by (simp add: LockBillingTopupSettingsForUpdate_def sql_get_def topup_of_def)

text \<open>Settings queries leave the accounts, reservations and events alone.\<close>

lemma ensureTopup_frame:
  assumes "ensureTopupSettings now org s = (res, t)"
  shows "billing_accounts t = billing_accounts s \<and> billing_stripe_events t = billing_stripe_events s \<and>
    billing_credit_reservations t = billing_credit_reservations s"
  using assms
  by (auto simp: ensureTopupSettings_def EnsureBillingTopupSettings_def ResetBillingTopupMonthlyUsage_def
      update_topup_def andthen_def wrap_err_def sql_defs Let_def
      split: option.splits sum.splits prod.splits if_splits)

lemma increment_frame:
  assumes "incrementTopupMonthlyUsage now org u c s = (res, t)"
  shows "billing_accounts t = billing_accounts s \<and> billing_stripe_events t = billing_stripe_events s"
  using assms
  by (auto simp: incrementTopupMonthlyUsage_def IncrementBillingTopupMonthlyUsage_def
      update_topup_def andthen_def wrap_err_def sql_defs
      split: option.splits sum.splits prod.splits)

lemma keeps_grantForInvoice: "keeps_inv billing_ok (grantTopupCreditsForInvoice now iv org n)"
  unfolding grantTopupCreditsForInvoice_def Let_def by (intro keeps keeps_queries)

lemma keeps_complete: "keeps_inv billing_ok (completeAutoTopupAttempt now org iv c)"
  unfolding completeAutoTopupAttempt_def incrementTopupMonthlyUsage_def split_beta
  by (intro keeps keeps_queries keeps_ensureTopupSettings keeps_grantForInvoice)

lemma keeps_prepare: "keeps_inv billing_ok (prepareAutoTopupAttempt sha now org n trig tg)"
  unfolding prepareAutoTopupAttempt_def
  by (intro keeps keeps_queries keeps_ensureTopupSettings)

text \<open>A pass that completes grants one unit for a new invoice and nothing for a known one.\<close>

lemma granted_balance:
  assumes "GrantBillingTopupCredits now org n s = (Inr row, t)"
  obtains a where "account_of s org = Some a" "account_of t org = Some row"
    "Balance (accountFromRow row) = Balance (accountFromRow a) + n"
proof -
  from assms obtain a where a: "account_of s org = Some a"
    "row = a\<lparr>ba_topup_credits := ba_topup_credits a + n, ba_last_payment_error := [],
       ba_updated_at := Some now\<rparr>"
    and t: "t = s\<lparr>billing_accounts := replace_rows (\<lambda>r. ba_org_id r = org) row (billing_accounts s)\<rparr>"
    unfolding GrantBillingTopupCredits_def update_account_def
    by (elim accounts.update_cases) (auto simp: account_of_def)
  then have "ba_org_id row = org" by (auto simp: account_of_def dest: find_SomeD)
  with a t have "account_of t org = Some row"
    by (simp add: account_of_def find_replace_same)
  with a that show thesis by (simp add: Balance_def IncludedRemaining_def)
qed

lemma int32_unit [simp]: "int32 TopupUnitCredits = 100"
  by (simp add: TopupUnitCredits_def int32_def)

lemma complete_new_invoice:
  assumes run: "completeAutoTopupAttempt now org iv c s = (Inr acct, t)"
    and new: "trim_space iv \<noteq> []" "\<not> has_event s (trim_space iv)"
  obtains a b where "account_of s org = Some a" "account_of t org = Some b" "acct = accountFromRow b"
    "Balance acct = Balance (accountFromRow a) + 100"
proof -
  from run obtain s1 st where e: "ensureTopupSettings now org s = (Inr st, s1)"
    by (auto simp: completeAutoTopupAttempt_def ok_simps lock_account_run split: option.splits)
  note fr = ensureTopup_frame [OF e]
  have "InsertBillingStripeEvent (trim_space iv) ''invoice.paid'' org s1 =
      (Inr True, snd (InsertBillingStripeEvent (trim_space iv) ''invoice.paid'' org s1))"
    using new(2) fr
    by (auto simp: InsertBillingStripeEvent_def sql_insert_once_def has_event_def Let_def split: option.splits)
  with run e new(1) obtain s2 row s3 where
    i: "InsertBillingStripeEvent (trim_space iv) ''invoice.paid'' org s1 = (Inr True, s2)"
    and gr: "GrantBillingTopupCredits now org 100 s2 = (Inr row, s3)"
    and acct: "acct = accountFromRow row"
    and inc: "\<exists>x. incrementTopupMonthlyUsage now org 1 c s3 = (Inr x, t)"
    by (auto simp: completeAutoTopupAttempt_def ok_simps lock_account_run lock_topup_run Let_def
        grantTopupCreditsForInvoice_def split: option.splits if_splits)
  have "account_of s2 org = account_of s org"
    using i fr by (auto simp: InsertBillingStripeEvent_def sql_insert_once_def account_of_def Let_def
        split: option.splits)
  moreover have "account_of t org = account_of s3 org"
    using inc increment_frame by (auto simp: account_of_def)
  ultimately show thesis
    using granted_balance [OF gr] that acct by metis
qed

lemma complete_known_invoice:
  assumes run: "completeAutoTopupAttempt now org iv c s = (Inr acct, t)"
    and old: "trim_space iv \<noteq> []" "has_event s (trim_space iv)"
  shows "billing_accounts t = billing_accounts s" and "account_of s org \<noteq> None"
    and "acct = accountFromRow (the (account_of s org))"
    and "has_event t (trim_space iv)"
proof -
  from run obtain s1 st where e: "ensureTopupSettings now org s = (Inr st, s1)"
    by (auto simp: completeAutoTopupAttempt_def ok_simps lock_account_run split: option.splits)
  note fr = ensureTopup_frame [OF e]
  have "InsertBillingStripeEvent (trim_space iv) ''invoice.paid'' org s1 = (Inr False, s1)"
    using old(2) fr
    by (auto simp: InsertBillingStripeEvent_def sql_insert_once_def has_event_def Let_def split: option.splits)
  with run e old(1) have "t = s1 \<and> (\<exists>a. account_of s1 org = Some a \<and> acct = accountFromRow a)"
    by (auto simp: completeAutoTopupAttempt_def ok_simps lock_account_run lock_topup_run Let_def
        grantTopupCreditsForInvoice_def GetBillingAccount_def sql_get_def account_of_def
        split: option.splits if_splits)
  with fr old(2) show "billing_accounts t = billing_accounts s" "account_of s org \<noteq> None"
    "acct = accountFromRow (the (account_of s org))" "has_event t (trim_space iv)"
    by (auto simp: account_of_def has_event_def)
qed

section \<open>The loop ends when every purchase brings a new invoice\<close>

text \<open>
  A provider that leaves the accounts to this loop and never repeats an invoice. Each pass then
  adds a unit, so the balance passes the target after finitely many.
\<close>

definition fresh_purchases :: "purchase \<Rightarrow> bool" where
  "fresh_purchases buy \<longleftrightarrow>
     (\<forall>a k s iv t. buy a k s = (Inr iv, t) \<longrightarrow> billing_accounts t = billing_accounts s \<and>
        trim_space iv \<noteq> [] \<and> \<not> has_event t (trim_space iv))"

lemma prepare_run:
  assumes "prepareAutoTopupAttempt sha now org n trig tg s = (Inr att, t)" and ok: "billing_ok s"
  obtains a st where "account_of s org = Some a" "account_of t org = Some a"
    "att = decideTopup sha org n trig tg (accountFromRow a) st" "TargetBalance st < 2147483648"
proof -
  from assms(1) obtain a st r where a: "account_of s org = Some a"
    and e: "ensureTopupSettings now org s = (Inr st, t)" and r: "topup_of t org = Some r"
    and att: "att = decideTopup sha org n trig tg (accountFromRow a) (topupSettingsFromRow r)"
    by (auto simp: prepareAutoTopupAttempt_def ok_simps lock_account_run lock_topup_run
        split: option.splits)
  have "billing_ok t" by (rule keeps_invD [OF keeps_ensureTopupSettings ok e])
  then have "topup_inv r"
    using r by (auto simp: billing_ok_def table_inv_def topup_of_def dest: find_SomeD)
  then have "TargetBalance (topupSettingsFromRow r) < 2147483648"
    by (simp add: topup_inv_def topup_row_int4_def int4_def topupSettingsFromRow_def)
  with a att show thesis using ensureTopup_frame [OF e] that by (auto simp: account_of_def)
qed

text \<open>What one pass of a running loop leaves behind, and where it stops.\<close>

lemma loop_stops:
  assumes "prepareAutoTopupAttempt sha (clock i) org n trig tg s = (r, t)"
    and "\<And>att. r = Inr att \<Longrightarrow> \<not> at_shouldPurchase att"
  shows "\<exists>x. autoTopupLoop sha clock buy org n (Suc k) i trig tg s = Some x"
  using assms by (cases r) (auto simp: Let_def)

lemma loop_continues:
  assumes prep: "prepareAutoTopupAttempt sha (clock i) org n trig tg s = (Inr att, t)"
    and buys: "at_shouldPurchase att"
    and rest: "\<And>iv u acct v. buy (at_account att) (at_idempotencyKey att) t = (Inr iv, u) \<Longrightarrow>
      completeAutoTopupAttempt (clock i) org
        (if trim_space iv = [] then at_idempotencyKey att else trim_space iv)
        (at_topupUnitCents att) u = (Inr acct, v) \<Longrightarrow>
      \<exists>x. autoTopupLoop sha clock (Some buy) org n k (Suc i) True (at_target att) v = Some x"
  shows "\<exists>x. autoTopupLoop sha clock (Some buy) org n (Suc k) i trig tg s = Some x"
proof (cases "buy (at_account att) (at_idempotencyKey att) t")
  case (Pair r u)
  show ?thesis
  proof (cases r)
    case (Inl e)
    with prep buys Pair show ?thesis by (simp add: Let_def)
  next
    case (Inr iv)
    let ?key = "if trim_space iv = [] then at_idempotencyKey att else trim_space iv"
    obtain q v where c: "completeAutoTopupAttempt (clock i) org ?key (at_topupUnitCents att) u = (q, v)"
      by (metis prod.collapse)
    show ?thesis
    proof (cases q)
      case (Inl e)
      with prep buys Pair Inr c show ?thesis by (simp add: Let_def)
    next
      case (Inr acct)
      with rest [of iv u acct v] prep buys Pair c \<open>r = Inr iv\<close> show ?thesis
        by (simp add: Let_def)
    qed
  qed
qed

lemma loop_enough_fuel:
  assumes fresh: "fresh_purchases buy" and keep: "\<And>a k. keeps_inv billing_ok (buy a k)"
    and T: "2147483648 \<le> T" "n \<le> T"
    and "tg \<le> T" and "billing_ok s"
    and "\<And>a. account_of s org = Some a \<Longrightarrow> T \<le> Balance (accountFromRow a) + 100 * int k"
  shows "\<exists>r. autoTopupLoop sha clock (Some buy) org n (Suc k) i trig tg s = Some r"
  using assms(5-)
proof (induction k arbitrary: s i trig tg)
  case (0 s i trig tg)
  obtain r t where prep: "prepareAutoTopupAttempt sha (clock i) org n trig tg s = (r, t)"
    by (metis prod.collapse)
  have "\<not> at_shouldPurchase att" if r: "r = Inr att" for att
  proof
    assume buys: "at_shouldPurchase att"
    from prep [unfolded r] "0"(2) obtain a st where a: "account_of s org = Some a"
      and att: "att = decideTopup sha org n trig tg (accountFromRow a) st"
      and st: "TargetBalance st < 2147483648" by (rule prepare_run)
    have "Balance (accountFromRow a) < (if tg \<le> 0 then max (TargetBalance st) n else tg)"
      using buys decideTopup_purchase(2,3) unfolding att by metis
    with "0"(1,3) a st T show False by (auto split: if_splits)
  qed
  with prep show ?case by (rule loop_stops)
next
  case (Suc k s i trig tg)
  obtain r t where prep: "prepareAutoTopupAttempt sha (clock i) org n trig tg s = (r, t)"
    by (metis prod.collapse)
  show ?case
  proof (cases "\<exists>att. r = Inr att \<and> at_shouldPurchase att")
    case False
    with prep show ?thesis by (intro loop_stops) auto
  next
    case True
    then obtain att where r: "r = Inr att" and buys: "at_shouldPurchase att" by blast
    from prep [unfolded r] Suc.prems(2) obtain a st where a: "account_of s org = Some a"
      and a': "account_of t org = Some a"
      and att: "att = decideTopup sha org n trig tg (accountFromRow a) st"
      and st: "TargetBalance st < 2147483648" by (rule prepare_run)
    have "at_target att = (if tg \<le> 0 then max (TargetBalance st) n else tg)"
      using buys decideTopup_purchase(3) unfolding att by metis
    with T st Suc.prems(1) have target: "at_target att \<le> T" by (auto split: if_splits)
    have t_ok: "billing_ok t"
      by (rule keeps_invD [OF keeps_prepare Suc.prems(2) prep])
    from prep [unfolded r] buys show ?thesis
    proof (rule loop_continues)
      fix iv u acct v
      assume b: "buy (at_account att) (at_idempotencyKey att) t = (Inr iv, u)"
        and c: "completeAutoTopupAttempt (clock i) org
          (if trim_space iv = [] then at_idempotencyKey att else trim_space iv)
          (at_topupUnitCents att) u = (Inr acct, v)"
      have new: "billing_accounts u = billing_accounts t" "trim_space iv \<noteq> []"
        "\<not> has_event u (trim_space iv)"
        using fresh b by (auto simp: fresh_purchases_def)
      have u_ok: "billing_ok u" by (rule keeps_invD [OF keep t_ok b])
      have v_ok: "billing_ok v" by (rule keeps_invD [OF keeps_complete u_ok c])
      from c new(2,3) obtain a2 b2 where
        "account_of u org = Some a2" and b2: "account_of v org = Some b2"
        "Balance (accountFromRow b2) = Balance (accountFromRow a2) + 100"
        by (auto elim!: complete_new_invoice)
      with a' new(1) have "Balance (accountFromRow b2) = Balance (accountFromRow a) + 100"
        by (simp add: account_of_def)
      with Suc.prems(3) [OF a] b2(1) target v_ok show
        "\<exists>x. autoTopupLoop sha clock (Some buy) org n (Suc k) (Suc i) True (at_target att) v = Some x"
        by (intro Suc.IH) auto
    qed
  qed
qed

section \<open>The loop when the webhook wins the race\<close>

text \<open>
  The provider as the payment webhook sees it: the same idempotency key always brings the same
  paid invoice, and its invoice.paid event is handled (stripe_webhook.go, handleStripeInvoicePaid)
  before the purchase call returns to the loop.
\<close>

definition webhook_first :: "(string \<Rightarrow> string) \<Rightarrow> go_time \<Rightarrow> string \<Rightarrow> purchase" where
  "webhook_first invoice now org = (\<lambda>a key.
     andthen (GrantTopupCreditsOnce True now (invoice key) ''invoice.paid'' org 100)
       (\<lambda>_. ret (invoice key)))"

definition race_org :: string where "race_org = ''org''"

definition race_db :: billing_db where
  "race_db = \<lparr>
     billing_accounts = [(default_account_row 0 race_org)\<lparr>ba_plan_code := ''team'',
       ba_included_credits_used := 25\<rparr>],
     billing_topup_settings = [(default_topup_row 0 ''1970-01'' race_org)\<lparr>
       bt_auto_topup_enabled := True, bt_target_balance := 150, bt_monthly_max_cents := 100000\<rparr>],
     billing_credit_reservations = [], billing_run_meters = [], repo_billing_settings = [],
     billing_stripe_events = [], agent_run_ids = []\<rparr>"

definition race_key :: string where
  "race_key = autoTopupIdempotencyKey (\<lambda>x. x) race_org ''team'' ''1970-01'' 1 2200"

text \<open>The state after the first pass: one unit granted by the webhook, none counted by the loop.\<close>

definition raced_db :: billing_db where
  "raced_db = race_db\<lparr>
     billing_accounts := [(default_account_row 0 race_org)\<lparr>ba_plan_code := ''team'',
       ba_included_credits_used := 25, ba_topup_credits := 100\<rparr>],
     billing_stripe_events := [\<lparr>se_event_id =
        ''in_'' @ race_key,
        se_event_type = ''invoice.paid'', se_org_id = race_org\<rparr>]\<rparr>"

lemma month_zero: "currentBillingMonth 0 0 = ''1970-01''"
  by code_simp

lemma race_topup_row: "billing_topup_settings race_db = [r] \<Longrightarrow> topup_row_ok r \<and> topup_row_int4 r"
  by (auto simp: race_db_def default_topup_row_def topup_row_ok_def topup_row_int4_def int4_def)

lemma team_cents: "topupUnitCentsForPlan ''team'' = 2200"
  by code_simp

lemma race_settings:
  assumes "s = race_db \<or> s = raced_db"
  shows "ensureTopupSettings 0 race_org s =
     (Inr (topupSettingsFromRow (hd (billing_topup_settings race_db))), s)"
  using assms
  by (auto simp: ensureTopupSettings_def EnsureBillingTopupSettings_def sql_upsert_def sql_update_def
      andthen_run wrap_err_def month_zero Let_def topupSettingsFromRow_def raced_db_def race_db_def
      default_topup_row_def replace_rows_def check_row_def topup_constraints_def topup_row_ok_def
      topup_row_int4_def int4_def default_account_row_def)

lemma race_lookups:
  "account_of race_db race_org = Some (hd (billing_accounts race_db))"
  "account_of raced_db race_org = Some (hd (billing_accounts raced_db))"
  "topup_of race_db race_org = Some (hd (billing_topup_settings race_db))"
  "topup_of raced_db race_org = Some (hd (billing_topup_settings race_db))"
  by (simp_all add: account_of_def topup_of_def race_db_def raced_db_def default_account_row_def
      default_topup_row_def)

lemma race_passes:
  "prepareAutoTopupAttempt (\<lambda>x. x) 0 race_org 12 False 0 race_db =
     (Inr \<lparr>at_account = accountFromRow (hd (billing_accounts race_db)),
        at_idempotencyKey = race_key,
        at_target = 150, at_topupUnitCents = 2200, at_shouldPurchase = True\<rparr>, race_db)"
  "prepareAutoTopupAttempt (\<lambda>x. x) 0 race_org 12 True 150 raced_db =
     (Inr \<lparr>at_account = accountFromRow (hd (billing_accounts raced_db)),
        at_idempotencyKey = race_key,
        at_target = 150, at_topupUnitCents = 2200, at_shouldPurchase = True\<rparr>, raced_db)"
  by (simp_all add: prepareAutoTopupAttempt_def with_tx_def andthen_run lock_account_run lock_topup_run
      race_settings race_lookups)
    (simp_all add: race_db_def raced_db_def default_account_row_def default_topup_row_def
      topupSettingsFromRow_def decideTopup_def Balance_def IncludedRemaining_def Let_def team_cents
      race_key_def)

lemma race_key_clean: "trim_space (''in_'' @ race_key) = ''in_'' @ race_key"
proof (rule trim_space_clean)
  have "itoa 2200 = ''2200''" by code_simp
  then have "last (''in_'' @ race_key) = CHR ''0''"
    by (simp add: race_key_def autoTopupIdempotencyKey_def)
  then show "\<not> is_space (last (''in_'' @ race_key))" by (simp add: is_space_def)
qed (simp_all add: is_space_def)

text \<open>The webhook's grant on both states: once for the invoice, not again.\<close>

lemma race_purchases:
  "webhook_first ((@) ''in_'') 0 race_org a race_key race_db = (Inr (''in_'' @ race_key), raced_db)"
  "webhook_first ((@) ''in_'') 0 race_org a race_key raced_db = (Inr (''in_'' @ race_key), raced_db)"
  by (simp_all add: webhook_first_def GrantTopupCreditsOnce_def grantTopupCreditsOnceTx_def
      InsertBillingStripeEvent_def EnsureBillingAccount_def GrantBillingTopupCredits_def
      GetBillingAccount_def update_account_def upsert_account_def sql_defs andthen_run wrap_err_def
      with_tx_def Let_def check_row_def account_constraints_def account_row_ok_def
      account_row_int4_def int4_def int32_def flavor_column_values_def
      race_db_def raced_db_def default_account_row_def replace_rows_def)

lemma race_completes:
  "completeAutoTopupAttempt 0 race_org (''in_'' @ race_key) 2200 raced_db =
     (Inr (accountFromRow (hd (billing_accounts raced_db))), raced_db)"
proof -
  have "InsertBillingStripeEvent (''in_'' @ race_key) ''invoice.paid'' race_org raced_db = (Inr False, raced_db)"
    by (simp add: InsertBillingStripeEvent_def sql_insert_once_def raced_db_def)
  moreover have "GetBillingAccount race_org raced_db = (Inr (hd (billing_accounts raced_db)), raced_db)"
    using race_lookups(2) by (simp add: GetBillingAccount_def sql_get_def account_of_def)
  ultimately show ?thesis
    by (simp add: completeAutoTopupAttempt_def with_tx_def andthen_run lock_account_run lock_topup_run
        race_settings race_lookups grantTopupCreditsForInvoice_def race_key_clean [simplified] Let_def)
qed

lemma raced_balance: "Balance (accountFromRow (hd (billing_accounts raced_db))) = 100"
  by (simp add: raced_db_def race_db_def default_account_row_def Balance_def IncludedRemaining_def)

end
