(* ===== verification/Billing_Service.thy ===== *)
theory Billing_Service
  imports Billing_Topup
begin

text \<open>
  internal/billing/service.go: the service over the interface serviceStore. The interface is a
  record of operations, so the service's code is the same for every store; the locale
  \<open>service_store\<close> states what the service relies on, and the store of the package is its
  interpretation.
\<close>

text \<open>
  An operation that loops until it is done answers None while it still runs.
\<close>

type_synonym ('s, 'a) running = "'s \<Rightarrow> ((go_error + 'a) \<times> 's) option"

record 's service_ops =
  ss_Enabled :: bool
  ss_EnsureAccount :: "string \<Rightarrow> ('s, account) go"
  ss_RepoFlavor :: "string \<Rightarrow> string \<Rightarrow> string \<Rightarrow> ('s, flavor) go"
  ss_AdmitRun :: "string \<Rightarrow> string \<Rightarrow> int \<Rightarrow> flavor \<Rightarrow> go_time \<Rightarrow> ('s, reservation \<times> account) go"
  ss_AutoTopup :: "string \<Rightarrow> int \<Rightarrow> ('s, account) running"
  ss_SetLastPaymentError :: "string \<Rightarrow> string \<Rightarrow> ('s, unit) go"
  ss_FinalizeRun :: "string \<Rightarrow> string \<Rightarrow> go_time \<Rightarrow> ('s, unit) go"
  ss_Overview :: "string \<Rightarrow> int \<Rightarrow> ('s, overview) go"
  ss_UpdateTopupSettings :: "string \<Rightarrow> topup_settings \<Rightarrow> ('s, topup_settings) go"
  ss_ListRepoSettings :: "string \<Rightarrow> ('s, string \<rightharpoonup> repo_setting) go"
  ss_SetRepoFlavor :: "string \<Rightarrow> string \<Rightarrow> string \<Rightarrow> string \<Rightarrow> ('s, repo_setting) go"
  ss_SetStripeCustomer :: "string \<Rightarrow> string \<Rightarrow> ('s, account) go"
  ss_FindAccountByStripeCustomer :: "string \<Rightarrow> ('s, account) go"
  ss_UpsertAccountMirror :: "account_mirror \<Rightarrow> ('s, account) go"
  ss_SetBillingExempt :: "string \<Rightarrow> bool \<Rightarrow> ('s, account) go"
  ss_ListAccountOrgIDs :: "('s, string list) go"
  ss_ListBillingExemptOrgIDs :: "('s, string list) go"
  ss_SetPendingPlanChange :: "string \<Rightarrow> string \<Rightarrow> go_time \<Rightarrow> ('s, account) go"
  ss_ClearPendingPlanChange :: "string \<Rightarrow> ('s, account) go"
  ss_GrantTopupCredits :: "string \<Rightarrow> int \<Rightarrow> ('s, account) go"
  ss_GrantTopupCreditsOnce :: "string \<Rightarrow> string \<Rightarrow> string \<Rightarrow> int \<Rightarrow> ('s, account \<times> bool) go"

record admission =
  adm_Account :: account
  adm_Flavor :: flavor
  adm_ReservedCredits :: int
  adm_Comped :: bool
  adm_AvailableCredits :: int

definition MissingIDs :: go_error where
  "MissingIDs = ErrNew ''billing: org_id and run_id required''"

text \<open>errors.AsType: the first payment error in the chain of wrapped errors.\<close>

fun as_payment_error :: "go_error \<Rightarrow> go_error option" where
  "as_payment_error (AutoTopupPaymentError e) = Some e"
| "as_payment_error (Wrapped m e) = as_payment_error e"
| "as_payment_error (Joined a b) = (case as_payment_error a of Some e \<Rightarrow> Some e | None \<Rightarrow> as_payment_error b)"
| "as_payment_error e = None"

definition maybeAutoTopup ::
  "(go_error \<Rightarrow> string) \<Rightarrow> 's service_ops \<Rightarrow> string \<Rightarrow> int \<Rightarrow> ('s, account) running" where
  "maybeAutoTopup pg ops org reserveCredits = (\<lambda>s.
     case ss_AutoTopup ops org reserveCredits s of
       None \<Rightarrow> None
     | Some (Inr updated, t) \<Rightarrow> Some (Inr updated, t)
     | Some (Inl e, t) \<Rightarrow>
         (case as_payment_error e of
            None \<Rightarrow> Some (Inl e, t)
          | Some pe \<Rightarrow> Some (Inl e, snd (ss_SetLastPaymentError ops org (err_text pg pe) t))))"

definition AdmitRun_store ::
  "'s service_ops \<Rightarrow> admission_request \<Rightarrow> flavor \<Rightarrow> int \<Rightarrow> ('s, admission) go" where
  "AdmitRun_store ops req flavor reserveCredits =
     andthen (ss_AdmitRun ops (req_OrgID req) (req_RunID req) reserveCredits flavor (req_StartedAt req))
       (\<lambda>res. case res of (r, account) \<Rightarrow>
          ret \<lparr>adm_Account = account, adm_Flavor = flavor, adm_ReservedCredits = ReservedCredits r,
               adm_Comped = False, adm_AvailableCredits = Balance account\<rparr>)"

definition AdmitRun_svc ::
  "(go_error \<Rightarrow> string) \<Rightarrow> 's service_ops \<Rightarrow> admission_request \<Rightarrow> ('s, admission) running" where
  "AdmitRun_svc pg ops req = (\<lambda>s.
     if \<not> ss_Enabled ops
     then Some (Inr \<lparr>adm_Account = zero_account, adm_Flavor = MustFlavor FlavorStandard,
       adm_ReservedCredits = 0, adm_Comped = False, adm_AvailableCredits = 0\<rparr>, s)
     else if req_RunID req = [] \<or> req_OrgID req = [] then Some (Inl MissingIDs, s)
     else case ss_EnsureAccount ops (req_OrgID req) s of
       (Inl e, s1) \<Rightarrow> Some (Inl e, s1)
     | (Inr account, s1) \<Rightarrow>
         (case ss_RepoFlavor ops (req_OrgID req) (req_GitHubOwner req) (req_GitHubRepo req) s1 of
            (Inl e, s2) \<Rightarrow> Some (Inl e, s2)
          | (Inr flavor, s2) \<Rightarrow>
              if BillingExempt account then
                Some (andthen (ss_AdmitRun ops (req_OrgID req) (req_RunID req) 0 flavor (req_StartedAt req))
                  (\<lambda>_. ret \<lparr>adm_Account = account, adm_Flavor = flavor, adm_ReservedCredits = 0,
                     adm_Comped = True, adm_AvailableCredits = Balance account\<rparr>) s2)
              else if \<not> FlavorAllowed (fl_Code flavor) (MaxFlavor account) then
                Some (Inl (FlavorNotAllowedError (fl_Code flavor) (MaxFlavor account)), s2)
              else
                let reserveCredits = max (PerRunMaxCredits account) (max (fl_Multiplier flavor) 1)
                in if Balance account < reserveCredits then
                     (case maybeAutoTopup pg ops (OrgID account) reserveCredits s2 of
                        None \<Rightarrow> None
                      | Some (Inl e, s3) \<Rightarrow> Some (Inl e, s3)
                      | Some (Inr account', s3) \<Rightarrow> Some (AdmitRun_store ops req flavor reserveCredits s3))
                   else Some (AdmitRun_store ops req flavor reserveCredits s2)))"

definition FinalizeRun_svc :: "'s service_ops \<Rightarrow> string \<Rightarrow> string \<Rightarrow> go_time \<Rightarrow> ('s, unit) go" where
  "FinalizeRun_svc ops runID terminalState endedAt =
     (if \<not> ss_Enabled ops then ret () else ss_FinalizeRun ops runID terminalState endedAt)"

text \<open>
  The other methods: with billing switched off they answer the zero value and leave the store
  alone, otherwise they are the store's.
\<close>

definition zero_topup_settings :: topup_settings where
  "zero_topup_settings = \<lparr>ts_OrgID = [], AutoTopupEnabled = False, TriggerThreshold = 0,
     TargetBalance = 0, MonthlyMaxUnits = 0, MonthlyUnitsUsed = 0, MonthlyMaxCents = 0,
     MonthlySpendCentsUsed = 0, MonthlyAnchorMonth = [], ts_CreatedAt = zero_time,
     ts_UpdatedAt = zero_time\<rparr>"

definition zero_overview :: overview where
  "zero_overview = \<lparr>ov_Account = zero_account, ov_TopupSettings = zero_topup_settings,
     ov_RecentMeters = [], ov_AllowedFlavors = []\<rparr>"

definition Overview_svc :: "'s service_ops \<Rightarrow> string \<Rightarrow> ('s, overview) go" where
  "Overview_svc ops org = (if \<not> ss_Enabled ops then ret zero_overview else ss_Overview ops org 10)"

definition SetRepoFlavor_svc ::
  "'s service_ops \<Rightarrow> string \<Rightarrow> string \<Rightarrow> string \<Rightarrow> string \<Rightarrow> ('s, repo_setting) go" where
  "SetRepoFlavor_svc ops org owner repo flavor =
     (if \<not> ss_Enabled ops
      then ret \<lparr>rs_OrgID = org, rs_GitHubOwner = owner, rs_GitHubRepo = repo,
        rs_Flavor = FlavorStandard, rs_CreatedAt = zero_time, rs_UpdatedAt = zero_time\<rparr>
      else ss_SetRepoFlavor ops org owner repo flavor)"

definition UpdateTopupSettings_svc :: "'s service_ops \<Rightarrow> string \<Rightarrow> topup_settings \<Rightarrow> ('s, topup_settings) go" where
  "UpdateTopupSettings_svc ops org settings =
     (if \<not> ss_Enabled ops then ret zero_topup_settings else ss_UpdateTopupSettings ops org settings)"

definition ListRepoSettings_svc :: "'s service_ops \<Rightarrow> string \<Rightarrow> ('s, string \<rightharpoonup> repo_setting) go" where
  "ListRepoSettings_svc ops org =
     (if \<not> ss_Enabled ops then ret Map.empty else ss_ListRepoSettings ops org)"

definition SetStripeCustomer_svc :: "'s service_ops \<Rightarrow> string \<Rightarrow> string \<Rightarrow> ('s, account) go" where
  "SetStripeCustomer_svc ops org customer =
     (if \<not> ss_Enabled ops then ret zero_account else ss_SetStripeCustomer ops org customer)"

definition FindAccountByStripeCustomer_svc :: "'s service_ops \<Rightarrow> string \<Rightarrow> ('s, account) go" where
  "FindAccountByStripeCustomer_svc ops customer =
     (if \<not> ss_Enabled ops then ret zero_account else ss_FindAccountByStripeCustomer ops customer)"

definition UpsertAccountMirror_svc :: "'s service_ops \<Rightarrow> account_mirror \<Rightarrow> ('s, account) go" where
  "UpsertAccountMirror_svc ops mirror =
     (if \<not> ss_Enabled ops then ret zero_account else ss_UpsertAccountMirror ops mirror)"

definition SetBillingExempt_svc :: "'s service_ops \<Rightarrow> string \<Rightarrow> bool \<Rightarrow> ('s, account) go" where
  "SetBillingExempt_svc ops org exempt =
     (if \<not> ss_Enabled ops then ret zero_account else ss_SetBillingExempt ops org exempt)"

definition ListAccountOrgIDs_svc :: "'s service_ops \<Rightarrow> ('s, string list) go" where
  "ListAccountOrgIDs_svc ops =
     (if \<not> ss_Enabled ops then ret [] else ss_ListAccountOrgIDs ops)"

definition ListBillingExemptOrgIDs_svc :: "'s service_ops \<Rightarrow> ('s, string list) go" where
  "ListBillingExemptOrgIDs_svc ops =
     (if \<not> ss_Enabled ops then ret [] else ss_ListBillingExemptOrgIDs ops)"

definition SetPendingPlanChange_svc :: "'s service_ops \<Rightarrow> string \<Rightarrow> string \<Rightarrow> go_time \<Rightarrow> ('s, account) go" where
  "SetPendingPlanChange_svc ops org planCode effectiveAt =
     (if \<not> ss_Enabled ops then ret zero_account else ss_SetPendingPlanChange ops org planCode effectiveAt)"

definition ClearPendingPlanChange_svc :: "'s service_ops \<Rightarrow> string \<Rightarrow> ('s, account) go" where
  "ClearPendingPlanChange_svc ops org =
     (if \<not> ss_Enabled ops then ret zero_account else ss_ClearPendingPlanChange ops org)"

definition GrantTopupCredits_svc :: "'s service_ops \<Rightarrow> string \<Rightarrow> int \<Rightarrow> ('s, account) go" where
  "GrantTopupCredits_svc ops org credits =
     (if \<not> ss_Enabled ops then ret zero_account else ss_GrantTopupCredits ops org credits)"

definition GrantTopupCreditsOnce_svc :: "'s service_ops \<Rightarrow> string \<Rightarrow> string \<Rightarrow> string \<Rightarrow> int \<Rightarrow> ('s, account \<times> bool) go" where
  "GrantTopupCreditsOnce_svc ops eventID eventType org credits =
     (if \<not> ss_Enabled ops then ret (zero_account, False) else ss_GrantTopupCreditsOnce ops eventID eventType org credits)"

definition SetLastPaymentError_svc :: "'s service_ops \<Rightarrow> string \<Rightarrow> string \<Rightarrow> ('s, unit) go" where
  "SetLastPaymentError_svc ops org msg =
     (if \<not> ss_Enabled ops then ret () else ss_SetLastPaymentError ops org msg)"

text \<open>The credits an admission reserves, and the ways the admission of a known account ends.\<close>

definition reserve_credits :: "account \<Rightarrow> flavor \<Rightarrow> int" where
  "reserve_credits account fl = max (PerRunMaxCredits account) (max (fl_Multiplier fl) 1)"

lemma admission_cases:
  assumes "AdmitRun_svc pg ops req s = Some (r, t)" and "ss_Enabled ops"
    and "req_RunID req \<noteq> []" and "req_OrgID req \<noteq> []"
    and "ss_EnsureAccount ops (req_OrgID req) s = (Inr account, s1)"
    and "ss_RepoFlavor ops (req_OrgID req) (req_GitHubOwner req) (req_GitHubRepo req) s1 = (Inr fl, s2)"
  obtains
    (comped) "BillingExempt account"
      "andthen (ss_AdmitRun ops (req_OrgID req) (req_RunID req) 0 fl (req_StartedAt req))
        (\<lambda>_. ret \<lparr>adm_Account = account, adm_Flavor = fl, adm_ReservedCredits = 0,
           adm_Comped = True, adm_AvailableCredits = Balance account\<rparr>) s2 = (r, t)"
  | (refused) "\<not> FlavorAllowed (fl_Code fl) (MaxFlavor account)"
      "r = Inl (FlavorNotAllowedError (fl_Code fl) (MaxFlavor account))" "t = s2"
  | (unpaid) e where "maybeAutoTopup pg ops (OrgID account) (reserve_credits account fl) s2 = Some (Inl e, t)"
      "r = Inl e"
  | (topped_up) a s3 where
      "maybeAutoTopup pg ops (OrgID account) (reserve_credits account fl) s2 = Some (Inr a, s3)"
      "AdmitRun_store ops req fl (reserve_credits account fl) s3 = (r, t)"
  | (covered) "reserve_credits account fl \<le> Balance account"
      "AdmitRun_store ops req fl (reserve_credits account fl) s2 = (r, t)"
proof -
  note steps = assms(1) [unfolded AdmitRun_svc_def]
  show thesis
  proof (cases "BillingExempt account")
    case True
    with steps assms(2-6) show ?thesis by (intro comped) simp_all
  next
    case exempt: False
    show ?thesis
    proof (cases "FlavorAllowed (fl_Code fl) (MaxFlavor account)")
      case False
      with steps assms(2-6) exempt show ?thesis by (intro refused) simp_all
    next
      case True
      note rest = steps assms(2-6) exempt True
      show ?thesis
      proof (cases "Balance account < reserve_credits account fl")
        case False
        with rest show ?thesis
          by (intro covered) (simp_all add: Let_def flip: reserve_credits_def)
      next
        case True
        with rest show ?thesis
          by (cases "maybeAutoTopup pg ops (OrgID account) (reserve_credits account fl) s2")
            (auto simp: Let_def simp flip: reserve_credits_def split: sum.splits
              intro: unpaid topped_up)
      qed
    qed
  qed
qed

section \<open>What the service relies on\<close>

locale service_store =
  fixes ops :: "'s service_ops" and ok :: "'s \<Rightarrow> bool"
  assumes ensure_keeps: "keeps_inv ok (ss_EnsureAccount ops org)"
    and flavor_keeps: "keeps_inv ok (ss_RepoFlavor ops org owner repo)"
    and admit_keeps: "int4 n \<Longrightarrow> keeps_inv ok (ss_AdmitRun ops org run n fl started)"
    and topup_keeps: "ok s \<Longrightarrow> ss_AutoTopup ops org n s = Some (r, t) \<Longrightarrow> ok t"
    and error_keeps: "keeps_inv ok (ss_SetLastPaymentError ops org msg)"
    and finalize_keeps: "keeps_inv ok (ss_FinalizeRun ops run st ended)"
    and ensure_caps: "ok s \<Longrightarrow> ss_EnsureAccount ops org s = (Inr a, t) \<Longrightarrow>
      int4 (PerRunMaxCredits a) \<and> 1 \<le> PerRunMaxCredits a"
    and flavor_known: "ss_RepoFlavor ops org owner repo s = (Inr fl, t) \<Longrightarrow>
      fl = standardFlavor \<or> fl = plusFlavor"
    and admit_reserves: "ok s \<Longrightarrow> 0 \<le> n \<Longrightarrow> int4 n \<Longrightarrow>
      ss_AdmitRun ops org run n fl started s = (Inr (rsv, acc), t) \<Longrightarrow> 0 \<le> Balance acc \<and> 0 \<le> ReservedCredits rsv"
begin

lemma topup_error_keeps:
  assumes "ok s" and "maybeAutoTopup pg ops org n s = Some (r, t)"
  shows "ok t"
  using assms topup_keeps [of s org n] keeps_at [where P = ok, OF error_keeps]
  by (auto simp: maybeAutoTopup_def split: option.splits prod.splits sum.splits)

lemma store_admission_keeps:
  "ok s \<Longrightarrow> int4 n \<Longrightarrow> AdmitRun_store ops req fl n s = (r, t) \<Longrightarrow> ok t"
  by (rule keeps_invD [of ok "AdmitRun_store ops req fl n" s r t])
    (auto simp: AdmitRun_store_def split_beta intro!: keeps admit_keeps)

lemma reserve_bound:
  assumes "int4 (PerRunMaxCredits a)" and "1 \<le> PerRunMaxCredits a"
    and "fl = standardFlavor \<or> fl = plusFlavor"
  shows "int4 (reserve_credits a fl)" and "0 \<le> reserve_credits a fl"
  using assms by (auto simp: int4_def reserve_credits_def)

text \<open>The service keeps the store's invariant, whatever branch it takes.\<close>

lemma admission_keeps:
  assumes s: "ok s" and run: "AdmitRun_svc pg ops req s = Some (r, t)"
  shows "ok t"
proof (cases "ss_Enabled ops \<and> req_RunID req \<noteq> [] \<and> req_OrgID req \<noteq> []")
  case False
  with assms show ?thesis by (auto simp: AdmitRun_svc_def split: if_splits)
next
  case True
  obtain ra s1 where e: "ss_EnsureAccount ops (req_OrgID req) s = (ra, s1)" by (metis prod.collapse)
  have s1: "ok s1" by (rule keeps_invD [OF ensure_keeps s e])
  show ?thesis
  proof (cases ra)
    case (Inl x)
    with True run e s1 show ?thesis by (simp add: AdmitRun_svc_def)
  next
    case (Inr account)
    note caps = ensure_caps [OF s e [unfolded Inr]]
    obtain rf s2 where f: "ss_RepoFlavor ops (req_OrgID req) (req_GitHubOwner req) (req_GitHubRepo req) s1 = (rf, s2)"
      by (metis prod.collapse)
    have s2: "ok s2" by (rule keeps_invD [OF flavor_keeps s1 f])
    show ?thesis
    proof (cases rf)
      case (Inl x)
      with True run e \<open>ra = _\<close> f s2 show ?thesis by (simp add: AdmitRun_svc_def)
    next
      case (Inr fl)
      have bound: "int4 (reserve_credits account fl)"
        using caps flavor_known [OF f [unfolded Inr]] by (intro reserve_bound) auto
      have exempt: "keeps_inv ok (andthen (ss_AdmitRun ops (req_OrgID req) (req_RunID req) 0 fl (req_StartedAt req))
          (\<lambda>_. ret x))" for x :: admission
        by (intro keeps admit_keeps) (simp add: int4_def)
      have ids: "ss_Enabled ops" "req_RunID req \<noteq> []" "req_OrgID req \<noteq> []"
        using True by simp_all
      show ?thesis
        using run ids e [unfolded \<open>ra = _\<close>] f [unfolded Inr]
      proof (cases rule: admission_cases)
        case comped
        with keeps_invD [OF exempt s2] show ?thesis by blast
      next
        case refused
        with s2 show ?thesis by simp
      next
        case (unpaid x)
        with topup_error_keeps [OF s2] show ?thesis by blast
      next
        case (topped_up a s3)
        with topup_error_keeps [OF s2] store_admission_keeps [OF _ bound] show ?thesis by blast
      next
        case covered
        with store_admission_keeps [OF s2 bound] show ?thesis by blast
      qed
    qed
  qed
qed

text \<open>An admission that was granted leaves a balance that is not negative.\<close>

lemma admission_balance:
  assumes s: "ok s" and en: "ss_Enabled ops"
    and run: "AdmitRun_svc pg ops req s = Some (Inr adm, t)" and paid: "\<not> adm_Comped adm"
  shows "0 \<le> adm_AvailableCredits adm" and "0 \<le> adm_ReservedCredits adm"
    and "adm_AvailableCredits adm = Balance (adm_Account adm)"
proof -
  have ids: "req_RunID req \<noteq> [] \<and> req_OrgID req \<noteq> []"
    using run en by (auto simp: AdmitRun_svc_def split: if_splits)
  from run en ids obtain account s1 where e: "ss_EnsureAccount ops (req_OrgID req) s = (Inr account, s1)"
    by (auto simp: AdmitRun_svc_def split: prod.splits sum.splits)
  from run en ids e obtain fl s2 where
    f: "ss_RepoFlavor ops (req_OrgID req) (req_GitHubOwner req) (req_GitHubRepo req) s1 = (Inr fl, s2)"
    by (auto simp: AdmitRun_svc_def split: prod.splits sum.splits)
  have s2: "ok s2" using keeps_invD [OF flavor_keeps keeps_invD [OF ensure_keeps s e] f] .
  define n where "n = reserve_credits account fl"
  have n: "int4 n" "0 \<le> n"
    using reserve_bound [OF _ _ flavor_known [OF f]] ensure_caps [OF s e] by (simp_all add: n_def)
  from run en ids [THEN conjunct1] ids [THEN conjunct2] e f
  obtain s3 where "ok s3" "AdmitRun_store ops req fl n s3 = (Inr adm, t)"
  proof (cases rule: admission_cases)
    case comped
    with paid show ?thesis by (auto simp: ok_simps)
  next
    case refused
    then show ?thesis by simp
  next
    case (unpaid x)
    then show ?thesis by simp
  next
    case (topped_up a s3)
    then show ?thesis using that [of s3] topup_error_keeps [OF s2] unfolding n_def by blast
  next
    case covered
    with that s2 show ?thesis by (simp add: n_def)
  qed
  then obtain r a where adm_run: "ss_AdmitRun ops (req_OrgID req) (req_RunID req) n fl (req_StartedAt req) s3 = (Inr (r, a), t)"
    and adm: "adm = \<lparr>adm_Account = a, adm_Flavor = fl, adm_ReservedCredits = ReservedCredits r,
      adm_Comped = False, adm_AvailableCredits = Balance a\<rparr>"
    by (auto simp: AdmitRun_store_def ok_simps split: prod.splits)
  from adm admit_reserves [OF \<open>ok s3\<close> n(2,1) adm_run] show "0 \<le> adm_AvailableCredits adm"
    "0 \<le> adm_ReservedCredits adm" "adm_AvailableCredits adm = Balance (adm_Account adm)"
    by auto
qed

end

section \<open>The store of the package\<close>

text \<open>
  The service's store: the methods of Store, with the purchase of the configured topupper. A
  purchase may only change the database as the store's own webhook handlers do, that is,
  keeping the invariant; the store checks none of it, so it is a hypothesis.
\<close>

definition package_store ::
  "bool \<Rightarrow> (string \<Rightarrow> string) \<Rightarrow> (nat \<Rightarrow> go_time) \<Rightarrow> nat \<Rightarrow> purchase option \<Rightarrow> billing_db service_ops" where
  "package_store en sha clock fuel buy = \<lparr>
     ss_Enabled = en,
     ss_EnsureAccount = EnsureAccount en (clock 0),
     ss_RepoFlavor = RepoFlavor en,
     ss_AdmitRun = AdmitRun en (clock 0),
     ss_AutoTopup = (\<lambda>org n. AutoTopup en sha clock fuel org n buy),
     ss_SetLastPaymentError = SetLastPaymentError en (clock 0),
     ss_FinalizeRun = FinalizeRun en (clock 0),
     ss_Overview = Overview en (clock 0),
     ss_UpdateTopupSettings = UpdateTopupSettings en (clock 0),
     ss_ListRepoSettings = ListRepoSettings en,
     ss_SetRepoFlavor = SetRepoFlavor en (clock 0),
     ss_SetStripeCustomer = SetStripeCustomer en (clock 0),
     ss_FindAccountByStripeCustomer = FindAccountByStripeCustomer en,
     ss_UpsertAccountMirror = UpsertAccountMirror en (clock 0),
     ss_SetBillingExempt = SetBillingExempt en (clock 0),
     ss_ListAccountOrgIDs = ListAccountOrgIDs en,
     ss_ListBillingExemptOrgIDs = ListBillingExemptOrgIDs en,
     ss_SetPendingPlanChange = SetPendingPlanChange en (clock 0),
     ss_ClearPendingPlanChange = ClearPendingPlanChange en (clock 0),
     ss_GrantTopupCredits = GrantTopupCredits en (clock 0),
     ss_GrantTopupCreditsOnce = GrantTopupCreditsOnce en (clock 0)\<rparr>"

definition harmless :: "purchase option \<Rightarrow> bool" where
  "harmless buy \<longleftrightarrow> (\<forall>b. buy = Some b \<longrightarrow> (\<forall>a k. keeps_inv billing_ok (b a k)))"

lemma loop_keeps:
  assumes "harmless buy" and "billing_ok s"
    and "autoTopupLoop sha clock buy org n fuel i trig tg s = Some (r, t)"
  shows "billing_ok t"
  using assms(2,3)
proof (induction fuel arbitrary: i trig tg s)
  case 0
  then show ?case by simp
next
  case (Suc fuel)
  obtain rp s1 where prep: "prepareAutoTopupAttempt sha (clock i) org n trig tg s = (rp, s1)"
    by (metis prod.collapse)
  have s1: "billing_ok s1" by (rule keeps_invD [OF keeps_prepare Suc.prems(1) prep])
  show ?case
  proof (cases "\<exists>att b. rp = Inr att \<and> at_shouldPurchase att \<and> buy = Some b")
    case False
    with Suc.prems(2) prep s1 show ?thesis
      by (cases rp) (auto simp: Let_def split: if_splits option.splits)
  next
    case True
    then obtain att b where a: "rp = Inr att" "at_shouldPurchase att" and b: "buy = Some b" by blast
    obtain rb s2 where buy: "b (at_account att) (at_idempotencyKey att) s1 = (rb, s2)"
      by (metis prod.collapse)
    have s2: "billing_ok s2"
      using assms(1) b keeps_invD [of billing_ok "b (at_account att) (at_idempotencyKey att)" s1 rb s2]
        s1 buy by (simp add: harmless_def)
    show ?thesis
    proof (cases rb)
      case (Inl e)
      with Suc.prems(2) prep a b buy s2 show ?thesis by (simp add: Let_def)
    next
      case (Inr iv)
      obtain rc s3 where c: "completeAutoTopupAttempt (clock i) org
          (if trim_space iv = [] then at_idempotencyKey att else trim_space iv)
          (at_topupUnitCents att) s2 = (rc, s3)" by (metis prod.collapse)
      have "billing_ok s3" by (rule keeps_invD [OF keeps_complete s2 c])
      with Suc.prems(2) Suc.IH [of s3] prep a b buy Inr c show ?thesis
        by (cases rc) (auto simp: Let_def split: if_splits)
    qed
  qed
qed

lemma AutoTopup_keeps:
  assumes "harmless buy" and "billing_ok s" and "AutoTopup en sha clock fuel org n buy s = Some (r, t)"
  shows "billing_ok t"
  using assms loop_keeps [OF assms(1,2)] by (auto simp: AutoTopup_def split: if_splits)

lemma EnsureAccount_row:
  assumes "EnsureAccount en now org s = (Inr a, t)" and "billing_ok s"
  obtains r where "account_inv r" "a = accountFromRow r" "account_of t org = Some r"
proof -
  have t: "billing_ok t" by (rule keeps_invD [OF keeps_EnsureAccount assms(2,1)])
  from assms(1) obtain r where "upsert_account (default_account_row now org) (\<lambda>r. r) s = (Inr r, t)"
    and a: "a = accountFromRow r"
    by (auto simp: EnsureAccount_def EnsureBillingAccount_def not_enabled_def ok_simps split: if_splits)
  then have "account_of t org = Some r"
    unfolding upsert_account_def
    by (elim accounts.upsert_cases)
      (auto simp: account_of_def default_account_row_def find_append
        intro: find_replace_same dest: find_SomeD)
  with t a that show thesis by (metis account_of_inv)
qed

lemma RepoFlavor_known:
  "RepoFlavor en org owner repo s = (Inr fl, t) \<Longrightarrow> fl = standardFlavor \<or> fl = plusFlavor"
  by (auto simp: RepoFlavor_def attempt_run dest: ParseFlavor_range
      split: if_splits prod.splits sum.splits) (use MustFlavor_range in metis)+

lemma AdmitRun_reserves:
  assumes ok: "billing_ok s" and n: "0 \<le> n" "int4 n"
    and run: "AdmitRun en now org run n fl started s = (Inr (r, a), t)"
  shows "0 \<le> Balance a \<and> 0 \<le> ReservedCredits r"
proof -
  have en: "en" using run by (cases en) (simp_all add: AdmitRun_def not_enabled_def)
  show ?thesis
  proof (cases "reservation_of s run")
    case (Some e)
    then have inv: "reservation_inv e" using ok by (simp add: reservation_of_inv)
    from run en Some obtain row where "account_of s org = Some row" "a = accountFromRow row"
      "r = reservationFromRow e"
      by (auto simp: AdmitRun_def admitRunTx_def Let_def ok_simps lock_account_run get_reservation_run
          split: option.splits)
    with inv account_of_inv [OF ok] show ?thesis
      by (force simp: Balance_row reservationFromRow_def reservation_inv_def reservation_row_ok_def
          account_inv_def account_row_ok_def)
  next
    case None
    from ok n None run [unfolded en [THEN eqTrueI]] show ?thesis
    proof (cases rule: AdmitRun_new)
      case (comped row)
      with account_of_inv [OF ok comped(1)] show ?thesis
        by (simp add: Balance_row reservationFromRow_def new_reservation_def account_inv_def account_row_ok_def)
    next
      case (reserved row)
      then have "reservation_row_ok (new_reservation now run org n (included_part row n) (n - included_part row n) ReservationReserved)"
        using n account_of_inv [OF ok reserved(1)] included_part_bounds
        by (simp add: new_reservation_def reservation_row_ok_def)
      with reserved n account_of_inv [OF ok reserved(1)] show ?thesis
        by (auto simp: Balance_def IncludedRemaining_def reserved_row_def reservationFromRow_def
            new_reservation_def included_part_def account_inv_def account_row_ok_def)
    qed
  qed
qed

lemma package_store_is_service_store:
  assumes "harmless buy"
  shows "service_store (package_store en sha clock fuel buy) billing_ok"
proof
  show "\<And>s org n r t. billing_ok s \<Longrightarrow>
      ss_AutoTopup (package_store en sha clock fuel buy) org n s = Some (r, t) \<Longrightarrow> billing_ok t"
    using AutoTopup_keeps [OF assms] by (simp add: package_store_def)
  show "\<And>s org a t. billing_ok s \<Longrightarrow> ss_EnsureAccount (package_store en sha clock fuel buy) org s = (Inr a, t) \<Longrightarrow>
      int4 (PerRunMaxCredits a) \<and> 1 \<le> PerRunMaxCredits a"
    by (auto simp: package_store_def account_inv_def account_row_ok_def account_row_int4_def
        elim!: EnsureAccount_row)
qed (use AdmitRun_reserves RepoFlavor_known in
    \<open>auto simp: package_store_def keeps_store keeps_AdmitRun\<close>)

interpretation billing_service: service_store "package_store en sha clock fuel None" billing_ok
  by (rule package_store_is_service_store) (simp add: harmless_def)

end
