(* ===== verification/Billing_Outcomes.thy ===== *)
theory Billing_Outcomes
  imports Billing_Conservation Billing_Service
begin

text \<open>
  What single billing operations come to, branch by branch: an admission as a total function of
  the account and the request, a second finalisation, the credits a finalisation charges, a grant
  that is repeated, the balance after a top-up, and the settings that are read back.
\<close>

section \<open>Admission\<close>

text \<open>The unique indexes on the accounts, which the database keeps.\<close>

definition stripe_ids_unique :: "billing_db \<Rightarrow> bool" where
  "stripe_ids_unique s \<longleftrightarrow> (\<forall>x \<in> set (billing_accounts s). ref_check account_constraints s x = None)"

lemma reserve_balances_success:
  assumes ok: "billing_ok s" "stripe_ids_unique s" and a: "account_of s org = Some a"
    and n: "0 \<le> n" "n \<le> Balance (accountFromRow a)"
  shows "UpdateBillingReservedBalances now org (included_part a n) (n - included_part a n) s =
    (Inr (reserved_row now a (included_part a n) (n - included_part a n)),
     s\<lparr>billing_accounts := replace_rows (\<lambda>r. ba_org_id r = org)
       (reserved_row now a (included_part a n) (n - included_part a n)) (billing_accounts s)\<rparr>)"
proof -
  have inv: "account_inv a" using ok a by (simp add: account_of_inv)
  define a' where "a' = reserved_row now a (included_part a n) (n - included_part a n)"
  have "a \<in> set (billing_accounts s)" using a by (auto simp: account_of_def dest: find_SomeD)
  then have "ref_check account_constraints s a = None" using ok(2) by (simp add: stripe_ids_unique_def)
  then have "ref_check account_constraints s a' = None"
    by (auto simp: account_constraints_def a'_def reserved_row_def split: if_splits)
  moreover have "account_row_ok a' \<and> account_row_int4 a'"
    using inv n by (auto simp: a'_def reserved_row_def account_inv_def account_row_ok_def
        account_row_int4_def int4_def included_part_def Balance_row [OF inv])
  ultimately have "check_row account_constraints s a' = None"
    by (simp add: check_row_def) (simp add: account_constraints_def)
  with a have "sql_update billing_accounts billing_accounts_update account_constraints
      (\<lambda>r. ba_org_id r = org) (\<lambda>r. reserved_row now r (included_part a n) (n - included_part a n)) s =
    (Inr a', billing_accounts_update (replace_rows (\<lambda>r. ba_org_id r = org) a') s)"
    unfolding account_of_def a'_def by (intro update_succeeds)
  then show ?thesis
    by (cases s) (simp add: UpdateBillingReservedBalances_def update_account_def reserved_row_def a'_def)
qed

lemma insert_reservation_success:
  assumes "reservation_of s run = None" and "run \<in> set (agent_run_ids s)"
    and "0 \<le> i" and "i \<le> n" and "int4 n"
  shows "InsertBillingCreditReservation now run org n i (n - i) ReservationReserved s =
    (Inr (new_reservation now run org n i (n - i) ReservationReserved),
     s\<lparr>billing_credit_reservations := billing_credit_reservations s @
       [new_reservation now run org n i (n - i) ReservationReserved]\<rparr>)"
  using assms
  by (simp add: InsertBillingCreditReservation_def sql_insert_def reservation_of_def Let_def
      reservation_constraints_def new_reservation_def reservation_row_ok_def reservation_row_int4_def
      int4_def)

lemma meter_start_success:
  assumes ok: "billing_ok s" and run: "run \<in> set (agent_run_ids s)"
    and fl: "fl = standardFlavor \<or> fl = plusFlavor" and st: "\<not> is_zero_time st"
  shows "\<exists>t. upsertRunMeterStart now run org fl st s = (Inr (), t)"
proof -
  define row where "row = \<lparr>bm_run_id = run, bm_org_id = org, bm_flavor = fl_Code fl,
    bm_multiplier = fl_Multiplier fl, bm_sandbox_vcpu = fl_VCPU fl,
    bm_sandbox_memory_gib = fl_MemoryGiB fl, bm_sandbox_disk_gib = fl_DiskGiB fl,
    bm_started_at = Some st, bm_ended_at = None, bm_billable_minutes = 0, bm_captured_credits = 0,
    bm_terminal_state = [], bm_created_at = Some now, bm_updated_at = Some now\<rparr>"
  define g where "g = (\<lambda>r. r\<lparr>bm_flavor := fl_Code fl, bm_multiplier := fl_Multiplier fl,
    bm_sandbox_vcpu := fl_VCPU fl, bm_sandbox_memory_gib := fl_MemoryGiB fl,
    bm_sandbox_disk_gib := fl_DiskGiB fl, bm_updated_at := Some now\<rparr> :: meter_row)"
  have dims: "int4 (fl_Multiplier fl)" "int4 (fl_VCPU fl)" "int4 (fl_MemoryGiB fl)" "int4 (fl_DiskGiB fl)"
    "1 \<le> fl_Multiplier fl" "1 \<le> fl_VCPU fl" "1 \<le> fl_MemoryGiB fl" "1 \<le> fl_DiskGiB fl"
    using fl by (auto simp: standardFlavor_def plusFlavor_def int4_def)
  have row: "meter_row_ok row" "meter_row_int4 row"
    using dims by (simp_all add: row_def meter_row_ok_def meter_row_int4_def int4_def)
  have upsert: "upsertRunMeterStart now run org fl st =
      andthen (wrap_err ''start run meter'' (sql_upsert billing_run_meters billing_run_meters_update
        meter_constraints (\<lambda>r. bm_run_id r = run) row g)) (\<lambda>_. ret ())"
    using dims st by (simp add: upsertRunMeterStart_def UpsertBillingRunMeterStart_def Let_def row_def
        g_def to_timestamptz_def)
  show ?thesis
  proof (cases "find (\<lambda>r. bm_run_id r = run) (billing_run_meters s)")
    case None
    have "check_row meter_constraints s row = None"
      using row run by (simp add: check_row_def meter_constraints_def) (simp add: row_def)
    note upsert_inserts [of _ billing_run_meters, OF None this]
    then show ?thesis by (simp add: upsert andthen_run wrap_err_def)
  next
    case (Some r)
    then have "meter_inv r" "bm_run_id r = run"
      using ok by (auto simp: billing_ok_def table_inv_def dest!: find_SomeD)
    then have "meter_row_ok (g r)" "meter_row_int4 (g r)" "bm_run_id (g r) = run"
      using dims by (simp_all add: g_def meter_inv_def meter_row_ok_def meter_row_int4_def)
    then have "check_row meter_constraints s (g r) = None" "row_check meter_constraints row = None"
      using row run by (simp_all add: check_row_def meter_constraints_def)
    note upsert_updates [of _ billing_run_meters, where g = g, OF Some this(2,1)]
    then show ?thesis by (simp add: upsert andthen_run wrap_err_def)
  qed
qed

lemma AdmitRun_decides:
  assumes ok: "billing_ok s" "stripe_ids_unique s"
    and a: "account_of s org = Some a" "\<not> ba_billing_exempt a"
    and new: "reservation_of s run = None" and run: "run \<in> set (agent_run_ids s)"
    and fl: "fl = standardFlavor \<or> fl = plusFlavor" and now: "\<not> is_zero_time now"
    and n: "0 \<le> n" "int4 n"
  shows "fst (AdmitRun True now org run n fl st s) =
    (if Balance (accountFromRow a) < n
     then Inl (InsufficientCreditsError n (Balance (accountFromRow a)))
     else Inr (reservationFromRow (new_reservation now run org n (included_part a n)
                 (n - included_part a n) ReservationReserved),
               accountFromRow (reserved_row now a (included_part a n) (n - included_part a n))))"
    (is "fst ?run = _")
proof -
  have inv: "account_inv a" using ok a by (simp add: account_of_inv)
  define i where "i = included_part a n"
  have part: "min n (IncludedRemaining (accountFromRow a)) = i"
    by (simp add: i_def included_part_def IncludedRemaining_row [OF inv])
  have i: "0 \<le> i" "i \<le> n" using included_part_bounds [OF inv n(1)] by (simp_all add: i_def)
  have i4: "int4 i" "int4 (n - i)" using i n by (auto simp: int4_def)
  define started where "started = (if is_zero_time st then now else st)"
  show ?thesis
  proof (cases "Balance (accountFromRow a) < n")
    case True
    then show ?thesis
      using a n new
      by (simp add: AdmitRun_def admitRunTx_def Let_def with_tx_def attempt_run andthen_run
          lock_account_run get_reservation_run)
  next
    case False
    define u where "u = s\<lparr>billing_accounts := replace_rows (\<lambda>r. ba_org_id r = org)
       (reserved_row now a i (n - i)) (billing_accounts s)\<rparr>"
    have upd: "UpdateBillingReservedBalances now org i (n - i) s = (Inr (reserved_row now a i (n - i)), u)"
      using reserve_balances_success [OF ok a(1) n(1)] False by (simp add: i_def u_def)
    define v where "v = u\<lparr>billing_credit_reservations := billing_credit_reservations u @
       [new_reservation now run org n i (n - i) ReservationReserved]\<rparr>"
    have ins: "InsertBillingCreditReservation now run org n i (n - i) ReservationReserved u =
        (Inr (new_reservation now run org n i (n - i) ReservationReserved), v)"
      unfolding v_def using new run i n
      by (intro insert_reservation_success) (simp_all add: u_def reservation_of_def)
    have u: "billing_ok u"
      using reserve_balances_keeps [OF ok(1) a(1) n(1) i_def, of now "n - i"] upd by simp
    have "keeps_inv billing_ok
        (InsertBillingCreditReservation now run org n i (n - i) ReservationReserved)"
      by (rule keeps_InsertBillingCreditReservation) simp
    then have "billing_ok v" using u ins by (rule keeps_invD)
    moreover have "run \<in> set (agent_run_ids v)" using run by (simp add: u_def v_def)
    moreover have "\<not> is_zero_time started" using now by (simp add: started_def)
    ultimately obtain w where m: "upsertRunMeterStart now run org fl started v = (Inr (), w)"
      using meter_start_success [of v run fl started now org] fl by auto
    show ?thesis
      using False a n new
      by (simp add: AdmitRun_def Let_def with_tx_def flip: started_def)
        (simp add: admitRunTx_def attempt_run andthen_run lock_account_run get_reservation_run Let_def
          part upd ins m i_def [symmetric] i4)
  qed
qed

text \<open>An admission that fails, or finds a reservation, leaves the balance alone.\<close>

lemma AdmitRun_balance:
  assumes ok: "billing_ok s" and n: "0 \<le> n" "int4 n"
    and run: "AdmitRun True now org run n fl st s = (Inr (r, acct), t)"
  shows "org_balance t org = org_balance s org - (if reservation_of s run = None then ReservedCredits r else 0)"
    and "reservation_of t run \<noteq> None"
proof -
  have "org_balance t org = org_balance s org - (if reservation_of s run = None then ReservedCredits r else 0) \<and>
    reservation_of t run \<noteq> None"
  proof (cases "reservation_of s run")
    case (Some e)
    from AdmitRun_existing(2,3) [OF this run] Some show ?thesis
      by (simp add: org_balance_def account_of_def reservation_of_def)
  next
    case None
    from ok n None run show ?thesis
    proof (cases rule: AdmitRun_new)
      case (comped a)
      with None show ?thesis
        by (simp add: org_balance_def account_of_def reservation_of_def reservationFromRow_def
            find_append new_reservation_def)
    next
      case (reserved a)
      have inv: "account_inv a" and oid: "ba_org_id a = org"
        using account_of_inv [OF ok reserved(1)] by auto
      note acc = account_of_replace [OF reserved(1) _ reserved(6), simplified row_orgs oid, OF refl, of org]
      from reserved(1,5,7) None acc show ?thesis
        by (simp add: org_balance_def reserved_row_balance [OF inv n(1) reserved(3)] reservation_of_def
            reservationFromRow_def find_append new_reservation_def)
    qed
  qed
  then show "org_balance t org = org_balance s org - (if reservation_of s run = None then ReservedCredits r else 0)"
    and "reservation_of t run \<noteq> None" by auto
qed

section \<open>Finalisation\<close>

definition finished :: "billing_db \<Rightarrow> string \<Rightarrow> bool" where
  "finished s run \<longleftrightarrow> (case meter_of s run of None \<Rightarrow> True | Some m \<Rightarrow> bm_terminal_state m \<noteq> [])"

lemma finished_meters:
  "billing_run_meters t = billing_run_meters u \<Longrightarrow> finished t run = finished u run"
  by (simp add: finished_def meter_of_def)

lemma finished_again:
  "run = [] \<or> finished s run \<Longrightarrow> FinalizeRun True now run st e s = (Inr (), s)"
  by (auto simp: FinalizeRun_def Let_def with_tx_def finalizeRunTx_def attempt_run get_meter_run
      finished_def runMeterFromRow_def split: option.splits)

lemma meter_finalize_finishes:
  assumes "finalizeRunMeter now run e m c st s = (Inr (), t)" and "st \<noteq> []"
  shows "finished t run"
proof -
  from assms(1) obtain row where "FinalizeBillingRunMeter now run (to_timestamptz e) (int32 m) (int32 c) st s = (Inr row, t)"
    by (auto simp: finalizeRunMeter_def ok_simps)
  then obtain r where "find (\<lambda>r. bm_run_id r = run) (billing_run_meters s) = Some r" "bm_terminal_state row = st"
    "bm_run_id row = bm_run_id r"
    "billing_run_meters t = replace_rows (\<lambda>r. bm_run_id r = run) row (billing_run_meters s)"
    unfolding FinalizeBillingRunMeter_def by (elim meters.update_cases) auto
  moreover from this(1) have "bm_run_id r = run" by (auto dest: find_SomeD)
  ultimately have "find (\<lambda>r. bm_run_id r = run) (billing_run_meters t) = Some row"
    by (simp add: find_replace_same)
  with \<open>bm_terminal_state row = st\<close> assms(2) show ?thesis by (simp add: finished_def meter_of_def)
qed

lemma captured_frame:
  "UpdateBillingCreditReservationCaptured now run c rel st s = (r, t) \<Longrightarrow>
   billing_run_meters t = billing_run_meters s"
  unfolding UpdateBillingCreditReservationCaptured_def by (elim reservations.update_cases) auto

lemma captured_balances_frame:
  "UpdateBillingCapturedBalances now org i tp s = (r, t) \<Longrightarrow> billing_run_meters t = billing_run_meters s"
  unfolding UpdateBillingCapturedBalances_def update_account_def by (elim accounts.update_cases) auto

lemma settled_finishes:
  assumes "settleReserved now run st e res m c s = (Inr (), t)" and "st \<noteq> []"
  shows "finished t run"
proof -
  from assms(1) obtain c' u v where "finalizeRunMeter now run e m c' st u = (Inr (), v)"
    and "billing_run_meters t = billing_run_meters v"
    by (auto simp: settleReserved_def ok_simps Let_def split: prod.splits
        dest!: captured_frame captured_balances_frame)
  with assms(2) meter_finalize_finishes show ?thesis by (metis finished_meters)
qed

lemma finalize_finishes:
  assumes "FinalizeRun True now run st e s = (Inr (), t)" and "run \<noteq> []"
  shows "finished t run"
proof (cases "finished s run")
  case True
  with finished_again [of run s now st e] assms show ?thesis by simp
next
  case False
  then obtain m where m: "meter_of s run = Some m" "bm_terminal_state m = []"
    by (auto simp: finished_def split: option.splits)
  obtain ended where "finalizeRunTx now run st ended s = (Inr (), t)"
    using assms by (auto simp: FinalizeRun_def Let_def)
  then show ?thesis
    using m
    by (auto simp: finalizeRunTx_def ok_simps get_meter_run get_reservation_run Let_def runMeterFromRow_def
        split: option.splits if_splits prod.splits
        elim!: meter_finalize_finishes settled_finishes
        dest!: captured_frame finished_meters [of t, THEN iffD2] intro: meter_finalize_finishes)
qed

text \<open>What the settlement of a reservation charges and gives back.\<close>

lemma FinalizeRun_settles:
  assumes ok: "ledger_ok s" and run: "FinalizeRun True now run state ended s = (Inr (), t)"
    and r: "reservation_of s run = Some r" "br_status r = ReservationReserved"
    and m: "meter_of s run = Some m" "bm_terminal_state m = []" and "run \<noteq> []"
    and c: "c = min (billed m (if is_zero_time ended then now else ended)) (br_reserved_credits r)"
  shows "org_balance t (br_org_id r) = org_balance s (br_org_id r) + (br_reserved_credits r - c)"
    and "\<exists>r'. reservation_of t run = Some r' \<and> br_captured_credits r' = c \<and>
      br_released_credits r' = br_reserved_credits r - c \<and> br_status r' \<noteq> ReservationReserved"
proof -
  have bok: "billing_ok s" and pos: "all_positive s" using ok by (auto simp: ledger_ok_def)
  let ?b = "billed m (if is_zero_time ended then now else ended)"
  obtain a where a: "account_of s (br_org_id r) = Some a"
    and res: "billing_credit_reservations t = replace_rows (\<lambda>x. br_run_id x = run) (settled_row now r ?b)
         (billing_credit_reservations s)"
  proof -
    define e where "e = (if is_zero_time ended then now else ended)"
    have "finalizeRunTx now run state e s = (Inr (), t)"
      using run \<open>run \<noteq> []\<close> by (simp add: FinalizeRun_def Let_def e_def)
    from finalizeRunTx_reserved [OF this m r] obtain ts' mins where
      st: "settleReserved now run ts' e (reservationFromRow r) mins (billed m e) s = (Inr (), t)" .
    have "0 < br_reserved_credits r"
      using pos r by (auto simp: all_positive_def reservation_of_def dest: find_SomeD)
    from settle_outcome [OF bok r(1) this billed_nonneg st] that show thesis by (auto simp: e_def)
  qed
  have rid: "br_run_id r = run" using r(1) by (auto simp: reservation_of_def dest: find_SomeD)
  have r': "reservation_of t run = Some (settled_row now r ?b)"
    using r(1) rid by (simp add: reservation_of_def res find_replace_same settled_row_def)
  then show "\<exists>r'. reservation_of t run = Some r' \<and> br_captured_credits r' = c \<and>
      br_released_credits r' = br_reserved_credits r - c \<and> br_status r' \<noteq> ReservationReserved"
    by (simp add: settled_row_def charged_def c reservation_codes)
  have "ledger t (br_org_id r) = ledger s (br_org_id r)" using finalize_ledger [OF ok run] by blast
  then show "org_balance t (br_org_id r) = org_balance s (br_org_id r) + (br_reserved_credits r - c)"
    using r(2)
    by (simp add: ledger_def org_total_replace [OF bok r(1) res] of_org_def holds_def [of r] kept_def [of r]
        reservation_codes charged_def c)
qed

section \<open>Grants\<close>

lemma has_event_insert:
  "InsertBillingStripeEvent ev ty org s = (Inr b, t) \<Longrightarrow>
   b = (\<not> has_event s ev) \<and> billing_accounts t = billing_accounts s \<and>
   has_event t ev \<and> (has_event s ev' \<longrightarrow> has_event t ev')"
  by (auto simp: InsertBillingStripeEvent_def sql_insert_once_def has_event_def Let_def find_append
      split: option.splits)

lemma account_write_events:
  "update_account org f s = (r, t) \<Longrightarrow> billing_stripe_events t = billing_stripe_events s"
  "upsert_account row g s = (r, t) \<Longrightarrow> billing_stripe_events t = billing_stripe_events s"
  unfolding update_account_def upsert_account_def
  by (auto elim!: accounts.update_cases accounts.upsert_cases)

lemma GrantTopupCreditsOnce_marks:
  assumes "GrantTopupCreditsOnce True now ev ty org n s = (Inr (a, b), t)" and "ev \<noteq> []" and "0 < n"
  shows "has_event t ev" and "b = (\<not> has_event s ev)"
    and "has_event s ev \<Longrightarrow> billing_accounts t = billing_accounts s"
  using assms
  by (auto simp: GrantTopupCreditsOnce_def grantTopupCreditsOnceTx_def ok_simps GetBillingAccount_def sql_get_def
      EnsureBillingAccount_def GrantBillingTopupCredits_def
      split: if_splits option.splits dest!: has_event_insert account_write_events)
    (auto simp: has_event_def)

lemma GrantTopupCreditsOnce_known:
  assumes "has_event s ev" and "ev \<noteq> []"
  shows "billing_accounts (snd (GrantTopupCreditsOnce en now ev ty org n s)) = billing_accounts s"
  using assms
  by (auto simp: GrantTopupCreditsOnce_def grantTopupCreditsOnceTx_def wrap_err_def with_tx_def andthen_run
      GetAccount_def GetBillingAccount_def sql_get_def InsertBillingStripeEvent_def sql_insert_once_def
      has_event_def not_enabled_def Let_def split: option.splits prod.splits sum.splits)

section \<open>Top-ups\<close>

lemma decide_target:
  "at_shouldPurchase (decideTopup sha org n trig tg a st) \<Longrightarrow> tg \<le> 0 \<or> n \<le> tg \<Longrightarrow>
   n \<le> at_target (decideTopup sha org n trig tg a st)"
  using decideTopup_purchase(3) [of sha org n trig tg a st] by auto

lemma prepare_decides:
  assumes "prepareAutoTopupAttempt sha now org n trig tg s = (Inr att, t)"
  obtains a st where "att = decideTopup sha org n trig tg a st"
  using assms by (auto simp: prepareAutoTopupAttempt_def ok_simps)

lemma loop_balance:
  assumes "autoTopupLoop sha clock buy org n fuel i trig tg s = Some (Inr a, t)"
    and "tg \<le> 0 \<or> n \<le> tg"
  shows "n \<le> Balance a"
  using assms
proof (induction fuel arbitrary: i trig tg s)
  case 0
  then show ?case by simp
next
  case (Suc fuel)
  obtain r s1 where prep: "prepareAutoTopupAttempt sha (clock i) org n trig tg s = (r, s1)"
    by (metis prod.collapse)
  with Suc.prems(1) obtain att where r: "r = Inr att" by (cases r) simp_all
  show ?case
  proof (cases "at_shouldPurchase att")
    case False
    with Suc.prems(1) prep r show ?thesis by (auto simp: Let_def split: if_splits)
  next
    case True
    from prep [unfolded r] obtain acct st where att: "att = decideTopup sha org n trig tg acct st"
      by (rule prepare_decides)
    then have "n \<le> at_target att" using decide_target True Suc.prems(2) by metis
    then show ?thesis
      using Suc.prems(1) Suc.IH prep r True
      by (auto simp: Let_def split: option.splits prod.splits sum.splits if_splits)
  qed
qed

text \<open>The month's usage starts anew with the month.\<close>

lemma ensureTopup_month:
  assumes "ensureTopupSettings now org s = (Inr st, t)"
  shows "MonthlyAnchorMonth st = currentBillingMonth now now"
    and "\<And>r. topup_of s org = Some r \<Longrightarrow> bt_monthly_anchor_month r \<noteq> currentBillingMonth now now \<Longrightarrow>
      MonthlyUnitsUsed st = 0 \<and> MonthlySpendCentsUsed st = 0"
    and "\<And>r. topup_of s org = Some r \<Longrightarrow> bt_monthly_anchor_month r = currentBillingMonth now now \<Longrightarrow>
      MonthlyUnitsUsed st = bt_monthly_units_used r \<and> MonthlySpendCentsUsed st = bt_monthly_spend_cents_used r"
  using assms
  by (auto simp: ensureTopupSettings_def ok_simps Let_def EnsureBillingTopupSettings_def
      ResetBillingTopupMonthlyUsage_def update_topup_def topupSettingsFromRow_def topup_of_def
      default_topup_row_def split: if_splits elim!: topups.upsert_cases topups.update_cases)

section \<open>Mirrors of a subscription\<close>

lemma UpsertAccountMirror_cases:
  assumes "UpsertAccountMirror True now mirror s = (Inr acct, t)"
  obtains (created) "account_of s (am_OrgID mirror) = None"
      "acct = accountFromRow (mirror_row now (mirror_defaults mirror))"
  | (updated) r where "account_of s (am_OrgID mirror) = Some r"
      "acct = accountFromRow (mirror_conflict now (mirror_row now (mirror_defaults mirror)) r)"
proof -
  have org: "ba_org_id (mirror_row now (mirror_defaults mirror)) = am_OrgID mirror"
    by (simp add: mirror_row_def default_account_row_def mirror_defaults_def Let_def)
  from assms obtain row where "upsert_account (mirror_row now (mirror_defaults mirror))
      (mirror_conflict now (mirror_row now (mirror_defaults mirror))) s = (Inr row, t)"
    and "acct = accountFromRow row"
    by (auto simp: UpsertAccountMirror_def UpsertBillingAccountMirror_def ok_simps)
  then show thesis
    unfolding upsert_account_def org
    by (elim accounts.upsert_cases) (use that in \<open>auto simp: account_of_def\<close>)
qed

section \<open>Repository flavors\<close>

lemma repo_setting_written:
  assumes "UpsertRepoBillingSetting now org owner repo code s = (Inr row, t)"
  shows "find (\<lambda>r. repo_key r = (org, owner, repo)) (repo_billing_settings t) = Some row \<and> rb_flavor row = code"
proof -
  define x where "x = \<lparr>rb_org_id = org, rb_github_owner = owner, rb_github_repo = repo,
        rb_flavor = code, rb_created_at = Some now, rb_updated_at = Some now\<rparr>"
  have key: "repo_key x = (org, owner, repo)" by (simp add: x_def repo_key_def)
  have "sql_upsert repo_billing_settings repo_billing_settings_update repo_setting_constraints
      (\<lambda>r. repo_key r = (org, owner, repo)) x (\<lambda>r. r\<lparr>rb_flavor := code, rb_updated_at := Some now\<rparr>) s = (Inr row, t)"
    using assms by (simp add: UpsertRepoBillingSetting_def Let_def x_def repo_key_def)
  then show ?thesis
  proof (cases rule: repo_settings.upsert_cases)
    case (unchanged e)
    then show ?thesis by simp
  next
    case inserted
    with key show ?thesis by (auto simp: find_append x_def)
  next
    case (updated r)
    then have "repo_key r = (org, owner, repo)" by (auto dest: find_SomeD)
    with updated show ?thesis by (auto simp: repo_key_def find_replace_same)
  qed
qed

lemma RepoFlavor_after_SetRepoFlavor:
  assumes "SetRepoFlavor True now org owner repo code s = (Inr rs, t)"
  shows "RepoFlavor True org owner repo t = (ParseFlavor code, t)"
    and "\<exists>fl. ParseFlavor code = Inr fl \<and> rs_Flavor rs = fl_Code fl"
proof -
  from assms obtain fl where fl: "ParseFlavor code = Inr fl"
    by (auto simp: SetRepoFlavor_def ok_simps)
  have "RepoFlavor True org owner repo t = (Inr fl, t) \<and> rs_Flavor rs = fl_Code fl"
  proof (cases "fl_Code fl = FlavorStandard")
    case True
    with assms fl have "repo_billing_settings t = filter (\<lambda>r. repo_key r \<noteq> (org, owner, repo)) (repo_billing_settings t)"
      "rs_Flavor rs = FlavorStandard"
      by (auto simp: SetRepoFlavor_def ok_simps DeleteRepoBillingSetting_def sql_delete_def split: if_splits)
    then have "find (\<lambda>r. repo_key r = (org, owner, repo)) (repo_billing_settings t) = None"
      by (metis find_filter_same)
    moreover have "fl = standardFlavor" using ParseFlavor_range [OF fl] True by (auto simp: flavor_codes)
    ultimately show ?thesis
      using \<open>rs_Flavor rs = FlavorStandard\<close>
      by (simp add: RepoFlavor_def attempt_run GetRepoBillingSetting_def sql_get_def MustFlavor_def)
  next
    case False
    with assms fl obtain u row where
      w: "UpsertRepoBillingSetting now org owner repo (fl_Code fl) u = (Inr row, t)"
      and rs: "rs = repoSettingFromRow row"
      by (auto simp: SetRepoFlavor_def ok_simps split: if_splits)
    with repo_setting_written [OF w] ParseFlavor_Code [OF fl] show ?thesis
      by (simp add: RepoFlavor_def attempt_run GetRepoBillingSetting_def sql_get_def repoSettingFromRow_def
          Let_def)
  qed
  with fl show "RepoFlavor True org owner repo t = (ParseFlavor code, t)"
    and "\<exists>fl. ParseFlavor code = Inr fl \<and> rs_Flavor rs = fl_Code fl" by auto
qed

section \<open>Auto top-up when the webhook wins the race\<close>

text \<open>An organisation whose auto top-up is due and needs more than one unit to reach its target,
  with room for a unit under its monthly cap.\<close>

definition two_units_due :: "account \<Rightarrow> topup_settings \<Rightarrow> int \<Rightarrow> bool" where
  "two_units_due a st n \<longleftrightarrow> AutoTopupEnabled st \<and> Balance a \<le> TriggerThreshold st \<and>
     Balance a + 100 < max (TargetBalance st) n \<and> 0 < max (TargetBalance st) n \<and>
     (MonthlyMaxCents st \<le> 0 \<or>
      MonthlySpendCentsUsed st + topupUnitCentsForPlan (PlanCode a) \<le> MonthlyMaxCents st)"

definition next_key :: "(string \<Rightarrow> string) \<Rightarrow> string \<Rightarrow> account \<Rightarrow> topup_settings \<Rightarrow> string" where
  "next_key sha org a st = autoTopupIdempotencyKey sha org (PlanCode a) (MonthlyAnchorMonth st)
     (MonthlyUnitsUsed st + 1) (topupUnitCentsForPlan (PlanCode a))"

definition granted_row :: "go_time \<Rightarrow> account_row \<Rightarrow> account_row" where
  "granted_row now a = a\<lparr>ba_topup_credits := ba_topup_credits a + 100, ba_last_payment_error := [],
     ba_updated_at := Some now\<rparr>"

definition granted_state :: "go_time \<Rightarrow> string \<Rightarrow> string \<Rightarrow> account_row \<Rightarrow> billing_db \<Rightarrow> billing_db" where
  "granted_state now org iv a s = s\<lparr>
     billing_stripe_events := billing_stripe_events s @
       [\<lparr>se_event_id = iv, se_event_type = ''invoice.paid'', se_org_id = org\<rparr>],
     billing_accounts := replace_rows (\<lambda>r. ba_org_id r = org) (granted_row now a) (billing_accounts s)\<rparr>"

lemma granted_row_fields [simp]:
  "Balance (accountFromRow (granted_row now a)) = Balance (accountFromRow a) + 100"
  "PlanCode (accountFromRow (granted_row now a)) = PlanCode (accountFromRow a)"
  "ba_org_id (granted_row now a) = ba_org_id a"
  by (simp_all add: granted_row_def accountFromRow_def Balance_def IncludedRemaining_def)

text \<open>The decision of the first pass and of the passes after the grant: the same key.\<close>

lemma decide_due:
  assumes "two_units_due a st n"
  shows "decideTopup sha org n False 0 a st = \<lparr>at_account = a, at_idempotencyKey = next_key sha org a st,
      at_target = max (TargetBalance st) n, at_topupUnitCents = topupUnitCentsForPlan (PlanCode a),
      at_shouldPurchase = True\<rparr>"
    and "PlanCode b = PlanCode a \<Longrightarrow> Balance b = Balance a + 100 \<Longrightarrow>
      decideTopup sha org n True (max (TargetBalance st) n) b st =
        \<lparr>at_account = b, at_idempotencyKey = next_key sha org a st,
         at_target = max (TargetBalance st) n, at_topupUnitCents = topupUnitCentsForPlan (PlanCode a),
         at_shouldPurchase = True\<rparr>"
  using assms by (auto simp: two_units_due_def decideTopup_def next_key_def Let_def)

text \<open>Within the stored month the settings are read and not written.\<close>

lemma find_replace_id: "find p t = Some r \<Longrightarrow> distinct (map k t) \<Longrightarrow> (\<And>x. p x \<longleftrightarrow> k x = k r) \<Longrightarrow> replace_rows p r t = t"
  by (auto simp: replace_rows_def intro!: map_idI dest!: find_SomeD)
    (metis distinct_map inj_on_def)

lemma ensure_same_month:
  assumes ok: "billing_ok s" and a: "account_of s org = Some a" and r: "topup_of s org = Some r"
    and month: "bt_monthly_anchor_month r = currentBillingMonth now now"
  shows "ensureTopupSettings now org s = (Inr (topupSettingsFromRow r), s)"
proof -
  have rs: "r \<in> set (billing_topup_settings s)" "bt_org_id r = org"
    using r by (auto simp: topup_of_def dest: find_SomeD)
  have row: "topup_row_ok r" "topup_row_int4 r"
    using ok rs(1) by (auto simp: billing_ok_def table_inv_def topup_inv_def)
  have "replace_rows (\<lambda>x. bt_org_id x = org) r (billing_topup_settings s) = billing_topup_settings s"
    using r ok rs(2) unfolding topup_of_def
    by (elim find_replace_id [where k = bt_org_id]) (auto simp: billing_ok_def table_inv_def)
  moreover have "org \<in> ba_org_id ` set (billing_accounts s)"
    using a by (force simp: account_of_def dest: find_SomeD)
  ultimately have "EnsureBillingTopupSettings now (currentBillingMonth now now) org s = (Inr r, s)"
    using r rs(2) row unfolding EnsureBillingTopupSettings_def
    by (subst upsert_updates [where r = r])
      (simp_all add: default_topup_row_def topup_of_def check_row_def topup_constraints_def
        topup_row_ok_def topup_row_int4_def int4_def)
  with month show ?thesis
    by (simp add: ensureTopupSettings_def andthen_run wrap_err_def Let_def topupSettingsFromRow_def)
qed

lemma prepare_same_month:
  assumes "billing_ok s" "account_of s org = Some a" "topup_of s org = Some r"
    "bt_monthly_anchor_month r = currentBillingMonth now now"
  shows "prepareAutoTopupAttempt sha now org n trig tg s =
    (Inr (decideTopup sha org n trig tg (accountFromRow a) (topupSettingsFromRow r)), s)"
  using assms ensure_same_month [OF assms]
  by (simp add: prepareAutoTopupAttempt_def with_tx_def andthen_run lock_account_run lock_topup_run)

text \<open>The webhook grants the unit for the first purchase and nothing for its repetitions.\<close>

lemma granted_row_written:
  assumes ok: "billing_ok s" "stripe_ids_unique s" and a: "account_of s org = Some a"
    and fits: "int4 (ba_topup_credits a + 100)"
  shows "check_row account_constraints s (granted_row now a) = None"
proof -
  have inv: "account_inv a" and "a \<in> set (billing_accounts s)"
    using account_of_inv [OF ok(1) a] a by (auto simp: account_of_def dest: find_SomeD)
  then have "ref_check account_constraints s a = None" using ok(2) by (simp add: stripe_ids_unique_def)
  then have "ref_check account_constraints s (granted_row now a) = None"
    by (auto simp: account_constraints_def granted_row_def split: if_splits)
  moreover have "row_check account_constraints (granted_row now a) = None"
    using inv fits
    by (simp add: granted_row_def account_inv_def account_row_ok_def account_row_int4_def)
  ultimately show ?thesis by (simp add: check_row_None)
qed

lemma ensure_known_account:
  assumes ok: "billing_ok s" "stripe_ids_unique s" and a: "account_of s org = Some a"
  shows "EnsureBillingAccount now org s = (Inr a, s)"
proof -
  have rs: "a \<in> set (billing_accounts s)" "ba_org_id a = org"
    using a by (auto simp: account_of_def dest: find_SomeD)
  have "replace_rows (\<lambda>x. ba_org_id x = org) a (billing_accounts s) = billing_accounts s"
    using a ok rs(2) unfolding account_of_def
    by (elim find_replace_id [where k = ba_org_id]) (auto simp: billing_ok_def table_inv_def)
  moreover have "check_row account_constraints s a = None"
    using ok rs account_of_inv [OF ok(1) a] by (simp add: check_row_None stripe_ids_unique_def account_inv_def)
  moreover have "row_check account_constraints (default_account_row now org) = None"
    by (simp add: default_account_row_def account_row_ok_def account_row_int4_def int4_def
        flavor_column_values_def)
  ultimately show ?thesis
    using a unfolding EnsureBillingAccount_def upsert_account_def account_of_def
    by (subst upsert_updates [where r = a]) (simp_all add: default_account_row_def)
qed

lemma webhook_grants:
  assumes ok: "billing_ok s" "stripe_ids_unique s" and a: "account_of s org = Some a"
    and new: "\<not> has_event s (invoice key)" and iv: "invoice key \<noteq> []"
    and fits: "int4 (ba_topup_credits a + 100)"
  shows "webhook_first invoice now org acct key s = (Inr (invoice key), granted_state now org (invoice key) a s)"
proof -
  define u where "u = s\<lparr>billing_stripe_events := billing_stripe_events s @
    [\<lparr>se_event_id = invoice key, se_event_type = ''invoice.paid'', se_org_id = org\<rparr>]\<rparr>"
  have same: "billing_accounts u = billing_accounts s" by (simp add: u_def)
  have uok: "billing_ok u"
    using ok(1) new by (auto simp: u_def billing_ok_def table_inv_def has_event_def find_None_iff)
  have "ref_check account_constraints u x = ref_check account_constraints s x" for x
    by (simp add: account_constraints_def same)
  then have uids: "stripe_ids_unique u" and ua: "account_of u org = Some a"
    using ok(2) a same by (simp_all add: stripe_ids_unique_def account_of_def)
  have ins: "InsertBillingStripeEvent (invoice key) ''invoice.paid'' org s = (Inr True, u)"
    using new by (simp add: InsertBillingStripeEvent_def sql_insert_once_def has_event_def u_def Let_def)
  have "GrantBillingTopupCredits now org 100 u = (Inr (granted_row now a),
      billing_accounts_update (replace_rows (\<lambda>r. ba_org_id r = org) (granted_row now a)) u)"
    using ua granted_row_written [OF uok uids ua fits, of now]
    unfolding GrantBillingTopupCredits_def update_account_def account_of_def granted_row_def
    by (intro update_succeeds)
  then show ?thesis
    using iv ins ensure_known_account [OF uok uids ua]
    by (simp add: webhook_first_def GrantTopupCreditsOnce_def grantTopupCreditsOnceTx_def andthen_run
        wrap_err_def with_tx_def Let_def granted_state_def u_def int32_def)
qed

lemma webhook_repeats:
  assumes a: "account_of s org = Some a" and old: "has_event s (invoice key)" and iv: "invoice key \<noteq> []"
  shows "webhook_first invoice now org acct key s = (Inr (invoice key), s)"
  using assms
  by (auto simp: webhook_first_def GrantTopupCreditsOnce_def grantTopupCreditsOnceTx_def andthen_run
      wrap_err_def with_tx_def Let_def InsertBillingStripeEvent_def sql_insert_once_def has_event_def
      GetBillingAccount_def sql_get_def account_of_def)

lemma complete_counted:
  assumes st: "billing_ok s" "account_of s org = Some a" "topup_of s org = Some r"
    "bt_monthly_anchor_month r = currentBillingMonth now now"
    and old: "has_event s (trim_space iv)" and iv: "trim_space iv \<noteq> []"
  shows "completeAutoTopupAttempt now org iv c s = (Inr (accountFromRow a), s)"
  using assms ensure_same_month [OF st]
  by (auto simp: completeAutoTopupAttempt_def with_tx_def andthen_run lock_account_run lock_topup_run
      grantTopupCreditsForInvoice_def InsertBillingStripeEvent_def sql_insert_once_def has_event_def
      GetBillingAccount_def sql_get_def account_of_def Let_def)

lemma granted_state_lookups:
  fixes iv :: string
  assumes ok: "billing_ok s" "stripe_ids_unique s" and a: "account_of s org = Some a"
    and new: "\<not> has_event s iv" and iv: "iv \<noteq> []"
    and fits: "int4 (ba_topup_credits a + 100)"
  shows "account_of (granted_state now org iv a s) org = Some (granted_row now a)"
    and "topup_of (granted_state now org iv a s) org = topup_of s org"
    and "has_event (granted_state now org iv a s) iv"
    and "billing_ok (granted_state now org iv a s)"
proof -
  have "ba_org_id a = org" using a by (auto simp: account_of_def dest: find_SomeD)
  then show "account_of (granted_state now org iv a s) org = Some (granted_row now a)"
    using a by (simp add: account_of_def granted_state_def find_replace_same)
  show "topup_of (granted_state now org iv a s) org = topup_of s org"
    by (simp add: topup_of_def granted_state_def)
  show "has_event (granted_state now org iv a s) iv"
    using new by (simp add: has_event_def granted_state_def find_append)
  have "keeps_inv billing_ok (webhook_first (\<lambda>_. iv) now org b key)" for b key
    unfolding webhook_first_def by (intro keeps keeps_GrantTopupCreditsOnce)
  from keeps_invD [OF this ok(1) webhook_grants [where invoice = "\<lambda>_. iv", OF assms]]
  show "billing_ok (granted_state now org iv a s)" .
qed

text \<open>From the second pass on nothing changes any more.\<close>

lemma counted_loop_runs_on:
  assumes ok: "billing_ok s" and a: "account_of s org = Some b" and r: "topup_of s org = Some r"
    and dec: "decideTopup sha org n True tg (accountFromRow b) (topupSettingsFromRow r) =
      \<lparr>at_account = accountFromRow b, at_idempotencyKey = key, at_target = tg,
       at_topupUnitCents = cents, at_shouldPurchase = True\<rparr>"
    and below: "Balance (accountFromRow b) < tg"
    and iv: "invoice key \<noteq> []" "trim_space (invoice key) = invoice key" "has_event s (invoice key)"
    and month: "\<And>j. i \<le> j \<Longrightarrow> j < i + k \<Longrightarrow> currentBillingMonth (clock j) (clock j) = bt_monthly_anchor_month r"
  shows "autoTopupLoop sha clock (Some (webhook_first invoice now org)) org n k i True tg s = None"
  using month
proof (induction k arbitrary: i)
  case 0
  then show ?case by simp
next
  case (Suc k)
  have now: "bt_monthly_anchor_month r = currentBillingMonth (clock i) (clock i)"
    using Suc.prems [of i] by simp
  have "completeAutoTopupAttempt (clock i) org (invoice key) cents s = (Inr (accountFromRow b), s)"
    using complete_counted [OF ok a r now] iv by simp
  then show ?case
    using Suc prepare_same_month [OF ok a r now, of sha n True tg]
      webhook_repeats [where invoice = invoice and key = key, OF a iv(3,1)] iv(1,2) below dec
    by (simp add: Let_def)
qed

lemma due_loop_runs_on:
  assumes ok: "billing_ok s" "stripe_ids_unique s" and a: "account_of s org = Some a"
    and r: "topup_of s org = Some r"
    and due: "two_units_due (accountFromRow a) (topupSettingsFromRow r) n"
    and key: "key = next_key sha org (accountFromRow a) (topupSettingsFromRow r)"
    and iv: "invoice key \<noteq> []" "trim_space (invoice key) = invoice key" "\<not> has_event s (invoice key)"
    and fits: "int4 (ba_topup_credits a + 100)"
    and month: "\<And>j. j < k \<Longrightarrow> currentBillingMonth (clock j) (clock j) = bt_monthly_anchor_month r"
  shows "autoTopupLoop sha clock (Some (webhook_first invoice now org)) org n k 0 False 0 s = None"
proof (cases k)
  case 0
  then show ?thesis by simp
next
  case (Suc m)
  let ?a = "accountFromRow a" and ?st = "topupSettingsFromRow r"
  define tg where "tg = max (TargetBalance ?st) n"
  let ?c = "topupUnitCentsForPlan (PlanCode ?a)"
  let ?t = "granted_state now org (invoice key) a s" and ?b = "granted_row now a"
  have m0: "bt_monthly_anchor_month r = currentBillingMonth (clock 0) (clock 0)"
    using month [of 0] Suc by simp
  note t = granted_state_lookups [where now = now, OF ok a iv(3,1) fits]
  have rt: "topup_of ?t org = Some r" using t(2) r by simp
  have below: "Balance (accountFromRow ?b) < tg" using due by (simp add: two_units_due_def tg_def)
  have dec: "decideTopup sha org n True tg (accountFromRow ?b) ?st =
      \<lparr>at_account = accountFromRow ?b, at_idempotencyKey = key, at_target = tg,
       at_topupUnitCents = ?c, at_shouldPurchase = True\<rparr>"
    unfolding key tg_def by (rule decide_due(2) [OF due granted_row_fields(2,1)])
  have rest: "autoTopupLoop sha clock (Some (webhook_first invoice now org)) org n m 1 True tg ?t = None"
    using counted_loop_runs_on [where invoice = invoice and key = key, OF t(4,1) rt dec below iv(1,2) t(3)] month Suc by simp
  have "completeAutoTopupAttempt (clock 0) org (invoice key) ?c ?t = (Inr (accountFromRow ?b), ?t)"
    using complete_counted [OF t(4,1) rt m0] iv(1,2) t(3) by simp
  then show ?thesis
    using Suc rest below iv(1,2) prepare_same_month [OF ok(1) a r m0, of sha n False 0]
      webhook_grants [where invoice = invoice and key = key, OF ok a iv(3,1) fits] decide_due(1) [OF due, of sha org, folded key tg_def]
    by (simp add: Let_def)
qed

end
