(* ===== verification/Billing_Properties.thy ===== *)
theory Billing_Properties
  imports Billing_Outcomes
begin

text \<open>
  The properties of internal/billing: the ledger over sequences of admissions and finalisations,
  the outcome of each operation, the top-up loop, the metering arithmetic and the settings.
\<close>

section \<open>A database to evaluate on\<close>

definition demo_db :: billing_db where
  "demo_db = \<lparr>
     billing_accounts = [default_account_row 0 ''org''], billing_topup_settings = [],
     billing_credit_reservations = [], billing_run_meters = [], repo_billing_settings = [],
     billing_stripe_events = [], agent_run_ids = [''run'']\<rparr>"

lemma demo_account: "account_of demo_db ''org'' = Some (default_account_row 0 ''org'')"
  by (simp add: account_of_def demo_db_def default_account_row_def)

lemma demo_reservation [simp]: "reservation_of demo_db run = None"
  by (simp add: reservation_of_def demo_db_def)

lemma default_account_inv: "account_inv (default_account_row now org)"
  by (simp add: account_inv_def account_row_ok_def account_row_int4_def int4_def
      default_account_row_def flavor_column_values_def)

lemma demo_ok: "ledger_ok demo_db" "billing_ok demo_db" "stripe_ids_unique demo_db"
proof -
  show ok: "billing_ok demo_db"
    using default_account_inv [of 0 "''org''"] by (simp add: billing_ok_def table_inv_def demo_db_def)
  have "covered demo_db"
    by (auto simp: covered_def org_total_def demo_db_def account_of_def default_account_row_def
        split: if_splits)
  with ok show "ledger_ok demo_db" by (simp add: ledger_ok_def all_positive_def demo_db_def)
  show "stripe_ids_unique demo_db"
    by (simp add: stripe_ids_unique_def demo_db_def account_constraints_def default_account_row_def)
qed

lemma default_balance [simp]: "Balance (accountFromRow (default_account_row now org)) = 25"
  by (simp add: Balance_def IncludedRemaining_def default_account_row_def)

lemma demo_balance [simp]: "org_balance demo_db ''org'' = 25"
  by (simp add: org_balance_def demo_account)

lemma demo_ledger: "ledger demo_db ''org'' = 25"
  by (simp add: ledger_def) (simp add: org_total_def demo_db_def)

definition admitted_db :: billing_db where
  "admitted_db = snd (AdmitRun True 0 ''org'' ''run'' 4 standardFlavor 0 demo_db)"

definition demo_row :: reservation_row where
  "demo_row = new_reservation 0 ''run'' ''org'' 4 4 0 ReservationReserved"

lemma demo_admission:
  "AdmitRun True 0 ''org'' ''run'' 4 standardFlavor 0 demo_db =
    (Inr (reservationFromRow demo_row, accountFromRow (reserved_row 0 (default_account_row 0 ''org'') 4 0)),
     admitted_db)"
proof -
  have "\<not> ba_billing_exempt (default_account_row 0 ''org'')" by (simp add: default_account_row_def)
  moreover have "''run'' \<in> set (agent_run_ids demo_db)" "\<not> is_zero_time 0"
    by (simp_all add: demo_db_def is_zero_time_def zero_time_def)
  moreover have "included_part (default_account_row 0 ''org'') 4 = 4"
    by (simp add: included_part_def default_account_row_def)
  ultimately show ?thesis
    using AdmitRun_decides [OF demo_ok(2,3) demo_account, where run = "''run''" and fl = standardFlavor
        and now = 0 and n = 4 and st = 0]
    by (simp add: admitted_db_def prod_eq_iff demo_row_def int4_def)
qed

section \<open>Conservation of credits\<close>

text \<open>C1: however many runs are admitted as the service admits them (a positive number of credits,
  or none for a comped organisation) and finalised, in whatever order and whether each of the
  calls succeeds or fails, an organisation's balance, the credits held by its open reservations
  and the credits captured by its settled ones keep their sum, and the tables stay consistent.\<close>

theorem runs_keep_the_ledger:
  "run_step\<^sup>*\<^sup>* s t \<Longrightarrow> ledger_ok s \<Longrightarrow> ledger t org = ledger s org \<and> ledger_ok t"
  using run_steps_ledger by blast

theorem runs_keep_the_ledger_witness:
  "ledger (snd (FinalizeRun True 1 ''run'' ''done'' 5 admitted_db)) ''org'' = 25 \<and> admitted_db \<noteq> demo_db"
proof -
  have "run_step demo_db admitted_db"
    by (rule admitted [OF _ demo_admission]) (simp add: service_asks_def int4_def)
  moreover have "run_step admitted_db (snd (FinalizeRun True 1 ''run'' ''done'' 5 admitted_db))"
    by (rule finalized [of 1 "''run''" "''done''" 5 _ "fst (FinalizeRun True 1 ''run'' ''done'' 5 admitted_db)"]) simp
  ultimately have "run_step\<^sup>*\<^sup>* demo_db (snd (FinalizeRun True 1 ''run'' ''done'' 5 admitted_db))" by simp
  moreover have "admitted_db \<noteq> demo_db"
    using AdmitRun_balance(2) [OF demo_ok(2) _ _ demo_admission] by (auto simp: int4_def)
  ultimately show ?thesis
    using runs_keep_the_ledger [OF _ demo_ok(1), of _ "''org''"] demo_ledger by simp
qed

text \<open>C2: the admission of a new run of an organisation that is not comped decides by the balance
  alone: too low, and it is refused with the needed and available credits and nothing is written; enough, and the credits move from the
  balance into a reservation, included credits before top-up credits.\<close>

theorem admission_decides:
  assumes "billing_ok s" and "stripe_ids_unique s"
    and a: "account_of s org = Some a" "\<not> ba_billing_exempt a"
    and "reservation_of s run = None" and "run \<in> set (agent_run_ids s)"
    and "fl = standardFlavor \<or> fl = plusFlavor" and "\<not> is_zero_time now" and n: "0 \<le> n" "int4 n"
  shows "case AdmitRun True now org run n fl st s of
      (Inl e, t) \<Rightarrow> org_balance s org < n \<and> e = InsufficientCreditsError n (org_balance s org) \<and> t = s
    | (Inr (r, acct), t) \<Rightarrow> n \<le> org_balance s org \<and> ReservedCredits r = n \<and>
        FromIncludedCredits r = min n (ba_included_credits a - ba_included_credits_used a) \<and>
        FromIncludedCredits r + FromTopupCredits r = n \<and> org_balance t org = org_balance s org - n"
proof -
  note d = AdmitRun_decides [OF assms, of st]
  obtain res t where run: "AdmitRun True now org run n fl st s = (res, t)" by (metis prod.collapse)
  show ?thesis
  proof (cases res)
    case (Inl e)
    with d run a AdmitRun_failed [OF run [unfolded Inl]] show ?thesis
      by (simp add: org_balance_def split: if_splits)
  next
    case (Inr x)
    then obtain r acct where x: "res = Inr (r, acct)" by (cases x) simp
    with d run a AdmitRun_balance(1) [OF assms(1) n run [unfolded x]] assms(5) show ?thesis
      by (simp add: org_balance_def reservationFromRow_def new_reservation_def included_part_def split: if_splits)
  qed
qed

theorem admission_decides_witness:
  "fst (AdmitRun True 0 ''org'' ''run'' 30 standardFlavor 0 demo_db) = Inl (InsufficientCreditsError 30 25) \<and>
   org_balance admitted_db ''org'' = 21"
proof -
  have pre: "\<not> ba_billing_exempt (default_account_row 0 ''org'')" "''run'' \<in> set (agent_run_ids demo_db)"
    "\<not> is_zero_time 0" "standardFlavor = standardFlavor \<or> standardFlavor = plusFlavor"
    by (simp_all add: default_account_row_def demo_db_def is_zero_time_def zero_time_def)
  note decides = admission_decides [OF demo_ok(2,3) demo_account pre(1) demo_reservation pre(2,4,3)]
  have "org_balance admitted_db ''org'' = 21"
    using decides [of 4 0] demo_admission by (simp add: int4_def)
  moreover have "fst (AdmitRun True 0 ''org'' ''run'' 30 standardFlavor 0 demo_db) = Inl (InsufficientCreditsError 30 25)"
    using decides [of 30 0] by (auto simp: int4_def split: prod.splits sum.splits)
  ultimately show ?thesis by blast
qed

lemma sql_keeps:
  "(\<And>s f. P (upd f s) = P s) \<Longrightarrow> keeps_inv P (sql_update tab upd chk p g)"
  "(\<And>s f. P (upd f s) = P s) \<Longrightarrow> keeps_inv P (sql_insert tab upd chk p r)"
  "(\<And>s f. P (upd f s) = P s) \<Longrightarrow> keeps_inv P (sql_upsert tab upd chk p r g)"
  "keeps_inv P (sql_get tab p)"
  by (auto simp: keeps_inv_def sql_defs split: option.splits)

lemma AdmitRun_keeps_runs:
  "keeps_inv (\<lambda>s. run' \<in> set (agent_run_ids s)) (AdmitRun en now org run n fl st)"
  unfolding AdmitRun_def admitRunTx_def upsertRunMeterStart_def not_enabled_def Let_def
    GetBillingCreditReservationForUpdate_def LockBillingAccountForUpdate_def
    InsertBillingCreditReservation_def UpsertBillingRunMeterStart_def update_account_def
    UpdateBillingReservedBalances_def
  by (intro keeps sql_keeps) simp_all

lemma demo_admitted:
  "org_balance admitted_db ''org'' = 21" "reservation_of admitted_db ''run'' = Some demo_row"
  "''run'' \<in> set (agent_run_ids admitted_db)" "ledger_ok admitted_db"
proof -
  have n: "(0::int) \<le> 4" "int4 4" by (simp_all add: int4_def)
  show "org_balance admitted_db ''org'' = 21"
    using AdmitRun_balance(1) [OF demo_ok(2) n demo_admission]
    by (simp add: reservationFromRow_def demo_row_def new_reservation_def)
  from demo_ok(2) n demo_reservation demo_admission
  show "reservation_of admitted_db ''run'' = Some demo_row"
  proof (cases rule: AdmitRun_new)
    case (comped a)
    then show ?thesis by (auto simp: demo_account default_account_row_def)
  next
    case (reserved a)
    then have "included_part a 4 = 4"
      by (simp add: demo_account included_part_def) (auto simp: default_account_row_def)
    with reserved(7) show ?thesis
      by (simp add: reservation_of_def demo_db_def demo_row_def) (simp add: new_reservation_def)
  qed
  show "''run'' \<in> set (agent_run_ids admitted_db)"
    by (rule keeps_invD [OF AdmitRun_keeps_runs _ demo_admission]) (simp add: demo_db_def)
  have "run_step demo_db admitted_db" by (rule admitted [OF _ demo_admission]) (simp add: service_asks_def n(2))
  then show "ledger_ok admitted_db" using run_step_ledger demo_ok(1) by blast
qed

text \<open>Admitting a run again answers with the reservation it has and charges nothing.\<close>

theorem admission_is_idempotent:
  assumes "AdmitRun True now org run n fl st s = (Inr (r, a), t)" and "billing_ok s" and "0 \<le> n" and "int4 n"
    and "AdmitRun True now' org run n' fl' st' t = (Inr (r', a'), u)"
  shows "r' = reservationFromRow (the (reservation_of t run)) \<and> org_balance u org = org_balance t org \<and>
    billing_credit_reservations u = billing_credit_reservations t"
proof -
  from AdmitRun_balance(2) [OF assms(2,3,4,1)] obtain e where e: "reservation_of t run = Some e" by auto
  from AdmitRun_existing [OF e assms(5)] e show ?thesis by (simp add: org_balance_def account_of_def)
qed

theorem admission_is_idempotent_witness:
  "\<exists>r a u. AdmitRun True 0 ''org'' ''run'' 12 plusFlavor 0 admitted_db = (Inr (r, a), u) \<and>
     org_balance u ''org'' = org_balance admitted_db ''org''"
proof -
  have ok: "billing_ok admitted_db" using demo_admitted(4) by (simp add: ledger_ok_def)
  obtain row where row: "account_of admitted_db ''org'' = Some row"
    using demo_admitted(1) by (cases "account_of admitted_db ''org''") (simp_all add: org_balance_def)
  from meter_start_success [OF ok demo_admitted(3), of plusFlavor 0 0 "''org''"] obtain u where
    "upsertRunMeterStart 0 ''run'' ''org'' plusFlavor 0 admitted_db = (Inr (), u)"
    by (auto simp: is_zero_time_def zero_time_def)
  then have run: "AdmitRun True 0 ''org'' ''run'' 12 plusFlavor 0 admitted_db =
      (Inr (reservationFromRow demo_row, accountFromRow row), u)"
    by (simp add: AdmitRun_def admitRunTx_def with_tx_def attempt_run andthen_run get_reservation_run
        lock_account_run demo_admitted(2) row Let_def is_zero_time_def zero_time_def)
  from admission_is_idempotent [OF demo_admission demo_ok(2) _ _ run] run show ?thesis
    by (auto simp: int4_def)
qed

definition open_meter :: meter_row where
  "open_meter = \<lparr>bm_run_id = ''run'', bm_org_id = ''org'', bm_flavor = ''standard'', bm_multiplier = 1,
     bm_sandbox_vcpu = 2, bm_sandbox_memory_gib = 6, bm_sandbox_disk_gib = 10, bm_started_at = Some 0,
     bm_ended_at = None, bm_billable_minutes = 0, bm_captured_credits = 0, bm_terminal_state = [],
     bm_created_at = Some 0, bm_updated_at = Some 0\<rparr>"

definition open_db :: billing_db where
  "open_db = demo_db\<lparr>
     billing_accounts := [(default_account_row 0 ''org'')\<lparr>ba_included_credits_used := 4\<rparr>],
     billing_credit_reservations := [demo_row], billing_run_meters := [open_meter]\<rparr>"

definition closed_db :: billing_db where
  "closed_db = open_db\<lparr>
     billing_accounts := [(default_account_row 0 ''org'')\<lparr>ba_included_credits_used := 2, ba_updated_at := Some 1\<rparr>],
     billing_credit_reservations := [settled_row 1 demo_row 2],
     billing_run_meters := [open_meter\<lparr>bm_ended_at := Some (20 * minute), bm_billable_minutes := 20,
       bm_captured_credits := 2, bm_terminal_state := ''done'', bm_updated_at := Some 1\<rparr>]\<rparr>"

lemma open_bill: "BillableCredits 0 (20 * minute) 1 = (20, 2)"
  by (simp add: BillableCredits_def ceil_minutes_def time_sub_def minute_def)

lemma open_lookups:
  "meter_of open_db ''run'' = Some open_meter" "reservation_of open_db ''run'' = Some demo_row"
  by (simp_all add: meter_of_def reservation_of_def open_db_def open_meter_def demo_row_def new_reservation_def)

lemma open_ok: "ledger_ok open_db"
proof -
  have "billing_ok open_db"
    by (simp add: billing_ok_def table_inv_def open_db_def demo_db_def demo_row_def open_meter_def
        new_reservation_def default_account_row_def account_inv_def account_row_ok_def account_row_int4_def
        int4_def flavor_column_values_def reservation_inv_def reservation_row_ok_def
        reservation_row_int4_def meter_inv_def meter_row_ok_def meter_row_int4_def)
  moreover have "covered open_db"
    by (auto simp: covered_def org_total_def open_db_def account_of_def default_account_row_def of_org_def
        holds_included_def demo_row_def new_reservation_def split: if_splits)
  ultimately show ?thesis
    by (simp add: ledger_ok_def all_positive_def) (simp add: open_db_def demo_row_def new_reservation_def)
qed

lemma open_finalised: "FinalizeRun True 1 ''run'' ''done'' (20 * minute) open_db = (Inr (), closed_db)"
proof -
  have now: "\<not> is_zero_time (20 * minute)" by (simp add: is_zero_time_def zero_time_def minute_def)
  have ts: "to_timestamptz (20 * minute) = Some (20 * minute)" using now by (simp add: to_timestamptz_def)
  have bill: "BillableCredits (StartedAt (runMeterFromRow open_meter)) (20 * minute)
      (rm_Multiplier (runMeterFromRow open_meter)) = (20, 2)"
    using open_bill by (simp add: runMeterFromRow_def open_meter_def from_timestamptz_def)
  have st: "res_Status (reservationFromRow demo_row) = ReservationReserved"
    "TerminalState (runMeterFromRow open_meter) = []" "res_OrgID (reservationFromRow demo_row) = ''org''"
    "ReservedCredits (reservationFromRow demo_row) = 4"
    "captureDeltas (reservationFromRow demo_row) 2 = (2, 0, 0)"
    by (simp_all add: reservationFromRow_def demo_row_def new_reservation_def runMeterFromRow_def open_meter_def
        captureDeltas_def)
  have acc: "account_of open_db ''org'' = Some ((default_account_row 0 ''org'')\<lparr>ba_included_credits_used := 4\<rparr>)"
    by (simp add: account_of_def open_db_def default_account_row_def)
  have "settleReserved 1 ''run'' ''done'' (20 * minute) (reservationFromRow demo_row) 20 2 open_db =
      (Inr (), closed_db)"
    by (simp add: settleReserved_def andthen_run lock_account_run st acc Let_def finalizeRunMeter_def
        FinalizeBillingRunMeter_def UpdateBillingCapturedBalances_def update_account_def
        UpdateBillingCreditReservationCaptured_def sql_update_def ts)
      (simp add: andthen_run int32_def open_db_def closed_db_def demo_db_def open_meter_def demo_row_def new_reservation_def
        default_account_row_def check_row_def meter_constraints_def account_constraints_def
        reservation_constraints_def meter_row_ok_def meter_row_int4_def account_row_ok_def
        account_row_int4_def reservation_row_ok_def reservation_row_int4_def int4_def replace_rows_def
        flavor_column_values_def settled_row_def charged_def reservation_codes)
  then show ?thesis
    by (simp add: Let_def FinalizeRun_def with_tx_def now finalizeRunTx_def attempt_run get_meter_run
        get_reservation_run open_lookups bill st reservation_codes)
qed

text \<open>A finalisation that succeeded is final: any later finalisation of the run, with whatever
  state and end, succeeds and changes nothing.\<close>

theorem finalisation_is_final:
  assumes "FinalizeRun True now run state ended s = (Inr (), t)"
  shows "FinalizeRun True now' run state' ended' t = (Inr (), t)"
  using finalize_finishes [OF assms] finished_again by blast

theorem finalisation_is_final_witness:
  "FinalizeRun True 9 ''run'' ''failed'' (45 * minute) closed_db = (Inr (), closed_db) \<and> closed_db \<noteq> open_db"
proof -
  have "closed_db \<noteq> open_db"
    by (auto simp: closed_db_def open_db_def open_meter_def dest: arg_cong [where f = billing_run_meters])
  with finalisation_is_final [OF open_finalised] show ?thesis by blast
qed

text \<open>C3: finalising an admitted run charges what was metered but never more than was reserved, and
  returns the rest of the reservation to the balance.\<close>

theorem finalisation_settles:
  assumes "ledger_ok s" and "FinalizeRun True now run state ended s = (Inr (), t)"
    and "reservation_of s run = Some r" and "br_status r = ReservationReserved"
    and "meter_of s run = Some m" and "bm_terminal_state m = []" and "run \<noteq> []"
  shows "\<exists>charge r'. charge = min (snd (BillableCredits (from_timestamptz (bm_started_at m))
        (if is_zero_time ended then now else ended) (bm_multiplier m))) (br_reserved_credits r) \<and>
      org_balance t (br_org_id r) = org_balance s (br_org_id r) + (br_reserved_credits r - charge) \<and>
      reservation_of t run = Some r' \<and> br_captured_credits r' = charge \<and>
      br_released_credits r' = br_reserved_credits r - charge"
  using FinalizeRun_settles [OF assms refl] unfolding billed_def by blast


theorem finalisation_settles_witness:
  "org_balance closed_db ''org'' = org_balance open_db ''org'' + 2"
proof -
  have st: "br_status demo_row = ReservationReserved" "bm_terminal_state open_meter = []"
    "from_timestamptz (bm_started_at open_meter) = 0" "bm_multiplier open_meter = 1"
    "br_reserved_credits demo_row = 4" "br_org_id demo_row = ''org''" "\<not> is_zero_time (20 * minute)"
    by (simp_all add: demo_row_def new_reservation_def open_meter_def from_timestamptz_def is_zero_time_def
        zero_time_def minute_def)
  from finalisation_settles [OF open_ok open_finalised open_lookups(2) st(1) open_lookups(1) st(2)] st
  show ?thesis by (simp add: open_bill)
qed

section \<open>The service\<close>

text \<open>Whatever the service's admission does (refuse, top up, reserve, fail half way), the billing
  tables keep their invariant, if the payment provider's calls do.\<close>

theorem service_admission_keeps_tables:
  assumes "harmless buy" and "billing_ok s"
    and "AdmitRun_svc pg (package_store en sha clock fuel buy) req s = Some (res, t)"
  shows "billing_ok t"
  using service_store.admission_keeps [OF package_store_is_service_store [OF assms(1)] assms(2,3)] .

definition demo_request :: admission_request where
  "demo_request = \<lparr>req_OrgID = ''org'', req_RunID = ''run'', req_GitHubOwner = ''o'', req_GitHubRepo = ''r'',
     req_StartedAt = 0\<rparr>"

lemma demo_store_calls:
  "EnsureAccount True 0 ''org'' demo_db = (Inr (accountFromRow (default_account_row 0 ''org'')), demo_db)"
  "RepoFlavor True ''org'' ''o'' ''r'' demo_db = (Inr standardFlavor, demo_db)"
  by (simp add: EnsureAccount_def EnsureBillingAccount_def upsert_account_def sql_upsert_def sql_update_def
      andthen_run wrap_err_def check_row_def account_constraints_def demo_db_def default_account_row_def
      account_row_ok_def account_row_int4_def int4_def flavor_column_values_def replace_rows_def)
    (simp add: RepoFlavor_def attempt_run GetRepoBillingSetting_def sql_get_def demo_db_def MustFlavor_def)

lemma demo_service:
  "AdmitRun_svc pg (package_store True sha (\<lambda>i. 0) fuel buy) demo_request demo_db =
    Some (Inr \<lparr>adm_Account = accountFromRow (reserved_row 0 (default_account_row 0 ''org'') 4 0),
      adm_Flavor = standardFlavor, adm_ReservedCredits = 4, adm_Comped = False,
      adm_AvailableCredits = 21\<rparr>, admitted_db)"
proof -
  have sel: "\<not> ba_billing_exempt (default_account_row 0 ''org'')"
    "ba_per_run_max_credits (default_account_row 0 ''org'') = 4"
    "ba_org_id (default_account_row 0 ''org'') = ''org''"
    "ReservedCredits (reservationFromRow demo_row) = 4"
    "Balance (accountFromRow (reserved_row 0 (default_account_row 0 ''org'') 4 0)) = 21"
    by (simp_all add: default_account_row_def reservationFromRow_def demo_row_def new_reservation_def
        Balance_def IncludedRemaining_def reserved_row_def)
  show ?thesis
    by (simp add: AdmitRun_svc_def package_store_def demo_request_def demo_store_calls sel Let_def standard_always_allowed
        AdmitRun_store_def andthen_run demo_admission)
qed

theorem service_admission_keeps_tables_witness: "billing_ok admitted_db"
  using service_admission_keeps_tables [OF _ demo_ok(2) demo_service [of "\<lambda>_. []" "\<lambda>x. x" 1 None]]
  by (simp add: harmless_def)

text \<open>An admission that was granted and is not comped leaves the account with a balance that is
  not negative, which is the balance it reports, and reports a reservation that is not negative.\<close>

theorem service_admission_is_covered:
  assumes "harmless buy" and "billing_ok s"
    and "AdmitRun_svc pg (package_store True sha clock fuel buy) req s = Some (Inr adm, t)"
    and "\<not> adm_Comped adm"
  shows "0 \<le> adm_AvailableCredits adm \<and> 0 \<le> adm_ReservedCredits adm \<and>
    adm_AvailableCredits adm = Balance (adm_Account adm)"
  using service_store.admission_balance [OF package_store_is_service_store [OF assms(1)] assms(2) _ assms(3,4)]
  by (simp add: package_store_def)

theorem service_admission_is_covered_witness:
  "Balance (accountFromRow (reserved_row 0 (default_account_row 0 ''org'') 4 0)) = 21"
  using service_admission_is_covered [OF _ demo_ok(2) demo_service [of "\<lambda>_. []" "\<lambda>x. x" 1 None]]
  by (simp add: harmless_def)

section \<open>Metering\<close>

text \<open>A run is charged per started quarter of an hour times its flavor's multiplier: the blocks
  cover the billed minutes and the last one is not unused.\<close>

theorem metering_charges_started_blocks:
  assumes "start < stop" and "BillableCredits start stop m = (minutes, credits)"
  shows "\<exists>blocks. credits = blocks * max m 1 \<and> 15 * (blocks - 1) < minutes \<and> minutes \<le> 15 * blocks"
  using BillableCredits_blocks [OF assms] .

theorem metering_charges_started_blocks_witness:
  "\<exists>blocks. (2::int) = blocks * max 1 1 \<and> 15 * (blocks - 1) < 20 \<and> 20 \<le> 15 * blocks"
  using metering_charges_started_blocks [OF _ open_bill] by (simp add: minute_def)

text \<open>A run that ends later is never charged less.\<close>

theorem metering_is_monotone:
  "stop \<le> stop' \<Longrightarrow> snd (BillableCredits start stop m) \<le> snd (BillableCredits start stop' m)"
  by (rule BillableCredits_mono)

theorem metering_is_monotone_witness:
  "snd (BillableCredits 0 (20 * minute) 1) \<le> snd (BillableCredits 0 (50 * minute) 1) \<and>
   snd (BillableCredits 0 (50 * minute) 1) = 4"
  using metering_is_monotone [of "20 * minute" "50 * minute" 0 1]
  by (simp add: minute_def BillableCredits_def ceil_minutes_def time_sub_def)

text \<open>Capturing splits a reservation without remainder: what is released to the included and to
  the top-up side together with what is captured is what was reserved, and only a capture beyond the
  reservation is extra.\<close>

theorem capture_splits_the_reservation:
  assumes "0 \<le> FromIncludedCredits r" and "0 \<le> FromTopupCredits r"
    and "FromIncludedCredits r + FromTopupCredits r = ReservedCredits r"
    and "captureDeltas r captured = (included, topup, extra)"
  shows "included + topup + max captured 0 = ReservedCredits r + extra \<and> 0 \<le> included \<and>
    included \<le> FromIncludedCredits r \<and> 0 \<le> topup \<and> topup \<le> FromTopupCredits r \<and>
    extra = max (captured - ReservedCredits r) 0"
  using assms by (auto simp: captureDeltas_def Let_def split: if_splits)

theorem capture_splits_the_reservation_witness:
  "(0::int) + 2 + max 6 0 = 8 + 0"
proof -
  define r where "r = reservationFromRow (new_reservation 0 ''run'' ''org'' 8 5 3 ReservationReserved)"
  have "captureDeltas r 6 = (0, 2, 0)"
    by (simp add: r_def captureDeltas_def reservationFromRow_def new_reservation_def)
  from capture_splits_the_reservation [OF _ _ _ this] show ?thesis
    by (simp add: r_def reservationFromRow_def new_reservation_def)
qed

section \<open>Top-ups\<close>

text \<open>C4: a payment event grants its credits at most once: after a grant for an event, any grant for
  the same event leaves every account as it is.\<close>

theorem grants_are_once_per_event:
  assumes "GrantTopupCreditsOnce True now ev ty org n s = (Inr (a, b), t)" and "ev \<noteq> []" and "0 < n"
  shows "billing_accounts (snd (GrantTopupCreditsOnce en now' ev ty' org' n' t)) = billing_accounts t"
  using GrantTopupCreditsOnce_known GrantTopupCreditsOnce_marks(1) [OF assms] assms(2) by blast

theorem grants_are_once_per_event_witness:
  "billing_accounts (snd (GrantTopupCreditsOnce True 0 (''in_'' @ race_key) ''invoice.paid'' race_org 100 raced_db)) =
   billing_accounts raced_db"
proof -
  obtain a b where "GrantTopupCreditsOnce True 0 (''in_'' @ race_key) ''invoice.paid'' race_org 100 race_db =
      (Inr (a, b), raced_db)"
    using race_purchases(1) unfolding webhook_first_def by (auto simp: ok_simps)
  from grants_are_once_per_event [OF this] show ?thesis by simp
qed

text \<open>C5: the auto top-up loop returns when every purchase brings a new invoice: as many passes as
  units fit between the balance and the largest target of the column are enough.\<close>

theorem auto_topup_returns:
  assumes "fresh_purchases buy" and "harmless (Some buy)" and "billing_ok s"
    and "2147483648 \<le> T" and "n \<le> T"
    and "\<And>a. account_of s org = Some a \<Longrightarrow> T \<le> Balance (accountFromRow a) + 100 * int k"
  shows "\<exists>r. AutoTopup en sha clock (Suc k) org n (Some buy) s = Some r"
proof -
  have "keeps_inv billing_ok (buy a key)" for a key using assms(2) by (simp add: harmless_def)
  from loop_enough_fuel [OF assms(1) this assms(4,5) _ assms(3,6)] assms(4) show ?thesis
    by (simp add: AutoTopup_def)
qed

definition single_sale :: purchase where
  "single_sale = (\<lambda>a key s. if has_event s ''in_1'' then (Inl (ErrNew ''sold''), s) else (Inr ''in_1'', s))"

theorem auto_topup_returns_witness:
  "\<exists>r. AutoTopup True (\<lambda>x. x) (\<lambda>i. 0) (Suc 21474837) ''org'' 12 (Some single_sale) demo_db = Some r"
proof -
  have "trim_space ''in_1'' = ''in_1''" by code_simp
  then have "fresh_purchases single_sale" by (auto simp: fresh_purchases_def single_sale_def split: if_splits)
  moreover have "harmless (Some single_sale)" by (auto simp: harmless_def keeps_inv_def single_sale_def)
  ultimately show ?thesis
    using demo_ok(2) by (rule auto_topup_returns [where T = 2147483648]) (auto simp: demo_account)
qed

text \<open>An account the auto top-up returns without error can pay for the run.\<close>

theorem auto_topup_covers_the_run:
  assumes "AutoTopup en sha clock fuel org n buy s = Some (Inr a, t)"
  shows "n \<le> Balance a"
  using assms loop_balance by (auto simp: AutoTopup_def split: if_splits)

theorem auto_topup_covers_the_run_witness:
  "12 \<le> Balance (accountFromRow (hd (billing_accounts raced_db)))"
proof -
  have "prepareAutoTopupAttempt (\<lambda>x. x) 0 race_org 12 False 0 raced_db =
      (Inr (no_purchase (accountFromRow (hd (billing_accounts raced_db)))), raced_db)"
    using raced_balance
    by (simp add: prepareAutoTopupAttempt_def with_tx_def andthen_run lock_account_run lock_topup_run
        race_settings race_lookups decideTopup_def)
      (simp add: race_db_def default_topup_row_def topupSettingsFromRow_def)
  then have "AutoTopup True (\<lambda>x. x) (\<lambda>i. 0) 1 race_org 12 None raced_db =
      Some (Inr (accountFromRow (hd (billing_accounts raced_db))), raced_db)"
    using raced_balance by (simp add: AutoTopup_def no_purchase_def One_nat_def del: One_nat_def [symmetric])
  then show ?thesis by (rule auto_topup_covers_the_run)
qed

text \<open>A purchase is attempted only when auto top-up is enabled and the balance is below the
  target, and only when the unit still fits under a monthly cap that is set.\<close>

theorem purchases_respect_the_cap:
  assumes "prepareAutoTopupAttempt sha now org n trig tg s = (Inr att, t)" and "at_shouldPurchase att"
  shows "\<exists>st. topup_of t org = Some st \<and> bt_auto_topup_enabled st \<and>
    Balance (at_account att) < at_target att \<and>
    (bt_monthly_max_cents st \<le> 0 \<or>
     bt_monthly_spend_cents_used st + at_topupUnitCents att \<le> bt_monthly_max_cents st)"
proof -
  from assms(1) obtain a st where st: "topup_of t org = Some st"
    and att: "att = decideTopup sha org n trig tg a (topupSettingsFromRow st)"
    by (auto simp: prepareAutoTopupAttempt_def ok_simps lock_topup_run split: option.splits)
  from decideTopup_purchase [OF assms(2) [unfolded att]] st show ?thesis
    unfolding att by (auto simp: topupSettingsFromRow_def)
qed

theorem purchases_respect_the_cap_witness: "topup_of race_db race_org \<noteq> None \<and> (0::int) < 150"
  using purchases_respect_the_cap [OF race_passes(1)] by auto

text \<open>C6: when the invoice.paid webhook of a purchase is handled before the purchase returns, the
  loop never counts the unit, so the next pass asks the provider with the same idempotency key, gets
  the same invoice and grants nothing. For an organisation whose auto top-up is due, that needs more
  than one unit to reach its target and has room for one under its monthly cap, the loop has then
  not returned after any number of passes that fit into the month its settings are in.\<close>

theorem auto_topup_livelock:
  assumes "billing_ok s" "stripe_ids_unique s" "account_of s org = Some a" "topup_of s org = Some r"
    and "two_units_due (accountFromRow a) (topupSettingsFromRow r) n"
    and "int4 (ba_topup_credits a + 100)"
    and "\<forall>i<fuel. currentBillingMonth (clock i) (clock i) = bt_monthly_anchor_month r"
    and "\<forall>key. invoice key \<noteq> [] \<and> trim_space (invoice key) = invoice key \<and> \<not> has_event s (invoice key)"
  shows "AutoTopup True sha clock fuel org n (Some (webhook_first invoice now org)) s = None"
  using assms by (simp add: AutoTopup_def due_loop_runs_on [OF _ _ _ _ _ refl])

lemma race_ok: "billing_ok race_db" "stripe_ids_unique race_db"
proof -
  have "topup_inv r" if "billing_topup_settings race_db = [r]" for r
    using race_topup_row [OF that] by (simp add: topup_inv_def)
  then show "billing_ok race_db"
    by (auto simp: billing_ok_def table_inv_def race_db_def account_inv_def default_account_row_def
        account_row_ok_def account_row_int4_def int4_def flavor_column_values_def)
  show "stripe_ids_unique race_db"
    by (simp add: stripe_ids_unique_def race_db_def account_constraints_def default_account_row_def)
qed

lemma first_day_month: "0 \<le> t \<Longrightarrow> t < day_ns \<Longrightarrow> currentBillingMonth t t = ''1970-01''"
  using month_zero by (simp add: currentBillingMonth_def)

theorem auto_topup_livelock_witness:
  "AutoTopup True (\<lambda>_. ''0'') (\<lambda>i. int i) 20 race_org 12 (Some (webhook_first (\<lambda>key. ''in_0'') 0 race_org)) race_db = None"
proof -
  have "trim_space ''in_0'' = ''in_0''" by code_simp
  moreover have "\<forall>i<20. currentBillingMonth (int i) (int i) = ''1970-01''"
    by (auto intro!: first_day_month simp: day_ns_def)
  ultimately show ?thesis
    using race_lookups(1,3)
    by (intro auto_topup_livelock [OF race_ok])
      (auto simp: race_db_def default_account_row_def default_topup_row_def two_units_due_def
        accountFromRow_def topupSettingsFromRow_def Balance_def IncludedRemaining_def team_cents int4_def
        has_event_def)
qed

section \<open>Settings\<close>

text \<open>Reading the top-up settings starts the month's usage anew when the stored month is another
  one, and keeps it otherwise.\<close>

theorem topup_usage_restarts_monthly:
  assumes "ensureTopupSettings now org s = (Inr st, t)" and "topup_of s org = Some r"
  shows "MonthlyAnchorMonth st = currentBillingMonth now now \<and>
    (if bt_monthly_anchor_month r = currentBillingMonth now now
     then MonthlyUnitsUsed st = bt_monthly_units_used r \<and>
       MonthlySpendCentsUsed st = bt_monthly_spend_cents_used r
     else MonthlyUnitsUsed st = 0 \<and> MonthlySpendCentsUsed st = 0)"
  using ensureTopup_month [OF assms(1)] assms(2) by auto

definition stale_db :: billing_db where
  "stale_db = demo_db\<lparr>billing_topup_settings :=
     [(default_topup_row 0 ''1969-12'' ''org'')\<lparr>bt_monthly_units_used := 3\<rparr>]\<rparr>"

theorem topup_usage_restarts_monthly_witness:
  "\<exists>st t. ensureTopupSettings 0 ''org'' stale_db = (Inr st, t) \<and> MonthlyUnitsUsed st = 0"
proof -
  obtain st t where run: "ensureTopupSettings 0 ''org'' stale_db = (Inr st, t)"
    by (simp add: ensureTopupSettings_def EnsureBillingTopupSettings_def ResetBillingTopupMonthlyUsage_def
        update_topup_def sql_defs andthen_run wrap_err_def month_zero Let_def topupSettingsFromRow_def
        stale_db_def demo_db_def default_topup_row_def replace_rows_def check_row_def topup_constraints_def
        topup_row_ok_def topup_row_int4_def int4_def default_account_row_def)
  have "topup_of stale_db ''org'' = Some ((default_topup_row 0 ''1969-12'' ''org'')\<lparr>bt_monthly_units_used := 3\<rparr>)"
    by (simp add: topup_of_def stale_db_def default_topup_row_def)
  from topup_usage_restarts_monthly [OF run this] run show ?thesis
    by (auto simp: month_zero default_topup_row_def)
qed

text \<open>Mirroring a subscription never takes top-up credits or an exemption away; the included
  credits used so far count against the new allowance in the same period and are forgotten when the
  period changes.\<close>

theorem mirror_keeps_purchases:
  assumes "UpsertAccountMirror True now m s = (Inr a, t)" and "account_of s (am_OrgID m) = Some r"
  shows "TopupCredits a = ba_topup_credits r \<and>
    BillingExempt a = (ba_billing_exempt r \<or> am_BillingExempt m) \<and>
    IncludedCredits a = int32 (max (am_IncludedCredits m) 0) \<and>
    IncludedCreditsUsed a =
      (if ba_current_period_start r = to_timestamptz (am_CurrentPeriodStart m) \<and>
          ba_current_period_end r = to_timestamptz (am_CurrentPeriodEnd m)
       then min (ba_included_credits_used r) (IncludedCredits a) else 0)"
  using assms(1)
proof (cases rule: UpsertAccountMirror_cases)
  case created
  with assms(2) show ?thesis by simp
next
  case (updated r')
  have "am_CurrentPeriodStart (mirror_defaults m) = am_CurrentPeriodStart m"
    "am_CurrentPeriodEnd (mirror_defaults m) = am_CurrentPeriodEnd m"
    "am_IncludedCredits (mirror_defaults m) = am_IncludedCredits m"
    "am_BillingExempt (mirror_defaults m) = am_BillingExempt m"
    by (simp_all add: mirror_defaults_def Let_def)
  with updated assms(2) show ?thesis
    by (simp add: mirror_conflict_def mirror_row_def)
qed

definition demo_mirror :: account_mirror where
  "demo_mirror = \<lparr>am_OrgID = ''org'', am_StripeCustomerID = ''cus'', am_StripeSubscriptionID = ''sub'',
     am_PlanCode = ''team'', am_Status = ''active'', am_CurrentPeriodStart = 5, am_CurrentPeriodEnd = 6,
     am_IncludedCredits = 500, am_MaxFlavor = ''plus'', am_PerRunMaxCredits = 12, am_BillingExempt = False,
     am_LastPaymentError = []\<rparr>"

definition used_db :: billing_db where
  "used_db = demo_db\<lparr>billing_accounts := [(default_account_row 0 ''org'')\<lparr>ba_topup_credits := 7,
     ba_included_credits_used := 9\<rparr>]\<rparr>"

theorem mirror_keeps_purchases_witness:
  "\<exists>a t. UpsertAccountMirror True 0 demo_mirror used_db = (Inr a, t) \<and> TopupCredits a = 7 \<and>
     IncludedCreditsUsed a = 0 \<and> IncludedCredits a = 500"
proof -
  obtain a t where run: "UpsertAccountMirror True 0 demo_mirror used_db = (Inr a, t)"
    by (simp add: to_timestamptz_def is_zero_time_def zero_time_def PlanFree_def FlavorStandard_def UpsertAccountMirror_def UpsertBillingAccountMirror_def upsert_account_def sql_defs
        andthen_run wrap_err_def check_row_def account_constraints_def used_db_def demo_db_def
        default_account_row_def account_row_ok_def account_row_int4_def int4_def int32_def
        flavor_column_values_def mirror_row_def mirror_defaults_def demo_mirror_def mirror_conflict_def)
  have "account_of used_db (am_OrgID demo_mirror) = Some ((default_account_row 0 ''org'')\<lparr>ba_topup_credits := 7,
     ba_included_credits_used := 9\<rparr>)"
    by (simp add: account_of_def used_db_def demo_mirror_def default_account_row_def)
  from mirror_keeps_purchases [OF run this] run show ?thesis
    by (auto simp: demo_mirror_def default_account_row_def int32_def to_timestamptz_def is_zero_time_def
        zero_time_def)
qed

text \<open>The flavor a repository was given is the one its runs are admitted with.\<close>

theorem repo_flavor_reads_back:
  assumes "SetRepoFlavor True now org owner repo code s = (Inr rs, t)"
  shows "\<exists>fl. ParseFlavor code = Inr fl \<and> rs_Flavor rs = fl_Code fl \<and>
    RepoFlavor True org owner repo t = (Inr fl, t)"
  using RepoFlavor_after_SetRepoFlavor [OF assms] by auto

definition comped_db :: billing_db where
  "comped_db = demo_db\<lparr>billing_accounts := [(default_account_row 0 ''org'')\<lparr>ba_billing_exempt := True\<rparr>]\<rparr>"

theorem repo_flavor_reads_back_witness:
  "\<exists>t. RepoFlavor True ''org'' ''o'' ''r'' t = (Inr plusFlavor, t)"
proof -
  have p: "ParseFlavor ''PLUS '' = Inr plusFlavor" by code_simp
  obtain rs t where "SetRepoFlavor True 0 ''org'' ''o'' ''r'' ''PLUS '' comped_db = (Inr rs, t)"
    by (simp add: SetRepoFlavor_def EnsureAccount_def EnsureBillingAccount_def upsert_account_def
        UpsertRepoBillingSetting_def sql_defs andthen_run wrap_err_def p check_row_def account_constraints_def
        comped_db_def demo_db_def default_account_row_def account_row_ok_def account_row_int4_def int4_def
        flavor_column_values_def replace_rows_def Let_def repo_setting_constraints_def flavor_codes)
  from repo_flavor_reads_back [OF this] p show ?thesis by auto
qed

text \<open>A plan's cap allows exactly the flavors its settings page offers.\<close>

theorem flavor_cap_offers:
  "FlavorAllowed code cap \<longleftrightarrow> (\<exists>f \<in> set (AllowedFlavors cap). ParseFlavor code = Inr f)"
  by (rule FlavorAllowed_iff)

end
