(* ===== verification/Go_Json.thy ===== *)
theory Go_Json
  imports Go_Prelude
begin

text \<open>
  What the sources use of encoding/json and strconv: a document that is already known to be valid
  JSON (json.RawMessage, or the argument of UnmarshalJSON) as a tree, the decoding of a tree into
  the fields of a struct, and Atoi.

  A number keeps its literal, as the scanner does. A struct is decoded key by key, in the order of
  the document; a key belongs to the field whose tag it equals up to case, other keys are skipped,
  and the value null leaves a field as it is. The reported error is the first one.
\<close>

datatype json =
    JNull
  | JBool bool
  | JNum string
  | JStr string
  | JArr "json list"
  | JObj "(string \<times> json) list"

definition is_digit :: "char \<Rightarrow> bool" where
  "is_digit c \<longleftrightarrow> (let n = (of_char c :: nat) in 48 \<le> n \<and> n \<le> 57)"

fun digits_value :: "nat \<Rightarrow> string \<Rightarrow> nat" where
  "digits_value acc [] = acc"
| "digits_value acc (c # s) = digits_value (10 * acc + (of_char c - 48)) s"

definition is_int64 :: "int \<Rightarrow> bool" where
  "is_int64 n \<longleftrightarrow> - 9223372036854775808 \<le> n \<and> n \<le> 9223372036854775807"

text \<open>strconv.Atoi: None for a syntax error and for a value outside int64.\<close>

definition atoi :: "string \<Rightarrow> int option" where
  "atoi s =
     (let neg = (s \<noteq> [] \<and> hd s = CHR ''-'');
          ds = (if s \<noteq> [] \<and> (hd s = CHR ''-'' \<or> hd s = CHR ''+'') then tl s else s);
          v = int (digits_value 0 ds);
          n = (if neg then - v else v)
      in if ds = [] \<or> \<not> list_all is_digit ds \<or> \<not> is_int64 n then None else Some n)"

definition JsonTypeError :: go_error where
  "JsonTypeError = ErrNew ''json: cannot unmarshal value into Go value''"

fun json_string :: "json \<Rightarrow> string \<Rightarrow> go_error + string" where
  "json_string (JStr s) cur = Inr s"
| "json_string JNull cur = Inr cur"
| "json_string j cur = Inl JsonTypeError"

fun json_bool :: "json \<Rightarrow> bool \<Rightarrow> go_error + bool" where
  "json_bool (JBool b) cur = Inr b"
| "json_bool JNull cur = Inr cur"
| "json_bool j cur = Inl JsonTypeError"

text \<open>An integer literal: a fraction or an exponent is an error, as is a value outside int64.\<close>

fun json_int :: "json \<Rightarrow> int \<Rightarrow> go_error + int" where
  "json_int (JNum lit) cur = (case atoi lit of Some n \<Rightarrow> Inr n | None \<Rightarrow> Inl JsonTypeError)"
| "json_int JNull cur = Inr cur"
| "json_int j cur = Inl JsonTypeError"

text \<open>Decoding of the members of an object, one after the other.\<close>

fun json_members ::
  "(string \<Rightarrow> json \<Rightarrow> 'a \<Rightarrow> go_error + 'a) \<Rightarrow> (string \<times> json) list \<Rightarrow> 'a \<Rightarrow> go_error + 'a" where
  "json_members step [] x = Inr x"
| "json_members step ((k, v) # kvs) x =
     (case step (to_lower k) v x of Inl e \<Rightarrow> Inl e | Inr y \<Rightarrow> json_members step kvs y)"

fun json_object ::
  "(string \<Rightarrow> json \<Rightarrow> 'a \<Rightarrow> go_error + 'a) \<Rightarrow> json \<Rightarrow> 'a \<Rightarrow> go_error + 'a" where
  "json_object step (JObj kvs) x = json_members step kvs x"
| "json_object step JNull x = Inr x"
| "json_object step j x = Inl JsonTypeError"

fun json_elements :: "(json \<Rightarrow> go_error + 'a) \<Rightarrow> json list \<Rightarrow> go_error + 'a list" where
  "json_elements dec [] = Inr []"
| "json_elements dec (j # js) =
     (case dec j of
        Inl e \<Rightarrow> Inl e
      | Inr x \<Rightarrow> (case json_elements dec js of Inl e \<Rightarrow> Inl e | Inr xs \<Rightarrow> Inr (x # xs)))"

text \<open>A slice: null makes it nil. Elements are decoded into zero values.\<close>

fun json_list :: "(json \<Rightarrow> go_error + 'a) \<Rightarrow> json \<Rightarrow> go_error + 'a list" where
  "json_list dec (JArr js) = json_elements dec js"
| "json_list dec JNull = Inr []"
| "json_list dec j = Inl JsonTypeError"

text \<open>A map[string]string: its keys are kept as they are, a null value is the empty string.\<close>

fun json_map_members ::
  "(string \<times> json) list \<Rightarrow> (string \<rightharpoonup> string) \<Rightarrow> go_error + (string \<rightharpoonup> string)" where
  "json_map_members [] m = Inr m"
| "json_map_members ((k, v) # kvs) m =
     (case json_string v [] of Inl e \<Rightarrow> Inl e | Inr s \<Rightarrow> json_map_members kvs (m(k \<mapsto> s)))"

fun json_map :: "json \<Rightarrow> (string \<rightharpoonup> string) \<Rightarrow> go_error + (string \<rightharpoonup> string)" where
  "json_map (JObj kvs) m = json_map_members kvs m"
| "json_map JNull m = Inr Map.empty"
| "json_map j m = Inl JsonTypeError"

text \<open>Indexing a Go map: the zero value for a key that is not there.\<close>

definition map_get :: "(string \<rightharpoonup> string) \<Rightarrow> string \<Rightarrow> string" where
  "map_get m k = (case m k of None \<Rightarrow> [] | Some v \<Rightarrow> v)"

definition lift_field :: "(go_error + 'b) \<Rightarrow> ('b \<Rightarrow> 'a) \<Rightarrow> go_error + 'a" where
  "lift_field r f = (case r of Inl e \<Rightarrow> Inl e | Inr x \<Rightarrow> Inr (f x))"

section \<open>Numbers\<close>

lemma digit_char: "n < 10 \<Longrightarrow> is_digit (char_of (48 + n))" for n :: nat
  by (simp add: is_digit_def Let_def)

lemma show_nat_digits: "list_all is_digit (show_nat n) \<and> show_nat n \<noteq> []"
proof (induction n rule: show_nat.induct)
  case (1 n)
  show ?case
  proof (cases "n < 10")
    case True
    then have "show_nat n = [char_of (48 + n)]" by (subst show_nat.simps) simp
    with digit_char [OF True] show ?thesis by simp
  next
    case False
    then have "show_nat n = show_nat (n div 10) @ [char_of (48 + n mod 10)]"
      by (subst show_nat.simps) simp
    with 1 [OF False] digit_char [of "n mod 10"] show ?thesis by simp
  qed
qed

lemma digits_value_append: "digits_value acc (s @ [c]) = 10 * digits_value acc s + (of_char c - 48)"
  by (induction s arbitrary: acc) auto

lemma digits_show: "digits_value 0 (show_nat n) = n"
proof (induction n rule: show_nat.induct)
  case (1 n)
  show ?case
  proof (cases "n < 10")
    case True
    then show ?thesis by (subst show_nat.simps) simp
  next
    case False
    then have "digits_value 0 (show_nat (n div 10)) = n div 10" using 1 by simp
    with False show ?thesis by (subst show_nat.simps) (simp add: digits_value_append)
  qed
qed

lemma atoi_itoa: "is_int64 n \<Longrightarrow> atoi (itoa n) = Some n"
proof -
  assume n: "is_int64 n"
  have d: "hd (show_nat k) \<noteq> CHR ''-''" "hd (show_nat k) \<noteq> CHR ''+''" for k
    using show_nat_digits [of k] by (cases "show_nat k"; force simp: is_digit_def)+
  show ?thesis
    using n show_nat_digits [of "nat n"] show_nat_digits [of "nat (- n)"] d
    by (cases "n < 0") (simp_all add: atoi_def itoa_def digits_show)
qed

lemma itoa_clean: "trim_space (itoa n) = itoa n"
proof (rule trim_space_clean)
  have dig: "\<not> is_space c" if "is_digit c" for c
    using that by (auto simp: is_digit_def is_space_def Let_def)
  have ends: "\<not> is_space (hd (show_nat k))" "\<not> is_space (last (show_nat k))" for k
    using show_nat_digits [of k] dig by (auto simp: list_all_iff)
  show "itoa n \<noteq> []" "\<not> is_space (hd (itoa n))" "\<not> is_space (last (itoa n))"
    using ends show_nat_digits by (auto simp: itoa_def is_space_def)
qed

end
