(* ===== verification/Stripe_Billing.thy ===== *)
theory Stripe_Billing
  imports Billing_Service Go_Json
begin

text \<open>
  internal/bot/stripe_billing.go: the price and plan lookups of the configuration, the metadata
  written to and read from the payment provider, the objects its events carry (also
  stripe_webhook.go), and the mirror of a paid subscription. The provider's own calls are
  arguments.
\<close>

section \<open>Configuration\<close>

record stripe_config =
  StripeSecretKey :: string
  StripeWebhookSecret :: string
  StripeSubscriptionPriceID :: string
  StripeSubscriptionPriceIDs :: "string \<rightharpoonup> string"
  StripeTopupPriceID :: string
  StripeTopupPriceIDs :: "string \<rightharpoonup> string"

definition stripeCheckoutKindSubscription :: string where
  "stripeCheckoutKindSubscription = ''subscription''"
definition stripeCheckoutKindTopup :: string where "stripeCheckoutKindTopup = ''topup''"
definition stripeMetadataAppKey :: string where "stripeMetadataAppKey = ''app''"
definition stripeMetadataAppHetchy :: string where "stripeMetadataAppHetchy = ''hetchy''"

definition stripeSubscriptionPriceID :: "stripe_config \<Rightarrow> string \<Rightarrow> string" where
  "stripeSubscriptionPriceID cfg planCode0 =
     (let code = to_lower (trim_space planCode0);
          planCode = (if code = [] then pp_Code DefaultPaidPlan else code);
          priceID = trim_space (map_get (StripeSubscriptionPriceIDs cfg) planCode)
      in if priceID \<noteq> [] then priceID
         else if planCode = pp_Code DefaultPaidPlan then trim_space (StripeSubscriptionPriceID cfg)
         else [])"

definition stripeTopupPlanPriceID :: "(string \<rightharpoonup> string) \<Rightarrow> string \<Rightarrow> string \<Rightarrow> string" where
  "stripeTopupPlanPriceID priceIDs legacy planCode0 =
     (let planCode = to_lower (trim_space planCode0)
      in if PaidPlanByCode planCode = None then []
         else let priceID = trim_space (map_get priceIDs planCode)
              in if priceID \<noteq> [] then priceID else trim_space legacy)"

definition stripeTopupPriceID :: "stripe_config \<Rightarrow> string \<Rightarrow> string" where
  "stripeTopupPriceID cfg planCode =
     stripeTopupPlanPriceID (StripeTopupPriceIDs cfg) (StripeTopupPriceID cfg) planCode"

definition stripeConfigured :: "stripe_config \<Rightarrow> bool" where
  "stripeConfigured cfg \<longleftrightarrow> trim_space (StripeSecretKey cfg) \<noteq> [] \<and>
     stripeSubscriptionPriceID cfg (pp_Code DefaultPaidPlan) \<noteq> [] \<and>
     stripeTopupPriceID cfg (pp_Code DefaultPaidPlan) \<noteq> []"

record stripe_topupper =
  tu_secretKey :: string
  tu_topupPriceID :: string
  tu_topupPriceIDs :: "string \<rightharpoonup> string"

definition newStripeAutoTopupper :: "stripe_config \<Rightarrow> stripe_topupper option" where
  "newStripeAutoTopupper cfg =
     (if trim_space (StripeSecretKey cfg) = [] \<or>
         stripeTopupPlanPriceID (StripeTopupPriceIDs cfg) (StripeTopupPriceID cfg)
           (pp_Code DefaultPaidPlan) = []
      then None
      else Some \<lparr>tu_secretKey = trim_space (StripeSecretKey cfg),
             tu_topupPriceID = trim_space (StripeTopupPriceID cfg),
             tu_topupPriceIDs = StripeTopupPriceIDs cfg\<rparr>)"

definition checkoutPlan :: "stripe_config \<Rightarrow> string \<Rightarrow> go_error + paid_plan \<times> string" where
  "checkoutPlan cfg planCode0 =
     (let code = to_lower (trim_space planCode0);
          planCode = (if code = [] then pp_Code DefaultPaidPlan else code)
      in case PaidPlanByCode planCode of
           None \<Rightarrow> Inl (ErrNew (''unknown billing plan \"'' @ planCode @ ''\"''))
         | Some plan \<Rightarrow>
             (let priceID = stripeSubscriptionPriceID cfg (pp_Code plan)
              in if priceID = []
                 then Inl (ErrNew (''billing plan \"'' @ pp_Code plan @ ''\" is not configured''))
                 else Inr (plan, priceID)))"

section \<open>Metadata\<close>

definition hetchyStripeMetadata :: "(string \<rightharpoonup> string) \<Rightarrow> (string \<rightharpoonup> string)" where
  "hetchyStripeMetadata values = values(stripeMetadataAppKey \<mapsto> stripeMetadataAppHetchy)"

definition paidSubscriptionMetadata :: "string \<Rightarrow> paid_plan \<Rightarrow> (string \<rightharpoonup> string)" where
  "paidSubscriptionMetadata org plan = hetchyStripeMetadata (map_of
     [(''kind'', stripeCheckoutKindSubscription), (''org_id'', org), (''plan_code'', pp_Code plan),
      (''included_credits'', itoa (pp_IncludedCredits plan)), (''max_flavor'', pp_MaxFlavor plan),
      (''per_run_max_credits'', itoa (pp_PerRunMaxCredits plan))])"

definition metadataString :: "(string \<rightharpoonup> string) \<Rightarrow> string \<Rightarrow> string \<Rightarrow> string" where
  "metadataString metadata key def =
     (let v = trim_space (map_get metadata key) in if v \<noteq> [] then v else def)"

definition metadataInt :: "(string \<rightharpoonup> string) \<Rightarrow> string \<Rightarrow> int \<Rightarrow> int" where
  "metadataInt metadata key def =
     (case atoi (trim_space (map_get metadata key)) of
        None \<Rightarrow> def
      | Some n \<Rightarrow> if n < 0 then def else n)"

definition topupCreditsFromCheckoutMetadata :: "(string \<rightharpoonup> string) \<Rightarrow> int" where
  "topupCreditsFromCheckoutMetadata metadata =
     (let credits = metadataInt metadata ''credits'' 0
      in if credits = 0 then int64 (metadataInt metadata ''quantity'' 1 * TopupUnitCredits)
         else credits)"

text \<open>The metadata of a top-up checkout, as billingTopupHandler writes it.\<close>

definition topupMetadata :: "string \<Rightarrow> int \<Rightarrow> (string \<rightharpoonup> string)" where
  "topupMetadata org quantity = hetchyStripeMetadata (map_of
     [(''kind'', stripeCheckoutKindTopup), (''org_id'', org), (''quantity'', itoa quantity),
      (''credits'', itoa (quantity * TopupUnitCredits))])"

definition stripeOrgID :: "(string \<rightharpoonup> string) \<Rightarrow> string \<Rightarrow> string" where
  "stripeOrgID metadata fallback =
     (let org = trim_space (map_get metadata ''org_id'') in if org \<noteq> [] then org else trim_space fallback)"

definition paidAccountMirror ::
  "string \<Rightarrow> string \<Rightarrow> string \<Rightarrow> string \<Rightarrow> go_time \<Rightarrow> go_time \<Rightarrow> (string \<rightharpoonup> string) \<Rightarrow> account_mirror" where
  "paidAccountMirror org customer subscription status0 periodStart periodEnd metadata =
     (let status = (if status0 = [] then ''active'' else status0);
          code = metadataString metadata ''plan_code'' (pp_Code DefaultPaidPlan);
          planCode = (if PaidPlanByCode code = None then pp_Code DefaultPaidPlan else code);
          plan = (case PaidPlanByCode code of Some p \<Rightarrow> p | None \<Rightarrow> DefaultPaidPlan)
      in \<lparr>am_OrgID = org, am_StripeCustomerID = customer, am_StripeSubscriptionID = subscription,
          am_PlanCode = planCode, am_Status = status, am_CurrentPeriodStart = periodStart,
          am_CurrentPeriodEnd = periodEnd, am_IncludedCredits = pp_IncludedCredits plan,
          am_MaxFlavor = pp_MaxFlavor plan, am_PerRunMaxCredits = pp_PerRunMaxCredits plan,
          am_BillingExempt = False, am_LastPaymentError = []\<rparr>)"

definition unixTime :: "int \<Rightarrow> go_time" where
  "unixTime sec = (if sec \<le> 0 then zero_time else sec * second)"

section \<open>Objects of events\<close>

text \<open>stripeID.UnmarshalJSON: an id, or an expanded object with the id in it.\<close>

fun stripeID :: "json \<Rightarrow> go_error + string" where
  "stripeID JNull = Inr []"
| "stripeID (JStr s) = Inr s"
| "stripeID j = json_object (\<lambda>k v cur. if k = ''id'' then json_string v cur else Inr cur) j []"

record checkout_session =
  cs_ID :: string
  cs_Mode :: string
  cs_PaymentStatus :: string
  cs_Customer :: string
  cs_Subscription :: string
  cs_ClientReferenceID :: string
  cs_Metadata :: "string \<rightharpoonup> string"

definition decode_checkout_session :: "json \<Rightarrow> go_error + checkout_session" where
  "decode_checkout_session j = json_object (\<lambda>k v x.
     if k = ''id'' then lift_field (json_string v (cs_ID x)) (\<lambda>y. x\<lparr>cs_ID := y\<rparr>)
     else if k = ''mode'' then lift_field (json_string v (cs_Mode x)) (\<lambda>y. x\<lparr>cs_Mode := y\<rparr>)
     else if k = ''payment_status''
       then lift_field (json_string v (cs_PaymentStatus x)) (\<lambda>y. x\<lparr>cs_PaymentStatus := y\<rparr>)
     else if k = ''customer'' then lift_field (stripeID v) (\<lambda>y. x\<lparr>cs_Customer := y\<rparr>)
     else if k = ''subscription'' then lift_field (stripeID v) (\<lambda>y. x\<lparr>cs_Subscription := y\<rparr>)
     else if k = ''client_reference_id''
       then lift_field (json_string v (cs_ClientReferenceID x)) (\<lambda>y. x\<lparr>cs_ClientReferenceID := y\<rparr>)
     else if k = ''metadata'' then lift_field (json_map v (cs_Metadata x)) (\<lambda>y. x\<lparr>cs_Metadata := y\<rparr>)
     else Inr x) j
     \<lparr>cs_ID = [], cs_Mode = [], cs_PaymentStatus = [], cs_Customer = [], cs_Subscription = [],
      cs_ClientReferenceID = [], cs_Metadata = Map.empty\<rparr>"

text \<open>An item of a subscription, of which the period is read, and the subscription.\<close>

definition decode_item_period :: "json \<Rightarrow> go_error + int \<times> int" where
  "decode_item_period j = json_object (\<lambda>k v x.
     if k = ''current_period_start'' then lift_field (json_int v (fst x)) (\<lambda>y. (y, snd x))
     else if k = ''current_period_end'' then lift_field (json_int v (snd x)) (\<lambda>y. (fst x, y))
     else Inr x) j (0, 0)"

record subscription_object =
  so_ID :: string
  so_Customer :: string
  so_Status :: string
  so_CancelAt :: int
  so_CancelAtPeriodEnd :: bool
  so_CurrentPeriodStart :: int
  so_CurrentPeriodEnd :: int
  so_Metadata :: "string \<rightharpoonup> string"
  so_Items :: "(int \<times> int) list"

definition decode_subscription :: "json \<Rightarrow> go_error + subscription_object" where
  "decode_subscription j = json_object (\<lambda>k v x.
     if k = ''id'' then lift_field (json_string v (so_ID x)) (\<lambda>y. x\<lparr>so_ID := y\<rparr>)
     else if k = ''customer'' then lift_field (stripeID v) (\<lambda>y. x\<lparr>so_Customer := y\<rparr>)
     else if k = ''status'' then lift_field (json_string v (so_Status x)) (\<lambda>y. x\<lparr>so_Status := y\<rparr>)
     else if k = ''cancel_at'' then lift_field (json_int v (so_CancelAt x)) (\<lambda>y. x\<lparr>so_CancelAt := y\<rparr>)
     else if k = ''cancel_at_period_end''
       then lift_field (json_bool v (so_CancelAtPeriodEnd x)) (\<lambda>y. x\<lparr>so_CancelAtPeriodEnd := y\<rparr>)
     else if k = ''current_period_start''
       then lift_field (json_int v (so_CurrentPeriodStart x)) (\<lambda>y. x\<lparr>so_CurrentPeriodStart := y\<rparr>)
     else if k = ''current_period_end''
       then lift_field (json_int v (so_CurrentPeriodEnd x)) (\<lambda>y. x\<lparr>so_CurrentPeriodEnd := y\<rparr>)
     else if k = ''metadata'' then lift_field (json_map v (so_Metadata x)) (\<lambda>y. x\<lparr>so_Metadata := y\<rparr>)
     else if k = ''items''
       then lift_field (json_object (\<lambda>k' v' items.
         if k' = ''data'' then json_list decode_item_period v' else Inr items) v (so_Items x))
         (\<lambda>y. x\<lparr>so_Items := y\<rparr>)
     else Inr x) j
     \<lparr>so_ID = [], so_Customer = [], so_Status = [], so_CancelAt = 0, so_CancelAtPeriodEnd = False,
      so_CurrentPeriodStart = 0, so_CurrentPeriodEnd = 0, so_Metadata = Map.empty, so_Items = []\<rparr>"

definition Period :: "subscription_object \<Rightarrow> go_time \<times> go_time" where
  "Period s =
     (let se = (if (so_CurrentPeriodStart s = 0 \<or> so_CurrentPeriodEnd s = 0) \<and> so_Items s \<noteq> []
                then hd (so_Items s) else (so_CurrentPeriodStart s, so_CurrentPeriodEnd s))
      in (unixTime (fst se), unixTime (snd se)))"

definition CancellationEffectiveAt :: "subscription_object \<Rightarrow> go_time" where
  "CancellationEffectiveAt s =
     (if 0 < so_CancelAt s then unixTime (so_CancelAt s)
      else if so_CancelAtPeriodEnd s then snd (Period s)
      else zero_time)"

record invoice_object =
  io_ID :: string
  io_Customer :: string
  io_Metadata :: "string \<rightharpoonup> string"

definition decode_invoice :: "json \<Rightarrow> go_error + invoice_object" where
  "decode_invoice j = json_object (\<lambda>k v x.
     if k = ''id'' then lift_field (json_string v (io_ID x)) (\<lambda>y. x\<lparr>io_ID := y\<rparr>)
     else if k = ''customer'' then lift_field (stripeID v) (\<lambda>y. x\<lparr>io_Customer := y\<rparr>)
     else if k = ''metadata'' then lift_field (json_map v (io_Metadata x)) (\<lambda>y. x\<lparr>io_Metadata := y\<rparr>)
     else Inr x) j \<lparr>io_ID = [], io_Customer = [], io_Metadata = Map.empty\<rparr>"

section \<open>Lemmas\<close>

lemma map_get_simps [simp]:
  "map_get Map.empty k = []" "map_get (m(k \<mapsto> v)) k = v" "k \<noteq> k' \<Longrightarrow> map_get (m(k \<mapsto> v)) k' = map_get m k'"
  by (simp_all add: map_get_def)

lemma metadataInt_itoa:
  "map_get m k = itoa n \<Longrightarrow> 0 \<le> n \<Longrightarrow> is_int64 n \<Longrightarrow> metadataInt m k d = n"
  by (simp add: metadataInt_def itoa_clean atoi_itoa)

lemma paid_codes_clean: "p \<in> set paidPlans \<Longrightarrow> trim_space (pp_Code p) = pp_Code p \<and> pp_Code p \<noteq> []"
proof -
  have "\<forall>p \<in> set paidPlans. trim_space (pp_Code p) = pp_Code p \<and> pp_Code p \<noteq> []" by code_simp
  then show "p \<in> set paidPlans \<Longrightarrow> trim_space (pp_Code p) = pp_Code p \<and> pp_Code p \<noteq> []" by blast
qed

lemma DefaultPaidPlan_in: "DefaultPaidPlan \<in> set paidPlans"
  by (simp add: DefaultPaidPlan_def paidPlans_def)

lemma mirror_of_metadata:
  assumes "p \<in> set paidPlans" and "metadataString md ''plan_code'' (pp_Code DefaultPaidPlan) = pp_Code p"
  shows "paidAccountMirror org c sub st ps pe md =
    \<lparr>am_OrgID = org, am_StripeCustomerID = c, am_StripeSubscriptionID = sub, am_PlanCode = pp_Code p,
     am_Status = (if st = [] then ''active'' else st), am_CurrentPeriodStart = ps, am_CurrentPeriodEnd = pe,
     am_IncludedCredits = pp_IncludedCredits p, am_MaxFlavor = pp_MaxFlavor p,
     am_PerRunMaxCredits = pp_PerRunMaxCredits p, am_BillingExempt = False, am_LastPaymentError = []\<rparr>"
  by (simp add: paidAccountMirror_def Let_def assms PaidPlanByCode_complete)

lemma mirror_paid:
  "\<exists>p \<in> set paidPlans. paidAccountMirror org c sub st ps pe md =
    \<lparr>am_OrgID = org, am_StripeCustomerID = c, am_StripeSubscriptionID = sub, am_PlanCode = pp_Code p,
     am_Status = (if st = [] then ''active'' else st), am_CurrentPeriodStart = ps, am_CurrentPeriodEnd = pe,
     am_IncludedCredits = pp_IncludedCredits p, am_MaxFlavor = pp_MaxFlavor p,
     am_PerRunMaxCredits = pp_PerRunMaxCredits p, am_BillingExempt = False, am_LastPaymentError = []\<rparr>"
proof (cases "PaidPlanByCode (metadataString md ''plan_code'' (pp_Code DefaultPaidPlan))")
  case None
  then show ?thesis
    using DefaultPaidPlan_in by (auto simp: paidAccountMirror_def Let_def)
next
  case (Some p)
  then show ?thesis
    using PaidPlanByCode_sound [OF Some]
    by (intro bexI [of _ p]) (simp_all add: paidAccountMirror_def Let_def)
qed

lemma metadata_reads_plan:
  assumes "p \<in> set paidPlans"
  shows "metadataString (paidSubscriptionMetadata org p) ''plan_code'' d = pp_Code p"
  using paid_codes_clean [OF assms]
  by (simp add: metadataString_def paidSubscriptionMetadata_def hetchyStripeMetadata_def
      stripeMetadataAppKey_def)

end
