(* ===== verification/Stripe_Webhook.thy ===== *)
theory Stripe_Webhook
  imports Stripe_Billing
begin

text \<open>
  internal/bot/stripe_webhook.go: the payment provider's events, handled over the billing service.
  The verification of a signature is the provider's library, an argument; so is the list of a
  checkout session's line items, of which None stands for a nil entry.
\<close>

text \<open>\<open>ev_Data\<close> is None for an event without data and \<open>Some None\<close> for data without an object.\<close>

record stripe_event =
  ev_ID :: string
  ev_Type :: string
  ev_Data :: "json option option"

type_synonym line_items = "string \<Rightarrow> go_error + int option list"

definition decodeStripeEventObject ::
  "stripe_event \<Rightarrow> (json \<Rightarrow> go_error + 'a) \<Rightarrow> go_error + 'a" where
  "decodeStripeEventObject event dec =
     (case ev_Data event of
        None \<Rightarrow> Inl (ErrNew ''stripe event data is empty'')
      | Some raw \<Rightarrow>
          (case (case raw of None \<Rightarrow> Inl (ErrNew ''unexpected end of JSON input'') | Some j \<Rightarrow> dec j) of
             Inl e \<Rightarrow> Inl (Wrapped (''decode stripe '' @ ev_Type event @ '' object'') e)
           | Inr x \<Rightarrow> Inr x))"

definition stripeCheckoutLineItemQuantity :: "line_items \<Rightarrow> string \<Rightarrow> go_error + int" where
  "stripeCheckoutLineItemQuantity items sessionID =
     (case items sessionID of
        Inl e \<Rightarrow> Inl (Wrapped ''list stripe checkout session line items'' e)
      | Inr data \<Rightarrow> Inr (int64 (sum_list (map (\<lambda>i. case i of None \<Rightarrow> 0 | Some q \<Rightarrow> q) data))))"

definition stripeCheckoutTopupCredits ::
  "stripe_config \<Rightarrow> line_items \<Rightarrow> checkout_session \<Rightarrow> go_error + int" where
  "stripeCheckoutTopupCredits cfg items sess =
     (if trim_space (cs_ID sess) = [] \<or> trim_space (StripeSecretKey cfg) = []
      then Inr (topupCreditsFromCheckoutMetadata (cs_Metadata sess))
      else case stripeCheckoutLineItemQuantity items (cs_ID sess) of
        Inl e \<Rightarrow> Inl e
      | Inr quantity \<Rightarrow>
          if quantity \<le> 0
          then Inl (ErrNew (''stripe checkout session '' @ cs_ID sess @ '' has no top-up line item quantity''))
          else Inr (int64 (quantity * TopupUnitCredits)))"

text \<open>The customer of a completed checkout is recorded first, then the checkout takes effect by its kind.\<close>

definition checkoutCustomer :: "'s service_ops \<Rightarrow> string \<Rightarrow> string \<Rightarrow> ('s, unit) go" where
  "checkoutCustomer ops org customer =
     (if customer \<noteq> [] then andthen (SetStripeCustomer_svc ops org customer) (\<lambda>_. ret ()) else ret ())"

definition checkoutEffect ::
  "'s service_ops \<Rightarrow> stripe_config \<Rightarrow> line_items \<Rightarrow> stripe_event \<Rightarrow> string \<Rightarrow> checkout_session \<Rightarrow> ('s, unit) go" where
  "checkoutEffect ops cfg items event org sess =
     (let kind = map_get (cs_Metadata sess) ''kind'' in
      if kind = stripeCheckoutKindTopup then
        if cs_Mode sess \<noteq> ''payment'' \<or> cs_PaymentStatus sess \<noteq> ''paid'' then ret ()
        else andthen (lift_result (stripeCheckoutTopupCredits cfg items sess)) (\<lambda>credits.
          andthen (GrantTopupCreditsOnce_svc ops (ev_ID event) (ev_Type event) org credits) (\<lambda>_. ret ()))
      else if kind = stripeCheckoutKindSubscription then
        if cs_Subscription sess = [] then ret ()
        else andthen (UpsertAccountMirror_svc ops (paidAccountMirror org (cs_Customer sess) (cs_Subscription sess)
            ''active'' zero_time zero_time (cs_Metadata sess))) (\<lambda>_. ret ())
      else ret ())"

definition handleStripeCheckoutCompleted ::
  "'s service_ops \<Rightarrow> stripe_config \<Rightarrow> line_items \<Rightarrow> stripe_event \<Rightarrow> ('s, unit) go" where
  "handleStripeCheckoutCompleted ops cfg items event =
     andthen (lift_result (decodeStripeEventObject event decode_checkout_session)) (\<lambda>sess.
       let org = stripeOrgID (cs_Metadata sess) (cs_ClientReferenceID sess)
       in if org = [] then ret ()
          else andthen (checkoutCustomer ops org (cs_Customer sess))
                 (\<lambda>_. checkoutEffect ops cfg items event org sess))"

text \<open>
  The organisation of an object: from its metadata, or the account of its customer; no such
  account is no error.
\<close>

definition resolveStripeOrg ::
  "'s service_ops \<Rightarrow> (string \<rightharpoonup> string) \<Rightarrow> string \<Rightarrow> ('s, string) go" where
  "resolveStripeOrg ops metadata customer =
     (let org = stripeOrgID metadata []
      in if org = [] \<and> customer \<noteq> [] then
           attempt (FindAccountByStripeCustomer_svc ops customer) (\<lambda>r. case r of
             Inr acct \<Rightarrow> ret (OrgID acct)
           | Inl e \<Rightarrow> if err_is e ErrNoRows then ret [] else fail e)
         else ret org)"

definition syncStripeSubscriptionCancellation ::
  "'s service_ops \<Rightarrow> string \<Rightarrow> account \<Rightarrow> subscription_object \<Rightarrow> ('s, unit) go" where
  "syncStripeSubscriptionCancellation ops org acct sub =
     (let cancelAt = CancellationEffectiveAt sub
      in if \<not> is_zero_time cancelAt then
           andthen (SetPendingPlanChange_svc ops org PlanFree cancelAt) (\<lambda>_. ret ())
         else if PendingPlanCode acct = PlanFree then
           andthen (ClearPendingPlanChange_svc ops org) (\<lambda>_. ret ())
         else ret ())"

text \<open>The mirror of a subscription: a canceled one keeps its plan code and loses what it includes.\<close>

definition subscriptionMirror ::
  "stripe_event \<Rightarrow> string \<Rightarrow> subscription_object \<Rightarrow> account_mirror" where
  "subscriptionMirror event org sub =
     (let mirror = paidAccountMirror org (so_Customer sub) (so_ID sub) (so_Status sub)
            (fst (Period sub)) (snd (Period sub)) (so_Metadata sub)
      in if ev_Type event = ''customer.subscription.deleted'' \<or> so_Status sub = ''canceled''
         then mirror\<lparr>am_IncludedCredits := 0, am_MaxFlavor := FlavorStandard, am_PerRunMaxCredits := 4\<rparr>
         else mirror)"

definition handleStripeSubscription :: "'s service_ops \<Rightarrow> stripe_event \<Rightarrow> ('s, unit) go" where
  "handleStripeSubscription ops event =
     andthen (lift_result (decodeStripeEventObject event decode_subscription)) (\<lambda>sub.
       andthen (resolveStripeOrg ops (so_Metadata sub) (so_Customer sub)) (\<lambda>org.
         if org = [] then ret ()
         else andthen (UpsertAccountMirror_svc ops (subscriptionMirror event org sub)) (\<lambda>acct.
           syncStripeSubscriptionCancellation ops org acct sub)))"

definition handleStripeInvoicePaid :: "'s service_ops \<Rightarrow> stripe_event \<Rightarrow> ('s, unit) go" where
  "handleStripeInvoicePaid ops event =
     andthen (lift_result (decodeStripeEventObject event decode_invoice)) (\<lambda>iv.
       if map_get (io_Metadata iv) ''kind'' \<noteq> stripeCheckoutKindTopup then ret ()
       else andthen (resolveStripeOrg ops (io_Metadata iv) (io_Customer iv)) (\<lambda>org.
         if org = [] then ret ()
         else
           let credits = metadataInt (io_Metadata iv) ''credits'' 0
           in if credits \<le> 0 then ret ()
              else
                let eventID = (if trim_space (io_ID iv) = [] then ev_ID event else trim_space (io_ID iv))
                in andthen (GrantTopupCreditsOnce_svc ops eventID (ev_Type event) org credits) (\<lambda>_. ret ())))"

definition handleStripeInvoicePaymentFailed :: "'s service_ops \<Rightarrow> stripe_event \<Rightarrow> ('s, unit) go" where
  "handleStripeInvoicePaymentFailed ops event =
     andthen (lift_result (decodeStripeEventObject event decode_invoice)) (\<lambda>iv.
       andthen (resolveStripeOrg ops (io_Metadata iv) (io_Customer iv)) (\<lambda>org.
         if org = [] then ret ()
         else SetLastPaymentError_svc ops org
           ''Stripe payment failed. Update the payment method in Billing / Usage before starting more paid runs.''))"

definition handleStripeEvent ::
  "'s service_ops \<Rightarrow> stripe_config \<Rightarrow> line_items \<Rightarrow> stripe_event \<Rightarrow> ('s, unit) go" where
  "handleStripeEvent ops cfg items event =
     (if ev_Type event = ''checkout.session.completed'' then
        handleStripeCheckoutCompleted ops cfg items event
      else if ev_Type event \<in> {''customer.subscription.created'', ''customer.subscription.updated'',
          ''customer.subscription.deleted''} then handleStripeSubscription ops event
      else if ev_Type event \<in> {''invoice.paid'', ''invoice.payment_succeeded''} then
        handleStripeInvoicePaid ops event
      else if ev_Type event = ''invoice.payment_failed'' then handleStripeInvoicePaymentFailed ops event
      else ret ())"

text \<open>The HTTP handler: the status it answers with.\<close>

definition stripeWebhookHandler ::
  "'s service_ops \<Rightarrow> stripe_config \<Rightarrow> line_items \<Rightarrow> (string \<Rightarrow> string \<Rightarrow> string \<Rightarrow> go_error + stripe_event) \<Rightarrow>
   string \<Rightarrow> go_error + string \<Rightarrow> string \<Rightarrow> 's \<Rightarrow> nat \<times> 's" where
  "stripeWebhookHandler ops cfg items construct httpMethod body signature s =
     (if httpMethod \<noteq> ''POST'' then (405, s)
      else if trim_space (StripeWebhookSecret cfg) = [] then (503, s)
      else case body of
        Inl e \<Rightarrow> (400, s)
      | Inr payload \<Rightarrow>
          (case construct payload signature (StripeWebhookSecret cfg) of
             Inl e \<Rightarrow> (400, s)
           | Inr event \<Rightarrow>
               if \<not> ss_Enabled ops then (200, s)
               else (case handleStripeEvent ops cfg items event s of
                   (Inl e, t) \<Rightarrow> (500, t)
                 | (Inr u, t) \<Rightarrow> (200, t))))"

end
