(* ===== verification/Stripe_Laws.thy ===== *)
theory Stripe_Laws
  imports Stripe_Webhook Billing_Outcomes
begin

text \<open>
  What the handlers of the payment provider's events keep: the invariant of the billing tables,
  and the top-up credits of every organisation when an event is not the first of its payment.
\<close>

section \<open>The invariant\<close>

lemma svc_keeps:
  "keeps_inv billing_ok (SetStripeCustomer_svc (package_store en sha clock fuel buy) org c)"
  "keeps_inv billing_ok (GrantTopupCreditsOnce_svc (package_store en sha clock fuel buy) ev ty org n)"
  "keeps_inv billing_ok (FindAccountByStripeCustomer_svc (package_store en sha clock fuel buy) c)"
  "keeps_inv billing_ok (SetPendingPlanChange_svc (package_store en sha clock fuel buy) org code eff)"
  "keeps_inv billing_ok (ClearPendingPlanChange_svc (package_store en sha clock fuel buy) org)"
  "keeps_inv billing_ok (SetLastPaymentError_svc (package_store en sha clock fuel buy) org msg)"
  by (auto simp: SetStripeCustomer_svc_def GrantTopupCreditsOnce_svc_def FindAccountByStripeCustomer_svc_def
      SetPendingPlanChange_svc_def ClearPendingPlanChange_svc_def SetLastPaymentError_svc_def
      package_store_def intro: keeps_store)

lemma plan_credits_int4: "p \<in> set paidPlans \<Longrightarrow> int4 (pp_IncludedCredits p)"
  by (auto simp: paidPlans_def int4_def)

lemma mirror_svc_keeps:
  assumes "int4 (am_IncludedCredits m)"
  shows "keeps_inv billing_ok (UpsertAccountMirror_svc (package_store en sha clock fuel buy) m)"
  using keeps_UpsertAccountMirror [OF assms]
  by (auto simp: UpsertAccountMirror_svc_def package_store_def)

lemma paid_mirror_int4: "int4 (am_IncludedCredits (paidAccountMirror org c sub st ps pe md))"
  using mirror_paid [of org c sub st ps pe md] plan_credits_int4 by auto

lemma subscription_mirror_int4: "int4 (am_IncludedCredits (subscriptionMirror ev org sub))"
  by (simp add: subscriptionMirror_def Let_def paid_mirror_int4) (simp add: int4_def)

lemma handler_keeps: "keeps_inv billing_ok (handleStripeEvent (package_store en sha clock fuel buy) cfg items ev)"
  unfolding handleStripeEvent_def handleStripeCheckoutCompleted_def checkoutCustomer_def checkoutEffect_def handleStripeSubscription_def
    handleStripeInvoicePaid_def handleStripeInvoicePaymentFailed_def resolveStripeOrg_def
    syncStripeSubscriptionCancellation_def Let_def
  by (intro keeps svc_keeps mirror_svc_keeps paid_mirror_int4 subscription_mirror_int4)

lemma snd_andthen_ret: "snd (andthen m (\<lambda>x. ret (f x)) s) = snd (m s)"
  by (simp add: andthen_def split: prod.splits sum.splits)

section \<open>Top-up credits\<close>

definition topup_credits :: "billing_db \<Rightarrow> string \<Rightarrow> int" where
  "topup_credits s org = (case account_of s org of None \<Rightarrow> 0 | Some a \<Rightarrow> ba_topup_credits a)"

text \<open>A state in which an organisation has so many top-up credits and an event may be known.\<close>

definition credited :: "string \<Rightarrow> int \<Rightarrow> bool \<Rightarrow> string \<Rightarrow> billing_db \<Rightarrow> bool" where
  "credited org c known ev s \<longleftrightarrow> topup_credits s org = c \<and> (known \<longrightarrow> has_event s ev)"

lemma topup_credits_update:
  assumes "\<And>r. ba_topup_credits (f r) = ba_topup_credits r \<and> ba_org_id (f r) = ba_org_id r"
    and "find (\<lambda>r. ba_org_id r = k) (billing_accounts s) = Some a"
    and "billing_accounts t = replace_rows (\<lambda>r. ba_org_id r = k) (f a) (billing_accounts s)"
  shows "topup_credits t org = topup_credits s org"
proof (cases "org = k")
  case True
  have "ba_org_id a = k" using assms(2) by (auto dest: find_SomeD)
  then have "find (\<lambda>r. ba_org_id r = k) (billing_accounts t) = Some (f a)"
    using assms find_replace_same [of "\<lambda>r. ba_org_id r = k" "billing_accounts s" a "f a"] by simp
  with True assms show ?thesis by (simp add: topup_credits_def account_of_def)
next
  case False
  have "ba_org_id (f a) = k" using assms(1,2) by (auto dest: find_SomeD)
  with False assms(3) have "find (\<lambda>r. ba_org_id r = org) (billing_accounts t) =
      find (\<lambda>r. ba_org_id r = org) (billing_accounts s)"
    by (auto intro!: find_replace_other)
  then show ?thesis by (simp add: topup_credits_def account_of_def)
qed

lemma keeps_update_credited:
  assumes "\<And>r. ba_topup_credits (f r) = ba_topup_credits r \<and> ba_org_id (f r) = ba_org_id r"
  shows "keeps_inv (credited org c known ev) (update_account k f)"
proof (rule keeps_invI)
  fix s res t
  assume s: "credited org c known ev s" and run: "update_account k f s = (res, t)"
  from run have "t = s \<or> (\<exists>a. find (\<lambda>r. ba_org_id r = k) (billing_accounts s) = Some a \<and>
      billing_accounts t = replace_rows (\<lambda>r. ba_org_id r = k) (f a) (billing_accounts s))"
    unfolding update_account_def by (elim accounts.update_cases) auto
  with topup_credits_update [OF assms] have "topup_credits t org = topup_credits s org" by blast
  with s account_write_events(1) [OF run] show "credited org c known ev t"
    by (simp add: credited_def has_event_def)
qed

lemma keeps_upsert_credited:
  assumes "\<And>r. ba_topup_credits (g r) = ba_topup_credits r \<and> ba_org_id (g r) = ba_org_id r"
    and "ba_topup_credits row = 0"
  shows "keeps_inv (credited org c known ev) (upsert_account row g)"
proof (rule keeps_invI)
  fix s res t
  assume s: "credited org c known ev s" and run: "upsert_account row g s = (res, t)"
  from run have "t = s \<or> (find (\<lambda>r. ba_org_id r = ba_org_id row) (billing_accounts s) = None \<and>
       billing_accounts t = billing_accounts s @ [row]) \<or>
     (\<exists>a. find (\<lambda>r. ba_org_id r = ba_org_id row) (billing_accounts s) = Some a \<and>
      billing_accounts t = replace_rows (\<lambda>r. ba_org_id r = ba_org_id row) (g a) (billing_accounts s))"
    unfolding upsert_account_def by (elim accounts.upsert_cases) auto
  moreover have "topup_credits t org = topup_credits s org"
    if "billing_accounts t = billing_accounts s @ [row]"
    using that assms(2) by (simp add: topup_credits_def account_of_def find_append split: option.splits)
  ultimately have "topup_credits t org = topup_credits s org"
    using topup_credits_update [OF assms(1)] by blast
  with s account_write_events(2) [OF run] show "credited org c known ev t"
    by (simp add: credited_def has_event_def)
qed

lemma keeps_get: "keeps_inv P (sql_get tab p)"
  by (simp add: keeps_inv_def sql_get_def split: option.splits)

lemma mirror_row_topup [simp]: "ba_topup_credits (mirror_row now m) = 0"
  by (simp add: mirror_row_def default_account_row_def)

lemma store_keeps_credited:
  "keeps_inv (credited org c known ev) (EnsureAccount en now k)"
  "keeps_inv (credited org c known ev) (SetStripeCustomer en now k cus)"
  "keeps_inv (credited org c known ev) (FindAccountByStripeCustomer en cus)"
  "keeps_inv (credited org c known ev) (UpsertAccountMirror en now m)"
  "keeps_inv (credited org c known ev) (SetPendingPlanChange en now k code eff)"
  "keeps_inv (credited org c known ev) (ClearPendingPlanChange en now k)"
  "keeps_inv (credited org c known ev) (SetLastPaymentError en now k msg)"
  unfolding EnsureAccount_def SetStripeCustomer_def FindAccountByStripeCustomer_def UpsertAccountMirror_def
    SetPendingPlanChange_def ClearPendingPlanChange_def SetLastPaymentError_def not_enabled_def
    EnsureBillingAccount_def UpdateBillingStripeCustomer_def GetBillingAccountByStripeCustomer_def
    UpsertBillingAccountMirror_def SetBillingPendingPlanChange_def ClearBillingPendingPlanChange_def
    SetBillingLastPaymentError_def
  by (intro keeps keeps_update_credited keeps_upsert_credited keeps_get;
      simp add: default_account_row_def mirror_conflict_def)+

lemma svc_keeps_credited:
  "keeps_inv (credited org c known ev) (SetStripeCustomer_svc (package_store en sha clock fuel buy) k cus)"
  "keeps_inv (credited org c known ev) (FindAccountByStripeCustomer_svc (package_store en sha clock fuel buy) cus)"
  "keeps_inv (credited org c known ev) (UpsertAccountMirror_svc (package_store en sha clock fuel buy) m)"
  "keeps_inv (credited org c known ev) (SetPendingPlanChange_svc (package_store en sha clock fuel buy) k code eff)"
  "keeps_inv (credited org c known ev) (ClearPendingPlanChange_svc (package_store en sha clock fuel buy) k)"
  "keeps_inv (credited org c known ev) (SetLastPaymentError_svc (package_store en sha clock fuel buy) k msg)"
  by (auto simp: SetStripeCustomer_svc_def FindAccountByStripeCustomer_svc_def UpsertAccountMirror_svc_def
      SetPendingPlanChange_svc_def ClearPendingPlanChange_svc_def SetLastPaymentError_svc_def
      package_store_def intro: store_keeps_credited)

text \<open>A grant is settled in a state when granting it there changes no account.\<close>

definition settled_grant :: "string \<Rightarrow> int \<Rightarrow> billing_db \<Rightarrow> bool" where
  "settled_grant ev n s \<longleftrightarrow> n \<le> 0 \<or> has_event s ev"

lemma grant_settles:
  assumes "GrantTopupCreditsOnce_svc (package_store True sha clock fuel buy) ev ty org n s = (Inr x, t)" and "ev \<noteq> []"
  shows "settled_grant ev n t"
  using assms GrantTopupCreditsOnce_marks(1) [of "clock 0" ev ty org n s "fst x" "snd x" t]
  by (cases "0 < n") (simp_all add: settled_grant_def GrantTopupCreditsOnce_svc_def package_store_def)

lemma settled_grant_again:
  assumes "settled_grant ev n s" and "ev \<noteq> []"
  shows "topup_credits (snd (GrantTopupCreditsOnce_svc (package_store en sha clock fuel buy) ev ty org n s)) o' =
    topup_credits s o'"
proof -
  have "billing_accounts (snd (GrantTopupCreditsOnce en (clock 0) ev ty org n s)) = billing_accounts s"
  proof (cases "0 < n")
    case True
    with assms show ?thesis by (intro GrantTopupCreditsOnce_known) (auto simp: settled_grant_def)
  next
    case False
    with assms(2) show ?thesis
      by (auto simp: GrantTopupCreditsOnce_def GetAccount_def GetBillingAccount_def sql_get_def not_enabled_def
          andthen_run split: option.splits)
  qed
  then show ?thesis
    by (cases en) (simp_all add: GrantTopupCreditsOnce_svc_def package_store_def topup_credits_def account_of_def)
qed

section \<open>Deliveries\<close>

lemma resolve_keeps_credited:
  "keeps_inv (credited org c known ev) (resolveStripeOrg (package_store en sha clock fuel buy) md cus)"
  unfolding resolveStripeOrg_def Let_def by (intro keeps svc_keeps_credited)

lemma credited_topups: "keeps_inv (credited org (topup_credits s org) False ev) m \<Longrightarrow>
    topup_credits (snd (m s)) org = topup_credits s org"
  using keeps_at [of "credited org (topup_credits s org) False ev" m s] by (simp add: credited_def)

lemma subscription_keeps_credits:
  "topup_credits (snd (handleStripeSubscription (package_store en sha clock fuel buy) ev s)) org = topup_credits s org"
  by (rule credited_topups [where ev = "[]"], unfold handleStripeSubscription_def syncStripeSubscriptionCancellation_def Let_def)
    (intro keeps svc_keeps_credited resolve_keeps_credited)

lemma payment_failed_keeps_credits:
  "topup_credits (snd (handleStripeInvoicePaymentFailed (package_store en sha clock fuel buy) ev s)) org = topup_credits s org"
  by (rule credited_topups [where ev = "[]"], unfold handleStripeInvoicePaymentFailed_def)
    (intro keeps svc_keeps_credited resolve_keeps_credited)

text \<open>A computation that ends in a grant that is settled, after steps that keep the credits.\<close>

lemma settled_tail:
  assumes "\<And>c known. keeps_inv (credited org c known ev) m"
    and "settled_grant ev n s" and "ev \<noteq> []"
    and "\<And>x. k x = fail e \<or> k x = ret () \<or> (\<exists>o'. k x =
      andthen (GrantTopupCreditsOnce_svc (package_store en sha clock fuel buy) ev ty o' n) (\<lambda>_. ret ()))"
  shows "topup_credits (snd (andthen m k s)) org = topup_credits s org"
proof -
  obtain r t where m: "m s = (r, t)" by (metis prod.collapse)
  have "credited org (topup_credits s org) (has_event s ev) ev t"
    by (rule keeps_invD [OF assms(1) _ m]) (simp add: credited_def)
  then have t: "topup_credits t org = topup_credits s org" and "settled_grant ev n t"
    using assms(2) by (auto simp: credited_def settled_grant_def)
  show ?thesis
  proof (cases r)
    case (Inl x)
    with m t show ?thesis by (simp add: andthen_def)
  next
    case (Inr x)
    have "topup_credits (snd (k x t)) org = topup_credits t org"
      using assms(4) [of x] settled_grant_again [OF \<open>settled_grant ev n t\<close> assms(3), of en sha clock fuel buy ty _ org]
      by (auto simp: snd_andthen_ret)
    with m Inr t show ?thesis by (simp add: andthen_def)
  qed
qed

text \<open>The invoice an event carries, and the event id its grant is recorded under.\<close>

definition invoice_event :: "stripe_event \<Rightarrow> invoice_object \<Rightarrow> string" where
  "invoice_event ev iv = (if trim_space (io_ID iv) = [] then ev_ID ev else trim_space (io_ID iv))"

lemma invoice_again:
  assumes first: "handleStripeInvoicePaid (package_store True sha clock fuel buy) ev s = (Inr (), t)"
    and iv: "decodeStripeEventObject ev decode_invoice = Inr iv" "decodeStripeEventObject ev' decode_invoice = Inr iv"
    and key: "invoice_event ev iv \<noteq> []" "invoice_event ev' iv = invoice_event ev iv"
    and org: "stripeOrgID (io_Metadata iv) [] \<noteq> []"
  shows "topup_credits (snd (handleStripeInvoicePaid (package_store en sha clock' fuel' buy') ev' t)) o' = topup_credits t o'"
proof -
  let ?n = "metadataInt (io_Metadata iv) ''credits'' 0"
  show ?thesis
  proof (cases "map_get (io_Metadata iv) ''kind'' = stripeCheckoutKindTopup \<and> 0 < ?n")
    case False
    with iv org show ?thesis
      by (auto simp: handleStripeInvoicePaid_def andthen_def resolveStripeOrg_def Let_def)
  next
    case True
    with first iv org obtain x where
      "GrantTopupCreditsOnce_svc (package_store True sha clock fuel buy) (invoice_event ev iv) (ev_Type ev)
        (stripeOrgID (io_Metadata iv) []) ?n s = (Inr x, t)"
      by (auto simp: handleStripeInvoicePaid_def andthen_Inr resolveStripeOrg_def Let_def invoice_event_def)
    from grant_settles [OF this key(1)] have "settled_grant (invoice_event ev iv) ?n t" .
    from settled_grant_again [OF this key(1), of en sha clock' fuel' buy' "ev_Type ev'" "stripeOrgID (io_Metadata iv) []" o']
    show ?thesis
      using True iv org key(2)
      by (simp add: handleStripeInvoicePaid_def andthen_run [of "lift_result r" for r] andthen_run [of "ret r" for r]
          resolveStripeOrg_def Let_def invoice_event_def [symmetric] snd_andthen_ret)
  qed
qed

text \<open>A completed checkout: only a paid top-up grants.\<close>

definition paid_topup :: "checkout_session \<Rightarrow> bool" where
  "paid_topup sess \<longleftrightarrow> map_get (cs_Metadata sess) ''kind'' = stripeCheckoutKindTopup \<and>
     cs_Mode sess = ''payment'' \<and> cs_PaymentStatus sess = ''paid''"

lemma customer_keeps_credited:
  "keeps_inv (credited org c known e) (checkoutCustomer (package_store en sha clock fuel buy) k cus)"
  unfolding checkoutCustomer_def by (intro keeps svc_keeps_credited)

lemma effect_keeps_credited:
  assumes "\<not> paid_topup sess"
  shows "keeps_inv (credited org c known e) (checkoutEffect (package_store en sha clock fuel buy) cfg items ev k sess)"
  using assms
  by (auto simp: checkoutEffect_def Let_def paid_topup_def intro!: keeps svc_keeps_credited)

lemma effect_paid:
  "paid_topup sess \<Longrightarrow> checkoutEffect ops cfg items ev k sess =
    andthen (lift_result (stripeCheckoutTopupCredits cfg items sess)) (\<lambda>credits.
      andthen (GrantTopupCreditsOnce_svc ops (ev_ID ev) (ev_Type ev) k credits) (\<lambda>_. ret ()))"
  by (simp add: checkoutEffect_def Let_def paid_topup_def)

lemma checkout_again:
  assumes first: "handleStripeCheckoutCompleted (package_store True sha clock fuel buy) cfg items ev s = (Inr (), t)"
    and id: "ev_ID ev \<noteq> []"
  shows "topup_credits (snd (handleStripeCheckoutCompleted (package_store en sha clock' fuel' buy') cfg items ev t)) o' =
    topup_credits t o'"
proof (cases "decodeStripeEventObject ev decode_checkout_session")
  case (Inl e)
  then show ?thesis by (simp add: handleStripeCheckoutCompleted_def andthen_def)
next
  case (Inr sess)
  let ?org = "stripeOrgID (cs_Metadata sess) (cs_ClientReferenceID sess)"
  have run: "handleStripeCheckoutCompleted ops cfg items ev u =
      (if ?org = [] then (Inr (), u) else andthen (checkoutCustomer ops ?org (cs_Customer sess))
         (\<lambda>_. checkoutEffect ops cfg items ev ?org sess) u)" for ops :: "'b service_ops" and u
    using Inr by (simp add: handleStripeCheckoutCompleted_def andthen_run [of "lift_result r" for r] Let_def)
  show ?thesis
  proof (cases "?org \<noteq> [] \<and> paid_topup sess")
    case False
    then show ?thesis
      unfolding run
      by (auto intro!: credited_topups [where ev = "[]"] keeps_andthen customer_keeps_credited effect_keeps_credited)
  next
    case True
    with first obtain n u x where n: "stripeCheckoutTopupCredits cfg items sess = Inr n"
      and "GrantTopupCreditsOnce_svc (package_store True sha clock fuel buy) (ev_ID ev) (ev_Type ev) ?org n u = (Inr x, t)"
      by (auto simp: run effect_paid andthen_Inr)
    from grant_settles [OF this(2) id] have "settled_grant (ev_ID ev) n t" .
    moreover have "checkoutEffect ops cfg items ev ?org sess =
        andthen (GrantTopupCreditsOnce_svc ops (ev_ID ev) (ev_Type ev) ?org n) (\<lambda>_. ret ())" for ops :: "billing_db service_ops"
      using True n by (simp add: effect_paid) (simp add: andthen_def)
    ultimately have "topup_credits (snd (andthen (checkoutCustomer (package_store en sha clock' fuel' buy') ?org (cs_Customer sess))
        (\<lambda>_. checkoutEffect (package_store en sha clock' fuel' buy') cfg items ev ?org sess) t)) o' = topup_credits t o'"
      using customer_keeps_credited id by (intro settled_tail) auto
    with True show ?thesis unfolding run by simp
  qed
qed

section \<open>Subscriptions\<close>

lemma update_account_row:
  assumes "update_account org f s = (Inr row, t)" and "\<And>r. ba_org_id (f r) = ba_org_id r"
  obtains a where "account_of s org = Some a" "row = f a" "account_of t org = Some (f a)"
proof -
  from assms(1) obtain a where a: "find (\<lambda>r. ba_org_id r = org) (billing_accounts s) = Some a" "row = f a"
    "billing_accounts t = replace_rows (\<lambda>r. ba_org_id r = org) (f a) (billing_accounts s)"
    unfolding update_account_def by (elim accounts.update_cases) auto
  moreover from a(1) have "ba_org_id (f a) = org" using assms(2) by (auto dest: find_SomeD)
  ultimately have "account_of t org = Some (f a)" by (simp add: account_of_def find_replace_same)
  with a that show thesis by (simp add: account_of_def)
qed

lemma UpsertAccountMirror_row:
  assumes "UpsertAccountMirror True now m s = (Inr acct, t)"
  obtains row where "account_of t (am_OrgID m) = Some row" "acct = accountFromRow row"
    "row = mirror_row now (mirror_defaults m) \<and> account_of s (am_OrgID m) = None \<or>
     (\<exists>r. account_of s (am_OrgID m) = Some r \<and> row = mirror_conflict now (mirror_row now (mirror_defaults m)) r)"
proof -
  let ?x = "mirror_row now (mirror_defaults m)"
  have org: "ba_org_id ?x = am_OrgID m"
    by (simp add: mirror_row_def default_account_row_def mirror_defaults_def Let_def)
  from assms obtain row where up: "upsert_account ?x (mirror_conflict now ?x) s = (Inr row, t)" and acct: "acct = accountFromRow row"
    by (auto simp: UpsertAccountMirror_def UpsertBillingAccountMirror_def ok_simps)
  from up show thesis
    unfolding upsert_account_def org
  proof (cases rule: accounts.upsert_cases)
    case (unchanged e)
    then show thesis by simp
  next
    case inserted
    with org acct that [of row] show thesis by (auto simp: account_of_def find_append)
  next
    case (updated r)
    then have "ba_org_id r = am_OrgID m" by (auto dest: find_SomeD)
    then have "ba_org_id (mirror_conflict now ?x r) = am_OrgID m" by (simp add: mirror_conflict_def)
    with updated acct that [of row] show thesis by (auto simp: account_of_def find_replace_same)
  qed
qed

lemma SetPendingPlanChange_row:
  assumes "SetPendingPlanChange True now org code eff s = (Inr acct, t)"
  obtains a where "account_of s org = Some a"
    "account_of t org = Some (a\<lparr>ba_pending_plan_code := code, ba_pending_plan_effective_at := to_timestamptz eff,
       ba_updated_at := Some now\<rparr>)"
proof -
  from assms obtain row where "SetBillingPendingPlanChange now org code (to_timestamptz eff) s = (Inr row, t)"
    by (auto simp: SetPendingPlanChange_def ok_simps split: if_splits)
  then show thesis
    unfolding SetBillingPendingPlanChange_def by (rule update_account_row) (use that in simp_all)
qed

lemma ClearPendingPlanChange_row:
  assumes "ClearPendingPlanChange True now org s = (Inr acct, t)"
  obtains a where "account_of s org = Some a"
    "account_of t org = Some (a\<lparr>ba_pending_plan_code := [], ba_pending_plan_effective_at := None,
       ba_updated_at := Some now\<rparr>)"
proof -
  from assms obtain row where "ClearBillingPendingPlanChange now org s = (Inr row, t)"
    by (auto simp: ClearPendingPlanChange_def ok_simps split: if_splits)
  then show thesis
    unfolding ClearBillingPendingPlanChange_def by (rule update_account_row) (use that in simp_all)
qed

text \<open>What a subscription event leaves: the mirrored row, with the pending change set or cleared.\<close>

definition pended_row :: "go_time \<Rightarrow> subscription_object \<Rightarrow> account_row \<Rightarrow> account_row" where
  "pended_row now sub row =
     (if \<not> is_zero_time (CancellationEffectiveAt sub)
      then row\<lparr>ba_pending_plan_code := PlanFree,
        ba_pending_plan_effective_at := to_timestamptz (CancellationEffectiveAt sub), ba_updated_at := Some now\<rparr>
      else if ba_pending_plan_code row = PlanFree
      then row\<lparr>ba_pending_plan_code := [], ba_pending_plan_effective_at := None, ba_updated_at := Some now\<rparr>
      else row)"

lemma pended_row_simps [simp]:
  "ba_included_credits (pended_row now sub row) = ba_included_credits row"
  "ba_included_credits_used (pended_row now sub row) = ba_included_credits_used row"
  "ba_topup_credits (pended_row now sub row) = ba_topup_credits row"
  "ba_max_flavor (pended_row now sub row) = ba_max_flavor row"
  "ba_per_run_max_credits (pended_row now sub row) = ba_per_run_max_credits row"
  by (simp_all add: pended_row_def)

lemma subscription_row:
  assumes sub: "decodeStripeEventObject ev decode_subscription = Inr sub" and org: "stripeOrgID (so_Metadata sub) [] = org" "org \<noteq> []"
    and run: "handleStripeSubscription (package_store True sha clock fuel buy) ev s = (Inr (), t)"
  obtains a u row where "UpsertAccountMirror True (clock 0) (subscriptionMirror ev org sub) s = (Inr a, u)"
    "account_of u org = Some row" "a = accountFromRow row"
    "account_of t org = Some (pended_row (clock 0) sub row)"
proof -
  have m: "am_OrgID (subscriptionMirror ev org sub) = org"
    using mirror_paid [of org "so_Customer sub" "so_ID sub" "so_Status sub" "fst (Period sub)" "snd (Period sub)" "so_Metadata sub"]
    by (auto simp: subscriptionMirror_def Let_def)
  from run sub org obtain a u where up: "UpsertAccountMirror True (clock 0) (subscriptionMirror ev org sub) s = (Inr a, u)"
    and sy: "syncStripeSubscriptionCancellation (package_store True sha clock fuel buy) org a sub u = (Inr (), t)"
    by (auto simp: handleStripeSubscription_def resolveStripeOrg_def Let_def andthen_Inr UpsertAccountMirror_svc_def
        package_store_def)
  from UpsertAccountMirror_row [OF up] m obtain row where row: "account_of u org = Some row" "a = accountFromRow row"
    by metis
  have p: "PendingPlanCode a = ba_pending_plan_code row" using row by (simp add: accountFromRow_def)
  from up row show thesis
    using sy p
    by (rule_tac that [of a u row])
      (auto simp: pended_row_def syncStripeSubscriptionCancellation_def Let_def andthen_Inr SetPendingPlanChange_svc_def
        ClearPendingPlanChange_svc_def package_store_def split: if_splits
        elim!: SetPendingPlanChange_row ClearPendingPlanChange_row)
qed

end
