(* ===== verification/Stripe_Plan_Switch.thy ===== *)
theory Stripe_Plan_Switch
  imports Stripe_Laws
begin

text \<open>
  internal/bot/stripe_plan_switch.go: changing the plan of a paying organisation. An upgrade is
  taken at once, a downgrade is scheduled for the end of the period. The provider's client is a
  record of calls over the state; a pointer of its library is an option, and a subscription keeps
  the fields the code reads.
\<close>

section \<open>The provider's objects\<close>

record subscription_item =
  si_ID :: string
  si_Price :: "string option"
  si_CurrentPeriodStart :: int
  si_CurrentPeriodEnd :: int
  si_Quantity :: int

record subscription_schedule =
  ss_ID :: string
  ss_Status :: string

record subscription =
  su_ID :: string
  su_Status :: string
  su_CancelAt :: int
  su_CancelAtPeriodEnd :: bool
  su_Customer :: "string option"
  su_Schedule :: "subscription_schedule option"
  su_Items :: "subscription_item option list option"

record subscription_update =
  up_IdempotencyKey :: string
  up_UnsetCancelAt :: bool
  up_CancelAtPeriodEnd :: "bool option"
  up_Items :: "(string \<times> string \<times> int) list"
  up_Metadata :: "string \<rightharpoonup> string"
  up_PaymentBehavior :: string
  up_ProrationBehavior :: string

record schedule_create =
  sch_IdempotencyKey :: string
  sch_FromSubscription :: string

record schedule_phase =
  ph_StartDate :: "int option"
  ph_EndDate :: "int option"
  ph_ProrationBehavior :: string
  ph_Metadata :: "string \<rightharpoonup> string"
  ph_Items :: "(string \<times> int) list"

record schedule_update =
  scu_IdempotencyKey :: string
  scu_EndBehavior :: string
  scu_ProrationBehavior :: string
  scu_Metadata :: "string \<rightharpoonup> string"
  scu_Phases :: "schedule_phase list"

record 's stripe_client =
  RetrieveSubscription :: "string \<Rightarrow> ('s, subscription option) go"
  UpdateSubscription :: "string \<Rightarrow> subscription_update \<Rightarrow> ('s, subscription option) go"
  RetrieveSchedule :: "string \<Rightarrow> ('s, string) go"
  ReleaseSchedule :: "string \<Rightarrow> ('s, unit) go"
  CreateSchedule :: "schedule_create \<Rightarrow> ('s, string) go"
  UpdateSchedule :: "string \<Rightarrow> schedule_update \<Rightarrow> ('s, unit) go"

datatype plan_switch = SwitchNoop | SwitchImmediate | SwitchScheduled

section \<open>Reading a subscription\<close>

definition stripeSubscriptionHasPendingCancellation :: "subscription option \<Rightarrow> bool" where
  "stripeSubscriptionHasPendingCancellation sub =
     (case sub of None \<Rightarrow> False | Some s \<Rightarrow> 0 < su_CancelAt s \<or> su_CancelAtPeriodEnd s)"

definition stripeResumeSubscriptionParams :: "subscription option \<Rightarrow> subscription_update" where
  "stripeResumeSubscriptionParams sub =
     (let subscriptionID = (case sub of None \<Rightarrow> [] | Some s \<Rightarrow> su_ID s);
          params = \<lparr>up_IdempotencyKey = ''hetchy-plan-resume-'' @ subscriptionID, up_UnsetCancelAt = False,
            up_CancelAtPeriodEnd = None, up_Items = [], up_Metadata = Map.empty, up_PaymentBehavior = [],
            up_ProrationBehavior = []\<rparr>
      in if (case sub of None \<Rightarrow> False | Some s \<Rightarrow> 0 < su_CancelAt s)
         then params\<lparr>up_UnsetCancelAt := True\<rparr>
         else params\<lparr>up_CancelAtPeriodEnd := Some False\<rparr>)"

definition stripeSubscriptionScheduleCanUpdate :: "string \<Rightarrow> bool" where
  "stripeSubscriptionScheduleCanUpdate status \<longleftrightarrow> status = ''active'' \<or> status = ''not_started''"

definition mutableStripeSubscriptionScheduleID ::
  "'s stripe_client \<Rightarrow> subscription option \<Rightarrow> ('s, string) go" where
  "mutableStripeSubscriptionScheduleID client sub =
     (case (case sub of None \<Rightarrow> None | Some s \<Rightarrow> su_Schedule s) of
        None \<Rightarrow> ret []
      | Some sched \<Rightarrow>
          let scheduleID = trim_space (ss_ID sched)
          in if scheduleID = [] then ret []
             else andthen (if ss_Status sched = []
                           then wrap_err ''retrieve subscription schedule'' (RetrieveSchedule client scheduleID)
                           else ret (ss_Status sched))
                    (\<lambda>status. if \<not> stripeSubscriptionScheduleCanUpdate status then ret [] else ret scheduleID))"

text \<open>The price of each paid plan that has one, in the order of the plans.\<close>

definition stripeSubscriptionPriceIDsByPlan :: "stripe_config \<Rightarrow> (string \<times> string) list" where
  "stripeSubscriptionPriceIDsByPlan cfg =
     filter (\<lambda>kv. snd kv \<noteq> [])
       (map (\<lambda>plan. (pp_Code plan, stripeSubscriptionPriceID cfg (pp_Code plan))) PaidPlans)"

definition isBillingPlanUpgrade :: "paid_plan \<Rightarrow> paid_plan \<Rightarrow> bool" where
  "isBillingPlanUpgrade currentPlan targetPlan \<longleftrightarrow> pp_MonthlyUSDCents currentPlan < pp_MonthlyUSDCents targetPlan"

text \<open>The loop over the items: an item with a known price ends it, the last named item is kept.\<close>

fun plan_item_loop ::
  "string list \<Rightarrow> subscription_item option list \<Rightarrow> subscription_item option \<Rightarrow>
   (subscription_item \<times> string) + subscription_item option" where
  "plan_item_loop known [] single = Inr single"
| "plan_item_loop known (None # rest) single = plan_item_loop known rest single"
| "plan_item_loop known (Some item # rest) single =
     (if si_ID item = [] then plan_item_loop known rest single
      else case si_Price item of
        None \<Rightarrow> plan_item_loop known rest (Some item)
      | Some price \<Rightarrow>
          if price \<in> set known then Inl (item, price) else plan_item_loop known rest (Some item))"

definition stripeSubscriptionPlanItem ::
  "subscription option \<Rightarrow> (string \<times> string) list \<Rightarrow> go_error + subscription_item \<times> string" where
  "stripeSubscriptionPlanItem sub priceIDsByPlan =
     (case (case sub of None \<Rightarrow> None | Some s \<Rightarrow> su_Items s) of
        None \<Rightarrow> Inl (ErrNew ''subscription has no items'')
      | Some data \<Rightarrow>
          if data = [] then Inl (ErrNew ''subscription has no items'')
          else
            let known = filter (\<lambda>p. p \<noteq> []) (map (\<lambda>kv. trim_space (snd kv)) priceIDsByPlan)
            in case plan_item_loop known data None of
                 Inl found \<Rightarrow> Inr found
               | Inr single \<Rightarrow>
                   (case (if length data = 1 then single else None) of
                      Some item \<Rightarrow> Inr (item, case si_Price item of None \<Rightarrow> [] | Some p \<Rightarrow> p)
                    | None \<Rightarrow> Inl (ErrNew ''subscription has no Hetchy plan item'')))"

text \<open>time.Time.Unix: whole seconds since the epoch.\<close>

definition unix_seconds :: "go_time \<Rightarrow> int" where
  "unix_seconds t = t div second"

definition stripeSubscriptionItemPeriod :: "go_time \<Rightarrow> account \<Rightarrow> subscription_item \<Rightarrow> int \<times> int" where
  "stripeSubscriptionItemPeriod now acct item =
     (let start0 = si_CurrentPeriodStart item;
          start1 = (if start0 \<le> 0 \<and> \<not> is_zero_time (CurrentPeriodStart acct)
                    then unix_seconds (CurrentPeriodStart acct) else start0);
          start = (if start1 \<le> 0 then unix_seconds now else start1);
          stop0 = si_CurrentPeriodEnd item;
          stop1 = (if stop0 \<le> 0 \<and> \<not> is_zero_time (CurrentPeriodEnd acct)
                   then unix_seconds (CurrentPeriodEnd acct) else stop0);
          stop = (if stop1 \<le> start then start + 2592000 else stop1)
      in (start, stop))"

definition stripeSubscriptionPeriod ::
  "go_time \<Rightarrow> account \<Rightarrow> subscription option \<Rightarrow> (string \<times> string) list \<Rightarrow> go_time \<times> go_time" where
  "stripeSubscriptionPeriod now acct sub priceIDsByPlan =
     (case stripeSubscriptionPlanItem sub priceIDsByPlan of
        Inl e \<Rightarrow> (CurrentPeriodStart acct, CurrentPeriodEnd acct)
      | Inr found \<Rightarrow>
          let period = stripeSubscriptionItemPeriod now acct (fst found)
          in (unixTime (fst period), unixTime (snd period)))"

section \<open>Requests to the provider\<close>

definition stripeUpgradeSubscriptionParams ::
  "string \<Rightarrow> string \<Rightarrow> string \<Rightarrow> paid_plan \<Rightarrow> string \<Rightarrow> subscription_update" where
  "stripeUpgradeSubscriptionParams org subscriptionID itemID targetPlan targetPriceID =
     \<lparr>up_IdempotencyKey = ''hetchy-plan-upgrade-'' @ subscriptionID @ ''-'' @ itemID @ ''-'' @ pp_Code targetPlan,
      up_UnsetCancelAt = False, up_CancelAtPeriodEnd = None, up_Items = [(itemID, targetPriceID, 1)],
      up_Metadata = paidSubscriptionMetadata org targetPlan, up_PaymentBehavior = ''pending_if_incomplete'',
      up_ProrationBehavior = ''always_invoice''\<rparr>"

definition stripeDowngradeScheduleCreateParams ::
  "string \<Rightarrow> paid_plan \<Rightarrow> string \<Rightarrow> paid_plan \<Rightarrow> string \<Rightarrow> int \<Rightarrow> int \<Rightarrow> schedule_create" where
  "stripeDowngradeScheduleCreateParams subscriptionID currentPlan currentPriceID targetPlan targetPriceID
     periodStart periodEnd =
     \<lparr>sch_IdempotencyKey = ''hetchy-plan-schedule-'' @ subscriptionID @ ''-'' @ pp_Code currentPlan @ ''-'' @
        currentPriceID @ ''-'' @ pp_Code targetPlan @ ''-'' @ targetPriceID @ ''-'' @ itoa periodStart @ ''-'' @
        itoa periodEnd,
      sch_FromSubscription = subscriptionID\<rparr>"

definition stripeDowngradeScheduleParams ::
  "go_time \<Rightarrow> string \<Rightarrow> string \<Rightarrow> account \<Rightarrow> subscription_item \<Rightarrow> paid_plan \<Rightarrow> string \<Rightarrow> paid_plan \<Rightarrow> string \<Rightarrow>
   schedule_update" where
  "stripeDowngradeScheduleParams now scheduleID org acct currentItem currentPlan currentPriceID targetPlan
     targetPriceID =
     (let period = stripeSubscriptionItemPeriod now acct currentItem; quantity = max (si_Quantity currentItem) 1
      in \<lparr>scu_IdempotencyKey = ''hetchy-plan-downgrade-'' @ scheduleID @ ''-'' @ org @ ''-'' @ pp_Code currentPlan @
            ''-'' @ currentPriceID @ ''-'' @ pp_Code targetPlan @ ''-'' @ targetPriceID @ ''-'' @
            itoa (fst period) @ ''-'' @ itoa (snd period),
          scu_EndBehavior = ''release'', scu_ProrationBehavior = ''none'',
          scu_Metadata = hetchyStripeMetadata (map_of [(''kind'', stripeCheckoutKindSubscription),
            (''org_id'', org), (''pending_plan_code'', pp_Code targetPlan)]),
          scu_Phases =
            [\<lparr>ph_StartDate = Some (fst period), ph_EndDate = Some (snd period), ph_ProrationBehavior = ''none'',
              ph_Metadata = paidSubscriptionMetadata org currentPlan, ph_Items = [(currentPriceID, quantity)]\<rparr>,
             \<lparr>ph_StartDate = None, ph_EndDate = None, ph_ProrationBehavior = ''none'',
              ph_Metadata = paidSubscriptionMetadata org targetPlan, ph_Items = [(targetPriceID, 1)]\<rparr>]\<rparr>)"

section \<open>The switch\<close>

definition mirrorStripeSubscription ::
  "'s service_ops \<Rightarrow> stripe_config \<Rightarrow> go_time \<Rightarrow> string \<Rightarrow> account \<Rightarrow> subscription option \<Rightarrow> paid_plan \<Rightarrow> ('s, unit) go" where
  "mirrorStripeSubscription ops cfg now org acct sub plan =
     (case sub of
        None \<Rightarrow> fail (ErrNew ''stripe subscription response is empty'')
      | Some s \<Rightarrow>
          if su_ID s = [] then fail (ErrNew ''stripe subscription response is empty'')
          else
            let customerID = (case su_Customer s of
                  None \<Rightarrow> StripeCustomerID acct
                | Some c \<Rightarrow> if c \<noteq> [] then c else StripeCustomerID acct);
                period = stripeSubscriptionPeriod now acct sub (stripeSubscriptionPriceIDsByPlan cfg)
            in andthen (UpsertAccountMirror_svc ops (paidAccountMirror org customerID (su_ID s) (su_Status s)
                 (fst period) (snd period) (paidSubscriptionMetadata org plan))) (\<lambda>_. ret ()))"

definition switchUpgrade ::
  "'s service_ops \<Rightarrow> stripe_config \<Rightarrow> 's stripe_client \<Rightarrow> go_time \<Rightarrow> string \<Rightarrow> account \<Rightarrow> subscription option \<Rightarrow>
   subscription_item \<Rightarrow> paid_plan \<Rightarrow> string \<Rightarrow> ('s, plan_switch) go" where
  "switchUpgrade ops cfg client now org acct sub item targetPlan targetPriceID =
     (let subID = (case sub of None \<Rightarrow> [] | Some s \<Rightarrow> su_ID s) in
      andthen (mutableStripeSubscriptionScheduleID client sub) (\<lambda>scheduleID.
        andthen (if scheduleID \<noteq> []
                 then wrap_err ''release pending subscription schedule'' (ReleaseSchedule client scheduleID)
                 else ret ()) (\<lambda>_.
          andthen (wrap_err ''update subscription'' (UpdateSubscription client subID
              (stripeUpgradeSubscriptionParams org subID (si_ID item) targetPlan targetPriceID))) (\<lambda>updated.
            andthen (wrap_err ''mirror switched subscription''
                (mirrorStripeSubscription ops cfg now org acct updated targetPlan)) (\<lambda>_.
              andthen (wrap_err ''clear pending plan change'' (ClearPendingPlanChange_svc ops org))
                (\<lambda>_. ret SwitchImmediate))))))"

definition switchDowngrade ::
  "'s service_ops \<Rightarrow> 's stripe_client \<Rightarrow> go_time \<Rightarrow> string \<Rightarrow> account \<Rightarrow> subscription option \<Rightarrow>
   subscription_item \<Rightarrow> paid_plan \<Rightarrow> string \<Rightarrow> paid_plan \<Rightarrow> string \<Rightarrow> ('s, plan_switch) go" where
  "switchDowngrade ops client now org acct sub item currentPlan currentPriceID targetPlan targetPriceID =
     (let subID = (case sub of None \<Rightarrow> [] | Some s \<Rightarrow> su_ID s);
          period = stripeSubscriptionItemPeriod now acct item in
      andthen (mutableStripeSubscriptionScheduleID client sub) (\<lambda>scheduleID0.
        andthen (if scheduleID0 = []
                 then wrap_err ''create subscription schedule'' (CreateSchedule client
                   (stripeDowngradeScheduleCreateParams subID currentPlan currentPriceID targetPlan targetPriceID
                     (fst period) (snd period)))
                 else ret scheduleID0) (\<lambda>scheduleID.
          andthen (wrap_err ''schedule subscription downgrade'' (UpdateSchedule client scheduleID
              (stripeDowngradeScheduleParams now scheduleID org acct item currentPlan currentPriceID targetPlan
                targetPriceID))) (\<lambda>_.
            andthen (wrap_err ''record pending plan change''
                (SetPendingPlanChange_svc ops org (pp_Code targetPlan) (unixTime (snd period))))
              (\<lambda>_. ret SwitchScheduled)))))"

definition switchStripeSubscriptionPlan ::
  "'s service_ops \<Rightarrow> stripe_config \<Rightarrow> 's stripe_client \<Rightarrow> go_time \<Rightarrow> string \<Rightarrow> account \<Rightarrow> paid_plan \<Rightarrow> string \<Rightarrow>
   ('s, plan_switch) go" where
  "switchStripeSubscriptionPlan ops cfg client now org acct targetPlan targetPriceID =
     (if StripeSubscriptionID acct = [] then fail (ErrNew ''current Stripe subscription is not available'')
      else case PaidPlanByCode (PlanCode acct) of
        None \<Rightarrow> fail (ErrNew (''current billing plan \"'' @ PlanCode acct @ ''\" cannot be switched''))
      | Some currentPlan \<Rightarrow>
          if pp_Code currentPlan = pp_Code targetPlan then ret SwitchNoop
          else
            andthen (wrap_err ''retrieve subscription'' (RetrieveSubscription client (StripeSubscriptionID acct))) (\<lambda>sub0.
              andthen (if stripeSubscriptionHasPendingCancellation sub0
                       then wrap_err ''resume subscription before plan switch'' (UpdateSubscription client
                         (case sub0 of None \<Rightarrow> [] | Some s \<Rightarrow> su_ID s) (stripeResumeSubscriptionParams sub0))
                       else ret sub0) (\<lambda>sub.
                andthen (lift_result (stripeSubscriptionPlanItem sub (stripeSubscriptionPriceIDsByPlan cfg))) (\<lambda>found.
                  if snd found = [] then fail (ErrNew ''subscription plan item has no price'')
                  else if isBillingPlanUpgrade currentPlan targetPlan
                  then switchUpgrade ops cfg client now org acct sub (fst found) targetPlan targetPriceID
                  else switchDowngrade ops client now org acct sub (fst found) currentPlan (snd found) targetPlan
                    targetPriceID))))"

section \<open>Lemmas\<close>

lemma plan_item_loop_found:
  "plan_item_loop known items single = Inl (item, price) \<Longrightarrow>
   Some item \<in> set items \<and> si_ID item \<noteq> [] \<and> si_Price item = Some price \<and> price \<in> set known"
  by (induction known items single rule: plan_item_loop.induct) (auto split: if_splits option.splits)

lemma plan_item_loop_none:
  "plan_item_loop known items single = Inr r \<Longrightarrow>
   (\<forall>item price. Some item \<in> set items \<longrightarrow> si_ID item \<noteq> [] \<longrightarrow> si_Price item = Some price \<longrightarrow> price \<notin> set known) \<and>
   (\<forall>item. r = Some item \<longrightarrow> single = Some item \<or> Some item \<in> set items)"
  by (induction known items single rule: plan_item_loop.induct) (auto split: if_splits option.splits)

lemma item_period_proper:
  assumes "second \<le> now"
  shows "0 < fst (stripeSubscriptionItemPeriod now acct item) \<and>
    fst (stripeSubscriptionItemPeriod now acct item) < snd (stripeSubscriptionItemPeriod now acct item)"
proof -
  have "0 < unix_seconds now"
    using assms by (simp add: unix_seconds_def second_def pos_imp_zdiv_pos_iff)
  then show ?thesis by (auto simp: stripeSubscriptionItemPeriod_def Let_def)
qed

end
