(* ===== verification/Stripe_Properties.thy ===== *)
theory Stripe_Properties
  imports Stripe_Plan_Switch Billing_Properties
begin

text \<open>
  The properties of the payment provider's side of billing: the handlers of its events, the
  metadata that travels through it, and the change of plans.
\<close>

section \<open>Events\<close>

text \<open>Every event of the provider, handled or refused, keeps the invariant of the tables.\<close>

theorem events_keep_tables:
  assumes "billing_ok s"
  shows "billing_ok (snd (handleStripeEvent (package_store en sha clock fuel buy) cfg items ev s))"
  using keeps_at [OF handler_keeps assms] .

definition demo_store :: "billing_db service_ops" where
  "demo_store = package_store True (\<lambda>x. x) (\<lambda>i. 0) 1 None"

definition demo_config :: stripe_config where
  "demo_config = \<lparr>StripeSecretKey = [], StripeWebhookSecret = ''whsec'', StripeSubscriptionPriceID = [],
     StripeSubscriptionPriceIDs = Map.empty, StripeTopupPriceID = [], StripeTopupPriceIDs = Map.empty\<rparr>"

definition demo_event :: "string \<Rightarrow> string \<Rightarrow> (string \<times> json) list \<Rightarrow> stripe_event" where
  "demo_event i ty members = \<lparr>ev_ID = i, ev_Type = ty, ev_Data = Some (Some (JObj members))\<rparr>"

definition topup_members :: "(string \<times> json) list" where
  "topup_members = [(''kind'', JStr ''topup''), (''org_id'', JStr ''org''), (''credits'', JStr ''100'')]"

definition invoice_members :: "(string \<times> json) list" where
  "invoice_members = [(''id'', JStr ''in_1''), (''metadata'', JObj topup_members)]"

definition checkout_members :: "(string \<times> json) list" where
  "checkout_members = [(''id'', JStr ''cs_1''), (''mode'', JStr ''payment''), (''payment_status'', JStr ''paid''),
     (''metadata'', JObj topup_members)]"

lemma demo_grant:
  assumes "ev \<noteq> []"
  shows "\<exists>x t. GrantTopupCreditsOnce_svc demo_store ev ty ''org'' 100 demo_db = (Inr x, t) \<and>
    topup_credits t ''org'' = 100"
  using assms
  by (simp add: GrantTopupCreditsOnce_svc_def demo_store_def package_store_def GrantTopupCreditsOnce_def
      grantTopupCreditsOnceTx_def InsertBillingStripeEvent_def EnsureBillingAccount_def
      GrantBillingTopupCredits_def update_account_def upsert_account_def sql_defs andthen_run wrap_err_def
      with_tx_def Let_def check_row_def account_constraints_def account_row_ok_def account_row_int4_def
      int4_def int32_def flavor_column_values_def demo_db_def default_account_row_def replace_rows_def
      topup_credits_def account_of_def) blast

lemma topup_metadata_values:
  "trim_space ''org'' = ''org''" "metadataInt [''kind'' \<mapsto> ''topup'', ''org_id'' \<mapsto> ''org'', ''credits'' \<mapsto> ''100''] ''credits'' 0 = 100"
  "trim_space ''in_1'' = ''in_1''"
  by code_simp+

lemma demo_invoice:
  "decodeStripeEventObject (demo_event i ty invoice_members) decode_invoice = Inr
    \<lparr>io_ID = ''in_1'', io_Customer = [], io_Metadata = [''kind'' \<mapsto> ''topup'', ''org_id'' \<mapsto> ''org'', ''credits'' \<mapsto> ''100'']\<rparr>"
proof -
  have k: "to_lower ''id'' = ''id''" "to_lower ''metadata'' = ''metadata''" by code_simp+
  show ?thesis
    by (simp add: decodeStripeEventObject_def demo_event_def decode_invoice_def invoice_members_def topup_members_def
        k lift_field_def)
qed

lemma demo_invoice_handled:
  "\<exists>t. handleStripeInvoicePaid demo_store (demo_event i ty invoice_members) demo_db = (Inr (), t) \<and>
     topup_credits t ''org'' = 100"
proof -
  obtain x t where g: "GrantTopupCreditsOnce_svc demo_store ''in_1'' ty ''org'' 100 demo_db = (Inr x, t)"
    "topup_credits t ''org'' = 100"
    using demo_grant [of "''in_1''" ty] by auto
  have "ev_Type (demo_event i ty invoice_members) = ty" by (simp add: demo_event_def)
  with g show ?thesis
    by (simp add: handleStripeInvoicePaid_def andthen_run demo_invoice stripeCheckoutKindTopup_def resolveStripeOrg_def
        Let_def stripeOrgID_def topup_metadata_values)
qed

theorem events_keep_tables_witness:
  "billing_ok (snd (handleStripeEvent demo_store demo_config (\<lambda>i. Inr []) (demo_event ''e'' ''invoice.paid'' invoice_members) demo_db))"
  using events_keep_tables [OF demo_ok(2)] by (simp add: demo_store_def)

text \<open>A completed checkout that is delivered again grants no credits again: once its handling
  succeeded, no organisation's top-up credits change, whatever the time or the outcome.\<close>

theorem checkout_redelivery_grants_nothing:
  assumes "handleStripeCheckoutCompleted (package_store True sha clock fuel buy) cfg items ev s = (Inr (), t)"
    and "ev_ID ev \<noteq> []"
  shows "topup_credits (snd (handleStripeCheckoutCompleted (package_store en sha clock' fuel' buy') cfg items ev t)) org =
    topup_credits t org"
  using checkout_again [OF assms] .

lemma demo_checkout:
  "decodeStripeEventObject (demo_event i ty checkout_members) decode_checkout_session = Inr
    \<lparr>cs_ID = ''cs_1'', cs_Mode = ''payment'', cs_PaymentStatus = ''paid'', cs_Customer = [], cs_Subscription = [],
     cs_ClientReferenceID = [], cs_Metadata = [''kind'' \<mapsto> ''topup'', ''org_id'' \<mapsto> ''org'', ''credits'' \<mapsto> ''100'']\<rparr>"
proof -
  have k: "to_lower ''id'' = ''id''" "to_lower ''metadata'' = ''metadata''" "to_lower ''mode'' = ''mode''"
    "to_lower ''payment_status'' = ''payment_status''" by code_simp+
  show ?thesis
    by (simp add: decodeStripeEventObject_def demo_event_def decode_checkout_session_def checkout_members_def
        topup_members_def k lift_field_def)
qed

theorem checkout_redelivery_grants_nothing_witness:
  "\<exists>t. topup_credits t ''org'' = 100 \<and> topup_credits (snd (handleStripeCheckoutCompleted demo_store demo_config
     (\<lambda>i. Inr []) (demo_event ''evt'' ''checkout.session.completed'' checkout_members) t)) ''org'' = 100"
proof -
  let ?ev = "demo_event ''evt'' ''checkout.session.completed'' checkout_members"
  obtain x t where g: "GrantTopupCreditsOnce_svc demo_store ''evt'' ''checkout.session.completed'' ''org'' 100 demo_db = (Inr x, t)"
    "topup_credits t ''org'' = 100"
    using demo_grant [of "''evt''" "''checkout.session.completed''"] by auto
  have id: "ev_ID ?ev = ''evt''" "ev_Type ?ev = ''checkout.session.completed''" by (simp_all add: demo_event_def)
  have "trim_space [] = []" by code_simp
  then have run: "handleStripeCheckoutCompleted demo_store demo_config (\<lambda>i. Inr []) ?ev demo_db = (Inr (), t)"
    using g id
    by (simp add: handleStripeCheckoutCompleted_def andthen_run demo_checkout checkoutCustomer_def checkoutEffect_def
        stripeCheckoutKindTopup_def Let_def stripeOrgID_def topup_metadata_values stripeCheckoutTopupCredits_def
        demo_config_def topupCreditsFromCheckoutMetadata_def)
  from checkout_redelivery_grants_nothing [OF run [unfolded demo_store_def]] id g show ?thesis
    by (auto simp: demo_store_def)
qed

text \<open>An invoice grants its credits once although the provider announces it with two events
  (invoice.paid and invoice.payment_succeeded, each with an id of its own) and repeats them.\<close>

theorem invoice_grants_once:
  assumes "handleStripeInvoicePaid (package_store True sha clock fuel buy) ev s = (Inr (), t)"
    and "decodeStripeEventObject ev decode_invoice = Inr iv" and "decodeStripeEventObject ev' decode_invoice = Inr iv"
    and "trim_space (io_ID iv) \<noteq> []" and "stripeOrgID (io_Metadata iv) [] \<noteq> []"
  shows "topup_credits (snd (handleStripeInvoicePaid (package_store en sha clock' fuel' buy') ev' t)) org =
    topup_credits t org"
  using invoice_again [OF assms(1,2,3)] assms(4,5) by (simp add: invoice_event_def)

theorem invoice_grants_once_witness:
  "\<exists>t. topup_credits t ''org'' = 100 \<and> topup_credits (snd (handleStripeInvoicePaid demo_store
     (demo_event ''evt_2'' ''invoice.payment_succeeded'' invoice_members) t)) ''org'' = 100"
proof -
  obtain t where t: "handleStripeInvoicePaid demo_store (demo_event ''evt_1'' ''invoice.paid'' invoice_members) demo_db = (Inr (), t)"
    "topup_credits t ''org'' = 100"
    using demo_invoice_handled by blast
  from invoice_grants_once [OF t(1) [unfolded demo_store_def] demo_invoice demo_invoice] t(2) topup_metadata_values
  show ?thesis by (auto simp: stripeOrgID_def demo_store_def Let_def)
qed

definition subscription_members :: "string \<Rightarrow> (string \<times> json) list" where
  "subscription_members status = [(''id'', JStr ''sub_1''), (''status'', JStr status), (''cancel_at'', JNum ''9''),
     (''metadata'', JObj [(''org_id'', JStr ''org''), (''plan_code'', JStr ''team'')])]"

lemma demo_subscription:
  "decodeStripeEventObject (demo_event i ty (subscription_members st)) decode_subscription = Inr
    \<lparr>so_ID = ''sub_1'', so_Customer = [], so_Status = st, so_CancelAt = 9, so_CancelAtPeriodEnd = False,
     so_CurrentPeriodStart = 0, so_CurrentPeriodEnd = 0, so_Metadata = [''org_id'' \<mapsto> ''org'', ''plan_code'' \<mapsto> ''team''],
     so_Items = []\<rparr>"
proof -
  have k: "to_lower ''id'' = ''id''" "to_lower ''metadata'' = ''metadata''" "to_lower ''status'' = ''status''"
    "to_lower ''cancel_at'' = ''cancel_at''" "atoi ''9'' = Some 9" by code_simp+
  show ?thesis
    by (simp add: decodeStripeEventObject_def demo_event_def decode_subscription_def subscription_members_def k
        lift_field_def)
qed

lemma demo_mirror_of_subscription:
  "paidAccountMirror org c sub st ps pe [''org_id'' \<mapsto> ''org'', ''plan_code'' \<mapsto> ''team''] =
    \<lparr>am_OrgID = org, am_StripeCustomerID = c, am_StripeSubscriptionID = sub, am_PlanCode = ''team'',
     am_Status = (if st = [] then ''active'' else st), am_CurrentPeriodStart = ps, am_CurrentPeriodEnd = pe,
     am_IncludedCredits = 500, am_MaxFlavor = ''plus'', am_PerRunMaxCredits = 12, am_BillingExempt = False,
     am_LastPaymentError = []\<rparr>"
proof -
  have p: "PaidPlanByCode ''team'' = Some (paidPlans ! Suc 0)" "pp_IncludedCredits (paidPlans ! Suc 0) = 500"
    "pp_MaxFlavor (paidPlans ! Suc 0) = ''plus''" "pp_PerRunMaxCredits (paidPlans ! Suc 0) = 12"
    by code_simp+
  have "trim_space ''team'' = ''team''" by code_simp
  then show ?thesis
    by (simp add: paidAccountMirror_def metadataString_def Let_def p)
qed

definition subscribed_row :: "string \<Rightarrow> int \<Rightarrow> string \<Rightarrow> int \<Rightarrow> account_row" where
  "subscribed_row st n fl cap = (default_account_row 0 ''org'')\<lparr>ba_stripe_subscription_id := ''sub_1'', ba_plan_code := ''team'',
     ba_status := st, ba_included_credits := n, ba_included_credits_used := min 9 n, ba_topup_credits := 7,
     ba_max_flavor := fl, ba_per_run_max_credits := cap\<rparr>"

definition subscription_mirror :: "string \<Rightarrow> int \<Rightarrow> string \<Rightarrow> int \<Rightarrow> account_mirror" where
  "subscription_mirror st n fl cap = \<lparr>am_OrgID = ''org'', am_StripeCustomerID = [], am_StripeSubscriptionID = ''sub_1'',
     am_PlanCode = ''team'', am_Status = st, am_CurrentPeriodStart = zero_time, am_CurrentPeriodEnd = zero_time,
     am_IncludedCredits = n, am_MaxFlavor = fl, am_PerRunMaxCredits = cap, am_BillingExempt = False,
     am_LastPaymentError = []\<rparr>"

lemma subscribed_check:
  assumes "fl = ''plus'' \<or> fl = ''standard''" and "0 \<le> n" "n < 1000" and "1 \<le> cap" "cap < 1000"
  shows "account_row_ok (subscribed_row st n fl cap)" "account_row_int4 (subscribed_row st n fl cap)"
  using assms by (auto simp: subscribed_row_def default_account_row_def account_row_ok_def account_row_int4_def int4_def
      flavor_column_values_def)

lemma subscribed_run:
  assumes fl: "fl = ''plus'' \<or> fl = ''standard''" and n: "0 \<le> n" "n < 1000" and cap: "1 \<le> cap" "cap < 1000"
    and st: "st \<noteq> []"
  shows "UpsertAccountMirror True 0 (subscription_mirror st n fl cap) used_db =
    (Inr (accountFromRow (subscribed_row st n fl cap)), used_db\<lparr>billing_accounts := [subscribed_row st n fl cap]\<rparr>)"
proof -
  let ?m = "subscription_mirror st n fl cap"
  have m: "mirror_defaults ?m = ?m"
    using assms by (auto simp: subscription_mirror_def mirror_defaults_def Let_def)
  have i: "int32 n = n" "int32 cap = cap" using n cap by (simp_all add: int4_def)
  define r where "r = (default_account_row 0 ''org'')\<lparr>ba_topup_credits := 7, ba_included_credits_used := 9\<rparr>"
  have r: "find (\<lambda>r. ba_org_id r = ba_org_id (mirror_row 0 ?m)) (billing_accounts used_db) = Some r" "ba_org_id r = ''org''"
    by (simp_all add: used_db_def r_def default_account_row_def mirror_row_def subscription_mirror_def)
  have conf: "mirror_conflict 0 (mirror_row 0 ?m) r = subscribed_row st n fl cap"
    using n cap
    by (simp add: mirror_conflict_def mirror_row_def r_def subscribed_row_def subscription_mirror_def default_account_row_def
        to_timestamptz_def is_zero_time_def i)
  have "account_row_ok (mirror_row 0 ?m)" "account_row_int4 (mirror_row 0 ?m)"
    using assms by (auto simp: mirror_row_def subscription_mirror_def default_account_row_def account_row_ok_def
        account_row_int4_def flavor_column_values_def int4_def i)
  moreover have "ref_check account_constraints used_db (subscribed_row st n fl cap) = None"
    by (simp add: account_constraints_def used_db_def subscribed_row_def default_account_row_def demo_db_def)
  ultimately have "sql_upsert billing_accounts billing_accounts_update account_constraints
      (\<lambda>r. ba_org_id r = ba_org_id (mirror_row 0 ?m)) (mirror_row 0 ?m) (mirror_conflict 0 (mirror_row 0 ?m)) used_db =
    (Inr (subscribed_row st n fl cap), billing_accounts_update
      (replace_rows (\<lambda>r. ba_org_id r = ba_org_id (mirror_row 0 ?m)) (subscribed_row st n fl cap)) used_db)"
    using upsert_updates [of _ billing_accounts used_db r account_constraints "mirror_row 0 ?m" "mirror_conflict 0 (mirror_row 0 ?m)"
        billing_accounts_update, OF r(1)] subscribed_check [OF fl n cap]
    by (simp add: conf check_row_def account_constraints_def)
  then show ?thesis
    by (simp add: UpsertAccountMirror_def UpsertBillingAccountMirror_def upsert_account_def m andthen_run wrap_err_def)
      (simp add: used_db_def replace_rows_def r_def mirror_row_def subscription_mirror_def default_account_row_def)
qed

lemma subscribed_pending:
  assumes fl: "fl = ''plus'' \<or> fl = ''standard''" and n: "0 \<le> n" "n < 1000" and cap: "1 \<le> cap" "cap < 1000"
  shows "\<exists>a t. SetPendingPlanChange True 0 ''org'' code eff (used_db\<lparr>billing_accounts := [subscribed_row st n fl cap]\<rparr>) = (Inr a, t)"
proof -
  let ?s = "used_db\<lparr>billing_accounts := [subscribed_row st n fl cap]\<rparr>"
  define f where "f = (\<lambda>r. r\<lparr>ba_pending_plan_code := code, ba_pending_plan_effective_at := to_timestamptz eff,
       ba_updated_at := Some 0\<rparr> :: account_row)"
  have "find (\<lambda>r. ba_org_id r = ''org'') (billing_accounts ?s) = Some (subscribed_row st n fl cap)"
    by (simp add: subscribed_row_def default_account_row_def)
  moreover have "check_row account_constraints ?s (f (subscribed_row st n fl cap)) = None"
    using subscribed_check [OF assms]
    by (simp add: f_def account_row_ok_def account_row_int4_def) (simp add: account_constraints_def)
  ultimately have "update_account ''org'' f ?s = (Inr (f (subscribed_row st n fl cap)),
      billing_accounts_update (replace_rows (\<lambda>r. ba_org_id r = ''org'') (f (subscribed_row st n fl cap))) ?s)"
    unfolding update_account_def by (rule update_succeeds)
  then show ?thesis
    by (simp add: SetPendingPlanChange_def SetBillingPendingPlanChange_def andthen_run wrap_err_def flip: f_def)
qed

lemma demo_subscription_handled:
  assumes "subscriptionMirror (demo_event i ty (subscription_members st)) ''org'' \<lparr>so_ID = ''sub_1'', so_Customer = [],
     so_Status = st, so_CancelAt = 9, so_CancelAtPeriodEnd = False, so_CurrentPeriodStart = 0, so_CurrentPeriodEnd = 0,
     so_Metadata = [''org_id'' \<mapsto> ''org'', ''plan_code'' \<mapsto> ''team''], so_Items = []\<rparr> = subscription_mirror st n fl cap"
    and "st \<noteq> []" "fl = ''plus'' \<or> fl = ''standard''" "0 \<le> n" "n < 1000" "1 \<le> cap" "cap < 1000"
  shows "\<exists>t. handleStripeSubscription demo_store (demo_event i ty (subscription_members st)) used_db = (Inr (), t)"
proof -
  obtain a t where p: "SetPendingPlanChange True 0 ''org'' PlanFree (unixTime 9)
      (used_db\<lparr>billing_accounts := [subscribed_row st n fl cap]\<rparr>) = (Inr a, t)"
    using subscribed_pending [OF assms(3-7)] by blast
  have "\<not> is_zero_time (unixTime 9)" by (simp add: is_zero_time_def zero_time_def unixTime_def second_def)
  with p subscribed_run [OF assms(3-7,2)] show ?thesis
    by (simp add: handleStripeSubscription_def andthen_run demo_subscription resolveStripeOrg_def Let_def stripeOrgID_def
        topup_metadata_values assms(1) UpsertAccountMirror_svc_def demo_store_def package_store_def
        syncStripeSubscriptionCancellation_def CancellationEffectiveAt_def SetPendingPlanChange_svc_def)
qed

lemma demo_mirrors:
  "subscriptionMirror (demo_event i ''customer.subscription.updated'' ms) ''org'' \<lparr>so_ID = ''sub_1'', so_Customer = [],
     so_Status = ''active'', so_CancelAt = 9, so_CancelAtPeriodEnd = False, so_CurrentPeriodStart = 0, so_CurrentPeriodEnd = 0,
     so_Metadata = [''org_id'' \<mapsto> ''org'', ''plan_code'' \<mapsto> ''team''], so_Items = []\<rparr> = subscription_mirror ''active'' 500 ''plus'' 12"
  "subscriptionMirror (demo_event i ''customer.subscription.deleted'' ms) ''org'' \<lparr>so_ID = ''sub_1'', so_Customer = [],
     so_Status = ''canceled'', so_CancelAt = 9, so_CancelAtPeriodEnd = False, so_CurrentPeriodStart = 0, so_CurrentPeriodEnd = 0,
     so_Metadata = [''org_id'' \<mapsto> ''org'', ''plan_code'' \<mapsto> ''team''], so_Items = []\<rparr> = subscription_mirror ''canceled'' 0 ''standard'' 4"
  by (simp_all add: subscriptionMirror_def demo_mirror_of_subscription demo_event_def Period_def unixTime_def
      subscription_mirror_def FlavorStandard_def)

text \<open>A deleted or canceled subscription leaves its organisation with the top-up credits it bought
  and nothing else: no included credits, the standard flavor, the per-run cap of the free plan.\<close>

theorem canceled_subscription_strips_the_plan:
  assumes "billing_ok s" and sub: "decodeStripeEventObject ev decode_subscription = Inr sub"
    and org: "stripeOrgID (so_Metadata sub) [] = org" "org \<noteq> []"
    and gone: "ev_Type ev = ''customer.subscription.deleted'' \<or> so_Status sub = ''canceled''"
    and run: "handleStripeSubscription (package_store True sha clock fuel buy) ev s = (Inr (), t)"
  shows "\<exists>row. account_of t org = Some row \<and> ba_included_credits row = 0 \<and> ba_max_flavor row = FlavorStandard \<and>
    ba_per_run_max_credits row = 4 \<and> org_balance t org = topup_credits s org"
proof -
  have tc: "topup_credits t org = topup_credits s org"
    using subscription_keeps_credits [of True sha clock fuel buy ev s org] run by simp
  from sub org run obtain a u row where up: "UpsertAccountMirror True (clock 0) (subscriptionMirror ev org sub) s = (Inr a, u)"
    and row: "account_of u org = Some row" and t: "account_of t org = Some (pended_row (clock 0) sub row)"
    by (rule subscription_row)
  let ?m = "subscriptionMirror ev org sub"
  have m: "am_OrgID ?m = org" "am_IncludedCredits ?m = 0" "am_MaxFlavor (mirror_defaults ?m) = FlavorStandard"
    "am_PerRunMaxCredits (mirror_defaults ?m) = 4" "am_IncludedCredits (mirror_defaults ?m) = 0"
    using gone mirror_paid [of org "so_Customer sub" "so_ID sub" "so_Status sub" "fst (Period sub)" "snd (Period sub)" "so_Metadata sub"]
    by (auto simp: subscriptionMirror_def Let_def mirror_defaults_def flavor_codes)
  obtain row' where row': "account_of u (am_OrgID ?m) = Some row'"
    and alt: "row' = mirror_row (clock 0) (mirror_defaults ?m) \<or>
      (\<exists>r. row' = mirror_conflict (clock 0) (mirror_row (clock 0) (mirror_defaults ?m)) r)"
    by (rule UpsertAccountMirror_row [OF up]) blast
  have "row' = row" using row row' m(1) by simp
  moreover have "ba_included_credits row' = 0" "ba_max_flavor row' = FlavorStandard" "ba_per_run_max_credits row' = 4"
    using alt by (elim disjE exE; simp add: m mirror_row_def mirror_conflict_def int32_def)+
  ultimately have "ba_included_credits row = 0 \<and> ba_max_flavor row = FlavorStandard \<and> ba_per_run_max_credits row = 4"
    by simp
  moreover have "billing_ok u"
    using keeps_invD [OF keeps_UpsertAccountMirror _ up] assms(1) m by (simp add: int4_def)
  then have "account_inv row" using row by (simp add: account_of_inv)
  ultimately show ?thesis
    using t tc by (simp add: org_balance_def Balance_def IncludedRemaining_def topup_credits_def account_inv_def
        account_row_ok_def)
qed

lemma used_ok: "billing_ok used_db" "topup_credits used_db ''org'' = 7"
  by (simp_all add: billing_ok_def table_inv_def used_db_def demo_db_def default_account_row_def account_inv_def
      account_row_ok_def account_row_int4_def int4_def flavor_column_values_def topup_credits_def account_of_def)

theorem canceled_subscription_strips_the_plan_witness:
  "\<exists>t. handleStripeSubscription demo_store (demo_event ''e'' ''customer.subscription.deleted''
       (subscription_members ''canceled'')) used_db = (Inr (), t) \<and> org_balance t ''org'' = 7"
proof -
  obtain t where run: "handleStripeSubscription demo_store (demo_event ''e'' ''customer.subscription.deleted''
       (subscription_members ''canceled'')) used_db = (Inr (), t)"
    using demo_subscription_handled [OF demo_mirrors(2)] by auto
  from canceled_subscription_strips_the_plan [OF used_ok(1) demo_subscription _ _ _ run [unfolded demo_store_def]]
    topup_metadata_values(1) used_ok(2) run
  show ?thesis by (auto simp: stripeOrgID_def Let_def)
qed

text \<open>After a subscription event a change to the free plan is pending exactly if the subscription is
  to be canceled, and for the time it is to be canceled at.\<close>

theorem pending_change_follows_cancellation:
  assumes "decodeStripeEventObject ev decode_subscription = Inr sub"
    and "stripeOrgID (so_Metadata sub) [] = org" and "org \<noteq> []"
    and "handleStripeSubscription (package_store True sha clock fuel buy) ev s = (Inr (), t)"
  shows "\<exists>row. account_of t org = Some row \<and>
    (if is_zero_time (CancellationEffectiveAt sub) then ba_pending_plan_code row \<noteq> PlanFree
     else ba_pending_plan_code row = PlanFree \<and>
       ba_pending_plan_effective_at row = Some (CancellationEffectiveAt sub))"
proof -
  from assms obtain row where "account_of t org = Some (pended_row (clock 0) sub row)" by (rule subscription_row)
  then show ?thesis
    by (cases "is_zero_time (CancellationEffectiveAt sub)"; cases "ba_pending_plan_code row = PlanFree")
      (simp_all add: pended_row_def to_timestamptz_def plan_codes)
qed

theorem pending_change_follows_cancellation_witness:
  "\<exists>t row. handleStripeSubscription demo_store (demo_event ''e'' ''customer.subscription.updated''
       (subscription_members ''active'')) used_db = (Inr (), t) \<and>
     account_of t ''org'' = Some row \<and> ba_pending_plan_code row = ''free'' \<and>
     ba_pending_plan_effective_at row = Some (9 * second)"
proof -
  obtain t where run: "handleStripeSubscription demo_store (demo_event ''e'' ''customer.subscription.updated''
       (subscription_members ''active'')) used_db = (Inr (), t)"
    using demo_subscription_handled [OF demo_mirrors(1)] by auto
  from pending_change_follows_cancellation [OF demo_subscription _ _ run [unfolded demo_store_def]]
    topup_metadata_values(1) run
  show ?thesis
    by (force simp: stripeOrgID_def Let_def CancellationEffectiveAt_def unixTime_def is_zero_time_def zero_time_def
        second_def plan_codes)
qed

section \<open>Metadata\<close>

text \<open>The metadata a checkout for a plan sends through the provider comes back as the mirror of that
  plan, whatever is configured as the default, for the organisation it was written for.\<close>

theorem plan_metadata_roundtrip:
  assumes "p \<in> set PaidPlans" and "trim_space org = org" and "org \<noteq> []"
  shows "stripeOrgID (paidSubscriptionMetadata org p) fallback = org \<and>
    am_PlanCode (paidAccountMirror org c sub st ps pe (paidSubscriptionMetadata org p)) = pp_Code p \<and>
    am_IncludedCredits (paidAccountMirror org c sub st ps pe (paidSubscriptionMetadata org p)) = pp_IncludedCredits p \<and>
    am_MaxFlavor (paidAccountMirror org c sub st ps pe (paidSubscriptionMetadata org p)) = pp_MaxFlavor p \<and>
    am_PerRunMaxCredits (paidAccountMirror org c sub st ps pe (paidSubscriptionMetadata org p)) = pp_PerRunMaxCredits p"
proof -
  have p: "p \<in> set paidPlans" using assms(1) by (simp add: PaidPlans_def)
  have "map_get (paidSubscriptionMetadata org p) ''org_id'' = org"
    by (simp add: paidSubscriptionMetadata_def hetchyStripeMetadata_def stripeMetadataAppKey_def map_get_def)
  then show ?thesis
    using assms(2,3) by (simp add: mirror_of_metadata [OF p metadata_reads_plan [OF p]] stripeOrgID_def Let_def)
qed

theorem plan_metadata_roundtrip_witness:
  "am_PlanCode (paidAccountMirror ''org'' [] ''sub'' [] 0 0 (paidSubscriptionMetadata ''org'' (paidPlans ! 2))) = ''growth''"
proof -
  have "paidPlans ! 2 \<in> set PaidPlans" "pp_Code (paidPlans ! 2) = ''growth''"
    by (simp_all add: PaidPlans_def paidPlans_def PlanGrowth_def)
  with plan_metadata_roundtrip [of "paidPlans ! 2" "''org''"] topup_metadata_values(1) show ?thesis by simp
qed

text \<open>A top-up checkout for any quantity the handler lets through is paid out in full from its
  metadata.\<close>

theorem topup_metadata_roundtrip:
  assumes "1 \<le> q" and "q \<le> 100"
  shows "topupCreditsFromCheckoutMetadata (topupMetadata org q) = q * TopupUnitCredits"
proof -
  have "map_get (topupMetadata org q) ''credits'' = itoa (q * TopupUnitCredits)"
    by (simp add: topupMetadata_def hetchyStripeMetadata_def stripeMetadataAppKey_def map_get_def)
  from metadataInt_itoa [OF this] assms show ?thesis
    by (simp add: topupCreditsFromCheckoutMetadata_def TopupUnitCredits_def is_int64_def)
qed

theorem topup_metadata_roundtrip_witness:
  "topupCreditsFromCheckoutMetadata (topupMetadata ''org'' 7) = 700"
  using topup_metadata_roundtrip [of 7 "''org''"] by (simp add: TopupUnitCredits_def)

section \<open>Changing plans\<close>

text \<open>The provider's calls do not write the billing tables themselves.\<close>

definition client_apart :: "billing_db stripe_client \<Rightarrow> bool" where
  "client_apart c \<longleftrightarrow> (\<forall>s. (\<forall>i. snd (RetrieveSubscription c i s) = s) \<and> (\<forall>i u. snd (UpdateSubscription c i u s) = s) \<and>
     (\<forall>i. snd (RetrieveSchedule c i s) = s) \<and> (\<forall>i. snd (ReleaseSchedule c i s) = s) \<and>
     (\<forall>p. snd (CreateSchedule c p s) = s) \<and> (\<forall>i p. snd (UpdateSchedule c i p s) = s))"

lemma client_apartD:
  assumes "client_apart c"
  shows "RetrieveSubscription c i s = (r1, t) \<Longrightarrow> t = s" "UpdateSubscription c i u s = (r1, t) \<Longrightarrow> t = s"
    "RetrieveSchedule c i s = (r2, t) \<Longrightarrow> t = s" "ReleaseSchedule c i s = (r3, t) \<Longrightarrow> t = s"
    "CreateSchedule c p s = (r2, t) \<Longrightarrow> t = s" "UpdateSchedule c i q s = (r3, t) \<Longrightarrow> t = s"
  using assms unfolding client_apart_def by (metis snd_conv)+

lemma schedule_id_apart:
  assumes "client_apart c" and "mutableStripeSubscriptionScheduleID c sub s = (Inr i, t)"
  shows "t = s"
  using assms(2) client_apartD(3) [OF assms(1)]
  by (auto simp: mutableStripeSubscriptionScheduleID_def ok_simps Let_def split: option.splits if_splits)

lemma clear_svc:
  "ClearPendingPlanChange_svc (package_store True sha clock fuel buy) org = ClearPendingPlanChange True (clock 0) org"
  by (simp add: ClearPendingPlanChange_svc_def package_store_def)

lemma mirror_run:
  assumes "mirrorStripeSubscription (package_store True sha clock fuel buy) cfg now org acct sub plan s = (Inr (), u)"
  obtains c i st ps pe a where "UpsertAccountMirror True (clock 0)
    (paidAccountMirror org c i st ps pe (paidSubscriptionMetadata org plan)) s = (Inr a, u)"
proof (cases sub)
  case None
  with assms show thesis by (simp add: mirrorStripeSubscription_def)
next
  case (Some x)
  with assms have "su_ID x \<noteq> []" by (auto simp: mirrorStripeSubscription_def)
  with assms Some show thesis
    by (auto simp: mirrorStripeSubscription_def Let_def UpsertAccountMirror_svc_def package_store_def andthen_Inr intro: that)
qed

lemma upgrade_row:
  assumes apart: "client_apart client" and p: "targetPlan \<in> set paidPlans"
    and run: "switchUpgrade (package_store True sha clock fuel buy) cfg client now org acct sub item targetPlan price s = (Inr r, t)"
  shows "r = SwitchImmediate \<and> (\<exists>row. account_of t org = Some row \<and> ba_plan_code row = pp_Code targetPlan \<and>
    ba_included_credits row = pp_IncludedCredits targetPlan \<and> ba_pending_plan_code row = [])"
proof -
  from run obtain updated u b where
    mir: "mirrorStripeSubscription (package_store True sha clock fuel buy) cfg now org acct updated targetPlan s = (Inr (), u)"
    and cl: "ClearPendingPlanChange True (clock 0) org u = (Inr b, t)" and r: "r = SwitchImmediate"
    by (auto simp: switchUpgrade_def ok_simps Let_def clear_svc split: if_splits
        dest!: schedule_id_apart [OF apart] client_apartD [OF apart])
  from mir obtain c su st ps pe a where
    up: "UpsertAccountMirror True (clock 0) (paidAccountMirror org c su st ps pe (paidSubscriptionMetadata org targetPlan)) s = (Inr a, u)"
    by (rule mirror_run)
  let ?m = "paidAccountMirror org c su st ps pe (paidSubscriptionMetadata org targetPlan)"
  note m = mirror_of_metadata [OF p metadata_reads_plan [OF p]]
  have d: "am_PlanCode (mirror_defaults ?m) = pp_Code targetPlan"
    "am_IncludedCredits (mirror_defaults ?m) = pp_IncludedCredits targetPlan" "am_OrgID ?m = org"
    using paid_codes_clean [OF p] by (simp_all add: m mirror_defaults_def Let_def)
  have i: "int32 (max (pp_IncludedCredits targetPlan) 0) = pp_IncludedCredits targetPlan"
    using p by (auto simp: paidPlans_def int32_def)
  obtain row where row: "account_of u org = Some row"
    and alt: "row = mirror_row (clock 0) (mirror_defaults ?m) \<or>
      (\<exists>r. row = mirror_conflict (clock 0) (mirror_row (clock 0) (mirror_defaults ?m)) r)"
    by (rule UpsertAccountMirror_row [OF up]) (use d in auto)
  have "ba_plan_code row = pp_Code targetPlan" "ba_included_credits row = pp_IncludedCredits targetPlan"
    using alt by (elim disjE exE; simp add: mirror_row_def mirror_conflict_def d i)+
  moreover obtain a' where "account_of u org = Some a'"
    "account_of t org = Some (a'\<lparr>ba_pending_plan_code := [], ba_pending_plan_effective_at := None, ba_updated_at := Some (clock 0)\<rparr>)"
    by (rule ClearPendingPlanChange_row [OF cl])
  ultimately show ?thesis using row r by simp
qed

lemma downgrade_row:
  assumes apart: "client_apart client"
    and run: "switchDowngrade (package_store True sha clock fuel buy) client now org acct sub item cur curPrice targetPlan price s = (Inr r, t)"
  shows "r = SwitchScheduled \<and> (\<exists>a row. account_of s org = Some a \<and> account_of t org = Some row \<and>
    ba_pending_plan_code row = pp_Code targetPlan \<and> ba_plan_code row = ba_plan_code a \<and>
    ba_included_credits row = ba_included_credits a)"
proof -
  from run obtain eff a where "SetPendingPlanChange True (clock 0) org (pp_Code targetPlan) eff s = (Inr a, t)"
    and r: "r = SwitchScheduled"
    by (auto simp: switchDowngrade_def ok_simps Let_def SetPendingPlanChange_svc_def package_store_def split: if_splits
        dest!: schedule_id_apart [OF apart] client_apartD [OF apart])
  then show ?thesis by (auto elim!: SetPendingPlanChange_row)
qed

text \<open>A change of plan that succeeds does nothing for the plan the organisation has; for a dearer one
  it gives the new plan and its credits at once and leaves no pending change; for a cheaper one it
  keeps the plan and its credits and records the new one as pending.\<close>

theorem plan_switch_outcome:
  assumes "client_apart client" and "targetPlan \<in> set PaidPlans"
    and "switchStripeSubscriptionPlan (package_store True sha clock fuel buy) cfg client now org acct targetPlan price s = (Inr r, t)"
  shows "\<exists>cur. PaidPlanByCode (PlanCode acct) = Some cur \<and>
    (if pp_Code cur = pp_Code targetPlan then r = SwitchNoop \<and> t = s
     else if pp_MonthlyUSDCents cur < pp_MonthlyUSDCents targetPlan
     then r = SwitchImmediate \<and> (\<exists>row. account_of t org = Some row \<and> ba_plan_code row = pp_Code targetPlan \<and>
       ba_included_credits row = pp_IncludedCredits targetPlan \<and> ba_pending_plan_code row = [])
     else r = SwitchScheduled \<and> (\<exists>a row. account_of s org = Some a \<and> account_of t org = Some row \<and>
       ba_pending_plan_code row = pp_Code targetPlan \<and> ba_plan_code row = ba_plan_code a \<and>
       ba_included_credits row = ba_included_credits a))"
proof -
  note apart = assms(1)
  have p: "targetPlan \<in> set paidPlans" using assms(2) by (simp add: PaidPlans_def)
  from assms(3) obtain cur where cur: "PaidPlanByCode (PlanCode acct) = Some cur"
    by (auto simp: switchStripeSubscriptionPlan_def split: if_splits option.splits)
  show ?thesis
  proof (cases "pp_Code cur = pp_Code targetPlan")
    case True
    with assms(3) cur show ?thesis by (auto simp: switchStripeSubscriptionPlan_def split: if_splits)
  next
    case False
    show ?thesis
    proof (cases "isBillingPlanUpgrade cur targetPlan")
      case True
      with assms(3) cur False obtain sub item where
        "switchUpgrade (package_store True sha clock fuel buy) cfg client now org acct sub item targetPlan price s = (Inr r, t)"
        by (auto simp: switchStripeSubscriptionPlan_def ok_simps split: if_splits dest!: client_apartD [OF apart])
      with upgrade_row [OF apart p] cur False True show ?thesis by (simp add: isBillingPlanUpgrade_def)
    next
      case cheaper: False
      with assms(3) cur False obtain sub item cp where
        "switchDowngrade (package_store True sha clock fuel buy) client now org acct sub item cur cp targetPlan price s = (Inr r, t)"
        by (auto simp: switchStripeSubscriptionPlan_def ok_simps split: if_splits dest!: client_apartD [OF apart])
      with downgrade_row [OF apart] cur False cheaper show ?thesis by (simp add: isBillingPlanUpgrade_def)
    qed
  qed
qed

definition demo_item :: subscription_item where
  "demo_item = \<lparr>si_ID = ''si_1'', si_Price = Some ''price_team'', si_CurrentPeriodStart = 100, si_CurrentPeriodEnd = 200,
     si_Quantity = 1\<rparr>"

definition demo_client :: "'s stripe_client" where
  "demo_client = \<lparr>
     RetrieveSubscription = (\<lambda>i. ret (Some \<lparr>su_ID = i, su_Status = ''active'', su_CancelAt = 0, su_CancelAtPeriodEnd = False,
       su_Customer = None, su_Schedule = None, su_Items = Some [Some demo_item]\<rparr>)),
     UpdateSubscription = (\<lambda>i u. ret None), RetrieveSchedule = (\<lambda>i. ret ''active''), ReleaseSchedule = (\<lambda>i. ret ()),
     CreateSchedule = (\<lambda>p. ret ''sched_1''), UpdateSchedule = (\<lambda>i p. ret ())\<rparr>"

theorem plan_switch_outcome_witness:
  "\<exists>t row. switchStripeSubscriptionPlan demo_store (demo_config\<lparr>StripeSubscriptionPriceIDs := [''team'' \<mapsto> ''price_team'']\<rparr>)
     demo_client second ''org'' (accountFromRow (subscribed_row ''active'' 500 ''plus'' 12)) (paidPlans ! 0) ''price_starter''
     (used_db\<lparr>billing_accounts := [subscribed_row ''active'' 500 ''plus'' 12]\<rparr>) = (Inr SwitchScheduled, t) \<and>
   account_of t ''org'' = Some row \<and> ba_pending_plan_code row = ''starter''"
proof -
  let ?s = "used_db\<lparr>billing_accounts := [subscribed_row ''active'' 500 ''plus'' 12]\<rparr>"
  let ?acct = "accountFromRow (subscribed_row ''active'' 500 ''plus'' 12)"
  let ?cfg = "demo_config\<lparr>StripeSubscriptionPriceIDs := [''team'' \<mapsto> ''price_team'']\<rparr>"
  have codes: "pp_Code (paidPlans ! 0) = ''starter''" "pp_Code (paidPlans ! 1) = ''team''"
    "PaidPlanByCode ''team'' = Some (paidPlans ! 1)"
    "isBillingPlanUpgrade (paidPlans ! 1) (paidPlans ! 0) = False" "paidPlans ! 0 \<in> set PaidPlans"
    by code_simp+
  have item: "stripeSubscriptionPlanItem (Some \<lparr>su_ID = i, su_Status = st, su_CancelAt = 0, su_CancelAtPeriodEnd = False,
       su_Customer = None, su_Schedule = None, su_Items = Some [Some demo_item]\<rparr>) (stripeSubscriptionPriceIDsByPlan ?cfg) =
     Inr (demo_item, ''price_team'')" for i st
  proof -
    have "stripeSubscriptionPriceIDsByPlan ?cfg = [(''team'', ''price_team'')]" by code_simp
    moreover have "trim_space ''price_team'' = ''price_team''" by code_simp
    ultimately show ?thesis by (simp add: stripeSubscriptionPlanItem_def demo_item_def)
  qed
  have acct: "StripeSubscriptionID ?acct = ''sub_1''" "PlanCode ?acct = ''team''"
    by (simp_all add: accountFromRow_def subscribed_row_def)
  obtain a t where p: "SetPendingPlanChange True 0 ''org'' ''starter'' (unixTime 200) ?s = (Inr a, t)"
    using subscribed_pending [of "''plus''" 500 12 "''starter''" "unixTime 200" "''active''"] by auto
  have per: "snd (stripeSubscriptionItemPeriod second ?acct demo_item) = 200"
    by (simp add: stripeSubscriptionItemPeriod_def demo_item_def)
  have plan: "ba_plan_code (subscribed_row ''active'' 500 ''plus'' 12) = ''team''" by (simp add: subscribed_row_def)
  have run: "switchStripeSubscriptionPlan demo_store ?cfg demo_client second ''org'' ?acct (paidPlans ! 0) ''price_starter'' ?s =
      (Inr SwitchScheduled, t)"
    using p codes [simplified] plan
    by (simp add: switchStripeSubscriptionPlan_def acct andthen_run wrap_err_def demo_client_def
        stripeSubscriptionHasPendingCancellation_def item switchDowngrade_def Let_def mutableStripeSubscriptionScheduleID_def
        SetPendingPlanChange_svc_def demo_store_def package_store_def per)
  have "client_apart demo_client" by (simp add: client_apart_def demo_client_def)
  from plan_switch_outcome [OF this codes(5) run [unfolded demo_store_def]] codes acct run
  show ?thesis by (auto split: if_splits)
qed

end
