(* ===== verification/Jobs_Types.thy ===== *)
theory Jobs_Types
  imports Go_Json
begin

text \<open>
  internal/jobs/jobs.go and jobs_helpers.go without the store: jobs, executions, the cleaning of
  what a user entered and the schedule. The cron parser and the time zones come from libraries and
  are the fields of \<open>cron_env\<close>; a parsed schedule maps a location and a time to the next activation.
\<close>

definition StatusClaimed :: string where "StatusClaimed = ''claimed''"
definition StatusRunning :: string where "StatusRunning = ''running''"
definition StatusSucceeded :: string where "StatusSucceeded = ''succeeded''"
definition StatusFailed :: string where "StatusFailed = ''failed''"
definition StatusCancelled :: string where "StatusCancelled = ''cancelled''"

definition defaultLocation :: string where "defaultLocation = ''UTC''"
definition minRunningExecutionStaleAfter :: duration where
  "minRunningExecutionStaleAfter = 2 * hour"
definition DefaultModel :: string where "DefaultModel = ''opus''"

definition validJobModels :: "string list" where
  "validJobModels = [''opus'', ''sonnet'', ''haiku'', ''gpt-frontier'', ''gpt-balanced'', ''gpt-fastest'']"

definition ErrNotConfigured :: go_error where "ErrNotConfigured = ErrNew ''jobs: store not configured''"
definition ErrNotFound :: go_error where "ErrNotFound = ErrNew ''jobs: not found''"
definition ErrOverlap :: go_error where "ErrOverlap = ErrNew ''jobs: job already has an active execution''"
definition ErrInvalidInput :: go_error where "ErrInvalidInput = ErrNew ''jobs: invalid input''"

section \<open>Data\<close>

record repo_ref =
  rr_Owner :: string
  rr_Name :: string

definition Slug :: "repo_ref \<Rightarrow> string" where
  "Slug r = (if rr_Owner r = [] \<or> rr_Name r = [] then [] else rr_Owner r @ ''/'' @ rr_Name r)"

record job =
  job_ID :: string
  job_OrgID :: string
  job_Name :: string
  job_Definition :: string
  job_AgentSlug :: string
  job_PrimaryOwner :: string
  job_PrimaryRepo :: string
  job_AdditionalRepos :: "repo_ref list"
  job_CronSchedule :: string
  job_Timezone :: string
  job_Model :: string
  job_Enabled :: bool
  job_NextRunAt :: go_time
  job_LastRunAt :: go_time
  job_LastRunID :: string
  job_LastError :: string
  job_CreatedAt :: go_time
  job_UpdatedAt :: go_time
  job_LastExecutionID :: string
  job_LastExecutionStatus :: string

record execution =
  ex_ID :: string
  ex_JobID :: string
  ex_OrgID :: string
  ex_RunID :: string
  ex_ScheduledFor :: go_time
  ex_Status :: string
  ex_ClaimedBy :: string
  ex_ClaimedAt :: go_time
  ex_FinishedAt :: go_time
  ex_Error :: string
  ex_CreatedAt :: go_time
  ex_UpdatedAt :: go_time

record claimed_execution =
  ce_Job :: job
  ce_Execution :: execution

record job_input =
  ji_Name :: string
  ji_Definition :: string
  ji_AgentSlug :: string
  ji_PrimaryOwner :: string
  ji_PrimaryRepo :: string
  ji_AdditionalRepos :: "repo_ref list"
  ji_CronSchedule :: string
  ji_Timezone :: string
  ji_Model :: string
  ji_Enabled :: bool

section \<open>Helpers\<close>

definition timeParam :: "go_time \<Rightarrow> timestamptz" where
  "timeParam t = (if is_zero_time t then None else Some t)"

definition stringPtrParam :: "string \<Rightarrow> string option" where
  "stringPtrParam s = (if trim_space s = [] then None else Some s)"

text \<open>A PostgreSQL interval in whole microseconds, here in nanoseconds as all times are.\<close>

definition interval :: "duration \<Rightarrow> duration" where
  "interval d = (if d < 0 then - (- d div 1000) else d div 1000) * 1000"

definition runningExecutionStaleAfter :: "duration \<Rightarrow> duration" where
  "runningExecutionStaleAfter claimedStaleAfter =
     (let runningStaleAfter = int64 (claimedStaleAfter * 4)
      in if runningStaleAfter < minRunningExecutionStaleAfter then minRunningExecutionStaleAfter
         else runningStaleAfter)"

text \<open>\<open>bytes\<close> are the twelve bytes of crypto/rand.\<close>

definition newID :: "string \<Rightarrow> nat list \<Rightarrow> string" where
  "newID prefix0 bytes = prefix0 @ ''_'' @ hex_encode bytes"

definition invalidInput :: "go_error \<Rightarrow> go_error" where
  "invalidInput e = Joined ErrInvalidInput e"

definition InvalidInputMessage :: "(go_error \<Rightarrow> string) \<Rightarrow> go_error \<Rightarrow> string" where
  "InvalidInputMessage pg e = trim_prefix (err_text pg e) (err_text pg ErrInvalidInput @ '': '')"

definition terminalExecutionStatus :: "string \<Rightarrow> bool" where
  "terminalExecutionStatus status \<longleftrightarrow> status \<in> {StatusSucceeded, StatusFailed, StatusCancelled}"

text \<open>The loop of cleanRepos: \<open>seen\<close> are the lower-case slugs kept so far.\<close>

fun cleanRepos_loop :: "repo_ref list \<Rightarrow> string list \<Rightarrow> repo_ref list" where
  "cleanRepos_loop [] seen = []"
| "cleanRepos_loop (repo # rest) seen =
     (let clean = \<lparr>rr_Owner = trim_space (rr_Owner repo), rr_Name = trim_space (rr_Name repo)\<rparr>;
          key = to_lower (Slug clean)
      in if rr_Owner clean = [] \<or> rr_Name clean = [] then cleanRepos_loop rest seen
         else if key \<in> set seen then cleanRepos_loop rest seen
         else clean # cleanRepos_loop rest (key # seen))"

definition cleanRepos :: "repo_ref list \<Rightarrow> repo_ref list" where
  "cleanRepos repos = cleanRepos_loop repos []"

text \<open>internal/agents/agents.go: the normal form of an agent's name, on ASCII text.\<close>

definition trim_chars :: "string \<Rightarrow> string \<Rightarrow> string" where
  "trim_chars cutset s = rev (dropWhile (\<lambda>c. c \<in> set cutset) (rev (dropWhile (\<lambda>c. c \<in> set cutset) s)))"

definition lookup_cutset :: string where
  "lookup_cutset = [CHR '' '', CHR 0x09, CHR 0x0D, CHR 0x0A] @ '':,.!?()[]{}<>''"

definition NormalizeLookup :: "string \<Rightarrow> string" where
  "NormalizeLookup s = trim_chars lookup_cutset (trim_prefix (trim_space (to_lower s)) ''@'')"

definition is_letter_or_digit :: "char \<Rightarrow> bool" where
  "is_letter_or_digit c \<longleftrightarrow> (let n = (of_char c :: nat) in
     48 \<le> n \<and> n \<le> 57 \<or> 65 \<le> n \<and> n \<le> 90 \<or> 97 \<le> n \<and> n \<le> 122)"

text \<open>The loop over the characters: whether the last one written is a dash, and what is written so far.\<close>

fun slug_loop :: "string \<Rightarrow> bool \<Rightarrow> string \<Rightarrow> string" where
  "slug_loop [] lastDash b = b"
| "slug_loop (r # rs) lastDash b =
     (if is_letter_or_digit r then slug_loop rs False (b @ [lower_char r])
      else if r = CHR ''-'' \<or> r = CHR ''_'' \<or> is_space r then
        (if \<not> lastDash \<and> b \<noteq> [] then slug_loop rs True (b @ ''-'') else slug_loop rs lastDash b)
      else slug_loop rs lastDash b)"

definition NormalizeSlug :: "string \<Rightarrow> string" where
  "NormalizeSlug s0 =
     (let s = NormalizeLookup s0 in if s = [] then [] else trim_chars ''-'' (slug_loop s False []))"

section \<open>Schedules\<close>

record 'l cron_env =
  CronParse :: "string \<Rightarrow> go_error + ('l \<Rightarrow> go_time \<Rightarrow> go_time)"
  LoadLocation :: "string \<Rightarrow> go_error + 'l"
  WallNow :: go_time

definition ParseSchedule ::
  "'l cron_env \<Rightarrow> string \<Rightarrow> string \<Rightarrow> go_error + ('l \<Rightarrow> go_time \<Rightarrow> go_time) \<times> 'l" where
  "ParseSchedule env expr0 timezone0 =
     (let expr = trim_space expr0 in
      if expr = [] then Inl (ErrNew ''cron schedule is required'')
      else case CronParse env expr of
        Inl e \<Rightarrow> Inl (Wrapped ''cron schedule must be a standard 5-field expression'' e)
      | Inr sched \<Rightarrow>
          let tz = trim_space timezone0; timezone = (if tz = [] then defaultLocation else tz)
          in (case LoadLocation env timezone of
                Inl e \<Rightarrow> Inl (ErrNew (''timezone \"'' @ timezone @ ''\" is not supported''))
              | Inr loc \<Rightarrow> Inr (sched, loc)))"

definition NextRun :: "'l cron_env \<Rightarrow> string \<Rightarrow> string \<Rightarrow> go_time \<Rightarrow> go_error + go_time" where
  "NextRun env expr timezone after0 =
     (case ParseSchedule env expr timezone of
        Inl e \<Rightarrow> Inl e
      | Inr (sched, loc) \<Rightarrow> Inr (sched loc (if is_zero_time after0 then WallNow env else after0)))"

text \<open>What the cron library documents of Next: a time after the given one, or the zero time if there is none.\<close>

definition cron_moves_on :: "'l cron_env \<Rightarrow> bool" where
  "cron_moves_on env \<longleftrightarrow> (\<forall>expr sched loc t. CronParse env expr = Inr sched \<longrightarrow>
     sched loc t = zero_time \<or> t < sched loc t)"

section \<open>The column of additional repositories\<close>

text \<open>json.Marshal of the list, and json.Unmarshal into a list of structs.\<close>

definition marshal_repos :: "repo_ref list \<Rightarrow> json" where
  "marshal_repos rs = JArr (map (\<lambda>r. JObj [(''owner'', JStr (rr_Owner r)), (''name'', JStr (rr_Name r))]) rs)"

definition decode_repo_ref :: "json \<Rightarrow> go_error + repo_ref" where
  "decode_repo_ref j = json_object (\<lambda>k v r.
       if k = ''owner'' then lift_field (json_string v (rr_Owner r)) (\<lambda>x. r\<lparr>rr_Owner := x\<rparr>)
       else if k = ''name'' then lift_field (json_string v (rr_Name r)) (\<lambda>x. r\<lparr>rr_Name := x\<rparr>)
       else Inr r) j \<lparr>rr_Owner = [], rr_Name = []\<rparr>"

definition unmarshal_repos :: "json \<Rightarrow> go_error + repo_ref list" where
  "unmarshal_repos j = json_list decode_repo_ref j"

section \<open>Lemmas\<close>

lemma unmarshal_marshal [simp]: "unmarshal_repos (marshal_repos rs) = Inr rs"
proof -
  have d: "decode_repo_ref (JObj [(''owner'', JStr (rr_Owner r)), (''name'', JStr (rr_Name r))]) = Inr r" for r
  proof -
    have "to_lower ''owner'' = ''owner''" "to_lower ''name'' = ''name''" by code_simp+
    then show ?thesis by (simp add: decode_repo_ref_def lift_field_def)
  qed
  have "json_elements decode_repo_ref
      (map (\<lambda>r. JObj [(''owner'', JStr (rr_Owner r)), (''name'', JStr (rr_Name r))]) rs) = Inr rs"
    by (induction rs) (simp_all add: d)
  then show ?thesis by (simp add: unmarshal_repos_def marshal_repos_def)
qed

lemma clean_loop_cases:
  "r \<in> set (cleanRepos_loop rs seen) \<Longrightarrow> rr_Owner r \<noteq> [] \<and> rr_Name r \<noteq> [] \<and>
     trim_space (rr_Owner r) = rr_Owner r \<and> trim_space (rr_Name r) = rr_Name r \<and>
     to_lower (Slug r) \<notin> set seen"
  by (induction rs seen rule: cleanRepos_loop.induct) (auto simp: Let_def split: if_splits)

lemma clean_loop_distinct: "distinct (map (\<lambda>r. to_lower (Slug r)) (cleanRepos_loop rs seen))"
proof (induction rs seen rule: cleanRepos_loop.induct)
  case (1 seen)
  then show ?case by simp
next
  case (2 repo rest seen)
  then show ?case by (auto simp: Let_def dest: clean_loop_cases)
qed

lemma next_run_after:
  assumes "cron_moves_on env" and "NextRun env expr tz now = Inr t" and "\<not> is_zero_time now"
  shows "t = zero_time \<or> now < t"
  using assms
  by (auto simp: NextRun_def ParseSchedule_def cron_moves_on_def Let_def split: sum.splits prod.splits if_splits)

end
