(* ===== verification/Jobs_Queries.thy ===== *)
theory Jobs_Queries
  imports Sql_Tables Jobs_Types "HOL-Library.Product_Lexorder"
begin

text \<open>
  The tables of scheduled jobs (db/migrations/20260603150000_agent_jobs and 20260624140000) and the
  queries of internal/db/sqlc/jobs.sql.go, one definition per query; \<open>now\<close> is NOW() in the statement.
  Text is ordered by its bytes, and rows that an ORDER BY leaves tied stay in table order.
\<close>

section \<open>Rows and state\<close>

record job_row =
  aj_id :: string
  aj_org_id :: string
  aj_name :: string
  aj_definition :: string
  aj_agent_slug :: string
  aj_primary_owner :: string
  aj_primary_repo :: string
  aj_additional_repos :: json
  aj_cron_schedule :: string
  aj_timezone :: string
  aj_enabled :: bool
  aj_next_run_at :: timestamptz
  aj_last_run_at :: timestamptz
  aj_last_run_id :: "string option"
  aj_last_error :: string
  aj_created_at :: timestamptz
  aj_updated_at :: timestamptz
  aj_model :: string

record execution_row =
  ae_id :: string
  ae_job_id :: string
  ae_org_id :: string
  ae_run_id :: "string option"
  ae_scheduled_for :: timestamptz
  ae_status :: string
  ae_claimed_by :: string
  ae_claimed_at :: timestamptz
  ae_finished_at :: timestamptz
  ae_error :: string
  ae_created_at :: timestamptz
  ae_updated_at :: timestamptz

text \<open>The columns of the installation and repository tables that the one query on them reads.\<close>

record installation_row =
  gi_installation_id :: int
  gi_org_id :: string
  gi_suspended_at :: timestamptz

record repo_row =
  gr_installation_id :: int
  gr_repo_id :: int
  gr_owner :: string
  gr_name :: string

record jobs_db =
  agent_jobs :: "job_row list"
  agent_job_executions :: "execution_row list"
  github_app_installations :: "installation_row list"
  github_repos :: "repo_row list"
  job_run_ids :: "string list"

section \<open>Constraints\<close>

text \<open>length(btrim(x)) > 0: some character is not a blank.\<close>

definition not_blank :: "string \<Rightarrow> bool" where
  "not_blank s \<longleftrightarrow> \<not> list_all (\<lambda>c. c = CHR '' '') s"

definition is_array :: "json \<Rightarrow> bool" where
  "is_array j = (case j of JArr js \<Rightarrow> True | _ \<Rightarrow> False)"

definition job_row_ok :: "job_row \<Rightarrow> bool" where
  "job_row_ok r \<longleftrightarrow> not_blank (aj_name r) \<and> not_blank (aj_definition r) \<and> not_blank (aj_primary_owner r) \<and>
     not_blank (aj_primary_repo r) \<and> is_array (aj_additional_repos r) \<and> not_blank (aj_cron_schedule r) \<and>
     not_blank (aj_timezone r) \<and> not_blank (aj_model r)"

definition job_constraints :: "(jobs_db, job_row) constraints" where
  "job_constraints =
    \<lparr>row_check = (\<lambda>r. if job_row_ok r then None else Some (CheckViolation ''agent_jobs'')),
     ref_check = (\<lambda>s r. None)\<rparr>"

definition execution_statuses :: "string list" where
  "execution_statuses = [''claimed'', ''running'', ''succeeded'', ''failed'', ''cancelled'']"

definition active :: "execution_row \<Rightarrow> bool" where
  "active e \<longleftrightarrow> ae_status e = ''claimed'' \<or> ae_status e = ''running''"

text \<open>
  An execution belongs to a job, and to a run if it names one; the unique index
  agent_job_executions_active_job_idx admits one active execution per job.
\<close>

definition execution_constraints :: "(jobs_db, execution_row) constraints" where
  "execution_constraints =
    \<lparr>row_check = (\<lambda>r. if ae_scheduled_for r = None then Some (CheckViolation ''not null scheduled_for'')
        else if ae_status r \<notin> set execution_statuses then Some (CheckViolation ''agent_job_executions'')
        else None),
     ref_check = (\<lambda>s r.
        if active r \<and> (\<exists>e \<in> set (agent_job_executions s). ae_id e \<noteq> ae_id r \<and> ae_job_id e = ae_job_id r \<and> active e)
        then Some (UniqueViolation ''agent_job_executions_active_job_idx'')
        else if \<not> (\<exists>j \<in> set (agent_jobs s). aj_id j = ae_job_id r)
        then Some (ForeignKeyViolation ''agent_job_executions_job_id_fkey'')
        else if (case ae_run_id r of None \<Rightarrow> False | Some i \<Rightarrow> i \<notin> set (job_run_ids s))
        then Some (ForeignKeyViolation ''agent_job_executions_run_id_fkey'')
        else None)\<rparr>"

interpretation jobs: keyed_table aj_id agent_jobs agent_jobs_update
  by unfold_locales simp

interpretation executions: keyed_table ae_id agent_job_executions agent_job_executions_update
  by unfold_locales simp

section \<open>Queries on jobs\<close>

definition CreateAgentJob :: "go_time \<Rightarrow> job_row \<Rightarrow> (jobs_db, job_row) go" where
  "CreateAgentJob now r0 =
     (let r = r0\<lparr>aj_last_run_at := None, aj_last_run_id := None, aj_last_error := [],
          aj_created_at := Some now, aj_updated_at := Some now\<rparr>
      in sql_insert agent_jobs agent_jobs_update job_constraints (\<lambda>x. aj_id x = aj_id r) r)"

definition DeleteAgentJob :: "string \<Rightarrow> string \<Rightarrow> (jobs_db, nat) go" where
  "DeleteAgentJob org jobID = (\<lambda>s.
     let gone = (\<lambda>r. aj_org_id r = org \<and> aj_id r = jobID);
         ids = map aj_id (filter gone (agent_jobs s))
     in (Inr (length ids), s\<lparr>agent_jobs := filter (\<lambda>r. \<not> gone r) (agent_jobs s),
          agent_job_executions := filter (\<lambda>e. ae_job_id e \<notin> set ids) (agent_job_executions s)\<rparr>))"

definition GetAgentJob :: "string \<Rightarrow> string \<Rightarrow> (jobs_db, job_row) go" where
  "GetAgentJob org jobID = sql_get agent_jobs (\<lambda>r. aj_org_id r = org \<and> aj_id r = jobID)"

text \<open>The row lock of FOR UPDATE is what serialises two claims of a job.\<close>

definition GetAgentJobForUpdate :: "string \<Rightarrow> string \<Rightarrow> (jobs_db, job_row) go" where
  "GetAgentJobForUpdate org jobID = sql_get agent_jobs (\<lambda>r. aj_org_id r = org \<and> aj_id r = jobID)"

definition ListAgentJobsByOrg :: "string \<Rightarrow> (jobs_db, job_row list) go" where
  "ListAgentJobsByOrg org = (\<lambda>s.
     (Inr (sort_key (\<lambda>r. (\<not> aj_enabled r, aj_next_run_at r = None, from_timestamptz (aj_next_run_at r),
         - from_timestamptz (aj_created_at r))) (filter (\<lambda>r. aj_org_id r = org) (agent_jobs s))), s))"

definition due :: "go_time \<Rightarrow> job_row \<Rightarrow> bool" where
  "due now r \<longleftrightarrow> aj_enabled r \<and> (case aj_next_run_at r of None \<Rightarrow> False | Some t \<Rightarrow> t \<le> now)"

definition due_key :: "job_row \<Rightarrow> go_time \<times> string" where
  "due_key r = (from_timestamptz (aj_next_run_at r), aj_id r)"

text \<open>ROW_NUMBER over the due jobs of the organisation, those with an active execution included.\<close>

definition org_rank :: "go_time \<Rightarrow> jobs_db \<Rightarrow> job_row \<Rightarrow> nat" where
  "org_rank now s r =
     Suc (length (filter (\<lambda>x. due now x \<and> aj_org_id x = aj_org_id r \<and> due_key x < due_key r) (agent_jobs s)))"

definition HasActiveAgentJobExecution :: "string \<Rightarrow> (jobs_db, bool) go" where
  "HasActiveAgentJobExecution jobID = (\<lambda>s.
     (Inr (list_ex (\<lambda>e. ae_job_id e = jobID \<and> active e) (agent_job_executions s)), s))"

text \<open>FOR UPDATE ... SKIP LOCKED: \<open>locked\<close> are the jobs whose rows another transaction holds at
  that moment. They count for the ranks and are left out of the answer before the limit is applied.\<close>

definition ListClaimableDueAgentJobs :: "string list \<Rightarrow> go_time \<Rightarrow> int \<Rightarrow> (jobs_db, job_row list) go" where
  "ListClaimableDueAgentJobs locked nowAt limit = (\<lambda>s.
     (Inr (take (nat limit) (sort_key (\<lambda>r. (org_rank nowAt s r, due_key r))
        (filter (\<lambda>r. due nowAt r \<and> aj_id r \<notin> set locked \<and>
            \<not> list_ex (\<lambda>e. ae_job_id e = aj_id r \<and> active e) (agent_job_executions s))
          (agent_jobs s)))), s))"

definition UpdateAgentJob :: "go_time \<Rightarrow> job_row \<Rightarrow> (jobs_db, job_row) go" where
  "UpdateAgentJob now arg = sql_update agent_jobs agent_jobs_update job_constraints
     (\<lambda>r. aj_org_id r = aj_org_id arg \<and> aj_id r = aj_id arg)
     (\<lambda>r. r\<lparr>aj_name := aj_name arg, aj_definition := aj_definition arg, aj_agent_slug := aj_agent_slug arg,
        aj_primary_owner := aj_primary_owner arg, aj_primary_repo := aj_primary_repo arg,
        aj_additional_repos := aj_additional_repos arg, aj_cron_schedule := aj_cron_schedule arg,
        aj_timezone := aj_timezone arg, aj_enabled := aj_enabled arg, aj_next_run_at := aj_next_run_at arg,
        aj_model := aj_model arg, aj_updated_at := Some now\<rparr>)"

definition UpdateAgentJobLastRun ::
  "go_time \<Rightarrow> string \<Rightarrow> timestamptz \<Rightarrow> string option \<Rightarrow> string \<Rightarrow> (jobs_db, nat) go" where
  "UpdateAgentJobLastRun now jobID lastRunAt lastRunID lastError =
     sql_update_all agent_jobs agent_jobs_update job_constraints (\<lambda>r. aj_id r = jobID)
       (\<lambda>r. r\<lparr>aj_last_run_at := lastRunAt, aj_last_run_id := lastRunID, aj_last_error := lastError,
          aj_updated_at := Some now\<rparr>)"

definition UpdateAgentJobNextRun :: "go_time \<Rightarrow> string \<Rightarrow> timestamptz \<Rightarrow> (jobs_db, nat) go" where
  "UpdateAgentJobNextRun now jobID nextRunAt =
     sql_update_all agent_jobs agent_jobs_update job_constraints (\<lambda>r. aj_id r = jobID)
       (\<lambda>r. r\<lparr>aj_next_run_at := nextRunAt, aj_updated_at := Some now\<rparr>)"

section \<open>Queries on executions\<close>

definition CreateAgentJobExecution ::
  "go_time \<Rightarrow> string \<Rightarrow> string \<Rightarrow> string \<Rightarrow> timestamptz \<Rightarrow> string \<Rightarrow> (jobs_db, execution_row) go" where
  "CreateAgentJobExecution now i jobID org scheduledFor claimedBy =
     sql_insert agent_job_executions agent_job_executions_update execution_constraints (\<lambda>x. ae_id x = i)
       \<lparr>ae_id = i, ae_job_id = jobID, ae_org_id = org, ae_run_id = None, ae_scheduled_for = scheduledFor,
        ae_status = ''claimed'', ae_claimed_by = claimedBy, ae_claimed_at = Some now, ae_finished_at = None,
        ae_error = [], ae_created_at = Some now, ae_updated_at = Some now\<rparr>"

definition GetAgentJobExecution :: "string \<Rightarrow> string \<Rightarrow> (jobs_db, execution_row) go" where
  "GetAgentJobExecution org i = sql_get agent_job_executions (\<lambda>r. ae_org_id r = org \<and> ae_id r = i)"

definition executions_desc :: "execution_row \<Rightarrow> go_time" where
  "executions_desc r = - from_timestamptz (ae_created_at r)"

definition GetLatestAgentJobExecution :: "string \<Rightarrow> string \<Rightarrow> (jobs_db, execution_row) go" where
  "GetLatestAgentJobExecution org jobID = (\<lambda>s.
     case sort_key executions_desc (filter (\<lambda>r. ae_org_id r = org \<and> ae_job_id r = jobID) (agent_job_executions s)) of
       [] \<Rightarrow> (Inl ErrNoRows, s)
     | r # rs \<Rightarrow> (Inr r, s))"

definition ListAgentJobExecutionsByJob :: "string \<Rightarrow> string \<Rightarrow> int \<Rightarrow> (jobs_db, execution_row list) go" where
  "ListAgentJobExecutionsByJob org jobID limit = (\<lambda>s.
     (Inr (take (nat limit) (sort_key executions_desc
       (filter (\<lambda>r. ae_org_id r = org \<and> ae_job_id r = jobID) (agent_job_executions s)))), s))"

text \<open>DISTINCT ON keeps the first row of each job in the order by creation time and id, descending.\<close>

definition ListLatestAgentJobExecutionsByOrg :: "string \<Rightarrow> (jobs_db, execution_row list) go" where
  "ListLatestAgentJobExecutionsByOrg org = (\<lambda>s.
     (Inr (sort_key ae_job_id (filter (\<lambda>r. ae_org_id r = org \<and>
        \<not> list_ex (\<lambda>x. ae_org_id x = org \<and> ae_job_id x = ae_job_id r \<and>
            (from_timestamptz (ae_created_at r), ae_id r) < (from_timestamptz (ae_created_at x), ae_id x))
          (agent_job_executions s)) (agent_job_executions s))), s))"

definition MarkAgentJobExecutionFinished ::
  "go_time \<Rightarrow> string \<Rightarrow> string \<Rightarrow> string \<Rightarrow> string \<Rightarrow> (jobs_db, nat) go" where
  "MarkAgentJobExecutionFinished now org i status message =
     sql_update_all agent_job_executions agent_job_executions_update execution_constraints
       (\<lambda>r. ae_org_id r = org \<and> ae_id r = i \<and> active r)
       (\<lambda>r. r\<lparr>ae_status := status, ae_finished_at := Some now, ae_error := message, ae_updated_at := Some now\<rparr>)"

definition MarkAgentJobExecutionRunning ::
  "go_time \<Rightarrow> string \<Rightarrow> string \<Rightarrow> string option \<Rightarrow> (jobs_db, nat) go" where
  "MarkAgentJobExecutionRunning now org i runID =
     sql_update_all agent_job_executions agent_job_executions_update execution_constraints
       (\<lambda>r. ae_org_id r = org \<and> ae_id r = i \<and> active r)
       (\<lambda>r. r\<lparr>ae_status := ''running'', ae_run_id := (if runID = None then ae_run_id r else runID),
          ae_updated_at := Some now\<rparr>)"

definition stale :: "go_time \<Rightarrow> duration \<Rightarrow> execution_row \<Rightarrow> bool" where
  "stale now staleAfter r \<longleftrightarrow> (case ae_claimed_at r of None \<Rightarrow> False | Some t \<Rightarrow> t < now - staleAfter)"

definition ReleaseStaleClaimedAgentJobExecutions :: "go_time \<Rightarrow> duration \<Rightarrow> (jobs_db, nat) go" where
  "ReleaseStaleClaimedAgentJobExecutions now staleAfter =
     sql_update_all agent_job_executions agent_job_executions_update execution_constraints
       (\<lambda>r. ae_status r = ''claimed'' \<and> stale now staleAfter r)
       (\<lambda>r. r\<lparr>ae_status := ''failed'', ae_finished_at := Some now, ae_error := ''job dispatch claim timed out'',
          ae_updated_at := Some now\<rparr>)"

definition ReleaseStaleRunningAgentJobExecutions :: "go_time \<Rightarrow> duration \<Rightarrow> (jobs_db, nat) go" where
  "ReleaseStaleRunningAgentJobExecutions now staleAfter =
     sql_update_all agent_job_executions agent_job_executions_update execution_constraints
       (\<lambda>r. ae_status r = ''running'' \<and> stale now staleAfter r)
       (\<lambda>r. r\<lparr>ae_status := ''failed'', ae_finished_at := Some now, ae_error := ''job execution timed out'',
          ae_updated_at := Some now\<rparr>)"

section \<open>The query on repositories\<close>

definition GetGithubRepoForOrg :: "string \<Rightarrow> string \<Rightarrow> string \<Rightarrow> (jobs_db, repo_row) go" where
  "GetGithubRepoForOrg org owner name = (\<lambda>s.
     case sort_key gr_installation_id (filter (\<lambda>r. gr_owner r = owner \<and> gr_name r = name \<and>
         list_ex (\<lambda>i. gi_installation_id i = gr_installation_id r \<and> gi_org_id i = org \<and> gi_suspended_at i = None)
           (github_app_installations s)) (github_repos s)) of
       [] \<Rightarrow> (Inl ErrNoRows, s)
     | r # rs \<Rightarrow> (Inr r, s))"

end
