(* ===== verification/Jobs_Store.thy ===== *)
theory Jobs_Store
  imports Jobs_Queries
begin

text \<open>
  The store of internal/jobs/jobs.go. \<open>en\<close> is whether it has a database, \<open>sqlnow\<close> the value of NOW()
  in its statements, \<open>now\<close> the time its caller passes, \<open>rnd\<close> the random bytes of the new ids in the
  order they are drawn. \<open>agents\<close> is the lookup of an agent in the agents store (None for a nil
  store): the error it answers with, if any.
\<close>

type_synonym agent_lookup = "(string \<Rightarrow> string \<Rightarrow> go_error option) option"

definition AgentNotFound :: go_error where "AgentNotFound = ErrNew ''agents: not found''"

definition not_configured :: "(jobs_db, 'a) go" where
  "not_configured = fail ErrNotConfigured"

section \<open>Rows to values\<close>

definition jobFromRow :: "job_row \<Rightarrow> go_error + job" where
  "jobFromRow row =
     (case unmarshal_repos (aj_additional_repos row) of
        Inl e \<Rightarrow> Inl (Wrapped (''decode additional repos for job '' @ aj_id row) e)
      | Inr additional \<Rightarrow> Inr
          \<lparr>job_ID = aj_id row, job_OrgID = aj_org_id row, job_Name = aj_name row,
           job_Definition = aj_definition row, job_AgentSlug = aj_agent_slug row,
           job_PrimaryOwner = aj_primary_owner row, job_PrimaryRepo = aj_primary_repo row,
           job_AdditionalRepos = additional, job_CronSchedule = aj_cron_schedule row,
           job_Timezone = aj_timezone row, job_Model = aj_model row, job_Enabled = aj_enabled row,
           job_NextRunAt = from_timestamptz (aj_next_run_at row),
           job_LastRunAt = from_timestamptz (aj_last_run_at row),
           job_LastRunID = (case aj_last_run_id row of None \<Rightarrow> [] | Some i \<Rightarrow> i),
           job_LastError = aj_last_error row, job_CreatedAt = from_timestamptz (aj_created_at row),
           job_UpdatedAt = from_timestamptz (aj_updated_at row), job_LastExecutionID = [],
           job_LastExecutionStatus = []\<rparr>)"

definition executionFromRow :: "execution_row \<Rightarrow> execution" where
  "executionFromRow row =
     \<lparr>ex_ID = ae_id row, ex_JobID = ae_job_id row, ex_OrgID = ae_org_id row,
      ex_RunID = (case ae_run_id row of None \<Rightarrow> [] | Some i \<Rightarrow> i),
      ex_ScheduledFor = from_timestamptz (ae_scheduled_for row), ex_Status = ae_status row,
      ex_ClaimedBy = ae_claimed_by row, ex_ClaimedAt = from_timestamptz (ae_claimed_at row),
      ex_FinishedAt = from_timestamptz (ae_finished_at row), ex_Error = ae_error row,
      ex_CreatedAt = from_timestamptz (ae_created_at row), ex_UpdatedAt = from_timestamptz (ae_updated_at row)\<rparr>"

section \<open>Validation\<close>

definition cleanInput :: "job_input \<Rightarrow> job_input" where
  "cleanInput input =
     \<lparr>ji_Name = trim_space (ji_Name input), ji_Definition = trim_space (ji_Definition input),
      ji_AgentSlug = NormalizeSlug (ji_AgentSlug input),
      ji_PrimaryOwner = trim_space (ji_PrimaryOwner input), ji_PrimaryRepo = trim_space (ji_PrimaryRepo input),
      ji_AdditionalRepos = cleanRepos (ji_AdditionalRepos input),
      ji_CronSchedule = trim_space (ji_CronSchedule input),
      ji_Timezone = (let tz = trim_space (ji_Timezone input) in if tz = [] then defaultLocation else tz),
      ji_Model = (let m = to_lower (trim_space (ji_Model input)) in if m = [] then DefaultModel else m),
      ji_Enabled = ji_Enabled input\<rparr>"

definition slug_of :: "string \<Rightarrow> string \<Rightarrow> string" where
  "slug_of owner repo = owner @ ''/'' @ repo"

fun validateAdditional ::
  "string \<Rightarrow> job_input \<Rightarrow> repo_row \<Rightarrow> repo_ref list \<Rightarrow> (jobs_db, unit) go" where
  "validateAdditional org input primary [] = ret ()"
| "validateAdditional org input primary (repo # rest) =
     attempt (GetGithubRepoForOrg org (rr_Owner repo) (rr_Name repo)) (\<lambda>r. case r of
       Inl e \<Rightarrow>
         if err_is e ErrNoRows
         then fail (invalidInput (ErrNew (''additional repository '' @ slug_of (rr_Owner repo) (rr_Name repo) @
           '' is not accessible to this organization'')))
         else fail (Wrapped (''validate additional repository '' @ slug_of (rr_Owner repo) (rr_Name repo)) e)
     | Inr row \<Rightarrow>
         if gr_installation_id row \<noteq> gr_installation_id primary
         then fail (invalidInput (ErrNew (''additional repository '' @ slug_of (rr_Owner repo) (rr_Name repo) @
           '' is under a different GitHub App installation; V1 jobs only support repositories from the same installation as '' @
           slug_of (ji_PrimaryOwner input) (ji_PrimaryRepo input))))
         else validateAdditional org input primary rest)"

definition validateRepos :: "string \<Rightarrow> job_input \<Rightarrow> (jobs_db, unit) go" where
  "validateRepos org input =
     attempt (GetGithubRepoForOrg org (ji_PrimaryOwner input) (ji_PrimaryRepo input)) (\<lambda>r. case r of
       Inl e \<Rightarrow>
         if err_is e ErrNoRows
         then fail (invalidInput (ErrNew (''primary repository '' @
           slug_of (ji_PrimaryOwner input) (ji_PrimaryRepo input) @ '' is not accessible to this organization'')))
         else fail (Wrapped ''validate primary repository'' e)
     | Inr primary \<Rightarrow> validateAdditional org input primary (ji_AdditionalRepos input))"

definition checkAgent :: "agent_lookup \<Rightarrow> string \<Rightarrow> string \<Rightarrow> (jobs_db, unit) go" where
  "checkAgent agents org slug =
     (case agents of
        None \<Rightarrow> ret ()
      | Some getBySlug \<Rightarrow>
          if slug = [] then ret ()
          else (case getBySlug org slug of
              None \<Rightarrow> ret ()
            | Some e \<Rightarrow>
                if err_is e AgentNotFound
                then fail (invalidInput (ErrNew (''agent \"'' @ slug @ ''\" is not enabled for this org'')))
                else fail (Wrapped (''load agent \"'' @ slug @ ''\"'') e)))"

definition validateInput ::
  "'l cron_env \<Rightarrow> agent_lookup \<Rightarrow> string \<Rightarrow> job_input \<Rightarrow> (jobs_db, job_input) go" where
  "validateInput env agents org input =
     (let out = cleanInput input in
      if ji_Model out \<notin> set validJobModels
      then fail (invalidInput (ErrNew (''model \"'' @ ji_Model out @ ''\" is not supported'')))
      else if ji_Name out = [] then fail (invalidInput (ErrNew ''job name is required''))
      else if ji_Definition out = [] then fail (invalidInput (ErrNew ''job definition is required''))
      else if ji_PrimaryOwner out = [] \<or> ji_PrimaryRepo out = []
      then fail (invalidInput (ErrNew ''primary repository is required''))
      else case ParseSchedule env (ji_CronSchedule out) (ji_Timezone out) of
        Inl e \<Rightarrow> fail (invalidInput e)
      | Inr parsed \<Rightarrow>
          andthen (checkAgent agents org (ji_AgentSlug out)) (\<lambda>_.
            andthen (validateRepos org out) (\<lambda>_. ret out)))"

section \<open>Jobs\<close>

definition nextOfInput :: "'l cron_env \<Rightarrow> job_input \<Rightarrow> go_time \<Rightarrow> go_error + go_time" where
  "nextOfInput env clean now =
     (if ji_Enabled clean then NextRun env (ji_CronSchedule clean) (ji_Timezone clean) now else Inr zero_time)"

text \<open>The columns that CreateAgentJobParams and UpdateAgentJobParams carry.\<close>

definition jobParams :: "string \<Rightarrow> string \<Rightarrow> job_input \<Rightarrow> go_time \<Rightarrow> job_row" where
  "jobParams i org clean next =
     \<lparr>aj_id = i, aj_org_id = org, aj_name = ji_Name clean, aj_definition = ji_Definition clean,
      aj_agent_slug = ji_AgentSlug clean, aj_primary_owner = ji_PrimaryOwner clean,
      aj_primary_repo = ji_PrimaryRepo clean, aj_additional_repos = marshal_repos (ji_AdditionalRepos clean),
      aj_cron_schedule = ji_CronSchedule clean, aj_timezone = ji_Timezone clean,
      aj_enabled = ji_Enabled clean, aj_next_run_at = timeParam next, aj_last_run_at = None,
      aj_last_run_id = None, aj_last_error = [], aj_created_at = None, aj_updated_at = None,
      aj_model = ji_Model clean\<rparr>"

definition Create ::
  "bool \<Rightarrow> 'l cron_env \<Rightarrow> agent_lookup \<Rightarrow> nat list \<Rightarrow> go_time \<Rightarrow> string \<Rightarrow> job_input \<Rightarrow> go_time \<Rightarrow> (jobs_db, job) go" where
  "Create en env agents rnd sqlnow org input now =
     (if \<not> en then not_configured
      else andthen (validateInput env agents org input) (\<lambda>clean.
        andthen (lift_result (nextOfInput env clean now)) (\<lambda>next.
          andthen (wrap_err ''create job'' (CreateAgentJob sqlnow (jobParams (newID ''job'' rnd) org clean next)))
            (\<lambda>row. lift_result (jobFromRow row)))))"

definition Update ::
  "bool \<Rightarrow> 'l cron_env \<Rightarrow> agent_lookup \<Rightarrow> go_time \<Rightarrow> string \<Rightarrow> string \<Rightarrow> job_input \<Rightarrow> go_time \<Rightarrow> (jobs_db, job) go" where
  "Update en env agents sqlnow org jobID input now =
     (if \<not> en then not_configured
      else andthen (validateInput env agents org input) (\<lambda>clean.
        andthen (lift_result (nextOfInput env clean now)) (\<lambda>next.
          attempt (UpdateAgentJob sqlnow (jobParams jobID org clean next)) (\<lambda>r. case r of
            Inl e \<Rightarrow> if err_is e ErrNoRows then fail ErrNotFound else fail (Wrapped ''update job'' e)
          | Inr row \<Rightarrow> lift_result (jobFromRow row)))))"

definition Get :: "bool \<Rightarrow> string \<Rightarrow> string \<Rightarrow> (jobs_db, job) go" where
  "Get en org jobID =
     (if \<not> en then not_configured
      else attempt (GetAgentJob org jobID) (\<lambda>r. case r of
        Inl e \<Rightarrow> if err_is e ErrNoRows then fail ErrNotFound else fail e
      | Inr row \<Rightarrow> lift_result (jobFromRow row)))"

text \<open>The loop of List; of two latest rows of a job the later one in the list wins.\<close>

fun listJobs :: "(string \<rightharpoonup> execution_row) \<Rightarrow> job_row list \<Rightarrow> go_error + job list" where
  "listJobs latest [] = Inr []"
| "listJobs latest (row # rows) =
     (case jobFromRow row of
        Inl e \<Rightarrow> Inl e
      | Inr j0 \<Rightarrow>
          let j = (case latest (job_ID j0) of
                None \<Rightarrow> j0
              | Some l \<Rightarrow> j0\<lparr>job_LastExecutionID := ae_id l, job_LastExecutionStatus := ae_status l\<rparr>)
          in (case listJobs latest rows of Inl e \<Rightarrow> Inl e | Inr js \<Rightarrow> Inr (j # js)))"

definition List_jobs :: "bool \<Rightarrow> string \<Rightarrow> (jobs_db, job list) go" where
  "List_jobs en org =
     (if \<not> en then not_configured
      else andthen (wrap_err ''list jobs'' (ListAgentJobsByOrg org)) (\<lambda>rows.
        andthen (wrap_err ''list latest job executions'' (ListLatestAgentJobExecutionsByOrg org)) (\<lambda>latestRows.
          lift_result (listJobs (map_of (rev (map (\<lambda>e. (ae_job_id e, e)) latestRows))) rows))))"

definition Delete :: "bool \<Rightarrow> string \<Rightarrow> string \<Rightarrow> (jobs_db, unit) go" where
  "Delete en org jobID =
     (if \<not> en then not_configured
      else andthen (wrap_err ''delete job'' (DeleteAgentJob org jobID)) (\<lambda>n.
        if n = 0 then fail ErrNotFound else ret ()))"

section \<open>Claims\<close>

fun claimRows ::
  "'l cron_env \<Rightarrow> (nat \<Rightarrow> nat list) \<Rightarrow> go_time \<Rightarrow> string \<Rightarrow> go_time \<Rightarrow> nat \<Rightarrow> job_row list \<Rightarrow>
   (jobs_db, claimed_execution list) go" where
  "claimRows env rnd sqlnow worker now i [] = ret []"
| "claimRows env rnd sqlnow worker now i (row # rows) =
     andthen (lift_result (jobFromRow row)) (\<lambda>job.
       let scheduledFor = (if is_zero_time (job_NextRunAt job) then now else job_NextRunAt job) in
       andthen (wrap_err (''next run for job '' @ job_ID job)
           (lift_result (NextRun env (job_CronSchedule job) (job_Timezone job) now))) (\<lambda>next.
         andthen (wrap_err (''create execution for job '' @ job_ID job)
             (CreateAgentJobExecution sqlnow (newID ''jobexec'' (rnd i)) (job_ID job) (job_OrgID job)
               (timeParam scheduledFor) worker)) (\<lambda>execRow.
           andthen (wrap_err (''update next run for job '' @ job_ID job)
               (UpdateAgentJobNextRun sqlnow (job_ID job) (timeParam next))) (\<lambda>_.
             andthen (claimRows env rnd sqlnow worker now (Suc i) rows) (\<lambda>rest.
               ret (\<lparr>ce_Job = job\<lparr>job_NextRunAt := next\<rparr>, ce_Execution = executionFromRow execRow\<rparr> # rest))))))"

definition claimDueTx ::
  "'l cron_env \<Rightarrow> string list \<Rightarrow> (nat \<Rightarrow> nat list) \<Rightarrow> go_time \<Rightarrow> string \<Rightarrow> int \<Rightarrow> go_time \<Rightarrow>
   (jobs_db, claimed_execution list) go" where
  "claimDueTx env locked rnd sqlnow worker limit now =
     andthen (wrap_err ''list due jobs'' (ListClaimableDueAgentJobs locked now limit))
       (claimRows env rnd sqlnow worker now 0)"

definition releaseStale :: "go_time \<Rightarrow> duration \<Rightarrow> (jobs_db, unit) go" where
  "releaseStale sqlnow staleAfter =
     (if 0 < staleAfter then
        andthen (wrap_err ''release stale job executions''
            (ReleaseStaleClaimedAgentJobExecutions sqlnow (interval staleAfter))) (\<lambda>_.
          andthen (wrap_err ''release stale running job executions''
              (ReleaseStaleRunningAgentJobExecutions sqlnow (interval (runningExecutionStaleAfter staleAfter))))
            (\<lambda>_. ret ()))
      else ret ())"

definition ClaimDue ::
  "bool \<Rightarrow> 'l cron_env \<Rightarrow> string list \<Rightarrow> (nat \<Rightarrow> nat list) \<Rightarrow> go_time \<Rightarrow> string \<Rightarrow> int \<Rightarrow> go_time \<Rightarrow> duration \<Rightarrow>
   (jobs_db, claimed_execution list) go" where
  "ClaimDue en env locked rnd sqlnow worker limit now staleAfter =
     (if \<not> en then not_configured
      else if limit \<le> 0 then ret []
      else andthen (releaseStale sqlnow staleAfter)
        (\<lambda>_. with_tx (claimDueTx env locked rnd sqlnow worker limit now)))"

definition runNowTx ::
  "nat list \<Rightarrow> go_time \<Rightarrow> string \<Rightarrow> string \<Rightarrow> string \<Rightarrow> go_time \<Rightarrow> (jobs_db, claimed_execution) go" where
  "runNowTx rnd sqlnow org jobID worker now =
     attempt (GetAgentJobForUpdate org jobID) (\<lambda>r. case r of
       Inl e \<Rightarrow> if err_is e ErrNoRows then fail ErrNotFound else fail (Wrapped ''get job for run now'' e)
     | Inr row \<Rightarrow>
         andthen (wrap_err ''check active execution'' (HasActiveAgentJobExecution (aj_id row))) (\<lambda>isActive.
           if isActive then fail ErrOverlap
           else andthen (wrap_err ''create manual execution''
               (CreateAgentJobExecution sqlnow (newID ''jobexec'' rnd) (aj_id row) (aj_org_id row) (timeParam now) worker))
             (\<lambda>execRow. andthen (lift_result (jobFromRow row)) (\<lambda>job.
               ret \<lparr>ce_Job = job, ce_Execution = executionFromRow execRow\<rparr>))))"

definition RunNow ::
  "bool \<Rightarrow> nat list \<Rightarrow> go_time \<Rightarrow> string \<Rightarrow> string \<Rightarrow> string \<Rightarrow> go_time \<Rightarrow> (jobs_db, claimed_execution) go" where
  "RunNow en rnd sqlnow org jobID worker now =
     (if \<not> en then not_configured else with_tx (runNowTx rnd sqlnow org jobID worker now))"

section \<open>Executions\<close>

definition MarkRunning :: "bool \<Rightarrow> go_time \<Rightarrow> string \<Rightarrow> string \<Rightarrow> string option \<Rightarrow> (jobs_db, unit) go" where
  "MarkRunning en sqlnow org executionID runID =
     (if \<not> en then not_configured
      else andthen (wrap_err ''mark execution running'' (MarkAgentJobExecutionRunning sqlnow org executionID runID))
        (\<lambda>n. if n = 0 then fail ErrNotFound else ret ()))"

definition finishExecutionTx ::
  "go_time \<Rightarrow> string \<Rightarrow> string \<Rightarrow> string \<Rightarrow> string \<Rightarrow> (jobs_db, unit) go" where
  "finishExecutionTx sqlnow org executionID status message =
     attempt (GetAgentJobExecution org executionID) (\<lambda>r. case r of
       Inl e \<Rightarrow> if err_is e ErrNoRows then fail ErrNotFound else fail (Wrapped ''get execution'' e)
     | Inr execRow \<Rightarrow>
         andthen (wrap_err ''mark execution finished''
             (MarkAgentJobExecutionFinished sqlnow org executionID status message)) (\<lambda>n.
           if n = 0 then fail ErrNotFound
           else
             let runID = (case ae_run_id execRow of None \<Rightarrow> [] | Some i \<Rightarrow> i)
             in andthen (wrap_err ''update job last run'' (UpdateAgentJobLastRun sqlnow (ae_job_id execRow)
                  (ae_scheduled_for execRow) (stringPtrParam runID) message)) (\<lambda>_. ret ())))"

definition FinishExecution ::
  "bool \<Rightarrow> go_time \<Rightarrow> string \<Rightarrow> string \<Rightarrow> string \<Rightarrow> string \<Rightarrow> (jobs_db, unit) go" where
  "FinishExecution en sqlnow org executionID status message =
     (if \<not> en then not_configured
      else if \<not> terminalExecutionStatus status
      then fail (ErrNew (''invalid terminal job status \"'' @ status @ ''\"''))
      else with_tx (finishExecutionTx sqlnow org executionID status (trim_space message)))"

end
