(* ===== verification/Jobs_Invariant.thy ===== *)
theory Jobs_Invariant
  imports Jobs_Store
begin

text \<open>
  What every operation of the job store keeps: keys are distinct, rows satisfy their constraints, the
  additional repositories of a job decode, an execution is finished exactly if its status is final
  and belongs to a job of its organisation, and a job has at most one active execution.
\<close>

definition job_inv :: "job_row \<Rightarrow> bool" where
  "job_inv r \<longleftrightarrow> job_row_ok r \<and> (\<exists>rs. aj_additional_repos r = marshal_repos rs)"

definition execution_inv :: "execution_row \<Rightarrow> bool" where
  "execution_inv e \<longleftrightarrow> ae_scheduled_for e \<noteq> None \<and> ae_status e \<in> set execution_statuses \<and>
     (active e \<longleftrightarrow> ae_finished_at e = None)"

definition owned :: "job_row list \<Rightarrow> execution_row \<Rightarrow> bool" where
  "owned js e \<longleftrightarrow> (ae_job_id e, ae_org_id e) \<in> set (map (\<lambda>j. (aj_id j, aj_org_id j)) js)"

definition one_active :: "execution_row list \<Rightarrow> bool" where
  "one_active es \<longleftrightarrow> (\<forall>e \<in> set es. \<forall>f \<in> set es. active e \<longrightarrow> active f \<longrightarrow> ae_job_id e = ae_job_id f \<longrightarrow> e = f)"

definition jobs_ok :: "jobs_db \<Rightarrow> bool" where
  "jobs_ok s \<longleftrightarrow> table_inv aj_id job_inv (agent_jobs s) \<and> table_inv ae_id execution_inv (agent_job_executions s) \<and>
     (\<forall>e \<in> set (agent_job_executions s). owned (agent_jobs s) e) \<and> one_active (agent_job_executions s)"

lemma check_job [simp]: "check_row job_constraints s r = None \<longleftrightarrow> job_row_ok r"
  by (simp add: check_row_None job_constraints_def)

lemma check_execution:
  "check_row execution_constraints s r = None \<longleftrightarrow>
     ae_scheduled_for r \<noteq> None \<and> ae_status r \<in> set execution_statuses \<and>
     (active r \<longrightarrow> (\<forall>e \<in> set (agent_job_executions s). ae_job_id e = ae_job_id r \<longrightarrow> active e \<longrightarrow> ae_id e = ae_id r)) \<and>
     (\<exists>j \<in> set (agent_jobs s). aj_id j = ae_job_id r) \<and>
     (\<forall>i. ae_run_id r = Some i \<longrightarrow> i \<in> set (job_run_ids s))"
  by (auto simp: check_row_None execution_constraints_def split: option.splits)

lemma distinct_keyD:
  "distinct (map key t) \<Longrightarrow> x \<in> set t \<Longrightarrow> y \<in> set t \<Longrightarrow> key x = key y \<Longrightarrow> x = y"
  by (induction t) (auto simp: image_iff)

section \<open>Writes to jobs\<close>

text \<open>Two lists of jobs with the same keys own the same executions.\<close>

lemma owned_keys:
  "map (\<lambda>j. (aj_id j, aj_org_id j)) js = map (\<lambda>j. (aj_id j, aj_org_id j)) js' \<Longrightarrow> owned js e = owned js' e"
  by (simp add: owned_def)

lemma owned_mono: "set js \<subseteq> set js' \<Longrightarrow> owned js e \<Longrightarrow> owned js' e"
  unfolding owned_def set_map by blast

lemma replace_keys:
  assumes "distinct (map aj_id js)" and "find (\<lambda>r. aj_org_id r = org \<and> aj_id r = i) js = Some r"
    and "aj_id r' = aj_id r" and "aj_org_id r' = aj_org_id r"
  shows "map (\<lambda>j. (aj_id j, aj_org_id j)) (replace_rows (\<lambda>r. aj_org_id r = org \<and> aj_id r = i) r' js) =
    map (\<lambda>j. (aj_id j, aj_org_id j)) js"
  using assms find_SomeD [OF assms(2)] by (auto simp: replace_rows_def)

lemma keeps_job_write:
  assumes ok: "jobs_ok s" and keys: "map (\<lambda>j. (aj_id j, aj_org_id j)) js = map (\<lambda>j. (aj_id j, aj_org_id j)) (agent_jobs s)"
    and inv: "\<forall>r \<in> set js. job_inv r"
    and t: "agent_jobs t = js" "agent_job_executions t = agent_job_executions s"
  shows "jobs_ok t"
proof -
  have "map aj_id js = map fst (map (\<lambda>j. (aj_id j, aj_org_id j)) js)" by simp
  also have "\<dots> = map aj_id (agent_jobs s)" unfolding keys by simp
  finally have "distinct (map aj_id js)" using ok by (simp add: jobs_ok_def table_inv_def)
  with ok inv show ?thesis by (simp add: jobs_ok_def table_inv_def t owned_keys [OF keys])
qed

lemma keeps_create_job:
  assumes "\<exists>rs. aj_additional_repos r = marshal_repos rs"
  shows "keeps_inv jobs_ok (CreateAgentJob now r)"
proof (rule keeps_invI)
  fix s res t assume ok: "jobs_ok s" and run: "CreateAgentJob now r s = (res, t)"
  let ?r = "r\<lparr>aj_last_run_at := None, aj_last_run_id := None, aj_last_error := [],
    aj_created_at := Some now, aj_updated_at := Some now\<rparr>"
  have run': "sql_insert agent_jobs agent_jobs_update job_constraints (\<lambda>x. aj_id x = aj_id ?r) ?r s = (res, t)"
    using run by (simp add: CreateAgentJob_def)
  have "table_inv aj_id job_inv (agent_jobs t)"
    by (rule jobs.table_inv_insert [OF _ _ run']) (use ok assms in \<open>auto simp: jobs_ok_def job_inv_def\<close>)
  moreover have "agent_job_executions t = agent_job_executions s" "set (agent_jobs s) \<subseteq> set (agent_jobs t)"
    using run' by (auto simp: sql_insert_def split: option.splits)
  ultimately show "jobs_ok t"
    using ok by (auto simp: jobs_ok_def intro: owned_mono)
qed

lemma keeps_update_job:
  assumes "\<exists>rs. aj_additional_repos r = marshal_repos rs"
  shows "keeps_inv jobs_ok (UpdateAgentJob now r)"
proof (rule keeps_invI)
  fix s res t assume ok: "jobs_ok s" and run: "UpdateAgentJob now r s = (res, t)"
  from run show "jobs_ok t" unfolding UpdateAgentJob_def
  proof (cases rule: jobs.update_cases)
    case (unchanged e)
    with ok show ?thesis by simp
  next
    case (written x)
    from find_SomeD [OF written(1)] have x: "x \<in> set (agent_jobs s)" by simp
    show ?thesis
    proof (rule keeps_job_write [OF ok])
      show "map (\<lambda>j. (aj_id j, aj_org_id j)) (agent_jobs t) = map (\<lambda>j. (aj_id j, aj_org_id j)) (agent_jobs s)"
        using replace_keys [OF _ written(1)] ok by (simp add: written(4) jobs_ok_def table_inv_def)
      show "\<forall>j \<in> set (agent_jobs t). job_inv j"
        using written(2) ok x assms
        by (auto simp: written(4) replace_rows_def jobs_ok_def table_inv_def job_inv_def)
    qed (simp_all add: written(4))
  qed
qed

lemma keeps_jobs_update_all:
  assumes "\<And>r. aj_id (f r) = aj_id r \<and> aj_org_id (f r) = aj_org_id r \<and> aj_additional_repos (f r) = aj_additional_repos r"
  shows "keeps_inv jobs_ok (sql_update_all agent_jobs agent_jobs_update job_constraints p f)"
proof (rule keeps_invI)
  fix s res t assume ok: "jobs_ok s"
    and run: "sql_update_all agent_jobs agent_jobs_update job_constraints p f s = (res, t)"
  from run show "jobs_ok t"
  proof (cases rule: jobs.update_all_cases)
    case (unchanged e)
    with ok show ?thesis by simp
  next
    case written
    show ?thesis
    proof (rule keeps_job_write [OF ok])
      show "map (\<lambda>j. (aj_id j, aj_org_id j)) (agent_jobs t) = map (\<lambda>j. (aj_id j, aj_org_id j)) (agent_jobs s)"
        using assms by (simp add: written(2))
      show "\<forall>j \<in> set (agent_jobs t). job_inv j"
        using written ok assms by (auto simp: jobs_ok_def table_inv_def job_inv_def)
    qed (simp_all add: written(2))
  qed
qed

lemma keeps_delete_job: "keeps_inv jobs_ok (DeleteAgentJob org i)"
proof (rule keeps_invI)
  fix s res t assume ok: "jobs_ok s" and run: "DeleteAgentJob org i s = (res, t)"
  let ?gone = "\<lambda>r. aj_org_id r = org \<and> aj_id r = i"
  let ?ids = "map aj_id (filter ?gone (agent_jobs s))"
  from run have t: "agent_jobs t = filter (\<lambda>r. \<not> ?gone r) (agent_jobs s)"
      "agent_job_executions t = filter (\<lambda>e. ae_job_id e \<notin> set ?ids) (agent_job_executions s)"
    by (auto simp: DeleteAgentJob_def Let_def)
  have "owned (agent_jobs t) e" if e: "e \<in> set (agent_job_executions t)" for e
  proof -
    from e ok have "owned (agent_jobs s) e" "ae_job_id e \<notin> set ?ids" by (auto simp: t jobs_ok_def)
    then show ?thesis by (auto simp: t owned_def image_iff)
  qed
  moreover have "one_active (agent_job_executions t)"
    using ok by (auto simp: t jobs_ok_def one_active_def)
  ultimately show "jobs_ok t"
    using ok by (auto simp: t jobs_ok_def table_inv_def distinct_map_filter)
qed

section \<open>Writes to executions\<close>

lemma keeps_execution_update:
  assumes "\<And>e. ae_id (f e) = ae_id e \<and> ae_job_id (f e) = ae_job_id e \<and> ae_org_id (f e) = ae_org_id e \<and>
      ae_scheduled_for (f e) = ae_scheduled_for e"
    and "\<And>e. execution_inv e \<Longrightarrow> p e \<Longrightarrow> ae_status (f e) \<in> set execution_statuses \<Longrightarrow> execution_inv (f e)"
    and "\<And>e. p e \<Longrightarrow> active (f e) \<Longrightarrow> active e"
  shows "keeps_inv jobs_ok (sql_update_all agent_job_executions agent_job_executions_update execution_constraints p f)"
proof (rule keeps_invI)
  fix s res t assume ok: "jobs_ok s"
    and run: "sql_update_all agent_job_executions agent_job_executions_update execution_constraints p f s = (res, t)"
  have "table_inv ae_id execution_inv (agent_job_executions t)"
    by (rule executions.table_inv_update_all [OF _ _ _ run])
      (use ok assms in \<open>auto simp: jobs_ok_def check_execution\<close>)
  moreover from run have "(\<forall>e \<in> set (agent_job_executions t). owned (agent_jobs t) e) \<and>
      one_active (agent_job_executions t) \<and> agent_jobs t = agent_jobs s"
  proof (cases rule: executions.update_all_cases)
    case (unchanged e)
    with ok show ?thesis by (simp add: jobs_ok_def)
  next
    case written
    have own: "owned (agent_jobs s) (f e) = owned (agent_jobs s) e" for e
      using assms(1) by (simp add: owned_def)
    have one: "one_active (map (\<lambda>e. if p e then f e else e) (agent_job_executions s))"
      unfolding one_active_def
    proof (intro ballI impI)
      fix x y
      assume "x \<in> set (map (\<lambda>e. if p e then f e else e) (agent_job_executions s))"
        and "y \<in> set (map (\<lambda>e. if p e then f e else e) (agent_job_executions s))"
        and act: "active x" "active y" "ae_job_id x = ae_job_id y"
      then obtain e g where e: "e \<in> set (agent_job_executions s)" "x = (if p e then f e else e)"
        and g: "g \<in> set (agent_job_executions s)" "y = (if p g then f g else g)" by auto
      from e(2) g(2) act assms(1,3) have "active e" "active g" "ae_job_id e = ae_job_id g"
        by (auto split: if_splits)
      with e(1) g(1) ok have "e = g" by (auto simp: jobs_ok_def one_active_def)
      with e(2) g(2) show "x = y" by simp
    qed
    have "\<forall>e \<in> set (agent_job_executions t). owned (agent_jobs s) e"
      using ok own by (auto simp: written(2) jobs_ok_def)
    with one show ?thesis by (simp add: written(2))
  qed
  ultimately show "jobs_ok t" using ok by (auto simp: jobs_ok_def)
qed

text \<open>A new execution keeps the invariant when it is made for a stored job, with its organisation.\<close>

lemma create_execution_keeps:
  assumes ok: "jobs_ok s" and job: "(jobID, org) \<in> set (map (\<lambda>j. (aj_id j, aj_org_id j)) (agent_jobs s))"
    and run: "CreateAgentJobExecution now i jobID org sched w s = (res, t)"
  shows "jobs_ok t \<and> agent_jobs t = agent_jobs s"
proof -
  let ?e = "\<lparr>ae_id = i, ae_job_id = jobID, ae_org_id = org, ae_run_id = None, ae_scheduled_for = sched,
        ae_status = ''claimed'', ae_claimed_by = w, ae_claimed_at = Some now, ae_finished_at = None,
        ae_error = [], ae_created_at = Some now, ae_updated_at = Some now\<rparr>"
  from run show ?thesis unfolding CreateAgentJobExecution_def
  proof (cases rule: executions.insert_cases)
    case (unchanged e)
    with ok show ?thesis by simp
  next
    case written
    have a: "active ?e" by (simp add: active_def)
    from written(2) have free: "\<forall>e \<in> set (agent_job_executions s). ae_job_id e = jobID \<longrightarrow> active e \<longrightarrow> ae_id e = i"
      and sched: "sched \<noteq> None" using a by (auto simp: check_execution)
    from written(1) have new: "\<forall>e \<in> set (agent_job_executions s). ae_id e \<noteq> i" by (auto simp: find_None_iff)
    have "one_active (agent_job_executions s @ [?e])"
      using ok free new by (auto simp: jobs_ok_def one_active_def)
    moreover have "execution_inv ?e"
      using sched a by (simp add: execution_inv_def execution_statuses_def)
    moreover have "owned (agent_jobs s) ?e" using job by (simp add: owned_def)
    ultimately show ?thesis
      using ok new by (auto simp: written(4) jobs_ok_def table_inv_def)
  qed
qed

lemma reads_keep [keeps]:
  "keeps_inv P (GetAgentJob org i)" "keeps_inv P (GetAgentJobForUpdate org i)" "keeps_inv P (ListAgentJobsByOrg org)"
  "keeps_inv P (HasActiveAgentJobExecution i)" "keeps_inv P (ListClaimableDueAgentJobs lk now lim)"
  "keeps_inv P (GetAgentJobExecution org i)" "keeps_inv P (ListLatestAgentJobExecutionsByOrg org)"
  "keeps_inv P (GetGithubRepoForOrg org ow nm)"
  by (auto simp: keeps_inv_def GetAgentJob_def GetAgentJobForUpdate_def ListAgentJobsByOrg_def
      HasActiveAgentJobExecution_def ListClaimableDueAgentJobs_def GetAgentJobExecution_def
      ListLatestAgentJobExecutionsByOrg_def GetGithubRepoForOrg_def sql_get_def split: option.splits list.splits)

lemma writes_keep [keeps]:
  "keeps_inv jobs_ok (UpdateAgentJobLastRun now i at r m)" "keeps_inv jobs_ok (UpdateAgentJobNextRun now i at)"
  "keeps_inv jobs_ok (MarkAgentJobExecutionRunning now org i run)"
  "keeps_inv jobs_ok (ReleaseStaleClaimedAgentJobExecutions now d)"
  "keeps_inv jobs_ok (ReleaseStaleRunningAgentJobExecutions now d)"
  unfolding UpdateAgentJobLastRun_def UpdateAgentJobNextRun_def MarkAgentJobExecutionRunning_def
    ReleaseStaleClaimedAgentJobExecutions_def ReleaseStaleRunningAgentJobExecutions_def
  by (intro keeps_jobs_update_all keeps_execution_update; simp add: execution_inv_def active_def)+

lemma finish_keeps [keeps]:
  "terminalExecutionStatus status \<Longrightarrow> keeps_inv jobs_ok (MarkAgentJobExecutionFinished now org i status m)"
  unfolding MarkAgentJobExecutionFinished_def
  by (intro keeps_execution_update)
    (auto simp: execution_inv_def active_def terminalExecutionStatus_def StatusSucceeded_def StatusFailed_def
      StatusCancelled_def)

section \<open>The operations\<close>

lemma keeps_lift_andthen:
  "(\<And>x. r = Inr x \<Longrightarrow> keeps_inv P (k x)) \<Longrightarrow> keeps_inv P (andthen (lift_result r) k)"
  by (cases r) (auto simp: keeps_inv_def andthen_def)

lemma keeps_validateAdditional: "keeps_inv P (validateAdditional org input primary repos)"
proof (induction org input primary repos rule: validateAdditional.induct)
  case (1 org input primary)
  show ?case unfolding validateAdditional.simps by (rule keeps_ret)
next
  case (2 org input primary repo rest)
  show ?case unfolding validateAdditional.simps by (intro keeps 2)
qed

lemma keeps_validateInput [keeps]: "keeps_inv P (validateInput env agents org input)"
  unfolding validateInput_def checkAgent_def validateRepos_def Let_def
  by (intro keeps keeps_validateAdditional)

lemma params_repos: "\<exists>rs. aj_additional_repos (jobParams i org clean next) = marshal_repos rs"
  by (auto simp: jobParams_def)

lemma Create_keeps: "keeps_inv jobs_ok (Create en env agents rnd sqlnow org input now)"
  unfolding Create_def not_configured_def by (intro keeps keeps_create_job params_repos)

lemma Update_keeps: "keeps_inv jobs_ok (Update en env agents sqlnow org i input now)"
  unfolding Update_def not_configured_def by (intro keeps keeps_update_job params_repos)

lemma Delete_keeps: "keeps_inv jobs_ok (Delete en org i)"
  unfolding Delete_def not_configured_def by (intro keeps keeps_delete_job)

lemma MarkRunning_keeps: "keeps_inv jobs_ok (MarkRunning en sqlnow org i run)"
  unfolding MarkRunning_def not_configured_def by (intro keeps)

lemma FinishExecution_keeps: "keeps_inv jobs_ok (FinishExecution en sqlnow org i status m)"
  unfolding FinishExecution_def finishExecutionTx_def not_configured_def Let_def by (intro keeps) simp_all

lemma releaseStale_keeps [keeps]: "keeps_inv jobs_ok (releaseStale sqlnow d)"
  unfolding releaseStale_def by (intro keeps)

lemma jobFromRow_ids: "jobFromRow row = Inr j \<Longrightarrow> job_ID j = aj_id row \<and> job_OrgID j = aj_org_id row"
  by (auto simp: jobFromRow_def split: sum.splits)

text \<open>
  The claims of a transaction are made for stored rows, and none of them changes the keys of the
  jobs: the invariant together with these keys is kept by every step.
\<close>

definition job_keys :: "jobs_db \<Rightarrow> (string \<times> string) list" where
  "job_keys s = map (\<lambda>j. (aj_id j, aj_org_id j)) (agent_jobs s)"

lemma keeps_create_execution:
  "(jobID, org) \<in> set K \<Longrightarrow>
   keeps_inv (\<lambda>s. jobs_ok s \<and> job_keys s = K) (CreateAgentJobExecution now i jobID org sched w)"
  by (rule keeps_invI) (auto simp: job_keys_def dest: create_execution_keeps)

lemma keeps_next_run: "keeps_inv (\<lambda>s. jobs_ok s \<and> job_keys s = K) (UpdateAgentJobNextRun now i at)"
proof (rule keeps_invI)
  fix s res t assume ok: "jobs_ok s \<and> job_keys s = K" and run: "UpdateAgentJobNextRun now i at s = (res, t)"
  have "jobs_ok t" using keeps_invD [OF writes_keep(2) _ run] ok by simp
  moreover from run have "job_keys t = job_keys s"
    unfolding UpdateAgentJobNextRun_def by (rule jobs.update_all_cases) (auto simp: job_keys_def)
  ultimately show "jobs_ok t \<and> job_keys t = K" using ok by simp
qed

lemma claimRows_keeps:
  "\<forall>r \<in> set rows. (aj_id r, aj_org_id r) \<in> set K \<Longrightarrow>
   keeps_inv (\<lambda>s. jobs_ok s \<and> job_keys s = K) (claimRows env rnd sqlnow worker now i rows)"
proof (induction rows arbitrary: i)
  case Nil
  show ?case unfolding claimRows.simps by (rule keeps_ret)
next
  case (Cons row rows)
  then show ?case
    unfolding claimRows.simps Let_def
    by (intro keeps_lift_andthen keeps keeps_create_execution keeps_next_run Cons.IH)
      (auto dest: jobFromRow_ids)
qed

lemma claimable_rows:
  assumes "ListClaimableDueAgentJobs lk now lim s = (Inr rows, t)" and "r \<in> set rows"
  shows "r \<in> set (agent_jobs s) \<and> due now r \<and> aj_id r \<notin> set lk \<and>
    \<not> (\<exists>e \<in> set (agent_job_executions s). ae_job_id e = aj_id r \<and> active e) \<and> t = s"
  using assms by (auto simp: ListClaimableDueAgentJobs_def list_ex_iff dest: in_set_takeD)

lemma claimDueTx_keeps: "keeps_inv jobs_ok (claimDueTx env lk rnd sqlnow worker lim now)"
proof (rule keeps_invI)
  fix s res t assume ok: "jobs_ok s" and run: "claimDueTx env lk rnd sqlnow worker lim now s = (res, t)"
  obtain rows where rows: "ListClaimableDueAgentJobs lk now lim s = (Inr rows, s)"
    by (auto simp: ListClaimableDueAgentJobs_def)
  then have "claimRows env rnd sqlnow worker now 0 rows s = (res, t)"
    using run by (simp add: claimDueTx_def andthen_run wrap_err_def)
  moreover have "\<forall>r \<in> set rows. (aj_id r, aj_org_id r) \<in> set (job_keys s)"
    using claimable_rows [OF rows] by (auto simp: job_keys_def)
  ultimately show "jobs_ok t"
    using keeps_invD [OF claimRows_keeps [where K = "job_keys s"]] ok by blast
qed

lemma ClaimDue_keeps: "keeps_inv jobs_ok (ClaimDue en env lk rnd sqlnow worker lim now d)"
  unfolding ClaimDue_def not_configured_def by (intro keeps claimDueTx_keeps)

lemma stored_job:
  "GetAgentJobForUpdate org i s = (Inr row, t) \<Longrightarrow> t = s \<and> row \<in> set (agent_jobs s) \<and> aj_org_id row = org \<and> aj_id row = i"
  by (auto simp: GetAgentJobForUpdate_def sql_get_def split: option.splits dest: find_SomeD)

lemma RunNow_keeps: "keeps_inv jobs_ok (RunNow en rnd sqlnow org i worker now)"
proof -
  have "keeps_inv jobs_ok (runNowTx rnd sqlnow org i worker now)"
  proof (rule keeps_invI)
    fix s res t assume ok: "jobs_ok s" and run: "runNowTx rnd sqlnow org i worker now s = (res, t)"
    show "jobs_ok t"
    proof (cases "GetAgentJobForUpdate org i s")
      case (Pair r s')
      show ?thesis
      proof (cases r)
        case (Inl e)
        with Pair run have "t = s" by (auto simp: runNowTx_def attempt_run GetAgentJobForUpdate_def sql_get_def
              split: option.splits if_splits)
        with ok show ?thesis by simp
      next
        case (Inr row)
        with Pair have row: "s' = s" "row \<in> set (agent_jobs s)" by (auto dest: stored_job)
        then have K: "(aj_id row, aj_org_id row) \<in> set (job_keys s)" by (auto simp: job_keys_def)
        let ?m = "andthen (wrap_err ''check active execution'' (HasActiveAgentJobExecution (aj_id row))) (\<lambda>isActive.
               if isActive then fail ErrOverlap
               else andthen (wrap_err ''create manual execution''
                   (CreateAgentJobExecution sqlnow (newID ''jobexec'' rnd) (aj_id row) (aj_org_id row) (timeParam now) worker))
                 (\<lambda>execRow. andthen (lift_result (jobFromRow row)) (\<lambda>job.
                   ret \<lparr>ce_Job = job, ce_Execution = executionFromRow execRow\<rparr>)))"
        have "keeps_inv (\<lambda>s'. jobs_ok s' \<and> job_keys s' = job_keys s) ?m"
          by (intro keeps keeps_create_execution K)
        moreover have "?m s = (res, t)"
          using run by (simp only: runNowTx_def attempt_run Pair Inr row(1) sum.case prod.case)
        ultimately show ?thesis using keeps_invD ok by fast
      qed
    qed
  qed
  then show ?thesis unfolding RunNow_def not_configured_def by (intro keeps)
qed

end
