(* ===== verification/Jobs_Laws.thy ===== *)
theory Jobs_Laws
  imports Jobs_Invariant
begin

text \<open>
  What the operations of the job store do to executions and schedules: how an execution may change,
  what a claim writes for each of its rows, and in which order due jobs are claimed.
\<close>

section \<open>How an execution changes\<close>

lemma map_if_in: "e \<in> set xs \<Longrightarrow> (if p e then f e else e) \<in> set (map (\<lambda>r. if p r then f r else r) xs)"
  by (induction xs) auto

definition evolves :: "execution_row \<Rightarrow> execution_row \<Rightarrow> bool" where
  "evolves e e' \<longleftrightarrow> ae_id e' = ae_id e \<and> ae_job_id e' = ae_job_id e \<and> ae_org_id e' = ae_org_id e \<and>
     ae_scheduled_for e' = ae_scheduled_for e \<and> (\<not> active e \<longrightarrow> e' = e) \<and>
     (ae_status e = ''running'' \<longrightarrow> ae_status e' \<noteq> ''claimed'')"

definition grows :: "jobs_db \<Rightarrow> jobs_db \<Rightarrow> bool" where
  "grows s t \<longleftrightarrow> (\<forall>e \<in> set (agent_job_executions s). \<exists>e' \<in> set (agent_job_executions t). evolves e e')"

lemma evolves_refl [simp]: "evolves e e"
  by (simp add: evolves_def)

lemma evolves_trans: "evolves e f \<Longrightarrow> evolves f g \<Longrightarrow> evolves e g"
  by (auto simp: evolves_def active_def)

lemma grows_refl [simp]: "grows s s"
  by (auto simp: grows_def intro: evolves_refl)

lemma grows_step:
  assumes "grows s t" and "\<And>e. e \<in> set (agent_job_executions t) \<Longrightarrow> \<exists>e' \<in> set (agent_job_executions u). evolves e e'"
  shows "grows s u"
  unfolding grows_def by (meson assms evolves_trans grows_def)

lemma grows_same: "grows s t \<Longrightarrow> agent_job_executions u = agent_job_executions t \<Longrightarrow> grows s u"
  by (simp add: grows_def)

lemma grows_update:
  assumes "\<And>e. p e \<Longrightarrow> evolves e (f e)"
  shows "keeps_inv (grows s0) (sql_update_all agent_job_executions agent_job_executions_update execution_constraints p f)"
proof (rule keeps_invI)
  fix s res t assume g: "grows s0 s"
    and "sql_update_all agent_job_executions agent_job_executions_update execution_constraints p f s = (res, t)"
  from this(2) show "grows s0 t"
  proof (cases rule: executions.update_all_cases)
    case (unchanged e)
    with g show ?thesis by simp
  next
    case written
    show ?thesis
    proof (rule grows_step [OF g])
      fix e assume "e \<in> set (agent_job_executions s)"
      then have "(if p e then f e else e) \<in> set (agent_job_executions t)"
        unfolding written(2) by (simp only: executions.tab_upd map_if_in)
      moreover have "evolves e (if p e then f e else e)" using assms by simp
      ultimately show "\<exists>e' \<in> set (agent_job_executions t). evolves e e'" by blast
    qed
  qed
qed

lemma grows_jobs_update:
  "keeps_inv (grows s0) (sql_update_all agent_jobs agent_jobs_update job_constraints p f)"
  by (rule keeps_invI, erule jobs.update_all_cases) (auto simp: grows_def)

lemma grows_create: "keeps_inv (grows s0) (CreateAgentJobExecution now i jobID org sched w)"
  unfolding CreateAgentJobExecution_def
  by (rule keeps_invI, erule executions.insert_cases) (auto simp: grows_def)

lemma grows_job_insert: "keeps_inv (grows s0) (CreateAgentJob now r)"
  unfolding CreateAgentJob_def Let_def
  by (rule keeps_invI, erule jobs.insert_cases) (auto simp: grows_def)

lemma grows_job_update: "keeps_inv (grows s0) (UpdateAgentJob now r)"
  unfolding UpdateAgentJob_def
  by (rule keeps_invI, erule jobs.update_cases) (auto simp: grows_def)

lemma grows_writes:
  "keeps_inv (grows s0) (UpdateAgentJobLastRun now i at r m)"
  "keeps_inv (grows s0) (UpdateAgentJobNextRun now i at)"
  "keeps_inv (grows s0) (MarkAgentJobExecutionRunning now org i run)"
  "keeps_inv (grows s0) (ReleaseStaleClaimedAgentJobExecutions now d)"
  "keeps_inv (grows s0) (ReleaseStaleRunningAgentJobExecutions now d)"
  unfolding UpdateAgentJobLastRun_def UpdateAgentJobNextRun_def MarkAgentJobExecutionRunning_def
    ReleaseStaleClaimedAgentJobExecutions_def ReleaseStaleRunningAgentJobExecutions_def
  by (intro grows_jobs_update grows_update; auto simp: evolves_def active_def)+

lemma grows_finish:
  "terminalExecutionStatus status \<Longrightarrow> keeps_inv (grows s0) (MarkAgentJobExecutionFinished now org i status m)"
  unfolding MarkAgentJobExecutionFinished_def
  by (intro grows_update) (auto simp: evolves_def terminalExecutionStatus_def StatusSucceeded_def
      StatusFailed_def StatusCancelled_def)

lemma grows_claimRows: "keeps_inv (grows s0) (claimRows env rnd sqlnow worker now i rows)"
proof (induction rows arbitrary: i)
  case Nil
  show ?case unfolding claimRows.simps by (rule keeps_ret)
next
  case (Cons row rows)
  show ?case unfolding claimRows.simps Let_def
    by (intro keeps grows_create grows_writes Cons.IH)
qed

lemma operations_grow:
  "keeps_inv (grows s0) (Create en env agents rnd sqlnow org input now)"
  "keeps_inv (grows s0) (Update en env agents sqlnow org i input now)"
  "keeps_inv (grows s0) (ClaimDue en env lk rnds sqlnow worker lim now d)"
  "keeps_inv (grows s0) (RunNow en rnd sqlnow org i worker now)"
  "keeps_inv (grows s0) (MarkRunning en sqlnow org i run)"
  "keeps_inv (grows s0) (FinishExecution en sqlnow org i status m)"
  unfolding Create_def Update_def ClaimDue_def RunNow_def MarkRunning_def FinishExecution_def releaseStale_def
    claimDueTx_def runNowTx_def finishExecutionTx_def not_configured_def Let_def
  by (intro keeps keeps_validateInput reads_keep grows_claimRows grows_create grows_job_insert grows_job_update
      grows_writes grows_finish; simp)+

text \<open>An execution that is stored stays as it is when no statement selects it.\<close>

definition holds_execution :: "execution_row \<Rightarrow> jobs_db \<Rightarrow> bool" where
  "holds_execution e s \<longleftrightarrow> e \<in> set (agent_job_executions s)"

lemma spared_update:
  assumes "\<not> p e"
  shows "keeps_inv (holds_execution e)
    (sql_update_all agent_job_executions agent_job_executions_update execution_constraints p f)"
proof (rule keeps_invI)
  fix s res t assume h: "holds_execution e s"
    and "sql_update_all agent_job_executions agent_job_executions_update execution_constraints p f s = (res, t)"
  from this(2) show "holds_execution e t"
  proof (cases rule: executions.update_all_cases)
    case (unchanged e')
    with h show ?thesis by simp
  next
    case written
    have "(if p e then f e else e) \<in> set (agent_job_executions t)"
      using h unfolding written(2) holds_execution_def by (simp only: executions.tab_upd map_if_in)
    with assms show ?thesis by (simp add: holds_execution_def)
  qed
qed

lemma spared_claim_steps:
  "keeps_inv (holds_execution e) (CreateAgentJobExecution now i jobID org sched w)"
  "keeps_inv (holds_execution e) (UpdateAgentJobNextRun now i at)"
  unfolding CreateAgentJobExecution_def UpdateAgentJobNextRun_def
  by (rule keeps_invI, erule executions.insert_cases; auto simp: holds_execution_def)
    (rule keeps_invI, erule jobs.update_all_cases; auto simp: holds_execution_def)

lemma spared_claimRows: "keeps_inv (holds_execution e) (claimRows env rnd sqlnow worker now i rows)"
proof (induction rows arbitrary: i)
  case Nil
  show ?case unfolding claimRows.simps by (rule keeps_ret)
next
  case (Cons row rows)
  show ?case unfolding claimRows.simps Let_def by (intro keeps spared_claim_steps Cons.IH)
qed

lemma running_stale_bound: "7200000000000 \<le> interval (runningExecutionStaleAfter d)"
proof -
  define r where "r = runningExecutionStaleAfter d"
  have "7200000000000 \<le> r"
    by (simp add: r_def runningExecutionStaleAfter_def minRunningExecutionStaleAfter_def hour_def Let_def)
  then show ?thesis unfolding r_def [symmetric] interval_def by simp
qed

lemma spared_release:
  assumes "ae_status e = ''running''" and "ae_claimed_at e = Some c" and "sqlnow - 2 * hour \<le> c"
  shows "keeps_inv (holds_execution e) (releaseStale sqlnow d)"
proof -
  have "\<not> stale sqlnow (interval (runningExecutionStaleAfter d)) e"
    using assms running_stale_bound [of d] by (simp add: stale_def hour_def)
  then show ?thesis
    unfolding releaseStale_def ReleaseStaleClaimedAgentJobExecutions_def ReleaseStaleRunningAgentJobExecutions_def
    by (intro keeps spared_update) (simp_all add: assms(1))
qed

lemma spared_claim:
  assumes "ae_status e = ''running''" and "ae_claimed_at e = Some c" and "sqlnow - 2 * hour \<le> c"
  shows "keeps_inv (holds_execution e) (ClaimDue en env lk rnds sqlnow worker lim now d)"
  unfolding ClaimDue_def claimDueTx_def not_configured_def
  by (intro keeps reads_keep spared_claimRows spared_release [OF assms])

section \<open>What a claim writes\<close>

lemma claim_row_cases:
  assumes "claimRows env rnd sqlnow worker now i (row # rows) s = (Inr out, u)"
  obtains j nxt sched e t n v rest where "jobFromRow row = Inr j"
    "NextRun env (aj_cron_schedule row) (aj_timezone row) now = Inr nxt"
    "CreateAgentJobExecution sqlnow (newID ''jobexec'' (rnd i)) (aj_id row) (aj_org_id row)
       sched worker s = (Inr e, t)"
    "UpdateAgentJobNextRun sqlnow (aj_id row) (timeParam nxt) t = (Inr n, v)"
    "claimRows env rnd sqlnow worker now (Suc i) rows v = (Inr rest, u)"
    "out = \<lparr>ce_Job = j\<lparr>job_NextRunAt := nxt\<rparr>, ce_Execution = executionFromRow e\<rparr> # rest"
proof -
  have f: "job_CronSchedule j = aj_cron_schedule row \<and> job_Timezone j = aj_timezone row" if "jobFromRow row = Inr j" for j
    using that by (auto simp: jobFromRow_def split: sum.splits)
  show thesis
    using assms by (auto simp: ok_simps Let_def intro!: that dest: f jobFromRow_ids)
qed

lemma next_run_written:
  assumes "UpdateAgentJobNextRun now i at s = (Inr n, t)" and "r \<in> set (agent_jobs t)"
  shows "if aj_id r = i then aj_next_run_at r = at else r \<in> set (agent_jobs s)"
  using assms(1) unfolding UpdateAgentJobNextRun_def
  by (rule jobs.update_all_cases) (use assms(2) in \<open>auto split: if_splits\<close>)

lemma claimed_jobs:
  assumes "claimRows env rnd sqlnow worker now i rows s = (Inr out, t)"
  shows "map (job_ID \<circ> ce_Job) out = map aj_id rows"
  using assms
proof (induction rows arbitrary: i s out)
  case Nil
  then show ?case by simp
next
  case (Cons row rows)
  from Cons.prems show ?case
    by (rule claim_row_cases) (use Cons.IH in \<open>auto dest: jobFromRow_ids\<close>)
qed

lemma claim_other_jobs:
  assumes "claimRows env rnd sqlnow worker now i rows s = (Inr out, t)"
    and "r \<in> set (agent_jobs t)" and "aj_id r \<notin> aj_id ` set rows"
  shows "r \<in> set (agent_jobs s)"
  using assms
proof (induction rows arbitrary: i s out)
  case Nil
  then show ?case by simp
next
  case (Cons row rows)
  from Cons.prems(1) obtain sched nxt e u n v rest where
    cr: "CreateAgentJobExecution sqlnow (newID ''jobexec'' (rnd i)) (aj_id row) (aj_org_id row)
       sched worker s = (Inr e, u)" and
    up: "UpdateAgentJobNextRun sqlnow (aj_id row) (timeParam nxt) u = (Inr n, v)" and
    rest: "claimRows env rnd sqlnow worker now (Suc i) rows v = (Inr rest, t)"
    by (rule claim_row_cases) (rule that)
  from rest have "r \<in> set (agent_jobs v)" by (rule Cons.IH) (use Cons.prems in auto)
  with next_run_written [OF up] Cons.prems(3) have "r \<in> set (agent_jobs u)" by auto
  moreover have "agent_jobs u = agent_jobs s"
    using cr unfolding CreateAgentJobExecution_def by (rule executions.insert_cases) auto
  ultimately show ?case by simp
qed

lemma claim_reschedules:
  assumes "claimRows env rnd sqlnow worker now i rows s = (Inr out, t)" and "distinct (map aj_id rows)"
    and "cron_moves_on env" and "\<not> is_zero_time now"
    and "r \<in> set (agent_jobs t)" and "aj_id r \<in> aj_id ` set rows"
  shows "\<not> due now r"
  using assms
proof (induction rows arbitrary: i s out)
  case Nil
  then show ?case by simp
next
  case (Cons row rows)
  from Cons.prems(1) obtain nxt u n v rest where
    nx: "NextRun env (aj_cron_schedule row) (aj_timezone row) now = Inr nxt" and
    up: "UpdateAgentJobNextRun sqlnow (aj_id row) (timeParam nxt) u = (Inr n, v)" and
    rest: "claimRows env rnd sqlnow worker now (Suc i) rows v = (Inr rest, t)"
    by (rule claim_row_cases) (rule that)
  show ?case
  proof (cases "aj_id r \<in> aj_id ` set rows")
    case True
    with Cons.IH [OF rest] Cons.prems show ?thesis by simp
  next
    case False
    with Cons.prems have "aj_id r = aj_id row" by auto
    moreover have "r \<in> set (agent_jobs v)"
      by (rule claim_other_jobs [OF rest]) (use Cons.prems False in auto)
    ultimately have "aj_next_run_at r = timeParam nxt" using next_run_written [OF up] by auto
    with next_run_after [OF Cons.prems(3) nx Cons.prems(4)] show ?thesis
      by (auto simp: due_def timeParam_def is_zero_time_def split: if_splits)
  qed
qed

lemma claim_creates:
  assumes "claimRows env rnd sqlnow worker now i rows s = (Inr out, t)" and "row \<in> set rows"
  shows "\<exists>e \<in> set (agent_job_executions t). ae_job_id e = aj_id row \<and> ae_status e = ''claimed'' \<and> ae_claimed_by e = worker"
  using assms
proof (induction rows arbitrary: i s out)
  case Nil
  then show ?case by simp
next
  case (Cons x rows)
  from Cons.prems(1) obtain sched nxt e u n v rest where
    cr: "CreateAgentJobExecution sqlnow (newID ''jobexec'' (rnd i)) (aj_id x) (aj_org_id x)
       sched worker s = (Inr e, u)" and
    up: "UpdateAgentJobNextRun sqlnow (aj_id x) (timeParam nxt) u = (Inr n, v)" and
    rest: "claimRows env rnd sqlnow worker now (Suc i) rows v = (Inr rest, t)"
    by (rule claim_row_cases) (rule that)
  show ?case
  proof (cases "row \<in> set rows")
    case True
    with Cons.IH [OF rest] show ?thesis by simp
  next
    case False
    have e: "e \<in> set (agent_job_executions u) \<and> ae_job_id e = aj_id x \<and> ae_status e = ''claimed'' \<and> ae_claimed_by e = worker"
      using cr unfolding CreateAgentJobExecution_def by (rule executions.insert_cases) auto
    then have "holds_execution e v"
      using keeps_invD [OF spared_claim_steps(2) _ up] by (simp add: holds_execution_def)
    then have "e \<in> set (agent_job_executions t)"
      using keeps_invD [OF spared_claimRows _ rest] by (simp add: holds_execution_def)
    with e False Cons.prems(2) show ?thesis by auto
  qed
qed

section \<open>The order of claims\<close>

lemma sorted_take:
  assumes "sorted (map f xs)" and "x \<in> set xs" and "x \<notin> set (take n xs)"
  shows "length (take n xs) = n \<and> (\<forall>y \<in> set (take n xs). f y \<le> f x)"
proof -
  have split: "xs = take n xs @ drop n xs" by simp
  with assms(2,3) have x: "x \<in> set (drop n xs)" by (metis Un_iff set_append)
  then have "n < length xs" by (metis drop_all empty_iff linorder_not_le list.set(1))
  moreover have "sorted (map f (take n xs @ drop n xs))" using assms(1) by simp
  then have "\<forall>y \<in> set (take n xs). \<forall>z \<in> set (drop n xs). f y \<le> f z"
    unfolding map_append sorted_append by auto
  ultimately show ?thesis using x by auto
qed

definition claimable :: "go_time \<Rightarrow> jobs_db \<Rightarrow> job_row \<Rightarrow> bool" where
  "claimable now s r \<longleftrightarrow> r \<in> set (agent_jobs s) \<and> due now r \<and>
     \<not> (\<exists>e \<in> set (agent_job_executions s). ae_job_id e = aj_id r \<and> active e)"

lemma claim_order:
  assumes "ListClaimableDueAgentJobs lk now lim s = (Inr rows, t)" and "claimable now s r"
    and "aj_id r \<notin> set lk" and "r \<notin> set rows"
  shows "length rows = nat lim \<and> (\<forall>x \<in> set rows. org_rank now s x \<le> org_rank now s r)"
proof -
  let ?k = "\<lambda>r. (org_rank now s r, due_key r)"
  let ?L = "sort_key ?k (filter (\<lambda>r. due now r \<and> aj_id r \<notin> set lk \<and> \<not> list_ex (\<lambda>e. ae_job_id e = aj_id r \<and> active e) (agent_job_executions s))
    (agent_jobs s))"
  have rows: "rows = take (nat lim) ?L" using assms(1) by (auto simp: ListClaimableDueAgentJobs_def)
  have "r \<in> set ?L" using assms(2,3) by (simp add: claimable_def list_ex_iff)
  then have "length rows = nat lim \<and> (\<forall>y \<in> set rows. ?k y \<le> ?k r)"
    unfolding rows by (rule sorted_take [OF sorted_sort_key]) (use assms(4) rows in simp)
  then show ?thesis by (auto simp: less_eq_prod_def)
qed

text \<open>Releasing stale executions only makes executions final; the jobs stay as they are.\<close>

lemma release_keeps_jobs:
  assumes "releaseStale sqlnow d s = (Inr (), u)"
  shows "agent_jobs u = agent_jobs s \<and> (claimable now s r \<longrightarrow> claimable now u r)"
proof -
  have step: "agent_jobs v = agent_jobs w \<and> (claimable now w r \<longrightarrow> claimable now v r)"
    if "sql_update_all agent_job_executions agent_job_executions_update execution_constraints p f w = (res, v)"
      and "\<And>e. ae_job_id (f e) = ae_job_id e \<and> \<not> active (f e)" for p f w v res
    using that(1) by (rule executions.update_all_cases) (use that(2) in \<open>auto simp: claimable_def\<close>)
  show ?thesis
  proof (cases "0 < d")
    case True
    with assms obtain m n v where
      "ReleaseStaleClaimedAgentJobExecutions sqlnow (interval d) s = (Inr m, v)"
      "ReleaseStaleRunningAgentJobExecutions sqlnow (interval (runningExecutionStaleAfter d)) v = (Inr n, u)"
      by (auto simp: releaseStale_def ok_simps)
    then have "agent_jobs v = agent_jobs s \<and> (claimable now s r \<longrightarrow> claimable now v r)"
      "agent_jobs u = agent_jobs v \<and> (claimable now v r \<longrightarrow> claimable now u r)"
      unfolding ReleaseStaleClaimedAgentJobExecutions_def ReleaseStaleRunningAgentJobExecutions_def
      by (auto dest!: step simp: active_def)
    then show ?thesis by simp
  next
    case False
    with assms show ?thesis by (simp add: releaseStale_def)
  qed
qed

lemma claim_due_cases:
  assumes "ClaimDue True env lk rnds sqlnow worker lim now d s = (Inr out, t)" and "0 < lim"
  obtains u rows where "releaseStale sqlnow d s = (Inr (), u)"
    "ListClaimableDueAgentJobs lk now lim u = (Inr rows, u)"
    "claimRows env rnds sqlnow worker now 0 rows u = (Inr out, t)"
proof -
  have l: "ListClaimableDueAgentJobs lk now lim u = (Inr rows, v) \<Longrightarrow> v = u" for u v rows
    by (simp add: ListClaimableDueAgentJobs_def)
  show thesis
    using assms by (auto simp: ClaimDue_def claimDueTx_def andthen_Inr intro: that dest: l)
qed

lemma claimable_distinct:
  assumes "jobs_ok s" and "ListClaimableDueAgentJobs lk now lim s = (Inr rows, t)"
  shows "distinct (map aj_id rows)"
proof -
  have key: "distinct (map f (take n (sort_key k xs)))" if "distinct (map f xs)" for f k n xs
  proof -
    have "distinct (map f (sort_key k xs))"
      using that by (simp add: distinct_map)
    then show ?thesis by (simp add: take_map [symmetric] distinct_take)
  qed
  show ?thesis
    using assms by (auto simp: ListClaimableDueAgentJobs_def jobs_ok_def table_inv_def distinct_map_filter intro!: key)
qed

end
