(* ===== verification/Jobs_Properties.thy ===== *)
theory Jobs_Properties
  imports Jobs_Laws
begin

text \<open>
  The results about scheduled jobs: the consistency of the tables over any sequence of operations, the
  life of an execution, what a claim takes and in which order, manual runs, and jobs as they are
  created. The demo values are concrete inputs on which the statements are applied.
\<close>

section \<open>Steps of the store\<close>

inductive jobs_step :: "'l cron_env \<Rightarrow> agent_lookup \<Rightarrow> jobs_db \<Rightarrow> jobs_db \<Rightarrow> bool" for env agents where
  create: "Create en env agents rnd sqlnow org input now s = (r, t) \<Longrightarrow> jobs_step env agents s t"
| update: "Update en env agents sqlnow org i input now s = (r, t) \<Longrightarrow> jobs_step env agents s t"
| delete: "Delete en org i s = (d, t) \<Longrightarrow> jobs_step env agents s t"
| claim: "ClaimDue en env lk rnds sqlnow worker lim now stale0 s = (c, t) \<Longrightarrow> jobs_step env agents s t"
| run_now: "RunNow en rnd sqlnow org i worker now s = (x, t) \<Longrightarrow> jobs_step env agents s t"
| running: "MarkRunning en sqlnow org i run s = (d, t) \<Longrightarrow> jobs_step env agents s t"
| finish: "FinishExecution en sqlnow org i status m s = (d, t) \<Longrightarrow> jobs_step env agents s t"

inductive_cases jobs_stepE: "jobs_step env agents s t"

lemma step_keeps: "jobs_step env agents s t \<Longrightarrow> jobs_ok s \<Longrightarrow> jobs_ok t"
  by (elim jobs_stepE)
    (auto dest: keeps_invD [OF Create_keeps] keeps_invD [OF Update_keeps] keeps_invD [OF Delete_keeps]
      keeps_invD [OF ClaimDue_keeps] keeps_invD [OF RunNow_keeps] keeps_invD [OF MarkRunning_keeps]
      keeps_invD [OF FinishExecution_keeps])

text \<open>A deletion takes the executions of the job it removes, and leaves the others as they are.\<close>

lemma deleted_with_job:
  assumes "jobs_ok s" and "e \<in> set (agent_job_executions s)"
  shows "(\<exists>e' \<in> set (agent_job_executions (snd (DeleteAgentJob org i s))). evolves e e') \<or>
    (\<forall>j \<in> set (agent_jobs (snd (DeleteAgentJob org i s))). aj_id j \<noteq> ae_job_id e)"
proof -
  let ?gone = "\<lambda>r. aj_org_id r = org \<and> aj_id r = i"
  let ?ids = "map aj_id (filter ?gone (agent_jobs s))"
  have t: "agent_jobs (snd (DeleteAgentJob org i s)) = filter (\<lambda>r. \<not> ?gone r) (agent_jobs s)"
    "agent_job_executions (snd (DeleteAgentJob org i s)) = filter (\<lambda>e. ae_job_id e \<notin> set ?ids) (agent_job_executions s)"
    by (simp_all add: DeleteAgentJob_def Let_def)
  show ?thesis
  proof (cases "ae_job_id e \<in> set ?ids")
    case False
    then have "e \<in> set (agent_job_executions (snd (DeleteAgentJob org i s)))"
      unfolding t set_filter using assms(2) by blast
    then show ?thesis using evolves_refl by blast
  next
    case True
    then obtain j where j: "j \<in> set (agent_jobs s)" "?gone j" "aj_id j = ae_job_id e" by auto
    have "?gone k" if "k \<in> set (agent_jobs s)" "aj_id k = ae_job_id e" for k
      using that j assms(1) distinct_keyD [of aj_id "agent_jobs s" j k] by (simp add: jobs_ok_def table_inv_def)
    then show ?thesis unfolding t by auto
  qed
qed

section \<open>Concrete inputs\<close>

definition demo_env :: "int cron_env" where
  "demo_env = \<lparr>CronParse = (\<lambda>e. Inr (\<lambda>loc t. t + hour)), LoadLocation = (\<lambda>tz. Inr 0), WallNow = second\<rparr>"

definition demo_job :: "string \<Rightarrow> go_time \<Rightarrow> job_row" where
  "demo_job i next = \<lparr>aj_id = i, aj_org_id = ''org'', aj_name = ''nightly'', aj_definition = ''update'',
     aj_agent_slug = [], aj_primary_owner = ''acme'', aj_primary_repo = ''app'',
     aj_additional_repos = marshal_repos [], aj_cron_schedule = ''0 * * * *'', aj_timezone = ''UTC'',
     aj_enabled = True, aj_next_run_at = Some next, aj_last_run_at = None, aj_last_run_id = None,
     aj_last_error = [], aj_created_at = Some 1, aj_updated_at = Some 1, aj_model = ''opus''\<rparr>"

definition demo_execution :: "string \<Rightarrow> string \<Rightarrow> string \<Rightarrow> execution_row" where
  "demo_execution i j status = \<lparr>ae_id = i, ae_job_id = j, ae_org_id = ''org'', ae_run_id = None,
     ae_scheduled_for = Some 5, ae_status = status, ae_claimed_by = ''w'', ae_claimed_at = Some 5,
     ae_finished_at = None, ae_error = [], ae_created_at = Some 5, ae_updated_at = Some 5\<rparr>"

definition demo_jobs_db :: jobs_db where
  "demo_jobs_db = \<lparr>agent_jobs = [demo_job ''a'' 10, demo_job ''b'' 20, demo_job ''c'' 30],
     agent_job_executions = [demo_execution ''x'' ''a'' ''running''], github_app_installations = [],
     github_repos = [], job_run_ids = []\<rparr>"

lemma demo_jobs_ok: "jobs_ok demo_jobs_db"
proof -
  have "job_inv (demo_job i n)" for i n
    by (auto simp: job_inv_def job_row_ok_def demo_job_def not_blank_def is_array_def marshal_repos_def
        intro!: exI [of _ "[]"])
  then show ?thesis
    by (simp add: jobs_ok_def table_inv_def demo_jobs_db_def execution_inv_def demo_execution_def active_def
        execution_statuses_def owned_def one_active_def) (simp_all add: demo_job_def)
qed

lemma demo_cron: "cron_moves_on demo_env"
  by (auto simp: cron_moves_on_def demo_env_def hour_def)

section \<open>The tables\<close>

text \<open>C7: whatever operations of the job store run, in whatever order and with whatever outcome, the
  tables stay consistent: in particular a job never has two active executions, and an execution has a
  finishing time exactly if its status is final.\<close>

theorem jobs_stay_consistent:
  "(jobs_step env agents)\<^sup>*\<^sup>* s t \<Longrightarrow> jobs_ok s \<Longrightarrow> jobs_ok t"
  by (induction rule: rtranclp_induct) (auto intro: step_keeps)

theorem jobs_stay_consistent_witness:
  "jobs_ok (snd (RunNow True [1, 2] 7 ''org'' ''b'' ''w'' 9 demo_jobs_db))"
proof -
  have "jobs_step demo_env None demo_jobs_db (snd (RunNow True [1, 2] 7 ''org'' ''b'' ''w'' 9 demo_jobs_db))"
    by (rule jobs_step.run_now) (rule prod.collapse [symmetric])
  then show ?thesis
    by (rule jobs_stay_consistent [OF r_into_rtranclp demo_jobs_ok])
qed

text \<open>C8: an execution keeps its job, its organisation and its time through every operation; once it is
  final nothing changes it, a running one is never claimed again, and it disappears only with its job.\<close>

theorem execution_lifecycle:
  assumes "jobs_step env agents s t" and "jobs_ok s" and "e \<in> set (agent_job_executions s)"
  shows "(\<exists>e' \<in> set (agent_job_executions t). evolves e e') \<or> (\<forall>j \<in> set (agent_jobs t). aj_id j \<noteq> ae_job_id e)"
  using assms(1)
proof (cases rule: jobs_step.cases)
  case (delete en org i d)
  show ?thesis
  proof (cases "en")
    case False
    with delete have "t = s" by (simp add: Delete_def not_configured_def)
    with assms(3) show ?thesis using evolves_refl by blast
  next
    case True
    with delete have t: "t = snd (DeleteAgentJob org i s)"
      by (auto simp: Delete_def andthen_run wrap_err_def DeleteAgentJob_def Let_def split: if_splits)
    show ?thesis unfolding t by (rule deleted_with_job [OF assms(2,3)])
  qed
qed (use assms(3) in \<open>auto simp: grows_def dest!: keeps_invD [OF operations_grow(1) grows_refl]
    keeps_invD [OF operations_grow(2) grows_refl] keeps_invD [OF operations_grow(3) grows_refl]
    keeps_invD [OF operations_grow(4) grows_refl] keeps_invD [OF operations_grow(5) grows_refl]
    keeps_invD [OF operations_grow(6) grows_refl]\<close>)

theorem execution_lifecycle_witness:
  "\<exists>t. MarkRunning True 7 ''org'' ''x'' None demo_jobs_db = (Inr (), t) \<and>
     (\<exists>e' \<in> set (agent_job_executions t). evolves (demo_execution ''x'' ''a'' ''running'') e')"
proof -
  let ?t = "snd (MarkRunning True 7 ''org'' ''x'' None demo_jobs_db)"
  have run: "MarkRunning True 7 ''org'' ''x'' None demo_jobs_db = (Inr (), ?t)"
    by code_simp
  have "jobs_step demo_env None demo_jobs_db ?t" by (rule jobs_step.running) (rule run)
  moreover have "\<exists>j \<in> set (agent_jobs ?t). aj_id j = ''a''" by code_simp
  ultimately show ?thesis
    using execution_lifecycle [of demo_env None demo_jobs_db ?t "demo_execution ''x'' ''a'' ''running''"] demo_jobs_ok run
    by (auto simp: demo_execution_def demo_jobs_db_def)
qed

section \<open>Claims\<close>

text \<open>A claim takes at most the number of jobs asked for, each of them once, leaves every one with an
  execution claimed by the worker, and moves its next run past the time of the claim, so that it is
  not due again at that time.\<close>

theorem claims_reschedule:
  assumes "ClaimDue True env lk rnds sqlnow worker lim now d s = (Inr out, t)" and "jobs_ok s"
    and "cron_moves_on env" and "\<not> is_zero_time now" and "c \<in> set out"
  shows "length out \<le> nat lim \<and> distinct (map (job_ID \<circ> ce_Job) out) \<and>
    (\<exists>r \<in> set (agent_jobs s). aj_id r = job_ID (ce_Job c) \<and> due now r) \<and>
    (\<exists>e \<in> set (agent_job_executions t). ae_job_id e = job_ID (ce_Job c) \<and> ae_status e = StatusClaimed \<and> ae_claimed_by e = worker) \<and>
    (\<forall>r \<in> set (agent_jobs t). aj_id r = job_ID (ce_Job c) \<longrightarrow> \<not> due now r)"
proof -
  have "0 < lim" using assms(1,5) by (auto simp: ClaimDue_def split: if_splits)
  with assms(1) obtain u rows where rel: "releaseStale sqlnow d s = (Inr (), u)"
    and list: "ListClaimableDueAgentJobs lk now lim u = (Inr rows, u)"
    and claim: "claimRows env rnds sqlnow worker now 0 rows u = (Inr out, t)"
    by (rule claim_due_cases)
  have ids: "map (job_ID \<circ> ce_Job) out = map aj_id rows" by (rule claimed_jobs [OF claim])
  have u: "jobs_ok u" "agent_jobs u = agent_jobs s"
    using keeps_invD [OF releaseStale_keeps assms(2) rel] release_keeps_jobs [OF rel] by simp_all
  have len: "length rows \<le> nat lim" using list by (auto simp: ListClaimableDueAgentJobs_def)
  have dist: "distinct (map aj_id rows)" by (rule claimable_distinct [OF u(1) list])
  from assms(5) ids obtain row where row: "row \<in> set rows" "aj_id row = job_ID (ce_Job c)"
    by (metis (no_types, lifting) comp_apply image_iff list.set_map)
  have "\<exists>r \<in> set (agent_jobs s). aj_id r = job_ID (ce_Job c) \<and> due now r"
    using claimable_rows [OF list row(1)] row(2) u(2) by auto
  moreover have "\<exists>e \<in> set (agent_job_executions t). ae_job_id e = job_ID (ce_Job c) \<and> ae_status e = StatusClaimed \<and> ae_claimed_by e = worker"
    using claim_creates [OF claim row(1)] row(2) by (simp add: StatusClaimed_def)
  moreover have "\<not> due now r" if "r \<in> set (agent_jobs t)" "aj_id r = job_ID (ce_Job c)" for r
    using claim_reschedules [OF claim dist assms(3,4) that(1)] imageI [OF row(1), of aj_id] row(2) that(2) by simp
  moreover have "length out = length rows" using ids by (metis length_map)
  ultimately show ?thesis using ids len dist by simp
qed

theorem claims_reschedule_witness:
  "\<exists>out t c. ClaimDue True demo_env [] (\<lambda>i. [i]) 7 ''w'' 5 25 0 demo_jobs_db = (Inr out, t) \<and> out = [c] \<and>
     job_ID (ce_Job c) = ''b'' \<and> (\<forall>r \<in> set (agent_jobs t). aj_id r = ''b'' \<longrightarrow> \<not> due 25 r)"
proof -
  let ?run = "ClaimDue True demo_env [] (\<lambda>i. [i]) 7 ''w'' 5 25 0 demo_jobs_db"
  have ids: "(case fst ?run of Inl e \<Rightarrow> None | Inr out \<Rightarrow> Some (map (job_ID \<circ> ce_Job) out)) = Some [''b'']"
    by code_simp
  then obtain c where out: "fst ?run = Inr [c]" "job_ID (ce_Job c) = ''b''"
    by (auto split: sum.splits)
  then have run: "?run = (Inr [c], snd ?run)" by (metis prod.collapse)
  have "\<not> is_zero_time 25" by (simp add: is_zero_time_def zero_time_def)
  from claims_reschedule [OF run demo_jobs_ok demo_cron this, of c] out run show ?thesis by force
qed

text \<open>C9: claims are fair between organisations: a due job that no execution keeps busy is left
  out only when another transaction holds its row or as many jobs as asked for were claimed, and
  then none of those comes later in the queue of its own organisation than the job that was left
  out does in its queue. Jobs whose rows another transaction holds are not claimed.\<close>

theorem claims_are_fair:
  assumes "ClaimDue True env lk rnds sqlnow worker lim now d s = (Inr out, t)" and "0 < lim"
    and "claimable now s r" and "aj_id r \<notin> set lk" and "aj_id r \<notin> set (map (job_ID \<circ> ce_Job) out)"
  shows "length out = nat lim \<and> (\<forall>c \<in> set out. \<exists>x \<in> set (agent_jobs s). aj_id x = job_ID (ce_Job c) \<and>
    aj_id x \<notin> set lk \<and> org_rank now s x \<le> org_rank now s r)"
proof -
  from assms(1,2) obtain u rows where rel: "releaseStale sqlnow d s = (Inr (), u)"
    and list: "ListClaimableDueAgentJobs lk now lim u = (Inr rows, u)"
    and claim: "claimRows env rnds sqlnow worker now 0 rows u = (Inr out, t)"
    by (rule claim_due_cases)
  have ids: "map (job_ID \<circ> ce_Job) out = map aj_id rows" by (rule claimed_jobs [OF claim])
  have u: "agent_jobs u = agent_jobs s" "claimable now u r"
    using release_keeps_jobs [OF rel] assms(3) by simp_all
  have rank: "org_rank now u x = org_rank now s x" for x by (simp add: org_rank_def u(1))
  have "r \<notin> set rows" using assms(5) ids by auto
  from claim_order [OF list u(2) assms(4) this]
  have len: "length rows = nat lim" and le: "\<forall>x \<in> set rows. org_rank now s x \<le> org_rank now s r" by (simp_all add: rank)
  have "\<exists>x \<in> set (agent_jobs s). aj_id x = job_ID (ce_Job c) \<and>
      aj_id x \<notin> set lk \<and> org_rank now s x \<le> org_rank now s r" if "c \<in> set out" for c
  proof -
    from that ids obtain x where "x \<in> set rows" "aj_id x = job_ID (ce_Job c)"
      by (metis (no_types, lifting) comp_apply image_iff list.set_map)
    with le claimable_rows [OF list] u(1) show ?thesis by auto
  qed
  moreover have "length out = length rows" using ids by (metis length_map)
  ultimately show ?thesis using len by simp
qed

theorem claims_are_fair_witness:
  "\<exists>out t. ClaimDue True demo_env [''z''] (\<lambda>i. [i]) 7 ''w'' 1 35 0 demo_jobs_db = (Inr out, t) \<and> length out = 1"
proof -
  let ?run = "ClaimDue True demo_env [''z''] (\<lambda>i. [i]) 7 ''w'' 1 35 0 demo_jobs_db"
  have ids: "(case fst ?run of Inl e \<Rightarrow> None | Inr out \<Rightarrow> Some (map (job_ID \<circ> ce_Job) out)) = Some [''b'']"
    by code_simp
  then obtain out where out: "fst ?run = Inr out" "map (job_ID \<circ> ce_Job) out = [''b'']"
    by (auto split: sum.splits)
  then have run: "?run = (Inr out, snd ?run)" by (metis prod.collapse)
  have "claimable 35 demo_jobs_db (demo_job ''c'' 30)" by code_simp
  from claims_are_fair [OF run _ this] out run show ?thesis by (force simp: demo_job_def)
qed

text \<open>However short the time after which claims are released is configured, a running execution that
  was claimed less than two hours ago is left alone by every claim.\<close>

theorem claims_spare_the_running:
  assumes "ClaimDue en env lk rnds sqlnow worker lim now d s = (r, t)" and "e \<in> set (agent_job_executions s)"
    and "ae_status e = StatusRunning" and "ae_claimed_at e = Some claimed" and "sqlnow - 2 * hour \<le> claimed"
  shows "e \<in> set (agent_job_executions t)"
proof -
  have "keeps_inv (holds_execution e) (ClaimDue en env lk rnds sqlnow worker lim now d)"
    by (rule spared_claim) (use assms in \<open>simp_all add: StatusRunning_def\<close>)
  from keeps_invD [OF this _ assms(1)] assms(2) show ?thesis by (simp add: holds_execution_def)
qed

theorem claims_spare_the_running_witness:
  "demo_execution ''x'' ''a'' ''running'' \<in>
     set (agent_job_executions (snd (ClaimDue True demo_env [] (\<lambda>i. [i]) (2 * hour) ''w'' 5 25 1 demo_jobs_db)))"
  by (rule claims_spare_the_running [OF prod.collapse [symmetric], where claimed = 5])
    (simp_all add: demo_jobs_db_def demo_execution_def StatusRunning_def)

section \<open>Manual runs and results\<close>

lemma stored_job_decodes:
  assumes "jobs_ok s" and "row \<in> set (agent_jobs s)"
  shows "\<exists>j. jobFromRow row = Inr j"
proof -
  from assms obtain rs where "aj_additional_repos row = marshal_repos rs"
    by (auto simp: jobs_ok_def table_inv_def job_inv_def)
  then show ?thesis by (simp add: jobFromRow_def)
qed

lemma update_all_none:
  assumes "\<forall>r \<in> set (tab s). \<not> p r"
  shows "fst (sql_update_all tab upd chk p f s) = Inr 0"
proof -
  have "find (\<lambda>r. p r \<and> check_row chk s (f r) \<noteq> None) (tab s) = None"
    using assms by (auto simp: find_None_iff)
  moreover have "filter p (tab s) = []" using assms by (simp add: filter_empty_conv)
  ultimately show ?thesis by (simp add: sql_update_all_def)
qed

lemma create_execution_writes:
  assumes "i \<notin> ae_id ` set (agent_job_executions s)" and "\<exists>j \<in> set (agent_jobs s). aj_id j = jobID"
    and "\<forall>e \<in> set (agent_job_executions s). ae_job_id e = jobID \<longrightarrow> \<not> active e"
  shows "CreateAgentJobExecution now i jobID org (Some sched) w s =
    (let e = \<lparr>ae_id = i, ae_job_id = jobID, ae_org_id = org, ae_run_id = None, ae_scheduled_for = Some sched,
        ae_status = ''claimed'', ae_claimed_by = w, ae_claimed_at = Some now, ae_finished_at = None,
        ae_error = [], ae_created_at = Some now, ae_updated_at = Some now\<rparr>
     in (Inr e, s\<lparr>agent_job_executions := agent_job_executions s @ [e]\<rparr>))"
proof -
  let ?e = "\<lparr>ae_id = i, ae_job_id = jobID, ae_org_id = org, ae_run_id = None, ae_scheduled_for = Some sched,
        ae_status = ''claimed'', ae_claimed_by = w, ae_claimed_at = Some now, ae_finished_at = None,
        ae_error = [], ae_created_at = Some now, ae_updated_at = Some now\<rparr>"
  have "find (\<lambda>x. ae_id x = i) (agent_job_executions s) = None"
    using assms(1) by (force simp: find_None_iff)
  moreover have "check_row execution_constraints s ?e = None"
    using assms(2,3) by (auto simp: check_execution execution_statuses_def)
  ultimately show ?thesis
    unfolding CreateAgentJobExecution_def Let_def by (simp add: insert_succeeds)
qed

text \<open>A manual run of a job answers that the job is unknown, or that an execution of it is active,
  and writes nothing then; otherwise it claims exactly one new execution of the job, for now.\<close>

theorem run_now_decides:
  assumes "jobs_ok s" and "\<not> is_zero_time now"
    and "newID ''jobexec'' rnd \<notin> set (map ae_id (agent_job_executions s))"
  shows "case find (\<lambda>r. aj_org_id r = org \<and> aj_id r = i) (agent_jobs s) of
      None \<Rightarrow> RunNow True rnd sqlnow org i worker now s = (Inl ErrNotFound, s)
    | Some row \<Rightarrow>
        if \<exists>e \<in> set (agent_job_executions s). ae_job_id e = i \<and> active e
        then RunNow True rnd sqlnow org i worker now s = (Inl ErrOverlap, s)
        else \<exists>j e. jobFromRow row = Inr j \<and> ae_job_id e = i \<and> ae_org_id e = org \<and> ae_status e = StatusClaimed \<and>
          ae_scheduled_for e = Some now \<and> ae_claimed_by e = worker \<and>
          RunNow True rnd sqlnow org i worker now s =
            (Inr \<lparr>ce_Job = j, ce_Execution = executionFromRow e\<rparr>,
             s\<lparr>agent_job_executions := agent_job_executions s @ [e]\<rparr>)"
proof (cases "find (\<lambda>r. aj_org_id r = org \<and> aj_id r = i) (agent_jobs s)")
  case None
  then show ?thesis
    by (simp add: RunNow_def with_tx_def runNowTx_def attempt_run GetAgentJobForUpdate_def sql_get_def)
next
  case (Some row)
  note found = find_SomeD [OF Some]
  from stored_job_decodes [OF assms(1)] found obtain j where j: "jobFromRow row = Inr j" by blast
  have get: "GetAgentJobForUpdate org i s = (Inr row, s)"
    by (simp add: GetAgentJobForUpdate_def sql_get_def Some)
  show ?thesis
  proof (cases "\<exists>e \<in> set (agent_job_executions s). ae_job_id e = i \<and> active e")
    case True
    then have "HasActiveAgentJobExecution (aj_id row) s = (Inr True, s)"
      using found by (simp add: HasActiveAgentJobExecution_def list_ex_iff)
    with True Some get show ?thesis
      by (simp add: RunNow_def with_tx_def runNowTx_def attempt_run andthen_run wrap_err_def)
  next
    case False
    define e where "e = \<lparr>ae_id = newID ''jobexec'' rnd, ae_job_id = i, ae_org_id = org, ae_run_id = None,
      ae_scheduled_for = Some now, ae_status = ''claimed'', ae_claimed_by = worker, ae_claimed_at = Some sqlnow,
      ae_finished_at = None, ae_error = [], ae_created_at = Some sqlnow, ae_updated_at = Some sqlnow\<rparr>"
    from found have ex: "\<exists>j \<in> set (agent_jobs s). aj_id j = i" by blast
    have "HasActiveAgentJobExecution (aj_id row) s = (Inr False, s)"
      using False found by (simp add: HasActiveAgentJobExecution_def list_ex_iff)
    moreover have "CreateAgentJobExecution sqlnow (newID ''jobexec'' rnd) i org (timeParam now) worker s =
        (Inr e, s\<lparr>agent_job_executions := agent_job_executions s @ [e]\<rparr>)"
      unfolding e_def timeParam_def using assms(2,3) False ex by (simp add: create_execution_writes Let_def)
    ultimately have "RunNow True rnd sqlnow org i worker now s =
        (Inr \<lparr>ce_Job = j, ce_Execution = executionFromRow e\<rparr>,
         s\<lparr>agent_job_executions := agent_job_executions s @ [e]\<rparr>)"
      using get j found by (simp add: RunNow_def with_tx_def runNowTx_def attempt_run andthen_run wrap_err_def)
    then show ?thesis
      using False Some j by (auto simp: e_def StatusClaimed_def intro!: exI [of _ e])
  qed
qed

theorem run_now_decides_witness:
  "RunNow True [1] 7 ''org'' ''a'' ''w'' 9 demo_jobs_db = (Inl ErrOverlap, demo_jobs_db)"
proof -
  have "\<not> is_zero_time 9" by (simp add: is_zero_time_def zero_time_def)
  moreover have "newID ''jobexec'' [1] \<notin> set (map ae_id (agent_job_executions demo_jobs_db))" by code_simp
  ultimately show ?thesis
    using run_now_decides [OF demo_jobs_ok, where now = 9 and rnd = "[1]" and org = "''org''" and i = "''a''" and
        sqlnow = 7 and worker = "''w''"]
    by (auto simp: demo_jobs_db_def demo_job_def demo_execution_def active_def)
qed

text \<open>Results for an execution that is not active are refused, whatever they are.\<close>

lemma finish_refused:
  assumes "\<forall>r \<in> set (agent_job_executions t). ae_id r = i \<longrightarrow> \<not> active r"
  shows "\<exists>err. FinishExecution en sqlnow org i status message t = (Inl err, t)"
proof -
  have "fst (MarkAgentJobExecutionFinished a org i b c t) = Inr 0" for a b c
    unfolding MarkAgentJobExecutionFinished_def by (rule update_all_none) (use assms in blast)
  then have mark: "\<exists>w. MarkAgentJobExecutionFinished a org i b c t = (Inr 0, w)" for a b c
    by (metis prod.collapse)
  have "\<exists>err v. finishExecutionTx a org i b c t = (Inl err, v)" for a b c
  proof -
    from mark [of a b c] obtain w where "MarkAgentJobExecutionFinished a org i b c t = (Inr 0, w)" by blast
    then show ?thesis
      by (auto simp: finishExecutionTx_def attempt_run andthen_run wrap_err_def GetAgentJobExecution_def sql_get_def
          split: option.splits)
  qed
  then have "\<exists>err. with_tx (finishExecutionTx a org i b c) t = (Inl err, t)" for a b c
    by simp
  then show ?thesis by (auto simp: FinishExecution_def not_configured_def)
qed

text \<open>The result of an execution is recorded once: it then has the status and the trimmed
  message, its job carries the message and the scheduled time, and whatever is reported for the
  execution afterwards is refused and changes nothing.\<close>

theorem finishing_is_final:
  assumes "FinishExecution True sqlnow org i status message s = (Inr (), t)" and "jobs_ok s"
  shows "(\<exists>e \<in> set (agent_job_executions t). ae_id e = i \<and> ae_status e = status \<and> ae_error e = trim_space message \<and>
      ae_finished_at e = Some sqlnow \<and>
      (\<forall>j \<in> set (agent_jobs t). aj_id j = ae_job_id e \<longrightarrow>
        aj_last_error j = trim_space message \<and> aj_last_run_at j = ae_scheduled_for e)) \<and>
    (\<exists>err. FinishExecution en sqlnow' org i status' message' t = (Inl err, t))"
proof -
  let ?p = "\<lambda>r. ae_org_id r = org \<and> ae_id r = i \<and> active r"
  let ?f = "\<lambda>r. r\<lparr>ae_status := status, ae_finished_at := Some sqlnow, ae_error := trim_space message,
    ae_updated_at := Some sqlnow\<rparr>"
  from assms(1) have st: "terminalExecutionStatus status"
    and tx: "finishExecutionTx sqlnow org i status (trim_space message) s = (Inr (), t)"
    by (auto simp: FinishExecution_def not_configured_def split: if_splits)
  from tx obtain x n u m where get: "GetAgentJobExecution org i s = (Inr x, s)"
    and fin: "MarkAgentJobExecutionFinished sqlnow org i status (trim_space message) s = (Inr n, u)" and n: "n \<noteq> 0"
    and last: "UpdateAgentJobLastRun sqlnow (ae_job_id x) (ae_scheduled_for x)
        (stringPtrParam (case ae_run_id x of None \<Rightarrow> [] | Some i \<Rightarrow> i)) (trim_space message) u = (Inr m, t)"
    by (auto simp: finishExecutionTx_def ok_simps Let_def GetAgentJobExecution_def sql_get_def
        split: option.splits if_splits)
  from get have x: "x \<in> set (agent_job_executions s)" "ae_id x = i"
    by (auto simp: GetAgentJobExecution_def sql_get_def split: option.splits dest: find_SomeD)
  from fin have nu: "n = length (filter ?p (agent_job_executions s))"
      "agent_job_executions u = map (\<lambda>r. if ?p r then ?f r else r) (agent_job_executions s)"
    unfolding MarkAgentJobExecutionFinished_def by (auto elim!: executions.update_all_cases)
  from last have t: "agent_job_executions t = agent_job_executions u"
      "\<forall>j \<in> set (agent_jobs t). aj_id j = ae_job_id x \<longrightarrow>
        aj_last_error j = trim_space message \<and> aj_last_run_at j = ae_scheduled_for x"
    unfolding UpdateAgentJobLastRun_def by (auto elim!: jobs.update_all_cases)
  have only: "r = x" if "r \<in> set (agent_job_executions s)" "ae_id r = i" for r
    using that x assms(2) distinct_keyD [of ae_id "agent_job_executions s" r x] by (simp add: jobs_ok_def table_inv_def)
  from n nu(1) obtain r where "r \<in> set (agent_job_executions s)" "?p r"
    by (metis (mono_tags, lifting) empty_filter_conv length_0_conv)
  with only have px: "?p x" by auto
  then have "?f x \<in> set (agent_job_executions t)"
    unfolding t nu(2) using map_if_in [OF x(1), of ?p ?f] by simp
  moreover have done0: "\<not> active r" if "r \<in> set (agent_job_executions t)" "ae_id r = i" for r
  proof -
    from that(1) obtain q where q: "q \<in> set (agent_job_executions s)" "r = (if ?p q then ?f q else q)"
      unfolding t nu(2) by auto
    with that(2) only have "q = x" by (auto split: if_splits)
    with q px have "r = ?f x" by simp
    with st show ?thesis
      by (auto simp: active_def terminalExecutionStatus_def StatusSucceeded_def StatusFailed_def StatusCancelled_def)
  qed
  moreover have "\<exists>err. FinishExecution en sqlnow' org i status' message' t = (Inl err, t)"
    by (rule finish_refused) (use done0 in blast)
  ultimately show ?thesis using x(2) t(2) by (intro conjI bexI [of _ "?f x"]) simp_all
qed

theorem finishing_is_final_witness:
  "\<exists>t err. FinishExecution True 8 ''org'' ''x'' ''failed'' '' boom '' demo_jobs_db = (Inr (), t) \<and>
     FinishExecution True 9 ''org'' ''x'' ''succeeded'' [] t = (Inl err, t)"
proof -
  let ?run = "FinishExecution True 8 ''org'' ''x'' ''failed'' '' boom '' demo_jobs_db"
  have "fst ?run = Inr ()" by code_simp
  then have run: "?run = (Inr (), snd ?run)" by (metis prod.collapse)
  from finishing_is_final [OF run demo_jobs_ok, where en = True and sqlnow' = 9 and status' = "''succeeded''" and message' = "[]"]
    run show ?thesis by blast
qed

section \<open>Jobs\<close>

text \<open>A job that was created reads back as it was answered, with the cleaned form of what was entered:
  names trimmed, the repositories without blanks and repetitions, a supported model, and a next run
  that the schedule gives, if it is enabled.\<close>

theorem created_job_reads_back:
  assumes "Create True env agents rnd sqlnow org input now s = (Inr j, t)"
  shows "Get True org (job_ID j) t = (Inr j, t) \<and> job_ID j = newID ''job'' rnd \<and> job_OrgID j = org \<and>
    job_Name j = trim_space (ji_Name input) \<and> job_Name j \<noteq> [] \<and>
    job_AdditionalRepos j = cleanRepos (ji_AdditionalRepos input) \<and>
    distinct (map (\<lambda>r. to_lower (Slug r)) (job_AdditionalRepos j)) \<and>
    job_Model j \<in> set validJobModels \<and>
    (if ji_Enabled input
     then NextRun env (job_CronSchedule j) (job_Timezone j) now = Inr (job_NextRunAt j)
     else job_NextRunAt j = zero_time)"
proof -
  let ?c = "cleanInput input"
  from assms obtain clean u nxt row where
    v: "validateInput env agents org input s = (Inr clean, u)" and
    n: "nextOfInput env clean now = Inr nxt" and
    cr: "CreateAgentJob sqlnow (jobParams (newID ''job'' rnd) org clean nxt) u = (Inr row, t)" and
    j: "jobFromRow row = Inr j"
    by (auto simp: Create_def ok_simps not_configured_def split: if_splits)
  from v have clean: "clean = ?c" "ji_Model ?c \<in> set validJobModels" "ji_Name ?c \<noteq> []"
    by (auto simp: validateInput_def ok_simps Let_def split: if_splits sum.splits)
  from cr have row: "row = (jobParams (newID ''job'' rnd) org ?c nxt)\<lparr>aj_created_at := Some sqlnow, aj_updated_at := Some sqlnow\<rparr>"
      and t: "find (\<lambda>x. aj_id x = newID ''job'' rnd) (agent_jobs u) = None" "agent_jobs t = agent_jobs u @ [row]"
    unfolding CreateAgentJob_def Let_def clean by (auto elim!: jobs.insert_cases simp: jobParams_def)
  have ids: "aj_id row = newID ''job'' rnd" "aj_org_id row = org" by (simp_all add: row jobParams_def)
  have "find (\<lambda>r. aj_org_id r = org \<and> aj_id r = newID ''job'' rnd) (agent_jobs u) = None"
    using t(1) by (auto simp: find_None_iff)
  then have "find (\<lambda>r. aj_org_id r = org \<and> aj_id r = newID ''job'' rnd) (agent_jobs t) = Some row"
    by (simp add: t(2) find_append ids)
  then have "Get True org (newID ''job'' rnd) t = (Inr j, t)"
    by (simp add: Get_def attempt_run GetAgentJob_def sql_get_def j)
  moreover have "from_timestamptz (timeParam nxt) = nxt"
    by (simp add: timeParam_def from_timestamptz_def is_zero_time_def)
  ultimately show ?thesis
    using j n clean(2,3) clean_loop_distinct [of "ji_AdditionalRepos input" "[]"]
    by (auto simp: jobFromRow_def row jobParams_def clean(1) nextOfInput_def cleanInput_def cleanRepos_def Let_def
        split: if_splits)
qed

definition demo_input :: job_input where
  "demo_input = \<lparr>ji_Name = '' nightly '', ji_Definition = ''update'', ji_AgentSlug = [], ji_PrimaryOwner = ''acme'',
     ji_PrimaryRepo = ''app'', ji_AdditionalRepos = [\<lparr>rr_Owner = ''acme'', rr_Name = ''Lib''\<rparr>,
       \<lparr>rr_Owner = ''acme '', rr_Name = ''lib''\<rparr>], ji_CronSchedule = ''0 * * * *'', ji_Timezone = [],
     ji_Model = [], ji_Enabled = True\<rparr>"

definition demo_repos_db :: jobs_db where
  "demo_repos_db = demo_jobs_db\<lparr>github_app_installations := [\<lparr>gi_installation_id = 1, gi_org_id = ''org'', gi_suspended_at = None\<rparr>],
     github_repos := [\<lparr>gr_installation_id = 1, gr_repo_id = 1, gr_owner = ''acme'', gr_name = ''app''\<rparr>,
       \<lparr>gr_installation_id = 1, gr_repo_id = 2, gr_owner = ''acme'', gr_name = ''Lib''\<rparr>]\<rparr>"

theorem created_job_reads_back_witness:
  "\<exists>j t. Create True demo_env None [10] 50 ''org'' demo_input 60 demo_repos_db = (Inr j, t) \<and>
     Get True ''org'' (job_ID j) t = (Inr j, t) \<and> job_Model j = ''opus''"
proof -
  let ?run = "Create True demo_env None [10] 50 ''org'' demo_input 60 demo_repos_db"
  have "(case fst ?run of Inl e \<Rightarrow> None | Inr j \<Rightarrow> Some (job_Model j)) = Some ''opus''" by code_simp
  then obtain j where "fst ?run = Inr j" and m: "job_Model j = ''opus''" by (auto split: sum.splits)
  then have run: "?run = (Inr j, snd ?run)" by (metis prod.collapse)
  from created_job_reads_back [OF run] run m show ?thesis by blast
qed

end
