(* ===== verification/Auto_Merge_Types.thy ===== *)
theory Auto_Merge_Types
  imports Go_Json
begin

text \<open>
  The values of automatic merging (internal/bot/auto_merge.go and its companions): the assessment an
  agent writes, the results of the gates, the outcome, and what the code reads of GitHub's objects.
  Each field of a GitHub object is what its getter answers; an optional one is a pointer.
\<close>

section \<open>Constants\<close>

definition autoMergeAssessmentMarker :: string where
  "autoMergeAssessmentMarker = ''HETCHY_AUTO_MERGE_ASSESSMENT''"

definition autoMergeSafeLabel :: string where "autoMergeSafeLabel = ''Hetchy: Safe to Merge''"
definition autoMergeHumanReviewLabel :: string where "autoMergeHumanReviewLabel = ''Hetchy: Human Review Needed''"

definition autoMergeStateOff :: string where "autoMergeStateOff = ''off''"
definition autoMergeStateAssessing :: string where "autoMergeStateAssessing = ''assessing_merge_safety''"
definition autoMergeStateSafeToMerge :: string where "autoMergeStateSafeToMerge = ''safe_to_merge''"
definition autoMergeStateWaitingReviews :: string where "autoMergeStateWaitingReviews = ''waiting_for_reviews''"
definition autoMergeStateWaitingChecks :: string where "autoMergeStateWaitingChecks = ''waiting_for_checks''"
definition autoMergeStateHumanReview :: string where "autoMergeStateHumanReview = ''human_review_needed''"
definition autoMergeStateMerged :: string where "autoMergeStateMerged = ''merged''"

definition autoMergeRecommendationSafe :: string where "autoMergeRecommendationSafe = ''safe_to_merge''"
definition autoMergeRecommendationHumanReview :: string where
  "autoMergeRecommendationHumanReview = ''human_review_needed''"

definition autoMergeRiskLow :: string where "autoMergeRiskLow = ''low''"
definition autoMergeConfidenceHigh :: string where "autoMergeConfidenceHigh = ''high''"

definition autoMergeEventWaitingReviews :: string where
  "autoMergeEventWaitingReviews = ''auto_merge_waiting_for_reviews''"
definition autoMergeEventWaitingChecks :: string where
  "autoMergeEventWaitingChecks = ''auto_merge_waiting_for_checks''"
definition autoMergeEventBlocked :: string where "autoMergeEventBlocked = ''auto_merge_blocked''"
definition autoMergeEventMerged :: string where "autoMergeEventMerged = ''auto_merge_merged''"

definition autoMergeMaxFiles :: nat where "autoMergeMaxFiles = 30"
definition autoMergeMaxChanges :: int where "autoMergeMaxChanges = 1000"

lemmas auto_merge_states = autoMergeStateOff_def autoMergeStateAssessing_def autoMergeStateSafeToMerge_def
  autoMergeStateWaitingReviews_def autoMergeStateWaitingChecks_def autoMergeStateHumanReview_def
  autoMergeStateMerged_def

section \<open>Assessments, gates and outcomes\<close>

record remaining_issue =
  issue_Severity :: string
  issue_Summary :: string
  issue_Description :: string

record assessment =
  as_Recommendation :: string
  as_Risk :: string
  as_Confidence :: string
  as_Summary :: string
  as_RiskFactors :: "string list"
  as_TestsSeenPassing :: "string list"
  as_ReviewIterations :: "string list"
  as_RemainingIssues :: "remaining_issue list"
  as_DangerousChangeCategories :: "string list"
  as_HeadSHA :: string

record gate_result =
  gate_Passed :: bool
  gate_State :: string
  gate_Reason :: string
  gate_Details :: "string list"

record merge_outcome =
  mo_Requested :: bool
  mo_State :: string
  mo_Label :: string
  mo_Assessment :: "assessment option"
  mo_ServerGate :: gate_result
  mo_GitHubGate :: gate_result
  mo_BlockedReason :: string
  mo_JudgedHeadSHA :: string
  mo_MergedAt :: string
  mo_LabelsApplied :: "string list"

definition zero_gate :: gate_result where
  "zero_gate = \<lparr>gate_Passed = False, gate_State = [], gate_Reason = [], gate_Details = []\<rparr>"

definition zero_outcome :: merge_outcome where
  "zero_outcome = \<lparr>mo_Requested = False, mo_State = [], mo_Label = [], mo_Assessment = None,
     mo_ServerGate = zero_gate, mo_GitHubGate = zero_gate, mo_BlockedReason = [], mo_JudgedHeadSHA = [],
     mo_MergedAt = [], mo_LabelsApplied = []\<rparr>"

text \<open>The composite literal autoMergeGateResult with a state and a reason.\<close>

definition gate :: "bool \<Rightarrow> string \<Rightarrow> string \<Rightarrow> gate_result" where
  "gate passed st reason = zero_gate\<lparr>gate_Passed := passed, gate_State := st, gate_Reason := reason\<rparr>"

lemma gate_simps [simp]:
  "gate_Passed (gate p st r) = p" "gate_State (gate p st r) = st" "gate_Reason (gate p st r) = r"
  "gate_Details (gate p st r) = []"
  by (simp_all add: gate_def zero_gate_def)

section \<open>What is read of GitHub\<close>

record github_pr =
  pr_HeadSHA :: string
  pr_BaseRef :: string
  pr_Merged :: bool
  pr_State :: string
  pr_Draft :: bool
  pr_MergeableState :: string

record commit_file =
  cf_Filename :: string
  cf_Status :: string
  cf_Changes :: int

record repo_status =
  st_Context :: string
  st_State :: string

record check_run =
  ck_Name :: string
  ck_Status :: string
  ck_Conclusion :: string

record pr_review =
  rv_Login :: "string option"
  rv_State :: string
  rv_SubmittedAt :: go_time
  rv_ID :: int

record status_checks =
  sc_Contexts :: "string list option"
  sc_Checks :: "string option list option"

record protection =
  pt_StatusChecks :: "status_checks option"
  pt_Approvals :: "int option"

record snapshot =
  sn_PR :: "github_pr option"
  sn_Files :: "commit_file option list"
  sn_Protection :: "protection option"
  sn_Statuses :: "repo_status list option"
  sn_CheckRuns :: "check_run list"
  sn_Reviews :: "pr_review option list"

section \<open>Helpers\<close>

definition sameSHA :: "string \<Rightarrow> string \<Rightarrow> bool" where
  "sameSHA a b \<longleftrightarrow> equal_fold (trim_space a) (trim_space b)"

definition shortSHA :: "string \<Rightarrow> string" where
  "shortSHA sha0 = (let sha = trim_space sha0 in if length sha \<le> 7 then sha else take 7 sha)"

definition trimmedStrings :: "string list \<Rightarrow> string list" where
  "trimmedStrings xs = filter (\<lambda>s. s \<noteq> []) (map trim_space xs)"

fun firstNonEmpty :: "string list \<Rightarrow> string" where
  "firstNonEmpty [] = []"
| "firstNonEmpty (v # vs) = (if trim_space v \<noteq> [] then v else firstNonEmpty vs)"

text \<open>validateAutoMergeAssessment first normalises the assessment it points to.\<close>

definition normalize_issue :: "remaining_issue \<Rightarrow> remaining_issue" where
  "normalize_issue i = \<lparr>issue_Severity = to_lower (trim_space (issue_Severity i)),
     issue_Summary = trim_space (issue_Summary i), issue_Description = trim_space (issue_Description i)\<rparr>"

definition normalizeAutoMergeAssessment :: "assessment \<Rightarrow> assessment" where
  "normalizeAutoMergeAssessment a =
     \<lparr>as_Recommendation = to_lower (trim_space (as_Recommendation a)), as_Risk = to_lower (trim_space (as_Risk a)),
      as_Confidence = to_lower (trim_space (as_Confidence a)), as_Summary = trim_space (as_Summary a),
      as_RiskFactors = trimmedStrings (as_RiskFactors a), as_TestsSeenPassing = trimmedStrings (as_TestsSeenPassing a),
      as_ReviewIterations = trimmedStrings (as_ReviewIterations a),
      as_RemainingIssues = map normalize_issue (as_RemainingIssues a),
      as_DangerousChangeCategories = trimmedStrings (as_DangerousChangeCategories a),
      as_HeadSHA = trim_space (as_HeadSHA a)\<rparr>"

text \<open>The error, if any, and the normalised assessment.\<close>

definition validateAutoMergeAssessment :: "assessment option \<Rightarrow> go_error option \<times> assessment option" where
  "validateAutoMergeAssessment a0 =
     (case a0 of
        None \<Rightarrow> (Some (ErrNew ''missing auto merge assessment''), None)
      | Some a1 \<Rightarrow>
          let a = normalizeAutoMergeAssessment a1 in
          (if as_Recommendation a \<notin> {autoMergeRecommendationSafe, autoMergeRecommendationHumanReview}
           then Some (ErrNew (''invalid auto merge recommendation \"'' @ as_Recommendation a @ ''\"''))
           else if as_Risk a \<notin> {''low'', ''medium'', ''high''}
           then Some (ErrNew (''invalid auto merge risk \"'' @ as_Risk a @ ''\"''))
           else if as_Confidence a \<notin> {''high'', ''medium'', ''low''}
           then Some (ErrNew (''invalid auto merge confidence \"'' @ as_Confidence a @ ''\"''))
           else if trim_space (as_Summary a) = [] then Some (ErrNew ''auto merge assessment summary is missing'')
           else if trim_space (as_HeadSHA a) = [] then Some (ErrNew ''auto merge assessment head_sha is missing'')
           else None, Some a))"

section \<open>Normalisation\<close>

lemma lower_char_idem [simp]: "lower_char (lower_char c) = lower_char c"
  by (simp add: lower_char_def Let_def)

lemma to_lower_idem [simp]: "to_lower (to_lower s) = to_lower s"
  by (simp add: to_lower_def)

lemma dropWhile_lower: "dropWhile is_space (map lower_char s) = map lower_char (dropWhile is_space s)"
  by (simp add: dropWhile_map comp_def)

lemma trim_lower: "trim_space (to_lower s) = to_lower (trim_space s)"
  by (simp add: trim_space_def to_lower_def dropWhile_lower rev_map)

lemma trimmed_idem: "trimmedStrings (trimmedStrings xs) = trimmedStrings xs"
  by (induction xs) (simp_all add: trimmedStrings_def)

lemma normalize_idem: "normalizeAutoMergeAssessment (normalizeAutoMergeAssessment a) = normalizeAutoMergeAssessment a"
  by (simp add: normalizeAutoMergeAssessment_def trim_lower trimmed_idem comp_def normalize_issue_def)

end
