(* ===== verification/Auto_Merge_Gates.thy ===== *)
theory Auto_Merge_Gates
  imports Auto_Merge_Types
begin

text \<open>
  The two gates of internal/bot/auto_merge_gates.go: the server's, on the assessment and the changed
  files, and GitHub's, on the state of the pull request. \<open>order\<close> is the order in which Go visits the
  keys of the map of required checks, which only chooses the name in a reason.
\<close>

section \<open>The server gate\<close>

definition isMigrationPath :: "string \<Rightarrow> bool" where
  "isMigrationPath path \<longleftrightarrow> contains path ''/migrations/'' \<or> has_prefix path ''db/migrations/'' \<or> has_prefix path ''migrations/''"

definition isDependencyPath :: "string \<Rightarrow> bool" where
  "isDependencyPath path \<longleftrightarrow> path \<in> {''go.mod'', ''go.sum'', ''package.json'', ''package-lock.json'', ''pnpm-lock.yaml'',
     ''yarn.lock'', ''bun.lockb'', ''gemfile.lock'', ''cargo.lock''} \<or> has_suffix path ''.csproj'' \<or> has_suffix path ''.fsproj''"

definition isDeploymentPath :: "string \<Rightarrow> bool" where
  "isDeploymentPath path \<longleftrightarrow> path = ''dockerfile'' \<or> contains path ''docker-compose'' \<or>
     has_prefix path ''.github/workflows/'' \<or> contains path ''railway'' \<or> contains path ''terraform'' \<or>
     contains path ''helm/'' \<or> contains path ''k8s/'' \<or> contains path ''kubernetes''"

definition isAuthOrSecurityPath :: "string \<Rightarrow> bool" where
  "isAuthOrSecurityPath path \<longleftrightarrow> contains path ''auth'' \<or> contains path ''oauth'' \<or> contains path ''jwt'' \<or>
     contains path ''permission'' \<or> contains path ''security'' \<or> contains path ''secret'' \<or> contains path ''credential''"

definition isPaymentPath :: "string \<Rightarrow> bool" where
  "isPaymentPath path \<longleftrightarrow> contains path ''stripe'' \<or> contains path ''billing'' \<or> contains path ''payment'' \<or>
     contains path ''checkout'' \<or> contains path ''invoice''"

definition isTestPath :: "string \<Rightarrow> bool" where
  "isTestPath path \<longleftrightarrow>
     (let base = (case last_index path ''/'' of Some i \<Rightarrow> drop (i + 1) path | None \<Rightarrow> path)
      in contains base ''test'' \<or> has_suffix base ''_spec.rb'' \<or> has_suffix base ''_test.go'')"

definition file_reasons :: "commit_file \<Rightarrow> string list" where
  "file_reasons f =
     (let name = to_lower (trim_space (cf_Filename f)); status = to_lower (trim_space (cf_Status f)) in
      (if isMigrationPath name then [''schema migration changed: '' @ cf_Filename f]
       else if isDependencyPath name then [''dependency manifest or lockfile changed: '' @ cf_Filename f]
       else if isDeploymentPath name then [''deployment or CI configuration changed: '' @ cf_Filename f]
       else if isAuthOrSecurityPath name then [''auth or security-sensitive path changed: '' @ cf_Filename f]
       else if isPaymentPath name then [''payment or billing path changed: '' @ cf_Filename f]
       else []) @
      (if status = ''removed'' \<and> isTestPath name then [''test file deleted: '' @ cf_Filename f] else []))"

fun file_loop :: "commit_file option list \<Rightarrow> int \<Rightarrow> int \<times> string list" where
  "file_loop [] changes = (changes, [])"
| "file_loop (None # fs) changes = file_loop fs changes"
| "file_loop (Some f # fs) changes =
     (let (t, rs) = file_loop fs (changes + cf_Changes f) in (t, file_reasons f @ rs))"

definition autoMergeFileRiskReasons :: "commit_file option list \<Rightarrow> string list" where
  "autoMergeFileRiskReasons files =
     (let (changes, per_file) = file_loop files 0;
        reasons = (if autoMergeMaxFiles < length files
            then [''broad file count: '' @ itoa (int (length files)) @ '' files changed''] else []) @ per_file @
          (if autoMergeMaxChanges < changes then [''large diff: '' @ itoa changes @ '' changed lines''] else [])
      in remdups_adj (sort reasons))"

definition issue_reason :: "remaining_issue \<Rightarrow> string list" where
  "issue_reason i =
     (let severity = to_lower (trim_space (issue_Severity i)) in
      if severity = [] \<and> trim_space (issue_Summary i) = [] \<and> trim_space (issue_Description i) = [] then []
      else if severity = [] then [''remaining issue is missing severity'']
      else if severity \<noteq> ''low'' \<and> severity \<noteq> ''none'' then [''remaining issue above LOW: '' @ severity]
      else [])"

definition category_reason :: "string \<Rightarrow> string list" where
  "category_reason c0 =
     (let c = to_lower (trim_space c0) in
      if c \<in> {[], ''none'', ''n/a'', ''not applicable''} then [] else [''dangerous change category reported: '' @ c])"

definition server_reasons :: "assessment \<Rightarrow> string \<Rightarrow> commit_file option list \<Rightarrow> string list" where
  "server_reasons a currentHead files =
     (if as_Recommendation a \<noteq> autoMergeRecommendationSafe
      then [''assessment recommendation is '' @ as_Recommendation a] else []) @
     (if as_Risk a \<noteq> autoMergeRiskLow then [''assessment risk is '' @ as_Risk a] else []) @
     (if as_Confidence a \<noteq> autoMergeConfidenceHigh then [''assessment confidence is '' @ as_Confidence a] else []) @
     (if \<not> sameSHA (as_HeadSHA a) currentHead then [''assessment head SHA does not match current PR head''] else []) @
     (if trimmedStrings (as_TestsSeenPassing a) = [] then [''assessment has no passing test evidence''] else []) @
     concat (map issue_reason (as_RemainingIssues a)) @
     concat (map category_reason (as_DangerousChangeCategories a)) @
     autoMergeFileRiskReasons files"

text \<open>\<open>pg\<close> stands for the texts of the errors of other packages, as in \<open>err_text\<close>.\<close>

definition evaluateAutoMergeServerGate ::
  "(go_error \<Rightarrow> string) \<Rightarrow> assessment option \<Rightarrow> string \<Rightarrow> commit_file option list \<Rightarrow> gate_result \<times> assessment option" where
  "evaluateAutoMergeServerGate pg a0 currentHead files =
     (case a0 of
        None \<Rightarrow> (gate False autoMergeStateHumanReview ''missing auto merge assessment'', None)
      | Some _ \<Rightarrow> (case validateAutoMergeAssessment a0 of
            (Some e, a) \<Rightarrow> (gate False autoMergeStateHumanReview (err_text pg e), a)
          | (None, None) \<Rightarrow> (gate False autoMergeStateHumanReview ''missing auto merge assessment'', None)
          | (None, Some a) \<Rightarrow> (case server_reasons a currentHead files of
                [] \<Rightarrow> (gate True autoMergeStateSafeToMerge ''server safety gates passed'', Some a)
              | r # rs \<Rightarrow> ((gate False autoMergeStateHumanReview r)\<lparr>gate_Details := r # rs\<rparr>, Some a))))"

section \<open>The GitHub gate\<close>

definition the_list :: "'a list option \<Rightarrow> 'a list" where
  "the_list xs = (case xs of None \<Rightarrow> [] | Some l \<Rightarrow> l)"

definition requiredStatusNames :: "protection option \<Rightarrow> string list" where
  "requiredStatusNames p =
     (case p of
        None \<Rightarrow> []
      | Some q \<Rightarrow> (case pt_StatusChecks q of
            None \<Rightarrow> []
          | Some c \<Rightarrow> remdups (trimmedStrings (the_list (sc_Contexts c)) @
              trimmedStrings (List.map_filter id (the_list (sc_Checks c))))))"

definition checkConclusionPasses :: "string \<Rightarrow> bool" where
  "checkConclusionPasses conclusion \<longleftrightarrow> to_lower (trim_space conclusion) \<in> {''success'', ''neutral'', ''skipped''}"

text \<open>The loops of autoMergeCheckWaitReason: a reason to wait, or the names seen to have passed.\<close>

fun wait_statuses :: "string list \<Rightarrow> repo_status list \<Rightarrow> string list \<Rightarrow> string + string list" where
  "wait_statuses required [] seen = Inr seen"
| "wait_statuses required (st # sts) seen =
     (let name = trim_space (st_Context st) in
      if name \<notin> set required then wait_statuses required sts seen
      else let state = to_lower (trim_space (st_State st)) in
        if state = ''success'' then wait_statuses required sts (name # seen)
        else if state \<noteq> [] then Inl (''required status check '' @ name @ '' is '' @ state)
        else wait_statuses required sts seen)"

fun wait_runs :: "string list \<Rightarrow> check_run list \<Rightarrow> string list \<Rightarrow> string + string list" where
  "wait_runs required [] seen = Inr seen"
| "wait_runs required (r # rs) seen =
     (let name = trim_space (ck_Name r) in
      if name \<notin> set required then wait_runs required rs seen
      else if checkConclusionPasses (ck_Conclusion r) then wait_runs required rs (name # seen)
      else if \<not> equal_fold (ck_Status r) ''completed''
      then Inl (''required check run '' @ firstNonEmpty [ck_Name r, ''unnamed''] @ '' is still '' @ ck_Status r)
      else wait_runs required rs seen)"

definition autoMergeCheckWaitReason :: "(string list \<Rightarrow> string list) \<Rightarrow> snapshot \<Rightarrow> string option" where
  "autoMergeCheckWaitReason order s =
     (let required = requiredStatusNames (sn_Protection s) in
      case wait_statuses required (the_list (sn_Statuses s)) [] of
        Inl reason \<Rightarrow> Some reason
      | Inr seen \<Rightarrow> (case wait_runs required (sn_CheckRuns s) seen of
            Inl reason \<Rightarrow> Some reason
          | Inr seen' \<Rightarrow> (case filter (\<lambda>n. n \<notin> set seen') (order required) of
                [] \<Rightarrow> None
              | n # _ \<Rightarrow> Some (''required check has not passed: '' @ n))))"

fun block_statuses :: "string list \<Rightarrow> repo_status list \<Rightarrow> string option" where
  "block_statuses required [] = None"
| "block_statuses required (st # sts) =
     (let name = trim_space (st_Context st) in
      if name \<notin> set required then block_statuses required sts
      else let state = to_lower (trim_space (st_State st)) in
        if state = ''failure'' \<or> state = ''error'' then Some (''required status check '' @ name @ '' is '' @ state)
        else block_statuses required sts)"

fun block_runs :: "string list \<Rightarrow> check_run list \<Rightarrow> string option" where
  "block_runs required [] = None"
| "block_runs required (r # rs) =
     (let name = trim_space (ck_Name r) in
      if name \<notin> set required then block_runs required rs
      else if \<not> equal_fold (ck_Status r) ''completed'' then block_runs required rs
      else if \<not> checkConclusionPasses (ck_Conclusion r)
      then Some (''required check run '' @ firstNonEmpty [name, ''unnamed''] @ '' concluded '' @ ck_Conclusion r)
      else block_runs required rs)"

definition autoMergeCheckBlockReason :: "snapshot \<Rightarrow> string option" where
  "autoMergeCheckBlockReason s =
     (let required = requiredStatusNames (sn_Protection s) in
      case block_statuses required (the_list (sn_Statuses s)) of
        Some reason \<Rightarrow> Some reason
      | None \<Rightarrow> block_runs required (sn_CheckRuns s))"

text \<open>The latest decisive review of each login: its state, time and id.\<close>

definition note_review :: "pr_review option \<Rightarrow> (string \<rightharpoonup> string \<times> go_time \<times> int) \<Rightarrow> (string \<rightharpoonup> string \<times> go_time \<times> int)" where
  "note_review r latest =
     (case r of
        None \<Rightarrow> latest
      | Some rv \<Rightarrow> (case rv_Login rv of
            None \<Rightarrow> latest
          | Some login \<Rightarrow>
              let state = to_upper (trim_space (rv_State rv)); t = rv_SubmittedAt rv; i = rv_ID rv in
              if login = [] \<or> state \<in> {[], ''COMMENTED'', ''DISMISSED''} then latest
              else (case latest login of
                  None \<Rightarrow> latest(login \<mapsto> (state, t, i))
                | Some (_, pt, pid) \<Rightarrow> if pt < t \<or> t = pt \<and> pid < i then latest(login \<mapsto> (state, t, i)) else latest)))"

definition latestReviewStatesByUser :: "pr_review option list \<Rightarrow> (string \<rightharpoonup> string)" where
  "latestReviewStatesByUser reviews = map_option fst \<circ> fold note_review reviews Map.empty"

definition review_logins :: "pr_review option list \<Rightarrow> string list" where
  "review_logins reviews = remdups (List.map_filter rv_Login (List.map_filter id reviews))"

definition autoMergeApprovalCount :: "pr_review option list \<Rightarrow> int" where
  "autoMergeApprovalCount reviews =
     int (length (filter (\<lambda>l. latestReviewStatesByUser reviews l = Some ''APPROVED'') (review_logins reviews)))"

definition autoMergeReviewWaitReason :: "snapshot \<Rightarrow> string option" where
  "autoMergeReviewWaitReason s =
     (let required = (case sn_Protection s of
          None \<Rightarrow> 0
        | Some p \<Rightarrow> (case pt_Approvals p of None \<Rightarrow> 0 | Some n \<Rightarrow> n)) in
      if required \<le> 0 then None
      else let approved = autoMergeApprovalCount (sn_Reviews s) in
        if approved < required
        then Some (''required reviews are not satisfied: '' @ itoa approved @ '' of '' @ itoa required @ '' approvals'')
        else None)"

definition autoMergeReviewBlockReason :: "snapshot \<Rightarrow> string option" where
  "autoMergeReviewBlockReason s =
     (if list_ex (\<lambda>l. latestReviewStatesByUser (sn_Reviews s) l = Some ''CHANGES_REQUESTED'') (review_logins (sn_Reviews s))
      then Some ''a reviewer has requested changes'' else None)"

definition evaluateAutoMergeGitHubGate ::
  "(string list \<Rightarrow> string list) \<Rightarrow> snapshot \<Rightarrow> string \<Rightarrow> gate_result" where
  "evaluateAutoMergeGitHubGate order s judgedHead =
     (case sn_PR s of
        None \<Rightarrow> gate False autoMergeStateHumanReview ''missing GitHub pull request state''
      | Some pr \<Rightarrow>
          if \<not> sameSHA judgedHead (pr_HeadSHA pr)
          then gate False autoMergeStateHumanReview ''PR head changed after assessment''
          else if pr_Merged pr then gate True autoMergeStateMerged ''PR is already merged''
          else if \<not> equal_fold (pr_State pr) ''open'' then gate False autoMergeStateHumanReview ''PR is not open''
          else if pr_Draft pr then gate False autoMergeStateHumanReview ''PR is a draft''
          else let mergeable = to_lower (trim_space (pr_MergeableState pr)) in
            if mergeable = ''dirty'' then gate False autoMergeStateHumanReview ''PR has merge conflicts''
            else if mergeable = ''unknown''
            then gate False autoMergeStateWaitingChecks ''GitHub mergeability is still being calculated''
            else case autoMergeCheckBlockReason s of
              Some reason \<Rightarrow> gate False autoMergeStateHumanReview reason
            | None \<Rightarrow> (case autoMergeCheckWaitReason order s of
                Some reason \<Rightarrow> gate False autoMergeStateWaitingChecks reason
              | None \<Rightarrow> (case autoMergeReviewWaitReason s of
                  Some reason \<Rightarrow> gate False autoMergeStateWaitingReviews reason
                | None \<Rightarrow> (case autoMergeReviewBlockReason s of
                    Some reason \<Rightarrow> gate False autoMergeStateHumanReview reason
                  | None \<Rightarrow>
                      if mergeable = ''blocked''
                      then gate False autoMergeStateWaitingReviews ''GitHub reports branch protection is still blocking merge''
                      else if mergeable = ''behind''
                      then gate False autoMergeStateHumanReview ''PR branch is behind the protected base branch''
                      else gate True autoMergeStateSafeToMerge ''GitHub requirements are satisfied''))))"

end
