(* ===== verification/Auto_Merge_Flow.thy ===== *)
theory Auto_Merge_Flow
  imports Auto_Merge_Gates
begin

text \<open>
  The calls to GitHub of internal/bot/auto_merge.go and auto_merge_labels.go, over the client as a
  record of operations on its own state: the snapshot, the labels, the method and the merge. Lists are
  read page by page; None stands for a listing that never ends.
\<close>

section \<open>The client\<close>

text \<open>What failed: the status of the response, that of the error, and the error.\<close>

record gh_error =
  ge_RespStatus :: "int option"
  ge_ErrStatus :: "int option"
  ge_Error :: go_error

definition githubHTTPStatus :: "int option \<Rightarrow> int option \<Rightarrow> int" where
  "githubHTTPStatus resp err = (case resp of Some n \<Rightarrow> n | None \<Rightarrow> (case err of Some n \<Rightarrow> n | None \<Rightarrow> 0))"

type_synonym ('g, 'a) gh = "'g \<Rightarrow> (gh_error + 'a) \<times> 'g"

record repo_settings =
  rs_AllowSquashMerge :: "bool option"
  rs_AllowMergeCommit :: "bool option"
  rs_AllowRebaseMerge :: "bool option"

record parsed_pr =
  pp_Owner :: string
  pp_Repo :: string
  pp_Number :: int

record 'g github_client =
  gh_GetPR :: "parsed_pr \<Rightarrow> ('g, github_pr option) gh"
  gh_ListFiles :: "parsed_pr \<Rightarrow> int \<Rightarrow> ('g, commit_file option list \<times> int) gh"
  gh_ListReviews :: "parsed_pr \<Rightarrow> int \<Rightarrow> ('g, pr_review option list \<times> int) gh"
  gh_CombinedStatus :: "parsed_pr \<Rightarrow> string \<Rightarrow> ('g, repo_status list option) gh"
  gh_CheckRuns :: "parsed_pr \<Rightarrow> string \<Rightarrow> ('g, check_run list option) gh"
  gh_BranchProtection :: "parsed_pr \<Rightarrow> string \<Rightarrow> ('g, protection option) gh"
  gh_GetLabel :: "parsed_pr \<Rightarrow> string \<Rightarrow> ('g, unit) gh"
  gh_CreateLabel :: "parsed_pr \<Rightarrow> string \<Rightarrow> string \<Rightarrow> string \<Rightarrow> ('g, unit) gh"
  gh_RemoveLabel :: "parsed_pr \<Rightarrow> string \<Rightarrow> ('g, unit) gh"
  gh_AddLabels :: "parsed_pr \<Rightarrow> string list \<Rightarrow> ('g, unit) gh"
  gh_GetRepository :: "parsed_pr \<Rightarrow> ('g, repo_settings option) gh"
  gh_Merge :: "parsed_pr \<Rightarrow> string \<Rightarrow> string \<Rightarrow> ('g, unit) gh"

text \<open>A call whose answer, error included, the code inspects.\<close>

definition call :: "('g, 'a) gh \<Rightarrow> (gh_error + 'a \<Rightarrow> ('g, 'b) go) \<Rightarrow> ('g, 'b) go" where
  "call m k = (\<lambda>s. case m s of (r, t) \<Rightarrow> k r t)"

section \<open>The snapshot\<close>

text \<open>The loops of listAllPRFiles and listAllPRReviews; page 0 is the option that is not set.\<close>

partial_function (option) list_pages ::
  "(int \<Rightarrow> ('g, 'x list \<times> int) gh) \<Rightarrow> string \<Rightarrow> int \<Rightarrow> 'x list \<Rightarrow> 'g \<Rightarrow> ((go_error + 'x list) \<times> 'g) option" where
  "list_pages list msg page out s =
     (case list page s of
        (Inl e, t) \<Rightarrow> Some (Inl (Wrapped msg (ge_Error e)), t)
      | (Inr (xs, nextPage), t) \<Rightarrow>
          if nextPage = 0 then Some (Inr (out @ xs), t) else list_pages list msg nextPage (out @ xs) t)"

definition listAllPRFiles ::
  "'g github_client \<Rightarrow> parsed_pr \<Rightarrow> 'g \<Rightarrow> ((go_error + commit_file option list) \<times> 'g) option" where
  "listAllPRFiles c p s = list_pages (gh_ListFiles c p) ''fetch pull request files'' 0 [] s"

definition listAllPRReviews ::
  "'g github_client \<Rightarrow> parsed_pr \<Rightarrow> 'g \<Rightarrow> ((go_error + pr_review option list) \<times> 'g) option" where
  "listAllPRReviews c p s = list_pages (gh_ListReviews c p) ''fetch pull request reviews'' 0 [] s"

text \<open>The reads after the two listings.\<close>

definition fetch_checks ::
  "'g github_client \<Rightarrow> parsed_pr \<Rightarrow> github_pr \<Rightarrow> commit_file option list \<Rightarrow> pr_review option list \<Rightarrow> ('g, snapshot) go" where
  "fetch_checks c p pr files reviews =
     call (gh_CombinedStatus c p (pr_HeadSHA pr)) (\<lambda>r.
       case (case r of
           Inr combined \<Rightarrow> Inr combined
         | Inl e \<Rightarrow> if githubHTTPStatus (ge_RespStatus e) (ge_ErrStatus e) \<notin> {403, 404}
             then Inl (Wrapped ''fetch combined status'' (ge_Error e)) else Inr None) of
         Inl e \<Rightarrow> fail e
       | Inr combined \<Rightarrow>
           call (gh_CheckRuns c p (pr_HeadSHA pr)) (\<lambda>r. case r of
             Inl e \<Rightarrow> fail (Wrapped ''fetch check runs'' (ge_Error e))
           | Inr checks \<Rightarrow>
               let answer = (\<lambda>prot. \<lparr>sn_PR = Some pr, sn_Files = files, sn_Protection = prot, sn_Statuses = combined,
                   sn_CheckRuns = the_list checks, sn_Reviews = reviews\<rparr>) in
               if pr_BaseRef pr = [] then ret (answer None)
               else call (gh_BranchProtection c p (pr_BaseRef pr)) (\<lambda>r. case r of
                   Inr prot \<Rightarrow> ret (answer prot)
                 | Inl e \<Rightarrow> if githubHTTPStatus (ge_RespStatus e) (ge_ErrStatus e) \<notin> {404, 403}
                     then fail (Wrapped ''fetch branch protection'' (ge_Error e)) else ret (answer None))))"

definition fetchAutoMergeGitHubSnapshot ::
  "'g github_client \<Rightarrow> parsed_pr \<Rightarrow> 'g \<Rightarrow> ((go_error + snapshot) \<times> 'g) option" where
  "fetchAutoMergeGitHubSnapshot c p s =
     (case gh_GetPR c p s of
        (Inl e, t) \<Rightarrow> Some (Inl (Wrapped ''fetch pull request'' (ge_Error e)), t)
      | (Inr None, t) \<Rightarrow> Some (Inl (ErrNew ''fetch pull request: empty GitHub response''), t)
      | (Inr (Some pr), t) \<Rightarrow> (case listAllPRFiles c p t of
            None \<Rightarrow> None
          | Some (Inl e, u) \<Rightarrow> Some (Inl e, u)
          | Some (Inr files, u) \<Rightarrow> (case listAllPRReviews c p u of
                None \<Rightarrow> None
              | Some (Inl e, v) \<Rightarrow> Some (Inl e, v)
              | Some (Inr reviews, v) \<Rightarrow> Some (fetch_checks c p pr files reviews v))))"

section \<open>Labels\<close>

definition autoMergeSafeLabelDescription :: string where
  "autoMergeSafeLabelDescription = ''Current PR head is low-risk; auto merge waits for GitHub requirements.''"

definition autoMergeHumanReviewLabelDescription :: string where
  "autoMergeHumanReviewLabelDescription = ''Current PR head was not eligible for Hetchy auto merge.''"

definition autoMergeLabelPair :: "string \<Rightarrow> go_error + string \<times> string" where
  "autoMergeLabelPair desired =
     (if desired = autoMergeSafeLabel then Inr (autoMergeSafeLabel, autoMergeHumanReviewLabel)
      else if desired = autoMergeHumanReviewLabel then Inr (autoMergeHumanReviewLabel, autoMergeSafeLabel)
      else Inl (ErrNew (''unknown auto merge label \"'' @ desired @ ''\"'')))"

definition ensureAutoMergeLabel :: "'g github_client \<Rightarrow> parsed_pr \<Rightarrow> string \<Rightarrow> string \<Rightarrow> string \<Rightarrow> ('g, unit) go" where
  "ensureAutoMergeLabel c p name color description =
     call (gh_GetLabel c p name) (\<lambda>r. case r of
       Inr u \<Rightarrow> ret ()
     | Inl e \<Rightarrow>
         if githubHTTPStatus (ge_RespStatus e) (ge_ErrStatus e) \<noteq> 404 then fail (ge_Error e)
         else call (gh_CreateLabel c p name color description) (\<lambda>r. case r of
             Inr u \<Rightarrow> ret ()
           | Inl e \<Rightarrow>
               if githubHTTPStatus (ge_RespStatus e) (ge_ErrStatus e) = 422
               then call (gh_GetLabel c p name) (\<lambda>r. case r of Inr u \<Rightarrow> ret () | Inl e' \<Rightarrow> fail (ge_Error e))
               else fail (ge_Error e)))"

definition ensureAutoMergeLabelState :: "'g github_client \<Rightarrow> parsed_pr \<Rightarrow> string \<Rightarrow> ('g, string list) go" where
  "ensureAutoMergeLabelState c p desired0 =
     (case autoMergeLabelPair desired0 of
        Inl e \<Rightarrow> fail e
      | Inr (desired, opposite) \<Rightarrow>
          andthen (ensureAutoMergeLabel c p autoMergeSafeLabel ''2da44e'' autoMergeSafeLabelDescription) (\<lambda>_.
          andthen (ensureAutoMergeLabel c p autoMergeHumanReviewLabel ''d73a4a'' autoMergeHumanReviewLabelDescription) (\<lambda>_.
          call (gh_RemoveLabel c p opposite) (\<lambda>r.
            case (case r of
                Inr u \<Rightarrow> None
              | Inl e \<Rightarrow> if githubHTTPStatus None (ge_ErrStatus e) \<noteq> 404 then Some (ge_Error e) else None) of
              Some e \<Rightarrow> fail e
            | None \<Rightarrow> call (gh_AddLabels c p [desired]) (\<lambda>r. case r of
                  Inl e \<Rightarrow> fail (ge_Error e)
                | Inr u \<Rightarrow> ret [desired])))))"

definition label_error_prefix :: string where "label_error_prefix = ''apply auto merge label:''"

definition applyAutoMergeLabel ::
  "(go_error \<Rightarrow> string) \<Rightarrow> 'g github_client \<Rightarrow> parsed_pr \<Rightarrow> string \<Rightarrow> merge_outcome \<Rightarrow> 'g \<Rightarrow> merge_outcome \<times> 'g" where
  "applyAutoMergeLabel pg c p desired out s =
     (case ensureAutoMergeLabelState c p desired s of
        (Inl e, t) \<Rightarrow> (out\<lparr>mo_BlockedReason := label_error_prefix @ '' '' @ err_text pg e, mo_LabelsApplied := []\<rparr>, t)
      | (Inr labels, t) \<Rightarrow> (out\<lparr>mo_LabelsApplied := labels\<rparr>, t))"

definition autoMergeLabelFailed :: "merge_outcome \<Rightarrow> bool" where
  "autoMergeLabelFailed out \<longleftrightarrow> has_prefix (mo_BlockedReason out) label_error_prefix"

section \<open>The merge\<close>

definition getter :: "bool option \<Rightarrow> bool" where
  "getter b \<longleftrightarrow> b = Some True"

definition resolveAutoMergeMethod :: "'g github_client \<Rightarrow> parsed_pr \<Rightarrow> ('g, string) go" where
  "resolveAutoMergeMethod c p =
     call (gh_GetRepository c p) (\<lambda>r. case r of
       Inl e \<Rightarrow> fail (Wrapped ''fetch repository merge settings'' (ge_Error e))
     | Inr None \<Rightarrow> ret []
     | Inr (Some rs) \<Rightarrow>
         if rs_AllowSquashMerge rs = None \<and> rs_AllowMergeCommit rs = None \<and> rs_AllowRebaseMerge rs = None then ret []
         else if getter (rs_AllowSquashMerge rs) then ret ''squash''
         else if getter (rs_AllowMergeCommit rs) then ret ''merge''
         else if getter (rs_AllowRebaseMerge rs) then ret ''rebase''
         else fail (ErrNew (''repository '' @ pp_Owner p @ ''/'' @ pp_Repo p @ '' does not allow squash, merge, or rebase merges'')))"

definition human_review :: "merge_outcome \<Rightarrow> merge_outcome" where
  "human_review out = out\<lparr>mo_State := autoMergeStateHumanReview, mo_Label := autoMergeHumanReviewLabel\<rparr>"

definition blocked_gate :: "merge_outcome \<Rightarrow> merge_outcome" where
  "blocked_gate out = (human_review out)\<lparr>mo_GitHubGate := gate False autoMergeStateHumanReview (mo_BlockedReason out)\<rparr>"

text \<open>The branch of a merge that failed, for the method or for the merge itself.\<close>

definition merge_failed ::
  "(go_error \<Rightarrow> string) \<Rightarrow> 'g github_client \<Rightarrow> parsed_pr \<Rightarrow> go_error \<Rightarrow> merge_outcome \<Rightarrow> 'g \<Rightarrow> merge_outcome \<times> 'g" where
  "merge_failed pg c p e out s =
     applyAutoMergeLabel pg c p autoMergeHumanReviewLabel
       (blocked_gate (out\<lparr>mo_BlockedReason := ''github merge failed: '' @ err_text pg e\<rparr>)) s"

definition merge_safe ::
  "(go_error \<Rightarrow> string) \<Rightarrow> 'g github_client \<Rightarrow> parsed_pr \<Rightarrow> string \<Rightarrow> string \<Rightarrow> merge_outcome \<Rightarrow> 'g \<Rightarrow> merge_outcome \<times> 'g" where
  "merge_safe pg c p nowText headSHA out0 s =
     (let (out, t) = applyAutoMergeLabel pg c p autoMergeSafeLabel
          (out0\<lparr>mo_State := autoMergeStateSafeToMerge, mo_Label := autoMergeSafeLabel\<rparr>) s in
      if autoMergeLabelFailed out then (blocked_gate out, t)
      else (case resolveAutoMergeMethod c p t of
          (Inl e, u) \<Rightarrow> merge_failed pg c p e out u
        | (Inr mergeMethod, u) \<Rightarrow> (case gh_Merge c p headSHA mergeMethod u of
              (Inl e, v) \<Rightarrow> merge_failed pg c p (ge_Error e) out v
            | (Inr _, v) \<Rightarrow>
                (out\<lparr>mo_State := autoMergeStateMerged, mo_MergedAt := nowText, mo_Label := autoMergeSafeLabel,
                   mo_GitHubGate := gate True autoMergeStateMerged ''merged with expected head SHA''\<rparr>, v))))"

definition after_github_gate ::
  "(go_error \<Rightarrow> string) \<Rightarrow> 'g github_client \<Rightarrow> parsed_pr \<Rightarrow> string \<Rightarrow> string \<Rightarrow> gate_result \<Rightarrow> merge_outcome \<Rightarrow> 'g \<Rightarrow>
   merge_outcome \<times> 'g" where
  "after_github_gate pg c p nowText headSHA githubGate out0 s =
     (let out = out0\<lparr>mo_GitHubGate := githubGate\<rparr> in
      if gate_State githubGate = autoMergeStateSafeToMerge then merge_safe pg c p nowText headSHA out s
      else if gate_State githubGate = autoMergeStateWaitingReviews \<or> gate_State githubGate = autoMergeStateWaitingChecks then
        (let (out1, t) = applyAutoMergeLabel pg c p autoMergeSafeLabel
            (out\<lparr>mo_State := gate_State githubGate, mo_Label := autoMergeSafeLabel, mo_BlockedReason := gate_Reason githubGate\<rparr>) s
         in (if autoMergeLabelFailed out1 then blocked_gate out1 else out1, t))
      else if gate_State githubGate = autoMergeStateMerged then
        applyAutoMergeLabel pg c p autoMergeSafeLabel
          (out\<lparr>mo_State := autoMergeStateMerged, mo_Label := autoMergeSafeLabel\<rparr>) s
      else applyAutoMergeLabel pg c p autoMergeHumanReviewLabel
          ((human_review out)\<lparr>mo_BlockedReason := gate_Reason githubGate\<rparr>) s)"

text \<open>The head SHA of a snapshot without a pull request is empty; a fetched one always has it.\<close>

definition current_head :: "snapshot \<Rightarrow> string" where
  "current_head sn = (case sn_PR sn of None \<Rightarrow> [] | Some pr \<Rightarrow> pr_HeadSHA pr)"

definition judge ::
  "(go_error \<Rightarrow> string) \<Rightarrow> (string list \<Rightarrow> string list) \<Rightarrow> 'g github_client \<Rightarrow> parsed_pr \<Rightarrow> string \<Rightarrow> assessment option \<Rightarrow>
   snapshot \<Rightarrow> merge_outcome \<Rightarrow> 'g \<Rightarrow> merge_outcome \<times> 'g" where
  "judge pg order c p nowText assessed sn out0 s =
     (let (serverGate, checked) = evaluateAutoMergeServerGate pg assessed (current_head sn) (sn_Files sn);
          out = out0\<lparr>mo_ServerGate := serverGate, mo_Assessment := checked\<rparr>
      in case checked of
           None \<Rightarrow> applyAutoMergeLabel pg c p autoMergeHumanReviewLabel
             ((human_review out)\<lparr>mo_BlockedReason := gate_Reason serverGate\<rparr>) s
         | Some a \<Rightarrow>
             if \<not> gate_Passed serverGate
             then applyAutoMergeLabel pg c p autoMergeHumanReviewLabel
               ((human_review out)\<lparr>mo_BlockedReason := gate_Reason serverGate\<rparr>) s
             else after_github_gate pg c p nowText (as_HeadSHA a)
               (evaluateAutoMergeGitHubGate order sn (as_HeadSHA a)) out s)"

definition evaluateAutoMergeWithClient ::
  "(go_error \<Rightarrow> string) \<Rightarrow> (string list \<Rightarrow> string list) \<Rightarrow> 'g github_client \<Rightarrow> parsed_pr \<Rightarrow> string \<Rightarrow> assessment option \<Rightarrow>
   merge_outcome \<Rightarrow> 'g \<Rightarrow> (merge_outcome \<times> 'g) option" where
  "evaluateAutoMergeWithClient pg order c p nowText assessed out s =
     (case fetchAutoMergeGitHubSnapshot c p s of
        None \<Rightarrow> None
      | Some (Inl e, t) \<Rightarrow>
          let reason = err_text pg e in
          Some (applyAutoMergeLabel pg c p autoMergeHumanReviewLabel
            (out\<lparr>mo_BlockedReason := reason, mo_GitHubGate := gate False autoMergeStateHumanReview reason\<rparr>) t)
      | Some (Inr sn, t) \<Rightarrow> Some (judge pg order c p nowText assessed sn out t))"

end
