(* ===== verification/Go_Json_Text.thy ===== *)
theory Go_Json_Text
  imports Go_Json
begin

text \<open>
  json.Unmarshal on a text: the syntax of JSON into the trees of Go_Json. The parser takes fuel, one
  unit per nested call; a text has more characters than its values nest, so its length is enough.
  Bytes of a string above ASCII are kept as they are (invalid UTF-8, which Go replaces, and its limit
  of 10000 nested values are not modelled).
\<close>

definition JsonSyntaxError :: go_error where
  "JsonSyntaxError = ErrNew ''invalid JSON syntax''"

definition json_space :: "char \<Rightarrow> bool" where
  "json_space c \<longleftrightarrow> c \<in> {CHR 0x20, CHR 0x09, CHR 0x0A, CHR 0x0D}"

definition skip_ws :: "string \<Rightarrow> string" where
  "skip_ws s = dropWhile json_space s"

section \<open>Strings\<close>

definition hex_value :: "char \<Rightarrow> nat option" where
  "hex_value c = (let n = (of_char c :: nat) in
     if 48 \<le> n \<and> n \<le> 57 then Some (n - 48)
     else if 97 \<le> n \<and> n \<le> 102 then Some (n - 87)
     else if 65 \<le> n \<and> n \<le> 70 then Some (n - 55)
     else None)"

fun hex4 :: "string \<Rightarrow> nat option" where
  "hex4 (a # b # c # d # s) =
     (case (hex_value a, hex_value b, hex_value c, hex_value d) of
        (Some w, Some x, Some y, Some z) \<Rightarrow> Some (4096 * w + 256 * x + 16 * y + z)
      | _ \<Rightarrow> None)"
| "hex4 s = None"

definition utf8 :: "nat \<Rightarrow> string" where
  "utf8 u =
     (if u < 128 then [char_of u]
      else if u < 2048 then [char_of (192 + u div 64), char_of (128 + u mod 64)]
      else if u < 65536 then [char_of (224 + u div 4096), char_of (128 + u div 64 mod 64), char_of (128 + u mod 64)]
      else [char_of (240 + u div 262144), char_of (128 + u div 4096 mod 64), char_of (128 + u div 64 mod 64),
        char_of (128 + u mod 64)])"

definition surrogate :: "nat \<Rightarrow> bool" where
  "surrogate u \<longleftrightarrow> 55296 \<le> u \<and> u < 57344"

text \<open>utf16.DecodeRune: None for the replacement character.\<close>

definition decode_pair :: "nat \<Rightarrow> nat \<Rightarrow> nat option" where
  "decode_pair u v = (if 55296 \<le> u \<and> u < 56320 \<and> 56320 \<le> v \<and> v < 57344
     then Some ((u - 55296) * 1024 + (v - 56320) + 65536) else None)"

definition second_unit :: "string \<Rightarrow> nat option" where
  "second_unit s = (if take 2 s = [CHR 0x5C, CHR ''u''] then hex4 (drop 2 s) else None)"

definition simple_escape :: "char \<Rightarrow> char option" where
  "simple_escape c =
     (if c \<in> {CHR 0x22, CHR 0x5C, CHR ''/''} then Some c
      else if c = CHR ''b'' then Some (CHR 0x08)
      else if c = CHR ''f'' then Some (CHR 0x0C)
      else if c = CHR ''n'' then Some (CHR 0x0A)
      else if c = CHR ''r'' then Some (CHR 0x0D)
      else if c = CHR ''t'' then Some (CHR 0x09)
      else None)"

definition prepend :: "string \<Rightarrow> (string \<times> string) option \<Rightarrow> (string \<times> string) option" where
  "prepend p r = map_option (\<lambda>(s, rest). (p @ s, rest)) r"

text \<open>The content of a string literal and what follows it; the opening quote is already read.\<close>

fun lex_string :: "string \<Rightarrow> (string \<times> string) option" where
  "lex_string [] = None"
| "lex_string (c # s) =
     (if c = CHR 0x22 then Some ([], s)
      else if c = CHR 0x5C then (case s of
          [] \<Rightarrow> None
        | e # s1 \<Rightarrow> (case simple_escape e of
              Some d \<Rightarrow> prepend [d] (lex_string s1)
            | None \<Rightarrow>
                if e \<noteq> CHR ''u'' then None
                else (case hex4 s1 of
                    None \<Rightarrow> None
                  | Some u \<Rightarrow>
                      if \<not> surrogate u then prepend (utf8 u) (lex_string (drop 4 s1))
                      else (case second_unit (drop 4 s1) of
                          Some v \<Rightarrow> (case decode_pair u v of
                              Some p \<Rightarrow> prepend (utf8 p) (lex_string (drop 10 s1))
                            | None \<Rightarrow> prepend (utf8 65533) (lex_string (drop 4 s1)))
                        | None \<Rightarrow> prepend (utf8 65533) (lex_string (drop 4 s1))))))
      else if (of_char c :: nat) < 32 then None
      else prepend [c] (lex_string s))"

section \<open>Numbers\<close>

definition digits :: "string \<Rightarrow> (string \<times> string) option" where
  "digits s = (let d = takeWhile is_digit s in if d = [] then None else Some (d, dropWhile is_digit s))"

definition lex_int :: "string \<Rightarrow> (string \<times> string) option" where
  "lex_int s = (case s of CHR ''0'' # r \<Rightarrow> Some (''0'', r) | _ \<Rightarrow> digits s)"

definition lex_frac :: "string \<Rightarrow> (string \<times> string) option" where
  "lex_frac s = (case s of CHR ''.'' # r \<Rightarrow> prepend ''.'' (digits r) | _ \<Rightarrow> Some ([], s))"

definition lex_exp :: "string \<Rightarrow> (string \<times> string) option" where
  "lex_exp s = (case s of
       c # r \<Rightarrow>
         if c = CHR ''e'' \<or> c = CHR ''E'' then (case r of
             d # r1 \<Rightarrow> if d = CHR ''+'' \<or> d = CHR ''-'' then prepend [c, d] (digits r1) else prepend [c] (digits r)
           | [] \<Rightarrow> None)
         else Some ([], s)
     | [] \<Rightarrow> Some ([], s))"

definition lex_number :: "string \<Rightarrow> (string \<times> string) option" where
  "lex_number s =
     (let (sign, s1) = (case s of CHR ''-'' # r \<Rightarrow> (''-'', r) | _ \<Rightarrow> ([], s)) in
      case lex_int s1 of None \<Rightarrow> None | Some (i, s2) \<Rightarrow>
        (case lex_frac s2 of None \<Rightarrow> None | Some (f, s3) \<Rightarrow>
          (case lex_exp s3 of None \<Rightarrow> None | Some (e, s4) \<Rightarrow> Some (sign @ i @ f @ e, s4))))"

section \<open>Values\<close>

fun parse_value :: "nat \<Rightarrow> string \<Rightarrow> (json \<times> string) option"
  and parse_elements :: "nat \<Rightarrow> string \<Rightarrow> (json list \<times> string) option"
  and parse_members :: "nat \<Rightarrow> string \<Rightarrow> ((string \<times> json) list \<times> string) option" where
  "parse_value 0 s = None"
| "parse_value (Suc n) s = (case skip_ws s of
       [] \<Rightarrow> None
     | c # r \<Rightarrow>
         if c = CHR ''{'' then
           (if take 1 (skip_ws r) = ''}'' then Some (JObj [], drop 1 (skip_ws r))
            else map_option (\<lambda>(kvs, t). (JObj kvs, t)) (parse_members n r))
         else if c = CHR ''['' then
           (if take 1 (skip_ws r) = '']'' then Some (JArr [], drop 1 (skip_ws r))
            else map_option (\<lambda>(js, t). (JArr js, t)) (parse_elements n r))
         else if c = CHR 0x22 then map_option (\<lambda>(x, t). (JStr x, t)) (lex_string r)
         else if has_prefix (c # r) ''null'' then Some (JNull, drop 3 r)
         else if has_prefix (c # r) ''true'' then Some (JBool True, drop 3 r)
         else if has_prefix (c # r) ''false'' then Some (JBool False, drop 4 r)
         else map_option (\<lambda>(x, t). (JNum x, t)) (lex_number (c # r)))"
| "parse_elements 0 s = None"
| "parse_elements (Suc n) s = (case parse_value n s of
       None \<Rightarrow> None
     | Some (j, t) \<Rightarrow> (case skip_ws t of
           [] \<Rightarrow> None
         | c # r \<Rightarrow>
             if c = CHR '','' then map_option (\<lambda>(js, u). (j # js, u)) (parse_elements n r)
             else if c = CHR '']'' then Some ([j], r)
             else None))"
| "parse_members 0 s = None"
| "parse_members (Suc n) s = (case skip_ws s of
       [] \<Rightarrow> None
     | q # r \<Rightarrow>
         if q \<noteq> CHR 0x22 then None
         else (case lex_string r of
             None \<Rightarrow> None
           | Some (k, t) \<Rightarrow> (case skip_ws t of
                 [] \<Rightarrow> None
               | c # u \<Rightarrow>
                   if c \<noteq> CHR '':'' then None
                   else (case parse_value n u of
                       None \<Rightarrow> None
                     | Some (j, v) \<Rightarrow> (case skip_ws v of
                           [] \<Rightarrow> None
                         | d # w \<Rightarrow>
                             if d = CHR '','' then map_option (\<lambda>(kvs, z). ((k, j) # kvs, z)) (parse_members n w)
                             else if d = CHR ''}'' then Some ([(k, j)], w)
                             else None)))))"

definition json_parse :: "string \<Rightarrow> go_error + json" where
  "json_parse s = (case parse_value (2 * length s + 2) s of
       Some (j, t) \<Rightarrow> if skip_ws t = [] then Inr j else Inl JsonSyntaxError
     | None \<Rightarrow> Inl JsonSyntaxError)"

section \<open>Printing\<close>

text \<open>A tree without numbers as text, the way a careful writer of JSON does it.\<close>

fun quote_char :: "char \<Rightarrow> string" where
  "quote_char c = (let n = (of_char c :: nat) in
     if c = CHR 0x22 \<or> c = CHR 0x5C then [CHR 0x5C, c]
     else if n < 32 then [CHR 0x5C, CHR ''u'', CHR ''0'', CHR ''0'', if n < 16 then CHR ''0'' else CHR ''1'',
       char_of (let h = n mod 16 in if h < 10 then 48 + h else 87 + h)]
     else [c])"

definition quoted :: "string \<Rightarrow> string" where
  "quoted s = [CHR 0x22] @ concat (map quote_char s) @ [CHR 0x22]"

fun json_text :: "json \<Rightarrow> string"
  and elements_text :: "json list \<Rightarrow> string"
  and members_text :: "(string \<times> json) list \<Rightarrow> string" where
  "json_text JNull = ''null''"
| "json_text (JBool b) = (if b then ''true'' else ''false'')"
| "json_text (JNum lit) = lit"
| "json_text (JStr s) = quoted s"
| "json_text (JArr js) = ''['' @ elements_text js @ '']''"
| "json_text (JObj kvs) = ''{'' @ members_text kvs @ ''}''"
| "elements_text [] = []"
| "elements_text [j] = json_text j"
| "elements_text (j # js) = json_text j @ '','' @ elements_text js"
| "members_text [] = []"
| "members_text [(k, j)] = quoted k @ '':'' @ json_text j"
| "members_text ((k, j) # kvs) = quoted k @ '':'' @ json_text j @ '','' @ members_text kvs"

chapter \<open>Reading back what is written\<close>

text \<open>Printing a tree and parsing the text gives the tree back, whatever follows it.\<close>

fun plain :: "json \<Rightarrow> bool" where
  "plain (JNum lit) \<longleftrightarrow> False"
| "plain (JArr js) \<longleftrightarrow> list_all plain js"
| "plain (JObj kvs) \<longleftrightarrow> list_all (\<lambda>(k, j). plain j) kvs"
| "plain j \<longleftrightarrow> True"

lemma hex_digit_value:
  assumes "h < 16"
  shows "hex_value (char_of (if h < 10 then 48 + h else 87 + h)) = Some h"
  using assms by (cases "h < 10") (simp_all add: hex_value_def Let_def)

lemma control_escape:
  fixes c :: char
  assumes "(of_char c :: nat) < 32" and "c \<noteq> CHR 0x22" and "c \<noteq> CHR 0x5C"
  shows "\<exists>a b. quote_char c = [CHR 0x5C, CHR ''u'', CHR ''0'', CHR ''0'', a, b] \<and>
    hex_value a = Some (of_char c div 16) \<and> hex_value b = Some (of_char c mod 16)"
proof -
  let ?n = "of_char c :: nat"
  have d: "?n < 16 \<Longrightarrow> ?n div 16 = 0" "\<not> ?n < 16 \<Longrightarrow> ?n div 16 = 1" using assms(1) by auto
  have z: "hex_value (CHR ''0'') = Some 0" "hex_value (CHR ''1'') = Some 1" by (simp_all add: hex_value_def)
  let ?a = "if ?n < 16 then CHR ''0'' else CHR ''1''"
  let ?b = "char_of (if ?n mod 16 < 10 then 48 + ?n mod 16 else 87 + ?n mod 16) :: char"
  have "quote_char c = [CHR 0x5C, CHR ''u'', CHR ''0'', CHR ''0'', ?a, ?b]"
    using assms by (simp add: Let_def)
  moreover have "hex_value ?a = Some (?n div 16)" using d z by simp
  moreover have "hex_value ?b = Some (?n mod 16)" by (rule hex_digit_value) simp
  ultimately show ?thesis by blast
qed

lemma quoted_char_lexed:
  assumes "lex_string s = Some (x, rest)"
  shows "lex_string (quote_char c @ s) = Some (c # x, rest)"
proof -
  consider "c = CHR 0x22 \<or> c = CHR 0x5C" | "c \<noteq> CHR 0x22" "c \<noteq> CHR 0x5C" "(of_char c :: nat) < 32"
    | "c \<noteq> CHR 0x22" "c \<noteq> CHR 0x5C" "\<not> (of_char c :: nat) < 32" by blast
  then show ?thesis
  proof cases
    case 1
    then show ?thesis using assms by (auto simp: simple_escape_def prepend_def)
  next
    case 2
    obtain a b where q: "quote_char c = [CHR 0x5C, CHR ''u'', CHR ''0'', CHR ''0'', a, b]"
      and v: "hex_value a = Some (of_char c div 16)" "hex_value b = Some (of_char c mod 16)"
      using control_escape [OF 2(3,1,2)] by blast
    have z: "hex_value (CHR ''0'') = Some 0" by (simp add: hex_value_def)
    have u: "hex4 (CHR ''0'' # CHR ''0'' # a # b # s) = Some (of_char c)"
      using v z by simp
    have "\<not> surrogate (of_char c)" "utf8 (of_char c) = [c]" using 2(3) by (simp_all add: surrogate_def utf8_def)
    then show ?thesis
      unfolding q append.simps using assms u by (simp add: simple_escape_def prepend_def del: hex4.simps)
  next
    case 3
    then show ?thesis using assms by (simp add: Let_def prepend_def)
  qed
qed

lemma quoted_lexed: "lex_string (concat (map quote_char s) @ CHR 0x22 # rest) = Some (s, rest)"
  by (induction s) (simp_all add: quoted_char_lexed del: quote_char.simps)

lemma text_head:
  assumes "plain j"
  shows "\<exists>c r. json_text j = c # r \<and> \<not> json_space c \<and> c \<noteq> CHR '']'' \<and> c \<noteq> CHR ''}''"
  using assms by (cases j) (auto simp: quoted_def json_space_def)

lemma skip_text [simp]: "plain j \<Longrightarrow> skip_ws (json_text j @ s) = json_text j @ s"
  using text_head [of j] by (auto simp: skip_ws_def)

lemma skip_char [simp]: "\<not> json_space c \<Longrightarrow> skip_ws (c # s) = c # s"
  by (simp add: skip_ws_def)

lemma marks [simp]:
  "\<not> json_space (CHR ''{'')" "\<not> json_space (CHR ''}'')" "\<not> json_space (CHR ''['')" "\<not> json_space (CHR '']'')"
  "\<not> json_space (CHR ''n'')" "\<not> json_space (CHR ''t'')" "\<not> json_space (CHR ''f'')"
  "\<not> json_space (CHR '','')" "\<not> json_space (CHR '':'')" "\<not> json_space (CHR 0x22)"
  by (simp_all add: json_space_def)

lemma skip_quoted [simp]: "skip_ws (quoted s @ r) = quoted s @ r"
  by (simp add: quoted_def)

lemma members_head: "kvs \<noteq> [] \<Longrightarrow> \<exists>r. members_text kvs = CHR 0x22 # r"
  by (cases kvs rule: members_text.cases) (auto simp: quoted_def)

lemma elements_head:
  "js \<noteq> [] \<Longrightarrow> list_all plain js \<Longrightarrow> \<exists>c r. elements_text js = c # r \<and> \<not> json_space c \<and> c \<noteq> CHR '']''"
  using text_head by (cases js rule: elements_text.cases) fastforce+

theorem parse_text:
  "plain j \<Longrightarrow> length (json_text j) < n \<Longrightarrow> parse_value n (json_text j @ s) = Some (j, s)"
  "js \<noteq> [] \<Longrightarrow> list_all plain js \<Longrightarrow> Suc (length (elements_text js)) < n \<Longrightarrow>
     parse_elements n (elements_text js @ CHR '']'' # s) = Some (js, s)"
  "kvs \<noteq> [] \<Longrightarrow> list_all (\<lambda>(k, j). plain j) kvs \<Longrightarrow> length (members_text kvs) < n \<Longrightarrow>
     parse_members n (members_text kvs @ CHR ''}'' # s) = Some (kvs, s)"
proof (induction j and js and kvs arbitrary: n s and n s and n s rule: json_text_elements_text_members_text.induct)
  case 1
  then show ?case by (cases n) auto
next
  case (2 b)
  then show ?case by (cases n) auto
next
  case (3 lit)
  then show ?case by simp
next
  case (4 x)
  then show ?case by (cases n) (simp_all add: quoted_def quoted_lexed)
next
  case (5 js)
  then obtain m where n: "n = Suc m" by (cases n) auto
  show ?case
  proof (cases "js = []")
    case True
    then show ?thesis by (simp add: n)
  next
    case False
    with 5(2) elements_head [of js] obtain c r where "elements_text js = c # r" "\<not> json_space c" "c \<noteq> CHR '']''" by auto
    with 5 False n show ?thesis by simp
  qed
next
  case (6 kvs)
  then obtain m where n: "n = Suc m" by (cases n) auto
  show ?case
  proof (cases "kvs = []")
    case True
    then show ?thesis by (simp add: n)
  next
    case False
    with members_head [of kvs] obtain r where "members_text kvs = CHR 0x22 # r" by auto
    with 6 False n show ?thesis by simp
  qed
next
  case 7
  then show ?case by simp
next
  case (8 j)
  then show ?case by (cases n) simp_all
next
  case (9 j j' js)
  then show ?case by (cases n) simp_all
next
  case 10
  then show ?case by simp
next
  case (11 k j)
  then obtain m where "n = Suc m" by (cases n) auto
  with 11 show ?case by (simp add: quoted_def quoted_lexed)
next
  case (12 k j kj kvs)
  then obtain m where "n = Suc m" by (cases n) auto
  with 12 show ?case by (simp add: quoted_def quoted_lexed)
qed

theorem json_text_parses:
  assumes "plain j"
  shows "json_parse (json_text j) = Inr j"
  using parse_text(1) [OF assms, of "2 * length (json_text j) + 2" "[]"] by (simp add: json_parse_def skip_ws_def)

end
