(* ===== verification/Auto_Merge_Parse.thy ===== *)
theory Auto_Merge_Parse
  imports Auto_Merge_Types Go_Json_Text
begin

text \<open>
  The reading of an assessment from what the agent wrote (internal/bot/auto_merge_parse.go): the last
  block with the marker, the first JSON object after it, its fields, and their validation.
\<close>

section \<open>The first object of a text\<close>

text \<open>
  The loop of extractFirstJSONObject: how deep it is, whether inside a string, whether after a
  backslash, and what it has read, in reverse.
\<close>

fun scan_object :: "int \<Rightarrow> bool \<Rightarrow> bool \<Rightarrow> string \<Rightarrow> string \<Rightarrow> string option" where
  "scan_object depth inString escaped acc [] = None"
| "scan_object depth inString escaped acc (ch # s) =
     (if inString then
        (if escaped then scan_object depth True False (ch # acc) s
         else if ch = CHR 0x5C then scan_object depth True True (ch # acc) s
         else if ch = CHR 0x22 then scan_object depth False False (ch # acc) s
         else scan_object depth True False (ch # acc) s)
      else if ch = CHR 0x22 then scan_object depth True escaped (ch # acc) s
      else if ch = CHR ''{'' then scan_object (depth + 1) False escaped (ch # acc) s
      else if ch = CHR ''}'' then
        (if depth - 1 = 0 then Some (rev (ch # acc)) else scan_object (depth - 1) False escaped (ch # acc) s)
      else scan_object depth False escaped (ch # acc) s)"

definition extractFirstJSONObject :: "string \<Rightarrow> go_error + string" where
  "extractFirstJSONObject text =
     (case dropWhile (\<lambda>c. c \<noteq> CHR ''{'') text of
        [] \<Rightarrow> Inl (ErrNew ''JSON object not found'')
      | c # s \<Rightarrow> (case scan_object 0 False False [] (c # s) of
            None \<Rightarrow> Inl (ErrNew ''JSON object is incomplete'')
          | Some obj \<Rightarrow> Inr obj))"

section \<open>The fields\<close>

record raw_assessment =
  ra_Recommendation :: string
  ra_Risk :: string
  ra_Confidence :: string
  ra_Summary :: string
  ra_RiskFactors :: "json option"
  ra_TestsSeenPassing :: "json option"
  ra_ReviewIterations :: "json option"
  ra_RemainingIssues :: "remaining_issue list"
  ra_DangerousChangeCategories :: "json option"
  ra_HeadSHA :: string

definition zero_raw :: raw_assessment where
  "zero_raw = \<lparr>ra_Recommendation = [], ra_Risk = [], ra_Confidence = [], ra_Summary = [], ra_RiskFactors = None,
     ra_TestsSeenPassing = None, ra_ReviewIterations = None, ra_RemainingIssues = [],
     ra_DangerousChangeCategories = None, ra_HeadSHA = []\<rparr>"

definition issue_field :: "string \<Rightarrow> json \<Rightarrow> remaining_issue \<Rightarrow> go_error + remaining_issue" where
  "issue_field k v i =
     (if k = ''severity'' then lift_field (json_string v (issue_Severity i)) (\<lambda>x. i\<lparr>issue_Severity := x\<rparr>)
      else if k = ''summary'' then lift_field (json_string v (issue_Summary i)) (\<lambda>x. i\<lparr>issue_Summary := x\<rparr>)
      else if k = ''description'' then lift_field (json_string v (issue_Description i)) (\<lambda>x. i\<lparr>issue_Description := x\<rparr>)
      else Inr i)"

definition decode_issue :: "json \<Rightarrow> go_error + remaining_issue" where
  "decode_issue j = json_object issue_field j \<lparr>issue_Severity = [], issue_Summary = [], issue_Description = []\<rparr>"

definition raw_field :: "string \<Rightarrow> json \<Rightarrow> raw_assessment \<Rightarrow> go_error + raw_assessment" where
  "raw_field k v a =
     (if k = ''recommendation'' then lift_field (json_string v (ra_Recommendation a)) (\<lambda>x. a\<lparr>ra_Recommendation := x\<rparr>)
      else if k = ''risk'' then lift_field (json_string v (ra_Risk a)) (\<lambda>x. a\<lparr>ra_Risk := x\<rparr>)
      else if k = ''confidence'' then lift_field (json_string v (ra_Confidence a)) (\<lambda>x. a\<lparr>ra_Confidence := x\<rparr>)
      else if k = ''summary'' then lift_field (json_string v (ra_Summary a)) (\<lambda>x. a\<lparr>ra_Summary := x\<rparr>)
      else if k = ''risk_factors'' then Inr (a\<lparr>ra_RiskFactors := Some v\<rparr>)
      else if k = ''tests_seen_passing'' then Inr (a\<lparr>ra_TestsSeenPassing := Some v\<rparr>)
      else if k = ''review_iterations'' then Inr (a\<lparr>ra_ReviewIterations := Some v\<rparr>)
      else if k = ''remaining_issues'' then lift_field (json_list decode_issue v) (\<lambda>x. a\<lparr>ra_RemainingIssues := x\<rparr>)
      else if k = ''dangerous_change_categories'' then Inr (a\<lparr>ra_DangerousChangeCategories := Some v\<rparr>)
      else if k = ''head_sha'' then lift_field (json_string v (ra_HeadSHA a)) (\<lambda>x. a\<lparr>ra_HeadSHA := x\<rparr>)
      else Inr a)"

text \<open>A value of a list: None when it is skipped.\<close>

definition decodeAutoMergeStringListValue :: "string \<Rightarrow> json \<Rightarrow> bool \<Rightarrow> go_error + string option" where
  "decodeAutoMergeStringListValue name raw allowScalar =
     (case raw of
        JNull \<Rightarrow> Inr None
      | JStr s \<Rightarrow> Inr (if trim_space s = [] then None else Some (trim_space s))
      | _ \<Rightarrow>
          if \<not> allowScalar then Inl (ErrNew (name @ '' must be a string or array of strings''))
          else (case raw of
              JNum _ \<Rightarrow> Inr None
            | JBool _ \<Rightarrow> Inr None
            | _ \<Rightarrow> Inl (ErrNew (name @ '' must contain strings''))))"

fun decode_values :: "string \<Rightarrow> bool \<Rightarrow> json list \<Rightarrow> go_error + string list" where
  "decode_values name allowScalar [] = Inr []"
| "decode_values name allowScalar (v # vs) =
     (case decodeAutoMergeStringListValue name v allowScalar of
        Inl e \<Rightarrow> Inl e
      | Inr x \<Rightarrow> (case decode_values name allowScalar vs of
            Inl e \<Rightarrow> Inl e
          | Inr xs \<Rightarrow> Inr (case x of None \<Rightarrow> xs | Some s \<Rightarrow> s # xs)))"

definition decodeAutoMergeStringList :: "string \<Rightarrow> json option \<Rightarrow> bool \<Rightarrow> go_error + string list" where
  "decodeAutoMergeStringList name raw allowScalar =
     (case raw of
        None \<Rightarrow> Inr []
      | Some JNull \<Rightarrow> Inr []
      | Some (JArr values) \<Rightarrow> decode_values name allowScalar values
      | Some v \<Rightarrow> (case decodeAutoMergeStringListValue name v allowScalar of
            Inl e \<Rightarrow> Inl e
          | Inr None \<Rightarrow> Inr []
          | Inr (Some s) \<Rightarrow> Inr [s]))"

definition raw_to_assessment :: "raw_assessment \<Rightarrow> go_error + assessment" where
  "raw_to_assessment parsed =
     (case decodeAutoMergeStringList ''risk_factors'' (ra_RiskFactors parsed) False of
        Inl e \<Rightarrow> Inl e
      | Inr riskFactors \<Rightarrow> (case decodeAutoMergeStringList ''tests_seen_passing'' (ra_TestsSeenPassing parsed) False of
            Inl e \<Rightarrow> Inl e
          | Inr testsSeen \<Rightarrow> (case decodeAutoMergeStringList ''review_iterations'' (ra_ReviewIterations parsed) True of
                Inl e \<Rightarrow> Inl e
              | Inr reviewIterations \<Rightarrow>
                  (case decodeAutoMergeStringList ''dangerous_change_categories'' (ra_DangerousChangeCategories parsed) False of
                    Inl e \<Rightarrow> Inl e
                  | Inr dangerous \<Rightarrow> Inr
                      \<lparr>as_Recommendation = ra_Recommendation parsed, as_Risk = ra_Risk parsed,
                       as_Confidence = ra_Confidence parsed, as_Summary = ra_Summary parsed,
                       as_RiskFactors = riskFactors, as_TestsSeenPassing = testsSeen,
                       as_ReviewIterations = reviewIterations, as_RemainingIssues = ra_RemainingIssues parsed,
                       as_DangerousChangeCategories = dangerous, as_HeadSHA = ra_HeadSHA parsed\<rparr>))))"

definition decodeAutoMergeAssessmentJSON :: "string \<Rightarrow> go_error + assessment" where
  "decodeAutoMergeAssessmentJSON raw =
     (case json_parse raw of
        Inl e \<Rightarrow> Inl e
      | Inr j \<Rightarrow> (case json_object raw_field j zero_raw of
            Inl e \<Rightarrow> Inl e
          | Inr parsed \<Rightarrow> raw_to_assessment parsed))"

section \<open>The assessment of a transcript\<close>

definition parseAutoMergeAssessmentText :: "string \<Rightarrow> go_error + assessment" where
  "parseAutoMergeAssessmentText text =
     (case last_index text autoMergeAssessmentMarker of
        None \<Rightarrow> Inl (ErrNew ''missing auto merge assessment marker'')
      | Some idx \<Rightarrow> (case extractFirstJSONObject (drop (idx + length autoMergeAssessmentMarker) text) of
            Inl e \<Rightarrow> Inl (Wrapped ''malformed auto merge assessment'' e)
          | Inr obj \<Rightarrow> (case decodeAutoMergeAssessmentJSON obj of
                Inl e \<Rightarrow> Inl (Wrapped ''malformed auto merge assessment JSON'' e)
              | Inr a \<Rightarrow> (case validateAutoMergeAssessment (Some a) of
                    (Some e, _) \<Rightarrow> Inl e
                  | (None, Some b) \<Rightarrow> Inr b
                  | (None, None) \<Rightarrow> Inr a))))"

text \<open>The bodies of the blocks, oldest first; the newest with the marker decides.\<close>

fun newest_with_marker :: "string list \<Rightarrow> go_error + assessment" where
  "newest_with_marker [] = Inl (ErrNew ''missing auto merge assessment'')"
| "newest_with_marker (text # older) =
     (if text = [] then newest_with_marker older
      else if \<not> contains text autoMergeAssessmentMarker then newest_with_marker older
      else parseAutoMergeAssessmentText text)"

definition parseAutoMergeAssessmentFromBlocks :: "string list \<Rightarrow> go_error + assessment" where
  "parseAutoMergeAssessmentFromBlocks bodies = newest_with_marker (rev bodies)"

end
