(* ===== verification/Runs_Queries.thy ===== *)
theory Runs_Queries
  imports Sql_Tables Go_Json "HOL-Library.Product_Lexorder"
begin

text \<open>
  The tables of agent runs (db/migrations: agent_runs, the command step, the outcomes and the
  columns added with jobs) and the queries of internal/db/sqlc/agent_runs.sql.go, one definition per
  query; \<open>now\<close> is NOW() in the statement. A run is led by the worker that holds its lease.
\<close>

section \<open>Rows and state\<close>

record run_row =
  ar_id :: string
  ar_org_id :: string
  ar_thread_id :: string
  ar_run_kind :: string
  ar_request_id :: string
  ar_sandbox_id :: string
  ar_branch :: string
  ar_user_request :: string
  ar_session_id :: string
  ar_command_id :: string
  ar_command_start_seq :: int
  ar_state :: string
  ar_log_cursor :: int
  ar_next_event_seq :: int
  ar_lease_owner :: string
  ar_lease_expires_at :: timestamptz
  ar_heartbeat_at :: timestamptz
  ar_last_error :: string
  ar_created_at :: timestamptz
  ar_updated_at :: timestamptz
  ar_command_step :: string
  ar_outcome :: string
  ar_outcome_detail :: json
  ar_quality_score :: "int option"
  ar_trigger_source :: string
  ar_job_id :: "string option"
  ar_job_execution_id :: "string option"

record event_row =
  av_run_id :: string
  av_seq :: int
  av_event :: string
  av_data :: json
  av_created_at :: timestamptz

text \<open>The last two components are the keys of the tables the foreign keys of a run refer to.\<close>

record runs_db =
  agent_runs :: "run_row list"
  agent_run_events :: "event_row list"
  run_job_ids :: "string list"
  run_execution_ids :: "string list"

definition run_of :: "runs_db \<Rightarrow> string \<Rightarrow> run_row option" where
  "run_of s i = find (\<lambda>r. ar_id r = i) (agent_runs s)"

section \<open>Constraints\<close>

definition run_states :: "string list" where
  "run_states = [''preparing'', ''running'', ''recovering'', ''finalizing'', ''succeeded'', ''failed'', ''cancelled'']"

definition live_states :: "string list" where
  "live_states = [''preparing'', ''running'', ''recovering'', ''finalizing'']"

definition live :: "run_row \<Rightarrow> bool" where
  "live r \<longleftrightarrow> ar_state r \<in> set live_states"

definition run_row_ok :: "run_row \<Rightarrow> bool" where
  "run_row_ok r \<longleftrightarrow> ar_state r \<in> set run_states \<and> ar_trigger_source r \<in> {''user'', ''job''}"

definition run_row_int8 :: "run_row \<Rightarrow> bool" where
  "run_row_int8 r \<longleftrightarrow> is_int64 (ar_command_start_seq r) \<and> is_int64 (ar_log_cursor r) \<and> is_int64 (ar_next_event_seq r)"

text \<open>
  The unique indexes agent_runs_org_request_idx and agent_runs_org_thread_active_idx: one run per
  request of an organisation, and one live run per thread of it.
\<close>

definition run_conflicts :: "run_row list \<Rightarrow> run_row \<Rightarrow> bool" where
  "run_conflicts rs r \<longleftrightarrow> (\<exists>x \<in> set rs. ar_id x \<noteq> ar_id r \<and> ar_org_id x = ar_org_id r \<and>
     (ar_request_id x = ar_request_id r \<or> live x \<and> live r \<and> ar_thread_id x = ar_thread_id r))"

definition run_refs_ok :: "runs_db \<Rightarrow> run_row \<Rightarrow> bool" where
  "run_refs_ok s r \<longleftrightarrow> (\<forall>j. ar_job_id r = Some j \<longrightarrow> j \<in> set (run_job_ids s)) \<and>
     (\<forall>e. ar_job_execution_id r = Some e \<longrightarrow> e \<in> set (run_execution_ids s))"

definition run_row_error :: "run_row \<Rightarrow> go_error option" where
  "run_row_error r = (if \<not> run_row_int8 r then Some IntegerOutOfRange
     else if \<not> run_row_ok r then Some (CheckViolation ''agent_runs'') else None)"

text \<open>An update never changes the columns of a foreign key, so only the unique indexes can refuse it.\<close>

definition run_constraints :: "(runs_db, run_row) constraints" where
  "run_constraints = \<lparr>row_check = run_row_error,
     ref_check = (\<lambda>s r. if run_conflicts (agent_runs s) r then Some (UniqueViolation ''agent_runs'') else None)\<rparr>"

interpretation runs: keyed_table ar_id agent_runs agent_runs_update
  by unfold_locales simp

section \<open>Queries\<close>

text \<open>INSERT ... ON CONFLICT DO NOTHING: any of the unique indexes makes it return no row.\<close>

definition CreateAgentRun ::
  "go_time \<Rightarrow> string \<Rightarrow> string \<Rightarrow> string \<Rightarrow> string \<Rightarrow> string \<Rightarrow> string \<Rightarrow> string option \<Rightarrow> string option \<Rightarrow> string \<Rightarrow>
   string \<Rightarrow> duration \<Rightarrow> (runs_db, run_row) go" where
  "CreateAgentRun now i org thread kind request trigger jobID executionID userRequest owner lease = (\<lambda>s.
     let r = \<lparr>ar_id = i, ar_org_id = org, ar_thread_id = thread, ar_run_kind = kind, ar_request_id = request,
           ar_sandbox_id = [], ar_branch = [], ar_user_request = userRequest, ar_session_id = [],
           ar_command_id = [], ar_command_start_seq = 0, ar_state = ''preparing'', ar_log_cursor = 0,
           ar_next_event_seq = 1, ar_lease_owner = owner, ar_lease_expires_at = Some (now + lease),
           ar_heartbeat_at = Some now, ar_last_error = [], ar_created_at = Some now, ar_updated_at = Some now,
           ar_command_step = [], ar_outcome = [], ar_outcome_detail = JObj [], ar_quality_score = None,
           ar_trigger_source = trigger, ar_job_id = jobID, ar_job_execution_id = executionID\<rparr>
     in case run_row_error r of
          Some e \<Rightarrow> (Inl e, s)
        | None \<Rightarrow>
            if run_of s i \<noteq> None \<or> run_conflicts (agent_runs s) r then (Inl ErrNoRows, s)
            else if \<not> run_refs_ok s r then (Inl (ForeignKeyViolation ''agent_runs''), s)
            else (Inr r, s\<lparr>agent_runs := agent_runs s @ [r]\<rparr>))"

definition GetAgentRun :: "string \<Rightarrow> (runs_db, run_row) go" where
  "GetAgentRun i = sql_get agent_runs (\<lambda>r. ar_id r = i)"

definition GetAgentRunByRequest :: "string \<Rightarrow> string \<Rightarrow> (runs_db, run_row) go" where
  "GetAgentRunByRequest org request =
     sql_get agent_runs (\<lambda>r. ar_org_id r = org \<and> ar_request_id r = request \<and> live r)"

definition newest :: "(run_row \<Rightarrow> timestamptz) \<Rightarrow> run_row \<Rightarrow> go_time" where
  "newest col r = - from_timestamptz (col r)"

definition first_row :: "run_row list \<Rightarrow> runs_db \<Rightarrow> (go_error + run_row) \<times> runs_db" where
  "first_row rs s = (case rs of [] \<Rightarrow> (Inl ErrNoRows, s) | r # rest \<Rightarrow> (Inr r, s))"

definition GetActiveAgentRunForThread :: "string \<Rightarrow> string \<Rightarrow> (runs_db, run_row) go" where
  "GetActiveAgentRunForThread org thread = (\<lambda>s. first_row (sort_key (newest ar_updated_at)
     (filter (\<lambda>r. ar_org_id r = org \<and> ar_thread_id r = thread \<and> live r) (agent_runs s))) s)"

definition GetLatestAgentRunForThread :: "string \<Rightarrow> string \<Rightarrow> (runs_db, run_row) go" where
  "GetLatestAgentRunForThread org thread = (\<lambda>s. first_row (sort_key (newest ar_created_at)
     (filter (\<lambda>r. ar_org_id r = org \<and> ar_thread_id r = thread) (agent_runs s))) s)"

text \<open>DISTINCT ON: the first row of each thread in the order by creation, descending.\<close>

definition ListLatestAgentRunsForThreads :: "string \<Rightarrow> string list \<Rightarrow> (runs_db, run_row list) go" where
  "ListLatestAgentRunsForThreads org threads = (\<lambda>s.
     let rows = filter (\<lambda>r. ar_org_id r = org \<and> ar_thread_id r \<in> set threads) (agent_runs s)
     in (Inr (concat (map (\<lambda>t. take 1 (sort_key (newest ar_created_at) (filter (\<lambda>r. ar_thread_id r = t) rows)))
           (sort (remdups (map ar_thread_id rows))))), s))"

definition before :: "timestamptz \<Rightarrow> go_time \<Rightarrow> bool" where
  "before t u \<longleftrightarrow> (case t of None \<Rightarrow> True | Some x \<Rightarrow> x < u)"

definition ListExpiredAgentRuns :: "go_time \<Rightarrow> int \<Rightarrow> (runs_db, run_row list) go" where
  "ListExpiredAgentRuns now limit = (\<lambda>s. (Inr (take (nat limit) (sort_key (\<lambda>r. from_timestamptz (ar_updated_at r))
     (filter (\<lambda>r. live r \<and> before (ar_lease_expires_at r) now) (agent_runs s)))), s))"

definition ListStaleAgentRuns :: "go_time \<Rightarrow> duration \<Rightarrow> int \<Rightarrow> (runs_db, run_row list) go" where
  "ListStaleAgentRuns now staleAfter limit = (\<lambda>s. (Inr (take (nat limit)
     (sort_key (\<lambda>r. (ar_heartbeat_at r \<noteq> None, from_timestamptz (ar_heartbeat_at r), from_timestamptz (ar_updated_at r)))
       (filter (\<lambda>r. live r \<and> before (ar_heartbeat_at r) (now - staleAfter)) (agent_runs s)))), s))"

definition ListActiveAgentRunsForLeaseOwnerPrefix :: "string \<Rightarrow> int \<Rightarrow> (runs_db, run_row list) go" where
  "ListActiveAgentRunsForLeaseOwnerPrefix pre limit = (\<lambda>s. (Inr (take (nat limit)
     (sort_key (\<lambda>r. from_timestamptz (ar_updated_at r))
       (filter (\<lambda>r. live r \<and> take (length pre) (ar_lease_owner r) = pre) (agent_runs s)))), s))"

text \<open>The updates of the worker that holds the lease, on a live run.\<close>

definition owned_by :: "string \<Rightarrow> string \<Rightarrow> run_row \<Rightarrow> bool" where
  "owned_by i owner r \<longleftrightarrow> ar_id r = i \<and> ar_lease_owner r = owner"

definition update_run :: "(run_row \<Rightarrow> bool) \<Rightarrow> (run_row \<Rightarrow> run_row) \<Rightarrow> (runs_db, nat) go" where
  "update_run p f = sql_update_all agent_runs agent_runs_update run_constraints p f"

definition UpdateAgentRunKind :: "go_time \<Rightarrow> string \<Rightarrow> string \<Rightarrow> string \<Rightarrow> (runs_db, nat) go" where
  "UpdateAgentRunKind now i kind owner = update_run (\<lambda>r. owned_by i owner r \<and> live r)
     (\<lambda>r. r\<lparr>ar_run_kind := kind, ar_updated_at := Some now\<rparr>)"

definition UpdateAgentRunBranch :: "go_time \<Rightarrow> string \<Rightarrow> string \<Rightarrow> string \<Rightarrow> (runs_db, nat) go" where
  "UpdateAgentRunBranch now i branch owner = update_run (\<lambda>r. owned_by i owner r \<and> live r)
     (\<lambda>r. r\<lparr>ar_branch := branch, ar_updated_at := Some now\<rparr>)"

definition UpdateAgentRunSandbox :: "go_time \<Rightarrow> string \<Rightarrow> string \<Rightarrow> string \<Rightarrow> (runs_db, nat) go" where
  "UpdateAgentRunSandbox now i sandbox owner = update_run (\<lambda>r. owned_by i owner r \<and> live r)
     (\<lambda>r. r\<lparr>ar_sandbox_id := sandbox, ar_updated_at := Some now\<rparr>)"

definition UpdateAgentRunSession :: "go_time \<Rightarrow> string \<Rightarrow> string \<Rightarrow> string \<Rightarrow> (runs_db, nat) go" where
  "UpdateAgentRunSession now i session owner = update_run (\<lambda>r. owned_by i owner r \<and> live r)
     (\<lambda>r. r\<lparr>ar_session_id := session, ar_updated_at := Some now\<rparr>)"

definition UpdateAgentRunCommand ::
  "go_time \<Rightarrow> string \<Rightarrow> string \<Rightarrow> string \<Rightarrow> string \<Rightarrow> string \<Rightarrow> duration \<Rightarrow> (runs_db, nat) go" where
  "UpdateAgentRunCommand now i session command step owner lease = update_run (\<lambda>r. owned_by i owner r \<and> live r)
     (\<lambda>r. r\<lparr>ar_session_id := session, ar_command_id := command, ar_command_step := step,
        ar_command_start_seq := ar_next_event_seq r, ar_state := ''running'', ar_heartbeat_at := Some now,
        ar_lease_owner := owner, ar_lease_expires_at := Some (now + lease), ar_updated_at := Some now\<rparr>)"

definition UpdateAgentRunState :: "go_time \<Rightarrow> string \<Rightarrow> string \<Rightarrow> string \<Rightarrow> string \<Rightarrow> (runs_db, nat) go" where
  "UpdateAgentRunState now i st lastError owner = update_run (\<lambda>r. owned_by i owner r \<and> live r)
     (\<lambda>r. r\<lparr>ar_state := st, ar_last_error := lastError, ar_heartbeat_at := Some now, ar_updated_at := Some now\<rparr>)"

definition TouchAgentRunLease :: "go_time \<Rightarrow> string \<Rightarrow> string \<Rightarrow> duration \<Rightarrow> (runs_db, nat) go" where
  "TouchAgentRunLease now i owner lease = update_run (\<lambda>r. owned_by i owner r \<and> live r)
     (\<lambda>r. r\<lparr>ar_heartbeat_at := Some now, ar_lease_owner := owner, ar_lease_expires_at := Some (now + lease),
        ar_updated_at := Some now\<rparr>)"

definition UpdateAgentRunLogCursor :: "go_time \<Rightarrow> string \<Rightarrow> int \<Rightarrow> string \<Rightarrow> (runs_db, nat) go" where
  "UpdateAgentRunLogCursor now i cursor owner = update_run (\<lambda>r. owned_by i owner r \<and> live r)
     (\<lambda>r. r\<lparr>ar_log_cursor := max (ar_log_cursor r) cursor, ar_heartbeat_at := Some now, ar_updated_at := Some now\<rparr>)"

text \<open>The outcome may still be written when the run has ended.\<close>

definition UpdateAgentRunOutcome ::
  "go_time \<Rightarrow> string \<Rightarrow> string \<Rightarrow> json \<Rightarrow> int option \<Rightarrow> string \<Rightarrow> (runs_db, nat) go" where
  "UpdateAgentRunOutcome now i outcome detail score owner =
     update_run (\<lambda>r. owned_by i owner r \<and> ar_state r \<in> set run_states)
     (\<lambda>r. r\<lparr>ar_outcome := outcome, ar_outcome_detail := detail, ar_quality_score := score, ar_updated_at := Some now\<rparr>)"

text \<open>The claims of a lease, each under its own condition.\<close>

definition claim_run :: "go_time \<Rightarrow> (run_row \<Rightarrow> bool) \<Rightarrow> string \<Rightarrow> duration \<Rightarrow> (runs_db, run_row) go" where
  "claim_run now p owner lease = sql_update agent_runs agent_runs_update run_constraints p
     (\<lambda>r. r\<lparr>ar_state := ''recovering'', ar_lease_owner := owner, ar_lease_expires_at := Some (now + lease),
        ar_heartbeat_at := Some now, ar_updated_at := Some now\<rparr>)"

definition ClaimAgentRunLease :: "go_time \<Rightarrow> string \<Rightarrow> string \<Rightarrow> duration \<Rightarrow> (runs_db, run_row) go" where
  "ClaimAgentRunLease now i owner lease = claim_run now
     (\<lambda>r. ar_id r = i \<and> live r \<and> (before (ar_lease_expires_at r) now \<or> ar_lease_owner r = owner)) owner lease"

definition ClaimAgentRunLeaseFromOwner ::
  "go_time \<Rightarrow> string \<Rightarrow> string \<Rightarrow> string \<Rightarrow> duration \<Rightarrow> (runs_db, run_row) go" where
  "ClaimAgentRunLeaseFromOwner now i owner previous lease = claim_run now
     (\<lambda>r. owned_by i previous r \<and> live r) owner lease"

definition ClaimStaleAgentRunLease ::
  "go_time \<Rightarrow> string \<Rightarrow> string \<Rightarrow> duration \<Rightarrow> duration \<Rightarrow> (runs_db, run_row) go" where
  "ClaimStaleAgentRunLease now i owner lease staleAfter = claim_run now
     (\<lambda>r. ar_id r = i \<and> live r \<and> ar_lease_owner r \<noteq> owner \<and> before (ar_heartbeat_at r) (now - staleAfter)) owner lease"

definition ClaimAgentRunForCancel :: "go_time \<Rightarrow> string \<Rightarrow> string \<Rightarrow> duration \<Rightarrow> (runs_db, run_row) go" where
  "ClaimAgentRunForCancel now i owner lease = sql_update agent_runs agent_runs_update run_constraints
     (\<lambda>r. ar_id r = i \<and> live r)
     (\<lambda>r. r\<lparr>ar_lease_owner := owner, ar_lease_expires_at := Some (now + lease), ar_heartbeat_at := Some now,
        ar_updated_at := Some now\<rparr>)"

text \<open>
  One statement: the run's counter moves on and the event is written with the number it had; both
  happen or neither.
\<close>

definition AppendAgentRunEvent :: "go_time \<Rightarrow> string \<Rightarrow> string \<Rightarrow> json \<Rightarrow> string \<Rightarrow> (runs_db, int) go" where
  "AppendAgentRunEvent now i event payload owner = (\<lambda>s.
     case sql_update agent_runs agent_runs_update run_constraints
         (\<lambda>r. owned_by i owner r \<and> ar_state r \<in> set run_states)
         (\<lambda>r. r\<lparr>ar_next_event_seq := ar_next_event_seq r + 1, ar_heartbeat_at := Some now, ar_updated_at := Some now\<rparr>) s of
       (Inl e, t) \<Rightarrow> (Inl e, s)
     | (Inr r, t) \<Rightarrow>
         let sq = ar_next_event_seq r - 1 in
         if find (\<lambda>e. av_run_id e = i \<and> av_seq e = sq) (agent_run_events t) \<noteq> None
         then (Inl (UniqueViolation ''agent_run_events''), s)
         else (Inr sq, t\<lparr>agent_run_events := agent_run_events t @
           [\<lparr>av_run_id = i, av_seq = sq, av_event = event, av_data = payload, av_created_at = Some now\<rparr>]\<rparr>))"

definition ListAgentRunEventsFromSeq :: "string \<Rightarrow> int \<Rightarrow> int \<Rightarrow> (runs_db, event_row list) go" where
  "ListAgentRunEventsFromSeq i sq limit = (\<lambda>s. (Inr (take (nat limit) (sort_key av_seq
     (filter (\<lambda>e. av_run_id e = i \<and> sq < av_seq e) (agent_run_events s)))), s))"

end
