(* ===== verification/Runs_Store.thy ===== *)
theory Runs_Store
  imports Runs_Queries
begin

text \<open>
  The store of internal/runstore/runstore.go. \<open>en\<close> is Enabled, whether the store has a database, and
  \<open>now\<close> the value of NOW() in its statements. The methods that write a column of a run give no
  result: what the database answers is dropped, as in the code.
\<close>

section \<open>Values\<close>

definition StatePreparing :: string where "StatePreparing = ''preparing''"
definition StateRunning :: string where "StateRunning = ''running''"
definition StateRecovering :: string where "StateRecovering = ''recovering''"
definition StateFinalizing :: string where "StateFinalizing = ''finalizing''"
definition StateSucceeded :: string where "StateSucceeded = ''succeeded''"
definition StateFailed :: string where "StateFailed = ''failed''"
definition StateCancelled :: string where "StateCancelled = ''cancelled''"

definition TriggerUser :: string where "TriggerUser = ''user''"
definition TriggerJob :: string where "TriggerJob = ''job''"

definition agentRunEventPageLimit :: int where "agentRunEventPageLimit = 5000"

record agent_run =
  run_ID :: string
  run_OrgID :: string
  run_ThreadID :: string
  run_RunKind :: string
  run_RequestID :: string
  run_TriggerSource :: string
  run_JobID :: string
  run_JobExecutionID :: string
  run_SandboxID :: string
  run_Branch :: string
  run_UserRequest :: string
  run_SessionID :: string
  run_CommandID :: string
  run_CommandStep :: string
  run_CommandStartSeq :: int
  run_State :: string
  run_LogCursor :: int
  run_LeaseOwner :: string
  run_LeaseExpiresAt :: go_time
  run_HeartbeatAt :: go_time
  run_LastError :: string
  run_Outcome :: string
  run_OutcomeDetail :: json
  run_QualityScore :: "int option"
  run_CreatedAt :: go_time
  run_UpdatedAt :: go_time

record run_event =
  ev_RunID :: string
  ev_Seq :: int
  ev_Event :: string
  ev_Data :: json
  ev_CreatedAt :: go_time

record pending_event =
  pe_Event :: string
  pe_Data :: json

definition lease_interval :: "duration \<Rightarrow> duration" where
  "lease_interval d = (if d < 0 then - (- d div 1000) else d div 1000) * 1000"

definition triggerSourceOrDefault :: "string \<Rightarrow> string" where
  "triggerSourceOrDefault source = (if source = [] then TriggerUser else source)"

definition optionalString :: "string \<Rightarrow> string option" where
  "optionalString s = (if s = [] then None else Some s)"

definition fromRunRow :: "run_row \<Rightarrow> agent_run" where
  "fromRunRow row =
     \<lparr>run_ID = ar_id row, run_OrgID = ar_org_id row, run_ThreadID = ar_thread_id row,
      run_RunKind = ar_run_kind row, run_RequestID = ar_request_id row,
      run_TriggerSource = (if ar_trigger_source row = [] then TriggerUser else ar_trigger_source row),
      run_JobID = (case ar_job_id row of None \<Rightarrow> [] | Some i \<Rightarrow> i),
      run_JobExecutionID = (case ar_job_execution_id row of None \<Rightarrow> [] | Some i \<Rightarrow> i),
      run_SandboxID = ar_sandbox_id row, run_Branch = ar_branch row, run_UserRequest = ar_user_request row,
      run_SessionID = ar_session_id row, run_CommandID = ar_command_id row,
      run_CommandStep = ar_command_step row, run_CommandStartSeq = ar_command_start_seq row,
      run_State = ar_state row, run_LogCursor = ar_log_cursor row, run_LeaseOwner = ar_lease_owner row,
      run_LeaseExpiresAt = from_timestamptz (ar_lease_expires_at row),
      run_HeartbeatAt = from_timestamptz (ar_heartbeat_at row), run_LastError = ar_last_error row,
      run_Outcome = ar_outcome row, run_OutcomeDetail = ar_outcome_detail row,
      run_QualityScore = ar_quality_score row, run_CreatedAt = from_timestamptz (ar_created_at row),
      run_UpdatedAt = from_timestamptz (ar_updated_at row)\<rparr>"

text \<open>The zero value \<open>Run{}\<close>; OutcomeDetail is a nil slice there.\<close>

definition zero_run :: agent_run where
  "zero_run = \<lparr>run_ID = [], run_OrgID = [], run_ThreadID = [], run_RunKind = [], run_RequestID = [],
     run_TriggerSource = [], run_JobID = [], run_JobExecutionID = [], run_SandboxID = [], run_Branch = [],
     run_UserRequest = [], run_SessionID = [], run_CommandID = [], run_CommandStep = [],
     run_CommandStartSeq = 0, run_State = [], run_LogCursor = 0, run_LeaseOwner = [],
     run_LeaseExpiresAt = zero_time, run_HeartbeatAt = zero_time, run_LastError = [], run_Outcome = [],
     run_OutcomeDetail = JNull, run_QualityScore = None, run_CreatedAt = zero_time, run_UpdatedAt = zero_time\<rparr>"

definition eventFromRow :: "event_row \<Rightarrow> run_event" where
  "eventFromRow row = \<lparr>ev_RunID = av_run_id row, ev_Seq = av_seq row, ev_Event = av_event row,
     ev_Data = av_data row, ev_CreatedAt = from_timestamptz (av_created_at row)\<rparr>"

section \<open>Creation and lookups\<close>

text \<open>The run and whether it is new: a request that was seen, or a thread that is busy, gives the run it has.\<close>

definition Create_run ::
  "bool \<Rightarrow> go_time \<Rightarrow> agent_run \<Rightarrow> string \<Rightarrow> duration \<Rightarrow> (runs_db, agent_run \<times> bool) go" where
  "Create_run en now r leaseOwner leaseDuration =
     (if \<not> en then ret (zero_run, False)
      else attempt (CreateAgentRun now (run_ID r) (run_OrgID r) (run_ThreadID r) (run_RunKind r) (run_RequestID r)
          (triggerSourceOrDefault (run_TriggerSource r)) (optionalString (run_JobID r))
          (optionalString (run_JobExecutionID r)) (run_UserRequest r) leaseOwner (lease_interval leaseDuration))
        (\<lambda>created. case created of
          Inr row \<Rightarrow> ret (fromRunRow row, True)
        | Inl e \<Rightarrow>
            if \<not> err_is e ErrNoRows then fail (Wrapped ''create run'' e)
            else attempt (GetAgentRunByRequest (run_OrgID r) (run_RequestID r)) (\<lambda>existing. case existing of
              Inr row \<Rightarrow> ret (fromRunRow row, False)
            | Inl e \<Rightarrow>
                if \<not> err_is e ErrNoRows then fail (Wrapped ''get existing run'' e)
                else attempt (GetActiveAgentRunForThread (run_OrgID r) (run_ThreadID r)) (\<lambda>act. case act of
                  Inr row \<Rightarrow> ret (fromRunRow row, False)
                | Inl e \<Rightarrow>
                    if err_is e ErrNoRows then fail (Wrapped ''request id already used by a terminal run'' e)
                    else fail (Wrapped ''get active run'' e)))))"

definition one_run :: "bool \<Rightarrow> (runs_db, run_row) go \<Rightarrow> (runs_db, agent_run) go" where
  "one_run en q = (if \<not> en then fail ErrNoRows else andthen q (\<lambda>row. ret (fromRunRow row)))"

definition Get_run :: "bool \<Rightarrow> string \<Rightarrow> (runs_db, agent_run) go" where
  "Get_run en i = one_run en (GetAgentRun i)"

definition LatestForThread :: "bool \<Rightarrow> string \<Rightarrow> string \<Rightarrow> (runs_db, agent_run) go" where
  "LatestForThread en org thread = one_run en (GetLatestAgentRunForThread org thread)"

definition ActiveForThread :: "bool \<Rightarrow> string \<Rightarrow> string \<Rightarrow> (runs_db, agent_run) go" where
  "ActiveForThread en org thread = one_run en (GetActiveAgentRunForThread org thread)"

definition LatestForThreads :: "bool \<Rightarrow> string \<Rightarrow> string list \<Rightarrow> (runs_db, string \<rightharpoonup> agent_run) go" where
  "LatestForThreads en org threads =
     (if \<not> en \<or> threads = [] then ret Map.empty
      else andthen (ListLatestAgentRunsForThreads org threads) (\<lambda>rows.
        ret (fold (\<lambda>row out. out(ar_thread_id row \<mapsto> fromRunRow row)) rows Map.empty)))"

definition run_list :: "bool \<Rightarrow> (runs_db, run_row list) go \<Rightarrow> (runs_db, agent_run list) go" where
  "run_list en q = (if \<not> en then ret [] else andthen q (\<lambda>rows. ret (map fromRunRow rows)))"

definition ListExpired :: "bool \<Rightarrow> go_time \<Rightarrow> int \<Rightarrow> (runs_db, agent_run list) go" where
  "ListExpired en now limit = run_list en (ListExpiredAgentRuns now limit)"

definition ListStale :: "bool \<Rightarrow> go_time \<Rightarrow> int \<Rightarrow> duration \<Rightarrow> (runs_db, agent_run list) go" where
  "ListStale en now limit staleAfter = run_list en (ListStaleAgentRuns now (lease_interval staleAfter) limit)"

definition ListActiveForLeaseOwnerPrefix :: "bool \<Rightarrow> string \<Rightarrow> int \<Rightarrow> (runs_db, agent_run list) go" where
  "ListActiveForLeaseOwnerPrefix en pre limit =
     run_list (en \<and> pre \<noteq> []) (ListActiveAgentRunsForLeaseOwnerPrefix pre limit)"

section \<open>Checkpoints of the worker\<close>

definition best_effort :: "bool \<Rightarrow> string \<Rightarrow> (runs_db, nat) go \<Rightarrow> (runs_db, unit) go" where
  "best_effort en i q = (if \<not> en \<or> i = [] then ret () else attempt q (\<lambda>_. ret ()))"

definition UpdateKind :: "bool \<Rightarrow> go_time \<Rightarrow> string \<Rightarrow> string \<Rightarrow> string \<Rightarrow> (runs_db, unit) go" where
  "UpdateKind en now i kind owner = best_effort en i (UpdateAgentRunKind now i kind owner)"

definition UpdateBranch :: "bool \<Rightarrow> go_time \<Rightarrow> string \<Rightarrow> string \<Rightarrow> string \<Rightarrow> (runs_db, unit) go" where
  "UpdateBranch en now i branch owner = best_effort en i (UpdateAgentRunBranch now i branch owner)"

definition UpdateSandbox :: "bool \<Rightarrow> go_time \<Rightarrow> string \<Rightarrow> string \<Rightarrow> string \<Rightarrow> (runs_db, unit) go" where
  "UpdateSandbox en now i sandbox owner = best_effort en i (UpdateAgentRunSandbox now i sandbox owner)"

definition UpdateSession :: "bool \<Rightarrow> go_time \<Rightarrow> string \<Rightarrow> string \<Rightarrow> string \<Rightarrow> (runs_db, unit) go" where
  "UpdateSession en now i session owner = best_effort en i (UpdateAgentRunSession now i session owner)"

definition UpdateCommand ::
  "bool \<Rightarrow> go_time \<Rightarrow> string \<Rightarrow> string \<Rightarrow> string \<Rightarrow> string \<Rightarrow> string \<Rightarrow> duration \<Rightarrow> (runs_db, unit) go" where
  "UpdateCommand en now i session command step owner lease =
     best_effort en i (UpdateAgentRunCommand now i session command step owner (lease_interval lease))"

definition UpdateState :: "bool \<Rightarrow> go_time \<Rightarrow> string \<Rightarrow> string \<Rightarrow> string \<Rightarrow> string \<Rightarrow> (runs_db, unit) go" where
  "UpdateState en now i st lastErr owner = best_effort en i (UpdateAgentRunState now i st lastErr owner)"

text \<open>The detail map is None when nil, and otherwise what json.Marshal answers for it.\<close>

definition UpdateOutcome ::
  "bool \<Rightarrow> go_time \<Rightarrow> string \<Rightarrow> string \<Rightarrow> (go_error + json) option \<Rightarrow> int option \<Rightarrow> string \<Rightarrow> (runs_db, unit) go" where
  "UpdateOutcome en now i outcome detail qualityScore owner =
     (let raw = (case detail of
            None \<Rightarrow> JObj []
          | Some (Inl e) \<Rightarrow> JObj [(''error'', JStr ''marshal outcome detail'')]
          | Some (Inr j) \<Rightarrow> j)
      in best_effort en i (UpdateAgentRunOutcome now i outcome raw qualityScore owner))"

definition TouchLease :: "bool \<Rightarrow> go_time \<Rightarrow> string \<Rightarrow> string \<Rightarrow> duration \<Rightarrow> (runs_db, unit) go" where
  "TouchLease en now i owner lease = best_effort en i (TouchAgentRunLease now i owner (lease_interval lease))"

definition UpdateLogCursor :: "bool \<Rightarrow> go_time \<Rightarrow> string \<Rightarrow> int \<Rightarrow> string \<Rightarrow> (runs_db, unit) go" where
  "UpdateLogCursor en now i cursor owner = best_effort en i (UpdateAgentRunLogCursor now i cursor owner)"

section \<open>Leases\<close>

definition Claim :: "bool \<Rightarrow> go_time \<Rightarrow> string \<Rightarrow> string \<Rightarrow> duration \<Rightarrow> (runs_db, agent_run) go" where
  "Claim en now i owner lease = one_run en (ClaimAgentRunLease now i owner (lease_interval lease))"

definition ClaimFromOwner ::
  "bool \<Rightarrow> go_time \<Rightarrow> string \<Rightarrow> string \<Rightarrow> string \<Rightarrow> duration \<Rightarrow> (runs_db, agent_run) go" where
  "ClaimFromOwner en now i owner previous lease =
     one_run en (ClaimAgentRunLeaseFromOwner now i owner previous (lease_interval lease))"

definition ClaimStale ::
  "bool \<Rightarrow> go_time \<Rightarrow> string \<Rightarrow> string \<Rightarrow> duration \<Rightarrow> duration \<Rightarrow> (runs_db, agent_run) go" where
  "ClaimStale en now i owner lease staleAfter =
     one_run en (ClaimStaleAgentRunLease now i owner (lease_interval lease) (lease_interval staleAfter))"

section \<open>Events\<close>

text \<open>The loop over pending events; \<open>msg\<close> is the prefix of its error.\<close>

fun appendEvents ::
  "string \<Rightarrow> go_time \<Rightarrow> string \<Rightarrow> string \<Rightarrow> pending_event list \<Rightarrow> (runs_db, int list) go" where
  "appendEvents msg now i owner [] = ret []"
| "appendEvents msg now i owner (ev # evs) =
     andthen (wrap_err msg (AppendAgentRunEvent now i (pe_Event ev) (pe_Data ev) owner)) (\<lambda>sq.
       andthen (appendEvents msg now i owner evs) (\<lambda>sqs. ret (sq # sqs)))"

definition cancelTx ::
  "go_time \<Rightarrow> string \<Rightarrow> string \<Rightarrow> string \<Rightarrow> duration \<Rightarrow> pending_event list \<Rightarrow> (runs_db, agent_run) go" where
  "cancelTx now i lastErr owner lease events =
     andthen (ClaimAgentRunForCancel now i owner (lease_interval lease)) (\<lambda>row.
       andthen (appendEvents ''append cancel event'' now i owner events) (\<lambda>_.
         andthen (UpdateAgentRunState now i StateCancelled lastErr owner) (\<lambda>_.
           ret ((fromRunRow row)\<lparr>run_State := StateCancelled, run_LastError := lastErr\<rparr>))))"

definition Cancel ::
  "bool \<Rightarrow> go_time \<Rightarrow> string \<Rightarrow> string \<Rightarrow> string \<Rightarrow> duration \<Rightarrow> pending_event list \<Rightarrow> (runs_db, agent_run) go" where
  "Cancel en now i lastErr owner lease events =
     (if \<not> en \<or> i = [] then fail ErrNoRows else with_tx (cancelTx now i lastErr owner lease events))"

definition AppendEvent :: "bool \<Rightarrow> go_time \<Rightarrow> string \<Rightarrow> string \<Rightarrow> json \<Rightarrow> string \<Rightarrow> (runs_db, int) go" where
  "AppendEvent en now i event payload owner =
     (if \<not> en \<or> i = [] then ret 0
      else wrap_err ''append event'' (AppendAgentRunEvent now i event payload owner))"

definition AppendEventsAndAdvanceCursor ::
  "bool \<Rightarrow> go_time \<Rightarrow> string \<Rightarrow> pending_event list \<Rightarrow> int \<Rightarrow> string \<Rightarrow> (runs_db, int list) go" where
  "AppendEventsAndAdvanceCursor en now i events cursor owner =
     (if \<not> en \<or> i = [] then ret []
      else with_tx (andthen (appendEvents ''append event'' now i owner events) (\<lambda>sqs.
        if 0 < cursor
        then andthen (wrap_err ''advance cursor'' (UpdateAgentRunLogCursor now i cursor owner)) (\<lambda>_. ret sqs)
        else ret sqs)))"

definition EventsAfterLimit :: "bool \<Rightarrow> string \<Rightarrow> int \<Rightarrow> int \<Rightarrow> (runs_db, run_event list) go" where
  "EventsAfterLimit en i sq limit0 =
     (if \<not> en \<or> i = [] then ret []
      else let limit = (if limit0 \<le> 0 then agentRunEventPageLimit else limit0)
        in andthen (ListAgentRunEventsFromSeq i sq limit) (\<lambda>rows. ret (map eventFromRow rows)))"

text \<open>The loop of EventsAfter over pages; None would be a loop that does not end.\<close>

partial_function (option) eventPages ::
  "bool \<Rightarrow> string \<Rightarrow> int \<Rightarrow> run_event list \<Rightarrow> runs_db \<Rightarrow> ((go_error + run_event list) \<times> runs_db) option" where
  "eventPages en i cursor out s =
     (case EventsAfterLimit en i cursor agentRunEventPageLimit s of
        (Inl e, t) \<Rightarrow> Some (Inl e, t)
      | (Inr batch, t) \<Rightarrow>
          if int (length batch) < agentRunEventPageLimit then Some (Inr (out @ batch), t)
          else eventPages en i (ev_Seq (last batch)) (out @ batch) t)"

definition EventsAfter ::
  "bool \<Rightarrow> string \<Rightarrow> int \<Rightarrow> runs_db \<Rightarrow> ((go_error + run_event list) \<times> runs_db) option" where
  "EventsAfter en i sq s = eventPages en i sq [] s"

end
