(* ===== verification/Auto_Merge_Outcome.thy ===== *)
theory Auto_Merge_Outcome
  imports Auto_Merge_Flow Auto_Merge_Parse Runs_Store
begin

text \<open>
  The outcome of automatic merging as JSON and as it is shown, its events on the run, the handler
  after a verified pull request and the re-evaluation after a check or a review
  (internal/bot/auto_merge.go, auto_merge_outcome.go, auto_merge_blocks.go, pr_validation.go). The
  state is the database of runs and the state of GitHub. A nil slice is written as an empty list.
  Drawing the transcript block and refreshing the stored state of the pull request are left out.
\<close>

section \<open>The outcome as JSON\<close>

definition omit_empty :: "string \<Rightarrow> string \<Rightarrow> (string \<times> json) list" where
  "omit_empty k v = (if v = [] then [] else [(k, JStr v)])"

definition string_array :: "string list \<Rightarrow> json" where
  "string_array xs = JArr (map JStr xs)"

definition issue_json :: "remaining_issue \<Rightarrow> json" where
  "issue_json i = JObj ([(''severity'', JStr (issue_Severity i))] @ omit_empty ''summary'' (issue_Summary i) @
     omit_empty ''description'' (issue_Description i))"

definition assessment_json :: "assessment \<Rightarrow> json" where
  "assessment_json a = JObj
     [(''recommendation'', JStr (as_Recommendation a)), (''risk'', JStr (as_Risk a)),
      (''confidence'', JStr (as_Confidence a)), (''summary'', JStr (as_Summary a)),
      (''risk_factors'', string_array (as_RiskFactors a)), (''tests_seen_passing'', string_array (as_TestsSeenPassing a)),
      (''review_iterations'', string_array (as_ReviewIterations a)),
      (''remaining_issues'', JArr (map issue_json (as_RemainingIssues a))),
      (''dangerous_change_categories'', string_array (as_DangerousChangeCategories a)),
      (''head_sha'', JStr (as_HeadSHA a))]"

definition gate_json :: "gate_result \<Rightarrow> json" where
  "gate_json g = JObj ([(''passed'', JBool (gate_Passed g)), (''state'', JStr (gate_State g))] @
     omit_empty ''reason'' (gate_Reason g) @
     (if gate_Details g = [] then [] else [(''details'', string_array (gate_Details g))]))"

definition outcome_members :: "merge_outcome \<Rightarrow> (string \<times> json) list" where
  "outcome_members out =
     [(''auto_merge_requested'', JBool (mo_Requested out)), (''auto_merge_state'', JStr (mo_State out))] @
     omit_empty ''auto_merge_label'' (mo_Label out) @
     (case mo_Assessment out of None \<Rightarrow> [] | Some a \<Rightarrow> [(''assessment'', assessment_json a)]) @
     (if mo_ServerGate out = zero_gate then [] else [(''server_gate'', gate_json (mo_ServerGate out))]) @
     (if mo_GitHubGate out = zero_gate then [] else [(''github_gate'', gate_json (mo_GitHubGate out))]) @
     omit_empty ''blocked_reason'' (mo_BlockedReason out) @ omit_empty ''judged_head_sha'' (mo_JudgedHeadSHA out) @
     omit_empty ''merged_at'' (mo_MergedAt out) @
     (if mo_LabelsApplied out = [] then [] else [(''labels_applied'', string_array (mo_LabelsApplied out))])"

text \<open>eventPayload adds the address of the pull request; no outcome has that key.\<close>

definition eventPayload :: "string \<Rightarrow> merge_outcome \<Rightarrow> json" where
  "eventPayload prURL out = JObj (outcome_members out @ [(''pr_url'', JStr prURL)])"

definition decode_strings :: "json \<Rightarrow> go_error + string list" where
  "decode_strings j = json_list (\<lambda>v. json_string v []) j"

definition assessment_field :: "string \<Rightarrow> json \<Rightarrow> assessment \<Rightarrow> go_error + assessment" where
  "assessment_field k v a =
     (if k = ''recommendation'' then lift_field (json_string v (as_Recommendation a)) (\<lambda>x. a\<lparr>as_Recommendation := x\<rparr>)
      else if k = ''risk'' then lift_field (json_string v (as_Risk a)) (\<lambda>x. a\<lparr>as_Risk := x\<rparr>)
      else if k = ''confidence'' then lift_field (json_string v (as_Confidence a)) (\<lambda>x. a\<lparr>as_Confidence := x\<rparr>)
      else if k = ''summary'' then lift_field (json_string v (as_Summary a)) (\<lambda>x. a\<lparr>as_Summary := x\<rparr>)
      else if k = ''risk_factors'' then lift_field (decode_strings v) (\<lambda>x. a\<lparr>as_RiskFactors := x\<rparr>)
      else if k = ''tests_seen_passing'' then lift_field (decode_strings v) (\<lambda>x. a\<lparr>as_TestsSeenPassing := x\<rparr>)
      else if k = ''review_iterations'' then lift_field (decode_strings v) (\<lambda>x. a\<lparr>as_ReviewIterations := x\<rparr>)
      else if k = ''remaining_issues'' then lift_field (json_list decode_issue v) (\<lambda>x. a\<lparr>as_RemainingIssues := x\<rparr>)
      else if k = ''dangerous_change_categories''
      then lift_field (decode_strings v) (\<lambda>x. a\<lparr>as_DangerousChangeCategories := x\<rparr>)
      else if k = ''head_sha'' then lift_field (json_string v (as_HeadSHA a)) (\<lambda>x. a\<lparr>as_HeadSHA := x\<rparr>)
      else Inr a)"

definition zero_assessment :: assessment where
  "zero_assessment = \<lparr>as_Recommendation = [], as_Risk = [], as_Confidence = [], as_Summary = [], as_RiskFactors = [],
     as_TestsSeenPassing = [], as_ReviewIterations = [], as_RemainingIssues = [], as_DangerousChangeCategories = [],
     as_HeadSHA = []\<rparr>"

text \<open>A pointer: null makes it nil, an object is decoded into what it points to.\<close>

definition decode_assessment :: "json \<Rightarrow> assessment option \<Rightarrow> go_error + assessment option" where
  "decode_assessment j cur =
     (case j of
        JNull \<Rightarrow> Inr None
      | _ \<Rightarrow> lift_field (json_object assessment_field j (case cur of None \<Rightarrow> zero_assessment | Some a \<Rightarrow> a)) Some)"

definition gate_field :: "string \<Rightarrow> json \<Rightarrow> gate_result \<Rightarrow> go_error + gate_result" where
  "gate_field k v g =
     (if k = ''passed'' then lift_field (json_bool v (gate_Passed g)) (\<lambda>x. g\<lparr>gate_Passed := x\<rparr>)
      else if k = ''state'' then lift_field (json_string v (gate_State g)) (\<lambda>x. g\<lparr>gate_State := x\<rparr>)
      else if k = ''reason'' then lift_field (json_string v (gate_Reason g)) (\<lambda>x. g\<lparr>gate_Reason := x\<rparr>)
      else if k = ''details'' then lift_field (decode_strings v) (\<lambda>x. g\<lparr>gate_Details := x\<rparr>)
      else Inr g)"

definition outcome_field :: "string \<Rightarrow> json \<Rightarrow> merge_outcome \<Rightarrow> go_error + merge_outcome" where
  "outcome_field k v out =
     (if k = ''auto_merge_requested'' then lift_field (json_bool v (mo_Requested out)) (\<lambda>x. out\<lparr>mo_Requested := x\<rparr>)
      else if k = ''auto_merge_state'' then lift_field (json_string v (mo_State out)) (\<lambda>x. out\<lparr>mo_State := x\<rparr>)
      else if k = ''auto_merge_label'' then lift_field (json_string v (mo_Label out)) (\<lambda>x. out\<lparr>mo_Label := x\<rparr>)
      else if k = ''assessment'' then lift_field (decode_assessment v (mo_Assessment out)) (\<lambda>x. out\<lparr>mo_Assessment := x\<rparr>)
      else if k = ''server_gate''
      then lift_field (json_object gate_field v (mo_ServerGate out)) (\<lambda>x. out\<lparr>mo_ServerGate := x\<rparr>)
      else if k = ''github_gate''
      then lift_field (json_object gate_field v (mo_GitHubGate out)) (\<lambda>x. out\<lparr>mo_GitHubGate := x\<rparr>)
      else if k = ''blocked_reason'' then lift_field (json_string v (mo_BlockedReason out)) (\<lambda>x. out\<lparr>mo_BlockedReason := x\<rparr>)
      else if k = ''judged_head_sha'' then lift_field (json_string v (mo_JudgedHeadSHA out)) (\<lambda>x. out\<lparr>mo_JudgedHeadSHA := x\<rparr>)
      else if k = ''merged_at'' then lift_field (json_string v (mo_MergedAt out)) (\<lambda>x. out\<lparr>mo_MergedAt := x\<rparr>)
      else if k = ''labels_applied'' then lift_field (decode_strings v) (\<lambda>x. out\<lparr>mo_LabelsApplied := x\<rparr>)
      else Inr out)"

definition autoMergeDetailFromOutcomeRaw :: "json \<Rightarrow> merge_outcome option" where
  "autoMergeDetailFromOutcomeRaw raw =
     (case json_object outcome_field raw zero_outcome of
        Inl e \<Rightarrow> None
      | Inr detail \<Rightarrow> if \<not> mo_Requested detail \<and> mo_State detail = [] then None else Some detail)"

text \<open>maps.Copy of the outcome over the members that are stored.\<close>

definition updateAutoMergeOutcomeRaw :: "json \<Rightarrow> merge_outcome \<Rightarrow> json" where
  "updateAutoMergeOutcomeRaw raw out =
     (let new = outcome_members out;
          base = (case raw of JObj kvs \<Rightarrow> kvs | _ \<Rightarrow> []) in
      JObj (filter (\<lambda>kv. fst kv \<notin> set (map fst new)) base @ new))"

section \<open>The outcome as it is shown\<close>

fun replace_underscores :: "string \<Rightarrow> string" where
  "replace_underscores s = map (\<lambda>c. if c = CHR ''_'' then CHR '' '' else c) s"

definition autoMergeStateLabel :: "string \<Rightarrow> string" where
  "autoMergeStateLabel state =
     (if state = autoMergeStateOff then ''Auto Merge off''
      else if state = autoMergeStateAssessing then ''Assessing merge safety''
      else if state = autoMergeStateSafeToMerge then ''Safe to merge''
      else if state = autoMergeStateWaitingReviews then ''Waiting for reviews''
      else if state = autoMergeStateWaitingChecks then ''Waiting for checks''
      else if state = autoMergeStateHumanReview then ''Human review needed''
      else if state = autoMergeStateMerged then ''Merged''
      else replace_underscores (trim_space state))"

definition autoMergeOutcomeMarkdown :: "merge_outcome \<Rightarrow> string" where
  "autoMergeOutcomeMarkdown out =
     join ([''State: '' @ autoMergeStateLabel (mo_State out)] @
       (case mo_Assessment out of
          None \<Rightarrow> []
        | Some a \<Rightarrow>
            [''Recommendation: '' @ as_Recommendation a, ''Risk: '' @ as_Risk a, ''Confidence: '' @ as_Confidence a,
             ''Judged head: `'' @ shortSHA (as_HeadSHA a) @ ''`''] @
            (if as_Summary a \<noteq> [] then [[], as_Summary a] else [])) @
       (if mo_BlockedReason out \<noteq> [] then [[], ''Reason: '' @ mo_BlockedReason out]
        else if gate_Reason (mo_GitHubGate out) \<noteq> [] then [[], ''Reason: '' @ gate_Reason (mo_GitHubGate out)]
        else if gate_Reason (mo_ServerGate out) \<noteq> [] then [[], ''Reason: '' @ gate_Reason (mo_ServerGate out)]
        else [])) [CHR 0x0A]"

definition displayAutoMergeLabel :: "merge_outcome \<Rightarrow> string" where
  "displayAutoMergeLabel out =
     (if mo_LabelsApplied out \<noteq> [] then join (mo_LabelsApplied out) '', ''
      else if autoMergeLabelFailed out then [] else mo_Label out)"

record merge_detail =
  md_Requested :: bool
  md_State :: string
  md_StateLabel :: string
  md_Recommendation :: string
  md_Risk :: string
  md_Confidence :: string
  md_Summary :: string
  md_TopReason :: string
  md_Label :: string
  md_JudgedHeadSHA :: string
  md_JudgedHeadShort :: string
  md_MergedAt :: string
  md_Assessment :: "assessment option"
  md_ServerGate :: gate_result
  md_GitHubGate :: gate_result
  md_LabelsApplied :: "string list"

definition autoMergeDetailFromOutcome :: "merge_outcome \<Rightarrow> merge_detail" where
  "autoMergeDetailFromOutcome out =
     (let state = (if mo_State out \<noteq> [] then mo_State out
            else if mo_Requested out then autoMergeStateAssessing else autoMergeStateOff);
          reason = firstNonEmpty [mo_BlockedReason out, gate_Reason (mo_GitHubGate out), gate_Reason (mo_ServerGate out)];
          sha = (if mo_JudgedHeadSHA out = [] then (case mo_Assessment out of None \<Rightarrow> [] | Some a \<Rightarrow> as_HeadSHA a)
            else mo_JudgedHeadSHA out);
          of_a = (\<lambda>f. case mo_Assessment out of None \<Rightarrow> [] | Some a \<Rightarrow> f a)
      in \<lparr>md_Requested = mo_Requested out, md_State = state, md_StateLabel = autoMergeStateLabel state,
          md_Recommendation = of_a as_Recommendation, md_Risk = of_a as_Risk, md_Confidence = of_a as_Confidence,
          md_Summary = of_a as_Summary,
          md_TopReason = (if reason \<noteq> [] then reason
            else of_a (\<lambda>a. case as_RiskFactors a of [] \<Rightarrow> [] | f # _ \<Rightarrow> f)),
          md_Label = displayAutoMergeLabel out, md_JudgedHeadSHA = sha, md_JudgedHeadShort = shortSHA sha,
          md_MergedAt = mo_MergedAt out, md_Assessment = mo_Assessment out, md_ServerGate = mo_ServerGate out,
          md_GitHubGate = mo_GitHubGate out, md_LabelsApplied = mo_LabelsApplied out\<rparr>)"

end
