(* ===== verification/Auto_Merge_Recheck.thy ===== *)
theory Auto_Merge_Recheck
  imports Auto_Merge_Outcome
begin

text \<open>
  The entry points of automatic merging: after a verified pull request, and again when a check or a
  review arrives. They evaluate against GitHub and write the outcome and an event to the run store.
  url.Parse and url.PathUnescape, the lookup of the repository's installation and the minting of a
  client are parameters.
\<close>

section \<open>The address of a pull request\<close>

record parsed_url =
  url_Scheme :: string
  url_Host :: string
  url_EscapedPath :: string

record url_ops =
  url_Parse :: "string \<Rightarrow> go_error + parsed_url"
  url_PathUnescape :: "string \<Rightarrow> go_error + string"

definition trim_slashes :: "string \<Rightarrow> string" where
  "trim_slashes s = rev (dropWhile (\<lambda>c. c = CHR ''/'') (rev (dropWhile (\<lambda>c. c = CHR ''/'') s)))"

fun split_slashes :: "string \<Rightarrow> string list" where
  "split_slashes [] = [[]]"
| "split_slashes (c # s) =
     (if c = CHR ''/'' then [] # split_slashes s
      else (case split_slashes s of [] \<Rightarrow> [[c]] | p # ps \<Rightarrow> (c # p) # ps))"

definition parseGitHubPRURL :: "url_ops \<Rightarrow> string \<Rightarrow> go_error + parsed_pr" where
  "parseGitHubPRURL ops raw0 =
     (let raw = trim_space raw0; quoted = (\<lambda>msg. ErrNew (''reported PR URL \"'' @ raw @ ''\" '' @ msg)) in
      case url_Parse ops raw of
        Inl e \<Rightarrow> Inl (Wrapped (''parse reported PR URL \"'' @ raw @ ''\"'') e)
      | Inr u \<Rightarrow>
          if url_Scheme u \<noteq> ''https'' \<or> \<not> equal_fold (url_Host u) ''github.com''
          then Inl (quoted ''is not an https://github.com pull request URL'')
          else (case split_slashes (trim_slashes (url_EscapedPath u)) of
              [p0, p1, p2, p3] \<Rightarrow>
                if p2 \<noteq> ''pull'' then Inl (quoted ''is not a GitHub pull request URL'')
                else (case url_PathUnescape ops p0 of
                    Inl e \<Rightarrow> Inl (Wrapped (''parse reported PR owner \"'' @ p0 @ ''\"'') e)
                  | Inr owner \<Rightarrow> (case url_PathUnescape ops p1 of
                        Inl e \<Rightarrow> Inl (Wrapped (''parse reported PR repo \"'' @ p1 @ ''\"'') e)
                      | Inr repo \<Rightarrow> (case atoi p3 of
                            None \<Rightarrow> Inl (quoted ''has invalid pull request number'')
                          | Some n \<Rightarrow>
                              if n \<le> 0 then Inl (quoted ''has invalid pull request number'')
                              else Inr \<lparr>pp_Owner = owner, pp_Repo = repo, pp_Number = n\<rparr>)))
            | _ \<Rightarrow> Inl (quoted ''is not a GitHub pull request URL'')))"

definition canonicalGitHubPRURL :: "string \<Rightarrow> string \<Rightarrow> int \<Rightarrow> string" where
  "canonicalGitHubPRURL owner repo number =
     ''https://github.com/'' @ owner @ ''/'' @ repo @ ''/pull/'' @ itoa number"

section \<open>Evaluation\<close>

record 'g merge_env =
  me_Text :: "go_error \<Rightarrow> string"
  me_Order :: "string list \<Rightarrow> string list"
  me_URL :: url_ops
  me_Configured :: bool
  me_RepoInstallation :: "string \<Rightarrow> string \<Rightarrow> string \<Rightarrow> go_error + int"
  me_ClientForInstallation :: "int \<Rightarrow> go_error + 'g github_client"
  me_WorkerID :: string

definition githubClientForAutoMerge ::
  "'g merge_env \<Rightarrow> string \<Rightarrow> string \<Rightarrow> string \<Rightarrow> go_error + 'g github_client" where
  "githubClientForAutoMerge env org owner repo =
     (if \<not> me_Configured env then Inl (ErrNew ''github or database is not configured'')
      else case me_RepoInstallation env org owner repo of
        Inl e \<Rightarrow>
          if err_is e ErrNoRows
          then Inl (ErrNew (''github repo not installed for org '' @ org @ '': '' @ owner @ ''/'' @ repo))
          else Inl (Wrapped ''resolve github repo for auto merge'' e)
      | Inr installation \<Rightarrow> (case me_ClientForInstallation env installation of
            Inl e \<Rightarrow> Inl (Wrapped ''mint github client for auto merge'' e)
          | Inr c \<Rightarrow> Inr c))"

definition start_outcome :: "assessment option \<Rightarrow> merge_outcome" where
  "start_outcome assessed = zero_outcome\<lparr>mo_Requested := True, mo_State := autoMergeStateHumanReview,
     mo_Label := autoMergeHumanReviewLabel, mo_Assessment := assessed,
     mo_JudgedHeadSHA := (case assessed of None \<Rightarrow> [] | Some a \<Rightarrow> as_HeadSHA a)\<rparr>"

definition evaluateAutoMerge ::
  "'g merge_env \<Rightarrow> string \<Rightarrow> string \<Rightarrow> string \<Rightarrow> assessment option \<Rightarrow> 'g \<Rightarrow> (merge_outcome \<times> 'g) option" where
  "evaluateAutoMerge env nowText org prURL assessed g =
     (let out = start_outcome assessed;
          give_up = (\<lambda>e. let reason = err_text (me_Text env) e in
            Some (out\<lparr>mo_BlockedReason := reason, mo_ServerGate := gate False autoMergeStateHumanReview reason\<rparr>, g)) in
      case parseGitHubPRURL (me_URL env) prURL of
        Inl e \<Rightarrow> give_up e
      | Inr parsed \<Rightarrow> (case githubClientForAutoMerge env org (pp_Owner parsed) (pp_Repo parsed) of
            Inl e \<Rightarrow> give_up e
          | Inr client \<Rightarrow>
              evaluateAutoMergeWithClient (me_Text env) (me_Order env) client parsed nowText assessed out g))"

definition applyAutoMergeHumanLabelBestEffort ::
  "'g merge_env \<Rightarrow> string \<Rightarrow> string \<Rightarrow> merge_outcome \<Rightarrow> 'g \<Rightarrow> merge_outcome \<times> 'g" where
  "applyAutoMergeHumanLabelBestEffort env org prURL out g =
     (case parseGitHubPRURL (me_URL env) prURL of
        Inl e \<Rightarrow> (out, g)
      | Inr parsed \<Rightarrow> (case githubClientForAutoMerge env org (pp_Owner parsed) (pp_Repo parsed) of
            Inl e \<Rightarrow> (out, g)
          | Inr client \<Rightarrow> applyAutoMergeLabel (me_Text env) client parsed autoMergeHumanReviewLabel out g))"

section \<open>Events of the run\<close>

text \<open>An error of AppendEvent is only logged.\<close>

definition recordAutoMergeRunEventForRun ::
  "'g merge_env \<Rightarrow> bool \<Rightarrow> go_time \<Rightarrow> agent_run \<Rightarrow> string \<Rightarrow> json \<Rightarrow> string \<Rightarrow> runs_db \<Rightarrow> runs_db" where
  "recordAutoMergeRunEventForRun env en now run event payload owner0 db =
     (if \<not> en \<or> run_ID run = [] then db
      else let owner1 = (if owner0 = [] then run_LeaseOwner run else owner0);
               owner = (if owner1 = [] then me_WorkerID env else owner1)
        in snd (AppendEvent en now (run_ID run) event payload owner db))"

definition recordAutoMergeRunEvent ::
  "'g merge_env \<Rightarrow> bool \<Rightarrow> go_time \<Rightarrow> agent_run option \<Rightarrow> string \<Rightarrow> json \<Rightarrow> runs_db \<Rightarrow> runs_db" where
  "recordAutoMergeRunEvent env en now run event payload db =
     (case run of
        None \<Rightarrow> db
      | Some r \<Rightarrow> recordAutoMergeRunEventForRun env en now r event payload (me_WorkerID env) db)"

definition terminal_event :: "string \<Rightarrow> string" where
  "terminal_event st =
     (if st = autoMergeStateWaitingReviews then autoMergeEventWaitingReviews
      else if st = autoMergeStateWaitingChecks then autoMergeEventWaitingChecks
      else if st = autoMergeStateMerged then autoMergeEventMerged
      else if st = autoMergeStateHumanReview then autoMergeEventBlocked
      else [])"

definition recordAutoMergeTerminalEvent ::
  "'g merge_env \<Rightarrow> bool \<Rightarrow> go_time \<Rightarrow> agent_run option \<Rightarrow> string \<Rightarrow> merge_outcome \<Rightarrow> runs_db \<Rightarrow> runs_db" where
  "recordAutoMergeTerminalEvent env en now run prURL out db =
     (let event = terminal_event (mo_State out) in
      if event = [] then db else recordAutoMergeRunEvent env en now run event (eventPayload prURL out) db)"

definition recordAutoMergeTerminalEventForRun ::
  "'g merge_env \<Rightarrow> bool \<Rightarrow> go_time \<Rightarrow> agent_run \<Rightarrow> string \<Rightarrow> merge_outcome \<Rightarrow> runs_db \<Rightarrow> runs_db" where
  "recordAutoMergeTerminalEventForRun env en now run prURL out db =
     (let event = terminal_event (mo_State out) in
      if event = [] then db
      else recordAutoMergeRunEventForRun env en now run event (eventPayload prURL out) (run_LeaseOwner run) db)"

section \<open>After a verified pull request\<close>

text \<open>\<open>bodies\<close> are the bodies of the transcript's blocks, \<open>run\<close> the run of the context.\<close>

definition handleAutoMergeAfterVerifiedPR ::
  "'g merge_env \<Rightarrow> bool \<Rightarrow> go_time \<Rightarrow> string \<Rightarrow> agent_run option \<Rightarrow> string \<Rightarrow> string \<Rightarrow> bool \<Rightarrow> string list \<Rightarrow>
   runs_db \<times> 'g \<Rightarrow> (merge_outcome \<times> runs_db \<times> 'g) option" where
  "handleAutoMergeAfterVerifiedPR env en now nowText run org prURL requested bodies = (\<lambda>(db, g).
     if \<not> requested then Some (zero_outcome\<lparr>mo_State := autoMergeStateOff\<rparr>, db, g)
     else let start = zero_outcome\<lparr>mo_Requested := True, mo_State := autoMergeStateAssessing\<rparr>;
              db1 = recordAutoMergeRunEvent env en now run ''auto_merge_assessment_started''
                (JObj [(''pr_url'', JStr prURL), (''state'', JStr (mo_State start))]) db
       in case parseAutoMergeAssessmentFromBlocks bodies of
            Inl e \<Rightarrow>
              let reason = err_text (me_Text env) e;
                  out0 = (human_review start)\<lparr>mo_BlockedReason := reason,
                    mo_ServerGate := gate False autoMergeStateHumanReview reason\<rparr>;
                  (out, g1) = applyAutoMergeHumanLabelBestEffort env org prURL out0 g
              in Some (out, recordAutoMergeRunEvent env en now run autoMergeEventBlocked (eventPayload prURL out) db1, g1)
          | Inr a \<Rightarrow>
              let db2 = recordAutoMergeRunEvent env en now run ''auto_merge_assessment_recorded''
                    (JObj [(''pr_url'', JStr prURL), (''head_sha'', JStr (as_HeadSHA a)), (''risk'', JStr (as_Risk a)),
                      (''confidence'', JStr (as_Confidence a)), (''recommendation'', JStr (as_Recommendation a))]) db1
              in (case evaluateAutoMerge env nowText org prURL (Some a) g of
                    None \<Rightarrow> None
                  | Some (out, g1) \<Rightarrow> Some (out, recordAutoMergeTerminalEvent env en now run prURL out db2, g1)))"

section \<open>Re-evaluation\<close>

record conversation_ref =
  cv_OrgID :: string
  cv_ThreadID :: string
  cv_PrURL :: string

text \<open>The body of the loop of recheckAutoMergeForPR for one conversation.\<close>

definition recheckRow ::
  "'g merge_env \<Rightarrow> bool \<Rightarrow> go_time \<Rightarrow> string \<Rightarrow> conversation_ref \<Rightarrow> runs_db \<times> 'g \<Rightarrow> (runs_db \<times> 'g) option" where
  "recheckRow env en now nowText row = (\<lambda>(db, g).
     case LatestForThread en (cv_OrgID row) (cv_ThreadID row) db of
       (Inl e, db1) \<Rightarrow> Some (db1, g)
     | (Inr run, db1) \<Rightarrow> (case autoMergeDetailFromOutcomeRaw (run_OutcomeDetail run) of
           None \<Rightarrow> Some (db1, g)
         | Some detail \<Rightarrow>
             if \<not> mo_Requested detail \<or> mo_Assessment detail = None then Some (db1, g)
             else if mo_State detail = autoMergeStateMerged \<or> mo_State detail = autoMergeStateHumanReview then Some (db1, g)
             else (case evaluateAutoMerge env nowText (cv_OrgID row) (cv_PrURL row) (mo_Assessment detail) g of
                 None \<Rightarrow> None
               | Some (out, g1) \<Rightarrow>
                   let updated = updateAutoMergeOutcomeRaw (run_OutcomeDetail run) out;
                       outcome = (if run_Outcome run = [] then ''completed_with_verified_pr'' else run_Outcome run);
                       (_, db2) = UpdateOutcome en now (run_ID run) outcome (Some (Inr updated)) (run_QualityScore run)
                         (run_LeaseOwner run) db1
                   in Some (recordAutoMergeTerminalEventForRun env en now run (cv_PrURL row) out db2, g1))))"

fun recheckRows ::
  "'g merge_env \<Rightarrow> bool \<Rightarrow> go_time \<Rightarrow> string \<Rightarrow> conversation_ref list \<Rightarrow> runs_db \<times> 'g \<Rightarrow> (runs_db \<times> 'g) option" where
  "recheckRows env en now nowText [] st = Some st"
| "recheckRows env en now nowText (row # rows) st =
     (case recheckRow env en now nowText row st of
        None \<Rightarrow> None
      | Some st1 \<Rightarrow> recheckRows env en now nowText rows st1)"

text \<open>\<open>conversations\<close> is the query ListConversationsByPRURL for the organisation, repository and address.\<close>

definition recheckAutoMergeForPR ::
  "'g merge_env \<Rightarrow> bool \<Rightarrow> go_time \<Rightarrow> string \<Rightarrow> (string \<Rightarrow> string \<Rightarrow> string \<Rightarrow> string \<Rightarrow> int \<Rightarrow> go_error + conversation_ref list) \<Rightarrow>
   string \<Rightarrow> string \<Rightarrow> string \<Rightarrow> int \<Rightarrow> string \<Rightarrow> runs_db \<times> 'g \<Rightarrow> (runs_db \<times> 'g) option" where
  "recheckAutoMergeForPR env en now nowText conversations org owner repo number prURL0 st =
     (if \<not> en \<or> number \<le> 0 then Some st
      else let prURL = (if trim_space prURL0 = [] then canonicalGitHubPRURL owner repo number else prURL0)
        in (case conversations org owner repo prURL (int32 number) of
              Inl e \<Rightarrow> Some st
            | Inr rows \<Rightarrow> recheckRows env en now nowText rows st))"

text \<open>The pull requests that contain a commit: a nil entry, or the number and the address.\<close>

fun recheckPRs ::
  "'g merge_env \<Rightarrow> bool \<Rightarrow> go_time \<Rightarrow> string \<Rightarrow> (string \<Rightarrow> string \<Rightarrow> string \<Rightarrow> string \<Rightarrow> int \<Rightarrow> go_error + conversation_ref list) \<Rightarrow>
   string \<Rightarrow> string \<Rightarrow> string \<Rightarrow> (int \<times> string) option list \<Rightarrow> runs_db \<times> 'g \<Rightarrow> (runs_db \<times> 'g) option" where
  "recheckPRs env en now nowText conversations org owner repo [] st = Some st"
| "recheckPRs env en now nowText conversations org owner repo (pr # prs) st =
     (case pr of
        None \<Rightarrow> recheckPRs env en now nowText conversations org owner repo prs st
      | Some (number, html) \<Rightarrow>
          if number \<le> 0 then recheckPRs env en now nowText conversations org owner repo prs st
          else let prURL = (if html = [] then canonicalGitHubPRURL owner repo number else html)
            in (case recheckAutoMergeForPR env en now nowText conversations org owner repo number prURL st of
                  None \<Rightarrow> None
                | Some st1 \<Rightarrow> recheckPRs env en now nowText conversations org owner repo prs st1))"

definition recheckAutoMergeForCommit ::
  "'g merge_env \<Rightarrow> bool \<Rightarrow> go_time \<Rightarrow> string \<Rightarrow> (string \<Rightarrow> string \<Rightarrow> string \<Rightarrow> string \<Rightarrow> int \<Rightarrow> go_error + conversation_ref list) \<Rightarrow>
   ('g github_client \<Rightarrow> string \<Rightarrow> string \<Rightarrow> string \<Rightarrow> ('g, (int \<times> string) option list) gh) \<Rightarrow>
   string \<Rightarrow> string \<Rightarrow> string \<Rightarrow> string \<Rightarrow> runs_db \<times> 'g \<Rightarrow> (runs_db \<times> 'g) option" where
  "recheckAutoMergeForCommit env en now nowText conversations prsWithCommit org owner repo sha0 = (\<lambda>(db, g).
     let sha = trim_space sha0 in
     if \<not> en \<or> sha = [] then Some (db, g)
     else case githubClientForAutoMerge env org owner repo of
       Inl e \<Rightarrow> Some (db, g)
     | Inr client \<Rightarrow> (case prsWithCommit client owner repo sha g of
           (Inl e, g1) \<Rightarrow> Some (db, g1)
         | (Inr prs, g1) \<Rightarrow> recheckPRs env en now nowText conversations org owner repo prs (db, g1)))"

end
