(* ===== verification/Runs_Invariant.thy ===== *)
theory Runs_Invariant
  imports Runs_Store
begin

text \<open>
  What every operation of the run store keeps: run ids are distinct, rows satisfy their constraints, a
  request of an organisation has one run and a thread at most one live run, and the events of a run
  are numbered 1, 2, ... without a gap up to the run's counter.
\<close>

definition run_inv :: "runs_db \<Rightarrow> run_row \<Rightarrow> bool" where
  "run_inv s r \<longleftrightarrow> run_row_error r = None \<and> run_refs_ok s r \<and> 1 \<le> ar_next_event_seq r"

definition events_of :: "runs_db \<Rightarrow> string \<Rightarrow> event_row list" where
  "events_of s i = filter (\<lambda>e. av_run_id e = i) (agent_run_events s)"

definition numbered :: "runs_db \<Rightarrow> run_row \<Rightarrow> bool" where
  "numbered s r \<longleftrightarrow> map av_seq (events_of s (ar_id r)) = [1..ar_next_event_seq r - 1]"

definition runs_ok :: "runs_db \<Rightarrow> bool" where
  "runs_ok s \<longleftrightarrow> table_inv ar_id (run_inv s) (agent_runs s) \<and>
     (\<forall>r \<in> set (agent_runs s). \<not> run_conflicts (agent_runs s) r \<and> numbered s r) \<and>
     (\<forall>e \<in> set (agent_run_events s). av_run_id e \<in> set (map ar_id (agent_runs s)))"

lemma check_run:
  "check_row run_constraints s r = None \<longleftrightarrow> run_row_error r = None \<and> \<not> run_conflicts (agent_runs s) r"
  by (simp add: check_row_None run_constraints_def)

lemma runs_distinct: "runs_ok s \<Longrightarrow> distinct (map ar_id (agent_runs s))"
  by (simp add: runs_ok_def table_inv_def)

lemma run_of_stored: "runs_ok s \<Longrightarrow> r \<in> set (agent_runs s) \<Longrightarrow> run_of s (ar_id r) = Some r"
  using runs_distinct unfolding run_of_def by (auto intro: runs.find_unique)

lemma run_ofD: "run_of s i = Some r \<Longrightarrow> r \<in> set (agent_runs s) \<and> ar_id r = i"
  unfolding run_of_def by (rule find_SomeD)

section \<open>Writes to rows\<close>

text \<open>
  Every update of a run keeps its keys and its counter, and never brings a terminal run back: such a
  write is an amendment. It moves the table from \<open>s\<close> to \<open>changed g s\<close>.
\<close>

definition amends :: "(run_row \<Rightarrow> run_row) \<Rightarrow> bool" where
  "amends g \<longleftrightarrow> (\<forall>r. ar_id (g r) = ar_id r \<and> ar_org_id (g r) = ar_org_id r \<and> ar_thread_id (g r) = ar_thread_id r \<and>
     ar_request_id (g r) = ar_request_id r \<and> ar_job_id (g r) = ar_job_id r \<and>
     ar_job_execution_id (g r) = ar_job_execution_id r \<and> (live (g r) \<longrightarrow> live r))"

definition where_run :: "(run_row \<Rightarrow> bool) \<Rightarrow> (run_row \<Rightarrow> run_row) \<Rightarrow> run_row \<Rightarrow> run_row" where
  "where_run p f r = (if p r then f r else r)"

definition changed :: "(run_row \<Rightarrow> run_row) \<Rightarrow> runs_db \<Rightarrow> runs_db" where
  "changed g s = agent_runs_update (map g) s"

lemma changed_simps [simp]:
  "agent_runs (changed g s) = map g (agent_runs s)" "agent_run_events (changed g s) = agent_run_events s"
  "run_refs_ok (changed g s) = run_refs_ok s" "events_of (changed g s) i = events_of s i"
  by (auto simp: changed_def run_refs_ok_def events_of_def fun_eq_iff)

lemma run_of_changed:
  assumes "amends g"
  shows "run_of (changed g s) i = map_option g (run_of s i)"
proof -
  have "find (\<lambda>r. ar_id r = i) (map g rs) = map_option g (find (\<lambda>r. ar_id r = i) rs)" for rs
    using assms by (induction rs) (auto simp: amends_def)
  then show ?thesis by (simp add: run_of_def)
qed

lemma conflicts_amended:
  assumes "amends g" and "run_conflicts (map g rs) (g r)"
  shows "run_conflicts rs r"
proof -
  from assms(2) obtain x where "x \<in> set rs" "ar_id (g x) \<noteq> ar_id (g r)" "ar_org_id (g x) = ar_org_id (g r)"
    "ar_request_id (g x) = ar_request_id (g r) \<or> live (g x) \<and> live (g r) \<and> ar_thread_id (g x) = ar_thread_id (g r)"
    by (auto simp: run_conflicts_def)
  then show ?thesis using assms(1) unfolding run_conflicts_def amends_def by metis
qed

lemma changed_inv:
  assumes "runs_ok s" and g: "amends g"
    and "\<And>r. r \<in> set (agent_runs s) \<Longrightarrow> run_row_error (g r) = None \<and> ar_next_event_seq (g r) = ar_next_event_seq r"
  shows "runs_ok (changed g s)"
proof -
  have ids: "map ar_id (map g rs) = map ar_id rs" for rs using g by (simp add: amends_def)
  have refs: "run_refs_ok s (g r) = run_refs_ok s r" for r using g by (simp add: run_refs_ok_def amends_def)
  have "table_inv ar_id (run_inv (changed g s)) (agent_runs (changed g s))"
    using assms(1,3) ids refs by (auto simp: runs_ok_def table_inv_def run_inv_def simp del: map_map)
  moreover have "\<forall>r \<in> set (agent_runs s). \<not> run_conflicts (map g (agent_runs s)) (g r) \<and> numbered (changed g s) (g r)"
    using assms conflicts_amended [OF g] by (auto simp: runs_ok_def numbered_def amends_def)
  ultimately show ?thesis
    using assms(1) ids [of "agent_runs s"] by (auto simp: runs_ok_def simp del: map_map)
qed

text \<open>An update by key and an update of all matching rows change the table in the same way.\<close>

lemma replace_is_map:
  assumes "distinct (map ar_id rs)" and "find p rs = Some r" and "\<forall>x. p x \<longrightarrow> ar_id x = i"
  shows "replace_rows p (f r) rs = map (where_run p f) rs"
proof -
  have "x = r" if "x \<in> set rs" "p x" for x
  proof -
    from assms(2) have "r \<in> set rs" "p r" by (auto dest: find_SomeD)
    moreover from this assms(3) that have "ar_id x = ar_id r" by metis
    ultimately show ?thesis using assms(1) that by (auto simp: distinct_map dest: inj_onD)
  qed
  then show ?thesis by (auto simp: replace_rows_def where_run_def)
qed

lemma one_run_written:
  assumes "distinct (map ar_id (agent_runs s))" and "\<forall>x. p x \<longrightarrow> ar_id x = i"
    and "sql_update agent_runs agent_runs_update run_constraints p f s = (res, t)"
  obtains (unchanged) e where "res = Inl e" "t = s"
  | (written) r where "run_of s i = Some r" "p r" "res = Inr (f r)" "run_row_error (f r) = None"
      "t = changed (where_run p f) s"
  using assms(3)
proof (cases rule: runs.update_cases)
  case (unchanged e)
  then show thesis by (rule that)
next
  case (written r)
  then have r: "r \<in> set (agent_runs s)" "p r" by (auto dest: find_SomeD)
  have "run_of s (ar_id r) = Some r"
    using runs.find_unique [OF assms(1) r(1)] by (simp add: run_of_def)
  then have "run_of s i = Some r" using assms(2) r(2) by blast
  moreover have "t = changed (where_run p f) s"
    using written(4) replace_is_map [OF assms(1) written(1) assms(2)] by (simp add: changed_def)
  ultimately show thesis using r written by (intro that(2)) (auto simp: check_run)
qed

lemma update_run_written:
  assumes "update_run p f s = (res, t)"
  obtains (unchanged) e where "res = Inl e" "t = s"
  | (written) "res = Inr (length (filter p (agent_runs s)))" "t = changed (where_run p f) s"
      "\<And>r. r \<in> set (agent_runs s) \<Longrightarrow> p r \<Longrightarrow> run_row_error (f r) = None"
  using assms unfolding update_run_def
proof (cases rule: runs.update_all_cases)
  case (unchanged e)
  then show thesis by (rule that)
next
  case written
  moreover have "(\<lambda>r. if p r then f r else r) = where_run p f" by (simp add: where_run_def fun_eq_iff)
  ultimately show thesis by (intro that(2)) (auto simp: check_run changed_def)
qed

section \<open>The queries keep the invariant\<close>

lemma stored_ok: "runs_ok s \<Longrightarrow> r \<in> set (agent_runs s) \<Longrightarrow> run_row_error r = None"
  by (simp add: runs_ok_def table_inv_def run_inv_def)

lemma keeps_update_run:
  assumes "amends (where_run p f)" and "\<And>r. ar_next_event_seq (f r) = ar_next_event_seq r"
  shows "keeps_inv runs_ok (update_run p f)"
proof (rule keeps_invI)
  fix s res t assume ok: "runs_ok s" and run: "update_run p f s = (res, t)"
  from run show "runs_ok t"
  proof (cases rule: update_run_written)
    case (unchanged e)
    with ok show ?thesis by simp
  next
    case written
    show ?thesis unfolding written(2)
      by (rule changed_inv [OF ok assms(1)])
        (use ok written(3) assms(2) in \<open>auto simp: where_run_def stored_ok\<close>)
  qed
qed

lemma keeps_sql_update_run:
  assumes "amends (where_run p f)" and "\<And>r. ar_next_event_seq (f r) = ar_next_event_seq r" and "\<forall>x. p x \<longrightarrow> ar_id x = i"
  shows "keeps_inv runs_ok (sql_update agent_runs agent_runs_update run_constraints p f)"
proof (rule keeps_invI)
  fix s res t assume ok: "runs_ok s"
    and run: "sql_update agent_runs agent_runs_update run_constraints p f s = (res, t)"
  from runs_distinct [OF ok] assms(3) run show "runs_ok t"
  proof (cases rule: one_run_written)
    case (unchanged e)
    with ok show ?thesis by simp
  next
    case (written r)
    have only: "x = r" if "x \<in> set (agent_runs s)" "p x" for x
      using that assms(3) written(1) run_of_stored [OF ok] by fastforce
    show ?thesis unfolding written(5)
      by (rule changed_inv [OF ok assms(1)])
        (use ok only written(4) assms(2) in \<open>auto simp: where_run_def stored_ok\<close>)
  qed
qed

lemmas run_queries = UpdateAgentRunKind_def UpdateAgentRunBranch_def UpdateAgentRunSandbox_def
  UpdateAgentRunSession_def UpdateAgentRunCommand_def UpdateAgentRunState_def TouchAgentRunLease_def
  UpdateAgentRunLogCursor_def UpdateAgentRunOutcome_def

lemmas claim_queries = ClaimAgentRunLease_def ClaimAgentRunLeaseFromOwner_def ClaimStaleAgentRunLease_def
  ClaimAgentRunForCancel_def claim_run_def

text \<open>The state is only written where the run is live, so each write is an amendment.\<close>

lemma run_writes_keep [keeps]:
  "keeps_inv runs_ok (UpdateAgentRunKind now i kind owner)" "keeps_inv runs_ok (UpdateAgentRunBranch now i branch owner)"
  "keeps_inv runs_ok (UpdateAgentRunSandbox now i sandbox owner)"
  "keeps_inv runs_ok (UpdateAgentRunSession now i session owner)"
  "keeps_inv runs_ok (UpdateAgentRunCommand now i session command step owner lease)"
  "keeps_inv runs_ok (UpdateAgentRunState now i st m owner)" "keeps_inv runs_ok (TouchAgentRunLease now i owner lease)"
  "keeps_inv runs_ok (UpdateAgentRunLogCursor now i cursor owner)"
  "keeps_inv runs_ok (UpdateAgentRunOutcome now i outcome detail score owner)"
  unfolding run_queries
  by (rule keeps_update_run; simp add: amends_def where_run_def live_def)+

lemma run_claims_keep [keeps]:
  "keeps_inv runs_ok (ClaimAgentRunLease now i owner lease)"
  "keeps_inv runs_ok (ClaimAgentRunLeaseFromOwner now i owner previous lease)"
  "keeps_inv runs_ok (ClaimStaleAgentRunLease now i owner lease d)"
  "keeps_inv runs_ok (ClaimAgentRunForCancel now i owner lease)"
  unfolding claim_queries
  by (rule keeps_sql_update_run [where i = i]; simp add: amends_def where_run_def live_def owned_by_def)+

text \<open>A new event takes the number the counter had.\<close>

definition bumped :: "go_time \<Rightarrow> run_row \<Rightarrow> run_row" where
  "bumped now r = r\<lparr>ar_next_event_seq := ar_next_event_seq r + 1, ar_heartbeat_at := Some now, ar_updated_at := Some now\<rparr>"

lemma append_cases:
  assumes "runs_ok s" and "AppendAgentRunEvent now i event payload owner s = (res, t)"
  obtains (unchanged) e where "res = Inl e" "t = s"
  | (written) r where "run_of s i = Some r" "ar_lease_owner r = owner" "res = Inr (ar_next_event_seq r)"
      "run_row_error (bumped now r) = None"
      "agent_runs t = map (\<lambda>x. if ar_id x = i then bumped now x else x) (agent_runs s)"
      "agent_run_events t = agent_run_events s @
         [\<lparr>av_run_id = i, av_seq = ar_next_event_seq r, av_event = event, av_data = payload, av_created_at = Some now\<rparr>]"
      "run_refs_ok t = run_refs_ok s"
proof (cases "sql_update agent_runs agent_runs_update run_constraints
         (\<lambda>r. owned_by i owner r \<and> ar_state r \<in> set run_states) (bumped now) s")
  case (Pair r1 u)
  then have "(\<lambda>r. r\<lparr>ar_next_event_seq := ar_next_event_seq r + 1, ar_heartbeat_at := Some now,
      ar_updated_at := Some now\<rparr>) = bumped now" by (simp add: bumped_def fun_eq_iff)
  note run = assms(2) [unfolded AppendAgentRunEvent_def this Pair prod.case]
  have sel: "\<forall>x. owned_by i owner x \<and> ar_state x \<in> set run_states \<longrightarrow> ar_id x = i" by (simp add: owned_by_def)
  show thesis
  proof (rule one_run_written [OF runs_distinct [OF assms(1)] sel Pair])
    fix e assume "r1 = Inl e"
    with run show thesis by (intro unchanged [of e]) auto
  next
    fix r assume r: "run_of s i = Some r" "owned_by i owner r \<and> ar_state r \<in> set run_states" "r1 = Inr (bumped now r)"
      "run_row_error (bumped now r) = None" and u: "u = changed (where_run (\<lambda>r. owned_by i owner r \<and> ar_state r \<in> set run_states) (bumped now)) s"
    have seq: "ar_next_event_seq (bumped now r) - 1 = ar_next_event_seq r" by (simp add: bumped_def)
    show thesis
    proof (cases "find (\<lambda>e. av_run_id e = i \<and> av_seq e = ar_next_event_seq r) (agent_run_events u)")
      case (Some e)
      with run seq show thesis by (intro unchanged [of "UniqueViolation ''agent_run_events''"]) (auto simp: r(3))
    next
      case None
      have "x = r" if "x \<in> set (agent_runs s)" "ar_id x = i" for x
        using that r(1) run_of_stored [OF assms(1)] by fastforce
      then have "agent_runs u = map (\<lambda>x. if ar_id x = i then bumped now x else x) (agent_runs s)"
        using r(2) by (auto simp: u where_run_def owned_by_def)
      moreover from None run seq have "res = Inr (ar_next_event_seq r) \<and> t = u\<lparr>agent_run_events := agent_run_events u @
         [\<lparr>av_run_id = i, av_seq = ar_next_event_seq r, av_event = event, av_data = payload, av_created_at = Some now\<rparr>]\<rparr>"
        by (auto simp: r(3) Let_def)
      ultimately show thesis using r u
        by (intro written) (auto simp: owned_by_def run_refs_ok_def changed_def fun_eq_iff)
    qed
  qed
qed

lemma append_keeps [keeps]: "keeps_inv runs_ok (AppendAgentRunEvent now i event payload owner)"
proof (rule keeps_invI)
  fix s res t assume ok: "runs_ok s" and run: "AppendAgentRunEvent now i event payload owner s = (res, t)"
  from ok run show "runs_ok t"
  proof (cases rule: append_cases)
    case (unchanged e)
    with ok show ?thesis by simp
  next
    case (written r)
    let ?g = "\<lambda>x. if ar_id x = i then bumped now x else x"
    let ?rs = "agent_runs s"
    have g: "amends ?g" by (simp add: amends_def bumped_def live_def)
    have only: "x = r" if "x \<in> set ?rs" "ar_id x = i" for x
      using that written(1) run_of_stored [OF ok] by fastforce
    have ids: "map ar_id (map ?g ?rs) = map ar_id ?rs" by (simp add: bumped_def)
    have log: "events_of t j = events_of s j @ (if j = i then [\<lparr>av_run_id = i, av_seq = ar_next_event_seq r,
        av_event = event, av_data = payload, av_created_at = Some now\<rparr>] else [])" for j
      by (simp add: events_of_def written(6))
    have "table_inv ar_id (run_inv t) (agent_runs t)"
      using ok ids only written(4)
      by (auto simp: runs_ok_def table_inv_def run_inv_def written(5,7) bumped_def run_refs_ok_def simp del: map_map)
    have "numbered t (?g x)" if x: "x \<in> set ?rs" for x
    proof (cases "ar_id x = i")
      case True
      with x only have "x = r" by blast
      moreover from x ok have "numbered s x" "1 \<le> ar_next_event_seq x"
        by (auto simp: runs_ok_def table_inv_def run_inv_def)
      ultimately show ?thesis
        using True by (simp add: numbered_def log bumped_def upto_rec2 [of 1 "ar_next_event_seq r"])
    next
      case False
      with x ok show ?thesis by (simp add: runs_ok_def numbered_def log)
    qed
    moreover have "\<not> run_conflicts (map ?g ?rs) (?g x)" if "x \<in> set ?rs" for x
      using that ok conflicts_amended [OF g, of ?rs x] by (auto simp: runs_ok_def)
    ultimately have "\<forall>x \<in> set (map ?g ?rs). \<not> run_conflicts (map ?g ?rs) x \<and> numbered t x"
      unfolding set_map by blast
    moreover have "i \<in> set (map ar_id ?rs)" using run_ofD [OF written(1)] by auto
    moreover have "\<forall>e \<in> set (agent_run_events s). av_run_id e \<in> set (map ar_id ?rs)"
      using ok by (simp add: runs_ok_def)
    ultimately show ?thesis
      using \<open>table_inv ar_id (run_inv t) (agent_runs t)\<close> by (simp add: runs_ok_def written(5,6) ids del: map_map set_map)
  qed
qed

lemma created_cases:
  assumes "CreateAgentRun now i org thread kind request trigger job ex msg owner lease s = (res, t)"
  obtains (refused) e where "res = Inl e" "t = s"
  | (created) r where "res = Inr r" "t = s\<lparr>agent_runs := agent_runs s @ [r]\<rparr>" "run_of s i = None"
      "\<not> run_conflicts (agent_runs s) r" "run_refs_ok s r" "run_row_error r = None" "ar_id r = i" "ar_org_id r = org"
      "ar_thread_id r = thread" "ar_request_id r = request" "ar_next_event_seq r = 1" "ar_lease_owner r = owner"
      "ar_state r = ''preparing''" "ar_lease_expires_at r = Some (now + lease)" "ar_heartbeat_at r = Some now"
  using assms by (auto simp: CreateAgentRun_def Let_def split: option.splits if_splits)

lemma conflicts_append:
  assumes "\<not> run_conflicts rs r" and "x \<in> set rs" and "\<not> run_conflicts rs x" and "ar_id x \<noteq> ar_id r"
  shows "\<not> run_conflicts (rs @ [r]) x"
  using assms unfolding run_conflicts_def by (simp; metis)

lemma create_run_keeps [keeps]:
  "keeps_inv runs_ok (CreateAgentRun now i org thread kind request trigger job ex msg owner lease)"
proof (rule keeps_invI)
  fix s res t assume ok: "runs_ok s"
    and run: "CreateAgentRun now i org thread kind request trigger job ex msg owner lease s = (res, t)"
  from run show "runs_ok t"
  proof (cases rule: created_cases)
    case (refused e)
    with ok show ?thesis by simp
  next
    case (created r)
    let ?rs = "agent_runs s"
    from created(3) have new: "\<forall>x \<in> set ?rs. ar_id x \<noteq> i" by (auto simp: run_of_def find_None_iff)
    have refs: "run_refs_ok t = run_refs_ok s" and log: "events_of t j = events_of s j" for j
      by (auto simp: created(2) run_refs_ok_def events_of_def fun_eq_iff)
    have "\<forall>e \<in> set (agent_run_events s). av_run_id e \<noteq> i"
      using ok new unfolding runs_ok_def set_map by (metis imageE)
    then have "events_of s i = []" by (auto simp: events_of_def filter_empty_conv)
    then have "numbered t r" by (simp add: numbered_def log created(7,11))
    moreover have "\<forall>x \<in> set ?rs. numbered t x" using ok by (simp add: runs_ok_def numbered_def log)
    moreover have "\<not> run_conflicts (?rs @ [r]) r"
      using created(4) by (simp add: run_conflicts_def)
    moreover have "\<forall>x \<in> set ?rs. \<not> run_conflicts (?rs @ [r]) x"
      using ok new created(4,7) conflicts_append by (auto simp: runs_ok_def)
    moreover have "table_inv ar_id (run_inv t) (?rs @ [r])"
      using ok new created(5,6,7,11) by (auto simp: runs_ok_def table_inv_def run_inv_def refs)
    ultimately show ?thesis using ok by (auto simp: runs_ok_def created(2))
  qed
qed

section \<open>The operations keep the invariant\<close>

lemma run_reads_keep [keeps]:
  "keeps_inv P (GetAgentRun i)" "keeps_inv P (GetAgentRunByRequest org request)"
  "keeps_inv P (GetActiveAgentRunForThread org thread)" "keeps_inv P (GetLatestAgentRunForThread org thread)"
  by (auto simp: keeps_inv_def GetAgentRun_def GetAgentRunByRequest_def GetActiveAgentRunForThread_def
      GetLatestAgentRunForThread_def sql_get_def first_row_def split: option.splits list.splits)

lemma Create_run_keeps: "keeps_inv runs_ok (Create_run en now r owner lease)"
  unfolding Create_run_def by (intro keeps)

lemma best_effort_keeps [keeps]: "keeps_inv P q \<Longrightarrow> keeps_inv P (best_effort en i q)"
  unfolding best_effort_def by (intro keeps)

lemma one_run_keeps [keeps]: "keeps_inv P q \<Longrightarrow> keeps_inv P (one_run en q)"
  unfolding one_run_def by (intro keeps)

lemma appendEvents_keeps [keeps]: "keeps_inv runs_ok (appendEvents msg now i owner evs)"
proof (induction evs)
  case Nil
  show ?case unfolding appendEvents.simps by (rule keeps_ret)
next
  case (Cons ev evs)
  show ?case unfolding appendEvents.simps by (intro keeps Cons)
qed

lemma Cancel_keeps: "keeps_inv runs_ok (Cancel en now i lastErr owner lease events)"
  unfolding Cancel_def cancelTx_def by (intro keeps)

lemma AppendEvent_keeps: "keeps_inv runs_ok (AppendEvent en now i event payload owner)"
  unfolding AppendEvent_def by (intro keeps)

lemma AppendEvents_keeps: "keeps_inv runs_ok (AppendEventsAndAdvanceCursor en now i events cursor owner)"
  unfolding AppendEventsAndAdvanceCursor_def by (intro keeps)

end
