(* ===== verification/Runs_Lease.thy ===== *)
theory Runs_Lease
  imports Runs_Invariant
begin

text \<open>
  What the run store promises its workers, as an abstract machine: a run is a lease with an owner, a
  phase and a log of events. Every operation a worker makes is a sequence of steps of this machine.
  Here are the machine, what any store that implements it gives (the locale \<open>lease_store\<close>), and the
  proof that the run store does.
\<close>

section \<open>The abstract machine\<close>

datatype phase = Live | Ended string

record lease =
  lv_phase :: phase
  lv_owner :: string
  lv_log :: "(string \<times> json) list"

text \<open>
  A step of worker \<open>w\<close>: it opens a lease, takes over a live one, writes to the log of its own, or
  ends its own while it is live.
\<close>

inductive lease_step :: "string \<Rightarrow> lease option \<Rightarrow> lease option \<Rightarrow> bool" for w where
  opened: "lease_step w None (Some \<lparr>lv_phase = Live, lv_owner = w, lv_log = []\<rparr>)"
| taken: "lv_phase v = Live \<Longrightarrow> lease_step w (Some v) (Some (v\<lparr>lv_owner := w\<rparr>))"
| logged: "lv_owner v = w \<Longrightarrow> lease_step w (Some v) (Some (v\<lparr>lv_log := lv_log v @ [e]\<rparr>))"
| ended: "lv_owner v = w \<Longrightarrow> lv_phase v = Live \<Longrightarrow> lease_step w (Some v) (Some (v\<lparr>lv_phase := Ended st\<rparr>))"

inductive_cases lease_stepE: "lease_step w v v'"
inductive_cases lease_step_SomeE: "lease_step w (Some v) v'"

text \<open>What a lease has become: its log has grown, and an ended one has not changed its phase or owner.\<close>

definition outlives :: "lease option \<Rightarrow> lease option \<Rightarrow> bool" where
  "outlives a b \<longleftrightarrow> (\<forall>v. a = Some v \<longrightarrow> (\<exists>v'. b = Some v' \<and> prefix (lv_log v) (lv_log v') \<and>
     (lv_phase v \<noteq> Live \<longrightarrow> lv_phase v' = lv_phase v \<and> lv_owner v' = lv_owner v)))"

lemma outlives_refl [simp]: "outlives a a"
  by (simp add: outlives_def)

lemma outlives_trans:
  assumes ab: "outlives a b" and bc: "outlives b c"
  shows "outlives a c"
  unfolding outlives_def
proof (intro allI impI)
  fix v assume "a = Some v"
  with ab obtain v1 where v1: "b = Some v1" "prefix (lv_log v) (lv_log v1)"
    "lv_phase v \<noteq> Live \<longrightarrow> lv_phase v1 = lv_phase v \<and> lv_owner v1 = lv_owner v" by (auto simp: outlives_def)
  with bc obtain v2 where "c = Some v2" "prefix (lv_log v1) (lv_log v2)"
    "lv_phase v1 \<noteq> Live \<longrightarrow> lv_phase v2 = lv_phase v1 \<and> lv_owner v2 = lv_owner v1" by (auto simp: outlives_def)
  with v1 show "\<exists>v'. c = Some v' \<and> prefix (lv_log v) (lv_log v') \<and>
      (lv_phase v \<noteq> Live \<longrightarrow> lv_phase v' = lv_phase v \<and> lv_owner v' = lv_owner v)"
    using prefix_order.trans [of "lv_log v" "lv_log v1" "lv_log v2"] by simp
qed

lemma step_outlives: "lease_step w a b \<Longrightarrow> outlives a b"
  by (elim lease_stepE) (auto simp: outlives_def)

lemma steps_outlive: "(lease_step w)\<^sup>*\<^sup>* a b \<Longrightarrow> outlives a b"
  by (induction rule: rtranclp_induct) (auto intro: outlives_trans step_outlives)

text \<open>An ended lease of another worker is out of reach.\<close>

lemma foreign_ended_stuck:
  "(lease_step w)\<^sup>*\<^sup>* (Some v) b \<Longrightarrow> lv_phase v \<noteq> Live \<Longrightarrow> lv_owner v \<noteq> w \<Longrightarrow> b = Some v"
  by (induction rule: rtranclp_induct) (auto elim: lease_step_SomeE)

section \<open>Stores that implement it\<close>

locale lease_store =
  fixes act :: "string \<Rightarrow> 's \<Rightarrow> 's \<Rightarrow> bool"
    and view :: "'s \<Rightarrow> string \<Rightarrow> lease option"
    and valid :: "'s \<Rightarrow> bool"
  assumes simulated: "act w s t \<Longrightarrow> valid s \<Longrightarrow> valid t \<and> (\<forall>i. (lease_step w)\<^sup>*\<^sup>* (view s i) (view t i))"
begin

definition anyone :: "'s \<Rightarrow> 's \<Rightarrow> bool" where
  "anyone s t \<longleftrightarrow> (\<exists>w. act w s t)"

lemma run_outlives:
  assumes "anyone\<^sup>*\<^sup>* s t" and "valid s"
  shows "valid t \<and> outlives (view s i) (view t i)"
  using assms
proof (induction rule: rtranclp_induct)
  case base
  then show ?case by simp
next
  case (step t u)
  then obtain w where "act w t u" and t: "valid t" "outlives (view s i) (view t i)"
    by (auto simp: anyone_def)
  then have "valid u" "outlives (view t i) (view u i)" using simulated steps_outlive by blast+
  with t show ?case using outlives_trans by blast
qed

lemma ended_needs_owner:
  assumes "act w s t" and "valid s" and "view s i = Some v" and "lv_phase v \<noteq> Live" and "lv_owner v \<noteq> w"
  shows "view t i = Some v"
  using simulated [OF assms(1,2)] assms(3-5) foreign_ended_stuck by metis

end

section \<open>The run store\<close>

definition lease_of :: "runs_db \<Rightarrow> run_row \<Rightarrow> lease" where
  "lease_of s r = \<lparr>lv_phase = (if live r then Live else Ended (ar_state r)), lv_owner = ar_lease_owner r,
     lv_log = map (\<lambda>e. (av_event e, av_data e)) (events_of s (ar_id r))\<rparr>"

definition lease_view :: "runs_db \<Rightarrow> string \<Rightarrow> lease option" where
  "lease_view s i = map_option (lease_of s) (run_of s i)"

text \<open>The writes of the worker that leads a run, and the operations that make a worker lead it.\<close>

inductive checkpoint :: "string \<Rightarrow> runs_db \<Rightarrow> runs_db \<Rightarrow> bool" for w where
  kind: "UpdateKind en now i k w s = (u, t) \<Longrightarrow> checkpoint w s t"
| branch: "UpdateBranch en now i b w s = (u, t) \<Longrightarrow> checkpoint w s t"
| sandbox: "UpdateSandbox en now i b w s = (u, t) \<Longrightarrow> checkpoint w s t"
| session: "UpdateSession en now i b w s = (u, t) \<Longrightarrow> checkpoint w s t"
| command: "UpdateCommand en now i se c st w d s = (u, t) \<Longrightarrow> checkpoint w s t"
| state: "UpdateState en now i st m w s = (u, t) \<Longrightarrow> checkpoint w s t"
| outcome: "UpdateOutcome en now i out det sc w s = (u, t) \<Longrightarrow> checkpoint w s t"
| touch: "TouchLease en now i w d s = (u, t) \<Longrightarrow> checkpoint w s t"
| cursor: "UpdateLogCursor en now i c w s = (u, t) \<Longrightarrow> checkpoint w s t"
| event: "AppendEvent en now i ev dat w s = (sq, t) \<Longrightarrow> checkpoint w s t"
| events: "AppendEventsAndAdvanceCursor en now i evs c w s = (sqs, t) \<Longrightarrow> checkpoint w s t"

inductive runs_step :: "string \<Rightarrow> runs_db \<Rightarrow> runs_db \<Rightarrow> bool" for w where
  writes: "checkpoint w s t \<Longrightarrow> runs_step w s t"
| create: "Create_run en now run w d s = (c, t) \<Longrightarrow> runs_step w s t"
| claim: "Claim en now i w d s = (r, t) \<Longrightarrow> runs_step w s t"
| claim_from: "ClaimFromOwner en now i w previous d s = (r, t) \<Longrightarrow> runs_step w s t"
| claim_stale: "ClaimStale en now i w d staleAfter s = (r, t) \<Longrightarrow> runs_step w s t"
| cancel: "Cancel en now i m w d evs s = (r, t) \<Longrightarrow> runs_step w s t"

inductive_cases checkpointE: "checkpoint w s t"
inductive_cases runs_stepE: "runs_step w s t"

lemmas checkpoint_ops = UpdateKind_def UpdateBranch_def UpdateSandbox_def UpdateSession_def UpdateCommand_def
  UpdateState_def UpdateOutcome_def TouchLease_def UpdateLogCursor_def AppendEvent_def
  AppendEventsAndAdvanceCursor_def Let_def

text \<open>A property of the tables that the queries of worker \<open>w\<close> keep is kept by its operations.\<close>

lemma appendEvents_by:
  assumes "\<And>ev dat. keeps_inv P (AppendAgentRunEvent now i ev dat w)"
  shows "keeps_inv P (appendEvents msg now i w evs)"
proof (induction evs)
  case Nil
  show ?case unfolding appendEvents.simps by (rule keeps_ret)
next
  case (Cons ev evs)
  show ?case unfolding appendEvents.simps by (intro keeps assms Cons)
qed

lemma checkpoint_by:
  assumes "checkpoint w s t" and "P s"
    and "\<And>now i k. keeps_inv P (UpdateAgentRunKind now i k w)" "\<And>now i b. keeps_inv P (UpdateAgentRunBranch now i b w)"
    "\<And>now i b. keeps_inv P (UpdateAgentRunSandbox now i b w)" "\<And>now i b. keeps_inv P (UpdateAgentRunSession now i b w)"
    "\<And>now i a b c d. keeps_inv P (UpdateAgentRunCommand now i a b c w d)"
    "\<And>now i st m. keeps_inv P (UpdateAgentRunState now i st m w)"
    "\<And>now i a b c. keeps_inv P (UpdateAgentRunOutcome now i a b c w)"
    "\<And>now i d. keeps_inv P (TouchAgentRunLease now i w d)" "\<And>now i c. keeps_inv P (UpdateAgentRunLogCursor now i c w)"
    "\<And>now i ev dat. keeps_inv P (AppendAgentRunEvent now i ev dat w)"
  shows "P t"
proof -
  note step = best_effort_keeps keeps_ret keeps_if keeps_tx keeps_wrap keeps_andthen appendEvents_by assms(3-)
  have ops: "\<And>en now i k. keeps_inv P (UpdateKind en now i k w)" "\<And>en now i b. keeps_inv P (UpdateBranch en now i b w)"
    "\<And>en now i b. keeps_inv P (UpdateSandbox en now i b w)" "\<And>en now i b. keeps_inv P (UpdateSession en now i b w)"
    "\<And>en now i a b c d. keeps_inv P (UpdateCommand en now i a b c w d)"
    "\<And>en now i st m. keeps_inv P (UpdateState en now i st m w)"
    "\<And>en now i a b c. keeps_inv P (UpdateOutcome en now i a b c w)"
    "\<And>en now i d. keeps_inv P (TouchLease en now i w d)" "\<And>en now i c. keeps_inv P (UpdateLogCursor en now i c w)"
    "\<And>en now i ev dat. keeps_inv P (AppendEvent en now i ev dat w)"
    "\<And>en now i evs c. keeps_inv P (AppendEventsAndAdvanceCursor en now i evs c w)"
    unfolding checkpoint_ops by (intro step)+
  from assms(1) show ?thesis
    by (elim checkpointE) (rule ops [THEN keeps_invD, OF assms(2)], assumption)+
qed

section \<open>The simulation\<close>

definition led :: "string \<Rightarrow> (string \<Rightarrow> lease option) \<Rightarrow> runs_db \<Rightarrow> bool" where
  "led w v0 s \<longleftrightarrow> runs_ok s \<and> (\<forall>i. (lease_step w)\<^sup>*\<^sup>* (v0 i) (lease_view s i))"

lemma led_refl: "runs_ok s \<Longrightarrow> led w (lease_view s) s"
  by (simp add: led_def)

lemma keeps_led:
  assumes "keeps_inv runs_ok m"
    and "\<And>s r t i. runs_ok s \<Longrightarrow> m s = (r, t) \<Longrightarrow> (lease_step w)\<^sup>*\<^sup>* (lease_view s i) (lease_view t i)"
  shows "keeps_inv (led w v0) m"
proof (rule keeps_invI)
  fix s r t assume "led w v0 s" and run: "m s = (r, t)"
  then have ok: "runs_ok s" and s: "\<And>i. (lease_step w)\<^sup>*\<^sup>* (v0 i) (lease_view s i)" by (auto simp: led_def)
  have "(lease_step w)\<^sup>*\<^sup>* (v0 i) (lease_view t i)" for i
    using s [of i] assms(2) [OF ok run, of i] by (rule rtranclp_trans)
  with keeps_invD [OF assms(1) ok run] show "led w v0 t" by (simp add: led_def)
qed

lemma view_changed:
  assumes "amends g"
  shows "lease_view (changed g s) i = map_option (\<lambda>r. lease_of s (g r)) (run_of s i)"
  by (simp add: lease_view_def run_of_changed [OF assms] lease_of_def comp_def option.map_comp)

text \<open>The two ways a worker writes a row: its own row, or a live row that it takes.\<close>

definition lawful :: "string \<Rightarrow> (run_row \<Rightarrow> bool) \<Rightarrow> (run_row \<Rightarrow> run_row) \<Rightarrow> bool" where
  "lawful w p f \<longleftrightarrow> amends (where_run p f) \<and> (\<forall>r. p r \<longrightarrow> ar_id (f r) = ar_id r \<and> ar_lease_owner (f r) = w \<and>
     (ar_lease_owner r = w \<and> (live r \<or> ar_state (f r) = ar_state r) \<or> live r \<and> live (f r)))"

lemma lawful_step:
  assumes "lawful w p f" and "p r"
  shows "(lease_step w)\<^sup>*\<^sup>* (Some (lease_of s r)) (Some (lease_of s (f r)))"
proof -
  let ?v = "lease_of s r"
  from assms have f: "ar_id (f r) = ar_id r" "ar_lease_owner (f r) = w"
    and either: "ar_lease_owner r = w \<and> (live r \<or> ar_state (f r) = ar_state r) \<or> live r \<and> live (f r)"
    by (auto simp: lawful_def)
  show ?thesis
  proof (cases "live r \<and> live (f r)")
    case True
    with f have "lease_of s (f r) = ?v\<lparr>lv_owner := w\<rparr>" by (simp add: lease_of_def)
    moreover have "lv_phase ?v = Live" using True by (simp add: lease_of_def)
    ultimately show ?thesis by (metis lease_step.taken r_into_rtranclp)
  next
    case False
    with either have own: "ar_lease_owner r = w" "live r \<or> ar_state (f r) = ar_state r" by auto
    show ?thesis
    proof (cases "live r")
      case True
      with False f own have "lease_of s (f r) = ?v\<lparr>lv_phase := Ended (ar_state (f r))\<rparr>" by (simp add: lease_of_def)
      moreover have "lv_phase ?v = Live" "lv_owner ?v = w" using True own by (auto simp: lease_of_def)
      ultimately show ?thesis by (metis lease_step.ended r_into_rtranclp)
    next
      case dead: False
      with own f have "lease_of s (f r) = ?v" by (simp add: lease_of_def live_def)
      then show ?thesis by simp
    qed
  qed
qed

lemma lawful_changed:
  assumes "lawful w p f"
  shows "(lease_step w)\<^sup>*\<^sup>* (lease_view s i) (lease_view (changed (where_run p f) s) i)"
proof -
  have "amends (where_run p f)" using assms by (simp add: lawful_def)
  note v = view_changed [OF this]
  show ?thesis
  proof (cases "run_of s i")
    case None
    then show ?thesis unfolding v by (simp add: lease_view_def)
  next
    case (Some r)
    then show ?thesis
      using lawful_step [OF assms, of r s] unfolding v by (cases "p r") (simp_all add: lease_view_def where_run_def)
  qed
qed

lemma led_update_run:
  assumes "lawful w p f" and "keeps_inv runs_ok (update_run p f)"
  shows "keeps_inv (led w v0) (update_run p f)"
proof (rule keeps_led [OF assms(2)])
  fix s r t i assume "update_run p f s = (r, t)"
  then show "(lease_step w)\<^sup>*\<^sup>* (lease_view s i) (lease_view t i)"
    by (rule update_run_written) (auto intro: lawful_changed [OF assms(1)])
qed

lemma led_one_run:
  assumes "lawful w p f" and "keeps_inv runs_ok (sql_update agent_runs agent_runs_update run_constraints p f)"
    and "\<forall>x. p x \<longrightarrow> ar_id x = k"
  shows "keeps_inv (led w v0) (sql_update agent_runs agent_runs_update run_constraints p f)"
proof (rule keeps_led [OF assms(2)])
  fix s r t i assume ok: "runs_ok s"
    and run: "sql_update agent_runs agent_runs_update run_constraints p f s = (r, t)"
  show "(lease_step w)\<^sup>*\<^sup>* (lease_view s i) (lease_view t i)"
    by (rule one_run_written [OF runs_distinct [OF ok] assms(3) run]) (auto intro: lawful_changed [OF assms(1)])
qed

lemma led_writes [keeps]:
  "keeps_inv (led w v0) (UpdateAgentRunKind now i kind w)" "keeps_inv (led w v0) (UpdateAgentRunBranch now i branch w)"
  "keeps_inv (led w v0) (UpdateAgentRunSandbox now i sandbox w)"
  "keeps_inv (led w v0) (UpdateAgentRunSession now i session w)"
  "keeps_inv (led w v0) (UpdateAgentRunCommand now i session command step w d)"
  "keeps_inv (led w v0) (UpdateAgentRunState now i st m w)" "keeps_inv (led w v0) (TouchAgentRunLease now i w d)"
  "keeps_inv (led w v0) (UpdateAgentRunLogCursor now i cursor w)"
  "keeps_inv (led w v0) (UpdateAgentRunOutcome now i out detail score w)"
  unfolding run_queries
  by (rule led_update_run, simp add: lawful_def amends_def where_run_def live_def owned_by_def,
      rule run_writes_keep [unfolded run_queries])+

lemma led_claims [keeps]:
  "keeps_inv (led w v0) (ClaimAgentRunLease now i w d)"
  "keeps_inv (led w v0) (ClaimAgentRunLeaseFromOwner now i w previous d)"
  "keeps_inv (led w v0) (ClaimStaleAgentRunLease now i w d staleAfter)"
  "keeps_inv (led w v0) (ClaimAgentRunForCancel now i w d)"
  unfolding claim_queries
  by (rule led_one_run [where k = i], simp add: lawful_def amends_def where_run_def live_def live_states_def owned_by_def,
      rule run_claims_keep [unfolded claim_queries], simp add: owned_by_def)+

lemma append_view:
  assumes "runs_ok s" and "run_of s i = Some r"
    and t: "agent_runs t = map (\<lambda>x. if ar_id x = i then bumped now x else x) (agent_runs s)"
      "agent_run_events t = agent_run_events s @
         [\<lparr>av_run_id = i, av_seq = n, av_event = event, av_data = payload, av_created_at = Some now\<rparr>]"
  shows "lease_view t j = (if j = i then Some ((lease_of s r)\<lparr>lv_log := lv_log (lease_of s r) @ [(event, payload)]\<rparr>)
    else lease_view s j)"
proof -
  let ?g = "\<lambda>x. if ar_id x = i then bumped now x else x"
  have "amends ?g" by (simp add: amends_def bumped_def live_def)
  moreover have "run_of t j = run_of (changed ?g s) j" by (simp add: run_of_def t)
  ultimately have run: "run_of t j = map_option ?g (run_of s j)" using run_of_changed by metis
  have "events_of t k = events_of s k @ (if k = i then [\<lparr>av_run_id = i, av_seq = n, av_event = event,
      av_data = payload, av_created_at = Some now\<rparr>] else [])" for k
    by (simp add: events_of_def t)
  then have "lease_of t (?g x) = (if ar_id x = i then (lease_of s x)\<lparr>lv_log := lv_log (lease_of s x) @ [(event, payload)]\<rparr>
      else lease_of s x)" for x
    by (auto simp: lease_of_def bumped_def live_def)
  note view = this
  show ?thesis
  proof (cases "j = i")
    case True
    have "ar_id r = i" using run_ofD [OF assms(2)] by simp
    then show ?thesis using True run view [of r] assms(2) by (simp add: lease_view_def)
  next
    case False
    have "ar_id x \<noteq> i" if "run_of s j = Some x" for x using run_ofD [OF that] False by simp
    moreover have "lease_of t x = lease_of s x" if "ar_id x \<noteq> i" for x using view [of x] that by simp
    ultimately show ?thesis using False run by (cases "run_of s j") (simp_all add: lease_view_def)
  qed
qed

lemma led_append [keeps]: "keeps_inv (led w v0) (AppendAgentRunEvent now k event payload w)"
proof (rule keeps_led [OF append_keeps])
  fix s r t i assume ok: "runs_ok s" and run: "AppendAgentRunEvent now k event payload w s = (r, t)"
  from ok run show "(lease_step w)\<^sup>*\<^sup>* (lease_view s i) (lease_view t i)"
  proof (cases rule: append_cases)
    case (unchanged e)
    then show ?thesis by simp
  next
    case (written x)
    have "lv_owner (lease_of s x) = w" using written(2) by (simp add: lease_of_def)
    then have "(lease_step w)\<^sup>*\<^sup>* (Some (lease_of s x))
        (Some ((lease_of s x)\<lparr>lv_log := lv_log (lease_of s x) @ [(event, payload)]\<rparr>))"
      by (intro r_into_rtranclp lease_step.logged)
    then show ?thesis
      using written(1) unfolding append_view [OF ok written(1,5,6)] by (simp add: lease_view_def)
  qed
qed

lemma led_create [keeps]:
  "keeps_inv (led w v0) (CreateAgentRun now k org thread kind request trigger job ex msg w d)"
proof (rule keeps_led [OF create_run_keeps])
  fix s r t i assume ok: "runs_ok s"
    and run: "CreateAgentRun now k org thread kind request trigger job ex msg w d s = (r, t)"
  from run show "(lease_step w)\<^sup>*\<^sup>* (lease_view s i) (lease_view t i)"
  proof (cases rule: created_cases)
    case (refused e)
    then show ?thesis by simp
  next
    case (created x)
    have "events_of s k = []"
    proof -
      have "\<forall>y \<in> set (agent_runs s). ar_id y \<noteq> k" using created(3) by (auto simp: run_of_def find_None_iff)
      then have "\<forall>e \<in> set (agent_run_events s). av_run_id e \<noteq> k"
        using ok unfolding runs_ok_def set_map by (metis imageE)
      then show ?thesis by (auto simp: events_of_def filter_empty_conv)
    qed
    moreover have "events_of t j = events_of s j" for j by (simp add: created(2) events_of_def)
    ultimately have "lease_of t x = \<lparr>lv_phase = Live, lv_owner = w, lv_log = []\<rparr>"
      by (simp add: lease_of_def live_def live_states_def created(7,12,13))
    moreover have "lease_of t y = lease_of s y" for y by (simp add: lease_of_def created(2) events_of_def)
    moreover have "run_of t i = (case run_of s i of None \<Rightarrow> if i = k then Some x else None | Some y \<Rightarrow> Some y)"
      by (auto simp: run_of_def created(2,7) find_append split: option.splits)
    ultimately show ?thesis
      using created(3) by (cases "run_of s i") (auto simp: lease_view_def intro: lease_step.opened)
  qed
qed

text \<open>Every operation of a worker is a sequence of steps of the machine.\<close>

lemma ops_led:
  "keeps_inv (led w v0) (Create_run en now run w d)" "keeps_inv (led w v0) (Claim en now i w d)"
  "keeps_inv (led w v0) (ClaimFromOwner en now i w previous d)"
  "keeps_inv (led w v0) (ClaimStale en now i w d staleAfter)" "keeps_inv (led w v0) (Cancel en now i m w d evs)"
  unfolding Create_run_def Claim_def ClaimFromOwner_def ClaimStale_def Cancel_def cancelTx_def
  by (intro keeps appendEvents_by)+

lemma runs_step_led:
  assumes "runs_step w s t" and "led w v0 s"
  shows "led w v0 t"
  using assms(1)
proof (cases rule: runs_step.cases)
  case writes
  then show ?thesis using assms(2) by (rule checkpoint_by) (rule led_writes led_append)+
qed (rule ops_led [THEN keeps_invD, OF assms(2)], assumption)+

interpretation runs_lease: lease_store runs_step lease_view runs_ok
proof
  fix w s t assume "runs_step w s t" and "runs_ok s"
  then have "led w (lease_view s) t" using runs_step_led led_refl by blast
  then show "runs_ok t \<and> (\<forall>i. (lease_step w)\<^sup>*\<^sup>* (lease_view s i) (lease_view t i))" by (simp add: led_def)
qed

end
