(* ===== verification/Runs_Laws.thy ===== *)
theory Runs_Laws
  imports Runs_Lease
begin

text \<open>
  How single operations of the run store decide: which rows a worker that does not hold the lease can
  touch (none), when a claim succeeds, what the pages of events add up to, and what a creation finds.
\<close>

section \<open>Writes without the lease\<close>

definition untouched :: "string \<Rightarrow> run_row \<Rightarrow> event_row list \<Rightarrow> runs_db \<Rightarrow> bool" where
  "untouched i r es s \<longleftrightarrow> runs_ok s \<and> run_of s i = Some r \<and> events_of s i = es"

lemma untouched_update:
  assumes "amends (where_run p f)" and "keeps_inv runs_ok (update_run p f)" and "\<not> p r"
  shows "keeps_inv (untouched i r es) (update_run p f)"
proof (rule keeps_invI)
  fix s res t assume u: "untouched i r es s" and run: "update_run p f s = (res, t)"
  then have "runs_ok t" using keeps_invD [OF assms(2)] by (auto simp: untouched_def)
  moreover from run u have "run_of t i = Some r \<and> events_of t i = es"
    by (rule_tac update_run_written [OF run])
      (auto simp: untouched_def run_of_changed [OF assms(1)] where_run_def assms(3))
  ultimately show "untouched i r es t" by (simp add: untouched_def)
qed

lemma untouched_writes:
  assumes "ar_lease_owner r \<noteq> w"
  shows "keeps_inv (untouched i r es) (UpdateAgentRunKind now k kind w)"
    "keeps_inv (untouched i r es) (UpdateAgentRunBranch now k branch w)"
    "keeps_inv (untouched i r es) (UpdateAgentRunSandbox now k sandbox w)"
    "keeps_inv (untouched i r es) (UpdateAgentRunSession now k session w)"
    "keeps_inv (untouched i r es) (UpdateAgentRunCommand now k session command step w d)"
    "keeps_inv (untouched i r es) (UpdateAgentRunState now k st m w)"
    "keeps_inv (untouched i r es) (UpdateAgentRunOutcome now k out detail score w)"
    "keeps_inv (untouched i r es) (TouchAgentRunLease now k w d)"
    "keeps_inv (untouched i r es) (UpdateAgentRunLogCursor now k cursor w)"
  unfolding run_queries
  by (rule untouched_update, simp add: amends_def where_run_def live_def,
      rule run_writes_keep [unfolded run_queries], simp add: owned_by_def assms)+

lemma untouched_append:
  assumes "ar_lease_owner r \<noteq> w"
  shows "keeps_inv (untouched i r es) (AppendAgentRunEvent now k event payload w)"
proof (rule keeps_invI)
  fix s res t assume u: "untouched i r es s" and run: "AppendAgentRunEvent now k event payload w s = (res, t)"
  then have ok: "runs_ok s" by (simp add: untouched_def)
  from ok run show "untouched i r es t"
  proof (cases rule: append_cases)
    case (unchanged e)
    with u show ?thesis by simp
  next
    case (written x)
    let ?g = "\<lambda>x. if ar_id x = k then bumped now x else x"
    from u written(1,2) assms have "k \<noteq> i" by (auto simp: untouched_def)
    moreover have "amends ?g" by (simp add: amends_def bumped_def live_def)
    then have "run_of t j = map_option ?g (run_of s j)" for j
      using run_of_changed [of ?g s j] by (simp add: run_of_def written(5))
    moreover have "ar_id r = i" using u run_ofD by (auto simp: untouched_def)
    ultimately show ?thesis
      using u keeps_invD [OF append_keeps ok run] by (simp add: untouched_def events_of_def written(6))
  qed
qed

lemma checkpoint_untouched:
  assumes "checkpoint w s t" and "untouched i r es s" and "ar_lease_owner r \<noteq> w"
  shows "untouched i r es t"
  using assms(1,2) by (rule checkpoint_by) (rule untouched_writes [OF assms(3)] untouched_append [OF assms(3)])+

text \<open>Without the lease an event is refused with the driver's no-rows error.\<close>

lemma append_refused:
  assumes "runs_ok s" and "\<forall>r. run_of s i = Some r \<longrightarrow> ar_lease_owner r \<noteq> w"
  shows "AppendAgentRunEvent now i event payload w s = (Inl ErrNoRows, s)"
proof -
  have "\<not> (owned_by i w r \<and> ar_state r \<in> set run_states)" if "r \<in> set (agent_runs s)" for r
    using that assms run_of_stored [OF assms(1) that] by (auto simp: owned_by_def)
  then have "find (\<lambda>r. owned_by i w r \<and> ar_state r \<in> set run_states) (agent_runs s) = None"
    unfolding find_None_iff by blast
  then show ?thesis by (simp add: AppendAgentRunEvent_def sql_update_def)
qed

section \<open>Claims\<close>

definition leased :: "go_time \<Rightarrow> string \<Rightarrow> duration \<Rightarrow> run_row \<Rightarrow> run_row" where
  "leased now w d r = r\<lparr>ar_state := ''recovering'', ar_lease_owner := w, ar_lease_expires_at := Some (now + d),
     ar_heartbeat_at := Some now, ar_updated_at := Some now\<rparr>"

lemma keyed_update_decides:
  assumes ok: "runs_ok s" and key: "\<forall>x. p x \<longrightarrow> ar_id x = i" and am: "amends (where_run p f)"
  shows "sql_update agent_runs agent_runs_update run_constraints p f s = (case run_of s i of
      None \<Rightarrow> (Inl ErrNoRows, s)
    | Some r \<Rightarrow>
        if p r then (case run_row_error (f r) of
            Some e \<Rightarrow> (Inl e, s)
          | None \<Rightarrow> (Inr (f r), changed (where_run p f) s))
        else (Inl ErrNoRows, s))"
proof (cases "find p (agent_runs s)")
  case None
  then have "\<not> p r" if "run_of s i = Some r" for r
    using run_ofD [OF that] by (auto simp: find_None_iff)
  with None show ?thesis by (auto simp: sql_update_def split: option.split)
next
  case (Some r)
  then have r: "r \<in> set (agent_runs s)" "p r" by (auto dest: find_SomeD)
  with key have "ar_id r = i" by simp
  then have of: "run_of s i = Some r" using run_of_stored [OF ok r(1)] by simp
  have "ar_id (f r) = ar_id r \<and> ar_org_id (f r) = ar_org_id r \<and> ar_thread_id (f r) = ar_thread_id r \<and>
      ar_request_id (f r) = ar_request_id r \<and> (live (f r) \<longrightarrow> live r)"
    using am [unfolded amends_def, rule_format, of r] r(2) by (simp add: where_run_def)
  then have "\<not> run_conflicts (agent_runs s) (f r)"
    using ok r(1) by (auto simp: runs_ok_def run_conflicts_def)
  moreover have "replace_rows p (f r) (agent_runs s) = map (where_run p f) (agent_runs s)"
    by (rule replace_is_map [OF runs_distinct [OF ok] Some, where i = i]) (use key in blast)
  ultimately show ?thesis
    unfolding sql_update_def changed_def of Some option.case using r(2)
    by (simp add: check_row_def run_constraints_def split: option.split)
qed

lemma claim_run_decides:
  assumes ok: "runs_ok s" and key: "\<forall>x. p x \<longrightarrow> ar_id x = i \<and> live x"
  shows "claim_run now p w d s = (case run_of s i of
      None \<Rightarrow> (Inl ErrNoRows, s)
    | Some r \<Rightarrow> if p r then (Inr (leased now w d r), changed (where_run p (leased now w d)) s) else (Inl ErrNoRows, s))"
proof -
  have cl: "claim_run now p w d = sql_update agent_runs agent_runs_update run_constraints p (leased now w d)"
    by (simp add: claim_run_def leased_def [abs_def])
  have am: "amends (where_run p (leased now w d))" using key by (simp add: amends_def where_run_def leased_def)
  have key': "\<forall>x. p x \<longrightarrow> ar_id x = i" using key by simp
  have "run_row_error (leased now w d r) = None" if "run_of s i = Some r" for r
    using stored_ok [OF ok conjunct1 [OF run_ofD [OF that]]]
    by (auto simp: run_row_error_def run_row_int8_def run_row_ok_def leased_def run_states_def split: if_splits)
  then show ?thesis
    unfolding cl keyed_update_decides [OF ok key' am] by (auto split: option.split)
qed

lemma Claim_decides:
  assumes "runs_ok s"
  shows "Claim True now i w d s = (case run_of s i of
      Some r \<Rightarrow>
        if live r \<and> (before (ar_lease_expires_at r) now \<or> ar_lease_owner r = w)
        then (Inr (fromRunRow (leased now w (lease_interval d) r)),
          changed (\<lambda>x. if ar_id x = i then leased now w (lease_interval d) x else x) s)
        else (Inl ErrNoRows, s)
    | None \<Rightarrow> (Inl ErrNoRows, s))"
proof -
  let ?p = "\<lambda>r. ar_id r = i \<and> live r \<and> (before (ar_lease_expires_at r) now \<or> ar_lease_owner r = w)"
  have p: "\<forall>x. ?p x \<longrightarrow> ar_id x = i \<and> live x" by simp
  have "map (where_run ?p f) (agent_runs s) = map (\<lambda>x. if ar_id x = i then f x else x) (agent_runs s)"
    if "run_of s i = Some r" "?p r" for r f
  proof -
    have "x = r" if "x \<in> set (agent_runs s)" "ar_id x = i" for x
      using that \<open>run_of s i = Some r\<close> run_of_stored [OF assms that(1)] by simp
    then show ?thesis using \<open>?p r\<close> by (auto simp: where_run_def)
  qed
  then have same: "changed (where_run ?p f) s = changed (\<lambda>x. if ar_id x = i then f x else x) s"
    if "run_of s i = Some r" "?p r" for r f
    using that by (simp add: changed_def cong: map_cong)
  have cl: "Claim True now i w d s = (case claim_run now ?p w (lease_interval d) s of
      (Inl e, t) \<Rightarrow> (Inl e, t) | (Inr row, t) \<Rightarrow> (Inr (fromRunRow row), t))"
    by (simp add: Claim_def one_run_def ClaimAgentRunLease_def andthen_run split: prod.split sum.split)
  show ?thesis
  proof (cases "run_of s i")
    case None
    then show ?thesis by (simp add: cl claim_run_decides [OF assms p])
  next
    case (Some r)
    then have "ar_id r = i" using run_ofD by simp
    with Some same [OF Some] show ?thesis by (simp add: cl claim_run_decides [OF assms p])
  qed
qed

section \<open>Pages of events\<close>

lemma page_rest:
  fixes k :: "'a \<Rightarrow> int"
  assumes "sorted_wrt (<) (map k xs)" and "0 < n" and "n \<le> length xs"
  shows "filter (\<lambda>e. k (last (take n xs)) < k e) xs = drop n xs"
  using assms
proof (induction xs arbitrary: n)
  case Nil
  then show ?case by simp
next
  case (Cons x xs)
  show ?case
  proof (cases "n = 1")
    case True
    have "filter (\<lambda>e. k x < k e) xs = xs" using Cons.prems(1) by (auto simp: filter_id_conv)
    then show ?thesis using True by simp
  next
    case False
    then obtain m where m: "n = Suc m" "0 < m" using Cons.prems(2) by (cases n) auto
    with Cons.prems(3) have ne: "take m xs \<noteq> []" "m \<le> length xs" by auto
    then have "last (take m xs) \<in> set xs" by (meson in_set_takeD last_in_set)
    then have "k x < k (last (take m xs))" using Cons.prems(1) by simp
    with Cons.IH [of m] Cons.prems(1) m ne show ?thesis by simp
  qed
qed

definition events_after :: "runs_db \<Rightarrow> string \<Rightarrow> int \<Rightarrow> event_row list" where
  "events_after s i c = filter (\<lambda>e. c < av_seq e) (events_of s i)"

lemma events_sorted:
  assumes "runs_ok s"
  shows "sorted_wrt (<) (map av_seq (events_of s i))"
proof (cases "events_of s i")
  case Nil
  then show ?thesis by simp
next
  case (Cons e es)
  then have "e \<in> set (events_of s i)" by simp
  then have "e \<in> set (agent_run_events s)" "av_run_id e = i" by (auto simp: events_of_def)
  then obtain r where "r \<in> set (agent_runs s)" "ar_id r = i"
    using assms unfolding runs_ok_def set_map by (metis imageE)
  then have "map av_seq (events_of s i) = [1..ar_next_event_seq r - 1]"
    using assms by (auto simp: runs_ok_def numbered_def)
  then show ?thesis by simp
qed

lemma after_sorted: "runs_ok s \<Longrightarrow> sorted_wrt (<) (map av_seq (events_after s i c))"
  using events_sorted [of s i] unfolding events_after_def
  by (simp add: sorted_wrt_map sorted_wrt_filter)

lemma page_of_events:
  assumes "runs_ok s"
  shows "ListAgentRunEventsFromSeq i c n s = (Inr (take (nat n) (events_after s i c)), s)"
proof -
  have "filter (\<lambda>e. av_run_id e = i \<and> c < av_seq e) (agent_run_events s) = events_after s i c"
    unfolding events_after_def events_of_def filter_filter by (rule filter_cong) auto
  moreover have "sorted (map av_seq (events_after s i c))"
    using after_sorted [OF assms] strict_sorted_iff by blast
  ultimately show ?thesis
    by (simp add: ListAgentRunEventsFromSeq_def sorted_sort_id sort_key_id_if_sorted)
qed

lemma pages_return_all:
  assumes "runs_ok s" and "i \<noteq> []"
  shows "eventPages True i c out s = Some (Inr (out @ map eventFromRow (events_after s i c)), s)"
  using assms
proof (induction "length (events_after s i c)" arbitrary: c out rule: less_induct)
  case less
  let ?es = "events_after s i c" and ?n = "nat agentRunEventPageLimit"
  have lim: "agentRunEventPageLimit = 5000" by (simp add: agentRunEventPageLimit_def)
  have page: "EventsAfterLimit True i c agentRunEventPageLimit s = (Inr (map eventFromRow (take ?n ?es)), s)"
    using less.prems by (simp add: EventsAfterLimit_def Let_def andthen_run page_of_events lim)
  show ?case
  proof (cases "length ?es < ?n")
    case True
    then show ?thesis by (subst eventPages.simps) (simp add: page, simp add: lim)
  next
    case False
    let ?c = "av_seq (last (take ?n ?es))"
    have n: "0 < ?n" "?n \<le> length ?es" using False by (auto simp: lim)
    have ne: "take ?n ?es \<noteq> []" using n by auto
    then have "last (take ?n ?es) \<in> set ?es" by (meson in_set_takeD last_in_set)
    then have "c < ?c" by (simp add: events_after_def)
    then have "events_after s i ?c = filter (\<lambda>e. ?c < av_seq e) ?es"
      unfolding events_after_def filter_filter by (intro filter_cong) auto
    also have "\<dots> = drop ?n ?es" by (rule page_rest [OF after_sorted [OF less.prems(1)] n])
    finally have rest: "events_after s i ?c = drop ?n ?es" .
    then have "length (events_after s i ?c) < length ?es" using n by simp
    have "map eventFromRow (take ?n ?es) @ map eventFromRow (drop ?n ?es) = map eventFromRow ?es"
      by (simp flip: map_append)
    with less.hyps [OF \<open>length (events_after s i ?c) < length ?es\<close> less.prems, of "out @ map eventFromRow (take ?n ?es)"]
    have "eventPages True i ?c (out @ map eventFromRow (take ?n ?es)) s =
        Some (Inr (out @ map eventFromRow ?es), s)"
      by (simp add: rest)
    moreover have "ev_Seq (last (map eventFromRow (take ?n ?es))) = ?c"
      using ne by (simp add: last_map eventFromRow_def)
    moreover have "\<not> int (length (map eventFromRow (take ?n ?es))) < agentRunEventPageLimit"
      using n by (simp add: lim)
    ultimately show ?thesis by (subst eventPages.simps) (simp add: page)
  qed
qed

section \<open>Appending and cancelling\<close>

lemma append_exact:
  assumes ok: "runs_ok s" and r: "run_of s i = Some r" and w: "ar_lease_owner r = w"
  shows "(\<exists>t. AppendAgentRunEvent now i event payload w s = (Inr (ar_next_event_seq r), t) \<and>
      is_int64 (ar_next_event_seq r + 1)) \<or>
    AppendAgentRunEvent now i event payload w s = (Inl IntegerOutOfRange, s) \<and> \<not> is_int64 (ar_next_event_seq r + 1)"
proof -
  let ?p = "\<lambda>r. owned_by i w r \<and> ar_state r \<in> set run_states"
  have b: "(\<lambda>r. r\<lparr>ar_next_event_seq := ar_next_event_seq r + 1, ar_heartbeat_at := Some now,
      ar_updated_at := Some now\<rparr>) = bumped now" by (simp add: bumped_def fun_eq_iff)
  have am: "amends (where_run ?p (bumped now))" by (simp add: amends_def where_run_def bumped_def live_def)
  have key: "\<forall>x. ?p x \<longrightarrow> ar_id x = i" by (simp add: owned_by_def)
  have rs: "r \<in> set (agent_runs s)" "ar_id r = i" using run_ofD [OF r] by auto
  with ok have good: "run_row_error r = None" "numbered s r" by (auto simp: stored_ok runs_ok_def)
  then have p: "?p r" using rs w by (auto simp: owned_by_def run_row_error_def run_row_ok_def split: if_splits)
  have err: "run_row_error (bumped now r) = (if is_int64 (ar_next_event_seq r + 1) then None else Some IntegerOutOfRange)"
    using good(1) by (auto simp: run_row_error_def run_row_int8_def run_row_ok_def bumped_def split: if_splits)
  have "set (map av_seq (events_of s i)) = {1..ar_next_event_seq r - 1}"
    using good(2) rs(2) by (simp add: numbered_def)
  moreover have "av_seq e \<in> set (map av_seq (events_of s i))"
    if "e \<in> set (agent_run_events s)" "av_run_id e = i" for e
    using that by (auto simp: events_of_def)
  ultimately have "\<forall>e \<in> set (agent_run_events s). \<not> (av_run_id e = i \<and> av_seq e = ar_next_event_seq r)"
    by fastforce
  then have fresh: "find (\<lambda>e. av_run_id e = i \<and> av_seq e = ar_next_event_seq r) (agent_run_events s) = None"
    by (simp add: find_None_iff)
  show ?thesis
    unfolding AppendAgentRunEvent_def b keyed_update_decides [OF ok key am] r option.case if_P [OF p] err
    by (auto simp: bumped_def fresh Let_def)
qed

definition logged_events :: "pending_event list \<Rightarrow> (string \<times> json) list" where
  "logged_events evs = map (\<lambda>e. (pe_Event e, pe_Data e)) evs"

text \<open>The holder's appends all succeed, in order, unless the counter would leave int8.\<close>

lemma appendEvents_exact:
  assumes "runs_ok s" and "run_of s i = Some r" and "ar_lease_owner r = w"
    and "appendEvents msg now i w evs s = (res, t)"
  shows "case res of
      Inl e \<Rightarrow> \<not> is_int64 (ar_next_event_seq r + int (length evs))
    | Inr sqs \<Rightarrow> runs_ok t \<and> sqs = [ar_next_event_seq r..ar_next_event_seq r + int (length evs) - 1] \<and>
        (\<exists>r'. run_of t i = Some r' \<and> ar_state r' = ar_state r \<and> ar_lease_owner r' = w) \<and>
        (\<forall>j. lease_view t j = (if j = i
           then Some ((lease_of s r)\<lparr>lv_log := lv_log (lease_of s r) @ logged_events evs\<rparr>) else lease_view s j))"
  using assms
proof (induction evs arbitrary: s r res)
  case Nil
  then show ?case by (auto simp: lease_view_def logged_events_def)
next
  case (Cons ev evs)
  note ok = Cons.prems(1) and r = Cons.prems(2) and w = Cons.prems(3) and run = Cons.prems(4)
  let ?n = "ar_next_event_seq r"
  have pos: "1 \<le> ?n" using ok run_ofD [OF r] by (auto simp: runs_ok_def table_inv_def run_inv_def)
  from append_exact [OF ok r w, where now = now and event = "pe_Event ev" and payload = "pe_Data ev"] show ?case
  proof (elim disjE exE conjE)
    assume "AppendAgentRunEvent now i (pe_Event ev) (pe_Data ev) w s = (Inl IntegerOutOfRange, s)"
      and "\<not> is_int64 (?n + 1)"
    with run pos show ?thesis by (auto simp: andthen_run wrap_err_def is_int64_def)
  next
    fix u assume a: "AppendAgentRunEvent now i (pe_Event ev) (pe_Data ev) w s = (Inr ?n, u)"
    from ok a obtain b: "run_of u i = Some (bumped now r)"
      and v: "\<And>j. lease_view u j = (if j = i then Some ((lease_of s r)\<lparr>lv_log := lv_log (lease_of s r) @
          [(pe_Event ev, pe_Data ev)]\<rparr>) else lease_view s j)"
    proof (cases rule: append_cases)
      case (written x)
      let ?g = "\<lambda>x. if ar_id x = i then bumped now x else x"
      have x: "x = r" using written(1) r by simp
      have "amends ?g" by (simp add: amends_def bumped_def live_def)
      then have "run_of u i = map_option ?g (run_of s i)"
        using run_of_changed [of ?g s i] by (simp add: run_of_def written(5))
      then have "run_of u i = Some (bumped now r)" using r run_ofD [OF r] by simp
      then show thesis using append_view [OF ok written(1,5,6)] x by (intro that) auto
    qed simp
    have ok': "runs_ok u" using keeps_invD [OF append_keeps ok a] .
    obtain r2 where rest: "appendEvents msg now i w evs u = (r2, t)"
      and res: "res = (case r2 of Inl e \<Rightarrow> Inl e | Inr sqs \<Rightarrow> Inr (?n # sqs))"
      using run a by (auto simp: andthen_run wrap_err_def split: prod.splits sum.splits)
    have b2: "ar_lease_owner (bumped now r) = w" "ar_next_event_seq (bumped now r) = ?n + 1"
      "ar_state (bumped now r) = ar_state r" using w by (auto simp: bumped_def)
    have lv: "lease_of u (bumped now r) = (lease_of s r)\<lparr>lv_log := lv_log (lease_of s r) @ [(pe_Event ev, pe_Data ev)]\<rparr>"
      using v [of i] b by (simp add: lease_view_def)
    note ih = Cons.IH [OF ok' b b2(1) rest]
    show ?thesis
    proof (cases r2)
      case (Inl e)
      with ih res b2 show ?thesis by (simp add: algebra_simps)
    next
      case (Inr sqs)
      with ih res b2 lv v show ?thesis
        by (simp add: upto_rec1 logged_events_def algebra_simps)
    qed
  qed
qed

lemma update_run_decides:
  assumes ok: "runs_ok s" and am: "amends (where_run p f)"
    and good: "\<And>r. r \<in> set (agent_runs s) \<Longrightarrow> p r \<Longrightarrow> run_row_error (f r) = None"
  shows "update_run p f s = (Inr (length (filter p (agent_runs s))), changed (where_run p f) s)"
proof -
  have "check_row run_constraints s (f r) = None" if "r \<in> set (agent_runs s)" "p r" for r
  proof -
    have "ar_id (f r) = ar_id r \<and> ar_org_id (f r) = ar_org_id r \<and> ar_thread_id (f r) = ar_thread_id r \<and>
        ar_request_id (f r) = ar_request_id r \<and> (live (f r) \<longrightarrow> live r)"
      using am [unfolded amends_def, rule_format, of r] that(2) by (simp add: where_run_def)
    then have "\<not> run_conflicts (agent_runs s) (f r)"
      using ok that(1) by (auto simp: runs_ok_def run_conflicts_def)
    with good [OF that] show ?thesis by (simp add: check_run)
  qed
  then have "find (\<lambda>r. p r \<and> check_row run_constraints s (f r) \<noteq> None) (agent_runs s) = None"
    unfolding find_None_iff by simp
  moreover have "(\<lambda>r. if p r then f r else r) = where_run p f" by (simp add: where_run_def fun_eq_iff)
  ultimately show ?thesis by (simp add: update_run_def sql_update_all_def changed_def)
qed

text \<open>Marking the holder's live run as cancelled ends its lease and no other.\<close>

lemma cancelled_view:
  assumes ok: "runs_ok s" and r: "run_of s i = Some r" "live r" "ar_lease_owner r = w"
  shows "\<exists>n t. UpdateAgentRunState now i StateCancelled m w s = (Inr n, t) \<and>
    (\<forall>j. lease_view t j = (if j = i then Some ((lease_of s r)\<lparr>lv_phase := Ended ''cancelled''\<rparr>) else lease_view s j))"
proof -
  let ?p = "\<lambda>r. owned_by i w r \<and> live r"
  let ?f = "\<lambda>r. r\<lparr>ar_state := StateCancelled, ar_last_error := m, ar_heartbeat_at := Some now, ar_updated_at := Some now\<rparr>"
  have dead: "\<not> live (?f x)" for x by (simp add: live_def live_states_def StateCancelled_def)
  have am: "amends (where_run ?p ?f)" using dead by (simp add: amends_def where_run_def)
  have "run_row_error (?f x) = None" if "x \<in> set (agent_runs s)" for x
    using stored_ok [OF ok that]
    by (auto simp: run_row_error_def run_row_int8_def run_row_ok_def run_states_def StateCancelled_def split: if_splits)
  then have run: "UpdateAgentRunState now i StateCancelled m w s =
      (Inr (length (filter ?p (agent_runs s))), changed (where_run ?p ?f) s)"
    unfolding UpdateAgentRunState_def by (intro update_run_decides [OF ok am])
  have p: "?p r" using r run_ofD [OF r(1)] by (simp add: owned_by_def)
  have "lease_view (changed (where_run ?p ?f) s) j =
      (if j = i then Some ((lease_of s r)\<lparr>lv_phase := Ended ''cancelled''\<rparr>) else lease_view s j)" for j
  proof (cases "j = i")
    case True
    with p r(1) dead show ?thesis
      unfolding view_changed [OF am] by (simp add: where_run_def lease_of_def StateCancelled_def)
  next
    case False
    then have "\<not> ?p x" if "run_of s j = Some x" for x using run_ofD [OF that] by (simp add: owned_by_def)
    with False show ?thesis
      unfolding view_changed [OF am] by (cases "run_of s j") (auto simp: lease_view_def where_run_def)
  qed
  with run show ?thesis by blast
qed

lemma cancel_claims:
  assumes ok: "runs_ok s"
  shows "case run_of s i of
      Some r \<Rightarrow>
        if live r
        then \<exists>row t. ClaimAgentRunForCancel now i w d s = (Inr row, t) \<and> runs_ok t \<and> run_of t i = Some row \<and>
          ar_id row = i \<and> live row \<and> ar_lease_owner row = w \<and> ar_next_event_seq row = ar_next_event_seq r \<and>
          (\<forall>j. lease_view t j = (if j = i then Some ((lease_of s r)\<lparr>lv_owner := w\<rparr>) else lease_view s j))
        else ClaimAgentRunForCancel now i w d s = (Inl ErrNoRows, s)
    | None \<Rightarrow> ClaimAgentRunForCancel now i w d s = (Inl ErrNoRows, s)"
proof -
  let ?p = "\<lambda>r. ar_id r = i \<and> live r"
  let ?f = "\<lambda>r. r\<lparr>ar_lease_owner := w, ar_lease_expires_at := Some (now + d), ar_heartbeat_at := Some now,
        ar_updated_at := Some now\<rparr>"
  have same: "live (?f x) = live x" for x by (simp add: live_def)
  have am: "amends (where_run ?p ?f)" using same by (simp add: amends_def where_run_def)
  have key: "\<forall>x. ?p x \<longrightarrow> ar_id x = i" by simp
  note q = keyed_update_decides [OF ok key am]
  show ?thesis
  proof (cases "run_of s i")
    case None
    then show ?thesis by (simp add: ClaimAgentRunForCancel_def q)
  next
    case (Some r)
    then have r: "r \<in> set (agent_runs s)" "ar_id r = i" using run_ofD by auto
    have err: "run_row_error (?f r) = None"
      using stored_ok [OF ok r(1)] by (auto simp: run_row_error_def run_row_int8_def run_row_ok_def split: if_splits)
    show ?thesis
    proof (cases "live r")
      case False
      with Some show ?thesis by (simp add: ClaimAgentRunForCancel_def q)
    next
      case True
      let ?t = "changed (where_run ?p ?f) s"
      have run: "ClaimAgentRunForCancel now i w d s = (Inr (?f r), ?t)"
        using Some True r(2) err by (simp add: ClaimAgentRunForCancel_def q)
      have "run_of ?t i = Some (?f r)"
        using Some True r(2) by (simp add: run_of_changed [OF am] where_run_def)
      moreover have "lease_view ?t j = (if j = i then Some ((lease_of s r)\<lparr>lv_owner := w\<rparr>) else lease_view s j)" for j
      proof (cases "j = i")
        case True
        with \<open>live r\<close> Some r(2) same [of r] show ?thesis
          unfolding view_changed [OF am] by (simp add: where_run_def lease_of_def)
      next
        case False
        then have "\<not> ?p x" if "run_of s j = Some x" for x using run_ofD [OF that] by simp
        with False show ?thesis
          unfolding view_changed [OF am] by (cases "run_of s j") (auto simp: lease_view_def where_run_def)
      qed
      moreover have "runs_ok ?t" using keeps_invD [OF run_claims_keep(4) ok run] .
      ultimately show ?thesis using Some True r(2) run same by simp
    qed
  qed
qed

text \<open>The whole of Cancel, on every branch.\<close>

lemma Cancel_decides:
  assumes ok: "runs_ok s" and i: "i \<noteq> []" and run: "Cancel True now i m w d evs s = (res, t)"
  shows "case res of
      Inl e \<Rightarrow> t = s \<and> (\<forall>r. run_of s i = Some r \<longrightarrow> live r \<longrightarrow> \<not> is_int64 (ar_next_event_seq r + int (length evs)))
    | Inr r' \<Rightarrow> run_ID r' = i \<and> run_State r' = ''cancelled'' \<and> run_LastError r' = m \<and>
        (\<exists>r. run_of s i = Some r \<and> live r \<and>
          (\<forall>j. lease_view t j = (if j = i
             then Some \<lparr>lv_phase = Ended ''cancelled'', lv_owner = w, lv_log = lv_log (lease_of s r) @ logged_events evs\<rparr>
             else lease_view s j)))"
proof -
  have tx: "with_tx (cancelTx now i m w d evs) s = (res, t)" using run i by (simp add: Cancel_def)
  let ?rest = "\<lambda>row. andthen (appendEvents ''append cancel event'' now i w evs) (\<lambda>_.
         andthen (UpdateAgentRunState now i StateCancelled m w) (\<lambda>_.
           ret ((fromRunRow row)\<lparr>run_State := StateCancelled, run_LastError := m\<rparr>)))"
  have body: "cancelTx now i m w d evs s = (case ClaimAgentRunForCancel now i w (lease_interval d) s of
      (Inl e, u) \<Rightarrow> (Inl e, u) | (Inr row, u) \<Rightarrow> ?rest row u)"
    by (simp add: cancelTx_def andthen_run)
  note claim = cancel_claims [OF ok, where i = i and now = now and w = w and d = "lease_interval d"]
  show ?thesis
  proof (cases "\<exists>r. run_of s i = Some r \<and> live r")
    case False
    with claim have "ClaimAgentRunForCancel now i w (lease_interval d) s = (Inl ErrNoRows, s)"
      by (auto split: option.splits if_splits)
    with tx body False show ?thesis by (auto simp: with_tx_def)
  next
    case True
    then obtain r where r: "run_of s i = Some r" "live r" by blast
    with claim obtain row u where u: "ClaimAgentRunForCancel now i w (lease_interval d) s = (Inr row, u)" "runs_ok u"
        "run_of u i = Some row" "ar_id row = i" "live row" "ar_lease_owner row = w" "ar_next_event_seq row = ar_next_event_seq r"
      and lu: "\<And>j. lease_view u j = (if j = i then Some ((lease_of s r)\<lparr>lv_owner := w\<rparr>) else lease_view s j)"
      by auto
    obtain ra v where a: "appendEvents ''append cancel event'' now i w evs u = (ra, v)" by fastforce
    note ap = appendEvents_exact [OF u(2,3,6) a]
    show ?thesis
    proof (cases ra)
      case (Inl e)
      with tx body u(1) a have "res = Inl e" "t = s" by (auto simp: with_tx_def andthen_run)
      with ap Inl r u(7) show ?thesis by simp
    next
      case (Inr sqs)
      with ap obtain r2 where v: "runs_ok v" "run_of v i = Some r2" "ar_state r2 = ar_state row" "ar_lease_owner r2 = w"
        and lv: "\<And>j. lease_view v j = (if j = i
          then Some ((lease_of u row)\<lparr>lv_log := lv_log (lease_of u row) @ logged_events evs\<rparr>) else lease_view u j)"
        by auto
      have "live r2" using v(3) u(5) by (simp add: live_def)
      from cancelled_view [OF v(1,2) this v(4), of now m] obtain n z where
        z: "UpdateAgentRunState now i StateCancelled m w v = (Inr n, z)"
        and lz: "\<And>j. lease_view z j = (if j = i then Some ((lease_of v r2)\<lparr>lv_phase := Ended ''cancelled''\<rparr>) else lease_view v j)"
        by blast
      have "res = Inr ((fromRunRow row)\<lparr>run_State := StateCancelled, run_LastError := m\<rparr>)" "t = z"
        using tx body u(1) a Inr z by (auto simp: with_tx_def andthen_run)
      moreover have "lease_of u row = (lease_of s r)\<lparr>lv_owner := w\<rparr>" using lu [of i] u(3) by (simp add: lease_view_def)
      moreover from this have "lease_of v r2 = (lease_of s r)\<lparr>lv_owner := w, lv_log := lv_log (lease_of s r) @ logged_events evs\<rparr>"
        using lv [of i] v(2) by (simp add: lease_view_def)
      ultimately show ?thesis
        using r u(4) lu lv lz by (simp add: fromRunRow_def StateCancelled_def lease_of_def)
    qed
  qed
qed

section \<open>Creation\<close>

text \<open>The insert of a run, for the values the store passes on.\<close>

definition insert_run :: "go_time \<Rightarrow> agent_run \<Rightarrow> string \<Rightarrow> duration \<Rightarrow> (runs_db, run_row) go" where
  "insert_run now r w d = CreateAgentRun now (run_ID r) (run_OrgID r) (run_ThreadID r) (run_RunKind r) (run_RequestID r)
     (triggerSourceOrDefault (run_TriggerSource r)) (optionalString (run_JobID r))
     (optionalString (run_JobExecutionID r)) (run_UserRequest r) w (lease_interval d)"

lemma insert_error:
  "insert_run now r w d s = (Inl e, t) \<Longrightarrow> err_is e ErrNoRows \<longleftrightarrow> e = ErrNoRows"
  by (auto simp: insert_run_def CreateAgentRun_def Let_def run_row_error_def split: if_splits)

lemma refused_again:
  "insert_run now r w d s = (Inl ErrNoRows, t) \<Longrightarrow> insert_run now' r w' d' s = (Inl ErrNoRows, s)"
  by (auto simp: insert_run_def CreateAgentRun_def Let_def run_row_error_def run_row_int8_def run_row_ok_def
      run_conflicts_def live_def split: if_splits)

lemma Create_run_cases:
  assumes "Create_run True now run w d s = (res, t)"
  obtains (refused) e where "res = Inl e" "t = s"
  | (created) row where "insert_run now run w d s = (Inr row, t)" "res = Inr (fromRunRow row, True)"
  | (seen) row where "insert_run now run w d s = (Inl ErrNoRows, s)" "t = s" "res = Inr (fromRunRow row, False)"
      "GetAgentRunByRequest (run_OrgID run) (run_RequestID run) s = (Inr row, s)"
  | (busy) row where "insert_run now run w d s = (Inl ErrNoRows, s)" "t = s" "res = Inr (fromRunRow row, False)"
      "GetAgentRunByRequest (run_OrgID run) (run_RequestID run) s = (Inl ErrNoRows, s)"
      "GetActiveAgentRunForThread (run_OrgID run) (run_ThreadID run) s = (Inr row, s)"
proof -
  obtain r0 u where ins: "insert_run now run w d s = (r0, u)" by fastforce
  have keep: "r0 = Inl e \<Longrightarrow> u = s" for e
    using ins by (auto simp: insert_run_def CreateAgentRun_def Let_def split: option.splits if_splits)
  obtain r1 where by_request: "GetAgentRunByRequest (run_OrgID run) (run_RequestID run) s = (r1, s)"
    "r1 = Inl ErrNoRows \<or> (\<exists>row. r1 = Inr row)"
    unfolding GetAgentRunByRequest_def sql_get_def
    by (cases "find (\<lambda>r. ar_org_id r = run_OrgID run \<and> ar_request_id r = run_RequestID run \<and> live r) (agent_runs s)") auto
  obtain r2 where by_thread: "GetActiveAgentRunForThread (run_OrgID run) (run_ThreadID run) s = (r2, s)"
    unfolding GetActiveAgentRunForThread_def first_row_def
    by (cases "sort_key (newest ar_updated_at) (filter (\<lambda>r. ar_org_id r = run_OrgID run \<and>
      ar_thread_id r = run_ThreadID run \<and> live r) (agent_runs s))") auto
  note run = assms [unfolded Create_run_def, folded insert_run_def, simplified, unfolded attempt_run ins]
  show thesis
  proof (cases r0)
    case (Inr row)
    with run show thesis by (intro created [of row]) (auto simp: ins)
  next
    case (Inl e)
    then have u: "u = s" by (rule keep)
    show thesis
    proof (cases "e = ErrNoRows")
      case False
      then have "\<not> err_is e ErrNoRows" using insert_error ins Inl by blast
      with run Inl u show thesis by (intro refused) auto
    next
      case True
      show thesis
      proof (cases "\<exists>row. r1 = Inr row")
        case True
        with run Inl u \<open>e = ErrNoRows\<close> by_request ins show thesis by (elim exE, intro seen) (auto simp: attempt_run)
      next
        case False
        with by_request have "r1 = Inl ErrNoRows" by blast
        with run Inl u \<open>e = ErrNoRows\<close> by_request by_thread ins show thesis
          by (cases r2) (auto simp: attempt_run intro: refused busy split: if_splits)
      qed
    qed
  qed
qed

lemma by_request_found:
  "GetAgentRunByRequest org request s = (Inr row, t) \<Longrightarrow>
   row \<in> set (agent_runs s) \<and> ar_org_id row = org \<and> ar_request_id row = request \<and> live row"
  by (auto simp: GetAgentRunByRequest_def sql_get_def split: option.splits dest: find_SomeD)

lemma active_found:
  assumes "GetActiveAgentRunForThread org thread s = (Inr row, t)"
  shows "row \<in> set (agent_runs s) \<and> ar_org_id row = org \<and> ar_thread_id row = thread \<and> live row"
proof -
  let ?l = "sort_key (newest ar_updated_at) (filter (\<lambda>r. ar_org_id r = org \<and> ar_thread_id r = thread \<and> live r) (agent_runs s))"
  from assms have "row \<in> set ?l"
    unfolding GetActiveAgentRunForThread_def first_row_def by (cases ?l) (simp_all del: set_sort)
  then show ?thesis by simp
qed

lemma inserted_row:
  assumes "insert_run now run w d s = (Inr row, t)"
  shows "t = s\<lparr>agent_runs := agent_runs s @ [row]\<rparr> \<and> run_of s (run_ID run) = None \<and> \<not> run_conflicts (agent_runs s) row \<and>
    ar_id row = run_ID run \<and> ar_org_id row = run_OrgID run \<and> ar_thread_id row = run_ThreadID run \<and>
    ar_request_id row = run_RequestID run \<and> ar_state row = ''preparing'' \<and> live row \<and> ar_lease_owner row = w"
  using assms unfolding insert_run_def
  by (rule created_cases) (auto simp: live_def live_states_def)

lemma new_row_conflicts:
  assumes "\<not> run_conflicts rs row" and "live row" and "x \<in> set rs" and "ar_id x \<noteq> ar_id row" and "ar_org_id x = ar_org_id row"
  shows "ar_request_id x \<noteq> ar_request_id row" and "live x \<Longrightarrow> ar_thread_id x \<noteq> ar_thread_id row"
  using assms unfolding run_conflicts_def by blast+

text \<open>A creation that is repeated finds the run the first one answered with.\<close>

lemma Create_run_again:
  assumes "Create_run True now run w d s = (Inr (r, b), t)"
  shows "Create_run True now' run w' d' t = (Inr (r, False), t)"
proof -
  have again: "Create_run True now' run w' d' t = (Inr (fromRunRow row, False), t)"
    if "insert_run now' run w' d' t = (Inl ErrNoRows, t)"
      "GetAgentRunByRequest (run_OrgID run) (run_RequestID run) t = (Inr row, t) \<or>
       GetAgentRunByRequest (run_OrgID run) (run_RequestID run) t = (Inl ErrNoRows, t) \<and>
       GetActiveAgentRunForThread (run_OrgID run) (run_ThreadID run) t = (Inr row, t)" for row
    using that by (auto simp: Create_run_def attempt_run insert_run_def)
  from assms show ?thesis
  proof (cases rule: Create_run_cases)
    case (refused e)
    then show ?thesis by simp
  next
    case (created row)
    note ins = inserted_row [OF created(1)]
    have "run_of t (run_ID run) \<noteq> None" using ins by (auto simp: run_of_def find_append split: option.splits)
    moreover have "run_row_error row = None"
      using created(1) unfolding insert_run_def by (rule created_cases) auto
    then have "run_row_int8 row" "run_row_ok row" by (auto simp: run_row_error_def split: if_splits)
    ultimately have "insert_run now' run w' d' t = (Inl ErrNoRows, t)"
      using created(1) by (auto simp: insert_run_def CreateAgentRun_def Let_def run_row_error_def run_row_int8_def
          run_row_ok_def is_int64_def split: option.splits if_splits)
    moreover have "x \<in> set (agent_runs s) \<Longrightarrow> ar_id x \<noteq> ar_id row" for x
      using ins by (auto simp: run_of_def find_None_iff)
    then have "find (\<lambda>x. ar_org_id x = run_OrgID run \<and> ar_request_id x = run_RequestID run \<and> live x) (agent_runs s) = None"
      using ins new_row_conflicts [of "agent_runs s" row] unfolding find_None_iff by metis
    then have "GetAgentRunByRequest (run_OrgID run) (run_RequestID run) t = (Inr row, t)"
      using ins by (simp add: GetAgentRunByRequest_def sql_get_def find_append)
    ultimately show ?thesis using again created(2) by auto
  next
    case (seen row)
    with again refused_again [OF seen(1)] show ?thesis by auto
  next
    case (busy row)
    with again refused_again [OF busy(1)] show ?thesis by auto
  qed
qed

end
