(* ===== verification/Auto_Merge_Laws.thy ===== *)
theory Auto_Merge_Laws
  imports Auto_Merge_Recheck Go_Json_Text Runs_Laws
begin

text \<open>
  What the gates of automatic merging let through, said without their loops, and what the calls to
  GitHub can do.
\<close>

section \<open>The server gate\<close>

definition harmless_file :: "commit_file \<Rightarrow> bool" where
  "harmless_file f \<longleftrightarrow> (let name = to_lower (trim_space (cf_Filename f)) in
     \<not> isMigrationPath name \<and> \<not> isDependencyPath name \<and> \<not> isDeploymentPath name \<and> \<not> isAuthOrSecurityPath name \<and>
     \<not> isPaymentPath name \<and> \<not> (to_lower (trim_space (cf_Status f)) = ''removed'' \<and> isTestPath name))"

definition small_change :: "commit_file option list \<Rightarrow> bool" where
  "small_change files \<longleftrightarrow> length files \<le> 30 \<and> (\<forall>f. Some f \<in> set files \<longrightarrow> harmless_file f) \<and>
     sum_list (map cf_Changes (List.map_filter id files)) \<le> 1000"

definition harmless_issue :: "remaining_issue \<Rightarrow> bool" where
  "harmless_issue i \<longleftrightarrow> issue_Severity i \<in> {''low'', ''none''} \<or>
     issue_Severity i = [] \<and> issue_Summary i = [] \<and> issue_Description i = []"

text \<open>On a normalised assessment.\<close>

definition server_safe :: "assessment \<Rightarrow> string \<Rightarrow> commit_file option list \<Rightarrow> bool" where
  "server_safe a head files \<longleftrightarrow> as_Recommendation a = ''safe_to_merge'' \<and> as_Risk a = ''low'' \<and> as_Confidence a = ''high'' \<and>
     sameSHA (as_HeadSHA a) head \<and> as_HeadSHA a \<noteq> [] \<and> as_Summary a \<noteq> [] \<and> as_TestsSeenPassing a \<noteq> [] \<and>
     (\<forall>i \<in> set (as_RemainingIssues a). harmless_issue i) \<and>
     (\<forall>c \<in> set (as_DangerousChangeCategories a). to_lower c \<in> {''none'', ''n/a'', ''not applicable''}) \<and> small_change files"

lemma file_reasons_none: "file_reasons f = [] \<longleftrightarrow> harmless_file f"
  by (simp add: file_reasons_def harmless_file_def Let_def)

lemma file_loop_sum:
  "file_loop files n = (n + sum_list (map cf_Changes (List.map_filter id files)),
     concat (map file_reasons (List.map_filter id files)))"
proof (induction files arbitrary: n)
  case Nil
  then show ?case by (simp add: map_filter_simps)
next
  case (Cons f files)
  then show ?case by (cases f) (simp_all add: map_filter_simps)
qed

lemma in_map_filter: "x \<in> set (List.map_filter id files) \<longleftrightarrow> Some x \<in> set files"
  by (induction files) (auto simp: map_filter_simps split: option.splits)

lemma file_risk_none: "autoMergeFileRiskReasons files = [] \<longleftrightarrow> small_change files"
proof -
  have "remdups_adj (sort rs) = [] \<longleftrightarrow> rs = []" for rs :: "string list"
    by (metis list.set(1) remdups_adj_set set_empty set_sort)
  then show ?thesis
    by (auto simp: autoMergeFileRiskReasons_def file_loop_sum small_change_def autoMergeMaxFiles_def autoMergeMaxChanges_def
        file_reasons_none in_map_filter)
qed

lemma normalized_fixed:
  assumes "normalizeAutoMergeAssessment a = a"
  shows "trimmedStrings (as_TestsSeenPassing a) = as_TestsSeenPassing a"
    "i \<in> set (as_RemainingIssues a) \<Longrightarrow> normalize_issue i = i"
    "c \<in> set (as_DangerousChangeCategories a) \<Longrightarrow> trim_space c = c \<and> c \<noteq> []"
    "trim_space (as_Summary a) = as_Summary a" "trim_space (as_HeadSHA a) = as_HeadSHA a"
proof -
  have eq: "as_TestsSeenPassing (normalizeAutoMergeAssessment a) = as_TestsSeenPassing a"
    "as_RemainingIssues (normalizeAutoMergeAssessment a) = as_RemainingIssues a"
    "as_DangerousChangeCategories (normalizeAutoMergeAssessment a) = as_DangerousChangeCategories a"
    "as_Summary (normalizeAutoMergeAssessment a) = as_Summary a" "as_HeadSHA (normalizeAutoMergeAssessment a) = as_HeadSHA a"
    by (simp_all only: assms)
  show "trimmedStrings (as_TestsSeenPassing a) = as_TestsSeenPassing a"
    using eq(1) by (simp add: normalizeAutoMergeAssessment_def)
  show "i \<in> set (as_RemainingIssues a) \<Longrightarrow> normalize_issue i = i"
    using eq(2) by (simp add: normalizeAutoMergeAssessment_def map_eq_conv [where g = id, simplified])
  show "c \<in> set (as_DangerousChangeCategories a) \<Longrightarrow> trim_space c = c \<and> c \<noteq> []"
  proof -
    assume "c \<in> set (as_DangerousChangeCategories a)"
    then have "c \<in> set (trimmedStrings (as_DangerousChangeCategories a))"
      using eq(3) by (simp add: normalizeAutoMergeAssessment_def)
    then show "trim_space c = c \<and> c \<noteq> []" by (auto simp: trimmedStrings_def)
  qed
  show "trim_space (as_Summary a) = as_Summary a" "trim_space (as_HeadSHA a) = as_HeadSHA a"
    using eq(4,5) by (simp_all add: normalizeAutoMergeAssessment_def)
qed

lemma issue_reason_none:
  assumes "normalize_issue i = i"
  shows "issue_reason i = [] \<longleftrightarrow> harmless_issue i"
proof -
  have "to_lower (trim_space (issue_Severity i)) = issue_Severity i" "trim_space (issue_Summary i) = issue_Summary i"
    "trim_space (issue_Description i) = issue_Description i"
    using assms by (metis normalize_issue_def remaining_issue.select_convs)+
  then show ?thesis by (auto simp: issue_reason_def harmless_issue_def Let_def)
qed

lemma category_reason_none:
  "trim_space c = c \<Longrightarrow> c \<noteq> [] \<Longrightarrow> category_reason c = [] \<longleftrightarrow> to_lower c \<in> {''none'', ''n/a'', ''not applicable''}"
  by (auto simp: category_reason_def Let_def to_lower_def)

lemma reasons_speak:
  assumes "r \<in> set (server_reasons a head files)"
  shows "r \<noteq> []"
proof -
  have "r \<in> set (file_reasons f) \<Longrightarrow> r \<noteq> []" for f by (auto simp: file_reasons_def Let_def split: if_splits)
  then have "r \<in> set (autoMergeFileRiskReasons files) \<Longrightarrow> r \<noteq> []"
    by (auto simp: autoMergeFileRiskReasons_def file_loop_sum split: if_splits)
  moreover have "r \<in> set (issue_reason i) \<Longrightarrow> r \<noteq> []" for i by (auto simp: issue_reason_def Let_def split: if_splits)
  moreover have "r \<in> set (category_reason c) \<Longrightarrow> r \<noteq> []" for c by (auto simp: category_reason_def Let_def split: if_splits)
  ultimately show ?thesis using assms by (auto simp: server_reasons_def split: if_splits)
qed

lemma server_reasons_none:
  assumes n: "normalizeAutoMergeAssessment a = a" and "as_Summary a \<noteq> []" and "as_HeadSHA a \<noteq> []"
  shows "server_reasons a head files = [] \<longleftrightarrow> server_safe a head files"
proof -
  have "(\<forall>i \<in> set (as_RemainingIssues a). issue_reason i = []) \<longleftrightarrow> (\<forall>i \<in> set (as_RemainingIssues a). harmless_issue i)"
    using issue_reason_none normalized_fixed(2) [OF n] by blast
  moreover have "(\<forall>c \<in> set (as_DangerousChangeCategories a). category_reason c = []) \<longleftrightarrow>
      (\<forall>c \<in> set (as_DangerousChangeCategories a). to_lower c \<in> {''none'', ''n/a'', ''not applicable''})"
    using category_reason_none normalized_fixed(3) [OF n] by blast
  ultimately show ?thesis
    using assms(2,3) normalized_fixed(1) [OF n]
    by (auto simp: server_reasons_def server_safe_def file_risk_none autoMergeRecommendationSafe_def autoMergeRiskLow_def
        autoMergeConfidenceHigh_def)
qed

text \<open>The server gate passes exactly the safe assessments, and hands on the normalised one.\<close>

lemma server_gate_iff:
  assumes "evaluateAutoMergeServerGate pg (Some a0) head files = (g, checked)"
  shows "checked = Some (normalizeAutoMergeAssessment a0)"
    and "gate_Passed g \<longleftrightarrow> server_safe (normalizeAutoMergeAssessment a0) head files"
    and "gate_Reason g \<noteq> []"
proof -
  let ?a = "normalizeAutoMergeAssessment a0"
  obtain err where v: "validateAutoMergeAssessment (Some a0) = (err, Some ?a)"
    by (auto simp: validateAutoMergeAssessment_def Let_def)
  note ts = normalized_fixed(4,5) [OF normalize_idem [of a0]]
  have safe: "err = None" if "server_safe ?a head files"
    using that v ts by (auto simp: validateAutoMergeAssessment_def Let_def server_safe_def autoMergeRecommendationSafe_def)
  have speaks: "e \<noteq> ErrNew []" "\<exists>m. e = ErrNew m" if "err = Some e" for e
    using that v by (auto simp: validateAutoMergeAssessment_def Let_def split: if_splits)
  have full: "as_Summary ?a \<noteq> []" "as_HeadSHA ?a \<noteq> []" if "err = None"
    using that v ts by (auto simp: validateAutoMergeAssessment_def Let_def split: if_splits)
  have "checked = Some ?a \<and> (gate_Passed g \<longleftrightarrow> server_safe ?a head files) \<and> gate_Reason g \<noteq> []"
  proof (cases err)
    case (Some e)
    then have "checked = Some ?a" "g = gate False autoMergeStateHumanReview (err_text pg e)"
      using assms v by (simp_all add: evaluateAutoMergeServerGate_def)
    moreover have "\<not> server_safe ?a head files" using safe Some by auto
    moreover from speaks [OF Some] have "err_text pg e \<noteq> []" by auto
    ultimately show ?thesis by simp
  next
    case None
    note iff = server_reasons_none [OF normalize_idem full [OF None], of head files]
    show ?thesis
    proof (cases "server_reasons ?a head files")
      case Nil
      then have "checked = Some ?a" "g = gate True autoMergeStateSafeToMerge ''server safety gates passed''"
        using assms v None by (simp_all add: evaluateAutoMergeServerGate_def)
      with Nil iff show ?thesis by simp
    next
      case (Cons r rs)
      then have "checked = Some ?a" "g = (gate False autoMergeStateHumanReview r)\<lparr>gate_Details := r # rs\<rparr>"
        using assms v None by (simp_all add: evaluateAutoMergeServerGate_def)
      moreover have "r \<noteq> []" using reasons_speak [of r ?a head files] Cons by simp
      ultimately show ?thesis using Cons iff by simp
    qed
  qed
  then show "checked = Some ?a" "gate_Passed g \<longleftrightarrow> server_safe ?a head files" "gate_Reason g \<noteq> []" by blast+
qed

section \<open>The GitHub gate\<close>

definition green_status :: "repo_status \<Rightarrow> bool" where
  "green_status st \<longleftrightarrow> to_lower (trim_space (st_State st)) = ''success''"

definition checks_green :: "snapshot \<Rightarrow> bool" where
  "checks_green sn \<longleftrightarrow> (\<forall>n \<in> set (requiredStatusNames (sn_Protection sn)).
     (\<forall>st \<in> set (the_list (sn_Statuses sn)). trim_space (st_Context st) = n \<longrightarrow> green_status st \<or> trim_space (st_State st) = []) \<and>
     (\<forall>ck \<in> set (sn_CheckRuns sn). trim_space (ck_Name ck) = n \<longrightarrow> checkConclusionPasses (ck_Conclusion ck)) \<and>
     ((\<exists>st \<in> set (the_list (sn_Statuses sn)). trim_space (st_Context st) = n \<and> green_status st) \<or>
      (\<exists>ck \<in> set (sn_CheckRuns sn). trim_space (ck_Name ck) = n)))"

definition reviews_agree :: "snapshot \<Rightarrow> bool" where
  "reviews_agree sn \<longleftrightarrow>
     (case sn_Protection sn of None \<Rightarrow> True | Some p \<Rightarrow> (case pt_Approvals p of None \<Rightarrow> True
        | Some n \<Rightarrow> n \<le> int (card {l. latestReviewStatesByUser (sn_Reviews sn) l = Some ''APPROVED''}))) \<and>
     (\<forall>l. latestReviewStatesByUser (sn_Reviews sn) l \<noteq> Some ''CHANGES_REQUESTED'')"

definition github_safe :: "snapshot \<Rightarrow> string \<Rightarrow> bool" where
  "github_safe sn head \<longleftrightarrow> (\<exists>pr. sn_PR sn = Some pr \<and> sameSHA head (pr_HeadSHA pr) \<and> \<not> pr_Merged pr \<and>
     equal_fold (pr_State pr) ''open'' \<and> \<not> pr_Draft pr \<and>
     to_lower (trim_space (pr_MergeableState pr)) \<notin> {''dirty'', ''unknown'', ''blocked'', ''behind''}) \<and>
     checks_green sn \<and> reviews_agree sn"

lemma wait_statuses_Inr:
  "wait_statuses req sts seen = Inr seen' \<longleftrightarrow>
     (\<forall>st \<in> set sts. trim_space (st_Context st) \<in> set req \<longrightarrow> green_status st \<or> to_lower (trim_space (st_State st)) = []) \<and>
     seen' = rev (map (\<lambda>st. trim_space (st_Context st))
       (filter (\<lambda>st. trim_space (st_Context st) \<in> set req \<and> green_status st) sts)) @ seen"
  by (induction req sts seen rule: wait_statuses.induct) (auto simp: Let_def green_status_def)

lemma wait_runs_Inr:
  assumes "block_runs req rs = None"
  shows "wait_runs req rs seen = Inr seen' \<longleftrightarrow>
     (\<forall>ck \<in> set rs. trim_space (ck_Name ck) \<in> set req \<longrightarrow> checkConclusionPasses (ck_Conclusion ck)) \<and>
     seen' = rev (map (\<lambda>ck. trim_space (ck_Name ck)) (filter (\<lambda>ck. trim_space (ck_Name ck) \<in> set req) rs)) @ seen"
  using assms by (induction req rs seen rule: wait_runs.induct) (auto simp: Let_def split: if_splits)

lemma block_runs_None:
  "\<forall>ck \<in> set rs. trim_space (ck_Name ck) \<in> set req \<longrightarrow> checkConclusionPasses (ck_Conclusion ck) \<Longrightarrow> block_runs req rs = None"
  by (induction rs) (auto simp: Let_def)

lemma block_statuses_None:
  "\<forall>st \<in> set sts. trim_space (st_Context st) \<in> set req \<longrightarrow> green_status st \<or> to_lower (trim_space (st_State st)) = [] \<Longrightarrow>
   block_statuses req sts = None"
  by (induction sts) (auto simp: Let_def green_status_def)

lemma checks_pass_iff:
  assumes order: "\<And>xs. set (order xs) = set xs"
  shows "autoMergeCheckBlockReason sn = None \<and> autoMergeCheckWaitReason order sn = None \<longleftrightarrow> checks_green sn"
proof -
  let ?req = "requiredStatusNames (sn_Protection sn)" and ?sts = "the_list (sn_Statuses sn)" and ?cks = "sn_CheckRuns sn"
  let ?st_ok = "\<forall>st \<in> set ?sts. trim_space (st_Context st) \<in> set ?req \<longrightarrow> green_status st \<or> to_lower (trim_space (st_State st)) = []"
  let ?ck_ok = "\<forall>ck \<in> set ?cks. trim_space (ck_Name ck) \<in> set ?req \<longrightarrow> checkConclusionPasses (ck_Conclusion ck)"
  let ?s1 = "rev (map (\<lambda>st. trim_space (st_Context st)) (filter (\<lambda>st. trim_space (st_Context st) \<in> set ?req \<and> green_status st) ?sts))"
  let ?s2 = "rev (map (\<lambda>ck. trim_space (ck_Name ck)) (filter (\<lambda>ck. trim_space (ck_Name ck) \<in> set ?req) ?cks)) @ ?s1"
  have empty: "filter (\<lambda>n. n \<notin> set ?s2) (order ?req) = [] \<longleftrightarrow> set ?req \<subseteq> set ?s2"
    using order [of ?req] by (auto simp: filter_empty_conv)
  have green: "checks_green sn \<longleftrightarrow> ?st_ok \<and> ?ck_ok \<and> set ?req \<subseteq> set ?s2"
    by (auto simp: checks_green_def to_lower_def)
  show ?thesis
  proof (cases "?st_ok \<and> ?ck_ok")
    case False
    then have "autoMergeCheckBlockReason sn = None \<Longrightarrow> autoMergeCheckWaitReason order sn \<noteq> None"
      using wait_statuses_Inr [of ?req ?sts "[]"] wait_runs_Inr [of ?req ?cks]
      by (auto simp: autoMergeCheckBlockReason_def autoMergeCheckWaitReason_def Let_def split: option.splits sum.splits)
    with False green show ?thesis by blast
  next
    case True
    then have "block_statuses ?req ?sts = None" "block_runs ?req ?cks = None"
      using block_statuses_None block_runs_None by blast+
    moreover have "wait_statuses ?req ?sts [] = Inr ?s1" using True by (subst wait_statuses_Inr) simp
    moreover have "wait_runs ?req ?cks ?s1 = Inr ?s2" using True \<open>block_runs ?req ?cks = None\<close> by (subst wait_runs_Inr) simp_all
    ultimately have block: "autoMergeCheckBlockReason sn = None"
      and wait: "autoMergeCheckWaitReason order sn = (case filter (\<lambda>n. n \<notin> set ?s2) (order ?req) of
          [] \<Rightarrow> None | n # _ \<Rightarrow> Some (''required check has not passed: '' @ n))"
      unfolding autoMergeCheckBlockReason_def autoMergeCheckWaitReason_def Let_def by simp_all
    have "autoMergeCheckWaitReason order sn = None \<longleftrightarrow> set ?req \<subseteq> set ?s2"
      unfolding wait empty [symmetric] by (cases "filter (\<lambda>n. n \<notin> set ?s2) (order ?req)") (simp_all only: list.case simp_thms option.distinct list.distinct)
    with block have "autoMergeCheckBlockReason sn = None \<and> autoMergeCheckWaitReason order sn = None \<longleftrightarrow> set ?req \<subseteq> set ?s2"
      by blast
    then show ?thesis unfolding green using True by blast
  qed
qed

lemma note_review_dom:
  "dom (fold note_review rs m) \<subseteq> dom m \<union> set (List.map_filter rv_Login (List.map_filter id rs))"
proof (induction rs arbitrary: m)
  case Nil
  then show ?case by simp
next
  case (Cons r rs)
  have "dom (note_review r m) \<subseteq> dom m \<union> set (List.map_filter rv_Login (List.map_filter id [r]))"
    by (auto simp: note_review_def Let_def map_filter_simps split: option.splits if_splits)
  moreover have "set (List.map_filter rv_Login (List.map_filter id (r # rs))) =
      set (List.map_filter rv_Login (List.map_filter id [r])) \<union> set (List.map_filter rv_Login (List.map_filter id rs))"
    by (auto simp: map_filter_simps split: option.splits)
  ultimately show ?case using Cons.IH [of "note_review r m"] unfolding fold.simps comp_apply by blast
qed

lemma latest_login: "latestReviewStatesByUser rs l = Some st \<Longrightarrow> l \<in> set (review_logins rs)"
  using note_review_dom [of rs Map.empty] by (auto simp: latestReviewStatesByUser_def review_logins_def dom_def)

lemma approvals_card:
  "autoMergeApprovalCount rs = int (card {l. latestReviewStatesByUser rs l = Some ''APPROVED''})"
proof -
  let ?p = "\<lambda>l. latestReviewStatesByUser rs l = Some ''APPROVED''"
  have "{l. ?p l} = set (filter ?p (review_logins rs))" using latest_login by auto
  moreover have "distinct (filter ?p (review_logins rs))" by (simp add: review_logins_def)
  ultimately show ?thesis by (simp only: autoMergeApprovalCount_def distinct_card)
qed

lemma reviews_pass_iff:
  "autoMergeReviewWaitReason sn = None \<and> autoMergeReviewBlockReason sn = None \<longleftrightarrow> reviews_agree sn"
proof -
  have "autoMergeReviewBlockReason sn = None \<longleftrightarrow> (\<forall>l. latestReviewStatesByUser (sn_Reviews sn) l \<noteq> Some ''CHANGES_REQUESTED'')"
    using latest_login by (auto simp: autoMergeReviewBlockReason_def list_ex_iff)
  moreover have "0 \<le> int (card {l. latestReviewStatesByUser (sn_Reviews sn) l = Some ''APPROVED''})" by simp
  ultimately show ?thesis
    by (auto simp: reviews_agree_def autoMergeReviewWaitReason_def approvals_card Let_def split: option.splits)
qed

text \<open>GitHub's gate opens exactly for the safe snapshots; every other answer has a reason.\<close>

lemma github_gate_iff:
  assumes order: "\<And>xs. set (order xs) = set xs"
  shows "gate_State (evaluateAutoMergeGitHubGate order sn head) = autoMergeStateSafeToMerge \<longleftrightarrow> github_safe sn head"
proof -
  note parts = checks_pass_iff [OF order, of sn] reviews_pass_iff [of sn]
  show ?thesis
    unfolding github_safe_def parts [symmetric]
    by (simp add: evaluateAutoMergeGitHubGate_def auto_merge_states Let_def split: option.split)
qed

lemma reason_texts:
  "block_statuses req sts = Some r \<Longrightarrow> r \<noteq> []" "block_runs req cks = Some r \<Longrightarrow> r \<noteq> []"
  "wait_statuses req sts seen = Inl r \<Longrightarrow> take 8 r = ''required''" "wait_runs req cks seen = Inl r \<Longrightarrow> take 8 r = ''required''"
proof -
  show "block_statuses req sts = Some r \<Longrightarrow> r \<noteq> []" by (induction sts) (auto simp: Let_def split: if_splits)
  show "block_runs req cks = Some r \<Longrightarrow> r \<noteq> []" by (induction cks) (auto simp: Let_def split: if_splits)
  show "wait_statuses req sts seen = Inl r \<Longrightarrow> take 8 r = ''required''"
    by (induction sts arbitrary: seen) (auto simp: Let_def split: if_splits)
  show "wait_runs req cks seen = Inl r \<Longrightarrow> take 8 r = ''required''"
    by (induction cks arbitrary: seen) (auto simp: Let_def split: if_splits)
qed

text \<open>Every answer has a reason, and a reason to wait is not taken for an error of the labels.\<close>

definition speaks :: "gate_result \<Rightarrow> bool" where
  "speaks g \<longleftrightarrow> gate_Reason g \<noteq> [] \<and>
     (gate_State g = autoMergeStateHumanReview \<or> \<not> has_prefix (gate_Reason g) label_error_prefix)"

lemma speaks_rules:
  "r \<noteq> [] \<Longrightarrow> speaks (gate False autoMergeStateHumanReview r)"
  "take 8 r = ''required'' \<Longrightarrow> speaks (gate q st r)"
  "speaks g \<Longrightarrow> speaks h \<Longrightarrow> speaks (if b then g else h)"
  "(x = None \<Longrightarrow> speaks g) \<Longrightarrow> (\<And>y. x = Some y \<Longrightarrow> speaks (f y)) \<Longrightarrow> speaks (case x of None \<Rightarrow> g | Some y \<Rightarrow> f y)"
proof -
  show "take 8 r = ''required'' \<Longrightarrow> speaks (gate q st r)"
    by (cases r) (auto simp: speaks_def label_error_prefix_def)
qed (auto simp: speaks_def split: option.split)

lemma github_gate_speaks: "speaks (evaluateAutoMergeGitHubGate order sn head)"
proof -
  have "autoMergeCheckBlockReason sn = Some r \<Longrightarrow> r \<noteq> []" for r
    using reason_texts(1,2) by (auto simp: autoMergeCheckBlockReason_def Let_def split: option.splits)
  moreover have "autoMergeCheckWaitReason order sn = Some r \<Longrightarrow> take 8 r = ''required''" for r
    using reason_texts(3,4) by (auto simp: autoMergeCheckWaitReason_def Let_def split: sum.splits list.splits)
  moreover have "autoMergeReviewWaitReason sn = Some r \<Longrightarrow> take 8 r = ''required''" for r
    by (auto simp: autoMergeReviewWaitReason_def Let_def split: if_splits)
  moreover have "autoMergeReviewBlockReason sn = Some r \<Longrightarrow> r \<noteq> []" for r
    by (auto simp: autoMergeReviewBlockReason_def split: if_splits)
  moreover have "speaks (gate q st r)" if "r \<in> {''PR is already merged'', ''GitHub mergeability is still being calculated'',
      ''GitHub reports branch protection is still blocking merge'', ''GitHub requirements are satisfied''}" for q st r
    using that by (auto simp: speaks_def label_error_prefix_def)
  ultimately show ?thesis
    unfolding evaluateAutoMergeGitHubGate_def Let_def
    by (intro speaks_rules(1,3,4)) (auto intro: speaks_rules)
qed

section \<open>What the calls can do\<close>

definition gkeeps :: "('g \<Rightarrow> bool) \<Rightarrow> ('g, 'a) gh \<Rightarrow> bool" where
  "gkeeps P m \<longleftrightarrow> (\<forall>s. P s \<longrightarrow> P (snd (m s)))"

text \<open>Every operation on a pull request but the merge keeps \<open>P\<close>.\<close>

definition all_but_merge_keep :: "('g \<Rightarrow> bool) \<Rightarrow> 'g github_client \<Rightarrow> parsed_pr \<Rightarrow> bool" where
  "all_but_merge_keep P c p \<longleftrightarrow> gkeeps P (gh_GetPR c p) \<and> (\<forall>n. gkeeps P (gh_ListFiles c p n)) \<and>
     (\<forall>n. gkeeps P (gh_ListReviews c p n)) \<and> (\<forall>h. gkeeps P (gh_CombinedStatus c p h)) \<and> (\<forall>h. gkeeps P (gh_CheckRuns c p h)) \<and>
     (\<forall>b. gkeeps P (gh_BranchProtection c p b)) \<and> (\<forall>l. gkeeps P (gh_GetLabel c p l)) \<and>
     (\<forall>l col d. gkeeps P (gh_CreateLabel c p l col d)) \<and> (\<forall>l. gkeeps P (gh_RemoveLabel c p l)) \<and>
     (\<forall>ls. gkeeps P (gh_AddLabels c p ls)) \<and> gkeeps P (gh_GetRepository c p)"

lemma gkeepsD: "gkeeps P m \<Longrightarrow> P s \<Longrightarrow> m s = (r, t) \<Longrightarrow> P t"
  unfolding gkeeps_def by (metis snd_conv)

lemma keeps_call [keeps]: "gkeeps P m \<Longrightarrow> (\<And>r. keeps_inv P (k r)) \<Longrightarrow> keeps_inv P (call m k)"
  by (auto simp: keeps_inv_def gkeeps_def call_def split: prod.splits)

lemma keeps_prod [keeps]: "(\<And>a b. keeps_inv P (f a b)) \<Longrightarrow> keeps_inv P (case x of (a, b) \<Rightarrow> f a b)"
  by (cases x) simp

lemma op_keeps:
  assumes "all_but_merge_keep P c p"
  shows "gkeeps P (gh_GetPR c p)" "gkeeps P (gh_ListFiles c p n)" "gkeeps P (gh_ListReviews c p n)"
    "gkeeps P (gh_CombinedStatus c p h)" "gkeeps P (gh_CheckRuns c p h)" "gkeeps P (gh_BranchProtection c p b)"
    "gkeeps P (gh_GetLabel c p l)" "gkeeps P (gh_CreateLabel c p l col d)" "gkeeps P (gh_RemoveLabel c p l)"
    "gkeeps P (gh_AddLabels c p ls)" "gkeeps P (gh_GetRepository c p)"
  using assms by (simp_all add: all_but_merge_keep_def)

lemma labels_keep:
  assumes "all_but_merge_keep P c p" and "P s"
  shows "P (snd (applyAutoMergeLabel pg c p l out s))"
proof -
  have "keeps_inv P (ensureAutoMergeLabelState c p l)"
    unfolding ensureAutoMergeLabelState_def ensureAutoMergeLabel_def by (intro keeps op_keeps [OF assms(1)])
  then show ?thesis
    using assms(2) by (auto simp: applyAutoMergeLabel_def dest: keeps_invD split: prod.splits sum.splits)
qed

lemma method_keeps: "all_but_merge_keep P c p \<Longrightarrow> keeps_inv P (resolveAutoMergeMethod c p)"
  unfolding resolveAutoMergeMethod_def by (intro keeps op_keeps)

section \<open>Listings\<close>

lemma pages_keep:
  assumes "\<And>n. gkeeps P (list n)" and "list_pages list msg page out s = Some (r, t)" and "P s"
  shows "P t"
proof -
  have "(\<forall>n. gkeeps P (list n)) \<longrightarrow> P s \<longrightarrow> P (snd y)" if "list_pages list msg page out s = Some y" for y
  proof (rule list_pages.raw_induct
      [where P = "\<lambda>list msg page out s y. (\<forall>n. gkeeps P (list n)) \<longrightarrow> P s \<longrightarrow> P (snd y)", OF _ that], intro impI)
    fix rec and list :: "int \<Rightarrow> ('a, 'b list \<times> int) gh" and msg page out s y
    assume ih: "\<And>list msg page out s y. rec list msg page out s = Some y \<Longrightarrow> (\<forall>n. gkeeps P (list n)) \<longrightarrow> P s \<longrightarrow> P (snd y)"
      and run: "(case list page s of
          (Inl e, t) \<Rightarrow> Some (Inl (Wrapped msg (ge_Error e)), t)
        | (Inr (xs, nextPage), t) \<Rightarrow>
            if nextPage = 0 then Some (Inr (out @ xs), t) else rec list msg nextPage (out @ xs) t) = Some y"
      and ok: "\<forall>n. gkeeps P (list n)" "P s"
    obtain x t where l: "list page s = (x, t)" by fastforce
    have "P t" using gkeepsD [of P "list page"] ok l by blast
    then show "P (snd y)" using run l ih ok(1) by (auto split: sum.splits prod.splits if_splits)
  qed
  with assms show ?thesis by fastforce
qed

text \<open>A listing whose next page is always a later one, up to some last page, ends.\<close>

definition pages_end :: "(int \<Rightarrow> ('g, 'x list \<times> int) gh) \<Rightarrow> bool" where
  "pages_end list \<longleftrightarrow> (\<exists>N. \<forall>page s xs nextPage t. list page s = (Inr (xs, nextPage), t) \<longrightarrow>
     nextPage = 0 \<or> page < nextPage \<and> nextPage \<le> N)"

lemma pages_return:
  assumes "pages_end list"
  shows "\<exists>r t. list_pages list msg page out s = Some (r, t)"
proof -
  obtain N where N: "\<And>page s xs nextPage t. list page s = (Inr (xs, nextPage), t) \<Longrightarrow>
     nextPage = 0 \<or> page < nextPage \<and> nextPage \<le> N" using assms unfolding pages_end_def by blast
  show ?thesis
  proof (induction "nat (N - page)" arbitrary: page out s rule: less_induct)
    case less
    obtain x t where l: "list page s = (x, t)" by fastforce
    show ?case
    proof (cases x)
      case (Inl e)
      with l show ?thesis by (subst list_pages.simps) simp
    next
      case (Inr b)
      obtain xs nx where b: "b = (xs, nx)" by fastforce
      show ?thesis
      proof (cases "nx = 0")
        case True
        with l Inr b show ?thesis by (subst list_pages.simps) simp
      next
        case False
        with N l Inr b have "page < nx \<and> nx \<le> N" by blast
        then have "nat (N - nx) < nat (N - page)" by auto
        from less [OF this] show ?thesis using l Inr b False by (subst list_pages.simps) simp
      qed
    qed
  qed
qed

lemma fetch_keeps:
  assumes ops: "all_but_merge_keep P c p" and run: "fetchAutoMergeGitHubSnapshot c p s = Some (r, t)" and "P s"
  shows "P t"
proof -
  obtain r1 s1 where g: "gh_GetPR c p s = (r1, s1)" by fastforce
  have s1: "P s1" using gkeepsD [OF op_keeps(1) [OF ops] assms(3) g] .
  show ?thesis
  proof (cases "\<exists>pr. r1 = Inr (Some pr)")
    case False
    then show ?thesis using run g s1 by (auto simp: fetchAutoMergeGitHubSnapshot_def split: sum.splits option.splits)
  next
    case True
    then obtain pr where pr: "r1 = Inr (Some pr)" by blast
    with run g obtain r2 s2 where files: "listAllPRFiles c p s1 = Some (r2, s2)"
      by (auto simp: fetchAutoMergeGitHubSnapshot_def split: option.splits)
    have s2: "P s2" using pages_keep [of P "gh_ListFiles c p"] op_keeps(2) [OF ops] files s1
      unfolding listAllPRFiles_def by blast
    show ?thesis
    proof (cases r2)
      case (Inl e)
      with run g pr files s2 show ?thesis by (auto simp: fetchAutoMergeGitHubSnapshot_def)
    next
      case (Inr fs)
      with run g pr files obtain r3 s3 where reviews: "listAllPRReviews c p s2 = Some (r3, s3)"
        by (auto simp: fetchAutoMergeGitHubSnapshot_def split: option.splits)
      have s3: "P s3" using pages_keep [of P "gh_ListReviews c p"] op_keeps(3) [OF ops] reviews s2
        unfolding listAllPRReviews_def by blast
      have "keeps_inv P (fetch_checks c p pr fs rs)" for rs
        unfolding fetch_checks_def Let_def by (intro keeps op_keeps [OF ops])
      then show ?thesis
        using run g pr files Inr reviews s3
        by (auto simp: fetchAutoMergeGitHubSnapshot_def dest: keeps_invD split: sum.splits)
    qed
  qed
qed

lemma fetch_returns:
  assumes "pages_end (gh_ListFiles c p)" and "pages_end (gh_ListReviews c p)"
  shows "\<exists>r t. fetchAutoMergeGitHubSnapshot c p s = Some (r, t)"
proof -
  have f: "\<exists>r t. listAllPRFiles c p u = Some (r, t)" for u
    unfolding listAllPRFiles_def by (rule pages_return [OF assms(1)])
  have r: "\<exists>r t. listAllPRReviews c p u = Some (r, t)" for u
    unfolding listAllPRReviews_def by (rule pages_return [OF assms(2)])
  obtain r1 s1 where g: "gh_GetPR c p s = (r1, s1)" by fastforce
  obtain r2 s2 where f1: "listAllPRFiles c p s1 = Some (r2, s2)" using f by blast
  obtain r3 s3 where f2: "listAllPRReviews c p s2 = Some (r3, s3)" using r by blast
  show ?thesis
    using g f1 f2 by (auto simp: fetchAutoMergeGitHubSnapshot_def surj_pair split: sum.split option.split)
qed

section \<open>The judgement\<close>

text \<open>What the judgement leaves alone, unless both gates are open.\<close>

lemma judge_keeps:
  assumes ops: "all_but_merge_keep P c p" and order: "\<And>xs. set (order xs) = set xs" and s: "P s"
    and merge: "\<And>m. server_safe a (current_head sn) (sn_Files sn) \<Longrightarrow> github_safe sn (as_HeadSHA a) \<Longrightarrow>
      gkeeps P (gh_Merge c p (as_HeadSHA a) m)"
    and a: "a = normalizeAutoMergeAssessment a0"
  shows "P (snd (judge pg order c p nowText (Some a0) sn out s))"
proof -
  note lab = labels_keep [OF ops]
  have labD: "applyAutoMergeLabel pg c p l o1 u = (o2, v) \<Longrightarrow> P u \<Longrightarrow> P v" for l o1 u o2 v
    using lab [of u pg l o1] by simp
  obtain g checked where gate: "evaluateAutoMergeServerGate pg (Some a0) (current_head sn) (sn_Files sn) = (g, checked)"
    by fastforce
  note server = server_gate_iff [OF gate, folded a]
  have failed: "P (snd (merge_failed pg c p e o1 u))" if "P u" for e o1 u
    using that lab by (simp add: merge_failed_def)
  show ?thesis
  proof (cases "server_safe a (current_head sn) (sn_Files sn) \<and> github_safe sn (as_HeadSHA a)")
    case False
    have "P (snd (after_github_gate pg c p nowText (as_HeadSHA a) (evaluateAutoMergeGitHubGate order sn (as_HeadSHA a)) o1 s))"
      if "\<not> github_safe sn (as_HeadSHA a)" for o1
      using that s github_gate_iff [OF order, of sn "as_HeadSHA a"] lab
      by (auto simp: after_github_gate_def Let_def dest: labD split: prod.split)
    with False server gate s lab show ?thesis by (auto simp: judge_def)
  next
    case True
    then have m: "gkeeps P (gh_Merge c p (as_HeadSHA a) k)" for k using merge by blast
    have "P (snd (merge_safe pg c p nowText (as_HeadSHA a) o1 u))" if u: "P u" for o1 u
    proof -
      obtain o2 t where l: "applyAutoMergeLabel pg c p autoMergeSafeLabel
          (o1\<lparr>mo_State := autoMergeStateSafeToMerge, mo_Label := autoMergeSafeLabel\<rparr>) u = (o2, t)" by fastforce
      obtain rm v where r: "resolveAutoMergeMethod c p t = (rm, v)" by fastforce
      have t: "P t" using labD [OF l u] .
      have v: "P v" using keeps_invD [OF method_keeps [OF ops] t r] .
      have "P w" if "gh_Merge c p (as_HeadSHA a) k v = (x, w)" for k x w using gkeepsD [OF m v that] .
      with t v show ?thesis by (auto simp: merge_safe_def l r intro: failed split: sum.split prod.split)
    qed
    then have "P (snd (after_github_gate pg c p nowText (as_HeadSHA a) g2 o1 s))" for g2 o1
      using s lab by (auto simp: after_github_gate_def Let_def dest: labD split: prod.split)
    with server gate s lab show ?thesis by (auto simp: judge_def)
  qed
qed

section \<open>The outcome\<close>

text \<open>
  A finished outcome: its label says whether a human has to look, a human is told why, a label that was
  applied is the outcome's, and a time of merging means merged.
\<close>

definition outcome_ok :: "merge_outcome \<Rightarrow> bool" where
  "outcome_ok out \<longleftrightarrow>
     (mo_State out \<in> {''waiting_for_reviews'', ''waiting_for_checks''} \<and> mo_Label out = autoMergeSafeLabel \<and> mo_BlockedReason out \<noteq> [] \<or>
      mo_State out = ''merged'' \<and> mo_Label out = autoMergeSafeLabel \<or>
      mo_State out = ''human_review_needed'' \<and> mo_Label out = autoMergeHumanReviewLabel \<and> mo_BlockedReason out \<noteq> []) \<and>
     mo_LabelsApplied out \<in> {[], [mo_Label out]} \<and> (mo_MergedAt out \<noteq> [] \<longrightarrow> mo_State out = ''merged'')"

definition unlabelled :: "merge_outcome \<Rightarrow> bool" where
  "unlabelled out \<longleftrightarrow> mo_LabelsApplied out = [] \<and> mo_MergedAt out = [] \<and> mo_BlockedReason out = []"

lemma label_applied:
  "ensureAutoMergeLabelState c p l s = (Inr ls, t) \<Longrightarrow> ls = [l]"
  by (auto simp: ensureAutoMergeLabelState_def autoMergeLabelPair_def andthen_def call_def
      split: sum.splits prod.splits if_splits option.splits)

lemma apply_cases:
  obtains (applied) t where "applyAutoMergeLabel pg c p l out s = (out\<lparr>mo_LabelsApplied := [l]\<rparr>, t)"
  | (failed) m t where "applyAutoMergeLabel pg c p l out s =
      (out\<lparr>mo_BlockedReason := label_error_prefix @ m, mo_LabelsApplied := []\<rparr>, t)"
proof (cases "ensureAutoMergeLabelState c p l s")
  case (Pair r t)
  show thesis
  proof (cases r)
    case (Inl e)
    with Pair show thesis by (intro failed) (simp add: applyAutoMergeLabel_def)
  next
    case (Inr ls)
    with Pair label_applied [of c p l s ls t] show thesis by (intro applied) (simp add: applyAutoMergeLabel_def)
  qed
qed

lemma label_failed_iff:
  "has_prefix (label_error_prefix @ m) label_error_prefix" "label_error_prefix \<noteq> []"
  by (simp_all add: has_prefix_iff, simp add: label_error_prefix_def)

lemma human_outcome:
  assumes "mo_State out = autoMergeStateHumanReview" "mo_Label out = autoMergeHumanReviewLabel"
    "mo_BlockedReason out \<noteq> []" "mo_MergedAt out = []"
  shows "outcome_ok (fst (applyAutoMergeLabel pg c p autoMergeHumanReviewLabel out s))"
  using assms label_failed_iff(2)
  by (cases rule: apply_cases [of pg c p autoMergeHumanReviewLabel out s]) (auto simp: outcome_ok_def auto_merge_states)

lemma failed_outcome:
  "mo_MergedAt out = [] \<Longrightarrow> outcome_ok (fst (merge_failed pg c p e out s))"
  unfolding merge_failed_def
  by (rule human_outcome) (simp_all add: blocked_gate_def human_review_def)

lemma safe_outcome:
  assumes "unlabelled out"
  shows "outcome_ok (fst (merge_safe pg c p nowText sha out s))"
proof -
  let ?out = "out\<lparr>mo_State := autoMergeStateSafeToMerge, mo_Label := autoMergeSafeLabel\<rparr>"
  show ?thesis
  proof (cases rule: apply_cases [of pg c p autoMergeSafeLabel ?out s])
    case (failed m t)
    then have "merge_safe pg c p nowText sha out s =
        (blocked_gate (?out\<lparr>mo_BlockedReason := label_error_prefix @ m, mo_LabelsApplied := []\<rparr>), t)"
      by (simp add: merge_safe_def autoMergeLabelFailed_def label_failed_iff)
    then show ?thesis
      using assms label_failed_iff(2) by (simp add: outcome_ok_def blocked_gate_def human_review_def auto_merge_states unlabelled_def)
  next
    case (applied t)
    let ?o = "?out\<lparr>mo_LabelsApplied := [autoMergeSafeLabel]\<rparr>"
    have nf: "\<not> autoMergeLabelFailed ?o" using assms by (simp add: autoMergeLabelFailed_def unlabelled_def label_error_prefix_def)
    have merged_at: "mo_MergedAt ?o = []" using assms by (simp add: unlabelled_def)
    obtain rm u where r: "resolveAutoMergeMethod c p t = (rm, u)" by fastforce
    show ?thesis
    proof (cases rm)
      case (Inl e)
      with applied nf r have "merge_safe pg c p nowText sha out s = merge_failed pg c p e ?o u" by (simp add: merge_safe_def)
      then show ?thesis using failed_outcome [OF merged_at] by simp
    next
      case (Inr k)
      obtain rr v where g: "gh_Merge c p sha k u = (rr, v)" by fastforce
      show ?thesis
      proof (cases rr)
        case (Inl e)
        with applied nf r \<open>rm = Inr k\<close> g have "merge_safe pg c p nowText sha out s = merge_failed pg c p (ge_Error e) ?o v"
          by (simp add: merge_safe_def)
        then show ?thesis using failed_outcome [OF merged_at] by simp
      next
        case (Inr w)
        with applied nf r \<open>rm = Inr k\<close> g show ?thesis
          by (simp add: merge_safe_def outcome_ok_def auto_merge_states)
      qed
    qed
  qed
qed

lemma gate_outcome:
  assumes "unlabelled out" and "speaks g"
  shows "outcome_ok (fst (after_github_gate pg c p nowText sha g out s))"
proof -
  let ?o = "out\<lparr>mo_GitHubGate := g\<rparr>"
  have u: "unlabelled ?o" using assms(1) by (simp add: unlabelled_def)
  consider (safe) "gate_State g = autoMergeStateSafeToMerge"
    | (wait) "gate_State g \<in> {autoMergeStateWaitingReviews, autoMergeStateWaitingChecks}"
    | (merged) "gate_State g = autoMergeStateMerged"
    | (human) "gate_State g \<notin> {autoMergeStateSafeToMerge, autoMergeStateWaitingReviews, autoMergeStateWaitingChecks, autoMergeStateMerged}"
    by blast
  then show ?thesis
  proof cases
    case safe
    then show ?thesis using safe_outcome [OF u] by (simp add: after_github_gate_def Let_def)
  next
    case wait
    let ?w = "?o\<lparr>mo_State := gate_State g, mo_Label := autoMergeSafeLabel, mo_BlockedReason := gate_Reason g\<rparr>"
    have go: "after_github_gate pg c p nowText sha g out s = (let (o1, t) = applyAutoMergeLabel pg c p autoMergeSafeLabel ?w s
        in (if autoMergeLabelFailed o1 then blocked_gate o1 else o1, t))"
      using wait by (auto simp: after_github_gate_def Let_def auto_merge_states)
    have r: "gate_Reason g \<noteq> []" "\<not> has_prefix (gate_Reason g) label_error_prefix"
      using assms(2) wait by (auto simp: speaks_def auto_merge_states)
    show ?thesis unfolding go
      using r wait assms(1) label_failed_iff
      by (cases rule: apply_cases [of pg c p autoMergeSafeLabel ?w s])
        (auto simp: autoMergeLabelFailed_def outcome_ok_def blocked_gate_def human_review_def auto_merge_states unlabelled_def)
  next
    case merged
    then have go: "after_github_gate pg c p nowText sha g out s =
        applyAutoMergeLabel pg c p autoMergeSafeLabel (?o\<lparr>mo_State := autoMergeStateMerged, mo_Label := autoMergeSafeLabel\<rparr>) s"
      by (simp add: after_github_gate_def Let_def auto_merge_states)
    show ?thesis unfolding go
      by (cases rule: apply_cases [of pg c p autoMergeSafeLabel "?o\<lparr>mo_State := autoMergeStateMerged, mo_Label := autoMergeSafeLabel\<rparr>" s])
        (simp_all add: outcome_ok_def auto_merge_states)
  next
    case human
    then have go: "after_github_gate pg c p nowText sha g out s =
        applyAutoMergeLabel pg c p autoMergeHumanReviewLabel ((human_review ?o)\<lparr>mo_BlockedReason := gate_Reason g\<rparr>) s"
      by (simp add: after_github_gate_def Let_def)
    show ?thesis unfolding go
      by (rule human_outcome) (use assms in \<open>simp_all add: human_review_def speaks_def unlabelled_def\<close>)
  qed
qed

chapter \<open>An assessment reads back\<close>

text \<open>
  The assessment as the agent writes it: the scanner finds exactly the text of the object, and its
  fields decode to the assessment that was written.
\<close>

section \<open>The scanner\<close>

lemma scan_char:
  "scan_object d True False acc (quote_char c @ s) = scan_object d True False (rev (quote_char c) @ acc) s"
proof -
  consider "c = CHR 0x22 \<or> c = CHR 0x5C" | "c \<noteq> CHR 0x22" "c \<noteq> CHR 0x5C" "(of_char c :: nat) < 32"
    | "c \<noteq> CHR 0x22" "c \<noteq> CHR 0x5C" "\<not> (of_char c :: nat) < 32" by blast
  then show ?thesis
  proof cases
    case 1
    then show ?thesis by auto
  next
    case 2
    then obtain a b where q: "quote_char c = [CHR 0x5C, CHR ''u'', CHR ''0'', CHR ''0'', a, b]"
      and "hex_value a \<noteq> None" "hex_value b \<noteq> None" using control_escape [of c] by auto
    then have "a \<noteq> CHR 0x22 \<and> a \<noteq> CHR 0x5C \<and> b \<noteq> CHR 0x22 \<and> b \<noteq> CHR 0x5C"
      by (auto simp: hex_value_def)
    then show ?thesis unfolding q by simp
  next
    case 3
    then show ?thesis by (simp add: Let_def)
  qed
qed

lemma scan_chars:
  "scan_object d True False acc (concat (map quote_char x) @ s) =
   scan_object d True False (rev (concat (map quote_char x)) @ acc) s"
  by (induction x arbitrary: acc) (simp_all add: scan_char del: quote_char.simps)

lemma scan_quoted: "scan_object d False False acc (quoted x @ s) = scan_object d False False (rev (quoted x) @ acc) s"
  by (simp add: quoted_def scan_chars)

lemma scan_text:
  "plain j \<Longrightarrow> 0 < d \<Longrightarrow> scan_object d False False acc (json_text j @ s) = scan_object d False False (rev (json_text j) @ acc) s"
  "list_all plain js \<Longrightarrow> 0 < d \<Longrightarrow>
     scan_object d False False acc (elements_text js @ s) = scan_object d False False (rev (elements_text js) @ acc) s"
  "list_all (\<lambda>(k, j). plain j) kvs \<Longrightarrow> 0 < d \<Longrightarrow>
     scan_object d False False acc (members_text kvs @ s) = scan_object d False False (rev (members_text kvs) @ acc) s"
  by (induction j and js and kvs arbitrary: d acc s and d acc s and d acc s
      rule: json_text_elements_text_members_text.induct) (simp_all add: scan_quoted)

lemma first_object_found:
  assumes "plain (JObj kvs)" and "CHR ''{'' \<notin> set gap"
  shows "extractFirstJSONObject (gap @ json_text (JObj kvs) @ post) = Inr (json_text (JObj kvs))"
proof -
  have "dropWhile (\<lambda>c. c \<noteq> CHR ''{'') (gap @ json_text (JObj kvs) @ post) = json_text (JObj kvs) @ post"
    using assms(2) by (subst dropWhile_append2) auto
  moreover have "scan_object 0 False False [] (json_text (JObj kvs) @ post) = Some (json_text (JObj kvs))"
    using scan_text(3) [of kvs 1 "''{''" "CHR ''}'' # post"] assms(1) by simp
  ultimately show ?thesis by (simp add: extractFirstJSONObject_def)
qed

section \<open>The fields\<close>

lemma lower_keys [simp]:
  "to_lower ''recommendation'' = ''recommendation''" "to_lower ''risk'' = ''risk''" "to_lower ''confidence'' = ''confidence''"
  "to_lower ''summary'' = ''summary''" "to_lower ''risk_factors'' = ''risk_factors''"
  "to_lower ''tests_seen_passing'' = ''tests_seen_passing''" "to_lower ''review_iterations'' = ''review_iterations''"
  "to_lower ''remaining_issues'' = ''remaining_issues''" "to_lower ''head_sha'' = ''head_sha''"
  "to_lower ''dangerous_change_categories'' = ''dangerous_change_categories''"
  "to_lower ''severity'' = ''severity''" "to_lower ''description'' = ''description''"
  by (simp_all add: to_lower_def lower_char_def)

lemma decode_strings_written: "decode_values name scalars (map JStr xs) = Inr (trimmedStrings xs)"
  by (induction xs) (simp_all add: trimmedStrings_def decodeAutoMergeStringListValue_def)

lemma decode_issue_written: "decode_issue (issue_json i) = Inr i"
  by (simp add: decode_issue_def issue_json_def omit_empty_def issue_field_def lift_field_def)

lemma decode_issues_written: "json_elements decode_issue (map issue_json xs) = Inr xs"
  by (induction xs) (simp_all add: decode_issue_written)

lemma plain_assessment: "plain (assessment_json a)"
  by (auto simp: assessment_json_def string_array_def issue_json_def omit_empty_def list_all_iff)

lemma assessment_decoded:
  "decodeAutoMergeAssessmentJSON (json_text (assessment_json a)) =
     Inr (a\<lparr>as_RiskFactors := trimmedStrings (as_RiskFactors a), as_TestsSeenPassing := trimmedStrings (as_TestsSeenPassing a),
       as_ReviewIterations := trimmedStrings (as_ReviewIterations a),
       as_DangerousChangeCategories := trimmedStrings (as_DangerousChangeCategories a)\<rparr>)"
proof -
  have "json_object raw_field (assessment_json a) zero_raw = Inr
     \<lparr>ra_Recommendation = as_Recommendation a, ra_Risk = as_Risk a, ra_Confidence = as_Confidence a,
      ra_Summary = as_Summary a, ra_RiskFactors = Some (string_array (as_RiskFactors a)),
      ra_TestsSeenPassing = Some (string_array (as_TestsSeenPassing a)),
      ra_ReviewIterations = Some (string_array (as_ReviewIterations a)), ra_RemainingIssues = as_RemainingIssues a,
      ra_DangerousChangeCategories = Some (string_array (as_DangerousChangeCategories a)), ra_HeadSHA = as_HeadSHA a\<rparr>"
    by (simp add: assessment_json_def raw_field_def lift_field_def zero_raw_def decode_issues_written)
  then show ?thesis
    by (simp add: decodeAutoMergeAssessmentJSON_def json_text_parses [OF plain_assessment] raw_to_assessment_def
        decodeAutoMergeStringList_def string_array_def decode_strings_written)
qed

lemma assessment_text_parsed:
  assumes valid: "fst (validateAutoMergeAssessment (Some a)) = None" and gap: "CHR ''{'' \<notin> set gap"
    and marker: "last_index text autoMergeAssessmentMarker = Some (length pre)"
    and body: "text = pre @ autoMergeAssessmentMarker @ gap @ json_text (assessment_json a) @ post"
  shows "parseAutoMergeAssessmentText text = Inr (normalizeAutoMergeAssessment a)"
proof -
  let ?b = "a\<lparr>as_RiskFactors := trimmedStrings (as_RiskFactors a), as_TestsSeenPassing := trimmedStrings (as_TestsSeenPassing a),
       as_ReviewIterations := trimmedStrings (as_ReviewIterations a),
       as_DangerousChangeCategories := trimmedStrings (as_DangerousChangeCategories a)\<rparr>"
  have "drop (length pre + length autoMergeAssessmentMarker) text = gap @ json_text (assessment_json a) @ post"
    by (simp add: body)
  moreover have "extractFirstJSONObject (gap @ json_text (assessment_json a) @ post) = Inr (json_text (assessment_json a))"
    using first_object_found [OF _ gap] plain_assessment [of a] unfolding assessment_json_def by blast
  moreover have n: "normalizeAutoMergeAssessment ?b = normalizeAutoMergeAssessment a"
    by (simp add: normalizeAutoMergeAssessment_def trimmed_idem)
  then have "validateAutoMergeAssessment (Some ?b) = validateAutoMergeAssessment (Some a)"
    by (simp add: validateAutoMergeAssessment_def)
  moreover have "validateAutoMergeAssessment (Some a) = (None, Some (normalizeAutoMergeAssessment a))"
    using valid by (auto simp: validateAutoMergeAssessment_def Let_def split: if_splits)
  ultimately show ?thesis
    using marker by (simp add: parseAutoMergeAssessmentText_def assessment_decoded)
qed

end
