(* ===== verification/Auto_Merge_Runs.thy ===== *)
theory Auto_Merge_Runs
  imports Auto_Merge_Laws
begin

text \<open>
  What an evaluation gives back, and what the re-evaluation of pull requests writes to the run store.
\<close>

section \<open>Evaluation\<close>

text \<open>An error text the code writes itself, possibly around another's.\<close>

fun has_text :: "go_error \<Rightarrow> bool" where
  "has_text (ErrNew m) \<longleftrightarrow> m \<noteq> []"
| "has_text (Wrapped m e) \<longleftrightarrow> True"
| "has_text _ \<longleftrightarrow> False"

lemma has_text_speaks: "has_text e \<Longrightarrow> err_text pg e \<noteq> []"
  by (cases e) auto

lemma url_error_speaks: "parseGitHubPRURL ops raw = Inl e \<Longrightarrow> has_text e"
  by (auto simp: parseGitHubPRURL_def Let_def split: sum.splits if_splits list.splits option.splits)

lemma client_error_speaks: "githubClientForAutoMerge env org owner repo = Inl e \<Longrightarrow> has_text e"
  by (auto simp: githubClientForAutoMerge_def split: sum.splits if_splits)

lemma pages_error_speaks:
  fixes list :: "int \<Rightarrow> ('a, 'b list \<times> int) gh"
  assumes "list_pages list msg page out s = Some (Inl e, t)"
  shows "has_text e"
proof -
  have "\<forall>e t. y = (Inl e, t) \<longrightarrow> has_text e" if "list_pages list msg page out s = Some y" for y
  proof (rule list_pages.raw_induct [where P = "\<lambda>list msg page out s y. \<forall>e t. y = (Inl e, t) \<longrightarrow> has_text e", OF _ that])
    fix rec and list :: "int \<Rightarrow> ('a, 'b list \<times> int) gh" and msg page out s y
    assume ih: "\<And>list msg page out s y. rec list msg page out s = Some y \<Longrightarrow> \<forall>e t. y = (Inl e, t) \<longrightarrow> has_text e"
      and run: "(case list page s of
          (Inl e, t) \<Rightarrow> Some (Inl (Wrapped msg (ge_Error e)), t)
        | (Inr (xs, nextPage), t) \<Rightarrow>
            if nextPage = 0 then Some (Inr (out @ xs), t) else rec list msg nextPage (out @ xs) t) = Some y"
    show "\<forall>e t. y = (Inl e, t) \<longrightarrow> has_text e"
      using run ih by (auto split: sum.splits prod.splits if_splits)
  qed
  with assms show ?thesis by blast
qed

lemma checks_error_speaks: "fetch_checks c p pr files reviews s = (Inl e, t) \<Longrightarrow> has_text e"
  by (auto simp: fetch_checks_def call_def Let_def split: sum.splits prod.splits if_splits)

lemma fetch_error_speaks:
  "fetchAutoMergeGitHubSnapshot c p s = Some (Inl e, t) \<Longrightarrow> has_text e"
  by (auto simp: fetchAutoMergeGitHubSnapshot_def listAllPRFiles_def listAllPRReviews_def
      dest: pages_error_speaks checks_error_speaks split: sum.splits prod.splits option.splits)

lemma judged_outcome:
  assumes "unlabelled out"
  shows "outcome_ok (fst (judge pg order c p nowText assessed sn out s))"
proof -
  obtain g checked where gate: "evaluateAutoMergeServerGate pg assessed (current_head sn) (sn_Files sn) = (g, checked)"
    by fastforce
  let ?o = "out\<lparr>mo_ServerGate := g, mo_Assessment := checked\<rparr>"
  have u: "unlabelled ?o" using assms by (simp add: unlabelled_def)
  have r: "gate_Reason g \<noteq> []"
  proof (cases assessed)
    case None
    with gate show ?thesis by (auto simp: evaluateAutoMergeServerGate_def)
  next
    case (Some a)
    with gate show ?thesis using server_gate_iff(3) by blast
  qed
  have "outcome_ok (fst (applyAutoMergeLabel pg c p autoMergeHumanReviewLabel
      ((human_review ?o)\<lparr>mo_BlockedReason := gate_Reason g\<rparr>) s))"
    by (rule human_outcome) (use r u in \<open>simp_all add: human_review_def unlabelled_def\<close>)
  then show ?thesis
    using gate_outcome [OF u github_gate_speaks] by (auto simp: judge_def gate Let_def split: option.split)
qed

lemma started: "unlabelled (start_outcome assessed)"
  "mo_State (start_outcome assessed) = autoMergeStateHumanReview"
  "mo_Label (start_outcome assessed) = autoMergeHumanReviewLabel"
  by (simp_all add: start_outcome_def unlabelled_def zero_outcome_def)

lemma client_outcome:
  assumes "evaluateAutoMergeWithClient pg order c p nowText assessed (start_outcome assessed) s = Some (out, t)"
  shows "outcome_ok out"
proof (cases "fetchAutoMergeGitHubSnapshot c p s")
  case None
  with assms show ?thesis by (simp add: evaluateAutoMergeWithClient_def)
next
  case (Some rt)
  obtain r u where rt: "rt = (r, u)" by fastforce
  show ?thesis
  proof (cases r)
    case (Inl e)
    let ?m = "err_text pg e"
    have "outcome_ok (fst (applyAutoMergeLabel pg c p autoMergeHumanReviewLabel ((start_outcome assessed)
        \<lparr>mo_BlockedReason := ?m, mo_GitHubGate := gate False autoMergeStateHumanReview ?m\<rparr>) u))"
      by (rule human_outcome)
        (use started [of assessed] has_text_speaks [OF fetch_error_speaks [of c p s e u]] Some rt Inl
          in \<open>simp_all add: unlabelled_def\<close>)
    with assms Some rt Inl show ?thesis by (simp add: evaluateAutoMergeWithClient_def Let_def)
  next
    case (Inr sn)
    with assms Some rt judged_outcome [OF started(1), of pg order c p nowText assessed sn assessed u] show ?thesis
      by (simp add: evaluateAutoMergeWithClient_def)
  qed
qed

definition listings_end :: "'g merge_env \<Rightarrow> bool" where
  "listings_end env \<longleftrightarrow> (\<forall>n c p. me_ClientForInstallation env n = Inr c \<longrightarrow>
     pages_end (gh_ListFiles c p) \<and> pages_end (gh_ListReviews c p))"

lemma evaluation_ok:
  assumes "listings_end env"
  shows "\<exists>out g'. evaluateAutoMerge env nowText org prURL assessed g = Some (out, g') \<and> outcome_ok out"
proof -
  let ?out = "start_outcome assessed"
  have failed: "outcome_ok (?out\<lparr>mo_BlockedReason := err_text (me_Text env) e, mo_ServerGate := gt\<rparr>)" if "has_text e" for e gt
    using has_text_speaks [OF that] started [of assessed] by (simp add: outcome_ok_def unlabelled_def auto_merge_states)
  show ?thesis
  proof (cases "parseGitHubPRURL (me_URL env) prURL")
    case (Inl e)
    with failed [OF url_error_speaks] show ?thesis by (simp add: evaluateAutoMerge_def Let_def)
  next
    case (Inr p)
    show ?thesis
    proof (cases "githubClientForAutoMerge env org (pp_Owner p) (pp_Repo p)")
      case (Inl e)
      with Inr failed [OF client_error_speaks] show ?thesis by (simp add: evaluateAutoMerge_def Let_def)
    next
      case c: (Inr c)
      then have "\<exists>n. me_ClientForInstallation env n = Inr c"
        by (auto simp: githubClientForAutoMerge_def split: if_splits sum.splits)
      with assms have "pages_end (gh_ListFiles c p)" "pages_end (gh_ListReviews c p)" unfolding listings_end_def by blast+
      from fetch_returns [OF this] obtain r t where "fetchAutoMergeGitHubSnapshot c p g = Some (r, t)" by blast
      then have "\<exists>og. evaluateAutoMergeWithClient (me_Text env) (me_Order env) c p nowText assessed ?out g = Some og"
        by (cases r) (simp_all add: evaluateAutoMergeWithClient_def Let_def)
      then obtain og where og: "evaluateAutoMergeWithClient (me_Text env) (me_Order env) c p nowText assessed ?out g = Some og" ..
      then have "evaluateAutoMerge env nowText org prURL assessed g = Some (fst og, snd og)"
        using Inr c by (simp add: evaluateAutoMerge_def Let_def)
      moreover have "outcome_ok (fst og)" using og client_outcome by (metis prod.collapse)
      ultimately show ?thesis by blast
    qed
  qed
qed

section \<open>Runs\<close>

text \<open>What a re-evaluation leaves of a run: everything but its outcome, while its log may grow.\<close>

definition same_course :: "run_row \<Rightarrow> run_row \<Rightarrow> bool" where
  "same_course r r' \<longleftrightarrow> ar_state r' = ar_state r \<and> ar_lease_owner r' = ar_lease_owner r \<and>
     ar_lease_expires_at r' = ar_lease_expires_at r \<and> ar_branch r' = ar_branch r \<and> ar_last_error r' = ar_last_error r"

definition carried_on :: "string \<Rightarrow> run_row \<Rightarrow> event_row list \<Rightarrow> runs_db \<Rightarrow> bool" where
  "carried_on i r es s \<longleftrightarrow> runs_ok s \<and> prefix es (events_of s i) \<and> (\<exists>r'. run_of s i = Some r' \<and> same_course r r')"

lemma carried_on_start: "runs_ok s \<Longrightarrow> run_of s i = Some r \<Longrightarrow> carried_on i r (events_of s i) s"
  by (simp add: carried_on_def same_course_def)

lemma carried_on_map:
  assumes "carried_on i r es s" and "runs_ok t" and run: "run_of t i = map_option g (run_of s i)"
    and g: "\<And>x. same_course x (g x)" and "prefix (events_of s i) (events_of t i)"
  shows "carried_on i r es t"
proof -
  from assms(1) obtain r' where r': "run_of s i = Some r'" "same_course r r'" and es: "prefix es (events_of s i)"
    by (auto simp: carried_on_def)
  have "same_course r (g r')" using r'(2) g [of r'] by (simp add: same_course_def)
  with r'(1) run assms(2,5) es show ?thesis using prefix_order.trans by (auto simp: carried_on_def)
qed

lemma carried_on_outcome: "keeps_inv (carried_on i r es) (UpdateAgentRunOutcome now k out detail score w)"
proof (rule keeps_invI)
  fix s res t assume c: "carried_on i r es s" and run: "UpdateAgentRunOutcome now k out detail score w s = (res, t)"
  have "keeps_inv runs_ok (UpdateAgentRunOutcome now k out detail score w)" by (rule run_writes_keep)
  from keeps_invD [OF this _ run] c have ok: "runs_ok t" by (simp add: carried_on_def)
  let ?g = "where_run (\<lambda>r. owned_by k w r \<and> ar_state r \<in> set run_states)
      (\<lambda>r. r\<lparr>ar_outcome := out, ar_outcome_detail := detail, ar_quality_score := score, ar_updated_at := Some now\<rparr>)"
  have am: "amends ?g" by (simp add: amends_def where_run_def live_def)
  from run [unfolded UpdateAgentRunOutcome_def] show "carried_on i r es t"
  proof (cases rule: update_run_written)
    case (unchanged e)
    with c show ?thesis by simp
  next
    case written
    show ?thesis
      by (rule carried_on_map [where g = ?g, OF c ok])
        (simp_all add: written(2) run_of_changed [OF am] same_course_def where_run_def)
  qed
qed

lemma bumped_elsewhere:
  assumes "agent_runs t = map (\<lambda>x. if ar_id x = k then bumped now x else x) (agent_runs s)"
  shows "run_of t i = map_option (\<lambda>x. if ar_id x = k then bumped now x else x) (run_of s i)"
proof -
  let ?g = "\<lambda>x. if ar_id x = k then bumped now x else x"
  have "amends ?g" by (simp add: amends_def bumped_def live_def)
  then show ?thesis using run_of_changed [of ?g s i] by (simp add: run_of_def assms)
qed

lemma carried_on_append: "keeps_inv (carried_on i r es) (AppendAgentRunEvent now k event payload w)"
proof (rule keeps_invI)
  fix s res t assume c: "carried_on i r es s" and run: "AppendAgentRunEvent now k event payload w s = (res, t)"
  then have ok: "runs_ok s" by (simp add: carried_on_def)
  from ok run show "carried_on i r es t"
  proof (cases rule: append_cases)
    case (unchanged e)
    with c show ?thesis by simp
  next
    case (written x)
    show ?thesis
      by (rule carried_on_map [OF c keeps_invD [OF append_keeps ok run] bumped_elsewhere [OF written(5)]])
        (simp_all add: same_course_def bumped_def events_of_def written(6))
  qed
qed

text \<open>A write to one run leaves the others untouched, whoever owns them.\<close>

lemma untouched_elsewhere:
  assumes "k \<noteq> i"
  shows "keeps_inv (untouched i r es) (UpdateAgentRunOutcome now k out detail score w)"
    and "keeps_inv (untouched i r es) (AppendAgentRunEvent now k event payload w)"
proof -
  have "keeps_inv (\<lambda>s. untouched i r es s \<and> ar_id r = i) (UpdateAgentRunOutcome now k out detail score w)"
  proof (cases "ar_id r = i")
    case True
    have "keeps_inv (untouched i r es) (UpdateAgentRunOutcome now k out detail score w)"
      unfolding run_queries
      by (rule untouched_update, simp add: amends_def where_run_def live_def,
          rule run_writes_keep [unfolded run_queries], simp add: owned_by_def True assms [symmetric])
    then show ?thesis using True by simp
  qed (simp add: keeps_inv_def)
  moreover have "(\<lambda>s. untouched i r es s \<and> ar_id r = i) = untouched i r es"
    by (auto simp: untouched_def fun_eq_iff dest: run_ofD)
  ultimately show "keeps_inv (untouched i r es) (UpdateAgentRunOutcome now k out detail score w)" by metis
  show "keeps_inv (untouched i r es) (AppendAgentRunEvent now k event payload w)"
  proof (rule keeps_invI)
    fix s res t assume u: "untouched i r es s" and run: "AppendAgentRunEvent now k event payload w s = (res, t)"
    then have ok: "runs_ok s" by (simp add: untouched_def)
    from ok run show "untouched i r es t"
    proof (cases rule: append_cases)
      case (unchanged e)
      with u show ?thesis by simp
    next
      case (written x)
      show ?thesis
        using u assms keeps_invD [OF append_keeps ok run] run_ofD [of s i r] bumped_elsewhere [OF written(5), of i]
        by (auto simp: untouched_def events_of_def written(6))
    qed
  qed
qed

text \<open>The writes of one row, for any property its two queries keep.\<close>

lemma row_writes:
  assumes "\<And>out detail score w. keeps_inv P (UpdateAgentRunOutcome now k out detail score w)"
    and "\<And>event payload w. keeps_inv P (AppendAgentRunEvent now k event payload w)" and "P db" and "run_ID run = k"
  shows "P (recordAutoMergeTerminalEventForRun env en now run prURL out'
    (snd (UpdateOutcome en now (run_ID run) outcome detail score owner db)))"
proof -
  have "keeps_inv P (UpdateOutcome en now k outcome detail score owner)"
    unfolding UpdateOutcome_def Let_def by (intro best_effort_keeps assms(1))
  then have db: "P (snd (UpdateOutcome en now k outcome detail score owner db))"
    using assms(3) by (metis keeps_invD prod.collapse)
  have app: "keeps_inv P (AppendEvent en now k event payload w)" for event payload w
    unfolding AppendEvent_def by (intro keeps assms(2))
  have "P (snd (AppendEvent en now k event payload w (snd (UpdateOutcome en now k outcome detail score owner db))))"
    for event payload w using app db by (metis keeps_invD prod.collapse)
  then show ?thesis
    unfolding recordAutoMergeTerminalEventForRun_def recordAutoMergeRunEventForRun_def Let_def assms(4)
    using db by (simp only: split: if_split) blast
qed

text \<open>The run a row is about, and whether its stored outcome is settled.\<close>

definition settled :: "json \<Rightarrow> bool" where
  "settled raw \<longleftrightarrow> (case autoMergeDetailFromOutcomeRaw raw of
     None \<Rightarrow> True
   | Some d \<Rightarrow> \<not> mo_Requested d \<or> mo_Assessment d = None \<or> mo_State d \<in> {''merged'', ''human_review_needed''})"

lemma latest_found:
  assumes "LatestForThread en org thread s = (res, t)"
  shows "t = s" and "\<And>run. res = Inr run \<Longrightarrow> \<exists>r \<in> set (agent_runs s). run = fromRunRow r"
proof -
  have *: "\<forall>x. (case xs of [] \<Rightarrow> None | x # _ \<Rightarrow> Some x) = Some x \<longrightarrow> x \<in> set xs" for xs :: "run_row list"
    by (cases xs) auto
  let ?xs = "sort_key (newest ar_created_at) (filter (\<lambda>r. ar_org_id r = org \<and> ar_thread_id r = thread) (agent_runs s))"
  have "t = s \<and> (\<forall>run. res = Inr run \<longrightarrow> (\<exists>r \<in> set (agent_runs s). run = fromRunRow r))"
  proof (cases ?xs)
    case Nil
    with assms show ?thesis
      by (auto simp: LatestForThread_def one_run_def GetLatestAgentRunForThread_def first_row_def andthen_def split: if_splits)
  next
    case (Cons x xs)
    then have "x \<in> set ?xs" by simp
    then have "x \<in> set (agent_runs s)" by simp
    with Cons assms show ?thesis
      by (auto simp: LatestForThread_def one_run_def GetLatestAgentRunForThread_def first_row_def andthen_def split: if_splits)
  qed
  then show "t = s" "\<And>run. res = Inr run \<Longrightarrow> \<exists>r \<in> set (agent_runs s). run = fromRunRow r" by blast+
qed

text \<open>The body of the loop once the run and its stored outcome are known.\<close>

lemma row_settled:
  assumes "LatestForThread en (cv_OrgID row) (cv_ThreadID row) db = (Inr run, db)" and "settled (run_OutcomeDetail run)"
  shows "recheckRow env en now nowText row (db, g) = Some (db, g)"
proof (cases "autoMergeDetailFromOutcomeRaw (run_OutcomeDetail run)")
  case None
  with assms(1) show ?thesis by (simp add: recheckRow_def)
next
  case (Some d)
  with assms(2) have "\<not> mo_Requested d \<or> mo_Assessment d = None \<or> mo_State d = autoMergeStateMerged \<or> mo_State d = autoMergeStateHumanReview"
    by (simp add: settled_def auto_merge_states)
  with assms(1) Some show ?thesis by (auto simp: recheckRow_def)
qed

lemma row_open:
  assumes "LatestForThread en (cv_OrgID row) (cv_ThreadID row) db = (Inr run, db)" and "\<not> settled (run_OutcomeDetail run)"
    and "recheckRow env en now nowText row (db, g) = Some (db', g')"
  shows "\<exists>out outcome detail. db' = recordAutoMergeTerminalEventForRun env en now run (cv_PrURL row) out
         (snd (UpdateOutcome en now (run_ID run) outcome detail (run_QualityScore run) (run_LeaseOwner run) db))"
proof -
  obtain d a where d: "autoMergeDetailFromOutcomeRaw (run_OutcomeDetail run) = Some d" "mo_Requested d" "mo_Assessment d = Some a"
    "mo_State d \<noteq> autoMergeStateMerged" "mo_State d \<noteq> autoMergeStateHumanReview"
    using assms(2) by (auto simp: settled_def auto_merge_states split: option.splits)
  show ?thesis
  proof (cases "evaluateAutoMerge env nowText (cv_OrgID row) (cv_PrURL row) (Some a) g")
    case None
    with assms(1,3) d show ?thesis by (simp add: recheckRow_def)
  next
    case (Some og)
    obtain out g1 where og: "og = (out, g1)" by fastforce
    have "Some (db', g') = (let updated = updateAutoMergeOutcomeRaw (run_OutcomeDetail run) out;
        outcome = (if run_Outcome run = [] then ''completed_with_verified_pr'' else run_Outcome run);
        (_, db2) = UpdateOutcome en now (run_ID run) outcome (Some (Inr updated)) (run_QualityScore run) (run_LeaseOwner run) db
        in Some (recordAutoMergeTerminalEventForRun env en now run (cv_PrURL row) out db2, g1))"
      unfolding assms(3) [symmetric] using assms(1) d Some og by (simp add: recheckRow_def)
    then show ?thesis unfolding Let_def case_prod_beta by blast
  qed
qed

lemma row_cases:
  assumes run: "recheckRow env en now nowText row (db, g) = Some (db', g')"
  obtains (skipped) "db' = db"
  | (evaluated) r out outcome detail where "r \<in> set (agent_runs db)" "\<not> settled (ar_outcome_detail r)"
      "db' = recordAutoMergeTerminalEventForRun env en now (fromRunRow r) (cv_PrURL row) out
         (snd (UpdateOutcome en now (run_ID (fromRunRow r)) outcome detail (run_QualityScore (fromRunRow r))
            (run_LeaseOwner (fromRunRow r)) db))"
proof -
  obtain res t where l: "LatestForThread en (cv_OrgID row) (cv_ThreadID row) db = (res, t)" by fastforce
  note found = latest_found [OF l]
  show thesis
  proof (cases res)
    case (Inl e)
    with run l found(1) show thesis by (intro skipped) (simp add: recheckRow_def)
  next
    case (Inr x)
    with found(2) obtain r where r: "r \<in> set (agent_runs db)" "x = fromRunRow r" by blast
    have det: "run_OutcomeDetail (fromRunRow r) = ar_outcome_detail r" by (simp add: fromRunRow_def)
    have l': "LatestForThread en (cv_OrgID row) (cv_ThreadID row) db = (Inr (fromRunRow r), db)"
      using l Inr r(2) found(1) by simp
    show thesis
    proof (cases "settled (ar_outcome_detail r)")
      case True
      with row_settled [OF l', of env now nowText g] det run show thesis by (intro skipped) simp
    next
      case False
      with row_open [OF l' _ run] det evaluated r(1) show thesis by auto
    qed
  qed
qed

text \<open>
  A property of the store that the writes to every run keep, or, of a settled run \<open>i\<close>, the writes to
  every other run.
\<close>

lemma rows_keep:
  assumes step: "\<And>row db g db' g'. recheckRow env en now nowText row (db, g) = Some (db', g') \<Longrightarrow> P db \<Longrightarrow> P db'"
  shows "recheckRows env en now nowText rows (db, g) = Some (db', g') \<Longrightarrow> P db \<Longrightarrow> P db'"
proof (induction rows arbitrary: db g)
  case Nil
  then show ?case by simp
next
  case (Cons row rows)
  then obtain db1 g1 where "recheckRow env en now nowText row (db, g) = Some (db1, g1)"
    "recheckRows env en now nowText rows (db1, g1) = Some (db', g')" by (auto split: option.splits)
  with step Cons show ?case by blast
qed

lemma recheck_keeps:
  assumes step: "\<And>row db g db' g'. recheckRow env en now nowText row (db, g) = Some (db', g') \<Longrightarrow> P db \<Longrightarrow> P db'"
    and "recheckAutoMergeForPR env en now nowText conversations org owner repo number prURL (db, g) = Some (db', g')" and "P db"
  shows "P db'"
  using assms(2,3) rows_keep [of env en now nowText P, OF step]
  by (auto simp: recheckAutoMergeForPR_def Let_def split: if_splits sum.splits)

lemma row_carries_on:
  assumes "recheckRow env en now nowText row (db, g) = Some (db', g')" and "carried_on i r es db"
  shows "carried_on i r es db'"
  using assms(1)
proof (cases rule: row_cases)
  case skipped
  with assms(2) show ?thesis by simp
next
  case (evaluated r' out outcome detail)
  show ?thesis unfolding evaluated(3) by (rule row_writes [OF carried_on_outcome carried_on_append assms(2) refl])
qed

lemma row_leaves_settled:
  assumes "recheckRow env en now nowText row (db, g) = Some (db', g')" and "untouched i r es db" and "settled (ar_outcome_detail r)"
  shows "untouched i r es db'"
  using assms(1)
proof (cases rule: row_cases)
  case skipped
  with assms(2) show ?thesis by simp
next
  case (evaluated r' out outcome detail)
  have "run_of db (ar_id r') = Some r'" using assms(2) evaluated(1) run_of_stored by (auto simp: untouched_def)
  with assms(2,3) evaluated(2) have other: "ar_id r' \<noteq> i" by (auto simp: untouched_def)
  have id: "run_ID (fromRunRow r') = ar_id r'" by (simp add: fromRunRow_def)
  show ?thesis
    unfolding evaluated(3) by (rule row_writes [OF untouched_elsewhere(1) [OF other] untouched_elsewhere(2) [OF other] assms(2) id])
qed

section \<open>Termination\<close>

lemma row_returns:
  assumes "listings_end env"
  shows "\<exists>db' g'. recheckRow env en now nowText row (db, g) = Some (db', g')"
proof -
  obtain res t where l: "LatestForThread en (cv_OrgID row) (cv_ThreadID row) db = (res, t)" by fastforce
  have "\<exists>st. recheckRow env en now nowText row (db, g) = Some st"
  proof (cases res)
    case (Inl e)
    with l show ?thesis by (simp add: recheckRow_def)
  next
    case (Inr run)
    show ?thesis
    proof (cases "autoMergeDetailFromOutcomeRaw (run_OutcomeDetail run)")
      case None
      with l Inr show ?thesis by (simp add: recheckRow_def)
    next
      case (Some d)
      obtain out g' where "evaluateAutoMerge env nowText (cv_OrgID row) (cv_PrURL row) (mo_Assessment d) g = Some (out, g')"
        using evaluation_ok [OF assms] by blast
      with l Inr Some show ?thesis by (simp add: recheckRow_def Let_def case_prod_beta)
    qed
  qed
  then show ?thesis by auto
qed

lemma rows_return: "listings_end env \<Longrightarrow> \<exists>st'. recheckRows env en now nowText rows st = Some st'"
proof (induction rows arbitrary: st)
  case Nil
  show ?case by simp
next
  case (Cons row rows)
  from row_returns [OF Cons.prems] obtain st1 where "recheckRow env en now nowText row st = Some st1" by (cases st) blast
  with Cons show ?case by simp
qed

lemma recheck_returns:
  assumes "listings_end env"
  shows "\<exists>st'. recheckAutoMergeForPR env en now nowText conversations org owner repo number prURL st = Some st'"
  using rows_return [OF assms] by (simp add: recheckAutoMergeForPR_def Let_def split: sum.split)

end
