(* ===== verification/Runs_Properties.thy ===== *)
theory Runs_Properties
  imports Runs_Laws
begin

text \<open>
  The results about agent runs: the consistency of the tables over any interleaving of workers, the
  refinement of the lease machine, what a worker without the lease cannot do, creations, claims,
  cancellations and the reading of events. The demo values are concrete inputs.
\<close>

section \<open>Concrete inputs\<close>

definition demo_row :: "string \<Rightarrow> string \<Rightarrow> string \<Rightarrow> string \<Rightarrow> int \<Rightarrow> run_row" where
  "demo_row i request st owner n = \<lparr>ar_id = i, ar_org_id = ''org'', ar_thread_id = ''t'', ar_run_kind = ''build'',
     ar_request_id = request, ar_sandbox_id = [], ar_branch = [], ar_user_request = ''do it'', ar_session_id = [],
     ar_command_id = [], ar_command_start_seq = 0, ar_state = st, ar_log_cursor = 0, ar_next_event_seq = n,
     ar_lease_owner = owner, ar_lease_expires_at = Some 100, ar_heartbeat_at = Some 50, ar_last_error = [],
     ar_created_at = Some 1, ar_updated_at = Some 50, ar_command_step = [], ar_outcome = [],
     ar_outcome_detail = JObj [], ar_quality_score = None, ar_trigger_source = ''user'', ar_job_id = None,
     ar_job_execution_id = None\<rparr>"

definition demo_event :: "int \<Rightarrow> event_row" where
  "demo_event n = \<lparr>av_run_id = ''r'', av_seq = n, av_event = ''say'', av_data = JBool True, av_created_at = Some n\<rparr>"

definition demo_runs_db :: runs_db where
  "demo_runs_db = \<lparr>agent_runs = [demo_row ''r'' ''q'' ''running'' ''w'' 3, demo_row ''o'' ''p'' ''failed'' ''w'' 1],
     agent_run_events = [demo_event 1, demo_event 2], run_job_ids = [], run_execution_ids = []\<rparr>"

definition demo_request :: agent_run where
  "demo_request = zero_run\<lparr>run_ID := ''n'', run_OrgID := ''org'', run_ThreadID := ''u'', run_RequestID := ''z''\<rparr>"

lemmas demo_defs = demo_runs_db_def demo_row_def demo_event_def

lemma demo_runs_ok: "runs_ok demo_runs_db"
  by (simp add: runs_ok_def table_inv_def run_inv_def run_row_error_def run_row_int8_def is_int64_def run_row_ok_def
      run_states_def run_refs_ok_def run_conflicts_def live_def live_states_def numbered_def events_of_def demo_defs
      upto.simps)

lemma demo_run: "run_of demo_runs_db ''r'' = Some (demo_row ''r'' ''q'' ''running'' ''w'' 3)"
  by (simp add: run_of_def demo_defs)

lemma demo_touch: "checkpoint w s (snd (AppendEvent True now i event payload w s))"
  by (rule checkpoint.event) (rule prod.collapse [symmetric])

lemma demo_interval: "lease_interval 5000 = 5000"
  by (simp add: lease_interval_def)

section \<open>The tables\<close>

definition any_step :: "runs_db \<Rightarrow> runs_db \<Rightarrow> bool" where
  "any_step s t \<longleftrightarrow> (\<exists>w. runs_step w s t)"

lemma any_step_anyone: "any_step = runs_lease.anyone"
  by (simp add: fun_eq_iff any_step_def runs_lease.anyone_def)

text \<open>C10: whatever workers do, in whatever order and with whatever outcome, the tables stay
  consistent: a thread has at most one live run, a request one run, and the events of a run carry the
  numbers 1, 2, ... in the order they were written.\<close>

theorem agent_runs_stay_consistent:
  assumes "any_step\<^sup>*\<^sup>* s t" and "runs_ok s"
  shows "runs_ok t \<and> (\<forall>r \<in> set (agent_runs t). map av_seq (events_of t (ar_id r)) = [1..ar_next_event_seq r - 1] \<and>
    (\<forall>r' \<in> set (agent_runs t). ar_org_id r' = ar_org_id r \<and>
       (ar_request_id r' = ar_request_id r \<or> live r \<and> live r' \<and> ar_thread_id r' = ar_thread_id r) \<longrightarrow> r' = r))"
proof -
  have ok: "runs_ok t" using runs_lease.run_outlives [of s t] assms unfolding any_step_anyone by blast
  have "r' = r" if r: "r \<in> set (agent_runs t)" "r' \<in> set (agent_runs t)" "ar_org_id r' = ar_org_id r"
    "ar_request_id r' = ar_request_id r \<or> live r \<and> live r' \<and> ar_thread_id r' = ar_thread_id r" for r r'
  proof -
    have "\<not> run_conflicts (agent_runs t) r" using ok r(1) by (simp add: runs_ok_def)
    then have "ar_id r' = ar_id r" using r unfolding run_conflicts_def by auto
    then show ?thesis using run_of_stored [OF ok r(1)] run_of_stored [OF ok r(2)] by simp
  qed
  with ok show ?thesis by (auto simp: runs_ok_def numbered_def)
qed

theorem agent_runs_stay_consistent_witness:
  "runs_ok (snd (AppendEvent True 60 ''r'' ''say'' JNull ''w'' demo_runs_db))"
proof -
  have "any_step demo_runs_db (snd (AppendEvent True 60 ''r'' ''say'' JNull ''w'' demo_runs_db))"
    unfolding any_step_def by (intro exI [of _ "''w''"] runs_step.writes demo_touch)
  from agent_runs_stay_consistent [OF r_into_rtranclp [of any_step, OF this] demo_runs_ok] show ?thesis ..
qed

section \<open>Leases\<close>

text \<open>C11: the store implements the lease machine: whatever an operation of a worker does to the
  tables, each run's lease (phase, owner and log) goes through steps of that worker which the machine
  allows: opening, taking over a live lease, writing to its own log, ending its own live lease.\<close>

theorem store_refines_lease_machine:
  assumes "runs_step w s t" and "runs_ok s"
  shows "(lease_step w)\<^sup>*\<^sup>* (lease_view s i) (lease_view t i)"
  using runs_lease.simulated [OF assms] by blast

theorem store_refines_lease_machine_witness:
  "(lease_step ''w'')\<^sup>*\<^sup>* (lease_view demo_runs_db ''r'')
     (lease_view (snd (AppendEvent True 60 ''r'' ''say'' JNull ''w'' demo_runs_db)) ''r'')"
  by (rule store_refines_lease_machine [OF runs_step.writes [OF demo_touch] demo_runs_ok])

text \<open>C12: nothing that happened to a run is undone: over any steps of any workers its log only grows
  at the end, and once it has ended its state and its owner stay what they are.\<close>

theorem run_history_is_final:
  assumes "any_step\<^sup>*\<^sup>* s t" and "runs_ok s" and "run_of s i = Some r"
  shows "\<exists>r'. run_of t i = Some r' \<and> prefix (lv_log (lease_of s r)) (lv_log (lease_of t r')) \<and>
    (\<not> live r \<longrightarrow> ar_state r' = ar_state r \<and> ar_lease_owner r' = ar_lease_owner r)"
proof -
  have "outlives (lease_view s i) (lease_view t i)"
    using runs_lease.run_outlives [of s t i] assms unfolding any_step_anyone by blast
  moreover have "lease_view s i = Some (lease_of s r)" using assms(3) by (simp add: lease_view_def)
  ultimately obtain v' where v': "lease_view t i = Some v'" "prefix (lv_log (lease_of s r)) (lv_log v')"
    "lv_phase (lease_of s r) \<noteq> Live \<longrightarrow> lv_phase v' = lv_phase (lease_of s r) \<and> lv_owner v' = lv_owner (lease_of s r)"
    by (auto simp: outlives_def)
  then obtain r' where r': "run_of t i = Some r'" "v' = lease_of t r'" by (auto simp: lease_view_def)
  with v' show ?thesis by (auto simp: lease_of_def split: if_splits)
qed

theorem run_history_is_final_witness:
  "\<exists>r'. run_of (snd (AppendEvent True 60 ''r'' ''say'' JNull ''w'' demo_runs_db)) ''r'' = Some r'"
proof -
  have "any_step demo_runs_db (snd (AppendEvent True 60 ''r'' ''say'' JNull ''w'' demo_runs_db))"
    unfolding any_step_def by (intro exI [of _ "''w''"] runs_step.writes demo_touch)
  from run_history_is_final [OF r_into_rtranclp [of any_step, OF this] demo_runs_ok demo_run] show ?thesis by blast
qed

text \<open>C13: the operations of a worker on a run in progress (its checkpoints, its appends and the touch
  of the lease) are fenced by the lease: when another worker holds it, none of them changes the row of
  the run or its events, and an event it tries to append is an error that changes nothing. Claims and
  cancellations are how the lease passes on, and are not among these operations.\<close>

theorem lease_fences_writes:
  assumes "runs_ok s" and "run_of s i = Some r" and "ar_lease_owner r \<noteq> w" and "i \<noteq> []"
  shows "(checkpoint w s t \<longrightarrow> run_of t i = Some r \<and> events_of t i = events_of s i) \<and>
    AppendEvent True now i event payload w s = (Inl (Wrapped ''append event'' ErrNoRows), s)"
proof -
  have "untouched i r (events_of s i) s" using assms by (simp add: untouched_def)
  then have "checkpoint w s t \<longrightarrow> run_of t i = Some r \<and> events_of t i = events_of s i"
    using checkpoint_untouched assms(3) by (auto simp: untouched_def)
  moreover have "AppendAgentRunEvent now i event payload w s = (Inl ErrNoRows, s)"
    using assms by (intro append_refused) auto
  ultimately show ?thesis using assms(4) by (simp add: AppendEvent_def wrap_err_def)
qed

theorem lease_fences_writes_witness:
  "run_of (snd (AppendEvent True 60 ''r'' ''say'' JNull ''x'' demo_runs_db)) ''r'' =
     Some (demo_row ''r'' ''q'' ''running'' ''w'' 3)"
proof -
  have "ar_lease_owner (demo_row ''r'' ''q'' ''running'' ''w'' 3) \<noteq> ''x''" "''r'' \<noteq> []" by (simp_all add: demo_row_def)
  from lease_fences_writes [OF demo_runs_ok demo_run this] demo_touch show ?thesis by blast
qed

text \<open>A lease has one holder: after a successful claim, whatever the other workers write, every
  claim by another worker until the lease expires is answered with no rows and changes nothing.\<close>

theorem claimed_lease_is_exclusive:
  assumes ok: "runs_ok s" and claimed: "Claim True now i w d s = (Inr r, t)"
    and others: "(\<lambda>a b. \<exists>v. v \<noteq> w \<and> checkpoint v a b)\<^sup>*\<^sup>* t u"
    and v: "v \<noteq> w" "now' \<le> now + lease_interval d"
  shows "Claim True now' i v d' u = (Inl ErrNoRows, u)"
proof -
  obtain x where x: "run_of s i = Some x"
    and t: "t = changed (\<lambda>x. if ar_id x = i then leased now w (lease_interval d) x else x) s" "live x"
    using claimed by (auto simp: Claim_decides [OF ok] split: option.splits if_splits)
  let ?g = "\<lambda>x. if ar_id x = i then leased now w (lease_interval d) x else x"
  have id: "ar_id x = i" using run_ofD [OF x] by simp
  have "runs_ok t" using runs_lease.simulated [OF runs_step.claim [OF claimed] ok] by blast
  moreover have "find (\<lambda>r. ar_id r = i) (map ?g rs) = map_option ?g (find (\<lambda>r. ar_id r = i) rs)" for rs
    by (induction rs) (auto simp: leased_def)
  then have "run_of t i = Some (leased now w (lease_interval d) x)"
    using x id by (simp add: t(1) run_of_def)
  ultimately have "untouched i (leased now w (lease_interval d) x) (events_of t i) t" by (simp add: untouched_def)
  moreover from others this have "untouched i (leased now w (lease_interval d) x) (events_of t i) u"
    by (induction rule: rtranclp_induct) (auto simp: leased_def intro: checkpoint_untouched)
  ultimately have u: "runs_ok u" "run_of u i = Some (leased now w (lease_interval d) x)" by (auto simp: untouched_def)
  show ?thesis
    using v unfolding Claim_decides [OF u(1)] u(2) by (simp add: leased_def before_def)
qed

theorem claimed_lease_is_exclusive_witness:
  "\<exists>t. Claim True 120 ''r'' ''x'' 5000 demo_runs_db = (Inr (fromRunRow
       (leased 120 ''x'' 5000 (demo_row ''r'' ''q'' ''running'' ''w'' 3))), t) \<and>
     Claim True 5120 ''r'' ''w'' 5000 t = (Inl ErrNoRows, t)"
proof -
  have c: "Claim True 120 ''r'' ''x'' 5000 demo_runs_db = (Inr (fromRunRow
       (leased 120 ''x'' 5000 (demo_row ''r'' ''q'' ''running'' ''w'' 3))),
     changed (\<lambda>x. if ar_id x = ''r'' then leased 120 ''x'' 5000 x else x) demo_runs_db)" (is "_ = (_, ?t)")
    unfolding Claim_decides [OF demo_runs_ok] demo_run demo_interval
    by (simp add: demo_row_def live_def live_states_def before_def)
  with claimed_lease_is_exclusive [OF demo_runs_ok c rtranclp.rtrancl_refl, of "''w''" 5120 5000] show ?thesis
    by (auto simp: demo_interval)
qed

section \<open>Operations\<close>

text \<open>A creation answers with a run and whether it is new. A new one is stored, led by its worker,
  only when the organisation had no run for the request and no live run on the thread; otherwise the
  answer is a live run of the same request or thread and nothing changes; an error changes nothing.
  The same creation again, by any worker, finds the run that was answered.\<close>

theorem run_creation_decides:
  assumes "runs_ok s" and "Create_run True now run w d s = (res, t)"
  shows "case res of
      Inl e \<Rightarrow> t = s
    | Inr (r, new) \<Rightarrow>
        Create_run True now' run w' d' t = (Inr (r, False), t) \<and>
        (\<exists>row \<in> set (agent_runs t). r = fromRunRow row \<and> live row \<and> ar_org_id row = run_OrgID run \<and>
          (if new then t = s\<lparr>agent_runs := agent_runs s @ [row]\<rparr> \<and> ar_id row = run_ID run \<and>
             ar_request_id row = run_RequestID run \<and> ar_thread_id row = run_ThreadID run \<and> ar_lease_owner row = w \<and>
             (\<forall>x \<in> set (agent_runs s). ar_org_id x = run_OrgID run \<longrightarrow>
                ar_request_id x \<noteq> run_RequestID run \<and> (live x \<longrightarrow> ar_thread_id x \<noteq> run_ThreadID run))
           else t = s \<and> (ar_request_id row = run_RequestID run \<or> ar_thread_id row = run_ThreadID run)))"
proof -
  have again: "Create_run True now' run w' d' t = (Inr (r, False), t)" if "res = Inr (r, b)" for r b
    using Create_run_again assms(2) that by blast
  from assms(2) show ?thesis
  proof (cases rule: Create_run_cases)
    case (refused e)
    then show ?thesis by simp
  next
    case (created row)
    note ins = inserted_row [OF created(1)]
    have ids: "\<forall>x \<in> set (agent_runs s). ar_id x \<noteq> ar_id row"
      using ins by (auto simp: run_of_def find_None_iff)
    have "\<forall>x \<in> set (agent_runs s). ar_org_id x = run_OrgID run \<longrightarrow>
        ar_request_id x \<noteq> run_RequestID run \<and> (live x \<longrightarrow> ar_thread_id x \<noteq> run_ThreadID run)"
      using ins ids new_row_conflicts [of "agent_runs s" row] by metis
    moreover have "row \<in> set (agent_runs t)" using ins by simp
    ultimately show ?thesis using created(2) ins again [OF created(2)] by auto
  next
    case (seen row)
    with by_request_found [OF seen(4)] again [OF seen(3)] show ?thesis by auto
  next
    case (busy row)
    with active_found [OF busy(5)] again [OF busy(3)] show ?thesis by auto
  qed
qed

theorem run_creation_decides_witness:
  "\<exists>r t. Create_run True 7 demo_request ''w'' 5000 demo_runs_db = (Inr (r, True), t) \<and>
     Create_run True 9 demo_request ''x'' 5000 t = (Inr (r, False), t)"
proof -
  have "\<exists>r t. Create_run True 7 demo_request ''w'' 5000 demo_runs_db = (Inr (r, True), t)"
    by (simp add: Create_run_def attempt_run CreateAgentRun_def demo_request_def zero_run_def demo_defs run_of_def
        run_conflicts_def run_refs_ok_def run_row_error_def run_row_int8_def is_int64_def run_row_ok_def run_states_def
        triggerSourceOrDefault_def TriggerUser_def optionalString_def live_def live_states_def Let_def)
  then obtain r t where c: "Create_run True 7 demo_request ''w'' 5000 demo_runs_db = (Inr (r, True), t)" by blast
  with run_creation_decides [OF demo_runs_ok c, of 9 "''x''" 5000] show ?thesis by auto
qed

text \<open>C14: a cancellation is all or nothing. An error leaves the tables as they were, and is the answer
  exactly if the run is not live or its numbers of events would leave int8; otherwise the run ends as
  cancelled, owned by the caller, with all the events at the end of its log, and no other run changes.\<close>

theorem cancel_is_all_or_nothing:
  assumes "runs_ok s" and "i \<noteq> []" and "Cancel True now i m w d evs s = (res, t)"
  shows "case res of
      Inl e \<Rightarrow> t = s \<and> (\<forall>r. run_of s i = Some r \<longrightarrow> live r \<longrightarrow> \<not> is_int64 (ar_next_event_seq r + int (length evs)))
    | Inr r' \<Rightarrow> run_ID r' = i \<and> run_State r' = ''cancelled'' \<and> run_LastError r' = m \<and>
        (\<exists>r. run_of s i = Some r \<and> live r \<and>
          (\<forall>j. lease_view t j = (if j = i
             then Some \<lparr>lv_phase = Ended ''cancelled'', lv_owner = w, lv_log = lv_log (lease_of s r) @ logged_events evs\<rparr>
             else lease_view s j)))"
  using Cancel_decides [OF assms] .

theorem cancel_is_all_or_nothing_witness:
  "\<exists>r t. Cancel True 60 ''r'' ''stop'' ''x'' 5000 [\<lparr>pe_Event = ''bye'', pe_Data = JNull\<rparr>] demo_runs_db = (Inr r, t) \<and>
     lease_view t ''r'' = Some \<lparr>lv_phase = Ended ''cancelled'', lv_owner = ''x'',
       lv_log = [(''say'', JBool True), (''say'', JBool True), (''bye'', JNull)]\<rparr>"
proof -
  obtain res t where c: "Cancel True 60 ''r'' ''stop'' ''x'' 5000 [\<lparr>pe_Event = ''bye'', pe_Data = JNull\<rparr>] demo_runs_db = (res, t)"
    by fastforce
  have lv: "live (demo_row ''r'' ''q'' ''running'' ''w'' 3)" by (simp add: live_def live_states_def demo_row_def)
  note d = cancel_is_all_or_nothing [OF demo_runs_ok _ c]
  show ?thesis
  proof (cases res)
    case (Inl e)
    have "is_int64 (ar_next_event_seq (demo_row ''r'' ''q'' ''running'' ''w'' 3) + 1)"
      by (simp add: is_int64_def demo_row_def)
    with d lv Inl show ?thesis by (simp add: demo_run)
  next
    case (Inr r)
    have "lv_log (lease_of demo_runs_db (demo_row ''r'' ''q'' ''running'' ''w'' 3)) = [(''say'', JBool True), (''say'', JBool True)]"
      by (simp add: lease_of_def events_of_def demo_defs)
    with d Inr c show ?thesis by (auto simp: demo_run logged_events_def)
  qed
qed

text \<open>EventsAfter, which reads pages of 5000 events until a page is not full, ends and answers with
  every event of the run after the given number, once and in order.\<close>

theorem events_after_returns_all:
  assumes "runs_ok s" and "i \<noteq> []"
  shows "EventsAfter True i c s = Some (Inr (map eventFromRow (filter (\<lambda>e. c < av_seq e) (events_of s i))), s)"
  using pages_return_all [OF assms, of c "[]"] by (simp add: EventsAfter_def events_after_def)

theorem events_after_returns_all_witness:
  "EventsAfter True ''r'' 1 demo_runs_db = Some (Inr [eventFromRow (demo_event 2)], demo_runs_db)"
  using events_after_returns_all [OF demo_runs_ok, of "''r''" 1] by (simp add: events_of_def demo_defs)

end
