(* ===== verification/Auto_Merge_Properties.thy ===== *)
theory Auto_Merge_Properties
  imports Auto_Merge_Runs Runs_Properties
begin

text \<open>
  The results about automatic merging: when it merges, what it answers, that the assessment it judges
  is the one the agent wrote, that the two labels exclude each other, and what a re-evaluation does to
  the runs. The demo values are a small hosting service and concrete inputs.
\<close>

section \<open>Concrete inputs\<close>

record demo_hub =
  hub_labels :: "string list"
  hub_merged :: "string list"

definition demo_pr :: github_pr where
  "demo_pr = \<lparr>pr_HeadSHA = ''abc'', pr_BaseRef = [], pr_Merged = False, pr_State = ''open'', pr_Draft = False,
     pr_MergeableState = ''clean''\<rparr>"

definition demo_file :: commit_file where
  "demo_file = \<lparr>cf_Filename = ''main.go'', cf_Status = ''modified'', cf_Changes = 4\<rparr>"

definition demo_client :: "demo_hub github_client" where
  "demo_client = \<lparr>gh_GetPR = (\<lambda>p s. (Inr (Some demo_pr), s)), gh_ListFiles = (\<lambda>p n s. (Inr ([Some demo_file], 0), s)),
     gh_ListReviews = (\<lambda>p n s. (Inr ([], 0), s)), gh_CombinedStatus = (\<lambda>p h s. (Inr None, s)),
     gh_CheckRuns = (\<lambda>p h s. (Inr None, s)), gh_BranchProtection = (\<lambda>p b s. (Inr None, s)),
     gh_GetLabel = (\<lambda>p l s. (Inr (), s)), gh_CreateLabel = (\<lambda>p l c d s. (Inr (), s)),
     gh_RemoveLabel = (\<lambda>p l s. if l \<in> set (hub_labels s) then (Inr (), s\<lparr>hub_labels := filter (\<lambda>x. x \<noteq> l) (hub_labels s)\<rparr>)
        else (Inl \<lparr>ge_RespStatus = None, ge_ErrStatus = Some 404, ge_Error = ErrNew ''no label''\<rparr>, s)),
     gh_AddLabels = (\<lambda>p ls s. (Inr (), s\<lparr>hub_labels := hub_labels s @ ls\<rparr>)),
     gh_GetRepository = (\<lambda>p s. (Inr None, s)),
     gh_Merge = (\<lambda>p h m s. (Inr (), s\<lparr>hub_merged := h # hub_merged s\<rparr>))\<rparr>"

definition demo_target :: parsed_pr where
  "demo_target = \<lparr>pp_Owner = ''o'', pp_Repo = ''r'', pp_Number = 5\<rparr>"

definition demo_start :: demo_hub where
  "demo_start = \<lparr>hub_labels = [autoMergeHumanReviewLabel, ''bug''], hub_merged = []\<rparr>"

definition demo_assessment :: assessment where
  "demo_assessment = \<lparr>as_Recommendation = ''safe_to_merge'', as_Risk = ''low'', as_Confidence = ''high'', as_Summary = ''ok'',
     as_RiskFactors = [], as_TestsSeenPassing = [''unit''], as_ReviewIterations = [], as_RemainingIssues = [],
     as_DangerousChangeCategories = [], as_HeadSHA = ''abc''\<rparr>"

definition demo_merge_env :: "demo_hub merge_env" where
  "demo_merge_env = \<lparr>me_Text = (\<lambda>e. ''x''), me_Order = (\<lambda>xs. xs),
     me_URL = \<lparr>url_Parse = (\<lambda>u. Inr \<lparr>url_Scheme = ''https'', url_Host = ''github.com'', url_EscapedPath = ''/o/r/pull/5''\<rparr>),
       url_PathUnescape = Inr\<rparr>,
     me_Configured = True, me_RepoInstallation = (\<lambda>org owner repo. Inr 1), me_ClientForInstallation = (\<lambda>n. Inr demo_client),
     me_WorkerID = ''w''\<rparr>"

lemma demo_pages: "pages_end (gh_ListFiles demo_client p)" "pages_end (gh_ListReviews demo_client p)"
  by (simp_all add: pages_end_def demo_client_def)

lemma demo_normal: "normalizeAutoMergeAssessment demo_assessment = demo_assessment"
  by (simp add: normalizeAutoMergeAssessment_def demo_assessment_def trim_space_def to_lower_def lower_char_def is_space_def trimmedStrings_def)

section \<open>Merging\<close>

text \<open>C15: a head is merged only when it is the one that was assessed and both gates were open: the
  assessment calls it safe, its files are few, small and harmless, and the pull request fetched in the
  same evaluation is open at that head, mergeable, with its required checks passed and its reviews given.
  \<open>merged\<close> says whether GitHub has merged a head, which only the merge of that head can change.\<close>

theorem merge_is_justified:
  assumes others: "all_but_merge_keep (\<lambda>s. \<not> merged s h) c p"
    and merges: "\<forall>h' m. h' \<noteq> h \<longrightarrow> gkeeps (\<lambda>s. \<not> merged s h) (gh_Merge c p h' m)"
    and order: "\<forall>xs. set (order xs) = set xs"
    and run: "evaluateAutoMergeWithClient pg order c p nowText (Some a) out s = Some (out', t)"
    and before: "\<not> merged s h" and after: "merged t h"
  shows "h = as_HeadSHA (normalizeAutoMergeAssessment a) \<and>
    (\<exists>sn s1. fetchAutoMergeGitHubSnapshot c p s = Some (Inr sn, s1) \<and>
       server_safe (normalizeAutoMergeAssessment a) (current_head sn) (sn_Files sn) \<and> github_safe sn h)"
proof -
  let ?P = "\<lambda>s. \<not> merged s h" and ?a = "normalizeAutoMergeAssessment a"
  obtain r s1 where fetch: "fetchAutoMergeGitHubSnapshot c p s = Some (r, s1)"
    using run by (auto simp: evaluateAutoMergeWithClient_def split: option.splits)
  have s1: "\<not> merged s1 h" using fetch_keeps [OF others fetch before] .
  obtain sn where r: "r = Inr sn"
  proof (cases r)
    case (Inl e)
    let ?m = "err_text pg e"
    from run fetch Inl have "t = snd (applyAutoMergeLabel pg c p autoMergeHumanReviewLabel
        (out\<lparr>mo_BlockedReason := ?m, mo_GitHubGate := gate False autoMergeStateHumanReview ?m\<rparr>) s1)"
      by (simp add: evaluateAutoMergeWithClient_def Let_def)
    with labels_keep [OF others, of s1] s1 have "\<not> merged t h" by simp
    with after show ?thesis by simp
  qed
  with run fetch have t: "t = snd (judge pg order c p nowText (Some a) sn out s1)"
    by (auto simp: evaluateAutoMergeWithClient_def dest: sym)
  have "h = as_HeadSHA ?a \<and> server_safe ?a (current_head sn) (sn_Files sn) \<and> github_safe sn (as_HeadSHA ?a)"
  proof (rule ccontr)
    assume no: "\<not> ?thesis"
    have "gkeeps ?P (gh_Merge c p (as_HeadSHA ?a) m)" if "server_safe ?a (current_head sn) (sn_Files sn)"
      "github_safe sn (as_HeadSHA ?a)" for m
    proof -
      have "as_HeadSHA ?a \<noteq> h" using no that by auto
      then show ?thesis by (rule merges [rule_format])
    qed
    from judge_keeps [where P = ?P, OF others order [rule_format] s1 this refl] have "\<not> merged t h" unfolding t .
    with after show False by simp
  qed
  with fetch r show ?thesis by blast
qed

definition demo_snapshot :: snapshot where
  "demo_snapshot = \<lparr>sn_PR = Some demo_pr, sn_Files = [Some demo_file], sn_Protection = None, sn_Statuses = None,
     sn_CheckRuns = [], sn_Reviews = []\<rparr>"

lemma demo_one_page: "list_pages (\<lambda>n s. (Inr (xs, 0), s)) m page out s = Some (Inr (out @ xs), s)"
  by (subst list_pages.simps) simp

lemma demo_fetch: "fetchAutoMergeGitHubSnapshot demo_client demo_target s = Some (Inr demo_snapshot, s)"
  by (simp add: fetchAutoMergeGitHubSnapshot_def listAllPRFiles_def listAllPRReviews_def demo_client_def fetch_checks_def
      demo_one_page call_def demo_pr_def demo_snapshot_def the_list_def ret_def)

lemma demo_judged:
  "judge (\<lambda>e. ''x'') (\<lambda>xs. xs) demo_client demo_target ''now'' (Some demo_assessment) demo_snapshot
     (start_outcome (Some demo_assessment)) demo_start =
   ((start_outcome (Some demo_assessment))
      \<lparr>mo_ServerGate := gate True autoMergeStateSafeToMerge ''server safety gates passed'',
       mo_State := autoMergeStateMerged, mo_MergedAt := ''now'', mo_Label := autoMergeSafeLabel,
       mo_GitHubGate := gate True autoMergeStateMerged ''merged with expected head SHA'', mo_LabelsApplied := [autoMergeSafeLabel]\<rparr>,
     \<lparr>hub_labels = [''bug'', autoMergeSafeLabel], hub_merged = [''abc'']\<rparr>)"
  by code_simp

theorem merge_is_justified_witness:
  "\<exists>sn s1. fetchAutoMergeGitHubSnapshot demo_client demo_target demo_start = Some (Inr sn, s1) \<and> github_safe sn ''abc''"
proof -
  let ?merged = "\<lambda>s h. h \<in> set (hub_merged s)"
  have "all_but_merge_keep (\<lambda>s. \<not> ?merged s ''abc'') demo_client demo_target"
    by (simp add: all_but_merge_keep_def gkeeps_def demo_client_def)
  moreover have "\<forall>h' m. h' \<noteq> ''abc'' \<longrightarrow> gkeeps (\<lambda>s. \<not> ?merged s ''abc'') (gh_Merge demo_client demo_target h' m)"
    by (simp add: gkeeps_def demo_client_def)
  moreover have "\<forall>xs. set ((\<lambda>xs. xs) xs) = set (xs :: string list)" by simp
  moreover have "evaluateAutoMergeWithClient (\<lambda>e. ''x'') (\<lambda>xs. xs) demo_client demo_target ''now'' (Some demo_assessment)
      (start_outcome (Some demo_assessment)) demo_start = Some (judge (\<lambda>e. ''x'') (\<lambda>xs. xs) demo_client demo_target ''now''
        (Some demo_assessment) demo_snapshot (start_outcome (Some demo_assessment)) demo_start)"
    by (simp add: evaluateAutoMergeWithClient_def demo_fetch)
  note run = this [unfolded demo_judged]
  ultimately have "?merged demo_start ''abc'' \<or> (\<exists>sn s1. fetchAutoMergeGitHubSnapshot demo_client demo_target demo_start =
      Some (Inr sn, s1) \<and> github_safe sn ''abc'')"
    using merge_is_justified [where merged = ?merged, OF _ _ _ run, of "''abc''"] by auto
  then show ?thesis by (simp add: demo_start_def)
qed

text \<open>C16: when the listings of GitHub end, an evaluation always gives an outcome, whatever fails, and the
  outcome makes sense: its state and its label agree, a human review and a wait have a reason, only its
  label was applied, and a time of merging means merged.\<close>

theorem evaluation_gives_an_outcome:
  assumes "\<forall>n c p. me_ClientForInstallation env n = Inr c \<longrightarrow> pages_end (gh_ListFiles c p) \<and> pages_end (gh_ListReviews c p)"
  shows "\<exists>out g'. evaluateAutoMerge env nowText org prURL assessed g = Some (out, g') \<and> outcome_ok out"
  using evaluation_ok assms by (metis listings_end_def)

theorem evaluation_gives_an_outcome_witness:
  "\<exists>out g. evaluateAutoMerge demo_merge_env ''now'' ''org'' ''https://github.com/o/r/pull/5'' None demo_start = Some (out, g) \<and>
     outcome_ok out"
  by (rule evaluation_gives_an_outcome) (auto simp: demo_merge_env_def demo_pages)

section \<open>The assessment\<close>

text \<open>C17: an assessment that is valid reads back as it was written, normalised, from the newest block that
  holds the marker, whatever stands in older blocks, before the marker or after the object, and between the
  marker and the object as long as it has no brace.\<close>

theorem assessment_reads_back:
  assumes "fst (validateAutoMergeAssessment (Some a)) = None" and "CHR ''{'' \<notin> set gap"
    and "last_index text autoMergeAssessmentMarker = Some (length pre)"
    and body: "text = pre @ autoMergeAssessmentMarker @ gap @ json_text (assessment_json a) @ post"
    and newer: "\<forall>b \<in> set newer. \<not> contains b autoMergeAssessmentMarker"
  shows "parseAutoMergeAssessmentFromBlocks (older @ [text] @ newer) = Inr (normalizeAutoMergeAssessment a)"
proof -
  have skip: "newest_with_marker (bs @ rest) = newest_with_marker rest" if "\<forall>b \<in> set bs. \<not> contains b autoMergeAssessmentMarker" for bs rest
    using that by (induction bs) auto
  have "sublist autoMergeAssessmentMarker text" unfolding body by (simp add: sublist_appendI)
  then have "contains text autoMergeAssessmentMarker" by (simp add: contains_iff)
  moreover have "text \<noteq> []" by (simp add: body autoMergeAssessmentMarker_def)
  ultimately show ?thesis
    using assessment_text_parsed [OF assms(1-4)] skip [of "rev newer"] newer by (simp add: parseAutoMergeAssessmentFromBlocks_def)
qed

definition demo_text :: string where
  "demo_text = ''done '' @ autoMergeAssessmentMarker @ '' '' @ json_text (assessment_json demo_assessment) @ ''.''"

lemma demo_marker: "last_index demo_text autoMergeAssessmentMarker = Some (length ''done '')"
  by code_simp

theorem assessment_reads_back_witness:
  "parseAutoMergeAssessmentFromBlocks ([''start''] @ [demo_text] @ [''end'']) = Inr demo_assessment"
proof -
  have "fst (validateAutoMergeAssessment (Some demo_assessment)) = None" by code_simp
  moreover have "CHR ''{'' \<notin> set '' ''" "\<forall>b \<in> set [''end'']. \<not> contains b autoMergeAssessmentMarker" by code_simp+
  ultimately have "parseAutoMergeAssessmentFromBlocks ([''start''] @ [demo_text] @ [''end'']) =
      Inr (normalizeAutoMergeAssessment demo_assessment)"
    by (intro assessment_reads_back [OF _ _ demo_marker demo_text_def])
  then show ?thesis by (simp only: demo_normal)
qed

section \<open>Labels\<close>

text \<open>
  What the documented operations on labels do: \<open>labels\<close> are those of the pull request, a removal answers
  404 when the label is not there.
\<close>

definition label_api :: "('g \<Rightarrow> string set) \<Rightarrow> 'g github_client \<Rightarrow> parsed_pr \<Rightarrow> bool" where
  "label_api labels c p \<longleftrightarrow>
     (\<forall>l s. labels (snd (gh_GetLabel c p l s)) = labels s) \<and>
     (\<forall>l col d s. labels (snd (gh_CreateLabel c p l col d s)) = labels s) \<and>
     (\<forall>l s u t. gh_RemoveLabel c p l s = (Inr u, t) \<longrightarrow> labels t = labels s - {l}) \<and>
     (\<forall>l s e t. gh_RemoveLabel c p l s = (Inl e, t) \<and> ge_ErrStatus e = Some 404 \<longrightarrow> l \<notin> labels s \<and> labels t = labels s) \<and>
     (\<forall>ls s u t. gh_AddLabels c p ls s = (Inr u, t) \<longrightarrow> labels t = labels s \<union> set ls)"

lemma ensure_label_keeps:
  assumes "label_api labels c p" and "ensureAutoMergeLabel c p l col d s = (r, t)"
  shows "labels t = labels s"
proof -
  have "gkeeps (\<lambda>u. labels u = labels s) (gh_GetLabel c p l)" "gkeeps (\<lambda>u. labels u = labels s) (gh_CreateLabel c p l col d)" for l col d
    using assms(1) by (simp_all add: label_api_def gkeeps_def)
  then have "keeps_inv (\<lambda>u. labels u = labels s) (ensureAutoMergeLabel c p l col d)"
    unfolding ensureAutoMergeLabel_def by (intro keeps)
  from keeps_invD [OF this refl assms(2)] show ?thesis .
qed

text \<open>The two labels exclude each other: when the labels could be set, the pull request has the one
  that was asked for, not the other, and every label it had besides.\<close>

theorem labels_are_exclusive:
  assumes api: "label_api labels c p" and run: "ensureAutoMergeLabelState c p desired s = (Inr applied, t)"
  shows "applied = [desired] \<and> desired \<in> {autoMergeSafeLabel, autoMergeHumanReviewLabel} \<and>
    labels t = labels s - {autoMergeSafeLabel, autoMergeHumanReviewLabel} \<union> {desired}"
proof -
  obtain opposite where pair: "autoMergeLabelPair desired = Inr (desired, opposite)"
    and both: "{desired, opposite} = {autoMergeSafeLabel, autoMergeHumanReviewLabel}"
    using run by (auto simp: ensureAutoMergeLabelState_def autoMergeLabelPair_def split: if_splits)
  obtain s1 s2 r s3 u where steps:
    "ensureAutoMergeLabel c p autoMergeSafeLabel ''2da44e'' autoMergeSafeLabelDescription s = (Inr (), s1)"
    "ensureAutoMergeLabel c p autoMergeHumanReviewLabel ''d73a4a'' autoMergeHumanReviewLabelDescription s1 = (Inr (), s2)"
    "gh_RemoveLabel c p opposite s2 = (r, s3)" "gh_AddLabels c p [desired] s3 = (Inr u, t)"
    and ok: "\<And>e. r = Inl e \<Longrightarrow> githubHTTPStatus None (ge_ErrStatus e) = 404"
    using run pair by (auto simp: ensureAutoMergeLabelState_def andthen_def call_def split: sum.splits prod.splits if_splits option.splits)
  have "labels s2 = labels s" using ensure_label_keeps [OF api] steps(1,2) by metis
  moreover have "labels s3 = labels s2 - {opposite}"
  proof (cases r)
    case (Inl e)
    with ok have "ge_ErrStatus e = Some 404" by (auto simp: githubHTTPStatus_def split: option.splits)
    with api steps(3) Inl show ?thesis by (auto simp: label_api_def)
  next
    case (Inr x)
    with api steps(3) show ?thesis by (auto simp: label_api_def)
  qed
  moreover have "labels t = labels s3 \<union> {desired}" using api steps(4) by (auto simp: label_api_def)
  ultimately have "labels t = labels s - {desired, opposite} \<union> {desired}" by auto
  with both label_applied [OF run] show ?thesis by auto
qed

theorem labels_are_exclusive_witness:
  "set (hub_labels (snd (ensureAutoMergeLabelState demo_client demo_target autoMergeSafeLabel demo_start))) =
     {''bug'', autoMergeSafeLabel}"
proof -
  have "label_api (\<lambda>s. set (hub_labels s)) demo_client demo_target"
    by (auto simp: label_api_def demo_client_def split: if_splits)
  moreover have "ensureAutoMergeLabelState demo_client demo_target autoMergeSafeLabel demo_start =
      (Inr [autoMergeSafeLabel], \<lparr>hub_labels = [''bug'', autoMergeSafeLabel], hub_merged = []\<rparr>)" by code_simp
  note run = this
  ultimately have "set (hub_labels \<lparr>hub_labels = [''bug'', autoMergeSafeLabel], hub_merged = []\<rparr>) =
      set (hub_labels demo_start) - {autoMergeSafeLabel, autoMergeHumanReviewLabel} \<union> {autoMergeSafeLabel}"
    using labels_are_exclusive [OF _ run] by blast
  then show ?thesis unfolding run by auto
qed

section \<open>Re-evaluation\<close>

text \<open>A re-evaluation of a pull request always ends and leaves the runs alone: the tables stay
  consistent, a run keeps its state, lease and branch and every event it had, and a run whose stored outcome
  is merged, needs a human, or has no assessment is not touched at all.\<close>

theorem recheck_leaves_runs_alone:
  assumes "\<forall>n c p. me_ClientForInstallation env n = Inr c \<longrightarrow> pages_end (gh_ListFiles c p) \<and> pages_end (gh_ListReviews c p)"
    and "runs_ok db" and "run_of db i = Some r"
  shows "\<exists>db' g'. recheckAutoMergeForPR env en now nowText conversations org owner repo number prURL (db, g) = Some (db', g') \<and>
    runs_ok db' \<and> (\<exists>r'. run_of db' i = Some r' \<and> same_course r r') \<and> prefix (events_of db i) (events_of db' i) \<and>
    (settled (ar_outcome_detail r) \<longrightarrow> run_of db' i = Some r \<and> events_of db' i = events_of db i)"
proof -
  have "listings_end env" using assms(1) by (simp add: listings_end_def)
  from recheck_returns [OF this] obtain db' g' where
    run: "recheckAutoMergeForPR env en now nowText conversations org owner repo number prURL (db, g) = Some (db', g')" by fast
  have "carried_on i r (events_of db i) db'"
    by (rule recheck_keeps [where P = "carried_on i r (events_of db i)", OF row_carries_on run carried_on_start [OF assms(2,3)]])
  moreover have "untouched i r (events_of db i) db'" if "settled (ar_outcome_detail r)"
    by (rule recheck_keeps [where P = "untouched i r (events_of db i)", OF row_leaves_settled [OF _ _ that] run])
      (use assms(2,3) in \<open>simp_all add: untouched_def\<close>)
  ultimately show ?thesis using run by (auto simp: carried_on_def untouched_def)
qed

definition demo_waiting :: merge_outcome where
  "demo_waiting = (start_outcome (Some demo_assessment))\<lparr>mo_State := autoMergeStateWaitingChecks, mo_Label := autoMergeSafeLabel\<rparr>"

definition demo_waiting_db :: runs_db where
  "demo_waiting_db = changed (\<lambda>r. r\<lparr>ar_outcome_detail := JObj (outcome_members demo_waiting)\<rparr>) demo_runs_db"

theorem recheck_leaves_runs_alone_witness:
  "\<exists>db' g' r'. recheckAutoMergeForPR demo_merge_env True 60 ''now''
       (\<lambda>org owner repo url n. Inr [\<lparr>cv_OrgID = ''org'', cv_ThreadID = ''t'', cv_PrURL = url\<rparr>]) ''org'' ''o'' ''r'' 5 []
       (demo_waiting_db, demo_start) = Some (db', g') \<and> run_of db' ''r'' = Some r' \<and> ar_state r' = ''running''"
proof -
  let ?g = "\<lambda>r. r\<lparr>ar_outcome_detail := JObj (outcome_members demo_waiting)\<rparr> :: run_row"
  have am: "amends ?g" by (simp add: amends_def live_def)
  have "runs_ok demo_waiting_db"
    unfolding demo_waiting_db_def
    by (rule changed_inv [OF demo_runs_ok am])
      (auto simp: demo_defs run_row_error_def run_row_int8_def is_int64_def run_row_ok_def run_states_def)
  moreover have r: "run_of demo_waiting_db ''r'' = Some (?g (demo_row ''r'' ''q'' ''running'' ''w'' 3))"
    unfolding demo_waiting_db_def run_of_changed [OF am] demo_run by simp
  moreover have "\<forall>n c p. me_ClientForInstallation demo_merge_env n = Inr c \<longrightarrow> pages_end (gh_ListFiles c p) \<and> pages_end (gh_ListReviews c p)"
    using demo_pages by (auto simp: demo_merge_env_def)
  moreover have "ar_state (?g (demo_row ''r'' ''q'' ''running'' ''w'' 3)) = ''running''" by (simp add: demo_row_def)
  ultimately show ?thesis
    using recheck_leaves_runs_alone [of demo_merge_env demo_waiting_db "''r''"] unfolding same_course_def by metis
qed

end
