(* ===== verification/Auth_Types.thy ===== *)
theory Auth_Types
  imports Sql_Tables
begin

text \<open>
  The values of authentication (internal/auth): its configuration, identities, members and invitations,
  the cookie of a local session, e-mail addresses, and the tokens. What comes from other packages is in
  the record \<open>auth_lib\<close>: SHA-256, HMAC, bcrypt, mail.ParseAddress, net, net/url and the formats of time.
\<close>

section \<open>Other packages\<close>

text \<open>mail.ParseAddress answers an address and a name, url.Parse a host and a path, HMAC (SHA-256) its bytes;
  \<open>lib_Order\<close> is the order in which Go visits the keys of a map.\<close>

record auth_lib =
  lib_Text :: "go_error \<Rightarrow> string"
  lib_Sum256 :: "string \<Rightarrow> string"
  lib_HMAC :: "string \<Rightarrow> string \<Rightarrow> nat list"
  lib_HKDF :: "string \<Rightarrow> string \<Rightarrow> go_error + string"
  lib_GenerateFromPassword :: "string \<Rightarrow> go_error + string"
  lib_CompareHashAndPassword :: "string \<Rightarrow> string \<Rightarrow> bool"
  lib_ParseAddress :: "string \<Rightarrow> (string \<times> string) option"
  lib_ParseURL :: "string \<Rightarrow> go_error + string \<times> string"
  lib_ParseIP :: "string \<Rightarrow> string option"
  lib_SplitHostPort :: "string \<Rightarrow> string option"
  lib_ParseRFC3339 :: "string \<Rightarrow> go_time option"
  lib_FormatDate :: "go_time \<Rightarrow> string"
  lib_Order :: "string list \<Rightarrow> string list"

section \<open>Constants and configuration\<close>

definition AuthModeWorkOS :: string where "AuthModeWorkOS = ''workos''"
definition AuthModeLocal :: string where "AuthModeLocal = ''local''"

definition localSessionTTL :: duration where "localSessionTTL = 7 * 24 * hour"
definition localInvitationTTL :: duration where "localInvitationTTL = 7 * 24 * hour"
definition localPasswordMinLen :: nat where "localPasswordMinLen = 8"
definition localAuthCSRFTokenTTL :: duration where "localAuthCSRFTokenTTL = 15 * minute"
definition localAuthCSRFCookieName :: string where "localAuthCSRFCookieName = ''hetchy_local_auth_csrf''"
definition localAuthRateLimit :: nat where "localAuthRateLimit = 20"
definition localAuthRateWindow :: duration where "localAuthRateWindow = minute"
definition localAuthRateMaxEntries :: nat where "localAuthRateMaxEntries = 4096"
definition SessionCookieName :: string where "SessionCookieName = ''hetchy_session''"
definition oauthStateCookieName :: string where "oauthStateCookieName = ''hetchy_oauth_state''"
definition oauthStateCookieTTL :: duration where "oauthStateCookieTTL = hour"
definition oauthStateHKDFInfo :: string where "oauthStateHKDFInfo = ''hetchy/oauth-state/v1''"
definition SignedOutParam :: string where "SignedOutParam = ''signed_out''"
definition maxInvitationTokenLength :: nat where "maxInvitationTokenLength = 512"
definition multiOrgCacheTTL :: duration where "multiOrgCacheTTL = 5 * minute"

definition ErrCurrentPasswordIncorrect :: go_error where
  "ErrCurrentPasswordIncorrect = ErrNew ''current password is incorrect''"

definition ErrCrossOrg :: go_error where
  "ErrCrossOrg = ErrNew ''auth: resource does not belong to caller's organization''"

definition normalizeAuthMode :: "string \<Rightarrow> go_error + string" where
  "normalizeAuthMode raw =
     (let mode = to_lower (trim_space raw) in
      if mode = [] \<or> mode = AuthModeWorkOS then Inr AuthModeWorkOS
      else if mode = AuthModeLocal then Inr AuthModeLocal
      else Inl (ErrNew (''auth: unsupported mode \"'' @ raw @ ''\"'')))"

text \<open>\<open>cfg_LocalQueries\<close>: the database is there.\<close>

record auth_config =
  cfg_Mode :: string
  cfg_APIKey :: string
  cfg_ClientID :: string
  cfg_CookiePassword :: string
  cfg_RedirectURI :: string
  cfg_LocalQueries :: bool
  cfg_CookieSecure :: bool
  cfg_TrustedProxy :: bool
  cfg_Bypass :: bool
  cfg_BypassUser :: string
  cfg_BypassOrg :: string
  cfg_BypassRole :: string
  cfg_BypassEmail :: string

definition IsLocalMode :: "auth_config \<Rightarrow> bool" where
  "IsLocalMode cfg \<longleftrightarrow> cfg_Mode cfg = AuthModeLocal"

section \<open>Identities and members\<close>

record principal =
  p_UserID :: string
  p_Email :: string
  p_OrgID :: string
  p_Role :: string
  p_SessionID :: string
  p_IsAPIKey :: bool

definition HasOrg :: "principal \<Rightarrow> bool" where
  "HasOrg p \<longleftrightarrow> p_OrgID p \<noteq> []"

record profile =
  pf_UserID :: string
  pf_Email :: string
  pf_FirstName :: string
  pf_LastName :: string

record org_member =
  mb_MembershipID :: string
  mb_UserID :: string
  mb_Email :: string
  mb_FirstName :: string
  mb_LastName :: string
  mb_RoleSlug :: string
  mb_Status :: string

record invitation_info =
  iv_ID :: string
  iv_Email :: string
  iv_RoleSlug :: string
  iv_ExpiresAt :: string

record user_org =
  uo_OrgID :: string
  uo_Name :: string
  uo_RoleSlug :: string
  uo_Current :: bool

definition displayName :: "string \<Rightarrow> string \<Rightarrow> string \<Rightarrow> string" where
  "displayName firstName lastName email =
     (if firstName \<noteq> [] \<and> lastName \<noteq> [] then firstName @ '' '' @ lastName
      else if firstName \<noteq> [] then firstName
      else if lastName \<noteq> [] then lastName
      else email)"

section \<open>E-mail addresses\<close>

definition normalizeEmail :: "string \<Rightarrow> string" where
  "normalizeEmail email = to_lower (trim_space email)"

text \<open>strings.Cut at a byte, and strings.Split at one.\<close>

fun cut_at :: "char \<Rightarrow> string \<Rightarrow> (string \<times> string) option" where
  "cut_at sep [] = None"
| "cut_at sep (c # s) = (if c = sep then Some ([], s) else map_option (\<lambda>(a, b). (c # a, b)) (cut_at sep s))"

fun split_at :: "char \<Rightarrow> string \<Rightarrow> string list" where
  "split_at sep [] = [[]]"
| "split_at sep (c # s) =
     (if c = sep then [] # split_at sep s
      else (case split_at sep s of [] \<Rightarrow> [[c]] | p # ps \<Rightarrow> (c # p) # ps))"

definition validEmail :: "auth_lib \<Rightarrow> string \<Rightarrow> bool" where
  "validEmail lib email0 =
     (let email = trim_space email0 in
      if email = [] \<or> list_ex (\<lambda>c. c \<in> set [CHR '' '', CHR 0x09, CHR 0x0D, CHR 0x0A]) email then False
      else (case lib_ParseAddress lib email of
          None \<Rightarrow> False
        | Some (address, name) \<Rightarrow>
            if address \<noteq> email \<or> name \<noteq> [] then False
            else (case cut_at (CHR ''@'') address of
                None \<Rightarrow> False
              | Some (local_part, domain) \<Rightarrow>
                  if local_part = [] then False
                  else let parts = split_at (CHR ''.'') domain
                       in 2 \<le> length parts \<and> 2 \<le> length (last parts))))"

section \<open>Random tokens\<close>

text \<open>base64.RawURLEncoding over bytes given as numbers.\<close>

definition b64_digit :: "nat \<Rightarrow> char" where
  "b64_digit n = ''ABCDEFGHIJKLMNOPQRSTUVWXYZabcdefghijklmnopqrstuvwxyz0123456789-_'' ! (n mod 64)"

fun b64_encode :: "nat list \<Rightarrow> string" where
  "b64_encode [] = []"
| "b64_encode [a] = [b64_digit (a div 4), b64_digit (a * 16)]"
| "b64_encode [a, b] = [b64_digit (a div 4), b64_digit (a * 16 + b div 16), b64_digit (b * 4)]"
| "b64_encode (a # b # c # bs) =
     [b64_digit (a div 4), b64_digit (a * 16 + b div 16), b64_digit (b * 4 + c div 64), b64_digit c] @ b64_encode bs"

text \<open>\<open>rnd\<close> are the bytes of crypto/rand, which does not fail.\<close>

definition localID :: "string \<Rightarrow> nat list \<Rightarrow> string" where
  "localID prefix0 rnd = prefix0 @ hex_encode rnd"

definition localToken :: "auth_lib \<Rightarrow> nat list \<Rightarrow> string \<times> string" where
  "localToken lib rnd = (let token = b64_encode rnd in (token, lib_Sum256 lib token))"

definition hashLocalToken :: "auth_lib \<Rightarrow> string \<Rightarrow> string" where
  "hashLocalToken lib token = lib_Sum256 lib token"

definition localSessionCookieValue :: "string \<Rightarrow> string \<Rightarrow> string" where
  "localSessionCookieValue sessionID secret = sessionID @ ''.'' @ secret"

definition parseLocalSessionCookieValue :: "string \<Rightarrow> (string \<times> string) option" where
  "parseLocalSessionCookieValue value =
     (case cut_at (CHR ''.'') value of
        None \<Rightarrow> None
      | Some (sessionID, secret) \<Rightarrow> if sessionID = [] \<or> secret = [] then None else Some (sessionID, secret))"

definition stringPtrIfNotEmpty :: "string \<Rightarrow> string option" where
  "stringPtrIfNotEmpty s = (if s = [] then None else Some s)"

definition isUniqueViolation :: "go_error \<Rightarrow> bool" where
  "isUniqueViolation e \<longleftrightarrow> list_ex (\<lambda>x. case x of UniqueViolation c \<Rightarrow> True | _ \<Rightarrow> False) (unwrap_all e)"

section \<open>Texts without a separator\<close>

lemma cut_at_append: "sep \<notin> set a \<Longrightarrow> cut_at sep (a @ sep # b) = Some (a, b)"
  by (induction a) auto

lemma cut_atD: "cut_at sep s = Some (a, b) \<Longrightarrow> s = a @ sep # b \<and> sep \<notin> set a"
  by (induction s arbitrary: a) (auto split: if_splits)

lemma hex_digit_no_dot: "CHR ''.'' \<noteq> hex_digit n"
proof -
  have "''0123456789abcdef'' ! (n mod 16) \<in> set ''0123456789abcdef''" by (rule nth_mem) simp
  moreover have "CHR ''.'' \<notin> set ''0123456789abcdef''" by simp
  ultimately show ?thesis unfolding hex_digit_def by metis
qed

lemma localID_no_dot: "CHR ''.'' \<notin> set p \<Longrightarrow> CHR ''.'' \<notin> set (localID p rnd)"
  by (simp add: localID_def hex_encode_def hex_digit_no_dot)

lemma cookie_parses:
  "CHR ''.'' \<notin> set i \<Longrightarrow> i \<noteq> [] \<Longrightarrow> secret \<noteq> [] \<Longrightarrow>
   parseLocalSessionCookieValue (localSessionCookieValue i secret) = Some (i, secret)"
  by (simp add: parseLocalSessionCookieValue_def localSessionCookieValue_def cut_at_append)

lemma token_not_empty: "rnd \<noteq> [] \<Longrightarrow> b64_encode rnd \<noteq> []"
  by (cases rnd rule: b64_encode.cases) auto

end
