(* ===== verification/Auth_Queries.thy ===== *)
theory Auth_Queries
  imports Auth_Types "HOL-Library.Product_Lexorder"
begin

text \<open>
  The tables of the local accounts (db/migrations/20260617140000_local_auth) and the queries of
  internal/db/sqlc/local_auth.sql.go, one definition per query; \<open>now\<close> is NOW() in the statement. The
  state also holds what the service keeps beside the tables: the cache of its membership counts, the
  attempts per address, and the state of the identity provider, whatever that is.
\<close>

section \<open>Rows and state\<close>

record user_row =
  lu_id :: string
  lu_email :: string
  lu_email_normalized :: string
  lu_password_hash :: string
  lu_first_name :: string
  lu_last_name :: string
  lu_created_at :: timestamptz
  lu_updated_at :: timestamptz

record org_row =
  lo_id :: string
  lo_name :: string
  lo_created_at :: timestamptz
  lo_updated_at :: timestamptz

record membership_row =
  lm_id :: string
  lm_user_id :: string
  lm_org_id :: string
  lm_role_slug :: string
  lm_created_at :: timestamptz
  lm_updated_at :: timestamptz

record invitation_row =
  li_id :: string
  li_org_id :: string
  li_email :: string
  li_email_normalized :: string
  li_role_slug :: string
  li_token_hash :: string
  li_expires_at :: timestamptz
  li_accepted_at :: timestamptz
  li_revoked_at :: timestamptz
  li_created_by :: "string option"
  li_created_at :: timestamptz
  li_updated_at :: timestamptz

record session_row =
  ls_id :: string
  ls_user_id :: string
  ls_token_hash :: string
  ls_active_org_id :: "string option"
  ls_expires_at :: timestamptz
  ls_last_seen_at :: timestamptz
  ls_created_at :: timestamptz

record rate_entry =
  rate_Count :: nat
  rate_ResetAt :: go_time
  rate_LastSeen :: go_time

record 'w auth_state =
  local_auth_users :: "user_row list"
  local_auth_orgs :: "org_row list"
  local_auth_memberships :: "membership_row list"
  local_auth_invitations :: "invitation_row list"
  local_auth_sessions :: "session_row list"
  multiOrgCache :: "string \<rightharpoonup> bool \<times> go_time"
  localRate :: "(string \<times> rate_entry) list"
  provider :: 'w

section \<open>Constraints\<close>

definition roles :: "string list" where "roles = [''admin'', ''member'']"

definition user_exists :: "'w auth_state \<Rightarrow> string \<Rightarrow> bool" where
  "user_exists s i \<longleftrightarrow> i \<in> set (map lu_id (local_auth_users s))"

definition org_exists :: "'w auth_state \<Rightarrow> string \<Rightarrow> bool" where
  "org_exists s i \<longleftrightarrow> i \<in> set (map lo_id (local_auth_orgs s))"

definition user_constraints :: "('w auth_state, user_row) constraints" where
  "user_constraints = \<lparr>row_check = (\<lambda>r. None),
     ref_check = (\<lambda>s r.
       if list_ex (\<lambda>x. lu_email_normalized x = lu_email_normalized r \<and> lu_id x \<noteq> lu_id r) (local_auth_users s)
       then Some (UniqueViolation ''local_auth_users_email_normalized_key'') else None)\<rparr>"

definition org_constraints :: "('w auth_state, org_row) constraints" where
  "org_constraints = \<lparr>row_check = (\<lambda>r. None), ref_check = (\<lambda>s r. None)\<rparr>"

text \<open>The key of an upsert is the pair of user and organisation, so the primary key is checked here.\<close>

definition membership_constraints :: "('w auth_state, membership_row) constraints" where
  "membership_constraints =
    \<lparr>row_check = (\<lambda>r. if lm_role_slug r \<in> set roles then None else Some (CheckViolation ''local_auth_memberships'')),
     ref_check = (\<lambda>s r.
       if list_ex (\<lambda>x. lm_id x = lm_id r \<and> (lm_user_id x, lm_org_id x) \<noteq> (lm_user_id r, lm_org_id r)) (local_auth_memberships s)
       then Some (UniqueViolation ''primary key'')
       else if \<not> user_exists s (lm_user_id r) then Some (ForeignKeyViolation ''local_auth_memberships_user_id_fkey'')
       else if \<not> org_exists s (lm_org_id r) then Some (ForeignKeyViolation ''local_auth_memberships_org_id_fkey'')
       else None)\<rparr>"

definition invitation_constraints :: "('w auth_state, invitation_row) constraints" where
  "invitation_constraints =
    \<lparr>row_check = (\<lambda>r. if li_expires_at r = None then Some (CheckViolation ''not null expires_at'')
       else if li_role_slug r \<in> set roles then None else Some (CheckViolation ''local_auth_invitations'')),
     ref_check = (\<lambda>s r.
       if list_ex (\<lambda>x. li_token_hash x = li_token_hash r \<and> li_id x \<noteq> li_id r) (local_auth_invitations s)
       then Some (UniqueViolation ''local_auth_invitations_token_hash_key'')
       else if \<not> org_exists s (li_org_id r) then Some (ForeignKeyViolation ''local_auth_invitations_org_id_fkey'')
       else (case li_created_by r of
           None \<Rightarrow> None
         | Some u \<Rightarrow> if user_exists s u then None else Some (ForeignKeyViolation ''local_auth_invitations_created_by_fkey'')))\<rparr>"

definition session_constraints :: "('w auth_state, session_row) constraints" where
  "session_constraints =
    \<lparr>row_check = (\<lambda>r. if ls_expires_at r = None then Some (CheckViolation ''not null expires_at'') else None),
     ref_check = (\<lambda>s r.
       if list_ex (\<lambda>x. ls_token_hash x = ls_token_hash r \<and> ls_id x \<noteq> ls_id r) (local_auth_sessions s)
       then Some (UniqueViolation ''local_auth_sessions_token_hash_key'')
       else if \<not> user_exists s (ls_user_id r) then Some (ForeignKeyViolation ''local_auth_sessions_user_id_fkey'')
       else (case ls_active_org_id r of
           None \<Rightarrow> None
         | Some g \<Rightarrow> if org_exists s g then None else Some (ForeignKeyViolation ''local_auth_sessions_active_org_id_fkey'')))\<rparr>"

interpretation users: keyed_table lu_id local_auth_users local_auth_users_update
  by unfold_locales simp

interpretation orgs: keyed_table lo_id local_auth_orgs local_auth_orgs_update
  by unfold_locales simp

interpretation memberships: keyed_table lm_id local_auth_memberships local_auth_memberships_update
  by unfold_locales simp

interpretation invitations: keyed_table li_id local_auth_invitations local_auth_invitations_update
  by unfold_locales simp

interpretation sessions: keyed_table ls_id local_auth_sessions local_auth_sessions_update
  by unfold_locales simp

text \<open>\<open>expires_at > NOW()\<close>.\<close>

definition later :: "timestamptz \<Rightarrow> go_time \<Rightarrow> bool" where
  "later t now = (case t of None \<Rightarrow> False | Some u \<Rightarrow> now < u)"

section \<open>Users\<close>

definition CreateLocalAuthUser ::
  "go_time \<Rightarrow> string \<Rightarrow> string \<Rightarrow> string \<Rightarrow> string \<Rightarrow> string \<Rightarrow> string \<Rightarrow> ('w auth_state, user_row) go" where
  "CreateLocalAuthUser now i email normalized hash firstName lastName =
     sql_insert local_auth_users local_auth_users_update user_constraints (\<lambda>r. lu_id r = i)
       \<lparr>lu_id = i, lu_email = email, lu_email_normalized = normalized, lu_password_hash = hash,
        lu_first_name = firstName, lu_last_name = lastName, lu_created_at = Some now, lu_updated_at = Some now\<rparr>"

definition GetLocalAuthUserByEmail :: "string \<Rightarrow> ('w auth_state, user_row) go" where
  "GetLocalAuthUserByEmail normalized = sql_get local_auth_users (\<lambda>r. lu_email_normalized r = normalized)"

definition GetLocalAuthUserByID :: "string \<Rightarrow> ('w auth_state, user_row) go" where
  "GetLocalAuthUserByID i = sql_get local_auth_users (\<lambda>r. lu_id r = i)"

definition UpdateLocalAuthUserPassword :: "go_time \<Rightarrow> string \<Rightarrow> string \<Rightarrow> ('w auth_state, nat) go" where
  "UpdateLocalAuthUserPassword now i hash =
     sql_update_all local_auth_users local_auth_users_update user_constraints (\<lambda>r. lu_id r = i)
       (\<lambda>r. r\<lparr>lu_password_hash := hash, lu_updated_at := Some now\<rparr>)"

definition UpdateLocalAuthUserProfile :: "go_time \<Rightarrow> string \<Rightarrow> string \<Rightarrow> string \<Rightarrow> ('w auth_state, user_row) go" where
  "UpdateLocalAuthUserProfile now i firstName lastName =
     sql_update local_auth_users local_auth_users_update user_constraints (\<lambda>r. lu_id r = i)
       (\<lambda>r. r\<lparr>lu_first_name := firstName, lu_last_name := lastName, lu_updated_at := Some now\<rparr>)"

text \<open>ON DELETE CASCADE of memberships and sessions, ON DELETE SET NULL of the inviter.\<close>

definition DeleteLocalAuthUser :: "string \<Rightarrow> ('w auth_state, unit) go" where
  "DeleteLocalAuthUser i = (\<lambda>s. (Inr (),
     s\<lparr>local_auth_users := filter (\<lambda>r. lu_id r \<noteq> i) (local_auth_users s),
       local_auth_memberships := filter (\<lambda>r. lm_user_id r \<noteq> i) (local_auth_memberships s),
       local_auth_sessions := filter (\<lambda>r. ls_user_id r \<noteq> i) (local_auth_sessions s),
       local_auth_invitations := map (\<lambda>r. if li_created_by r = Some i then r\<lparr>li_created_by := None\<rparr> else r)
         (local_auth_invitations s)\<rparr>))"

section \<open>Organisations and memberships\<close>

definition CreateLocalAuthOrg :: "go_time \<Rightarrow> string \<Rightarrow> string \<Rightarrow> ('w auth_state, org_row) go" where
  "CreateLocalAuthOrg now i name =
     sql_insert local_auth_orgs local_auth_orgs_update org_constraints (\<lambda>r. lo_id r = i)
       \<lparr>lo_id = i, lo_name = name, lo_created_at = Some now, lo_updated_at = Some now\<rparr>"

definition GetLocalAuthOrg :: "string \<Rightarrow> ('w auth_state, org_row) go" where
  "GetLocalAuthOrg i = sql_get local_auth_orgs (\<lambda>r. lo_id r = i)"

definition UpdateLocalAuthOrgName :: "go_time \<Rightarrow> string \<Rightarrow> string \<Rightarrow> ('w auth_state, org_row) go" where
  "UpdateLocalAuthOrgName now i name =
     sql_update local_auth_orgs local_auth_orgs_update org_constraints (\<lambda>r. lo_id r = i)
       (\<lambda>r. r\<lparr>lo_name := name, lo_updated_at := Some now\<rparr>)"

text \<open>ON DELETE CASCADE of memberships and invitations, ON DELETE SET NULL of the active organisation.\<close>

definition DeleteLocalAuthOrg :: "string \<Rightarrow> ('w auth_state, unit) go" where
  "DeleteLocalAuthOrg i = (\<lambda>s. (Inr (),
     s\<lparr>local_auth_orgs := filter (\<lambda>r. lo_id r \<noteq> i) (local_auth_orgs s),
       local_auth_memberships := filter (\<lambda>r. lm_org_id r \<noteq> i) (local_auth_memberships s),
       local_auth_invitations := filter (\<lambda>r. li_org_id r \<noteq> i) (local_auth_invitations s),
       local_auth_sessions := map (\<lambda>r. if ls_active_org_id r = Some i then r\<lparr>ls_active_org_id := None\<rparr> else r)
         (local_auth_sessions s)\<rparr>))"

definition CreateLocalAuthMembership ::
  "go_time \<Rightarrow> string \<Rightarrow> string \<Rightarrow> string \<Rightarrow> string \<Rightarrow> ('w auth_state, membership_row) go" where
  "CreateLocalAuthMembership now i user org role =
     sql_upsert local_auth_memberships local_auth_memberships_update membership_constraints
       (\<lambda>r. lm_user_id r = user \<and> lm_org_id r = org)
       \<lparr>lm_id = i, lm_user_id = user, lm_org_id = org, lm_role_slug = role, lm_created_at = Some now, lm_updated_at = Some now\<rparr>
       (\<lambda>r. r\<lparr>lm_role_slug := role, lm_updated_at := Some now\<rparr>)"

definition GetLocalAuthMembership :: "string \<Rightarrow> ('w auth_state, membership_row) go" where
  "GetLocalAuthMembership i = sql_get local_auth_memberships (\<lambda>r. lm_id r = i)"

definition GetLocalAuthMembershipForUserOrg :: "string \<Rightarrow> string \<Rightarrow> ('w auth_state, membership_row) go" where
  "GetLocalAuthMembershipForUserOrg user org =
     sql_get local_auth_memberships (\<lambda>r. lm_user_id r = user \<and> lm_org_id r = org)"

definition UpdateLocalAuthMembershipRole :: "go_time \<Rightarrow> string \<Rightarrow> string \<Rightarrow> ('w auth_state, membership_row) go" where
  "UpdateLocalAuthMembershipRole now i role =
     sql_update local_auth_memberships local_auth_memberships_update membership_constraints (\<lambda>r. lm_id r = i)
       (\<lambda>r. r\<lparr>lm_role_slug := role, lm_updated_at := Some now\<rparr>)"

definition DeleteLocalAuthMembership :: "string \<Rightarrow> ('w auth_state, nat) go" where
  "DeleteLocalAuthMembership i = sql_delete local_auth_memberships local_auth_memberships_update (\<lambda>r. lm_id r = i)"

definition CountLocalAuthAdmins :: "string \<Rightarrow> ('w auth_state, int) go" where
  "CountLocalAuthAdmins org = (\<lambda>s.
     (Inr (int (length (filter (\<lambda>r. lm_org_id r = org \<and> lm_role_slug r = ''admin'') (local_auth_memberships s)))), s))"

definition CountLocalAuthUserOrgs :: "string \<Rightarrow> ('w auth_state, int) go" where
  "CountLocalAuthUserOrgs user = (\<lambda>s.
     (Inr (int (length (filter (\<lambda>r. lm_user_id r = user) (local_auth_memberships s)))), s))"

text \<open>The joins pair each membership with its user or organisation.\<close>

definition ListLocalAuthMembers :: "string \<Rightarrow> ('w auth_state, (membership_row \<times> user_row) list) go" where
  "ListLocalAuthMembers org = (\<lambda>s.
     (Inr (sort_key (\<lambda>(m, u). (to_lower (lu_email u), lu_id u))
        [(m, u). m \<leftarrow> local_auth_memberships s, u \<leftarrow> local_auth_users s, lu_id u = lm_user_id m \<and> lm_org_id m = org]), s))"

definition ListLocalAuthUserOrgs :: "string \<Rightarrow> ('w auth_state, (membership_row \<times> org_row) list) go" where
  "ListLocalAuthUserOrgs user = (\<lambda>s.
     (Inr (sort_key (\<lambda>(m, g). (lo_name g, lo_id g))
        [(m, g). m \<leftarrow> local_auth_memberships s, g \<leftarrow> local_auth_orgs s, lo_id g = lm_org_id m \<and> lm_user_id m = user]), s))"

definition FindLocalAuthOrgUserByEmail :: "string \<Rightarrow> string \<Rightarrow> ('w auth_state, user_row) go" where
  "FindLocalAuthOrgUserByEmail org normalized = (\<lambda>s.
     case [u. u \<leftarrow> local_auth_users s, m \<leftarrow> local_auth_memberships s,
         lm_user_id m = lu_id u \<and> lm_org_id m = org \<and> lu_email_normalized u = normalized] of
       [] \<Rightarrow> (Inl ErrNoRows, s)
     | u # us \<Rightarrow> (Inr u, s))"

section \<open>Invitations\<close>

definition pending_invitation :: "go_time \<Rightarrow> invitation_row \<Rightarrow> bool" where
  "pending_invitation now r \<longleftrightarrow> li_accepted_at r = None \<and> li_revoked_at r = None \<and> later (li_expires_at r) now"

definition CreateLocalAuthInvitation ::
  "go_time \<Rightarrow> string \<Rightarrow> string \<Rightarrow> string \<Rightarrow> string \<Rightarrow> string \<Rightarrow> string \<Rightarrow> go_time \<Rightarrow> string option \<Rightarrow>
   ('w auth_state, invitation_row) go" where
  "CreateLocalAuthInvitation now i org email normalized role tokenHash expires createdBy =
     sql_insert local_auth_invitations local_auth_invitations_update invitation_constraints (\<lambda>r. li_id r = i)
       \<lparr>li_id = i, li_org_id = org, li_email = email, li_email_normalized = normalized, li_role_slug = role,
        li_token_hash = tokenHash, li_expires_at = Some expires, li_accepted_at = None, li_revoked_at = None,
        li_created_by = createdBy, li_created_at = Some now, li_updated_at = Some now\<rparr>"

definition ListLocalAuthInvitations :: "go_time \<Rightarrow> string \<Rightarrow> ('w auth_state, invitation_row list) go" where
  "ListLocalAuthInvitations now org = (\<lambda>s.
     (Inr (sort_key (\<lambda>r. - from_timestamptz (li_created_at r))
        (filter (\<lambda>r. li_org_id r = org \<and> pending_invitation now r) (local_auth_invitations s))), s))"

definition GetLocalAuthInvitationByTokenHash :: "string \<Rightarrow> ('w auth_state, invitation_row) go" where
  "GetLocalAuthInvitationByTokenHash hash = sql_get local_auth_invitations (\<lambda>r. li_token_hash r = hash)"

definition GetLocalAuthInvitation :: "string \<Rightarrow> ('w auth_state, invitation_row) go" where
  "GetLocalAuthInvitation i = sql_get local_auth_invitations (\<lambda>r. li_id r = i)"

definition AcceptLocalAuthInvitation :: "go_time \<Rightarrow> string \<Rightarrow> ('w auth_state, nat) go" where
  "AcceptLocalAuthInvitation now i =
     sql_update_all local_auth_invitations local_auth_invitations_update invitation_constraints
       (\<lambda>r. li_id r = i \<and> pending_invitation now r) (\<lambda>r. r\<lparr>li_accepted_at := Some now, li_updated_at := Some now\<rparr>)"

definition RevokeLocalAuthInvitation :: "go_time \<Rightarrow> string \<Rightarrow> string \<Rightarrow> ('w auth_state, nat) go" where
  "RevokeLocalAuthInvitation now i org =
     sql_update_all local_auth_invitations local_auth_invitations_update invitation_constraints
       (\<lambda>r. li_id r = i \<and> li_org_id r = org \<and> li_accepted_at r = None \<and> li_revoked_at r = None)
       (\<lambda>r. r\<lparr>li_revoked_at := Some now, li_updated_at := Some now\<rparr>)"

section \<open>Sessions\<close>

definition CreateLocalAuthSession ::
  "go_time \<Rightarrow> string \<Rightarrow> string \<Rightarrow> string \<Rightarrow> string option \<Rightarrow> go_time \<Rightarrow> ('w auth_state, session_row) go" where
  "CreateLocalAuthSession now i user tokenHash activeOrg expires =
     sql_insert local_auth_sessions local_auth_sessions_update session_constraints (\<lambda>r. ls_id r = i)
       \<lparr>ls_id = i, ls_user_id = user, ls_token_hash = tokenHash, ls_active_org_id = activeOrg, ls_expires_at = Some expires,
        ls_last_seen_at = Some now, ls_created_at = Some now\<rparr>"

text \<open>The session, its user, and the role of the user in the active organisation, if a member of it.\<close>

record session_info =
  si_session :: session_row
  si_user :: user_row
  si_role :: "string option"

definition GetLocalAuthSession :: "go_time \<Rightarrow> string \<Rightarrow> ('w auth_state, session_info) go" where
  "GetLocalAuthSession now i = (\<lambda>s.
     case find (\<lambda>r. ls_id r = i \<and> later (ls_expires_at r) now) (local_auth_sessions s) of
       None \<Rightarrow> (Inl ErrNoRows, s)
     | Some r \<Rightarrow> (case find (\<lambda>u. lu_id u = ls_user_id r) (local_auth_users s) of
           None \<Rightarrow> (Inl ErrNoRows, s)
         | Some u \<Rightarrow> (Inr \<lparr>si_session = r, si_user = u, si_role = map_option lm_role_slug
             (find (\<lambda>m. lm_user_id m = ls_user_id r \<and> Some (lm_org_id m) = ls_active_org_id r) (local_auth_memberships s))\<rparr>, s)))"

definition TouchLocalAuthSession :: "go_time \<Rightarrow> string \<Rightarrow> ('w auth_state, nat) go" where
  "TouchLocalAuthSession now i =
     sql_update_all local_auth_sessions local_auth_sessions_update session_constraints (\<lambda>r. ls_id r = i)
       (\<lambda>r. r\<lparr>ls_last_seen_at := Some now\<rparr>)"

definition UpdateLocalAuthSessionOrg :: "go_time \<Rightarrow> string \<Rightarrow> string option \<Rightarrow> ('w auth_state, session_row) go" where
  "UpdateLocalAuthSessionOrg now i activeOrg =
     sql_update local_auth_sessions local_auth_sessions_update session_constraints (\<lambda>r. ls_id r = i)
       (\<lambda>r. r\<lparr>ls_active_org_id := activeOrg, ls_last_seen_at := Some now\<rparr>)"

definition DeleteLocalAuthSession :: "string \<Rightarrow> ('w auth_state, nat) go" where
  "DeleteLocalAuthSession i = sql_delete local_auth_sessions local_auth_sessions_update (\<lambda>r. ls_id r = i)"

definition DeleteLocalAuthSessionsForUser :: "string \<Rightarrow> ('w auth_state, nat) go" where
  "DeleteLocalAuthSessionsForUser user = sql_delete local_auth_sessions local_auth_sessions_update (\<lambda>r. ls_user_id r = user)"

definition DeleteExpiredLocalAuthSessions_q :: "go_time \<Rightarrow> ('w auth_state, nat) go" where
  "DeleteExpiredLocalAuthSessions_q now =
     sql_delete local_auth_sessions local_auth_sessions_update (\<lambda>r. \<not> later (ls_expires_at r) now)"

end
