(* ===== verification/Auth_Members.thy ===== *)
theory Auth_Members
  imports Auth_Queries
begin

text \<open>
  Profiles, organisations, members and invitations (internal/auth/members.go and the organisation
  methods of auth.go) in the three modes of the service: bypassed, local accounts, and the hosted
  provider WorkOS, whose API is a record of operations on its own state. An iterator over a listing of
  the provider is the items it gives and the error, if any, that ends it; it is read before the loop
  over its items makes further calls. \<open>now\<close> is the time of the database.
\<close>

section \<open>The provider\<close>

record workos_user =
  wu_ID :: string
  wu_Email :: string
  wu_FirstName :: "string option"
  wu_LastName :: "string option"

record workos_membership =
  wm_ID :: string
  wm_UserID :: string
  wm_OrganizationID :: string
  wm_Role :: "string option"
  wm_Status :: string

record workos_invitation =
  wi_ID :: string
  wi_Email :: string
  wi_State :: string
  wi_ExpiresAt :: string
  wi_RoleSlug :: "string option"
  wi_OrganizationID :: "string option"

text \<open>A sealed session of the provider, and what an authentication answers: the contents to seal and the
  organisation.\<close>

record workos_session =
  ws_Authenticated :: bool
  ws_SessionID :: string
  ws_OrganizationID :: string
  ws_Role :: string
  ws_User :: "(string \<times> string) option"

record workos_auth =
  wr_Contents :: string
  wr_OrganizationID :: "string option"

type_synonym ('w, 'a) iterator = "'w \<Rightarrow> ('a list \<times> go_error option) \<times> 'w"

text \<open>A listing of memberships filters by organisation, user and statuses; unsealing answers the refresh
  token; sealing, unsealing and reading a sealed session are local and take the password.\<close>

record 'w workos_ops =
  wk_GetUser :: "string \<Rightarrow> ('w, workos_user) go"
  wk_UpdateUser :: "string \<Rightarrow> string \<Rightarrow> string \<Rightarrow> ('w, unit) go"
  wk_DeleteUser :: "string \<Rightarrow> ('w, unit) go"
  wk_ResetPassword :: "string \<Rightarrow> ('w, string) go"
  wk_ListUsers :: "string \<Rightarrow> string \<Rightarrow> ('w, workos_user) iterator"
  wk_ListMemberships :: "string option \<Rightarrow> string option \<Rightarrow> string list \<Rightarrow> ('w, workos_membership) iterator"
  wk_GetMembership :: "string \<Rightarrow> ('w, workos_membership) go"
  wk_CreateMembership :: "string \<Rightarrow> string \<Rightarrow> string \<Rightarrow> ('w, unit) go"
  wk_UpdateMembership :: "string \<Rightarrow> string \<Rightarrow> ('w, unit) go"
  wk_DeleteMembership :: "string \<Rightarrow> ('w, unit) go"
  wk_ListInvitations :: "string \<Rightarrow> ('w, workos_invitation) iterator"
  wk_GetInvitation :: "string \<Rightarrow> ('w, workos_invitation) go"
  wk_SendInvitation :: "string \<Rightarrow> string \<Rightarrow> string \<Rightarrow> string \<Rightarrow> ('w, unit) go"
  wk_RevokeInvitation :: "string \<Rightarrow> ('w, unit) go"
  wk_CreateOrganization :: "string \<Rightarrow> ('w, string) go"
  wk_GetOrganization :: "string \<Rightarrow> ('w, string) go"
  wk_UpdateOrganization :: "string \<Rightarrow> string \<Rightarrow> ('w, unit) go"
  wk_DeleteOrganization :: "string \<Rightarrow> ('w, unit) go"
  wk_ListFeatureFlags :: "string \<Rightarrow> ('w, string \<times> bool) iterator"
  wk_AuthorizationURL :: "string \<Rightarrow> string \<Rightarrow> string option \<Rightarrow> bool \<Rightarrow> string"
  wk_AuthenticateWithCode :: "string \<Rightarrow> string option \<Rightarrow> ('w, workos_auth) go"
  wk_AuthenticateWithRefreshToken :: "string \<Rightarrow> string \<Rightarrow> ('w, workos_auth) go"
  wk_RevokeSession :: "string \<Rightarrow> ('w, unit) go"
  wk_AuthenticateSession :: "string \<Rightarrow> string \<Rightarrow> go_error + workos_session"
  wk_Unseal :: "string \<Rightarrow> string \<Rightarrow> go_error + string"
  wk_Seal :: "workos_auth \<Rightarrow> string \<Rightarrow> go_error + string"

record 'w auth_service =
  sv_cfg :: auth_config
  sv_lib :: auth_lib
  sv_workos :: "'w workos_ops"
  sv_statePath :: string
  sv_stateKey :: string
  sv_publicHost :: string

definition at_provider :: "('w, 'a) go \<Rightarrow> ('w auth_state, 'a) go" where
  "at_provider m = (\<lambda>s. case m (provider s) of (r, w) \<Rightarrow> (r, s\<lparr>provider := w\<rparr>))"

definition iterate ::
  "('w, 'x) iterator \<Rightarrow> ('x list \<Rightarrow> go_error option \<Rightarrow> ('w auth_state, 'a) go) \<Rightarrow> ('w auth_state, 'a) go" where
  "iterate it k = (\<lambda>s. case it (provider s) of ((xs, e), w) \<Rightarrow> k xs e (s\<lparr>provider := w\<rparr>))"

definition or_empty :: "string option \<Rightarrow> string" where
  "or_empty x = (case x of None \<Rightarrow> [] | Some s \<Rightarrow> s)"

section \<open>Profiles\<close>

definition formatExpiry :: "auth_lib \<Rightarrow> string \<Rightarrow> string" where
  "formatExpiry lib s = (if s = [] then [] else (case lib_ParseRFC3339 lib s of None \<Rightarrow> s | Some t \<Rightarrow> lib_FormatDate lib t))"

definition formatPGExpiry :: "auth_lib \<Rightarrow> go_time \<Rightarrow> string" where
  "formatPGExpiry lib t = (if is_zero_time t then [] else lib_FormatDate lib t)"

definition user_profile :: "user_row \<Rightarrow> profile" where
  "user_profile u = \<lparr>pf_UserID = lu_id u, pf_Email = lu_email u, pf_FirstName = lu_first_name u, pf_LastName = lu_last_name u\<rparr>"

definition workos_profile :: "workos_user \<Rightarrow> profile" where
  "workos_profile u = \<lparr>pf_UserID = wu_ID u, pf_Email = wu_Email u, pf_FirstName = or_empty (wu_FirstName u),
     pf_LastName = or_empty (wu_LastName u)\<rparr>"

definition Profile_DisplayName :: "profile \<Rightarrow> string" where
  "Profile_DisplayName p = displayName (pf_FirstName p) (pf_LastName p) (pf_Email p)"

definition Member_DisplayName :: "org_member \<Rightarrow> string" where
  "Member_DisplayName m = displayName (mb_FirstName m) (mb_LastName m) (mb_Email m)"

definition GetProfile :: "'w auth_service \<Rightarrow> string \<Rightarrow> ('w auth_state, profile) go" where
  "GetProfile sv userID =
     (if cfg_Bypass (sv_cfg sv)
      then ret \<lparr>pf_UserID = userID, pf_Email = cfg_BypassEmail (sv_cfg sv), pf_FirstName = ''Bypass'', pf_LastName = ''User''\<rparr>
      else if IsLocalMode (sv_cfg sv)
      then andthen (wrap_err ''get local user'' (GetLocalAuthUserByID userID)) (\<lambda>u. ret (user_profile u))
      else andthen (wrap_err ''get user'' (at_provider (wk_GetUser (sv_workos sv) userID))) (\<lambda>u. ret (workos_profile u)))"

definition multiOrgCacheGet :: "go_time \<Rightarrow> string \<Rightarrow> 'w auth_state \<Rightarrow> bool option" where
  "multiOrgCacheGet clock userID s =
     (case multiOrgCache s userID of
        None \<Rightarrow> None
      | Some (v, expires) \<Rightarrow> if clock < expires then Some v else None)"

definition multiOrgCacheSet :: "go_time \<Rightarrow> string \<Rightarrow> bool \<Rightarrow> 'w auth_state \<Rightarrow> 'w auth_state" where
  "multiOrgCacheSet clock userID v s = s\<lparr>multiOrgCache := (multiOrgCache s)(userID \<mapsto> (v, clock + multiOrgCacheTTL))\<rparr>"

text \<open>The loop stops at the second membership, before the iterator could fail.\<close>

definition UserHasMultipleOrgs :: "'w auth_service \<Rightarrow> go_time \<Rightarrow> string \<Rightarrow> ('w auth_state, bool) go" where
  "UserHasMultipleOrgs sv clock userID = (\<lambda>s.
     if cfg_Bypass (sv_cfg sv) then (Inr False, s)
     else if IsLocalMode (sv_cfg sv)
     then andthen (wrap_err ''count local user orgs'' (CountLocalAuthUserOrgs userID)) (\<lambda>count. ret (1 < count)) s
     else (case multiOrgCacheGet clock userID s of
         Some v \<Rightarrow> (Inr v, s)
       | None \<Rightarrow> iterate (wk_ListMemberships (sv_workos sv) None (Some userID) [''active'']) (\<lambda>ms e t.
           let multi = 1 < length ms in
           case (if multi then None else e) of
             Some err \<Rightarrow> (Inl (Wrapped ''list user memberships'' err), t)
           | None \<Rightarrow> (Inr multi, multiOrgCacheSet clock userID multi t)) s))"

text \<open>The name of each organisation, or its ID if the provider cannot tell.\<close>

primrec name_orgs :: "'w workos_ops \<Rightarrow> string \<Rightarrow> workos_membership list \<Rightarrow> ('w auth_state, user_org list) go" where
  "name_orgs wk current [] = ret []"
| "name_orgs wk current (m # ms) =
     attempt (at_provider (wk_GetOrganization wk (wm_OrganizationID m))) (\<lambda>r.
       andthen (name_orgs wk current ms) (\<lambda>rest.
         ret (\<lparr>uo_OrgID = wm_OrganizationID m,
               uo_Name = (case r of Inl e \<Rightarrow> wm_OrganizationID m | Inr name \<Rightarrow> name),
               uo_RoleSlug = or_empty (wm_Role m), uo_Current = (wm_OrganizationID m = current)\<rparr> # rest)))"

definition ListUserOrgs :: "'w auth_service \<Rightarrow> string \<Rightarrow> string \<Rightarrow> ('w auth_state, user_org list) go" where
  "ListUserOrgs sv userID current =
     (let cfg = sv_cfg sv in
      if cfg_Bypass cfg
      then ret [\<lparr>uo_OrgID = cfg_BypassOrg cfg, uo_Name = cfg_BypassOrg cfg, uo_RoleSlug = cfg_BypassRole cfg,
        uo_Current = (cfg_BypassOrg cfg = current)\<rparr>]
      else if IsLocalMode cfg
      then andthen (wrap_err ''list local user orgs'' (ListLocalAuthUserOrgs userID)) (\<lambda>rows.
        ret (sort_key uo_Name (map (\<lambda>(m, g). \<lparr>uo_OrgID = lm_org_id m, uo_Name = lo_name g, uo_RoleSlug = lm_role_slug m,
          uo_Current = (lm_org_id m = current)\<rparr>) rows)))
      else iterate (wk_ListMemberships (sv_workos sv) None (Some userID) [''active'']) (\<lambda>ms e.
        andthen (name_orgs (sv_workos sv) current ms) (\<lambda>out.
          case e of Some err \<Rightarrow> fail (Wrapped ''list user orgs'' err) | None \<Rightarrow> ret (sort_key uo_Name out))))"

definition UpdateProfile :: "'w auth_service \<Rightarrow> go_time \<Rightarrow> string \<Rightarrow> string \<Rightarrow> string \<Rightarrow> ('w auth_state, unit) go" where
  "UpdateProfile sv now userID firstName lastName =
     (if cfg_Bypass (sv_cfg sv) then ret ()
      else if IsLocalMode (sv_cfg sv)
      then andthen (UpdateLocalAuthUserProfile now userID (trim_space firstName) (trim_space lastName)) (\<lambda>_. ret ())
      else at_provider (wk_UpdateUser (sv_workos sv) userID firstName lastName))"

definition RequestPasswordReset :: "'w auth_service \<Rightarrow> string \<Rightarrow> ('w auth_state, string) go" where
  "RequestPasswordReset sv email =
     (if cfg_Bypass (sv_cfg sv) then ret ''/''
      else if IsLocalMode (sv_cfg sv)
      then fail (ErrNew ''auth: password reset links are not available in local auth mode'')
      else wrap_err ''reset password'' (at_provider (wk_ResetPassword (sv_workos sv) email)))"

section \<open>Members\<close>

primrec name_members :: "'w workos_ops \<Rightarrow> workos_membership list \<Rightarrow> ('w auth_state, org_member list) go" where
  "name_members wk [] = ret []"
| "name_members wk (m # ms) =
     attempt (at_provider (wk_GetUser wk (wm_UserID m))) (\<lambda>r.
       andthen (name_members wk ms) (\<lambda>rest.
         ret ((case r of
             Inl e \<Rightarrow> \<lparr>mb_MembershipID = wm_ID m, mb_UserID = wm_UserID m,
               mb_Email = ''(unavailable: '' @ wm_UserID m @ '')'', mb_FirstName = [], mb_LastName = [],
               mb_RoleSlug = or_empty (wm_Role m), mb_Status = wm_Status m\<rparr>
           | Inr u \<Rightarrow> \<lparr>mb_MembershipID = wm_ID m, mb_UserID = wm_UserID m, mb_Email = wu_Email u,
               mb_FirstName = or_empty (wu_FirstName u), mb_LastName = or_empty (wu_LastName u),
               mb_RoleSlug = or_empty (wm_Role m), mb_Status = wm_Status m\<rparr>) # rest)))"

definition ListMembers :: "'w auth_service \<Rightarrow> string \<Rightarrow> ('w auth_state, org_member list) go" where
  "ListMembers sv org =
     (let cfg = sv_cfg sv in
      if cfg_Bypass cfg
      then ret [\<lparr>mb_MembershipID = ''om_bypass'', mb_UserID = cfg_BypassUser cfg, mb_Email = cfg_BypassEmail cfg,
        mb_FirstName = ''Bypass'', mb_LastName = ''User'', mb_RoleSlug = cfg_BypassRole cfg, mb_Status = ''active''\<rparr>]
      else if IsLocalMode cfg
      then andthen (wrap_err ''list local memberships'' (ListLocalAuthMembers org)) (\<lambda>rows.
        ret (map (\<lambda>(m, u). \<lparr>mb_MembershipID = lm_id m, mb_UserID = lm_user_id m, mb_Email = lu_email u,
          mb_FirstName = lu_first_name u, mb_LastName = lu_last_name u, mb_RoleSlug = lm_role_slug m, mb_Status = ''active''\<rparr>) rows))
      else iterate (wk_ListMemberships (sv_workos sv) (Some org) None []) (\<lambda>ms e.
        andthen (name_members (sv_workos sv) ms) (\<lambda>out.
          case e of Some err \<Rightarrow> fail (Wrapped ''list memberships'' err) | None \<Rightarrow> ret out)))"

primrec only_here_local :: "string list \<Rightarrow> ('w auth_state, string list) go" where
  "only_here_local [] = ret []"
| "only_here_local (u # us) =
     andthen (wrap_err (''count local orgs for user '' @ u) (CountLocalAuthUserOrgs u)) (\<lambda>count.
       andthen (only_here_local us) (\<lambda>rest. ret (if count \<le> 1 then u # rest else rest)))"

primrec only_here_workos :: "'w workos_ops \<Rightarrow> string \<Rightarrow> string list \<Rightarrow> ('w auth_state, string list) go" where
  "only_here_workos wk org [] = ret []"
| "only_here_workos wk org (u # us) =
     iterate (wk_ListMemberships wk None (Some u) []) (\<lambda>ms e.
       case e of
         Some err \<Rightarrow> fail (Wrapped (''list memberships for user '' @ u) err)
       | None \<Rightarrow> andthen (only_here_workos wk org us) (\<lambda>rest.
           ret (if list_all (\<lambda>m. wm_OrganizationID m = org) ms then u # rest else rest)))"

definition UsersOnlyInOrganization :: "'w auth_service \<Rightarrow> string \<Rightarrow> ('w auth_state, string list) go" where
  "UsersOnlyInOrganization sv org =
     (let cfg = sv_cfg sv in
      if cfg_Bypass cfg then ret (if cfg_BypassUser cfg \<noteq> [] \<and> cfg_BypassOrg cfg = org then [cfg_BypassUser cfg] else [])
      else if IsLocalMode cfg
      then andthen (wrap_err ''list local org memberships for deletion'' (ListLocalAuthMembers org)) (\<lambda>rows.
        andthen (only_here_local (map (lm_user_id \<circ> fst) rows)) (\<lambda>out. ret (sort out)))
      else iterate (wk_ListMemberships (sv_workos sv) (Some org) None []) (\<lambda>ms e.
        case e of
          Some err \<Rightarrow> fail (Wrapped ''list org memberships for deletion'' err)
        | None \<Rightarrow> andthen (only_here_workos (sv_workos sv) org
              (lib_Order (sv_lib sv) (remdups (filter (\<lambda>u. u \<noteq> []) (map wm_UserID ms))))) (\<lambda>out. ret (sort out))))"

primrec delete_each :: "string \<Rightarrow> (string \<Rightarrow> ('w auth_state, unit) go) \<Rightarrow> string list \<Rightarrow> ('w auth_state, unit) go" where
  "delete_each msg del [] = ret ()"
| "delete_each msg del (u # us) =
     (if u = [] then delete_each msg del us
      else andthen (wrap_err (msg @ u) (del u)) (\<lambda>_. delete_each msg del us))"

definition DeleteUsers :: "'w auth_service \<Rightarrow> string list \<Rightarrow> ('w auth_state, unit) go" where
  "DeleteUsers sv userIDs =
     (if cfg_Bypass (sv_cfg sv) then ret ()
      else if IsLocalMode (sv_cfg sv) then delete_each ''delete local user '' DeleteLocalAuthUser userIDs
      else delete_each ''delete user '' (\<lambda>u. at_provider (wk_DeleteUser (sv_workos sv) u)) userIDs)"

text \<open>None when no member of the organisation has the address.\<close>

definition FindOrgUserByEmail :: "'w auth_service \<Rightarrow> string \<Rightarrow> string \<Rightarrow> ('w auth_state, profile option) go" where
  "FindOrgUserByEmail sv org email =
     (let cfg = sv_cfg sv in
      if email = [] then ret None
      else if cfg_Bypass cfg
      then ret (if email = cfg_BypassEmail cfg
        then Some \<lparr>pf_UserID = cfg_BypassUser cfg, pf_Email = email, pf_FirstName = ''Bypass'', pf_LastName = ''User''\<rparr> else None)
      else if IsLocalMode cfg
      then attempt (FindLocalAuthOrgUserByEmail org (normalizeEmail email)) (\<lambda>r. case r of
          Inl e \<Rightarrow> if err_is e ErrNoRows then ret None else fail (Wrapped ''find local user by email'' e)
        | Inr u \<Rightarrow> ret (Some (user_profile u)))
      else iterate (wk_ListUsers (sv_workos sv) org email) (\<lambda>us e.
        case us of
          u # _ \<Rightarrow> ret (Some (workos_profile u))
        | [] \<Rightarrow> (case e of Some err \<Rightarrow> fail (Wrapped ''find user by email'' err) | None \<Rightarrow> ret None)))"

section \<open>Invitations\<close>

definition ListInvitations :: "'w auth_service \<Rightarrow> go_time \<Rightarrow> string \<Rightarrow> ('w auth_state, invitation_info list) go" where
  "ListInvitations sv now org =
     (if cfg_Bypass (sv_cfg sv) then ret []
      else if IsLocalMode (sv_cfg sv)
      then andthen (wrap_err ''list local invitations'' (ListLocalAuthInvitations now org)) (\<lambda>rows.
        ret (map (\<lambda>r. \<lparr>iv_ID = li_id r, iv_Email = li_email r, iv_RoleSlug = li_role_slug r,
          iv_ExpiresAt = (case li_expires_at r of None \<Rightarrow> [] | Some t \<Rightarrow> formatPGExpiry (sv_lib sv) t)\<rparr>) rows))
      else iterate (wk_ListInvitations (sv_workos sv) org) (\<lambda>invs e.
        case e of
          Some err \<Rightarrow> fail (Wrapped ''list invitations'' err)
        | None \<Rightarrow> ret (map (\<lambda>i. \<lparr>iv_ID = wi_ID i, iv_Email = wi_Email i, iv_RoleSlug = or_empty (wi_RoleSlug i),
            iv_ExpiresAt = formatExpiry (sv_lib sv) (wi_ExpiresAt i)\<rparr>) (filter (\<lambda>i. wi_State i = ''pending'') invs))))"

text \<open>The token is built from the bytes of crypto/rand: \<open>rndID\<close> for the ID, \<open>rndToken\<close> for the token.\<close>

definition localSendInvitation ::
  "'w auth_service \<Rightarrow> go_time \<Rightarrow> go_time \<Rightarrow> nat list \<Rightarrow> nat list \<Rightarrow> string \<Rightarrow> string \<Rightarrow> string \<Rightarrow> string \<Rightarrow>
   ('w auth_state, string) go" where
  "localSendInvitation sv clock now rndID rndToken email0 org role inviter =
     (let email = trim_space email0 in
      if \<not> validEmail (sv_lib sv) email then fail (ErrNew ''valid email required'')
      else let (token, tokenHash) = localToken (sv_lib sv) rndToken in
        andthen (CreateLocalAuthInvitation now (localID ''inv_local_'' rndID) org email (normalizeEmail email) role tokenHash
            (clock + localInvitationTTL) (stringPtrIfNotEmpty inviter)) (\<lambda>_. ret token))"

definition SendInvitation ::
  "'w auth_service \<Rightarrow> go_time \<Rightarrow> go_time \<Rightarrow> nat list \<Rightarrow> nat list \<Rightarrow> string \<Rightarrow> string \<Rightarrow> string \<Rightarrow> string \<Rightarrow>
   ('w auth_state, string) go" where
  "SendInvitation sv clock now rndID rndToken email org role inviter =
     (if cfg_Bypass (sv_cfg sv) then ret []
      else if IsLocalMode (sv_cfg sv) then localSendInvitation sv clock now rndID rndToken email org role inviter
      else andthen (at_provider (wk_SendInvitation (sv_workos sv) email org role inviter)) (\<lambda>_. ret []))"

definition RevokeInvitation :: "'w auth_service \<Rightarrow> go_time \<Rightarrow> string \<Rightarrow> string \<Rightarrow> ('w auth_state, unit) go" where
  "RevokeInvitation sv now i expectedOrg =
     (if cfg_Bypass (sv_cfg sv) then ret ()
      else if IsLocalMode (sv_cfg sv)
      then andthen (wrap_err ''get local invitation'' (GetLocalAuthInvitation i)) (\<lambda>inv.
        if li_org_id inv \<noteq> expectedOrg then fail ErrCrossOrg
        else andthen (RevokeLocalAuthInvitation now i expectedOrg) (\<lambda>_. ret ()))
      else andthen (wrap_err ''get invitation'' (at_provider (wk_GetInvitation (sv_workos sv) i))) (\<lambda>inv.
        if wi_OrganizationID inv \<noteq> Some expectedOrg then fail ErrCrossOrg
        else at_provider (wk_RevokeInvitation (sv_workos sv) i)))"

section \<open>Removing members and changing roles\<close>

definition resolveOrgMember :: "'w auth_service \<Rightarrow> string \<Rightarrow> string \<Rightarrow> ('w auth_state, workos_membership) go" where
  "resolveOrgMember sv membershipID expectedOrg =
     andthen (wrap_err ''get membership'' (at_provider (wk_GetMembership (sv_workos sv) membershipID))) (\<lambda>m.
       if wm_OrganizationID m \<noteq> expectedOrg then fail ErrCrossOrg else ret m)"

definition countAdmins :: "'w auth_service \<Rightarrow> string \<Rightarrow> ('w auth_state, int) go" where
  "countAdmins sv org =
     (if IsLocalMode (sv_cfg sv) then wrap_err ''count local admins'' (CountLocalAuthAdmins org)
      else iterate (wk_ListMemberships (sv_workos sv) (Some org) None []) (\<lambda>ms e.
        case e of
          Some err \<Rightarrow> fail (Wrapped ''count admins'' err)
        | None \<Rightarrow> ret (int (length (filter (\<lambda>m. wm_Status m = ''active'' \<and> wm_Role m = Some ''admin'') ms)))))"

text \<open>
  A removal and a change of role are checks and then one write. In the source the statements are not in
  one transaction, so another request may come between: the checks and the write are operations of their
  own here, and the method is the two in a row. The checks answer whether there is anything to write.
\<close>

definition last_admin_check :: "bool \<Rightarrow> ('w auth_state, int) go \<Rightarrow> string \<Rightarrow> ('w auth_state, bool) go" where
  "last_admin_check loses count_admins msg =
     (if loses then andthen count_admins (\<lambda>count. if count \<le> 1 then fail (ErrNew msg) else ret True) else ret True)"

definition removal_checks :: "'w auth_service \<Rightarrow> string \<Rightarrow> string \<Rightarrow> string \<Rightarrow> ('w auth_state, bool) go" where
  "removal_checks sv membershipID expectedOrg caller =
     (if cfg_Bypass (sv_cfg sv) then ret False
      else if IsLocalMode (sv_cfg sv)
      then andthen (wrap_err ''get local membership'' (GetLocalAuthMembership membershipID)) (\<lambda>m.
        if lm_org_id m \<noteq> expectedOrg then fail ErrCrossOrg
        else if lm_user_id m = caller then fail (ErrNew ''auth: you cannot remove your own membership'')
        else last_admin_check (lm_role_slug m = ''admin'')
          (wrap_err ''count local admins'' (CountLocalAuthAdmins expectedOrg))
          ''auth: cannot remove the last admin in the organization'')
      else andthen (resolveOrgMember sv membershipID expectedOrg) (\<lambda>m.
        if wm_UserID m = caller then fail (ErrNew ''auth: you cannot remove your own membership'')
        else last_admin_check (wm_Role m = Some ''admin'') (countAdmins sv expectedOrg)
          ''auth: cannot remove the last admin in the organization''))"

definition removal_write :: "'w auth_service \<Rightarrow> string \<Rightarrow> ('w auth_state, unit) go" where
  "removal_write sv membershipID =
     (if IsLocalMode (sv_cfg sv) then andthen (DeleteLocalAuthMembership membershipID) (\<lambda>_. ret ())
      else at_provider (wk_DeleteMembership (sv_workos sv) membershipID))"

definition RemoveMember :: "'w auth_service \<Rightarrow> string \<Rightarrow> string \<Rightarrow> string \<Rightarrow> ('w auth_state, unit) go" where
  "RemoveMember sv membershipID expectedOrg caller =
     andthen (removal_checks sv membershipID expectedOrg caller) (\<lambda>write.
       if write then removal_write sv membershipID else ret ())"

definition role_checks ::
  "'w auth_service \<Rightarrow> string \<Rightarrow> string \<Rightarrow> string \<Rightarrow> string \<Rightarrow> ('w auth_state, bool) go" where
  "role_checks sv membershipID expectedOrg caller role =
     (if cfg_Bypass (sv_cfg sv) then ret False
      else if IsLocalMode (sv_cfg sv)
      then andthen (wrap_err ''get local membership'' (GetLocalAuthMembership membershipID)) (\<lambda>m.
        if lm_org_id m \<noteq> expectedOrg then fail ErrCrossOrg
        else if lm_user_id m = caller then fail (ErrNew ''auth: you cannot change your own role'')
        else last_admin_check (lm_role_slug m = ''admin'' \<and> role \<noteq> ''admin'')
          (wrap_err ''count local admins'' (CountLocalAuthAdmins expectedOrg))
          ''auth: cannot demote the last admin in the organization'')
      else andthen (resolveOrgMember sv membershipID expectedOrg) (\<lambda>m.
        if wm_UserID m = caller then fail (ErrNew ''auth: you cannot change your own role'')
        else last_admin_check (wm_Role m = Some ''admin'' \<and> role \<noteq> ''admin'') (countAdmins sv expectedOrg)
          ''auth: cannot demote the last admin in the organization''))"

definition role_write :: "'w auth_service \<Rightarrow> go_time \<Rightarrow> string \<Rightarrow> string \<Rightarrow> ('w auth_state, unit) go" where
  "role_write sv now membershipID role =
     (if IsLocalMode (sv_cfg sv)
      then andthen (UpdateLocalAuthMembershipRole now membershipID role) (\<lambda>_. ret ())
      else at_provider (wk_UpdateMembership (sv_workos sv) membershipID role))"

definition UpdateMemberRole ::
  "'w auth_service \<Rightarrow> go_time \<Rightarrow> string \<Rightarrow> string \<Rightarrow> string \<Rightarrow> string \<Rightarrow> ('w auth_state, unit) go" where
  "UpdateMemberRole sv now membershipID expectedOrg caller role =
     andthen (role_checks sv membershipID expectedOrg caller role) (\<lambda>write.
       if write then role_write sv now membershipID role else ret ())"

lemmas member_op_defs = RemoveMember_def UpdateMemberRole_def removal_checks_def role_checks_def
  removal_write_def role_write_def last_admin_check_def

section \<open>Organisations\<close>

definition localCreateOrganization :: "go_time \<Rightarrow> nat list \<Rightarrow> string \<Rightarrow> ('w auth_state, string) go" where
  "localCreateOrganization now rnd name =
     andthen (CreateLocalAuthOrg now (localID ''org_local_'' rnd) (trim_space name)) (\<lambda>g. ret (lo_id g))"

definition localGetOrganizationName :: "string \<Rightarrow> ('w auth_state, string) go" where
  "localGetOrganizationName org = andthen (GetLocalAuthOrg org) (\<lambda>g. ret (lo_name g))"

definition localUpdateOrganizationName :: "go_time \<Rightarrow> string \<Rightarrow> string \<Rightarrow> ('w auth_state, unit) go" where
  "localUpdateOrganizationName now org name = andthen (UpdateLocalAuthOrgName now org (trim_space name)) (\<lambda>_. ret ())"

definition localDeleteOrganization :: "string \<Rightarrow> ('w auth_state, unit) go" where
  "localDeleteOrganization org = DeleteLocalAuthOrg org"

definition localAddUserToOrganization ::
  "go_time \<Rightarrow> nat list \<Rightarrow> string \<Rightarrow> string \<Rightarrow> string \<Rightarrow> ('w auth_state, unit) go" where
  "localAddUserToOrganization now rnd userID org role =
     andthen (CreateLocalAuthMembership now (localID ''om_local_'' rnd) userID org role) (\<lambda>_. ret ())"

definition CreateOrganization :: "'w auth_service \<Rightarrow> go_time \<Rightarrow> nat list \<Rightarrow> string \<Rightarrow> ('w auth_state, string) go" where
  "CreateOrganization sv now rnd name =
     (if cfg_Bypass (sv_cfg sv) then ret ''org_bypass''
      else if IsLocalMode (sv_cfg sv) then localCreateOrganization now rnd name
      else at_provider (wk_CreateOrganization (sv_workos sv) name))"

definition GetOrganizationName :: "'w auth_service \<Rightarrow> string \<Rightarrow> ('w auth_state, string) go" where
  "GetOrganizationName sv org =
     (if cfg_Bypass (sv_cfg sv) then ret org
      else if IsLocalMode (sv_cfg sv) then localGetOrganizationName org
      else at_provider (wk_GetOrganization (sv_workos sv) org))"

definition UpdateOrganizationName :: "'w auth_service \<Rightarrow> go_time \<Rightarrow> string \<Rightarrow> string \<Rightarrow> ('w auth_state, unit) go" where
  "UpdateOrganizationName sv now org name =
     (if cfg_Bypass (sv_cfg sv) then ret ()
      else if IsLocalMode (sv_cfg sv) then localUpdateOrganizationName now org name
      else at_provider (wk_UpdateOrganization (sv_workos sv) org name))"

definition DeleteOrganization :: "'w auth_service \<Rightarrow> string \<Rightarrow> ('w auth_state, unit) go" where
  "DeleteOrganization sv org =
     (if cfg_Bypass (sv_cfg sv) then ret ()
      else if IsLocalMode (sv_cfg sv) then localDeleteOrganization org
      else at_provider (wk_DeleteOrganization (sv_workos sv) org))"

text \<open>There is no client in the two other modes.\<close>

definition OrganizationHasFeatureFlag :: "'w auth_service \<Rightarrow> string \<Rightarrow> string \<Rightarrow> ('w auth_state, bool) go" where
  "OrganizationHasFeatureFlag sv org0 slug0 =
     (let org = trim_space org0; slug = trim_space slug0 in
      if cfg_Bypass (sv_cfg sv) \<or> IsLocalMode (sv_cfg sv) \<or> org = [] \<or> slug = [] then ret False
      else iterate (wk_ListFeatureFlags (sv_workos sv) org) (\<lambda>flags e.
        if list_ex (\<lambda>(name, enabled). name = slug \<and> enabled) flags then ret True
        else (case e of Some err \<Rightarrow> fail err | None \<Rightarrow> ret False)))"

definition AddUserToOrganization ::
  "'w auth_service \<Rightarrow> go_time \<Rightarrow> nat list \<Rightarrow> string \<Rightarrow> string \<Rightarrow> string \<Rightarrow> ('w auth_state, unit) go" where
  "AddUserToOrganization sv now rnd userID org role =
     (if cfg_Bypass (sv_cfg sv) then ret ()
      else if IsLocalMode (sv_cfg sv) then localAddUserToOrganization now rnd userID org role
      else at_provider (wk_CreateMembership (sv_workos sv) userID org role))"

end
