(* ===== verification/Auth_Security.thy ===== *)
theory Auth_Security
  imports Auth_Members "HOL-Library.AList"
begin

text \<open>
  Requests and responses of the authentication handlers, their cookies, and the guards in front of the
  local forms (internal/auth/local_security.go): the form token, the limit of attempts per address and
  the origin of a request. \<open>clock\<close> is the service's own clock.
\<close>

section \<open>Requests and responses\<close>

text \<open>A header, form field or query parameter that is absent reads as the empty text.\<close>

record http_request =
  rq_Method :: string
  rq_Host :: string
  rq_RemoteAddr :: string
  rq_Path :: string
  rq_Header :: "string \<Rightarrow> string"
  rq_Query :: "string \<Rightarrow> string"
  rq_ParseForm :: "go_error option"
  rq_FormValue :: "string \<Rightarrow> string"
  rq_Cookie :: "string \<Rightarrow> string option"

datatype same_site = SameSiteLaxMode | SameSiteStrictMode

record http_cookie =
  ck_Name :: string
  ck_Value :: string
  ck_Path :: string
  ck_SameSite :: same_site
  ck_Secure :: bool
  ck_Expires :: "go_time option"
  ck_MaxAge :: int

record auth_page =
  pg_Mode :: string
  pg_Title :: string
  pg_Eyebrow :: string
  pg_SubmitLabel :: string
  pg_AlternateText :: string
  pg_AlternateURL :: string
  pg_AlternateLink :: string
  pg_Email :: string
  pg_FirstName :: string
  pg_LastName :: string
  pg_InviteToken :: string
  pg_InviteEmail :: string
  pg_InviteRole :: string
  pg_CSRFToken :: string
  pg_Error :: string

text \<open>The last case hands the request on to the wrapped handler, with the principal of its context.\<close>

datatype auth_body =
    HttpError int string
  | Redirect string
  | Page auth_page
  | LoginFailedPage
  | PassedOn "principal option"

record auth_response =
  rs_Cookies :: "http_cookie list"
  rs_Body :: auth_body

definition answer :: "auth_body \<Rightarrow> auth_response" where
  "answer b = \<lparr>rs_Cookies = [], rs_Body = b\<rparr>"

definition with_cookie :: "http_cookie \<Rightarrow> auth_response \<Rightarrow> auth_response" where
  "with_cookie c r = r\<lparr>rs_Cookies := c # rs_Cookies r\<rparr>"

text \<open>The random bytes a request draws.\<close>

record random_bytes =
  rb_User :: "nat list"
  rb_Membership :: "nat list"
  rb_Session :: "nat list"
  rb_Secret :: "nat list"
  rb_Form :: "nat list"

section \<open>Cookies\<close>

definition session_cookie :: "auth_config \<Rightarrow> go_time \<Rightarrow> string \<Rightarrow> http_cookie" where
  "session_cookie cfg clock v = \<lparr>ck_Name = SessionCookieName, ck_Value = v, ck_Path = ''/'', ck_SameSite = SameSiteLaxMode,
     ck_Secure = cfg_CookieSecure cfg, ck_Expires = Some (clock + 7 * 24 * hour), ck_MaxAge = 0\<rparr>"

definition cleared_session_cookie :: "auth_config \<Rightarrow> http_cookie" where
  "cleared_session_cookie cfg = \<lparr>ck_Name = SessionCookieName, ck_Value = [], ck_Path = ''/'', ck_SameSite = SameSiteLaxMode,
     ck_Secure = cfg_CookieSecure cfg, ck_Expires = Some 0, ck_MaxAge = - 1\<rparr>"

definition csrf_cookie :: "auth_config \<Rightarrow> go_time \<Rightarrow> string \<Rightarrow> http_cookie" where
  "csrf_cookie cfg clock v = \<lparr>ck_Name = localAuthCSRFCookieName, ck_Value = v, ck_Path = ''/'', ck_SameSite = SameSiteStrictMode,
     ck_Secure = cfg_CookieSecure cfg, ck_Expires = Some (clock + localAuthCSRFTokenTTL),
     ck_MaxAge = localAuthCSRFTokenTTL div second\<rparr>"

text \<open>None: there is no session cookie, or it is empty.\<close>

definition sent_session :: "http_request \<Rightarrow> string option" where
  "sent_session r = (case rq_Cookie r SessionCookieName of None \<Rightarrow> None | Some v \<Rightarrow> if v = [] then None else Some v)"

definition renderLocalAuthPage :: "auth_lib \<Rightarrow> auth_config \<Rightarrow> go_time \<Rightarrow> nat list \<Rightarrow> auth_page \<Rightarrow> auth_response" where
  "renderLocalAuthPage lib cfg clock rnd page =
     (if pg_CSRFToken page = []
      then let (token, _) = localToken lib rnd in
        with_cookie (csrf_cookie cfg clock token) (answer (Page (page\<lparr>pg_CSRFToken := token\<rparr>)))
      else answer (Page page))"

section \<open>The form token\<close>

definition requireLocalAuthCSRF :: "http_request \<Rightarrow> go_error option" where
  "requireLocalAuthCSRF r =
     (case rq_Cookie r localAuthCSRFCookieName of
        None \<Rightarrow> Some (ErrNew ''missing form token'')
      | Some cookie \<Rightarrow>
          if cookie = [] then Some (ErrNew ''missing form token'')
          else let token = trim_space (rq_FormValue r ''csrf_token'') in
            if token = [] then Some (ErrNew ''missing form token'')
            else if cookie \<noteq> token then Some (ErrNew ''invalid form token'')
            else None)"

section \<open>Addresses\<close>

definition singleHeaderIP :: "auth_lib \<Rightarrow> string \<Rightarrow> string" where
  "singleHeaderIP lib value0 =
     (let v = trim_space value0 in
      if v = [] then [] else (case lib_ParseIP lib v of None \<Rightarrow> [] | Some ip \<Rightarrow> ip))"

definition forwardedHeaderIP :: "auth_lib \<Rightarrow> string \<Rightarrow> string" where
  "forwardedHeaderIP lib v =
     singleHeaderIP lib (case cut_at (CHR '','') v of None \<Rightarrow> v | Some (before_comma, _) \<Rightarrow> before_comma)"

definition remoteAddrIP :: "auth_lib \<Rightarrow> http_request \<Rightarrow> string" where
  "remoteAddrIP lib r =
     (let remote = trim_space (rq_RemoteAddr r) in
      case lib_SplitHostPort lib remote of
        Some host \<Rightarrow> if host \<noteq> [] then host else if remote \<noteq> [] then remote else ''unknown''
      | None \<Rightarrow> if remote \<noteq> [] then remote else ''unknown'')"

definition localAuthClientIP :: "auth_lib \<Rightarrow> auth_config \<Rightarrow> http_request \<Rightarrow> string" where
  "localAuthClientIP lib cfg r =
     (let forwarded = forwardedHeaderIP lib (rq_Header r ''X-Forwarded-For'');
          real = singleHeaderIP lib (rq_Header r ''X-Real-IP'') in
      if cfg_TrustedProxy cfg \<and> forwarded \<noteq> [] then forwarded
      else if cfg_TrustedProxy cfg \<and> real \<noteq> [] then real
      else remoteAddrIP lib r)"

section \<open>The limit of attempts\<close>

definition pruneLocalAuthRateEntries :: "go_time \<Rightarrow> (string \<times> rate_entry) list \<Rightarrow> (string \<times> rate_entry) list" where
  "pruneLocalAuthRateEntries now rate = filter (\<lambda>(k, e). now < rate_ResetAt e) rate"

text \<open>A key that is not in the map reads as the zero entry.\<close>

definition count_attempt :: "go_time \<Rightarrow> rate_entry option \<Rightarrow> rate_entry" where
  "count_attempt now found =
     (let entry = (case found of None \<Rightarrow> \<lparr>rate_Count = 0, rate_ResetAt = zero_time, rate_LastSeen = zero_time\<rparr> | Some e \<Rightarrow> e);
          current = (if is_zero_time (rate_ResetAt entry) \<or> \<not> now < rate_ResetAt entry
            then \<lparr>rate_Count = 0, rate_ResetAt = now + localAuthRateWindow, rate_LastSeen = zero_time\<rparr> else entry)
      in current\<lparr>rate_Count := rate_Count current + 1, rate_LastSeen := now\<rparr>)"

definition allow_key :: "go_time \<Rightarrow> string \<Rightarrow> (string \<times> rate_entry) list \<Rightarrow> bool \<times> (string \<times> rate_entry) list" where
  "allow_key now key rate0 =
     (let rate = (if localAuthRateMaxEntries < length rate0 then pruneLocalAuthRateEntries now rate0 else rate0);
          entry = count_attempt now (map_of rate key)
      in (rate_Count entry \<le> localAuthRateLimit, AList.update key entry rate))"

definition allowLocalAuthAttempt :: "'w auth_service \<Rightarrow> go_time \<Rightarrow> http_request \<Rightarrow> ('w auth_state, bool) go" where
  "allowLocalAuthAttempt sv clock r = (\<lambda>s.
     let key = rq_Path r @ ''|'' @ localAuthClientIP (sv_lib sv) (sv_cfg sv) r;
         (allowed, rate) = allow_key clock key (localRate s)
     in (Inr allowed, s\<lparr>localRate := rate\<rparr>))"

section \<open>The origin of a request\<close>

definition quoted :: "string \<Rightarrow> string" where
  "quoted s = ''\"'' @ s @ ''\"''"

definition host_matches :: "auth_lib \<Rightarrow> string \<Rightarrow> string \<Rightarrow> string \<Rightarrow> go_error option" where
  "host_matches lib what url host =
     (case lib_ParseURL lib url of
        Inl e \<Rightarrow> Some (Wrapped (''invalid '' @ what) e)
      | Inr (h, _) \<Rightarrow>
          if h \<noteq> host then Some (ErrNew (what @ '' '' @ quoted h @ '' does not match host '' @ quoted host)) else None)"

definition requireLocalSameOrigin :: "auth_lib \<Rightarrow> http_request \<Rightarrow> go_error option" where
  "requireLocalSameOrigin lib r =
     (let host = rq_Host r in
      if host = [] then Some (ErrNew ''missing host header'')
      else if rq_Header r ''Origin'' \<noteq> [] then host_matches lib ''origin'' (rq_Header r ''Origin'') host
      else if rq_Header r ''Referer'' \<noteq> [] then host_matches lib ''referer'' (rq_Header r ''Referer'') host
      else None)"

text \<open>The guards in the order of both forms; the form is parsed between the first and the second.\<close>

definition guarded_post ::
  "'w auth_service \<Rightarrow> go_time \<Rightarrow> http_request \<Rightarrow> ('w auth_state, auth_response) go \<Rightarrow> ('w auth_state, auth_response) go" where
  "guarded_post sv clock r handle =
     (case requireLocalSameOrigin (sv_lib sv) r of
        Some e \<Rightarrow> ret (answer (HttpError 403 (lib_Text (sv_lib sv) e)))
      | None \<Rightarrow>
          if rq_ParseForm r \<noteq> None then ret (answer (HttpError 400 ''bad form''))
          else (case requireLocalAuthCSRF r of
              Some e \<Rightarrow> ret (answer (HttpError 403 (lib_Text (sv_lib sv) e)))
            | None \<Rightarrow> andthen (allowLocalAuthAttempt sv clock r) (\<lambda>allowed.
                if \<not> allowed then ret (answer (HttpError 429 ''too many attempts; wait a minute and try again''))
                else handle)))"

end
