(* ===== verification/Auth_Local.thy ===== *)
theory Auth_Local
  imports Auth_Security
begin

text \<open>
  Local accounts (internal/auth/local.go): invitations, sign-up and log-in, sessions and their cookie,
  the organisation of a session, the password. \<open>clock\<close> is the service's clock and \<open>now\<close> the database's.
\<close>

section \<open>Invitations\<close>

text \<open>None: there is no such invitation, or it is no longer valid.\<close>

definition localInvitationFromRequest ::
  "auth_lib \<Rightarrow> go_time \<Rightarrow> string \<Rightarrow> ('w auth_state, invitation_row option) go" where
  "localInvitationFromRequest lib clock token0 =
     (let token = trim_space token0 in
      if token = [] then ret None
      else attempt (GetLocalAuthInvitationByTokenHash (hashLocalToken lib token)) (\<lambda>r. case r of
          Inl e \<Rightarrow> if err_is e ErrNoRows then ret None else fail e
        | Inr row \<Rightarrow>
            if li_accepted_at row \<noteq> None \<or> li_revoked_at row \<noteq> None \<or> \<not> later (li_expires_at row) clock then ret None
            else ret (Some row)))"

text \<open>The number of rows the last statement changes is not looked at.\<close>

definition localAcceptInvitationForUser :: "go_time \<Rightarrow> nat list \<Rightarrow> invitation_row \<Rightarrow> string \<Rightarrow> ('w auth_state, unit) go" where
  "localAcceptInvitationForUser now rnd invite userID =
     (if li_id invite = [] then fail (ErrNew ''invitation is invalid or expired'')
      else attempt (CreateLocalAuthMembership now (localID ''om_local_'' rnd) userID (li_org_id invite) (li_role_slug invite)) (\<lambda>r.
        case r of
          Inl e \<Rightarrow> if \<not> isUniqueViolation e then fail e
            else andthen (AcceptLocalAuthInvitation now (li_id invite)) (\<lambda>_. ret ())
        | Inr _ \<Rightarrow> andthen (AcceptLocalAuthInvitation now (li_id invite)) (\<lambda>_. ret ())))"

definition decorateInvitePageData :: "auth_lib \<Rightarrow> go_time \<Rightarrow> auth_page \<Rightarrow> ('w auth_state, auth_page) go" where
  "decorateInvitePageData lib clock page =
     (if pg_InviteToken page = [] then ret page
      else attempt (localInvitationFromRequest lib clock (pg_InviteToken page)) (\<lambda>r. case r of
          Inl e \<Rightarrow> ret (page\<lparr>pg_Error := ''Could not load invitation. Please try again.''\<rparr>)
        | Inr None \<Rightarrow> ret (page\<lparr>pg_Error := ''This invitation is invalid or expired.''\<rparr>)
        | Inr (Some invite) \<Rightarrow> ret (page\<lparr>pg_Email := li_email invite, pg_InviteEmail := li_email invite, pg_InviteRole := li_role_slug invite\<rparr>)))"

section \<open>Sessions\<close>

text \<open>The value of the cookie.\<close>

definition localCreateSession ::
  "auth_lib \<Rightarrow> go_time \<Rightarrow> go_time \<Rightarrow> nat list \<Rightarrow> nat list \<Rightarrow> string \<Rightarrow> string \<Rightarrow> ('w auth_state, string) go" where
  "localCreateSession lib clock now rndID rndSecret userID activeOrg =
     (let sessionID = localID ''sess_local_'' rndID; (secret, hash) = localToken lib rndSecret in
      andthen (CreateLocalAuthSession now sessionID userID hash (stringPtrIfNotEmpty activeOrg) (clock + localSessionTTL))
        (\<lambda>_. ret (localSessionCookieValue sessionID secret)))"

definition session_principal :: "session_info \<Rightarrow> principal" where
  "session_principal row =
     (let p = \<lparr>p_UserID = lu_id (si_user row), p_Email = lu_email (si_user row), p_OrgID = [], p_Role = [],
            p_SessionID = ls_id (si_session row), p_IsAPIKey = False\<rparr> in
      case (ls_active_org_id (si_session row), si_role row) of
        (Some org, Some role) \<Rightarrow> if org \<noteq> [] \<and> role \<noteq> [] then p\<lparr>p_OrgID := org, p_Role := role\<rparr> else p
      | _ \<Rightarrow> p)"

definition localPrincipalFromCookie :: "auth_lib \<Rightarrow> go_time \<Rightarrow> string \<Rightarrow> ('w auth_state, principal option) go" where
  "localPrincipalFromCookie lib now v =
     (case parseLocalSessionCookieValue v of
        None \<Rightarrow> ret None
      | Some (sessionID, secret) \<Rightarrow> attempt (GetLocalAuthSession now sessionID) (\<lambda>r. case r of
            Inl e \<Rightarrow> ret None
          | Inr row \<Rightarrow> if hashLocalToken lib secret \<noteq> ls_token_hash (si_session row) then ret None
              else ret (Some (session_principal row))))"

definition localMiddleware :: "'w auth_service \<Rightarrow> go_time \<Rightarrow> http_request \<Rightarrow> ('w auth_state, auth_response) go" where
  "localMiddleware sv now r =
     (case sent_session r of
        None \<Rightarrow> ret (answer (PassedOn None))
      | Some cookie \<Rightarrow> andthen (localPrincipalFromCookie (sv_lib sv) now cookie) (\<lambda>found. case found of
            None \<Rightarrow> ret (with_cookie (cleared_session_cookie (sv_cfg sv)) (answer (PassedOn None)))
          | Some p \<Rightarrow> attempt (TouchLocalAuthSession now (p_SessionID p)) (\<lambda>_. ret (answer (PassedOn (Some p))))))"

definition localRevokeCurrentSession :: "http_request \<Rightarrow> ('w auth_state, unit) go" where
  "localRevokeCurrentSession r =
     (case sent_session r of
        None \<Rightarrow> ret ()
      | Some cookie \<Rightarrow> (case parseLocalSessionCookieValue cookie of
            None \<Rightarrow> ret ()
          | Some (sessionID, _) \<Rightarrow> attempt (DeleteLocalAuthSession sessionID) (\<lambda>_. ret ())))"

definition DeleteExpiredLocalAuthSessions :: "'w auth_service \<Rightarrow> go_time \<Rightarrow> ('w auth_state, unit) go" where
  "DeleteExpiredLocalAuthSessions sv now =
     (if cfg_Bypass (sv_cfg sv) \<or> \<not> IsLocalMode (sv_cfg sv) then ret ()
      else andthen (DeleteExpiredLocalAuthSessions_q now) (\<lambda>_. ret ()))"

text \<open>The value to set the cookie to again.\<close>

definition localSwitchOrg :: "'w auth_service \<Rightarrow> go_time \<Rightarrow> http_request \<Rightarrow> string \<Rightarrow> ('w auth_state, string) go" where
  "localSwitchOrg sv now r org =
     (case rq_Cookie r SessionCookieName of
        None \<Rightarrow> fail (ErrNew ''http: named cookie not present'')
      | Some cookie \<Rightarrow> andthen (localPrincipalFromCookie (sv_lib sv) now cookie) (\<lambda>found. case found of
            None \<Rightarrow> fail (ErrNew ''invalid local session'')
          | Some p \<Rightarrow> andthen (GetLocalAuthMembershipForUserOrg (p_UserID p) org) (\<lambda>_.
              andthen (UpdateLocalAuthSessionOrg now (p_SessionID p) (Some org)) (\<lambda>_. ret cookie))))"

section \<open>Sign-up\<close>

definition signup_page :: "string \<Rightarrow> auth_page" where
  "signup_page invite = \<lparr>pg_Mode = ''signup'', pg_Title = ''Create account'', pg_Eyebrow = ''Open signup'',
     pg_SubmitLabel = ''Sign up'', pg_AlternateText = ''Already have an account?'', pg_AlternateURL = ''/login'',
     pg_AlternateLink = ''Log in'', pg_Email = [], pg_FirstName = [], pg_LastName = [], pg_InviteToken = invite,
     pg_InviteEmail = [], pg_InviteRole = [], pg_CSRFToken = [], pg_Error = []\<rparr>"

text \<open>What every form needs: the library, the configuration, the clocks and the random bytes.\<close>

definition shown :: "'w auth_service \<Rightarrow> go_time \<Rightarrow> random_bytes \<Rightarrow> auth_page \<Rightarrow> string \<Rightarrow> ('w auth_state, auth_response) go" where
  "shown sv clock rb page msg = ret (renderLocalAuthPage (sv_lib sv) (sv_cfg sv) clock (rb_Form rb) (page\<lparr>pg_Error := msg\<rparr>))"

definition server_error :: "'w auth_service \<Rightarrow> string \<Rightarrow> go_error \<Rightarrow> ('w auth_state, auth_response) go" where
  "server_error sv what e = ret (answer (HttpError 500 (what @ '': '' @ lib_Text (sv_lib sv) e)))"

text \<open>The end of both forms: a session, its cookie, and where to go.\<close>

definition open_session ::
  "'w auth_service \<Rightarrow> go_time \<Rightarrow> go_time \<Rightarrow> random_bytes \<Rightarrow> string \<Rightarrow> string \<Rightarrow> ('w auth_state, auth_response) go" where
  "open_session sv clock now rb userID activeOrg =
     attempt (localCreateSession (sv_lib sv) clock now (rb_Session rb) (rb_Secret rb) userID activeOrg) (\<lambda>r. case r of
         Inl e \<Rightarrow> server_error sv ''create session'' e
       | Inr v \<Rightarrow> ret (with_cookie (session_cookie (sv_cfg sv) clock v)
           (answer (Redirect (if activeOrg \<noteq> [] then ''/'' else ''/onboarding'')))))"

definition accept_and_open ::
  "'w auth_service \<Rightarrow> go_time \<Rightarrow> go_time \<Rightarrow> random_bytes \<Rightarrow> invitation_row \<Rightarrow> string \<Rightarrow> ('w auth_state, auth_response) go" where
  "accept_and_open sv clock now rb invite userID =
     attempt (localAcceptInvitationForUser now (rb_Membership rb) invite userID) (\<lambda>a. case a of
         Inl e \<Rightarrow> server_error sv ''accept invitation'' e
       | Inr u \<Rightarrow> open_session sv clock now rb userID (li_org_id invite))"

definition create_account ::
  "'w auth_service \<Rightarrow> go_time \<Rightarrow> go_time \<Rightarrow> random_bytes \<Rightarrow> auth_page \<Rightarrow> string \<Rightarrow> invitation_row option \<Rightarrow>
   ('w auth_state, auth_response) go" where
  "create_account sv clock now rb page password invite =
     (case lib_GenerateFromPassword (sv_lib sv) password of
        Inl e \<Rightarrow> server_error sv ''hash password'' e
      | Inr hash \<Rightarrow>
          attempt (CreateLocalAuthUser now (localID ''user_local_'' (rb_User rb)) (pg_Email page) (normalizeEmail (pg_Email page))
              hash (pg_FirstName page) (pg_LastName page)) (\<lambda>r. case r of
              Inl e \<Rightarrow>
                if isUniqueViolation e then shown sv clock rb page ''An account already exists for that email. Log in instead.''
                else server_error sv ''create user'' e
            | Inr user \<Rightarrow> (case invite of
                  None \<Rightarrow> open_session sv clock now rb (lu_id user) []
                | Some invite \<Rightarrow> accept_and_open sv clock now rb invite (lu_id user))))"

definition handleLocalSignupPost ::
  "'w auth_service \<Rightarrow> go_time \<Rightarrow> go_time \<Rightarrow> random_bytes \<Rightarrow> http_request \<Rightarrow> ('w auth_state, auth_response) go" where
  "handleLocalSignupPost sv clock now rb r = guarded_post sv clock r
     (let email = trim_space (rq_FormValue r ''email'');
          password = rq_FormValue r ''password'';
          inviteToken = trim_space (rq_FormValue r ''invite'');
          page = (signup_page inviteToken)\<lparr>pg_Email := email, pg_FirstName := trim_space (rq_FormValue r ''first_name''),
            pg_LastName := trim_space (rq_FormValue r ''last_name'')\<rparr>
      in if \<not> validEmail (sv_lib sv) email then shown sv clock rb page ''Enter a valid email address.''
         else if length password < localPasswordMinLen then shown sv clock rb page ''Password must be at least 8 characters.''
         else if inviteToken = [] then create_account sv clock now rb page password None
         else attempt (localInvitationFromRequest (sv_lib sv) clock inviteToken) (\<lambda>found. case found of
             Inl e \<Rightarrow> server_error sv ''load invitation'' e
           | Inr None \<Rightarrow> shown sv clock rb page ''This invitation is invalid or expired.''
           | Inr (Some invite) \<Rightarrow>
               let invited = page\<lparr>pg_InviteEmail := li_email invite, pg_InviteRole := li_role_slug invite\<rparr> in
               if normalizeEmail email \<noteq> li_email_normalized invite
               then shown sv clock rb invited ''Use the email address that was invited.''
               else create_account sv clock now rb invited password (Some invite)))"

section \<open>Log-in\<close>

definition login_page :: "string \<Rightarrow> auth_page" where
  "login_page invite = \<lparr>pg_Mode = ''login'', pg_Title = ''Log in'', pg_Eyebrow = ''Workspace sign-in'',
     pg_SubmitLabel = ''Log in'', pg_AlternateText = ''Need an account?'', pg_AlternateURL = ''/signup'',
     pg_AlternateLink = ''Sign up'', pg_Email = [], pg_FirstName = [], pg_LastName = [], pg_InviteToken = invite,
     pg_InviteEmail = [], pg_InviteRole = [], pg_CSRFToken = [], pg_Error = []\<rparr>"

text \<open>What follows once the password is right.\<close>

definition enter_org ::
  "'w auth_service \<Rightarrow> go_time \<Rightarrow> go_time \<Rightarrow> random_bytes \<Rightarrow> auth_page \<Rightarrow> user_row \<Rightarrow> string \<Rightarrow> ('w auth_state, auth_response) go" where
  "enter_org sv clock now rb page user inviteToken =
     (if inviteToken \<noteq> []
      then attempt (localInvitationFromRequest (sv_lib sv) clock inviteToken) (\<lambda>found. case found of
          Inl e \<Rightarrow> server_error sv ''load invitation'' e
        | Inr None \<Rightarrow> shown sv clock rb page ''This invitation is invalid or expired.''
        | Inr (Some invite) \<Rightarrow>
            if lu_email_normalized user \<noteq> li_email_normalized invite
            then shown sv clock rb (page\<lparr>pg_InviteEmail := li_email invite, pg_InviteRole := li_role_slug invite\<rparr>)
              ''Use the email address that was invited.''
            else accept_and_open sv clock now rb invite (lu_id user))
      else attempt (ListLocalAuthUserOrgs (lu_id user)) (\<lambda>listed. case listed of
          Inl e \<Rightarrow> server_error sv ''list orgs'' e
        | Inr orgs \<Rightarrow> open_session sv clock now rb (lu_id user) (case orgs of [] \<Rightarrow> [] | (m, g) # _ \<Rightarrow> lm_org_id m)))"

definition handleLocalLoginPost ::
  "'w auth_service \<Rightarrow> go_time \<Rightarrow> go_time \<Rightarrow> random_bytes \<Rightarrow> http_request \<Rightarrow> ('w auth_state, auth_response) go" where
  "handleLocalLoginPost sv clock now rb r = guarded_post sv clock r
     (let email = trim_space (rq_FormValue r ''email'');
          password = rq_FormValue r ''password'';
          inviteToken = trim_space (rq_FormValue r ''invite'');
          page = (login_page inviteToken)\<lparr>pg_Email := email\<rparr>
      in if \<not> validEmail (sv_lib sv) email \<or> password = [] then shown sv clock rb page ''Email or password is incorrect.''
         else attempt (GetLocalAuthUserByEmail (normalizeEmail email)) (\<lambda>found. case found of
             Inl e \<Rightarrow>
               if err_is e ErrNoRows then shown sv clock rb page ''Email or password is incorrect.''
               else server_error sv ''load user'' e
           | Inr user \<Rightarrow>
               if \<not> lib_CompareHashAndPassword (sv_lib sv) (lu_password_hash user) password
               then shown sv clock rb page ''Email or password is incorrect.''
               else enter_org sv clock now rb page user inviteToken))"

section \<open>The two pages\<close>

definition local_form ::
  "'w auth_service \<Rightarrow> go_time \<Rightarrow> random_bytes \<Rightarrow> http_request \<Rightarrow> auth_page \<Rightarrow> ('w auth_state, auth_response) go \<Rightarrow>
   ('w auth_state, auth_response) go" where
  "local_form sv clock rb r page post =
     (if rq_Method r = ''GET''
      then andthen (decorateInvitePageData (sv_lib sv) clock page) (\<lambda>decorated.
        ret (renderLocalAuthPage (sv_lib sv) (sv_cfg sv) clock (rb_Form rb) decorated))
      else if rq_Method r = ''POST'' then post
      else ret (answer (HttpError 405 ''method not allowed'')))"

definition localLoginHandler ::
  "'w auth_service \<Rightarrow> go_time \<Rightarrow> go_time \<Rightarrow> random_bytes \<Rightarrow> http_request \<Rightarrow> ('w auth_state, auth_response) go" where
  "localLoginHandler sv clock now rb r =
     local_form sv clock rb r (login_page (trim_space (rq_Query r ''invite''))) (handleLocalLoginPost sv clock now rb r)"

definition localSignupHandler ::
  "'w auth_service \<Rightarrow> go_time \<Rightarrow> go_time \<Rightarrow> random_bytes \<Rightarrow> http_request \<Rightarrow> ('w auth_state, auth_response) go" where
  "localSignupHandler sv clock now rb r =
     local_form sv clock rb r (signup_page (trim_space (rq_Query r ''invite''))) (handleLocalSignupPost sv clock now rb r)"

section \<open>The password\<close>

definition ChangePassword :: "'w auth_service \<Rightarrow> go_time \<Rightarrow> string \<Rightarrow> string \<Rightarrow> string \<Rightarrow> ('w auth_state, unit) go" where
  "ChangePassword sv now userID currentPassword newPassword =
     (if cfg_Bypass (sv_cfg sv) then ret ()
      else if \<not> IsLocalMode (sv_cfg sv)
      then fail (ErrNew ''auth: local password changes are only available in local auth mode'')
      else if length newPassword < localPasswordMinLen then fail (ErrNew ''password must be at least 8 characters'')
      else andthen (wrap_err ''get user'' (GetLocalAuthUserByID userID)) (\<lambda>user.
        if \<not> lib_CompareHashAndPassword (sv_lib sv) (lu_password_hash user) currentPassword then fail ErrCurrentPasswordIncorrect
        else andthen (wrap_err ''hash password'' (lift_result (lib_GenerateFromPassword (sv_lib sv) newPassword))) (\<lambda>hash.
          andthen (UpdateLocalAuthUserPassword now userID hash) (\<lambda>_. ret ()))))"

end
