(* ===== verification/Auth_OAuth.thy ===== *)
theory Auth_OAuth
  imports Auth_Local
begin

text \<open>
  The handlers of all modes (internal/auth/auth.go) and the signed state of an authorization with the
  hosted provider (internal/auth/oauth_state.go). Log output is left out.
\<close>

section \<open>Construction\<close>

definition redirectPath :: "auth_lib \<Rightarrow> string \<Rightarrow> go_error + string" where
  "redirectPath lib uri =
     (case lib_ParseURL lib uri of
        Inl e \<Rightarrow> Inl (ErrNew (''auth: invalid RedirectURI: '' @ lib_Text lib e))
      | Inr (host, path) \<Rightarrow> Inr (if path = [] then ''/'' else path))"

text \<open>\<open>wk\<close> is the client the provider's package makes of the key.\<close>

definition New :: "auth_lib \<Rightarrow> 'w workos_ops \<Rightarrow> auth_config \<Rightarrow> go_error + 'w auth_service" where
  "New lib wk cfg0 =
     (case normalizeAuthMode (cfg_Mode cfg0) of
        Inl e \<Rightarrow> Inl e
      | Inr mode \<Rightarrow>
          let cfg = cfg0\<lparr>cfg_Mode := mode\<rparr>;
              sv = \<lparr>sv_cfg = cfg, sv_lib = lib, sv_workos = wk, sv_statePath = ''/'', sv_stateKey = [], sv_publicHost = []\<rparr>
          in if cfg_Bypass cfg then Inr sv
             else if mode = AuthModeLocal
             then (if \<not> cfg_LocalQueries cfg then Inl (ErrNew ''auth: LocalQueries is required when Mode is local'') else Inr sv)
             else if cfg_APIKey cfg = [] \<or> cfg_ClientID cfg = [] \<or> cfg_CookiePassword cfg = [] \<or> cfg_RedirectURI cfg = []
             then Inl (ErrNew ''auth: APIKey, ClientID, CookiePassword, RedirectURI are required (set AUTH_BYPASS=1 for tests)'')
             else (case redirectPath lib (cfg_RedirectURI cfg) of
                 Inl e \<Rightarrow> Inl e
               | Inr statePath \<Rightarrow> (case lib_HKDF lib (cfg_CookiePassword cfg) oauthStateHKDFInfo of
                     Inl e \<Rightarrow> Inl e
                   | Inr key \<Rightarrow> Inr (sv\<lparr>sv_statePath := statePath, sv_stateKey := key,
                       sv_publicHost := (case lib_ParseURL lib (cfg_RedirectURI cfg) of Inl e \<Rightarrow> [] | Inr (host, path) \<Rightarrow> host)\<rparr>))))"

section \<open>The signed state\<close>

definition state_mac :: "'w auth_service \<Rightarrow> string \<Rightarrow> string" where
  "state_mac sv state = b64_encode (lib_HMAC (sv_lib sv) (sv_stateKey sv) state)"

definition generateOAuthState :: "nat list \<Rightarrow> string" where
  "generateOAuthState rnd = b64_encode rnd"

definition signOAuthState :: "'w auth_service \<Rightarrow> string \<Rightarrow> string" where
  "signOAuthState sv state = state @ ''.'' @ state_mac sv state"

text \<open>SplitN with limit 2 is a cut at the first dot.\<close>

definition verifyOAuthState :: "'w auth_service \<Rightarrow> string \<Rightarrow> string \<Rightarrow> bool" where
  "verifyOAuthState sv signed queryState =
     (case cut_at (CHR ''.'') signed of
        None \<Rightarrow> False
      | Some (state, sig) \<Rightarrow> if sig \<noteq> state_mac sv state then False else state = queryState)"

definition state_cookie :: "'w auth_service \<Rightarrow> string \<Rightarrow> http_cookie" where
  "state_cookie sv v = \<lparr>ck_Name = oauthStateCookieName, ck_Value = v, ck_Path = sv_statePath sv, ck_SameSite = SameSiteLaxMode,
     ck_Secure = cfg_CookieSecure (sv_cfg sv), ck_Expires = None, ck_MaxAge = oauthStateCookieTTL div second\<rparr>"

definition cleared_state_cookie :: "'w auth_service \<Rightarrow> http_cookie" where
  "cleared_state_cookie sv = \<lparr>ck_Name = oauthStateCookieName, ck_Value = [], ck_Path = sv_statePath sv, ck_SameSite = SameSiteLaxMode,
     ck_Secure = cfg_CookieSecure (sv_cfg sv), ck_Expires = Some 0, ck_MaxAge = - 1\<rparr>"

section \<open>Log-in and sign-up\<close>

definition redirectToAuthKitWithInvitation :: "'w auth_service \<Rightarrow> nat list \<Rightarrow> string \<Rightarrow> string \<Rightarrow> bool \<Rightarrow> auth_response" where
  "redirectToAuthKitWithInvitation sv rnd hint invitationToken promptLogin =
     (if cfg_Bypass (sv_cfg sv) then answer (Redirect ''/'')
      else let state = generateOAuthState rnd in
        with_cookie (state_cookie sv (signOAuthState sv state))
          (answer (Redirect (wk_AuthorizationURL (sv_workos sv) hint state (stringPtrIfNotEmpty invitationToken) promptLogin))))"

definition redirectToAuthKit :: "'w auth_service \<Rightarrow> nat list \<Rightarrow> string \<Rightarrow> auth_response" where
  "redirectToAuthKit sv rnd hint = redirectToAuthKitWithInvitation sv rnd hint [] False"

definition LoginHandler ::
  "'w auth_service \<Rightarrow> go_time \<Rightarrow> go_time \<Rightarrow> random_bytes \<Rightarrow> http_request \<Rightarrow> ('w auth_state, auth_response) go" where
  "LoginHandler sv clock now rb r =
     (if IsLocalMode (sv_cfg sv) then localLoginHandler sv clock now rb r
      else if rq_Query r ''error'' = ''callback_failed'' then ret (answer LoginFailedPage)
      else ret (redirectToAuthKit sv (rb_Form rb) ''sign-in''))"

definition SignupHandler ::
  "'w auth_service \<Rightarrow> go_time \<Rightarrow> go_time \<Rightarrow> random_bytes \<Rightarrow> http_request \<Rightarrow> ('w auth_state, auth_response) go" where
  "SignupHandler sv clock now rb r =
     (if IsLocalMode (sv_cfg sv) then localSignupHandler sv clock now rb r
      else ret (redirectToAuthKit sv (rb_Form rb) ''sign-up''))"

section \<open>The callback of the provider\<close>

definition isStatelessAuthKitInviteCallback :: "string \<Rightarrow> string \<Rightarrow> bool" where
  "isStatelessAuthKitInviteCallback code queryState \<longleftrightarrow> code \<noteq> [] \<and> queryState = []"

definition isEmptyAuthKitEntryCallback :: "string \<Rightarrow> string \<Rightarrow> string \<Rightarrow> string \<Rightarrow> bool" where
  "isEmptyAuthKitEntryCallback code queryState invitationToken callbackError \<longleftrightarrow>
     code = [] \<and> queryState = [] \<and> invitationToken = [] \<and> callbackError = []"

definition finishAuthCodeCallback :: "'w auth_service \<Rightarrow> go_time \<Rightarrow> string \<Rightarrow> string \<Rightarrow> ('w auth_state, auth_response) go" where
  "finishAuthCodeCallback sv clock code invitationToken =
     attempt (at_provider (wk_AuthenticateWithCode (sv_workos sv) code (stringPtrIfNotEmpty invitationToken))) (\<lambda>r. case r of
         Inl e \<Rightarrow> ret (answer (HttpError 401 (''authenticate: '' @ lib_Text (sv_lib sv) e)))
       | Inr resp \<Rightarrow> (case wk_Seal (sv_workos sv) resp (cfg_CookiePassword (sv_cfg sv)) of
             Inl e \<Rightarrow> ret (answer (HttpError 500 (''seal session: '' @ lib_Text (sv_lib sv) e)))
           | Inr sealed \<Rightarrow> ret (with_cookie (session_cookie (sv_cfg sv) clock sealed)
               (answer (Redirect (if or_empty (wr_OrganizationID resp) = [] then ''/onboarding'' else ''/''))))))"

definition and_cookie :: "http_cookie \<Rightarrow> ('s, auth_response) go \<Rightarrow> ('s, auth_response) go" where
  "and_cookie c m = andthen m (\<lambda>r. ret (with_cookie c r))"

definition CallbackHandler :: "'w auth_service \<Rightarrow> go_time \<Rightarrow> random_bytes \<Rightarrow> http_request \<Rightarrow> ('w auth_state, auth_response) go" where
  "CallbackHandler sv clock rb r =
     (let invitationToken = trim_space (rq_Query r ''invitation_token'');
          code = rq_Query r ''code''; queryState = rq_Query r ''state'';
          failed = ret (answer (Redirect ''/login?error=callback_failed''))
      in if IsLocalMode (sv_cfg sv) then ret (answer (Redirect ''/''))
         else if cfg_Bypass (sv_cfg sv) then ret (answer (Redirect ''/''))
         else if maxInvitationTokenLength < length invitationToken
         then ret (answer (HttpError 400 ''invalid invitation token''))
         else if isEmptyAuthKitEntryCallback code queryState invitationToken (rq_Query r ''error'')
         then ret (redirectToAuthKitWithInvitation sv (rb_Form rb) ''sign-in'' [] True)
         else if invitationToken \<noteq> [] \<and> queryState = []
         then ret (redirectToAuthKitWithInvitation sv (rb_Form rb) ''sign-in'' invitationToken True)
         else and_cookie (cleared_state_cookie sv)
           (let cookie = or_empty (rq_Cookie r oauthStateCookieName) in
            if cookie = []
            then (if isStatelessAuthKitInviteCallback code queryState then finishAuthCodeCallback sv clock code [] else failed)
            else if queryState = [] \<or> \<not> verifyOAuthState sv cookie queryState then failed
            else if code = [] then ret (answer (HttpError 400 ''missing code''))
            else finishAuthCodeCallback sv clock code invitationToken))"

section \<open>Log-out\<close>

definition revokeCurrentSession :: "'w auth_service \<Rightarrow> http_request \<Rightarrow> ('w auth_state, unit) go" where
  "revokeCurrentSession sv r =
     (if cfg_Bypass (sv_cfg sv) then ret ()
      else if IsLocalMode (sv_cfg sv) then localRevokeCurrentSession r
      else (case sent_session r of
          None \<Rightarrow> ret ()
        | Some cookie \<Rightarrow> (case wk_AuthenticateSession (sv_workos sv) cookie (cfg_CookiePassword (sv_cfg sv)) of
              Inl e \<Rightarrow> ret ()
            | Inr res \<Rightarrow>
                if ws_Authenticated res \<and> ws_SessionID res \<noteq> []
                then attempt (at_provider (wk_RevokeSession (sv_workos sv) (ws_SessionID res))) (\<lambda>_. ret ())
                else ret ())))"

definition LogoutHandler :: "'w auth_service \<Rightarrow> http_request \<Rightarrow> ('w auth_state, auth_response) go" where
  "LogoutHandler sv r = and_cookie (cleared_session_cookie (sv_cfg sv)) (andthen (revokeCurrentSession sv r) (\<lambda>_.
     ret (answer (Redirect
       (if cfg_Bypass (sv_cfg sv) then ''/?'' @ SignedOutParam @ ''=1''
        else if IsLocalMode (sv_cfg sv) then ''/''
        else (if cfg_CookieSecure (sv_cfg sv) then ''https'' else ''http'') @ ''://'' @
          (if sv_publicHost sv = [] then rq_Host r else sv_publicHost sv))))))"

section \<open>Middleware\<close>

definition Middleware :: "'w auth_service \<Rightarrow> go_time \<Rightarrow> http_request \<Rightarrow> ('w auth_state, auth_response) go" where
  "Middleware sv now r =
     (let cfg = sv_cfg sv in
      if cfg_Bypass cfg
      then ret (answer (PassedOn (Some \<lparr>p_UserID = cfg_BypassUser cfg, p_Email = cfg_BypassEmail cfg, p_OrgID = cfg_BypassOrg cfg,
        p_Role = cfg_BypassRole cfg, p_SessionID = ''bypass'', p_IsAPIKey = False\<rparr>)))
      else if IsLocalMode cfg then localMiddleware sv now r
      else (case sent_session r of
          None \<Rightarrow> ret (answer (PassedOn None))
        | Some cookie \<Rightarrow> (case wk_AuthenticateSession (sv_workos sv) cookie (cfg_CookiePassword cfg) of
              Inl e \<Rightarrow> ret (with_cookie (cleared_session_cookie cfg) (answer (PassedOn None)))
            | Inr res \<Rightarrow>
                if \<not> ws_Authenticated res then ret (with_cookie (cleared_session_cookie cfg) (answer (PassedOn None)))
                else let (user, email) = (case ws_User res of None \<Rightarrow> ([], []) | Some u \<Rightarrow> u) in
                  ret (answer (PassedOn (Some \<lparr>p_UserID = user, p_Email = email, p_OrgID = ws_OrganizationID res,
                    p_Role = ws_Role res, p_SessionID = ws_SessionID res, p_IsAPIKey = False\<rparr>))))))"

text \<open>What the wrapped handlers require of the context: either a redirect, or the request is passed on.\<close>

definition RequireAuth :: "principal option \<Rightarrow> auth_response" where
  "RequireAuth p = answer (if p = None then Redirect ''/login'' else PassedOn p)"

definition RequireOrg :: "principal option \<Rightarrow> auth_response" where
  "RequireOrg p =
     (case p of
        None \<Rightarrow> answer (Redirect ''/login'')
      | Some q \<Rightarrow> if \<not> HasOrg q then answer (Redirect ''/onboarding'') else answer (PassedOn p))"

text \<open>The cookies it sets.\<close>

definition SwitchOrg :: "'w auth_service \<Rightarrow> go_time \<Rightarrow> go_time \<Rightarrow> http_request \<Rightarrow> string \<Rightarrow> ('w auth_state, http_cookie list) go" where
  "SwitchOrg sv clock now r org =
     (let cfg = sv_cfg sv; set_cookie = (\<lambda>v. ret [session_cookie cfg clock v]) in
      if cfg_Bypass cfg then ret []
      else if IsLocalMode cfg then andthen (localSwitchOrg sv now r org) set_cookie
      else (case rq_Cookie r SessionCookieName of
          None \<Rightarrow> fail (ErrNew ''http: named cookie not present'')
        | Some cookie \<Rightarrow>
            andthen (lift_result (wk_Unseal (sv_workos sv) cookie (cfg_CookiePassword cfg))) (\<lambda>refresh.
              andthen (at_provider (wk_AuthenticateWithRefreshToken (sv_workos sv) refresh org)) (\<lambda>resp.
                andthen (lift_result (wk_Seal (sv_workos sv) resp (cfg_CookiePassword cfg))) set_cookie))))"

end
