(* ===== verification/Auth_Invariant.thy ===== *)
theory Auth_Invariant
  imports Auth_OAuth
begin

text \<open>
  What every operation keeps of the tables of the local accounts: keys, addresses and token hashes are
  distinct, there is one membership for a user and an organisation, the columns are constrained and
  every reference has its row.
\<close>

section \<open>The invariant\<close>

definition users_ok :: "user_row list \<Rightarrow> bool" where
  "users_ok us \<longleftrightarrow> distinct (map lu_id us) \<and> distinct (map lu_email_normalized us)"

definition members_ok :: "string set \<Rightarrow> string set \<Rightarrow> membership_row list \<Rightarrow> bool" where
  "members_ok U G ms \<longleftrightarrow> distinct (map lm_id ms) \<and> distinct (map (\<lambda>m. (lm_user_id m, lm_org_id m)) ms) \<and>
     (\<forall>m \<in> set ms. lm_role_slug m \<in> set roles \<and> lm_user_id m \<in> U \<and> lm_org_id m \<in> G)"

definition invitations_ok :: "string set \<Rightarrow> string set \<Rightarrow> invitation_row list \<Rightarrow> bool" where
  "invitations_ok U G is \<longleftrightarrow> distinct (map li_id is) \<and> distinct (map li_token_hash is) \<and>
     (\<forall>i \<in> set is. li_role_slug i \<in> set roles \<and> li_expires_at i \<noteq> None \<and> li_org_id i \<in> G \<and> (\<forall>u. li_created_by i = Some u \<longrightarrow> u \<in> U))"

definition sessions_ok :: "string set \<Rightarrow> string set \<Rightarrow> session_row list \<Rightarrow> bool" where
  "sessions_ok U G ss \<longleftrightarrow> distinct (map ls_id ss) \<and> distinct (map ls_token_hash ss) \<and>
     (\<forall>x \<in> set ss. ls_expires_at x \<noteq> None \<and> ls_user_id x \<in> U \<and> (\<forall>g. ls_active_org_id x = Some g \<longrightarrow> g \<in> G))"

definition user_ids :: "'w auth_state \<Rightarrow> string set" where
  "user_ids s = lu_id ` set (local_auth_users s)"

definition org_ids :: "'w auth_state \<Rightarrow> string set" where
  "org_ids s = lo_id ` set (local_auth_orgs s)"

definition auth_ok :: "'w auth_state \<Rightarrow> bool" where
  "auth_ok s \<longleftrightarrow> users_ok (local_auth_users s) \<and> distinct (map lo_id (local_auth_orgs s)) \<and>
     members_ok (user_ids s) (org_ids s) (local_auth_memberships s) \<and>
     invitations_ok (user_ids s) (org_ids s) (local_auth_invitations s) \<and>
     sessions_ok (user_ids s) (org_ids s) (local_auth_sessions s)"

lemmas auth_ok_defs = auth_ok_def users_ok_def members_ok_def invitations_ok_def sessions_ok_def user_ids_def org_ids_def

lemma auth_ok_untouched [simp]:
  "auth_ok (s\<lparr>localRate := x\<rparr>) = auth_ok s" "auth_ok (s\<lparr>multiOrgCache := y\<rparr>) = auth_ok s" "auth_ok (s\<lparr>provider := z\<rparr>) = auth_ok s"
  by (simp_all add: auth_ok_def user_ids_def org_ids_def)

section \<open>Statements on a table\<close>

text \<open>With distinct keys an update of one row is a map over the table.\<close>

lemma update_is_map:
  assumes "distinct (map key t)" and "find (\<lambda>r. key r = k) t = Some r"
  shows "replace_rows (\<lambda>r. key r = k) (f r) t = map (\<lambda>x. if key x = k then f x else x) t"
  using assms by (induction t) (auto simp: replace_rows_def image_iff split: if_splits)

lemma find_key_unique:
  "distinct (map key t) \<Longrightarrow> find (\<lambda>r. key r = k) t = Some r \<Longrightarrow> x \<in> set t \<Longrightarrow> key x = k \<Longrightarrow> x = r"
  by (induction t) (auto simp: image_iff split: if_splits)

lemma keeps_update_row:
  assumes "\<And>s. P s \<Longrightarrow> distinct (map key (tab s))"
    and "\<And>s. P s \<Longrightarrow> (\<forall>x \<in> set (tab s). key x = k \<longrightarrow> check_row chk s (f x) = None) \<Longrightarrow>
      P (upd (map (\<lambda>x. if key x = k then f x else x)) s)"
    and upd: "\<And>g h s. g (tab s) = h (tab s) \<Longrightarrow> upd g s = upd h s"
  shows "keeps_inv P (sql_update tab upd chk (\<lambda>r. key r = k) f)"
proof (rule keeps_invI)
  fix s r t assume s: "P s" and run: "sql_update tab upd chk (\<lambda>r. key r = k) f s = (r, t)"
  show "P t"
  proof (cases "find (\<lambda>r. key r = k) (tab s)")
    case None
    with run s show ?thesis by (simp add: sql_update_def)
  next
    case (Some x)
    have eq: "upd (replace_rows (\<lambda>r. key r = k) (f x)) s = upd (map (\<lambda>x. if key x = k then f x else x)) s"
      using update_is_map [OF assms(1) [OF s] Some] by (rule upd)
    show ?thesis
    proof (cases "check_row chk s (f x)")
      case None
      then have "\<forall>y \<in> set (tab s). key y = k \<longrightarrow> check_row chk s (f y) = None"
        using find_key_unique [OF assms(1) [OF s] Some] by auto
      then have "P (upd (map (\<lambda>x. if key x = k then f x else x)) s)" by (rule assms(2) [OF s])
      moreover have "t = upd (replace_rows (\<lambda>r. key r = k) (f x)) s"
        using run Some None by (simp add: sql_update_def)
      ultimately show ?thesis using eq by simp
    next
      case (Some e)
      with \<open>find _ _ = Some x\<close> run s show ?thesis by (simp add: sql_update_def)
    qed
  qed
qed

lemma keeps_update_all:
  assumes "\<And>s. P s \<Longrightarrow> P (upd (map (\<lambda>x. if p x then f x else x)) s)"
  shows "keeps_inv P (sql_update_all tab upd chk p f)"
  using assms by (auto simp: keeps_inv_def sql_update_all_def split: option.splits)

lemma keeps_insert_row:
  assumes "\<And>s. P s \<Longrightarrow> find p (tab s) = None \<Longrightarrow> check_row chk s x = None \<Longrightarrow> P (upd (\<lambda>t. t @ [x]) s)"
  shows "keeps_inv P (sql_insert tab upd chk p x)"
  using assms by (auto simp: keeps_inv_def sql_insert_def check_row_def split: option.splits)

lemma keeps_delete_rows:
  assumes "\<And>s. P s \<Longrightarrow> P (upd (filter (\<lambda>r. \<not> p r)) s)"
  shows "keeps_inv P (sql_delete tab upd p)"
  using assms by (auto simp: keeps_inv_def sql_delete_def)

lemma keeps_auth_get [keeps, simp]: "keeps_inv P (sql_get tab p)"
  by (auto simp: keeps_inv_def sql_get_def split: option.splits)

lemma keeps_read: "(\<And>s. snd (m s) = s) \<Longrightarrow> keeps_inv P m"
  by (simp add: keeps_inv_def)

section \<open>Each query\<close>

lemma image_without [simp]: "key ` {x \<in> A. key x \<noteq> i} = key ` A - {i}"
  by auto

lemma auth_keys:
  assumes "auth_ok s"
  shows "distinct (map lu_id (local_auth_users s))" "distinct (map lo_id (local_auth_orgs s))"
    "distinct (map lm_id (local_auth_memberships s))" "distinct (map li_id (local_auth_invitations s))"
    "distinct (map ls_id (local_auth_sessions s))" "distinct (map (\<lambda>m. (lm_user_id m, lm_org_id m)) (local_auth_memberships s))"
  using assms by (simp_all add: auth_ok_defs)

lemma table_update_cong:
  fixes s :: "'w auth_state"
  shows "g1 (local_auth_users s) = h1 (local_auth_users s) \<Longrightarrow> local_auth_users_update g1 s = local_auth_users_update h1 s"
    "g2 (local_auth_orgs s) = h2 (local_auth_orgs s) \<Longrightarrow> local_auth_orgs_update g2 s = local_auth_orgs_update h2 s"
    "g3 (local_auth_memberships s) = h3 (local_auth_memberships s) \<Longrightarrow> local_auth_memberships_update g3 s = local_auth_memberships_update h3 s"
    "g4 (local_auth_invitations s) = h4 (local_auth_invitations s) \<Longrightarrow> local_auth_invitations_update g4 s = local_auth_invitations_update h4 s"
    "g5 (local_auth_sessions s) = h5 (local_auth_sessions s) \<Longrightarrow> local_auth_sessions_update g5 s = local_auth_sessions_update h5 s"
  by (cases s; simp)+

lemma distinct_mapped: "(\<And>x. x \<in> set xs \<Longrightarrow> key (g x) = key x) \<Longrightarrow> distinct (map key (map g xs)) = distinct (map key xs)"
  by (simp add: comp_def cong: map_cong)

lemma users_mapped:
  assumes "auth_ok s" and "\<And>x. lu_id (g x) = lu_id x" "\<And>x. lu_email_normalized (g x) = lu_email_normalized x"
  shows "auth_ok (local_auth_users_update (map g) s)"
  using assms by (simp add: auth_ok_def users_ok_def user_ids_def org_ids_def comp_def image_image)

lemma orgs_mapped:
  assumes "auth_ok s" and "\<And>x. lo_id (g x) = lo_id x"
  shows "auth_ok (local_auth_orgs_update (map g) s)"
  using assms by (simp add: auth_ok_def user_ids_def org_ids_def comp_def image_image)

lemma memberships_mapped:
  assumes "auth_ok s" and "\<And>x. lm_id (g x) = lm_id x" "\<And>x. lm_user_id (g x) = lm_user_id x" "\<And>x. lm_org_id (g x) = lm_org_id x"
    and "\<And>x. x \<in> set (local_auth_memberships s) \<Longrightarrow> lm_role_slug (g x) \<in> set roles"
  shows "auth_ok (local_auth_memberships_update (map g) s)"
  using assms by (simp add: auth_ok_def members_ok_def user_ids_def org_ids_def comp_def image_image)

lemma invitations_mapped:
  assumes "auth_ok s" and "\<And>x. li_id (g x) = li_id x" "\<And>x. li_token_hash (g x) = li_token_hash x" "\<And>x. li_org_id (g x) = li_org_id x"
    "\<And>x. li_role_slug (g x) = li_role_slug x" "\<And>x. li_expires_at (g x) = li_expires_at x" "\<And>x. li_created_by (g x) = li_created_by x"
  shows "auth_ok (local_auth_invitations_update (map g) s)"
  using assms by (simp add: auth_ok_def invitations_ok_def user_ids_def org_ids_def comp_def image_image)

lemma sessions_mapped:
  assumes "auth_ok s" and "\<And>x. ls_id (g x) = ls_id x" "\<And>x. ls_token_hash (g x) = ls_token_hash x"
    "\<And>x. ls_user_id (g x) = ls_user_id x" "\<And>x. ls_expires_at (g x) = ls_expires_at x"
    and "\<And>x org'. x \<in> set (local_auth_sessions s) \<Longrightarrow> ls_active_org_id (g x) = Some org' \<Longrightarrow> org' \<in> org_ids s"
  shows "auth_ok (local_auth_sessions_update (map g) s)"
  using assms by (simp add: auth_ok_def sessions_ok_def user_ids_def org_ids_def comp_def image_image)

lemma keeps_user_queries [keeps]:
  "keeps_inv auth_ok (UpdateLocalAuthUserPassword now i h)" "keeps_inv auth_ok (UpdateLocalAuthUserProfile now i a b)"
  "keeps_inv auth_ok (GetLocalAuthUserByID i)" "keeps_inv auth_ok (GetLocalAuthUserByEmail e)"
proof -
  show "keeps_inv auth_ok (UpdateLocalAuthUserPassword now i h)"
    unfolding UpdateLocalAuthUserPassword_def by (rule keeps_update_all) (simp add: users_mapped)
  show "keeps_inv auth_ok (UpdateLocalAuthUserProfile now i a b)"
    unfolding UpdateLocalAuthUserProfile_def
    by (rule keeps_update_row [OF auth_keys(1) _ table_update_cong(1)]) (simp_all add: users_mapped)
qed (simp_all add: GetLocalAuthUserByID_def GetLocalAuthUserByEmail_def)

lemma keeps_CreateLocalAuthUser [keeps]: "keeps_inv auth_ok (CreateLocalAuthUser now i e n h a b)"
  unfolding CreateLocalAuthUser_def
  by (rule keeps_insert_row)
    (auto simp: auth_ok_defs find_None_iff check_row_None user_constraints_def list_ex_iff split: if_splits)

lemma keeps_DeleteLocalAuthUser [keeps]: "keeps_inv auth_ok (DeleteLocalAuthUser i)"
  by (rule keeps_invI) (auto simp: DeleteLocalAuthUser_def auth_ok_defs distinct_map_filter comp_def if_distrib cong: if_cong
    split: if_splits)

lemma keeps_org_queries [keeps]:
  "keeps_inv auth_ok (GetLocalAuthOrg i)" "keeps_inv auth_ok (UpdateLocalAuthOrgName now i n)"
  unfolding UpdateLocalAuthOrgName_def
  by (simp add: GetLocalAuthOrg_def, rule keeps_update_row [OF auth_keys(2) _ table_update_cong(2)]) (simp_all add: orgs_mapped)

lemma keeps_CreateLocalAuthOrg [keeps]: "keeps_inv auth_ok (CreateLocalAuthOrg now i n)"
  unfolding CreateLocalAuthOrg_def
  by (rule keeps_insert_row) (auto simp: auth_ok_defs find_None_iff)

lemma keeps_DeleteLocalAuthOrg [keeps]: "keeps_inv auth_ok (DeleteLocalAuthOrg i)"
  by (rule keeps_invI) (auto simp: DeleteLocalAuthOrg_def auth_ok_defs distinct_map_filter comp_def if_distrib cong: if_cong
    split: if_splits)

lemma check_membership:
  "check_row membership_constraints s r = None \<longleftrightarrow> lm_role_slug r \<in> set roles \<and> user_exists s (lm_user_id r) \<and>
     org_exists s (lm_org_id r) \<and>
     (\<forall>x \<in> set (local_auth_memberships s). lm_id x = lm_id r \<longrightarrow> lm_user_id x = lm_user_id r \<and> lm_org_id x = lm_org_id r)"
  by (auto simp: check_row_None membership_constraints_def list_ex_iff)

lemma members_ok_added:
  assumes "members_ok U G ms" and "lm_role_slug r \<in> set roles" "lm_user_id r \<in> U" "lm_org_id r \<in> G"
    and "\<And>x. x \<in> set ms \<Longrightarrow> lm_id x \<noteq> lm_id r" and "\<And>x. x \<in> set ms \<Longrightarrow> (lm_user_id x, lm_org_id x) \<noteq> (lm_user_id r, lm_org_id r)"
  shows "members_ok U G (ms @ [r])"
proof -
  have "lm_id r \<notin> lm_id ` set ms" using assms(5) by force
  moreover have "(lm_user_id r, lm_org_id r) \<notin> (\<lambda>m. (lm_user_id m, lm_org_id m)) ` set ms"
    using assms(6) by force
  ultimately show ?thesis using assms(1-4) by (simp add: members_ok_def)
qed

lemma membership_added:
  assumes "auth_ok s" and "check_row membership_constraints s r = None"
    and "\<And>x. x \<in> set (local_auth_memberships s) \<Longrightarrow> (lm_user_id x, lm_org_id x) \<noteq> (lm_user_id r, lm_org_id r)"
  shows "auth_ok (local_auth_memberships_update (\<lambda>t. t @ [r]) s)"
proof -
  have "members_ok (user_ids s) (org_ids s) (local_auth_memberships s @ [r])"
    using assms(2,3) by (intro members_ok_added [OF conjunct1 [OF conjunct2 [OF conjunct2 [OF assms(1) [unfolded auth_ok_def]]]]])
      (auto simp: check_membership user_exists_def org_exists_def user_ids_def org_ids_def)
  with assms(1) show ?thesis by (simp add: auth_ok_def user_ids_def org_ids_def)
qed

lemma keeps_CreateLocalAuthMembership [keeps]: "keeps_inv auth_ok (CreateLocalAuthMembership now i u g role)"
proof (rule keeps_invI)
  fix s :: "'w auth_state" and r t
  let ?p = "\<lambda>r. lm_user_id r = u \<and> lm_org_id r = g"
  let ?key = "\<lambda>m. (lm_user_id m, lm_org_id m)"
  let ?f = "\<lambda>r. r\<lparr>lm_role_slug := role, lm_updated_at := Some now\<rparr>"
  assume s: "auth_ok s" and run: "CreateLocalAuthMembership now i u g role s = (r, t)"
  from run [unfolded CreateLocalAuthMembership_def] show "auth_ok t"
  proof (cases rule: memberships.upsert_cases)
    case unchanged
    with s show ?thesis by simp
  next
    case inserted
    with s show ?thesis using membership_added [of s] by (auto simp: find_None_iff)
  next
    case (updated x)
    from updated(1) have f: "find (\<lambda>r. ?key r = (u, g)) (local_auth_memberships s) = Some x" by simp
    have "role \<in> set roles" using updated(3) by (simp add: check_membership)
    then have "auth_ok (local_auth_memberships_update (map (\<lambda>x. if ?key x = (u, g) then ?f x else x)) s)"
      using s by (intro memberships_mapped) (auto simp: auth_ok_defs)
    moreover have "replace_rows ?p (?f x) (local_auth_memberships s) =
        map (\<lambda>x. if ?key x = (u, g) then ?f x else x) (local_auth_memberships s)"
      using update_is_map [OF auth_keys(6) [OF s] f, of ?f] by simp
    ultimately show ?thesis using updated(5) table_update_cong(3) [of "replace_rows ?p (?f x)" s] by simp
  qed
qed

lemma keeps_membership_queries [keeps]:
  "keeps_inv auth_ok (GetLocalAuthMembership i)" "keeps_inv auth_ok (GetLocalAuthMembershipForUserOrg u g)"
  "keeps_inv auth_ok (CountLocalAuthAdmins g)" "keeps_inv auth_ok (CountLocalAuthUserOrgs u)"
  "keeps_inv auth_ok (ListLocalAuthMembers g)" "keeps_inv auth_ok (ListLocalAuthUserOrgs u)"
  "keeps_inv auth_ok (FindLocalAuthOrgUserByEmail g e)"
  by (simp_all add: GetLocalAuthMembership_def GetLocalAuthMembershipForUserOrg_def CountLocalAuthAdmins_def CountLocalAuthUserOrgs_def
    ListLocalAuthMembers_def ListLocalAuthUserOrgs_def FindLocalAuthOrgUserByEmail_def keeps_inv_def sql_get_def split: option.splits list.splits)

lemma keeps_UpdateLocalAuthMembershipRole [keeps]: "keeps_inv auth_ok (UpdateLocalAuthMembershipRole now i role)"
  unfolding UpdateLocalAuthMembershipRole_def
  by (rule keeps_update_row [OF auth_keys(3) _ table_update_cong(3)], assumption, intro memberships_mapped)
    (auto simp: check_membership auth_ok_defs)

lemma keeps_DeleteLocalAuthMembership [keeps]: "keeps_inv auth_ok (DeleteLocalAuthMembership i)"
  unfolding DeleteLocalAuthMembership_def
  by (rule keeps_delete_rows) (auto simp: auth_ok_defs distinct_map_filter)

lemma check_invitation:
  "check_row invitation_constraints s r = None \<longleftrightarrow> li_expires_at r \<noteq> None \<and> li_role_slug r \<in> set roles \<and> org_exists s (li_org_id r) \<and>
     (\<forall>x \<in> set (local_auth_invitations s). li_token_hash x = li_token_hash r \<longrightarrow> li_id x = li_id r) \<and>
     (\<forall>u. li_created_by r = Some u \<longrightarrow> user_exists s u)"
  by (auto simp: check_row_None invitation_constraints_def list_ex_iff split: option.splits)

lemma keeps_CreateLocalAuthInvitation [keeps]: "keeps_inv auth_ok (CreateLocalAuthInvitation now i g e n role h x c)"
  unfolding CreateLocalAuthInvitation_def
  by (rule keeps_insert_row)
    (auto simp: auth_ok_defs find_None_iff check_row_None invitation_constraints_def list_ex_iff user_exists_def org_exists_def
      split: if_splits option.splits)

lemma keeps_invitation_queries [keeps]:
  "keeps_inv auth_ok (ListLocalAuthInvitations now g)" "keeps_inv auth_ok (GetLocalAuthInvitationByTokenHash h)"
  "keeps_inv auth_ok (GetLocalAuthInvitation i)" "keeps_inv auth_ok (AcceptLocalAuthInvitation now i)"
  "keeps_inv auth_ok (RevokeLocalAuthInvitation now i g)"
  unfolding AcceptLocalAuthInvitation_def RevokeLocalAuthInvitation_def
  by (simp_all add: ListLocalAuthInvitations_def GetLocalAuthInvitationByTokenHash_def GetLocalAuthInvitation_def
    keeps_read keeps_update_all invitations_mapped)

lemma keeps_CreateLocalAuthSession [keeps]: "keeps_inv auth_ok (CreateLocalAuthSession now i u h g x)"
  unfolding CreateLocalAuthSession_def
  by (rule keeps_insert_row)
    (auto simp: auth_ok_defs find_None_iff check_row_None session_constraints_def list_ex_iff user_exists_def org_exists_def
      split: if_splits option.splits)

lemma check_session:
  "check_row session_constraints s r = None \<longleftrightarrow> ls_expires_at r \<noteq> None \<and> user_exists s (ls_user_id r) \<and>
     (\<forall>x \<in> set (local_auth_sessions s). ls_token_hash x = ls_token_hash r \<longrightarrow> ls_id x = ls_id r) \<and>
     (\<forall>g. ls_active_org_id r = Some g \<longrightarrow> org_exists s g)"
  by (auto simp: check_row_None session_constraints_def list_ex_iff split: option.splits)

lemma GetLocalAuthSession_reads: "snd (GetLocalAuthSession now i s) = s"
  by (simp add: GetLocalAuthSession_def split: option.splits)

lemma exists_iff: "user_exists s i \<longleftrightarrow> i \<in> user_ids s" "org_exists s i \<longleftrightarrow> i \<in> org_ids s"
  by (simp_all add: user_exists_def org_exists_def user_ids_def org_ids_def)

lemma active_org_known:
  "auth_ok s \<Longrightarrow> x \<in> set (local_auth_sessions s) \<Longrightarrow> ls_active_org_id x = Some g \<Longrightarrow> g \<in> org_ids s"
  by (simp add: auth_ok_def sessions_ok_def)

lemma keeps_UpdateLocalAuthSessionOrg [keeps]: "keeps_inv auth_ok (UpdateLocalAuthSessionOrg now i g)"
  unfolding UpdateLocalAuthSessionOrg_def
  by (rule keeps_update_row [OF auth_keys(5) _ table_update_cong(5)], assumption, intro sessions_mapped)
    (auto simp: check_session exists_iff active_org_known split: if_splits)

lemma keeps_session_queries [keeps]:
  "keeps_inv auth_ok (GetLocalAuthSession now i)" "keeps_inv auth_ok (TouchLocalAuthSession now i)"
  "keeps_inv auth_ok (DeleteLocalAuthSession i)" "keeps_inv auth_ok (DeleteLocalAuthSessionsForUser u)"
  "keeps_inv auth_ok (DeleteExpiredLocalAuthSessions_q now)"
proof -
  have "keeps_inv auth_ok (sql_delete local_auth_sessions local_auth_sessions_update p)" for p
    by (rule keeps_delete_rows) (auto simp: auth_ok_defs distinct_map_filter)
  then show "keeps_inv auth_ok (DeleteLocalAuthSession i)" "keeps_inv auth_ok (DeleteLocalAuthSessionsForUser u)"
    "keeps_inv auth_ok (DeleteExpiredLocalAuthSessions_q now)"
    by (simp_all add: DeleteLocalAuthSession_def DeleteLocalAuthSessionsForUser_def DeleteExpiredLocalAuthSessions_q_def)
  show "keeps_inv auth_ok (TouchLocalAuthSession now i)"
    unfolding TouchLocalAuthSession_def by (rule keeps_update_all, rule sessions_mapped) (auto simp: auth_ok_defs split: if_splits)
qed (simp add: keeps_read GetLocalAuthSession_reads)

section \<open>Each operation\<close>

lemma keeps_at_provider [keeps]: "keeps_inv auth_ok (at_provider m)"
  by (simp add: keeps_inv_def at_provider_def split: prod.splits)

lemma keeps_iterate [keeps]: "(\<And>xs e. keeps_inv auth_ok (k xs e)) \<Longrightarrow> keeps_inv auth_ok (iterate it k)"
  by (simp add: keeps_inv_def iterate_def split: prod.splits)

lemma keeps_auth_pair [keeps]: "(\<And>a b. x = (a, b) \<Longrightarrow> keeps_inv P (f a b)) \<Longrightarrow> keeps_inv P (case x of (a, b) \<Rightarrow> f a b)"
  by (cases x) simp

lemma keeps_resolve [keeps]: "keeps_inv auth_ok (resolveOrgMember sv m g)" "keeps_inv auth_ok (countAdmins sv g)"
  unfolding resolveOrgMember_def countAdmins_def by (intro keeps | simp)+

lemma keeps_delete_each: "(\<And>u. keeps_inv P (del u)) \<Longrightarrow> keeps_inv P (delete_each msg del us)"
  by (induction us) (auto intro!: keeps)

lemma keeps_member_parts [keeps]:
  "keeps_inv auth_ok (removal_checks sv m g u)" "keeps_inv auth_ok (role_checks sv m g u role)"
  "keeps_inv auth_ok (removal_write sv m)" "keeps_inv auth_ok (role_write sv now m role)"
  unfolding removal_checks_def role_checks_def removal_write_def role_write_def last_admin_check_def
  by (intro keeps)+

lemma keeps_members [keeps]:
  "keeps_inv auth_ok (RemoveMember sv m g u)" "keeps_inv auth_ok (UpdateMemberRole sv now m g u role)"
  "keeps_inv auth_ok (SendInvitation sv clock now r1 r2 e g role u)" "keeps_inv auth_ok (RevokeInvitation sv now i g)"
  "keeps_inv auth_ok (DeleteUsers sv us)" "keeps_inv auth_ok (UpdateProfile sv now u a b)"
  unfolding RemoveMember_def UpdateMemberRole_def SendInvitation_def localSendInvitation_def RevokeInvitation_def DeleteUsers_def
    UpdateProfile_def
  by (intro keeps keeps_delete_each | simp only: Let_def prod.case_eq_if)+

lemma keeps_orgs [keeps]:
  "keeps_inv auth_ok (CreateOrganization sv now rnd n)" "keeps_inv auth_ok (UpdateOrganizationName sv now g n)"
  "keeps_inv auth_ok (DeleteOrganization sv g)" "keeps_inv auth_ok (AddUserToOrganization sv now rnd u g role)"
  unfolding CreateOrganization_def UpdateOrganizationName_def DeleteOrganization_def AddUserToOrganization_def localCreateOrganization_def
    localUpdateOrganizationName_def localDeleteOrganization_def localAddUserToOrganization_def
  by (intro keeps | simp only: Let_def)+

lemma keeps_local [keeps]:
  "keeps_inv auth_ok (localInvitationFromRequest lib clock token)" "keeps_inv auth_ok (localAcceptInvitationForUser now rnd i u)"
  "keeps_inv auth_ok (localCreateSession lib clock now r1 r2 u g)" "keeps_inv auth_ok (localPrincipalFromCookie lib now v)"
  "keeps_inv auth_ok (localRevokeCurrentSession r)"
  unfolding localInvitationFromRequest_def localAcceptInvitationForUser_def localCreateSession_def localPrincipalFromCookie_def
    localRevokeCurrentSession_def
  by (intro keeps | simp only: Let_def)+

lemma keeps_guarded [keeps]: "keeps_inv auth_ok m \<Longrightarrow> keeps_inv auth_ok (guarded_post sv clock r m)"
proof -
  have "keeps_inv auth_ok (allowLocalAuthAttempt sv clock r)"
    by (simp add: keeps_inv_def allowLocalAuthAttempt_def Let_def split: prod.splits)
  then show "keeps_inv auth_ok m \<Longrightarrow> ?thesis" unfolding guarded_post_def by (intro keeps | simp)+
qed

lemma keeps_form_steps [keeps]:
  "keeps_inv auth_ok (shown sv clock rb page msg)" "keeps_inv auth_ok (server_error sv what e)"
  "keeps_inv auth_ok (open_session sv clock now rb u g)" "keeps_inv auth_ok (accept_and_open sv clock now rb i u)" "keeps_inv auth_ok (decorateInvitePageData lib clock page)"
  unfolding shown_def server_error_def accept_and_open_def open_session_def decorateInvitePageData_def by (intro keeps)+

lemma keeps_enter [keeps]:
  "keeps_inv auth_ok (create_account sv clock now rb page pw invite)" "keeps_inv auth_ok (enter_org sv clock now rb page user token)"
  unfolding create_account_def enter_org_def by (intro keeps)+

lemma keeps_handlers [keeps]:
  "keeps_inv auth_ok (handleLocalSignupPost sv clock now rb r)" "keeps_inv auth_ok (handleLocalLoginPost sv clock now rb r)"
  unfolding handleLocalSignupPost_def handleLocalLoginPost_def by (intro keeps | simp only: Let_def)+

lemma keeps_auth_handlers [keeps]:
  "keeps_inv auth_ok (LoginHandler sv clock now rb r)" "keeps_inv auth_ok (SignupHandler sv clock now rb r)"
  unfolding LoginHandler_def SignupHandler_def localLoginHandler_def localSignupHandler_def local_form_def by (intro keeps)+

lemma keeps_sessions [keeps]:
  "keeps_inv auth_ok (Middleware sv now r)" "keeps_inv auth_ok (LogoutHandler sv r)"
  "keeps_inv auth_ok (CallbackHandler sv clock rb r)" "keeps_inv auth_ok (SwitchOrg sv clock now r g)"
  "keeps_inv auth_ok (DeleteExpiredLocalAuthSessions sv now)" "keeps_inv auth_ok (ChangePassword sv now u old new)"
  unfolding Middleware_def localMiddleware_def LogoutHandler_def and_cookie_def revokeCurrentSession_def CallbackHandler_def
    finishAuthCodeCallback_def SwitchOrg_def localSwitchOrg_def DeleteExpiredLocalAuthSessions_def ChangePassword_def
  by (intro keeps | simp only: Let_def)+

section \<open>Runs of the service\<close>

text \<open>
  One request or call that writes, with whatever clock, random bytes and arguments; the listings only read.
\<close>

inductive auth_step :: "'w auth_service \<Rightarrow> 'w auth_state \<Rightarrow> 'w auth_state \<Rightarrow> bool" for sv where
  login: "LoginHandler sv clock now rb r s = (x, t) \<Longrightarrow> auth_step sv s t"
| signup: "SignupHandler sv clock now rb r s = (x, t) \<Longrightarrow> auth_step sv s t"
| callback: "CallbackHandler sv clock rb r s = (x, t) \<Longrightarrow> auth_step sv s t"
| logout: "LogoutHandler sv r s = (x, t) \<Longrightarrow> auth_step sv s t"
| request: "Middleware sv now r s = (x, t) \<Longrightarrow> auth_step sv s t"
| switch: "SwitchOrg sv clock now r g s = (c, t) \<Longrightarrow> auth_step sv s t"
| expire: "DeleteExpiredLocalAuthSessions sv now s = (u, t) \<Longrightarrow> auth_step sv s t"
| password: "ChangePassword sv now i old new s = (u, t) \<Longrightarrow> auth_step sv s t"
| profile: "UpdateProfile sv now i a b s = (u, t) \<Longrightarrow> auth_step sv s t"
| remove: "RemoveMember sv m g caller s = (u, t) \<Longrightarrow> auth_step sv s t"
| role: "UpdateMemberRole sv now m g caller role s = (u, t) \<Longrightarrow> auth_step sv s t"
| invite: "SendInvitation sv clock now r1 r2 e g role caller s = (y, t) \<Longrightarrow> auth_step sv s t"
| revoke: "RevokeInvitation sv now i g s = (u, t) \<Longrightarrow> auth_step sv s t"
| add: "AddUserToOrganization sv now rnd i g role s = (u, t) \<Longrightarrow> auth_step sv s t"
| new_org: "CreateOrganization sv now rnd name s = (y, t) \<Longrightarrow> auth_step sv s t"
| rename: "UpdateOrganizationName sv now g name s = (u, t) \<Longrightarrow> auth_step sv s t"
| drop_org: "DeleteOrganization sv g s = (u, t) \<Longrightarrow> auth_step sv s t"
| drop_users: "DeleteUsers sv us s = (u, t) \<Longrightarrow> auth_step sv s t"

lemma auth_step_keeps: "auth_step sv s t \<Longrightarrow> auth_ok s \<Longrightarrow> auth_ok t"
  by (induction rule: auth_step.induct) (erule (1) keeps_invD [rotated], rule keeps)+

end
