(* ===== verification/Auth_Laws.thy ===== *)
theory Auth_Laws
  imports Auth_Invariant
begin

text \<open>
  What the operations of the local accounts do, as case rules: the guards of the forms, the acceptance
  of an invitation, the opening and reading of a session, and the limit of attempts.
\<close>

section \<open>Guards\<close>

lemma guarded_cases:
  assumes "guarded_post sv clock r m s = (x, t)"
  obtains (refused) code e where "x = Inr (answer (HttpError code e))" "\<exists>rate. t = s\<lparr>localRate := rate\<rparr>"
  | (passed) rate where "m (s\<lparr>localRate := rate\<rparr>) = (x, t)" "requireLocalSameOrigin (sv_lib sv) r = None" "requireLocalAuthCSRF r = None"
proof -
  have same: "s = s\<lparr>localRate := localRate s\<rparr>" by simp
  consider (stop) code e where "x = Inr (answer (HttpError code e))" "t = s"
    | (late) "requireLocalSameOrigin (sv_lib sv) r = None" "requireLocalAuthCSRF r = None"
      "andthen (allowLocalAuthAttempt sv clock r) (\<lambda>allowed. if \<not> allowed
         then ret (answer (HttpError 429 ''too many attempts; wait a minute and try again'')) else m) s = (x, t)"
    using assms by (auto simp: guarded_post_def split: option.splits if_splits)
  then show thesis
  proof cases
    case stop
    then show ?thesis using refused same by metis
  next
    case late
    obtain allowed rate where "allowLocalAuthAttempt sv clock r s = (Inr allowed, s\<lparr>localRate := rate\<rparr>)"
      by (simp add: allowLocalAuthAttempt_def Let_def prod.case_eq_if)
    with late(3) have "(if \<not> allowed then ret (answer (HttpError 429 ''too many attempts; wait a minute and try again'')) else m)
        (s\<lparr>localRate := rate\<rparr>) = (x, t)" by (simp add: andthen_run)
    then show ?thesis using refused passed late(1,2) by (cases allowed) auto
  qed
qed

section \<open>Accepting an invitation\<close>

definition written_for :: "string \<Rightarrow> string \<Rightarrow> string \<Rightarrow> membership_row list \<Rightarrow> membership_row list \<Rightarrow> bool" where
  "written_for u g role old new \<longleftrightarrow>
     (\<forall>m \<in> set new. m \<in> set old \<or> lm_user_id m = u \<and> lm_org_id m = g \<and> lm_role_slug m = role) \<and>
     (\<forall>m \<in> set old. m \<in> set new \<or> lm_user_id m = u \<and> lm_org_id m = g)"

lemma memberships_set_to:
  fixes s :: "'w auth_state"
  shows "local_auth_memberships_update f s = s\<lparr>local_auth_memberships := f (local_auth_memberships s)\<rparr>"
  by (rule table_update_cong(3)) simp

lemma membership_written:
  assumes "CreateLocalAuthMembership now k u g role s = (r, t)"
  obtains (unchanged) e where "r = Inl e" "t = s"
  | (written) x new where "r = Inr x" "t = s\<lparr>local_auth_memberships := new\<rparr>" "written_for u g role (local_auth_memberships s) new"
proof -
  from assms [unfolded CreateLocalAuthMembership_def] show thesis
  proof (cases rule: memberships.upsert_cases)
    case unchanged
    then show ?thesis by (rule that(1))
  next
    case inserted
    show ?thesis using trans [OF inserted(4) memberships_set_to]
      by (rule that(2) [OF inserted(3)]) (auto simp: written_for_def)
  next
    case (updated x)
    show ?thesis using trans [OF updated(5) memberships_set_to]
      by (rule that(2) [OF updated(4)]) (use find_SomeD [OF updated(1)] in \<open>auto simp: written_for_def replace_rows_def\<close>)
  qed
qed

lemma accept_runs:
  assumes "auth_ok s"
  shows "AcceptLocalAuthInvitation now i s = (Inr (length (filter (\<lambda>r. li_id r = i \<and> pending_invitation now r) (local_auth_invitations s))),
    s\<lparr>local_auth_invitations := map (\<lambda>r. if li_id r = i \<and> pending_invitation now r
      then r\<lparr>li_accepted_at := Some now, li_updated_at := Some now\<rparr> else r) (local_auth_invitations s)\<rparr>)"
proof -
  have "check_row invitation_constraints s (r\<lparr>li_accepted_at := Some now, li_updated_at := Some now\<rparr>) = None"
    if "r \<in> set (local_auth_invitations s)" for r
  proof -
    have inv: "invitations_ok (user_ids s) (org_ids s) (local_auth_invitations s)" using assms by (simp add: auth_ok_def)
    then have "inj_on li_token_hash (set (local_auth_invitations s))" by (simp add: invitations_ok_def distinct_map)
    then have "li_token_hash x = li_token_hash r \<Longrightarrow> li_id x = li_id r" if "x \<in> set (local_auth_invitations s)" for x
      using that \<open>r \<in> set (local_auth_invitations s)\<close> by (metis inj_onD)
    moreover from inv that have "li_role_slug r \<in> set roles" "li_expires_at r \<noteq> None" "org_exists s (li_org_id r)"
        "\<And>c. li_created_by r = Some c \<Longrightarrow> user_exists s c"
      by (auto simp: exists_iff invitations_ok_def)
    ultimately show ?thesis by (simp add: check_invitation)
  qed
  then have "find (\<lambda>r. (li_id r = i \<and> pending_invitation now r) \<and>
      check_row invitation_constraints s (r\<lparr>li_accepted_at := Some now, li_updated_at := Some now\<rparr>) \<noteq> None) (local_auth_invitations s) = None"
    by (auto simp: find_None_iff)
  then show ?thesis unfolding AcceptLocalAuthInvitation_def sql_update_all_def by simp
qed

lemma accept_cases:
  assumes ok: "auth_ok s" and run: "localAcceptInvitationForUser now rnd i u s = (r, t)"
  obtains (refused) e where "r = Inl e" "t = s"
  | (accepted) new where "r = Inr ()"
      "t = s\<lparr>local_auth_memberships := new, local_auth_invitations := map (\<lambda>r. if li_id r = li_id i \<and> pending_invitation now r
        then r\<lparr>li_accepted_at := Some now, li_updated_at := Some now\<rparr> else r) (local_auth_invitations s)\<rparr>"
      "written_for u (li_org_id i) (li_role_slug i) (local_auth_memberships s) new"
proof (cases "li_id i = []")
  case True
  with run show ?thesis using refused by (auto simp: localAcceptInvitationForUser_def)
next
  case False
  obtain a s1 where create: "CreateLocalAuthMembership now (localID ''om_local_'' rnd) u (li_org_id i) (li_role_slug i) s = (a, s1)"
    by fastforce
  have "auth_ok s1" using keeps_invD [OF keeps_CreateLocalAuthMembership ok create] .
  note accept = accept_runs [OF this]
  from create show ?thesis
  proof (cases rule: membership_written)
    case (unchanged e)
    have "written_for u (li_org_id i) (li_role_slug i) (local_auth_memberships s) (local_auth_memberships s)"
      by (simp add: written_for_def)
    with False run create unchanged accept show ?thesis using refused accepted [of "local_auth_memberships s"]
      by (auto simp: localAcceptInvitationForUser_def attempt_run andthen_run split: if_splits)
  next
    case (written x new)
    with False run create accept show ?thesis using accepted
      by (auto simp: localAcceptInvitationForUser_def attempt_run andthen_run)
  qed
qed

lemma request_cases:
  assumes "localInvitationFromRequest lib clock token s = (Inr (Some i), t)"
  shows "t = s" "i \<in> set (local_auth_invitations s)" "pending_invitation clock i" "li_token_hash i = hashLocalToken lib (trim_space token)"
  using assms
  by (auto simp: localInvitationFromRequest_def Let_def attempt_run GetLocalAuthInvitationByTokenHash_def sql_get_def
    pending_invitation_def dest!: find_SomeD split: if_splits option.splits)

lemma request_reads: "snd (localInvitationFromRequest lib clock token s) = s"
  by (simp add: localInvitationFromRequest_def Let_def attempt_run GetLocalAuthInvitationByTokenHash_def sql_get_def split: option.splits)

section \<open>Opening a session\<close>

lemma open_session_cases:
  assumes "open_session sv clock now rb u g s = (x, t)"
  obtains (failed) e where "x = Inr (answer (HttpError 500 e))" "t = s"
  | (opened) row where "x = Inr (with_cookie (session_cookie (sv_cfg sv) clock
          (localSessionCookieValue (localID ''sess_local_'' (rb_Session rb)) (fst (localToken (sv_lib sv) (rb_Secret rb)))))
        (answer (Redirect (if g \<noteq> [] then ''/'' else ''/onboarding''))))"
      "row = \<lparr>ls_id = localID ''sess_local_'' (rb_Session rb), ls_user_id = u, ls_token_hash = snd (localToken (sv_lib sv) (rb_Secret rb)),
        ls_active_org_id = stringPtrIfNotEmpty g, ls_expires_at = Some (clock + localSessionTTL), ls_last_seen_at = Some now,
        ls_created_at = Some now\<rparr>"
      "t = s\<lparr>local_auth_sessions := local_auth_sessions s @ [row]\<rparr>"
      "ls_id row \<notin> ls_id ` set (local_auth_sessions s)" "user_exists s u"
proof -
  let ?row = "\<lparr>ls_id = localID ''sess_local_'' (rb_Session rb), ls_user_id = u, ls_token_hash = snd (localToken (sv_lib sv) (rb_Secret rb)),
        ls_active_org_id = stringPtrIfNotEmpty g, ls_expires_at = Some (clock + localSessionTTL), ls_last_seen_at = Some now,
        ls_created_at = Some now\<rparr>"
  obtain a s1 where create: "CreateLocalAuthSession now (localID ''sess_local_'' (rb_Session rb)) u (snd (localToken (sv_lib sv) (rb_Secret rb)))
      (stringPtrIfNotEmpty g) (clock + localSessionTTL) s = (a, s1)" by fastforce
  from create [unfolded CreateLocalAuthSession_def] show thesis
  proof (cases rule: sessions.insert_cases)
    case (unchanged e)
    with assms create failed show ?thesis
      by (auto simp: open_session_def attempt_run localCreateSession_def Let_def andthen_run server_error_def prod.case_eq_if)
  next
    case written
    then have "ls_id ?row \<notin> ls_id ` set (local_auth_sessions s)" by (auto simp: find_None_iff)
    moreover have "user_exists s u" using written(2) by (simp add: check_session)
    ultimately show ?thesis using assms create written opened
      by (auto simp: open_session_def attempt_run localCreateSession_def Let_def andthen_run prod.case_eq_if)
  qed
qed

section \<open>Who becomes a member\<close>

text \<open>
  Between \<open>s\<close> and \<open>t\<close> the membership of one user in one organisation was written, on the strength of an
  invitation that was pending, has the hash of the token and the user's address, and is used up.
\<close>

definition invited :: "auth_lib \<Rightarrow> go_time \<Rightarrow> go_time \<Rightarrow> string \<Rightarrow> 'w auth_state \<Rightarrow> 'w auth_state \<Rightarrow> bool" where
  "invited lib clock now token s t \<longleftrightarrow>
     (\<exists>i \<in> set (local_auth_invitations s). \<exists>u \<in> set (local_auth_users t).
       pending_invitation clock i \<and> li_token_hash i = hashLocalToken lib token \<and> lu_email_normalized u = li_email_normalized i \<and>
       written_for (lu_id u) (li_org_id i) (li_role_slug i) (local_auth_memberships s) (local_auth_memberships t) \<and>
       (\<forall>j \<in> set (local_auth_invitations t). li_id j = li_id i \<longrightarrow> \<not> pending_invitation now j))"

lemma accept_invited:
  assumes "auth_ok s" and "localAcceptInvitationForUser now rnd i (lu_id u) s = (r, t)"
    and i: "i \<in> set (local_auth_invitations s)" "pending_invitation clock i" "li_token_hash i = hashLocalToken lib token"
    and u: "u \<in> set (local_auth_users s)" "lu_email_normalized u = li_email_normalized i"
  shows "t = s \<or> invited lib clock now token s t"
  using assms(1,2)
proof (cases rule: accept_cases)
  case refused
  then show ?thesis by simp
next
  case (accepted new)
  then have "\<not> pending_invitation now j" if "j \<in> set (local_auth_invitations t)" "li_id j = li_id i" for j
    using that by (auto simp: pending_invitation_def split: if_splits)
  moreover have "local_auth_users t = local_auth_users s" "local_auth_memberships t = new" using accepted(2) by simp_all
  ultimately have "invited lib clock now token s t"
    using accepted(3) i u unfolding invited_def by (intro bexI [of _ i] bexI [of _ u] conjI ballI impI) auto
  then show ?thesis ..
qed

definition members_justified :: "auth_lib \<Rightarrow> go_time \<Rightarrow> go_time \<Rightarrow> string \<Rightarrow> 'w auth_state \<Rightarrow> 'w auth_state \<Rightarrow> bool" where
  "members_justified lib clock now token s t \<longleftrightarrow>
     local_auth_memberships t = local_auth_memberships s \<or> invited lib clock now token s t"

lemma justified_cong:
  assumes "members_justified lib clock now token s t"
    and "local_auth_invitations s = local_auth_invitations s'" "local_auth_memberships s = local_auth_memberships s'"
    and "local_auth_users t = local_auth_users t'" "local_auth_invitations t = local_auth_invitations t'"
      "local_auth_memberships t = local_auth_memberships t'"
  shows "members_justified lib clock now token s' t'"
  using assms by (simp add: members_justified_def invited_def)

lemma open_session_tables:
  assumes "open_session sv clock now rb u g s = (x, t)"
  shows "local_auth_users t = local_auth_users s" "local_auth_memberships t = local_auth_memberships s"
    "local_auth_invitations t = local_auth_invitations s"
  using assms by (auto elim: open_session_cases)

lemma accept_then_open:
  assumes "auth_ok s" and run: "accept_and_open sv clock now rb i (lu_id u) s = (x, t)"
    and i: "i \<in> set (local_auth_invitations s)" "pending_invitation clock i" "li_token_hash i = hashLocalToken lib token"
    and u: "u \<in> set (local_auth_users s)" "lu_email_normalized u = li_email_normalized i"
  shows "members_justified lib clock now token s t"
proof -
  obtain r s1 where accept: "localAcceptInvitationForUser now (rb_Membership rb) i (lu_id u) s = (r, s1)" by fastforce
  from accept_invited [OF assms(1) this i u]
  have "members_justified lib clock now token s s1" by (auto simp: members_justified_def)
  moreover have "local_auth_users t = local_auth_users s1" "local_auth_memberships t = local_auth_memberships s1"
    "local_auth_invitations t = local_auth_invitations s1"
  proof -
    have "t = s1 \<or> open_session sv clock now rb (lu_id u) (li_org_id i) s1 = (x, t)"
      using run accept by (cases r) (auto simp: accept_and_open_def attempt_run server_error_def)
    then show "local_auth_users t = local_auth_users s1" "local_auth_memberships t = local_auth_memberships s1"
      "local_auth_invitations t = local_auth_invitations s1"
      by (auto simp: open_session_tables)
  qed
  ultimately show ?thesis by (auto elim: justified_cong)
qed

lemma enter_org_justified:
  assumes "auth_ok s" and "user \<in> set (local_auth_users s)" and "enter_org sv clock now rb page user token s = (x, t)"
  shows "members_justified (sv_lib sv) clock now (trim_space token) s t"
proof (cases "token = []")
  case True
  with assms(3) obtain g where "open_session sv clock now rb (lu_id user) g s = (x, t)"
    by (auto simp: enter_org_def attempt_run ListLocalAuthUserOrgs_def)
  from open_session_tables [OF this] show ?thesis by (simp add: members_justified_def)
next
  case False
  obtain found where found: "localInvitationFromRequest (sv_lib sv) clock token s = (found, s)"
    using request_reads by (metis prod.collapse)
  show ?thesis
  proof (cases "\<exists>i. found = Inr (Some i) \<and> lu_email_normalized user = li_email_normalized i")
    case True
    then obtain i where i: "found = Inr (Some i)" "lu_email_normalized user = li_email_normalized i" by blast
    with assms(3) found False have "accept_and_open sv clock now rb i (lu_id user) s = (x, t)"
      by (simp add: enter_org_def attempt_run)
    from accept_then_open [OF assms(1) this request_cases(2-4) [OF found [unfolded i(1)]] assms(2) i(2)] show ?thesis .
  next
    case other: False
    with assms(3) found False have "t = s"
      by (auto simp: enter_org_def attempt_run shown_def server_error_def split: sum.splits option.splits if_splits)
    then show ?thesis by (simp add: members_justified_def)
  qed
qed

lemma create_user_cases:
  assumes "CreateLocalAuthUser now i e n h a b s = (r, t)"
  obtains (unchanged) err where "r = Inl err" "t = s"
  | (created) u where "r = Inr u" "u = \<lparr>lu_id = i, lu_email = e, lu_email_normalized = n, lu_password_hash = h, lu_first_name = a,
      lu_last_name = b, lu_created_at = Some now, lu_updated_at = Some now\<rparr>" "t = s\<lparr>local_auth_users := local_auth_users s @ [u]\<rparr>"
proof -
  have set_to: "local_auth_users_update f s = s\<lparr>local_auth_users := f (local_auth_users s)\<rparr>" for f
    by (rule table_update_cong(1)) simp
  from assms [unfolded CreateLocalAuthUser_def] show thesis
  proof (cases rule: users.insert_cases)
    case unchanged
    then show ?thesis by (rule that(1))
  next
    case written
    show ?thesis by (rule that(2) [OF written(3) refl trans [OF written(4) set_to]])
  qed
qed

lemma create_account_justified:
  assumes "auth_ok s" and "create_account sv clock now rb page pw invite s = (x, t)"
    and invite: "\<And>i. invite = Some i \<Longrightarrow> i \<in> set (local_auth_invitations s) \<and> pending_invitation clock i \<and>
      li_token_hash i = hashLocalToken (sv_lib sv) token \<and> normalizeEmail (pg_Email page) = li_email_normalized i"
  shows "members_justified (sv_lib sv) clock now token s t"
proof (cases "lib_GenerateFromPassword (sv_lib sv) pw")
  case (Inl e)
  with assms(2) show ?thesis by (auto simp: create_account_def server_error_def members_justified_def)
next
  case (Inr hash)
  obtain r s1 where create: "CreateLocalAuthUser now (localID ''user_local_'' (rb_User rb)) (pg_Email page) (normalizeEmail (pg_Email page))
      hash (pg_FirstName page) (pg_LastName page) s = (r, s1)" by fastforce
  then have ok: "auth_ok s1" using keeps_invD [OF keeps_CreateLocalAuthUser assms(1)] by blast
  from create show ?thesis
  proof (cases rule: create_user_cases)
    case (unchanged e)
    with create Inr assms(2) have "t = s"
      by (auto simp: create_account_def attempt_run shown_def server_error_def split: if_splits)
    then show ?thesis by (simp add: members_justified_def)
  next
    case (created u)
    show ?thesis
    proof (cases invite)
      case None
      with created create Inr assms(2) have "open_session sv clock now rb (lu_id u) [] s1 = (x, t)"
        by (simp add: create_account_def attempt_run)
      from open_session_tables [OF this] created(3) show ?thesis by (simp add: members_justified_def)
    next
      case (Some i)
      with created(1) create Inr assms(2) have run: "accept_and_open sv clock now rb i (lu_id u) s1 = (x, t)"
        by (simp add: create_account_def attempt_run)
      have i: "i \<in> set (local_auth_invitations s1)" "pending_invitation clock i" "li_token_hash i = hashLocalToken (sv_lib sv) token"
        using invite [OF Some] created(3) by simp_all
      have u: "u \<in> set (local_auth_users s1)" "lu_email_normalized u = li_email_normalized i"
        using invite [OF Some] created(2,3) by simp_all
      have "members_justified (sv_lib sv) clock now token s1 t"
        by (rule accept_then_open [OF ok run i u])
      then show ?thesis by (rule justified_cong) (simp_all add: created(3))
    qed
  qed
qed

section \<open>Reading a session\<close>

text \<open>The principal of a cookie, and the one the middleware passes on with a request.\<close>

definition cookie_principal :: "auth_lib \<Rightarrow> go_time \<Rightarrow> string \<Rightarrow> 'w auth_state \<Rightarrow> principal option" where
  "cookie_principal lib now v s = (case fst (localPrincipalFromCookie lib now v s) of Inl e \<Rightarrow> None | Inr p \<Rightarrow> p)"

definition passed_on :: "'w auth_service \<Rightarrow> go_time \<Rightarrow> http_request \<Rightarrow> 'w auth_state \<Rightarrow> principal option" where
  "passed_on sv now r s = (case fst (Middleware sv now r s) of
       Inl e \<Rightarrow> None
     | Inr resp \<Rightarrow> (case rs_Body resp of PassedOn p \<Rightarrow> p | _ \<Rightarrow> None))"

definition local_service :: "'w auth_service \<Rightarrow> bool" where
  "local_service sv \<longleftrightarrow> IsLocalMode (sv_cfg sv) \<and> \<not> cfg_Bypass (sv_cfg sv)"

lemma principal_reads: "localPrincipalFromCookie lib now v s = (Inr (cookie_principal lib now v s), s)"
  by (auto simp: localPrincipalFromCookie_def cookie_principal_def attempt_run GetLocalAuthSession_def split: option.splits)

lemma passed_on_local:
  "local_service sv \<Longrightarrow> passed_on sv now r s =
     (case sent_session r of None \<Rightarrow> None | Some v \<Rightarrow> cookie_principal (sv_lib sv) now v s)"
  by (auto simp: local_service_def passed_on_def Middleware_def Let_def localMiddleware_def andthen_run attempt_run principal_reads
    answer_def with_cookie_def split: option.splits prod.splits)

lemma cookie_principal_iff:
  "cookie_principal lib now v s = Some p \<longleftrightarrow>
     (\<exists>i secret x u. parseLocalSessionCookieValue v = Some (i, secret) \<and>
        find (\<lambda>r. ls_id r = i \<and> later (ls_expires_at r) now) (local_auth_sessions s) = Some x \<and>
        find (\<lambda>u. lu_id u = ls_user_id x) (local_auth_users s) = Some u \<and> hashLocalToken lib secret = ls_token_hash x \<and>
        p = session_principal \<lparr>si_session = x, si_user = u, si_role = map_option lm_role_slug
          (find (\<lambda>m. lm_user_id m = ls_user_id x \<and> Some (lm_org_id m) = ls_active_org_id x) (local_auth_memberships s))\<rparr>)"
  by (auto simp: cookie_principal_def localPrincipalFromCookie_def attempt_run GetLocalAuthSession_def split: option.splits)

text \<open>What a principal is, of the tables.\<close>

lemma session_principal_fields:
  "p_UserID (session_principal i) = lu_id (si_user i)" "p_Email (session_principal i) = lu_email (si_user i)"
  "p_SessionID (session_principal i) = ls_id (si_session i)" "p_IsAPIKey (session_principal i) = False"
  "p_OrgID (session_principal i) \<noteq> [] \<Longrightarrow>
     ls_active_org_id (si_session i) = Some (p_OrgID (session_principal i)) \<and> si_role i = Some (p_Role (session_principal i))"
  by (auto simp: session_principal_def Let_def split: option.splits if_splits)

lemma principal_of_tables:
  assumes "cookie_principal lib now v s = Some p"
  obtains x u secret where "x \<in> set (local_auth_sessions s)" "u \<in> set (local_auth_users s)"
    "parseLocalSessionCookieValue v = Some (ls_id x, secret)" "hashLocalToken lib secret = ls_token_hash x" "later (ls_expires_at x) now"
    "ls_user_id x = lu_id u" "p_UserID p = lu_id u" "p_Email p = lu_email u" "p_SessionID p = ls_id x"
    "p_OrgID p \<noteq> [] \<Longrightarrow> ls_active_org_id x = Some (p_OrgID p) \<and>
       (\<exists>m \<in> set (local_auth_memberships s). lm_user_id m = lu_id u \<and> lm_org_id m = p_OrgID p \<and> lm_role_slug m = p_Role p)"
proof -
  from assms [unfolded cookie_principal_iff] obtain i secret x u where
    v: "parseLocalSessionCookieValue v = Some (i, secret)" and
    x: "find (\<lambda>r. ls_id r = i \<and> later (ls_expires_at r) now) (local_auth_sessions s) = Some x" and
    u: "find (\<lambda>u. lu_id u = ls_user_id x) (local_auth_users s) = Some u" and h: "hashLocalToken lib secret = ls_token_hash x" and
    p: "p = session_principal \<lparr>si_session = x, si_user = u, si_role = map_option lm_role_slug
          (find (\<lambda>m. lm_user_id m = ls_user_id x \<and> Some (lm_org_id m) = ls_active_org_id x) (local_auth_memberships s))\<rparr>"
    by blast
  show thesis
  proof (rule that [of x u secret])
    assume org: "p_OrgID p \<noteq> []"
    from session_principal_fields(5) [OF org [unfolded p], folded p]
    have active: "ls_active_org_id x = Some (p_OrgID p)" and role: "map_option lm_role_slug
        (find (\<lambda>m. lm_user_id m = ls_user_id x \<and> Some (lm_org_id m) = ls_active_org_id x) (local_auth_memberships s)) = Some (p_Role p)"
      by (auto simp del: map_option_eq_Some)
    from role obtain m where "find (\<lambda>m. lm_user_id m = ls_user_id x \<and> Some (lm_org_id m) = ls_active_org_id x) (local_auth_memberships s) = Some m"
      and "lm_role_slug m = p_Role p" by (auto simp: map_option_eq_Some)
    moreover have "lu_id u = ls_user_id x" using find_SomeD [OF u] by simp
    ultimately show "ls_active_org_id x = Some (p_OrgID p) \<and>
       (\<exists>m \<in> set (local_auth_memberships s). lm_user_id m = lu_id u \<and> lm_org_id m = p_OrgID p \<and> lm_role_slug m = p_Role p)"
      using active by (auto dest!: find_SomeD)
  qed (use v h find_SomeD [OF x] find_SomeD [OF u] in \<open>auto simp: p session_principal_fields\<close>)
qed

lemma cookie_principal_cong:
  assumes "local_auth_sessions t = local_auth_sessions s" "local_auth_users t = local_auth_users s"
    "local_auth_memberships t = local_auth_memberships s"
  shows "cookie_principal lib now v t = cookie_principal lib now v s"
  using assms by (simp add: cookie_principal_def localPrincipalFromCookie_def attempt_run GetLocalAuthSession_def split: option.splits)

text \<open>The session that \<open>open_session\<close> opened.\<close>

lemma opened_session_reads:
  assumes ok: "auth_ok s" and run: "open_session sv clock now rb (lu_id u) g s = (Inr resp, t)" and dest: "rs_Body resp = Redirect dest"
    and u: "u \<in> set (local_auth_users s)" and secret: "rb_Secret rb \<noteq> []"
  obtains v where "resp = with_cookie (session_cookie (sv_cfg sv) clock v) (answer (Redirect dest))" "v \<noteq> []"
    "\<And>at. at < clock + localSessionTTL \<Longrightarrow> \<exists>p. cookie_principal (sv_lib sv) at v t = Some p \<and> p_UserID p = lu_id u \<and> p_Email p = lu_email u"
    "\<And>at. clock + localSessionTTL \<le> at \<Longrightarrow> cookie_principal (sv_lib sv) at v t = None"
proof -
  let ?i = "localID ''sess_local_'' (rb_Session rb)"
  let ?secret = "b64_encode (rb_Secret rb)"
  let ?v = "localSessionCookieValue ?i ?secret"
  from run show thesis
  proof (cases rule: open_session_cases)
    case (failed e)
    with dest show ?thesis by (simp add: answer_def)
  next
    case (opened row)
    have parse: "parseLocalSessionCookieValue ?v = Some (?i, ?secret)"
      by (rule cookie_parses, rule localID_no_dot) (simp_all add: token_not_empty secret localID_def)
    have fresh: "ls_id r \<noteq> ?i" if "r \<in> set (local_auth_sessions s)" for r
      using opened(2,4) that image_eqI [of _ ls_id r] by force
    then have none: "find (\<lambda>r. ls_id r = ?i \<and> later (ls_expires_at r) t') (local_auth_sessions s) = None" for t'
      by (auto simp: find_None_iff)
    have user: "find (\<lambda>x. lu_id x = lu_id u) (local_auth_users t) = Some u"
      using u ok users.find_unique [of "local_auth_users s" u] opened(3) by (simp add: auth_keys)
    show ?thesis
    proof (rule that [of ?v])
      show "resp = with_cookie (session_cookie (sv_cfg sv) clock ?v) (answer (Redirect dest))"
        using opened(1) dest by (auto simp: localToken_def Let_def with_cookie_def answer_def)
      show "?v \<noteq> []" by (simp add: localSessionCookieValue_def)
    next
      fix t' :: go_time assume "t' < clock + localSessionTTL"
      then have "find (\<lambda>r. ls_id r = ?i \<and> later (ls_expires_at r) t') (local_auth_sessions t) = Some row"
        using opened(2,3) none by (simp add: find_append later_def)
      with parse user opened(2) show "\<exists>p. cookie_principal (sv_lib sv) t' ?v t = Some p \<and> p_UserID p = lu_id u \<and> p_Email p = lu_email u"
        by (simp add: cookie_principal_iff localToken_def Let_def hashLocalToken_def session_principal_fields)
    next
      fix t' :: go_time assume "clock + localSessionTTL \<le> t'"
      then have "find (\<lambda>r. ls_id r = ?i \<and> later (ls_expires_at r) t') (local_auth_sessions t) = None"
        using opened(2,3) none by (simp add: find_append later_def)
      with parse show "cookie_principal (sv_lib sv) t' ?v t = None"
        by (auto simp: cookie_principal_def localPrincipalFromCookie_def attempt_run GetLocalAuthSession_def)
    qed
  qed
qed

section \<open>The forms\<close>

text \<open>A log-in that ends in a redirect: the guards and the password let it through, and a session is opened.\<close>

lemma response_bodies [simp]:
  "rs_Body (answer b) = b" "rs_Body (with_cookie c r) = rs_Body r" "rs_Body (renderLocalAuthPage lib cfg clock rnd p) \<noteq> Redirect d"
  by (simp_all add: renderLocalAuthPage_def Let_def localToken_def answer_def with_cookie_def)

lemma enter_org_opens:
  assumes ok: "auth_ok s" and run: "enter_org sv clock now rb page user token s = (Inr resp, t)" and dest: "rs_Body resp = Redirect dest"
  obtains s1 g where "open_session sv clock now rb (lu_id user) g s1 = (Inr resp, t)" "auth_ok s1" "local_auth_users s1 = local_auth_users s"
proof -
  show thesis
  proof (cases "token = []")
    case True
    with run ok show ?thesis by (auto simp: enter_org_def attempt_run ListLocalAuthUserOrgs_def intro: that)
  next
    case False
    obtain found where found: "localInvitationFromRequest (sv_lib sv) clock token s = (found, s)"
      using request_reads by (metis prod.collapse)
    with run False dest obtain i where "accept_and_open sv clock now rb i (lu_id user) s = (Inr resp, t)"
      by (auto simp: enter_org_def attempt_run shown_def server_error_def split: sum.splits option.splits if_splits)
    then obtain a s1 where accept: "localAcceptInvitationForUser now (rb_Membership rb) i (lu_id user) s = (a, s1)"
      and rest: "(case a of Inl e \<Rightarrow> server_error sv ''accept invitation'' e
         | Inr u \<Rightarrow> open_session sv clock now rb (lu_id user) (li_org_id i)) s1 = (Inr resp, t)"
      by (auto simp: accept_and_open_def attempt_run split: prod.splits)
    then have "open_session sv clock now rb (lu_id user) (li_org_id i) s1 = (Inr resp, t)"
      using dest by (cases a) (auto simp: server_error_def)
    moreover have "auth_ok s1" using keeps_invD [OF keeps_local(2) ok accept] .
    moreover have "local_auth_users s1 = local_auth_users s"
      using ok accept by (cases rule: accept_cases) auto
    ultimately show ?thesis by (rule that)
  qed
qed

lemma user_by_email_reads: "snd (GetLocalAuthUserByEmail e s) = s"
  by (simp add: GetLocalAuthUserByEmail_def sql_get_def split: option.splits)

lemma auth_rate_tables [simp]:
  "local_auth_users (s\<lparr>localRate := rate\<rparr>) = local_auth_users s" "local_auth_memberships (s\<lparr>localRate := rate\<rparr>) = local_auth_memberships s"
  "local_auth_invitations (s\<lparr>localRate := rate\<rparr>) = local_auth_invitations s" "local_auth_sessions (s\<lparr>localRate := rate\<rparr>) = local_auth_sessions s"
  by simp_all

lemma justified_refl: "local_auth_memberships t = local_auth_memberships s \<Longrightarrow> members_justified lib clock now token s t"
  by (simp add: members_justified_def)

lemma login_post_justified:
  assumes ok: "auth_ok s" and run: "handleLocalLoginPost sv clock now rb r s = (x, t)"
  shows "members_justified (sv_lib sv) clock now (trim_space (rq_FormValue r ''invite'')) s t"
  using run unfolding handleLocalLoginPost_def
proof (cases rule: guarded_cases)
  case (refused c e)
  then show ?thesis by (auto intro: justified_refl)
next
  case (passed rate)
  let ?s = "s\<lparr>localRate := rate\<rparr>" and ?email = "trim_space (rq_FormValue r ''email'')"
  let ?token = "trim_space (rq_FormValue r ''invite'')"
  let ?page = "(login_page ?token)\<lparr>pg_Email := ?email\<rparr>"
  obtain found where found: "GetLocalAuthUserByEmail (normalizeEmail ?email) ?s = (found, ?s)"
    using user_by_email_reads by (metis prod.collapse)
  show ?thesis
  proof (cases "\<exists>user. found = Inr user \<and> enter_org sv clock now rb ?page user ?token ?s = (x, t)")
    case True
    then obtain user where user: "found = Inr user" "enter_org sv clock now rb ?page user ?token ?s = (x, t)" by blast
    from found user(1) have "user \<in> set (local_auth_users ?s)"
      by (auto simp: GetLocalAuthUserByEmail_def sql_get_def split: option.splits dest: find_SomeD)
    with ok user(2) have "members_justified (sv_lib sv) clock now (trim_space ?token) ?s t"
      by (intro enter_org_justified) simp_all
    then show ?thesis by (simp add: members_justified_def invited_def)
  next
    case False
    with passed(1) found have "t = ?s"
      by (auto simp: Let_def attempt_run shown_def server_error_def split: sum.splits if_splits)
    then show ?thesis by (simp add: justified_refl)
  qed
qed

lemma signup_post_justified:
  assumes ok: "auth_ok s" and run: "handleLocalSignupPost sv clock now rb r s = (x, t)"
  shows "members_justified (sv_lib sv) clock now (trim_space (rq_FormValue r ''invite'')) s t"
  using run unfolding handleLocalSignupPost_def
proof (cases rule: guarded_cases)
  case (refused c e)
  then show ?thesis by (auto intro: justified_refl)
next
  case (passed rate)
  let ?s = "s\<lparr>localRate := rate\<rparr>" and ?email = "trim_space (rq_FormValue r ''email'')"
  let ?token = "trim_space (rq_FormValue r ''invite'')"
  let ?page = "(signup_page ?token)\<lparr>pg_Email := ?email, pg_FirstName := trim_space (rq_FormValue r ''first_name''),
    pg_LastName := trim_space (rq_FormValue r ''last_name'')\<rparr>"
  obtain found where found: "localInvitationFromRequest (sv_lib sv) clock ?token ?s = (found, ?s)"
    using request_reads by (metis prod.collapse)
  consider (stays) "t = ?s"
    | (open_signup) page where "create_account sv clock now rb page (rq_FormValue r ''password'') None ?s = (x, t)"
    | (invite) i where "found = Inr (Some i)" "normalizeEmail ?email = li_email_normalized i"
        "create_account sv clock now rb (?page\<lparr>pg_InviteEmail := li_email i, pg_InviteRole := li_role_slug i\<rparr>) (rq_FormValue r ''password'') (Some i) ?s = (x, t)"
    using passed(1) found
    by (auto simp: Let_def attempt_run shown_def server_error_def split: sum.splits option.splits if_splits)
  then have "members_justified (sv_lib sv) clock now ?token ?s t"
  proof cases
    case stays
    then show ?thesis by (simp add: justified_refl)
  next
    case (open_signup page)
    show ?thesis by (rule create_account_justified [OF _ open_signup]) (simp_all add: ok)
  next
    case invite
    note i = request_cases(2-4) [OF found [unfolded invite(1)]]
    show ?thesis by (rule create_account_justified [OF _ invite(3)]) (use ok i invite(2) in auto)
  qed
  then show ?thesis by (simp add: members_justified_def invited_def)
qed

lemma local_form_cases:
  assumes "local_form sv clock rb r page post s = (x, t)"
  shows "t = s \<or> post s = (x, t)"
proof -
  have "snd (decorateInvitePageData (sv_lib sv) clock page s) = s" for page
    using request_reads by (auto simp: decorateInvitePageData_def attempt_run prod.case_eq_if split: sum.splits option.splits)
  then show ?thesis using assms
    by (auto simp: local_form_def andthen_run prod.case_eq_if split: if_splits sum.splits) 
qed

lemma handlers_justified:
  assumes "auth_ok s" and "IsLocalMode (sv_cfg sv)"
    and "LoginHandler sv clock now rb r s = (x, t) \<or> SignupHandler sv clock now rb r s = (x, t)"
  shows "members_justified (sv_lib sv) clock now (trim_space (rq_FormValue r ''invite'')) s t"
  using assms(3)
proof
  assume "LoginHandler sv clock now rb r s = (x, t)"
  then have "t = s \<or> handleLocalLoginPost sv clock now rb r s = (x, t)"
    using assms(2) local_form_cases by (simp add: LoginHandler_def localLoginHandler_def)
  then show ?thesis using login_post_justified [OF assms(1)] by (elim disjE) (simp_all add: justified_refl)
next
  assume "SignupHandler sv clock now rb r s = (x, t)"
  then have "t = s \<or> handleLocalSignupPost sv clock now rb r s = (x, t)"
    using assms(2) local_form_cases by (simp add: SignupHandler_def localSignupHandler_def)
  then show ?thesis using signup_post_justified [OF assms(1)] by (elim disjE) (simp_all add: justified_refl)
qed

text \<open>A log-in that ends in a redirect.\<close>

lemma login_opens:
  assumes ok: "auth_ok s" and mode: "IsLocalMode (sv_cfg sv)"
    and run: "LoginHandler sv clock now rb r s = (Inr resp, t)" and dest: "rs_Body resp = Redirect dest"
  obtains s1 g user where "open_session sv clock now rb (lu_id user) g s1 = (Inr resp, t)" "auth_ok s1"
    "user \<in> set (local_auth_users s)" "local_auth_users s1 = local_auth_users s"
    "lu_email_normalized user = normalizeEmail (rq_FormValue r ''email'')"
    "lib_CompareHashAndPassword (sv_lib sv) (lu_password_hash user) (rq_FormValue r ''password'')"
    "requireLocalSameOrigin (sv_lib sv) r = None" "requireLocalAuthCSRF r = None"
proof -
  have form: "rs_Body resp' \<noteq> Redirect dest" if "local_form sv clock rb r page post s = (Inr resp', t)" "rq_Method r \<noteq> ''POST''" for resp' page post
    using that by (auto simp: local_form_def andthen_Inr split: if_splits)
  have post: "handleLocalLoginPost sv clock now rb r s = (Inr resp, t)"
    using run mode form dest by (cases "rq_Method r = ''POST''") (auto simp: LoginHandler_def localLoginHandler_def local_form_def)
  then show thesis unfolding handleLocalLoginPost_def
  proof (cases rule: guarded_cases)
    case (refused c e)
    with dest show ?thesis by simp
  next
    case (passed rate)
    let ?s = "s\<lparr>localRate := rate\<rparr>" and ?email = "trim_space (rq_FormValue r ''email'')"
    let ?token = "trim_space (rq_FormValue r ''invite'')"
    let ?page = "(login_page ?token)\<lparr>pg_Email := ?email\<rparr>"
    obtain found where found: "GetLocalAuthUserByEmail (normalizeEmail ?email) ?s = (found, ?s)"
      using user_by_email_reads by (metis prod.collapse)
    with passed(1) dest obtain user where user: "found = Inr user" "enter_org sv clock now rb ?page user ?token ?s = (Inr resp, t)"
      "lib_CompareHashAndPassword (sv_lib sv) (lu_password_hash user) (rq_FormValue r ''password'')"
      by (auto simp: Let_def attempt_run shown_def server_error_def split: sum.splits if_splits)
    from found user(1) have u: "user \<in> set (local_auth_users s)" "lu_email_normalized user = normalizeEmail ?email"
      by (auto simp: GetLocalAuthUserByEmail_def sql_get_def split: option.splits dest: find_SomeD)
    have "auth_ok ?s" using ok by simp
    then obtain s1 g where "open_session sv clock now rb (lu_id user) g s1 = (Inr resp, t)" "auth_ok s1" "local_auth_users s1 = local_auth_users s"
      using user(2) dest by (rule enter_org_opens) simp
    with u user(3) passed(2,3) show ?thesis using that by (simp add: normalizeEmail_def)
  qed
qed

section \<open>Removing members and changing roles\<close>

text \<open>The checks read, and pass for a membership of the organisation that is not the caller's own and not
  the last one of an administrator that would lose the role.\<close>

definition loses_admin :: "string \<Rightarrow> membership_row \<Rightarrow> string option \<Rightarrow> 'w auth_state \<Rightarrow> bool" where
  "loses_admin g m role s \<longleftrightarrow> lm_role_slug m = ''admin'' \<and> role \<noteq> Some ''admin'' \<and>
     length (filter (\<lambda>x. lm_org_id x = g \<and> lm_role_slug x = ''admin'') (local_auth_memberships s)) \<le> 1"

definition may_write :: "string \<Rightarrow> string \<Rightarrow> string \<Rightarrow> string option \<Rightarrow> 'w auth_state \<Rightarrow> bool" where
  "may_write i g caller role s \<longleftrightarrow>
     (case find (\<lambda>x. lm_id x = i) (local_auth_memberships s) of None \<Rightarrow> False
      | Some m \<Rightarrow> lm_org_id m = g \<and> lm_user_id m \<noteq> caller \<and> \<not> loses_admin g m role s)"

lemma member_checks_run:
  assumes "local_service sv"
  shows "\<exists>e. removal_checks sv i g caller s = (if may_write i g caller None s then Inr True else Inl e, s)"
    and "\<exists>e. role_checks sv i g caller role s = (if may_write i g caller (Some role) s then Inr True else Inl e, s)"
  using assms
  by (auto simp: local_service_def removal_checks_def role_checks_def last_admin_check_def andthen_run wrap_err_def
      GetLocalAuthMembership_def sql_get_def CountLocalAuthAdmins_def may_write_def loses_admin_def split: option.splits)

lemma removal_write_run:
  assumes "local_service sv"
  shows "removal_write sv i s = (Inr (), local_auth_memberships_update (filter (\<lambda>x. lm_id x \<noteq> i)) s)"
  using assms by (simp add: local_service_def removal_write_def andthen_run DeleteLocalAuthMembership_def sql_delete_def)

lemma role_write_cases:
  assumes "local_service sv" and "role_write sv now i role s = (r, t)"
    and m: "find (\<lambda>x. lm_id x = i) (local_auth_memberships s) = Some m"
  obtains (refused) e where "r = Inl e" "t = s"
  | (updated) "r = Inr ()"
      "t = local_auth_memberships_update (replace_rows (\<lambda>x. lm_id x = i) (m\<lparr>lm_role_slug := role, lm_updated_at := Some now\<rparr>)) s"
  using assms
  by (auto simp: local_service_def role_write_def andthen_run UpdateLocalAuthMembershipRole_def sql_update_def
      split: option.splits)

lemma member_op_run:
  assumes "local_service sv"
  shows "\<exists>e. RemoveMember sv i g caller s =
      (if may_write i g caller None s then removal_write sv i s else (Inl e, s))"
    and "\<exists>e. UpdateMemberRole sv now i g caller role s =
      (if may_write i g caller (Some role) s then role_write sv now i role s else (Inl e, s))"
  using member_checks_run(1) [OF assms, of i g caller s] member_checks_run(2) [OF assms, of i g caller role s]
  by (auto simp: RemoveMember_def UpdateMemberRole_def andthen_run)

lemma remove_member_cases:
  assumes sv: "local_service sv" and run: "RemoveMember sv i g caller s = (r, t)"
  obtains (refused) e where "r = Inl e" "t = s"
  | (removed) m where "r = Inr ()" "find (\<lambda>x. lm_id x = i) (local_auth_memberships s) = Some m" "lm_org_id m = g" "lm_user_id m \<noteq> caller"
      "t = local_auth_memberships_update (filter (\<lambda>x. lm_id x \<noteq> i)) s"
  using member_op_run(1) [OF sv, of i g caller s] run removal_write_run [OF sv, of i s]
  by (auto simp: may_write_def split: if_splits option.splits)

lemma update_role_cases:
  assumes sv: "local_service sv" and run: "UpdateMemberRole sv now i g caller role s = (r, t)"
  obtains (refused) e where "r = Inl e" "t = s"
  | (updated) m where "r = Inr ()" "find (\<lambda>x. lm_id x = i) (local_auth_memberships s) = Some m" "lm_org_id m = g" "lm_user_id m \<noteq> caller"
      "t = local_auth_memberships_update (replace_rows (\<lambda>x. lm_id x = i) (m\<lparr>lm_role_slug := role, lm_updated_at := Some now\<rparr>)) s"
proof (cases "may_write i g caller (Some role) s")
  case False
  then show ?thesis using member_op_run(2) [OF sv, of now i g caller role s] run refused by auto
next
  case True
  then obtain m where m: "find (\<lambda>x. lm_id x = i) (local_auth_memberships s) = Some m" "lm_org_id m = g" "lm_user_id m \<noteq> caller"
    by (auto simp: may_write_def split: option.splits)
  have "role_write sv now i role s = (r, t)"
    using member_op_run(2) [OF sv, of now i g caller role s] run True by auto
  then show ?thesis using role_write_cases [OF sv _ m(1)] m refused updated by blast
qed

lemma another_row:
  assumes "distinct (map key xs)" and "1 < length (filter P xs)"
  shows "\<exists>x \<in> set xs. P x \<and> key x \<noteq> k"
proof (rule ccontr)
  assume "\<not> ?thesis"
  then have "key ` set (filter P xs) \<subseteq> {k}" by auto
  then have "card (key ` set (filter P xs)) \<le> 1" using card_mono [of "{k}"] by fastforce
  moreover have "distinct (map key (filter P xs))" using assms(1) by (simp add: distinct_map_filter)
  then have "card (key ` set (filter P xs)) = length (filter P xs)" using distinct_card [of "map key (filter P xs)"] by simp
  ultimately show False using assms(2) by simp
qed

text \<open>
  The write of a request whose checks passed at another moment. When the memberships of the organisation
  are still the same, the named one is changed and the organisation keeps an administrator.
\<close>

definition memberships_of :: "string \<Rightarrow> 'w auth_state \<Rightarrow> membership_row list" where
  "memberships_of g s = filter (\<lambda>m. lm_org_id m = g) (local_auth_memberships s)"

definition has_admin :: "string \<Rightarrow> 'w auth_state \<Rightarrow> bool" where
  "has_admin g s \<longleftrightarrow> (\<exists>m \<in> set (local_auth_memberships s). lm_org_id m = g \<and> lm_role_slug m = ''admin'')"

lemma may_write_moves:
  fixes u s :: "'w auth_state"
  assumes ok: "auth_ok u" and may: "may_write i g caller role s" and same: "memberships_of g u = memberships_of g s"
  shows "may_write i g caller role u"
proof -
  from may obtain m where m: "find (\<lambda>x. lm_id x = i) (local_auth_memberships s) = Some m" "lm_org_id m = g"
    "lm_user_id m \<noteq> caller" "\<not> loses_admin g m role s"
    by (auto simp: may_write_def split: option.splits)
  have "m \<in> set (memberships_of g s)" "lm_id m = i"
    using find_SomeD [OF m(1)] m(2) by (auto simp: memberships_of_def)
  then have "m \<in> set (local_auth_memberships u)" "lm_id m = i"
    unfolding same [symmetric] by (simp_all add: memberships_of_def)
  then have "find (\<lambda>x. lm_id x = i) (local_auth_memberships u) = Some m"
    using memberships.find_unique [OF auth_keys(3) [OF ok]] by auto
  moreover have "filter (\<lambda>x. lm_org_id x = g \<and> lm_role_slug x = ''admin'') (local_auth_memberships v) =
      filter (\<lambda>x. lm_role_slug x = ''admin'') (memberships_of g v)" for v :: "'w auth_state"
    by (simp add: memberships_of_def conj_commute)
  ultimately show ?thesis using m same by (simp add: may_write_def loses_admin_def)
qed

lemma write_keeps_admin:
  assumes ok: "auth_ok u" and may: "may_write i g caller role u"
    and t: "\<forall>x \<in> set (local_auth_memberships u). lm_id x \<noteq> i \<longrightarrow> x \<in> set (local_auth_memberships t)"
    and stays: "role = Some ''admin'' \<Longrightarrow> has_admin g t"
  shows "(has_admin h u \<longrightarrow> has_admin h t) \<and> (\<forall>m \<in> set (local_auth_memberships u).
    m \<in> set (local_auth_memberships t) \<or> lm_id m = i \<and> lm_org_id m = g \<and> lm_user_id m \<noteq> caller)"
proof -
  let ?admins = "\<lambda>x. lm_org_id x = g \<and> lm_role_slug x = ''admin''"
  from may obtain m where m: "find (\<lambda>x. lm_id x = i) (local_auth_memberships u) = Some m" "lm_org_id m = g"
    "lm_user_id m \<noteq> caller" "\<not> loses_admin g m role u"
    by (auto simp: may_write_def split: option.splits)
  have unique: "x = m" if "x \<in> set (local_auth_memberships u)" "lm_id x = i" for x
    using find_key_unique [OF auth_keys(3) [OF ok] m(1) that] .
  have "has_admin h t" if a: "a \<in> set (local_auth_memberships u)" "lm_org_id a = h" "lm_role_slug a = ''admin''" for a
  proof (cases "lm_id a = i")
    case True
    then have "a = m" using unique a(1) by blast
    then show ?thesis
      using a m(2,4) stays t another_row [OF auth_keys(3) [OF ok], of ?admins i]
      by (fastforce simp: loses_admin_def has_admin_def not_le)
  next
    case False
    with a t show ?thesis by (auto simp: has_admin_def)
  qed
  then show ?thesis using t unique m(2,3) unfolding has_admin_def by blast
qed

lemma late_write_keeps_admin:
  assumes ok: "auth_ok u" and sv: "local_service sv" and same: "memberships_of g u = memberships_of g s"
    and run: "removal_checks sv i g caller s = (Inr True, s') \<and> removal_write sv i u = (r, t) \<or>
      role_checks sv i g caller role s = (Inr True, s') \<and> role_write sv now i role u = (r, t)"
  shows "(has_admin h u \<longrightarrow> has_admin h t) \<and> (\<forall>m \<in> set (local_auth_memberships u).
    m \<in> set (local_auth_memberships t) \<or> lm_id m = i \<and> lm_org_id m = g \<and> lm_user_id m \<noteq> caller) \<and> (r = Inl e \<longrightarrow> t = u)"
  using run
proof (elim disjE conjE)
  assume c: "removal_checks sv i g caller s = (Inr True, s')" and w: "removal_write sv i u = (r, t)"
  have "may_write i g caller None s"
    using member_checks_run(1) [OF sv, of i g caller s] c by (auto split: if_splits)
  from write_keeps_admin [OF ok may_write_moves [OF ok this same], of t h]
  show ?thesis using w removal_write_run [OF sv, of i u] by auto
next
  assume c: "role_checks sv i g caller role s = (Inr True, s')" and w: "role_write sv now i role u = (r, t)"
  have "may_write i g caller (Some role) s"
    using member_checks_run(2) [OF sv, of i g caller role s] c by (auto split: if_splits)
  note may = may_write_moves [OF ok this same]
  then obtain m where m: "find (\<lambda>x. lm_id x = i) (local_auth_memberships u) = Some m" "lm_org_id m = g"
    by (auto simp: may_write_def split: option.splits)
  from sv w m(1) show ?thesis
  proof (cases rule: role_write_cases)
    case (refused d)
    then show ?thesis by simp
  next
    case updated
    let ?m = "m\<lparr>lm_role_slug := role, lm_updated_at := Some now\<rparr>"
    have "?m \<in> set (local_auth_memberships t)"
      using find_SomeD [OF m(1)] updated(2) by (force simp: replace_rows_def)
    then have "Some role = Some ''admin'' \<Longrightarrow> has_admin g t"
      using m(2) unfolding has_admin_def by (intro bexI [of _ ?m]) simp_all
    moreover have "\<forall>x \<in> set (local_auth_memberships u). lm_id x \<noteq> i \<longrightarrow> x \<in> set (local_auth_memberships t)"
      using updated(2) by (force simp: replace_rows_def)
    ultimately show ?thesis using write_keeps_admin [OF ok may, of t h] updated(1) by simp
  qed
qed

text \<open>The race: both of two administrators are removed when each removal passes its checks before either writes.\<close>

lemma racing_removals:
  assumes ok: "auth_ok s" and sv: "local_service sv"
    and two: "filter (\<lambda>x. lm_role_slug x = ''admin'') (memberships_of g s) = [m, n]"
    and users: "lm_user_id m \<noteq> lm_user_id n"
  shows "\<exists>t. removal_checks sv (lm_id m) g (lm_user_id n) s = (Inr True, s) \<and>
    removal_checks sv (lm_id n) g (lm_user_id m) s = (Inr True, s) \<and>
    andthen (removal_write sv (lm_id m)) (\<lambda>_. removal_write sv (lm_id n)) s = (Inr (), t) \<and> \<not> has_admin g t"
proof -
  have mem: "m \<in> set (local_auth_memberships s)" "n \<in> set (local_auth_memberships s)" "lm_org_id m = g" "lm_org_id n = g"
    using arg_cong [OF two, of set] by (auto simp: memberships_of_def)
  have admins: "filter (\<lambda>x. lm_org_id x = g \<and> lm_role_slug x = ''admin'') (local_auth_memberships s) = [m, n]"
    using two by (simp add: memberships_of_def conj_commute)
  have "find (\<lambda>x. lm_id x = lm_id m) (local_auth_memberships s) = Some m"
    "find (\<lambda>x. lm_id x = lm_id n) (local_auth_memberships s) = Some n"
    using mem memberships.find_unique [OF auth_keys(3) [OF ok]] by auto
  with mem users have "may_write (lm_id m) g (lm_user_id n) None s" "may_write (lm_id n) g (lm_user_id m) None s"
    by (simp_all add: may_write_def loses_admin_def admins)
  moreover have "x = m \<or> x = n" if "x \<in> set (local_auth_memberships s)" "lm_org_id x = g" "lm_role_slug x = ''admin''" for x
    using arg_cong [OF admins, of set] that by auto
  ultimately show ?thesis
    using member_checks_run(1) [OF sv, of "lm_id m" g "lm_user_id n" s] member_checks_run(1) [OF sv, of "lm_id n" g "lm_user_id m" s]
    by (auto simp: andthen_run removal_write_run [OF sv] has_admin_def)
qed

section \<open>The state of an authorization\<close>

lemma b64_no_dot: "CHR ''.'' \<notin> set (b64_encode bs)"
proof -
  let ?digits = "''ABCDEFGHIJKLMNOPQRSTUVWXYZabcdefghijklmnopqrstuvwxyz0123456789-_''"
  have "?digits ! (n mod 64) \<in> set ?digits" for n by (rule nth_mem) simp
  moreover have "CHR ''.'' \<notin> set ?digits" by simp
  ultimately have "b64_digit n \<noteq> CHR ''.''" for n unfolding b64_digit_def by metis
  then have digit: "CHR ''.'' \<noteq> b64_digit n" for n by metis
  show ?thesis by (induction bs rule: b64_encode.induct) (simp_all add: digit)
qed

lemma verify_iff:
  "verifyOAuthState sv signed q \<longleftrightarrow> CHR ''.'' \<notin> set q \<and> signed = signOAuthState sv q"
  by (auto simp: verifyOAuthState_def signOAuthState_def cut_at_append dest: cut_atD split: option.splits prod.splits if_splits)

section \<open>Requests and the tables\<close>

lemma passed_onD:
  assumes "local_service sv" and "passed_on sv now r s = Some p"
  obtains v where "sent_session r = Some v" "cookie_principal (sv_lib sv) now v s = Some p"
  using assms(2) that by (auto simp: passed_on_local [OF assms(1)] split: option.splits)

lemma principal_member:
  assumes "local_service sv" and "passed_on sv now r s = Some p" and "p_OrgID p \<noteq> []"
  shows "\<exists>m \<in> set (local_auth_memberships s). lm_user_id m = p_UserID p \<and> lm_org_id m = p_OrgID p \<and> lm_role_slug m = p_Role p"
proof (rule passed_onD [OF assms(1,2)])
  fix v assume "cookie_principal (sv_lib sv) now v s = Some p"
  then show ?thesis by (rule principal_of_tables) (use assms(3) in auto)
qed

lemma no_session_no_principal:
  assumes "local_service sv" and "sent_session r = Some v" and "parseLocalSessionCookieValue v = Some (j, secret)"
    and "\<forall>x \<in> set (local_auth_sessions s). ls_id x \<noteq> j"
  shows "passed_on sv now r s = None"
proof (rule ccontr)
  assume "passed_on sv now r s \<noteq> None"
  then obtain p where "passed_on sv now r s = Some p" by auto
  from passed_onD [OF assms(1) this] assms(2) have "cookie_principal (sv_lib sv) now v s = Some p" by auto
  then show False by (rule principal_of_tables) (use assms(3,4) in auto)
qed

lemma membership_unique:
  assumes "auth_ok s" and "m \<in> set (local_auth_memberships s)" "m' \<in> set (local_auth_memberships s)"
    and "lm_user_id m = lm_user_id m'" "lm_org_id m = lm_org_id m'"
  shows "m = m'"
  using auth_keys(6) [OF assms(1)] assms(2-5) by (auto simp: distinct_map inj_on_def)

lemma find_mapped: "(\<And>x. key (g x) = key x) \<Longrightarrow> find (\<lambda>x. key x = k) (map g xs) = map_option g (find (\<lambda>x. key x = k) xs)"
  by (induction xs) auto

lemma cookie_principal_mapped:
  assumes "local_auth_users t = map g (local_auth_users s)" and "\<And>u. lu_id (g u) = lu_id u" "\<And>u. lu_email (g u) = lu_email u"
    and "local_auth_sessions t = local_auth_sessions s" "local_auth_memberships t = local_auth_memberships s"
  shows "cookie_principal lib now v t = cookie_principal lib now v s"
  using assms
  by (auto simp: cookie_principal_def localPrincipalFromCookie_def attempt_run GetLocalAuthSession_def find_mapped [of lu_id]
    session_principal_def split: option.splits)

lemma change_password_cases:
  assumes "local_service sv" and "ChangePassword sv now i old new s = (r, t)"
  obtains (refused) e where "r = Inl e" "t = s"
  | (changed) u hash where "r = Inr ()" "find (\<lambda>x. lu_id x = i) (local_auth_users s) = Some u" "8 \<le> length new"
      "lib_CompareHashAndPassword (sv_lib sv) (lu_password_hash u) old" "lib_GenerateFromPassword (sv_lib sv) new = Inr hash"
      "t = local_auth_users_update (map (\<lambda>x. if lu_id x = i then x\<lparr>lu_password_hash := hash, lu_updated_at := Some now\<rparr> else x)) s"
proof (cases "find (\<lambda>x. lu_id x = i) (local_auth_users s)")
  case None
  with assms refused show ?thesis
    by (auto simp: local_service_def ChangePassword_def andthen_run wrap_err_def GetLocalAuthUserByID_def sql_get_def split: if_splits)
next
  case (Some u)
  show ?thesis
  proof (cases "length new < localPasswordMinLen \<or> \<not> lib_CompareHashAndPassword (sv_lib sv) (lu_password_hash u) old")
    case True
    with Some assms refused show ?thesis
      by (auto simp: local_service_def ChangePassword_def andthen_run wrap_err_def GetLocalAuthUserByID_def sql_get_def split: if_splits)
  next
    case passes: False
    show ?thesis
    proof (cases "lib_GenerateFromPassword (sv_lib sv) new")
      case (Inl e)
      with passes Some assms refused show ?thesis
        by (auto simp: local_service_def ChangePassword_def andthen_run wrap_err_def GetLocalAuthUserByID_def sql_get_def)
    next
      case (Inr hash)
      with passes Some assms have run: "andthen (UpdateLocalAuthUserPassword now i hash) (\<lambda>_. ret ()) s = (r, t)"
        by (auto simp: local_service_def ChangePassword_def andthen_run wrap_err_def GetLocalAuthUserByID_def sql_get_def)
      obtain a s1 where update: "UpdateLocalAuthUserPassword now i hash s = (a, s1)" by fastforce
      from update [unfolded UpdateLocalAuthUserPassword_def] show ?thesis
      proof (cases rule: users.update_all_cases)
        case unchanged
        with run update refused show ?thesis by (auto simp: andthen_run)
      next
        case written
        with run update Inr Some passes changed show ?thesis by (auto simp: andthen_run localPasswordMinLen_def)
      qed
    qed
  qed
qed

end
