(* ===== verification/Auth_Limit.thy ===== *)
theory Auth_Limit
  imports Auth_Security
begin

text \<open>
  The limit of attempts over time: whatever requests come in between, attempts of one path from one
  address are let through at most twice the limit in any interval of the length of the window, the
  counting restarting once in it at most.
\<close>

section \<open>Runs\<close>

definition attempt_key :: "'w auth_service \<Rightarrow> http_request \<Rightarrow> string" where
  "attempt_key sv r = rq_Path r @ ''|'' @ localAuthClientIP (sv_lib sv) (sv_cfg sv) r"

text \<open>Requests with their times: which of them the limit lets through.\<close>

fun attempts :: "'w auth_service \<Rightarrow> (go_time \<times> http_request) list \<Rightarrow> 'w auth_state \<Rightarrow> bool list" where
  "attempts sv [] s = []"
| "attempts sv ((now, r) # rs) s =
     (case allowLocalAuthAttempt sv now r s of (Inl e, t) \<Rightarrow> [] | (Inr allowed, t) \<Rightarrow> allowed # attempts sv rs t)"

fun allowed_keys :: "(go_time \<times> string) list \<Rightarrow> (string \<times> rate_entry) list \<Rightarrow> bool list" where
  "allowed_keys [] rate = []"
| "allowed_keys ((now, k) # ks) rate = (case allow_key now k rate of (allowed, rate') \<Rightarrow> allowed # allowed_keys ks rate')"

lemma attempts_keys:
  "attempts sv rs s = allowed_keys (map (\<lambda>(now, r). (now, attempt_key sv r)) rs) (localRate s)"
  by (induction rs arbitrary: s)
    (auto simp: allowLocalAuthAttempt_def attempt_key_def Let_def split: prod.splits)

text \<open>Attempts of a key let through from \<open>a\<close> on and before \<open>b\<close>.\<close>

definition passes :: "string \<Rightarrow> go_time \<Rightarrow> go_time \<Rightarrow> (go_time \<times> string) list \<Rightarrow> bool list \<Rightarrow> nat" where
  "passes k a b ks bs = length (filter (\<lambda>((now, key), allowed). allowed \<and> key = k \<and> a \<le> now \<and> now < b) (zip ks bs))"

lemma passes_simps [simp]:
  "passes k a b [] bs = 0"
  "passes k a b ((now, key) # ks) (allowed # bs) = (if allowed \<and> key = k \<and> a \<le> now \<and> now < b then 1 else 0) + passes k a b ks bs"
  by (simp_all add: passes_def)

lemma passes_late: "\<forall>(now, key) \<in> set ks. b \<le> now \<Longrightarrow> passes k a b ks bs = 0"
  unfolding passes_def by (fastforce simp: filter_empty_conv dest: set_zip_leftD)

section \<open>One attempt\<close>

definition pruned :: "go_time \<Rightarrow> (string \<times> rate_entry) list \<Rightarrow> (string \<times> rate_entry) list" where
  "pruned now rate = (if localAuthRateMaxEntries < length rate then pruneLocalAuthRateEntries now rate else rate)"

lemma map_of_filter:
  "distinct (map fst xs) \<Longrightarrow> map_of (filter (\<lambda>(k, e). P e) xs) k =
     (case map_of xs k of None \<Rightarrow> None | Some e \<Rightarrow> if P e then Some e else None)"
proof (induction xs)
  case Nil
  then show ?case by simp
next
  case (Cons x xs)
  obtain k' e where x: "x = (k', e)" by fastforce
  show ?case
  proof (cases "k' = k")
    case True
    with Cons.prems x have "map_of xs k = None" by (simp add: map_of_eq_None_iff)
    with Cons x True show ?thesis by simp
  next
    case False
    with Cons x show ?thesis by simp
  qed
qed

lemma pruned_lookup:
  assumes "distinct (map fst rate)"
  obtains (kept) "map_of (pruned now rate) k = map_of rate k"
  | (dropped) e where "map_of rate k = Some e" "\<not> now < rate_ResetAt e" "map_of (pruned now rate) k = None"
proof (cases "localAuthRateMaxEntries < length rate")
  case False
  then show ?thesis using kept by (simp add: pruned_def)
next
  case True
  then have "map_of (pruned now rate) k = (case map_of rate k of None \<Rightarrow> None | Some e \<Rightarrow> if now < rate_ResetAt e then Some e else None)"
    using map_of_filter [OF assms, of "\<lambda>e. now < rate_ResetAt e"] by (simp add: pruned_def pruneLocalAuthRateEntries_def)
  then show ?thesis using kept dropped by (cases "map_of rate k") (auto split: if_splits)
qed

lemma pruned_distinct: "distinct (map fst rate) \<Longrightarrow> distinct (map fst (pruned now rate))"
  by (simp add: pruned_def pruneLocalAuthRateEntries_def distinct_map_filter)

lemma allow_key_run:
  "allow_key now k rate = (rate_Count (count_attempt now (map_of (pruned now rate) k)) \<le> localAuthRateLimit,
     AList.update k (count_attempt now (map_of (pruned now rate) k)) (pruned now rate))"
  by (simp add: allow_key_def pruned_def Let_def)

text \<open>An entry that has run out counts from one again.\<close>

lemma count_restarts:
  assumes "zero_time < now" and "case found of None \<Rightarrow> True | Some e \<Rightarrow> \<not> now < rate_ResetAt e"
  shows "rate_Count (count_attempt now found) = 1" "rate_ResetAt (count_attempt now found) = now + localAuthRateWindow"
  using assms by (auto simp: count_attempt_def is_zero_time_def split: option.splits)

lemma count_continues:
  assumes "zero_time < now" and "now < rate_ResetAt e"
  shows "rate_Count (count_attempt now (Some e)) = rate_Count e + 1" "rate_ResetAt (count_attempt now (Some e)) = rate_ResetAt e"
  using assms by (auto simp: count_attempt_def is_zero_time_def)

section \<open>Any interval\<close>

text \<open>What an entry leaves of an interval that has begun and ends at \<open>b\<close>.\<close>

definition left_over :: "go_time \<Rightarrow> rate_entry option \<Rightarrow> nat" where
  "left_over b found = (case found of
       None \<Rightarrow> localAuthRateLimit
     | Some e \<Rightarrow> (localAuthRateLimit - rate_Count e) + (if b \<le> rate_ResetAt e then 0 else localAuthRateLimit))"

lemma left_over_bound: "left_over b found \<le> 2 * localAuthRateLimit"
  by (cases found) (auto simp: left_over_def localAuthRateLimit_def)

lemma passes_begun:
  assumes "sorted (map fst ks)" and "distinct (map fst rate)"
    and "\<forall>(now, key) \<in> set ks. zero_time < now \<and> b - localAuthRateWindow \<le> now"
  shows "passes k (b - localAuthRateWindow) b ks (allowed_keys ks rate) \<le> left_over b (map_of rate k)"
  using assms
proof (induction ks arbitrary: rate)
  case Nil
  then show ?case by simp
next
  case (Cons x ks)
  obtain now key where x: "x = (now, key)" by fastforce
  let ?rate = "snd (allow_key now key rate)"
  have rate: "distinct (map fst ?rate)"
    using Cons.prems(2) by (simp add: allow_key_run pruned_distinct distinct_update)
  have IH: "passes k (b - localAuthRateWindow) b ks (allowed_keys ks ?rate) \<le> left_over b (map_of ?rate k)"
    using Cons.prems rate by (intro Cons.IH) auto
  show ?case
  proof (cases "now < b")
    case False
    with Cons.prems(1) x have "\<forall>(now, key) \<in> set (x # ks). b \<le> now" by auto
    then show ?thesis by (simp add: passes_late)
  next
    case early: True
    have time: "zero_time < now" "b - localAuthRateWindow \<le> now" using Cons.prems(3) x by auto
    have run: "passes k (b - localAuthRateWindow) b (x # ks) (allowed_keys (x # ks) rate) =
        (if fst (allow_key now key rate) \<and> key = k then 1 else 0) + passes k (b - localAuthRateWindow) b ks (allowed_keys ks ?rate)"
      using early time by (simp add: x prod.case_eq_if)
    have step: "(if fst (allow_key now key rate) \<and> key = k then 1 else 0) + left_over b (map_of ?rate k) \<le> left_over b (map_of rate k)"
    proof -
      from Cons.prems(2) show ?thesis
      proof (cases rule: pruned_lookup [of rate now k])
        case kept
        show ?thesis
        proof (cases "key = k")
          case False
          with kept show ?thesis by (simp add: allow_key_run update_conv)
        next
          case True
          show ?thesis
          proof (cases "case map_of rate k of None \<Rightarrow> True | Some e \<Rightarrow> \<not> now < rate_ResetAt e")
            case restart: True
            with True kept early time count_restarts [OF time(1) restart] show ?thesis
              by (auto simp: allow_key_run update_conv left_over_def localAuthRateLimit_def split: option.splits)
          next
            case False
            then obtain e where e: "map_of rate k = Some e" "now < rate_ResetAt e" by (auto split: option.splits)
            with True kept count_continues [OF time(1) e(2)] show ?thesis
              by (auto simp: allow_key_run update_conv left_over_def)
          qed
        qed
      next
        case (dropped e)
        with early time count_restarts [OF time(1), of None] show ?thesis
          by (auto simp: allow_key_run update_conv left_over_def localAuthRateLimit_def)
      qed
    qed
    from run step IH show ?thesis by linarith
  qed
qed

lemma passes_bounded:
  assumes "sorted (map fst ks)" and "distinct (map fst rate)" and "\<forall>(now, key) \<in> set ks. zero_time < now"
  shows "passes k a (a + localAuthRateWindow) ks (allowed_keys ks rate) \<le> 2 * localAuthRateLimit"
  using assms
proof (induction ks arbitrary: rate)
  case Nil
  then show ?case by simp
next
  case (Cons x ks)
  obtain now key where x: "x = (now, key)" by fastforce
  show ?case
  proof (cases "a \<le> now")
    case True
    with Cons.prems x have "\<forall>(now, key) \<in> set (x # ks). zero_time < now \<and> a \<le> now" by auto
    with Cons.prems passes_begun [of "x # ks" rate "a + localAuthRateWindow" k] left_over_bound [of "a + localAuthRateWindow" "map_of rate k"]
    show ?thesis by (simp add: split_def) 
  next
    case False
    have "distinct (map fst (snd (allow_key now key rate)))"
      using Cons.prems(2) by (simp add: allow_key_run pruned_distinct distinct_update)
    with Cons.prems have "passes k a (a + localAuthRateWindow) ks (allowed_keys ks (snd (allow_key now key rate))) \<le> 2 * localAuthRateLimit"
      by (intro Cons.IH) auto
    with False show ?thesis by (simp add: x prod.case_eq_if)
  qed
qed

end
