(* ===== verification/Auth_Properties.thy ===== *)
theory Auth_Properties
  imports Auth_Laws Auth_Limit
begin

text \<open>
  The properties of authentication, with the example service and accounts of their witnesses.
\<close>

section \<open>An example\<close>

text \<open>
  A library in which hashing prefixes a letter, a password is hashed by prefixing a dollar sign, and every
  text with an at sign is an address; a provider that knows nothing; two members of one organisation.
\<close>

definition demo_auth_lib :: auth_lib where
  "demo_auth_lib = \<lparr>lib_Text = (\<lambda>e. ''error''), lib_Sum256 = (\<lambda>t. CHR ''h'' # t), lib_HMAC = (\<lambda>k m. map of_char (k @ m)),
     lib_HKDF = (\<lambda>p i. Inr p), lib_GenerateFromPassword = (\<lambda>p. Inr (CHR ''$'' # p)),
     lib_CompareHashAndPassword = (\<lambda>h p. h = CHR ''$'' # p), lib_ParseAddress = (\<lambda>a. Some (a, [])),
     lib_ParseURL = (\<lambda>u. Inr (u, [])), lib_ParseIP = (\<lambda>i. Some i), lib_SplitHostPort = (\<lambda>a. Some a),
     lib_ParseRFC3339 = (\<lambda>t. None), lib_FormatDate = (\<lambda>t. []), lib_Order = (\<lambda>ks. ks)\<rparr>"

definition demo_refuses :: "(unit, 'a) go" where
  "demo_refuses = fail (ErrNew ''not found'')"

definition demo_nothing :: "(unit, 'a) iterator" where
  "demo_nothing = (\<lambda>w. (([], None), w))"

definition demo_workos :: "unit workos_ops" where
  "demo_workos = \<lparr>wk_GetUser = (\<lambda>u. demo_refuses), wk_UpdateUser = (\<lambda>u a b. demo_refuses), wk_DeleteUser = (\<lambda>u. demo_refuses),
     wk_ResetPassword = (\<lambda>e. demo_refuses), wk_ListUsers = (\<lambda>g e. demo_nothing), wk_ListMemberships = (\<lambda>g u st. demo_nothing),
     wk_GetMembership = (\<lambda>m. demo_refuses), wk_CreateMembership = (\<lambda>u g r. demo_refuses), wk_UpdateMembership = (\<lambda>m r. demo_refuses),
     wk_DeleteMembership = (\<lambda>m. demo_refuses), wk_ListInvitations = (\<lambda>g. demo_nothing), wk_GetInvitation = (\<lambda>i. demo_refuses),
     wk_SendInvitation = (\<lambda>e g r u. demo_refuses), wk_RevokeInvitation = (\<lambda>i. demo_refuses), wk_CreateOrganization = (\<lambda>n. demo_refuses),
     wk_GetOrganization = (\<lambda>g. demo_refuses), wk_UpdateOrganization = (\<lambda>g n. demo_refuses), wk_DeleteOrganization = (\<lambda>g. demo_refuses),
     wk_ListFeatureFlags = (\<lambda>g. demo_nothing), wk_AuthorizationURL = (\<lambda>h s i p. ''https://auth.example/''),
     wk_AuthenticateWithCode = (\<lambda>c i. ret \<lparr>wr_Contents = c, wr_OrganizationID = None\<rparr>),
     wk_AuthenticateWithRefreshToken = (\<lambda>t g. demo_refuses), wk_RevokeSession = (\<lambda>i. demo_refuses),
     wk_AuthenticateSession = (\<lambda>c p. Inl (ErrNew ''no session'')), wk_Unseal = (\<lambda>c p. Inl (ErrNew ''no session'')),
     wk_Seal = (\<lambda>a p. Inr (wr_Contents a))\<rparr>"

definition demo_auth_cfg :: "string \<Rightarrow> auth_config" where
  "demo_auth_cfg mode = \<lparr>cfg_Mode = mode, cfg_APIKey = ''key'', cfg_ClientID = ''client'', cfg_CookiePassword = ''pw'',
     cfg_RedirectURI = ''hetchy.example'', cfg_LocalQueries = True, cfg_CookieSecure = True, cfg_TrustedProxy = False, cfg_Bypass = False,
     cfg_BypassUser = [], cfg_BypassOrg = [], cfg_BypassRole = [], cfg_BypassEmail = []\<rparr>"

definition demo_auth :: "string \<Rightarrow> unit auth_service" where
  "demo_auth mode = \<lparr>sv_cfg = demo_auth_cfg mode, sv_lib = demo_auth_lib, sv_workos = demo_workos, sv_statePath = ''/'',
     sv_stateKey = ''k'', sv_publicHost = ''hetchy.example''\<rparr>"

definition demo_user :: "string \<Rightarrow> string \<Rightarrow> user_row" where
  "demo_user i mail = \<lparr>lu_id = i, lu_email = mail, lu_email_normalized = mail, lu_password_hash = ''$password'', lu_first_name = [],
     lu_last_name = [], lu_created_at = Some 0, lu_updated_at = Some 0\<rparr>"

definition demo_member :: "string \<Rightarrow> string \<Rightarrow> string \<Rightarrow> membership_row" where
  "demo_member i u role = \<lparr>lm_id = i, lm_user_id = u, lm_org_id = ''g'', lm_role_slug = role, lm_created_at = Some 0, lm_updated_at = Some 0\<rparr>"

definition demo_invitation :: "string \<Rightarrow> string \<Rightarrow> invitation_row" where
  "demo_invitation mail role = \<lparr>li_id = ''i'', li_org_id = ''g'', li_email = mail, li_email_normalized = mail, li_role_slug = role,
     li_token_hash = ''htoken'', li_expires_at = Some 1000, li_accepted_at = None, li_revoked_at = None, li_created_by = Some ''a'',
     li_created_at = Some 0, li_updated_at = Some 0\<rparr>"

definition demo_accounts :: "invitation_row \<Rightarrow> membership_row list \<Rightarrow> unit auth_state" where
  "demo_accounts invite ms = \<lparr>local_auth_users = [demo_user ''a'' ''ann@ex.org'', demo_user ''b'' ''bob@ex.org''],
     local_auth_orgs = [\<lparr>lo_id = ''g'', lo_name = ''Group'', lo_created_at = Some 0, lo_updated_at = Some 0\<rparr>],
     local_auth_memberships = ms, local_auth_invitations = [invite], local_auth_sessions = [], multiOrgCache = Map.empty, localRate = [],
     provider = ()\<rparr>"

definition demo_post :: "string \<Rightarrow> string \<Rightarrow> http_request" where
  "demo_post mail invite = \<lparr>rq_Method = ''POST'', rq_Host = ''hetchy.example'', rq_RemoteAddr = ''10.0.0.1'', rq_Path = ''/login'',
     rq_Header = (\<lambda>h. []), rq_Query = (\<lambda>q. []), rq_ParseForm = None,
     rq_FormValue = (\<lambda>f. if f = ''csrf_token'' then ''t'' else if f = ''email'' then mail else if f = ''password'' then ''password''
       else if f = ''invite'' then invite else []),
     rq_Cookie = (\<lambda>c. if c = localAuthCSRFCookieName then Some ''t'' else None)\<rparr>"

definition demo_bytes :: random_bytes where
  "demo_bytes = \<lparr>rb_User = [1], rb_Membership = [2], rb_Session = [3], rb_Secret = [4], rb_Form = [5]\<rparr>"

lemmas demo_auth_defs = demo_auth_def demo_auth_cfg_def demo_accounts_def demo_post_def demo_user_def demo_member_def demo_invitation_def
  demo_bytes_def demo_auth_lib_def

section \<open>The tables\<close>

text \<open>Whatever sequence of requests and calls the service handles, with any
  clock, random bytes and answers of the provider: users have distinct ids and addresses, there is at most
  one membership for a user and an organisation, token hashes are distinct, and every membership,
  invitation and session refers to users and organisations that exist.
\<close>

theorem auth_tables_stay_consistent:
  assumes "auth_ok s" and "(auth_step sv)\<^sup>*\<^sup>* s t"
  shows "auth_ok t"
  using assms(2,1) by (induction rule: rtranclp_induct) (auto intro: auth_step_keeps)

definition demo_state :: "unit auth_state" where
  "demo_state = demo_accounts (demo_invitation ''bob@ex.org'' ''member'') [demo_member ''m'' ''a'' ''admin'']"

definition demo_login :: "(go_error + auth_response) \<times> unit auth_state" where
  "demo_login = LoginHandler (demo_auth ''local'') 10 10 demo_bytes (demo_post ''bob@ex.org'' ''token'') demo_state"

lemma demo_accounts_ok: "auth_ok demo_state"
  by (auto simp: demo_state_def demo_auth_defs auth_ok_defs roles_def)

lemma demo_login_runs:
  "local_auth_memberships (snd demo_login) = [demo_member ''m'' ''a'' ''admin'',
     \<lparr>lm_id = ''om_local_02'', lm_user_id = ''b'', lm_org_id = ''g'', lm_role_slug = ''member'', lm_created_at = Some 10, lm_updated_at = Some 10\<rparr>]"
  by code_simp

theorem auth_tables_stay_consistent_witness: "auth_ok (snd demo_login)"
proof -
  have "auth_step (demo_auth ''local'') demo_state (snd demo_login)"
    unfolding demo_login_def by (rule auth_step.login [OF prod.collapse [symmetric]])
  then have "(auth_step (demo_auth ''local''))\<^sup>*\<^sup>* demo_state (snd demo_login)" by (rule r_into_rtranclp)
  from auth_tables_stay_consistent [OF demo_accounts_ok this] show ?thesis .
qed

section \<open>Members\<close>

text \<open>C18: A log-in or sign-up makes a user a member, or changes a role, only on the strength of
  an invitation to that user's own address: it is stored, neither accepted nor revoked nor expired, its
  hash is that of the submitted token, and the row has its organisation and role. The invitation cannot be
  used again, and the memberships of everybody else, and in other organisations, are as before.
\<close>

theorem memberships_are_invited:
  assumes "auth_ok s" and "IsLocalMode (sv_cfg sv)"
    and "LoginHandler sv clock now rb r s = (x, t) \<or> SignupHandler sv clock now rb r s = (x, t)"
    and "m \<in> set (local_auth_memberships t)" "m \<notin> set (local_auth_memberships s)"
  shows "\<exists>i \<in> set (local_auth_invitations s). \<exists>u \<in> set (local_auth_users t).
    pending_invitation clock i \<and> li_token_hash i = hashLocalToken (sv_lib sv) (trim_space (rq_FormValue r ''invite'')) \<and>
    lu_email_normalized u = li_email_normalized i \<and>
    lm_user_id m = lu_id u \<and> lm_org_id m = li_org_id i \<and> lm_role_slug m = li_role_slug i \<and>
    (\<forall>j \<in> set (local_auth_invitations t). li_id j = li_id i \<longrightarrow> \<not> pending_invitation now j) \<and>
    (\<forall>m' \<in> set (local_auth_memberships s). lm_user_id m' = lu_id u \<and> lm_org_id m' = li_org_id i \<or> m' \<in> set (local_auth_memberships t))"
proof -
  have "members_justified (sv_lib sv) clock now (trim_space (rq_FormValue r ''invite'')) s t"
    by (rule handlers_justified [OF assms(1-3)])
  with assms(4,5) obtain i u where "i \<in> set (local_auth_invitations s)" "u \<in> set (local_auth_users t)" "pending_invitation clock i"
    "li_token_hash i = hashLocalToken (sv_lib sv) (trim_space (rq_FormValue r ''invite''))" "lu_email_normalized u = li_email_normalized i"
    "written_for (lu_id u) (li_org_id i) (li_role_slug i) (local_auth_memberships s) (local_auth_memberships t)"
    "\<forall>j \<in> set (local_auth_invitations t). li_id j = li_id i \<longrightarrow> \<not> pending_invitation now j"
    by (auto simp: members_justified_def invited_def)
  with assms(4,5) show ?thesis unfolding written_for_def by (intro bexI [of _ i] bexI [of _ u]) auto
qed

theorem memberships_are_invited_witness:
  "\<exists>i \<in> set (local_auth_invitations demo_state). li_org_id i = ''g'' \<and> pending_invitation 10 i"
proof -
  let ?m = "\<lparr>lm_id = ''om_local_02'', lm_user_id = ''b'', lm_org_id = ''g'', lm_role_slug = ''member'', lm_created_at = Some 10, lm_updated_at = Some 10\<rparr>"
  have local: "IsLocalMode (sv_cfg (demo_auth ''local''))" by code_simp
  have "LoginHandler (demo_auth ''local'') 10 10 demo_bytes (demo_post ''bob@ex.org'' ''token'') demo_state = (fst demo_login, snd demo_login)"
    by (simp add: demo_login_def)
  moreover have "?m \<in> set (local_auth_memberships (snd demo_login))" "?m \<notin> set (local_auth_memberships demo_state)"
    unfolding demo_login_runs by (simp_all add: demo_state_def demo_auth_defs)
  ultimately show ?thesis
    using memberships_are_invited [OF demo_accounts_ok local, of 10 10 demo_bytes "demo_post ''bob@ex.org'' ''token''" "fst demo_login" "snd demo_login" ?m]
    by auto
qed

text \<open>C19: in local mode, when no change to the organisation's memberships comes between the checks of a
  removal or a change of role and its write (in particular when nothing comes between), the write changes
  at most the named membership, which is one of the organisation the caller acts for and not the caller's
  own, an organisation that has an administrator keeps one, and a failing write changes nothing; the checks
  only read.
\<close>

theorem last_admin_survives:
  assumes "auth_ok u" and "local_service sv" and "memberships_of g u = memberships_of g s"
    and "removal_checks sv i g caller s = (Inr True, s') \<and> removal_write sv i u = (r, t) \<or>
      role_checks sv i g caller role s = (Inr True, s') \<and> role_write sv now i role u = (r, t)"
  shows "s' = s \<and> (has_admin h u \<longrightarrow> has_admin h t) \<and>
    (\<forall>m \<in> set (local_auth_memberships u). m \<in> set (local_auth_memberships t) \<or>
      lm_id m = i \<and> lm_org_id m = g \<and> lm_user_id m \<noteq> caller) \<and> (r = Inl e \<longrightarrow> t = u)"
proof -
  have "s' = s"
    using assms(4) member_checks_run(1) [OF assms(2), of i g caller s] member_checks_run(2) [OF assms(2), of i g caller role s]
    by (auto split: if_splits)
  with late_write_keeps_admin [OF assms] show ?thesis by blast
qed

lemma demo_local: "local_service (demo_auth ''local'')"
  by (simp add: local_service_def demo_auth_defs IsLocalMode_def AuthModeLocal_def)

definition two_members :: "unit auth_state" where
  "two_members = demo_accounts (demo_invitation ''eve@ex.org'' ''member'') [demo_member ''m'' ''a'' ''admin'', demo_member ''n'' ''b'' ''member'']"

lemma two_members_ok: "auth_ok two_members"
  by (auto simp: two_members_def demo_auth_defs auth_ok_defs roles_def)

text \<open>Ann removes Bob, who is no administrator, after somebody signed up for another organisation.\<close>

definition two_members_later :: "unit auth_state" where
  "two_members_later = two_members\<lparr>local_auth_users := local_auth_users two_members @ [demo_user ''c'' ''cyd@ex.org''],
     local_auth_memberships := local_auth_memberships two_members @ [demo_member ''p'' ''c'' ''member''\<lparr>lm_org_id := ''h''\<rparr>],
     local_auth_orgs := local_auth_orgs two_members @ [hd (local_auth_orgs two_members)\<lparr>lo_id := ''h''\<rparr>]\<rparr>"

theorem last_admin_survives_witness:
  "has_admin ''g'' (snd (removal_write (demo_auth ''local'') ''n'' two_members_later)) \<and>
   local_auth_memberships two_members_later \<noteq> local_auth_memberships two_members"
proof -
  have ok: "auth_ok two_members_later"
    by (auto simp: two_members_later_def two_members_def demo_auth_defs auth_ok_defs roles_def)
  have same: "memberships_of ''g'' two_members_later = memberships_of ''g'' two_members"
    by (simp add: two_members_later_def memberships_of_def demo_auth_defs)
  have "may_write ''n'' ''g'' ''a'' None two_members"
    by (simp add: may_write_def loses_admin_def two_members_def demo_auth_defs)
  then have "removal_checks (demo_auth ''local'') ''n'' ''g'' ''a'' two_members = (Inr True, two_members)"
    using member_checks_run(1) [OF demo_local, of "''n''" "''g''" "''a''" two_members] by simp
  from last_admin_survives [OF ok demo_local same disjI1 [OF conjI [OF this prod.collapse [symmetric]]], where h = "''g''"]
  have "has_admin ''g'' two_members_later \<longrightarrow> has_admin ''g'' (snd (removal_write (demo_auth ''local'') ''n'' two_members_later))"
    by blast
  moreover have "has_admin ''g'' two_members_later"
    by (simp add: has_admin_def two_members_later_def two_members_def demo_auth_defs)
  moreover have "local_auth_memberships two_members_later \<noteq> local_auth_memberships two_members"
    by (simp add: two_members_later_def)
  ultimately show ?thesis by blast
qed

text \<open>C20: the guard of the last administrator does not hold between requests. When an organisation has
  exactly two administrators and each asks to remove the other, both requests pass their checks before
  either writes, both writes succeed, and the organisation is left without an administrator.\<close>

theorem racing_removals_leave_no_admin:
  assumes "auth_ok s" and "local_service sv"
    and "filter (\<lambda>x. lm_role_slug x = ''admin'') (memberships_of g s) = [m, n]" and "lm_user_id m \<noteq> lm_user_id n"
  shows "\<exists>t. removal_checks sv (lm_id m) g (lm_user_id n) s = (Inr True, s) \<and>
    removal_checks sv (lm_id n) g (lm_user_id m) s = (Inr True, s) \<and>
    andthen (removal_write sv (lm_id m)) (\<lambda>_. removal_write sv (lm_id n)) s = (Inr (), t) \<and> \<not> has_admin g t"
  by (rule racing_removals [OF assms])

definition two_admins :: "unit auth_state" where
  "two_admins = demo_accounts (demo_invitation ''eve@ex.org'' ''member'') [demo_member ''m'' ''a'' ''admin'', demo_member ''n'' ''b'' ''admin'']"

theorem racing_removals_leave_no_admin_witness:
  "\<exists>t. andthen (removal_write (demo_auth ''local'') ''m'') (\<lambda>_. removal_write (demo_auth ''local'') ''n'') two_admins = (Inr (), t) \<and>
     has_admin ''g'' two_admins \<and> \<not> has_admin ''g'' t"
proof -
  have ok: "auth_ok two_admins" by (auto simp: two_admins_def demo_auth_defs auth_ok_defs roles_def)
  have "filter (\<lambda>x. lm_role_slug x = ''admin'') (memberships_of ''g'' two_admins) =
      [demo_member ''m'' ''a'' ''admin'', demo_member ''n'' ''b'' ''admin'']"
    by (simp add: two_admins_def memberships_of_def demo_auth_defs)
  from racing_removals_leave_no_admin [OF ok demo_local this] show ?thesis
    by (simp add: demo_auth_defs two_admins_def has_admin_def)
qed

section \<open>Sessions\<close>

text \<open>C21: A log-in that ends in a redirect had passed the checks of origin and form token
  and the password of the account of its address. The one cookie it sets makes, until seven days after
  the log-in, every request that carries it a request of that account, and none from then on.
\<close>

theorem login_opens_a_session:
  assumes "auth_ok s" and "local_service sv" and "LoginHandler sv clock now rb r s = (Inr resp, t)" and "rs_Body resp = Redirect dest"
    and "rb_Secret rb \<noteq> []"
  shows "\<exists>v. \<exists>u \<in> set (local_auth_users s).
    resp = with_cookie (session_cookie (sv_cfg sv) clock v) (answer (Redirect dest)) \<and>
    lu_email_normalized u = normalizeEmail (rq_FormValue r ''email'') \<and>
    lib_CompareHashAndPassword (sv_lib sv) (lu_password_hash u) (rq_FormValue r ''password'') \<and>
    requireLocalSameOrigin (sv_lib sv) r = None \<and> requireLocalAuthCSRF r = None \<and>
    (\<forall>req at'. rq_Cookie req SessionCookieName = Some v \<longrightarrow>
      (if at' < clock + localSessionTTL
       then \<exists>p. passed_on sv at' req t = Some p \<and> p_UserID p = lu_id u \<and> p_Email p = lu_email u
       else passed_on sv at' req t = None))"
proof -
  have mode: "IsLocalMode (sv_cfg sv)" using assms(2) by (simp add: local_service_def)
  obtain s1 g u where opened: "open_session sv clock now rb (lu_id u) g s1 = (Inr resp, t)" "auth_ok s1"
    and u: "u \<in> set (local_auth_users s)" "local_auth_users s1 = local_auth_users s"
      "lu_email_normalized u = normalizeEmail (rq_FormValue r ''email'')"
      "lib_CompareHashAndPassword (sv_lib sv) (lu_password_hash u) (rq_FormValue r ''password'')"
      "requireLocalSameOrigin (sv_lib sv) r = None" "requireLocalAuthCSRF r = None"
    by (rule login_opens [OF assms(1) mode assms(3,4)])
  obtain v where v: "resp = with_cookie (session_cookie (sv_cfg sv) clock v) (answer (Redirect dest))" "v \<noteq> []"
    "\<And>at'. at' < clock + localSessionTTL \<Longrightarrow>
       \<exists>p. cookie_principal (sv_lib sv) at' v t = Some p \<and> p_UserID p = lu_id u \<and> p_Email p = lu_email u"
    "\<And>at'. clock + localSessionTTL \<le> at' \<Longrightarrow> cookie_principal (sv_lib sv) at' v t = None"
    using opened_session_reads [OF opened(2,1) assms(4) _ assms(5)] u(1,2) by metis
  have "passed_on sv at' req t = cookie_principal (sv_lib sv) at' v t" if "rq_Cookie req SessionCookieName = Some v" for req at'
    using that v(2) by (simp add: passed_on_local [OF assms(2)] sent_session_def)
  with u v show ?thesis by (intro exI [of _ v] bexI [of _ u]) auto
qed

theorem login_opens_a_session_witness:
  "\<exists>v. rs_Cookies (case fst demo_login of Inr resp \<Rightarrow> resp) = [session_cookie (demo_auth_cfg ''local'') 10 v] \<and>
     (\<exists>p. passed_on (demo_auth ''local'') 11 ((demo_post [] [])\<lparr>rq_Cookie := (\<lambda>c. Some v)\<rparr>) (snd demo_login) = Some p \<and>
       p_Email p = ''bob@ex.org'')"
proof -
  have redirect: "(case fst demo_login of Inl e \<Rightarrow> False | Inr resp \<Rightarrow> rs_Body resp = Redirect ''/'')" by code_simp
  then obtain resp where resp: "fst demo_login = Inr resp" "rs_Body resp = Redirect ''/''" by (auto split: sum.splits)
  then have run: "LoginHandler (demo_auth ''local'') 10 10 demo_bytes (demo_post ''bob@ex.org'' ''token'') demo_state = (Inr resp, snd demo_login)"
    by (metis demo_login_def prod.collapse)
  have "rb_Secret demo_bytes \<noteq> []" by (simp add: demo_bytes_def)
  from login_opens_a_session [OF demo_accounts_ok demo_local run resp(2) this] obtain v u where
    u: "u \<in> set (local_auth_users demo_state)" "lu_email_normalized u = normalizeEmail (rq_FormValue (demo_post ''bob@ex.org'' ''token'') ''email'')"
    and v: "resp = with_cookie (session_cookie (sv_cfg (demo_auth ''local'')) 10 v) (answer (Redirect ''/''))"
    and all: "\<forall>req at'. rq_Cookie req SessionCookieName = Some v \<longrightarrow>
      (if at' < 10 + localSessionTTL
       then \<exists>p. passed_on (demo_auth ''local'') at' req (snd demo_login) = Some p \<and> p_UserID p = lu_id u \<and> p_Email p = lu_email u
       else passed_on (demo_auth ''local'') at' req (snd demo_login) = None)" by blast
  have "normalizeEmail (rq_FormValue (demo_post ''bob@ex.org'' ''token'') ''email'') = ''bob@ex.org''" by code_simp
  with u have "lu_email u = ''bob@ex.org''" by (auto simp: demo_state_def demo_auth_defs)
  moreover have "(11::int) < 10 + localSessionTTL" by (simp add: localSessionTTL_def hour_def)
  moreover have "rq_Cookie ((demo_post [] [])\<lparr>rq_Cookie := (\<lambda>c. Some v)\<rparr>) SessionCookieName = Some v" by simp
  ultimately have "\<exists>p. passed_on (demo_auth ''local'') 11 ((demo_post [] [])\<lparr>rq_Cookie := (\<lambda>c. Some v)\<rparr>) (snd demo_login) = Some p \<and>
      p_Email p = ''bob@ex.org''"
    using all by metis
  moreover have "rs_Cookies (case fst demo_login of Inr resp \<Rightarrow> resp) = [session_cookie (demo_auth_cfg ''local'') 10 v]"
    using resp(1) v by (simp add: with_cookie_def answer_def demo_auth_def)
  ultimately show ?thesis by blast
qed

text \<open>C22: Whoever a request of the local mode is taken for: its cookie names a stored session that has not expired and a
  secret with the stored hash, of a user who exists; and the organisation and role it acts with are those
  of a membership the tables hold at that moment.
\<close>

theorem principal_is_current:
  assumes "local_service sv" and "passed_on sv now r s = Some p"
  shows "\<exists>x \<in> set (local_auth_sessions s). \<exists>u \<in> set (local_auth_users s). \<exists>secret.
    rq_Cookie r SessionCookieName = Some (localSessionCookieValue (ls_id x) secret) \<and>
    hashLocalToken (sv_lib sv) secret = ls_token_hash x \<and> later (ls_expires_at x) now \<and> ls_user_id x = lu_id u \<and>
    p_UserID p = lu_id u \<and> p_Email p = lu_email u \<and> p_SessionID p = ls_id x \<and>
    (HasOrg p \<longrightarrow> ls_active_org_id x = Some (p_OrgID p) \<and>
      (\<exists>m \<in> set (local_auth_memberships s). lm_user_id m = lu_id u \<and> lm_org_id m = p_OrgID p \<and> lm_role_slug m = p_Role p))"
proof -
  obtain v where v: "rq_Cookie r SessionCookieName = Some v" "cookie_principal (sv_lib sv) now v s = Some p"
    using assms(2) by (auto simp: passed_on_local [OF assms(1)] sent_session_def split: option.splits if_splits)
  from v(2) show ?thesis
  proof (rule principal_of_tables)
    fix x u secret assume x: "x \<in> set (local_auth_sessions s)" "u \<in> set (local_auth_users s)"
      "parseLocalSessionCookieValue v = Some (ls_id x, secret)" "hashLocalToken (sv_lib sv) secret = ls_token_hash x"
      "later (ls_expires_at x) now" "ls_user_id x = lu_id u" "p_UserID p = lu_id u" "p_Email p = lu_email u" "p_SessionID p = ls_id x"
      and org: "p_OrgID p \<noteq> [] \<Longrightarrow> ls_active_org_id x = Some (p_OrgID p) \<and>
        (\<exists>m \<in> set (local_auth_memberships s). lm_user_id m = lu_id u \<and> lm_org_id m = p_OrgID p \<and> lm_role_slug m = p_Role p)"
    have "v = localSessionCookieValue (ls_id x) secret"
      using x(3) by (auto simp: parseLocalSessionCookieValue_def localSessionCookieValue_def dest: cut_atD split: option.splits if_splits)
    then show ?thesis using x org v(1) unfolding HasOrg_def by (intro bexI [of _ x] bexI [of _ u] exI [of _ secret]) auto
  qed
qed

definition demo_session :: session_row where
  "demo_session = \<lparr>ls_id = ''z'', ls_user_id = ''b'', ls_token_hash = ''hsecret'', ls_active_org_id = Some ''g'', ls_expires_at = Some 100,
     ls_last_seen_at = Some 0, ls_created_at = Some 0\<rparr>"

definition demo_signed_in :: "unit auth_state" where
  "demo_signed_in = two_members\<lparr>local_auth_sessions := [demo_session]\<rparr>"

definition demo_request :: http_request where
  "demo_request = (demo_post [] [])\<lparr>rq_Cookie := (\<lambda>c. if c = SessionCookieName then Some ''z.secret'' else None)\<rparr>"

lemma demo_signed_in_ok: "auth_ok demo_signed_in"
  by (auto simp: demo_signed_in_def demo_session_def two_members_def demo_auth_defs auth_ok_defs roles_def)

definition demo_principal :: principal where
  "demo_principal = \<lparr>p_UserID = ''b'', p_Email = ''bob@ex.org'', p_OrgID = ''g'', p_Role = ''member'', p_SessionID = ''z'', p_IsAPIKey = False\<rparr>"

lemma demo_passed_on: "passed_on (demo_auth ''local'') 50 demo_request demo_signed_in = Some demo_principal"
  by code_simp

theorem principal_is_current_witness:
  "\<exists>m \<in> set (local_auth_memberships demo_signed_in). lm_user_id m = ''b'' \<and> lm_org_id m = ''g'' \<and> lm_role_slug m = ''member''"
  using principal_is_current [OF demo_local demo_passed_on] by (auto simp: demo_principal_def HasOrg_def)

text \<open>In local mode, after a log-out the cookie of the request passes for nobody; after a member is removed no
  request of that user acts in the organisation any more; after a role is changed every request of that
  user in the organisation has the new role, whatever sessions are open.
\<close>

theorem revocation_is_immediate:
  assumes "auth_ok s" and "local_service sv" and "g \<noteq> []"
  shows "(LogoutHandler sv r s = (x, t) \<longrightarrow> rq_Cookie req SessionCookieName = rq_Cookie r SessionCookieName \<longrightarrow> passed_on sv now req t = None) \<and>
    (RemoveMember sv i g caller s = (Inr (), t) \<longrightarrow>
      (\<exists>m \<in> set (local_auth_memberships s). lm_id m = i \<and>
        (\<forall>p. passed_on sv now req t = Some p \<longrightarrow> p_UserID p = lm_user_id m \<longrightarrow> p_OrgID p \<noteq> g))) \<and>
    (UpdateMemberRole sv now' i g caller role s = (Inr (), t) \<longrightarrow>
      (\<exists>m \<in> set (local_auth_memberships s). lm_id m = i \<and>
        (\<forall>p. passed_on sv now req t = Some p \<longrightarrow> p_UserID p = lm_user_id m \<longrightarrow> p_OrgID p = g \<longrightarrow> p_Role p = role)))"
proof (intro conjI impI)
  assume logout: "LogoutHandler sv r s = (x, t)" and same: "rq_Cookie req SessionCookieName = rq_Cookie r SessionCookieName"
  have sent: "sent_session req = sent_session r" using same by (simp add: sent_session_def)
  show "passed_on sv now req t = None"
  proof (cases "sent_session r")
    case None
    then show ?thesis by (simp add: passed_on_local [OF assms(2)] sent)
  next
    case (Some v)
    show ?thesis
    proof (cases "parseLocalSessionCookieValue v")
      case None
      then show ?thesis using Some
        by (simp add: passed_on_local [OF assms(2)] sent cookie_principal_def localPrincipalFromCookie_def)
    next
      case parsed: (Some y)
      then obtain j secret where y: "parseLocalSessionCookieValue v = Some (j, secret)" by (cases y) simp
      have "t = snd (DeleteLocalAuthSession j s)"
        using logout Some y assms(2)
        by (auto simp: LogoutHandler_def and_cookie_def andthen_run revokeCurrentSession_def localRevokeCurrentSession_def local_service_def
          attempt_run split: prod.splits)
      then have "\<forall>z \<in> set (local_auth_sessions t). ls_id z \<noteq> j" by (simp add: DeleteLocalAuthSession_def sql_delete_def)
      then show ?thesis using no_session_no_principal [OF assms(2) _ y] Some sent by simp
    qed
  qed
next
  assume "RemoveMember sv i g caller s = (Inr (), t)"
  with assms(2) show "\<exists>m \<in> set (local_auth_memberships s). lm_id m = i \<and>
      (\<forall>p. passed_on sv now req t = Some p \<longrightarrow> p_UserID p = lm_user_id m \<longrightarrow> p_OrgID p \<noteq> g)"
  proof (cases rule: remove_member_cases)
    case (removed m)
    then have m: "m \<in> set (local_auth_memberships s)" "lm_id m = i" by (auto dest: find_SomeD)
    have "p_OrgID p \<noteq> g" if p: "passed_on sv now req t = Some p" "p_UserID p = lm_user_id m" for p
    proof
      assume "p_OrgID p = g"
      then obtain m' where "m' \<in> set (local_auth_memberships t)" "lm_user_id m' = lm_user_id m" "lm_org_id m' = lm_org_id m"
        using principal_member [OF assms(2) p(1)] assms(3) p(2) removed(3) by auto
      then show False using membership_unique [OF assms(1) _ m(1), of m'] m(2) removed(5) by auto
    qed
    with m show ?thesis by blast
  qed simp
next
  assume "UpdateMemberRole sv now' i g caller role s = (Inr (), t)"
  with assms(2) show "\<exists>m \<in> set (local_auth_memberships s). lm_id m = i \<and>
      (\<forall>p. passed_on sv now req t = Some p \<longrightarrow> p_UserID p = lm_user_id m \<longrightarrow> p_OrgID p = g \<longrightarrow> p_Role p = role)"
  proof (cases rule: update_role_cases)
    case (updated m)
    then have m: "m \<in> set (local_auth_memberships s)" "lm_id m = i" by (auto dest: find_SomeD)
    have "p_Role p = role" if p: "passed_on sv now req t = Some p" "p_UserID p = lm_user_id m" "p_OrgID p = g" for p
    proof -
      obtain m' where m': "m' \<in> set (local_auth_memberships t)" "lm_user_id m' = lm_user_id m" "lm_org_id m' = lm_org_id m"
        "lm_role_slug m' = p_Role p"
        using principal_member [OF assms(2) p(1)] assms(3) p(2,3) updated(3) by auto
      from m'(1) updated(5) have "lm_role_slug m' = role \<or> m' \<in> set (local_auth_memberships s) \<and> lm_id m' \<noteq> i"
        by (auto simp: replace_rows_def)
      then show ?thesis using membership_unique [OF assms(1) _ m(1), of m'] m(2) m' by auto
    qed
    with m show ?thesis by blast
  qed simp
qed

text \<open>Ann removes Bob, who has a session open.\<close>

theorem revocation_is_immediate_witness:
  "p_OrgID (the (passed_on (demo_auth ''local'') 50 demo_request
     (snd (RemoveMember (demo_auth ''local'') ''n'' ''g'' ''a'' demo_signed_in)))) \<noteq> ''g''"
proof -
  let ?run = "RemoveMember (demo_auth ''local'') ''n'' ''g'' ''a'' demo_signed_in"
  let ?seen = "passed_on (demo_auth ''local'') 50 demo_request (snd ?run)"
  have "fst ?run = Inr ()" by code_simp
  then have "?run = (Inr (), snd ?run)" by (metis prod.collapse)
  with revocation_is_immediate [OF demo_signed_in_ok demo_local, of "''g''"]
  have "\<exists>m \<in> set (local_auth_memberships demo_signed_in). lm_id m = ''n'' \<and>
      (\<forall>p. ?seen = Some p \<longrightarrow> p_UserID p = lm_user_id m \<longrightarrow> p_OrgID p \<noteq> ''g'')"
    by (metis list.distinct(1))
  then have "\<forall>p. ?seen = Some p \<longrightarrow> p_UserID p = ''b'' \<longrightarrow> p_OrgID p \<noteq> ''g''"
    by (auto simp: demo_signed_in_def two_members_def demo_auth_defs)
  moreover have "map_option p_UserID ?seen = Some ''b''" by code_simp
  ultimately show ?thesis by auto
qed

section \<open>Attempts\<close>

text \<open>C23: Of the attempts on one path from one address, at most 40 are let through in any
  interval of a minute, twice the limit, whatever other requests come in between and however often the table
  of counts is pruned; and an address without attempts in the current window is let through.
\<close>

theorem attempts_are_limited:
  assumes "sorted (map fst rs)" and "\<forall>(now, r) \<in> set rs. zero_time < now" and "distinct (map fst (localRate s))"
  shows "passes key a (a + minute) (map (\<lambda>(now, r). (now, attempt_key sv r)) rs) (attempts sv rs s) \<le> 40 \<and>
    (zero_time < now \<longrightarrow> (\<forall>e. map_of (localRate s) (attempt_key sv r) = Some e \<longrightarrow> rate_ResetAt e \<le> now) \<longrightarrow>
      fst (allowLocalAuthAttempt sv now r s) = Inr True)"
proof (intro conjI impI)
  let ?ks = "map (\<lambda>(now, r). (now, attempt_key sv r)) rs"
  have "map fst ?ks = map fst rs" by (induction rs) auto
  then have "sorted (map fst ?ks)" using assms(1) by (simp only:)
  moreover have "\<forall>(now, key) \<in> set ?ks. zero_time < now" using assms(2) by auto
  ultimately have "passes key a (a + localAuthRateWindow) ?ks (allowed_keys ?ks (localRate s)) \<le> 2 * localAuthRateLimit"
    using assms(3) by (intro passes_bounded)
  then show "passes key a (a + minute) ?ks (attempts sv rs s) \<le> 40"
    by (simp add: attempts_keys localAuthRateWindow_def localAuthRateLimit_def)
next
  assume time: "zero_time < now" and old: "\<forall>e. map_of (localRate s) (attempt_key sv r) = Some e \<longrightarrow> rate_ResetAt e \<le> now"
  have "case map_of (pruned now (localRate s)) (attempt_key sv r) of None \<Rightarrow> True | Some e \<Rightarrow> \<not> now < rate_ResetAt e"
    using assms(3) by (cases rule: pruned_lookup [of "localRate s" now "attempt_key sv r"]) (use old in \<open>force split: option.splits\<close>)+
  from count_restarts(1) [OF time this] show "fst (allowLocalAuthAttempt sv now r s) = Inr True"
    by (simp add: allowLocalAuthAttempt_def Let_def allow_key_run attempt_key_def localAuthRateLimit_def prod.case_eq_if)
qed

theorem attempts_are_limited_witness:
  "passes ''/login|10.0.0.1'' 5 (5 + minute) [(10, attempt_key (demo_auth ''local'') (demo_post [] []))]
     (attempts (demo_auth ''local'') [(10, demo_post [] [])] demo_state) \<le> 40"
proof -
  have "sorted (map fst [(10::int, demo_post [] [])])" and "\<forall>(now, r) \<in> set [(10::int, demo_post [] [])]. zero_time < now"
    and "distinct (map fst (localRate demo_state))"
    by (simp_all add: zero_time_def demo_state_def demo_accounts_def)
  from attempts_are_limited [OF this, of "''/login|10.0.0.1''" 5 "demo_auth ''local''"] show ?thesis by simp
qed

section \<open>Passwords\<close>

text \<open>A change of the password is refused without a write, or the account exists, the current
  password matched, the new one has at least eight bytes and is the one that matches from then on. Nothing
  else changes: in particular every session that was open stays open.
\<close>

theorem password_change_decides:
  assumes "auth_ok s" and "local_service sv" and "ChangePassword sv now i old new s = (r, t)"
    and bcrypt: "\<And>p h. lib_GenerateFromPassword (sv_lib sv) p = Inr h \<Longrightarrow> lib_CompareHashAndPassword (sv_lib sv) h p"
  shows "(\<exists>e. r = Inl e \<and> t = s) \<or>
    (\<exists>u \<in> set (local_auth_users s). \<exists>u' \<in> set (local_auth_users t). r = Inr () \<and> lu_id u = i \<and> lu_id u' = i \<and> 8 \<le> length new \<and>
      lib_CompareHashAndPassword (sv_lib sv) (lu_password_hash u) old \<and> lib_CompareHashAndPassword (sv_lib sv) (lu_password_hash u') new \<and>
      (\<forall>x \<in> set (local_auth_users s). lu_id x \<noteq> i \<longrightarrow> x \<in> set (local_auth_users t)) \<and>
      (\<forall>at' req. passed_on sv at' req t = passed_on sv at' req s))"
  using assms(2,3)
proof (cases rule: change_password_cases)
  case refused
  then show ?thesis by blast
next
  case (changed u hash)
  let ?g = "\<lambda>x. if lu_id x = i then x\<lparr>lu_password_hash := hash, lu_updated_at := Some now\<rparr> else x"
  have u: "u \<in> set (local_auth_users s)" "lu_id u = i" using find_SomeD [OF changed(2)] by simp_all
  have users: "local_auth_users t = map ?g (local_auth_users s)" using changed(6) by simp
  have "cookie_principal (sv_lib sv) at' v t = cookie_principal (sv_lib sv) at' v s" for at' v
    by (rule cookie_principal_mapped [of _ ?g]) (simp_all add: changed(6))
  then have "passed_on sv at' req t = passed_on sv at' req s" for at' req
    by (simp add: passed_on_local [OF assms(2)] split: option.splits)
  moreover define u' where "u' = u\<lparr>lu_password_hash := hash, lu_updated_at := Some now\<rparr>"
  have "?g u \<in> set (local_auth_users t)" using imageI [OF u(1), of ?g] by (simp add: users)
  then have u': "u' \<in> set (local_auth_users t)" "lu_id u' = i" "lib_CompareHashAndPassword (sv_lib sv) (lu_password_hash u') new"
    using u(2) bcrypt [OF changed(5)] by (simp_all add: u'_def)
  moreover have "\<forall>x \<in> set (local_auth_users s). lu_id x \<noteq> i \<longrightarrow> x \<in> set (local_auth_users t)" unfolding users by force
  ultimately show ?thesis
    using u u' changed(1,3,4) by blast
qed

theorem password_change_decides_witness:
  "fst (ChangePassword (demo_auth ''local'') 20 ''b'' ''password'' ''correct horse'' demo_signed_in) = Inr () \<and>
   passed_on (demo_auth ''local'') 50 demo_request
     (snd (ChangePassword (demo_auth ''local'') 20 ''b'' ''password'' ''correct horse'' demo_signed_in)) = Some demo_principal"
proof -
  let ?run = "ChangePassword (demo_auth ''local'') 20 ''b'' ''password'' ''correct horse'' demo_signed_in"
  have ok: "fst ?run = Inr ()" by code_simp
  have "lib_GenerateFromPassword (sv_lib (demo_auth ''local'')) p = Inr h \<Longrightarrow> lib_CompareHashAndPassword (sv_lib (demo_auth ''local'')) h p" for p h
    by (auto simp: demo_auth_defs)
  from password_change_decides [OF demo_signed_in_ok demo_local prod.collapse [symmetric, of ?run] this] ok
  have "\<forall>at' req. passed_on (demo_auth ''local'') at' req (snd ?run) = passed_on (demo_auth ''local'') at' req demo_signed_in" by auto
  then show ?thesis using ok demo_passed_on by simp
qed

section \<open>The hosted provider\<close>

text \<open>A callback of the provider that opens a session had a code, and either the state of the request is the
  one signed in the browser's own state cookie, or there was neither a cookie nor a state, which is how the
  provider returns from an invitation.
\<close>

theorem callback_needs_its_state:
  assumes "\<not> IsLocalMode (sv_cfg sv)" and "\<not> cfg_Bypass (sv_cfg sv)"
    and "CallbackHandler sv clock rb r s = (Inr resp, t)" and "c \<in> set (rs_Cookies resp)" "ck_Name c = SessionCookieName"
  shows "rq_Query r ''code'' \<noteq> [] \<and> cleared_state_cookie sv \<in> set (rs_Cookies resp) \<and>
    (rq_Query r ''state'' \<noteq> [] \<and> rq_Cookie r oauthStateCookieName = Some (signOAuthState sv (rq_Query r ''state'')) \<or>
     rq_Query r ''state'' = [] \<and> or_empty (rq_Cookie r oauthStateCookieName) = [])"
proof -
  have names: "oauthStateCookieName \<noteq> SessionCookieName" by (simp add: oauthStateCookieName_def SessionCookieName_def)
  have no_session: "ck_Name c' \<noteq> SessionCookieName"
    if "c' \<in> set (rs_Cookies (redirectToAuthKitWithInvitation sv rnd h tok b))" for c' rnd h tok b
    using that names by (auto simp: redirectToAuthKitWithInvitation_def Let_def with_cookie_def answer_def state_cookie_def split: if_splits)
  let ?code = "rq_Query r ''code''" and ?state = "rq_Query r ''state''"
  let ?cookie = "or_empty (rq_Cookie r oauthStateCookieName)"
  let ?tail = "if ?cookie = []
      then (if isStatelessAuthKitInviteCallback ?code ?state then finishAuthCodeCallback sv clock ?code []
        else ret (answer (Redirect ''/login?error=callback_failed'')))
      else if ?state = [] \<or> \<not> verifyOAuthState sv ?cookie ?state then ret (answer (Redirect ''/login?error=callback_failed''))
      else if ?code = [] then ret (answer (HttpError 400 ''missing code''))
      else finishAuthCodeCallback sv clock ?code (trim_space (rq_Query r ''invitation_token''))"
  have "and_cookie (cleared_state_cookie sv) ?tail s = (Inr resp, t)"
    using assms no_session by (auto simp: CallbackHandler_def Let_def answer_def split: if_splits)
  then obtain inner where inner: "?tail s = (Inr inner, t)" and resp: "resp = with_cookie (cleared_state_cookie sv) inner"
    by (auto simp: and_cookie_def andthen_Inr)
  have c: "c \<in> set (rs_Cookies inner)"
    using assms(4,5) names by (auto simp: resp with_cookie_def cleared_state_cookie_def)
  have "?cookie = [] \<and> isStatelessAuthKitInviteCallback ?code ?state \<or>
      ?cookie \<noteq> [] \<and> ?state \<noteq> [] \<and> verifyOAuthState sv ?cookie ?state \<and> ?code \<noteq> []"
    using inner c by (auto simp: answer_def split: if_splits)
  then show ?thesis
    by (auto simp: isStatelessAuthKitInviteCallback_def verify_iff resp with_cookie_def or_empty_def split: option.splits)
qed

text \<open>A code without a state and without a cookie is exchanged.\<close>

theorem callback_needs_its_state_witness:
  "cleared_state_cookie (demo_auth ''workos'') \<in> set (rs_Cookies (case fst (CallbackHandler (demo_auth ''workos'') 10 demo_bytes
     ((demo_post [] [])\<lparr>rq_Query := (\<lambda>q. if q = ''code'' then ''xyz'' else [])\<rparr>) demo_state) of Inr resp \<Rightarrow> resp))"
proof -
  let ?r = "(demo_post [] [])\<lparr>rq_Query := (\<lambda>q. if q = ''code'' then ''xyz'' else [])\<rparr>"
  let ?run = "CallbackHandler (demo_auth ''workos'') 10 demo_bytes ?r demo_state"
  have "case fst ?run of Inl e \<Rightarrow> False | Inr resp \<Rightarrow> list_ex (\<lambda>c. ck_Name c = SessionCookieName) (rs_Cookies resp)" by code_simp
  then obtain resp c where resp: "fst ?run = Inr resp" "c \<in> set (rs_Cookies resp)" "ck_Name c = SessionCookieName"
    by (auto simp: list_ex_iff split: sum.splits)
  then have run: "?run = (Inr resp, snd ?run)" by (metis prod.collapse)
  have mode: "\<not> IsLocalMode (sv_cfg (demo_auth ''workos''))" "\<not> cfg_Bypass (sv_cfg (demo_auth ''workos''))" by code_simp+
  from callback_needs_its_state [OF mode run resp(2,3)] resp(1) show ?thesis by simp
qed

section \<open>What the guards do not cover\<close>

text \<open>
  An invitation overwrites the role of somebody who is a member already, so the only administrator who
  accepts one as a member leaves the organisation without an administrator.
\<close>

theorem accepting_demotes_the_only_admin:
  "CountLocalAuthAdmins ''g'' (demo_accounts (demo_invitation ''ann@ex.org'' ''member'') [demo_member ''m'' ''a'' ''admin'']) =
     (Inr 1, demo_accounts (demo_invitation ''ann@ex.org'' ''member'') [demo_member ''m'' ''a'' ''admin'']) \<and>
   fst (CountLocalAuthAdmins ''g'' (snd (LoginHandler (demo_auth ''local'') 10 10 demo_bytes (demo_post ''ann@ex.org'' ''token'')
     (demo_accounts (demo_invitation ''ann@ex.org'' ''member'') [demo_member ''m'' ''a'' ''admin''])))) = Inr 0"
  by (rule conjI, simp add: CountLocalAuthAdmins_def demo_auth_defs, code_simp)

text \<open>A callback with a code alone opens a session in a browser that started no authorization.\<close>

theorem code_without_state_opens_a_session:
  assumes "\<not> IsLocalMode (sv_cfg sv)" "\<not> cfg_Bypass (sv_cfg sv)" and "rq_Query r ''code'' \<noteq> []" "rq_Query r ''state'' = []"
    and "rq_Query r ''invitation_token'' = []" "rq_Cookie r oauthStateCookieName = None"
    and "wk_AuthenticateWithCode (sv_workos sv) (rq_Query r ''code'') None (provider s) = (Inr resp, w)"
    and "wk_Seal (sv_workos sv) resp (cfg_CookiePassword (sv_cfg sv)) = Inr sealed"
  shows "\<exists>out t. CallbackHandler sv clock rb r s = (Inr out, t) \<and> session_cookie (sv_cfg sv) clock sealed \<in> set (rs_Cookies out)"
proof -
  have "finishAuthCodeCallback sv clock (rq_Query r ''code'') [] s = (Inr (with_cookie (session_cookie (sv_cfg sv) clock sealed)
      (answer (Redirect (if or_empty (wr_OrganizationID resp) = [] then ''/onboarding'' else ''/'')))), s\<lparr>provider := w\<rparr>)"
    using assms(7,8) by (simp add: finishAuthCodeCallback_def attempt_run at_provider_def stringPtrIfNotEmpty_def)
  then show ?thesis using assms(1-6)
    by (simp add: CallbackHandler_def Let_def isEmptyAuthKitEntryCallback_def isStatelessAuthKitInviteCallback_def or_empty_def
      trim_space_def and_cookie_def andthen_run with_cookie_def)
qed

end
