(* ===== verification/Blocks_Types.thy ===== *)
theory Blocks_Types
  imports Go_Json
begin

text \<open>
  internal/blocks/blocks.go and the wire form of its blocks (sseEvent of internal/bot/live_emitter.go):
  the typed blocks of a transcript and their JSON. The value of an interface inside a block's meta
  data is the JSON tree it is written as, and a meta map is the list of its entries, sorted by key;
  a nil map and an empty one are not told apart, as both are left out of the JSON. A time is written
  and read by the functions of a record \<open>rfc\<close>, which stand for RFC 3339 with nanoseconds.
\<close>

section \<open>Blocks\<close>

definition KindSetup :: string where "KindSetup = ''setup''"
definition KindNotify :: string where "KindNotify = ''notify''"
definition KindClaudeText :: string where "KindClaudeText = ''claude_text''"
definition KindToolUse :: string where "KindToolUse = ''tool_use''"
definition KindAutoMergeAssessment :: string where "KindAutoMergeAssessment = ''auto_merge_assessment''"
definition KindResult :: string where "KindResult = ''result''"
definition KindError :: string where "KindError = ''error''"

definition StatusStreaming :: string where "StatusStreaming = ''streaming''"
definition StatusDone :: string where "StatusDone = ''done''"
definition StatusError :: string where "StatusError = ''error''"

lemmas kind_defs = KindSetup_def KindNotify_def KindClaudeText_def KindToolUse_def
  KindAutoMergeAssessment_def KindResult_def KindError_def
lemmas status_defs = StatusStreaming_def StatusDone_def StatusError_def

type_synonym meta = "(string \<times> json) list"

record block =
  bk_ID :: string
  bk_Kind :: string
  bk_Title :: string
  bk_Body :: string
  bk_Status :: string
  bk_Summary :: string
  bk_Meta :: meta
  bk_StartedAt :: go_time
  bk_EndedAt :: go_time

record sse_event =
  se_ID :: string
  se_Kind :: string
  se_Title :: string
  se_Delta :: string
  se_Elapsed :: string
  se_Status :: string
  se_Summary :: string
  se_Meta :: meta
  se_StartedAt :: go_time
  se_EndedAt :: go_time

definition zero_block :: block where
  "zero_block = \<lparr>bk_ID = [], bk_Kind = [], bk_Title = [], bk_Body = [], bk_Status = [], bk_Summary = [],
     bk_Meta = [], bk_StartedAt = zero_time, bk_EndedAt = zero_time\<rparr>"

definition zero_sse :: sse_event where
  "zero_sse = \<lparr>se_ID = [], se_Kind = [], se_Title = [], se_Delta = [], se_Elapsed = [], se_Status = [],
     se_Summary = [], se_Meta = [], se_StartedAt = zero_time, se_EndedAt = zero_time\<rparr>"

text \<open>A block that was just started.\<close>

definition opened :: "string \<Rightarrow> string \<Rightarrow> string \<Rightarrow> meta \<Rightarrow> go_time \<Rightarrow> block" where
  "opened i kind title meta startedAt = \<lparr>bk_ID = i, bk_Kind = kind, bk_Title = title, bk_Body = [],
     bk_Status = StatusStreaming, bk_Summary = [], bk_Meta = meta, bk_StartedAt = startedAt,
     bk_EndedAt = zero_time\<rparr>"

definition add_body :: "string \<Rightarrow> block \<Rightarrow> block" where
  "add_body delta b = b\<lparr>bk_Body := bk_Body b @ delta\<rparr>"

definition ended :: "string \<Rightarrow> string \<Rightarrow> go_time \<Rightarrow> block \<Rightarrow> block" where
  "ended summary status endedAt b = b\<lparr>bk_Status := status, bk_Summary := summary, bk_EndedAt := endedAt\<rparr>"

lemma block_simps [simp]:
  "bk_ID (opened i k t m a) = i" "bk_ID (add_body d b) = bk_ID b" "bk_ID (ended s st a b) = bk_ID b"
  by (simp_all add: opened_def add_body_def ended_def)

section \<open>Writing JSON\<close>

record rfc =
  rfc_format :: "go_time \<Rightarrow> go_error + string"
  rfc_parse :: "string \<Rightarrow> go_error + go_time"

definition omit_string :: "string \<Rightarrow> string \<Rightarrow> (string \<times> json) list" where
  "omit_string k v = (if v = [] then [] else [(k, JStr v)])"

definition omit_meta :: "string \<Rightarrow> meta \<Rightarrow> (string \<times> json) list" where
  "omit_meta k m = (if m = [] then [] else [(k, JObj m)])"

definition omit_time :: "rfc \<Rightarrow> string \<Rightarrow> go_time \<Rightarrow> go_error + (string \<times> json) list" where
  "omit_time R k t = (if is_zero_time t then Inr []
     else case rfc_format R t of Inl e \<Rightarrow> Inl e | Inr s \<Rightarrow> Inr [(k, JStr s)])"

definition with_times :: "rfc \<Rightarrow> (string \<times> json) list \<Rightarrow> go_time \<Rightarrow> go_time \<Rightarrow> go_error + json" where
  "with_times R kvs startedAt endedAt =
     (case omit_time R ''started_at'' startedAt of Inl e \<Rightarrow> Inl e
      | Inr a \<Rightarrow> (case omit_time R ''ended_at'' endedAt of Inl e \<Rightarrow> Inl e
          | Inr b \<Rightarrow> Inr (JObj (kvs @ a @ b))))"

text \<open>The fields in the order of the struct, as their tags say.\<close>

definition sse_json :: "rfc \<Rightarrow> sse_event \<Rightarrow> go_error + json" where
  "sse_json R e = with_times R ((''id'', JStr (se_ID e)) # omit_string ''kind'' (se_Kind e) @
     omit_string ''title'' (se_Title e) @ omit_string ''delta'' (se_Delta e) @
     omit_string ''elapsed'' (se_Elapsed e) @ omit_string ''status'' (se_Status e) @
     omit_string ''summary'' (se_Summary e) @ omit_meta ''meta'' (se_Meta e)) (se_StartedAt e) (se_EndedAt e)"

definition block_json :: "rfc \<Rightarrow> block \<Rightarrow> go_error + json" where
  "block_json R b = with_times R ([(''id'', JStr (bk_ID b)), (''kind'', JStr (bk_Kind b)), (''title'', JStr (bk_Title b))] @
     omit_string ''body'' (bk_Body b) @ [(''status'', JStr (bk_Status b))] @
     omit_string ''summary'' (bk_Summary b) @ omit_meta ''meta'' (bk_Meta b)) (bk_StartedAt b) (bk_EndedAt b)"

section \<open>Reading JSON\<close>

text \<open>A map[string]any: entries are added to the map the field holds.\<close>

fun set_entry :: "string \<Rightarrow> json \<Rightarrow> meta \<Rightarrow> meta" where
  "set_entry k v [] = [(k, v)]"
| "set_entry k v ((k', v') # m) = (if k = k' then (k, v) # m else if k < k' then (k, v) # (k', v') # m
     else (k', v') # set_entry k v m)"

definition json_meta :: "json \<Rightarrow> meta \<Rightarrow> go_error + meta" where
  "json_meta j m = (case j of JObj kvs \<Rightarrow> Inr (fold (\<lambda>(k, v). set_entry k v) kvs m) | JNull \<Rightarrow> Inr []
     | _ \<Rightarrow> Inl JsonTypeError)"

definition json_time :: "rfc \<Rightarrow> json \<Rightarrow> go_time \<Rightarrow> go_error + go_time" where
  "json_time R j t = (case j of JNull \<Rightarrow> Inr t | JStr s \<Rightarrow> rfc_parse R s
     | _ \<Rightarrow> Inl (ErrNew ''Time.UnmarshalJSON: input is not a JSON string''))"

definition sse_field :: "rfc \<Rightarrow> string \<Rightarrow> json \<Rightarrow> sse_event \<Rightarrow> go_error + sse_event" where
  "sse_field R k v e =
     (if k = ''id'' then lift_field (json_string v (se_ID e)) (\<lambda>x. e\<lparr>se_ID := x\<rparr>)
      else if k = ''kind'' then lift_field (json_string v (se_Kind e)) (\<lambda>x. e\<lparr>se_Kind := x\<rparr>)
      else if k = ''title'' then lift_field (json_string v (se_Title e)) (\<lambda>x. e\<lparr>se_Title := x\<rparr>)
      else if k = ''delta'' then lift_field (json_string v (se_Delta e)) (\<lambda>x. e\<lparr>se_Delta := x\<rparr>)
      else if k = ''elapsed'' then lift_field (json_string v (se_Elapsed e)) (\<lambda>x. e\<lparr>se_Elapsed := x\<rparr>)
      else if k = ''status'' then lift_field (json_string v (se_Status e)) (\<lambda>x. e\<lparr>se_Status := x\<rparr>)
      else if k = ''summary'' then lift_field (json_string v (se_Summary e)) (\<lambda>x. e\<lparr>se_Summary := x\<rparr>)
      else if k = ''meta'' then lift_field (json_meta v (se_Meta e)) (\<lambda>x. e\<lparr>se_Meta := x\<rparr>)
      else if k = ''started_at'' then lift_field (json_time R v (se_StartedAt e)) (\<lambda>x. e\<lparr>se_StartedAt := x\<rparr>)
      else if k = ''ended_at'' then lift_field (json_time R v (se_EndedAt e)) (\<lambda>x. e\<lparr>se_EndedAt := x\<rparr>)
      else Inr e)"

definition sse_read :: "rfc \<Rightarrow> json \<Rightarrow> go_error + sse_event" where
  "sse_read R j = json_object (sse_field R) j zero_sse"

definition block_field :: "rfc \<Rightarrow> string \<Rightarrow> json \<Rightarrow> block \<Rightarrow> go_error + block" where
  "block_field R k v b =
     (if k = ''id'' then lift_field (json_string v (bk_ID b)) (\<lambda>x. b\<lparr>bk_ID := x\<rparr>)
      else if k = ''kind'' then lift_field (json_string v (bk_Kind b)) (\<lambda>x. b\<lparr>bk_Kind := x\<rparr>)
      else if k = ''title'' then lift_field (json_string v (bk_Title b)) (\<lambda>x. b\<lparr>bk_Title := x\<rparr>)
      else if k = ''body'' then lift_field (json_string v (bk_Body b)) (\<lambda>x. b\<lparr>bk_Body := x\<rparr>)
      else if k = ''status'' then lift_field (json_string v (bk_Status b)) (\<lambda>x. b\<lparr>bk_Status := x\<rparr>)
      else if k = ''summary'' then lift_field (json_string v (bk_Summary b)) (\<lambda>x. b\<lparr>bk_Summary := x\<rparr>)
      else if k = ''meta'' then lift_field (json_meta v (bk_Meta b)) (\<lambda>x. b\<lparr>bk_Meta := x\<rparr>)
      else if k = ''started_at'' then lift_field (json_time R v (bk_StartedAt b)) (\<lambda>x. b\<lparr>bk_StartedAt := x\<rparr>)
      else if k = ''ended_at'' then lift_field (json_time R v (bk_EndedAt b)) (\<lambda>x. b\<lparr>bk_EndedAt := x\<rparr>)
      else Inr b)"

definition block_read :: "rfc \<Rightarrow> json \<Rightarrow> go_error + block" where
  "block_read R j = json_object (block_field R) j zero_block"

section \<open>Round trips\<close>

text \<open>What is written reads back: the keys are sorted, and the times are ones the library writes.\<close>

definition meta_ok :: "meta \<Rightarrow> bool" where
  "meta_ok m \<longleftrightarrow> sorted_wrt (<) (map fst m)"

definition stamp_ok :: "rfc \<Rightarrow> go_time \<Rightarrow> bool" where
  "stamp_ok R t \<longleftrightarrow> is_zero_time t \<or> (case rfc_format R t of Inl e \<Rightarrow> False | Inr s \<Rightarrow> rfc_parse R s = Inr t)"

lemma set_entry_last: "\<forall>k' \<in> set (map fst m). k' < k \<Longrightarrow> set_entry k v m = m @ [(k, v)]"
  by (induction m) auto

lemma fold_entries: "sorted_wrt (<) (map fst (m @ kvs)) \<Longrightarrow> fold (\<lambda>(k, v). set_entry k v) kvs m = m @ kvs"
proof (induction kvs arbitrary: m)
  case (Cons kv kvs)
  obtain k v where kv: "kv = (k, v)" by fastforce
  then have "\<forall>k' \<in> set (map fst m). k' < k" using Cons.prems by (auto simp: sorted_wrt_append)
  then have "set_entry k v m = m @ [(k, v)]" by (rule set_entry_last)
  with Cons kv show ?case by simp
qed simp

lemma json_meta_reads: "meta_ok m \<Longrightarrow> json_meta (JObj m) [] = Inr m"
  using fold_entries [of "[]" m] by (simp add: json_meta_def meta_ok_def)

lemma members_append:
  "json_members f (xs @ ys) a = (case json_members f xs a of Inl e \<Rightarrow> Inl e | Inr b \<Rightarrow> json_members f ys b)"
  by (induction xs arbitrary: a) (auto split: sum.splits)

lemma lower_field_keys [simp]:
  "to_lower ''id'' = ''id''" "to_lower ''kind'' = ''kind''" "to_lower ''title'' = ''title''"
  "to_lower ''delta'' = ''delta''" "to_lower ''elapsed'' = ''elapsed''" "to_lower ''status'' = ''status''"
  "to_lower ''summary'' = ''summary''" "to_lower ''meta'' = ''meta''" "to_lower ''body'' = ''body''"
  "to_lower ''started_at'' = ''started_at''" "to_lower ''ended_at'' = ''ended_at''"
  by code_simp+

lemma sse_strings:
  "sse_field R ''id'' (JStr v) e = Inr (e\<lparr>se_ID := v\<rparr>)"
  "json_members (sse_field R) (omit_string ''kind'' v) e = Inr (e\<lparr>se_Kind := if v = [] then se_Kind e else v\<rparr>)"
  "json_members (sse_field R) (omit_string ''title'' v) e = Inr (e\<lparr>se_Title := if v = [] then se_Title e else v\<rparr>)"
  "json_members (sse_field R) (omit_string ''delta'' v) e = Inr (e\<lparr>se_Delta := if v = [] then se_Delta e else v\<rparr>)"
  "json_members (sse_field R) (omit_string ''elapsed'' v) e = Inr (e\<lparr>se_Elapsed := if v = [] then se_Elapsed e else v\<rparr>)"
  "json_members (sse_field R) (omit_string ''status'' v) e = Inr (e\<lparr>se_Status := if v = [] then se_Status e else v\<rparr>)"
  "json_members (sse_field R) (omit_string ''summary'' v) e = Inr (e\<lparr>se_Summary := if v = [] then se_Summary e else v\<rparr>)"
  by (simp_all add: omit_string_def sse_field_def lift_field_def)

lemma block_strings:
  "block_field R ''id'' (JStr v) b = Inr (b\<lparr>bk_ID := v\<rparr>)"
  "block_field R ''kind'' (JStr v) b = Inr (b\<lparr>bk_Kind := v\<rparr>)"
  "block_field R ''title'' (JStr v) b = Inr (b\<lparr>bk_Title := v\<rparr>)"
  "block_field R ''status'' (JStr v) b = Inr (b\<lparr>bk_Status := v\<rparr>)"
  "json_members (block_field R) (omit_string ''body'' v) b = Inr (b\<lparr>bk_Body := if v = [] then bk_Body b else v\<rparr>)"
  "json_members (block_field R) (omit_string ''summary'' v) b = Inr (b\<lparr>bk_Summary := if v = [] then bk_Summary b else v\<rparr>)"
  by (simp_all add: omit_string_def block_field_def lift_field_def)

lemma meta_reads:
  "meta_ok m \<Longrightarrow> se_Meta e = [] \<Longrightarrow> json_members (sse_field R) (omit_meta ''meta'' m) e = Inr (e\<lparr>se_Meta := m\<rparr>)"
  "meta_ok m \<Longrightarrow> bk_Meta b = [] \<Longrightarrow> json_members (block_field R) (omit_meta ''meta'' m) b = Inr (b\<lparr>bk_Meta := m\<rparr>)"
  by (auto simp: omit_meta_def sse_field_def block_field_def lift_field_def json_meta_reads)

lemma stamp_written: "stamp_ok R t \<Longrightarrow> \<exists>kvs. omit_time R k t = Inr kvs"
  by (auto simp: stamp_ok_def omit_time_def split: sum.splits)

lemma stamp_reads:
  "stamp_ok R t \<Longrightarrow> se_StartedAt e = zero_time \<Longrightarrow> omit_time R ''started_at'' t = Inr kvs \<Longrightarrow>
     json_members (sse_field R) kvs e = Inr (e\<lparr>se_StartedAt := t\<rparr>)"
  "stamp_ok R t \<Longrightarrow> se_EndedAt e = zero_time \<Longrightarrow> omit_time R ''ended_at'' t = Inr kvs \<Longrightarrow>
     json_members (sse_field R) kvs e = Inr (e\<lparr>se_EndedAt := t\<rparr>)"
  "stamp_ok R t \<Longrightarrow> bk_StartedAt b = zero_time \<Longrightarrow> omit_time R ''started_at'' t = Inr kvs \<Longrightarrow>
     json_members (block_field R) kvs b = Inr (b\<lparr>bk_StartedAt := t\<rparr>)"
  "stamp_ok R t \<Longrightarrow> bk_EndedAt b = zero_time \<Longrightarrow> omit_time R ''ended_at'' t = Inr kvs \<Longrightarrow>
     json_members (block_field R) kvs b = Inr (b\<lparr>bk_EndedAt := t\<rparr>)"
  by (auto simp: omit_time_def stamp_ok_def is_zero_time_def sse_field_def block_field_def lift_field_def
      json_time_def split: sum.splits if_splits)

lemma times_written:
  assumes "stamp_ok R t" and "stamp_ok R u"
  obtains a b where "omit_time R ''started_at'' t = Inr a" "omit_time R ''ended_at'' u = Inr b"
    "\<And>kvs. with_times R kvs t u = Inr (JObj (kvs @ a @ b))"
  using stamp_written [OF assms(1)] stamp_written [OF assms(2)] by (fastforce simp: with_times_def)

theorem sse_roundtrip:
  assumes "meta_ok (se_Meta e)" and "stamp_ok R (se_StartedAt e)" and "stamp_ok R (se_EndedAt e)"
  shows "\<exists>j. sse_json R e = Inr j \<and> sse_read R j = Inr e"
proof -
  obtain a b where ab: "omit_time R ''started_at'' (se_StartedAt e) = Inr a"
      "omit_time R ''ended_at'' (se_EndedAt e) = Inr b"
    and w: "\<And>kvs. with_times R kvs (se_StartedAt e) (se_EndedAt e) = Inr (JObj (kvs @ a @ b))"
    using times_written [OF assms(2,3)] by metis
  have zero: "se_Kind zero_sse = []" "se_Title zero_sse = []" "se_Delta zero_sse = []" "se_Elapsed zero_sse = []"
    "se_Status zero_sse = []" "se_Summary zero_sse = []" "se_Meta zero_sse = []"
    "se_StartedAt zero_sse = zero_time" "se_EndedAt zero_sse = zero_time" by (simp_all add: zero_sse_def)
  have 1: "(if v = [] then [] else v) = v" for v :: string by simp
  show ?thesis
    by (simp add: sse_json_def w sse_read_def sse_strings members_append meta_reads(1) [OF assms(1)]
        stamp_reads(1) [OF assms(2) _ ab(1)] stamp_reads(2) [OF assms(3) _ ab(2)] zero 1)
qed

theorem block_roundtrip:
  assumes "meta_ok (bk_Meta k)" and "stamp_ok R (bk_StartedAt k)" and "stamp_ok R (bk_EndedAt k)"
  shows "\<exists>j. block_json R k = Inr j \<and> block_read R j = Inr k"
proof -
  obtain a b where ab: "omit_time R ''started_at'' (bk_StartedAt k) = Inr a"
      "omit_time R ''ended_at'' (bk_EndedAt k) = Inr b"
    and w: "\<And>kvs. with_times R kvs (bk_StartedAt k) (bk_EndedAt k) = Inr (JObj (kvs @ a @ b))"
    using times_written [OF assms(2,3)] by metis
  have zero: "bk_Body zero_block = []" "bk_Summary zero_block = []" "bk_Meta zero_block = []"
    "bk_StartedAt zero_block = zero_time" "bk_EndedAt zero_block = zero_time" by (simp_all add: zero_block_def)
  have 1: "(if v = [] then [] else v) = v" for v :: string by simp
  show ?thesis
    by (simp add: block_json_def w block_read_def block_strings members_append meta_reads(2) [OF assms(1)]
        stamp_reads(3) [OF assms(2) _ ab(1)] stamp_reads(4) [OF assms(3) _ ab(2)] zero 1)
qed

end
