(* ===== verification/Blocks_Recorder.thy ===== *)
theory Blocks_Recorder
  imports Blocks_Types
begin

text \<open>
  The interface of block emitters (blocks.go, with the optional methods of tee.go) and the recorder of
  internal/blocks/recorder.go. The time argument of a method that reads the clock is what time.Now
  gives in it. The recorder's map holds pointers that are not handed out, so it is a map to blocks.

  The locale \<open>block_log\<close> is the contract of an emitter that keeps a transcript: a start adds one open
  block with a new id, an append and a close change the block they name. Its theorem says that any
  calls give the transcript \<open>render\<close> describes.
\<close>

section \<open>Emitters\<close>

record 'e emitter =
  em_Start :: "string \<Rightarrow> string \<Rightarrow> meta \<Rightarrow> go_time \<Rightarrow> 'e \<Rightarrow> string \<times> 'e"
  em_StartAt :: "(string \<Rightarrow> string \<Rightarrow> meta \<Rightarrow> go_time \<Rightarrow> 'e \<Rightarrow> string \<times> 'e) option"
  em_Append :: "string \<Rightarrow> string \<Rightarrow> 'e \<Rightarrow> 'e"
  em_Done :: "string \<Rightarrow> string \<Rightarrow> go_time \<Rightarrow> 'e \<Rightarrow> 'e"
  em_DoneAt :: "(string \<Rightarrow> string \<Rightarrow> go_time \<Rightarrow> 'e \<Rightarrow> 'e) option"
  em_Fail :: "string \<Rightarrow> string \<Rightarrow> go_time \<Rightarrow> 'e \<Rightarrow> 'e"
  em_FailAt :: "(string \<Rightarrow> string \<Rightarrow> go_time \<Rightarrow> 'e \<Rightarrow> 'e) option"
  em_Heartbeat :: "(string \<Rightarrow> string \<Rightarrow> string \<Rightarrow> 'e \<Rightarrow> 'e) option"

text \<open>The type assertions of the tee: \<open>own\<close> is the clock of an emitter without the method, \<open>now\<close> the tee's.\<close>

definition start_at ::
  "'e emitter \<Rightarrow> go_time \<Rightarrow> string \<Rightarrow> string \<Rightarrow> meta \<Rightarrow> go_time \<Rightarrow> 'e \<Rightarrow> string \<times> 'e" where
  "start_at c own kind title meta now e =
     (case em_StartAt c of Some f \<Rightarrow> f kind title meta now e | None \<Rightarrow> em_Start c kind title meta own e)"

definition done_at :: "'e emitter \<Rightarrow> go_time \<Rightarrow> string \<Rightarrow> string \<Rightarrow> go_time \<Rightarrow> 'e \<Rightarrow> 'e" where
  "done_at c own i summary now e =
     (case em_DoneAt c of Some f \<Rightarrow> f i summary now e | None \<Rightarrow> em_Done c i summary own e)"

definition fail_at :: "'e emitter \<Rightarrow> go_time \<Rightarrow> string \<Rightarrow> string \<Rightarrow> go_time \<Rightarrow> 'e \<Rightarrow> 'e" where
  "fail_at c own i summary now e =
     (case em_FailAt c of Some f \<Rightarrow> f i summary now e | None \<Rightarrow> em_Fail c i summary own e)"

definition close_at :: "'e emitter \<Rightarrow> go_time \<Rightarrow> string \<Rightarrow> string \<Rightarrow> string \<Rightarrow> go_time \<Rightarrow> 'e \<Rightarrow> 'e" where
  "close_at c own i status summary now e =
     (if status = StatusError then fail_at c own i summary now e else done_at c own i summary now e)"

section \<open>The recorder\<close>

record recorder =
  rec_idGen :: nat
  rec_byID :: "string \<rightharpoonup> block"
  rec_order :: "string list"
  rec_maxKeep :: int

definition NewRecorder :: "int \<Rightarrow> recorder" where
  "NewRecorder maxKeep = \<lparr>rec_idGen = 0, rec_byID = Map.empty, rec_order = [], rec_maxKeep = maxKeep\<rparr>"

text \<open>The counter is a uint64 and wraps.\<close>

definition recorder_StartAt ::
  "string \<Rightarrow> string \<Rightarrow> meta \<Rightarrow> go_time \<Rightarrow> recorder \<Rightarrow> string \<times> recorder" where
  "recorder_StartAt kind title meta startedAt r =
     (let n = (rec_idGen r + 1) mod 18446744073709551616;
          i = ''b'' @ show_nat n
      in (i, r\<lparr>rec_idGen := n, rec_byID := (rec_byID r)(i \<mapsto> opened i kind title meta startedAt),
             rec_order := rec_order r @ [i]\<rparr>))"

definition recorder_Append :: "string \<Rightarrow> string \<Rightarrow> recorder \<Rightarrow> recorder" where
  "recorder_Append i delta r =
     (case rec_byID r i of Some b \<Rightarrow> r\<lparr>rec_byID := (rec_byID r)(i \<mapsto> add_body delta b)\<rparr> | None \<Rightarrow> r)"

definition finishAt :: "string \<Rightarrow> string \<Rightarrow> string \<Rightarrow> go_time \<Rightarrow> recorder \<Rightarrow> recorder" where
  "finishAt i summary status endedAt r =
     (case rec_byID r i of Some b \<Rightarrow> r\<lparr>rec_byID := (rec_byID r)(i \<mapsto> ended summary status endedAt b)\<rparr> | None \<Rightarrow> r)"

definition recorder_Done :: "string \<Rightarrow> string \<Rightarrow> go_time \<Rightarrow> recorder \<Rightarrow> recorder" where
  "recorder_Done i summary now r = finishAt i summary StatusDone now r"

definition recorder_Fail :: "string \<Rightarrow> string \<Rightarrow> go_time \<Rightarrow> recorder \<Rightarrow> recorder" where
  "recorder_Fail i summary now r = finishAt i summary StatusError now r"

definition recorder_DoneAt :: "string \<Rightarrow> string \<Rightarrow> go_time \<Rightarrow> recorder \<Rightarrow> recorder" where
  "recorder_DoneAt i summary endedAt r = finishAt i summary StatusDone endedAt r"

definition recorder_FailAt :: "string \<Rightarrow> string \<Rightarrow> go_time \<Rightarrow> recorder \<Rightarrow> recorder" where
  "recorder_FailAt i summary endedAt r = finishAt i summary StatusError endedAt r"

text \<open>The clock is read at the start (\<open>t\<close>) and at the end (\<open>u\<close>).\<close>

definition recorder_oneShot ::
  "string \<Rightarrow> string \<Rightarrow> string \<Rightarrow> string \<Rightarrow> go_time \<Rightarrow> go_time \<Rightarrow> recorder \<Rightarrow> recorder" where
  "recorder_oneShot kind title body status t u r =
     (let (i, r1) = recorder_StartAt kind title [] t r;
          r2 = (if body \<noteq> [] then recorder_Append i body r1 else r1)
      in if status = StatusError then recorder_Fail i [] u r2 else recorder_Done i [] u r2)"

definition recorder_Notify :: "string \<Rightarrow> string \<Rightarrow> go_time \<Rightarrow> go_time \<Rightarrow> recorder \<Rightarrow> recorder" where
  "recorder_Notify title body = recorder_oneShot KindNotify title body StatusDone"

definition recorder_Result :: "string \<Rightarrow> string \<Rightarrow> go_time \<Rightarrow> go_time \<Rightarrow> recorder \<Rightarrow> recorder" where
  "recorder_Result title body = recorder_oneShot KindResult title body StatusDone"

definition recorder_Error :: "string \<Rightarrow> string \<Rightarrow> go_time \<Rightarrow> go_time \<Rightarrow> recorder \<Rightarrow> recorder" where
  "recorder_Error title body = recorder_oneShot KindError title body StatusError"

definition recorded :: "recorder \<Rightarrow> block list" where
  "recorded r = List.map_filter (rec_byID r) (rec_order r)"

definition Snapshot :: "recorder \<Rightarrow> block list" where
  "Snapshot r =
     (let out = recorded r
      in if rec_maxKeep r \<le> 0 \<or> int (length out) \<le> rec_maxKeep r then out
         else drop (nat (int (length out) - rec_maxKeep r)) out)"

definition recorder_emitter :: "recorder emitter" where
  "recorder_emitter = \<lparr>em_Start = recorder_StartAt, em_StartAt = Some recorder_StartAt, em_Append = recorder_Append,
     em_Done = recorder_Done, em_DoneAt = Some recorder_DoneAt, em_Fail = recorder_Fail,
     em_FailAt = Some recorder_FailAt, em_Heartbeat = None\<rparr>"

section \<open>Calls and the transcript they describe\<close>

text \<open>
  The calls of a producer: a block it started is named by its number among them. A one-shot block
  (Notify, Result, Error) is started, filled and closed at one instant and never named again. The
  clock of an emitter that does not take the producer's time shows \<open>own now\<close> when it is \<open>now\<close>.
\<close>

datatype call =
    CStart string string meta go_time
  | CAppend nat string
  | CClose nat string string go_time
  | COne string string string string go_time

fun drive :: "(go_time \<Rightarrow> go_time) \<Rightarrow> 'e emitter \<Rightarrow> call \<Rightarrow> string list \<times> 'e \<Rightarrow> string list \<times> 'e" where
  "drive own c (CStart kind title meta now) (ids, e) = (let (i, e') = start_at c (own now) kind title meta now e in (ids @ [i], e'))"
| "drive own c (CAppend n delta) (ids, e) = (ids, if n < length ids then em_Append c (ids ! n) delta e else e)"
| "drive own c (CClose n status summary now) (ids, e) =
     (ids, if n < length ids then close_at c (own now) (ids ! n) status summary now e else e)"
| "drive own c (COne kind title body status now) (ids, e) =
     (let (i, e1) = start_at c (own now) kind title [] now e;
          e2 = (if body \<noteq> [] then em_Append c i body e1 else e1)
      in (ids, close_at c (own now) i status [] now e2))"

definition drive_all :: "(go_time \<Rightarrow> go_time) \<Rightarrow> 'e emitter \<Rightarrow> call list \<Rightarrow> 'e \<Rightarrow> string list \<times> 'e" where
  "drive_all own c cs e = fold (drive own c) cs ([], e)"

definition final_status :: "string \<Rightarrow> string" where
  "final_status status = (if status = StatusError then StatusError else StatusDone)"

text \<open>The specification: positions of the started blocks, and the blocks without their ids.\<close>

fun render1 :: "call \<Rightarrow> nat list \<times> block list \<Rightarrow> nat list \<times> block list" where
  "render1 (CStart kind title meta now) (ps, bs) = (ps @ [length bs], bs @ [opened [] kind title meta now])"
| "render1 (CAppend n delta) (ps, bs) =
     (ps, if n < length ps then bs[ps ! n := add_body delta (bs ! (ps ! n))] else bs)"
| "render1 (CClose n status summary now) (ps, bs) =
     (ps, if n < length ps then bs[ps ! n := ended summary (final_status status) now (bs ! (ps ! n))] else bs)"
| "render1 (COne kind title body status now) (ps, bs) =
     (ps, bs @ [ended [] (final_status status) now (add_body body (opened [] kind title [] now))])"

definition render :: "call list \<Rightarrow> block list" where
  "render cs = snd (fold render1 cs ([], []))"

definition anon :: "block \<Rightarrow> block" where
  "anon b = b\<lparr>bk_ID := []\<rparr>"

lemma anon_simps [simp]:
  "anon (opened i k t m a) = opened [] k t m a" "anon (add_body d b) = add_body d (anon b)"
  "anon (ended s st a b) = ended s st a (anon b)"
  by (simp_all add: anon_def opened_def add_body_def ended_def)

lemma drive_all_snoc: "drive_all own c (cs @ [k]) e = drive own c k (drive_all own c cs e)"
  by (simp add: drive_all_def)

text \<open>Which calls a log takes in full.\<close>

fun call_fits :: "(meta \<Rightarrow> bool) \<Rightarrow> (go_time \<Rightarrow> bool) \<Rightarrow> call \<Rightarrow> bool" where
  "call_fits M T (CStart kind title meta now) = (M meta \<and> T now)"
| "call_fits M T (CAppend n delta) = True"
| "call_fits M T (CClose n status summary now) = T now"
| "call_fits M T (COne kind title body status now) = (M [] \<and> T now)"

definition on_block :: "string \<Rightarrow> (block \<Rightarrow> block) \<Rightarrow> block list \<Rightarrow> block list" where
  "on_block i f bs = map (\<lambda>b. if bk_ID b = i then f b else b) bs"

lemma on_block_at:
  assumes "distinct (map bk_ID bs)" and "p < length bs" and "i = bk_ID (bs ! p)"
  shows "on_block i f bs = bs[p := f (bs ! p)]"
proof (rule nth_equalityI)
  fix q assume "q < length (on_block i f bs)"
  then have q: "q < length bs" by (simp add: on_block_def)
  have "bk_ID (bs ! q) = i \<longleftrightarrow> q = p"
    using assms q nth_eq_iff_index_eq [of "map bk_ID bs" q p] by simp
  with q show "on_block i f bs ! q = bs[p := f (bs ! p)] ! q"
    by (auto simp: on_block_def nth_list_update)
qed (simp add: on_block_def)

lemma on_block_ids: "(\<And>b. bk_ID (f b) = bk_ID b) \<Longrightarrow> map bk_ID (on_block i f bs) = map bk_ID bs"
  by (simp add: on_block_def)

text \<open>The started blocks are at increasing positions.\<close>

lemma positions_increase:
  "sorted_wrt (<) (fst (fold render1 cs ([], []))) \<and>
   (\<forall>p \<in> set (fst (fold render1 cs ([], []))). p < length (snd (fold render1 cs ([], []))))"
proof (induction cs rule: rev_induct)
  case (snoc k cs)
  obtain ps bs where sp: "fold render1 cs ([], []) = (ps, bs)" by fastforce
  with snoc have "sorted_wrt (<) ps" "\<forall>p \<in> set ps. p < length bs" by auto
  then show ?case by (cases k) (auto simp: sp sorted_wrt_append)
qed simp

lemma positions_distinct: "distinct (fst (fold render1 cs ([], [])))"
  using positions_increase strict_sorted_iff by blast

section \<open>The contract of a log of blocks\<close>

locale block_log =
  fixes c :: "'e emitter"
    and good :: "'e \<Rightarrow> bool"
    and room :: "'e \<Rightarrow> nat"
    and view :: "'e \<Rightarrow> block list"
    and M :: "meta \<Rightarrow> bool"
    and T :: "go_time \<Rightarrow> bool"
  assumes starts: "good e \<Longrightarrow> 0 < room e \<Longrightarrow> M m \<Longrightarrow> T t \<Longrightarrow> start_at c u k ti m t e = (i, e') \<Longrightarrow>
      good e' \<and> room e \<le> Suc (room e') \<and> view e' = view e @ [opened i k ti m t] \<and> i \<notin> bk_ID ` set (view e)"
    and appends: "good e \<Longrightarrow> 0 < room e \<Longrightarrow>
      good (em_Append c i d e) \<and> room e \<le> Suc (room (em_Append c i d e)) \<and>
      view (em_Append c i d e) = on_block i (add_body d) (view e)"
    and closes: "good e \<Longrightarrow> 0 < room e \<Longrightarrow> T t \<Longrightarrow>
      good (close_at c u i st su t e) \<and> room e \<le> Suc (room (close_at c u i st su t e)) \<and>
      view (close_at c u i st su t e) = on_block i (ended su (final_status st) t) (view e)"
begin

text \<open>
  After the calls \<open>cs\<close>: the blocks beyond the first \<open>n\<close> are those of the specification, and the ids
  handed out are the ids of the blocks at its positions.
\<close>

definition follows :: "nat \<Rightarrow> block list \<Rightarrow> nat list \<times> block list \<Rightarrow> string list \<times> 'e \<Rightarrow> bool" where
  "follows n old sp cl \<longleftrightarrow> (case sp of (ps, bs) \<Rightarrow> case cl of (ids, e) \<Rightarrow>
     good e \<and> distinct (map bk_ID (view e)) \<and> map anon (view e) = old @ bs \<and> length old = n \<and>
     (\<forall>p \<in> set ps. p < length bs) \<and> ids = map (\<lambda>p. bk_ID (view e ! (n + p))) ps)"

lemma at_block:
  assumes "follows n old (ps, bs) (ids, e)" and "j < length ids" and "\<And>b. bk_ID (f b) = bk_ID b"
    and "\<And>b. anon (f b) = f (anon b)" and "good e'" and "view e' = on_block (ids ! j) f (view e)"
  shows "follows n old (ps, bs[ps ! j := f (bs ! (ps ! j))]) (ids, e')"
proof -
  let ?p = "n + ps ! j"
  have old: "map anon (view e) = old @ bs" "length old = n" "distinct (map bk_ID (view e))"
    and ps: "\<forall>p \<in> set ps. p < length bs" "ids = map (\<lambda>p. bk_ID (view e ! (n + p))) ps"
    using assms(1) by (auto simp: follows_def)
  have j: "j < length ps" using ps(2) assms(2) by simp
  have len: "length (view e) = n + length bs" using arg_cong [OF old(1), of length] old(2) by simp
  have lt: "ps ! j < length bs" using ps(1) j by simp
  then have p: "?p < length (view e)" using len by simp
  have v: "view e' = (view e)[?p := f (view e ! ?p)]"
    using on_block_at [OF old(3) p] ps(2) j assms(6) by simp
  have "map anon (view e') = (old @ bs)[?p := f (anon (view e ! ?p))]"
    using assms(4) by (simp add: v map_update old(1))
  moreover have "anon (view e ! ?p) = bs ! (ps ! j)"
    using arg_cong [OF old(1), of "\<lambda>l. l ! ?p"] old(2) p by (simp add: nth_append)
  ultimately have "map anon (view e') = old @ bs[ps ! j := f (bs ! (ps ! j))]"
    using old(2) by (simp add: list_update_append)
  moreover have "map bk_ID (view e') = map bk_ID (view e)"
    using assms(3,6) by (simp add: on_block_ids)
  moreover have "bk_ID (view e' ! (n + q)) = bk_ID (view e ! (n + q))" if "q < length bs" for q
    using assms(3) v p by (cases "n + q = ?p") auto
  ultimately show ?thesis using old(2,3) ps assms(5) by (auto simp: follows_def)
qed

lemma new_block:
  assumes "follows n old (ps, bs) (ids, e)" and "good e'" and "view e' = view e @ [b]"
    and "bk_ID b \<notin> bk_ID ` set (view e)"
  shows "follows n old (ps @ [length bs], bs @ [anon b]) (ids @ [bk_ID b], e')"
    and "follows n old (ps, bs @ [anon b]) (ids, e')"
proof -
  have old: "map anon (view e) = old @ bs" "length old = n" and ps: "\<forall>p \<in> set ps. p < length bs"
    using assms(1) by (auto simp: follows_def)
  have len: "length (view e) = n + length bs" using arg_cong [OF old(1), of length] old(2) by simp
  then have "bk_ID (view e' ! (n + length bs)) = bk_ID b" using assms(3) by (simp add: nth_append)
  moreover have "map (\<lambda>p. bk_ID (view e' ! (n + p))) ps = map (\<lambda>p. bk_ID (view e ! (n + p))) ps"
    using ps len assms(3) by (simp add: nth_append)
  ultimately show "follows n old (ps @ [length bs], bs @ [anon b]) (ids @ [bk_ID b], e')"
    and "follows n old (ps, bs @ [anon b]) (ids, e')"
    using assms by (auto simp: follows_def)
qed

lemma one_call:
  assumes "follows n old sp (ids, e)" and "3 \<le> room e" and "call_fits M T k"
  shows "follows n old (render1 k sp) (drive own c k (ids, e)) \<and> room e \<le> room (snd (drive own c k (ids, e))) + 3"
proof -
  obtain ps bs where sp: "sp = (ps, bs)" by fastforce
  note f = assms(1) [unfolded sp]
  have g: "good e" and l: "length ids = length ps" using f by (auto simp: follows_def)
  show ?thesis
  proof (cases k)
    case (CStart kd ti m t)
    obtain i e' where s: "start_at c (own t) kd ti m t e = (i, e')" by fastforce
    note st = starts [OF g _ _ _ s]
    have "follows n old (ps @ [length bs], bs @ [anon (opened i kd ti m t)]) (ids @ [bk_ID (opened i kd ti m t)], e')"
      using st assms by (intro new_block(1) [OF f]) (auto simp: CStart)
    with st assms(2,3) show ?thesis by (simp add: CStart s sp)
  next
    case (CAppend j d)
    note ap = appends [OF g, of "ids ! j" d]
    show ?thesis
    proof (cases "j < length ids")
      case True
      then have "follows n old (ps, bs[ps ! j := add_body d (bs ! (ps ! j))]) (ids, em_Append c (ids ! j) d e)"
        using ap assms(2) by (intro at_block [OF f]) auto
      with True l ap assms(2) show ?thesis by (simp add: CAppend sp)
    qed (use f l in \<open>simp add: CAppend sp\<close>)
  next
    case (CClose j st su t)
    note cl = closes [OF g, of t "own t" "ids ! j" st su]
    show ?thesis
    proof (cases "j < length ids")
      case True
      then have "follows n old (ps, bs[ps ! j := ended su (final_status st) t (bs ! (ps ! j))])
          (ids, close_at c (own t) (ids ! j) st su t e)"
        using cl assms(2,3) by (intro at_block [OF f]) (auto simp: CClose)
      with True l cl assms(2,3) show ?thesis by (simp add: CClose sp)
    qed (use f l in \<open>simp add: CClose sp\<close>)
  next
    case (COne kd ti bo st t)
    obtain i e1 where s: "start_at c (own t) kd ti [] t e = (i, e1)" by fastforce
    let ?e2 = "if bo \<noteq> [] then em_Append c i bo e1 else e1"
    let ?e3 = "close_at c (own t) i st [] t ?e2"
    let ?b = "ended [] (final_status st) t (add_body bo (opened i kd ti [] t))"
    from starts [OF g _ _ _ s] assms(2,3) have 1: "good e1" "room e \<le> Suc (room e1)"
      "view e1 = view e @ [opened i kd ti [] t]" "i \<notin> bk_ID ` set (view e)" by (auto simp: COne)
    have fresh: "on_block i h (view e @ [x]) = view e @ [h x]" if "bk_ID x = i" for h x
      using 1(4) that by (auto simp: on_block_def intro!: map_idI) (metis image_eqI)
    have 2: "good ?e2 \<and> room e1 \<le> Suc (room ?e2) \<and> view ?e2 = view e @ [add_body bo (opened i kd ti [] t)]"
      using appends [OF 1(1), of i bo] 1 assms(2) by (auto simp: fresh add_body_def opened_def)
    have 3: "good ?e3 \<and> room ?e2 \<le> Suc (room ?e3) \<and> view ?e3 = view e @ [?b]"
      using closes [of ?e2 t "own t" i st "[]"] 2 1(2) assms(2,3) by (auto simp: fresh COne)
    have "follows n old (ps, bs @ [anon ?b]) (ids, ?e3)"
      using 3 1(4) by (intro new_block(2) [OF f]) auto
    with 1(2) 2 3 show ?thesis by (simp add: COne sp s Let_def)
  qed
qed

theorem renders:
  assumes "good e" and "distinct (map bk_ID (view e))" and "3 * length cs \<le> room e"
    and "list_all (call_fits M T) cs"
  shows "follows (length (view e)) (map anon (view e)) (fold render1 cs ([], [])) (drive_all own c cs e) \<and>
    room e \<le> room (snd (drive_all own c cs e)) + 3 * length cs"
  using assms(3,4)
proof (induction cs rule: rev_induct)
  case Nil
  with assms show ?case by (simp add: follows_def drive_all_def)
next
  case (snoc k cs)
  obtain ids e' where d: "drive_all own c cs e = (ids, e')" by fastforce
  with snoc have f: "follows (length (view e)) (map anon (view e)) (fold render1 cs ([], [])) (ids, e')"
    and r: "room e \<le> room e' + 3 * length cs" by auto
  have "3 \<le> room e'" "call_fits M T k" using snoc.prems r by auto
  from one_call [OF f this, of own] r show ?case by (simp add: drive_all_snoc d)
qed

corollary transcript:
  assumes "good e" and "distinct (map bk_ID (view e))" and "3 * length cs \<le> room e"
    and "list_all (call_fits M T) cs"
  shows "map anon (view (snd (drive_all own c cs e))) = map anon (view e) @ render cs"
    and "distinct (map bk_ID (view (snd (drive_all own c cs e))))" and "good (snd (drive_all own c cs e))"
    and "distinct (fst (drive_all own c cs e))"
proof -
  note r = conjunct1 [OF renders [OF assms, of own]]
  obtain ps bs ids e' where sp: "fold render1 cs ([], []) = (ps, bs)" "drive_all own c cs e = (ids, e')" by fastforce
  note r = r [unfolded sp follows_def prod.case]
  show "map anon (view (snd (drive_all own c cs e))) = map anon (view e) @ render cs"
    and "distinct (map bk_ID (view (snd (drive_all own c cs e))))" and "good (snd (drive_all own c cs e))"
    using r by (auto simp: sp render_def)
  show "distinct (fst (drive_all own c cs e))"
  proof -
    have d: "distinct ps" using positions_distinct [of cs] by (simp add: sp)
    have len: "length (view e') = length (view e) + length bs"
      using r by (metis length_append length_map)
    have "inj_on (\<lambda>p. bk_ID (view e' ! (length (view e) + p))) (set ps)"
    proof (rule inj_onI)
      fix p q assume pq: "p \<in> set ps" "q \<in> set ps"
        and eq: "bk_ID (view e' ! (length (view e) + p)) = bk_ID (view e' ! (length (view e) + q))"
      have "length (view e) + p < length (view e')" "length (view e) + q < length (view e')"
        using r pq len by auto
      with eq r show "p = q" using nth_eq_iff_index_eq [of "map bk_ID (view e')"] by force
    qed
    with d r show ?thesis by (simp add: sp distinct_map)
  qed
qed

end

section \<open>The recorder keeps the contract\<close>

definition recorder_ok :: "recorder \<Rightarrow> bool" where
  "recorder_ok r \<longleftrightarrow> rec_idGen r < 18446744073709551616 \<and> distinct (rec_order r) \<and>
     (\<forall>i \<in> set (rec_order r). \<exists>b. rec_byID r i = Some b \<and> bk_ID b = i) \<and>
     (\<forall>i \<in> set (rec_order r). \<exists>n. i = ''b'' @ show_nat n \<and> n \<le> rec_idGen r) \<and>
     dom (rec_byID r) = set (rec_order r)"

definition recorder_room :: "recorder \<Rightarrow> nat" where
  "recorder_room r = 18446744073709551615 - rec_idGen r"

lemma show_nat_inj [simp]: "show_nat m = show_nat n \<longleftrightarrow> m = n"
  by (metis digits_show)

lemma filter_ids:
  "\<forall>i \<in> set is. \<exists>b. m i = Some b \<and> bk_ID b = i \<Longrightarrow> map bk_ID (List.map_filter m is) = is"
  by (induction "is") (auto simp: List.map_filter_simps)

lemma map_filter_append: "List.map_filter f (xs @ ys) = List.map_filter f xs @ List.map_filter f ys"
  by (simp add: List.map_filter_def)

lemma map_filter_same: "\<forall>x \<in> set xs. f x = g x \<Longrightarrow> List.map_filter f xs = List.map_filter g xs"
  by (induction xs) (auto simp: List.map_filter_simps split: option.splits)

lemma recorded_ids: "recorder_ok r \<Longrightarrow> map bk_ID (recorded r) = rec_order r"
  by (simp add: recorder_ok_def recorded_def filter_ids)

lemma recorder_starts:
  assumes ok: "recorder_ok r" and room: "0 < recorder_room r"
    and run: "recorder_StartAt k ti m t r = (i, r')"
  shows "recorder_ok r' \<and> recorder_room r \<le> Suc (recorder_room r') \<and>
    recorded r' = recorded r @ [opened i k ti m t] \<and> i \<notin> bk_ID ` set (recorded r)"
proof -
  have n: "(rec_idGen r + 1) mod 18446744073709551616 = Suc (rec_idGen r)"
    using room by (simp add: recorder_room_def)
  have i: "i = ''b'' @ show_nat (Suc (rec_idGen r))" and r': "r' = r\<lparr>rec_idGen := Suc (rec_idGen r),
      rec_byID := (rec_byID r)(i \<mapsto> opened i k ti m t), rec_order := rec_order r @ [i]\<rparr>"
    using run n by (auto simp: recorder_StartAt_def Let_def)
  have new: "i \<notin> set (rec_order r)" using ok by (auto simp: recorder_ok_def i) 
  have "set (rec_order r) = bk_ID ` set (recorded r)" using recorded_ids [OF ok] by (metis list.set_map)
  moreover have "recorded r' = recorded r @ [opened i k ti m t]"
    using new by (auto simp: r' recorded_def map_filter_append List.map_filter_simps intro: map_filter_same)
  moreover have "recorder_ok r'"
    using ok room new by (auto simp: recorder_ok_def recorder_room_def r' i intro: le_SucI)
  ultimately show ?thesis using new by (auto simp: recorder_room_def r')
qed

lemma recorder_changes:
  assumes ok: "recorder_ok r" and f: "\<And>b. bk_ID (f b) = bk_ID b"
    and r': "r' = (case rec_byID r i of Some b \<Rightarrow> r\<lparr>rec_byID := (rec_byID r)(i \<mapsto> f b)\<rparr> | None \<Rightarrow> r)"
  shows "recorder_ok r' \<and> recorder_room r' = recorder_room r \<and> recorded r' = on_block i f (recorded r)"
proof (cases "rec_byID r i")
  case None
  then have "i \<notin> set (map bk_ID (recorded r))" using ok by (auto simp: recorded_ids recorder_ok_def)
  then have "on_block i f (recorded r) = recorded r" by (auto simp: on_block_def intro!: map_idI)
  with None ok show ?thesis by (simp add: r')
next
  case (Some b)
  then have mem: "i \<in> set (rec_order r)" using ok by (auto simp: recorder_ok_def)
  with ok Some have id: "bk_ID b = i" by (fastforce simp: recorder_ok_def)
  have "List.map_filter ((rec_byID r)(i \<mapsto> f b)) is = on_block i f (List.map_filter (rec_byID r) is)"
    if "set is \<subseteq> set (rec_order r)" for "is"
    using that
  proof (induction "is")
    case (Cons j js)
    then obtain x where "rec_byID r j = Some x" "bk_ID x = j" using ok by (auto simp: recorder_ok_def)
    with Cons Some show ?case by (auto simp: List.map_filter_simps on_block_def)
  qed (simp add: on_block_def List.map_filter_simps)
  moreover have "recorder_ok r'" using ok mem id f by (auto simp: recorder_ok_def r' Some)
  ultimately show ?thesis by (simp add: r' Some recorded_def recorder_room_def)
qed

interpretation recorder: block_log recorder_emitter recorder_ok recorder_room recorded "\<lambda>m. True" "\<lambda>t. True"
proof unfold_locales
  fix e m t u k ti i e'
  assume "recorder_ok e" "0 < recorder_room e" "start_at recorder_emitter u k ti m t e = (i, e')"
  then show "recorder_ok e' \<and> recorder_room e \<le> Suc (recorder_room e') \<and>
      recorded e' = recorded e @ [opened i k ti m t] \<and> i \<notin> bk_ID ` set (recorded e)"
    by (intro recorder_starts) (simp_all add: start_at_def recorder_emitter_def)
next
  fix e i d assume "recorder_ok e"
  from recorder_changes [OF this, of "add_body d" "em_Append recorder_emitter i d e" i]
  show "recorder_ok (em_Append recorder_emitter i d e) \<and>
      recorder_room e \<le> Suc (recorder_room (em_Append recorder_emitter i d e)) \<and>
      recorded (em_Append recorder_emitter i d e) = on_block i (add_body d) (recorded e)"
    by (simp add: recorder_emitter_def recorder_Append_def)
next
  fix e t u i st su assume ok: "recorder_ok e"
  have "close_at recorder_emitter u i st su t e = (case rec_byID e i of
      Some b \<Rightarrow> e\<lparr>rec_byID := (rec_byID e)(i \<mapsto> ended su (final_status st) t b)\<rparr> | None \<Rightarrow> e)"
    by (cases "rec_byID e i") (simp_all add: recorder_emitter_def close_at_def done_at_def fail_at_def
        recorder_DoneAt_def recorder_FailAt_def finishAt_def final_status_def)
  from recorder_changes [OF ok _ this]
  show "recorder_ok (close_at recorder_emitter u i st su t e) \<and>
      recorder_room e \<le> Suc (recorder_room (close_at recorder_emitter u i st su t e)) \<and>
      recorded (close_at recorder_emitter u i st su t e) = on_block i (ended su (final_status st) t) (recorded e)"
    by simp
qed

lemma NewRecorder_ok [simp]:
  "recorder_ok (NewRecorder k)" "recorded (NewRecorder k) = []"
  "recorder_room (NewRecorder k) = 18446744073709551615"
  by (simp_all add: NewRecorder_def recorder_ok_def recorded_def recorder_room_def List.map_filter_simps)

end
