(* ===== verification/Blocks_Tee.thy ===== *)
theory Blocks_Tee
  imports Blocks_Recorder
begin

text \<open>
  internal/blocks/tee.go: one emitter that passes every call on to several. An emitter is a record of
  its methods with its state, so the wrapped emitters may be of any kinds (a sum of their states).
  The clock of the i-th wrapped emitter shows \<open>own i now\<close> when the tee's shows \<open>now\<close>; it is read only
  by an emitter without the method that takes the tee's time. None is a panic (an index out of range).
\<close>

section \<open>The tee\<close>

record 'e tee =
  tee_emitters :: "('e emitter \<times> 'e) list"
  tee_idMap :: "string \<rightharpoonup> string list"

definition Tee :: "('e emitter \<times> 'e) list \<Rightarrow> ('e emitter \<times> 'e) + 'e tee" where
  "Tee emitters = (if length emitters = 1 then Inl (hd emitters)
     else Inr \<lparr>tee_emitters = emitters, tee_idMap = Map.empty\<rparr>)"

text \<open>The loops over the wrapped emitters, from index \<open>k\<close> on.\<close>

fun start_each ::
  "(nat \<Rightarrow> go_time \<Rightarrow> go_time) \<Rightarrow> nat \<Rightarrow> string \<Rightarrow> string \<Rightarrow> meta \<Rightarrow> go_time \<Rightarrow> ('e emitter \<times> 'e) list \<Rightarrow>
   string list \<times> ('e emitter \<times> 'e) list" where
  "start_each own k kind title meta now [] = ([], [])"
| "start_each own k kind title meta now ((c, e) # es) =
     (let (i, e') = start_at c (own k now) kind title meta now e;
          (ids, es') = start_each own (Suc k) kind title meta now es
      in (i # ids, (c, e') # es'))"

fun each_emitter ::
  "(nat \<Rightarrow> 'e emitter \<Rightarrow> string \<Rightarrow> 'e \<Rightarrow> 'e) \<Rightarrow> nat \<Rightarrow> string list \<Rightarrow> ('e emitter \<times> 'e) list \<Rightarrow>
   ('e emitter \<times> 'e) list" where
  "each_emitter f k (i # ids) ((c, e) # es) = (c, f k c i e) # each_emitter f (Suc k) ids es"
| "each_emitter f k ids es = es"

definition tee_Start ::
  "(nat \<Rightarrow> go_time \<Rightarrow> go_time) \<Rightarrow> string \<Rightarrow> string \<Rightarrow> meta \<Rightarrow> go_time \<Rightarrow> 'e tee \<Rightarrow> (string \<times> 'e tee) option" where
  "tee_Start own kind title meta now t =
     (case start_each own 0 kind title meta now (tee_emitters t) of
        ([], es) \<Rightarrow> None
      | (i # ids, es) \<Rightarrow> Some (i, t\<lparr>tee_emitters := es, tee_idMap := (tee_idMap t)(i \<mapsto> i # ids)\<rparr>))"

definition tee_Append :: "string \<Rightarrow> string \<Rightarrow> 'e tee \<Rightarrow> 'e tee" where
  "tee_Append i delta t =
     (case tee_idMap t i of
        None \<Rightarrow> t
      | Some ids \<Rightarrow> t\<lparr>tee_emitters := each_emitter (\<lambda>k c j. em_Append c j delta) 0 ids (tee_emitters t)\<rparr>)"

definition tee_Done ::
  "(nat \<Rightarrow> go_time \<Rightarrow> go_time) \<Rightarrow> string \<Rightarrow> string \<Rightarrow> go_time \<Rightarrow> 'e tee \<Rightarrow> 'e tee" where
  "tee_Done own i summary now t =
     (case tee_idMap t i of
        None \<Rightarrow> t
      | Some ids \<Rightarrow> t\<lparr>tee_emitters := each_emitter (\<lambda>k c j. done_at c (own k now) j summary now) 0 ids (tee_emitters t),
          tee_idMap := (tee_idMap t)(i := None)\<rparr>)"

definition tee_Fail ::
  "(nat \<Rightarrow> go_time \<Rightarrow> go_time) \<Rightarrow> string \<Rightarrow> string \<Rightarrow> go_time \<Rightarrow> 'e tee \<Rightarrow> 'e tee" where
  "tee_Fail own i summary now t =
     (case tee_idMap t i of
        None \<Rightarrow> t
      | Some ids \<Rightarrow> t\<lparr>tee_emitters := each_emitter (\<lambda>k c j. fail_at c (own k now) j summary now) 0 ids (tee_emitters t),
          tee_idMap := (tee_idMap t)(i := None)\<rparr>)"

definition tee_oneShotAt ::
  "(nat \<Rightarrow> go_time \<Rightarrow> go_time) \<Rightarrow> string \<Rightarrow> string \<Rightarrow> string \<Rightarrow> string \<Rightarrow> go_time \<Rightarrow> 'e tee \<Rightarrow> 'e tee" where
  "tee_oneShotAt own kind title body status now t =
     (let (ids, es1) = start_each own 0 kind title [] now (tee_emitters t);
          es2 = (if body \<noteq> [] then each_emitter (\<lambda>k c j. em_Append c j body) 0 ids es1 else es1)
      in t\<lparr>tee_emitters := each_emitter (\<lambda>k c j. close_at c (own k now) j status [] now) 0 ids es2\<rparr>)"

definition tee_Notify ::
  "(nat \<Rightarrow> go_time \<Rightarrow> go_time) \<Rightarrow> string \<Rightarrow> string \<Rightarrow> go_time \<Rightarrow> 'e tee \<Rightarrow> 'e tee" where
  "tee_Notify own title body = tee_oneShotAt own KindNotify title body StatusDone"

definition tee_Result ::
  "(nat \<Rightarrow> go_time \<Rightarrow> go_time) \<Rightarrow> string \<Rightarrow> string \<Rightarrow> go_time \<Rightarrow> 'e tee \<Rightarrow> 'e tee" where
  "tee_Result own title body = tee_oneShotAt own KindResult title body StatusDone"

definition tee_Error ::
  "(nat \<Rightarrow> go_time \<Rightarrow> go_time) \<Rightarrow> string \<Rightarrow> string \<Rightarrow> go_time \<Rightarrow> 'e tee \<Rightarrow> 'e tee" where
  "tee_Error own title body = tee_oneShotAt own KindError title body StatusError"

definition tee_Heartbeat :: "string \<Rightarrow> string \<Rightarrow> string \<Rightarrow> 'e tee \<Rightarrow> 'e tee" where
  "tee_Heartbeat title body elapsed t = t\<lparr>tee_emitters := map (\<lambda>(c, e).
     (c, case em_Heartbeat c of Some f \<Rightarrow> f title body elapsed e | None \<Rightarrow> e)) (tee_emitters t)\<rparr>"

section \<open>Driving a tee\<close>

text \<open>The producer's calls on a tee; the ids it was given are named by their number.\<close>

fun tee_drive ::
  "(nat \<Rightarrow> go_time \<Rightarrow> go_time) \<Rightarrow> call \<Rightarrow> string list \<times> 'e tee \<Rightarrow> string list \<times> 'e tee" where
  "tee_drive own (CStart kind title meta now) (ids, t) =
     (case tee_Start own kind title meta now t of Some (i, t') \<Rightarrow> (ids @ [i], t') | None \<Rightarrow> (ids, t))"
| "tee_drive own (CAppend n delta) (ids, t) = (ids, if n < length ids then tee_Append (ids ! n) delta t else t)"
| "tee_drive own (CClose n status summary now) (ids, t) =
     (ids, if n < length ids
           then (if status = StatusError then tee_Fail own (ids ! n) summary now t else tee_Done own (ids ! n) summary now t)
           else t)"
| "tee_drive own (COne kind title body status now) (ids, t) = (ids, tee_oneShotAt own kind title body status now t)"

definition tee_run ::
  "(nat \<Rightarrow> go_time \<Rightarrow> go_time) \<Rightarrow> call list \<Rightarrow> ('e emitter \<times> 'e) list \<Rightarrow> string list \<times> 'e tee" where
  "tee_run own cs es = fold (tee_drive own) cs ([], \<lparr>tee_emitters = es, tee_idMap = Map.empty\<rparr>)"

text \<open>
  The calls that have an effect: those on a block that was started and not closed before. The state
  is the closed blocks, the number of started ones and the calls kept so far.
\<close>

fun effective1 :: "call \<Rightarrow> nat list \<times> nat \<times> call list \<Rightarrow> nat list \<times> nat \<times> call list" where
  "effective1 (CStart kind title meta now) (X, m, ds) = (X, Suc m, ds @ [CStart kind title meta now])"
| "effective1 (CAppend n delta) (X, m, ds) = (X, m, if n < m \<and> n \<notin> set X then ds @ [CAppend n delta] else ds)"
| "effective1 (CClose n status summary now) (X, m, ds) =
     (if n < m \<and> n \<notin> set X then (n # X, m, ds @ [CClose n status summary now]) else (X, m, ds))"
| "effective1 (COne kind title body status now) (X, m, ds) = (X, m, ds @ [COne kind title body status now])"

definition effective :: "call list \<Rightarrow> call list" where
  "effective cs = snd (snd (fold effective1 cs ([], 0, [])))"

section \<open>One call\<close>

text \<open>The emitters of a tee, each driven alone, beside the ids each of them gave out.\<close>

fun drive_each ::
  "(nat \<Rightarrow> go_time \<Rightarrow> go_time) \<Rightarrow> nat \<Rightarrow> call \<Rightarrow> ('e emitter \<times> string list \<times> 'e) list \<Rightarrow>
   ('e emitter \<times> string list \<times> 'e) list" where
  "drive_each own k call [] = []"
| "drive_each own k call ((c, d) # ds) = (c, drive (own k) c call d) # drive_each own (Suc k) call ds"

abbreviation states :: "('e emitter \<times> string list \<times> 'e) list \<Rightarrow> ('e emitter \<times> 'e) list" where
  "states ds \<equiv> map (\<lambda>(c, ids, e). (c, e)) ds"

abbreviation nth_ids :: "nat \<Rightarrow> ('e emitter \<times> string list \<times> 'e) list \<Rightarrow> string list" where
  "nth_ids n ds \<equiv> map (\<lambda>(c, ids, e). ids ! n) ds"

lemma drive_each_length [simp]: "length (drive_each own k call ds) = length ds"
  by (induction own k call ds rule: drive_each.induct) auto

lemma drive_each_nth:
  "j < length ds \<Longrightarrow> ds ! j = (c, d) \<Longrightarrow> drive_each own k call ds ! j = (c, drive (own (k + j)) c call d)"
  by (induction own k call ds arbitrary: j rule: drive_each.induct) (auto simp: nth_Cons split: nat.splits)

lemma start_each_drives:
  "start_each own k kd ti m now (states ds) =
     (map (\<lambda>(c, ids, e). last ids) (drive_each own k (CStart kd ti m now) ds),
      states (drive_each own k (CStart kd ti m now) ds))"
  by (induction ds arbitrary: k) (auto split: prod.splits)

lemma each_append_drives:
  "\<forall>(c, ids, e) \<in> set ds. n < length ids \<Longrightarrow>
   each_emitter (\<lambda>k c j. em_Append c j d) k (nth_ids n ds) (states ds) = states (drive_each own k (CAppend n d) ds)"
  by (induction ds arbitrary: k) auto

lemma each_close_drives:
  "\<forall>(c, ids, e) \<in> set ds. n < length ids \<Longrightarrow>
   each_emitter (\<lambda>k c j. close_at c (own k now) j st su now) k (nth_ids n ds) (states ds) =
     states (drive_each own k (CClose n st su now) ds)"
  by (induction ds arbitrary: k) auto

lemma one_shot_drives:
  "start_each own k kd ti [] now (states ds) = (ids, es1) \<Longrightarrow>
   es2 = (if bo \<noteq> [] then each_emitter (\<lambda>k c j. em_Append c j bo) k ids es1 else es1) \<Longrightarrow>
   each_emitter (\<lambda>k c j. close_at c (own k now) j st [] now) k ids es2 =
   states (drive_each own k (COne kd ti bo st now) ds)"
proof (induction ds arbitrary: k ids es1 es2)
  case (Cons d ds)
  obtain c old e where d: "d = (c, old, e)" by (cases d) auto
  obtain i e' where i: "start_at c (own k now) kd ti [] now e = (i, e')" by fastforce
  obtain ids' es' where r: "start_each own (Suc k) kd ti [] now (states ds) = (ids', es')" by fastforce
  from Cons.IH [OF r refl] Cons.prems show ?case by (auto simp: d i r)
qed simp

section \<open>Any calls\<close>

definition driven ::
  "(nat \<Rightarrow> go_time \<Rightarrow> go_time) \<Rightarrow> ('e emitter \<times> 'e) list \<Rightarrow> call list \<Rightarrow> ('e emitter \<times> string list \<times> 'e) list" where
  "driven own es out = fold (drive_each own 0) out (map (\<lambda>(c, e). (c, [], e)) es)"

lemma driven_snoc: "driven own es (out @ [call]) = drive_each own 0 call (driven own es out)"
  by (simp add: driven_def)

lemma driven_length [simp]: "length (driven own es out) = length es"
  by (induction out rule: rev_induct) (auto simp: driven_snoc, simp add: driven_def)

lemma driven_nth:
  "j < length es \<Longrightarrow> driven own es out ! j = (fst (es ! j), drive_all (own j) (fst (es ! j)) out (snd (es ! j)))"
proof (induction out rule: rev_induct)
  case Nil
  then show ?case by (simp add: driven_def drive_all_def split: prod.splits)
next
  case (snoc call out)
  then show ?case
    by (simp add: driven_snoc drive_all_snoc drive_each_nth [where k = 0, simplified])
qed

definition tee_sim ::
  "('e emitter \<times> string list \<times> 'e) list \<Rightarrow> nat list \<times> nat \<Rightarrow> string list \<times> 'e tee \<Rightarrow> bool" where
  "tee_sim ds sp cl \<longleftrightarrow> (case sp of (X, m) \<Rightarrow> case cl of (cids, t) \<Rightarrow>
     ds \<noteq> [] \<and> tee_emitters t = states ds \<and> (\<forall>(c, ids, e) \<in> set ds. length ids = m) \<and>
     cids = fst (snd (hd ds)) \<and> set X \<subseteq> {..<m} \<and>
     (\<forall>n < m. tee_idMap t (cids ! n) = (if n \<in> set X then None else Some (nth_ids n ds))))"

lemma drive_each_ids:
  "(c, ids, e) \<in> set (drive_each own k call ds) \<Longrightarrow>
   \<exists>e0 ids0 j. (c, ids0, e0) \<in> set ds \<and> (ids, e) = drive (own j) c call (ids0, e0)"
  by (induction own k call ds rule: drive_each.induct) auto

lemma drive_ids: "fst (drive o' c call (ids, e)) =
   (case call of CStart kd ti m now \<Rightarrow> ids @ [fst (start_at c (o' now) kd ti m now e)] | _ \<Rightarrow> ids)"
  by (cases call) (auto split: prod.splits simp: Let_def)

lemma drive_each_lengths:
  assumes "\<forall>(c, ids, e) \<in> set ds. length ids = m"
  shows "\<forall>(c, ids, e) \<in> set (drive_each own k call ds). length ids =
     (case call of CStart kd ti me now \<Rightarrow> Suc m | _ \<Rightarrow> m)"
  using assms
  by (induction own k call ds rule: drive_each.induct)
    (auto split: prod.splits call.splits simp: Let_def dest!: arg_cong [where f = fst] simp: drive_ids)

lemma nth_ids_kept:
  assumes "\<forall>(c, ids, e) \<in> set ds. length ids = m" and "n < m"
  shows "nth_ids n (drive_each own k call ds) = nth_ids n ds"
  using assms
proof (induction ds arbitrary: k)
  case (Cons d ds)
  obtain c ids e where d: "d = (c, ids, e)" by (cases d) auto
  obtain ids' e' where r: "drive (own k) c call (ids, e) = (ids', e')" by fastforce
  have "ids' ! n = ids ! n"
    using drive_ids [of "own k" c call ids e] Cons.prems by (auto simp: r d nth_append split: call.splits)
  with Cons show ?case by (simp add: d r)
qed simp

lemma nth_ids_last:
  assumes "\<forall>(c, ids, e) \<in> set ds. length ids = Suc m"
  shows "nth_ids m ds = map (\<lambda>(c, ids, e). last ids) ds"
proof -
  have "xs ! m = last xs" if "length xs = Suc m" for xs :: "string list"
    using that by (cases xs rule: rev_cases) auto
  with assms show ?thesis by (induction ds) auto
qed

lemma close_at_fun:
  "close_at c u i st su now = (if st = StatusError then fail_at c u i su now else done_at c u i su now)"
  by (simp add: close_at_def fun_eq_iff)

lemma hd_drive_each:
  "ds \<noteq> [] \<Longrightarrow> fst (snd (hd (drive_each own k call ds))) =
     fst (drive (own k) (fst (hd ds)) call (snd (hd ds)))"
  by (cases ds) auto

lemma hd_ids: "ds \<noteq> [] \<Longrightarrow> \<forall>(c, ids, e) \<in> set ds. length ids = m \<Longrightarrow> length (fst (snd (hd ds))) = m"
  by (cases ds) auto

lemma hd_kept:
  "ds \<noteq> [] \<Longrightarrow> (\<And>kd ti me now. call \<noteq> CStart kd ti me now) \<Longrightarrow>
   fst (snd (hd (drive_each own k call ds))) = fst (snd (hd ds))"
  by (cases ds; cases "snd (hd ds)") (auto simp: drive_ids split: call.splits)

lemma sim_start:
  assumes sim: "tee_sim ds (X, m) (cids, t)"
    and ds': "ds' = drive_each own 0 (CStart kd ti me now) ds" and d: "distinct (fst (snd (hd ds')))"
  shows "tee_sim ds' (X, Suc m) (tee_drive own (CStart kd ti me now) (cids, t))"
proof -
  have ne: "ds \<noteq> []" "ds' \<noteq> []" and len: "\<forall>(c, ids, e) \<in> set ds. length ids = m"
    using sim by (auto simp: tee_sim_def ds' dest: arg_cong [where f = length])
  have len': "\<forall>(c, ids, e) \<in> set ds'. length ids = Suc m"
    using drive_each_lengths [OF len, of own 0 "CStart kd ti me now"] by (simp add: ds')
  obtain c ids e rest where h: "ds = (c, ids, e) # rest" using ne(1) by (cases ds) auto
  have c: "cids = ids" and l: "length ids = m" using sim len by (auto simp: tee_sim_def h)
  let ?i = "fst (start_at c (own 0 now) kd ti me now e)"
  have h': "fst (snd (hd ds')) = ids @ [?i]" by (simp add: ds' h drive_ids split: prod.splits)
  have "map (\<lambda>(c, ids, e). last ids) ds' = nth_ids m ds'" using nth_ids_last [OF len'] by simp
  moreover have "hd (map (\<lambda>(c, ids, e). last ids) ds') = ?i" using ne(2) h' by (cases ds') auto
  moreover have "start_each own 0 kd ti me now (tee_emitters t) =
      (map (\<lambda>(c, ids, e). last ids) ds', states ds')"
    using sim start_each_drives [of own 0 kd ti me now ds] by (simp add: tee_sim_def ds')
  ultimately have "tee_Start own kd ti me now t = Some (?i, t\<lparr>tee_emitters := states ds',
      tee_idMap := (tee_idMap t)(?i \<mapsto> nth_ids m ds')\<rparr>)"
    using ne(2) by (cases "map (\<lambda>(c, ids, e). last ids) ds'") (auto simp: tee_Start_def)
  then have run: "tee_drive own (CStart kd ti me now) (cids, t) = (ids @ [?i], t\<lparr>tee_emitters := states ds',
      tee_idMap := (tee_idMap t)(?i \<mapsto> nth_ids m ds')\<rparr>)"
    by (simp add: c)
  have new: "?i \<notin> set ids" using d by (simp add: h')
  have old: "\<forall>n < m. tee_idMap t (ids ! n) = (if n \<in> set X then None else Some (nth_ids n ds))"
    using sim unfolding tee_sim_def c by blast
  have kept: "nth_ids n ds' = nth_ids n ds" if "n < m" for n
    using nth_ids_kept [OF len that] by (simp add: ds')
  have X: "set X \<subseteq> {..<m}" using sim by (simp add: tee_sim_def)
  have "((tee_idMap t)(?i \<mapsto> nth_ids m ds')) ((ids @ [?i]) ! n) = (if n \<in> set X then None else Some (nth_ids n ds'))"
    if n: "n < Suc m" for n
  proof (cases "n = m")
    case True
    then show ?thesis using X l by (auto simp: nth_append)
  next
    case False
    then have "n < m" using n by simp
    moreover from this have "ids ! n \<noteq> ?i" using new l by (metis nth_mem)
    ultimately show ?thesis using old kept l by (simp add: nth_append)
  qed
  then show ?thesis using ne(2) len' X unfolding run tee_sim_def by (simp add: h' subset_eq less_Suc_eq)
qed

lemma sim_change:
  assumes sim: "tee_sim ds (X, m) (cids, t)" and n: "n < m" "n \<notin> set X"
    and k: "\<And>kd ti me now. call \<noteq> CStart kd ti me now"
    and t': "tee_emitters t' = states (drive_each own 0 call ds)"
    and X': "set X' \<subseteq> {..<m}"
    and map': "\<And>j. j < m \<Longrightarrow> tee_idMap t' (cids ! j) = (if j \<in> set X' then None else tee_idMap t (cids ! j))"
    and XX: "set X \<subseteq> set X'"
  shows "tee_sim (drive_each own 0 call ds) (X', m) (cids, t')"
proof -
  let ?ds = "drive_each own 0 call ds"
  have ne: "ds \<noteq> []" and len: "\<forall>(c, ids, e) \<in> set ds. length ids = m"
    using sim by (auto simp: tee_sim_def)
  have "length ?ds = length ds" by simp
  then have "?ds \<noteq> []" using ne by (metis length_0_conv)
  moreover have "\<forall>(c, ids, e) \<in> set ?ds. length ids = m"
    using drive_each_lengths [OF len, of own 0 call] k by (cases call) (blast, auto)
  moreover have "cids = fst (snd (hd ?ds))" using sim hd_kept [OF ne k] by (simp add: tee_sim_def)
  moreover have "tee_idMap t' (cids ! j) = (if j \<in> set X' then None else Some (nth_ids j ?ds))" if "j < m" for j
    using map' [OF that] sim that XX nth_ids_kept [OF len that, of own 0 call] by (auto simp: tee_sim_def)
  ultimately show ?thesis using t' X' by (simp add: tee_sim_def)
qed

lemma sim_step:
  assumes sim: "tee_sim ds (X, m) (cids, t)" and eff: "effective1 call (X, m, out) = (X', m', out')"
    and ds': "ds' = (if out' = out then ds else drive_each own 0 call ds)"
    and d: "distinct (fst (snd (hd ds')))" "distinct cids"
  shows "tee_sim ds' (X', m') (tee_drive own call (cids, t))"
proof -
  have ne: "ds \<noteq> []" and len: "\<forall>(c, ids, e) \<in> set ds. length ids = m" and st: "tee_emitters t = states ds"
    and X: "set X \<subseteq> {..<m}" and ids: "\<And>n. n < m \<Longrightarrow> tee_idMap t (cids ! n) = (if n \<in> set X then None else Some (nth_ids n ds))"
    using sim by (auto simp: tee_sim_def)
  have lc: "length cids = m" using sim hd_ids [OF ne len] by (simp add: tee_sim_def)
  have all: "\<forall>(c, ids, e) \<in> set ds. n < length ids" if "n < m" for n using len that by auto
  show ?thesis
  proof (cases call)
    case (CStart kd ti me now)
    with eff ds' sim_start [OF sim, of ds' own kd ti me now] d(1) show ?thesis by auto
  next
    case (CAppend n delta)
    show ?thesis
    proof (cases "n < m \<and> n \<notin> set X")
      case True
      then have "tee_drive own call (cids, t) =
          (cids, t\<lparr>tee_emitters := states (drive_each own 0 (CAppend n delta) ds)\<rparr>)"
        using lc ids [of n] each_append_drives [OF all [of n], of delta 0 own] by (simp add: CAppend tee_Append_def st)
      moreover have "ds' = drive_each own 0 (CAppend n delta) ds" "X' = X" "m' = m"
        using eff True ds' by (auto simp: CAppend)
      ultimately show ?thesis
        using sim_change [OF sim, of n "CAppend n delta" _ own X] True X ids by simp
    next
      case False
      with eff ds' have "ds' = ds" "X' = X" "m' = m" by (auto simp: CAppend)
      moreover have "tee_drive own call (cids, t) = (cids, t)"
        using False lc ids [of n] by (auto simp: CAppend tee_Append_def)
      ultimately show ?thesis using sim by simp
    qed
  next
    case (CClose n st0 su now)
    show ?thesis
    proof (cases "n < m \<and> n \<notin> set X")
      case True
      let ?t = "t\<lparr>tee_emitters := states (drive_each own 0 (CClose n st0 su now) ds),
          tee_idMap := (tee_idMap t)(cids ! n := None)\<rparr>"
      have "tee_drive own call (cids, t) = (cids, ?t)"
        using True lc ids [of n] each_close_drives [OF all [of n], of own now st0 su 0]
        by (cases "st0 = StatusError") (simp_all add: CClose tee_Done_def tee_Fail_def st close_at_fun)
      moreover have "ds' = drive_each own 0 (CClose n st0 su now) ds" "X' = n # X" "m' = m"
        using eff True ds' by (auto simp: CClose)
      moreover have "((tee_idMap t)(cids ! n := None)) (cids ! j) =
          (if j \<in> set (n # X) then None else tee_idMap t (cids ! j))" if "j < m" for j
        using that True ids [of j] d(2) lc by (auto simp: nth_eq_iff_index_eq)
      ultimately show ?thesis
        using sim_change [OF sim, of n "CClose n st0 su now" ?t own "n # X"] True X by auto
    next
      case False
      with eff ds' have "ds' = ds" "X' = X" "m' = m" by (auto simp: CClose)
      moreover have "tee_drive own call (cids, t) = (cids, t)"
        using False lc ids [of n] by (auto simp: CClose tee_Done_def tee_Fail_def)
      ultimately show ?thesis using sim by simp
    qed
  next
    case (COne kd ti bo st0 now)
    obtain is1 es1 where s: "start_each own 0 kd ti [] now (states ds) = (is1, es1)" by fastforce
    have "tee_drive own call (cids, t) = (cids, t\<lparr>tee_emitters := states (drive_each own 0 (COne kd ti bo st0 now) ds)\<rparr>)"
      using one_shot_drives [OF s refl, where st = st0]
      by (simp add: COne tee_oneShotAt_def st s)
    moreover have ds2: "ds' = drive_each own 0 (COne kd ti bo st0 now) ds" "X' = X" "m' = m"
      using eff ds' by (auto simp: COne)
    moreover have "fst (snd (hd (drive_each own 0 (COne kd ti bo st0 now) ds))) = fst (snd (hd ds))"
      by (rule hd_kept [OF ne]) simp
    moreover have "\<forall>(c, ids, e) \<in> set (drive_each own 0 (COne kd ti bo st0 now) ds). length ids = m"
      using drive_each_lengths [OF len, of own 0 "COne kd ti bo st0 now"] by simp
    moreover have "drive_each own 0 (COne kd ti bo st0 now) ds \<noteq> []"
      using ne by (metis drive_each_length length_0_conv)
    moreover have "nth_ids n (drive_each own 0 (COne kd ti bo st0 now) ds) = nth_ids n ds" if "n < m" for n
      using nth_ids_kept [OF len that] .
    moreover have "cids = fst (snd (hd ds))" using sim by (simp add: tee_sim_def)
    ultimately show ?thesis using ids X by (simp add: tee_sim_def)
  qed
qed

text \<open>
  A tee is as good as its emitters driven one by one with the calls that have an effect, as long as
  the first of them, whose ids the tee hands out, never gives an id twice.
\<close>

lemma effective1_out:
  "effective1 call (X, m, out) = (X', m', out') \<Longrightarrow> out' = out \<or> out' = out @ [call]"
  by (cases call) (auto split: if_splits)

lemma effective_subseq: "subseq (snd (snd (fold effective1 cs ([], 0, [])))) cs"
proof (induction cs rule: rev_induct)
  case (snoc call cs)
  obtain X m out where e: "fold effective1 cs ([], 0, []) = (X, m, out)" by (metis prod_cases3)
  obtain X' m' out' where e': "effective1 call (X, m, out) = (X', m', out')" by (metis prod_cases3)
  have "subseq out cs" using snoc by (simp add: e)
  then have "subseq out (cs @ [call])" "subseq (out @ [call]) (cs @ [call])"
    by (simp_all add: subseq_rev_drop_many list_emb_append_mono)
  with effective1_out [OF e'] show ?case by (auto simp: e e')
qed simp

lemma effective_calls: "subseq (effective cs) cs"
  using effective_subseq by (simp add: effective_def)

lemma tee_follows:
  assumes "es \<noteq> []"
    and fresh: "\<And>out. subseq out cs \<Longrightarrow> distinct (fst (drive_all (own 0) (fst (hd es)) out (snd (hd es))))"
  shows "case fold effective1 cs ([], 0, []) of (X, m, out) \<Rightarrow> tee_sim (driven own es out) (X, m) (tee_run own cs es)"
  using fresh
proof (induction cs rule: rev_induct)
  case Nil
  have "states (map (\<lambda>(c, e). (c, [], e)) es) = es" by (induction es) auto
  then show ?case using assms(1)
    by (auto simp: tee_sim_def tee_run_def driven_def hd_map split: prod.splits)
next
  case (snoc call cs)
  obtain X m out where e: "fold effective1 cs ([], 0, []) = (X, m, out)" by (metis prod_cases3)
  obtain X' m' out' where e': "effective1 call (X, m, out) = (X', m', out')" by (metis prod_cases3)
  obtain cids t where r: "tee_run own cs es = (cids, t)" by fastforce
  have "distinct (fst (drive_all (own 0) (fst (hd es)) o' (snd (hd es))))" if "subseq o' cs" for o'
    using snoc.prems [OF subseq_rev_drop_many [OF that]] .
  from snoc.IH [OF this] have sim: "tee_sim (driven own es out) (X, m) (cids, t)" by (simp add: e r)
  have hd: "hd (driven own es o') = driven own es o' ! 0" for o'
    using assms(1) by (metis driven_length hd_conv_nth length_0_conv)
  have ids: "fst (snd (hd (driven own es o'))) = fst (drive_all (own 0) (fst (hd es)) o' (snd (hd es)))" for o'
    using assms(1) by (simp add: hd driven_nth hd_conv_nth)
  have sub: "subseq out cs" using effective_subseq [of cs] by (simp add: e)
  have sub': "subseq out' (cs @ [call])" using effective_subseq [of "cs @ [call]"] by (simp add: e e')
  have ds': "driven own es out' = (if out' = out then driven own es out else drive_each own 0 call (driven own es out))"
    using effective1_out [OF e'] by (auto simp: driven_snoc)
  have "tee_sim (driven own es out') (X', m') (tee_drive own call (cids, t))"
  proof (rule sim_step [OF sim e' ds'])
    show "distinct (fst (snd (hd (driven own es out'))))" unfolding ids by (rule snoc.prems [OF sub'])
    have "cids = fst (snd (hd (driven own es out)))" using sim by (simp add: tee_sim_def)
    then show "distinct cids" unfolding ids using snoc.prems [of out] sub by (simp add: subseq_rev_drop_many)
  qed
  then show ?case using r by (simp add: e e' tee_run_def)
qed

theorem tee_is_each:
  assumes "es \<noteq> []"
    and "\<And>out. subseq out cs \<Longrightarrow> distinct (fst (drive_all (own 0) (fst (hd es)) out (snd (hd es))))"
    and "j < length es"
  shows "tee_emitters (snd (tee_run own cs es)) ! j =
    (fst (es ! j), snd (drive_all (own j) (fst (es ! j)) (effective cs) (snd (es ! j))))"
proof -
  obtain X m out where e: "fold effective1 cs ([], 0, []) = (X, m, out)" by (metis prod_cases3)
  obtain cids t where r: "tee_run own cs es = (cids, t)" by fastforce
  have "tee_sim (driven own es out) (X, m) (cids, t)" using tee_follows [of es cs own, OF assms(1,2)] by (simp add: e r)
  then have "tee_emitters t = states (driven own es out)" by (simp add: tee_sim_def)
  moreover have "effective cs = out" by (simp add: effective_def e)
  ultimately show ?thesis using assms(3) by (simp add: r driven_nth split: prod.splits)
qed

lemma tee_length: "es \<noteq> [] \<Longrightarrow>
    (\<And>out. subseq out cs \<Longrightarrow> distinct (fst (drive_all (own 0) (fst (hd es)) out (snd (hd es))))) \<Longrightarrow>
    length (tee_emitters (snd (tee_run own cs es))) = length es"
  using tee_follows [of es cs own]
  by (auto simp: tee_sim_def split: prod.splits)

end
