(* ===== verification/Live_Stream.thy ===== *)
theory Live_Stream
  imports Blocks_Tee "HOL-Library.Sublist"
begin

text \<open>
  internal/bot/live.go, live_emitter.go and the text of heartbeat.go: the stream of one running turn,
  its subscribers, the registry of running turns, and the emitter that writes into a stream.

  A pointer is a number: of a subscription in its run, of a run in the registry. A subscriber's channel
  is its queue with the capacity 256; a send to a full one is dropped. Subscriptions stay readable after
  they were taken off the run, as the channel of the code does. The payload of an event is the JSON tree.
\<close>

section \<open>Runs and subscriptions\<close>

record live_event =
  le_Event :: string
  le_Data :: json
  le_Seq :: int

record live_subscription =
  sub_history :: "live_event list"
  sub_ch :: "live_event list"
  sub_closed :: bool
  sub_afterSeq :: int

record live_run =
  lrun_ctx_done :: bool
  lrun_history :: "live_event list"
  lrun_all :: "live_subscription list"
  lrun_subs :: "nat list"
  lrun_closed :: bool
  lrun_cancelled :: bool
  lrun_sandboxID :: string
  lrun_cleanupSandboxOnCancel :: bool

definition newLiveRun :: live_run where
  "newLiveRun = \<lparr>lrun_ctx_done = False, lrun_history = [], lrun_all = [], lrun_subs = [], lrun_closed = False,
     lrun_cancelled = False, lrun_sandboxID = [], lrun_cleanupSandboxOnCancel = False\<rparr>"

definition live_Cancel :: "live_run \<Rightarrow> bool \<times> live_run" where
  "live_Cancel r = (if lrun_closed r \<or> lrun_cancelled r then (False, r)
     else (True, r\<lparr>lrun_cancelled := True, lrun_ctx_done := True\<rparr>))"

definition Cancelled :: "live_run \<Rightarrow> bool" where
  "Cancelled r = lrun_cancelled r"

definition SetSandboxID :: "string \<Rightarrow> bool \<Rightarrow> live_run \<Rightarrow> live_run" where
  "SetSandboxID i cleanupOnCancel r = (if i = [] then r
     else r\<lparr>lrun_sandboxID := i, lrun_cleanupSandboxOnCancel := cleanupOnCancel\<rparr>)"

definition SandboxID :: "live_run \<Rightarrow> string" where
  "SandboxID r = lrun_sandboxID r"

definition CancelCleanupSandboxID :: "live_run \<Rightarrow> string \<times> bool" where
  "CancelCleanupSandboxID r = (lrun_sandboxID r, lrun_cleanupSandboxOnCancel r)"

definition live_capacity :: nat where "live_capacity = 256"

definition send :: "live_event \<Rightarrow> live_subscription \<Rightarrow> live_subscription" where
  "send ev sub = (if le_Seq ev \<noteq> 0 \<and> le_Seq ev \<le> sub_afterSeq sub then sub
     else if length (sub_ch sub) < live_capacity then sub\<lparr>sub_ch := sub_ch sub @ [ev]\<rparr> else sub)"

definition at_subs :: "nat list \<Rightarrow> (live_subscription \<Rightarrow> live_subscription) \<Rightarrow> live_subscription list \<Rightarrow> live_subscription list" where
  "at_subs ks f subs = map (\<lambda>(k, sub). if k \<in> set ks then f sub else sub) (enumerate 0 subs)"

definition Emit :: "live_event \<Rightarrow> live_run \<Rightarrow> live_run" where
  "Emit ev r = (if lrun_closed r then r
     else r\<lparr>lrun_history := lrun_history r @ [ev], lrun_all := at_subs (lrun_subs r) (send ev) (lrun_all r)\<rparr>)"

text \<open>Whether a subscriber that has seen the stored events up to \<open>sq\<close> wants an event.\<close>

definition wanted :: "int \<Rightarrow> live_event \<Rightarrow> bool" where
  "wanted sq ev \<longleftrightarrow> le_Seq ev = 0 \<or> sq < le_Seq ev"

definition SubscribeAfter :: "int \<Rightarrow> live_run \<Rightarrow> nat \<times> live_run" where
  "SubscribeAfter sq r =
     (let sub = \<lparr>sub_history = filter (wanted sq) (lrun_history r), sub_ch = [], sub_closed = lrun_closed r,
            sub_afterSeq = sq\<rparr>;
          k = length (lrun_all r)
      in (k, if lrun_closed r then r\<lparr>lrun_all := lrun_all r @ [sub]\<rparr>
             else r\<lparr>lrun_all := lrun_all r @ [sub], lrun_subs := lrun_subs r @ [k]\<rparr>))"

definition Subscribe :: "live_run \<Rightarrow> nat \<times> live_run" where
  "Subscribe r = SubscribeAfter 0 r"

definition close_ch :: "live_subscription \<Rightarrow> live_subscription" where
  "close_ch sub = sub\<lparr>sub_closed := True\<rparr>"

definition Unsubscribe :: "nat \<Rightarrow> live_run \<Rightarrow> live_run" where
  "Unsubscribe k r = (if k \<notin> set (lrun_subs r) then r
     else r\<lparr>lrun_subs := removeAll k (lrun_subs r), lrun_all := at_subs [k] close_ch (lrun_all r)\<rparr>)"

definition Close :: "live_run \<Rightarrow> live_run" where
  "Close r = (if lrun_closed r then r
     else r\<lparr>lrun_closed := True, lrun_ctx_done := True, lrun_all := at_subs (lrun_subs r) close_ch (lrun_all r),
        lrun_subs := []\<rparr>)"

text \<open>A receive from a subscriber's channel: None when it would block or the channel is closed and empty.\<close>

definition receive :: "nat \<Rightarrow> live_run \<Rightarrow> live_event option \<times> live_run" where
  "receive k r = (if k < length (lrun_all r) then
       (case sub_ch (lrun_all r ! k) of
          [] \<Rightarrow> (None, r)
        | ev # evs \<Rightarrow> (Some ev, r\<lparr>lrun_all := (lrun_all r)[k := (lrun_all r ! k)\<lparr>sub_ch := evs\<rparr>]\<rparr>))
     else (None, r))"

section \<open>The registry\<close>

record live_registry =
  reg_runs :: "string \<rightharpoonup> nat"
  reg_heap :: "live_run list"

definition newLiveRegistry :: live_registry where
  "newLiveRegistry = \<lparr>reg_runs = Map.empty, reg_heap = []\<rparr>"

definition liveKey :: "string \<Rightarrow> string \<Rightarrow> string" where
  "liveKey orgID threadID = orgID @ [CHR 0x00] @ threadID"

definition RegisterIfAbsent :: "string \<Rightarrow> string \<Rightarrow> live_registry \<Rightarrow> (nat \<times> bool) \<times> live_registry" where
  "RegisterIfAbsent orgID threadID g =
     (case reg_runs g (liveKey orgID threadID) of
        Some k \<Rightarrow> ((k, False), g)
      | None \<Rightarrow> let k = length (reg_heap g) in
          ((k, True), g\<lparr>reg_heap := reg_heap g @ [newLiveRun], reg_runs := (reg_runs g)(liveKey orgID threadID \<mapsto> k)\<rparr>))"

definition live_Get :: "string \<Rightarrow> string \<Rightarrow> live_registry \<Rightarrow> nat option" where
  "live_Get orgID threadID g = reg_runs g (liveKey orgID threadID)"

definition live_Done :: "string \<Rightarrow> string \<Rightarrow> nat \<Rightarrow> live_registry \<Rightarrow> live_registry" where
  "live_Done orgID threadID k g =
     (let key = liveKey orgID threadID;
          g1 = (if reg_runs g key = Some k then g\<lparr>reg_runs := (reg_runs g)(key := None)\<rparr> else g)
      in g1\<lparr>reg_heap := (reg_heap g1)[k := Close (reg_heap g1 ! k)]\<rparr>)"

section \<open>The emitter into a run\<close>

record live_emitter =
  lem_idGen :: nat
  lem_kinds :: "string \<rightharpoonup> string"
  lem_run :: live_run

definition newLiveEmitter :: "live_run \<Rightarrow> live_emitter" where
  "newLiveEmitter r = \<lparr>lem_idGen = 0, lem_kinds = Map.empty, lem_run = r\<rparr>"

definition live_emit :: "rfc \<Rightarrow> string \<Rightarrow> sse_event \<Rightarrow> live_emitter \<Rightarrow> live_emitter" where
  "live_emit R name ev e =
     (case sse_json R ev of
        Inl err \<Rightarrow> e
      | Inr payload \<Rightarrow> e\<lparr>lem_run := Emit \<lparr>le_Event = name, le_Data = payload, le_Seq = 0\<rparr> (lem_run e)\<rparr>)"

definition live_StartAt :: "rfc \<Rightarrow> string \<Rightarrow> string \<Rightarrow> meta \<Rightarrow> go_time \<Rightarrow> live_emitter \<Rightarrow> string \<times> live_emitter" where
  "live_StartAt R kind title meta startedAt e =
     (let n = (lem_idGen e + 1) mod 18446744073709551616;
          i = ''w'' @ show_nat n
      in (i, live_emit R ''block_start''
            (zero_sse\<lparr>se_ID := i, se_Kind := kind, se_Title := title, se_Meta := meta, se_StartedAt := startedAt\<rparr>)
            (e\<lparr>lem_idGen := n, lem_kinds := (lem_kinds e)(i \<mapsto> kind)\<rparr>)))"

definition live_Append :: "rfc \<Rightarrow> string \<Rightarrow> string \<Rightarrow> live_emitter \<Rightarrow> live_emitter" where
  "live_Append R i delta e =
     (if lem_kinds e i = Some KindToolUse then e
      else live_emit R ''block_append'' (zero_sse\<lparr>se_ID := i, se_Delta := delta\<rparr>) e)"

definition live_closeAt :: "rfc \<Rightarrow> string \<Rightarrow> string \<Rightarrow> string \<Rightarrow> go_time \<Rightarrow> live_emitter \<Rightarrow> live_emitter" where
  "live_closeAt R status i summary endedAt e = live_emit R ''block_done''
     (zero_sse\<lparr>se_ID := i, se_Status := status, se_Summary := summary, se_EndedAt := endedAt\<rparr>)
     (e\<lparr>lem_kinds := (lem_kinds e)(i := None)\<rparr>)"

definition live_DoneAt :: "rfc \<Rightarrow> string \<Rightarrow> string \<Rightarrow> go_time \<Rightarrow> live_emitter \<Rightarrow> live_emitter" where
  "live_DoneAt R = live_closeAt R StatusDone"

definition live_FailAt :: "rfc \<Rightarrow> string \<Rightarrow> string \<Rightarrow> go_time \<Rightarrow> live_emitter \<Rightarrow> live_emitter" where
  "live_FailAt R = live_closeAt R StatusError"

definition live_oneShot ::
  "rfc \<Rightarrow> string \<Rightarrow> string \<Rightarrow> string \<Rightarrow> string \<Rightarrow> go_time \<Rightarrow> go_time \<Rightarrow> live_emitter \<Rightarrow> live_emitter" where
  "live_oneShot R kind title body status t u e =
     (let (i, e1) = live_StartAt R kind title [] t e;
          e2 = (if body \<noteq> [] then live_Append R i body e1 else e1)
      in if status = StatusError then live_FailAt R i [] u e2 else live_DoneAt R i [] u e2)"

definition live_Notify :: "rfc \<Rightarrow> string \<Rightarrow> string \<Rightarrow> go_time \<Rightarrow> go_time \<Rightarrow> live_emitter \<Rightarrow> live_emitter" where
  "live_Notify R title body = live_oneShot R KindNotify title body StatusDone"

definition live_Result :: "rfc \<Rightarrow> string \<Rightarrow> string \<Rightarrow> go_time \<Rightarrow> go_time \<Rightarrow> live_emitter \<Rightarrow> live_emitter" where
  "live_Result R title body = live_oneShot R KindResult title body StatusDone"

definition live_Error :: "rfc \<Rightarrow> string \<Rightarrow> string \<Rightarrow> go_time \<Rightarrow> go_time \<Rightarrow> live_emitter \<Rightarrow> live_emitter" where
  "live_Error R title body = live_oneShot R KindError title body StatusError"

definition live_Heartbeat :: "rfc \<Rightarrow> string \<Rightarrow> string \<Rightarrow> string \<Rightarrow> live_emitter \<Rightarrow> live_emitter" where
  "live_Heartbeat R title body elapsed = live_emit R ''heartbeat''
     (zero_sse\<lparr>se_Title := title, se_Delta := body, se_Elapsed := elapsed\<rparr>)"

definition live_emitter_methods :: "rfc \<Rightarrow> live_emitter emitter" where
  "live_emitter_methods R = \<lparr>em_Start = live_StartAt R, em_StartAt = Some (live_StartAt R), em_Append = live_Append R,
     em_Done = live_DoneAt R, em_DoneAt = Some (live_DoneAt R), em_Fail = live_FailAt R,
     em_FailAt = Some (live_FailAt R), em_Heartbeat = Some (live_Heartbeat R)\<rparr>"

text \<open>heartbeat.go: Duration.Round to the minute, halves away from zero, for durations that are not negative.\<close>

definition round_minutes :: "duration \<Rightarrow> int" where
  "round_minutes d = (let r = d mod minute in if r + r < minute then d div minute else d div minute + 1)"

definition heartbeatElapsedString :: "duration \<Rightarrow> string" where
  "heartbeatElapsedString d =
     (let minutes = round_minutes d; hours = minutes div 60; remainder = minutes mod 60
      in if minutes < 1 then ''<1m''
         else if minutes < 60 then itoa minutes @ ''m''
         else if remainder = 0 then itoa hours @ ''h''
         else itoa hours @ ''h'' @ itoa remainder @ ''m'')"

section \<open>What a subscriber sees\<close>

text \<open>
  The calls on a run, by anybody, with what each subscriber received so far and who unsubscribed.
\<close>

datatype live_op =
    OpEmit live_event
  | OpSubscribe int
  | OpUnsubscribe nat
  | OpReceive nat
  | OpSandbox string bool
  | OpCancel
  | OpClose

type_synonym live_state = "live_run \<times> (nat \<Rightarrow> live_event list) \<times> nat list"

fun live_step :: "live_op \<Rightarrow> live_state \<Rightarrow> live_state" where
  "live_step (OpEmit ev) (r, got, gone) = (Emit ev r, got, gone)"
| "live_step (OpSubscribe sq) (r, got, gone) = (snd (SubscribeAfter sq r), got, gone)"
| "live_step (OpUnsubscribe k) (r, got, gone) = (Unsubscribe k r, got, k # gone)"
| "live_step (OpReceive k) (r, got, gone) =
     (case receive k r of (Some ev, r') \<Rightarrow> (r', got(k := got k @ [ev]), gone) | (None, r') \<Rightarrow> (r', got, gone))"
| "live_step (OpSandbox i b) (r, got, gone) = (SetSandboxID i b r, got, gone)"
| "live_step OpCancel (r, got, gone) = (snd (live_Cancel r), got, gone)"
| "live_step OpClose (r, got, gone) = (Close r, got, gone)"

definition live_run_ops :: "live_op list \<Rightarrow> live_state" where
  "live_run_ops ops = fold live_step ops (newLiveRun, (\<lambda>k. []), [])"

text \<open>No event is dropped: whenever one is emitted, every subscriber that wants it has room for it.\<close>

definition room_for :: "live_event \<Rightarrow> live_run \<Rightarrow> bool" where
  "room_for ev r \<longleftrightarrow> list_all (\<lambda>k. length (sub_ch (lrun_all r ! k)) < live_capacity) (lrun_subs r)"

fun smooth :: "live_op list \<Rightarrow> live_state \<Rightarrow> bool" where
  "smooth [] st = True"
| "smooth (op # ops) st =
     ((case op of OpEmit ev \<Rightarrow> room_for ev (fst st) | _ \<Rightarrow> True) \<and> smooth ops (live_step op st))"

definition sub_inv :: "bool \<Rightarrow> live_run \<Rightarrow> (nat \<Rightarrow> live_event list) \<Rightarrow> nat list \<Rightarrow> nat \<Rightarrow> bool" where
  "sub_inv b r got gone k \<longleftrightarrow>
     (let s = lrun_all r ! k; seen = sub_history s @ got k @ sub_ch s;
          all = filter (wanted (sub_afterSeq s)) (lrun_history r)
      in subseq seen all \<and> (b \<and> k \<notin> set gone \<longrightarrow> seen = all))"

definition live_inv :: "bool \<Rightarrow> live_state \<Rightarrow> bool" where
  "live_inv b st \<longleftrightarrow> (case st of (r, got, gone) \<Rightarrow>
     (\<forall>k < length (lrun_all r). sub_inv b r got gone k) \<and>
     (\<forall>k \<ge> length (lrun_all r). got k = []) \<and>
     set (lrun_subs r) \<subseteq> {..<length (lrun_all r)} \<and>
     (\<not> lrun_closed r \<longrightarrow> (\<forall>k < length (lrun_all r). k \<in> set gone \<or> k \<in> set (lrun_subs r))))"

lemma at_subs_length [simp]: "length (at_subs ks f subs) = length subs"
  by (simp add: at_subs_def)

lemma at_subs_nth: "k < length subs \<Longrightarrow> at_subs ks f subs ! k = (if k \<in> set ks then f (subs ! k) else subs ! k)"
  by (simp add: at_subs_def nth_enumerate_eq)

lemma close_ch_simps [simp]:
  "sub_history (close_ch s) = sub_history s" "sub_ch (close_ch s) = sub_ch s" "sub_afterSeq (close_ch s) = sub_afterSeq s"
  by (simp_all add: close_ch_def)

lemma send_simps [simp]:
  "sub_history (send ev s) = sub_history s" "sub_afterSeq (send ev s) = sub_afterSeq s"
  by (simp_all add: send_def)

lemma send_ch: "sub_ch (send ev s) =
    (if wanted (sub_afterSeq s) ev \<and> length (sub_ch s) < live_capacity then sub_ch s @ [ev] else sub_ch s)"
  by (auto simp: send_def wanted_def)

lemma emit_inv:
  assumes "live_inv b (r, got, gone)"
  shows "live_inv (b \<and> room_for ev r) (Emit ev r, got, gone)"
proof (cases "lrun_closed r")
  case True
  with assms show ?thesis by (auto simp: Emit_def live_inv_def sub_inv_def Let_def)
next
  case running: False
  have "sub_inv (b \<and> room_for ev r) (Emit ev r) got gone k" if k: "k < length (lrun_all r)" for k
  proof -
    let ?s = "lrun_all r ! k"
    let ?seen = "sub_history ?s @ got k @ sub_ch ?s" and ?all = "filter (wanted (sub_afterSeq ?s)) (lrun_history r)"
    have old: "subseq ?seen ?all" "b \<Longrightarrow> k \<notin> set gone \<Longrightarrow> ?seen = ?all" and reg: "k \<in> set gone \<or> k \<in> set (lrun_subs r)"
      using assms k running by (auto simp: live_inv_def sub_inv_def Let_def)
    have longer: "subseq (?seen @ [ev]) (?all @ [ev])" "subseq ?seen (?all @ [ev])"
      using list_emb_append_mono [OF old(1), of "[ev]" "[ev]"] subseq_rev_drop_many [OF old(1)] by auto
    show ?thesis
    proof (cases "k \<in> set (lrun_subs r)")
      case True
      then have "room_for ev r \<Longrightarrow> length (sub_ch ?s) < live_capacity" by (auto simp: room_for_def list_all_iff)
      with True running k old longer show ?thesis
        by (auto simp: Emit_def sub_inv_def Let_def at_subs_nth send_ch)
    next
      case False
      with reg running k old(1) longer(2) show ?thesis
        by (auto simp: Emit_def sub_inv_def Let_def at_subs_nth)
    qed
  qed
  with assms running show ?thesis by (auto simp: live_inv_def Emit_def)
qed

lemma subscribe_inv:
  assumes "live_inv b (r, got, gone)"
  shows "live_inv b (snd (SubscribeAfter sq r), got, gone)"
proof -
  let ?sub = "\<lparr>sub_history = filter (wanted sq) (lrun_history r), sub_ch = [], sub_closed = lrun_closed r, sub_afterSeq = sq\<rparr>"
  have "got (length (lrun_all r)) = []" using assms by (simp add: live_inv_def)
  then show ?thesis using assms
    by (auto simp: SubscribeAfter_def Let_def live_inv_def sub_inv_def nth_append less_Suc_eq)
qed

lemma unchanged_inv:
  assumes "live_inv b (r, got, gone)" and "length (lrun_all r') = length (lrun_all r)"
    and "\<And>k. k < length (lrun_all r) \<Longrightarrow> sub_history (lrun_all r' ! k) = sub_history (lrun_all r ! k) \<and>
      sub_ch (lrun_all r' ! k) = sub_ch (lrun_all r ! k) \<and> sub_afterSeq (lrun_all r' ! k) = sub_afterSeq (lrun_all r ! k)"
    and "lrun_history r' = lrun_history r" and "set (lrun_subs r') \<subseteq> set (lrun_subs r)"
    and "set gone \<subseteq> set gone'"
    and "\<not> lrun_closed r' \<Longrightarrow> \<not> lrun_closed r \<and> set (lrun_subs r) \<subseteq> set (lrun_subs r') \<union> set gone'"
  shows "live_inv b (r', got, gone')"
proof -
  have "sub_inv b r' got gone' k" if k: "k < length (lrun_all r)" for k
  proof -
    have "sub_inv b r got gone k" using assms(1) k by (simp add: live_inv_def)
    then show ?thesis using assms(3) [OF k] assms(4,6) by (auto simp: sub_inv_def Let_def)
  qed
  moreover have "set (lrun_subs r') \<subseteq> {..<length (lrun_all r)}" using assms(1,5) by (auto simp: live_inv_def)
  moreover have "\<forall>k < length (lrun_all r). k \<in> set gone' \<or> k \<in> set (lrun_subs r')" if "\<not> lrun_closed r'"
    using assms(1,6) assms(7) [OF that] by (auto simp: live_inv_def)
  ultimately show ?thesis using assms(1,2) by (simp add: live_inv_def)
qed

lemma receive_inv:
  assumes "live_inv b (r, got, gone)"
  shows "live_inv b (live_step (OpReceive j) (r, got, gone))"
proof (cases "j < length (lrun_all r) \<and> sub_ch (lrun_all r ! j) \<noteq> []")
  case False
  then have "receive j r = (None, r)" by (auto simp: receive_def)
  with assms show ?thesis by simp
next
  case True
  then obtain ev evs where q: "sub_ch (lrun_all r ! j) = ev # evs" by (cases "sub_ch (lrun_all r ! j)") auto
  with True have "receive j r = (Some ev, r\<lparr>lrun_all := (lrun_all r)[j := (lrun_all r ! j)\<lparr>sub_ch := evs\<rparr>]\<rparr>)"
    by (simp add: receive_def)
  then have st: "live_step (OpReceive j) (r, got, gone) =
      (r\<lparr>lrun_all := (lrun_all r)[j := (lrun_all r ! j)\<lparr>sub_ch := evs\<rparr>]\<rparr>, got(j := got j @ [ev]), gone)"
    by simp
  have "sub_inv b (r\<lparr>lrun_all := (lrun_all r)[j := (lrun_all r ! j)\<lparr>sub_ch := evs\<rparr>]\<rparr>) (got(j := got j @ [ev])) gone k"
    if "k < length (lrun_all r)" for k
    using assms that q by (cases "k = j") (auto simp: live_inv_def sub_inv_def Let_def)
  with assms True show ?thesis unfolding st by (auto simp: live_inv_def)
qed

lemma step_inv:
  assumes "live_inv b st"
  shows "live_inv (b \<and> (case op of OpEmit ev \<Rightarrow> room_for ev (fst st) | _ \<Rightarrow> True)) (live_step op st)"
proof -
  obtain r got gone where st: "st = (r, got, gone)" by (metis prod_cases3)
  note inv = assms [unfolded st]
  show ?thesis
  proof (cases op)
    case (OpUnsubscribe k)
    have "live_inv b (Unsubscribe k r, got, k # gone)"
      by (rule unchanged_inv [OF inv]) (auto simp: Unsubscribe_def at_subs_nth)
    then show ?thesis by (simp add: st OpUnsubscribe)
  next
    case OpClose
    have "live_inv b (Close r, got, gone)"
      by (rule unchanged_inv [OF inv]) (auto simp: Close_def at_subs_nth)
    then show ?thesis by (simp add: st OpClose)
  next
    case OpCancel
    have "live_inv b (snd (live_Cancel r), got, gone)"
      by (rule unchanged_inv [OF inv]) (auto simp: live_Cancel_def)
    then show ?thesis by (simp add: st OpCancel)
  next
    case (OpSandbox i c)
    have "live_inv b (SetSandboxID i c r, got, gone)"
      by (rule unchanged_inv [OF inv]) (auto simp: SetSandboxID_def split: if_splits)
    then show ?thesis by (simp add: st OpSandbox)
  qed (use inv emit_inv subscribe_inv receive_inv in \<open>auto simp: st simp del: live_step.simps(4)\<close>)
qed

lemma ops_inv: "live_inv b st \<Longrightarrow> live_inv (b \<and> smooth ops st) (fold live_step ops st)"
proof (induction ops arbitrary: b st)
  case (Cons op ops)
  from Cons.IH [OF step_inv [OF Cons.prems, of op]] show ?case by (simp add: conj_assoc)
qed simp

theorem seen_by_subscriber:
  assumes "live_run_ops ops = (r, got, gone)" and "k < length (lrun_all r)"
  shows "sub_inv (smooth ops (newLiveRun, (\<lambda>k. []), [])) r got gone k"
proof -
  have "live_inv True (newLiveRun, (\<lambda>k. []), [])" by (simp add: live_inv_def newLiveRun_def)
  from ops_inv [OF this, of ops] assms show ?thesis by (simp add: live_run_ops_def live_inv_def)
qed

section \<open>One live run per thread\<close>

text \<open>The registry's entries are the runs that were registered and not ended.\<close>

lemma live_Get_same: "live_Get o1 t1 (snd (RegisterIfAbsent o1 t1 g)) = Some (fst (fst (RegisterIfAbsent o1 t1 g)))"
  by (auto simp: live_Get_def RegisterIfAbsent_def Let_def split: option.splits)

lemma liveKey_inj:
  assumes "CHR 0x00 \<notin> set o1" and "CHR 0x00 \<notin> set o2"
  shows "liveKey o1 t1 = liveKey o2 t2 \<longleftrightarrow> o1 = o2 \<and> t1 = t2"
proof -
  have "takeWhile (\<lambda>c. c \<noteq> CHR 0x00) (liveKey x y) = x" if "CHR 0x00 \<notin> set x" for x y
    using that by (induction x) (auto simp: liveKey_def)
  with assms show ?thesis by (metis append_Cons append_self_conv2 liveKey_def same_append_eq list.inject)
qed

end
