(* ===== verification/Run_Emitter.thy ===== *)
theory Run_Emitter
  imports Live_Stream Runs_Laws
begin

text \<open>
  The durable emitter of internal/bot/agent_run_runtime.go: every frame of a transcript is stored as an
  event of its run, in the same order, and then passed to the live stream; and the way back
  (blocksFromRunEvents of agent_run_recovery_daytona.go), the blocks read from the stored events.

  A state is the emitter's own with the world around it: the tables of runs, the live run if there is
  one, and the clock of the database, read once by each statement.
\<close>

section \<open>State\<close>

record run_emitter =
  are_idGen :: nat
  are_store :: bool
  are_runID :: string
  are_workerID :: string
  are_leasePeriod :: duration
  are_kinds :: "string \<rightharpoonup> string"
  are_suppressed :: bool
  are_err :: "go_error option"
  are_buffering :: bool
  are_buffer :: "(string \<times> json) list"
  are_replayStartIDs :: "string list"
  are_replayStart :: nat
  are_replaySuppressEvents :: nat

record run_world =
  rw_db :: runs_db
  rw_live :: "live_run option"
  rw_clock :: "nat \<Rightarrow> go_time"
  rw_ticks :: nat

definition agentRunLeaseDuration :: duration where "agentRunLeaseDuration = 5 * minute"

definition errAgentRunDurability :: go_error where
  "errAgentRunDurability = ErrNew ''agent run durability failure''"

text \<open>A statement of the store: it reads the clock.\<close>

definition in_store :: "(go_time \<Rightarrow> (runs_db, 'a) go) \<Rightarrow> run_world \<Rightarrow> (go_error + 'a) \<times> run_world" where
  "in_store q w = (case q (rw_clock w (rw_ticks w)) (rw_db w) of
     (res, db) \<Rightarrow> (res, w\<lparr>rw_db := db, rw_ticks := Suc (rw_ticks w)\<rparr>))"

text \<open>\<open>en\<close>: the store is there and has a database.\<close>

definition newAgentRunEmitter :: "bool \<Rightarrow> string \<Rightarrow> string \<Rightarrow> run_emitter" where
  "newAgentRunEmitter en runID workerID = \<lparr>are_idGen = 0, are_store = en, are_runID = runID, are_workerID = workerID,
     are_leasePeriod = agentRunLeaseDuration, are_kinds = Map.empty, are_suppressed = False, are_err = None,
     are_buffering = False, are_buffer = [], are_replayStartIDs = [], are_replayStart = 0,
     are_replaySuppressEvents = 0\<rparr>"

section \<open>Stored events\<close>

text \<open>strconv.ParseUint(s, 10, 64).\<close>

definition parse_uint :: "string \<Rightarrow> nat option" where
  "parse_uint s = (let n = digits_value 0 s
     in if s = [] \<or> \<not> list_all is_digit s \<or> 18446744073709551616 \<le> n then None else Some n)"

definition parseAgentRunEmitterID :: "string \<Rightarrow> nat option" where
  "parseAgentRunEmitterID i = (if \<not> has_prefix i ''p'' then None
     else let raw = drop 1 i in if raw = [] then None else parse_uint raw)"

definition isTerminalRunBlockStart :: "rfc \<Rightarrow> run_event \<Rightarrow> bool" where
  "isTerminalRunBlockStart R ev =
     (if ev_Event ev \<noteq> ''block_start'' then False
      else case sse_read R (ev_Data ev) of Inl e \<Rightarrow> False
        | Inr p \<Rightarrow> se_Kind p = KindError \<or> se_Kind p = KindResult)"

definition isReplayableCommandEvent :: "string \<Rightarrow> bool" where
  "isReplayableCommandEvent event \<longleftrightarrow> event = ''block_start'' \<or> event = ''block_append'' \<or> event = ''block_done''"

text \<open>The loop of recoveredAgentRunEmitterIDs.\<close>

fun recovered_ids :: "rfc \<Rightarrow> int \<Rightarrow> run_event list \<Rightarrow> nat \<Rightarrow> string list \<Rightarrow> nat \<times> string list" where
  "recovered_ids R commandStartSeq [] maxID replayIDs = (maxID, replayIDs)"
| "recovered_ids R commandStartSeq (ev # evs) maxID replayIDs =
     (if ev_Event ev \<noteq> ''block_start'' then recovered_ids R commandStartSeq evs maxID replayIDs
      else case sse_read R (ev_Data ev) of
        Inl e \<Rightarrow> recovered_ids R commandStartSeq evs maxID replayIDs
      | Inr payload \<Rightarrow>
          if se_ID payload = [] then recovered_ids R commandStartSeq evs maxID replayIDs
          else recovered_ids R commandStartSeq evs
            (case parseAgentRunEmitterID (se_ID payload) of Some n \<Rightarrow> if maxID < n then n else maxID | None \<Rightarrow> maxID)
            (if 0 < commandStartSeq \<and> commandStartSeq \<le> ev_Seq ev \<and> \<not> isTerminalRunBlockStart R ev
             then replayIDs @ [se_ID payload] else replayIDs))"

definition recoveredAgentRunEmitterIDs :: "rfc \<Rightarrow> run_event list \<Rightarrow> int \<Rightarrow> nat \<times> string list" where
  "recoveredAgentRunEmitterIDs R events commandStartSeq = recovered_ids R commandStartSeq events 0 []"

fun replayable_count :: "rfc \<Rightarrow> int \<Rightarrow> run_event list \<Rightarrow> nat \<Rightarrow> nat" where
  "replayable_count R commandStartSeq [] count = count"
| "replayable_count R commandStartSeq (ev # evs) count =
     (if ev_Seq ev < commandStartSeq then replayable_count R commandStartSeq evs count
      else if isTerminalRunBlockStart R ev then count
      else if \<not> isReplayableCommandEvent (ev_Event ev) then replayable_count R commandStartSeq evs count
      else replayable_count R commandStartSeq evs (count + 1))"

definition replayableCommandEventCount :: "rfc \<Rightarrow> run_event list \<Rightarrow> int \<Rightarrow> nat" where
  "replayableCommandEventCount R events commandStartSeq =
     (if commandStartSeq \<le> 0 then 0 else replayable_count R commandStartSeq events 0)"

definition newRecoveredAgentRunEmitter :: "rfc \<Rightarrow> bool \<Rightarrow> agent_run \<Rightarrow> string \<Rightarrow> run_event list \<Rightarrow> run_emitter" where
  "newRecoveredAgentRunEmitter R en run workerID events =
     (let (maxID, replayIDs) = recoveredAgentRunEmitterIDs R events (run_CommandStartSeq run)
      in (newAgentRunEmitter en (run_ID run) workerID)\<lparr>are_idGen := maxID, are_replayStartIDs := replayIDs,
           are_replaySuppressEvents := replayableCommandEventCount R events (run_CommandStartSeq run)\<rparr>)"

definition newAgentRunEmitterAfterEvents :: "rfc \<Rightarrow> bool \<Rightarrow> string \<Rightarrow> string \<Rightarrow> run_event list \<Rightarrow> run_emitter" where
  "newAgentRunEmitterAfterEvents R en runID workerID events =
     (newAgentRunEmitter en runID workerID)\<lparr>are_idGen := fst (recoveredAgentRunEmitterIDs R events 0)\<rparr>"

text \<open>None is a nil payload.\<close>

definition mustMarshalSSEEvent :: "rfc \<Rightarrow> sse_event \<Rightarrow> json option" where
  "mustMarshalSSEEvent R ev = (case sse_json R ev of Inl e \<Rightarrow> None | Inr j \<Rightarrow> Some j)"

definition cancelledAgentRunEvents :: "rfc \<Rightarrow> go_time \<Rightarrow> run_event list \<Rightarrow> (string \<times> json option) list" where
  "cancelledAgentRunEvents R now events =
     (let i = ''p'' @ show_nat ((fst (recoveredAgentRunEmitterIDs R events 0) + 1) mod 18446744073709551616)
      in [(''block_start'', mustMarshalSSEEvent R (zero_sse\<lparr>se_ID := i, se_Kind := KindResult, se_Title := ''Stopped'',
             se_StartedAt := now\<rparr>)),
          (''block_append'', mustMarshalSSEEvent R (zero_sse\<lparr>se_ID := i, se_Delta := ''Stopped by request.''\<rparr>)),
          (''block_done'', mustMarshalSSEEvent R (zero_sse\<lparr>se_ID := i, se_Status := StatusDone, se_EndedAt := now\<rparr>))])"

section \<open>Emitting\<close>

type_synonym emitting = "run_emitter \<times> run_world"

definition SetSuppressed :: "bool \<Rightarrow> emitting \<Rightarrow> emitting" where
  "SetSuppressed v st = (case st of (e, w) \<Rightarrow> (e\<lparr>are_suppressed := v\<rparr>, w))"

definition Err :: "emitting \<Rightarrow> go_error option" where
  "Err st = are_err (fst st)"

definition setErr :: "go_error \<Rightarrow> run_emitter \<Rightarrow> run_emitter" where
  "setErr err e = (if are_err e = None then e\<lparr>are_err := Some err\<rparr> else e)"

definition BeginBatch :: "emitting \<Rightarrow> emitting" where
  "BeginBatch st = (case st of (e, w) \<Rightarrow>
     if are_err e \<noteq> None then (e, w)
     else if are_buffering e \<and> are_buffer e \<noteq> []
     then (e\<lparr>are_err := Some (Joined errAgentRunDurability (ErrNew ''begin batch called before previous batch was flushed''))\<rparr>, w)
     else (e\<lparr>are_buffering := True, are_buffer := []\<rparr>, w))"

text \<open>The loop that passes the flushed events on to the live run.\<close>

fun emit_live :: "(string \<times> json) list \<Rightarrow> int list \<Rightarrow> live_run \<Rightarrow> live_run" where
  "emit_live [] seqs r = r"
| "emit_live ((name, data) # evs) seqs r =
     emit_live evs (tl seqs) (Emit \<lparr>le_Event = name, le_Data = data, le_Seq = (if seqs = [] then 0 else hd seqs)\<rparr> r)"

definition FlushBatch :: "int \<Rightarrow> emitting \<Rightarrow> go_error option \<times> emitting" where
  "FlushBatch cursor st = (case st of (e, w) \<Rightarrow>
     let e1 = e\<lparr>are_buffering := False, are_buffer := []\<rparr>; events = are_buffer e
     in case are_err e of
          Some err \<Rightarrow> (Some err, e1, w)
        | None \<Rightarrow>
            if \<not> are_store e \<or> are_runID e = [] then (None, e1, w)
            else case in_store (\<lambda>now. AppendEventsAndAdvanceCursor (are_store e) now (are_runID e)
                   (map (\<lambda>(name, data). \<lparr>pe_Event = name, pe_Data = data\<rparr>) events) cursor (are_workerID e)) w of
                (Inl err, w1) \<Rightarrow> (Some err, setErr err e1, w1)
              | (Inr seqs, w1) \<Rightarrow> (None, e1, w1\<lparr>rw_live := map_option (emit_live events seqs) (rw_live w1)\<rparr>))"

definition to_live :: "string \<Rightarrow> json \<Rightarrow> int \<Rightarrow> run_world \<Rightarrow> run_world" where
  "to_live name payload sq w = w\<lparr>rw_live := map_option (Emit \<lparr>le_Event = name, le_Data = payload, le_Seq = sq\<rparr>) (rw_live w)\<rparr>"

definition run_emit :: "rfc \<Rightarrow> string \<Rightarrow> sse_event \<Rightarrow> emitting \<Rightarrow> emitting" where
  "run_emit R name data st = (case st of (e, w) \<Rightarrow>
     case sse_json R data of
       Inl err \<Rightarrow> (e, w)
     | Inr payload \<Rightarrow>
         let hasErr = (are_err e \<noteq> None)
         in if \<not> hasErr \<and> 0 < are_replaySuppressEvents e
            then (e\<lparr>are_replaySuppressEvents := are_replaySuppressEvents e - 1\<rparr>, w)
            else let e1 = (if are_buffering e \<and> \<not> are_suppressed e \<and> \<not> hasErr
                           then e\<lparr>are_buffer := are_buffer e @ [(name, payload)]\<rparr> else e)
              in if hasErr \<or> are_suppressed e \<or> are_buffering e then (e1, w)
                 else if are_store e \<and> are_runID e \<noteq> []
                 then (case in_store (\<lambda>now. AppendEvent (are_store e) now (are_runID e) name payload (are_workerID e)) w of
                     (Inl err, w1) \<Rightarrow> (setErr err e1, w1)
                   | (Inr sq, w1) \<Rightarrow> (case in_store (\<lambda>now. TouchLease (are_store e) now (are_runID e) (are_workerID e)
                         (are_leasePeriod e)) w1 of (u, w2) \<Rightarrow> (e1, to_live name payload sq w2)))
                 else (e1, to_live name payload 0 w))"

definition nextBlockID :: "run_emitter \<Rightarrow> string \<times> run_emitter" where
  "nextBlockID e = (if are_replayStart e < length (are_replayStartIDs e)
     then (are_replayStartIDs e ! are_replayStart e, e\<lparr>are_replayStart := Suc (are_replayStart e)\<rparr>)
     else let n = (are_idGen e + 1) mod 18446744073709551616 in (''p'' @ show_nat n, e\<lparr>are_idGen := n\<rparr>))"

definition run_StartAt :: "rfc \<Rightarrow> string \<Rightarrow> string \<Rightarrow> meta \<Rightarrow> go_time \<Rightarrow> emitting \<Rightarrow> string \<times> emitting" where
  "run_StartAt R kind title meta startedAt st = (case st of (e, w) \<Rightarrow>
     case nextBlockID e of (i, e1) \<Rightarrow>
       (i, run_emit R ''block_start'' (zero_sse\<lparr>se_ID := i, se_Kind := kind, se_Title := title, se_Meta := meta,
          se_StartedAt := startedAt\<rparr>) (e1\<lparr>are_kinds := (are_kinds e1)(i \<mapsto> kind)\<rparr>, w)))"

definition run_Append :: "rfc \<Rightarrow> string \<Rightarrow> string \<Rightarrow> emitting \<Rightarrow> emitting" where
  "run_Append R i delta = run_emit R ''block_append'' (zero_sse\<lparr>se_ID := i, se_Delta := delta\<rparr>)"

definition run_closeAt :: "rfc \<Rightarrow> string \<Rightarrow> string \<Rightarrow> string \<Rightarrow> go_time \<Rightarrow> emitting \<Rightarrow> emitting" where
  "run_closeAt R status i summary endedAt st = (case st of (e, w) \<Rightarrow>
     run_emit R ''block_done'' (zero_sse\<lparr>se_ID := i, se_Status := status, se_Summary := summary, se_EndedAt := endedAt\<rparr>)
       (e\<lparr>are_kinds := (are_kinds e)(i := None)\<rparr>, w))"

definition run_DoneAt :: "rfc \<Rightarrow> string \<Rightarrow> string \<Rightarrow> go_time \<Rightarrow> emitting \<Rightarrow> emitting" where
  "run_DoneAt R = run_closeAt R StatusDone"

definition run_FailAt :: "rfc \<Rightarrow> string \<Rightarrow> string \<Rightarrow> go_time \<Rightarrow> emitting \<Rightarrow> emitting" where
  "run_FailAt R = run_closeAt R StatusError"

definition run_oneShotAt ::
  "rfc \<Rightarrow> string \<Rightarrow> string \<Rightarrow> string \<Rightarrow> string \<Rightarrow> go_time \<Rightarrow> emitting \<Rightarrow> emitting" where
  "run_oneShotAt R kind title body status now st =
     (let (i, st1) = run_StartAt R kind title [] now st;
          st2 = (if body \<noteq> [] then run_Append R i body st1 else st1)
      in if status = StatusError then run_FailAt R i [] now st2 else run_DoneAt R i [] now st2)"

definition run_Notify :: "rfc \<Rightarrow> string \<Rightarrow> string \<Rightarrow> go_time \<Rightarrow> emitting \<Rightarrow> emitting" where
  "run_Notify R title body = run_oneShotAt R KindNotify title body StatusDone"

definition run_Result :: "rfc \<Rightarrow> string \<Rightarrow> string \<Rightarrow> go_time \<Rightarrow> emitting \<Rightarrow> emitting" where
  "run_Result R title body = run_oneShotAt R KindResult title body StatusDone"

definition run_Error :: "rfc \<Rightarrow> string \<Rightarrow> string \<Rightarrow> go_time \<Rightarrow> emitting \<Rightarrow> emitting" where
  "run_Error R title body = run_oneShotAt R KindError title body StatusError"

definition run_Heartbeat :: "rfc \<Rightarrow> string \<Rightarrow> string \<Rightarrow> string \<Rightarrow> emitting \<Rightarrow> emitting" where
  "run_Heartbeat R title body elapsed =
     run_emit R ''heartbeat'' (zero_sse\<lparr>se_Title := title, se_Delta := body, se_Elapsed := elapsed\<rparr>)"

definition run_emitter_methods :: "rfc \<Rightarrow> emitting emitter" where
  "run_emitter_methods R = \<lparr>em_Start = run_StartAt R, em_StartAt = Some (run_StartAt R), em_Append = run_Append R,
     em_Done = run_DoneAt R, em_DoneAt = Some (run_DoneAt R), em_Fail = run_FailAt R,
     em_FailAt = Some (run_FailAt R), em_Heartbeat = Some (run_Heartbeat R)\<rparr>"

section \<open>Reading the transcript back\<close>

definition put_block :: "string \<Rightarrow> (block \<Rightarrow> block) \<Rightarrow> (string \<rightharpoonup> block) \<Rightarrow> (string \<rightharpoonup> block)" where
  "put_block i f m = (case m i of Some b \<Rightarrow> m(i \<mapsto> f b) | None \<Rightarrow> m)"

text \<open>One event of the loop; the state is the map byID and the slice order.\<close>

definition apply_event ::
  "rfc \<Rightarrow> string \<times> json \<Rightarrow> (string \<rightharpoonup> block) \<times> string list \<Rightarrow> (string \<rightharpoonup> block) \<times> string list" where
  "apply_event R ev st = (case ev of (name, data) \<Rightarrow> case st of (byID, order) \<Rightarrow>
     case sse_read R data of
       Inl e \<Rightarrow> st
     | Inr p \<Rightarrow>
         if name = ''block_start'' then
           (if se_ID p = [] then st
            else (byID(se_ID p \<mapsto> opened (se_ID p) (se_Kind p) (se_Title p) (se_Meta p) (se_StartedAt p)),
                  if byID (se_ID p) = None then order @ [se_ID p] else order))
         else if name = ''block_append'' then (put_block (se_ID p) (add_body (se_Delta p)) byID, order)
         else if name = ''block_done'' then
           (put_block (se_ID p) (ended (se_Summary p) (if se_Status p = [] then StatusDone else se_Status p) (se_EndedAt p)) byID,
            order)
         else st)"

definition replay_blocks :: "rfc \<Rightarrow> (string \<times> json) list \<Rightarrow> block list" where
  "replay_blocks R evs = (case fold (apply_event R) evs (Map.empty, []) of
     (byID, order) \<Rightarrow> List.map_filter byID order)"

definition blocksFromRunEvents :: "rfc \<Rightarrow> run_event list \<Rightarrow> block list" where
  "blocksFromRunEvents R events = replay_blocks R (map (\<lambda>ev. (ev_Event ev, ev_Data ev)) events)"

end
