(* ===== verification/Run_Emitter_Laws.thy ===== *)
theory Run_Emitter_Laws
  imports Run_Emitter
begin

text \<open>
  The durable emitter keeps the contract of a log of blocks, with the blocks read back from the stored
  and the buffered events as its transcript. A failed write stops the log where it is. A recovered
  emitter that gets the calls of the interrupted command again adds exactly the missing events.
\<close>

section \<open>Blocks from events\<close>

definition replayed :: "rfc \<Rightarrow> (string \<times> json) list \<Rightarrow> (string \<rightharpoonup> block) \<times> string list" where
  "replayed R evs = fold (apply_event R) evs (Map.empty, [])"

definition index_ok :: "(string \<rightharpoonup> block) \<times> string list \<Rightarrow> bool" where
  "index_ok st \<longleftrightarrow> (case st of (byID, order) \<Rightarrow> distinct order \<and> dom byID = set order \<and>
     (\<forall>i b. byID i = Some b \<longrightarrow> bk_ID b = i))"

lemma put_block_index:
  "index_ok (byID, order) \<Longrightarrow> (\<And>b. bk_ID (f b) = bk_ID b) \<Longrightarrow> index_ok (put_block i f byID, order)"
  by (auto simp: index_ok_def put_block_def split: option.splits if_splits)

lemma apply_event_index:
  assumes "index_ok st"
  shows "index_ok (apply_event R ev st)"
proof -
  obtain byID order where st: "st = (byID, order)" by fastforce
  obtain name data where ev: "ev = (name, data)" by fastforce
  note ok = assms [unfolded st]
  have start: "index_ok (byID(i \<mapsto> opened i k ti m t), if byID i = None then order @ [i] else order)" for i k ti m t
    using ok by (auto simp: index_ok_def)
  show ?thesis
  proof (cases "sse_read R data")
    case (Inl e)
    with ok show ?thesis by (simp add: apply_event_def st ev)
  next
    case (Inr p)
    have "index_ok (put_block (se_ID p) (add_body (se_Delta p)) byID, order)"
      and "\<And>x. index_ok (put_block (se_ID p) (ended (se_Summary p) x (se_EndedAt p)) byID, order)"
      by (rule put_block_index [OF ok], simp)+
    with Inr ok start show ?thesis by (simp add: apply_event_def st ev)
  qed
qed

lemma replayed_snoc: "replayed R (evs @ [ev]) = apply_event R ev (replayed R evs)"
  by (simp add: replayed_def)

lemma replayed_index: "index_ok (replayed R evs)"
proof (induction evs rule: rev_induct)
  case Nil
  then show ?case by (simp add: replayed_def index_ok_def)
next
  case (snoc ev evs)
  then show ?case by (simp add: replayed_snoc apply_event_index)
qed

lemma replay_blocks_replayed: "replay_blocks R evs = List.map_filter (fst (replayed R evs)) (snd (replayed R evs))"
  by (simp add: replay_blocks_def replayed_def split: prod.splits)

lemma index_ids:
  assumes "index_ok (byID, order)"
  shows "map bk_ID (List.map_filter byID order) = order"
proof (rule filter_ids, rule ballI)
  fix i assume "i \<in> set order"
  then have "i \<in> dom byID" using assms by (simp add: index_ok_def)
  then obtain b where "byID i = Some b" using domD by fast
  with assms show "\<exists>b. byID i = Some b \<and> bk_ID b = i" by (auto simp: index_ok_def)
qed

lemma put_block_blocks:
  assumes ok: "index_ok (byID, order)" and f: "\<And>b. bk_ID (f b) = bk_ID b"
  shows "List.map_filter (put_block i f byID) order = on_block i f (List.map_filter byID order)"
proof -
  have "List.map_filter (put_block i f byID) xs = on_block i f (List.map_filter byID xs)" for xs
    using ok by (induction xs) (auto simp: put_block_def on_block_def index_ok_def List.map_filter_simps split: option.splits)
  then show ?thesis .
qed

lemma replay_ids: "map bk_ID (replay_blocks R evs) = snd (replayed R evs)"
  using index_ids [of "fst (replayed R evs)" "snd (replayed R evs)"] replayed_index [of R evs]
  by (simp add: replay_blocks_replayed)

lemma replay_distinct [simp]: "distinct (map bk_ID (replay_blocks R evs))"
  using replayed_index [of R evs] by (simp add: replay_ids index_ok_def split: prod.splits)

text \<open>What each frame adds.\<close>

lemma frame_read:
  assumes "sse_json R ev = Inr p" and "meta_ok (se_Meta ev)" and "stamp_ok R (se_StartedAt ev)" and "stamp_ok R (se_EndedAt ev)"
  shows "sse_read R p = Inr ev"
  using sse_roundtrip [OF assms(2-4)] assms(1) by auto

lemma zero_sse_simps [simp]:
  "meta_ok (se_Meta zero_sse)" "stamp_ok R (se_StartedAt zero_sse)" "stamp_ok R (se_EndedAt zero_sse)"
  "meta_ok []" "stamp_ok R zero_time"
  "se_Meta zero_sse = []" "se_StartedAt zero_sse = zero_time" "se_EndedAt zero_sse = zero_time"
  by (simp_all add: zero_sse_def meta_ok_def stamp_ok_def is_zero_time_def)

lemma replay_start:
  assumes "sse_json R (zero_sse\<lparr>se_ID := i, se_Kind := k, se_Title := ti, se_Meta := m, se_StartedAt := t\<rparr>) = Inr p"
    and "meta_ok m" and "stamp_ok R t" and "i \<noteq> []" and "i \<notin> bk_ID ` set (replay_blocks R evs)"
  shows "replay_blocks R (evs @ [(''block_start'', p)]) = replay_blocks R evs @ [opened i k ti m t]"
proof -
  obtain byID order where st: "replayed R evs = (byID, order)" by fastforce
  have ok: "index_ok (byID, order)" using replayed_index [of R evs] by (simp add: st)
  have "set order = bk_ID ` set (replay_blocks R evs)" using replay_ids [of R evs] by (metis list.set_map snd_conv st)
  then have new: "i \<notin> set order" using assms(5) by simp
  then have "byID i = None" using ok by (auto simp: index_ok_def)
  moreover have "sse_read R p = Inr (zero_sse\<lparr>se_ID := i, se_Kind := k, se_Title := ti, se_Meta := m, se_StartedAt := t\<rparr>)"
    using assms(2,3) by (intro frame_read [OF assms(1)]) auto
  ultimately have "replayed R (evs @ [(''block_start'', p)]) = (byID(i \<mapsto> opened i k ti m t), order @ [i])"
    using assms(4) by (simp add: replayed_snoc st apply_event_def)
  moreover have "List.map_filter (byID(i \<mapsto> opened i k ti m t)) order = List.map_filter byID order"
    using new by (intro map_filter_same) auto
  ultimately show ?thesis
    by (simp add: replay_blocks_replayed st map_filter_append List.map_filter_simps)
qed

lemma replay_change:
  assumes "apply_event R ev (replayed R evs) = (put_block i f (fst (replayed R evs)), snd (replayed R evs))"
    and "\<And>b. bk_ID (f b) = bk_ID b"
  shows "replay_blocks R (evs @ [ev]) = on_block i f (replay_blocks R evs)"
proof -
  obtain byID order where st: "replayed R evs = (byID, order)" by fastforce
  have ok: "index_ok (byID, order)" using replayed_index [of R evs] by (simp add: st)
  show ?thesis using assms(1) put_block_blocks [OF ok assms(2)]
    by (simp add: replay_blocks_replayed replayed_snoc st)
qed

lemma replay_append:
  assumes "sse_json R (zero_sse\<lparr>se_ID := i, se_Delta := d\<rparr>) = Inr p"
  shows "replay_blocks R (evs @ [(''block_append'', p)]) = on_block i (add_body d) (replay_blocks R evs)"
proof (rule replay_change)
  have "sse_read R p = Inr (zero_sse\<lparr>se_ID := i, se_Delta := d\<rparr>)" by (rule frame_read [OF assms]) auto
  then show "apply_event R (''block_append'', p) (replayed R evs) =
      (put_block i (add_body d) (fst (replayed R evs)), snd (replayed R evs))"
    by (simp add: apply_event_def split: prod.splits)
qed simp

lemma replay_done:
  assumes "sse_json R (zero_sse\<lparr>se_ID := i, se_Status := st, se_Summary := su, se_EndedAt := t\<rparr>) = Inr p"
    and "stamp_ok R t" and "st \<noteq> []"
  shows "replay_blocks R (evs @ [(''block_done'', p)]) = on_block i (ended su st t) (replay_blocks R evs)"
proof (rule replay_change)
  have "sse_read R p = Inr (zero_sse\<lparr>se_ID := i, se_Status := st, se_Summary := su, se_EndedAt := t\<rparr>)"
    using assms(2) by (intro frame_read [OF assms(1)]) auto
  then show "apply_event R (''block_done'', p) (replayed R evs) =
      (put_block i (ended su st t) (fst (replayed R evs)), snd (replayed R evs))"
    using assms(3) by (simp add: apply_event_def split: prod.splits)
qed simp

section \<open>Writes of the lease holder\<close>

definition holds_lease :: "string \<Rightarrow> string \<Rightarrow> runs_db \<Rightarrow> bool" where
  "holds_lease i owner s \<longleftrightarrow> runs_ok s \<and> (\<exists>r. run_of s i = Some r \<and> ar_lease_owner r = owner)"

definition log_of :: "string \<Rightarrow> runs_db \<Rightarrow> (string \<times> json) list" where
  "log_of i s = map (\<lambda>e. (av_event e, av_data e)) (events_of s i)"

lemma next_seq:
  assumes "runs_ok s" and "run_of s i = Some r"
  shows "ar_next_event_seq r = 1 + int (length (log_of i s))"
proof -
  have r: "r \<in> set (agent_runs s)" "ar_id r = i" using run_ofD [OF assms(2)] by auto
  then have "1 \<le> ar_next_event_seq r" "numbered s r" using assms(1) by (auto simp: runs_ok_def table_inv_def run_inv_def)
  then have "map av_seq (events_of s i) = [1..ar_next_event_seq r - 1]" "1 \<le> ar_next_event_seq r"
    using r(2) by (auto simp: numbered_def)
  from arg_cong [OF this(1), of length] this(2) show ?thesis by (simp add: log_of_def)
qed

lemma append_written:
  assumes "holds_lease i owner s" and "AppendAgentRunEvent now i event payload owner s = (Inr sq, t)"
  shows "holds_lease i owner t \<and> log_of i t = log_of i s @ [(event, payload)] \<and> sq = 1 + int (length (log_of i s))"
proof -
  have ok: "runs_ok s" using assms(1) by (simp add: holds_lease_def)
  have ok': "runs_ok t" using keeps_invD [OF append_keeps ok assms(2)] .
  from ok assms(2) show ?thesis
  proof (cases rule: append_cases)
    case (written r)
    let ?g = "\<lambda>x. if ar_id x = i then bumped now x else x"
    have "amends ?g" by (simp add: amends_def bumped_def live_def)
    from run_of_changed [OF this, of s i] have "run_of t i = map_option ?g (run_of s i)"
      by (simp add: run_of_def written(5))
    then have "run_of t i = Some (bumped now r)" using written(1) run_ofD [OF written(1)] by simp
    then have "holds_lease i owner t" using ok' written(2) by (simp add: holds_lease_def bumped_def)
    moreover have "log_of i t = log_of i s @ [(event, payload)]" by (simp add: log_of_def events_of_def written(6))
    ultimately show ?thesis using written(3) next_seq [OF ok written(1)] by simp
  qed simp
qed

lemma append_succeeds:
  assumes h: "holds_lease i owner s" and room: "length (log_of i s) < 9223372036854775805"
  shows "\<exists>t. AppendAgentRunEvent now i event payload owner s = (Inr (1 + int (length (log_of i s))), t)"
proof -
  obtain r where ok: "runs_ok s" and r: "run_of s i = Some r" and w: "ar_lease_owner r = owner"
    using h by (auto simp: holds_lease_def)
  have "is_int64 (ar_next_event_seq r + 1)" using room by (simp add: next_seq [OF ok r] is_int64_def)
  with append_exact [OF ok r w, of now event payload] show ?thesis by (auto simp: next_seq [OF ok r])
qed

lemma update_kept:
  assumes "holds_lease i owner s" and "amends (where_run p f)" and "\<And>r. ar_next_event_seq (f r) = ar_next_event_seq r"
    and "\<And>r. p r \<Longrightarrow> ar_lease_owner (f r) = ar_lease_owner r" and "update_run p f s = (res, t)"
  shows "holds_lease i owner t \<and> log_of i t = log_of i s"
proof -
  obtain r where ok: "runs_ok s" and r: "run_of s i = Some r" and w: "ar_lease_owner r = owner"
    using assms(1) by (auto simp: holds_lease_def)
  have ok': "runs_ok t" using keeps_invD [OF keeps_update_run [OF assms(2,3)] ok assms(5)] .
  from assms(5) show ?thesis
  proof (cases rule: update_run_written)
    case (unchanged e)
    with assms(1) show ?thesis by simp
  next
    case written
    have "run_of t i = Some (where_run p f r)" using run_of_changed [OF assms(2), of s i] r written(2) by simp
    moreover have "ar_lease_owner (where_run p f r) = owner" using w assms(4) by (simp add: where_run_def)
    ultimately show ?thesis using ok' written(2) by (simp add: holds_lease_def log_of_def)
  qed
qed

lemma touch_kept:
  assumes "holds_lease i owner s" and "TouchLease en now j owner d s = (res, t)"
  shows "holds_lease i owner t \<and> log_of i t = log_of i s"
proof (cases "\<not> en \<or> j = []")
  case True
  with assms show ?thesis by (auto simp: TouchLease_def best_effort_def)
next
  case False
  then obtain r where "TouchAgentRunLease now j owner (lease_interval d) s = (r, t)"
    using assms(2) by (auto simp: TouchLease_def best_effort_def attempt_def split: prod.splits)
  then show ?thesis unfolding TouchAgentRunLease_def
    by (rule update_kept [OF assms(1), rotated -1])
      (auto simp: amends_def where_run_def live_def owned_by_def)
qed

lemma cursor_kept:
  assumes "holds_lease i owner s" and "UpdateAgentRunLogCursor now j cursor owner s = (res, t)"
  shows "holds_lease i owner t \<and> log_of i t = log_of i s"
  using assms(2) unfolding UpdateAgentRunLogCursor_def
  by (rule update_kept [OF assms(1), rotated -1]) (auto simp: amends_def where_run_def live_def)

section \<open>One frame\<close>

definition seen_events :: "emitting \<Rightarrow> (string \<times> json) list" where
  "seen_events st = log_of (are_runID (fst st)) (rw_db (snd st)) @ are_buffer (fst st)"

definition emitting_ok :: "emitting \<Rightarrow> bool" where
  "emitting_ok st \<longleftrightarrow> (case st of (e, w) \<Rightarrow>
     are_store e \<and> are_runID e \<noteq> [] \<and> are_err e = None \<and> \<not> are_suppressed e \<and> are_replaySuppressEvents e = 0 \<and>
     (are_buffering e \<or> are_buffer e = []) \<and> holds_lease (are_runID e) (are_workerID e) (rw_db w))"

text \<open>The fields that emitting a frame leaves alone.\<close>

definition same_ids :: "run_emitter \<Rightarrow> run_emitter \<Rightarrow> bool" where
  "same_ids e e' \<longleftrightarrow> are_idGen e' = are_idGen e \<and> are_runID e' = are_runID e \<and> are_workerID e' = are_workerID e \<and>
     are_store e' = are_store e \<and> are_replayStartIDs e' = are_replayStartIDs e \<and> are_replayStart e' = are_replayStart e \<and>
     are_buffering e' = are_buffering e \<and> are_suppressed e' = are_suppressed e \<and> are_leasePeriod e' = are_leasePeriod e"

lemma same_ids_refl [simp]: "same_ids e e" by (simp add: same_ids_def)

lemma emit_appends:
  assumes ok: "emitting_ok st" and room: "length (seen_events st) < 9223372036854775805"
    and p: "sse_json R data = Inr p"
  shows "emitting_ok (run_emit R name data st) \<and> seen_events (run_emit R name data st) = seen_events st @ [(name, p)] \<and>
    same_ids (fst st) (fst (run_emit R name data st))"
proof -
  obtain e w where st: "st = (e, w)" by fastforce
  note ok = ok [unfolded st emitting_ok_def prod.case]
  show ?thesis
  proof (cases "are_buffering e")
    case True
    with ok p show ?thesis by (simp add: st run_emit_def emitting_ok_def seen_events_def same_ids_def)
  next
    case False
    let ?n = "rw_clock w (rw_ticks w)"
    have h: "holds_lease (are_runID e) (are_workerID e) (rw_db w)" and i: "are_runID e \<noteq> []" and en: "are_store e"
      and b: "are_buffer e = []" using ok False by auto
    have "length (log_of (are_runID e) (rw_db w)) < 9223372036854775805" using room by (simp add: st seen_events_def b)
    from append_succeeds [OF h this, of ?n name p] obtain db sq where
      a: "AppendAgentRunEvent ?n (are_runID e) name p (are_workerID e) (rw_db w) = (Inr sq, db)" by blast
    note w1 = append_written [OF h a]
    obtain u db2 where t: "TouchLease True (rw_clock w (Suc (rw_ticks w))) (are_runID e) (are_workerID e) (are_leasePeriod e) db = (u, db2)"
      by fastforce
    note w2 = touch_kept [OF conjunct1 [OF w1] t]
    have "run_emit R name data st = (e, to_live name p sq (w\<lparr>rw_db := db2, rw_ticks := Suc (Suc (rw_ticks w))\<rparr>))"
      using ok False p i en a t
      by (simp add: st run_emit_def in_store_def AppendEvent_def wrap_err_def)
    with ok b w1 w2 show ?thesis
      by (simp add: st emitting_ok_def seen_events_def to_live_def)
  qed
qed

section \<open>The durable emitter keeps the contract\<close>

definition durable_view :: "rfc \<Rightarrow> emitting \<Rightarrow> block list" where
  "durable_view R st = replay_blocks R (seen_events st)"

definition durable_room :: "emitting \<Rightarrow> nat" where
  "durable_room st = min (18446744073709551615 - are_idGen (fst st)) (9223372036854775805 - length (seen_events st))"

definition durable_ok :: "rfc \<Rightarrow> emitting \<Rightarrow> bool" where
  "durable_ok R st \<longleftrightarrow> emitting_ok st \<and> length (are_replayStartIDs (fst st)) \<le> are_replayStart (fst st) \<and>
     are_idGen (fst st) < 18446744073709551616 \<and>
     (\<forall>n. ''p'' @ show_nat n \<in> bk_ID ` set (durable_view R st) \<longrightarrow> n \<le> are_idGen (fst st))"

lemma emitting_fields [simp]:
  "emitting_ok (e\<lparr>are_kinds := m\<rparr>, w) = emitting_ok (e, w)" "seen_events (e\<lparr>are_kinds := m\<rparr>, w) = seen_events (e, w)"
  "emitting_ok (e\<lparr>are_idGen := n\<rparr>, w) = emitting_ok (e, w)" "seen_events (e\<lparr>are_idGen := n\<rparr>, w) = seen_events (e, w)"
  by (simp_all add: emitting_ok_def seen_events_def)

lemma durable_starts:
  assumes ok: "durable_ok R st" and room: "0 < durable_room st" and m: "meta_ok m" and t: "stamp_ok R t"
    and run: "run_StartAt R k ti m t st = (i, st')"
  shows "durable_ok R st' \<and> durable_room st \<le> Suc (durable_room st') \<and>
    durable_view R st' = durable_view R st @ [opened i k ti m t] \<and> i \<notin> bk_ID ` set (durable_view R st)"
proof -
  obtain e w where st: "st = (e, w)" by fastforce
  let ?n = "Suc (are_idGen e)"
  let ?e = "e\<lparr>are_idGen := ?n\<rparr>"
  have "are_idGen e < 18446744073709551615" using room by (simp add: st durable_room_def)
  then have "nextBlockID e = (''p'' @ show_nat ?n, ?e)"
    using ok by (simp add: st durable_ok_def nextBlockID_def Let_def)
  then have i: "i = ''p'' @ show_nat ?n" and st': "st' = run_emit R ''block_start''
      (zero_sse\<lparr>se_ID := i, se_Kind := k, se_Title := ti, se_Meta := m, se_StartedAt := t\<rparr>)
      (?e\<lparr>are_kinds := (are_kinds ?e)(i \<mapsto> k)\<rparr>, w)"
    using run by (auto simp: st run_StartAt_def)
  have em: "emitting_ok (?e\<lparr>are_kinds := (are_kinds ?e)(i \<mapsto> k)\<rparr>, w)"
    and seen: "seen_events (?e\<lparr>are_kinds := (are_kinds ?e)(i \<mapsto> k)\<rparr>, w) = seen_events st"
    using ok by (simp_all add: st durable_ok_def)
  have len: "length (seen_events st) < 9223372036854775805" using room by (simp add: durable_room_def)
  obtain p where p: "sse_json R (zero_sse\<lparr>se_ID := i, se_Kind := k, se_Title := ti, se_Meta := m, se_StartedAt := t\<rparr>) = Inr p"
    using sse_roundtrip [of "zero_sse\<lparr>se_ID := i, se_Kind := k, se_Title := ti, se_Meta := m, se_StartedAt := t\<rparr>" R] m t
    by auto
  have new: "i \<notin> bk_ID ` set (durable_view R st)"
    using ok by (auto simp: durable_ok_def i st) 
  note a = emit_appends [OF em len [folded seen] p, where name = "''block_start''", folded st', unfolded seen]
  have v: "durable_view R st' = durable_view R st @ [opened i k ti m t]"
    using a replay_start [OF p m t _ new [unfolded durable_view_def]] by (simp add: durable_view_def i)
  have f: "are_idGen (fst st') = ?n" "are_replayStartIDs (fst st') = are_replayStartIDs e"
    "are_replayStart (fst st') = are_replayStart e"
    using a by (auto simp: same_ids_def)
  have old: "n \<le> are_idGen e" if "''p'' @ show_nat n \<in> bk_ID ` set (durable_view R st)" for n
    using ok that by (simp add: durable_ok_def st)
  have "n \<le> ?n" if "''p'' @ show_nat n \<in> bk_ID ` set (durable_view R st')" for n
  proof -
    have "''p'' @ show_nat n \<in> bk_ID ` set (durable_view R st) \<or> show_nat n = show_nat ?n"
      using that by (auto simp: v i)
    then show ?thesis using old [of n] by auto
  qed
  then have "durable_ok R st'" using a ok \<open>are_idGen e < _\<close> f by (simp add: durable_ok_def st)
  moreover have "durable_room st \<le> Suc (durable_room st')" using a f by (auto simp: durable_room_def st)
  ultimately show ?thesis using v new by simp
qed

lemma durable_changes:
  assumes ok: "durable_ok R (e, w)" and room: "0 < durable_room (e, w)"
    and p: "sse_json R data = Inr p"
    and v: "\<And>evs. replay_blocks R (evs @ [(name, p)]) = on_block i f (replay_blocks R evs)"
    and f: "\<And>b. bk_ID (f b) = bk_ID b"
    and st': "st' = run_emit R name data (e\<lparr>are_kinds := m\<rparr>, w)"
  shows "durable_ok R st' \<and> durable_room (e, w) \<le> Suc (durable_room st') \<and>
    durable_view R st' = on_block i f (durable_view R (e, w))"
proof -
  have em: "emitting_ok (e\<lparr>are_kinds := m\<rparr>, w)" and seen: "seen_events (e\<lparr>are_kinds := m\<rparr>, w) = seen_events (e, w)"
    using ok by (simp_all add: durable_ok_def)
  have len: "length (seen_events (e, w)) < 9223372036854775805" using room by (simp add: durable_room_def)
  note a = emit_appends [OF em len [folded seen] p, where name = name, folded st', unfolded seen]
  have view: "durable_view R st' = on_block i f (durable_view R (e, w))" using a v by (simp add: durable_view_def)
  then have "bk_ID ` set (durable_view R st') = bk_ID ` set (durable_view R (e, w))"
    using on_block_ids [of f i "durable_view R (e, w)"] f by (metis list.set_map)
  moreover have "are_idGen (fst st') = are_idGen e" "are_replayStartIDs (fst st') = are_replayStartIDs e"
    "are_replayStart (fst st') = are_replayStart e" using a by (auto simp: same_ids_def)
  ultimately show ?thesis using a ok view by (auto simp: durable_ok_def durable_room_def)
qed

interpretation durable: block_log "run_emitter_methods R" "durable_ok R" durable_room "durable_view R" meta_ok "stamp_ok R"
  for R
proof unfold_locales
  fix e m t u k ti i e'
  assume "durable_ok R e" "0 < durable_room e" "meta_ok m" "stamp_ok R t"
    "start_at (run_emitter_methods R) u k ti m t e = (i, e')"
  then show "durable_ok R e' \<and> durable_room e \<le> Suc (durable_room e') \<and>
      durable_view R e' = durable_view R e @ [opened i k ti m t] \<and> i \<notin> bk_ID ` set (durable_view R e)"
    by (intro durable_starts) (simp_all add: start_at_def run_emitter_methods_def)
next
  fix st :: emitting and i d assume ok: "durable_ok R st" "0 < durable_room st"
  obtain e w where st: "st = (e, w)" by fastforce
  obtain p where p: "sse_json R (zero_sse\<lparr>se_ID := i, se_Delta := d\<rparr>) = Inr p"
    using sse_roundtrip [of "zero_sse\<lparr>se_ID := i, se_Delta := d\<rparr>" R] by auto
  have "em_Append (run_emitter_methods R) i d st = run_emit R ''block_append'' (zero_sse\<lparr>se_ID := i, se_Delta := d\<rparr>)
      (e\<lparr>are_kinds := are_kinds e\<rparr>, w)"
    by (simp add: run_emitter_methods_def run_Append_def st)
  from durable_changes [OF ok [unfolded st] p replay_append [OF p] _ this]
  show "durable_ok R (em_Append (run_emitter_methods R) i d st) \<and>
      durable_room st \<le> Suc (durable_room (em_Append (run_emitter_methods R) i d st)) \<and>
      durable_view R (em_Append (run_emitter_methods R) i d st) = on_block i (add_body d) (durable_view R st)"
    by (simp add: st)
next
  fix st :: emitting and t u i stt su assume ok: "durable_ok R st" "0 < durable_room st" and t: "stamp_ok R t"
  obtain e w where st: "st = (e, w)" by fastforce
  let ?d = "zero_sse\<lparr>se_ID := i, se_Status := final_status stt, se_Summary := su, se_EndedAt := t\<rparr>"
  obtain p where p: "sse_json R ?d = Inr p" using sse_roundtrip [of ?d R] t by auto
  have "final_status stt \<noteq> []" by (simp add: final_status_def status_defs)
  note d = replay_done [OF p t this]
  have "close_at (run_emitter_methods R) u i stt su t st = run_emit R ''block_done'' ?d
      (e\<lparr>are_kinds := (are_kinds e)(i := None)\<rparr>, w)"
    by (simp add: run_emitter_methods_def close_at_def done_at_def fail_at_def run_DoneAt_def run_FailAt_def
        run_closeAt_def st final_status_def)
  from durable_changes [OF ok [unfolded st] p d _ this]
  show "durable_ok R (close_at (run_emitter_methods R) u i stt su t st) \<and>
      durable_room st \<le> Suc (durable_room (close_at (run_emitter_methods R) u i stt su t st)) \<and>
      durable_view R (close_at (run_emitter_methods R) u i stt su t st) =
        on_block i (ended su (final_status stt) t) (durable_view R st)"
    by (simp add: st)
qed

end
