(* ===== verification/Run_Recovery.thy ===== *)
theory Run_Recovery
  imports Run_Emitter_Laws
begin

text \<open>
  What a crash leaves behind and what a recovered emitter adds: the log of an emitter whose writes may
  fail is a prefix of what it emitted, and replaying the calls of the interrupted command from its start
  gives the log an uninterrupted worker would have written.
\<close>

section \<open>The frames of a call\<close>

text \<open>The ids still to be handed out again, and the counter after them.\<close>

type_synonym id_supply = "string list \<times> nat"

fun next_id :: "id_supply \<Rightarrow> string \<times> id_supply" where
  "next_id (x # xs, n) = (x, (xs, n))"
| "next_id ([], n) = (''p'' @ show_nat (Suc n), ([], Suc n))"

definition start_frame :: "string \<Rightarrow> string \<Rightarrow> string \<Rightarrow> meta \<Rightarrow> go_time \<Rightarrow> string \<times> sse_event" where
  "start_frame i kind title meta now = (''block_start'',
     zero_sse\<lparr>se_ID := i, se_Kind := kind, se_Title := title, se_Meta := meta, se_StartedAt := now\<rparr>)"

definition append_frame :: "string \<Rightarrow> string \<Rightarrow> string \<times> sse_event" where
  "append_frame i delta = (''block_append'', zero_sse\<lparr>se_ID := i, se_Delta := delta\<rparr>)"

definition close_frame :: "string \<Rightarrow> string \<Rightarrow> string \<Rightarrow> go_time \<Rightarrow> string \<times> sse_event" where
  "close_frame i status summary now = (''block_done'',
     zero_sse\<lparr>se_ID := i, se_Status := final_status status, se_Summary := summary, se_EndedAt := now\<rparr>)"

fun call_frames :: "call \<Rightarrow> string list \<times> id_supply \<Rightarrow> (string \<times> sse_event) list \<times> string list \<times> id_supply" where
  "call_frames (CStart kind title meta now) (ids, s) =
     (case next_id s of (i, s') \<Rightarrow> ([start_frame i kind title meta now], ids @ [i], s'))"
| "call_frames (CAppend n delta) (ids, s) = (if n < length ids then [append_frame (ids ! n) delta] else [], ids, s)"
| "call_frames (CClose n status summary now) (ids, s) =
     (if n < length ids then [close_frame (ids ! n) status summary now] else [], ids, s)"
| "call_frames (COne kind title body status now) (ids, s) =
     (case next_id s of (i, s') \<Rightarrow> ([start_frame i kind title [] now] @
        (if body \<noteq> [] then [append_frame i body] else []) @ [close_frame i status [] now], ids, s'))"

fun all_frames :: "call list \<Rightarrow> string list \<times> id_supply \<Rightarrow> (string \<times> sse_event) list \<times> string list \<times> id_supply" where
  "all_frames [] st = ([], st)"
| "all_frames (k # ks) st = (case call_frames k st of (fs, st1) \<Rightarrow>
     case all_frames ks st1 of (gs, st2) \<Rightarrow> (fs @ gs, st2))"

definition encoded :: "rfc \<Rightarrow> (string \<times> sse_event) list \<Rightarrow> (string \<times> json) list" where
  "encoded R fs = map (\<lambda>(name, ev). (name, case sse_json R ev of Inr j \<Rightarrow> j | Inl e \<Rightarrow> JNull)) fs"

lemma encoded_simps [simp]:
  "encoded R [] = []" "encoded R (fs @ gs) = encoded R fs @ encoded R gs" "length (encoded R fs) = length fs"
  "encoded R (f # fs) = encoded R [f] @ encoded R fs"
  by (simp_all add: encoded_def)

declare encoded_simps(4) [simp del]

section \<open>Driving an emitter that suppresses\<close>

definition supply_of :: "run_emitter \<Rightarrow> id_supply" where
  "supply_of e = (drop (are_replayStart e) (are_replayStartIDs e), are_idGen e)"

definition replaying_ok :: "emitting \<Rightarrow> bool" where
  "replaying_ok st \<longleftrightarrow> emitting_ok ((fst st)\<lparr>are_replaySuppressEvents := 0\<rparr>, snd st)"

text \<open>What emitting frames does to an emitter that still suppresses some.\<close>

definition after_frames :: "rfc \<Rightarrow> emitting \<Rightarrow> (string \<times> sse_event) list \<Rightarrow> emitting \<Rightarrow> bool" where
  "after_frames R st fs st' \<longleftrightarrow> replaying_ok st' \<and>
     seen_events st' = seen_events st @ drop (are_replaySuppressEvents (fst st)) (encoded R fs) \<and>
     are_replaySuppressEvents (fst st') = are_replaySuppressEvents (fst st) - length fs \<and>
     are_buffering (fst st') = are_buffering (fst st) \<and> are_runID (fst st') = are_runID (fst st)"

lemma emit_frame:
  assumes ok: "replaying_ok st" and room: "length (seen_events st) < 9223372036854775805"
    and p: "sse_json R data = Inr p" and st': "st' = run_emit R name data st"
  shows "after_frames R st [(name, data)] st' \<and> same_ids (fst st) (fst st')"
proof (cases "are_replaySuppressEvents (fst st) = 0")
  case True
  then have "(fst st)\<lparr>are_replaySuppressEvents := 0\<rparr> = fst st" by simp
  then have em: "emitting_ok st" using ok by (simp add: replaying_ok_def)
  note a = emit_appends [OF em room p, of name, folded st']
  obtain e' w' where e': "st' = (e', w')" by fastforce
  have z: "are_replaySuppressEvents e' = 0" using a by (simp add: emitting_ok_def e')
  then have z2: "e'\<lparr>are_replaySuppressEvents := 0\<rparr> = e'" by simp
  with a z True p show ?thesis by (simp add: after_frames_def replaying_ok_def encoded_def e' z2 same_ids_def)
next
  case False
  obtain e w where st: "st = (e, w)" by fastforce
  have "are_err e = None" using ok by (simp add: replaying_ok_def emitting_ok_def st)
  then have "st' = (e\<lparr>are_replaySuppressEvents := are_replaySuppressEvents e - 1\<rparr>, w)"
    using False p by (simp add: st' st run_emit_def)
  with ok False p show ?thesis
    by (cases "are_replaySuppressEvents e")
      (auto simp: after_frames_def replaying_ok_def emitting_ok_def seen_events_def same_ids_def encoded_def st)
qed

lemma after_frames_trans:
  "after_frames R st fs st1 \<Longrightarrow> after_frames R st1 gs st2 \<Longrightarrow> after_frames R st (fs @ gs) st2"
  by (auto simp: after_frames_def)

lemma same_supply: "same_ids e e' \<Longrightarrow> supply_of e' = supply_of e"
  by (simp add: same_ids_def supply_of_def)

lemma kinds_kept [simp]:
  "replaying_ok (e\<lparr>are_kinds := m\<rparr>, w) = replaying_ok (e, w)" "seen_events (e\<lparr>are_kinds := m\<rparr>, w) = seen_events (e, w)"
  "supply_of (e\<lparr>are_kinds := m\<rparr>) = supply_of e"
  by (simp_all add: replaying_ok_def emitting_ok_def seen_events_def supply_of_def)

lemma after_kinds: "after_frames R (e\<lparr>are_kinds := m\<rparr>, w) fs st' = after_frames R (e, w) fs st'"
  by (simp add: after_frames_def)

lemma next_supply:
  assumes "nextBlockID e = (i, e')" and "are_idGen e < 18446744073709551615"
  shows "next_id (supply_of e) = (i, supply_of e') \<and> (replaying_ok (e', w) = replaying_ok (e, w)) \<and>
    seen_events (e', w) = seen_events (e, w) \<and> are_replaySuppressEvents e' = are_replaySuppressEvents e \<and>
    are_idGen e' \<le> Suc (are_idGen e) \<and> are_buffering e' = are_buffering e \<and> are_runID e' = are_runID e"
proof (cases "are_replayStart e < length (are_replayStartIDs e)")
  case True
  then have "drop (are_replayStart e) (are_replayStartIDs e) =
      are_replayStartIDs e ! are_replayStart e # drop (Suc (are_replayStart e)) (are_replayStartIDs e)"
    by (rule Cons_nth_drop_Suc [symmetric])
  with True assms(1) show ?thesis
    by (auto simp: nextBlockID_def supply_of_def replaying_ok_def emitting_ok_def seen_events_def)
next
  case False
  with assms show ?thesis
    by (auto simp: nextBlockID_def supply_of_def replaying_ok_def emitting_ok_def seen_events_def Let_def)
qed

lemma start_drives:
  assumes ok: "replaying_ok st" and room: "length (seen_events st) < 9223372036854775805"
    and gen: "are_idGen (fst st) < 18446744073709551615" and fit: "meta_ok m" "stamp_ok R t"
    and run: "run_StartAt R k ti m t st = (i, st')"
  shows "next_id (supply_of (fst st)) = (i, supply_of (fst st')) \<and> after_frames R st [start_frame i k ti m t] st' \<and>
    are_idGen (fst st') \<le> Suc (are_idGen (fst st))"
proof -
  obtain e w where st: "st = (e, w)" by fastforce
  obtain j e1 where n: "nextBlockID e = (j, e1)" by fastforce
  let ?d = "zero_sse\<lparr>se_ID := i, se_Kind := k, se_Title := ti, se_Meta := m, se_StartedAt := t\<rparr>"
  let ?e = "e1\<lparr>are_kinds := (are_kinds e1)(i \<mapsto> k)\<rparr>"
  have i: "j = i" and st': "st' = run_emit R ''block_start'' ?d (?e, w)" using run n by (auto simp: st run_StartAt_def)
  note nx = next_supply [OF n [unfolded i] gen [unfolded st fst_conv], of w]
  obtain p where p: "sse_json R ?d = Inr p" using sse_roundtrip [of ?d R] fit by auto
  have "replaying_ok (?e, w)" "length (seen_events (?e, w)) < 9223372036854775805"
    using nx ok room by (simp_all add: st)
  note f = emit_frame [OF this p st']
  have "supply_of (fst st') = supply_of e1" "are_idGen (fst st') = are_idGen e1"
    using f same_supply [of ?e "fst st'"] by (auto simp: same_ids_def)
  moreover have "after_frames R (e, w) [(''block_start'', ?d)] st'"
    using f nx by (simp add: after_frames_def)
  ultimately show ?thesis using nx by (simp add: st start_frame_def)
qed

lemma append_drives:
  assumes "replaying_ok st" and "length (seen_events st) < 9223372036854775805"
  shows "after_frames R st [append_frame i d] (run_Append R i d st) \<and> same_ids (fst st) (fst (run_Append R i d st))"
proof -
  obtain p where p: "sse_json R (zero_sse\<lparr>se_ID := i, se_Delta := d\<rparr>) = Inr p"
    using sse_roundtrip [of "zero_sse\<lparr>se_ID := i, se_Delta := d\<rparr>" R] by auto
  show ?thesis using emit_frame [OF assms p refl, of "''block_append''"] by (simp add: append_frame_def run_Append_def)
qed

lemma close_drives:
  assumes "replaying_ok st" and "length (seen_events st) < 9223372036854775805" and "stamp_ok R t"
    and st': "st' = close_at (run_emitter_methods R) u i stt su t st"
  shows "after_frames R st [close_frame i stt su t] st' \<and> supply_of (fst st') = supply_of (fst st) \<and>
    are_idGen (fst st') = are_idGen (fst st)"
proof -
  obtain e w where st: "st = (e, w)" by fastforce
  let ?d = "zero_sse\<lparr>se_ID := i, se_Status := final_status stt, se_Summary := su, se_EndedAt := t\<rparr>"
  let ?e = "e\<lparr>are_kinds := (are_kinds e)(i := None)\<rparr>"
  obtain p where p: "sse_json R ?d = Inr p" using sse_roundtrip [of ?d R] assms(3) by auto
  have c: "st' = run_emit R ''block_done'' ?d (?e, w)"
    by (simp add: st' run_emitter_methods_def close_at_def done_at_def fail_at_def run_DoneAt_def run_FailAt_def
        run_closeAt_def st final_status_def)
  have "replaying_ok (?e, w)" "length (seen_events (?e, w)) < 9223372036854775805" using assms by (simp_all add: st)
  note f = emit_frame [OF this p c, unfolded after_kinds fst_conv]
  have "supply_of (fst st') = supply_of e"
    using same_supply [OF conjunct2 [OF f]] by simp
  with f show ?thesis by (simp add: st close_frame_def same_ids_def)
qed

lemma seen_grows: "after_frames R st fs st' \<Longrightarrow> length (seen_events st') \<le> length (seen_events st) + length fs"
  by (simp add: after_frames_def)

lemma after_nothing: "replaying_ok st \<Longrightarrow> after_frames R st [] st"
  by (simp add: after_frames_def)

lemma call_drives:
  assumes ok: "replaying_ok st" and room: "length (seen_events st) + 3 \<le> 9223372036854775805"
    and gen: "are_idGen (fst st) < 18446744073709551615" and fit: "call_fits meta_ok (stamp_ok R) k"
    and run: "drive own (run_emitter_methods R) k (ids, st) = (ids', st')"
  shows "\<exists>fs. call_frames k (ids, supply_of (fst st)) = (fs, ids', supply_of (fst st')) \<and> after_frames R st fs st' \<and>
    length fs \<le> 3 \<and> are_idGen (fst st') \<le> Suc (are_idGen (fst st))"
proof (cases k)
  case (CStart kd ti m t)
  obtain i where s: "run_StartAt R kd ti m t st = (i, st')" and ids': "ids' = ids @ [i]"
    using run by (auto simp: CStart start_at_def run_emitter_methods_def split: prod.splits)
  from start_drives [OF ok _ gen _ _ s] room fit show ?thesis by (simp add: CStart ids')
next
  case (CAppend n d)
  show ?thesis
  proof (cases "n < length ids")
    case True
    then have st': "st' = run_Append R (ids ! n) d st" and "ids' = ids"
      using run by (auto simp: CAppend run_emitter_methods_def)
    have "length (seen_events st) < 9223372036854775805" using room by simp
    note a = append_drives [OF ok this, of R "ids ! n" d, folded st']
    show ?thesis using True \<open>ids' = ids\<close> a same_supply [OF conjunct2 [OF a]]
      by (simp add: CAppend same_ids_def)
  next
    case False
    with run ok show ?thesis by (simp add: CAppend after_nothing)
  qed
next
  case (CClose n stt su t)
  show ?thesis
  proof (cases "n < length ids")
    case True
    then have st': "st' = close_at (run_emitter_methods R) (own t) (ids ! n) stt su t st" and "ids' = ids"
      using run by (auto simp: CClose)
    have "length (seen_events st) < 9223372036854775805" "stamp_ok R t" using room fit by (simp_all add: CClose)
    from close_drives [OF ok this st'] True \<open>ids' = ids\<close> show ?thesis by (simp add: CClose)
  next
    case False
    with run ok show ?thesis by (simp add: CClose after_nothing)
  qed
next
  case (COne kd ti bo stt t)
  obtain i st1 where s: "run_StartAt R kd ti [] t st = (i, st1)" by (cases "run_StartAt R kd ti [] t st") blast
  let ?st2 = "if bo \<noteq> [] then run_Append R i bo st1 else st1"
  have st': "st' = close_at (run_emitter_methods R) (own t) i stt [] t ?st2" and ids': "ids' = ids"
    using run s by (auto simp: COne start_at_def run_emitter_methods_def Let_def)
  have t: "stamp_ok R t" and len: "length (seen_events st) < 9223372036854775805"
    using fit room by (simp_all add: COne)
  note f1 = start_drives [OF ok len gen zero_sse_simps(4) t s]
  have r1: "replaying_ok st1" using f1 by (simp add: after_frames_def)
  have l1: "length (seen_events st1) \<le> length (seen_events st) + 1"
    using seen_grows [of R st "[start_frame i kd ti [] t]" st1] f1 by simp
  then have l1': "length (seen_events st1) < 9223372036854775805" using room by simp
  note a = append_drives [OF r1 l1', of R i bo]
  have f2: "after_frames R st1 (if bo \<noteq> [] then [append_frame i bo] else []) ?st2 \<and> supply_of (fst ?st2) = supply_of (fst st1) \<and>
      are_idGen (fst ?st2) = are_idGen (fst st1)"
    using a same_supply [OF conjunct2 [OF a]] after_nothing [OF r1]
    by (cases "bo = []") (simp_all add: same_ids_def)
  have r2: "replaying_ok ?st2" using f2 by (simp add: after_frames_def)
  have "length (seen_events ?st2) \<le> length (seen_events st1) + 1"
    using seen_grows [OF conjunct1 [OF f2]] by (simp split: if_splits)
  then have "length (seen_events ?st2) < 9223372036854775805" using l1 room by simp
  note f3 = close_drives [OF r2 this t st']
  have "after_frames R st ([start_frame i kd ti [] t] @ (if bo \<noteq> [] then [append_frame i bo] else []) @
      [close_frame i stt [] t]) st'"
    using f1 f2 f3 after_frames_trans by blast
  then show ?thesis using f1 f2 f3 by (simp add: COne ids')
qed

lemma all_drives:
  assumes "replaying_ok st" and "length (seen_events st) + 3 * length cs \<le> 9223372036854775805"
    and "are_idGen (fst st) + length cs \<le> 18446744073709551615"
    and "list_all (call_fits meta_ok (stamp_ok R)) cs"
    and "fold (drive own (run_emitter_methods R)) cs (ids, st) = (ids', st')"
  shows "\<exists>fs. all_frames cs (ids, supply_of (fst st)) = (fs, ids', supply_of (fst st')) \<and> after_frames R st fs st'"
  using assms
proof (induction cs arbitrary: ids st)
  case Nil
  then show ?case by (simp add: after_nothing)
next
  case (Cons k cs)
  obtain ids1 st1 where d: "drive own (run_emitter_methods R) k (ids, st) = (ids1, st1)"
    by (cases "drive own (run_emitter_methods R) k (ids, st)") blast
  have pre: "length (seen_events st) + 3 \<le> 9223372036854775805" "are_idGen (fst st) < 18446744073709551615"
    "call_fits meta_ok (stamp_ok R) k" using Cons.prems by auto
  obtain fs where f: "call_frames k (ids, supply_of (fst st)) = (fs, ids1, supply_of (fst st1))"
      "after_frames R st fs st1" "length fs \<le> 3" "are_idGen (fst st1) \<le> Suc (are_idGen (fst st))"
    using call_drives [OF Cons.prems(1) pre d] by auto
  have 1: "replaying_ok st1" using f(2) by (simp add: after_frames_def)
  have 2: "length (seen_events st1) + 3 * length cs \<le> 9223372036854775805"
    using seen_grows [OF f(2)] f(3) Cons.prems(2) by simp
  have 3: "are_idGen (fst st1) + length cs \<le> 18446744073709551615" using f(4) Cons.prems(3) by simp
  have 4: "list_all (call_fits meta_ok (stamp_ok R)) cs" using Cons.prems(4) by simp
  have 5: "fold (drive own (run_emitter_methods R)) cs (ids1, st1) = (ids', st')" using Cons.prems(5) d by simp
  from Cons.IH [OF 1 2 3 4 5] obtain gs where
    "all_frames cs (ids1, supply_of (fst st1)) = (gs, ids', supply_of (fst st'))" "after_frames R st1 gs st'"
    by blast
  with f show ?case using after_frames_trans by fastforce
qed

section \<open>The same calls again\<close>

text \<open>A replay makes the same calls at other times.\<close>

fun untimed :: "call \<Rightarrow> call" where
  "untimed (CStart kind title meta now) = CStart kind title meta 0"
| "untimed (CAppend n delta) = CAppend n delta"
| "untimed (CClose n status summary now) = CClose n status summary 0"
| "untimed (COne kind title body status now) = COne kind title body status 0"

definition frame_ids :: "(string \<times> sse_event) list \<Rightarrow> string list" where
  "frame_ids fs = map (se_ID \<circ> snd) (filter (\<lambda>f. fst f = ''block_start'') fs)"

lemma frame_ids_simps [simp]:
  "frame_ids [] = []" "frame_ids (fs @ gs) = frame_ids fs @ frame_ids gs"
  "frame_ids [start_frame i kd ti m t] = [i]" "frame_ids [append_frame i d] = []" "frame_ids [close_frame i stt su t] = []"
  "frame_ids (f # fs) = frame_ids [f] @ frame_ids fs"
  by (simp_all add: frame_ids_def start_frame_def append_frame_def close_frame_def)

declare frame_ids_simps(6) [simp del]

lemma same_call_frames:
  assumes "untimed k' = untimed k" and "call_frames k (ids, ([], n)) = (fs, ids', (xs, n'))"
  shows "xs = [] \<and> (\<exists>fs'. call_frames k' (ids, (frame_ids fs @ rest, m)) = (fs', ids', (rest, m)) \<and> length fs' = length fs)"
proof (cases k)
  case (CStart kd ti me t)
  with assms(1) obtain t' where "k' = CStart kd ti me t'" by (cases k') auto
  with assms(2) show ?thesis by (auto simp: CStart)
next
  case (CAppend j d)
  with assms(1) have "k' = CAppend j d" by (cases k') auto
  with assms(2) show ?thesis by (auto simp: CAppend split: if_splits)
next
  case (CClose j stt su t)
  with assms(1) obtain t' where "k' = CClose j stt su t'" by (cases k') auto
  with assms(2) show ?thesis by (auto simp: CClose split: if_splits)
next
  case (COne kd ti bo stt t)
  with assms(1) obtain t' where k': "k' = COne kd ti bo stt t'" by (cases k') auto
  let ?i = "''p'' @ show_nat (Suc n)"
  have fs: "fs = [start_frame ?i kd ti [] t] @ (if bo \<noteq> [] then [append_frame ?i bo] else []) @ [close_frame ?i stt [] t]"
    and r: "ids' = ids" "xs = []" using assms(2) by (auto simp: COne)
  have "frame_ids fs = [?i]" unfolding fs frame_ids_simps(2) by simp
  then show ?thesis using r by (auto simp: k' fs)
qed

lemma same_all_frames:
  assumes "map untimed cs' = map untimed cs" and "all_frames cs (ids, ([], n)) = (fs, ids', (xs, n'))"
  shows "xs = [] \<and> (\<exists>fs'. all_frames cs' (ids, (frame_ids fs @ rest, m)) = (fs', ids', (rest, m)) \<and> length fs' = length fs)"
  using assms
proof (induction cs arbitrary: cs' ids n fs ids' xs n' rest)
  case Nil
  then show ?case by auto
next
  case (Cons k cs)
  then obtain k' ks' where cs': "cs' = k' # ks'" "untimed k' = untimed k" "map untimed ks' = map untimed cs" by auto
  obtain f1 i1 x1 n1 where f1: "call_frames k (ids, ([], n)) = (f1, i1, (x1, n1))" by (metis prod_cases4)
  note one = same_call_frames [OF cs'(2) f1]
  have x1: "x1 = []" using one by simp
  obtain f2 i2 x2 n2 where f2: "all_frames cs (i1, ([], n1)) = (f2, i2, (x2, n2))" by (metis prod_cases4)
  have fs: "fs = f1 @ f2" "ids' = i2" "xs = x2" "n' = n2" using Cons.prems(2) f1 f2 by (auto simp: x1)
  obtain g1 where g1: "call_frames k' (ids, (frame_ids f1 @ frame_ids f2 @ rest, m)) = (g1, i1, (frame_ids f2 @ rest, m))"
    "length g1 = length f1" using one by blast
  obtain g2 where g2: "all_frames ks' (i1, (frame_ids f2 @ rest, m)) = (g2, i2, (rest, m))" "length g2 = length f2"
    and "x2 = []" using Cons.IH [OF cs'(3) f2, of rest] by auto
  then show ?case using g1 by (simp add: cs'(1) fs)
qed

lemma all_frames_append:
  "all_frames (cs @ ds) st = (case all_frames cs st of (fs, st1) \<Rightarrow> case all_frames ds st1 of (gs, st2) \<Rightarrow> (fs @ gs, st2))"
  by (induction cs arbitrary: st) (auto split: prod.splits)

lemma all_frames_length: "all_frames cs st = (fs, st') \<Longrightarrow> length fs \<le> 3 * length cs"
proof (induction cs arbitrary: st fs)
  case (Cons k cs)
  obtain f1 s1 where f1: "call_frames k st = (f1, s1)" by (cases "call_frames k st") blast
  obtain f2 where f2: "all_frames cs s1 = (f2, st')" "fs = f1 @ f2" using Cons.prems f1 by (auto split: prod.splits)
  have "length f1 \<le> 3" using f1 by (cases "(k, st)" rule: call_frames.cases) (auto split: if_splits prod.splits)
  with f2 Cons.IH [OF f2(1)] show ?case by simp
qed simp

section \<open>Reading the stored frames\<close>

fun not_terminal :: "call \<Rightarrow> bool" where
  "not_terminal (CStart kind title meta now) = (kind \<noteq> KindError \<and> kind \<noteq> KindResult)"
| "not_terminal (COne kind title body status now) = (kind \<noteq> KindError \<and> kind \<noteq> KindResult)"
| "not_terminal k = True"

definition frame_ok :: "rfc \<Rightarrow> string \<times> sse_event \<Rightarrow> bool" where
  "frame_ok R f \<longleftrightarrow> (\<exists>j. sse_json R (snd f) = Inr j \<and> sse_read R j = Inr (snd f)) \<and> isReplayableCommandEvent (fst f) \<and>
     (fst f = ''block_start'' \<longrightarrow> se_ID (snd f) \<noteq> [] \<and> se_Kind (snd f) \<noteq> KindError \<and> se_Kind (snd f) \<noteq> KindResult)"

lemma frame_oks:
  "meta_ok m \<Longrightarrow> stamp_ok R t \<Longrightarrow> i \<noteq> [] \<Longrightarrow> kd \<noteq> KindError \<Longrightarrow> kd \<noteq> KindResult \<Longrightarrow> frame_ok R (start_frame i kd ti m t)"
  "frame_ok R (append_frame i d)"
  "stamp_ok R t \<Longrightarrow> frame_ok R (close_frame i stt su t)"
proof -
  show "frame_ok R (start_frame i kd ti m t)"
    if "meta_ok m" "stamp_ok R t" "i \<noteq> []" "kd \<noteq> KindError" "kd \<noteq> KindResult"
    using that sse_roundtrip [of "snd (start_frame i kd ti m t)" R]
    by (simp add: frame_ok_def start_frame_def isReplayableCommandEvent_def)
  show "frame_ok R (append_frame i d)"
    using sse_roundtrip [of "snd (append_frame i d)" R]
    by (simp add: frame_ok_def append_frame_def isReplayableCommandEvent_def)
  show "frame_ok R (close_frame i stt su t)" if "stamp_ok R t"
    using that sse_roundtrip [of "snd (close_frame i stt su t)" R]
    by (simp add: frame_ok_def close_frame_def isReplayableCommandEvent_def)
qed

lemma call_frames_fresh:
  assumes "call_frames k (ids, ([], n)) = (fs, ids', (xs, n'))" and "call_fits meta_ok (stamp_ok R) k" and "not_terminal k"
  shows "xs = [] \<and> list_all (frame_ok R) fs \<and> n \<le> n' \<and> n' \<le> Suc n \<and>
    frame_ids fs = map (\<lambda>j. ''p'' @ show_nat j) [Suc n..<Suc n']"
proof (cases k)
  case (COne kd ti bo stt t)
  let ?i = "''p'' @ show_nat (Suc n)"
  have fs: "fs = [start_frame ?i kd ti [] t] @ (if bo \<noteq> [] then [append_frame ?i bo] else []) @ [close_frame ?i stt [] t]"
    and r: "n' = Suc n" "xs = []" using assms(1) by (auto simp: COne)
  have "frame_ids fs = [?i]" unfolding fs frame_ids_simps(2) by simp
  with r assms(2,3) show ?thesis by (auto simp: COne fs frame_oks)
qed (use assms in \<open>auto simp: frame_oks split: if_splits\<close>)

lemma all_frames_fresh:
  assumes "all_frames cs (ids, ([], n)) = (fs, ids', (xs, n'))" and "list_all (call_fits meta_ok (stamp_ok R)) cs"
    and "list_all not_terminal cs"
  shows "xs = [] \<and> list_all (frame_ok R) fs \<and> n \<le> n' \<and> n' \<le> n + length cs \<and>
    frame_ids fs = map (\<lambda>j. ''p'' @ show_nat j) [Suc n..<Suc n']"
  using assms
proof (induction cs arbitrary: ids n fs)
  case (Cons k cs)
  obtain f1 i1 x1 n1 where f1: "call_frames k (ids, ([], n)) = (f1, i1, (x1, n1))" by (metis prod_cases4)
  have 1: "x1 = [] \<and> list_all (frame_ok R) f1 \<and> n \<le> n1 \<and> n1 \<le> Suc n \<and>
      frame_ids f1 = map (\<lambda>j. ''p'' @ show_nat j) [Suc n..<Suc n1]"
    using Cons.prems by (intro call_frames_fresh [OF f1]) auto
  obtain f2 where f2: "all_frames cs (i1, ([], n1)) = (f2, ids', (xs, n'))" and fs: "fs = f1 @ f2"
    using Cons.prems(1) 1 by (auto simp: f1 split: prod.splits)
  have 2: "xs = [] \<and> list_all (frame_ok R) f2 \<and> n1 \<le> n' \<and> n' \<le> n1 + length cs \<and>
      frame_ids f2 = map (\<lambda>j. ''p'' @ show_nat j) [Suc n1..<Suc n']"
    using Cons.prems by (intro Cons.IH [OF f2]) auto
  have "[Suc n..<Suc n'] = [Suc n..<Suc n1] @ [Suc n1..<Suc n']"
    using 1 2 by (metis Suc_le_mono le_add_diff_inverse upt_add_eq_append)
  with 1 2 show ?case by (simp add: fs del: upt_Suc)
qed simp

lemma parse_own_id: "n < 18446744073709551616 \<Longrightarrow> parseAgentRunEmitterID (''p'' @ show_nat n) = Some n"
  using show_nat_digits [of n]
  by (auto simp: parseAgentRunEmitterID_def parse_uint_def digits_show Let_def)

definition max_id :: "string \<Rightarrow> nat \<Rightarrow> nat" where
  "max_id i m = (case parseAgentRunEmitterID i of Some n \<Rightarrow> if m < n then n else m | None \<Rightarrow> m)"

lemma recovered_append:
  "recovered_ids R c (xs @ ys) m ids = (case recovered_ids R c xs m ids of (m', ids') \<Rightarrow> recovered_ids R c ys m' ids')"
  by (induction R c xs m ids rule: recovered_ids.induct) (auto split: sum.splits)

lemma recovered_before:
  "\<forall>ev \<in> set evs. ev_Seq ev < c \<Longrightarrow> recovered_ids R c evs m ids = (fst (recovered_ids R 0 evs m ids0), ids)"
  by (induction evs arbitrary: m ids) (auto split: sum.splits)

lemma replayable_before: "\<forall>ev \<in> set pre. ev_Seq ev < c \<Longrightarrow> replayable_count R c (pre @ evs) k = replayable_count R c evs k"
  by (induction pre) auto

lemma frame_event:
  assumes "frame_ok R f" and "(ev_Event ev, ev_Data ev) # rest = encoded R (f # fs)"
  shows "ev_Event ev = fst f" "sse_read R (ev_Data ev) = Inr (snd f)" "rest = encoded R fs" "\<not> isTerminalRunBlockStart R ev"
  using assms by (cases f; auto simp: encoded_def frame_ok_def isTerminalRunBlockStart_def)+

lemma recovered_frames:
  assumes "map (\<lambda>ev. (ev_Event ev, ev_Data ev)) evs = encoded R fs" and "list_all (frame_ok R) fs"
    and "0 < c" and "\<forall>ev \<in> set evs. c \<le> ev_Seq ev"
  shows "recovered_ids R c evs m ids = (fold max_id (frame_ids fs) m, ids @ frame_ids fs)"
    and "replayable_count R c evs k = k + length fs"
  using assms
proof (induction fs arbitrary: evs m ids k)
  case Nil
  {
    case 1
    then show ?case by (simp add: encoded_def)
  next
    case 2
    then show ?case by (simp add: encoded_def)
  }
next
  case (Cons f fs)
  {
    case 1
    then obtain ev es where evs: "evs = ev # es" by (cases evs) (auto simp: encoded_def)
    note fe = frame_event [of R f ev "map (\<lambda>ev. (ev_Event ev, ev_Data ev)) es" fs]
    have f: "ev_Event ev = fst f" "sse_read R (ev_Data ev) = Inr (snd f)" "\<not> isTerminalRunBlockStart R ev"
      "map (\<lambda>ev. (ev_Event ev, ev_Data ev)) es = encoded R fs"
      using fe 1 by (simp_all add: evs)
    have i: "fst f = ''block_start'' \<Longrightarrow> se_ID (snd f) \<noteq> []" using 1 by (simp add: frame_ok_def)
    have s: "c \<le> ev_Seq ev" "\<forall>ev \<in> set es. c \<le> ev_Seq ev" using 1 by (simp_all add: evs)
    note ih = Cons.IH(1) [OF f(4) _ assms(3) s(2)]
    show ?case
    proof (cases "fst f = ''block_start''")
      case True
      with f i s 1 ih show ?thesis
        by (simp add: evs frame_ids_def max_id_def)
    next
      case False
      with f 1 ih show ?thesis by (simp add: evs frame_ids_def)
    qed
  next
    case 2
    then obtain ev es where evs: "evs = ev # es" by (cases evs) (auto simp: encoded_def)
    note fe = frame_event [of R f ev "map (\<lambda>ev. (ev_Event ev, ev_Data ev)) es" fs]
    have f: "ev_Event ev = fst f" "\<not> isTerminalRunBlockStart R ev"
      "map (\<lambda>ev. (ev_Event ev, ev_Data ev)) es = encoded R fs"
      using fe 2 by (simp_all add: evs)
    have "isReplayableCommandEvent (ev_Event ev)" using f 2 by (simp add: frame_ok_def)
    with f 2 Cons.IH(2) [OF f(3) _ assms(3)] show ?case by (simp add: evs)
  }
qed

lemma fold_max:
  assumes "b < 18446744073709551616" and "a \<le> b"
  shows "fold max_id (map (\<lambda>j. ''p'' @ show_nat j) [Suc a..<Suc b]) a = b"
  using assms
proof (induction "b - a" arbitrary: b)
  case 0
  then show ?case by simp
next
  case (Suc d)
  then obtain b' where b: "b = Suc b'" "a \<le> b'" by (cases b) auto
  with Suc have "fold max_id (map (\<lambda>j. ''p'' @ show_nat j) [Suc a..<Suc b']) a = b'" by simp
  with b Suc.prems show ?case
    by (simp add: max_id_def parse_own_id [of "Suc b'", simplified])
qed

section \<open>Recovery\<close>

abbreviation stored_events :: "string \<Rightarrow> runs_db \<Rightarrow> run_event list" where
  "stored_events i s \<equiv> map eventFromRow (events_of s i)"

lemma stored_pairs: "map (\<lambda>ev. (ev_Event ev, ev_Data ev)) (stored_events i s) = log_of i s"
  by (simp add: log_of_def eventFromRow_def)

lemma stored_length: "length (events_of s i) = length (log_of i s)"
  by (simp add: log_of_def)

lemma stored_seqs:
  assumes "holds_lease i w s" and "k < length (log_of i s)"
  shows "ev_Seq (stored_events i s ! k) = 1 + int k"
proof -
  obtain r where ok: "runs_ok s" and r: "run_of s i = Some r" using assms(1) by (auto simp: holds_lease_def)
  have "r \<in> set (agent_runs s)" "ar_id r = i" using run_ofD [OF r] by auto
  then have seqs: "map av_seq (events_of s i) = [1..ar_next_event_seq r - 1]" using ok by (auto simp: runs_ok_def numbered_def)
  have k: "k < length (events_of s i)" using assms(2) by (simp add: log_of_def)
  have "k < nat (ar_next_event_seq r - 1)" using arg_cong [OF seqs, of length] k by simp
  then have "av_seq (events_of s i ! k) = 1 + int k" using k nth_map [OF k, of av_seq] by (simp add: seqs)
  then show ?thesis using k by (simp add: eventFromRow_def)
qed

lemma recovered_pairs:
  "map (\<lambda>ev. (ev_Event ev, ev_Data ev)) xs = map (\<lambda>ev. (ev_Event ev, ev_Data ev)) ys \<Longrightarrow>
   fst (recovered_ids R 0 xs m ids) = fst (recovered_ids R 0 ys m ids)"
proof (induction xs arbitrary: ys m)
  case (Cons x xs)
  then obtain y zs where ys: "ys = y # zs" "ev_Event x = ev_Event y" "ev_Data x = ev_Data y"
    "map (\<lambda>ev. (ev_Event ev, ev_Data ev)) xs = map (\<lambda>ev. (ev_Event ev, ev_Data ev)) zs" by (cases ys) auto
  from Cons.IH [OF ys(4)] show ?case by (simp add: ys(1-3) split: sum.splits)
qed simp

lemma fresh_replaying:
  assumes "holds_lease i w (rw_db wd)" and "i \<noteq> []"
  shows "replaying_ok ((newAgentRunEmitter True i w)\<lparr>are_idGen := n, are_replayStartIDs := ids, are_replaySuppressEvents := k\<rparr>, wd)"
  using assms by (simp add: replaying_ok_def emitting_ok_def newAgentRunEmitter_def)

text \<open>The state of an emitter rebuilt from the log of an interrupted command with the frames \<open>fs\<close>.\<close>

lemma recovered_emitter:
  assumes w2: "holds_lease i wk' s" and log2: "log_of i s = log_of i s0 @ encoded R fs"
    and run: "run_ID run = i" "run_CommandStartSeq run = 1 + int (length (log_of i s0))"
    and fs: "list_all (frame_ok R) fs" "frame_ids fs = map (\<lambda>j. ''p'' @ show_nat j) [Suc n..<Suc n1]"
    and n: "fst (recoveredAgentRunEmitterIDs R (stored_events i s0) 0) = n" "n \<le> n1" "n1 < 18446744073709551616"
  shows "newRecoveredAgentRunEmitter R True run wk' (stored_events i s) =
    (newAgentRunEmitter True i wk')\<lparr>are_idGen := n1, are_replayStartIDs := frame_ids fs, are_replaySuppressEvents := length fs\<rparr>"
proof -
  let ?evs = "stored_events i s" and ?k = "length (log_of i s0)"
  let ?c = "1 + int ?k"
  have pairs: "map (\<lambda>ev. (ev_Event ev, ev_Data ev)) ?evs = log_of i s0 @ encoded R fs"
    using stored_pairs [of s i] log2 by simp
  have len: "length ?evs = ?k + length fs" using log2 by (simp add: stored_length)
  have sq: "ev_Seq (?evs ! j) = 1 + int j" if "j < ?k + length fs" for j
    using stored_seqs [OF w2, of j] that len by (simp add: stored_length)
  have before: "\<forall>ev \<in> set (take ?k ?evs). ev_Seq ev < ?c"
    using sq len by (auto simp: in_set_conv_nth)
  have after: "\<forall>ev \<in> set (drop ?k ?evs). ?c \<le> ev_Seq ev"
  proof
    fix ev assume "ev \<in> set (drop ?k ?evs)"
    then obtain j where "j < length fs" "ev = ?evs ! (?k + j)" using len by (auto simp: in_set_conv_nth)
    then show "?c \<le> ev_Seq ev" using sq [of "?k + j"] by simp
  qed
  have tail: "map (\<lambda>ev. (ev_Event ev, ev_Data ev)) (drop ?k ?evs) = encoded R fs"
    unfolding drop_map [symmetric] pairs by simp
  have head: "map (\<lambda>ev. (ev_Event ev, ev_Data ev)) (take ?k ?evs) =
      map (\<lambda>ev. (ev_Event ev, ev_Data ev)) (stored_events i s0)"
    unfolding take_map [symmetric] stored_pairs using log2 by simp
  have n0: "fst (recovered_ids R 0 (take ?k ?evs) 0 []) = n"
    using recovered_pairs [OF head, of R 0 "[]"] n(1) by (simp add: recoveredAgentRunEmitterIDs_def)
  note rf = recovered_frames [OF tail fs(1) _ after]
  have "recovered_ids R ?c (take ?k ?evs) 0 [] = (n, [])"
    using recovered_before [OF before, of R 0 "[]" "[]"] n0 by simp
  then have "recovered_ids R ?c (take ?k ?evs @ drop ?k ?evs) 0 [] = (fold max_id (frame_ids fs) n, frame_ids fs)"
    using rf(1) [of n "[]"] by (simp add: recovered_append del: append_take_drop_id)
  then have ids: "recoveredAgentRunEmitterIDs R ?evs ?c = (n1, frame_ids fs)"
    using fold_max [OF n(3,2)] by (simp add: recoveredAgentRunEmitterIDs_def fs(2))
  have "replayable_count R ?c (take ?k ?evs @ drop ?k ?evs) 0 = length fs"
    using rf(2) [of 0] by (simp only: replayable_before [OF before])
  then have "replayableCommandEventCount R ?evs ?c = length fs" by (simp add: replayableCommandEventCount_def)
  with ids show ?thesis by (simp only: newRecoveredAgentRunEmitter_def run prod.case Let_def)
qed

text \<open>A fresh emitter that is given calls: the frames it stores.\<close>

lemma fresh_drives:
  assumes "holds_lease i wk (rw_db w)" and "i \<noteq> []"
    and e: "e = (newAgentRunEmitter True i wk)\<lparr>are_idGen := n, are_replayStartIDs := rs, are_replaySuppressEvents := k\<rparr>"
    and drives: "drive_all own (run_emitter_methods R) cs (e, w) = (ids, (e', w'))"
    and fit: "list_all (call_fits meta_ok (stamp_ok R)) cs"
    and room: "length (log_of i (rw_db w)) + 3 * length cs \<le> 9223372036854775805" "n + length cs \<le> 18446744073709551615"
  shows "\<exists>fs. all_frames cs ([], (rs, n)) = (fs, ids, supply_of e') \<and>
    log_of i (rw_db w') = log_of i (rw_db w) @ drop k (encoded R fs) \<and> Err (e', w') = None \<and>
    holds_lease i (are_workerID e') (rw_db w')"
proof -
  have ok: "replaying_ok (e, w)" unfolding e by (rule fresh_replaying [OF assms(1,2)])
  have seen: "seen_events (e, w) = log_of i (rw_db w)" "supply_of e = (rs, n)" "are_replaySuppressEvents e = k"
    "are_buffering e = False" "are_runID e = i" "are_idGen e = n"
    unfolding e by (simp_all add: seen_events_def newAgentRunEmitter_def supply_of_def)
  have r: "length (seen_events (e, w)) + 3 * length cs \<le> 9223372036854775805"
    "are_idGen (fst (e, w)) + length cs \<le> 18446744073709551615" using room by (simp_all add: seen)
  obtain fs where f: "all_frames cs ([], (rs, n)) = (fs, ids, supply_of e')" and a: "after_frames R (e, w) fs (e', w')"
    using all_drives [OF ok r fit drives [unfolded drive_all_def]] by (auto simp: seen)
  have "are_buffer e' = []" "are_runID e' = i" "are_err e' = None" "holds_lease i (are_workerID e') (rw_db w')"
    using a by (auto simp: after_frames_def replaying_ok_def emitting_ok_def seen)
  then have "log_of i (rw_db w') = log_of i (rw_db w) @ drop k (encoded R fs)"
    using a by (simp add: after_frames_def seen) (simp add: seen_events_def)
  with f \<open>are_err e' = None\<close> \<open>holds_lease i (are_workerID e') (rw_db w')\<close> show ?thesis by (auto simp: Err_def)
qed

end
