(* ===== verification/Run_Durability.thy ===== *)
theory Run_Durability
  imports Run_Emitter_Laws
begin

text \<open>
  An emitter whose writes may fail. The steps interleave its own work (frames, batches) with anything
  others do to the tables short of writing to its run: a claim by another worker, a cancellation, the
  end of the run. Whatever happens, the stored log is a prefix of what was emitted, and it is all of it
  as long as the emitter reports no error.
\<close>

section \<open>The steps\<close>

text \<open>\<open>writer_step R st evs st'\<close>: \<open>evs\<close> are the frames the step emits.\<close>

inductive writer_step :: "rfc \<Rightarrow> emitting \<Rightarrow> (string \<times> json) list \<Rightarrow> emitting \<Rightarrow> bool" for R where
  frame: "sse_json R data = Inr p \<Longrightarrow> writer_step R st [(name, p)] (run_emit R name data st)"
| no_frame: "sse_json R data = Inl err \<Longrightarrow> writer_step R st [] (run_emit R name data st)"
| batch: "writer_step R st [] (BeginBatch st)"
| flush: "writer_step R st [] (snd (FlushBatch cursor st))"
| others: "runs_ok s \<Longrightarrow> log_of (are_runID (fst st)) s = log_of (are_runID (fst st)) (rw_db (snd st)) \<Longrightarrow>
    writer_step R st [] (fst st, (snd st)\<lparr>rw_db := s\<rparr>)"

inductive writer_steps :: "rfc \<Rightarrow> emitting \<Rightarrow> (string \<times> json) list \<Rightarrow> emitting \<Rightarrow> bool" for R where
  none: "writer_steps R st [] st"
| more: "writer_steps R st evs st1 \<Longrightarrow> writer_step R st1 evs' st2 \<Longrightarrow> writer_steps R st (evs @ evs') st2"

section \<open>Writes with or without the lease\<close>

lemma append_logged:
  assumes "runs_ok s" and "AppendAgentRunEvent now i event payload owner s = (Inr sq, t)"
  shows "holds_lease i owner t \<and> log_of i t = log_of i s @ [(event, payload)]"
proof -
  have "holds_lease i owner s"
    by (rule append_cases [OF assms]) (use assms(1) in \<open>auto simp: holds_lease_def\<close>)
  from append_written [OF this assms(2)] show ?thesis by simp
qed

lemma appends_logged:
  assumes "runs_ok s" and "appendEvents msg now i owner evs s = (Inr sqs, t)"
  shows "runs_ok t \<and> log_of i t = log_of i s @ map (\<lambda>ev. (pe_Event ev, pe_Data ev)) evs"
  using assms
proof (induction evs arbitrary: s sqs)
  case (Cons ev evs)
  obtain sq u qs where a: "AppendAgentRunEvent now i (pe_Event ev) (pe_Data ev) owner s = (Inr sq, u)"
    and b: "appendEvents msg now i owner evs u = (Inr qs, t)"
    using Cons.prems(2) by (auto simp: ok_simps)
  note w = append_logged [OF Cons.prems(1) a]
  then have "runs_ok u" by (simp add: holds_lease_def)
  from Cons.IH [OF this b] w show ?case by simp
qed simp

lemma cursor_logged:
  assumes "runs_ok s" and "UpdateAgentRunLogCursor now j cursor owner s = (res, t)"
  shows "runs_ok t \<and> log_of i t = log_of i s"
proof
  show "runs_ok t" using assms(2) unfolding UpdateAgentRunLogCursor_def
    by (rule keeps_invD [OF keeps_update_run assms(1), rotated -1]) (auto simp: amends_def where_run_def live_def)
  show "log_of i t = log_of i s" using assms(2) unfolding UpdateAgentRunLogCursor_def
    by (cases rule: update_run_written) (auto simp: log_of_def)
qed

lemma batch_logged:
  assumes "runs_ok s" and "i \<noteq> []" and "AppendEventsAndAdvanceCursor True now i evs cursor owner s = (res, t)"
  shows "runs_ok t \<and> log_of i t = log_of i s @ (case res of Inl e \<Rightarrow> [] | Inr sqs \<Rightarrow> map (\<lambda>ev. (pe_Event ev, pe_Data ev)) evs)"
proof (cases res)
  case (Inl e)
  with assms show ?thesis by (auto simp: AppendEventsAndAdvanceCursor_def)
next
  case (Inr sqs)
  with assms obtain u where a: "appendEvents ''append event'' now i owner evs s = (Inr sqs, u)"
    and c: "t = u \<or> (\<exists>n. UpdateAgentRunLogCursor now i cursor owner u = (Inr n, t))"
    by (auto simp: AppendEventsAndAdvanceCursor_def ok_simps split: if_splits)
  note l = appends_logged [OF assms(1) a]
  from c show ?thesis
  proof
    assume "t = u"
    with l Inr show ?thesis by simp
  next
    assume "\<exists>n. UpdateAgentRunLogCursor now i cursor owner u = (Inr n, t)"
    with cursor_logged l Inr show ?thesis by fastforce
  qed
qed

section \<open>No gap\<close>

definition writer_inv :: "string \<Rightarrow> (string \<times> json) list \<Rightarrow> emitting \<Rightarrow> bool" where
  "writer_inv i log st \<longleftrightarrow> (case st of (e, w) \<Rightarrow>
     are_store e \<and> are_runID e = i \<and> i \<noteq> [] \<and> \<not> are_suppressed e \<and> are_replaySuppressEvents e = 0 \<and>
     (are_buffering e \<or> are_buffer e = []) \<and> runs_ok (rw_db w) \<and> prefix (log_of i (rw_db w)) log \<and>
     (are_err e = None \<longrightarrow> log_of i (rw_db w) @ are_buffer e = log))"

lemma frame_logged:
  assumes inv: "writer_inv i log (e, w)" and p: "sse_json R data = Inr p" and run: "run_emit R name data (e, w) = (e', w')"
  shows "writer_inv i (log @ [(name, p)]) (e', w') \<and> prefix (log_of i (rw_db w)) (log_of i (rw_db w'))"
proof (cases "are_err e \<noteq> None \<or> are_buffering e")
  case True
  with assms show ?thesis by (cases "are_err e") (auto simp: writer_inv_def run_emit_def Let_def)
next
  case False
  note inv = inv [unfolded writer_inv_def prod.case]
  let ?n = "rw_clock w (rw_ticks w)"
  obtain res db where a: "AppendAgentRunEvent ?n i name p (are_workerID e) (rw_db w) = (res, db)" by fastforce
  show ?thesis
  proof (cases res)
    case (Inl err)
    then have db: "db = rw_db w" using a append_cases [OF _ a] inv by (metis Inl_Inr_False)
    have "(e', w') = (setErr (Wrapped ''append event'' err) e, w\<lparr>rw_ticks := Suc (rw_ticks w)\<rparr>)"
      using run inv False p a by (simp add: run_emit_def in_store_def AppendEvent_def wrap_err_def Inl db)
    with inv False show ?thesis by (simp add: writer_inv_def setErr_def)
  next
    case (Inr sq)
    obtain u db2 where t: "TouchLease True (rw_clock w (Suc (rw_ticks w))) i (are_workerID e) (are_leasePeriod e) db = (u, db2)"
      by fastforce
    have l: "holds_lease i (are_workerID e) db \<and> log_of i db = log_of i (rw_db w) @ [(name, p)]"
      using append_logged [OF _ a [unfolded Inr]] inv by simp
    note l2 = touch_kept [OF conjunct1 [OF l] t]
    have "(e', w') = (e, to_live name p sq (w\<lparr>rw_db := db2, rw_ticks := Suc (Suc (rw_ticks w))\<rparr>))"
      using run inv False p a t by (simp add: run_emit_def in_store_def AppendEvent_def wrap_err_def Inr)
    moreover have "log_of i (rw_db w) = log" using inv False by auto
    ultimately show ?thesis using inv False l l2 by (auto simp: writer_inv_def to_live_def holds_lease_def)
  qed
qed

lemma flush_logged:
  assumes inv: "writer_inv i log (e, w)" and run: "FlushBatch cursor (e, w) = (r, (e', w'))"
  shows "writer_inv i log (e', w') \<and> prefix (log_of i (rw_db w)) (log_of i (rw_db w'))"
proof (cases "are_err e")
  case (Some err)
  with assms show ?thesis by (auto simp: writer_inv_def FlushBatch_def)
next
  case None
  note inv = inv [unfolded writer_inv_def prod.case]
  let ?n = "rw_clock w (rw_ticks w)"
  let ?evs = "map (\<lambda>(name, data). \<lparr>pe_Event = name, pe_Data = data\<rparr>) (are_buffer e)"
  obtain res db where a: "AppendEventsAndAdvanceCursor True ?n i ?evs cursor (are_workerID e) (rw_db w) = (res, db)" by fastforce
  have pairs: "map (\<lambda>ev. (pe_Event ev, pe_Data ev)) ?evs = are_buffer e" by (simp add: case_prod_unfold o_def)
  have "runs_ok (rw_db w)" "i \<noteq> []" using inv by auto
  note l = batch_logged [OF this a, unfolded pairs]
  show ?thesis
  proof (cases res)
    case (Inl err)
    have "w' = w\<lparr>rw_db := db, rw_ticks := Suc (rw_ticks w)\<rparr>"
      "e' = setErr err (e\<lparr>are_buffering := False, are_buffer := []\<rparr>)"
      using run inv None a by (auto simp: FlushBatch_def in_store_def Inl)
    with inv l show ?thesis by (auto simp: writer_inv_def setErr_def Inl)
  next
    case (Inr sqs)
    have "rw_db w' = db" "e' = e\<lparr>are_buffering := False, are_buffer := []\<rparr>"
      using run inv None a by (auto simp: FlushBatch_def in_store_def Inr)
    with inv None l show ?thesis by (auto simp: writer_inv_def Inr)
  qed
qed

lemma step_logged:
  assumes "writer_step R st evs st'" and "writer_inv i log st"
  shows "writer_inv i (log @ evs) st' \<and> prefix (log_of i (rw_db (snd st))) (log_of i (rw_db (snd st')))"
  using assms
proof (cases rule: writer_step.cases)
  case (frame data p name)
  obtain e w e' w' where "st = (e, w)" "run_emit R name data st = (e', w')" by fastforce
  with frame assms(2) frame_logged [of i log e w R data p name e' w'] show ?thesis by simp
next
  case (no_frame data err name)
  with assms(2) show ?thesis by (cases st) (simp add: run_emit_def)
next
  case batch
  with assms(2) show ?thesis
    by (cases st) (auto simp: BeginBatch_def writer_inv_def)
next
  case (flush cursor)
  obtain e w r e' w' where "st = (e, w)" "FlushBatch cursor st = (r, (e', w'))" by (metis prod_cases3 surj_pair)
  with flush assms(2) flush_logged [of i log e w cursor r e' w'] show ?thesis by simp
next
  case (others s)
  with assms(2) show ?thesis by (cases st) (auto simp: writer_inv_def)
qed

lemma steps_logged:
  assumes "writer_steps R st evs st'" and "writer_inv i log st"
  shows "writer_inv i (log @ evs) st' \<and> prefix (log_of i (rw_db (snd st))) (log_of i (rw_db (snd st')))"
  using assms
proof (induction)
  case (more st evs st1 evs' st2)
  with step_logged [OF more.hyps(2)] show ?case by (metis append_assoc prefix_order.trans)
qed simp

section \<open>What the live stream shows\<close>

text \<open>The events of a log from the \<open>m\<close>-th on, as the live run carries them.\<close>

definition streamed :: "nat \<Rightarrow> (string \<times> json) list \<Rightarrow> live_event list" where
  "streamed m evs = map (\<lambda>(k, (name, data)). \<lparr>le_Event = name, le_Data = data, le_Seq = 1 + int k\<rparr>)
     (enumerate m evs)"

lemma streamed_simps [simp]:
  "streamed m [] = []"
  "streamed m ((name, data) # evs) = \<lparr>le_Event = name, le_Data = data, le_Seq = 1 + int m\<rparr> # streamed (Suc m) evs"
  "length (streamed m evs) = length evs"
  by (simp_all add: streamed_def)

lemma streamed_append: "streamed m (xs @ ys) = streamed m xs @ streamed (m + length xs) ys"
  by (induction xs arbitrary: m) auto

lemma streamed_after: "m \<le> n \<Longrightarrow> filter (wanted (int n)) (streamed m evs) = streamed n (drop (n - m) evs)"
proof (induction evs arbitrary: m)
  case (Cons ev evs)
  show ?case
  proof (cases "m = n")
    case True
    have "filter (wanted (int n)) (streamed (Suc n) evs) = streamed (Suc n) evs"
      by (rule filter_True) (auto simp: streamed_def wanted_def in_set_enumerate_eq)
    moreover have "wanted (int n) \<lparr>le_Event = fst ev, le_Data = snd ev, le_Seq = 1 + int n\<rparr>" by (simp add: wanted_def)
    ultimately show ?thesis using True by (cases ev) simp
  next
    case False
    then obtain d where "n - m = Suc d" "n - Suc m = d" "Suc m \<le> n" using Cons.prems by (cases "n - m") auto
    moreover have "\<not> wanted (int n) \<lparr>le_Event = fst ev, le_Data = snd ev, le_Seq = 1 + int m\<rparr>"
      using Cons.prems False by (simp add: wanted_def)
    ultimately show ?thesis using Cons.IH [of "Suc m"] by (cases ev) simp
  qed
qed simp

lemma streamed_pairs: "map (\<lambda>ev. (le_Event ev, le_Data ev)) (streamed m evs) = evs"
  by (induction evs arbitrary: m) auto

lemma emit_live_streamed:
  "\<not> lrun_closed r \<Longrightarrow> lrun_history (emit_live evs (map (\<lambda>k. 1 + int k) [m..<m + length evs]) r) = lrun_history r @ streamed m evs \<and>
     \<not> lrun_closed (emit_live evs (map (\<lambda>k. 1 + int k) [m..<m + length evs]) r)"
proof (induction evs arbitrary: m r)
  case (Cons ev evs)
  let ?r = "Emit \<lparr>le_Event = fst ev, le_Data = snd ev, le_Seq = 1 + int m\<rparr> r"
  have "[m..<m + length (ev # evs)] = m # [Suc m..<Suc m + length evs]" by (simp add: upt_rec)
  with Cons.IH [of ?r "Suc m"] Cons.prems show ?case
    by (cases ev) (simp add: Emit_def)
qed simp

lemma appends_numbered:
  assumes "runs_ok s" and "appendEvents msg now i owner evs s = (Inr sqs, t)"
  shows "sqs = map (\<lambda>k. 1 + int k) [length (log_of i s)..<length (log_of i s) + length evs]"
  using assms
proof (induction evs arbitrary: s sqs)
  case (Cons ev evs)
  obtain sq u qs where a: "AppendAgentRunEvent now i (pe_Event ev) (pe_Data ev) owner s = (Inr sq, u)"
    and b: "appendEvents msg now i owner evs u = (Inr qs, t)" "sqs = sq # qs"
    using Cons.prems(2) by (auto simp: ok_simps)
  have h: "holds_lease i owner s"
    by (rule append_cases [OF Cons.prems(1) a]) (use Cons.prems(1) in \<open>auto simp: holds_lease_def\<close>)
  note w = append_written [OF h a]
  then have "runs_ok u" by (simp add: holds_lease_def)
  from Cons.IH [OF this b(1)] w have "sqs = (1 + int (length (log_of i s))) #
      map (\<lambda>k. 1 + int k) [Suc (length (log_of i s))..<Suc (length (log_of i s)) + length evs]"
    by (simp add: b(2))
  then show ?case by (simp add: upt_conv_Cons del: upt_Suc)
qed simp

text \<open>The live run shows what was stored since the log had \<open>m\<close> events, with the numbers of the store.\<close>

definition stream_inv :: "string \<Rightarrow> nat \<Rightarrow> run_world \<Rightarrow> bool" where
  "stream_inv i m w \<longleftrightarrow> m \<le> length (log_of i (rw_db w)) \<and>
     (\<exists>r. rw_live w = Some r \<and> \<not> lrun_closed r \<and> lrun_history r = streamed m (drop m (log_of i (rw_db w))))"

lemma stream_grows:
  assumes "stream_inv i m w" and "log_of i (rw_db w') = log_of i (rw_db w) @ evs"
    and "rw_live w' = map_option (emit_live evs (map (\<lambda>k. 1 + int k)
      [length (log_of i (rw_db w))..<length (log_of i (rw_db w)) + length evs])) (rw_live w)"
  shows "stream_inv i m w'"
proof -
  obtain r where r: "rw_live w = Some r" "\<not> lrun_closed r" "lrun_history r = streamed m (drop m (log_of i (rw_db w)))"
    and m: "m \<le> length (log_of i (rw_db w))" using assms(1) by (auto simp: stream_inv_def)
  from emit_live_streamed [OF r(2), of evs "length (log_of i (rw_db w))"] r m assms show ?thesis
    by (auto simp: stream_inv_def streamed_append)
qed

lemma stream_still:
  "stream_inv i m w \<Longrightarrow> log_of i (rw_db w') = log_of i (rw_db w) \<Longrightarrow> rw_live w' = rw_live w \<Longrightarrow> stream_inv i m w'"
  by (simp add: stream_inv_def)

lemma frame_streamed:
  assumes inv: "writer_inv i log (e, w)" and s: "stream_inv i m w" and run: "run_emit R name data (e, w) = (e', w')"
  shows "stream_inv i m w'"
proof (cases "(\<exists>err. sse_json R data = Inl err) \<or> are_err e \<noteq> None \<or> are_buffering e")
  case True
  with assms show ?thesis by (cases "are_err e") (auto simp: writer_inv_def run_emit_def Let_def split: sum.splits)
next
  case False
  then obtain p where p: "sse_json R data = Inr p" by (cases "sse_json R data") auto
  note inv = inv [unfolded writer_inv_def prod.case]
  let ?n = "rw_clock w (rw_ticks w)"
  obtain res db where a: "AppendAgentRunEvent ?n i name p (are_workerID e) (rw_db w) = (res, db)" by fastforce
  show ?thesis
  proof (cases res)
    case (Inl err)
    then have db: "db = rw_db w" using a append_cases [OF _ a] inv by (metis Inl_Inr_False)
    have "w' = w\<lparr>rw_ticks := Suc (rw_ticks w)\<rparr>"
      using run inv False p a by (auto simp: run_emit_def in_store_def AppendEvent_def wrap_err_def Inl db)
    with s show ?thesis by (simp add: stream_inv_def)
  next
    case (Inr sq)
    obtain u db2 where t: "TouchLease True (rw_clock w (Suc (rw_ticks w))) i (are_workerID e) (are_leasePeriod e) db = (u, db2)"
      by fastforce
    have ok: "runs_ok (rw_db w)" using inv by simp
    have h: "holds_lease i (are_workerID e) (rw_db w)"
      by (rule append_cases [OF ok a]) (use ok Inr in \<open>auto simp: holds_lease_def\<close>)
    note l = append_written [OF h a [unfolded Inr]]
    note l2 = touch_kept [OF conjunct1 [OF l] t]
    have w': "w' = to_live name p sq (w\<lparr>rw_db := db2, rw_ticks := Suc (Suc (rw_ticks w))\<rparr>)"
      using run inv False p a t by (auto simp: run_emit_def in_store_def AppendEvent_def wrap_err_def Inr)
    show ?thesis
    proof (rule stream_grows [OF s])
      show "log_of i (rw_db w') = log_of i (rw_db w) @ [(name, p)]" using l l2 by (simp add: w' to_live_def)
      show "rw_live w' = map_option (emit_live [(name, p)] (map (\<lambda>k. 1 + int k)
          [length (log_of i (rw_db w))..<length (log_of i (rw_db w)) + length [(name, p)]])) (rw_live w)"
        using l by (cases "rw_live w") (simp_all add: w' to_live_def)
    qed
  qed
qed

lemma flush_streamed:
  assumes inv: "writer_inv i log (e, w)" and s: "stream_inv i m w" and run: "FlushBatch cursor (e, w) = (r, (e', w'))"
  shows "stream_inv i m w'"
proof (cases "are_err e")
  case (Some err)
  with assms show ?thesis by (auto simp: writer_inv_def FlushBatch_def)
next
  case None
  note inv = inv [unfolded writer_inv_def prod.case]
  let ?n = "rw_clock w (rw_ticks w)"
  let ?evs = "map (\<lambda>(name, data). \<lparr>pe_Event = name, pe_Data = data\<rparr>) (are_buffer e)"
  obtain res db where a: "AppendEventsAndAdvanceCursor True ?n i ?evs cursor (are_workerID e) (rw_db w) = (res, db)" by fastforce
  have pairs: "map (\<lambda>ev. (pe_Event ev, pe_Data ev)) ?evs = are_buffer e" by (simp add: case_prod_unfold o_def)
  have ok: "runs_ok (rw_db w)" "i \<noteq> []" using inv by auto
  note l = batch_logged [OF ok a, unfolded pairs]
  show ?thesis
  proof (cases res)
    case (Inl err)
    have "w' = w\<lparr>rw_db := db, rw_ticks := Suc (rw_ticks w)\<rparr>"
      using run inv None a by (auto simp: FlushBatch_def in_store_def Inl)
    with s l show ?thesis by (auto simp: stream_inv_def Inl)
  next
    case (Inr sqs)
    obtain u where "appendEvents ''append event'' ?n i (are_workerID e) ?evs (rw_db w) = (Inr sqs, u)"
      using a ok(2) by (auto simp: Inr AppendEventsAndAdvanceCursor_def ok_simps split: if_splits)
    note q = appends_numbered [OF ok(1) this]
    have "rw_db w' = db" "rw_live w' = map_option (emit_live (are_buffer e) sqs) (rw_live w)"
      using run inv None a by (auto simp: FlushBatch_def in_store_def Inr)
    with l q show ?thesis by (intro stream_grows [OF s]) (simp_all add: Inr)
  qed
qed

lemma steps_streamed:
  assumes "writer_steps R st evs st'" and "writer_inv i log st" and "stream_inv i m (snd st)"
  shows "stream_inv i m (snd st')"
  using assms
proof (induction)
  case (more st evs st1 evs' st2)
  have inv: "writer_inv i (log @ evs) st1" using steps_logged [OF more.hyps(1) more.prems(1)] by simp
  have s: "stream_inv i m (snd st1)" using more by simp
  from more.hyps(2) show ?case
  proof (cases rule: writer_step.cases)
    case (frame data p name)
    with inv s frame_streamed show ?thesis by (metis prod.collapse)
  next
    case (no_frame data err name)
    with inv s frame_streamed show ?thesis by (metis prod.collapse)
  next
    case batch
    with s show ?thesis by (cases st1) (auto simp: BeginBatch_def)
  next
    case (flush cursor)
    with inv s flush_streamed show ?thesis by (metis prod.collapse)
  next
    case (others t)
    with inv s show ?thesis by (cases st1) (auto simp: writer_inv_def intro: stream_still)
  qed
qed simp

end
