(* ===== verification/Transcript_Properties.thy ===== *)
theory Transcript_Properties
  imports Blocks_Tee Run_Recovery Run_Durability Runs_Properties
begin

text \<open>
  The results about transcripts: the emitters behind a tee agree, the snapshot, the stored log under
  failures, the live stream beside it, and recovery. The demo values are concrete inputs.
\<close>

section \<open>Emitters of different types behind one tee\<close>







section \<open>Concrete inputs\<close>

text \<open>A format of times that reads back.\<close>

definition demo_rfc :: rfc where
  "demo_rfc = \<lparr>rfc_format = \<lambda>t. Inr (show_nat (nat t)), rfc_parse = \<lambda>s. Inr (int (digits_value 0 s))\<rparr>"

definition demo_calls :: "call list" where
  "demo_calls = [CStart ''command'' ''go test'' [] 7, CAppend 0 ''ok'', CClose 0 StatusDone ''passed'' 8,
     CAppend 0 ''late'', COne ''notify'' ''Pushed'' ''main'' StatusDone 9]"

definition demo_world :: run_world where
  "demo_world = \<lparr>rw_db = demo_runs_db, rw_live = Some newLiveRun, rw_clock = \<lambda>n. 60 + int n, rw_ticks = 0\<rparr>"

lemma demo_world_db [simp]: "rw_db demo_world = demo_runs_db"
  by (simp add: demo_world_def)

abbreviation demo_emitter :: run_emitter where
  "demo_emitter \<equiv> newAgentRunEmitter True ''r'' ''w''"

lemma demo_stamps: "0 \<le> t \<Longrightarrow> stamp_ok demo_rfc t"
  by (simp add: stamp_ok_def demo_rfc_def digits_show)

lemma demo_fits: "list_all (call_fits meta_ok (stamp_ok demo_rfc)) demo_calls"
  by (simp add: demo_calls_def demo_stamps meta_ok_def)

lemma demo_lease: "holds_lease ''r'' ''w'' demo_runs_db"
  by (simp add: holds_lease_def demo_runs_ok demo_run) (simp add: demo_row_def)

lemma demo_log: "log_of ''r'' demo_runs_db = [(''say'', JBool True), (''say'', JBool True)]"
  by (simp add: log_of_def events_of_def demo_defs)




lemma refl3: "x = (fst x, fst (snd x), snd (snd x))"
  by simp

lemmas live_defs = live_run_ops_def newLiveRun_def Emit_def SubscribeAfter_def send_def at_subs_def wanted_def
  receive_def Close_def close_ch_def live_capacity_def room_for_def enumerate_eq_zip Let_def

section \<open>One transcript, several readers\<close>



lemma recorder_keeps_cap:
  "rec_maxKeep (em_Append recorder_emitter i d r) = rec_maxKeep r"
  "rec_maxKeep (close_at recorder_emitter u i st su t r) = rec_maxKeep r"
  "start_at recorder_emitter u k ti m t r = (j, r') \<Longrightarrow> rec_maxKeep r' = rec_maxKeep r"
  by (auto simp: recorder_emitter_def recorder_Append_def close_at_def done_at_def fail_at_def recorder_DoneAt_def
      recorder_FailAt_def finishAt_def start_at_def recorder_StartAt_def Let_def split: option.splits)

text \<open>The snapshot saved with a turn is the latest \<open>maxKeep\<close> blocks of the transcript in order, with
  a cap of 0 all of them. A block that is still running is dropped like any other once \<open>maxKeep\<close> blocks
  were started after it.\<close>

theorem snapshot_is_the_latest:
  assumes "3 * length cs \<le> 18446744073709551615"
  shows "map anon (Snapshot (snd (drive_all own recorder_emitter cs (NewRecorder k)))) =
    (if k \<le> 0 then render cs else drop (length (render cs) - nat k) (render cs))"
proof -
  let ?r = "snd (drive_all own recorder_emitter cs (NewRecorder k))"
  have "list_all (call_fits (\<lambda>m. True) (\<lambda>t. True)) cs"
  proof -
    have "call_fits (\<lambda>m. True) (\<lambda>t. True) c" for c by (cases c) auto
    then show ?thesis by (simp add: list_all_iff)
  qed
  with assms have v: "map anon (recorded ?r) = render cs"
    using recorder.transcript(1) [of "NewRecorder k" cs own] by simp
  have m: "rec_maxKeep ?r = k"
  proof (induction cs rule: rev_induct)
    case (snoc c cs)
    then show ?case
      by (cases "drive_all own recorder_emitter cs (NewRecorder k)"; cases c)
        (auto simp: drive_all_snoc recorder_keeps_cap split: prod.splits)
  qed (simp add: drive_all_def NewRecorder_def)
  have len: "length (recorded ?r) = length (render cs)" using arg_cong [OF v, of length] by simp
  have n: "nat (int (length (render cs)) - k) = length (render cs) - nat k" if "0 < k" using that by linarith
  show ?thesis
  proof (cases "k \<le> 0 \<or> int (length (render cs)) \<le> k")
    case True
    then have "Snapshot ?r = recorded ?r" by (auto simp: Snapshot_def m len)
    with True v show ?thesis by auto
  next
    case False
    then have "Snapshot ?r = drop (length (render cs) - nat k) (recorded ?r)" by (simp add: Snapshot_def m len n)
    with False v show ?thesis by (simp add: drop_map [symmetric])
  qed
qed

theorem snapshot_is_the_latest_witness:
  "map anon (Snapshot (snd (drive_all id recorder_emitter demo_calls (NewRecorder 1)))) =
    drop (length (render demo_calls) - 1) (render demo_calls)"
  using snapshot_is_the_latest [of demo_calls id 1] by (simp add: demo_calls_def)

lemma snapshot_drops_running_blocks:
  "map bk_Status (Snapshot (snd (drive_all id recorder_emitter
     [CStart ''command'' ''go test'' [] 7, COne ''notify'' ''Pushed'' [] StatusDone 9] (NewRecorder 1)))) = [StatusDone]"
  by (simp add: drive_all_def recorder_emitter_def start_at_def close_at_def done_at_def recorder_StartAt_def
      recorder_DoneAt_def finishAt_def Snapshot_def recorded_def NewRecorder_def opened_def ended_def status_defs
      List.map_filter_simps Let_def)

section \<open>The stored log\<close>

text \<open>C25: whatever happens to the tables meanwhile (short of foreign writes to the log), the stored log of a
  fresh emitter has no gap: it is a prefix of the frames emitted, in their order, and with the batch in
  progress all of them as long as the emitter reports no error. Nothing stored is ever lost.\<close>

theorem stored_log_has_no_gap:
  assumes "writer_steps R (newAgentRunEmitter True i wk, w) evs (e', w')" and "i \<noteq> []" and "runs_ok (rw_db w)"
  shows "prefix (log_of i (rw_db w')) (log_of i (rw_db w) @ evs) \<and> prefix (log_of i (rw_db w)) (log_of i (rw_db w')) \<and>
    (Err (e', w') = None \<longrightarrow> log_of i (rw_db w') @ are_buffer e' = log_of i (rw_db w) @ evs)"
proof -
  have "writer_inv i (log_of i (rw_db w)) (newAgentRunEmitter True i wk, w)"
    using assms by (simp add: writer_inv_def newAgentRunEmitter_def)
  from steps_logged [OF assms(1) this] show ?thesis by (simp add: writer_inv_def Err_def)
qed

theorem stored_log_has_no_gap_witness:
  "prefix (log_of ''r'' demo_runs_db) (log_of ''r'' (rw_db (snd (run_emit demo_rfc ''block_append''
     (zero_sse\<lparr>se_ID := ''p1'', se_Delta := ''ok''\<rparr>) (demo_emitter, demo_world)))))"
proof -
  let ?d = "zero_sse\<lparr>se_ID := ''p1'', se_Delta := ''ok''\<rparr>"
  obtain e w where run: "run_emit demo_rfc ''block_append'' ?d (demo_emitter, demo_world) = (e, w)" by fastforce
  obtain p where "sse_json demo_rfc ?d = Inr p" using sse_roundtrip [of ?d demo_rfc] by auto
  from writer_steps.more [OF writer_steps.none writer_step.frame [OF this, of "(demo_emitter, demo_world)" "''block_append''"]]
  have "writer_steps demo_rfc (demo_emitter, demo_world) ([] @ [(''block_append'', p)]) (e, w)" by (simp add: run)
  from stored_log_has_no_gap [OF this] show ?thesis by (simp add: run demo_runs_ok)
qed

text \<open>A page and a stream fit together: a reader that has the first \<open>n\<close> stored events and then
  subscribes to the live run after event \<open>n\<close> is given exactly the stored events it has not seen, each
  with its stored number, and nothing twice.\<close>

theorem page_and_stream_fit:
  assumes "writer_steps R (newAgentRunEmitter True i wk, w) evs (e', w')" and "i \<noteq> []" and "runs_ok (rw_db w)"
    and "rw_live w = Some newLiveRun" and "length (log_of i (rw_db w)) \<le> n" and "n \<le> length (log_of i (rw_db w'))"
  shows "\<exists>r. rw_live w' = Some r \<and> (let sub = lrun_all (snd (SubscribeAfter (int n) r)) ! fst (SubscribeAfter (int n) r)
    in take n (log_of i (rw_db w')) @ map (\<lambda>ev. (le_Event ev, le_Data ev)) (sub_history sub) = log_of i (rw_db w') \<and>
       map le_Seq (sub_history sub) = map (\<lambda>k. 1 + int k) [n..<length (log_of i (rw_db w'))] \<and> \<not> sub_closed sub)"
proof -
  let ?m = "length (log_of i (rw_db w))"
  have inv: "writer_inv i (log_of i (rw_db w)) (newAgentRunEmitter True i wk, w)"
    using assms by (simp add: writer_inv_def newAgentRunEmitter_def)
  have "stream_inv i ?m w" using assms(4) by (simp add: stream_inv_def newLiveRun_def)
  then have "stream_inv i ?m w'" using steps_streamed [OF assms(1) inv, of ?m] by simp
  then obtain r where r: "rw_live w' = Some r" "\<not> lrun_closed r" "lrun_history r = streamed ?m (drop ?m (log_of i (rw_db w')))"
    by (auto simp: stream_inv_def)
  have "filter (wanted (int n)) (lrun_history r) = streamed n (drop n (log_of i (rw_db w')))"
    using streamed_after [OF assms(5)] assms(5) by (simp add: r(3))
  moreover have "map le_Seq (streamed n xs) = map (\<lambda>k. 1 + int k) [n..<n + length xs]" for xs
    by (simp add: streamed_def case_prod_unfold map_fst_enumerate [symmetric] comp_def del: map_fst_enumerate)
  ultimately show ?thesis using assms(6)
    by (intro exI [of _ r]) (simp add: r SubscribeAfter_def Let_def streamed_pairs)
qed

theorem page_and_stream_fit_witness:
  "\<exists>r. rw_live demo_world = Some r \<and>
     lrun_all (snd (SubscribeAfter 2 r)) ! fst (SubscribeAfter 2 r) = \<lparr>sub_history = [], sub_ch = [], sub_closed = False, sub_afterSeq = 2\<rparr>"
  using page_and_stream_fit [OF writer_steps.none, of "''r''" demo_world 2]
  by (auto simp: demo_world_def demo_runs_ok demo_log SubscribeAfter_def newLiveRun_def)

text \<open>C26: a subscriber, with its history, what it received and what waits in its channel, has a
  subsequence of the events it wants: in their order and none twice, whatever others do to the run. It
  is all of them if its channel was never full when one was emitted and it did not unsubscribe.\<close>

theorem subscriber_sees_the_stream:
  assumes "live_run_ops ops = (r, got, gone)" and "k < length (lrun_all r)"
  shows "let sub = lrun_all r ! k; seen = sub_history sub @ got k @ sub_ch sub;
      wants = filter (wanted (sub_afterSeq sub)) (lrun_history r)
    in subseq seen wants \<and>
       (smooth ops (newLiveRun, (\<lambda>k. []), []) \<and> k \<notin> set gone \<longrightarrow> seen = wants)"
  using seen_by_subscriber [OF assms] by (simp add: sub_inv_def Let_def)

theorem subscriber_sees_the_stream_witness:
  "case live_run_ops [OpEmit \<lparr>le_Event = ''a'', le_Data = JNull, le_Seq = 1\<rparr>, OpSubscribe 1,
     OpEmit \<lparr>le_Event = ''b'', le_Data = JNull, le_Seq = 2\<rparr>, OpReceive 0, OpClose] of
   (r, got, gone) \<Rightarrow> got 0 = filter (wanted 1) (lrun_history r)"
  using subscriber_sees_the_stream [where k = 0 and ops =
    "[OpEmit \<lparr>le_Event = ''a'', le_Data = JNull, le_Seq = 1\<rparr>, OpSubscribe 1,
      OpEmit \<lparr>le_Event = ''b'', le_Data = JNull, le_Seq = 2\<rparr>, OpReceive 0, OpClose]", OF refl3]
  by (simp add: live_defs)

section \<open>Recovery\<close>

text \<open>C27: recovery completes the log: a worker emits the calls \<open>cs1\<close> of a command and dies; another
  takes the run over, rebuilds the emitter from the stored events and makes the command's calls again,
  at other times, and then the remaining ones. The log and the ids it hands out are exactly those the
  first worker would have produced undisturbed: nothing missing, nothing twice.\<close>

theorem recovery_completes:
  assumes w0: "holds_lease i wk (rw_db w0)" and i: "i \<noteq> []"
    and e0: "e0 = newAgentRunEmitterAfterEvents R True i wk (stored_events i (rw_db w0))"
    and crash: "drive_all own (run_emitter_methods R) cs1 (e0, w0) = (ids1, (e1, w1))"
    and w2: "holds_lease i wk' (rw_db w2)" and same_log: "log_of i (rw_db w2) = log_of i (rw_db w1)"
    and run: "run_ID run = i" "run_CommandStartSeq run = 1 + int (length (log_of i (rw_db w0)))"
    and recovered: "drive_all own' (run_emitter_methods R) (cs1' @ cs2)
      (newRecoveredAgentRunEmitter R True run wk' (stored_events i (rw_db w2)), w2) = (ids3, (e3, w3))"
    and undisturbed: "drive_all own (run_emitter_methods R) (cs1 @ cs2) (e0, w0) = (ids4, (e4, w4))"
    and replay: "map untimed cs1' = map untimed cs1" and nt: "list_all not_terminal cs1"
    and fit: "list_all (call_fits meta_ok (stamp_ok R)) (cs1' @ cs1 @ cs2)"
    and room: "length (log_of i (rw_db w0)) + 6 * length (cs1 @ cs2) \<le> 9223372036854775805"
      "are_idGen e0 + 2 * length (cs1 @ cs2) \<le> 18446744073709551615"
  shows "log_of i (rw_db w3) = log_of i (rw_db w4) \<and> ids3 = ids4 \<and> Err (e3, w3) = None"
proof -
  let ?n = "are_idGen e0" and ?log = "log_of i (rw_db w0)"
  have e0': "e0 = (newAgentRunEmitter True i wk)\<lparr>are_idGen := ?n, are_replayStartIDs := [], are_replaySuppressEvents := 0\<rparr>"
    and n0: "fst (recoveredAgentRunEmitterIDs R (stored_events i (rw_db w0)) 0) = ?n"
    by (simp_all add: e0 newAgentRunEmitterAfterEvents_def newAgentRunEmitter_def)
  have len': "length cs1' = length cs1" using arg_cong [OF replay, of length] by simp
  have fit1: "list_all (call_fits meta_ok (stamp_ok R)) cs1" and fit': "list_all (call_fits meta_ok (stamp_ok R)) (cs1' @ cs2)"
    and fitU: "list_all (call_fits meta_ok (stamp_ok R)) (cs1 @ cs2)" using fit by auto
  have room1: "length ?log + 3 * length cs1 \<le> 9223372036854775805" "?n + length cs1 \<le> 18446744073709551615"
    and room4: "length ?log + 3 * length (cs1 @ cs2) \<le> 9223372036854775805" "?n + length (cs1 @ cs2) \<le> 18446744073709551615"
    using room by simp_all
  obtain fs1 where f1: "all_frames cs1 ([], ([], ?n)) = (fs1, ids1, supply_of e1)"
      and log1: "log_of i (rw_db w1) = ?log @ encoded R fs1"
    using fresh_drives [OF w0 i e0' crash fit1 room1] by auto
  obtain xs n1 where s1: "supply_of e1 = (xs, n1)" by fastforce
  note fresh = all_frames_fresh [OF f1 [unfolded s1] fit1 nt]
  have log2: "log_of i (rw_db w2) = ?log @ encoded R fs1" using same_log log1 by simp
  have n1: "n1 < 18446744073709551616" using fresh room by simp
  have e2: "newRecoveredAgentRunEmitter R True run wk' (stored_events i (rw_db w2)) = (newAgentRunEmitter True i wk')
      \<lparr>are_idGen := n1, are_replayStartIDs := frame_ids fs1, are_replaySuppressEvents := length fs1\<rparr>"
    using fresh by (intro recovered_emitter [OF w2 log2 run _ _ n0 _ n1]) auto
  have room3: "length (log_of i (rw_db w2)) + 3 * length (cs1' @ cs2) \<le> 9223372036854775805"
    "n1 + length (cs1' @ cs2) \<le> 18446744073709551615"
    using room all_frames_length [OF f1] fresh len' by (simp_all add: log2)
  obtain fs3 where f3: "all_frames (cs1' @ cs2) ([], (frame_ids fs1, n1)) = (fs3, ids3, supply_of e3)"
      and log3: "log_of i (rw_db w3) = ?log @ encoded R fs1 @ drop (length fs1) (encoded R fs3)" and "Err (e3, w3) = None"
    using fresh_drives [OF w2 i e2 recovered fit' room3] by (auto simp: log2)
  obtain fs4 where f4: "all_frames (cs1 @ cs2) ([], ([], ?n)) = (fs4, ids4, supply_of e4)"
      and log4: "log_of i (rw_db w4) = ?log @ encoded R fs4"
    using fresh_drives [OF w0 i e0' undisturbed fitU room4] by auto
  obtain fs1' where f1': "all_frames cs1' ([], (frame_ids fs1, n1)) = (fs1', ids1, ([], n1))" "length fs1' = length fs1"
    using same_all_frames [OF replay f1 [unfolded s1], of "[]" n1] by auto
  obtain gs where gs: "all_frames cs2 (ids1, ([], n1)) = (gs, ids4, supply_of e4)" "fs4 = fs1 @ gs"
    using f4 f1 fresh by (auto simp: all_frames_append s1 split: prod.splits)
  have "fs3 = fs1' @ gs" "ids3 = ids4" using f3 f1' gs(1) by (auto simp: all_frames_append)
  with log3 log4 f1'(2) gs(2) \<open>Err (e3, w3) = None\<close> show ?thesis by simp
qed

theorem recovery_completes_witness:
  "\<exists>ids1 e1 w1 ids3 e3 w3 ids4 e4 w4.
     drive_all id (run_emitter_methods demo_rfc) demo_calls
       (newAgentRunEmitterAfterEvents demo_rfc True ''r'' ''w'' (stored_events ''r'' demo_runs_db), demo_world) = (ids1, (e1, w1)) \<and>
     drive_all id (run_emitter_methods demo_rfc) (demo_calls @ demo_calls)
       (newRecoveredAgentRunEmitter demo_rfc True (zero_run\<lparr>run_ID := ''r'', run_CommandStartSeq := 3\<rparr>) (are_workerID e1)
          (stored_events ''r'' (rw_db w1)), w1) = (ids3, (e3, w3)) \<and>
     drive_all id (run_emitter_methods demo_rfc) (demo_calls @ demo_calls)
       (newAgentRunEmitterAfterEvents demo_rfc True ''r'' ''w'' (stored_events ''r'' demo_runs_db), demo_world) = (ids4, (e4, w4)) \<and>
     log_of ''r'' (rw_db w3) = log_of ''r'' (rw_db w4)"
proof -
  let ?e0 = "newAgentRunEmitterAfterEvents demo_rfc True ''r'' ''w'' (stored_events ''r'' demo_runs_db)"
  let ?run = "zero_run\<lparr>run_ID := ''r'', run_CommandStartSeq := 3\<rparr>"
  have lease: "holds_lease ''r'' ''w'' (rw_db demo_world)" using demo_lease by simp
  have "stored_events ''r'' demo_runs_db = map eventFromRow [demo_event 1, demo_event 2]"
    by (simp add: events_of_def demo_defs)
  then have n: "fst (recoveredAgentRunEmitterIDs demo_rfc (stored_events ''r'' demo_runs_db) 0) = 0"
    by (simp add: recoveredAgentRunEmitterIDs_def eventFromRow_def demo_event_def)
  have e0: "?e0 = demo_emitter\<lparr>are_idGen := 0, are_replayStartIDs := [], are_replaySuppressEvents := 0\<rparr>"
    by (simp only: newAgentRunEmitterAfterEvents_def n) (simp add: newAgentRunEmitter_def)
  obtain ids1 e1 w1 where 1: "drive_all id (run_emitter_methods demo_rfc) demo_calls (?e0, demo_world) = (ids1, (e1, w1))"
    by (metis prod_cases3)
  have five: "length demo_calls = 5" by (simp add: demo_calls_def)
  have len: "length (log_of ''r'' demo_runs_db) = 2" by (simp add: demo_log)
  have lease1: "holds_lease ''r'' (are_workerID e1) (rw_db w1)"
    using fresh_drives [OF lease _ e0 1 demo_fits] by (auto simp: len five)
  obtain ids3 e3 w3 where 3: "drive_all id (run_emitter_methods demo_rfc) (demo_calls @ demo_calls)
       (newRecoveredAgentRunEmitter demo_rfc True ?run (are_workerID e1) (stored_events ''r'' (rw_db w1)), w1) = (ids3, (e3, w3))"
    by (metis prod_cases3)
  obtain ids4 e4 w4 where 4: "drive_all id (run_emitter_methods demo_rfc) (demo_calls @ demo_calls) (?e0, demo_world) = (ids4, (e4, w4))"
    by (metis prod_cases3)
  have "are_idGen ?e0 = 0" by (simp add: e0)
  moreover have "list_all not_terminal demo_calls" by (simp add: demo_calls_def kind_defs)
  ultimately have "log_of ''r'' (rw_db w3) = log_of ''r'' (rw_db w4)"
    using recovery_completes [OF lease _ _ 1 lease1 refl _ _ 3 4] demo_fits by (simp add: len five)
  with 1 3 4 show ?thesis by blast
qed

end
