(* ===== verification/Conv_Types.thy ===== *)
theory Conv_Types
  imports Blocks_Recorder Auto_Merge_Recheck
begin

text \<open>
  The data of internal/convstore: a conversation with its turns, attachments, the encoding of the turns
  and of the task options, the escaping of a search, and the state of a pull request as it is stored
  (internal/bot/pr_state.go). A slice is an option where the code tells nil from empty, as a nil slice
  is written to the database as NULL. A map[string]bool is the list of its entries, sorted by key.
\<close>

section \<open>Records\<close>

type_synonym task_options = "(string \<times> bool) list"

record conversation =
  cr_OrgID :: string
  cr_ThreadID :: string
  cr_SandboxID :: string
  cr_Branch :: string
  cr_PRURL :: string
  cr_PRState :: string
  cr_PRMerged :: bool
  cr_PRMergedAt :: go_time
  cr_PRClosedAt :: go_time
  cr_PRStateCheckedAt :: go_time
  cr_History :: "string list option"
  cr_ResponseBlocks :: "block list list"
  cr_GitHubOwner :: string
  cr_GitHubRepo :: string
  cr_CustomTitle :: string
  cr_CreatorID :: string
  cr_AgentSlug :: string
  cr_Model :: string
  cr_TaskOptions :: task_options
  cr_AwaitingRepo :: bool
  cr_CreatedAt :: go_time
  cr_UpdatedAt :: go_time

definition zero_conversation :: conversation where
  "zero_conversation = \<lparr>cr_OrgID = [], cr_ThreadID = [], cr_SandboxID = [], cr_Branch = [], cr_PRURL = [],
     cr_PRState = [], cr_PRMerged = False, cr_PRMergedAt = zero_time, cr_PRClosedAt = zero_time,
     cr_PRStateCheckedAt = zero_time, cr_History = None, cr_ResponseBlocks = [], cr_GitHubOwner = [],
     cr_GitHubRepo = [], cr_CustomTitle = [], cr_CreatorID = [], cr_AgentSlug = [], cr_Model = [],
     cr_TaskOptions = [], cr_AwaitingRepo = False, cr_CreatedAt = zero_time, cr_UpdatedAt = zero_time\<rparr>"

record attachment =
  at_ID :: string
  at_OrgID :: string
  at_ThreadID :: string
  at_TurnIndex :: int
  at_Filename :: string
  at_ContentType :: string
  at_SizeBytes :: int
  at_Data :: "string option"
  at_Source :: string
  at_SlackFileID :: string
  at_CreatedAt :: go_time

record search_options =
  so_CreatorID :: string
  so_FilterCreatorID :: bool
  so_AgentSlug :: string
  so_FilterAgentSlug :: bool
  so_Query :: string
  so_Limit :: int
  so_Offset :: int

definition convErrNotFound :: go_error where
  "convErrNotFound = ErrNew ''convstore: not found''"

section \<open>Slices\<close>

text \<open>The elements of a slice, and \<open>append([]string(nil), xs...)\<close>.\<close>

definition elems :: "'a list option \<Rightarrow> 'a list" where
  "elems xs = (case xs of None \<Rightarrow> [] | Some l \<Rightarrow> l)"

definition copied :: "'a list option \<Rightarrow> 'a list option" where
  "copied xs = (if elems xs = [] then None else Some (elems xs))"

lemma elems_simps [simp]: "elems None = []" "elems (Some l) = l" "elems (copied xs) = elems xs"
  by (auto simp: elems_def copied_def)

section \<open>Encodings\<close>

fun marshal_blocks :: "rfc \<Rightarrow> block list \<Rightarrow> go_error + json list" where
  "marshal_blocks R [] = Inr []"
| "marshal_blocks R (b # bs) = (case block_json R b of Inl e \<Rightarrow> Inl e
     | Inr j \<Rightarrow> (case marshal_blocks R bs of Inl e \<Rightarrow> Inl e | Inr js \<Rightarrow> Inr (j # js)))"

text \<open>The loop of encodeBlocks, at turn \<open>i\<close>.\<close>

fun encode_turns :: "rfc \<Rightarrow> nat \<Rightarrow> block list list \<Rightarrow> go_error + json list" where
  "encode_turns R i [] = Inr []"
| "encode_turns R i (t # ts) =
     (case marshal_blocks R t of
        Inl e \<Rightarrow> Inl (Wrapped (''marshal turn '' @ show_nat i) e)
      | Inr js \<Rightarrow> (case encode_turns R (Suc i) ts of Inl e \<Rightarrow> Inl e | Inr raws \<Rightarrow> Inr (JArr js # raws)))"

definition encodeBlocks :: "rfc \<Rightarrow> block list list \<Rightarrow> go_error + json list" where
  "encodeBlocks R turns = encode_turns R 0 turns"

fun decode_turns :: "rfc \<Rightarrow> nat \<Rightarrow> json list \<Rightarrow> go_error + block list list" where
  "decode_turns R i [] = Inr []"
| "decode_turns R i (raw # raws) =
     (case json_list (block_read R) raw of
        Inl e \<Rightarrow> Inl (Wrapped (''unmarshal turn '' @ show_nat i) e)
      | Inr t \<Rightarrow> (case decode_turns R (Suc i) raws of Inl e \<Rightarrow> Inl e | Inr ts \<Rightarrow> Inr (t # ts)))"

definition decodeBlocks :: "rfc \<Rightarrow> json list \<Rightarrow> go_error + block list list" where
  "decodeBlocks R raw = decode_turns R 0 raw"

definition encodeTaskOptions :: "task_options \<Rightarrow> json" where
  "encodeTaskOptions opts = JObj (map (\<lambda>(k, b). (k, JBool b)) opts)"

fun set_option :: "string \<Rightarrow> bool \<Rightarrow> task_options \<Rightarrow> task_options" where
  "set_option k v [] = [(k, v)]"
| "set_option k v ((k', v') # m) = (if k = k' then (k, v) # m else if k < k' then (k, v) # (k', v') # m
     else (k', v') # set_option k v m)"

fun read_options :: "(string \<times> json) list \<Rightarrow> task_options \<Rightarrow> go_error + task_options" where
  "read_options [] m = Inr m"
| "read_options ((k, j) # kvs) m =
     (case json_bool j False of Inl e \<Rightarrow> Inl e | Inr b \<Rightarrow> read_options kvs (set_option k b m))"

definition decodeTaskOptions :: "json \<Rightarrow> go_error + task_options" where
  "decodeTaskOptions raw = (case raw of JObj kvs \<Rightarrow> read_options kvs [] | JNull \<Rightarrow> Inr [] | _ \<Rightarrow> Inl JsonTypeError)"

section \<open>Search\<close>

text \<open>strings.NewReplacer with single characters: each is replaced on its own.\<close>

definition escapeILIKEWildcards :: "string \<Rightarrow> string" where
  "escapeILIKEWildcards s = concat (map (\<lambda>c. if c = CHR 0x5C \<or> c = CHR ''%'' \<or> c = CHR ''_'' then [CHR 0x5C, c] else [c]) s)"

text \<open>The pattern of LIKE with the escape character backslash.\<close>

function like :: "string \<Rightarrow> string \<Rightarrow> bool" where
  "like [] s = (s = [])"
| "like (p # ps) s =
     (if p = CHR ''%'' then like ps s \<or> (if s = [] then False else like (p # ps) (tl s))
      else if s = [] then False
      else if p = CHR ''_'' then like ps (tl s)
      else if p = CHR 0x5C then (case ps of [] \<Rightarrow> False | q # qs \<Rightarrow> hd s = q \<and> like qs (tl s))
      else hd s = p \<and> like ps (tl s))"
  by pat_completeness auto
termination
  by (relation "measure (\<lambda>(p, s). length p + length s)") (auto simp: neq_Nil_conv)

definition ilike :: "string \<Rightarrow> string \<Rightarrow> bool" where
  "ilike s pat = like (to_lower pat) (to_lower s)"

declare like.simps(2) [simp del]

section \<open>Pull request state\<close>

text \<open>github.PullRequest, as far as it is read: the getters of nil fields give the zero values.\<close>

record pr_report =
  gp_State :: string
  gp_Merged :: bool
  gp_MergedAt :: go_time
  gp_ClosedAt :: go_time

record conversation_pr_state =
  ps_State :: string
  ps_Merged :: bool
  ps_MergedAt :: go_time
  ps_ClosedAt :: go_time

definition githubPRStateOpen :: string where "githubPRStateOpen = ''open''"
definition githubPRStateClosed :: string where "githubPRStateClosed = ''closed''"

definition conversationPRStateFromGitHub :: "pr_report option \<Rightarrow> conversation_pr_state" where
  "conversationPRStateFromGitHub pr =
     (case pr of
        None \<Rightarrow> \<lparr>ps_State = [], ps_Merged = False, ps_MergedAt = zero_time, ps_ClosedAt = zero_time\<rparr>
      | Some p \<Rightarrow>
          let st = to_lower (trim_space (gp_State p))
          in \<lparr>ps_State = (if st = githubPRStateOpen \<or> st = githubPRStateClosed then st else []),
              ps_Merged = gp_Merged p \<or> \<not> is_zero_time (gp_MergedAt p),
              ps_MergedAt = gp_MergedAt p, ps_ClosedAt = gp_ClosedAt p\<rparr>)"

section \<open>Laws\<close>

text \<open>What the escaped query matches between two wildcards: the texts that contain it.\<close>

lemma any_split: "P (c # s) \<or> (\<exists>u v. s = u @ v \<and> P v) \<longleftrightarrow> (\<exists>u v. c # s = u @ v \<and> P v)"
  by (auto simp: Cons_eq_append_conv)

lemma like_any: "like (CHR ''%'' # ps) s \<longleftrightarrow> (\<exists>u v. s = u @ v \<and> like ps v)"
proof (induction s)
  case Nil
  show ?case by (simp add: like.simps(2))
next
  case (Cons c s)
  have "like (CHR ''%'' # ps) (c # s) \<longleftrightarrow> like ps (c # s) \<or> like (CHR ''%'' # ps) s" by (simp add: like.simps(2))
  also have "\<dots> \<longleftrightarrow> (\<exists>u v. c # s = u @ v \<and> like ps v)"
    unfolding Cons.IH by (rule any_split)
  finally show ?case .
qed

lemma like_escaped: "like (escapeILIKEWildcards q @ ps) s \<longleftrightarrow> (\<exists>v. s = q @ v \<and> like ps v)"
proof (induction q arbitrary: s)
  case Nil
  show ?case by (simp add: escapeILIKEWildcards_def)
next
  case (Cons c q)
  have e: "escapeILIKEWildcards (c # q) =
      (if c = CHR 0x5C \<or> c = CHR ''%'' \<or> c = CHR ''_'' then [CHR 0x5C, c] else [c]) @ escapeILIKEWildcards q"
    by (simp add: escapeILIKEWildcards_def)
  show ?case
  proof (cases s)
    case Nil
    then show ?thesis by (simp add: e like.simps(2))
  next
    case (Cons d r)
    then have "like (escapeILIKEWildcards (c # q) @ ps) s \<longleftrightarrow> d = c \<and> like (escapeILIKEWildcards q @ ps) r"
      by (simp add: e like.simps(2))
    with Cons.IH Cons show ?thesis by auto
  qed
qed

lemma like_contains: "like (''%'' @ escapeILIKEWildcards q @ ''%'') s \<longleftrightarrow> contains s q"
proof -
  have "like ''%'' v" for v unfolding like_any [of "[]"] by (intro exI [of _ v] exI [of _ "[]"]) simp
  then show ?thesis unfolding append_Cons append_Nil like_any like_escaped contains_iff sublist_def by simp blast
qed

lemma lower_fixes:
  assumes "of_char x < (65 :: nat) \<or> 90 < (of_char x :: nat) \<and> (of_char x :: nat) < 97 \<or> 122 < (of_char x :: nat)"
  shows "lower_char c = x \<longleftrightarrow> c = x"
proof (cases "65 \<le> (of_char c :: nat) \<and> (of_char c :: nat) \<le> 90")
  case True
  then have "(of_char (lower_char c) :: nat) = of_char c + 32" by (simp add: lower_char_def Let_def)
  with True assms have "lower_char c \<noteq> x" "c \<noteq> x" by auto
  then show ?thesis by simp
qed (auto simp: lower_char_def Let_def)

lemma lower_escape: "to_lower (escapeILIKEWildcards q) = escapeILIKEWildcards (to_lower q)"
proof -
  have "lower_char c = CHR 0x5C \<longleftrightarrow> c = CHR 0x5C" "lower_char c = CHR ''%'' \<longleftrightarrow> c = CHR ''%''"
    "lower_char c = CHR ''_'' \<longleftrightarrow> c = CHR ''_''" for c
    by (rule lower_fixes; simp)+
  then show ?thesis
    by (induction q) (simp_all add: escapeILIKEWildcards_def to_lower_def)
qed

lemma ilike_contains: "ilike s (''%'' @ escapeILIKEWildcards q @ ''%'') \<longleftrightarrow> contains (to_lower s) (to_lower q)"
  using like_contains [of "to_lower q" "to_lower s"] lower_escape [of q]
  by (simp add: ilike_def to_lower_def lower_char_def)

end
