(* ===== verification/Conv_Queries.thy ===== *)
theory Conv_Queries
  imports Conv_Types
begin

text \<open>
  The tables of conversations and their attachments (db/migrations: conversations with the columns
  added since, conversation_attachments) and the queries of internal/db/sqlc/conversations.sql.go, one
  definition per query; \<open>now\<close> is NOW() in the statement. The installations of the GitHub app and their
  repositories are only read here, with GetGithubRepoForOrg of github_app.sql.go. The state also holds
  that of the hosting service, whatever that is. A column that is NOT NULL is an option where a nil
  slice can be sent for it. lower() and ILIKE are those of the C locale.
\<close>

section \<open>Rows and state\<close>

record conversation_row =
  cv_org_id :: string
  cv_thread_id :: string
  cv_sandbox_id :: string
  cv_branch :: string
  cv_pr_url :: string
  cv_pr_state :: string
  cv_pr_merged :: bool
  cv_pr_merged_at :: timestamptz
  cv_pr_closed_at :: timestamptz
  cv_pr_state_checked_at :: timestamptz
  cv_history :: "string list option"
  cv_created_at :: timestamptz
  cv_updated_at :: timestamptz
  cv_response_blocks :: "json list"
  cv_github_owner :: string
  cv_github_repo :: string
  cv_custom_title :: string
  cv_creator_id :: string
  cv_agent_slug :: string
  cv_model :: string
  cv_task_options :: json
  cv_awaiting_repo :: bool

record attachment_row =
  ca_id :: string
  ca_org_id :: string
  ca_thread_id :: string
  ca_turn_index :: int
  ca_filename :: string
  ca_content_type :: string
  ca_size_bytes :: int
  ca_data :: "string option"
  ca_source :: string
  ca_slack_file_id :: string
  ca_created_at :: timestamptz

record app_installation_row =
  in_installation_id :: int
  in_org_id :: string
  in_account_login :: string
  in_account_type :: string
  in_account_id :: int
  in_suspended_at :: timestamptz
  in_created_at :: timestamptz
  in_updated_at :: timestamptz

record github_repo_row =
  ghr_installation_id :: int
  ghr_repo_id :: int
  ghr_owner :: string
  ghr_name :: string
  ghr_default_branch :: string
  ghr_private :: bool
  ghr_last_synced_at :: timestamptz

record 'w conv_db =
  conversations :: "conversation_row list"
  conversation_attachments :: "attachment_row list"
  app_installations :: "app_installation_row list"
  installed_repos :: "github_repo_row list"
  hosting :: 'w

definition conv_key :: "conversation_row \<Rightarrow> string \<times> string" where
  "conv_key r = (cv_org_id r, cv_thread_id r)"

section \<open>Constraints\<close>

definition pr_states :: "string list" where "pr_states = [[], ''open'', ''closed'']"

definition conversation_row_error :: "conversation_row \<Rightarrow> go_error option" where
  "conversation_row_error r =
     (if cv_history r = None then Some (CheckViolation ''not null history'')
      else if cv_pr_state r \<notin> set pr_states then Some (CheckViolation ''conversations_pr_state_known'')
      else case cv_task_options r of JObj kvs \<Rightarrow> None
        | _ \<Rightarrow> Some (CheckViolation ''conversations_task_options_object''))"

definition conversation_constraints :: "('w conv_db, conversation_row) constraints" where
  "conversation_constraints = \<lparr>row_check = conversation_row_error, ref_check = (\<lambda>s r. None)\<rparr>"

definition attachment_row_error :: "attachment_row \<Rightarrow> go_error option" where
  "attachment_row_error r =
     (if ca_data r = None then Some (CheckViolation ''not null data'')
      else if ca_turn_index r < 0 then Some (CheckViolation ''conversation_attachments_turn_index_check'')
      else if ca_size_bytes r < 0 then Some (CheckViolation ''conversation_attachments_size_bytes_check'')
      else None)"

definition attachment_constraints :: "('w conv_db, attachment_row) constraints" where
  "attachment_constraints = \<lparr>row_check = attachment_row_error,
     ref_check = (\<lambda>s r. if (ca_org_id r, ca_thread_id r) \<in> set (map conv_key (conversations s)) then None
       else Some (ForeignKeyViolation ''conversation_attachments_org_id_thread_id_fkey''))\<rparr>"

section \<open>Conversations\<close>

definition is_conv :: "string \<Rightarrow> string \<Rightarrow> conversation_row \<Rightarrow> bool" where
  "is_conv org thread r \<longleftrightarrow> conv_key r = (org, thread)"

definition update_conv ::
  "(conversation_row \<Rightarrow> bool) \<Rightarrow> (conversation_row \<Rightarrow> conversation_row) \<Rightarrow> ('w conv_db, nat) go" where
  "update_conv p f = sql_update_all conversations conversations_update conversation_constraints p f"

text \<open>A statement whose count of rows is not looked at.\<close>

definition exec :: "('s, nat) go \<Rightarrow> ('s, unit) go" where
  "exec q = andthen q (\<lambda>_. ret ())"

text \<open>The attachments of a deleted conversation go with it.\<close>

definition DeleteConversation :: "string \<Rightarrow> string \<Rightarrow> ('w conv_db, unit) go" where
  "DeleteConversation org thread = (\<lambda>s. (Inr (), s\<lparr>
     conversations := filter (\<lambda>r. \<not> is_conv org thread r) (conversations s),
     conversation_attachments := filter (\<lambda>a. \<not> ((ca_org_id a, ca_thread_id a) = (org, thread) \<and>
       list_ex (is_conv org thread) (conversations s))) (conversation_attachments s)\<rparr>))"

definition GetConversation :: "string \<Rightarrow> string \<Rightarrow> ('w conv_db, conversation_row) go" where
  "GetConversation org thread = sql_get conversations (is_conv org thread)"

text \<open>ORDER BY t DESC, thread_id DESC, and LIMIT and OFFSET, which refuse negative numbers.\<close>

definition newest_first :: "(conversation_row \<Rightarrow> timestamptz) \<Rightarrow> conversation_row list \<Rightarrow> conversation_row list" where
  "newest_first t rows = rev (sort_key (\<lambda>r. (from_timestamptz (t r), cv_thread_id r)) rows)"

definition sql_page :: "int \<Rightarrow> int \<Rightarrow> 'r list \<Rightarrow> ('s, 'r list) go" where
  "sql_page lim off rows =
     (if lim < 0 then fail (ErrNew ''LIMIT must not be negative'')
      else if off < 0 then fail (ErrNew ''OFFSET must not be negative'')
      else ret (take (nat lim) (drop (nat off) rows)))"

definition at_pr :: "string \<Rightarrow> string \<Rightarrow> string \<Rightarrow> string \<Rightarrow> int \<Rightarrow> conversation_row \<Rightarrow> bool" where
  "at_pr org owner repo url number r \<longleftrightarrow> cv_org_id r = org \<and>
     to_lower (cv_github_owner r) = to_lower owner \<and> to_lower (cv_github_repo r) = to_lower repo \<and>
     (cv_pr_url r = url \<or> cv_pr_url r = ''https://github.com/'' @ owner @ ''/'' @ repo @ ''/pull/'' @ itoa number)"

definition ListConversationsByPRURL ::
  "string \<Rightarrow> string \<Rightarrow> string \<Rightarrow> string \<Rightarrow> int \<Rightarrow> ('w conv_db, conversation_row list) go" where
  "ListConversationsByPRURL org owner repo url number = (\<lambda>s.
     (Inr (newest_first cv_updated_at (filter (at_pr org owner repo url number) (conversations s))), s))"

definition ListConversationPRStateBackfillCandidates :: "bool \<Rightarrow> int \<Rightarrow> ('w conv_db, conversation_row list) go" where
  "ListConversationPRStateBackfillCandidates force lim = (\<lambda>s.
     sql_page lim 0 (newest_first cv_updated_at
       (filter (\<lambda>r. cv_pr_url r \<noteq> [] \<and> (force \<or> cv_pr_state_checked_at r = None)) (conversations s))) s)"

text \<open>The two subqueries over installations: those of personal tokens have negative ids.\<close>

definition installed :: "(int \<Rightarrow> bool) \<Rightarrow> 'w conv_db \<Rightarrow> conversation_row \<Rightarrow> bool" where
  "installed sign s c \<longleftrightarrow> list_ex (\<lambda>i. in_org_id i = cv_org_id c \<and> in_suspended_at i = None \<and> sign (in_installation_id i) \<and>
     list_ex (\<lambda>r. ghr_installation_id r = in_installation_id i \<and> to_lower (ghr_owner r) = to_lower (cv_github_owner c) \<and>
       to_lower (ghr_name r) = to_lower (cv_github_repo c)) (installed_repos s)) (app_installations s)"

definition checked_before :: "go_time \<Rightarrow> timestamptz \<Rightarrow> bool" where
  "checked_before t c = (case c of None \<Rightarrow> True | Some u \<Rightarrow> u < t)"

text \<open>ORDER BY pr_state_checked_at ASC NULLS FIRST, updated_at DESC, thread_id DESC.\<close>

definition poll_order :: "conversation_row list \<Rightarrow> conversation_row list" where
  "poll_order rows = sort_key (\<lambda>r. case cv_pr_state_checked_at r of None \<Rightarrow> (0 :: nat, 0) | Some t \<Rightarrow> (1, t))
     (newest_first cv_updated_at rows)"

definition ListPATConversationPRStatePollCandidates :: "go_time \<Rightarrow> int \<Rightarrow> ('w conv_db, conversation_row list) go" where
  "ListPATConversationPRStatePollCandidates checkedBefore lim = (\<lambda>s.
     sql_page lim 0 (poll_order (filter (\<lambda>c. cv_pr_url c \<noteq> [] \<and> installed (\<lambda>i. i < 0) s c \<and>
       \<not> installed (\<lambda>i. 0 < i) s c \<and> cv_pr_state c \<noteq> ''closed'' \<and> \<not> cv_pr_merged c \<and>
       checked_before checkedBefore (cv_pr_state_checked_at c)) (conversations s))) s)"

definition RenameConversation :: "string \<Rightarrow> string \<Rightarrow> string \<Rightarrow> ('w conv_db, nat) go" where
  "RenameConversation org thread title = update_conv (is_conv org thread) (\<lambda>r. r\<lparr>cv_custom_title := title\<rparr>)"

definition with_pr_state ::
  "go_time \<Rightarrow> string \<Rightarrow> bool \<Rightarrow> timestamptz \<Rightarrow> timestamptz \<Rightarrow> conversation_row \<Rightarrow> conversation_row" where
  "with_pr_state now st merged mergedAt closedAt r = r\<lparr>cv_pr_state := st, cv_pr_merged := merged,
     cv_pr_merged_at := mergedAt, cv_pr_closed_at := closedAt, cv_pr_state_checked_at := Some now, cv_updated_at := Some now\<rparr>"

definition SaveConversationPRState ::
  "go_time \<Rightarrow> string \<Rightarrow> bool \<Rightarrow> timestamptz \<Rightarrow> timestamptz \<Rightarrow> string \<Rightarrow> string \<Rightarrow> ('w conv_db, unit) go" where
  "SaveConversationPRState now st merged mergedAt closedAt org thread =
     exec (update_conv (is_conv org thread) (with_pr_state now st merged mergedAt closedAt))"

definition SaveConversationPRStateByURL ::
  "go_time \<Rightarrow> string \<Rightarrow> bool \<Rightarrow> timestamptz \<Rightarrow> timestamptz \<Rightarrow> string \<Rightarrow> string \<Rightarrow> string \<Rightarrow> string \<Rightarrow> int \<Rightarrow>
   ('w conv_db, nat) go" where
  "SaveConversationPRStateByURL now st merged mergedAt closedAt org owner repo url number =
     update_conv (at_pr org owner repo url number) (with_pr_state now st merged mergedAt closedAt)"

definition SaveConversationProgress ::
  "go_time \<Rightarrow> string \<Rightarrow> string \<Rightarrow> string list option \<Rightarrow> json list \<Rightarrow> string \<Rightarrow> ('w conv_db, unit) go" where
  "SaveConversationProgress now org thread history blocks creator =
     exec (update_conv (is_conv org thread) (\<lambda>r. r\<lparr>cv_history := history, cv_response_blocks := blocks,
       cv_creator_id := (if cv_creator_id r = [] then creator else cv_creator_id r), cv_updated_at := Some now\<rparr>))"

text \<open>The CASE expressions that forget the state of another pull request.\<close>

definition with_pr_url :: "string \<Rightarrow> conversation_row \<Rightarrow> conversation_row" where
  "with_pr_url url r = (if url = cv_pr_url r then r
     else r\<lparr>cv_pr_url := url, cv_pr_state := [], cv_pr_merged := False, cv_pr_merged_at := None,
       cv_pr_closed_at := None, cv_pr_state_checked_at := None\<rparr>)"

definition SaveConversationRunMetadata ::
  "go_time \<Rightarrow> string \<Rightarrow> string \<Rightarrow> string \<Rightarrow> string \<Rightarrow> string \<Rightarrow> ('w conv_db, unit) go" where
  "SaveConversationRunMetadata now sandbox branch url org thread =
     exec (update_conv (is_conv org thread) (\<lambda>r.
       (if url \<noteq> [] then with_pr_url url r else r)\<lparr>
         cv_sandbox_id := (if sandbox \<noteq> [] then sandbox else cv_sandbox_id r),
         cv_branch := (if branch \<noteq> [] then branch else cv_branch r), cv_updated_at := Some now\<rparr>))"

definition SaveConversationTaskOptions :: "go_time \<Rightarrow> string \<Rightarrow> string \<Rightarrow> json \<Rightarrow> ('w conv_db, unit) go" where
  "SaveConversationTaskOptions now org thread opts =
     exec (update_conv (is_conv org thread) (\<lambda>r. r\<lparr>cv_task_options := opts, cv_updated_at := Some now\<rparr>))"

definition matches :: "bool \<Rightarrow> string \<Rightarrow> bool \<Rightarrow> string \<Rightarrow> string \<Rightarrow> conversation_row \<Rightarrow> bool" where
  "matches byCreator creator byAgent agent query r \<longleftrightarrow>
     (byCreator \<longrightarrow> cv_creator_id r = creator) \<and> (byAgent \<longrightarrow> cv_agent_slug r = agent) \<and>
     (query = [] \<or> ilike (cv_custom_title r) (''%'' @ query @ ''%'') \<or>
      elems (cv_history r) \<noteq> [] \<and> ilike (hd (elems (cv_history r))) (''%'' @ query @ ''%''))"

definition SearchConversations ::
  "string \<Rightarrow> bool \<Rightarrow> string \<Rightarrow> bool \<Rightarrow> string \<Rightarrow> string \<Rightarrow> int \<Rightarrow> int \<Rightarrow> ('w conv_db, conversation_row list) go" where
  "SearchConversations org byCreator creator byAgent agent query lim off = (\<lambda>s.
     sql_page lim off (newest_first cv_created_at
       (filter (\<lambda>r. cv_org_id r = org \<and> matches byCreator creator byAgent agent query r) (conversations s))) s)"

text \<open>The row of the INSERT: the columns it does not name have their defaults.\<close>

definition UpsertConversation :: "go_time \<Rightarrow> conversation_row \<Rightarrow> ('w conv_db, conversation_row) go" where
  "UpsertConversation now x =
     sql_upsert conversations conversations_update conversation_constraints (\<lambda>r. conv_key r = conv_key x)
       (x\<lparr>cv_pr_state := [], cv_pr_merged := False, cv_pr_merged_at := None, cv_pr_closed_at := None,
          cv_pr_state_checked_at := None, cv_custom_title := [], cv_created_at := Some now, cv_updated_at := Some now\<rparr>)
       (\<lambda>r. (with_pr_url (cv_pr_url x) r)\<lparr>cv_sandbox_id := cv_sandbox_id x, cv_branch := cv_branch x,
          cv_history := cv_history x, cv_response_blocks := cv_response_blocks x, cv_github_owner := cv_github_owner x,
          cv_github_repo := cv_github_repo x, cv_agent_slug := cv_agent_slug x, cv_model := cv_model x,
          cv_task_options := cv_task_options x, cv_awaiting_repo := cv_awaiting_repo x, cv_updated_at := Some now\<rparr>)"

section \<open>Attachments\<close>

definition of_turn :: "string \<Rightarrow> string \<Rightarrow> int \<Rightarrow> attachment_row \<Rightarrow> bool" where
  "of_turn org thread turn a \<longleftrightarrow> ca_org_id a = org \<and> ca_thread_id a = thread \<and> ca_turn_index a = turn"

definition DeleteConversationAttachmentsForTurn :: "string \<Rightarrow> string \<Rightarrow> int \<Rightarrow> ('w conv_db, unit) go" where
  "DeleteConversationAttachmentsForTurn org thread turn =
     exec (sql_delete conversation_attachments conversation_attachments_update (of_turn org thread turn))"

definition GetConversationAttachment :: "string \<Rightarrow> string \<Rightarrow> ('w conv_db, attachment_row) go" where
  "GetConversationAttachment org i = sql_get conversation_attachments (\<lambda>a. ca_org_id a = org \<and> ca_id a = i)"

text \<open>The projection leaves the data out.\<close>

definition ListConversationAttachments :: "string \<Rightarrow> string \<Rightarrow> ('w conv_db, attachment_row list) go" where
  "ListConversationAttachments org thread = (\<lambda>s.
     (Inr (map (\<lambda>a. a\<lparr>ca_data := None\<rparr>)
        (sort_key (\<lambda>a. (ca_turn_index a, from_timestamptz (ca_created_at a), ca_id a))
          (filter (\<lambda>a. ca_org_id a = org \<and> ca_thread_id a = thread) (conversation_attachments s)))), s))"

definition ListConversationAttachmentsForTurn :: "string \<Rightarrow> string \<Rightarrow> int \<Rightarrow> ('w conv_db, attachment_row list) go" where
  "ListConversationAttachmentsForTurn org thread turn = (\<lambda>s.
     (Inr (sort_key (\<lambda>a. (from_timestamptz (ca_created_at a), ca_id a))
        (filter (of_turn org thread turn) (conversation_attachments s))), s))"

definition SaveConversationAttachment :: "attachment_row \<Rightarrow> ('w conv_db, attachment_row) go" where
  "SaveConversationAttachment a =
     sql_insert conversation_attachments conversation_attachments_update attachment_constraints (\<lambda>x. ca_id x = ca_id a) a"

section \<open>Repositories\<close>

text \<open>The join, the lowest installation first.\<close>

definition conv_GetGithubRepoForOrg :: "string \<Rightarrow> string \<Rightarrow> string \<Rightarrow> ('w conv_db, github_repo_row) go" where
  "conv_GetGithubRepoForOrg org owner name = (\<lambda>s.
     case sort_key ghr_installation_id (filter (\<lambda>r. ghr_owner r = owner \<and> ghr_name r = name \<and>
         list_ex (\<lambda>i. in_installation_id i = ghr_installation_id r \<and> in_org_id i = org \<and> in_suspended_at i = None)
           (app_installations s)) (installed_repos s)) of
       [] \<Rightarrow> (Inl ErrNoRows, s)
     | r # rs \<Rightarrow> (Inr r, s))"

end
