(* ===== verification/Conv_Store.thy ===== *)
theory Conv_Store
  imports Conv_Queries
begin

text \<open>
  internal/convstore: the methods of the store, one definition per method; \<open>en\<close> says whether the store
  has a database. The refresh of the stored state of pull requests (internal/bot/pr_state.go) over the
  hosting service as a record of operations on its own state, and the periodic saves of a run in
  progress (internal/bot/persister.go) with the helpers of the terminal save (bot_helpers.go).
\<close>

section \<open>Rows and records\<close>

text \<open>The three row types of the queries have the same columns; so the three functions are one.\<close>

definition recordFromFields :: "rfc \<Rightarrow> conversation_row \<Rightarrow> go_error + conversation" where
  "recordFromFields R f =
     (case decodeBlocks R (cv_response_blocks f) of
        Inl e \<Rightarrow> Inl e
      | Inr bs \<Rightarrow> Inr \<lparr>cr_OrgID = cv_org_id f, cr_ThreadID = cv_thread_id f, cr_SandboxID = cv_sandbox_id f,
          cr_Branch = cv_branch f, cr_PRURL = cv_pr_url f, cr_PRState = cv_pr_state f, cr_PRMerged = cv_pr_merged f,
          cr_PRMergedAt = from_timestamptz (cv_pr_merged_at f), cr_PRClosedAt = from_timestamptz (cv_pr_closed_at f),
          cr_PRStateCheckedAt = from_timestamptz (cv_pr_state_checked_at f), cr_History = cv_history f,
          cr_ResponseBlocks = bs, cr_GitHubOwner = cv_github_owner f, cr_GitHubRepo = cv_github_repo f,
          cr_CustomTitle = cv_custom_title f, cr_CreatorID = cv_creator_id f, cr_AgentSlug = cv_agent_slug f,
          cr_Model = cv_model f,
          cr_TaskOptions = (case decodeTaskOptions (cv_task_options f) of Inl e \<Rightarrow> [] | Inr opts \<Rightarrow> opts),
          cr_AwaitingRepo = cv_awaiting_repo f, cr_CreatedAt = from_timestamptz (cv_created_at f),
          cr_UpdatedAt = from_timestamptz (cv_updated_at f)\<rparr>)"

definition attachmentFromModel :: "attachment_row \<Rightarrow> attachment" where
  "attachmentFromModel r = \<lparr>at_ID = ca_id r, at_OrgID = ca_org_id r, at_ThreadID = ca_thread_id r,
     at_TurnIndex = ca_turn_index r, at_Filename = ca_filename r, at_ContentType = ca_content_type r,
     at_SizeBytes = ca_size_bytes r, at_Data = ca_data r, at_Source = ca_source r, at_SlackFileID = ca_slack_file_id r,
     at_CreatedAt = from_timestamptz (ca_created_at r)\<rparr>"

definition attachmentFromListRow :: "attachment_row \<Rightarrow> attachment" where
  "attachmentFromListRow r = (attachmentFromModel r)\<lparr>at_Data := None\<rparr>"

text \<open>The loop that decodes a list of rows.\<close>

fun records_from :: "rfc \<Rightarrow> conversation_row list \<Rightarrow> go_error + conversation list" where
  "records_from R [] = Inr []"
| "records_from R (row # rows) =
     (case recordFromFields R row of
        Inl e \<Rightarrow> Inl (Wrapped (''decode response_blocks for '' @ cv_org_id row @ ''/'' @ cv_thread_id row) e)
      | Inr rec \<Rightarrow> (case records_from R rows of Inl e \<Rightarrow> Inl e | Inr recs \<Rightarrow> Inr (rec # recs)))"

section \<open>Conversations\<close>

definition conv_ListByPRURL ::
  "rfc \<Rightarrow> bool \<Rightarrow> string \<Rightarrow> string \<Rightarrow> string \<Rightarrow> int \<Rightarrow> string \<Rightarrow> ('w conv_db, conversation list) go" where
  "conv_ListByPRURL R en org owner repo number url =
     (if \<not> en \<or> number \<le> 0 then ret []
      else andthen (wrap_err ''list conversations by PR URL''
          (ListConversationsByPRURL org owner repo url (int32 number))) (\<lambda>rows.
        lift_result (records_from R rows)))"

definition conv_Get :: "rfc \<Rightarrow> bool \<Rightarrow> string \<Rightarrow> string \<Rightarrow> ('w conv_db, conversation) go" where
  "conv_Get R en org thread =
     (if \<not> en then fail convErrNotFound
      else attempt (GetConversation org thread) (\<lambda>r.
        case r of
          Inl e \<Rightarrow> if err_is e ErrNoRows then fail convErrNotFound else fail (Wrapped ''get conversation'' e)
        | Inr row \<Rightarrow> (case recordFromFields R row of
            Inl e \<Rightarrow> fail (Wrapped ''decode response_blocks'' e) | Inr rec \<Rightarrow> ret rec)))"

definition conv_Search :: "rfc \<Rightarrow> bool \<Rightarrow> string \<Rightarrow> search_options \<Rightarrow> ('w conv_db, conversation list) go" where
  "conv_Search R en org opts =
     (if \<not> en then ret []
      else andthen (wrap_err ''search conversations''
          (SearchConversations org (so_FilterCreatorID opts) (so_CreatorID opts) (so_FilterAgentSlug opts)
            (so_AgentSlug opts) (escapeILIKEWildcards (so_Query opts)) (int32 (so_Limit opts)) (int32 (so_Offset opts))))
        (\<lambda>rows. lift_result (records_from R rows)))"

definition conv_SaveProgress :: "rfc \<Rightarrow> bool \<Rightarrow> go_time \<Rightarrow> conversation \<Rightarrow> ('w conv_db, unit) go" where
  "conv_SaveProgress R en now r =
     (if \<not> en then ret ()
      else case encodeBlocks R (cr_ResponseBlocks r) of
        Inl e \<Rightarrow> fail (Wrapped ''encode response_blocks'' e)
      | Inr encoded \<Rightarrow> wrap_err ''save progress''
          (SaveConversationProgress now (cr_OrgID r) (cr_ThreadID r) (cr_History r) encoded (cr_CreatorID r)))"

definition conv_SaveRunMetadata :: "bool \<Rightarrow> go_time \<Rightarrow> conversation \<Rightarrow> ('w conv_db, unit) go" where
  "conv_SaveRunMetadata en now r =
     (if \<not> en then ret ()
      else wrap_err ''save run metadata''
        (SaveConversationRunMetadata now (cr_SandboxID r) (cr_Branch r) (cr_PRURL r) (cr_OrgID r) (cr_ThreadID r)))"

text \<open>The parameters of the upsert; the columns it does not name are overwritten by the query.\<close>

definition upsert_params :: "conversation \<Rightarrow> json list \<Rightarrow> conversation_row" where
  "upsert_params r encoded = \<lparr>cv_org_id = cr_OrgID r, cv_thread_id = cr_ThreadID r, cv_sandbox_id = cr_SandboxID r,
     cv_branch = cr_Branch r, cv_pr_url = cr_PRURL r, cv_pr_state = [], cv_pr_merged = False, cv_pr_merged_at = None,
     cv_pr_closed_at = None, cv_pr_state_checked_at = None, cv_history = cr_History r, cv_created_at = None,
     cv_updated_at = None, cv_response_blocks = encoded, cv_github_owner = cr_GitHubOwner r,
     cv_github_repo = cr_GitHubRepo r, cv_custom_title = [], cv_creator_id = cr_CreatorID r,
     cv_agent_slug = cr_AgentSlug r, cv_model = cr_Model r, cv_task_options = encodeTaskOptions (cr_TaskOptions r),
     cv_awaiting_repo = cr_AwaitingRepo r\<rparr>"

definition conv_Upsert :: "rfc \<Rightarrow> bool \<Rightarrow> go_time \<Rightarrow> conversation \<Rightarrow> ('w conv_db, unit) go" where
  "conv_Upsert R en now r =
     (if \<not> en then ret ()
      else case encodeBlocks R (cr_ResponseBlocks r) of
        Inl e \<Rightarrow> fail (Wrapped ''encode response_blocks'' e)
      | Inr encoded \<Rightarrow> andthen (wrap_err ''upsert conversation'' (UpsertConversation now (upsert_params r encoded)))
          (\<lambda>_. ret ()))"

definition conv_SaveTaskOptions :: "bool \<Rightarrow> go_time \<Rightarrow> string \<Rightarrow> string \<Rightarrow> task_options \<Rightarrow> ('w conv_db, unit) go" where
  "conv_SaveTaskOptions en now org thread opts =
     (if \<not> en then ret ()
      else wrap_err ''save task options'' (SaveConversationTaskOptions now org thread (encodeTaskOptions opts)))"

definition conv_Delete :: "bool \<Rightarrow> string \<Rightarrow> string \<Rightarrow> ('w conv_db, unit) go" where
  "conv_Delete en org thread =
     (if \<not> en then ret () else wrap_err ''delete conversation'' (DeleteConversation org thread))"

definition conv_Rename :: "bool \<Rightarrow> string \<Rightarrow> string \<Rightarrow> string \<Rightarrow> ('w conv_db, unit) go" where
  "conv_Rename en org thread title =
     (if \<not> en then ret ()
      else andthen (wrap_err ''rename conversation'' (RenameConversation org thread title)) (\<lambda>rows.
        if rows = 0 then fail convErrNotFound else ret ()))"

section \<open>Attachments\<close>

definition attachment_params :: "go_time \<Rightarrow> attachment \<Rightarrow> attachment_row" where
  "attachment_params now a = \<lparr>ca_id = at_ID a, ca_org_id = at_OrgID a, ca_thread_id = at_ThreadID a,
     ca_turn_index = int32 (at_TurnIndex a), ca_filename = at_Filename a, ca_content_type = at_ContentType a,
     ca_size_bytes = at_SizeBytes a, ca_data = at_Data a, ca_source = at_Source a, ca_slack_file_id = at_SlackFileID a,
     ca_created_at = Some now\<rparr>"

text \<open>One statement per attachment, each at its own time.\<close>

fun save_each :: "(nat \<Rightarrow> go_time) \<Rightarrow> nat \<Rightarrow> attachment list \<Rightarrow> ('w conv_db, unit) go" where
  "save_each clock n [] = ret ()"
| "save_each clock n (a # as) =
     andthen (wrap_err (''save attachment '' @ at_Filename a) (SaveConversationAttachment (attachment_params (clock n) a)))
       (\<lambda>_. save_each clock (Suc n) as)"

definition conv_SaveAttachments :: "bool \<Rightarrow> (nat \<Rightarrow> go_time) \<Rightarrow> attachment list \<Rightarrow> ('w conv_db, unit) go" where
  "conv_SaveAttachments en clock attachments =
     (if \<not> en \<or> attachments = [] then ret () else save_each clock 0 attachments)"

definition conv_ListAttachments :: "bool \<Rightarrow> string \<Rightarrow> string \<Rightarrow> ('w conv_db, attachment list) go" where
  "conv_ListAttachments en org thread =
     (if \<not> en then ret []
      else andthen (wrap_err ''list attachments'' (ListConversationAttachments org thread)) (\<lambda>rows.
        ret (map attachmentFromListRow rows)))"

definition conv_ListAttachmentsForTurn :: "bool \<Rightarrow> string \<Rightarrow> string \<Rightarrow> int \<Rightarrow> ('w conv_db, attachment list) go" where
  "conv_ListAttachmentsForTurn en org thread turn =
     (if \<not> en then ret []
      else andthen (wrap_err ''list turn attachments'' (ListConversationAttachmentsForTurn org thread (int32 turn))) (\<lambda>rows.
        ret (map attachmentFromModel rows)))"

definition conv_DeleteAttachmentsForTurn :: "bool \<Rightarrow> string \<Rightarrow> string \<Rightarrow> int \<Rightarrow> ('w conv_db, unit) go" where
  "conv_DeleteAttachmentsForTurn en org thread turn =
     (if \<not> en then ret ()
      else wrap_err ''delete turn attachments'' (DeleteConversationAttachmentsForTurn org thread (int32 turn)))"

definition conv_GetAttachment :: "bool \<Rightarrow> string \<Rightarrow> string \<Rightarrow> ('w conv_db, attachment) go" where
  "conv_GetAttachment en org i =
     (if \<not> en then fail convErrNotFound
      else attempt (GetConversationAttachment org i) (\<lambda>r.
        case r of
          Inl e \<Rightarrow> if err_is e ErrNoRows then fail convErrNotFound else fail (Wrapped ''get attachment'' e)
        | Inr row \<Rightarrow> ret (attachmentFromModel row)))"

section \<open>Pull request state\<close>

record 'w pr_source =
  src_Token :: "int \<Rightarrow> int list \<Rightarrow> ('w, string) go"
  src_Lookup :: "string \<Rightarrow> string \<Rightarrow> string \<Rightarrow> int \<Rightarrow> ('w, pr_report option) go"

record backfill_result =
  bf_Scanned :: nat
  bf_Updated :: nat
  bf_Skipped :: nat
  bf_Failed :: nat

text \<open>The bot: whether it has a database, the source of tokens (None when there is none), the clock.\<close>

record 'w pr_bot =
  pb_Store :: bool
  pb_Source :: "'w pr_source option"
  pb_URL :: url_ops

definition in_hosting :: "('w, 'a) go \<Rightarrow> ('w conv_db, 'a) go" where
  "in_hosting m = (\<lambda>s. case m (hosting s) of (r, w) \<Rightarrow> (r, s\<lparr>hosting := w\<rparr>))"

definition bot_saveConversationPRState ::
  "'w pr_bot \<Rightarrow> go_time \<Rightarrow> string \<Rightarrow> string \<Rightarrow> pr_report option \<Rightarrow> ('w conv_db, unit) go" where
  "bot_saveConversationPRState b now org thread pr =
     (if \<not> pb_Store b \<or> pr = None then ret ()
      else let st = conversationPRStateFromGitHub pr
        in SaveConversationPRState now (ps_State st) (ps_Merged st) (to_timestamptz (ps_MergedAt st))
             (to_timestamptz (ps_ClosedAt st)) org thread)"

definition bot_saveConversationPRStateByURL ::
  "'w pr_bot \<Rightarrow> go_time \<Rightarrow> string \<Rightarrow> string \<Rightarrow> string \<Rightarrow> int \<Rightarrow> string \<Rightarrow> pr_report option \<Rightarrow> ('w conv_db, nat) go" where
  "bot_saveConversationPRStateByURL b now org owner repo number rawURL0 pr =
     (if \<not> pb_Store b \<or> pr = None \<or> number \<le> 0 then ret 0
      else let rawURL = (if trim_space rawURL0 = [] then canonicalGitHubPRURL owner repo number else trim_space rawURL0);
               st = conversationPRStateFromGitHub pr
        in SaveConversationPRStateByURL now (ps_State st) (ps_Merged st) (to_timestamptz (ps_MergedAt st))
             (to_timestamptz (ps_ClosedAt st)) org owner repo rawURL (int32 number))"

definition refreshConversationPRStateForRepo ::
  "'w pr_bot \<Rightarrow> go_time \<Rightarrow> string \<Rightarrow> string \<Rightarrow> string \<Rightarrow> string \<Rightarrow> string \<Rightarrow> ('w conv_db, unit) go" where
  "refreshConversationPRStateForRepo b now org thread rawURL ownerHint repoHint =
     (case pb_Source b of
        None \<Rightarrow> ret ()
      | Some src \<Rightarrow>
          if \<not> pb_Store b \<or> trim_space rawURL = [] then ret ()
          else (case parseGitHubPRURL (pb_URL b) rawURL of
              Inl e \<Rightarrow> fail e
            | Inr parsed \<Rightarrow>
                let owner = firstNonEmpty [ownerHint, pp_Owner parsed]; repo = firstNonEmpty [repoHint, pp_Repo parsed]
                in attempt (conv_GetGithubRepoForOrg org owner repo) (\<lambda>r.
                  case r of
                    Inl e \<Rightarrow> if err_is e ErrNoRows
                      then fail (ErrNew (''github repo not installed for org '' @ org @ '': '' @ owner @ ''/'' @ repo))
                      else fail (Wrapped ''resolve github repo for PR state'' e)
                  | Inr row \<Rightarrow>
                      andthen (wrap_err ''mint github token for PR state''
                          (in_hosting (src_Token src (ghr_installation_id row) [ghr_repo_id row]))) (\<lambda>token.
                        andthen (wrap_err ''lookup github PR state''
                            (in_hosting (src_Lookup src token (pp_Owner parsed) (pp_Repo parsed) (pp_Number parsed)))) (\<lambda>pr.
                          if pr = None then fail (ErrNew ''lookup github PR state: empty GitHub response'')
                          else bot_saveConversationPRState b now org thread pr)))))"

definition refreshConversationPRState :: "'w pr_bot \<Rightarrow> go_time \<Rightarrow> string \<Rightarrow> string \<Rightarrow> string \<Rightarrow> ('w conv_db, unit) go" where
  "refreshConversationPRState b now org thread rawURL = refreshConversationPRStateForRepo b now org thread rawURL [] []"

definition refreshConversationPRStateBestEffort ::
  "'w pr_bot \<Rightarrow> go_time \<Rightarrow> string \<Rightarrow> string \<Rightarrow> string \<Rightarrow> ('w conv_db, unit) go" where
  "refreshConversationPRStateBestEffort b now org thread rawURL =
     attempt (refreshConversationPRState b now org thread rawURL) (\<lambda>r. ret ())"

text \<open>The loop over the candidates; the clock is read in each save.\<close>

fun refresh_each ::
  "'w pr_bot \<Rightarrow> (nat \<Rightarrow> go_time) \<Rightarrow> conversation_row list \<Rightarrow> backfill_result \<Rightarrow> ('w conv_db, backfill_result) go" where
  "refresh_each b clock [] res = ret res"
| "refresh_each b clock (row # rows) res =
     (let res1 = res\<lparr>bf_Scanned := bf_Scanned res + 1\<rparr>
      in if trim_space (cv_pr_url row) = [] then refresh_each b clock rows (res1\<lparr>bf_Skipped := bf_Skipped res1 + 1\<rparr>)
         else attempt (refreshConversationPRStateForRepo b (clock (bf_Scanned res)) (cv_org_id row) (cv_thread_id row)
                (cv_pr_url row) (cv_github_owner row) (cv_github_repo row)) (\<lambda>r.
              case r of
                Inl e \<Rightarrow> refresh_each b clock rows (res1\<lparr>bf_Failed := bf_Failed res1 + 1\<rparr>)
              | Inr u \<Rightarrow> refresh_each b clock rows (res1\<lparr>bf_Updated := bf_Updated res1 + 1\<rparr>)))"

definition refreshPRStateCandidates ::
  "'w pr_bot \<Rightarrow> (nat \<Rightarrow> go_time) \<Rightarrow> conversation_row list \<Rightarrow> ('w conv_db, backfill_result) go" where
  "refreshPRStateCandidates b clock rows =
     refresh_each b clock rows \<lparr>bf_Scanned = 0, bf_Updated = 0, bf_Skipped = 0, bf_Failed = 0\<rparr>"

definition prStateBackfillDefaultLimit :: int where "prStateBackfillDefaultLimit = 1000"
definition prStateBackfillMaxLimit :: int where "prStateBackfillMaxLimit = 10000"
definition defaultPRStatePollLimit :: int where "defaultPRStatePollLimit = 100"
definition defaultPRStatePollIntervalSeconds :: int where "defaultPRStatePollIntervalSeconds = 300"

definition clamp_limit :: "int \<Rightarrow> int \<Rightarrow> int" where
  "clamp_limit dflt limit = (let l = (if limit \<le> 0 then dflt else limit)
     in if prStateBackfillMaxLimit < l then prStateBackfillMaxLimit else l)"

definition pr_bot_ready :: "'w pr_bot \<Rightarrow> ('w conv_db, unit) go" where
  "pr_bot_ready b = (if \<not> pb_Store b then fail (ErrNew ''database is not configured'')
     else if pb_Source b = None then fail (ErrNew ''github source is not initialized'') else ret ())"

definition BackfillConversationPRStates ::
  "'w pr_bot \<Rightarrow> (nat \<Rightarrow> go_time) \<Rightarrow> int \<Rightarrow> bool \<Rightarrow> ('w conv_db, backfill_result) go" where
  "BackfillConversationPRStates b clock limit force =
     andthen (pr_bot_ready b) (\<lambda>_.
       andthen (wrap_err ''list PR state backfill candidates''
           (ListConversationPRStateBackfillCandidates force (int32 (clamp_limit prStateBackfillDefaultLimit limit))))
         (\<lambda>rows. refreshPRStateCandidates b clock rows))"

definition PollPATConversationPRStates ::
  "'w pr_bot \<Rightarrow> go_time \<Rightarrow> (nat \<Rightarrow> go_time) \<Rightarrow> int \<Rightarrow> duration \<Rightarrow> ('w conv_db, backfill_result) go" where
  "PollPATConversationPRStates b now clock limit staleAfter0 =
     andthen (pr_bot_ready b) (\<lambda>_.
       let staleAfter = (if staleAfter0 \<le> 0 then defaultPRStatePollIntervalSeconds * second else staleAfter0)
       in andthen (wrap_err ''list PAT PR state poll candidates''
           (ListPATConversationPRStatePollCandidates (now - staleAfter) (int32 (clamp_limit defaultPRStatePollLimit limit))))
         (\<lambda>rows. refreshPRStateCandidates b clock rows))"

chapter \<open>The saves of a run in progress\<close>

text \<open>
  The saves of a run in progress (internal/bot/persister.go) and the helpers of the terminal save
  (bot_helpers.go, appendFreshRunBlocks of conversation_run.go). A panic is an Inl with its message. In
  the JSON that is hashed a nil turn is written as an empty one; which turns are nil is the same in
  every tick of a persister, so the comparison of two ticks does not see the difference.
\<close>

datatype append_mode = AppendToFirstTurn | AppendAsNewTurn | AppendToLastTurn

section \<open>The terminal save\<close>

definition appendBlocksToFirstTurn :: "block list \<Rightarrow> conversation \<Rightarrow> conversation" where
  "appendBlocksToFirstTurn bs rec =
     (if bs = [] then rec
      else case cr_ResponseBlocks rec of
        [] \<Rightarrow> rec\<lparr>cr_ResponseBlocks := [bs]\<rparr>
      | t # ts \<Rightarrow> rec\<lparr>cr_ResponseBlocks := (t @ bs) # ts\<rparr>)"

definition appendBlocksAsNewTurn :: "string \<Rightarrow> block list \<Rightarrow> conversation \<Rightarrow> conversation" where
  "appendBlocksAsNewTurn txt bs rec =
     rec\<lparr>cr_History := Some (elems (cr_History rec) @ [txt]), cr_ResponseBlocks := cr_ResponseBlocks rec @ [bs]\<rparr>"

text \<open>Empty turns up to a length, and blocks added to the turn at an index.\<close>

definition pad_turns :: "nat \<Rightarrow> block list list \<Rightarrow> block list list" where
  "pad_turns n ts = ts @ replicate (n - length ts) []"

definition add_to_turn :: "nat \<Rightarrow> block list \<Rightarrow> block list list \<Rightarrow> block list list" where
  "add_to_turn k bs ts = ts[k := ts ! k @ bs]"

definition appendBlocksToLastTurn :: "block list \<Rightarrow> conversation \<Rightarrow> string + conversation" where
  "appendBlocksToLastTurn bs rec =
     (let n = length (elems (cr_History rec)); ts = pad_turns n (cr_ResponseBlocks rec)
      in if bs = [] then Inr rec
         else if n = 0 then Inr (appendBlocksToFirstTurn bs rec)
         else if n < length ts then Inl (''appendBlocksToLastTurn: ResponseBlocks ('' @ show_nat (length ts) @
           '') longer than History ('' @ show_nat n @ '')'')
         else Inr (rec\<lparr>cr_ResponseBlocks := add_to_turn (n - 1) bs ts\<rparr>))"

definition appendFreshRunBlocks :: "append_mode \<Rightarrow> block list \<Rightarrow> conversation \<Rightarrow> string + conversation" where
  "appendFreshRunBlocks mode bs rec =
     (case mode of
        AppendToFirstTurn \<Rightarrow> Inr (appendBlocksToFirstTurn bs rec)
      | AppendToLastTurn \<Rightarrow> appendBlocksToLastTurn bs rec
      | AppendAsNewTurn \<Rightarrow> Inl ''appendFreshRunBlocks: appendAsNewTurn is not valid for fresh runs'')"

section \<open>The persister\<close>

record chat_persister =
  cp_orgID :: string
  cp_threadID :: string
  cp_history :: "string list option"
  cp_creatorID :: string
  cp_priorBlocks :: "block list list"
  cp_mode :: append_mode

definition newChatPersister :: "conversation \<Rightarrow> append_mode \<Rightarrow> chat_persister" where
  "newChatPersister rec mode = \<lparr>cp_orgID = cr_OrgID rec, cp_threadID = cr_ThreadID rec,
     cp_history = copied (cr_History rec), cp_creatorID = cr_CreatorID rec, cp_priorBlocks = cr_ResponseBlocks rec,
     cp_mode = mode\<rparr>"

text \<open>\<open>current\<close> is the snapshot of the recorder.\<close>

definition persister_blocks :: "chat_persister \<Rightarrow> block list \<Rightarrow> string + block list list" where
  "persister_blocks p current =
     (let n = length (elems (cp_history p)); prior = cp_priorBlocks p
      in case cp_mode p of
        AppendAsNewTurn \<Rightarrow> Inr (prior @ [current])
      | AppendToFirstTurn \<Rightarrow> Inr (case prior of [] \<Rightarrow> [current] | t # ts \<Rightarrow> (t @ current) # ts)
      | AppendToLastTurn \<Rightarrow>
          let ts = pad_turns n prior
          in if n < length ts then Inl (''chatPersister appendToLastTurn: priorBlocks ('' @ show_nat (length ts) @
               '') longer than history ('' @ show_nat n @ '')'')
             else if n = 0 then Inl ''chatPersister appendToLastTurn: history is empty''
             else Inr (add_to_turn (n - 1) current ts))"

definition persister_snapshot :: "chat_persister \<Rightarrow> block list \<Rightarrow> string + conversation" where
  "persister_snapshot p current =
     (case persister_blocks p current of
        Inl panic \<Rightarrow> Inl panic
      | Inr bs \<Rightarrow> Inr (zero_conversation\<lparr>cr_OrgID := cp_orgID p, cr_ThreadID := cp_threadID p,
          cr_History := copied (cp_history p), cr_CreatorID := cp_creatorID p, cr_ResponseBlocks := bs\<rparr>))"

definition zero_digest :: string where "zero_digest = replicate 32 (char_of (0 :: nat))"

text \<open>
  One tick of the loop: \<open>sha\<close> is SHA-256 of the text of the JSON, \<open>d\<close> the digest of the last flush. The
  result is the new digest and whether a save was made; its error is only logged.
\<close>

definition persister_flush ::
  "rfc \<Rightarrow> (json \<Rightarrow> string) \<Rightarrow> bool \<Rightarrow> chat_persister \<Rightarrow> block list \<Rightarrow> go_time \<Rightarrow> string \<Rightarrow> 'w conv_db \<Rightarrow>
   string + ((string \<times> bool) \<times> 'w conv_db)" where
  "persister_flush R sha en p current now d s =
     (case persister_snapshot p current of
        Inl panic \<Rightarrow> Inl panic
      | Inr rec \<Rightarrow> (case encodeBlocks R (cr_ResponseBlocks rec) of
          Inl e \<Rightarrow> Inr ((d, False), s)
        | Inr raws \<Rightarrow>
            if sha (JArr raws) = d then Inr ((d, False), s)
            else (case conv_SaveProgress R en now rec s of (r, t) \<Rightarrow> Inr ((sha (JArr raws), True), t))))"

text \<open>The loop from the start: a snapshot and a time for each tick.\<close>

fun persister_ticks ::
  "rfc \<Rightarrow> (json \<Rightarrow> string) \<Rightarrow> bool \<Rightarrow> chat_persister \<Rightarrow> (block list \<times> go_time) list \<Rightarrow> string \<Rightarrow> 'w conv_db \<Rightarrow>
   string + (string \<times> 'w conv_db)" where
  "persister_ticks R sha en p [] d s = Inr (d, s)"
| "persister_ticks R sha en p ((current, now) # ticks) d s =
     (case persister_flush R sha en p current now d s of
        Inl panic \<Rightarrow> Inl panic
      | Inr ((d', saved), t) \<Rightarrow> persister_ticks R sha en p ticks d' t)"

definition persister_Run ::
  "rfc \<Rightarrow> (json \<Rightarrow> string) \<Rightarrow> bool \<Rightarrow> chat_persister \<Rightarrow> (block list \<times> go_time) list \<Rightarrow> 'w conv_db \<Rightarrow> string + (string \<times> 'w conv_db)" where
  "persister_Run R sha en p ticks s = persister_ticks R sha en p ticks zero_digest s"

section \<open>The persister and the terminal save agree\<close>

text \<open>What the terminal save of a mode makes of a record: the text is that of the new turn.\<close>

definition terminal_turns :: "append_mode \<Rightarrow> string \<Rightarrow> block list \<Rightarrow> conversation \<Rightarrow> string + block list list" where
  "terminal_turns mode txt bs rec =
     (case mode of
        AppendAsNewTurn \<Rightarrow> Inr (cr_ResponseBlocks (appendBlocksAsNewTurn txt bs rec))
      | _ \<Rightarrow> map_sum id cr_ResponseBlocks (appendFreshRunBlocks mode bs rec))"

lemma persister_terminal:
  assumes "bs \<noteq> []" and "mode = AppendToLastTurn \<longrightarrow> elems (cr_History rec) \<noteq> [] \<and>
    length (cr_ResponseBlocks rec) \<le> length (elems (cr_History rec))"
  shows "\<exists>ts. terminal_turns mode txt bs rec = Inr ts \<and> persister_blocks (newChatPersister rec mode) bs = Inr ts"
  using assms
  by (cases mode) (auto simp: terminal_turns_def persister_blocks_def newChatPersister_def appendBlocksAsNewTurn_def
      appendFreshRunBlocks_def appendBlocksToFirstTurn_def appendBlocksToLastTurn_def pad_turns_def Let_def
      split: list.splits)

end
