(* ===== verification/Conv_Invariant.thy ===== *)
theory Conv_Invariant
  imports Conv_Store
begin

text \<open>
  The consistency of the tables of conversations, kept by every operation of the store, the refresh of
  pull request states and the persister, and the step relation of a client of the store.
\<close>

section \<open>The invariant\<close>

definition conv_ok :: "'w conv_db \<Rightarrow> bool" where
  "conv_ok s \<longleftrightarrow> table_inv conv_key (\<lambda>r. conversation_row_error r = None) (conversations s) \<and>
     table_inv ca_id (\<lambda>a. attachment_row_error a = None) (conversation_attachments s) \<and>
     (\<forall>a \<in> set (conversation_attachments s). (ca_org_id a, ca_thread_id a) \<in> conv_key ` set (conversations s))"

interpretation convs: keyed_table conv_key conversations conversations_update
  by unfold_locales simp

interpretation atts: keyed_table ca_id conversation_attachments conversation_attachments_update
  by unfold_locales simp

lemma conv_ok_hosting [simp]: "conv_ok (s\<lparr>hosting := w\<rparr>) = conv_ok s"
  by (simp add: conv_ok_def)

lemma keeps_read_only: "(\<And>s. snd (m s) = s) \<Longrightarrow> keeps_inv P m"
  by (simp add: keeps_inv_def)

section \<open>Statements\<close>

lemma conv_ok_grows:
  assumes "conv_ok s" and "table_inv conv_key (\<lambda>r. conversation_row_error r = None) (conversations t)"
    and "conv_key ` set (conversations s) \<subseteq> conv_key ` set (conversations t)"
    and "conversation_attachments t = conversation_attachments s"
  shows "conv_ok t"
  using assms by (auto simp: conv_ok_def)

lemma conversation_checked:
  "check_row conversation_constraints s r = None \<Longrightarrow> conversation_row_error r = None"
  by (simp add: check_row_def conversation_constraints_def split: option.splits)

lemma keys_mapped:
  assumes "\<And>r. conv_key (f r) = conv_key r"
  shows "conv_key ` set (map (\<lambda>r. if p r then f r else r) l) = conv_key ` set l"
  unfolding set_map image_image by (rule image_cong [OF refl]) (simp add: assms)

lemma keeps_update_conv:
  assumes "\<And>r. conv_key (f r) = conv_key r"
  shows "keeps_inv conv_ok (update_conv p f)"
proof (rule keeps_invI)
  fix s :: "'a conv_db" and res t assume ok: "conv_ok s" and run: "update_conv p f s = (res, t)"
  note run = run [unfolded update_conv_def]
  have 1: "table_inv conv_key (\<lambda>r. conversation_row_error r = None) (conversations s)"
    using ok by (simp add: conv_ok_def)
  have 2: "table_inv conv_key (\<lambda>r. conversation_row_error r = None) (conversations t)"
    by (rule convs.table_inv_update_all [OF 1 assms conversation_checked run])
  from run show "conv_ok t"
  proof (cases rule: convs.update_all_cases)
    case (unchanged e)
    with ok show ?thesis by simp
  next
    case written
    show ?thesis by (rule conv_ok_grows [OF ok 2]) (simp_all add: written(2) keys_mapped [OF assms] del: set_map)
  qed
qed

lemma keeps_exec [keeps]: "keeps_inv P q \<Longrightarrow> keeps_inv P (exec q)"
  unfolding exec_def by (intro keeps_andthen keeps_ret)

lemma with_pr_url_key [simp]: "conv_key (with_pr_url u r) = conv_key r"
  by (simp add: with_pr_url_def conv_key_def)

lemma conv_key_untouched [simp]:
  "conv_key (r\<lparr>cv_custom_title := a\<rparr>) = conv_key r" "conv_key (r\<lparr>cv_history := b\<rparr>) = conv_key r"
  "conv_key (r\<lparr>cv_response_blocks := c\<rparr>) = conv_key r" "conv_key (r\<lparr>cv_creator_id := d\<rparr>) = conv_key r"
  "conv_key (r\<lparr>cv_updated_at := e\<rparr>) = conv_key r" "conv_key (r\<lparr>cv_sandbox_id := f\<rparr>) = conv_key r"
  "conv_key (r\<lparr>cv_branch := g\<rparr>) = conv_key r" "conv_key (r\<lparr>cv_task_options := h\<rparr>) = conv_key r"
  "conv_key (r\<lparr>cv_github_owner := i\<rparr>) = conv_key r" "conv_key (r\<lparr>cv_github_repo := j\<rparr>) = conv_key r"
  "conv_key (r\<lparr>cv_agent_slug := k\<rparr>) = conv_key r" "conv_key (r\<lparr>cv_model := l\<rparr>) = conv_key r"
  "conv_key (r\<lparr>cv_awaiting_repo := m\<rparr>) = conv_key r" "conv_key (r\<lparr>cv_pr_state := n\<rparr>) = conv_key r"
  "conv_key (r\<lparr>cv_pr_merged := q\<rparr>) = conv_key r" "conv_key (r\<lparr>cv_pr_merged_at := u\<rparr>) = conv_key r"
  "conv_key (r\<lparr>cv_pr_closed_at := v\<rparr>) = conv_key r" "conv_key (r\<lparr>cv_pr_state_checked_at := w\<rparr>) = conv_key r"
  "conv_key (r\<lparr>cv_created_at := x\<rparr>) = conv_key r"
  by (simp_all add: conv_key_def)

lemma with_pr_state_key [simp]: "conv_key (with_pr_state now st m x y r) = conv_key r"
  by (simp add: with_pr_state_def)

lemma conv_updates [keeps]:
  "keeps_inv conv_ok (RenameConversation org thread title)"
  "keeps_inv conv_ok (SaveConversationPRState now st m x y org thread)"
  "keeps_inv conv_ok (SaveConversationPRStateByURL now st m x y org owner repo url n)"
  "keeps_inv conv_ok (SaveConversationProgress now org thread h bs c)"
  "keeps_inv conv_ok (SaveConversationRunMetadata now sb br url org thread)"
  "keeps_inv conv_ok (SaveConversationTaskOptions now org thread opts)"
  unfolding RenameConversation_def SaveConversationPRState_def SaveConversationPRStateByURL_def
    SaveConversationProgress_def SaveConversationRunMetadata_def SaveConversationTaskOptions_def
  by (intro keeps_exec keeps_update_conv; simp)+

lemma upsert_keeps_keys:
  assumes "sql_upsert conversations conversations_update chk (\<lambda>r. conv_key r = conv_key x) x g s = (res, t)"
    and "\<And>r. conv_key (g r) = conv_key r"
  shows "conv_key ` set (conversations s) \<subseteq> conv_key ` set (conversations t) \<and>
    conversation_attachments t = conversation_attachments s"
  using assms(1)
proof (cases rule: convs.upsert_cases)
  case (updated r)
  then have "conv_key (g r) = conv_key x" using assms(2) find_SomeD by fastforce
  then have "conv_key ` set (replace_rows (\<lambda>r. conv_key r = conv_key x) (g r) (conversations s)) =
      conv_key ` set (conversations s)"
    unfolding replace_rows_def set_map image_image by (intro image_cong) simp_all
  with updated show ?thesis by simp
qed auto

lemma upsert_keeps [keeps]: "keeps_inv conv_ok (UpsertConversation now x)"
proof (rule keeps_invI)
  fix s :: "'a conv_db" and res t assume ok: "conv_ok s" and run: "UpsertConversation now x s = (res, t)"
  define y where "y = x\<lparr>cv_pr_state := [], cv_pr_merged := False, cv_pr_merged_at := None, cv_pr_closed_at := None,
    cv_pr_state_checked_at := None, cv_custom_title := [], cv_created_at := Some now, cv_updated_at := Some now\<rparr>"
  define g where "g = (\<lambda>r. (with_pr_url (cv_pr_url x) r)\<lparr>cv_sandbox_id := cv_sandbox_id x, cv_branch := cv_branch x,
    cv_history := cv_history x, cv_response_blocks := cv_response_blocks x, cv_github_owner := cv_github_owner x,
    cv_github_repo := cv_github_repo x, cv_agent_slug := cv_agent_slug x, cv_model := cv_model x,
    cv_task_options := cv_task_options x, cv_awaiting_repo := cv_awaiting_repo x, cv_updated_at := Some now\<rparr>)"
  have key: "conv_key y = conv_key x" "\<And>r. conv_key (g r) = conv_key r" by (simp_all add: y_def g_def)
  have run': "sql_upsert conversations conversations_update conversation_constraints (\<lambda>r. conv_key r = conv_key y) y g s = (res, t)"
    using run unfolding UpsertConversation_def key(1) by (simp add: y_def g_def)
  have 1: "table_inv conv_key (\<lambda>r. conversation_row_error r = None) (conversations s)"
    using ok by (simp add: conv_ok_def)
  have "table_inv conv_key (\<lambda>r. conversation_row_error r = None) (conversations t)"
    by (rule convs.table_inv_upsert [OF 1 conversation_checked key(2) conversation_checked run'])
  with upsert_keeps_keys [OF run' key(2)] conv_ok_grows [OF ok] show "conv_ok t" by blast
qed

lemma delete_conv_keeps [keeps]: "keeps_inv conv_ok (DeleteConversation org thread)"
proof (rule keeps_invI)
  fix s :: "'a conv_db" and r t assume ok: "conv_ok s" and run: "DeleteConversation org thread s = (r, t)"
  have "(ca_org_id a, ca_thread_id a) \<in> conv_key ` set (conversations t)" if a: "a \<in> set (conversation_attachments t)" for a
  proof -
    have "a \<in> set (conversation_attachments s)" and keep: "\<not> ((ca_org_id a, ca_thread_id a) = (org, thread) \<and>
        list_ex (is_conv org thread) (conversations s))" using a run by (auto simp: DeleteConversation_def)
    then obtain c where c: "c \<in> set (conversations s)" "conv_key c = (ca_org_id a, ca_thread_id a)"
      using ok by (auto simp: conv_ok_def)
    then have "\<not> is_conv org thread c" using keep by (auto simp: is_conv_def list_ex_iff)
    then have "c \<in> set (conversations t)" using c run by (auto simp: DeleteConversation_def)
    with c show ?thesis by (metis image_eqI)
  qed
  with ok run show "conv_ok t" by (auto simp: conv_ok_def DeleteConversation_def table_inv_def distinct_map_filter)
qed

lemma attachment_checked:
  "check_row attachment_constraints s a = None \<Longrightarrow>
   attachment_row_error a = None \<and> (ca_org_id a, ca_thread_id a) \<in> conv_key ` set (conversations s)"
  by (simp add: check_row_def attachment_constraints_def split: option.splits if_splits)

lemma save_attachment_keeps [keeps]: "keeps_inv conv_ok (SaveConversationAttachment a)"
proof (rule keeps_invI)
  fix s :: "'a conv_db" and res t assume ok: "conv_ok s" and run: "SaveConversationAttachment a s = (res, t)"
  note run = run [unfolded SaveConversationAttachment_def]
  have 1: "table_inv ca_id (\<lambda>a. attachment_row_error a = None) (conversation_attachments s)"
    using ok by (simp add: conv_ok_def)
  have 2: "table_inv ca_id (\<lambda>a. attachment_row_error a = None) (conversation_attachments t)"
    by (rule atts.table_inv_insert [OF 1 conjunct1 [OF attachment_checked] run])
  from run show "conv_ok t"
  proof (cases rule: atts.insert_cases)
    case (unchanged e)
    with ok show ?thesis by simp
  next
    case written
    with 2 ok attachment_checked [OF written(2)] show ?thesis by (simp add: conv_ok_def)
  qed
qed

lemma delete_attachments_keeps [keeps]: "keeps_inv conv_ok (DeleteConversationAttachmentsForTurn org thread turn)"
  unfolding DeleteConversationAttachmentsForTurn_def
  by (intro keeps_exec) (auto simp: keeps_inv_def sql_delete_def conv_ok_def table_inv_def distinct_map_filter)

lemma page_keeps: "snd (sql_page lim off rows s) = s"
  by (simp add: sql_page_def)

lemma conv_reads [simp]:
  "snd (GetConversation org thread s) = s" "snd (ListConversationsByPRURL org owner repo url n s) = s"
  "snd (ListConversationPRStateBackfillCandidates force lim s) = s"
  "snd (ListPATConversationPRStatePollCandidates t lim s) = s"
  "snd (SearchConversations org b1 c b2 a q lim off s) = s" "snd (GetConversationAttachment org i s) = s"
  "snd (ListConversationAttachments org thread s) = s" "snd (ListConversationAttachmentsForTurn org thread turn s) = s"
  "snd (conv_GetGithubRepoForOrg org owner name s) = s"
  by (simp_all add: GetConversation_def ListConversationsByPRURL_def ListConversationPRStateBackfillCandidates_def
      ListPATConversationPRStatePollCandidates_def SearchConversations_def GetConversationAttachment_def
      ListConversationAttachments_def ListConversationAttachmentsForTurn_def conv_GetGithubRepoForOrg_def page_keeps
      sql_get_def split: option.splits list.splits)

chapter \<open>Steps\<close>

text \<open>
  Every method of the store and every refresh of pull request states as a step of the tables; the
  steps keep their consistency.
\<close>

section \<open>Read-only queries\<close>

lemma conv_reads_keep [keeps]:
  "keeps_inv P (GetConversation org thread)" "keeps_inv P (ListConversationsByPRURL org owner repo url n)"
  "keeps_inv P (ListConversationPRStateBackfillCandidates force lim)"
  "keeps_inv P (ListPATConversationPRStatePollCandidates t lim)"
  "keeps_inv P (SearchConversations org b1 c b2 a q lim off)" "keeps_inv P (GetConversationAttachment org i)"
  "keeps_inv P (ListConversationAttachments org thread)" "keeps_inv P (ListConversationAttachmentsForTurn org thread turn)"
  "keeps_inv P (conv_GetGithubRepoForOrg org owner name)"
  by (rule keeps_read_only, simp)+

section \<open>The store\<close>

lemma store_keeps [keeps]:
  "keeps_inv conv_ok (conv_ListByPRURL R en org owner repo n url)" "keeps_inv conv_ok (conv_Get R en org thread)"
  "keeps_inv conv_ok (conv_Search R en org opts)" "keeps_inv conv_ok (conv_SaveProgress R en now r)"
  "keeps_inv conv_ok (conv_SaveRunMetadata en now r)" "keeps_inv conv_ok (conv_Upsert R en now r)"
  "keeps_inv conv_ok (conv_SaveTaskOptions en now org thread task_opts)" "keeps_inv conv_ok (conv_Delete en org thread)"
  "keeps_inv conv_ok (conv_Rename en org thread title)"
  unfolding conv_ListByPRURL_def conv_Get_def conv_Search_def conv_SaveProgress_def conv_SaveRunMetadata_def
    conv_Upsert_def conv_SaveTaskOptions_def conv_Delete_def conv_Rename_def
  by (intro keeps)+

lemma save_each_keeps [keeps]: "keeps_inv conv_ok (save_each clock n as)"
  by (induction as arbitrary: n) (simp_all, intro keeps)

lemma attachment_store_keeps [keeps]:
  "keeps_inv conv_ok (conv_SaveAttachments en clock as)" "keeps_inv conv_ok (conv_ListAttachments en org thread)"
  "keeps_inv conv_ok (conv_ListAttachmentsForTurn en org thread turn)"
  "keeps_inv conv_ok (conv_DeleteAttachmentsForTurn en org thread turn)" "keeps_inv conv_ok (conv_GetAttachment en org i)"
  unfolding conv_SaveAttachments_def conv_ListAttachments_def conv_ListAttachmentsForTurn_def
    conv_DeleteAttachmentsForTurn_def conv_GetAttachment_def
  by (intro keeps)+

section \<open>Pull request state\<close>

lemma in_hosting_keeps [keeps]: "keeps_inv conv_ok (in_hosting m)"
  by (auto simp: keeps_inv_def in_hosting_def split: prod.splits)

lemma bot_save_keeps [keeps]:
  "keeps_inv conv_ok (bot_saveConversationPRState b now org thread pr)"
  "keeps_inv conv_ok (bot_saveConversationPRStateByURL b now org owner repo n url pr)"
  unfolding bot_saveConversationPRState_def bot_saveConversationPRStateByURL_def by (intro keeps)+

lemma refresh_keeps [keeps]:
  "keeps_inv conv_ok (refreshConversationPRStateForRepo b now org thread url owner repo)"
  unfolding refreshConversationPRStateForRepo_def by (intro keeps)

lemma refresh_best_effort_keeps [keeps]:
  "keeps_inv conv_ok (refreshConversationPRStateBestEffort b now org thread url)"
  unfolding refreshConversationPRStateBestEffort_def refreshConversationPRState_def by (intro keeps)

lemma refresh_each_keeps [keeps]: "keeps_inv conv_ok (refresh_each b clock rows res)"
proof (induction rows arbitrary: res)
  case (Cons row rows)
  show ?case unfolding refresh_each.simps by (intro keeps Cons.IH)
qed simp

lemma poll_keeps [keeps]:
  "keeps_inv conv_ok (BackfillConversationPRStates b clock limit force)"
  "keeps_inv conv_ok (PollPATConversationPRStates b now clock' limit staleAfter)"
  unfolding BackfillConversationPRStates_def PollPATConversationPRStates_def pr_bot_ready_def refreshPRStateCandidates_def
  by (intro keeps)+

section \<open>Steps\<close>

text \<open>A save of a run in progress: of its turns by the persister, or of its sandbox, branch and pull request.\<close>

inductive run_save_step :: "rfc \<Rightarrow> string \<Rightarrow> string \<Rightarrow> 'w conv_db \<Rightarrow> 'w conv_db \<Rightarrow> bool" for R org thread where
  progress: "cr_OrgID r = org \<Longrightarrow> cr_ThreadID r = thread \<Longrightarrow> conv_SaveProgress R en now r s = (res, t) \<Longrightarrow>
    run_save_step R org thread s t"
| metadata: "cr_OrgID r = org \<Longrightarrow> cr_ThreadID r = thread \<Longrightarrow> conv_SaveRunMetadata en now r s = (res, t) \<Longrightarrow>
    run_save_step R org thread s t"

inductive conv_step :: "rfc \<Rightarrow> 'w conv_db \<Rightarrow> 'w conv_db \<Rightarrow> bool" for R where
  run_save: "run_save_step R org thread s t \<Longrightarrow> conv_step R s t"
| upsert: "conv_Upsert R en now r s = (res, t) \<Longrightarrow> conv_step R s t"
| options: "conv_SaveTaskOptions en now org thread opts s = (res, t) \<Longrightarrow> conv_step R s t"
| delete: "conv_Delete en org thread s = (res, t) \<Longrightarrow> conv_step R s t"
| rename: "conv_Rename en org thread title s = (res, t) \<Longrightarrow> conv_step R s t"
| save_attachments: "conv_SaveAttachments en clock as s = (res, t) \<Longrightarrow> conv_step R s t"
| delete_attachments: "conv_DeleteAttachmentsForTurn en org thread turn s = (res, t) \<Longrightarrow> conv_step R s t"
| pr_event: "bot_saveConversationPRStateByURL b now org owner repo n url pr s = (rows, t) \<Longrightarrow> conv_step R s t"
| pr_refresh: "refreshConversationPRStateBestEffort b now org thread url s = (res, t) \<Longrightarrow> conv_step R s t"
| pr_backfill: "BackfillConversationPRStates b clock limit force s = (counts, t) \<Longrightarrow> conv_step R s t"
| pr_poll: "PollPATConversationPRStates b now clock limit staleAfter s = (counts, t) \<Longrightarrow> conv_step R s t"
| hosting_moves: "conv_step R s (s\<lparr>hosting := w\<rparr>)"

lemma run_save_step_keeps: "run_save_step R org thread s t \<Longrightarrow> conv_ok s \<Longrightarrow> conv_ok t"
  by (induction rule: run_save_step.induct) (erule (1) keeps_invD [where P = conv_ok, rotated]; intro keeps)+

lemma conv_step_keeps: "conv_step R s t \<Longrightarrow> conv_ok s \<Longrightarrow> conv_ok t"
proof (induction rule: conv_step.induct)
  case (run_save org thread s t)
  then show ?case by (rule run_save_step_keeps)
qed (simp | erule (1) keeps_invD [where P = conv_ok, rotated], intro keeps)+

lemma conv_steps_keep: "(conv_step R)\<^sup>*\<^sup>* s t \<Longrightarrow> conv_ok s \<Longrightarrow> conv_ok t"
  by (induction rule: rtranclp_induct) (auto intro: conv_step_keeps)

end
