(* ===== verification/Conv_Laws.thy ===== *)
theory Conv_Laws
  imports Conv_Invariant "HOL-Library.Multiset"
begin

text \<open>
  What the writes to a conversation do: the encodings read back, an upsert merges with the stored row,
  a save of a run in progress erases nothing, a page of a search, the ticks of a persister and the
  loop over the candidates of a refresh.
\<close>

section \<open>The encodings read back\<close>

definition block_fits :: "rfc \<Rightarrow> block \<Rightarrow> bool" where
  "block_fits R k \<longleftrightarrow> meta_ok (bk_Meta k) \<and> stamp_ok R (bk_StartedAt k) \<and> stamp_ok R (bk_EndedAt k)"

definition turns_fit :: "rfc \<Rightarrow> block list list \<Rightarrow> bool" where
  "turns_fit R ts \<longleftrightarrow> list_all (list_all (block_fits R)) ts"

lemma marshal_reads:
  "list_all (block_fits R) bs \<Longrightarrow> \<exists>js. marshal_blocks R bs = Inr js \<and> json_elements (block_read R) js = Inr bs"
proof (induction bs)
  case (Cons b bs)
  then obtain js where "marshal_blocks R bs = Inr js" "json_elements (block_read R) js = Inr bs" by auto
  moreover obtain j where "block_json R b = Inr j" "block_read R j = Inr b"
    using block_roundtrip [of b R] Cons.prems by (auto simp: block_fits_def)
  ultimately show ?case by simp
qed simp

lemma turns_read:
  "turns_fit R ts \<Longrightarrow> \<exists>raws. encode_turns R i ts = Inr raws \<and> decode_turns R i raws = Inr ts"
proof (induction ts arbitrary: i)
  case (Cons t ts)
  then obtain raws where "encode_turns R (Suc i) ts = Inr raws" "decode_turns R (Suc i) raws = Inr ts"
    by (auto simp: turns_fit_def)
  moreover obtain js where "marshal_blocks R t = Inr js" "json_elements (block_read R) js = Inr t"
    using marshal_reads [of R t] Cons.prems by (auto simp: turns_fit_def)
  ultimately show ?case by simp
qed simp

lemma blocks_read:
  assumes "turns_fit R ts"
  obtains raws where "encodeBlocks R ts = Inr raws" "decodeBlocks R raws = Inr ts"
  using turns_read [OF assms, of 0] by (auto simp: encodeBlocks_def decodeBlocks_def)

definition options_ok :: "task_options \<Rightarrow> bool" where
  "options_ok opts \<longleftrightarrow> sorted_wrt (<) (map fst opts)"

lemma set_option_last: "\<forall>x \<in> set m. fst x < k \<Longrightarrow> set_option k v m = m @ [(k, v)]"
  by (induction k v m rule: set_option.induct) (auto dest: order.asym)

lemma read_options_sorted:
  "sorted_wrt (<) (map fst (m @ opts)) \<Longrightarrow> read_options (map (\<lambda>(k, b). (k, JBool b)) opts) m = Inr (m @ opts)"
proof (induction opts arbitrary: m)
  case (Cons x opts)
  obtain k v where x: "x = (k, v)" by fastforce
  with Cons.prems have "set_option k v m = m @ [(k, v)]"
    by (intro set_option_last) (auto simp: sorted_wrt_append)
  with x Cons.IH [of "m @ [(k, v)]"] Cons.prems show ?case by simp
qed simp

lemma task_options_read: "options_ok opts \<Longrightarrow> decodeTaskOptions (encodeTaskOptions opts) = Inr opts"
  using read_options_sorted [of "[]" opts] by (simp add: options_ok_def decodeTaskOptions_def encodeTaskOptions_def)

section \<open>Upsert and lookup\<close>

text \<open>What a lookup gives after an upsert of \<open>r\<close> over \<open>old\<close>, the row stored before, if any.\<close>

definition merged_record :: "go_time \<Rightarrow> conversation \<Rightarrow> conversation_row option \<Rightarrow> conversation" where
  "merged_record now r old = (case old of
     None \<Rightarrow> r\<lparr>cr_PRState := [], cr_PRMerged := False, cr_PRMergedAt := zero_time, cr_PRClosedAt := zero_time,
       cr_PRStateCheckedAt := zero_time, cr_CustomTitle := [], cr_CreatedAt := now, cr_UpdatedAt := now\<rparr>
   | Some c \<Rightarrow> let same = (cr_PRURL r = cv_pr_url c)
       in r\<lparr>cr_PRState := (if same then cv_pr_state c else []), cr_PRMerged := same \<and> cv_pr_merged c,
         cr_PRMergedAt := (if same then from_timestamptz (cv_pr_merged_at c) else zero_time),
         cr_PRClosedAt := (if same then from_timestamptz (cv_pr_closed_at c) else zero_time),
         cr_PRStateCheckedAt := (if same then from_timestamptz (cv_pr_state_checked_at c) else zero_time),
         cr_CustomTitle := cv_custom_title c, cr_CreatorID := cv_creator_id c,
         cr_CreatedAt := from_timestamptz (cv_created_at c), cr_UpdatedAt := now\<rparr>)"

lemma is_conv_find:
  assumes "conv_ok s" and "r \<in> set (conversations s)" and "is_conv org thread r"
  shows "find (is_conv org thread) (conversations s) = Some r"
proof -
  have "is_conv org thread = (\<lambda>x. conv_key x = conv_key r)"
    using assms(3) by (auto simp: is_conv_def)
  then show ?thesis
    using convs.find_unique [of "conversations s" r] assms(1,2) by (simp add: conv_ok_def table_inv_def)
qed

lemma row_error_None:
  "conversation_row_error c = None \<longleftrightarrow>
     cv_history c \<noteq> None \<and> cv_pr_state c \<in> set pr_states \<and> (\<exists>kvs. cv_task_options c = JObj kvs)"
  by (cases "cv_task_options c") (auto simp: conversation_row_error_def)

lemma stored_row_ok:
  assumes "conv_ok s" and "find p (conversations s) = Some c"
  shows "conversation_row_error c = None"
  using assms(1) find_SomeD [OF assms(2)] by (simp add: conv_ok_def table_inv_def)

lemma conversation_check [simp]: "check_row conversation_constraints s r = conversation_row_error r"
  by (simp add: check_row_def conversation_constraints_def split: option.splits)

lemma row_check_conversation [simp]: "row_check conversation_constraints r = conversation_row_error r"
  by (simp add: conversation_constraints_def)

text \<open>The row an upsert writes over \<open>old\<close>.\<close>

definition upserted :: "go_time \<Rightarrow> conversation_row \<Rightarrow> conversation_row option \<Rightarrow> conversation_row" where
  "upserted now x old = (case old of
     None \<Rightarrow> x\<lparr>cv_pr_state := [], cv_pr_merged := False, cv_pr_merged_at := None, cv_pr_closed_at := None,
       cv_pr_state_checked_at := None, cv_custom_title := [], cv_created_at := Some now, cv_updated_at := Some now\<rparr>
   | Some r \<Rightarrow> (with_pr_url (cv_pr_url x) r)\<lparr>cv_sandbox_id := cv_sandbox_id x, cv_branch := cv_branch x,
       cv_history := cv_history x, cv_response_blocks := cv_response_blocks x, cv_github_owner := cv_github_owner x,
       cv_github_repo := cv_github_repo x, cv_agent_slug := cv_agent_slug x, cv_model := cv_model x,
       cv_task_options := cv_task_options x, cv_awaiting_repo := cv_awaiting_repo x, cv_updated_at := Some now\<rparr>)"

lemma upserted_key [simp]:
  "old = Some r \<Longrightarrow> conv_key r = conv_key x \<Longrightarrow> conv_key (upserted now x old) = conv_key x"
  "conv_key (upserted now x None) = conv_key x"
  by (simp_all add: upserted_def)

lemma upserted_checked:
  assumes "cv_history x \<noteq> None" and "\<exists>kvs. cv_task_options x = JObj kvs"
    and "\<And>r. old = Some r \<Longrightarrow> conversation_row_error r = None"
  shows "conversation_row_error (upserted now x old) = None"
  using assms by (auto simp: row_error_None upserted_def with_pr_url_def pr_states_def split: option.splits)

text \<open>With its constraints met an upsert writes that row and leaves the others.\<close>

lemma upsert_writes:
  assumes ok: "conv_ok s" and x: "cv_history x \<noteq> None" "\<exists>kvs. cv_task_options x = JObj kvs"
    and old: "find (\<lambda>r. conv_key r = conv_key x) (conversations s) = old"
  shows "UpsertConversation now x s = (Inr (upserted now x old),
    s\<lparr>conversations := (case old of None \<Rightarrow> conversations s @ [upserted now x None]
       | Some r \<Rightarrow> replace_rows (\<lambda>r. conv_key r = conv_key x) (upserted now x old) (conversations s))\<rparr>)"
proof -
  have chk: "conversation_row_error (upserted now x old) = None" "conversation_row_error (upserted now x None) = None"
    using upserted_checked [OF x, of old now] upserted_checked [OF x, of None now] stored_row_ok [OF ok] old by auto
  show ?thesis
  proof (cases old)
    case None
    with chk old show ?thesis
      by (simp add: UpsertConversation_def sql_upsert_def sql_insert_def upserted_def)
        (simp add: conversation_constraints_def)
  next
    case (Some r)
    with chk old show ?thesis
      by (simp add: UpsertConversation_def sql_upsert_def sql_update_def upserted_def)
  qed
qed

lemma upsert_lookup:
  assumes "conv_ok s" and "cv_history x \<noteq> None" "\<exists>kvs. cv_task_options x = JObj kvs"
    and old: "find (\<lambda>r. conv_key r = conv_key x) (conversations s) = old"
    and run: "UpsertConversation now x s = (res, t)"
  shows "find (\<lambda>r. conv_key r = k) (conversations t) =
    (if k = conv_key x then Some (upserted now x old) else find (\<lambda>r. conv_key r = k) (conversations s))"
proof -
  have t: "conversations t = (case old of None \<Rightarrow> conversations s @ [upserted now x None]
      | Some r \<Rightarrow> replace_rows (\<lambda>r. conv_key r = conv_key x) (upserted now x old) (conversations s))"
    using run upsert_writes [OF assms(1-4), of now] by auto
  show ?thesis
  proof (cases old)
    case None
    with t old show ?thesis by (simp add: find_append split: option.splits)
  next
    case (Some r)
    with old have key: "conv_key (upserted now x old) = conv_key x"
      using find_SomeD [OF old [unfolded Some]] by simp
    have "k = conv_key x \<Longrightarrow> ?thesis"
      using t Some key old find_replace_same [of "\<lambda>r. conv_key r = conv_key x" "conversations s" r]
      by simp
    moreover have "k \<noteq> conv_key x \<Longrightarrow> ?thesis"
      using t Some key find_replace_other [of "\<lambda>r. conv_key r = conv_key x" "\<lambda>r. conv_key r = k"]
      by simp
    ultimately show ?thesis by blast
  qed
qed

lemma merged_reads:
  assumes enc: "encodeBlocks R (cr_ResponseBlocks r) = Inr raws" "decodeBlocks R raws = Inr (cr_ResponseBlocks r)"
    and opts: "options_ok (cr_TaskOptions r)"
    and old: "\<And>c. old = Some c \<Longrightarrow> conv_key c = (cr_OrgID r, cr_ThreadID r)"
  shows "recordFromFields R (upserted now (upsert_params r raws) old) = Inr (merged_record now r old)"
proof (cases old)
  case None
  then show ?thesis
    using enc task_options_read [OF opts]
    by (simp add: upserted_def upsert_params_def recordFromFields_def merged_record_def from_timestamptz_def)
next
  case (Some c)
  with old have "cv_org_id c = cr_OrgID r" "cv_thread_id c = cr_ThreadID r" by (auto simp: conv_key_def)
  with Some show ?thesis
    using enc task_options_read [OF opts]
    by (simp add: upserted_def upsert_params_def recordFromFields_def merged_record_def with_pr_url_def Let_def
        from_timestamptz_def)
qed

section \<open>Saves of a run in progress\<close>

definition pr_columns :: "conversation_row \<Rightarrow> string \<times> bool \<times> timestamptz \<times> timestamptz \<times> timestamptz" where
  "pr_columns r = (cv_pr_state r, cv_pr_merged r, cv_pr_merged_at r, cv_pr_closed_at r, cv_pr_state_checked_at r)"

text \<open>Only the turns are replaced, what is filled in stays filled in, and the state of a pull request is forgotten at most.\<close>

definition saved_over :: "conversation_row \<Rightarrow> conversation_row \<Rightarrow> bool" where
  "saved_over r r' \<longleftrightarrow> conv_key r' = conv_key r \<and>
     (cv_custom_title r', cv_agent_slug r', cv_model r', cv_task_options r', cv_github_owner r', cv_github_repo r',
      cv_awaiting_repo r', cv_created_at r') = (cv_custom_title r, cv_agent_slug r, cv_model r, cv_task_options r,
      cv_github_owner r, cv_github_repo r, cv_awaiting_repo r, cv_created_at r) \<and>
     (cv_creator_id r = [] \<or> cv_creator_id r' = cv_creator_id r) \<and>
     (cv_sandbox_id r' = [] \<longrightarrow> cv_sandbox_id r = []) \<and> (cv_branch r' = [] \<longrightarrow> cv_branch r = []) \<and>
     (cv_pr_url r' = [] \<longrightarrow> cv_pr_url r = []) \<and>
     (pr_columns r' = pr_columns r \<or> pr_columns r' = ([], False, None, None, None))"

lemma saved_over_refl: "saved_over r r"
  by (simp add: saved_over_def)

lemma saved_over_trans: "saved_over r r' \<Longrightarrow> saved_over r' r'' \<Longrightarrow> saved_over r r''"
  unfolding saved_over_def by (intro conjI; elim conjE) (simp; fail | metis)+

definition only_saved :: "string \<Rightarrow> string \<Rightarrow> 'w conv_db \<Rightarrow> 'w conv_db \<Rightarrow> bool" where
  "only_saved org thread s t \<longleftrightarrow>
     list_all2 (\<lambda>r r'. if is_conv org thread r then saved_over r r' else r' = r) (conversations s) (conversations t) \<and>
     conversation_attachments t = conversation_attachments s"

lemma only_saved_refl: "only_saved org thread s s"
  by (simp add: only_saved_def list.rel_refl saved_over_refl)

lemma only_saved_trans:
  assumes "only_saved org thread s t" and "only_saved org thread t u"
  shows "only_saved org thread s u"
proof -
  let ?R = "\<lambda>r r'. if is_conv org thread r then saved_over r r' else r' = r"
  have tr: "?R r r''" if "?R r r'" "?R r' r''" for r r' r''
  proof (cases "is_conv org thread r")
    case True
    with that(1) have "saved_over r r'" by simp
    with True have "is_conv org thread r'" by (simp add: is_conv_def saved_over_def)
    with \<open>saved_over r r'\<close> True that(2) show ?thesis by (simp add: saved_over_trans [of r r' r''])
  qed (use that in simp)
  have "list_all2 ?R (conversations s) (conversations t)" "list_all2 ?R (conversations t) (conversations u)"
    using assms by (simp_all add: only_saved_def)
  then have "list_all2 ?R (conversations s) (conversations u)"
    by (rule list_all2_trans [of ?R ?R ?R, rotated]) (rule tr)
  with assms show ?thesis by (simp add: only_saved_def)
qed

lemma update_only_saves:
  assumes "exec (update_conv (is_conv org thread) f) s = (res, t)" and "\<And>r. saved_over r (f r)"
  shows "only_saved org thread s t"
proof -
  obtain n where "update_conv (is_conv org thread) f s = (n, t)"
    using assms(1) by (auto simp: exec_def andthen_def split: prod.splits sum.splits)
  then show ?thesis unfolding update_conv_def
  proof (cases rule: convs.update_all_cases)
    case written
    then show ?thesis using assms(2) by (simp add: only_saved_def list_all2_map2 list.rel_refl)
  qed (simp add: only_saved_refl)
qed

lemma progress_saves: "SaveConversationProgress now org thread h bs c s = (res, t) \<Longrightarrow> only_saved org thread s t"
  unfolding SaveConversationProgress_def
  by (erule update_only_saves) (simp add: saved_over_def conv_key_def pr_columns_def)

lemma metadata_saves: "SaveConversationRunMetadata now sb br url org thread s = (res, t) \<Longrightarrow> only_saved org thread s t"
  unfolding SaveConversationRunMetadata_def
  by (erule update_only_saves) (simp add: saved_over_def conv_key_def pr_columns_def with_pr_url_def)

lemma run_save_step_saves: "run_save_step R org thread s t \<Longrightarrow> only_saved org thread s t"
proof (induction rule: run_save_step.induct)
  case (progress r en now s res t)
  then show ?case
    by (auto simp: conv_SaveProgress_def wrap_err_def only_saved_refl split: if_splits sum.splits prod.splits
        dest: progress_saves)
next
  case (metadata r en now s res t)
  then show ?case
    by (auto simp: conv_SaveRunMetadata_def wrap_err_def only_saved_refl split: if_splits sum.splits prod.splits
        dest: metadata_saves)
qed

lemma run_saves: "(run_save_step R org thread)\<^sup>*\<^sup>* s t \<Longrightarrow> only_saved org thread s t"
  by (induction rule: rtranclp_induct)
    (auto intro: only_saved_refl only_saved_trans run_save_step_saves)

section \<open>A page of a search\<close>

lemma records_length: "records_from R rows = Inr recs \<Longrightarrow> length recs = length rows"
  by (induction rows arbitrary: recs) (auto split: sum.splits)

lemma records_take: "records_from R rows = Inr recs \<Longrightarrow> records_from R (take n rows) = Inr (take n recs)"
proof (induction rows arbitrary: recs n)
  case (Cons row rows)
  then show ?case by (cases n) (auto split: sum.splits)
qed simp

lemma records_drop: "records_from R rows = Inr recs \<Longrightarrow> records_from R (drop n rows) = Inr (drop n recs)"
proof (induction rows arbitrary: recs n)
  case (Cons row rows)
  then show ?case by (cases n) (auto split: sum.splits)
qed simp

text \<open>What a search is for: the text is found anywhere in the title or the first message, whatever its case.\<close>

definition found_by :: "search_options \<Rightarrow> conversation_row \<Rightarrow> bool" where
  "found_by opts r \<longleftrightarrow>
     (\<not> so_FilterCreatorID opts \<or> cv_creator_id r = so_CreatorID opts) \<and>
     (\<not> so_FilterAgentSlug opts \<or> cv_agent_slug r = so_AgentSlug opts) \<and>
     list_ex (\<lambda>txt. contains (to_lower txt) (to_lower (so_Query opts)))
       (cv_custom_title r # take 1 (elems (cv_history r)))"

lemma escape_Nil [simp]: "escapeILIKEWildcards q = [] \<longleftrightarrow> q = []"
  by (cases q) (auto simp: escapeILIKEWildcards_def)

lemma contains_Nil [simp]: "contains s []"
  by (cases s) auto

lemma ilike_query: "ilike s (''%'' @ escapeILIKEWildcards q @ ''%'') \<or> q = [] \<longleftrightarrow> contains (to_lower s) (to_lower q)"
  unfolding ilike_contains by (auto simp: to_lower_def)

lemma matches_found:
  "matches (so_FilterCreatorID opts) (so_CreatorID opts) (so_FilterAgentSlug opts) (so_AgentSlug opts)
     (escapeILIKEWildcards (so_Query opts)) r \<longleftrightarrow> found_by opts r"
proof (cases "elems (cv_history r)")
  case Nil
  then show ?thesis
    unfolding matches_def found_by_def list_ex_iff list.set ball_simps bex_simps Nil ilike_query [symmetric] by (simp add: disj_commute)
next
  case (Cons m ms)
  then have "take 1 (elems (cv_history r)) = [m]" by simp
  then show ?thesis
    unfolding matches_def found_by_def list_ex_iff list.set ball_simps bex_simps ilike_query [symmetric] Cons by (simp; blast)
qed

definition newer_first :: "conversation_row list \<Rightarrow> bool" where
  "newer_first rows \<longleftrightarrow> sorted_wrt (\<lambda>a b. (from_timestamptz (cv_created_at b), cv_thread_id b) \<le>
     (from_timestamptz (cv_created_at a), cv_thread_id a)) rows"

lemma newest_first_sorted: "newer_first (newest_first cv_created_at rows)"
proof -
  have "sorted_wrt (\<le>) (map (\<lambda>r. (from_timestamptz (cv_created_at r), cv_thread_id r)) 
      (sort_key (\<lambda>r. (from_timestamptz (cv_created_at r), cv_thread_id r)) rows))" by (rule sorted_sort_key)
  then show ?thesis by (simp add: newer_first_def newest_first_def sorted_wrt_rev sorted_wrt_map)
qed

lemma newest_first_mset [simp]: "mset (newest_first t rows) = mset rows"
  by (simp add: newest_first_def)

lemma pages_join: "concat (map (\<lambda>i. take n (drop (i * n) xs)) [0..<k]) = take (k * n) xs"
proof (induction k)
  case (Suc k)
  have "take (Suc k * n) xs = take (k * n) xs @ take n (drop (k * n) xs)"
    unfolding take_add [symmetric] by (simp add: add.commute)
  with Suc show ?case by simp
qed simp

end
