(* ===== verification/Conv_Polling.thy ===== *)
theory Conv_Polling
  imports Conv_Laws
begin

text \<open>
  The refresh of stored pull request states: what it changes, its counts, and the page of candidates a
  poll starts from.
\<close>

section \<open>What a refresh changes\<close>

text \<open>Only the state columns, and only of the conversations with keys in \<open>K\<close>.\<close>

definition pr_refreshed :: "(string \<times> string) list \<Rightarrow> conversation_row \<Rightarrow> conversation_row \<Rightarrow> bool" where
  "pr_refreshed K r r' \<longleftrightarrow> r' = r \<or>
     conv_key r \<in> set K \<and> (\<exists>now st m a c. r' = with_pr_state now st m a c r)"

definition only_refreshed :: "(string \<times> string) list \<Rightarrow> 'w conv_db \<Rightarrow> 'w conv_db \<Rightarrow> bool" where
  "only_refreshed K s t \<longleftrightarrow> list_all2 (pr_refreshed K) (conversations s) (conversations t) \<and>
     conversation_attachments t = conversation_attachments s \<and>
     app_installations t = app_installations s \<and> installed_repos t = installed_repos s"

lemma pr_refreshed_again:
  "pr_refreshed K r r' \<Longrightarrow> conv_key r' \<in> set K \<Longrightarrow> pr_refreshed K r (with_pr_state now st m a c r')"
  unfolding pr_refreshed_def
proof (intro disjI2, elim disjE conjE exE)
  fix now' st' m' a' c' assume "conv_key r \<in> set K" and r': "r' = with_pr_state now' st' m' a' c' r"
  moreover have "with_pr_state now st m a c r' = with_pr_state now st m a c r" by (simp add: r' with_pr_state_def)
  ultimately show "conv_key r \<in> set K \<and> (\<exists>now' st' m' a' c'. with_pr_state now st m a c r' = with_pr_state now' st' m' a' c' r)"
    by blast
qed blast

lemma only_refreshed_refl: "only_refreshed K s s"
  by (simp add: only_refreshed_def list.rel_refl pr_refreshed_def)

lemma only_refreshed_hosting [simp]: "only_refreshed K s (t\<lparr>hosting := w\<rparr>) = only_refreshed K s t"
  by (simp add: only_refreshed_def)

lemma save_pr_state_refreshes:
  assumes "(org, thread) \<in> set K"
  shows "keeps_inv (only_refreshed K s0) (SaveConversationPRState now st m a c org thread)"
  unfolding SaveConversationPRState_def
proof (intro keeps_exec keeps_invI)
  fix s :: "'a conv_db" and n t
  assume s: "only_refreshed K s0 s"
    and run: "update_conv (is_conv org thread) (with_pr_state now st m a c) s = (n, t)"
  from run [unfolded update_conv_def] show "only_refreshed K s0 t"
  proof (cases rule: convs.update_all_cases)
    case written
    have "pr_refreshed K r (if is_conv org thread r' then with_pr_state now st m a c r' else r')"
      if "pr_refreshed K r r'" for r r'
      using that assms pr_refreshed_again [OF that] by (simp add: is_conv_def)
    then have "list_all2 (pr_refreshed K) (conversations s0)
        (map (\<lambda>r. if is_conv org thread r then with_pr_state now st m a c r else r) (conversations s))"
      unfolding list_all2_map2 using s by (auto simp only: only_refreshed_def elim!: list_all2_mono)
    with s written(2) show ?thesis by (simp add: only_refreshed_def)
  qed (simp add: s)
qed

lemma in_hosting_refreshes: "keeps_inv (only_refreshed K s0) (in_hosting m)"
  by (auto simp: keeps_inv_def in_hosting_def split: prod.splits)

lemma bot_save_refreshes:
  "(org, thread) \<in> set K \<Longrightarrow> keeps_inv (only_refreshed K s0) (bot_saveConversationPRState b now org thread pr)"
  unfolding bot_saveConversationPRState_def by (intro keeps save_pr_state_refreshes)

lemma refresh_refreshes:
  "(org, thread) \<in> set K \<Longrightarrow>
   keeps_inv (only_refreshed K s0) (refreshConversationPRStateForRepo b now org thread url owner repo)"
  unfolding refreshConversationPRStateForRepo_def
  by (intro keeps bot_save_refreshes in_hosting_refreshes)

lemma refresh_each_refreshes:
  "set (map conv_key rows) \<subseteq> set K \<Longrightarrow> keeps_inv (only_refreshed K s0) (refresh_each b clock rows res)"
proof (induction rows arbitrary: res)
  case (Cons row rows)
  then have "(cv_org_id row, cv_thread_id row) \<in> set K" by (simp add: conv_key_def)
  with Cons show ?case unfolding refresh_each.simps by (intro keeps refresh_refreshes) simp_all
qed simp

section \<open>The counts\<close>

text \<open>The loop always gives a result, and each candidate is counted once.\<close>

lemma refresh_each_counts:
  "\<exists>res' t. refresh_each b clock rows res s = (Inr res', t) \<and> bf_Scanned res' = bf_Scanned res + length rows \<and>
     bf_Updated res' + bf_Skipped res' + bf_Failed res' = bf_Updated res + bf_Skipped res + bf_Failed res + length rows \<and>
     bf_Skipped res' = bf_Skipped res + length (filter (\<lambda>r. trim_space (cv_pr_url r) = []) rows)"
proof (induction rows arbitrary: res s)
  case (Cons row rows)
  let ?s1 = "res\<lparr>bf_Scanned := bf_Scanned res + 1\<rparr>"
  show ?case
  proof (cases "trim_space (cv_pr_url row) = []")
    case True
    with Cons.IH [of "?s1\<lparr>bf_Skipped := bf_Skipped res + 1\<rparr>" s] show ?thesis by (simp add: Let_def)
  next
    case False
    obtain r u where r: "refreshConversationPRStateForRepo b (clock (bf_Scanned res)) (cv_org_id row)
        (cv_thread_id row) (cv_pr_url row) (cv_github_owner row) (cv_github_repo row) s = (r, u)" by fastforce
    with False Cons.IH [of "?s1\<lparr>bf_Failed := bf_Failed res + 1\<rparr>" u] Cons.IH [of "?s1\<lparr>bf_Updated := bf_Updated res + 1\<rparr>" u]
    show ?thesis by (cases r) (simp_all add: Let_def attempt_def)
  qed
qed simp

lemma clamp_bounds:
  assumes "0 < dflt" and "dflt \<le> prStateBackfillMaxLimit"
  shows "0 < clamp_limit dflt limit" and "clamp_limit dflt limit \<le> prStateBackfillMaxLimit"
    and "0 < limit \<Longrightarrow> clamp_limit dflt limit \<le> limit" and "int32 (clamp_limit dflt limit) = clamp_limit dflt limit"
proof -
  show 1: "0 < clamp_limit dflt limit" "clamp_limit dflt limit \<le> prStateBackfillMaxLimit"
    "0 < limit \<Longrightarrow> clamp_limit dflt limit \<le> limit"
    using assms by (auto simp: clamp_limit_def Let_def prStateBackfillMaxLimit_def)
  then show "int32 (clamp_limit dflt limit) = clamp_limit dflt limit"
    by (intro int32_id) (simp add: int4_def prStateBackfillMaxLimit_def)
qed

definition backfill_candidates :: "bool \<Rightarrow> 'w conv_db \<Rightarrow> conversation_row list" where
  "backfill_candidates force s = newest_first cv_updated_at
     (filter (\<lambda>r. cv_pr_url r \<noteq> [] \<and> (force \<or> cv_pr_state_checked_at r = None)) (conversations s))"

definition poll_candidates :: "go_time \<Rightarrow> 'w conv_db \<Rightarrow> conversation_row list" where
  "poll_candidates cutoff s = poll_order (filter (\<lambda>c. cv_pr_url c \<noteq> [] \<and> installed (\<lambda>i. i < 0) s c \<and>
     \<not> installed (\<lambda>i. 0 < i) s c \<and> cv_pr_state c \<noteq> ''closed'' \<and> \<not> cv_pr_merged c \<and>
     checked_before cutoff (cv_pr_state_checked_at c)) (conversations s))"

definition pr_page :: "int \<Rightarrow> int \<Rightarrow> conversation_row list \<Rightarrow> conversation_row list" where
  "pr_page dflt limit rows = take (nat (clamp_limit dflt limit)) rows"

lemma backfill_run:
  assumes "pb_Store b" and "pb_Source b \<noteq> None"
  shows "BackfillConversationPRStates b clock limit force s =
    refreshPRStateCandidates b clock (pr_page prStateBackfillDefaultLimit limit (backfill_candidates force s)) s"
proof -
  note c = clamp_bounds [of prStateBackfillDefaultLimit limit, unfolded prStateBackfillDefaultLimit_def prStateBackfillMaxLimit_def, simplified]
  show ?thesis using assms c
    by (auto simp: BackfillConversationPRStates_def pr_bot_ready_def wrap_err_def andthen_def pr_page_def
        ListConversationPRStateBackfillCandidates_def sql_page_def backfill_candidates_def prStateBackfillDefaultLimit_def)
qed

lemma poll_run:
  assumes "pb_Store b" and "pb_Source b \<noteq> None" and "0 < staleAfter"
  shows "PollPATConversationPRStates b now clock limit staleAfter s =
    refreshPRStateCandidates b clock (pr_page defaultPRStatePollLimit limit (poll_candidates (now - staleAfter) s)) s"
proof -
  note c = clamp_bounds [of defaultPRStatePollLimit limit, unfolded defaultPRStatePollLimit_def prStateBackfillMaxLimit_def, simplified]
  show ?thesis using assms c
    by (auto simp: PollPATConversationPRStates_def pr_bot_ready_def wrap_err_def andthen_def pr_page_def
        ListPATConversationPRStatePollCandidates_def sql_page_def poll_candidates_def defaultPRStatePollLimit_def Let_def)
qed

section \<open>The page of a poll\<close>

lemma insort_low: "\<forall>b \<in> set B. k x < k b \<Longrightarrow> insort_key k x (A @ B) = insort_key k x A @ B"
  by (induction A) (cases B; auto)+

lemma insort_high: "\<forall>a \<in> set A. k a < k x \<Longrightarrow> insort_key k x (A @ B) = A @ insort_key k x B"
  by (induction A) auto

lemma sort_split:
  assumes "\<And>x y. x \<in> set ys \<Longrightarrow> y \<in> set ys \<Longrightarrow> Q x \<Longrightarrow> \<not> Q y \<Longrightarrow> k x < k y"
  shows "sort_key k ys = sort_key k (filter Q ys) @ sort_key k (filter (\<lambda>y. \<not> Q y) ys)"
  using assms
proof (induction ys)
  case (Cons y ys)
  then have "sort_key k ys = sort_key k (filter Q ys) @ sort_key k (filter (\<lambda>y. \<not> Q y) ys)" by simp
  with Cons.prems show ?case by (cases "Q y") (simp_all add: insort_low insort_high)
qed simp

lemma newest_first_filter: "newest_first t (filter P rows) = filter P (newest_first t rows)"
  by (simp add: newest_first_def filter_sort [symmetric] rev_filter)

text \<open>Later candidates queue behind those of an earlier time.\<close>

lemma poll_candidates_later:
  assumes "cutoff \<le> later"
  shows "\<exists>more. poll_candidates later s = poll_candidates cutoff s @ more"
proof -
  let ?base = "\<lambda>c. cv_pr_url c \<noteq> [] \<and> installed (\<lambda>i. i < 0) s c \<and> \<not> installed (\<lambda>i. 0 < i) s c \<and>
    cv_pr_state c \<noteq> ''closed'' \<and> \<not> cv_pr_merged c"
  let ?P = "\<lambda>t c. checked_before t (cv_pr_state_checked_at c)"
  let ?k = "\<lambda>r. case cv_pr_state_checked_at r of None \<Rightarrow> (0 :: nat, 0) | Some t \<Rightarrow> (1, t)"
  define ys where "ys = newest_first cv_updated_at (filter (\<lambda>c. ?base c \<and> ?P later c) (conversations s))"
  have "?k x < ?k y" if "?P cutoff x" "\<not> ?P cutoff y" for x y
    using that by (auto simp: checked_before_def split: option.splits)
  then have "sort_key ?k ys = sort_key ?k (filter (?P cutoff) ys) @ sort_key ?k (filter (\<lambda>y. \<not> ?P cutoff y) ys)"
    by (intro sort_split)
  moreover have "filter (?P cutoff) ys = newest_first cv_updated_at (filter (\<lambda>c. ?base c \<and> ?P cutoff c) (conversations s))"
    unfolding ys_def newest_first_filter [symmetric] filter_filter
    by (rule arg_cong [where f = "newest_first cv_updated_at"], rule filter_cong [OF refl])
      (use assms in \<open>auto simp: checked_before_def split: option.splits\<close>)
  ultimately show ?thesis
    unfolding poll_candidates_def poll_order_def ys_def by (auto simp: conj_assoc)
qed

text \<open>A candidate whose repository is not found under the very names the conversation has.\<close>

definition unresolvable :: "'w pr_bot \<Rightarrow> 'w conv_db \<Rightarrow> conversation_row \<Rightarrow> bool" where
  "unresolvable b s r \<longleftrightarrow> trim_space (cv_pr_url r) \<noteq> [] \<and>
     (case parseGitHubPRURL (pb_URL b) (cv_pr_url r) of
        Inl e \<Rightarrow> True
      | Inr parsed \<Rightarrow> isl (fst (conv_GetGithubRepoForOrg (cv_org_id r) (firstNonEmpty [cv_github_owner r, pp_Owner parsed])
          (firstNonEmpty [cv_github_repo r, pp_Repo parsed]) s)))"

lemma repo_lookup_reads: "conv_GetGithubRepoForOrg org owner name s = (fst (conv_GetGithubRepoForOrg org owner name s), s)"
  by (simp add: conv_GetGithubRepoForOrg_def split: list.splits)

text \<open>A candidate whose refresh fails and leaves everything as it was.\<close>

definition refresh_fails :: "'w pr_bot \<Rightarrow> 'w conv_db \<Rightarrow> conversation_row \<Rightarrow> bool" where
  "refresh_fails b s r \<longleftrightarrow> trim_space (cv_pr_url r) \<noteq> [] \<and>
     (\<forall>now. \<exists>e. refreshConversationPRStateForRepo b now (cv_org_id r) (cv_thread_id r) (cv_pr_url r)
        (cv_github_owner r) (cv_github_repo r) s = (Inl e, s))"

lemma unresolvable_fails:
  assumes "unresolvable b s r" and "pb_Store b" and "pb_Source b \<noteq> None"
  shows "refresh_fails b s r"
proof (cases "parseGitHubPRURL (pb_URL b) (cv_pr_url r)")
  case (Inl e)
  with assms show ?thesis by (auto simp: refresh_fails_def refreshConversationPRStateForRepo_def unresolvable_def)
next
  case (Inr parsed)
  with assms(1) obtain e where "fst (conv_GetGithubRepoForOrg (cv_org_id r) (firstNonEmpty [cv_github_owner r, pp_Owner parsed])
      (firstNonEmpty [cv_github_repo r, pp_Repo parsed]) s) = Inl e" by (auto simp: unresolvable_def isl_def)
  then have "conv_GetGithubRepoForOrg (cv_org_id r) (firstNonEmpty [cv_github_owner r, pp_Owner parsed])
      (firstNonEmpty [cv_github_repo r, pp_Repo parsed]) s = (Inl e, s)" by (metis repo_lookup_reads)
  with assms Inr show ?thesis
    by (auto simp: refresh_fails_def refreshConversationPRStateForRepo_def unresolvable_def attempt_def Let_def)
qed

lemma all_failing:
  "list_all (refresh_fails b s) rows \<Longrightarrow> refresh_each b clock rows res s =
    (Inr (res\<lparr>bf_Scanned := bf_Scanned res + length rows, bf_Failed := bf_Failed res + length rows\<rparr>), s)"
proof (induction rows arbitrary: res)
  case (Cons row rows)
  then obtain e where "refreshConversationPRStateForRepo b (clock (bf_Scanned res)) (cv_org_id row) (cv_thread_id row)
      (cv_pr_url row) (cv_github_owner row) (cv_github_repo row) s = (Inl e, s)"
    by (auto simp: refresh_fails_def)
  with Cons show ?case by (simp add: attempt_def refresh_fails_def Let_def)
qed simp

end
