(* ===== verification/Conv_Saving.thy ===== *)
theory Conv_Saving
  imports Conv_Laws
begin

text \<open>
  The ticks of a persister: after any number of them the stored turns are those of the last snapshot,
  which are the turns a terminal save of the same blocks would store.
\<close>

section \<open>A write to one conversation\<close>

lemma update_conv_writes:
  assumes ok: "conv_ok s" and "\<And>r. conversation_row_error r = None \<Longrightarrow> conversation_row_error (f r) = None"
  shows "update_conv p f s = (Inr (length (filter p (conversations s))),
    s\<lparr>conversations := map (\<lambda>r. if p r then f r else r) (conversations s)\<rparr>)"
proof -
  have "find (\<lambda>r. p r \<and> conversation_row_error (f r) \<noteq> None) (conversations s) = None"
    using assms by (auto simp: find_None_iff conv_ok_def table_inv_def)
  then show ?thesis by (simp add: update_conv_def sql_update_all_def)
qed

lemma find_written:
  assumes "find q l = Some r" and "\<And>x. q x \<Longrightarrow> q (f x)"
  shows "find q (map (\<lambda>x. if q x then f x else x) l) = Some (f r)"
  using assms by (induction l) (auto split: if_splits)

text \<open>The stored turns and texts of a conversation.\<close>

definition stored_turns :: "string \<Rightarrow> string \<Rightarrow> json list \<Rightarrow> string list option \<Rightarrow> 'w conv_db \<Rightarrow> bool" where
  "stored_turns org thread raws h s \<longleftrightarrow>
     (case find (is_conv org thread) (conversations s) of None \<Rightarrow> False
      | Some r \<Rightarrow> cv_response_blocks r = raws \<and> cv_history r = h)"

definition conv_there :: "string \<Rightarrow> string \<Rightarrow> 'w conv_db \<Rightarrow> bool" where
  "conv_there org thread s \<longleftrightarrow> find (is_conv org thread) (conversations s) \<noteq> None"

lemma progress_stores:
  assumes ok: "conv_ok s" and there: "conv_there (cr_OrgID r) (cr_ThreadID r) s"
    and "encodeBlocks R (cr_ResponseBlocks r) = Inr raws" and h: "cr_History r = Some h"
  obtains t where "conv_SaveProgress R True now r s = (Inr (), t)" "conv_ok t"
    "stored_turns (cr_OrgID r) (cr_ThreadID r) raws (Some h) t"
proof -
  define f :: "conversation_row \<Rightarrow> conversation_row" where "f = (\<lambda>x. x\<lparr>cv_history := Some h, cv_response_blocks := raws,
    cv_creator_id := (if cv_creator_id x = [] then cr_CreatorID r else cv_creator_id x), cv_updated_at := Some now\<rparr>)"
  define t where "t = s\<lparr>conversations := map (\<lambda>x. if is_conv (cr_OrgID r) (cr_ThreadID r) x then f x else x) (conversations s)\<rparr>"
  have "update_conv (is_conv (cr_OrgID r) (cr_ThreadID r)) f s =
      (Inr (length (filter (is_conv (cr_OrgID r) (cr_ThreadID r)) (conversations s))), t)"
    unfolding t_def by (rule update_conv_writes [OF ok]) (auto simp: row_error_None f_def)
  then have run: "conv_SaveProgress R True now r s = (Inr (), t)"
    using assms(3) h by (simp add: conv_SaveProgress_def SaveConversationProgress_def exec_def wrap_err_def andthen_def f_def)
  moreover have "conv_ok t" using store_keeps(4) [of R True now r] ok run by (rule keeps_invD)
  moreover obtain c where "find (is_conv (cr_OrgID r) (cr_ThreadID r)) (conversations s) = Some c"
    using there by (auto simp: conv_there_def)
  then have "find (is_conv (cr_OrgID r) (cr_ThreadID r)) (conversations t) = Some (f c)"
    using find_written [of "is_conv (cr_OrgID r) (cr_ThreadID r)" "conversations s" c f]
    by (simp add: t_def) (simp add: is_conv_def f_def)
  then have "stored_turns (cr_OrgID r) (cr_ThreadID r) raws (Some h) t" by (simp add: stored_turns_def f_def)
  ultimately show thesis by (rule that)
qed

section \<open>Ticks\<close>

text \<open>The JSON a tick hashes.\<close>

definition tick_json :: "rfc \<Rightarrow> chat_persister \<Rightarrow> block list \<Rightarrow> json" where
  "tick_json R p current = (case persister_blocks p current of Inl e \<Rightarrow> JNull
     | Inr ts \<Rightarrow> (case encodeBlocks R ts of Inl e \<Rightarrow> JNull | Inr raws \<Rightarrow> JArr raws))"

text \<open>The hash tells the snapshots apart, and from the initial value.\<close>

definition digests_differ :: "rfc \<Rightarrow> (json \<Rightarrow> string) \<Rightarrow> chat_persister \<Rightarrow> block list list \<Rightarrow> bool" where
  "digests_differ R sha p currents \<longleftrightarrow> inj_on sha (tick_json R p ` set currents) \<and>
     zero_digest \<notin> sha ` tick_json R p ` set currents"

definition persister_fits :: "rfc \<Rightarrow> chat_persister \<Rightarrow> bool" where
  "persister_fits R p \<longleftrightarrow> turns_fit R (cp_priorBlocks p) \<and> elems (cp_history p) \<noteq> [] \<and>
     (cp_mode p = AppendToLastTurn \<longrightarrow> length (cp_priorBlocks p) \<le> length (elems (cp_history p)))"

lemma persister_encodes:
  assumes "persister_fits R p" and "list_all (block_fits R) current"
  obtains ts raws where "persister_blocks p current = Inr ts" "encodeBlocks R ts = Inr raws"
    "decodeBlocks R raws = Inr ts" "tick_json R p current = JArr raws"
proof -
  have pad: "turns_fit R (pad_turns n ts)" if "turns_fit R ts" for n ts
    using that by (auto simp: turns_fit_def pad_turns_def list_all_iff)
  have add: "turns_fit R (add_to_turn k current ts)" if "turns_fit R ts" "k < length ts" for k ts
  proof -
    have "list_all (block_fits R) (ts ! k @ current)" using that assms(2) nth_mem [OF that(2)] by (auto simp: turns_fit_def list_all_iff)
    then show ?thesis using that(1) set_update_subset_insert [of ts k "ts ! k @ current"]
      by (auto simp: turns_fit_def add_to_turn_def list_all_iff)
  qed
  obtain ts where ts: "persister_blocks p current = Inr ts" "turns_fit R ts"
  proof (cases "cp_mode p")
    case AppendToFirstTurn
    with assms show thesis by (intro that) (auto simp: persister_fits_def persister_blocks_def turns_fit_def Let_def split: list.splits)
  next
    case AppendAsNewTurn
    with assms show thesis by (intro that) (auto simp: persister_fits_def persister_blocks_def turns_fit_def Let_def)
  next
    case AppendToLastTurn
    let ?n = "length (elems (cp_history p))" and ?ts = "pad_turns (length (elems (cp_history p))) (cp_priorBlocks p)"
    have n: "0 < ?n" "length ?ts = ?n" using assms(1) AppendToLastTurn by (simp_all add: persister_fits_def pad_turns_def)
    then have "persister_blocks p current = Inr (add_to_turn (?n - 1) current ?ts)"
      using AppendToLastTurn by (simp add: persister_blocks_def Let_def)
    moreover have "turns_fit R (add_to_turn (?n - 1) current ?ts)"
      by (rule add [OF pad]) (use assms(1) n in \<open>simp_all add: persister_fits_def\<close>)
    ultimately show thesis by (rule that)
  qed
  with blocks_read [OF ts(2)] show thesis by (metis that tick_json_def sum.case(2))
qed

definition synced :: "rfc \<Rightarrow> (json \<Rightarrow> string) \<Rightarrow> chat_persister \<Rightarrow> block list list \<Rightarrow> string \<Rightarrow> 'w conv_db \<Rightarrow> bool" where
  "synced R sha p currents d s \<longleftrightarrow> conv_ok s \<and> conv_there (cp_orgID p) (cp_threadID p) s \<and>
     (d = zero_digest \<or> (\<exists>c \<in> set currents. \<exists>raws. tick_json R p c = JArr raws \<and> d = sha (JArr raws) \<and>
        stored_turns (cp_orgID p) (cp_threadID p) raws (Some (elems (cp_history p))) s))"

lemma stored_there: "stored_turns org thread raws h s \<Longrightarrow> conv_there org thread s"
  by (simp add: stored_turns_def conv_there_def split: option.splits)

lemma flush_syncs:
  assumes "synced R sha p currents d s" and diff: "digests_differ R sha p currents" and "persister_fits R p"
    and c: "c \<in> set currents" "list_all (block_fits R) c"
  obtains raws saved t where "persister_flush R sha True p c now d s = Inr ((sha (JArr raws), saved), t)"
    "tick_json R p c = JArr raws" "conv_ok t"
    "stored_turns (cp_orgID p) (cp_threadID p) raws (Some (elems (cp_history p))) t"
proof -
  obtain ts raws where ts: "persister_blocks p c = Inr ts" "encodeBlocks R ts = Inr raws" "tick_json R p c = JArr raws"
    using persister_encodes [OF assms(3) c(2)] by metis
  define rec where "rec = zero_conversation\<lparr>cr_OrgID := cp_orgID p, cr_ThreadID := cp_threadID p,
    cr_History := copied (cp_history p), cr_CreatorID := cp_creatorID p, cr_ResponseBlocks := ts\<rparr>"
  have snap: "persister_snapshot p c = Inr rec" using ts(1) by (simp add: persister_snapshot_def rec_def)
  have h: "cr_History rec = Some (elems (cp_history p))"
    using assms(3) by (simp add: rec_def copied_def persister_fits_def)
  have sel: "cr_ResponseBlocks rec = ts" "cr_OrgID rec = cp_orgID p" "cr_ThreadID rec = cp_threadID p"
    by (simp_all add: rec_def)
  show thesis
  proof (cases "sha (JArr raws) = d")
    case True
    with diff c(1) ts(3) have "d \<noteq> zero_digest" by (auto simp: digests_differ_def image_iff)
    then obtain c' raws' where c': "c' \<in> set currents" "tick_json R p c' = JArr raws'" "d = sha (JArr raws')"
        "stored_turns (cp_orgID p) (cp_threadID p) raws' (Some (elems (cp_history p))) s"
      using assms(1) by (auto simp: synced_def)
    have "JArr raws = JArr raws'"
      using diff True c'(1-3) c(1) ts(3) unfolding digests_differ_def by (metis inj_on_def image_eqI)
    with c' True ts snap sel assms(1) show thesis
      by (intro that [of raws False s]) (simp_all add: persister_flush_def synced_def)
  next
    case False
    have s: "conv_ok s" "conv_there (cr_OrgID rec) (cr_ThreadID rec) s" using assms(1) sel by (simp_all add: synced_def)
    obtain t where "conv_SaveProgress R True now rec s = (Inr (), t)" "conv_ok t"
        "stored_turns (cr_OrgID rec) (cr_ThreadID rec) raws (Some (elems (cp_history p))) t"
      using progress_stores [OF s _ h] ts(2) sel(1) by metis
    with False ts snap sel show thesis by (intro that [of raws True t]) (simp_all add: persister_flush_def)
  qed
qed

lemma ticks_sync:
  assumes "synced R sha p currents d s" and diff: "digests_differ R sha p currents" and fits: "persister_fits R p"
    and "set (map fst ticks) \<subseteq> set currents" and "list_all (list_all (block_fits R)) (map fst ticks)"
  shows "\<exists>d' t. persister_ticks R sha True p ticks d s = Inr (d', t) \<and> synced R sha p currents d' t \<and>
    (ticks \<noteq> [] \<longrightarrow> (\<exists>raws. tick_json R p (fst (last ticks)) = JArr raws \<and>
       stored_turns (cp_orgID p) (cp_threadID p) raws (Some (elems (cp_history p))) t))"
  using assms(1,4,5)
proof (induction ticks arbitrary: d s)
  case (Cons tick ticks)
  obtain c now where tick: "tick = (c, now)" by fastforce
  with Cons.prems have c: "c \<in> set currents" "list_all (block_fits R) c" by auto
  obtain raws saved t where t: "persister_flush R sha True p c now d s = Inr ((sha (JArr raws), saved), t)"
      "tick_json R p c = JArr raws" "conv_ok t"
      "stored_turns (cp_orgID p) (cp_threadID p) raws (Some (elems (cp_history p))) t"
    by (rule flush_syncs [OF Cons.prems(1) diff fits c])
  then have "synced R sha p currents (sha (JArr raws)) t"
    using c(1) stored_there [OF t(4)] by (auto simp: synced_def)
  with Cons.IH [of "sha (JArr raws)" t] Cons.prems t tick show ?case by (cases ticks) auto
qed simp

end
