(* ===== verification/Conv_Properties.thy ===== *)
theory Conv_Properties
  imports Conv_Polling Conv_Saving
begin

text \<open>
  The results about conversations: their tables, the round trip of the store, the saves of a run in
  progress, the search, and the refresh of pull request states. The demo values are concrete inputs.
\<close>

section \<open>Concrete inputs\<close>

definition demo_conv_rfc :: rfc where
  "demo_conv_rfc = \<lparr>rfc_format = \<lambda>t. Inr (show_nat (nat t)), rfc_parse = \<lambda>s. Inr (int (digits_value 0 s))\<rparr>"

definition demo_say :: "string \<Rightarrow> block" where
  "demo_say txt = zero_block\<lparr>bk_Kind := ''say'', bk_Body := txt\<rparr>"

definition demo_conv :: conversation where
  "demo_conv = zero_conversation\<lparr>cr_OrgID := ''o'', cr_ThreadID := ''t'', cr_PRURL := ''https://github.com/Acme/app/pull/5'',
     cr_History := Some [''Fix 50% of bugs''], cr_ResponseBlocks := [[demo_say ''Done'']], cr_GitHubOwner := ''Acme'',
     cr_GitHubRepo := ''app'', cr_CreatorID := ''u'', cr_TaskOptions := [(''draft'', True), (''push'', False)]\<rparr>"

definition demo_conv_row :: "string \<Rightarrow> conversation_row" where
  "demo_conv_row thread = \<lparr>cv_org_id = ''o'', cv_thread_id = thread, cv_sandbox_id = ''sb'', cv_branch = ''fix'',
     cv_pr_url = ''https://github.com/Acme/app/pull/5'', cv_pr_state = ''open'', cv_pr_merged = False, cv_pr_merged_at = None,
     cv_pr_closed_at = None, cv_pr_state_checked_at = None, cv_history = Some [''Fix 50% of bugs''], cv_created_at = Some 10,
     cv_updated_at = Some 20, cv_response_blocks = [], cv_github_owner = ''Acme'', cv_github_repo = ''app'',
     cv_custom_title = ''Bugs'', cv_creator_id = ''v'', cv_agent_slug = [], cv_model = [], cv_task_options = JObj [],
     cv_awaiting_repo = False\<rparr>"

text \<open>The repository is installed, with a personal token, under a name in lower case.\<close>

definition demo_conv_db :: "unit conv_db" where
  "demo_conv_db = \<lparr>conversations = [demo_conv_row ''t'', (demo_conv_row ''w'')\<lparr>cv_github_owner := ''acme'', cv_updated_at := Some 15\<rparr>],
     conversation_attachments = [],
     app_installations = [\<lparr>in_installation_id = -1, in_org_id = ''o'', in_account_login = ''acme'', in_account_type = ''User'',
       in_account_id = 3, in_suspended_at = None, in_created_at = Some 1, in_updated_at = Some 1\<rparr>],
     installed_repos = [\<lparr>ghr_installation_id = -1, ghr_repo_id = 9, ghr_owner = ''acme'', ghr_name = ''app'', ghr_default_branch = ''main'',
       ghr_private = True, ghr_last_synced_at = Some 1\<rparr>],
     hosting = ()\<rparr>"

definition demo_pr_bot :: "unit pr_bot" where
  "demo_pr_bot = \<lparr>pb_Store = True, pb_Source = Some \<lparr>src_Token = \<lambda>i ids w. (Inr ''token'', w),
       src_Lookup = \<lambda>token owner repo n w.
         (Inr (Some \<lparr>gp_State = ''closed'', gp_Merged = True, gp_MergedAt = 90, gp_ClosedAt = 90\<rparr>), w)\<rparr>,
     pb_URL = \<lparr>url_Parse = (\<lambda>u. Inr \<lparr>url_Scheme = ''https'', url_Host = ''github.com'', url_EscapedPath = ''/Acme/app/pull/5''\<rparr>),
       url_PathUnescape = Inr\<rparr>\<rparr>"

lemma demo_conv_ok: "conv_ok demo_conv_db"
  by (simp add: conv_ok_def table_inv_def demo_conv_db_def demo_conv_row_def conv_key_def conversation_row_error_def pr_states_def)





section \<open>The tables\<close>

text \<open>Whatever sequence of operations of the store, of refreshes of pull request states and of saves of
  runs in progress, a conversation has one row, its constraints hold, and no attachment is without its
  conversation.\<close>

theorem conversations_stay_consistent:
  assumes "(conv_step R)\<^sup>*\<^sup>* s t" and "conv_ok s"
  shows "conv_ok t"
  using assms by (rule conv_steps_keep)

theorem conversations_stay_consistent_witness:
  "conv_ok (snd (conv_Delete True ''o'' ''t'' (snd (conv_Upsert demo_conv_rfc True 60 demo_conv demo_conv_db))))"
proof -
  let ?s = "snd (conv_Upsert demo_conv_rfc True 60 demo_conv demo_conv_db)"
  have "conv_step demo_conv_rfc demo_conv_db ?s" by (rule conv_step.upsert [OF surjective_pairing])
  moreover have "conv_step demo_conv_rfc ?s (snd (conv_Delete True ''o'' ''t'' ?s))"
    by (rule conv_step.delete [OF surjective_pairing])
  ultimately have "(conv_step demo_conv_rfc)\<^sup>*\<^sup>* demo_conv_db (snd (conv_Delete True ''o'' ''t'' ?s))" by simp
  from conversations_stay_consistent [OF this demo_conv_ok] show ?thesis .
qed

section \<open>The store reads back what it wrote\<close>



section \<open>Saves of a run in progress\<close>

text \<open>C29: the saves a run makes while it is in progress touch its own conversation alone, and there they
  replace the turns only: title, agent, model, options, repository, first creator and time of creation
  remain, a sandbox, branch or pull request that is known stays known, and the state of a pull request
  is at most forgotten.\<close>

theorem mid_run_saves_erase_nothing:
  assumes "(run_save_step R org thread)\<^sup>*\<^sup>* s t"
  shows "list_all2 (\<lambda>r r'. if is_conv org thread r then saved_over r r' else r' = r) (conversations s) (conversations t) \<and>
    conversation_attachments t = conversation_attachments s"
  using run_saves [OF assms] by (simp add: only_saved_def)

theorem mid_run_saves_erase_nothing_witness:
  "let t = snd (conv_SaveRunMetadata True 70 (zero_conversation\<lparr>cr_OrgID := ''o'', cr_ThreadID := ''t''\<rparr>)
        (snd (conv_SaveProgress demo_conv_rfc True 60 demo_conv demo_conv_db)))
   in saved_over (demo_conv_row ''t'') (hd (conversations t)) \<and> conversations t ! 1 = conversations demo_conv_db ! 1"
proof -
  let ?s = "snd (conv_SaveProgress demo_conv_rfc True 60 demo_conv demo_conv_db)"
  let ?r = "zero_conversation\<lparr>cr_OrgID := ''o'', cr_ThreadID := ''t''\<rparr>"
  have "run_save_step demo_conv_rfc ''o'' ''t'' demo_conv_db ?s"
    by (rule run_save_step.progress [OF _ _ surjective_pairing]) (simp_all add: demo_conv_def)
  moreover have "run_save_step demo_conv_rfc ''o'' ''t'' ?s (snd (conv_SaveRunMetadata True 70 ?r ?s))"
    by (rule run_save_step.metadata [OF _ _ surjective_pairing]) simp_all
  ultimately have "(run_save_step demo_conv_rfc ''o'' ''t'')\<^sup>*\<^sup>* demo_conv_db (snd (conv_SaveRunMetadata True 70 ?r ?s))" by simp
  from mid_run_saves_erase_nothing [OF this] show ?thesis
    by (auto simp: Let_def demo_conv_db_def list_all2_Cons1 is_conv_def conv_key_def demo_conv_row_def)
qed







section \<open>Search\<close>

definition search_hits :: "string \<Rightarrow> search_options \<Rightarrow> 'w conv_db \<Rightarrow> conversation_row list" where
  "search_hits org opts s =
     newest_first cv_created_at (filter (\<lambda>r. cv_org_id r = org \<and> found_by opts r) (conversations s))"

definition search_page :: "search_options \<Rightarrow> nat \<Rightarrow> search_options" where
  "search_page opts i = opts\<lparr>so_Offset := int i * so_Limit opts\<rparr>"

text \<open>C31: a search finds the conversations of the organisation, of the wanted creator and agent, whose title or
  first message contains the query, upper or lower case and wildcards taken literally; it lists them from
  the newest, and its pages one after the other, read while the table does not change, are the whole list,
  nothing left out and nothing twice. (A conversation written between two pages shifts the later ones.)\<close>

theorem search_finds_the_text:
  assumes recs: "records_from R (search_hits org opts s) = Inr recs"
    and "0 < so_Limit opts" and "int4 (int k * so_Limit opts)" and "0 < k"
  shows "newer_first (search_hits org opts s) \<and>
    (\<forall>i < k. \<exists>rs. conv_Search R True org (search_page opts i) s = (Inr rs, s)) \<and>
    concat (map (\<lambda>i. projr (fst (conv_Search R True org (search_page opts i) s))) [0..<k]) =
      take (k * nat (so_Limit opts)) recs"
proof -
  let ?n = "nat (so_Limit opts)" and ?hits = "search_hits org opts s"
  have i4: "int4 (int i * so_Limit opts)" "int4 (so_Limit opts)" if "i < k" for i
  proof -
    have "int i * so_Limit opts \<le> int k * so_Limit opts" "1 * so_Limit opts \<le> int k * so_Limit opts"
      using that assms(2) by (intro mult_right_mono; simp)+
    moreover have "0 \<le> int i * so_Limit opts" using assms(2) by simp
    ultimately show "int4 (int i * so_Limit opts)" "int4 (so_Limit opts)" using assms(2,3) unfolding int4_def by linarith+
  qed
  have page: "conv_Search R True org (search_page opts i) s = (Inr (take ?n (drop (i * ?n) recs)), s)" if "i < k" for i
  proof -
    have "nat (int i * so_Limit opts) = i * ?n" using assms(2) by (simp add: nat_mult_distrib)
    moreover have "records_from R (take ?n (drop (i * ?n) ?hits)) = Inr (take ?n (drop (i * ?n) recs))"
      by (intro records_take records_drop recs)
    moreover have "found_by (search_page opts i) = found_by opts" by (rule ext) (simp add: search_page_def found_by_def)
    ultimately show ?thesis using i4 [OF that] assms(2)
      by (simp add: conv_Search_def SearchConversations_def sql_page_def matches_found search_hits_def wrap_err_def andthen_def)
        (simp add: search_page_def not_less)
  qed
  have "concat (map (\<lambda>i. projr (fst (conv_Search R True org (search_page opts i) s))) [0..<k]) =
      concat (map (\<lambda>i. take ?n (drop (i * ?n) recs)) [0..<k])"
    by (intro arg_cong [where f = concat] map_cong) (simp_all add: page)
  then show ?thesis using page pages_join by (simp add: search_hits_def newest_first_sorted)
qed

definition demo_search :: search_options where
  "demo_search = \<lparr>so_CreatorID = [], so_FilterCreatorID = False, so_AgentSlug = [], so_FilterAgentSlug = False,
     so_Query = ''50% OF'', so_Limit = 1, so_Offset = 0\<rparr>"

theorem search_finds_the_text_witness:
  "map cr_ThreadID (concat (map (\<lambda>i. projr (fst (conv_Search demo_conv_rfc True ''o'' (search_page demo_search i) demo_conv_db))) [0..<2]))
     = [''w'', ''t'']"
proof -
  have hits: "search_hits ''o'' demo_search demo_conv_db = rev (conversations demo_conv_db)"
    by (simp add: search_hits_def demo_conv_db_def demo_conv_row_def demo_search_def found_by_def to_lower_def lower_char_def Let_def char_of_def bit_Suc_0_iff
        newest_first_def from_timestamptz_def)
  have 1: "records_from demo_conv_rfc (search_hits ''o'' demo_search demo_conv_db) =
      Inr (map (\<lambda>r. projr (recordFromFields demo_conv_rfc r)) (rev (conversations demo_conv_db)))"
    unfolding hits by (simp add: demo_conv_db_def demo_conv_row_def recordFromFields_def decodeBlocks_def)
  have 2: "0 < so_Limit demo_search" "int4 (int 2 * so_Limit demo_search)" "0 < (2 :: nat)"
    by (simp_all add: demo_search_def int4_def)
  from search_finds_the_text [OF 1 2] show ?thesis
    by (simp add: demo_search_def demo_conv_db_def demo_conv_row_def recordFromFields_def decodeBlocks_def)
qed

section \<open>Pull request states\<close>

definition backfill_page :: "bool \<Rightarrow> int \<Rightarrow> 'w conv_db \<Rightarrow> conversation_row list" where
  "backfill_page force limit s = pr_page prStateBackfillDefaultLimit limit (backfill_candidates force s)"

text \<open>With a database and a source of tokens a backfill always ends with a result, whatever the hosting
  service answers: each candidate is counted once as updated, skipped or failed, there are at most 10000 and
  at most as many as asked for, and nothing but the state columns of these candidates is written.\<close>

theorem backfill_accounts_for_all:
  assumes "pb_Store b" and "pb_Source b \<noteq> None"
  shows "\<exists>res t. BackfillConversationPRStates b clock limit force s = (Inr res, t) \<and>
    bf_Scanned res = length (backfill_page force limit s) \<and>
    bf_Updated res + bf_Skipped res + bf_Failed res = bf_Scanned res \<and>
    bf_Scanned res \<le> 10000 \<and> (0 < limit \<longrightarrow> int (bf_Scanned res) \<le> limit) \<and>
    only_refreshed (map conv_key (backfill_page force limit s)) s t"
proof -
  let ?page = "backfill_page force limit s"
  let ?zero = "\<lparr>bf_Scanned = 0, bf_Updated = 0, bf_Skipped = 0, bf_Failed = 0\<rparr>"
  obtain res t where run: "refresh_each b clock ?page ?zero s = (Inr res, t)"
    and counts: "bf_Scanned res = length ?page" "bf_Updated res + bf_Skipped res + bf_Failed res = length ?page"
    using refresh_each_counts [of b clock ?page ?zero s] by auto
  have "only_refreshed (map conv_key ?page) s t"
    by (rule keeps_invD [OF refresh_each_refreshes only_refreshed_refl run]) simp
  moreover have "length ?page \<le> nat (clamp_limit prStateBackfillDefaultLimit limit)"
    by (simp add: backfill_page_def pr_page_def)
  moreover have "0 < prStateBackfillDefaultLimit" "prStateBackfillDefaultLimit \<le> prStateBackfillMaxLimit"
    by (simp_all add: prStateBackfillDefaultLimit_def prStateBackfillMaxLimit_def)
  note clamp_bounds [OF this, of limit]
  ultimately show ?thesis
    using run counts assms backfill_run [OF assms, of clock limit force s]
    by (auto simp: refreshPRStateCandidates_def backfill_page_def [symmetric] prStateBackfillMaxLimit_def)
qed

theorem backfill_accounts_for_all_witness:
  "\<exists>res t. BackfillConversationPRStates demo_pr_bot (\<lambda>n. 100 + int n) 1 True demo_conv_db = (Inr res, t) \<and>
    bf_Scanned res = 1 \<and> only_refreshed [(''o'', ''t'')] demo_conv_db t"
proof -
  have page: "backfill_page True 1 demo_conv_db = [demo_conv_row ''t'']"
    by (simp add: backfill_page_def pr_page_def backfill_candidates_def newest_first_def demo_conv_db_def demo_conv_row_def
        from_timestamptz_def clamp_limit_def prStateBackfillMaxLimit_def)
  have "pb_Store demo_pr_bot" "pb_Source demo_pr_bot \<noteq> None" by (simp_all add: demo_pr_bot_def)
  from backfill_accounts_for_all [OF this, of "\<lambda>n. 100 + int n" 1 True demo_conv_db] show ?thesis
    unfolding page by (auto simp: conv_key_def demo_conv_row_def)
qed

definition poll_page :: "go_time \<Rightarrow> duration \<Rightarrow> int \<Rightarrow> 'w conv_db \<Rightarrow> conversation_row list" where
  "poll_page now staleAfter limit s = pr_page defaultPRStatePollLimit limit (poll_candidates (now - staleAfter) s)"

text \<open>C32: conversations whose refresh fails stay at the head of the queue of a poll. If there are as many as
  its limit, then that poll and every later one, as long as they fail, look at these alone and write nothing:
  every other conversation waits. So it is with a token that expired, and with a repository that a
  conversation has in another spelling than the installation: the candidates are chosen ignoring case,
  their repository is then looked up with it.\<close>

theorem failing_conversations_starve_the_poll:
  assumes "pb_Store b" and "pb_Source b \<noteq> None" and "0 < staleAfter" and "now \<le> later"
    and full: "length (poll_page now staleAfter limit s) = nat (clamp_limit defaultPRStatePollLimit limit)"
    and stuck: "list_all (refresh_fails b s) (poll_page now staleAfter limit s)"
  shows "poll_page later staleAfter limit s = poll_page now staleAfter limit s \<and>
    PollPATConversationPRStates b later clock limit staleAfter s =
      (Inr \<lparr>bf_Scanned = nat (clamp_limit defaultPRStatePollLimit limit), bf_Updated = 0, bf_Skipped = 0,
        bf_Failed = nat (clamp_limit defaultPRStatePollLimit limit)\<rparr>, s)"
proof -
  obtain more where "poll_candidates (later - staleAfter) s = poll_candidates (now - staleAfter) s @ more"
    using poll_candidates_later [of "now - staleAfter" "later - staleAfter" s] assms(4) by auto
  then have same: "poll_page later staleAfter limit s = poll_page now staleAfter limit s"
    using full by (auto simp: poll_page_def pr_page_def)
  show ?thesis
    using same full poll_run [OF assms(1-3), of later clock limit s]
      all_failing [OF stuck, of clock "\<lparr>bf_Scanned = 0, bf_Updated = 0, bf_Skipped = 0, bf_Failed = 0\<rparr>"]
    by (simp add: refreshPRStateCandidates_def poll_page_def)
qed

text \<open>With a limit of one: the conversation of ''Acme'' keeps that of ''acme'', the installed name, from being polled.\<close>

theorem failing_conversations_starve_the_poll_witness:
  "poll_candidates 700 demo_conv_db = conversations demo_conv_db \<and>
    \<not> unresolvable demo_pr_bot demo_conv_db (conversations demo_conv_db ! 1) \<and>
    PollPATConversationPRStates demo_pr_bot 5000 (\<lambda>n. 5000 + int n) 1 300 demo_conv_db =
      (Inr \<lparr>bf_Scanned = 1, bf_Updated = 0, bf_Skipped = 0, bf_Failed = 1\<rparr>, demo_conv_db)"
proof -
  have lower: "to_lower ''Acme'' = ''acme''" "to_lower ''acme'' = ''acme''" "to_lower ''app'' = ''app''"
    by (simp_all add: to_lower_def lower_char_def Let_def char_of_def bit_Suc_0_iff)
  have cands: "poll_candidates 700 demo_conv_db = conversations demo_conv_db"
    by (simp add: poll_candidates_def poll_order_def newest_first_def demo_conv_db_def demo_conv_row_def installed_def
        checked_before_def lower from_timestamptz_def)
  have page: "poll_page 1000 300 1 demo_conv_db = [demo_conv_row ''t'']"
    using cands by (simp add: poll_page_def pr_page_def clamp_limit_def prStateBackfillMaxLimit_def)
      (simp add: demo_conv_db_def)
  have stuck: "unresolvable demo_pr_bot demo_conv_db (demo_conv_row ''t'')" by code_simp
  have "\<not> unresolvable demo_pr_bot demo_conv_db (conversations demo_conv_db ! 1)" by code_simp
  moreover have "pb_Store demo_pr_bot" "pb_Source demo_pr_bot \<noteq> None" "(0 :: int) < 300" "(1000 :: int) \<le> 5000"
    by (simp_all add: demo_pr_bot_def)
  moreover have "length (poll_page 1000 300 1 demo_conv_db) = nat (clamp_limit defaultPRStatePollLimit 1)"
    "nat (clamp_limit defaultPRStatePollLimit 1) = 1"
    by (simp_all add: page clamp_limit_def prStateBackfillMaxLimit_def)
  moreover from stuck have "refresh_fails demo_pr_bot demo_conv_db (demo_conv_row ''t'')"
    by (rule unresolvable_fails) (simp_all add: demo_pr_bot_def)
  then have "list_all (refresh_fails demo_pr_bot demo_conv_db) (poll_page 1000 300 1 demo_conv_db)"
    by (simp add: page)
  ultimately show ?thesis
    using cands failing_conversations_starve_the_poll [of demo_pr_bot 300 1000 5000 1 demo_conv_db "\<lambda>n. 5000 + int n"] by simp
qed

end
