(* ===== verification/Boot_Text.thy ===== *)
theory Boot_Text
  imports Go_Prelude
begin

text \<open>
  The texts of the bootstrap (internal/bootstrap, internal/bot): UTF-8 as the package unicode/utf8 reads
  it, the normalisation before a write to a TEXT column (postgresText), and the two ways of cutting a
  text short at the start of a character (truncate of detect.go, truncateLogTail of agent.go).
\<close>

section \<open>UTF-8\<close>

text \<open>The number of bytes of the character a text starts with, 0 if these are not valid UTF-8.\<close>

definition between :: "nat \<Rightarrow> nat \<Rightarrow> char \<Rightarrow> bool" where
  "between a b c \<longleftrightarrow> a \<le> (of_char c :: nat) \<and> (of_char c :: nat) \<le> b"

abbreviation continuation :: "char \<Rightarrow> bool" where "continuation \<equiv> between 128 191"

text \<open>What may follow the first byte of a character of three or four bytes.\<close>

definition second_byte :: "char \<Rightarrow> char \<Rightarrow> bool" where
  "second_byte c d \<longleftrightarrow> continuation d \<and> (let n = (of_char c :: nat) in
     (n = 224 \<longrightarrow> between 160 191 d) \<and> (n = 237 \<longrightarrow> between 128 159 d) \<and>
     (n = 240 \<longrightarrow> between 144 191 d) \<and> (n = 244 \<longrightarrow> between 128 143 d))"

fun rune_width :: "string \<Rightarrow> nat" where
  "rune_width [] = 0"
| "rune_width (c # s) =
     (if between 0 127 c then 1
      else if between 194 223 c then (case s of d # r \<Rightarrow> if continuation d then 2 else 0 | [] \<Rightarrow> 0)
      else if between 224 239 c then
        (case s of d # e # r \<Rightarrow> if second_byte c d \<and> continuation e then 3 else 0 | r \<Rightarrow> 0)
      else if between 240 244 c then
        (case s of d # e # f # r \<Rightarrow> if second_byte c d \<and> continuation e \<and> continuation f then 4 else 0 | r \<Rightarrow> 0)
      else 0)"

definition RuneStart :: "char \<Rightarrow> bool" where
  "RuneStart c \<longleftrightarrow> \<not> continuation c"

declare rune_width.simps(2) [simp del]

lemma rune_width_le: "rune_width s \<le> length s"
  by (cases s) (auto simp: rune_width.simps(2) split: list.splits)

function valid_utf8 :: "string \<Rightarrow> bool" where
  "valid_utf8 [] = True"
| "valid_utf8 (c # s) = (if rune_width (c # s) = 0 then False else valid_utf8 (drop (rune_width (c # s)) (c # s)))"
  by pat_completeness auto
termination by (relation "measure length") auto

definition replacement :: string where
  "replacement = [CHR 0xEF, CHR 0xBF, CHR 0xBD]"

text \<open>strings.ToValidUTF8: a run of bytes that are no character becomes one replacement.\<close>

function to_valid :: "bool \<Rightarrow> string \<Rightarrow> string" where
  "to_valid invalid [] = []"
| "to_valid invalid (c # s) = (let w = rune_width (c # s) in
     if w = 0 then (if invalid then [] else replacement) @ to_valid True s
     else take w (c # s) @ to_valid False (drop w (c # s)))"
  by pat_completeness auto
termination by (relation "measure (\<lambda>(b, s). length s)") auto

declare valid_utf8.simps(2) [simp del] to_valid.simps(2) [simp del]

definition ToValidUTF8 :: "string \<Rightarrow> string" where
  "ToValidUTF8 s = to_valid False s"

definition postgresText :: "string \<Rightarrow> string" where
  "postgresText s = ToValidUTF8 s"

section \<open>Texts cut short\<close>

text \<open>The loops that move an end to the start of a character, backwards or forwards.\<close>

fun rune_back :: "string \<Rightarrow> nat \<Rightarrow> nat" where
  "rune_back s 0 = 0"
| "rune_back s (Suc n) = (if RuneStart (s ! Suc n) then Suc n else rune_back s n)"

definition truncate_text :: "string \<Rightarrow> nat \<Rightarrow> string" where
  "truncate_text s maxBytes =
     (if length s \<le> maxBytes then s
      else take (rune_back s maxBytes) s @ [CHR 0x0A] @ ''... [truncated]'')"

definition log_tail_max :: nat where "log_tail_max = 32 * 1024"

definition truncateLogTail :: "string \<Rightarrow> string" where
  "truncateLogTail t =
     (let s = ToValidUTF8 t in
      if length s \<le> log_tail_max then s
      else ''...(truncated)...'' @ [CHR 0x0A] @ dropWhile (\<lambda>c. \<not> RuneStart c) (drop (length s - log_tail_max) s))"

section \<open>Laws\<close>

lemma rune_width_bytes:
  "between 0 127 c \<Longrightarrow> rune_width (c # s) = 1"
  by (simp add: rune_width.simps(2))

text \<open>The width of a character depends on its bytes alone.\<close>

lemma rune_width_take:
  assumes "rune_width s \<noteq> 0"
  shows "rune_width (take (rune_width s) s @ t) = rune_width s"
proof (cases s)
  case (Cons c r)
  then show ?thesis using assms
    by (auto simp: rune_width.simps(2) split: list.splits if_splits)
qed (use assms in simp)

lemma width_pos: "rune_width (c # s) \<noteq> 0 \<Longrightarrow> take (rune_width (c # s)) (c # s) = c # take (rune_width (c # s) - 1) s"
  by (cases "rune_width (c # s)") auto

lemma valid_step:
  assumes "rune_width s \<noteq> 0"
  shows "valid_utf8 (take (rune_width s) s @ t) = valid_utf8 t"
proof -
  obtain c r where s: "s = c # r" using assms by (cases s) auto
  have h: "take (rune_width s) s @ t = c # (take (rune_width s - 1) r @ t)" using width_pos [of c r] assms s by simp
  have w: "rune_width (c # (take (rune_width s - 1) r @ t)) = rune_width s" using rune_width_take [OF assms, of t] h by simp
  have "drop (rune_width s) (c # (take (rune_width s - 1) r @ t)) = t"
    using rune_width_le [of s] by (simp only: h [symmetric] drop_append length_take) simp
  with w assms show ?thesis unfolding h by (simp only: valid_utf8.simps(2)) simp
qed

lemma valid_append: "valid_utf8 s \<Longrightarrow> valid_utf8 (s @ t) = valid_utf8 t"
proof (induction s rule: valid_utf8.induct)
  case (2 c s)
  let ?w = "rune_width (c # s)"
  from 2(2) have w: "?w \<noteq> 0" "valid_utf8 (drop ?w (c # s))" by (simp_all add: valid_utf8.simps(2) split: if_splits)
  have "valid_utf8 (take ?w (c # s) @ (drop ?w (c # s) @ t)) = valid_utf8 (drop ?w (c # s) @ t)"
    by (rule valid_step [OF w(1)])
  also have "take ?w (c # s) @ (drop ?w (c # s) @ t) = (c # s) @ t"
    by (simp only: append_assoc [symmetric] append_take_drop_id)
  finally show ?case using 2(1) [OF w] by simp
qed simp

lemma valid_ascii: "between 0 127 c \<Longrightarrow> valid_utf8 (c # s) = valid_utf8 s"
  by (simp add: valid_utf8.simps(2) rune_width_bytes)

lemma ascii_valid: "list_all (between 0 127) s \<Longrightarrow> valid_utf8 s"
  by (induction s) (simp_all add: valid_utf8.simps(2) rune_width_bytes)

lemma replacement_valid: "valid_utf8 replacement"
  by code_simp

lemma to_valid_valid: "valid_utf8 (to_valid b s)"
proof (induction b s rule: to_valid.induct)
  case (2 b c s)
  show ?case
  proof (cases "rune_width (c # s) = 0")
    case True
    with 2(1) [OF refl True] show ?thesis
      by (simp add: to_valid.simps(2) valid_append [OF replacement_valid])
  next
    case False
    with 2(2) [OF refl False] show ?thesis
      by (simp only: to_valid.simps(2) Let_def if_False valid_step [OF False])
  qed
qed simp

lemma to_valid_id: "valid_utf8 s \<Longrightarrow> to_valid b s = s"
proof (induction s arbitrary: b rule: valid_utf8.induct)
  case (2 c s)
  let ?w = "rune_width (c # s)"
  from 2(2) have w: "?w \<noteq> 0" "valid_utf8 (drop ?w (c # s))" by (simp_all add: valid_utf8.simps(2) split: if_splits)
  then show ?case
    using 2(1) [OF w, of False] by (simp only: to_valid.simps(2) Let_def if_False append_take_drop_id)
qed simp

lemma postgresText_valid [simp]: "valid_utf8 (postgresText s)"
  by (simp add: postgresText_def ToValidUTF8_def to_valid_valid)

lemma postgresText_id [simp]: "valid_utf8 s \<Longrightarrow> postgresText s = s"
  by (simp add: postgresText_def ToValidUTF8_def to_valid_id)

lemma ToValidUTF8_valid [simp]: "valid_utf8 (ToValidUTF8 s)"
  by (simp add: ToValidUTF8_def to_valid_valid)

lemma ToValidUTF8_id [simp]: "valid_utf8 s \<Longrightarrow> ToValidUTF8 s = s"
  by (simp add: ToValidUTF8_def to_valid_id)

section \<open>Cuts at the start of a character\<close>

lemma inner_bytes:
  assumes "0 < k" and "k < rune_width s"
  shows "\<not> RuneStart (s ! k)"
proof (cases s)
  case (Cons c r)
  then have "k = 1 \<or> k = 2 \<or> k = 3" using assms by (auto simp: rune_width.simps(2) split: list.splits if_splits)
  then show ?thesis using assms Cons
    by (auto simp: rune_width.simps(2) RuneStart_def second_byte_def split: list.splits if_splits)
qed (use assms in simp)

lemma valid_cut:
  assumes "valid_utf8 s" and "k < length s \<Longrightarrow> RuneStart (s ! k)"
  shows "valid_utf8 (take k s) \<and> valid_utf8 (drop k s)"
  using assms
proof (induction s arbitrary: k rule: valid_utf8.induct)
  case (2 c s)
  let ?w = "rune_width (c # s)"
  from 2(2) have w: "?w \<noteq> 0" "valid_utf8 (drop ?w (c # s))" by (simp_all add: valid_utf8.simps(2) split: if_splits)
  show ?case
  proof (cases "k = 0 \<or> length (c # s) \<le> k")
    case True
    with 2(2) show ?thesis by auto
  next
    case False
    with 2(3) have start: "RuneStart ((c # s) ! k)" by simp
    have "\<not> k < ?w"
    proof
      assume "k < ?w"
      with False have "\<not> RuneStart ((c # s) ! k)" by (intro inner_bytes) auto
      with start show False by simp
    qed
    then have k: "?w \<le> k" by simp
    have "valid_utf8 (take (k - ?w) (drop ?w (c # s))) \<and> valid_utf8 (drop (k - ?w) (drop ?w (c # s)))"
      using start k rune_width_le [of "c # s"] by (intro 2(1) [OF w]) simp
    moreover have "take k (c # s) = take ?w (c # s) @ take (k - ?w) (drop ?w (c # s))"
      using k by (metis le_add_diff_inverse take_add)
    moreover have "drop (k - ?w) (drop ?w (c # s)) = drop k (c # s)"
      using k by (simp only: drop_drop) simp
    ultimately show ?thesis by (simp only: valid_step [OF w(1)])
  qed
qed simp

lemma dropWhile_drop: "\<exists>k. dropWhile P s = drop k s \<and> (k < length s \<longrightarrow> \<not> P (s ! k))"
  using dropWhile_eq_drop [of P s] nth_length_takeWhile [of P s] by blast

lemma rune_back_start: "rune_back s n = 0 \<or> RuneStart (s ! rune_back s n)"
  by (induction n) auto

lemma rune_back_le: "rune_back s n \<le> n"
  by (induction n) auto

lemma truncate_valid:
  assumes "valid_utf8 s"
  shows "valid_utf8 (truncate_text s n)"
proof -
  have "valid_utf8 (take (rune_back s n) s)"
  proof (cases "rune_back s n = 0")
    case False
    with rune_back_start [of s n] show ?thesis using valid_cut [OF assms] by blast
  qed simp
  then show ?thesis using assms by (simp add: truncate_text_def valid_append ascii_valid between_def)
qed

lemma truncate_length: "length (truncate_text s n) \<le> n + 16"
  using rune_back_le [of s n] by (simp add: truncate_text_def)

lemma log_tail_valid: "valid_utf8 (truncateLogTail t)"
proof -
  let ?s = "ToValidUTF8 t"
  let ?d = "length ?s - log_tail_max"
  obtain k where k: "dropWhile (\<lambda>c. \<not> RuneStart c) (drop ?d ?s) = drop k (drop ?d ?s)"
    "k < length (drop ?d ?s) \<longrightarrow> RuneStart (drop ?d ?s ! k)"
    using dropWhile_drop [of "\<lambda>c. \<not> RuneStart c" "drop ?d ?s"] by auto
  have "valid_utf8 (drop (?d + k) ?s)"
    using valid_cut [of ?s "?d + k"] k(2) by (simp add: add.commute)
  then have "valid_utf8 (dropWhile (\<lambda>c. \<not> RuneStart c) (drop ?d ?s))"
    by (simp add: k(1) add.commute)
  then show ?thesis by (simp add: truncateLogTail_def Let_def valid_ascii between_def)
qed

lemma log_tail_length: "length (truncateLogTail t) \<le> 32786"
proof -
  have "length (dropWhile P (drop (length s - log_tail_max) s)) \<le> log_tail_max" for P and s :: string
    using length_dropWhile_le [of P "drop (length s - log_tail_max) s"] by simp
  then show ?thesis by (simp add: truncateLogTail_def Let_def log_tail_max_def)
qed

end
