(* ===== verification/Boot_Types.thy ===== *)
theory Boot_Types
  imports Boot_Text Go_Json_Text
begin

text \<open>
  The data of internal/bootstrap/spec.go: the saved set-up of a repository (Spec) with its services,
  secrets and testability contract, the manifest the bootstrap writes, and their JSON. A nil slice and
  an empty one are not told apart: the store writes both as [], and the contract leaves both out.
  json.Marshal replaces every byte that is not UTF-8.
\<close>

section \<open>Records\<close>

definition CurrentBootstrapGeneration :: int where "CurrentBootstrapGeneration = 2"

definition StatusValidated :: string where "StatusValidated = ''validated''"
definition StatusPartial :: string where "StatusPartial = ''partial''"
definition StatusStale :: string where "StatusStale = ''stale''"
definition StatusFailing :: string where "StatusFailing = ''failing''"

lemmas boot_status_defs = StatusValidated_def StatusPartial_def StatusStale_def StatusFailing_def

record boot_service =
  bsv_Name :: string
  bsv_Port :: int
  bsv_URL :: string
  bsv_Kind :: string

record boot_secret =
  bsc_Name :: string
  bsc_UserSupplied :: bool
  bsc_Hint :: string

record validation_capability =
  vc_CanRunUI :: bool
  vc_DefaultURL :: string
  vc_HealthRoute :: string
  vc_BrowserSmokeTarget :: string
  vc_TestCommands :: "string list"
  vc_BuildCommand :: string
  vc_ReloadCommand :: string
  vc_AuthBypass :: string
  vc_SeedData :: string
  vc_RequiredMocks :: "string list"
  vc_SlowOrFlakyTests :: "string list"
  vc_EvidenceRequired :: "string list"
  vc_Notes :: string

record boot_spec =
  bs_InstallationID :: int
  bs_RepoID :: int
  bs_Path :: string
  bs_SpecVersion :: int
  bs_BootstrapGeneration :: int
  bs_Kind :: string
  bs_SetupScript :: string
  bs_StartScript :: string
  bs_HealthCheck :: string
  bs_StopScript :: string
  bs_LessonsMD :: string
  bs_Services :: "boot_service list"
  bs_RequiredSecrets :: "boot_secret list"
  bs_DeferredCapabilities :: "string list"
  bs_SuggestedRepoChanges :: "string list"
  bs_ValidationCapability :: validation_capability
  bs_SourceFingerprint :: string
  bs_ValidationStatus :: string
  bs_SuccessCount :: int
  bs_FailureCount :: int
  bs_BootstrapLog :: string

record boot_manifest =
  mf_Kind :: string
  mf_Services :: "boot_service list"
  mf_RequiredSecrets :: "boot_secret list"
  mf_DeferredCapabilities :: "string list"
  mf_SuggestedRepoChanges :: "string list"
  mf_ValidationCapability :: validation_capability

definition zero_service :: boot_service where
  "zero_service = \<lparr>bsv_Name = [], bsv_Port = 0, bsv_URL = [], bsv_Kind = []\<rparr>"

definition zero_secret :: boot_secret where
  "zero_secret = \<lparr>bsc_Name = [], bsc_UserSupplied = False, bsc_Hint = []\<rparr>"

definition zero_capability :: validation_capability where
  "zero_capability = \<lparr>vc_CanRunUI = False, vc_DefaultURL = [], vc_HealthRoute = [], vc_BrowserSmokeTarget = [], vc_TestCommands = [], vc_BuildCommand = [],
     vc_ReloadCommand = [], vc_AuthBypass = [], vc_SeedData = [], vc_RequiredMocks = [], vc_SlowOrFlakyTests = [], vc_EvidenceRequired = [], vc_Notes = []\<rparr>"

definition zero_manifest :: boot_manifest where
  "zero_manifest = \<lparr>mf_Kind = [], mf_Services = [], mf_RequiredSecrets = [], mf_DeferredCapabilities = [],
     mf_SuggestedRepoChanges = [], mf_ValidationCapability = zero_capability\<rparr>"

definition HasDeferred :: "boot_manifest \<Rightarrow> bool" where
  "HasDeferred m \<longleftrightarrow> mf_DeferredCapabilities m \<noteq> []"

definition NeedsGenerationUpgrade :: "boot_spec option \<Rightarrow> bool" where
  "NeedsGenerationUpgrade spec = (case spec of None \<Rightarrow> False
     | Some p \<Rightarrow> bs_BootstrapGeneration p < CurrentBootstrapGeneration)"

section \<open>Writing JSON\<close>

function json_utf8 :: "string \<Rightarrow> string" where
  "json_utf8 [] = []"
| "json_utf8 (c # s) = (let w = rune_width (c # s) in
     if w = 0 then replacement @ json_utf8 s else take w (c # s) @ json_utf8 (drop w (c # s)))"
  by pat_completeness auto
termination by (relation "measure length") auto

declare json_utf8.simps(2) [simp del]

definition marshal_string :: "string \<Rightarrow> json" where
  "marshal_string s = JStr (json_utf8 s)"

definition marshal_strings :: "string list \<Rightarrow> json" where
  "marshal_strings xs = JArr (map marshal_string xs)"

definition omit_text :: "string \<Rightarrow> string \<Rightarrow> (string \<times> json) list" where
  "omit_text k v = (if v = [] then [] else [(k, marshal_string v)])"

definition omit_bool :: "string \<Rightarrow> bool \<Rightarrow> (string \<times> json) list" where
  "omit_bool k v = (if v then [(k, JBool v)] else [])"

definition omit_texts :: "string \<Rightarrow> string list \<Rightarrow> (string \<times> json) list" where
  "omit_texts k v = (if v = [] then [] else [(k, marshal_strings v)])"

definition service_json :: "boot_service \<Rightarrow> json" where
  "service_json v = JObj [(''name'', marshal_string (bsv_Name v)), (''port'', JNum (itoa (bsv_Port v))),
     (''url'', marshal_string (bsv_URL v)), (''kind'', marshal_string (bsv_Kind v))]"

definition secret_json :: "boot_secret \<Rightarrow> json" where
  "secret_json c = JObj ([(''name'', marshal_string (bsc_Name c)), (''user_supplied'', JBool (bsc_UserSupplied c))] @
     omit_text ''hint'' (bsc_Hint c))"

definition capability_json :: "validation_capability \<Rightarrow> json" where
  "capability_json c = JObj (omit_bool ''can_run_ui'' (vc_CanRunUI c) @ omit_text ''default_url'' (vc_DefaultURL c) @
     omit_text ''health_route'' (vc_HealthRoute c) @ omit_text ''browser_smoke_target'' (vc_BrowserSmokeTarget c) @
     omit_texts ''test_commands'' (vc_TestCommands c) @ omit_text ''build_command'' (vc_BuildCommand c) @
     omit_text ''reload_command'' (vc_ReloadCommand c) @ omit_text ''auth_bypass'' (vc_AuthBypass c) @
     omit_text ''seed_data'' (vc_SeedData c) @ omit_texts ''required_mocks'' (vc_RequiredMocks c) @
     omit_texts ''slow_or_flaky_tests'' (vc_SlowOrFlakyTests c) @ omit_texts ''evidence_required'' (vc_EvidenceRequired c) @
     omit_text ''notes'' (vc_Notes c))"

section \<open>Reading JSON\<close>

definition read_strings :: "json \<Rightarrow> go_error + string list" where
  "read_strings j = json_list (\<lambda>x. json_string x []) j"

definition service_field :: "string \<Rightarrow> json \<Rightarrow> boot_service \<Rightarrow> go_error + boot_service" where
  "service_field k v x =
     (if k = ''name'' then lift_field (json_string v (bsv_Name x)) (\<lambda>y. x\<lparr>bsv_Name := y\<rparr>)
      else if k = ''port'' then lift_field (json_int v (bsv_Port x)) (\<lambda>y. x\<lparr>bsv_Port := y\<rparr>)
      else if k = ''url'' then lift_field (json_string v (bsv_URL x)) (\<lambda>y. x\<lparr>bsv_URL := y\<rparr>)
      else if k = ''kind'' then lift_field (json_string v (bsv_Kind x)) (\<lambda>y. x\<lparr>bsv_Kind := y\<rparr>)
      else Inr x)"

definition service_read :: "json \<Rightarrow> go_error + boot_service" where
  "service_read j = json_object service_field j zero_service"

definition secret_field :: "string \<Rightarrow> json \<Rightarrow> boot_secret \<Rightarrow> go_error + boot_secret" where
  "secret_field k v x =
     (if k = ''name'' then lift_field (json_string v (bsc_Name x)) (\<lambda>y. x\<lparr>bsc_Name := y\<rparr>)
      else if k = ''user_supplied'' then lift_field (json_bool v (bsc_UserSupplied x)) (\<lambda>y. x\<lparr>bsc_UserSupplied := y\<rparr>)
      else if k = ''hint'' then lift_field (json_string v (bsc_Hint x)) (\<lambda>y. x\<lparr>bsc_Hint := y\<rparr>)
      else Inr x)"

definition secret_read :: "json \<Rightarrow> go_error + boot_secret" where
  "secret_read j = json_object secret_field j zero_secret"

definition capability_field :: "string \<Rightarrow> json \<Rightarrow> validation_capability \<Rightarrow> go_error + validation_capability" where
  "capability_field k v x =
     (if k = ''can_run_ui'' then lift_field (json_bool v (vc_CanRunUI x)) (\<lambda>y. x\<lparr>vc_CanRunUI := y\<rparr>)
      else if k = ''default_url'' then lift_field (json_string v (vc_DefaultURL x)) (\<lambda>y. x\<lparr>vc_DefaultURL := y\<rparr>)
      else if k = ''health_route'' then lift_field (json_string v (vc_HealthRoute x)) (\<lambda>y. x\<lparr>vc_HealthRoute := y\<rparr>)
      else if k = ''browser_smoke_target'' then lift_field (json_string v (vc_BrowserSmokeTarget x)) (\<lambda>y. x\<lparr>vc_BrowserSmokeTarget := y\<rparr>)
      else if k = ''test_commands'' then lift_field (read_strings v) (\<lambda>y. x\<lparr>vc_TestCommands := y\<rparr>)
      else if k = ''build_command'' then lift_field (json_string v (vc_BuildCommand x)) (\<lambda>y. x\<lparr>vc_BuildCommand := y\<rparr>)
      else if k = ''reload_command'' then lift_field (json_string v (vc_ReloadCommand x)) (\<lambda>y. x\<lparr>vc_ReloadCommand := y\<rparr>)
      else if k = ''auth_bypass'' then lift_field (json_string v (vc_AuthBypass x)) (\<lambda>y. x\<lparr>vc_AuthBypass := y\<rparr>)
      else if k = ''seed_data'' then lift_field (json_string v (vc_SeedData x)) (\<lambda>y. x\<lparr>vc_SeedData := y\<rparr>)
      else if k = ''required_mocks'' then lift_field (read_strings v) (\<lambda>y. x\<lparr>vc_RequiredMocks := y\<rparr>)
      else if k = ''slow_or_flaky_tests'' then lift_field (read_strings v) (\<lambda>y. x\<lparr>vc_SlowOrFlakyTests := y\<rparr>)
      else if k = ''evidence_required'' then lift_field (read_strings v) (\<lambda>y. x\<lparr>vc_EvidenceRequired := y\<rparr>)
      else if k = ''notes'' then lift_field (json_string v (vc_Notes x)) (\<lambda>y. x\<lparr>vc_Notes := y\<rparr>)
      else Inr x)"

definition capability_read :: "json \<Rightarrow> validation_capability \<Rightarrow> go_error + validation_capability" where
  "capability_read j x = json_object capability_field j x"

definition manifest_field :: "string \<Rightarrow> json \<Rightarrow> boot_manifest \<Rightarrow> go_error + boot_manifest" where
  "manifest_field k v m =
     (if k = ''kind'' then lift_field (json_string v (mf_Kind m)) (\<lambda>y. m\<lparr>mf_Kind := y\<rparr>)
      else if k = ''services'' then lift_field (json_list service_read v) (\<lambda>y. m\<lparr>mf_Services := y\<rparr>)
      else if k = ''required_secrets'' then lift_field (json_list secret_read v) (\<lambda>y. m\<lparr>mf_RequiredSecrets := y\<rparr>)
      else if k = ''deferred_capabilities'' then lift_field (read_strings v) (\<lambda>y. m\<lparr>mf_DeferredCapabilities := y\<rparr>)
      else if k = ''suggested_repo_changes'' then lift_field (read_strings v) (\<lambda>y. m\<lparr>mf_SuggestedRepoChanges := y\<rparr>)
      else if k = ''validation_capability''
        then lift_field (capability_read v (mf_ValidationCapability m)) (\<lambda>y. m\<lparr>mf_ValidationCapability := y\<rparr>)
      else Inr m)"

definition errEmptyManifest :: go_error where
  "errEmptyManifest = ErrNew ''bootstrap: manifest is empty''"

definition ParseManifest :: "string \<Rightarrow> go_error + boot_manifest" where
  "ParseManifest data =
     (if data = [] then Inl errEmptyManifest
      else case json_parse data of
        Inl e \<Rightarrow> Inl (Wrapped ''bootstrap: parse manifest'' e)
      | Inr j \<Rightarrow> (case json_object manifest_field j zero_manifest of
          Inl e \<Rightarrow> Inl (Wrapped ''bootstrap: parse manifest'' e) | Inr m \<Rightarrow> Inr m))"

section \<open>What is written reads back\<close>

lemma json_utf8_id [simp]: "valid_utf8 s \<Longrightarrow> json_utf8 s = s"
proof (induction s rule: valid_utf8.induct)
  case (2 c s)
  let ?w = "rune_width (c # s)"
  from 2(2) have w: "?w \<noteq> 0" "valid_utf8 (drop ?w (c # s))" by (simp_all add: valid_utf8.simps(2) split: if_splits)
  then show ?case using 2(1) [OF w] by (simp only: json_utf8.simps(2) Let_def if_False append_take_drop_id)
qed simp

definition service_ok :: "boot_service \<Rightarrow> bool" where
  "service_ok v \<longleftrightarrow> valid_utf8 (bsv_Name v) \<and> valid_utf8 (bsv_URL v) \<and> valid_utf8 (bsv_Kind v) \<and> is_int64 (bsv_Port v)"

definition secret_ok :: "boot_secret \<Rightarrow> bool" where
  "secret_ok c \<longleftrightarrow> valid_utf8 (bsc_Name c) \<and> valid_utf8 (bsc_Hint c)"

definition capability_ok :: "validation_capability \<Rightarrow> bool" where
  "capability_ok c \<longleftrightarrow> list_all valid_utf8 [vc_DefaultURL c, vc_HealthRoute c, vc_BrowserSmokeTarget c, vc_BuildCommand c,
     vc_ReloadCommand c, vc_AuthBypass c, vc_SeedData c, vc_Notes c] \<and>
     list_all (list_all valid_utf8) [vc_TestCommands c, vc_RequiredMocks c, vc_SlowOrFlakyTests c, vc_EvidenceRequired c]"

lemma boot_keys [simp]:
  "to_lower ''auth_bypass'' = ''auth_bypass''"
  "to_lower ''browser_smoke_target'' = ''browser_smoke_target''"
  "to_lower ''build_command'' = ''build_command''"
  "to_lower ''can_run_ui'' = ''can_run_ui''"
  "to_lower ''default_url'' = ''default_url''"
  "to_lower ''deferred_capabilities'' = ''deferred_capabilities''"
  "to_lower ''evidence_required'' = ''evidence_required''"
  "to_lower ''health_route'' = ''health_route''"
  "to_lower ''hint'' = ''hint''"
  "to_lower ''kind'' = ''kind''"
  "to_lower ''name'' = ''name''"
  "to_lower ''notes'' = ''notes''"
  "to_lower ''port'' = ''port''"
  "to_lower ''reload_command'' = ''reload_command''"
  "to_lower ''required_mocks'' = ''required_mocks''"
  "to_lower ''required_secrets'' = ''required_secrets''"
  "to_lower ''seed_data'' = ''seed_data''"
  "to_lower ''services'' = ''services''"
  "to_lower ''slow_or_flaky_tests'' = ''slow_or_flaky_tests''"
  "to_lower ''suggested_repo_changes'' = ''suggested_repo_changes''"
  "to_lower ''test_commands'' = ''test_commands''"
  "to_lower ''url'' = ''url''"
  "to_lower ''user_supplied'' = ''user_supplied''"
  "to_lower ''validation_capability'' = ''validation_capability''"
  by code_simp+

lemma json_list_read:
  "(\<And>x. x \<in> set xs \<Longrightarrow> dec (enc x) = Inr x) \<Longrightarrow> json_list dec (JArr (map enc xs)) = Inr xs"
  by (induction xs) simp_all

lemma strings_read [simp]: "list_all valid_utf8 xs \<Longrightarrow> read_strings (marshal_strings xs) = Inr xs"
  unfolding read_strings_def marshal_strings_def
  by (rule json_list_read) (simp add: marshal_string_def list_all_iff)

lemma service_roundtrip: "service_ok v \<Longrightarrow> service_read (service_json v) = Inr v"
  by (simp add: service_ok_def service_read_def service_json_def service_field_def lift_field_def marshal_string_def
      atoi_itoa zero_service_def)

lemma secret_roundtrip: "secret_ok c \<Longrightarrow> secret_read (secret_json c) = Inr c"
  by (simp add: secret_ok_def secret_read_def secret_json_def secret_field_def lift_field_def marshal_string_def
      omit_text_def zero_secret_def)

lemma members_join:
  "json_members f (xs @ ys) a = (case json_members f xs a of Inl e \<Rightarrow> Inl e | Inr b \<Rightarrow> json_members f ys b)"
  by (induction xs arbitrary: a) (auto split: sum.splits)

lemma capability_fields:
  "json_members capability_field (omit_bool ''can_run_ui'' b) x = Inr (x\<lparr>vc_CanRunUI := b \<or> vc_CanRunUI x\<rparr>)"
  "valid_utf8 t \<Longrightarrow> vc_DefaultURL x = [] \<Longrightarrow> json_members capability_field (omit_text ''default_url'' t) x = Inr (x\<lparr>vc_DefaultURL := t\<rparr>)"
  "valid_utf8 t \<Longrightarrow> vc_HealthRoute x = [] \<Longrightarrow> json_members capability_field (omit_text ''health_route'' t) x = Inr (x\<lparr>vc_HealthRoute := t\<rparr>)"
  "valid_utf8 t \<Longrightarrow> vc_BrowserSmokeTarget x = [] \<Longrightarrow> json_members capability_field (omit_text ''browser_smoke_target'' t) x = Inr (x\<lparr>vc_BrowserSmokeTarget := t\<rparr>)"
  "list_all valid_utf8 ts \<Longrightarrow> vc_TestCommands x = [] \<Longrightarrow> json_members capability_field (omit_texts ''test_commands'' ts) x = Inr (x\<lparr>vc_TestCommands := ts\<rparr>)"
  "valid_utf8 t \<Longrightarrow> vc_BuildCommand x = [] \<Longrightarrow> json_members capability_field (omit_text ''build_command'' t) x = Inr (x\<lparr>vc_BuildCommand := t\<rparr>)"
  "valid_utf8 t \<Longrightarrow> vc_ReloadCommand x = [] \<Longrightarrow> json_members capability_field (omit_text ''reload_command'' t) x = Inr (x\<lparr>vc_ReloadCommand := t\<rparr>)"
  "valid_utf8 t \<Longrightarrow> vc_AuthBypass x = [] \<Longrightarrow> json_members capability_field (omit_text ''auth_bypass'' t) x = Inr (x\<lparr>vc_AuthBypass := t\<rparr>)"
  "valid_utf8 t \<Longrightarrow> vc_SeedData x = [] \<Longrightarrow> json_members capability_field (omit_text ''seed_data'' t) x = Inr (x\<lparr>vc_SeedData := t\<rparr>)"
  "list_all valid_utf8 ts \<Longrightarrow> vc_RequiredMocks x = [] \<Longrightarrow> json_members capability_field (omit_texts ''required_mocks'' ts) x = Inr (x\<lparr>vc_RequiredMocks := ts\<rparr>)"
  "list_all valid_utf8 ts \<Longrightarrow> vc_SlowOrFlakyTests x = [] \<Longrightarrow> json_members capability_field (omit_texts ''slow_or_flaky_tests'' ts) x = Inr (x\<lparr>vc_SlowOrFlakyTests := ts\<rparr>)"
  "list_all valid_utf8 ts \<Longrightarrow> vc_EvidenceRequired x = [] \<Longrightarrow> json_members capability_field (omit_texts ''evidence_required'' ts) x = Inr (x\<lparr>vc_EvidenceRequired := ts\<rparr>)"
  "valid_utf8 t \<Longrightarrow> vc_Notes x = [] \<Longrightarrow> json_members capability_field (omit_text ''notes'' t) x = Inr (x\<lparr>vc_Notes := t\<rparr>)"
  by (auto simp: omit_bool_def omit_text_def omit_texts_def capability_field_def lift_field_def marshal_string_def)

lemma capability_roundtrip: "capability_ok c \<Longrightarrow> capability_read (capability_json c) zero_capability = Inr c"
  by (simp add: capability_ok_def capability_read_def capability_json_def members_join capability_fields zero_capability_def)

end
