(* ===== verification/Boot_Store.thy ===== *)
theory Boot_Store
  imports Boot_Types Sql_Tables
begin

text \<open>
  The tables of the bootstrap (db/migrations: repo_setup_specs with the columns added since, and
  repo_secret_values) and the queries of internal/db/sqlc/repo_bootstrap.sql.go, one definition per query;
  \<open>now\<close> is NOW() and \<open>u\<close> is gen_random_uuid() in the statement. A text that is not UTF-8 or contains
  the character 0 is refused by PostgreSQL, in a TEXT column, in a JSONB column and as a parameter.
  A JSONB document is kept as its tree. Texts are ordered byte by byte (the C collation). The state also
  holds the sandbox, whatever that is, and what the user was told.
\<close>

section \<open>Rows and state\<close>

record setup_spec_row =
  rs_id :: string
  rs_installation_id :: int
  rs_repo_id :: int
  rs_path :: string
  rs_spec_version :: int
  rs_bootstrap_generation :: int
  rs_kind :: string
  rs_setup_script :: string
  rs_start_script :: string
  rs_health_check :: string
  rs_stop_script :: "string option"
  rs_lessons_md :: string
  rs_services :: json
  rs_required_secrets :: json
  rs_deferred_capabilities :: json
  rs_suggested_repo_changes :: json
  rs_validation_capability :: json
  rs_source_fingerprint :: string
  rs_validation_status :: string
  rs_last_validated_at :: timestamptz
  rs_success_count :: int
  rs_failure_count :: int
  rs_bootstrap_log :: "string option"
  rs_created_at :: timestamptz
  rs_updated_at :: timestamptz

record secret_value_row =
  rv_id :: string
  rv_installation_id :: int
  rv_repo_id :: int
  rv_path :: string
  rv_name :: string
  rv_value_encrypted :: "string option"
  rv_created_at :: timestamptz
  rv_updated_at :: timestamptz

record 'w boot_db =
  setup_specs :: "setup_spec_row list"
  secret_values :: "secret_value_row list"
  boot_notices :: "(string \<times> string) list"
  boot_sandbox :: 'w

type_synonym boot_key = "int \<times> int \<times> string"

definition spec_key :: "setup_spec_row \<Rightarrow> boot_key" where
  "spec_key r = (rs_installation_id r, rs_repo_id r, rs_path r)"

definition secret_key :: "secret_value_row \<Rightarrow> boot_key \<times> string" where
  "secret_key r = ((rv_installation_id r, rv_repo_id r, rv_path r), rv_name r)"

section \<open>Texts and constraints\<close>

definition text_ok :: "string \<Rightarrow> bool" where
  "text_ok s \<longleftrightarrow> valid_utf8 s \<and> CHR 0x00 \<notin> set s"

fun jsonb_ok :: "json \<Rightarrow> bool" where
  "jsonb_ok (JStr s) = text_ok s"
| "jsonb_ok (JArr js) = list_all jsonb_ok js"
| "jsonb_ok (JObj kvs) = list_all (\<lambda>kv. text_ok (fst kv) \<and> jsonb_ok (snd kv)) kvs"
| "jsonb_ok j = True"

definition InvalidText :: go_error where
  "InvalidText = ErrNew ''invalid byte sequence for encoding UTF8 (SQLSTATE 22021)''"

definition with_texts :: "string list \<Rightarrow> ('s, 'a) go \<Rightarrow> ('s, 'a) go" where
  "with_texts ts q = (if list_all text_ok ts then q else fail InvalidText)"

definition validation_statuses :: "string list" where
  "validation_statuses = [''validated'', ''partial'', ''stale'', ''failing'']"

definition setup_spec_error :: "setup_spec_row \<Rightarrow> go_error option" where
  "setup_spec_error r =
     (if \<not> list_all text_ok ([rs_path r, rs_kind r, rs_setup_script r, rs_start_script r, rs_health_check r,
         rs_lessons_md r, rs_source_fingerprint r, rs_validation_status r] @
         map the (filter (\<lambda>x. x \<noteq> None) [rs_stop_script r, rs_bootstrap_log r])) then Some InvalidText
      else if \<not> list_all jsonb_ok [rs_services r, rs_required_secrets r, rs_deferred_capabilities r,
         rs_suggested_repo_changes r, rs_validation_capability r]
        then Some (ErrNew ''unsupported Unicode escape sequence (SQLSTATE 22P05)'')
      else if \<not> list_all int4 [rs_spec_version r, rs_bootstrap_generation r, rs_success_count r, rs_failure_count r]
        then Some IntegerOutOfRange
      else if rs_validation_status r \<notin> set validation_statuses
        then Some (CheckViolation ''repo_setup_specs_validation_status_check'')
      else None)"

definition setup_spec_constraints :: "('w boot_db, setup_spec_row) constraints" where
  "setup_spec_constraints = \<lparr>row_check = setup_spec_error, ref_check = (\<lambda>s r. None)\<rparr>"

definition secret_value_error :: "secret_value_row \<Rightarrow> go_error option" where
  "secret_value_error r = (if list_all text_ok [rv_path r, rv_name r] then None else Some InvalidText)"

definition secret_value_constraints :: "('w boot_db, secret_value_row) constraints" where
  "secret_value_constraints = \<lparr>row_check = secret_value_error, ref_check = (\<lambda>s r. None)\<rparr>"

definition no_result :: "('s, 'a) go \<Rightarrow> ('s, unit) go" where
  "no_result q = andthen q (\<lambda>_. ret ())"

section \<open>Set-up specs\<close>

definition is_spec :: "boot_key \<Rightarrow> setup_spec_row \<Rightarrow> bool" where
  "is_spec k r \<longleftrightarrow> spec_key r = k"

definition DeleteRepoSetupSpec :: "boot_key \<Rightarrow> ('w boot_db, unit) go" where
  "DeleteRepoSetupSpec k = with_texts [snd (snd k)]
     (no_result (sql_delete setup_specs setup_specs_update (is_spec k)))"

definition GetRepoSetupSpec :: "boot_key \<Rightarrow> ('w boot_db, setup_spec_row) go" where
  "GetRepoSetupSpec k = with_texts [snd (snd k)] (sql_get setup_specs (is_spec k))"

definition ListRepoSetupSpecs :: "int \<Rightarrow> int \<Rightarrow> ('w boot_db, setup_spec_row list) go" where
  "ListRepoSetupSpecs installation repo = andthen
     (sql_list setup_specs (\<lambda>r. rs_installation_id r = installation \<and> rs_repo_id r = repo))
     (\<lambda>rows. ret (sort_key rs_path rows))"

definition UpdateRepoSetupSpecStatus ::
  "go_time \<Rightarrow> boot_key \<Rightarrow> string \<Rightarrow> timestamptz \<Rightarrow> int \<Rightarrow> int \<Rightarrow> ('w boot_db, unit) go" where
  "UpdateRepoSetupSpecStatus now k status validated success failure = with_texts [snd (snd k), status]
     (no_result (sql_update_all setup_specs setup_specs_update setup_spec_constraints (is_spec k)
       (\<lambda>r. r\<lparr>rs_validation_status := status, rs_last_validated_at := validated, rs_success_count := success,
          rs_failure_count := failure, rs_updated_at := Some now\<rparr>)))"

text \<open>The columns both upserts take from the proposed row \<open>x\<close> when the key exists.\<close>

definition excluded :: "setup_spec_row \<Rightarrow> setup_spec_row \<Rightarrow> setup_spec_row" where
  "excluded x r = r\<lparr>rs_spec_version := rs_spec_version x, rs_bootstrap_generation := rs_bootstrap_generation x, rs_kind := rs_kind x,
     rs_setup_script := rs_setup_script x, rs_start_script := rs_start_script x, rs_health_check := rs_health_check x,
     rs_stop_script := rs_stop_script x, rs_lessons_md := rs_lessons_md x, rs_services := rs_services x,
     rs_required_secrets := rs_required_secrets x, rs_deferred_capabilities := rs_deferred_capabilities x, rs_suggested_repo_changes := rs_suggested_repo_changes x,
     rs_validation_capability := rs_validation_capability x, rs_source_fingerprint := rs_source_fingerprint x, rs_validation_status := rs_validation_status x,
     rs_bootstrap_log := rs_bootstrap_log x\<rparr>"

definition UpsertRepoSetupSpec :: "string \<Rightarrow> go_time \<Rightarrow> setup_spec_row \<Rightarrow> ('w boot_db, setup_spec_row) go" where
  "UpsertRepoSetupSpec u now x = sql_upsert setup_specs setup_specs_update setup_spec_constraints
     (is_spec (spec_key x)) (x\<lparr>rs_id := u, rs_created_at := Some now, rs_updated_at := Some now\<rparr>)
     (\<lambda>r. (excluded x r)\<lparr>rs_last_validated_at := rs_last_validated_at x, rs_success_count := rs_success_count x,
        rs_failure_count := rs_failure_count x, rs_updated_at := Some now\<rparr>)"

definition UpsertFailingRepoSetupSpec :: "string \<Rightarrow> go_time \<Rightarrow> setup_spec_row \<Rightarrow> ('w boot_db, setup_spec_row) go" where
  "UpsertFailingRepoSetupSpec u now x = sql_upsert setup_specs setup_specs_update setup_spec_constraints
     (is_spec (spec_key x)) (x\<lparr>rs_id := u, rs_last_validated_at := None, rs_success_count := 0, rs_failure_count := 1,
        rs_created_at := Some now, rs_updated_at := Some now\<rparr>)
     (\<lambda>r. (excluded x r)\<lparr>rs_failure_count := rs_failure_count r + 1, rs_updated_at := Some now\<rparr>)"

section \<open>Secret values\<close>

definition is_secret :: "boot_key \<Rightarrow> string \<Rightarrow> secret_value_row \<Rightarrow> bool" where
  "is_secret k name r \<longleftrightarrow> secret_key r = (k, name)"

definition DeleteRepoSecretValue :: "boot_key \<Rightarrow> string \<Rightarrow> ('w boot_db, unit) go" where
  "DeleteRepoSecretValue k name = with_texts [snd (snd k), name]
     (no_result (sql_delete secret_values secret_values_update (is_secret k name)))"

definition GetRepoSecretValue :: "boot_key \<Rightarrow> string \<Rightarrow> ('w boot_db, secret_value_row) go" where
  "GetRepoSecretValue k name = with_texts [snd (snd k), name] (sql_get secret_values (is_secret k name))"

definition new_secret_row :: "string \<Rightarrow> go_time \<Rightarrow> boot_key \<Rightarrow> string \<Rightarrow> string option \<Rightarrow> secret_value_row" where
  "new_secret_row u now k name value = \<lparr>rv_id = u, rv_installation_id = fst k, rv_repo_id = fst (snd k),
     rv_path = snd (snd k), rv_name = name, rv_value_encrypted = value, rv_created_at = Some now, rv_updated_at = Some now\<rparr>"

definition InsertRepoSecretValueIfAbsent :: "string \<Rightarrow> go_time \<Rightarrow> boot_key \<Rightarrow> string \<Rightarrow> ('w boot_db, unit) go" where
  "InsertRepoSecretValueIfAbsent u now k name = with_texts [snd (snd k), name]
     (no_result (sql_insert_once secret_values secret_values_update (is_secret k name) (new_secret_row u now k name None)))"

definition ListRepoSecretValues :: "boot_key \<Rightarrow> ('w boot_db, secret_value_row list) go" where
  "ListRepoSecretValues k = with_texts [snd (snd k)]
     (andthen (sql_list secret_values (\<lambda>r. fst (secret_key r) = k)) (\<lambda>rows. ret (sort_key rv_name rows)))"

definition UpsertRepoSecretValue ::
  "string \<Rightarrow> go_time \<Rightarrow> boot_key \<Rightarrow> string \<Rightarrow> string option \<Rightarrow> ('w boot_db, unit) go" where
  "UpsertRepoSecretValue u now k name value = no_result (sql_upsert secret_values secret_values_update
     secret_value_constraints (is_secret k name) (new_secret_row u now k name value)
     (\<lambda>r. r\<lparr>rv_value_encrypted := value, rv_updated_at := Some now\<rparr>))"

chapter \<open>The store\<close>

text \<open>
  internal/bootstrap/store.go, one definition per method, and the cipher of internal/secrets that its
  secrets go through. The AEAD of crypto/cipher and the random bytes of a nonce are given; \<open>clock\<close> is
  time.Now() and \<open>now\<close>, \<open>u\<close> are those of the statement. A map[string]string is the list of its entries,
  sorted by key.
\<close>

section \<open>Maps of texts\<close>

type_synonym text_map = "(string \<times> string) list"

fun put_entry :: "string \<Rightarrow> string \<Rightarrow> text_map \<Rightarrow> text_map" where
  "put_entry k v [] = [(k, v)]"
| "put_entry k v ((k', v') # m) =
     (if k = k' then (k, v) # m else if k < k' then (k, v) # (k', v') # m else (k', v') # put_entry k v m)"

lemma map_of_put [simp]: "map_of (put_entry k v m) = (map_of m)(k \<mapsto> v)"
  by (induction k v m rule: put_entry.induct) auto

section \<open>The cipher\<close>

record aead =
  aead_NonceSize :: nat
  aead_Seal :: "string \<Rightarrow> string \<Rightarrow> string"
  aead_Open :: "string \<Rightarrow> string \<Rightarrow> go_error + string"

definition ErrEmptyCiphertext :: go_error where
  "ErrEmptyCiphertext = ErrNew ''secrets: empty ciphertext''"

definition Encrypt :: "aead \<Rightarrow> go_error + string \<Rightarrow> string \<Rightarrow> go_error + string option" where
  "Encrypt c rnd plaintext =
     (if plaintext = [] then Inr None
      else case rnd of
        Inl e \<Rightarrow> Inl (Wrapped ''nonce'' e)
      | Inr nonce \<Rightarrow> Inr (Some (nonce @ aead_Seal c nonce plaintext)))"

definition Decrypt :: "aead \<Rightarrow> string option \<Rightarrow> go_error + string" where
  "Decrypt c ciphertext =
     (case ciphertext of
        None \<Rightarrow> Inr []
      | Some bs \<Rightarrow>
          if bs = [] then Inr []
          else if length bs < aead_NonceSize c then Inl ErrEmptyCiphertext
          else case aead_Open c (take (aead_NonceSize c) bs) (drop (aead_NonceSize c) bs) of
            Inl e \<Rightarrow> Inl (Wrapped ''open'' e) | Inr pt \<Rightarrow> Inr pt)"

section \<open>Specs\<close>

definition BootErrNotFound :: go_error where
  "BootErrNotFound = ErrNew ''bootstrap: spec not found''"

definition bootstrapGenerationForSave :: "int \<Rightarrow> int" where
  "bootstrapGenerationForSave generation = (if generation \<le> 0 then CurrentBootstrapGeneration else generation)"

definition optional_text :: "string \<Rightarrow> string option" where
  "optional_text s = (if s = [] then None else Some (postgresText s))"

text \<open>The parameters of the two upserts; id, created_at and updated_at are the statement's.\<close>

definition spec_params :: "boot_spec \<Rightarrow> timestamptz \<Rightarrow> setup_spec_row" where
  "spec_params p lastValidated = \<lparr>rs_id = [], rs_installation_id = bs_InstallationID p, rs_repo_id = bs_RepoID p,
     rs_path = postgresText (bs_Path p), rs_spec_version = bs_SpecVersion p,
     rs_bootstrap_generation = bootstrapGenerationForSave (bs_BootstrapGeneration p),
     rs_kind = postgresText (bs_Kind p), rs_setup_script = postgresText (bs_SetupScript p),
     rs_start_script = postgresText (bs_StartScript p), rs_health_check = postgresText (bs_HealthCheck p),
     rs_stop_script = optional_text (bs_StopScript p), rs_lessons_md = postgresText (bs_LessonsMD p),
     rs_services = JArr (map service_json (bs_Services p)),
     rs_required_secrets = JArr (map secret_json (bs_RequiredSecrets p)),
     rs_deferred_capabilities = marshal_strings (bs_DeferredCapabilities p),
     rs_suggested_repo_changes = marshal_strings (bs_SuggestedRepoChanges p),
     rs_validation_capability = capability_json (bs_ValidationCapability p),
     rs_source_fingerprint = postgresText (bs_SourceFingerprint p),
     rs_validation_status = postgresText (bs_ValidationStatus p), rs_last_validated_at = lastValidated,
     rs_success_count = bs_SuccessCount p, rs_failure_count = bs_FailureCount p,
     rs_bootstrap_log = optional_text (bs_BootstrapLog p), rs_created_at = None, rs_updated_at = None\<rparr>"

definition rowToSpec :: "setup_spec_row \<Rightarrow> go_error + boot_spec" where
  "rowToSpec row =
     (case json_list service_read (rs_services row) of Inl e \<Rightarrow> Inl (Wrapped ''bootstrap: decode services'' e)
      | Inr services \<Rightarrow>
     (case json_list secret_read (rs_required_secrets row) of Inl e \<Rightarrow> Inl (Wrapped ''bootstrap: decode required secrets'' e)
      | Inr required \<Rightarrow>
     (case read_strings (rs_deferred_capabilities row) of Inl e \<Rightarrow> Inl (Wrapped ''bootstrap: decode deferred'' e)
      | Inr deferred \<Rightarrow>
     (case read_strings (rs_suggested_repo_changes row) of Inl e \<Rightarrow> Inl (Wrapped ''bootstrap: decode suggestions'' e)
      | Inr suggestions \<Rightarrow>
     (case capability_read (rs_validation_capability row) zero_capability of
        Inl e \<Rightarrow> Inl (Wrapped ''bootstrap: decode validation capability'' e)
      | Inr capability \<Rightarrow>
     Inr \<lparr>bs_InstallationID = rs_installation_id row, bs_RepoID = rs_repo_id row, bs_Path = rs_path row,
       bs_SpecVersion = rs_spec_version row, bs_BootstrapGeneration = rs_bootstrap_generation row,
       bs_Kind = rs_kind row, bs_SetupScript = rs_setup_script row, bs_StartScript = rs_start_script row,
       bs_HealthCheck = rs_health_check row,
       bs_StopScript = (case rs_stop_script row of None \<Rightarrow> [] | Some v \<Rightarrow> v), bs_LessonsMD = rs_lessons_md row,
       bs_Services = services, bs_RequiredSecrets = required, bs_DeferredCapabilities = deferred,
       bs_SuggestedRepoChanges = suggestions, bs_ValidationCapability = capability,
       bs_SourceFingerprint = rs_source_fingerprint row, bs_ValidationStatus = rs_validation_status row,
       bs_SuccessCount = rs_success_count row, bs_FailureCount = rs_failure_count row,
       bs_BootstrapLog = (case rs_bootstrap_log row of None \<Rightarrow> [] | Some v \<Rightarrow> v)\<rparr>)))))"

definition boot_DeleteSpec :: "int \<Rightarrow> int \<Rightarrow> string \<Rightarrow> ('w boot_db, unit) go" where
  "boot_DeleteSpec installation repo path =
     wrap_err ''bootstrap: delete spec'' (DeleteRepoSetupSpec (installation, repo, path))"

definition boot_GetSpec :: "int \<Rightarrow> int \<Rightarrow> string \<Rightarrow> ('w boot_db, boot_spec) go" where
  "boot_GetSpec installation repo path = attempt (GetRepoSetupSpec (installation, repo, path)) (\<lambda>r.
     case r of
       Inl e \<Rightarrow> if err_is e ErrNoRows then fail BootErrNotFound else fail (Wrapped ''bootstrap: get spec'' e)
     | Inr row \<Rightarrow> lift_result (rowToSpec row))"

definition boot_SaveSpec :: "string \<Rightarrow> go_time \<Rightarrow> go_time \<Rightarrow> boot_spec \<Rightarrow> ('w boot_db, unit) go" where
  "boot_SaveSpec u clock now p =
     (let lastValidated =
        (if bs_ValidationStatus p = StatusValidated \<or> bs_ValidationStatus p = StatusPartial then Some clock else None)
      in wrap_err ''bootstrap: upsert spec'' (no_result (UpsertRepoSetupSpec u now (spec_params p lastValidated))))"

definition boot_SaveFailingSpec :: "string \<Rightarrow> go_time \<Rightarrow> boot_spec \<Rightarrow> ('w boot_db, unit) go" where
  "boot_SaveFailingSpec u now p =
     (if bs_ValidationStatus p \<noteq> StatusFailing
      then fail (ErrNew (''bootstrap: SaveFailingSpec called with status='' @ bs_ValidationStatus p @
        ''; use SaveSpec for non-failing rows''))
      else wrap_err ''bootstrap: upsert failing spec''
        (no_result (UpsertFailingRepoSetupSpec u now (spec_params p None))))"

definition boot_MarkApplied ::
  "go_time \<Rightarrow> go_time \<Rightarrow> int \<Rightarrow> int \<Rightarrow> string \<Rightarrow> string \<Rightarrow> int \<Rightarrow> int \<Rightarrow> ('w boot_db, unit) go" where
  "boot_MarkApplied clock now installation repo path status success failure =
     wrap_err ''bootstrap: update status'' (UpdateRepoSetupSpecStatus now (installation, repo, postgresText path)
       (postgresText status) (Some clock) success failure)"

section \<open>Secrets\<close>

record secret_summary =
  sum_Name :: string
  sum_Filled :: bool

fun decrypt_rows :: "aead \<Rightarrow> secret_value_row list \<Rightarrow> text_map \<Rightarrow> go_error + text_map" where
  "decrypt_rows c [] out = Inr out"
| "decrypt_rows c (row # rows) out =
     (case Decrypt c (rv_value_encrypted row) of
        Inl e \<Rightarrow> Inl (Wrapped (''bootstrap: decrypt '' @ rv_name row) e)
      | Inr pt \<Rightarrow> decrypt_rows c rows (if pt = [] then out else put_entry (rv_name row) pt out))"

definition boot_GetSecrets :: "aead \<Rightarrow> int \<Rightarrow> int \<Rightarrow> string \<Rightarrow> ('w boot_db, text_map) go" where
  "boot_GetSecrets c installation repo path =
     andthen (wrap_err ''bootstrap: list secrets'' (ListRepoSecretValues (installation, repo, path))) (\<lambda>rows.
       lift_result (decrypt_rows c rows []))"

definition boot_ListSecrets :: "int \<Rightarrow> int \<Rightarrow> string \<Rightarrow> ('w boot_db, secret_summary list) go" where
  "boot_ListSecrets installation repo path =
     andthen (wrap_err ''bootstrap: list secret summaries'' (ListRepoSecretValues (installation, repo, path))) (\<lambda>rows.
       ret (map (\<lambda>row. \<lparr>sum_Name = rv_name row,
         sum_Filled = (case rv_value_encrypted row of None \<Rightarrow> False | Some bs \<Rightarrow> bs \<noteq> [])\<rparr>) rows))"

definition boot_DeleteSecret :: "int \<Rightarrow> int \<Rightarrow> string \<Rightarrow> string \<Rightarrow> ('w boot_db, unit) go" where
  "boot_DeleteSecret installation repo path name =
     wrap_err ''bootstrap: delete secret'' (DeleteRepoSecretValue (installation, repo, path) name)"

definition boot_SetSecret ::
  "aead \<Rightarrow> go_error + string \<Rightarrow> string \<Rightarrow> go_time \<Rightarrow> int \<Rightarrow> int \<Rightarrow> string \<Rightarrow> string \<Rightarrow> string \<Rightarrow> ('w boot_db, unit) go" where
  "boot_SetSecret c rnd u now installation repo path name value =
     (case Encrypt c rnd value of
        Inl e \<Rightarrow> fail (Wrapped (''bootstrap: encrypt '' @ name) e)
      | Inr cipher \<Rightarrow> wrap_err ''bootstrap: upsert secret''
          (UpsertRepoSecretValue u now (installation, repo, path) name cipher))"

definition DeclareRequiredSecret :: "string \<Rightarrow> go_time \<Rightarrow> int \<Rightarrow> int \<Rightarrow> string \<Rightarrow> string \<Rightarrow> ('w boot_db, unit) go" where
  "DeclareRequiredSecret u now installation repo path name =
     InsertRepoSecretValueIfAbsent u now (installation, repo, path) name"

end
