(* ===== verification/Boot_Detect.thy ===== *)
theory Boot_Detect
  imports Boot_Types
begin

text \<open>
  Detection (internal/bootstrap/detect.go, detect_python.go): the files it looks for, the comments and
  commas it strips from a devcontainer.json, and what it reads from compose files, package.json, go.mod,
  .env examples, the readme and the Python version files. A checkout answers what os.ReadFile, os.Stat
  and os.ReadDir find under its root. The Dockerfile and the Makefile (multi-line expressions), the
  counts of file types and the TOML files (a third-party parser) are left out.
\<close>

section \<open>A checkout\<close>

text \<open>The content of a readable file, whether a path is there and no directory, the sorted entries of a
  directory with whether they are directories.\<close>

record checkout =
  ck_ReadFile :: "string \<Rightarrow> string option"
  ck_IsFile :: "string \<Rightarrow> bool"
  ck_ReadDir :: "string \<Rightarrow> (string \<times> bool) list option"

record dev_container =
  dc_Path :: string
  dc_Raw :: "(string \<times> json) list"
  dc_AlternatePaths :: "string list"

record docker_compose =
  dk_Path :: string
  dk_Services :: "string list"
  dk_Excerpt :: string

record package_json =
  pj_Path :: string
  pj_Scripts :: "string \<rightharpoonup> string"

record go_mod =
  gm_Path :: string
  gm_Module :: string
  gm_GoVer :: string

record env_entry =
  ee_Key :: string
  ee_Comment :: string
  ee_Value :: string

record env_example =
  ex_Path :: string
  ex_Keys :: "string list"
  ex_Entries :: "env_entry list"

section \<open>Stripping a JSON document with comments\<close>

definition newline :: char where "newline = CHR 0x0A"

text \<open>The rest after a block comment, with the line ends inside it.\<close>

fun skip_block :: "string \<Rightarrow> string \<times> string" where
  "skip_block [] = ([], [])"
| "skip_block [c] = ([], [])"
| "skip_block (c # d # s) =
     (if c = CHR ''*'' \<and> d = CHR ''/'' then ([], s)
      else (let (ns, r) = skip_block (d # s) in (if c = newline then newline # ns else ns, r)))"

lemma skip_block_shorter: "length (snd (skip_block s)) \<le> length s"
  by (induction s rule: skip_block.induct) (auto split: prod.splits)

function stripJSONComments :: "bool \<Rightarrow> bool \<Rightarrow> string \<Rightarrow> string" where
  "stripJSONComments inString escaped [] = []"
| "stripJSONComments inString escaped (c # s) =
     (if inString then
        c # (if escaped then stripJSONComments True False s
             else if c = CHR 0x5C then stripJSONComments True True s
             else if c = CHR 0x22 then stripJSONComments False False s
             else stripJSONComments True False s)
      else if c = CHR 0x22 then c # stripJSONComments True escaped s
      else if c = CHR ''/'' \<and> s \<noteq> [] \<and> hd s = CHR ''/'' then
        (let r = dropWhile (\<lambda>x. x \<noteq> newline) s in
         if r = [] then [] else newline # stripJSONComments False escaped (tl r))
      else if c = CHR ''/'' \<and> s \<noteq> [] \<and> hd s = CHR ''*'' then
        fst (skip_block (tl s)) @ stripJSONComments False escaped (snd (skip_block (tl s)))
      else c # stripJSONComments False escaped s)"
  by pat_completeness auto
termination
proof (relation "measure (\<lambda>(i, e, s). length s)", goal_cases)
  case (7 i e c s r)
  then show ?case using length_dropWhile_le [of "\<lambda>x. x \<noteq> newline" s] by (auto simp: less_Suc_eq_le)
next
  case (8 i e c s)
  then show ?case using skip_block_shorter [of "tl s"] by (auto simp: less_Suc_eq_le intro: order_trans)
qed auto

definition comma_space :: "char \<Rightarrow> bool" where
  "comma_space c \<longleftrightarrow> c \<in> {CHR 0x20, CHR 0x0A, CHR 0x0D, CHR 0x09}"

fun stripTrailingJSONCommas :: "bool \<Rightarrow> bool \<Rightarrow> string \<Rightarrow> string" where
  "stripTrailingJSONCommas inString escaped [] = []"
| "stripTrailingJSONCommas inString escaped (c # s) =
     (if inString then
        c # (if escaped then stripTrailingJSONCommas True False s
             else if c = CHR 0x5C then stripTrailingJSONCommas True True s
             else if c = CHR 0x22 then stripTrailingJSONCommas False False s
             else stripTrailingJSONCommas True False s)
      else if c = CHR 0x22 then c # stripTrailingJSONCommas True escaped s
      else if c = CHR '','' \<and> (case dropWhile comma_space s of [] \<Rightarrow> False | d # r \<Rightarrow> d = CHR ''}'' \<or> d = CHR '']'')
        then stripTrailingJSONCommas False escaped s
      else c # stripTrailingJSONCommas False escaped s)"

definition stripJSONC :: "string \<Rightarrow> string" where
  "stripJSONC data = stripTrailingJSONCommas False False (stripJSONComments False False data)"

section \<open>The dev container\<close>

definition devContainerCandidates :: "checkout \<Rightarrow> string list" where
  "devContainerCandidates c =
     filter (ck_IsFile c) [''.devcontainer/devcontainer.json'', ''.devcontainer.json''] @
     (case ck_ReadDir c ''.devcontainer'' of
        None \<Rightarrow> []
      | Some entries \<Rightarrow> filter (ck_IsFile c)
          (map (\<lambda>(name, dir). ''.devcontainer/'' @ name @ ''/devcontainer.json'') (filter snd entries)))"

definition devContainerAlternatePaths :: "string list \<Rightarrow> nat \<Rightarrow> string list" where
  "devContainerAlternatePaths candidates selected =
     (if length candidates \<le> 1 then [] else take selected candidates @ drop (Suc selected) candidates)"

text \<open>The loop over the candidates; \<open>txt\<close> is the text of an error.\<close>

fun dev_containers ::
  "(go_error \<Rightarrow> string) \<Rightarrow> checkout \<Rightarrow> string list \<Rightarrow> nat \<Rightarrow> string list \<Rightarrow> string list \<Rightarrow> dev_container option \<times> string list" where
  "dev_containers etxt c candidates i [] notes = (None, notes)"
| "dev_containers etxt c candidates i (rel # rels) notes =
     (case ck_ReadFile c rel of
        None \<Rightarrow> dev_containers etxt c candidates (Suc i) rels notes
      | Some data \<Rightarrow>
          (case (case json_parse (stripJSONC data) of Inl e \<Rightarrow> Inl e | Inr (JObj kvs) \<Rightarrow> Inr kvs | Inr JNull \<Rightarrow> Inr []
                 | Inr j \<Rightarrow> Inl JsonTypeError) of
             Inl e \<Rightarrow> dev_containers etxt c candidates (Suc i) rels
               (notes @ [''devcontainer parse failed ('' @ rel @ ''): '' @ etxt e])
           | Inr raw \<Rightarrow> (Some \<lparr>dc_Path = rel, dc_Raw = raw,
               dc_AlternatePaths = devContainerAlternatePaths candidates i\<rparr>, notes)))"

definition detectDevContainer ::
  "(go_error \<Rightarrow> string) \<Rightarrow> checkout \<Rightarrow> string list \<Rightarrow> dev_container option \<times> string list" where
  "detectDevContainer etxt c notes =
     dev_containers etxt c (devContainerCandidates c) 0 (devContainerCandidates c) notes"

section \<open>Lines\<close>

fun lines_of :: "string \<Rightarrow> string list" where
  "lines_of [] = [[]]"
| "lines_of (c # s) = (if c = newline then [] # lines_of s
     else (case lines_of s of l # ls \<Rightarrow> (c # l) # ls | [] \<Rightarrow> [[c]]))"

text \<open>The text before the n-th line end; n is positive.\<close>

fun head_lines :: "string \<Rightarrow> nat \<Rightarrow> string" where
  "head_lines [] n = []"
| "head_lines (c # s) n = (if c = newline then (if n = 1 then [] else c # head_lines s (n - 1)) else c # head_lines s n)"

definition headLines :: "string \<Rightarrow> nat \<Rightarrow> string" where
  "headLines s n = (if n = 0 then s else head_lines s n)"

text \<open>The first candidate that can be read.\<close>

fun first_read :: "checkout \<Rightarrow> string list \<Rightarrow> (string \<times> string) option" where
  "first_read c [] = None"
| "first_read c (rel # rels) = (case ck_ReadFile c rel of None \<Rightarrow> first_read c rels | Some data \<Rightarrow> Some (rel, data))"

definition readFirst :: "checkout \<Rightarrow> string list \<Rightarrow> nat \<Rightarrow> string" where
  "readFirst c candidates maxBytes =
     (case first_read c candidates of None \<Rightarrow> [] | Some (rel, data) \<Rightarrow> truncate_text data maxBytes)"

definition readmeExcerpt :: "checkout \<Rightarrow> nat \<Rightarrow> string" where
  "readmeExcerpt c maxLines =
     (case first_read c [''README.md'', ''readme.md'', ''README'', ''README.MD''] of
        None \<Rightarrow> [] | Some (rel, data) \<Rightarrow> headLines data maxLines)"

section \<open>Compose files\<close>

definition service_char :: "char \<Rightarrow> bool" where
  "service_char c \<longleftrightarrow> between 65 90 c \<or> between 97 122 c \<or> is_digit c \<or> c \<in> {CHR ''_'', CHR ''.'', CHR ''-''}"

text \<open>Two spaces, a name, a colon and nothing but white space: ^  ([A-Za-z0-9_.-]+):\\s*$\<close>

definition regexp_space :: "char \<Rightarrow> bool" where
  "regexp_space c \<longleftrightarrow> c \<in> {CHR 0x20, CHR 0x09, CHR 0x0A, CHR 0x0C, CHR 0x0D}"

definition compose_service :: "string \<Rightarrow> string option" where
  "compose_service l =
     (if \<not> has_prefix l ''  '' then None
      else let s = drop 2 l; name = takeWhile service_char s; r = dropWhile service_char s in
        if name \<noteq> [] \<and> has_prefix r '':'' \<and> list_all regexp_space (tl r) then Some name else None)"

definition trim_cr :: "string \<Rightarrow> string" where
  "trim_cr s = rev (dropWhile (\<lambda>c. c = CHR 0x0D) (rev s))"

fun compose_services :: "bool \<Rightarrow> string list \<Rightarrow> string list" where
  "compose_services inside [] = []"
| "compose_services inside (line # ls) =
     (let trimmed = trim_cr line in
      if has_prefix trimmed ''services:'' then compose_services True ls
      else if \<not> inside then compose_services inside ls
      else if trimmed \<noteq> [] \<and> \<not> has_prefix trimmed '' '' \<and> \<not> has_prefix trimmed [CHR 0x09] then []
      else case compose_service trimmed of
        None \<Rightarrow> compose_services inside ls | Some name \<Rightarrow> name # compose_services inside ls)"

definition extractComposeServices :: "string \<Rightarrow> string list" where
  "extractComposeServices data = compose_services False (lines_of data)"

definition detectDockerCompose :: "checkout \<Rightarrow> docker_compose option" where
  "detectDockerCompose c =
     (case first_read c [''docker-compose.yml'', ''docker-compose.yaml'', ''compose.yml'', ''compose.yaml''] of
        None \<Rightarrow> None
      | Some (name, data) \<Rightarrow> Some \<lparr>dk_Path = name, dk_Services = extractComposeServices data,
          dk_Excerpt = truncate_text data 4000\<rparr>)"

section \<open>package.json and go.mod\<close>

definition detectPackageJSON :: "checkout \<Rightarrow> package_json option" where
  "detectPackageJSON c =
     (case ck_ReadFile c ''package.json'' of
        None \<Rightarrow> None
      | Some data \<Rightarrow> Some \<lparr>pj_Path = ''package.json'', pj_Scripts =
          (case json_parse data of
             Inl e \<Rightarrow> Map.empty
           | Inr j \<Rightarrow> (case json_object (\<lambda>k v m. if k = ''scripts'' then json_map v m else Inr m) j Map.empty of
               Inl e \<Rightarrow> Map.empty | Inr m \<Rightarrow> m))\<rparr>)"

fun go_mod_lines :: "string list \<Rightarrow> go_mod \<Rightarrow> go_mod" where
  "go_mod_lines [] gm = gm"
| "go_mod_lines (l # ls) gm =
     (let line = trim_space l;
          gm' = (if has_prefix line ''module '' then gm\<lparr>gm_Module := trim_space (trim_prefix line ''module '')\<rparr>
                 else if has_prefix line ''go '' then gm\<lparr>gm_GoVer := trim_space (trim_prefix line ''go '')\<rparr>
                 else gm)
      in if gm_Module gm' \<noteq> [] \<and> gm_GoVer gm' \<noteq> [] then gm' else go_mod_lines ls gm')"

definition detectGoMod :: "checkout \<Rightarrow> go_mod option" where
  "detectGoMod c =
     (case ck_ReadFile c ''go.mod'' of
        None \<Rightarrow> None
      | Some data \<Rightarrow> Some (go_mod_lines (lines_of data) \<lparr>gm_Path = ''go.mod'', gm_Module = [], gm_GoVer = []\<rparr>))"

section \<open>Environment examples\<close>

definition env_first :: "char \<Rightarrow> bool" where
  "env_first c \<longleftrightarrow> between 65 90 c \<or> c = CHR ''_''"

text \<open>^([A-Z_][A-Z0-9_]*)=(.*)$ on a line; the dot stands for any character but a line end.\<close>

definition env_entry_match :: "string \<Rightarrow> (string \<times> string) option" where
  "env_entry_match l =
     (let key = takeWhile (\<lambda>c. env_first c \<or> is_digit c) l; r = dropWhile (\<lambda>c. env_first c \<or> is_digit c) l in
      if key \<noteq> [] \<and> env_first (hd key) \<and> has_prefix r ''='' \<and> newline \<notin> set (tl r) then Some (key, tl r) else None)"

fun env_lines :: "string list \<Rightarrow> string list \<Rightarrow> env_entry list" where
  "env_lines comments [] = []"
| "env_lines comments (l # ls) =
     (let trimmed = trim_space l in
      if trimmed = [] then env_lines [] ls
      else if has_prefix trimmed ''#'' then env_lines (comments @ [trim_prefix trimmed ''# '']) ls
      else case env_entry_match trimmed of
        None \<Rightarrow> env_lines comments ls
      | Some (key, val) \<Rightarrow> \<lparr>ee_Key = key, ee_Comment = join comments '' '', ee_Value = val\<rparr> # env_lines [] ls)"

definition detectEnvExample :: "checkout \<Rightarrow> env_example option" where
  "detectEnvExample c =
     (case first_read c [''.env.example'', ''.env.sample'', ''.env.template''] of
        None \<Rightarrow> None
      | Some (name, data) \<Rightarrow> (let es = env_lines [] (lines_of data) in
          Some \<lparr>ex_Path = name, ex_Keys = map ee_Key es, ex_Entries = es\<rparr>))"

section \<open>Python\<close>

definition normalizePy425Tag :: "string \<Rightarrow> string" where
  "normalizePy425Tag v =
     (let version = trim_space v; digits = drop 2 version in
      if \<not> has_prefix version ''py'' \<or> length digits < 2 then version
      else if \<not> list_all is_digit digits then version
      else take 1 digits @ ''.'' @ drop 1 digits)"

definition detectPythonVersionFile :: "checkout \<Rightarrow> string \<times> string" where
  "detectPythonVersionFile c =
     (case ck_ReadFile c ''.python-version'' of
        Some data \<Rightarrow> (''.python-version'', trim_space data)
      | None \<Rightarrow> (case ck_ReadFile c ''runtime.txt'' of
          None \<Rightarrow> ([], [])
        | Some data \<Rightarrow> (let version = trim_space data in
            if has_prefix version ''python-'' then (''runtime.txt'', drop 7 version) else ([], []))))"

text \<open>^\\s*([A-Za-z0-9_.-]+)\<close>

definition pythonPackageName :: "string \<Rightarrow> string" where
  "pythonPackageName spec = takeWhile service_char (dropWhile regexp_space spec)"

definition normalizePythonPackageName :: "string \<Rightarrow> string" where
  "normalizePythonPackageName name =
     to_lower (map (\<lambda>c. if c = CHR ''_'' \<or> c = CHR ''.'' then CHR ''-'' else c) name)"

definition nativePythonPackages :: "string list" where
  "nativePythonPackages = [''ciso8601'', ''cryptography'', ''gevent'', ''greenlet'', ''grpcio'', ''lxml'',
     ''mysqlclient'', ''numpy'', ''orjson'', ''pandas'', ''pillow'', ''psycopg2'', ''psycopg2-binary'', ''pyarrow'',
     ''pydantic-core'', ''scikit-learn'', ''scipy'', ''xmlsec'']"

definition nativePythonPackage :: "string \<Rightarrow> bool" where
  "nativePythonPackage name \<longleftrightarrow> name \<in> set nativePythonPackages"

definition appendUniqueString :: "string list \<Rightarrow> string \<Rightarrow> string list" where
  "appendUniqueString out value = (if value = [] then out else if value \<in> set out then out else out @ [value])"

chapter \<open>What stripping does\<close>

text \<open>
  What stripping does: a document is a sequence of pieces (strings, comments, other characters, white space
  among them). Of the comments only the line ends remain; a comma goes when the next character that is
  neither white space nor inside a comment closes an object or an array; everything else is kept.
\<close>

section \<open>Pieces\<close>

datatype jsonc_piece = PChar char | PString string | PLine string | PBlock string

text \<open>The inside of a string literal: no quote but escaped ones, and no escape left open.\<close>

fun literal_ok :: "bool \<Rightarrow> string \<Rightarrow> bool" where
  "literal_ok escaped [] = (\<not> escaped)"
| "literal_ok escaped (c # s) =
     (if escaped then literal_ok False s else if c = CHR 0x5C then literal_ok True s
      else c \<noteq> CHR 0x22 \<and> literal_ok False s)"

fun piece_text :: "jsonc_piece \<Rightarrow> string" where
  "piece_text (PChar c) = [c]"
| "piece_text (PString s) = [CHR 0x22] @ s @ [CHR 0x22]"
| "piece_text (PLine s) = ''//'' @ s @ [newline]"
| "piece_text (PBlock s) = ''/*'' @ s @ ''*/''"

definition pieces_text :: "jsonc_piece list \<Rightarrow> string" where
  "pieces_text ps = concat (map piece_text ps)"

text \<open>A slash is a character of its own unless the text that follows makes it the start of a comment.\<close>

definition opens_comment :: "string \<Rightarrow> bool" where
  "opens_comment r \<longleftrightarrow> r \<noteq> [] \<and> (hd r = CHR ''/'' \<or> hd r = CHR ''*'')"

fun pieces_ok :: "string \<Rightarrow> jsonc_piece list \<Rightarrow> bool" where
  "pieces_ok tail [] = True"
| "pieces_ok tail (PChar c # ps) = (c \<noteq> CHR 0x22 \<and>
     (c = CHR ''/'' \<longrightarrow> \<not> opens_comment (pieces_text ps @ tail)) \<and> pieces_ok tail ps)"
| "pieces_ok tail (PString s # ps) = (literal_ok False s \<and> pieces_ok tail ps)"
| "pieces_ok tail (PLine s # ps) = (newline \<notin> set s \<and> pieces_ok tail ps)"
| "pieces_ok tail (PBlock s # ps) = (\<not> contains s ''*/'' \<and> pieces_ok tail ps)"

fun piece_kept :: "jsonc_piece \<Rightarrow> string" where
  "piece_kept (PLine s) = [newline]"
| "piece_kept (PBlock s) = filter (\<lambda>c. c = newline) s"
| "piece_kept p = piece_text p"

definition pieces_kept :: "jsonc_piece list \<Rightarrow> string" where
  "pieces_kept ps = concat (map piece_kept ps)"

text \<open>The next character that counts, and what is left of a document.\<close>

fun next_char :: "jsonc_piece list \<Rightarrow> char option" where
  "next_char [] = None"
| "next_char (PChar c # ps) = (if comma_space c then next_char ps else Some c)"
| "next_char (PString s # ps) = Some (CHR 0x22)"
| "next_char (PLine s # ps) = next_char ps"
| "next_char (PBlock s # ps) = next_char ps"

definition closes :: "char option \<Rightarrow> bool" where
  "closes c \<longleftrightarrow> c = Some (CHR ''}'') \<or> c = Some (CHR '']'')"

fun json_left :: "jsonc_piece list \<Rightarrow> string" where
  "json_left [] = []"
| "json_left (PChar c # ps) = (if c = CHR '','' \<and> closes (next_char ps) then json_left ps else c # json_left ps)"
| "json_left (p # ps) = piece_kept p @ json_left ps"

text \<open>A document without comments and trailing commas, in whatever layout.\<close>

fun tidy :: "jsonc_piece list \<Rightarrow> bool" where
  "tidy [] = True"
| "tidy (PChar c # ps) = (\<not> (c = CHR '','' \<and> closes (next_char ps)) \<and> tidy ps)"
| "tidy (PString s # ps) = tidy ps"
| "tidy (p # ps) = False"

lemma tidy_left: "tidy ps \<Longrightarrow> json_left ps = pieces_text ps"
  by (induction ps rule: tidy.induct) (auto simp: pieces_text_def)

lemma newline_other [simp]: "CHR ''/'' \<noteq> newline" "CHR ''*'' \<noteq> newline" "newline \<noteq> CHR '',''" "newline \<noteq> CHR 0x22"
  by (simp_all add: newline_def)

lemma pieces_Cons [simp]:
  "pieces_text [] = []" "pieces_text (p # ps) = piece_text p @ pieces_text ps"
  "pieces_kept [] = []" "pieces_kept (p # ps) = piece_kept p @ pieces_kept ps"
  by (simp_all add: pieces_text_def pieces_kept_def)

section \<open>Comments\<close>

lemma literal_comments:
  "literal_ok e s \<Longrightarrow> stripJSONComments True e (s @ CHR 0x22 # r) = s @ CHR 0x22 # stripJSONComments False False r"
  by (induction e s rule: literal_ok.induct) (auto split: if_splits)

lemma block_skipped:
  "\<not> contains s ''*/'' \<Longrightarrow> skip_block (s @ ''*/'' @ r) = (filter (\<lambda>c. c = newline) s, r)"
proof (induction s)
  case (Cons c s)
  then have IH: "skip_block (s @ ''*/'' @ r) = (filter (\<lambda>c. c = newline) s, r)" by simp
  have "\<not> (c = CHR ''*'' \<and> hd (s @ ''*/'' @ r) = CHR ''/'')"
    using Cons.prems by (cases s) auto
  moreover obtain d z where "s @ ''*/'' @ r = d # z" by (cases s) auto
  ultimately show ?case using IH by auto
qed simp

lemma strip_pieces:
  "pieces_ok tail ps \<Longrightarrow>
   stripJSONComments False False (pieces_text ps @ tail) = pieces_kept ps @ stripJSONComments False False tail"
proof (induction tail ps rule: pieces_ok.induct)
  case (2 tail c ps)
  then show ?case by (auto simp: opens_comment_def)
next
  case (4 tail s ps)
  have "dropWhile (\<lambda>x. x \<noteq> newline) (s @ newline # pieces_text ps @ tail) = newline # pieces_text ps @ tail"
    using 4 by (auto simp: dropWhile_append)
  with 4 show ?case by simp
next
  case (5 tail s ps)
  then show ?case using block_skipped [of s "pieces_text ps @ tail"] by simp
qed (simp_all add: literal_comments)

lemma strip_last_line: "newline \<notin> set s \<Longrightarrow> stripJSONComments False False (''//'' @ s) = []"
proof -
  assume "newline \<notin> set s"
  then have "dropWhile (\<lambda>x. x \<noteq> newline) s = []" by auto
  then show ?thesis by simp
qed

section \<open>Trailing commas\<close>

lemma literal_commas:
  "literal_ok e s \<Longrightarrow> stripTrailingJSONCommas True e (s @ CHR 0x22 # r) = s @ CHR 0x22 # stripTrailingJSONCommas False False r"
  by (induction e s rule: literal_ok.induct) (auto split: if_splits)

lemma kept_space: "comma_space newline" "dropWhile comma_space (filter (\<lambda>c. c = newline) s @ r) = dropWhile comma_space r"
  by (induction s) (auto simp: comma_space_def newline_def)

lemma next_kept:
  "case next_char ps of None \<Rightarrow> dropWhile comma_space (pieces_kept ps) = []
   | Some c \<Rightarrow> \<exists>r. dropWhile comma_space (pieces_kept ps) = c # r"
  by (induction ps rule: next_char.induct)
    (auto simp: kept_space split: option.splits, simp add: comma_space_def)

lemma commas_newlines:
  "stripTrailingJSONCommas False False (filter (\<lambda>c. c = newline) s @ r) =
     filter (\<lambda>c. c = newline) s @ stripTrailingJSONCommas False False r"
  "stripTrailingJSONCommas False False (newline # r) = newline # stripTrailingJSONCommas False False r"
  by (induction s) simp_all

lemma strip_commas:
  "pieces_ok tail ps \<Longrightarrow> stripTrailingJSONCommas False False (pieces_kept ps) = json_left ps"
proof (induction tail ps rule: pieces_ok.induct)
  case (2 tail c ps)
  have "(case dropWhile comma_space (pieces_kept ps) of [] \<Rightarrow> False | d # r \<Rightarrow> d = CHR ''}'' \<or> d = CHR '']'') =
      closes (next_char ps)"
  proof (cases "next_char ps")
    case None
    then have "dropWhile comma_space (pieces_kept ps) = []" using next_kept [of ps] by simp
    with None show ?thesis by (simp only: closes_def) simp
  next
    case (Some d)
    then obtain r where "dropWhile comma_space (pieces_kept ps) = d # r" using next_kept [of ps] by auto
    with Some show ?thesis by (simp add: closes_def)
  qed
  with 2 show ?case by simp
qed (simp_all add: literal_commas commas_newlines)

lemma stripJSONC_pieces:
  assumes "pieces_ok tail ps" and "tail = [] \<or> tail = ''//'' @ s \<and> newline \<notin> set s"
  shows "stripJSONC (pieces_text ps @ tail) = json_left ps"
proof -
  have "stripJSONComments False False tail = []"
    using assms(2) strip_last_line by auto
  then show ?thesis
    using strip_pieces [OF assms(1)] strip_commas [OF assms(1)] by (simp add: stripJSONC_def)
qed

end
