(* ===== verification/Boot_Loop.thy ===== *)
theory Boot_Loop
  imports Boot_Store Boot_Detect
begin

text \<open>
  internal/bootstrap/loop.go and drift.go: one bootstrap of a repository in its sandbox, the artifacts it
  leaves, the fingerprint of what it depends on, and the healing of a saved spec. A runner is a record of
  its methods on the state of the sandbox. SHA-256, the text of the prompt (prompt.go) and the shell
  script are given; hints hold the checkout they were found in beside what the fingerprint uses of them.
\<close>

section \<open>Inputs and results\<close>

record boot_hints =
  bh_Checkout :: checkout
  bh_DevContainer :: "dev_container option"
  bh_ReadmeExcerpt :: string

record prompt_args =
  pa_OwnerRepo :: string
  pa_Path :: string
  pa_SuppliedSecrets :: "string list"
  pa_Preamble :: string

record boot_lib =
  bl_SHA256 :: "string \<Rightarrow> nat list"
  bl_BuildPrompt :: "boot_hints \<Rightarrow> prompt_args \<Rightarrow> string"
  bl_Script :: string

record 'w boot_runner =
  br_Run :: "string \<Rightarrow> string \<Rightarrow> text_map \<Rightarrow> 'w \<Rightarrow> (string \<times> go_error option) \<times> 'w"
  br_ReadFile :: "string \<Rightarrow> ('w, string) go"
  br_WriteFile :: "string \<Rightarrow> string \<Rightarrow> ('w, unit) go"

record loop_input =
  li_OwnerRepo :: string
  li_Path :: string
  li_Hints :: "boot_hints option"
  li_SuppliedSecrets :: text_map
  li_RepoDir :: string
  li_Preamble :: string

record partial_scripts =
  pt_Setup :: string
  pt_Start :: string
  pt_Stop :: string
  pt_Health :: string
  pt_Lessons :: string

record loop_result =
  lr_Spec :: "boot_spec option"
  lr_Manifest :: "boot_manifest option"
  lr_PartialScripts :: partial_scripts
  lr_Log :: string

definition no_scripts :: partial_scripts where
  "no_scripts = \<lparr>pt_Setup = [], pt_Start = [], pt_Stop = [], pt_Health = [], pt_Lessons = []\<rparr>"

definition ErrLoopFailed :: go_error where "ErrLoopFailed = ErrNew ''bootstrap: loop failed''"

definition bootstrapOutDir :: string where "bootstrapOutDir = ''/tmp/hetchy-spec''"

definition sortedNames :: "text_map \<Rightarrow> string list" where
  "sortedNames m = sort (map fst m)"

section \<open>The fingerprint\<close>

definition fingerprint_candidates :: "string list" where
  "fingerprint_candidates = [''AGENTS.md'', ''agents.md'', ''docker-compose.yml'', ''docker-compose.yaml'',
     ''compose.yml'', ''compose.yaml'', ''Dockerfile'', ''Makefile'', ''package.json'', ''pyproject.toml'', ''uv.lock'',
     ''.python-version'', ''runtime.txt'', ''Pipfile'', ''requirements.txt'', ''setup.cfg'', ''setup.py'', ''go.mod'',
     ''.env.example'', ''.env.sample'', ''.env.template'']"

text \<open>What addPath writes to the hasher.\<close>

definition path_digest :: "boot_lib \<Rightarrow> checkout \<Rightarrow> string \<Rightarrow> string" where
  "path_digest lib c rel = (case ck_ReadFile c rel of None \<Rightarrow> []
     | Some data \<Rightarrow> rel @ [newline] @ hex_encode (bl_SHA256 lib data) @ [newline])"

definition Fingerprint :: "boot_lib \<Rightarrow> boot_hints option \<Rightarrow> string" where
  "Fingerprint lib h =
     (case h of None \<Rightarrow> []
      | Some hints \<Rightarrow> hex_encode (bl_SHA256 lib (
          (case bh_DevContainer hints of None \<Rightarrow> []
           | Some d \<Rightarrow> concat (map (path_digest lib (bh_Checkout hints)) (dc_Path d # dc_AlternatePaths d))) @
          concat (map (path_digest lib (bh_Checkout hints)) fingerprint_candidates) @
          (if bh_ReadmeExcerpt hints = [] then []
           else ''readme:'' @ hex_encode (bl_SHA256 lib (bh_ReadmeExcerpt hints)) @ [newline]))))"

definition IsStale :: "boot_lib \<Rightarrow> boot_hints option \<Rightarrow> boot_spec option \<Rightarrow> bool" where
  "IsStale lib currentHints spec =
     (case spec of None \<Rightarrow> True
      | Some p \<Rightarrow> if currentHints = None then True
          else if bs_SourceFingerprint p = [] then True
          else Fingerprint lib currentHints \<noteq> bs_SourceFingerprint p)"

section \<open>Artifacts\<close>

text \<open>runner.ReadFile of an artifact, with the error its reader reports.\<close>

definition artifact :: "'w boot_runner \<Rightarrow> string \<Rightarrow> string \<Rightarrow> ('w, string) go" where
  "artifact rn label name = wrap_err (''bootstrap: read '' @ label) (br_ReadFile rn (bootstrapOutDir @ ''/'' @ name))"

definition ResultFromArtifacts ::
  "boot_lib \<Rightarrow> 'w boot_runner option \<Rightarrow> loop_input \<Rightarrow> string \<Rightarrow> ('w, loop_result) go" where
  "ResultFromArtifacts lib runner i lg =
     (case runner of None \<Rightarrow> fail (ErrNew ''bootstrap: runner is required'')
      | Some rn \<Rightarrow> if li_Hints i = None then fail (ErrNew ''bootstrap: hints are required'')
        else andthen (artifact rn ''manifest'' ''manifest.json'') (\<lambda>bytes.
          andthen (wrap_err ''bootstrap: parse manifest'' (lift_result (ParseManifest bytes))) (\<lambda>manifest.
          andthen (artifact rn ''setup.sh'' ''setup.sh'') (\<lambda>setup.
          andthen (artifact rn ''start.sh'' ''start.sh'') (\<lambda>start.
          andthen (artifact rn ''stop.sh'' ''stop.sh'') (\<lambda>stop.
          andthen (artifact rn ''health.sh'' ''health.sh'') (\<lambda>health.
          andthen (artifact rn ''lessons.md'' ''lessons.md'') (\<lambda>lessons.
          ret \<lparr>lr_Spec = Some \<lparr>bs_InstallationID = 0, bs_RepoID = 0, bs_Path = li_Path i, bs_SpecVersion = 1,
              bs_BootstrapGeneration = CurrentBootstrapGeneration, bs_Kind = mf_Kind manifest, bs_SetupScript = setup,
              bs_StartScript = start, bs_HealthCheck = health, bs_StopScript = stop, bs_LessonsMD = lessons,
              bs_Services = mf_Services manifest, bs_RequiredSecrets = mf_RequiredSecrets manifest,
              bs_DeferredCapabilities = mf_DeferredCapabilities manifest,
              bs_SuggestedRepoChanges = mf_SuggestedRepoChanges manifest,
              bs_ValidationCapability = mf_ValidationCapability manifest,
              bs_SourceFingerprint = Fingerprint lib (li_Hints i),
              bs_ValidationStatus = (if HasDeferred manifest then StatusPartial else StatusValidated),
              bs_SuccessCount = 0, bs_FailureCount = 0, bs_BootstrapLog = []\<rparr>,
            lr_Manifest = Some manifest, lr_PartialScripts = no_scripts, lr_Log = lg\<rparr>))))))))"

definition read_or_empty :: "'w boot_runner \<Rightarrow> string \<Rightarrow> string \<Rightarrow> 'w \<Rightarrow> string \<times> 'w" where
  "read_or_empty rn outDir name w = (case br_ReadFile rn (outDir @ ''/'' @ name) w of
     (Inl e, w') \<Rightarrow> ([], w') | (Inr data, w') \<Rightarrow> (data, w'))"

definition readArtifactsBestEffort ::
  "'w boot_runner \<Rightarrow> string \<Rightarrow> 'w \<Rightarrow> (boot_manifest option \<times> partial_scripts) \<times> 'w" where
  "readArtifactsBestEffort rn outDir w0 =
     (let (m, w1) = (case br_ReadFile rn (outDir @ ''/manifest.json'') w0 of
            (Inl e, w1) \<Rightarrow> (None, w1)
          | (Inr data, w1) \<Rightarrow> (case ParseManifest data of Inl e \<Rightarrow> None | Inr m \<Rightarrow> Some m, w1));
          (setup, w2) = read_or_empty rn outDir ''setup.sh'' w1;
          (start, w3) = read_or_empty rn outDir ''start.sh'' w2;
          (stop, w4) = read_or_empty rn outDir ''stop.sh'' w3;
          (health, w5) = read_or_empty rn outDir ''health.sh'' w4;
          (lessons, w6) = read_or_empty rn outDir ''lessons.md'' w5
      in ((m, \<lparr>pt_Setup = setup, pt_Start = start, pt_Stop = stop, pt_Health = health, pt_Lessons = lessons\<rparr>), w6))"

section \<open>The loop\<close>

definition bootstrapPromptFile :: string where "bootstrapPromptFile = ''/tmp/hetchy-bootstrap-prompt.txt''"

definition loop_env :: "loop_input \<Rightarrow> text_map" where
  "loop_env i = fold (\<lambda>(k, v). put_entry k v) (li_SuppliedSecrets i)
     [(''HETCHY_BOOTSTRAP_OUT_DIR'', bootstrapOutDir), (''HETCHY_BOOTSTRAP_PROMPT_FILE'', bootstrapPromptFile),
      (''HETCHY_BOOTSTRAP_REPO_DIR'', li_RepoDir i)]"

text \<open>A failed loop returns what the agent left, beside the error.\<close>

definition loop_failed ::
  "'w boot_runner \<Rightarrow> string \<Rightarrow> go_error \<Rightarrow> 'w \<Rightarrow> (loop_result option \<times> go_error option) \<times> 'w" where
  "loop_failed rn lg e w = (let ((m, scripts), w') = readArtifactsBestEffort rn bootstrapOutDir w in
     ((Some \<lparr>lr_Spec = None, lr_Manifest = m, lr_PartialScripts = scripts, lr_Log = lg\<rparr>, Some (Joined ErrLoopFailed e)), w'))"

definition boot_Run ::
  "boot_lib \<Rightarrow> 'w boot_runner option \<Rightarrow> loop_input \<Rightarrow> 'w \<Rightarrow> (loop_result option \<times> go_error option) \<times> 'w" where
  "boot_Run lib runner i w0 =
     (case runner of None \<Rightarrow> ((None, Some (ErrNew ''bootstrap: runner is required'')), w0)
      | Some rn \<Rightarrow>
     (case li_Hints i of None \<Rightarrow> ((None, Some (ErrNew ''bootstrap: hints are required'')), w0)
      | Some hints \<Rightarrow>
          if li_RepoDir i = [] then ((None, Some (ErrNew ''bootstrap: RepoDir is required'')), w0)
          else let prompt = bl_BuildPrompt lib hints \<lparr>pa_OwnerRepo = li_OwnerRepo i, pa_Path = li_Path i,
                 pa_SuppliedSecrets = sortedNames (li_SuppliedSecrets i), pa_Preamble = li_Preamble i\<rparr> in
          (case br_WriteFile rn bootstrapPromptFile prompt w0 of
             (Inl e, w1) \<Rightarrow> ((None, Some (Wrapped ''bootstrap: write prompt'' e)), w1)
           | (Inr _, w1) \<Rightarrow>
               (case br_Run rn ''bootstrap'' (bl_Script lib) (loop_env i) w1 of
                  ((lg, Some e), w2) \<Rightarrow> loop_failed rn lg e w2
                | ((lg, None), w2) \<Rightarrow>
                    (case ResultFromArtifacts lib runner i lg w2 of
                       (Inl e, w3) \<Rightarrow> loop_failed rn lg e w3
                     | (Inr res, w3) \<Rightarrow> ((Some res, None), w3))))))"

section \<open>Healing\<close>

record heal_input =
  hi_OwnerRepo :: string
  hi_Path :: string
  hi_PriorSpec :: "boot_spec option"
  hi_FailureLog :: string
  hi_Hints :: "boot_hints option"
  hi_SuppliedSecrets :: text_map
  hi_RepoDir :: string

definition ln :: string where "ln = [newline]"

definition AutoHealPromptPreamble :: "boot_spec option \<Rightarrow> string \<Rightarrow> string" where
  "AutoHealPromptPreamble prior failureLog =
     (case prior of None \<Rightarrow> []
      | Some p \<Rightarrow>
        ''This is an AUTO-HEAL run. The previously-saved spec for this repo is'' @ ln @
        ''no longer working '' @ [CHR 0xE2, CHR 0x80, CHR 0x94] @ '' either a dependency changed, the repo's setup'' @ ln @
        ''moved, or something else regressed. Use the prior scripts as a starting'' @ ln @
        ''point, identify what changed, and produce an updated spec.'' @ ln @ ln @
        ''Prior spec.kind: '' @ bs_Kind p @ ln @
        ''Prior validation status: '' @ bs_ValidationStatus p @ ln @
        ''Prior success / failure counts: '' @ itoa (bs_SuccessCount p) @ '' / '' @ itoa (bs_FailureCount p) @ ln @ ln @
        ''Prior setup.sh:'' @ ln @ bs_SetupScript p @ ln @ ln @
        ''Prior start.sh:'' @ ln @ bs_StartScript p @ ln @ ln @
        ''Prior stop.sh:'' @ ln @ bs_StopScript p @ ln @ ln @
        ''Prior health.sh:'' @ ln @ bs_HealthCheck p @ ln @ ln @
        ''Prior lessons.md:'' @ ln @ bs_LessonsMD p @ ln @ ln @
        ''Last failure (truncated to last 200 lines):'' @ ln @ truncate_text failureLog 4000 @ ln @ ln @
        ''Now follow the standard bootstrap process, but bias toward a *minimal'' @ ln @
        ''update* to the prior scripts rather than a full rewrite, unless the'' @ ln @
        ''diff to prior shows a fundamental shift in the repo's stack.'' @ ln @ ln)"

definition AutoHeal ::
  "boot_lib \<Rightarrow> 'w boot_runner option \<Rightarrow> heal_input \<Rightarrow> 'w \<Rightarrow> (loop_result option \<times> go_error option) \<times> 'w" where
  "AutoHeal lib runner i w0 =
     (case hi_PriorSpec i of None \<Rightarrow> ((None, Some (ErrNew ''bootstrap: AutoHeal requires a prior spec'')), w0)
      | Some prior \<Rightarrow>
          (case boot_Run lib runner \<lparr>li_OwnerRepo = hi_OwnerRepo i, li_Path = hi_Path i, li_Hints = hi_Hints i,
               li_SuppliedSecrets = hi_SuppliedSecrets i, li_RepoDir = hi_RepoDir i,
               li_Preamble = AutoHealPromptPreamble (hi_PriorSpec i) (hi_FailureLog i)\<rparr> w0 of
             ((res, Some e), w1) \<Rightarrow> ((res, Some e), w1)
           | ((None, None), w1) \<Rightarrow> ((None, None), w1)
           | ((Some res, None), w1) \<Rightarrow>
               ((Some (res\<lparr>lr_Spec := map_option (\<lambda>p. p\<lparr>bs_SpecVersion := int32 (bs_SpecVersion prior + 1)\<rparr>)
                   (lr_Spec res)\<rparr>), None), w1)))"

end
