(* ===== verification/Boot_Flow.thy ===== *)
theory Boot_Flow
  imports Boot_Loop
begin

text \<open>
  The life of a set-up spec in internal/bot: the bootstrap of a new repository, the refresh of a saved
  spec and its healing (agent.go), what is stored of a bootstrap that failed or succeeded
  (bootstrap_persist.go), the improvements an agent leaves and the housekeeping after a pull request
  (spec_reflect.go, agent.go), and the recovery of a finished bootstrap (agent_run_recovery_continue.go).
  The sandbox is a record of operations on its own state. Log output is left out; notices to the user
  are kept in the state.
\<close>

section \<open>The environment of a run\<close>

record 'w boot_env =
  en_Lib :: boot_lib
  en_Cipher :: aead
  en_CreateSession :: "string \<Rightarrow> ('w, unit) go"
  en_DeleteSession :: "string \<Rightarrow> 'w \<Rightarrow> 'w"
  en_SetupClone :: "string \<Rightarrow> ('w, unit) go"
  en_Detect :: "string \<Rightarrow> ('w, boot_hints) go"
  en_Runner :: "string \<Rightarrow> 'w boot_runner"
  en_ReadShell :: "string \<Rightarrow> string \<Rightarrow> ('w, string) go"
  en_UUID :: "nat \<Rightarrow> string"
  en_Clock :: go_time
  en_Now :: go_time
  en_RFC3339 :: "go_time \<Rightarrow> string"
  en_ErrText :: "go_error \<Rightarrow> string"

record repo_ctx =
  rc_Slug :: string
  rc_InstallID :: int
  rc_RepoID :: int

text \<open>path.Base: what follows the last slash that is not at the end.\<close>

definition path_base :: "string \<Rightarrow> string" where
  "path_base s = (let t = rev (dropWhile (\<lambda>c. c = CHR ''/'') (rev s)) in
     if s = [] then ''.'' else if t = [] then ''/'' else rev (takeWhile (\<lambda>c. c \<noteq> CHR ''/'') (rev t)))"

definition workdirRoot :: string where "workdirRoot = ''/home/daytona/work''"

definition repoWorkdir :: "string \<Rightarrow> string" where
  "repoWorkdir slug = (let name = path_base (trim_space slug) in
     workdirRoot @ ''/'' @ (if name \<in> {[], ''.'', ''..'', ''/''} then ''repo'' else name))"

definition in_boot_sandbox :: "('w, 'a) go \<Rightarrow> ('w boot_db, 'a) go" where
  "in_boot_sandbox m = (\<lambda>s. case m (boot_sandbox s) of (r, w) \<Rightarrow> (r, s\<lparr>boot_sandbox := w\<rparr>))"

text \<open>A loop answers with a result and an error, either of which may be nil.\<close>

definition in_loop ::
  "('w \<Rightarrow> (loop_result option \<times> go_error option) \<times> 'w) \<Rightarrow> ('w boot_db, loop_result option \<times> go_error option) go" where
  "in_loop f = in_boot_sandbox (\<lambda>w. case f w of (r, w') \<Rightarrow> (Inr r, w'))"

definition boot_notify :: "string \<Rightarrow> string \<Rightarrow> ('w boot_db, unit) go" where
  "boot_notify title body = (\<lambda>s. (Inr (), s\<lparr>boot_notices := boot_notices s @ [(title, body)]\<rparr>))"

text \<open>A deferred call that ends a session of the sandbox.\<close>

definition with_session :: "'w boot_env \<Rightarrow> string \<Rightarrow> ('w boot_db, 'a) go \<Rightarrow> ('w boot_db, 'a) go" where
  "with_session en i m = (\<lambda>s. case m s of (r, t) \<Rightarrow> (r, t\<lparr>boot_sandbox := en_DeleteSession en i (boot_sandbox t)\<rparr>))"

definition em_dash :: string where "em_dash = [CHR 0xE2, CHR 0x80, CHR 0x94]"

section \<open>Messages\<close>

definition bootstrapErrorSummary :: "string \<Rightarrow> string" where
  "bootstrapErrorSummary msg =
     (if contains msg ''invalid byte sequence for encoding''
        then ''could not save the generated spec because captured sandbox output contained invalid UTF-8''
      else if contains msg ''save spec'' then ''could not save the generated spec''
      else if contains msg ''parse manifest'' then ''the generated manifest was not valid JSON''
      else if contains msg ''read manifest'' then ''could not read the generated manifest from the sandbox''
      else if contains msg ''read setup.sh'' then ''could not read the generated setup script from the sandbox''
      else if contains msg ''read start.sh'' then ''could not read the generated start script from the sandbox''
      else if contains msg ''read health.sh'' then ''could not read the generated health check from the sandbox''
      else if contains msg ''setup-clone'' then ''could not prepare the repository checkout for bootstrap''
      else if contains msg ''detect'' then ''could not inspect the repository for bootstrap hints''
      else ''bootstrap returned an internal error; check server logs for details'')"

definition bootstrapSkippedMessage :: "(go_error \<Rightarrow> string) \<Rightarrow> go_error option \<Rightarrow> string" where
  "bootstrapSkippedMessage etxt err =
     (let base = ''Couldn't auto-bootstrap this repo for end-to-end validation '' @ em_dash @
        '' running the agent without a validation spec.'' in
      case err of None \<Rightarrow> base @ '' Check server logs for details.''
      | Some e \<Rightarrow> base @ [newline, newline] @ ''Reason: '' @ bootstrapErrorSummary (etxt e) @ ''.'')"

fun humanList :: "string list \<Rightarrow> string" where
  "humanList [] = []"
| "humanList [x] = x"
| "humanList [x, y] = x @ '' and '' @ y"
| "humanList xs = join (butlast xs) '', '' @ '', and '' @ last xs"

section \<open>When a saved spec is refreshed\<close>

definition maxFailingBootstrapAutoHealAttempts :: int where "maxFailingBootstrapAutoHealAttempts = 3"

definition shouldRefreshExistingBootstrapSpec :: "boot_spec option \<Rightarrow> bool" where
  "shouldRefreshExistingBootstrapSpec spec =
     (case spec of None \<Rightarrow> False
      | Some p \<Rightarrow>
          if NeedsGenerationUpgrade spec then True
          else if bs_ValidationStatus p = StatusStale then True
          else if bs_ValidationStatus p = StatusFailing then bs_FailureCount p < maxFailingBootstrapAutoHealAttempts
          else False)"

definition shouldAutoHealExistingBootstrapSpec :: "bool \<Rightarrow> bool \<Rightarrow> boot_spec option \<Rightarrow> bool" where
  "shouldAutoHealExistingBootstrapSpec stale generationUpgrade spec =
     (case spec of None \<Rightarrow> False
      | Some p \<Rightarrow>
          if generationUpgrade then True
          else if stale \<or> bs_ValidationStatus p = StatusStale then True
          else if bs_ValidationStatus p \<noteq> StatusFailing then False
          else bs_FailureCount p < maxFailingBootstrapAutoHealAttempts)"

definition failingBootstrapAutoHealCapped :: "bool \<Rightarrow> bool \<Rightarrow> boot_spec option \<Rightarrow> bool" where
  "failingBootstrapAutoHealCapped stale generationUpgrade spec =
     (case spec of None \<Rightarrow> False
      | Some p \<Rightarrow> \<not> stale \<and> \<not> generationUpgrade \<and> bs_ValidationStatus p = StatusFailing \<and>
          bs_FailureCount p \<ge> maxFailingBootstrapAutoHealAttempts)"

definition notifyBootstrapAutoHealCapped :: "boot_spec \<Rightarrow> ('w boot_db, unit) go" where
  "notifyBootstrapAutoHealCapped p = boot_notify ''Bootstrap auto-heal skipped''
     (''The saved repo setup spec is still failing after '' @ itoa (bs_FailureCount p) @
      '' attempts, so Hetchy will reuse it instead of retrying auto-heal on every run.'')"

section \<open>What is stored of a bootstrap\<close>

fun declare_each :: "'w boot_env \<Rightarrow> repo_ctx \<Rightarrow> nat \<Rightarrow> boot_secret list \<Rightarrow> ('w boot_db, unit) go" where
  "declare_each en repo i [] = ret ()"
| "declare_each en repo i (sec # secs) = attempt
     (DeclareRequiredSecret (en_UUID en i) (en_Now en) (rc_InstallID repo) (rc_RepoID repo) [] (bsc_Name sec))
     (\<lambda>_. declare_each en repo (Suc i) secs)"

definition declareBootstrapRequiredSecrets :: "'w boot_env \<Rightarrow> repo_ctx \<Rightarrow> boot_secret list \<Rightarrow> ('w boot_db, unit) go" where
  "declareBootstrapRequiredSecrets en repo secrets = declare_each en repo 1 secrets"

definition saveBootstrapSpecResult :: "'w boot_env \<Rightarrow> loop_result option \<Rightarrow> repo_ctx \<Rightarrow> ('w boot_db, boot_spec) go" where
  "saveBootstrapSpecResult en res repo =
     (case res of None \<Rightarrow> fail (ErrNew ''bootstrap produced no spec'')
      | Some r \<Rightarrow> (case lr_Spec r of None \<Rightarrow> fail (ErrNew ''bootstrap produced no spec'')
         | Some p0 \<Rightarrow>
             let p = p0\<lparr>bs_InstallationID := rc_InstallID repo, bs_RepoID := rc_RepoID repo,
               bs_BootstrapLog := truncateLogTail (lr_Log r)\<rparr> in
             andthen (boot_SaveSpec (en_UUID en 0) (en_Clock en) (en_Now en) p) (\<lambda>_.
             andthen (declareBootstrapRequiredSecrets en repo (bs_RequiredSecrets p)) (\<lambda>_. ret p))))"

definition failing_spec :: "'w boot_env \<Rightarrow> loop_result \<Rightarrow> repo_ctx \<Rightarrow> boot_hints option \<Rightarrow> boot_spec" where
  "failing_spec en r repo hints =
     (let m = (case lr_Manifest r of None \<Rightarrow> zero_manifest | Some m \<Rightarrow> m) in
      \<lparr>bs_InstallationID = rc_InstallID repo, bs_RepoID = rc_RepoID repo, bs_Path = [], bs_SpecVersion = 1,
       bs_BootstrapGeneration = CurrentBootstrapGeneration, bs_Kind = mf_Kind m,
       bs_SetupScript = pt_Setup (lr_PartialScripts r), bs_StartScript = pt_Start (lr_PartialScripts r),
       bs_HealthCheck = pt_Health (lr_PartialScripts r), bs_StopScript = pt_Stop (lr_PartialScripts r),
       bs_LessonsMD = pt_Lessons (lr_PartialScripts r), bs_Services = [], bs_RequiredSecrets = mf_RequiredSecrets m,
       bs_DeferredCapabilities = mf_DeferredCapabilities m, bs_SuggestedRepoChanges = [],
       bs_ValidationCapability = mf_ValidationCapability m, bs_SourceFingerprint = Fingerprint (en_Lib en) hints,
       bs_ValidationStatus = StatusFailing, bs_SuccessCount = 0, bs_FailureCount = 0,
       bs_BootstrapLog = truncateLogTail (lr_Log r)\<rparr>)"

definition persistFailingBootstrap ::
  "'w boot_env \<Rightarrow> loop_result \<Rightarrow> repo_ctx \<Rightarrow> boot_hints option \<Rightarrow> ('w boot_db, unit) go" where
  "persistFailingBootstrap en r repo hints =
     attempt (boot_SaveFailingSpec (en_UUID en 0) (en_Now en) (failing_spec en r repo hints)) (\<lambda>_. ret ())"

text \<open>What both callers of the loop do with its two answers first.\<close>

definition persist_failure ::
  "'w boot_env \<Rightarrow> repo_ctx \<Rightarrow> boot_hints option \<Rightarrow> loop_result option \<Rightarrow> go_error option \<Rightarrow> ('w boot_db, unit) go" where
  "persist_failure en repo hints res err =
     (case (err, res) of
        (Some e, Some r) \<Rightarrow> if err_is e ErrLoopFailed then persistFailingBootstrap en r repo hints else ret ()
      | _ \<Rightarrow> ret ())"

section \<open>The refresh of a saved spec\<close>

definition heal_reason :: "boot_spec \<Rightarrow> string" where
  "heal_reason p =
     (if NeedsGenerationUpgrade (Some p)
        then ''the saved repo setup spec was produced by bootstrap generation '' @ itoa (bs_BootstrapGeneration p) @
          ''; current generation is '' @ itoa CurrentBootstrapGeneration
      else if bs_ValidationStatus p = StatusFailing then ''the saved repo setup spec is failing''
      else ''the repo setup spec is stale'')"

definition show_bool :: "bool \<Rightarrow> string" where
  "show_bool b = (if b then ''true'' else ''false'')"

definition heal_failure_log :: "boot_lib \<Rightarrow> boot_hints \<Rightarrow> bool \<Rightarrow> boot_spec \<Rightarrow> string" where
  "heal_failure_log lib hints stale p =
     (let up = NeedsGenerationUpgrade (Some p);
          pre = ''bootstrap generation upgrade required: saved_generation='' @ itoa (bs_BootstrapGeneration p) @
            '' current_generation='' @ itoa CurrentBootstrapGeneration @ [newline];
          lg = (if \<not> up then bs_BootstrapLog p
                else if bs_BootstrapLog p \<noteq> [] then pre @ [newline] @ bs_BootstrapLog p else pre)
      in if lg = [] then ''stale='' @ show_bool stale @ '' generation_upgrade='' @ show_bool up @ '' validation_status='' @
             bs_ValidationStatus p @ '' current_fingerprint='' @ Fingerprint lib (Some hints) @
             '' saved_fingerprint='' @ bs_SourceFingerprint p
         else lg)"

definition refreshExistingBootstrapSpec ::
  "'w boot_env \<Rightarrow> repo_ctx \<Rightarrow> string \<Rightarrow> boot_spec \<Rightarrow> ('w boot_db, boot_spec) go" where
  "refreshExistingBootstrapSpec en repo requestID p =
     (let session = ''bootstrap-check-'' @ requestID; lib = en_Lib en in
      andthen (wrap_err ''create bootstrap check session'' (in_boot_sandbox (en_CreateSession en session))) (\<lambda>_.
      with_session en session (
      andthen (wrap_err ''setup-clone'' (in_boot_sandbox (en_SetupClone en session))) (\<lambda>_.
      andthen (wrap_err ''detect'' (in_boot_sandbox (en_Detect en session))) (\<lambda>hints.
      let stale = IsStale lib (Some hints) (Some p); up = NeedsGenerationUpgrade (Some p) in
      if \<not> shouldAutoHealExistingBootstrapSpec stale up (Some p)
      then andthen (if failingBootstrapAutoHealCapped stale up (Some p) then notifyBootstrapAutoHealCapped p else ret ())
        (\<lambda>_. ret p)
      else
      andthen (boot_notify ''Bootstrap auto-heal'' (heal_reason p @ ''; regenerating setup/start/health before the agent runs.'')) (\<lambda>_.
      andthen (wrap_err ''get secrets'' (boot_GetSecrets (en_Cipher en) (rc_InstallID repo) (rc_RepoID repo) [])) (\<lambda>secrets.
      andthen (in_loop (AutoHeal lib (Some (en_Runner en session))
          \<lparr>hi_OwnerRepo = rc_Slug repo, hi_Path = bs_Path p, hi_PriorSpec = Some p,
           hi_FailureLog = heal_failure_log lib hints stale p, hi_Hints = Some hints, hi_SuppliedSecrets = secrets,
           hi_RepoDir = repoWorkdir (rc_Slug repo)\<rparr>)) (\<lambda>(res, err).
      andthen (persist_failure en repo (Some hints) res err) (\<lambda>_.
      case err of
        Some e \<Rightarrow> fail (Wrapped ''bootstrap.AutoHeal'' e)
      | None \<Rightarrow>
          if res = None \<or> lr_Spec (the res) = None then fail (ErrNew ''bootstrap auto-heal produced no spec'')
          else andthen (wrap_err ''save auto-healed spec'' (saveBootstrapSpecResult en res repo)) (\<lambda>q.
            andthen (boot_notify ''Bootstrap auto-heal complete'' (''Saved `'' @ bs_Kind q @ ''` setup version '' @
              itoa (bs_SpecVersion q) @ '' for `'' @ rc_Slug repo @ ''` (status: '' @ bs_ValidationStatus q @ '').''))
            (\<lambda>_. ret q)))))))))))"

section \<open>The spec of a task\<close>

definition bootstrap_complete :: "repo_ctx \<Rightarrow> boot_spec \<Rightarrow> ('w boot_db, unit) go" where
  "bootstrap_complete repo q = boot_notify ''Bootstrap complete'' (''Saved a `'' @ bs_Kind q @ ''` setup for `'' @
     rc_Slug repo @ ''` (status: '' @ bs_ValidationStatus q @ ''). The agent will now run with end-to-end validation.'')"

definition firstBootstrap :: "'w boot_env \<Rightarrow> repo_ctx \<Rightarrow> string \<Rightarrow> ('w boot_db, boot_spec) go" where
  "firstBootstrap en repo requestID =
     (let session = ''bootstrap-'' @ requestID; lib = en_Lib en in
      andthen (boot_notify ''First-time bootstrap'' (''`'' @ rc_Slug repo @ ''` is new to Hetchy '' @ em_dash @
        '' figuring out how to run it end-to-end. This one-time analysis uses Opus with high effort, so it adds a few minutes to the first task; subsequent tasks reuse the result.'')) (\<lambda>_.
      andthen (wrap_err ''create bootstrap session'' (in_boot_sandbox (en_CreateSession en session))) (\<lambda>_.
      with_session en session (
      andthen (wrap_err ''setup-clone'' (in_boot_sandbox (en_SetupClone en session))) (\<lambda>_.
      andthen (wrap_err ''detect'' (in_boot_sandbox (en_Detect en session))) (\<lambda>hints.
      andthen (wrap_err ''get secrets'' (boot_GetSecrets (en_Cipher en) (rc_InstallID repo) (rc_RepoID repo) [])) (\<lambda>secrets.
      andthen (in_loop (boot_Run lib (Some (en_Runner en session))
          \<lparr>li_OwnerRepo = rc_Slug repo, li_Path = [], li_Hints = Some hints, li_SuppliedSecrets = secrets,
           li_RepoDir = repoWorkdir (rc_Slug repo), li_Preamble = []\<rparr>)) (\<lambda>(res, err).
      andthen (persist_failure en repo (Some hints) res err) (\<lambda>_.
      case err of
        Some e \<Rightarrow> fail (Wrapped ''bootstrap.Run'' e)
      | None \<Rightarrow>
          if res = None \<or> lr_Spec (the res) = None then fail (ErrNew ''bootstrap produced no spec'')
          else andthen (wrap_err ''save spec'' (saveBootstrapSpecResult en res repo)) (\<lambda>q.
            andthen (bootstrap_complete repo q) (\<lambda>_. ret q)))))))))))"

definition ensureBootstrapSpec :: "'w boot_env \<Rightarrow> repo_ctx \<Rightarrow> string \<Rightarrow> ('w boot_db, boot_spec) go" where
  "ensureBootstrapSpec en repo requestID =
     attempt (boot_GetSpec (rc_InstallID repo) (rc_RepoID repo) []) (\<lambda>r.
       case r of
         Inr p \<Rightarrow>
           if \<not> shouldRefreshExistingBootstrapSpec (Some p)
           then andthen (if failingBootstrapAutoHealCapped False False (Some p) then notifyBootstrapAutoHealCapped p else ret ())
             (\<lambda>_. ret p)
           else attempt (refreshExistingBootstrapSpec en repo requestID p) (\<lambda>r'.
             case r' of
               Inl e \<Rightarrow> andthen (boot_notify ''Bootstrap check skipped''
                 ''Hetchy could not refresh the saved repo setup spec before this run, so it will reuse the last saved version.'')
                 (\<lambda>_. ret p)
             | Inr refreshed \<Rightarrow> ret refreshed)
       | Inl e \<Rightarrow> if err_is e BootErrNotFound then firstBootstrap en repo requestID else fail (Wrapped ''get spec'' e))"

datatype model_provider = ProviderAnthropic | ProviderOpenAI

record task_request =
  rq_ValidateChanges :: bool
  rq_BootstrapSkipped :: bool
  rq_HasStore :: bool
  rq_Provider :: model_provider
  rq_HasAnthropicCredentials :: bool
  rq_Cancelled :: bool

definition agentBootstrapSpec :: "'w boot_env \<Rightarrow> repo_ctx \<Rightarrow> string \<Rightarrow> task_request \<Rightarrow> ('w boot_db, boot_spec option) go" where
  "agentBootstrapSpec en repo requestID rq =
     (if \<not> rq_ValidateChanges rq \<or> rq_BootstrapSkipped rq \<or> \<not> rq_HasStore rq \<or> rc_InstallID repo = 0 \<or> rc_RepoID repo = 0
      then ret None
      else if \<not> (rq_Provider rq = ProviderAnthropic \<or> rq_HasAnthropicCredentials rq)
      then andthen (if rq_Provider rq = ProviderOpenAI then boot_notify ''Bootstrap skipped''
          ''Bootstrap runs Claude Code internally; without an Anthropic credential Codex will validate the change without the saved repo bootstrap step.''
          else ret ()) (\<lambda>_. ret None)
      else attempt (ensureBootstrapSpec en repo requestID) (\<lambda>r.
        case r of
          Inr p \<Rightarrow> ret (Some p)
        | Inl e \<Rightarrow> if rq_Cancelled rq then fail e
            else andthen (boot_notify ''Bootstrap skipped'' (bootstrapSkippedMessage (err_text (en_ErrText en)) (Some e)))
              (\<lambda>_. ret None)))"

section \<open>Recovery\<close>

definition saveRecoveredBootstrapSpec ::
  "'w boot_env \<Rightarrow> bool \<Rightarrow> repo_ctx \<Rightarrow> string \<Rightarrow> string \<Rightarrow> ('w boot_db, unit) go" where
  "saveRecoveredBootstrapSpec en hasStore repo session logText =
     (if \<not> hasStore \<or> rc_InstallID repo = 0 \<or> rc_RepoID repo = 0
      then fail (ErrNew ''bootstrap store or repo ids are unavailable'')
      else andthen (wrap_err ''detect recovered bootstrap hints'' (in_boot_sandbox (en_Detect en session))) (\<lambda>hints.
        andthen (wrap_err ''get secrets'' (boot_GetSecrets (en_Cipher en) (rc_InstallID repo) (rc_RepoID repo) [])) (\<lambda>secrets.
        andthen (in_boot_sandbox (ResultFromArtifacts (en_Lib en) (Some (en_Runner en session))
            \<lparr>li_OwnerRepo = rc_Slug repo, li_Path = [], li_Hints = Some hints, li_SuppliedSecrets = secrets,
             li_RepoDir = repoWorkdir (rc_Slug repo), li_Preamble = []\<rparr> logText)) (\<lambda>res.
        andthen (wrap_err ''save spec'' (saveBootstrapSpecResult en (Some res) repo)) (\<lambda>q.
        bootstrap_complete repo q)))))"

section \<open>After the pull request\<close>

definition specImprovementsDir :: string where "specImprovementsDir = ''/tmp/hetchy-spec/improved''"

type_synonym 'w improvement_reader = "string \<Rightarrow> ('w boot_db, string \<times> bool) go"

definition patched_spec ::
  "'w boot_env \<Rightarrow> boot_spec \<Rightarrow> string \<times> bool \<Rightarrow> string \<times> bool \<Rightarrow> string \<times> bool \<Rightarrow> string \<times> bool \<Rightarrow> string \<times> bool \<Rightarrow> string \<Rightarrow>
   boot_spec \<times> string list" where
  "patched_spec en p setup start stop health lessons reason =
     (let changed = (if snd setup then [''setup.sh''] else []) @ (if snd start then [''start.sh''] else []) @
            (if snd stop then [''stop.sh''] else []) @ (if snd health then [''health.sh''] else []) @
            (if snd lessons then [''lessons.md''] else []);
          q = p\<lparr>bs_SpecVersion := int32 (bs_SpecVersion p + 1), bs_ValidationStatus := StatusStale,
            bs_SetupScript := (if snd setup then fst setup else bs_SetupScript p),
            bs_StartScript := (if snd start then fst start else bs_StartScript p),
            bs_StopScript := (if snd stop then fst stop else bs_StopScript p),
            bs_HealthCheck := (if snd health then fst health else bs_HealthCheck p),
            bs_LessonsMD := (if snd lessons then fst lessons else bs_LessonsMD p)\<rparr>;
          entry = [newline, newline] @ ''--- spec improvement at '' @ en_RFC3339 en (en_Clock en) @ '' (changed: '' @
            join changed '', '' @ '') ---'' @ [newline] @ reason @ [newline]
      in (if reason = [] then q
          else q\<lparr>bs_BootstrapLog := truncateLogTail (rev (dropWhile (\<lambda>c. c = newline) (rev (bs_BootstrapLog q))) @ entry)\<rparr>,
          changed))"

text \<open>
  What the improvements come to, in the two parts between which the tables are not locked: what the agent
  left is read and the spec is looked up a second time; then the patched spec is saved. None means that
  there is nothing to save.
\<close>

type_synonym pending_save = "boot_spec \<times> string list \<times> string"

definition improvements_wanted ::
  "'w boot_env \<Rightarrow> 'w improvement_reader \<Rightarrow> boot_spec \<Rightarrow> ('w boot_db, pending_save option) go" where
  "improvements_wanted en read p =
     andthen (read (specImprovementsDir @ ''/none.txt'')) (\<lambda>(note, ok).
     if ok then andthen (boot_notify (''Bootstrap spec '' @ em_dash @ '' no changes'')
       (''Agent reviewed the validation run and reported no spec improvements were warranted: '' @ note)) (\<lambda>_. ret None)
     else
     andthen (read (specImprovementsDir @ ''/setup.sh'')) (\<lambda>setup.
     andthen (read (specImprovementsDir @ ''/start.sh'')) (\<lambda>start.
     andthen (read (specImprovementsDir @ ''/stop.sh'')) (\<lambda>stop.
     andthen (read (specImprovementsDir @ ''/health.sh'')) (\<lambda>health.
     andthen (read (specImprovementsDir @ ''/lessons.md'')) (\<lambda>lessons.
     andthen (read (specImprovementsDir @ ''/reason.md'')) (\<lambda>(reason, _).
     if \<not> snd setup \<and> \<not> snd start \<and> \<not> snd stop \<and> \<not> snd health \<and> \<not> snd lessons then ret None
     else attempt (boot_GetSpec (bs_InstallationID p) (bs_RepoID p) (bs_Path p)) (\<lambda>r.
       case r of
         Inl e \<Rightarrow> ret None
       | Inr _ \<Rightarrow> let (q, changed) = patched_spec en p setup start stop health lessons reason in
           ret (Some (q, changed, reason))))))))))"

definition save_improvements :: "'w boot_env \<Rightarrow> pending_save \<Rightarrow> ('w boot_db, unit) go" where
  "save_improvements en = (\<lambda>(q, changed, reason).
     attempt (boot_SaveSpec (en_UUID en 0) (en_Clock en) (en_Now en) q) (\<lambda>saved.
       case saved of
         Inl e \<Rightarrow> boot_notify (''Bootstrap spec '' @ em_dash @ '' couldn't save improvements'')
           (''Agent suggested updates to '' @ join changed '', '' @ '' but the save failed: `'' @
            err_text (en_ErrText en) e @ ''`. The PR is unaffected.'')
       | Inr _ \<Rightarrow> boot_notify (''Bootstrap spec '' @ em_dash @ '' improved'')
           (''Agent learned from this task and updated '' @ humanList changed @ ''. Saved as spec v'' @
            itoa (bs_SpecVersion q) @ '' '' @ em_dash @ '' the next task on this repo will use the improved scripts.'' @
            (if reason = [] then [] else [newline, newline] @ ''**Why:** '' @ reason))))"

definition applySpecImprovementsFromReader ::
  "'w boot_env \<Rightarrow> 'w improvement_reader \<Rightarrow> boot_spec \<Rightarrow> ('w boot_db, unit) go" where
  "applySpecImprovementsFromReader en read p =
     andthen (improvements_wanted en read p) (\<lambda>w.
       case w of None \<Rightarrow> ret () | Some x \<Rightarrow> save_improvements en x)"

text \<open>The reader of a session of the sandbox: a file that cannot be read is not there.\<close>

definition session_reader :: "'w boot_env \<Rightarrow> string \<Rightarrow> 'w improvement_reader" where
  "session_reader en session path = attempt (in_boot_sandbox (en_ReadShell en session path)) (\<lambda>r.
     case r of Inl e \<Rightarrow> ret ([], False) | Inr out \<Rightarrow> let t = trim_space out in ret (t, t \<noteq> []))"

definition applySpecImprovements :: "'w boot_env \<Rightarrow> string \<Rightarrow> boot_spec \<Rightarrow> ('w boot_db, unit) go" where
  "applySpecImprovements en sessionID p =
     (let session = sessionID @ ''-improvements'' in
      attempt (in_boot_sandbox (en_CreateSession en session)) (\<lambda>r.
        case r of Inl e \<Rightarrow> ret ()
        | Inr _ \<Rightarrow> with_session en session (applySpecImprovementsFromReader en (session_reader en session) p)))"

text \<open>The improvements, then the status of the spec: a third statement of its own.\<close>

definition post_pr_housekeeping :: "'w boot_env \<Rightarrow> repo_ctx \<Rightarrow> string \<Rightarrow> boot_spec \<Rightarrow> ('w boot_db, unit) go" where
  "post_pr_housekeeping en repo sessionID p =
     andthen (applySpecImprovements en sessionID p) (\<lambda>_.
     attempt (boot_MarkApplied (en_Clock en) (en_Now en) (rc_InstallID repo) (rc_RepoID repo) (bs_Path p)
       StatusValidated (int32 (bs_SuccessCount p + 1)) (bs_FailureCount p)) (\<lambda>_. ret ()))"

end
