(* ===== verification/Boot_Laws.thy ===== *)
theory Boot_Laws
  imports Boot_Flow
begin

text \<open>
  The consistency of the tables of the bootstrap and the secrets in them, kept by every operation of the
  store, by the tasks that bootstrap, heal and improve a spec, and by the settings pages.
\<close>

section \<open>The invariant\<close>

definition boot_ok :: "'w boot_db \<Rightarrow> bool" where
  "boot_ok s \<longleftrightarrow> table_inv spec_key (\<lambda>r. setup_spec_error r = None) (setup_specs s) \<and>
     table_inv secret_key (\<lambda>r. secret_value_error r = None) (secret_values s)"

interpretation specs: keyed_table spec_key setup_specs setup_specs_update
  by unfold_locales simp

interpretation secrets: keyed_table secret_key secret_values secret_values_update
  by unfold_locales simp

lemma boot_ok_other [simp]:
  "boot_ok (s\<lparr>boot_sandbox := w\<rparr>) = boot_ok s" "boot_ok (s\<lparr>boot_notices := n\<rparr>) = boot_ok s"
  by (simp_all add: boot_ok_def)

lemmas spec_sel = is_spec_def [abs_def]
lemmas secret_sel = is_secret_def [abs_def]

lemma keeps_with_texts [keeps]: "keeps_inv P q \<Longrightarrow> keeps_inv P (with_texts ts q)"
  by (simp add: with_texts_def)

lemma keeps_no_result [keeps]: "keeps_inv P q \<Longrightarrow> keeps_inv P (no_result q)"
  unfolding no_result_def by (intro keeps)

lemma keeps_lookup [keeps]: "keeps_inv P (sql_get tab p)" "keeps_inv P (sql_list tab p)"
  by (simp_all add: keeps_inv_def sql_get_def sql_list_def split: option.splits)

section \<open>Statements\<close>

lemma spec_checked: "check_row setup_spec_constraints s r = None \<longleftrightarrow> setup_spec_error r = None"
  by (simp add: check_row_def setup_spec_constraints_def split: option.splits)

lemma secret_checked: "check_row secret_value_constraints s r = None \<longleftrightarrow> secret_value_error r = None"
  by (simp add: check_row_def secret_value_constraints_def split: option.splits)

lemma excluded_key [simp]: "spec_key (excluded x r) = spec_key r"
  by (simp add: excluded_def spec_key_def)

lemma spec_key_untouched [simp]:
  "spec_key (r\<lparr>rs_id := a\<rparr>) = spec_key r" "spec_key (r\<lparr>rs_created_at := b\<rparr>) = spec_key r"
  "spec_key (r\<lparr>rs_updated_at := c\<rparr>) = spec_key r" "spec_key (r\<lparr>rs_last_validated_at := d\<rparr>) = spec_key r"
  "spec_key (r\<lparr>rs_success_count := e\<rparr>) = spec_key r" "spec_key (r\<lparr>rs_failure_count := f\<rparr>) = spec_key r"
  "spec_key (r\<lparr>rs_validation_status := g\<rparr>) = spec_key r"
  by (simp_all add: spec_key_def)

lemma secret_key_row [simp]:
  "secret_key (new_secret_row u now k name v) = (k, name)" "secret_key (r\<lparr>rv_value_encrypted := v'\<rparr>) = secret_key r"
  "secret_key (r\<lparr>rv_updated_at := t\<rparr>) = secret_key r"
  by (simp_all add: secret_key_def new_secret_row_def)

text \<open>A write to one table that keeps its rows in order leaves the other table alone.\<close>

lemma keeps_spec_table:
  assumes "\<And>s r t. table_inv spec_key (\<lambda>r. setup_spec_error r = None) (setup_specs s) \<Longrightarrow> m s = (r, t) \<Longrightarrow>
      table_inv spec_key (\<lambda>r. setup_spec_error r = None) (setup_specs t)"
    and "\<And>s r t. m s = (r, t) \<Longrightarrow> secret_values t = secret_values s"
  shows "keeps_inv boot_ok m"
  using assms by (intro keeps_invI) (fastforce simp: boot_ok_def)

lemma keeps_secret_table:
  assumes "\<And>s r t. table_inv secret_key (\<lambda>r. secret_value_error r = None) (secret_values s) \<Longrightarrow> m s = (r, t) \<Longrightarrow>
      table_inv secret_key (\<lambda>r. secret_value_error r = None) (secret_values t)"
    and "\<And>s r t. m s = (r, t) \<Longrightarrow> setup_specs t = setup_specs s"
  shows "keeps_inv boot_ok m"
  using assms by (intro keeps_invI) (fastforce simp: boot_ok_def)

lemma upsert_specs_keep:
  assumes "\<And>r. spec_key (g r) = spec_key r" and "spec_key x = k"
  shows "keeps_inv boot_ok (sql_upsert setup_specs setup_specs_update setup_spec_constraints (is_spec k) x g)"
proof (rule keeps_spec_table)
  fix s :: "'a boot_db" and r t
  assume inv: "table_inv spec_key (\<lambda>r. setup_spec_error r = None) (setup_specs s)"
    and run: "sql_upsert setup_specs setup_specs_update setup_spec_constraints (is_spec k) x g s = (r, t)"
  show "table_inv spec_key (\<lambda>r. setup_spec_error r = None) (setup_specs t)"
    by (rule specs.table_inv_upsert [OF inv _ _ _ run [unfolded spec_sel assms(2) [symmetric]]])
      (simp_all add: assms(1) spec_checked)
next
  fix s :: "'a boot_db" and r t
  assume "sql_upsert setup_specs setup_specs_update setup_spec_constraints (is_spec k) x g s = (r, t)"
  then show "secret_values t = secret_values s" by (cases rule: specs.upsert_cases) simp_all
qed

lemma spec_queries_keep [keeps]:
  "keeps_inv boot_ok (UpsertRepoSetupSpec u now x)" "keeps_inv boot_ok (UpsertFailingRepoSetupSpec u now x)"
  unfolding UpsertRepoSetupSpec_def UpsertFailingRepoSetupSpec_def by (rule upsert_specs_keep; simp)+

lemma delete_spec_keeps [keeps]: "keeps_inv boot_ok (DeleteRepoSetupSpec k)"
  unfolding DeleteRepoSetupSpec_def
  by (intro keeps keeps_spec_table) (auto dest: specs.table_inv_delete simp: sql_delete_def)

lemma update_status_keeps [keeps]: "keeps_inv boot_ok (UpdateRepoSetupSpecStatus now k status validated a b)"
  unfolding UpdateRepoSetupSpecStatus_def
proof (intro keeps keeps_spec_table)
  fix s :: "'a boot_db" and r t
  let ?f = "\<lambda>r. r\<lparr>rs_validation_status := status, rs_last_validated_at := validated, rs_success_count := a,
          rs_failure_count := b, rs_updated_at := Some now\<rparr>"
  assume run: "sql_update_all setup_specs setup_specs_update setup_spec_constraints (is_spec k) ?f s = (r, t)"
  show "secret_values t = secret_values s" using run by (cases rule: specs.update_all_cases) simp_all
  assume inv: "table_inv spec_key (\<lambda>r. setup_spec_error r = None) (setup_specs s)"
  show "table_inv spec_key (\<lambda>r. setup_spec_error r = None) (setup_specs t)"
    by (rule specs.table_inv_update_all [OF inv _ _ run]) (simp_all add: spec_checked)
qed

lemma secret_queries_keep [keeps]:
  "keeps_inv boot_ok (DeleteRepoSecretValue k name)" "keeps_inv boot_ok (UpsertRepoSecretValue u now k name v)"
  "keeps_inv boot_ok (InsertRepoSecretValueIfAbsent u now k name)"
proof -
  show "keeps_inv boot_ok (DeleteRepoSecretValue k name)"
    unfolding DeleteRepoSecretValue_def
    by (intro keeps keeps_secret_table) (auto dest: secrets.table_inv_delete simp: sql_delete_def)
  have key: "is_secret k name = (\<lambda>r. secret_key r = secret_key (new_secret_row u now k name w))" for w
    by (simp add: secret_sel)
  show "keeps_inv boot_ok (UpsertRepoSecretValue u now k name v)"
    unfolding UpsertRepoSecretValue_def
  proof (intro keeps keeps_secret_table)
    fix s r t
    assume run: "sql_upsert secret_values secret_values_update secret_value_constraints (is_secret k name)
        (new_secret_row u now k name v) (\<lambda>r. r\<lparr>rv_value_encrypted := v, rv_updated_at := Some now\<rparr>) s = (r, t)"
    show "setup_specs t = setup_specs s" using run by (cases rule: secrets.upsert_cases) simp_all
    assume inv: "table_inv secret_key (\<lambda>r. secret_value_error r = None) (secret_values s)"
    show "table_inv secret_key (\<lambda>r. secret_value_error r = None) (secret_values t)"
      by (rule secrets.table_inv_upsert [OF inv _ _ _ run [unfolded key [of v]]]) (simp_all add: secret_checked)
  qed
  show "keeps_inv boot_ok (InsertRepoSecretValueIfAbsent u now k name)"
  proof (cases "list_all text_ok [snd (snd k), name]")
    case True
    show ?thesis unfolding InsertRepoSecretValueIfAbsent_def
    proof (intro keeps keeps_secret_table)
      fix s r t
      assume run: "sql_insert_once secret_values secret_values_update (is_secret k name) (new_secret_row u now k name None) s = (r, t)"
      show "setup_specs t = setup_specs s" using run by (auto simp: sql_insert_once_def split: option.splits)
      assume inv: "table_inv secret_key (\<lambda>r. secret_value_error r = None) (secret_values s)"
      have "secret_value_error (new_secret_row u now k name None) = None"
        using True by (simp add: secret_value_error_def new_secret_row_def)
      then show "table_inv secret_key (\<lambda>r. secret_value_error r = None) (secret_values t)"
        by (rule secrets.table_inv_insert_once [OF inv _ run [unfolded key [of None]]])
    qed
  next
    case False
    then show ?thesis unfolding InsertRepoSecretValueIfAbsent_def with_texts_def by (simp only: if_False keeps_fail)
  qed
qed

lemma boot_reads_keep [keeps]:
  "keeps_inv P (GetRepoSetupSpec k)" "keeps_inv P (ListRepoSetupSpecs i n)" "keeps_inv P (GetRepoSecretValue k name)"
  "keeps_inv P (ListRepoSecretValues k)"
  unfolding GetRepoSetupSpec_def ListRepoSetupSpecs_def GetRepoSecretValue_def ListRepoSecretValues_def by (intro keeps)+

section \<open>Invariants of tasks\<close>

text \<open>
  What the tasks that bootstrap, heal and improve a spec write to the tables, and a reset, goes through five
  queries; a property these keep, whatever happens in the sandbox, is kept by every task.
\<close>

locale task_invariant =
  fixes P :: "'w boot_db \<Rightarrow> bool"
  assumes other: "\<And>s w. P (s\<lparr>boot_sandbox := w\<rparr>) = P s" "\<And>s n. P (s\<lparr>boot_notices := n\<rparr>) = P s"
    and upserts: "\<And>u now x. keeps_inv P (UpsertRepoSetupSpec u now x)"
      "\<And>u now x. keeps_inv P (UpsertFailingRepoSetupSpec u now x)"
    and status: "\<And>now k st v a b. keeps_inv P (UpdateRepoSetupSpecStatus now k st v a b)"
    and declared: "\<And>u now k name. keeps_inv P (InsertRepoSecretValueIfAbsent u now k name)"
    and deleted: "\<And>k. keeps_inv P (DeleteRepoSetupSpec k)"
begin

lemma sandbox_keeps: "keeps_inv P (in_boot_sandbox m)"
  by (auto simp: keeps_inv_def in_boot_sandbox_def other split: prod.splits)

lemma in_loop_keeps: "keeps_inv P (in_loop f)"
  unfolding in_loop_def by (rule sandbox_keeps)

lemma notify_keeps: "keeps_inv P (boot_notify t b)"
  by (simp add: keeps_inv_def boot_notify_def other)

lemma session_keeps: "keeps_inv P m \<Longrightarrow> keeps_inv P (with_session en i m)"
  by (auto simp: keeps_inv_def with_session_def other split: prod.splits)

lemmas parts = sandbox_keeps in_loop_keeps notify_keeps session_keeps upserts status declared

lemma spec_store_keeps:
  "keeps_inv P (boot_GetSpec i n path)" "keeps_inv P (boot_SaveSpec u clock now p)" "keeps_inv P (boot_SaveFailingSpec u now p)"
  "keeps_inv P (boot_MarkApplied clock now i n path st a b)" "keeps_inv P (boot_GetSecrets c i n path)"
  "keeps_inv P (boot_ListSecrets i n path)" "keeps_inv P (DeclareRequiredSecret u now i n path name)"
  unfolding boot_GetSpec_def boot_SaveSpec_def boot_SaveFailingSpec_def boot_MarkApplied_def boot_GetSecrets_def
    boot_ListSecrets_def DeclareRequiredSecret_def
  by (intro keeps parts)+

lemma declare_keeps: "keeps_inv P (declare_each en repo i secs)"
  by (induction secs arbitrary: i) (simp_all, intro keeps spec_store_keeps)

lemma result_keeps: "keeps_inv P (saveBootstrapSpecResult en res repo)" "keeps_inv P (persist_failure en repo hints res' err)"
  unfolding saveBootstrapSpecResult_def declareBootstrapRequiredSecrets_def persist_failure_def persistFailingBootstrap_def
  by (intro keeps spec_store_keeps declare_keeps | simp split: option.splits | intro conjI allI impI)+

lemma spec_refresh_keeps: "keeps_inv P (refreshExistingBootstrapSpec en repo rid p)"
  unfolding refreshExistingBootstrapSpec_def notifyBootstrapAutoHealCapped_def Let_def
  by (intro keeps parts spec_store_keeps result_keeps | simp only: split_beta split_paired_all prod.case)+

lemma first_keeps: "keeps_inv P (firstBootstrap en repo rid)"
  unfolding firstBootstrap_def bootstrap_complete_def Let_def
  by (intro keeps parts spec_store_keeps result_keeps | simp only: split_beta split_paired_all prod.case)+

lemma ensure_keeps: "keeps_inv P (ensureBootstrapSpec en repo rid)"
  unfolding ensureBootstrapSpec_def notifyBootstrapAutoHealCapped_def
  by (intro keeps parts spec_store_keeps spec_refresh_keeps first_keeps)

lemma agent_keeps: "keeps_inv P (agentBootstrapSpec en repo rid rq)"
  unfolding agentBootstrapSpec_def by (intro keeps parts ensure_keeps)

lemma recovered_keeps: "keeps_inv P (saveRecoveredBootstrapSpec en b repo session lg)"
  unfolding saveRecoveredBootstrapSpec_def bootstrap_complete_def by (intro keeps parts spec_store_keeps result_keeps)

lemma reader_keeps: "keeps_inv P (session_reader en session path)"
  unfolding session_reader_def Let_def by (intro keeps parts)

lemma improvements_keep:
  assumes "\<And>path. keeps_inv P (read path)"
  shows "keeps_inv P (applySpecImprovementsFromReader en read p)"
  unfolding applySpecImprovementsFromReader_def improvements_wanted_def save_improvements_def Let_def
  by (intro keeps parts spec_store_keeps assms | simp only: split_beta split_paired_all prod.case)+

lemma housekeeping_keeps: "keeps_inv P (post_pr_housekeeping en repo sessionID p)"
  unfolding post_pr_housekeeping_def applySpecImprovements_def Let_def
  by (intro keeps parts spec_store_keeps improvements_keep reader_keeps)

end

interpretation ok: task_invariant boot_ok
  by unfold_locales (simp_all add: spec_queries_keep update_status_keeps secret_queries_keep delete_spec_keeps)

chapter \<open>The laws\<close>

text \<open>
  The laws of the bootstrap store: a spec reads back as it was saved, the secrets a user supplied outlive
  every task, and what a delete means for a task that is still running.
\<close>

section \<open>Steps\<close>

text \<open>Everything that happens to the tables but the writes of a user to the secrets.\<close>

inductive boot_task_step :: "'w boot_db \<Rightarrow> 'w boot_db \<Rightarrow> bool" where
  task: "agentBootstrapSpec en repo rid rq s = (r, t) \<Longrightarrow> boot_task_step s t"
| finished: "post_pr_housekeeping en repo session p s = (r', t) \<Longrightarrow> boot_task_step s t"
| recovered: "saveRecoveredBootstrapSpec en b repo session lg s = (r', t) \<Longrightarrow> boot_task_step s t"
| reset: "boot_DeleteSpec i n path s = (r', t) \<Longrightarrow> boot_task_step s t"
| sandbox: "boot_task_step s (s\<lparr>boot_sandbox := w\<rparr>)"

inductive boot_step :: "aead \<Rightarrow> 'w boot_db \<Rightarrow> 'w boot_db \<Rightarrow> bool" for c where
  task_step: "boot_task_step s t \<Longrightarrow> boot_step c s t"
| set_secret: "boot_SetSecret c rnd u now i n path name v s = (r, t) \<Longrightarrow> boot_step c s t"
| delete_secret: "boot_DeleteSecret i n path name s = (r, t) \<Longrightarrow> boot_step c s t"

text \<open>The steps that leave one secret to its user; a nonce has the length the cipher asks for.\<close>

inductive sparing_step :: "aead \<Rightarrow> boot_key \<Rightarrow> string \<Rightarrow> 'w boot_db \<Rightarrow> 'w boot_db \<Rightarrow> bool" for c k name where
  task_step: "boot_task_step s t \<Longrightarrow> sparing_step c k name s t"
| set_other: "((i, n, path), other) \<noteq> (k, name) \<Longrightarrow> length nonce = aead_NonceSize c \<Longrightarrow>
    boot_SetSecret c (Inr nonce) u now i n path other v s = (r, t) \<Longrightarrow> sparing_step c k name s t"
| delete_other: "((i, n, path), other) \<noteq> (k, name) \<Longrightarrow> boot_DeleteSecret i n path other s = (r, t) \<Longrightarrow>
    sparing_step c k name s t"

context task_invariant
begin

lemma task_step_keeps: "boot_task_step s t \<Longrightarrow> P s \<Longrightarrow> P t"
proof (induction rule: boot_task_step.induct)
  case (reset i n path s r' t)
  have "keeps_inv P (boot_DeleteSpec i n path)" unfolding boot_DeleteSpec_def by (intro keeps deleted)
  with reset show ?case by (auto dest: keeps_invD)
qed (auto simp: other dest: keeps_invD [OF agent_keeps] keeps_invD [OF housekeeping_keeps] keeps_invD [OF recovered_keeps])

end

lemma secret_writes_keep:
  "keeps_inv boot_ok (boot_SetSecret c rnd u now i n path name v)" "keeps_inv boot_ok (boot_DeleteSecret i n path name)"
  unfolding boot_SetSecret_def boot_DeleteSecret_def by (intro keeps)+

lemma boot_steps_keep:
  assumes "(boot_step c)\<^sup>*\<^sup>* s t" and "boot_ok s"
  shows "boot_ok t"
  using assms
proof induction
  case (step t v)
  from step.hyps(2) step.IH [OF step.prems] show ?case
    by cases (auto dest: ok.task_step_keeps keeps_invD [OF secret_writes_keep(1)] keeps_invD [OF secret_writes_keep(2)])
qed

section \<open>Secrets\<close>

text \<open>A property of the secrets alone is untouched by the queries on specs.\<close>

lemma spec_queries_spare_secrets:
  assumes "sql_upsert setup_specs setup_specs_update setup_spec_constraints p x g s = (r, t)"
  shows "secret_values t = secret_values s"
  using assms by (cases rule: specs.upsert_cases) simp_all

lemma secrets_alone:
  "keeps_inv (\<lambda>s. Q (secret_values s)) (UpsertRepoSetupSpec u now x)"
  "keeps_inv (\<lambda>s. Q (secret_values s)) (UpsertFailingRepoSetupSpec u now x)"
  "keeps_inv (\<lambda>s. Q (secret_values s)) (UpdateRepoSetupSpecStatus now k st v a b)"
  "keeps_inv (\<lambda>s. Q (secret_values s)) (DeleteRepoSetupSpec k)"
proof -
  show "keeps_inv (\<lambda>s. Q (secret_values s)) (UpsertRepoSetupSpec u now x)"
    "keeps_inv (\<lambda>s. Q (secret_values s)) (UpsertFailingRepoSetupSpec u now x)"
    unfolding UpsertRepoSetupSpec_def UpsertFailingRepoSetupSpec_def
    by (rule keeps_invI, simp add: spec_queries_spare_secrets)+
  show "keeps_inv (\<lambda>s. Q (secret_values s)) (UpdateRepoSetupSpecStatus now k st v a b)"
    unfolding UpdateRepoSetupSpecStatus_def
    by (intro keeps keeps_invI) (auto simp: sql_update_all_def split: option.splits)
  show "keeps_inv (\<lambda>s. Q (secret_values s)) (DeleteRepoSetupSpec k)"
    unfolding DeleteRepoSetupSpec_def by (intro keeps keeps_invI) (auto simp: sql_delete_def)
qed

definition has_secret :: "boot_key \<Rightarrow> string \<Rightarrow> secret_value_row \<Rightarrow> secret_value_row list \<Rightarrow> bool" where
  "has_secret k name row t \<longleftrightarrow> find (is_secret k name) t = Some row"

definition decryptable :: "aead \<Rightarrow> secret_value_row list \<Rightarrow> bool" where
  "decryptable c t \<longleftrightarrow> (\<forall>r \<in> set t. \<exists>v. Decrypt c (rv_value_encrypted r) = Inr v)"

lemma declared_keeps:
  "keeps_inv (\<lambda>s. has_secret k name row (secret_values s)) (InsertRepoSecretValueIfAbsent u now k' name')"
  "keeps_inv (\<lambda>s. decryptable c (secret_values s)) (InsertRepoSecretValueIfAbsent u now k' name')"
  unfolding InsertRepoSecretValueIfAbsent_def
  by (intro keeps keeps_invI; auto simp: sql_insert_once_def has_secret_def find_append decryptable_def new_secret_row_def
      Decrypt_def split: option.splits)+

interpretation kept: task_invariant "\<lambda>s. has_secret k name row (secret_values s)" for k name row
  by unfold_locales (simp_all add: secrets_alone declared_keeps)

interpretation readable: task_invariant "\<lambda>s. decryptable c (secret_values s)" for c
  by unfold_locales (simp_all add: secrets_alone declared_keeps)

text \<open>What the documentation of an AEAD promises.\<close>

definition opens_what_it_sealed :: "aead \<Rightarrow> bool" where
  "opens_what_it_sealed c \<longleftrightarrow>
     (\<forall>nonce v. length nonce = aead_NonceSize c \<longrightarrow> aead_Open c nonce (aead_Seal c nonce v) = Inr v)"

lemma encrypted_reads:
  assumes "opens_what_it_sealed c" and "length nonce = aead_NonceSize c" and "0 < aead_NonceSize c"
  shows "\<exists>b. Encrypt c (Inr nonce) v = Inr b \<and> Decrypt c b = Inr v"
  using assms by (cases "v = []") (auto simp: Encrypt_def Decrypt_def opens_what_it_sealed_def)

lemma set_secret_run:
  assumes "Encrypt c rnd v = Inr b"
  shows "boot_SetSecret c rnd u now i n path name v s =
    wrap_err ''bootstrap: upsert secret'' (UpsertRepoSecretValue u now (i, n, path) name b) s"
  using assms by (simp add: boot_SetSecret_def)

lemma set_other_keeps:
  assumes "((i, n, path), other) \<noteq> (k, name)"
  shows "keeps_inv (\<lambda>s. has_secret k name row (secret_values s)) (boot_SetSecret c rnd u now i n path other v)"
    and "keeps_inv (\<lambda>s. has_secret k name row (secret_values s)) (boot_DeleteSecret i n path other)"
proof -
  have ne: "\<And>x. is_secret (i, n, path) other x \<Longrightarrow> \<not> is_secret k name x" using assms by (auto simp: is_secret_def)
  have up: "keeps_inv (\<lambda>s. has_secret k name row (secret_values s)) (UpsertRepoSecretValue u now (i, n, path) other b)" for b
    unfolding UpsertRepoSecretValue_def
  proof (intro keeps keeps_invI)
    fix s r t
    let ?x = "new_secret_row u now (i, n, path) other b"
    assume has: "has_secret k name row (secret_values s)"
      and run: "sql_upsert secret_values secret_values_update secret_value_constraints (is_secret (i, n, path) other)
        ?x (\<lambda>r. r\<lparr>rv_value_encrypted := b, rv_updated_at := Some now\<rparr>) s = (r, t)"
    show "has_secret k name row (secret_values t)"
      using run
    proof (cases rule: secrets.upsert_cases)
      case (updated r')
      then have "is_secret (i, n, path) other r'" by (auto dest: find_SomeD)
      then have "is_secret (i, n, path) other (r'\<lparr>rv_value_encrypted := b, rv_updated_at := Some now\<rparr>)"
        by (simp add: is_secret_def)
      with updated has ne show ?thesis by (simp add: has_secret_def find_replace_other)
    qed (use has in \<open>auto simp: has_secret_def find_append\<close>)
  qed
  then show "keeps_inv (\<lambda>s. has_secret k name row (secret_values s)) (boot_SetSecret c rnd u now i n path other v)"
    unfolding boot_SetSecret_def by (intro keeps)
  show "keeps_inv (\<lambda>s. has_secret k name row (secret_values s)) (boot_DeleteSecret i n path other)"
    unfolding boot_DeleteSecret_def DeleteRepoSecretValue_def
    by (intro keeps keeps_invI) (auto simp: sql_delete_def has_secret_def find_filter_not [OF ne])
qed

lemma writes_stay_decryptable:
  assumes "opens_what_it_sealed c" and "length nonce = aead_NonceSize c" and "0 < aead_NonceSize c"
  shows "keeps_inv (\<lambda>s. decryptable c (secret_values s)) (boot_SetSecret c (Inr nonce) u now i n path name v)"
    and "keeps_inv (\<lambda>s. decryptable c (secret_values s)) (boot_DeleteSecret i n path name)"
proof -
  obtain b where b: "Encrypt c (Inr nonce) v = Inr b" "Decrypt c b = Inr v" using encrypted_reads [OF assms] by blast
  have "keeps_inv (\<lambda>s. decryptable c (secret_values s)) (UpsertRepoSecretValue u now (i, n, path) name b)"
    unfolding UpsertRepoSecretValue_def
  proof (intro keeps keeps_invI)
    fix s r t
    let ?g = "\<lambda>r. r\<lparr>rv_value_encrypted := b, rv_updated_at := Some now\<rparr>"
    assume dec: "decryptable c (secret_values s)"
      and run: "sql_upsert secret_values secret_values_update secret_value_constraints (is_secret (i, n, path) name)
        (new_secret_row u now (i, n, path) name b) ?g s = (r, t)"
    show "decryptable c (secret_values t)"
      using run
    proof (cases rule: secrets.upsert_cases)
      case (updated r')
      then have "set (secret_values t) \<subseteq> insert (?g r') (set (secret_values s))" by (simp add: secrets.set_replace_rows)
      moreover have "Decrypt c (rv_value_encrypted (?g r')) = Inr v" using b(2) by simp
      ultimately show ?thesis using dec unfolding decryptable_def by blast
    qed (use dec b(2) in \<open>auto simp: decryptable_def new_secret_row_def\<close>)
  qed
  then show "keeps_inv (\<lambda>s. decryptable c (secret_values s)) (boot_SetSecret c (Inr nonce) u now i n path name v)"
    unfolding boot_SetSecret_def b(1) by (simp, intro keeps)
  show "keeps_inv (\<lambda>s. decryptable c (secret_values s)) (boot_DeleteSecret i n path name)"
    unfolding boot_DeleteSecret_def DeleteRepoSecretValue_def
    by (intro keeps keeps_invI) (auto simp: sql_delete_def decryptable_def)
qed

lemma sparing_steps:
  assumes "(sparing_step c k name)\<^sup>*\<^sup>* s t" and "opens_what_it_sealed c" and "0 < aead_NonceSize c"
    and "has_secret k name row (secret_values s)" and "decryptable c (secret_values s)"
  shows "has_secret k name row (secret_values t) \<and> decryptable c (secret_values t)"
  using assms(1,4,5)
proof induction
  case (step t v)
  then have IH: "has_secret k name row (secret_values t)" "decryptable c (secret_values t)" by simp_all
  from step.hyps(2) show ?case
  proof cases
    case task_step
    with IH show ?thesis by (blast dest: kept.task_step_keeps readable.task_step_keeps)
  next
    case (set_other i n path other nonce u now w r)
    have "has_secret k name row (secret_values v)"
      by (rule keeps_invD [OF set_other_keeps(1) [OF set_other(1)] IH(1) set_other(3)])
    moreover have "decryptable c (secret_values v)"
      by (rule keeps_invD [OF writes_stay_decryptable(1) [OF assms(2) set_other(2) assms(3)] IH(2) set_other(3)])
    ultimately show ?thesis by simp
  next
    case (delete_other i n path other r)
    have "has_secret k name row (secret_values v)"
      by (rule keeps_invD [OF set_other_keeps(2) [OF delete_other(1)] IH(1) delete_other(2)])
    moreover have "decryptable c (secret_values v)"
      by (rule keeps_invD [OF writes_stay_decryptable(2) [OF assms(2) length_replicate assms(3)] IH(2) delete_other(2)])
    ultimately show ?thesis by simp
  qed
qed simp

text \<open>Reading the secrets of a path.\<close>

lemma decrypt_rows_ok:
  assumes "\<And>r. r \<in> set rows \<Longrightarrow> \<exists>v. Decrypt c (rv_value_encrypted r) = Inr v"
  shows "\<exists>m. decrypt_rows c rows out = Inr m"
  using assms by (induction rows arbitrary: out) (fastforce simp: Let_def)+

lemma decrypt_rows_keep:
  assumes "decrypt_rows c rows out = Inr m" and "\<And>r. r \<in> set rows \<Longrightarrow> rv_name r \<noteq> name"
  shows "map_of m name = map_of out name"
  using assms by (induction rows arbitrary: out) (auto split: sum.splits if_splits)

lemma decrypt_rows_get:
  assumes "decrypt_rows c rows out = Inr m" and "distinct (map rv_name rows)" and "row \<in> set rows"
    and "Decrypt c (rv_value_encrypted row) = Inr v" and "v \<noteq> []"
  shows "map_of m (rv_name row) = Some v"
  using assms
proof (induction rows arbitrary: out)
  case (Cons r rows)
  show ?case
  proof (cases "r = row")
    case True
    with Cons.prems have run: "decrypt_rows c rows (put_entry (rv_name row) v out) = Inr m" by simp
    have "rv_name x \<noteq> rv_name row" if "x \<in> set rows" for x using Cons.prems(2) True that by (force simp: image_iff)
    from decrypt_rows_keep [OF run this] show ?thesis by simp
  next
    case False
    with Cons show ?thesis by (auto split: sum.splits)
  qed
qed simp

lemma secrets_read:
  assumes ok: "boot_ok s" and has: "has_secret (i, n, path) name row (secret_values s)" and dec: "decryptable c (secret_values s)"
    and v: "Decrypt c (rv_value_encrypted row) = Inr v" "v \<noteq> []" and path: "text_ok path"
  shows "\<exists>m. boot_GetSecrets c i n path s = (Inr m, s) \<and> map_of m name = Some v"
proof -
  let ?rows = "filter (\<lambda>r. fst (secret_key r) = (i, n, path)) (secret_values s)"
  have row: "row \<in> set (secret_values s)" "secret_key row = ((i, n, path), name)"
    using has by (auto simp: has_secret_def is_secret_def dest: find_SomeD)
  then have name: "rv_name row = name" by (simp add: secret_key_def)
  have "distinct (map secret_key (secret_values s))" using ok by (simp add: boot_ok_def table_inv_def)
  then have "distinct (map secret_key ?rows)" by (rule distinct_map_filter)
  then have "distinct (map rv_name ?rows)"
    by (auto simp: distinct_map inj_on_def secret_key_def)
  then have dist: "distinct (map rv_name (sort_key rv_name ?rows))"
    by (simp add: distinct_map)
  obtain m where m: "decrypt_rows c (sort_key rv_name ?rows) [] = Inr m"
    using decrypt_rows_ok [of "sort_key rv_name ?rows" c "[]"] dec by (auto simp: decryptable_def)
  have "map_of m (rv_name row) = Some v"
    by (rule decrypt_rows_get [OF m dist _ v]) (use row in simp)
  then show ?thesis
    using m path name
    by (simp add: boot_GetSecrets_def ListRepoSecretValues_def with_texts_def sql_list_def andthen_def wrap_err_def)
qed

lemma set_secret_stores:
  assumes run: "boot_SetSecret c (Inr nonce) u now i n path name v s = (Inr (), t)"
    and aead: "opens_what_it_sealed c" "length nonce = aead_NonceSize c" "0 < aead_NonceSize c"
  shows "\<exists>row. has_secret (i, n, path) name row (secret_values t) \<and> Decrypt c (rv_value_encrypted row) = Inr v \<and> text_ok path"
proof -
  obtain b where b: "Encrypt c (Inr nonce) v = Inr b" "Decrypt c b = Inr v" using encrypted_reads [OF aead] by blast
  let ?x = "new_secret_row u now (i, n, path) name b"
  let ?g = "\<lambda>r. r\<lparr>rv_value_encrypted := b, rv_updated_at := Some now\<rparr>"
  obtain y where "sql_upsert secret_values secret_values_update secret_value_constraints
      (is_secret (i, n, path) name) ?x ?g s = (Inr y, t)"
    using run by (auto simp: set_secret_run [OF b(1)] UpsertRepoSecretValue_def no_result_def andthen_Inr)
  then show ?thesis
  proof (cases rule: secrets.upsert_cases)
    case (unchanged e)
    then show ?thesis by simp
  next
    case inserted
    then have "has_secret (i, n, path) name ?x (secret_values t)"
      by (simp add: has_secret_def find_append is_secret_def)
    moreover have "text_ok path" using inserted(2) by (auto simp: secret_checked secret_value_error_def new_secret_row_def split: if_splits)
    ultimately show ?thesis using b(2) by (intro exI [of _ ?x]) (simp add: new_secret_row_def)
  next
    case (updated r)
    then have "is_secret (i, n, path) name r" by (auto dest: find_SomeD)
    then have "is_secret (i, n, path) name (?g r)" by (simp add: is_secret_def)
    then have "has_secret (i, n, path) name (?g r) (secret_values t)"
      using updated by (simp add: has_secret_def find_replace_same)
    moreover have "text_ok path"
      using updated(2) by (auto simp: secret_value_constraints_def secret_value_error_def new_secret_row_def split: if_splits)
    ultimately show ?thesis using b(2) by (intro exI [of _ "?g r"]) simp
  qed
qed

end
