(* ===== verification/Boot_Spec.thy ===== *)
theory Boot_Spec
  imports Boot_Laws
begin

text \<open>
  What a write of a spec leaves in its row: the parameters pass the constraints and read back, and the
  row of another repository or path stays as it is.
\<close>

section \<open>Specs that can be stored\<close>

definition nul_free :: "string \<Rightarrow> bool" where
  "nul_free s \<longleftrightarrow> CHR 0x00 \<notin> set s"

definition service_fits :: "boot_service \<Rightarrow> bool" where
  "service_fits v \<longleftrightarrow> list_all text_ok [bsv_Name v, bsv_URL v, bsv_Kind v] \<and> is_int64 (bsv_Port v)"

definition secret_fits :: "boot_secret \<Rightarrow> bool" where
  "secret_fits c \<longleftrightarrow> list_all text_ok [bsc_Name c, bsc_Hint c]"

definition capability_fits :: "validation_capability \<Rightarrow> bool" where
  "capability_fits c \<longleftrightarrow> capability_ok c \<and> jsonb_ok (capability_json c)"

text \<open>The texts a spec keeps in TEXT columns, beside its path.\<close>

definition spec_texts :: "boot_spec \<Rightarrow> string list" where
  "spec_texts p = [bs_Kind p, bs_SetupScript p, bs_StartScript p, bs_HealthCheck p, bs_StopScript p, bs_LessonsMD p,
     bs_SourceFingerprint p, bs_BootstrapLog p]"

definition storable :: "boot_spec \<Rightarrow> bool" where
  "storable p \<longleftrightarrow> text_ok (bs_Path p) \<and> list_all nul_free (spec_texts p) \<and> list_all service_fits (bs_Services p) \<and>
     list_all secret_fits (bs_RequiredSecrets p) \<and> list_all text_ok (bs_DeferredCapabilities p) \<and>
     list_all text_ok (bs_SuggestedRepoChanges p) \<and> capability_fits (bs_ValidationCapability p) \<and>
     list_all int4 [bs_SpecVersion p, bs_BootstrapGeneration p, bs_SuccessCount p, bs_FailureCount p] \<and>
     bs_ValidationStatus p \<in> set validation_statuses"

definition stored_form :: "boot_spec \<Rightarrow> boot_spec" where
  "stored_form p = p\<lparr>bs_BootstrapGeneration := bootstrapGenerationForSave (bs_BootstrapGeneration p),
     bs_Kind := postgresText (bs_Kind p), bs_SetupScript := postgresText (bs_SetupScript p),
     bs_StartScript := postgresText (bs_StartScript p), bs_HealthCheck := postgresText (bs_HealthCheck p),
     bs_StopScript := postgresText (bs_StopScript p), bs_LessonsMD := postgresText (bs_LessonsMD p),
     bs_SourceFingerprint := postgresText (bs_SourceFingerprint p), bs_BootstrapLog := postgresText (bs_BootstrapLog p)\<rparr>"

lemma to_valid_nul: "nul_free s \<Longrightarrow> nul_free (to_valid b s)"
proof (induction b s rule: to_valid.induct)
  case (2 b c s)
  show ?case
  proof (cases "rune_width (c # s) = 0")
    case True
    moreover have "nul_free replacement" by code_simp
    ultimately show ?thesis using 2(1) [OF refl True] 2(3) by (auto simp: to_valid.simps(2) nul_free_def)
  next
    case False
    have sub: "set (take w (c # s)) \<subseteq> set (c # s)" "set (drop w (c # s)) \<subseteq> set (c # s)" for w
      by (rule set_take_subset, rule set_drop_subset)
    have "nul_free (drop (rune_width (c # s)) (c # s))" using 2(3) sub(2) unfolding nul_free_def by blast
    from 2(2) [OF refl False this] show ?thesis
      using False 2(3) sub(1) unfolding to_valid.simps(2) Let_def nul_free_def set_append if_not_P [OF False] by blast
  qed
qed (simp add: nul_free_def)

lemma text_ok_postgres [simp]: "nul_free s \<Longrightarrow> text_ok (postgresText s)"
  using to_valid_nul [of s False] by (simp add: text_ok_def nul_free_def postgresText_def ToValidUTF8_def to_valid_valid)

lemma text_ok_valid: "text_ok s \<Longrightarrow> valid_utf8 s"
  by (simp add: text_ok_def)

lemma postgresText_ok [simp]: "text_ok s \<Longrightarrow> postgresText s = s"
  by (simp add: text_ok_def)

lemma postgresText_empty [simp]: "postgresText [] = []"
  by (simp add: postgresText_def ToValidUTF8_def)

lemma optional_text_read: "(case optional_text s of None \<Rightarrow> [] | Some v \<Rightarrow> v) = postgresText s"
  by (simp add: optional_text_def)

lemma status_text [simp]: "v \<in> set validation_statuses \<Longrightarrow> text_ok v"
  by (auto simp: validation_statuses_def text_ok_def ascii_valid between_def)

lemma marshal_ok [simp]: "text_ok s \<Longrightarrow> jsonb_ok (marshal_string s)"
  by (simp add: marshal_string_def text_ok_def)

lemma key_ok:
  "text_ok ''name''" "text_ok ''port''" "text_ok ''url''" "text_ok ''kind''" "text_ok ''user_supplied''" "text_ok ''hint''"
  by (simp_all add: text_ok_def ascii_valid between_def)

lemma fits_ok:
  "service_fits v \<Longrightarrow> jsonb_ok (service_json v)" "secret_fits c \<Longrightarrow> jsonb_ok (secret_json c)"
  "list_all text_ok ts \<Longrightarrow> jsonb_ok (marshal_strings ts)"
  by (simp_all add: service_fits_def service_json_def secret_fits_def secret_json_def omit_text_def marshal_strings_def
      key_ok list_all_iff)

lemma fits_read:
  "list_all service_fits vs \<Longrightarrow> json_list service_read (JArr (map service_json vs)) = Inr vs"
  "list_all secret_fits cs \<Longrightarrow> json_list secret_read (JArr (map secret_json cs)) = Inr cs"
  "list_all text_ok ts \<Longrightarrow> read_strings (marshal_strings ts) = Inr ts"
  by (rule json_list_read, rule service_roundtrip, simp add: list_all_iff service_fits_def service_ok_def text_ok_def)
    (rule json_list_read, rule secret_roundtrip, simp add: list_all_iff secret_fits_def secret_ok_def text_ok_def,
      rule strings_read, simp add: list_all_iff text_ok_def)

text \<open>The parameters of a spec that can be stored are a legal row, and read back.\<close>

definition row_of ::
  "boot_spec \<Rightarrow> string \<Rightarrow> timestamptz \<Rightarrow> int \<Rightarrow> int \<Rightarrow> timestamptz \<Rightarrow> timestamptz \<Rightarrow> setup_spec_row" where
  "row_of p i lv a b created updated = (spec_params p lv)\<lparr>rs_id := i, rs_success_count := a, rs_failure_count := b,
     rs_created_at := created, rs_updated_at := updated\<rparr>"

lemma inserted_spec_row:
  "(spec_params p lv)\<lparr>rs_id := i, rs_created_at := c, rs_updated_at := d\<rparr> = row_of p i lv (bs_SuccessCount p) (bs_FailureCount p) c d"
  "(spec_params p lv)\<lparr>rs_id := i, rs_last_validated_at := None, rs_success_count := 0, rs_failure_count := 1,
     rs_created_at := c, rs_updated_at := d\<rparr> = row_of p i None 0 1 c d"
  by (simp_all add: row_of_def spec_params_def)

lemma excluded_row:
  assumes "spec_key r = spec_key (spec_params p lv)"
  shows "(excluded (spec_params p lv) r)\<lparr>rs_last_validated_at := l, rs_success_count := a, rs_failure_count := b,
      rs_updated_at := d\<rparr> = row_of p (rs_id r) l a b (rs_created_at r) d"
    and "(excluded (spec_params p lv) r)\<lparr>rs_failure_count := b, rs_updated_at := d\<rparr> =
      row_of p (rs_id r) (rs_last_validated_at r) (rs_success_count r) b (rs_created_at r) d"
  using assms by (cases r; simp add: excluded_def row_of_def spec_params_def spec_key_def)+

lemma row_of_key: "spec_key (row_of p i lv a b c d) = (bs_InstallationID p, bs_RepoID p, postgresText (bs_Path p))"
  by (simp add: row_of_def spec_params_def spec_key_def)

lemma optional_text_ok: "nul_free s \<Longrightarrow> optional_text s \<noteq> None \<Longrightarrow> text_ok (the (optional_text s))"
  by (simp add: optional_text_def split: if_splits)

lemma generation_int4: "int4 g \<Longrightarrow> int4 (bootstrapGenerationForSave g)"
  by (simp add: bootstrapGenerationForSave_def CurrentBootstrapGeneration_def int4_def)

lemma row_of_legal:
  assumes "storable p" and "int4 a" and "int4 b"
  shows "setup_spec_error (row_of p i lv a b c d) = None"
  using assms
  by (simp add: setup_spec_error_def row_of_def spec_params_def storable_def spec_texts_def optional_text_ok fits_ok
      list_all_iff capability_fits_def generation_int4)

lemma row_of_reads:
  assumes "storable p"
  shows "rowToSpec (row_of p i lv a b c d) = Inr ((stored_form p)\<lparr>bs_SuccessCount := a, bs_FailureCount := b\<rparr>)"
  using assms
  by (simp add: rowToSpec_def row_of_def spec_params_def storable_def fits_read capability_fits_def capability_roundtrip
      stored_form_def optional_text_read del: json_list.simps)

section \<open>Saving\<close>

lemma spec_row_check: "row_check setup_spec_constraints = setup_spec_error"
  by (simp add: setup_spec_constraints_def)

definition spec_at :: "'w boot_db \<Rightarrow> boot_key \<Rightarrow> setup_spec_row option" where
  "spec_at s k = find (is_spec k) (setup_specs s)"

text \<open>What a lookup answers, which leaves the state alone.\<close>

definition found_spec :: "setup_spec_row option \<Rightarrow> go_error + boot_spec" where
  "found_spec r = (case r of None \<Rightarrow> Inl BootErrNotFound | Some row \<Rightarrow> rowToSpec row)"

lemma GetSpec_answers:
  "text_ok path \<Longrightarrow> boot_GetSpec i n path s = (found_spec (spec_at s (i, n, path)), s)"
  by (simp add: boot_GetSpec_def attempt_def GetRepoSetupSpec_def with_texts_def sql_get_def found_spec_def spec_at_def
      split: option.splits)

text \<open>An upsert of a legal row: what is found afterwards under its key, and that nothing else changed.\<close>

definition only_spec_changed :: "boot_key \<Rightarrow> setup_spec_row \<Rightarrow> 'w boot_db \<Rightarrow> 'w boot_db \<Rightarrow> bool" where
  "only_spec_changed k y s t \<longleftrightarrow> spec_at t k = Some y \<and> (\<forall>k'. k' \<noteq> k \<longrightarrow> spec_at t k' = spec_at s k') \<and>
     secret_values t = secret_values s \<and> boot_notices t = boot_notices s \<and> boot_sandbox t = boot_sandbox s"

lemma upsert_spec_runs:
  assumes x: "spec_key x = k" "setup_spec_error x = None"
    and g: "\<And>r. spec_at s k = Some r \<Longrightarrow> spec_key (g r) = k \<and> setup_spec_error (g r) = None"
  obtains t y where "sql_upsert setup_specs setup_specs_update setup_spec_constraints (is_spec k) x g s = (Inr y, t)"
    and "y = (case spec_at s k of None \<Rightarrow> x | Some r \<Rightarrow> g r)" and "only_spec_changed k y s t"
proof (cases "find (is_spec k) (setup_specs s)")
  case None
  let ?t = "setup_specs_update (\<lambda>l. l @ [x]) s"
  have run: "sql_upsert setup_specs setup_specs_update setup_spec_constraints (is_spec k) x g s = (Inr x, ?t)"
    by (rule upsert_inserts [where tab = setup_specs and s = s, OF None]) (simp add: spec_checked x(2))
  have "only_spec_changed k x s ?t"
    using None x(1) by (auto simp: only_spec_changed_def spec_at_def find_append is_spec_def split: option.splits)
  with run None show thesis by (intro that [of x ?t]) (simp_all add: spec_at_def)
next
  case (Some r)
  have gr: "spec_key (g r) = k" "setup_spec_error (g r) = None" using g [of r] Some by (simp_all add: spec_at_def)
  let ?t = "setup_specs_update (replace_rows (is_spec k) (g r)) s"
  have run: "sql_upsert setup_specs setup_specs_update setup_spec_constraints (is_spec k) x g s = (Inr (g r), ?t)"
    by (rule upsert_updates [where tab = setup_specs and s = s and r = r, OF Some])
      (simp_all add: spec_checked x(2) gr spec_row_check)
  have "find (is_spec k') (replace_rows (is_spec k) (g r) (setup_specs s)) = find (is_spec k') (setup_specs s)"
    if "k' \<noteq> k" for k' using that gr(1) by (intro find_replace_other) (auto simp: is_spec_def)
  with Some gr(1) have "only_spec_changed k (g r) s ?t"
    by (simp add: only_spec_changed_def spec_at_def find_replace_same is_spec_def)
  with run Some show thesis by (intro that [of "g r" ?t]) (simp_all add: spec_at_def)
qed

lemma spec_at_key: "spec_at s k = Some r \<Longrightarrow> spec_key r = k"
  by (auto simp: spec_at_def is_spec_def dest: find_SomeD)

text \<open>When a saved spec counts as validated.\<close>

definition validated_stamp :: "go_time \<Rightarrow> boot_spec \<Rightarrow> timestamptz" where
  "validated_stamp clock p =
     (if bs_ValidationStatus p = StatusValidated \<or> bs_ValidationStatus p = StatusPartial then Some clock else None)"

definition key_of :: "boot_spec \<Rightarrow> boot_key" where
  "key_of p = (bs_InstallationID p, bs_RepoID p, bs_Path p)"

lemma params_key: "text_ok (bs_Path p) \<Longrightarrow> spec_key (spec_params p lv) = key_of p"
  by (simp add: spec_key_def spec_params_def key_of_def)

lemma row_key: "text_ok (bs_Path p) \<Longrightarrow> spec_key (row_of p i lv a b c d) = key_of p"
  by (simp add: row_of_key key_of_def)

lemma saved_row:
  assumes st: "storable p"
  obtains t i created where "boot_SaveSpec u clock now p s = (Inr (), t)"
    "only_spec_changed (key_of p) (row_of p i (validated_stamp clock p) (bs_SuccessCount p) (bs_FailureCount p)
      created (Some now)) s t"
proof -
  define lv where "lv = validated_stamp clock p"
  have path: "text_ok (bs_Path p)" and ints: "int4 (bs_SuccessCount p)" "int4 (bs_FailureCount p)"
    using st by (simp_all add: storable_def)
  let ?x = "row_of p u lv (bs_SuccessCount p) (bs_FailureCount p) (Some now) (Some now)"
  let ?g = "\<lambda>r. (excluded (spec_params p lv) r)\<lparr>rs_last_validated_at := rs_last_validated_at (spec_params p lv),
      rs_success_count := rs_success_count (spec_params p lv), rs_failure_count := rs_failure_count (spec_params p lv),
      rs_updated_at := Some now\<rparr>"
  have g: "?g r = row_of p (rs_id r) lv (bs_SuccessCount p) (bs_FailureCount p) (rs_created_at r) (Some now)"
    if "spec_at s (key_of p) = Some r" for r
    using excluded_row(1) [of r p lv] spec_at_key [OF that] params_key [OF path, of lv] by (simp add: spec_params_def)
  have q: "UpsertRepoSetupSpec u now (spec_params p lv) =
      sql_upsert setup_specs setup_specs_update setup_spec_constraints (is_spec (key_of p)) ?x ?g"
    by (simp only: UpsertRepoSetupSpec_def params_key [OF path] inserted_spec_row(1))
  have gk: "spec_key (?g r) = key_of p \<and> setup_spec_error (?g r) = None" if "spec_at s (key_of p) = Some r" for r
    by (simp only: g [OF that] row_key [OF path] row_of_legal [OF st ints])
  obtain t y where run: "UpsertRepoSetupSpec u now (spec_params p lv) s = (Inr y, t)"
    and y: "y = (case spec_at s (key_of p) of None \<Rightarrow> ?x | Some r \<Rightarrow> ?g r)" and only: "only_spec_changed (key_of p) y s t"
    unfolding q by (rule upsert_spec_runs [where s = s and g = ?g, OF row_key [OF path] row_of_legal [OF st ints] gk])
  have "boot_SaveSpec u clock now p s = (Inr (), t)"
    unfolding boot_SaveSpec_def Let_def validated_stamp_def [symmetric] lv_def [symmetric]
    by (simp add: no_result_def wrap_err_def andthen_def run)
  moreover have "\<exists>i c. y = row_of p i lv (bs_SuccessCount p) (bs_FailureCount p) c (Some now)"
    using y g by (auto split: option.splits)
  ultimately show thesis using that only unfolding lv_def by blast
qed

lemma failing_saved_row:
  assumes st: "storable p" and status: "bs_ValidationStatus p = StatusFailing"
    and n: "n = (case spec_at s (key_of p) of None \<Rightarrow> 1 | Some r \<Rightarrow> rs_failure_count r + 1)" "int4 n"
    and m: "m = (case spec_at s (key_of p) of None \<Rightarrow> 0 | Some r \<Rightarrow> rs_success_count r)" "int4 m"
  obtains t i lv created where "boot_SaveFailingSpec u now p s = (Inr (), t)"
    "only_spec_changed (key_of p) (row_of p i lv m n created (Some now)) s t"
proof -
  have path: "text_ok (bs_Path p)" using st by (simp add: storable_def)
  let ?x = "row_of p u None 0 1 (Some now) (Some now)"
  let ?g = "\<lambda>r. (excluded (spec_params p None) r)\<lparr>rs_failure_count := rs_failure_count r + 1, rs_updated_at := Some now\<rparr>"
  have g: "?g r = row_of p (rs_id r) (rs_last_validated_at r) m n (rs_created_at r) (Some now)"
    if "spec_at s (key_of p) = Some r" for r
    using excluded_row(2) [of r p None] spec_at_key [OF that] params_key [OF path, of None] that n(1) m(1) by simp
  have q: "UpsertFailingRepoSetupSpec u now (spec_params p None) =
      sql_upsert setup_specs setup_specs_update setup_spec_constraints (is_spec (key_of p)) ?x ?g"
    by (simp only: UpsertFailingRepoSetupSpec_def params_key [OF path] inserted_spec_row(2))
  have "int4 0" "int4 1" by (simp_all add: int4_def)
  note legal = row_of_legal [OF st this]
  have gk: "spec_key (?g r) = key_of p \<and> setup_spec_error (?g r) = None" if "spec_at s (key_of p) = Some r" for r
    by (simp only: g [OF that] row_key [OF path] row_of_legal [OF st m(2) n(2)])
  obtain t y where run: "UpsertFailingRepoSetupSpec u now (spec_params p None) s = (Inr y, t)"
    and y: "y = (case spec_at s (key_of p) of None \<Rightarrow> ?x | Some r \<Rightarrow> ?g r)" and only: "only_spec_changed (key_of p) y s t"
    unfolding q by (rule upsert_spec_runs [where s = s and g = ?g, OF row_key [OF path] legal gk])
  have "boot_SaveFailingSpec u now p s = (Inr (), t)"
    using status by (simp add: boot_SaveFailingSpec_def no_result_def wrap_err_def andthen_def run)
  moreover have "\<exists>i lv c. y = row_of p i lv m n c (Some now)"
    using y g n(1) m(1) by (auto split: option.splits)
  ultimately show thesis using that only by blast
qed

section \<open>Status updates\<close>

lemma find_update_all:
  assumes "\<And>r. key (f r) = key r"
  shows "find (\<lambda>r. key r = k') (map (\<lambda>r. if key r = k then f r else r) t) =
    (if k' = k then map_option f (find (\<lambda>r. key r = k) t) else find (\<lambda>r. key r = k') t)"
  using assms by (induction t) auto

lemma status_updated:
  assumes ok: "boot_ok s" and k: "text_ok path" and st: "st \<in> set validation_statuses" and ints: "int4 a" "int4 b"
  obtains t where "boot_MarkApplied clock now i n path st a b s = (Inr (), t)"
    and "\<And>k'. spec_at t k' = (if k' = (i, n, path) then map_option (\<lambda>r. r\<lparr>rs_validation_status := st,
        rs_last_validated_at := Some clock, rs_success_count := a, rs_failure_count := b, rs_updated_at := Some now\<rparr>)
        (spec_at s k') else spec_at s k')"
    and "secret_values t = secret_values s" "boot_notices t = boot_notices s" "boot_sandbox t = boot_sandbox s"
proof -
  let ?k = "(i, n, path)"
  let ?f = "\<lambda>r. r\<lparr>rs_validation_status := st, rs_last_validated_at := Some clock, rs_success_count := a,
      rs_failure_count := b, rs_updated_at := Some now\<rparr>"
  let ?t = "setup_specs_update (map (\<lambda>r. if is_spec ?k r then ?f r else r)) s"
  have "setup_spec_error (?f r) = None" if "r \<in> set (setup_specs s)" for r
  proof -
    have "setup_spec_error r = None" using ok that by (simp add: boot_ok_def table_inv_def)
    then show ?thesis using st ints by (auto simp: setup_spec_error_def split: if_splits)
  qed
  then have none: "find (\<lambda>r. is_spec ?k r \<and> check_row setup_spec_constraints s (?f r) \<noteq> None) (setup_specs s) = None"
    by (auto simp: find_None_iff spec_checked)
  have run: "boot_MarkApplied clock now i n path st a b s = (Inr (), ?t)"
    using k st none by (simp add: boot_MarkApplied_def UpdateRepoSetupSpecStatus_def with_texts_def no_result_def
        sql_update_all_def wrap_err_def andthen_def)
  have "spec_at ?t k' = (if k' = ?k then map_option ?f (spec_at s k') else spec_at s k')" for k'
    using find_update_all [of spec_key ?f k' ?k "setup_specs s"] by (simp add: spec_at_def spec_sel)
  with run show thesis by (intro that [of ?t]) simp_all
qed

section \<open>Deleting\<close>

lemma deleted_spec:
  assumes "text_ok path"
  obtains t where "boot_DeleteSpec i n path s = (Inr (), t)" and "spec_at t (i, n, path) = None"
    and "\<And>k. k \<noteq> (i, n, path) \<Longrightarrow> spec_at t k = spec_at s k" and "secret_values t = secret_values s"
    and "boot_notices t = boot_notices s" "boot_sandbox t = boot_sandbox s"
proof -
  let ?t = "setup_specs_update (filter (\<lambda>r. \<not> is_spec (i, n, path) r)) s"
  have run: "boot_DeleteSpec i n path s = (Inr (), ?t)"
    using assms by (simp add: boot_DeleteSpec_def DeleteRepoSetupSpec_def with_texts_def no_result_def sql_delete_def
        wrap_err_def andthen_def)
  have "spec_at ?t (i, n, path) = None" by (simp add: spec_at_def find_filter_same)
  moreover have "spec_at ?t k = spec_at s k" if "k \<noteq> (i, n, path)" for k
    using that by (simp add: spec_at_def) (rule find_filter_not, simp add: is_spec_def)
  ultimately show thesis using run by (intro that [of ?t]) simp_all
qed

end
