(* ===== verification/Boot_Healing.thy ===== *)
theory Boot_Healing
  imports Boot_Spec
begin

text \<open>
  What a task makes of a saved spec: when it is used as it is, when it is healed, and what is left of it
  when the bootstrap fails.
\<close>

section \<open>Decisions\<close>

lemma refresh_means_heal:
  "shouldRefreshExistingBootstrapSpec (Some p) \<Longrightarrow>
   shouldAutoHealExistingBootstrapSpec stale (NeedsGenerationUpgrade (Some p)) (Some p)"
  by (auto simp: shouldRefreshExistingBootstrapSpec_def shouldAutoHealExistingBootstrapSpec_def split: if_splits)

lemma refresh_never_capped:
  "shouldRefreshExistingBootstrapSpec (Some p) \<Longrightarrow>
   \<not> failingBootstrapAutoHealCapped stale (NeedsGenerationUpgrade (Some p)) (Some p)"
  by (auto simp: shouldRefreshExistingBootstrapSpec_def failingBootstrapAutoHealCapped_def boot_status_defs split: if_splits)

lemma spec_at_other [simp]:
  "spec_at (s\<lparr>boot_sandbox := w\<rparr>) k = spec_at s k" "spec_at (s\<lparr>boot_notices := n\<rparr>) k = spec_at s k"
  by (simp_all add: spec_at_def)

definition repo_key :: "repo_ctx \<Rightarrow> boot_key" where
  "repo_key repo = (rc_InstallID repo, rc_RepoID repo, [])"

lemma empty_ok [simp]: "text_ok []"
  by (simp add: text_ok_def)

lemma GetSpec_repo: "boot_GetSpec (rc_InstallID repo) (rc_RepoID repo) [] s = (found_spec (spec_at s (repo_key repo)), s)"
  by (simp add: GetSpec_answers repo_key_def)

text \<open>A spec that needs no refresh is handed out as it is; a note says when healing was given up.\<close>

lemma ensure_reuses:
  assumes "found_spec (spec_at s (repo_key repo)) = Inr p" and "\<not> shouldRefreshExistingBootstrapSpec (Some p)"
  shows "ensureBootstrapSpec en repo rid s =
    (Inr p, if failingBootstrapAutoHealCapped False False (Some p)
      then s\<lparr>boot_notices := boot_notices s @ [(''Bootstrap auto-heal skipped'',
        ''The saved repo setup spec is still failing after '' @ itoa (bs_FailureCount p) @
        '' attempts, so Hetchy will reuse it instead of retrying auto-heal on every run.'')]\<rparr> else s)"
  using assms
  by (simp add: ensureBootstrapSpec_def attempt_def GetSpec_repo andthen_def notifyBootstrapAutoHealCapped_def boot_notify_def)

section \<open>A bootstrap that fails\<close>

definition manifest_fits :: "boot_manifest \<Rightarrow> bool" where
  "manifest_fits m \<longleftrightarrow> nul_free (mf_Kind m) \<and> list_all secret_fits (mf_RequiredSecrets m) \<and>
     list_all text_ok (mf_DeferredCapabilities m) \<and> capability_fits (mf_ValidationCapability m)"

text \<open>
  The sandbox works, but the script of the bootstrap ends with an error; what it printed and wrote has no
  zero bytes, and a manifest that parses can be stored.
\<close>

definition stumbles :: "'w boot_env \<Rightarrow> bool" where
  "stumbles en \<longleftrightarrow>
     (\<forall>i w. \<exists>w'. en_CreateSession en i w = (Inr (), w')) \<and> (\<forall>i w. \<exists>w'. en_SetupClone en i w = (Inr (), w')) \<and>
     (\<forall>i w. \<exists>h w'. en_Detect en i w = (Inr h, w')) \<and>
     (\<forall>i f d w. \<exists>w'. br_WriteFile (en_Runner en i) f d w = (Inr (), w')) \<and>
     (\<forall>i l sc ev w. \<exists>lg e w'. br_Run (en_Runner en i) l sc ev w = ((lg, Some e), w') \<and> nul_free lg) \<and>
     (\<forall>i f w data w'. br_ReadFile (en_Runner en i) f w = (Inr data, w') \<longrightarrow>
        nul_free data \<and> (\<forall>m. ParseManifest data = Inr m \<longrightarrow> manifest_fits m))"

definition result_fits :: "loop_result \<Rightarrow> bool" where
  "result_fits r \<longleftrightarrow> nul_free (lr_Log r) \<and> (\<forall>m. lr_Manifest r = Some m \<longrightarrow> manifest_fits m) \<and>
     (let q = lr_PartialScripts r in list_all nul_free [pt_Setup q, pt_Start q, pt_Stop q, pt_Health q, pt_Lessons q])"

lemma nul_free_parts: "nul_free s \<Longrightarrow> nul_free (drop n s)" "nul_free s \<Longrightarrow> nul_free (dropWhile P s)"
  unfolding nul_free_def by (meson in_set_dropD, meson set_dropWhileD)

lemma log_tail_nul: "nul_free lg \<Longrightarrow> nul_free (truncateLogTail lg)"
  using to_valid_nul [of lg False] nul_free_parts
  by (auto simp: truncateLogTail_def Let_def ToValidUTF8_def) (auto simp: nul_free_def newline_def dest!: set_dropWhileD in_set_dropD)

lemma hex_nul: "nul_free (hex_encode bs)"
proof -
  have "hex_digit n \<in> set ''0123456789abcdef''" for n
    unfolding hex_digit_def by (rule nth_mem) simp
  moreover have "CHR 0x00 \<notin> set ''0123456789abcdef''" by simp
  ultimately have d: "CHR 0x00 \<noteq> hex_digit n" for n by metis
  show ?thesis using d by (simp add: hex_encode_def nul_free_def del: hex_digit_def)
qed

lemma fingerprint_nul: "nul_free (Fingerprint lib h)"
  by (simp add: Fingerprint_def hex_nul nul_free_def split: option.splits) (use hex_nul in \<open>simp add: nul_free_def\<close>)

lemma zero_fits: "manifest_fits zero_manifest"
  by (simp add: manifest_fits_def zero_manifest_def nul_free_def capability_fits_def capability_ok_def zero_capability_def
      capability_json_def omit_bool_def omit_text_def omit_texts_def)

lemma failing_spec_storable: "result_fits r \<Longrightarrow> storable (failing_spec en r repo h)"
  using zero_fits
  by (auto simp: storable_def failing_spec_def result_fits_def Let_def spec_texts_def manifest_fits_def log_tail_nul fingerprint_nul
      int4_def CurrentBootstrapGeneration_def validation_statuses_def StatusFailing_def split: option.splits)

text \<open>A bootstrap that leaves no file at all.\<close>

definition leaves_nothing :: "'w boot_env \<Rightarrow> bool" where
  "leaves_nothing en \<longleftrightarrow> (\<forall>i f w. \<exists>e w'. br_ReadFile (en_Runner en i) f w = (Inl e, w'))"

lemma best_effort_fits:
  assumes st: "stumbles en" and "nul_free lg"
  shows "\<exists>r w'. loop_failed (en_Runner en i) lg e w = ((Some r, Some (Joined ErrLoopFailed e)), w') \<and> result_fits r \<and>
    (leaves_nothing en \<longrightarrow> lr_PartialScripts r = no_scripts)"
proof -
  have rd: "nul_free (fst (read_or_empty (en_Runner en i) d f v))" for d f v
  proof (cases "br_ReadFile (en_Runner en i) (d @ ''/'' @ f) v")
    case (Pair r v')
    show ?thesis
    proof (cases r)
      case (Inr data)
      then have "nul_free data" using st Pair unfolding stumbles_def by blast
      then show ?thesis using Pair Inr by (simp add: read_or_empty_def)
    qed (use Pair in \<open>simp add: read_or_empty_def nul_free_def\<close>)
  qed
  have mf: "manifest_fits m" if "fst (br_ReadFile (en_Runner en i) f v) = Inr data" "ParseManifest data = Inr m" for f v data m
    using st that unfolding stumbles_def by (metis prod.collapse)
  have none: "fst (read_or_empty (en_Runner en i) d f v) = []" if "leaves_nothing en" for d f v
    using that [unfolded leaves_nothing_def, rule_format, of i "d @ ''/'' @ f" v] by (auto simp: read_or_empty_def)
  show ?thesis
    using rd mf none assms(2)
    by (auto simp: loop_failed_def readArtifactsBestEffort_def Let_def result_fits_def split_beta no_scripts_def
        split: prod.splits sum.splits)
qed

lemma run_stumbles:
  assumes st: "stumbles en" and "li_Hints inp = Some h" and "li_RepoDir inp \<noteq> []"
  shows "\<exists>r e w'. boot_Run lib (Some (en_Runner en i)) inp w = ((Some r, Some (Joined ErrLoopFailed e)), w') \<and>
    result_fits r \<and> (leaves_nothing en \<longrightarrow> lr_PartialScripts r = no_scripts)"
proof -
  let ?prompt = "bl_BuildPrompt lib h \<lparr>pa_OwnerRepo = li_OwnerRepo inp, pa_Path = li_Path inp,
      pa_SuppliedSecrets = sortedNames (li_SuppliedSecrets inp), pa_Preamble = li_Preamble inp\<rparr>"
  obtain w1 where 1: "br_WriteFile (en_Runner en i) bootstrapPromptFile ?prompt w = (Inr (), w1)"
    using st unfolding stumbles_def by meson
  obtain lg e w2 where 2: "br_Run (en_Runner en i) ''bootstrap'' (bl_Script lib) (loop_env inp) w1 = ((lg, Some e), w2)" "nul_free lg"
    using st unfolding stumbles_def by meson
  show ?thesis using best_effort_fits [OF st 2(2), of i e w2] assms(2,3) 1 2(1)
    by (simp add: boot_Run_def Let_def) blast
qed

lemma heal_stumbles:
  assumes "stumbles en" and "hi_PriorSpec inp = Some p" and "hi_Hints inp = Some h" and "hi_RepoDir inp \<noteq> []"
  shows "\<exists>r e w'. AutoHeal lib (Some (en_Runner en i)) inp w = ((Some r, Some (Joined ErrLoopFailed e)), w') \<and>
    result_fits r \<and> (leaves_nothing en \<longrightarrow> lr_PartialScripts r = no_scripts)"
  using run_stumbles [OF assms(1), of "\<lparr>li_OwnerRepo = hi_OwnerRepo inp, li_Path = hi_Path inp, li_Hints = hi_Hints inp,
      li_SuppliedSecrets = hi_SuppliedSecrets inp, li_RepoDir = hi_RepoDir inp,
      li_Preamble = AutoHealPromptPreamble (hi_PriorSpec inp) (hi_FailureLog inp)\<rparr>" h lib i w] assms(2-4)
  by (auto simp: AutoHeal_def)

text \<open>What is stored of it.\<close>

lemma failing_spec_key: "key_of (failing_spec en r repo h) = repo_key repo"
  by (simp add: key_of_def failing_spec_def repo_key_def Let_def)

text \<open>The row of a repository as its failures are counted.\<close>

definition failures_at :: "'w boot_db \<Rightarrow> repo_ctx \<Rightarrow> int" where
  "failures_at s repo = (case spec_at s (repo_key repo) of None \<Rightarrow> 0 | Some r \<Rightarrow> rs_failure_count r)"

definition successes_at :: "'w boot_db \<Rightarrow> repo_ctx \<Rightarrow> int" where
  "successes_at s repo = (case spec_at s (repo_key repo) of None \<Rightarrow> 0 | Some r \<Rightarrow> rs_success_count r)"

lemma persisted:
  assumes "result_fits r" and "int4 (failures_at s repo + 1)" and "int4 (successes_at s repo)"
  obtains t i lv created where
    "persist_failure en repo h (Some r) (Some (Joined ErrLoopFailed e)) s = (Inr (), t)"
    "only_spec_changed (repo_key repo) (row_of (failing_spec en r repo h) i lv (successes_at s repo) (failures_at s repo + 1)
       created (Some (en_Now en))) s t"
proof -
  let ?p = "failing_spec en r repo h"
  have n: "failures_at s repo + 1 = (case spec_at s (key_of ?p) of None \<Rightarrow> 1 | Some r \<Rightarrow> rs_failure_count r + 1)"
    and m: "successes_at s repo = (case spec_at s (key_of ?p) of None \<Rightarrow> 0 | Some r \<Rightarrow> rs_success_count r)"
    by (simp_all add: failures_at_def successes_at_def failing_spec_key split: option.splits)
  have status: "bs_ValidationStatus ?p = StatusFailing" by (simp add: failing_spec_def Let_def)
  obtain t i lv created where "boot_SaveFailingSpec (en_UUID en 0) (en_Now en) ?p s = (Inr (), t)"
    "only_spec_changed (key_of ?p) (row_of ?p i lv (successes_at s repo) (failures_at s repo + 1) created (Some (en_Now en))) s t"
    by (rule failing_saved_row [OF failing_spec_storable [OF assms(1)] status n assms(2) m assms(3)])
  then show thesis
    by (intro that [of t i lv created])
      (simp_all add: persist_failure_def persistFailingBootstrap_def attempt_def failing_spec_key ErrLoopFailed_def)
qed

text \<open>What is left of a task whose bootstrap failed: one more failure, and what the last attempt wrote.\<close>

definition failed_task :: "'w boot_env \<Rightarrow> repo_ctx \<Rightarrow> 'w boot_db \<Rightarrow> 'w boot_db \<Rightarrow> bool" where
  "failed_task en repo s t \<longleftrightarrow>
     (\<exists>r h i lv created. result_fits r \<and> (leaves_nothing en \<longrightarrow> lr_PartialScripts r = no_scripts) \<and>
        spec_at t (repo_key repo) = Some (row_of (failing_spec en r repo h) i lv (successes_at s repo)
          (failures_at s repo + 1) created (Some (en_Now en)))) \<and>
     (\<forall>k. k \<noteq> repo_key repo \<longrightarrow> spec_at t k = spec_at s k) \<and> secret_values t = secret_values s"

lemma failed_taskI:
  assumes "result_fits r" and "leaves_nothing en \<longrightarrow> lr_PartialScripts r = no_scripts"
    and "only_spec_changed (repo_key repo) (row_of (failing_spec en r repo h) i lv (successes_at s' repo)
      (failures_at s' repo + 1) created (Some (en_Now en))) s' t"
    and "setup_specs s' = setup_specs s" "secret_values s' = secret_values s"
    and "spec_at t' = spec_at t" "secret_values t' = secret_values t"
  shows "failed_task en repo s t'"
proof -
  have "spec_at s' = spec_at s" using assms(4) by (intro ext) (simp add: spec_at_def)
  then have "successes_at s' repo = successes_at s repo" "failures_at s' repo = failures_at s repo"
    by (simp_all add: successes_at_def failures_at_def)
  with assms \<open>spec_at s' = spec_at s\<close> show ?thesis
    unfolding failed_task_def only_spec_changed_def
    by (intro conjI) (rule exI [of _ r], rule exI [of _ h], rule exI [of _ i], rule exI [of _ lv], rule exI [of _ created], simp_all)
qed

lemma secrets_answer:
  assumes "decryptable c (secret_values s)"
  shows "\<exists>m. boot_GetSecrets c i n [] s = (Inr m, s)"
proof -
  let ?rows = "sort_key rv_name (filter (\<lambda>r. fst (secret_key r) = (i, n, [])) (secret_values s))"
  obtain m where "decrypt_rows c ?rows [] = Inr m"
    using decrypt_rows_ok [of ?rows c "[]"] assms by (auto simp: decryptable_def)
  then show ?thesis
    by (simp add: boot_GetSecrets_def ListRepoSecretValues_def with_texts_def sql_list_def andthen_def wrap_err_def)
qed

section \<open>Tasks on a sandbox that stumbles\<close>

lemma stumbling_steps:
  assumes "stumbles en"
  obtains cs sc dt dh where
    "\<And>i s. in_boot_sandbox (en_CreateSession en i) s = (Inr (), s\<lparr>boot_sandbox := cs i (boot_sandbox s)\<rparr>)"
    "\<And>i s. in_boot_sandbox (en_SetupClone en i) s = (Inr (), s\<lparr>boot_sandbox := sc i (boot_sandbox s)\<rparr>)"
    "\<And>i s. in_boot_sandbox (en_Detect en i) s = (Inr (dh i (boot_sandbox s)), s\<lparr>boot_sandbox := dt i (boot_sandbox s)\<rparr>)"
proof -
  obtain cs where cs: "\<And>i w. en_CreateSession en i w = (Inr (), cs i w)" using assms unfolding stumbles_def by metis
  obtain sc where sc: "\<And>i w. en_SetupClone en i w = (Inr (), sc i w)" using assms unfolding stumbles_def by metis
  obtain dh dt where dt: "\<And>i w. en_Detect en i w = (Inr (dh i w), dt i w)" using assms unfolding stumbles_def by metis
  show thesis by (rule that [of cs sc dh dt]) (simp_all add: in_boot_sandbox_def cs sc dt)
qed

lemma boot_then_run: "m s = (Inr x, t) \<Longrightarrow> andthen m f s = f x t"
  by (simp add: andthen_def)

lemma boot_then_wrapped: "m s = (Inr x, t) \<Longrightarrow> andthen (wrap_err w m) f s = f x t"
  by (simp add: wrap_err_def andthen_def)

lemma notify_run: "andthen (boot_notify a b) f s = f () (s\<lparr>boot_notices := boot_notices s @ [(a, b)]\<rparr>)"
  by (simp add: andthen_def boot_notify_def)

lemma notify_step: "andthen (boot_notify a b) f s = f () (snd (boot_notify a b s))"
  by (simp add: andthen_def boot_notify_def)

lemma workdir_nonempty [simp]: "repoWorkdir slug \<noteq> []"
  by (simp add: repoWorkdir_def Let_def workdirRoot_def)

lemma loop_then_persist:
  assumes f: "\<exists>r e w'. f (boot_sandbox s4) = ((Some r, Some (Joined ErrLoopFailed e)), w') \<and> result_fits r \<and>
      (leaves_nothing en \<longrightarrow> lr_PartialScripts r = no_scripts)"
    and same: "setup_specs s4 = setup_specs s" "secret_values s4 = secret_values s"
    and ints: "int4 (failures_at s repo + 1)" "int4 (successes_at s repo)"
  shows "\<exists>r e s5 t. in_loop f s4 = (Inr (Some r, Some (Joined ErrLoopFailed e)), s5) \<and>
    persist_failure en repo h (Some r) (Some (Joined ErrLoopFailed e)) s5 = (Inr (), t) \<and>
    (\<forall>t'. setup_specs t' = setup_specs t \<longrightarrow> secret_values t' = secret_values t \<longrightarrow> failed_task en repo s t')"
proof -
  obtain r e w' where run: "f (boot_sandbox s4) = ((Some r, Some (Joined ErrLoopFailed e)), w')" "result_fits r"
    "leaves_nothing en \<longrightarrow> lr_PartialScripts r = no_scripts" using f by blast
  define s5 where "s5 = s4\<lparr>boot_sandbox := w'\<rparr>"
  have loop: "in_loop f s4 = (Inr (Some r, Some (Joined ErrLoopFailed e)), s5)"
    using run(1) by (simp add: in_loop_def in_boot_sandbox_def s5_def)
  have same5: "setup_specs s5 = setup_specs s" "secret_values s5 = secret_values s" using same by (simp_all add: s5_def)
  have "failures_at s5 repo = failures_at s repo" "successes_at s5 repo = successes_at s repo"
    using same5 by (simp_all add: failures_at_def successes_at_def spec_at_def)
  with ints have "int4 (failures_at s5 repo + 1)" "int4 (successes_at s5 repo)" by simp_all
  then obtain t i lv created where saved: "persist_failure en repo h (Some r) (Some (Joined ErrLoopFailed e)) s5 = (Inr (), t)"
    "only_spec_changed (repo_key repo) (row_of (failing_spec en r repo h) i lv (successes_at s5 repo) (failures_at s5 repo + 1)
       created (Some (en_Now en))) s5 t"
    by (rule persisted [OF run(2)])
  have "failed_task en repo s t'" if "setup_specs t' = setup_specs t" "secret_values t' = secret_values t" for t'
    by (rule failed_taskI [OF run(2,3) saved(2) same5]) (simp_all add: fun_eq_iff spec_at_def that)
  with loop saved(1) show ?thesis by blast
qed

lemma refresh_stumbles:
  assumes st: "stumbles en" and dec: "decryptable (en_Cipher en) (secret_values s)"
    and refresh: "shouldRefreshExistingBootstrapSpec (Some p)"
    and ints: "int4 (failures_at s repo + 1)" "int4 (successes_at s repo)"
  shows "\<exists>e t. refreshExistingBootstrapSpec en repo rid p s = (Inl e, t) \<and> failed_task en repo s t"
proof -
  define sess where "sess = ''bootstrap-check-'' @ rid"
  obtain cs sc dt dh where env:
    "\<And>i s. in_boot_sandbox (en_CreateSession en i) s = (Inr (), s\<lparr>boot_sandbox := cs i (boot_sandbox s)\<rparr>)"
    "\<And>i s. in_boot_sandbox (en_SetupClone en i) s = (Inr (), s\<lparr>boot_sandbox := sc i (boot_sandbox s)\<rparr>)"
    "\<And>i s. in_boot_sandbox (en_Detect en i) s = (Inr (dh i (boot_sandbox s)), s\<lparr>boot_sandbox := dt i (boot_sandbox s)\<rparr>)"
    by (rule stumbling_steps [OF st]) blast
  define s1 where "s1 = s\<lparr>boot_sandbox := cs sess (boot_sandbox s)\<rparr>"
  define s2 where "s2 = s1\<lparr>boot_sandbox := sc sess (boot_sandbox s1)\<rparr>"
  define h where "h = dh sess (boot_sandbox s2)"
  define s3 where "s3 = s2\<lparr>boot_sandbox := dt sess (boot_sandbox s2)\<rparr>"
  define nt where "nt = heal_reason p @ ''; regenerating setup/start/health before the agent runs.''"
  define s4 where "s4 = s3\<lparr>boot_notices := boot_notices s3 @ [(''Bootstrap auto-heal'', nt)]\<rparr>"
  have same: "setup_specs s4 = setup_specs s" "secret_values s4 = secret_values s"
    by (simp_all add: s4_def s3_def s2_def s1_def)
  obtain m where m: "boot_GetSecrets (en_Cipher en) (rc_InstallID repo) (rc_RepoID repo) [] s4 = (Inr m, s4)"
    using secrets_answer [of "en_Cipher en" s4] dec same by auto
  define inp where "inp = \<lparr>hi_OwnerRepo = rc_Slug repo, hi_Path = bs_Path p, hi_PriorSpec = Some p,
      hi_FailureLog = heal_failure_log (en_Lib en) h (IsStale (en_Lib en) (Some h) (Some p)) p, hi_Hints = Some h,
      hi_SuppliedSecrets = m, hi_RepoDir = repoWorkdir (rc_Slug repo)\<rparr>"
  have inp: "hi_PriorSpec inp = Some p" "hi_Hints inp = Some h" "hi_RepoDir inp \<noteq> []" by (simp_all add: inp_def)
  have "\<exists>r e w'. AutoHeal (en_Lib en) (Some (en_Runner en sess)) inp (boot_sandbox s4) =
      ((Some r, Some (Joined ErrLoopFailed e)), w') \<and> result_fits r \<and> (leaves_nothing en \<longrightarrow> lr_PartialScripts r = no_scripts)"
    by (rule heal_stumbles [OF st inp])
  from loop_then_persist [where f = "AutoHeal (en_Lib en) (Some (en_Runner en sess)) inp" and h = "Some h", OF this same ints] obtain r e s5 t where
    loop: "in_loop (AutoHeal (en_Lib en) (Some (en_Runner en sess)) inp) s4 = (Inr (Some r, Some (Joined ErrLoopFailed e)), s5)"
    and saved: "persist_failure en repo (Some h) (Some r) (Some (Joined ErrLoopFailed e)) s5 = (Inr (), t)"
    and failed: "\<And>t'. setup_specs t' = setup_specs t \<Longrightarrow> secret_values t' = secret_values t \<Longrightarrow> failed_task en repo s t'"
    by blast
  define t' where "t' = t\<lparr>boot_sandbox := en_DeleteSession en sess (boot_sandbox t)\<rparr>"
  note run1 = boot_then_wrapped [where m = "in_boot_sandbox (en_CreateSession en sess)" and s = s, OF env(1)]
    boot_then_wrapped [where m = "in_boot_sandbox (en_SetupClone en sess)" and s = s1, OF env(2)]
    boot_then_wrapped [where m = "in_boot_sandbox (en_Detect en sess)" and s = s2, OF env(3)]
    boot_then_wrapped [where m = "boot_GetSecrets (en_Cipher en) (rc_InstallID repo) (rc_RepoID repo) []" and s = s4, OF m]
    boot_then_run [where m = "in_loop (AutoHeal (en_Lib en) (Some (en_Runner en sess)) inp)" and s = s4, OF loop]
    boot_then_run [where m = "persist_failure en repo (Some h) (Some r) (Some (Joined ErrLoopFailed e))" and s = s5, OF saved]
  have "refreshExistingBootstrapSpec en repo rid p s = (Inl (Wrapped ''bootstrap.AutoHeal'' (Joined ErrLoopFailed e)), t')"
    unfolding refreshExistingBootstrapSpec_def Let_def sess_def [symmetric] t'_def
    by (simp only: run1 with_session_def s1_def [symmetric] s2_def [symmetric] h_def [symmetric] s3_def [symmetric]
        refresh_means_heal [OF refresh] not_True_eq_False if_False notify_run nt_def [symmetric] s4_def [symmetric]
        inp_def [symmetric] prod.case option.case fail_def)
  moreover have "failed_task en repo s t'"
    by (rule failed) (simp_all add: t'_def)
  ultimately show ?thesis by blast
qed

lemma first_stumbles:
  assumes st: "stumbles en" and dec: "decryptable (en_Cipher en) (secret_values s)"
    and ints: "int4 (failures_at s repo + 1)" "int4 (successes_at s repo)"
  shows "\<exists>e t. firstBootstrap en repo rid s = (Inl e, t) \<and> failed_task en repo s t"
proof -
  define sess where "sess = ''bootstrap-'' @ rid"
  obtain cs sc dt dh where env:
    "\<And>i s. in_boot_sandbox (en_CreateSession en i) s = (Inr (), s\<lparr>boot_sandbox := cs i (boot_sandbox s)\<rparr>)"
    "\<And>i s. in_boot_sandbox (en_SetupClone en i) s = (Inr (), s\<lparr>boot_sandbox := sc i (boot_sandbox s)\<rparr>)"
    "\<And>i s. in_boot_sandbox (en_Detect en i) s = (Inr (dh i (boot_sandbox s)), s\<lparr>boot_sandbox := dt i (boot_sandbox s)\<rparr>)"
    by (rule stumbling_steps [OF st]) blast
  define s1 where "s1 = snd (boot_notify ''First-time bootstrap'' (''`'' @ rc_Slug repo @ ''` is new to Hetchy '' @ em_dash @
        '' figuring out how to run it end-to-end. This one-time analysis uses Opus with high effort, so it adds a few minutes to the first task; subsequent tasks reuse the result.'') s)"
  define s2 where "s2 = s1\<lparr>boot_sandbox := cs sess (boot_sandbox s1)\<rparr>"
  define s3 where "s3 = s2\<lparr>boot_sandbox := sc sess (boot_sandbox s2)\<rparr>"
  define h where "h = dh sess (boot_sandbox s3)"
  define s4 where "s4 = s3\<lparr>boot_sandbox := dt sess (boot_sandbox s3)\<rparr>"
  have same: "setup_specs s4 = setup_specs s" "secret_values s4 = secret_values s"
    by (simp_all add: s4_def s3_def s2_def s1_def boot_notify_def)
  obtain m where m: "boot_GetSecrets (en_Cipher en) (rc_InstallID repo) (rc_RepoID repo) [] s4 = (Inr m, s4)"
    using secrets_answer [of "en_Cipher en" s4] dec same by auto
  define inp where "inp = \<lparr>li_OwnerRepo = rc_Slug repo, li_Path = [], li_Hints = Some h, li_SuppliedSecrets = m,
      li_RepoDir = repoWorkdir (rc_Slug repo), li_Preamble = []\<rparr>"
  have inp: "li_Hints inp = Some h" "li_RepoDir inp \<noteq> []" by (simp_all add: inp_def)
  from loop_then_persist [where f = "boot_Run (en_Lib en) (Some (en_Runner en sess)) inp" and h = "Some h", OF run_stumbles [OF st inp, of "en_Lib en" sess "boot_sandbox s4"] same ints] obtain r e s5 t where
    loop: "in_loop (boot_Run (en_Lib en) (Some (en_Runner en sess)) inp) s4 = (Inr (Some r, Some (Joined ErrLoopFailed e)), s5)"
    and saved: "persist_failure en repo (Some h) (Some r) (Some (Joined ErrLoopFailed e)) s5 = (Inr (), t)"
    and failed: "\<And>t'. setup_specs t' = setup_specs t \<Longrightarrow> secret_values t' = secret_values t \<Longrightarrow> failed_task en repo s t'"
    by blast
  define t' where "t' = t\<lparr>boot_sandbox := en_DeleteSession en sess (boot_sandbox t)\<rparr>"
  note run1 = boot_then_wrapped [where m = "in_boot_sandbox (en_CreateSession en sess)" and s = s1, OF env(1)]
    boot_then_wrapped [where m = "in_boot_sandbox (en_SetupClone en sess)" and s = s2, OF env(2)]
    boot_then_wrapped [where m = "in_boot_sandbox (en_Detect en sess)" and s = s3, OF env(3)]
    boot_then_wrapped [where m = "boot_GetSecrets (en_Cipher en) (rc_InstallID repo) (rc_RepoID repo) []" and s = s4, OF m]
    boot_then_run [where m = "in_loop (boot_Run (en_Lib en) (Some (en_Runner en sess)) inp)" and s = s4, OF loop]
    boot_then_run [where m = "persist_failure en repo (Some h) (Some r) (Some (Joined ErrLoopFailed e))" and s = s5, OF saved]
  have "firstBootstrap en repo rid s = (Inl (Wrapped ''bootstrap.Run'' (Joined ErrLoopFailed e)), t')"
    unfolding firstBootstrap_def Let_def sess_def [symmetric] t'_def
    by (simp only: notify_step s1_def [symmetric] run1 with_session_def s2_def [symmetric] s3_def [symmetric] h_def [symmetric]
        s4_def [symmetric] inp_def [symmetric] prod.case option.case fail_def)
  moreover have "failed_task en repo s t'"
    by (rule failed) (simp_all add: t'_def)
  ultimately show ?thesis by blast
qed

section \<open>What the next task finds\<close>

definition gave_up_on :: "boot_spec \<Rightarrow> bool" where
  "gave_up_on p \<longleftrightarrow> bs_ValidationStatus p = StatusFailing \<and> bs_BootstrapGeneration p = CurrentBootstrapGeneration \<and>
     maxFailingBootstrapAutoHealAttempts \<le> bs_FailureCount p"

lemma no_refresh: "gave_up_on p \<Longrightarrow> \<not> shouldRefreshExistingBootstrapSpec (Some p)"
  "gave_up_on p \<Longrightarrow> failingBootstrapAutoHealCapped False False (Some p)"
  by (simp_all add: gave_up_on_def shouldRefreshExistingBootstrapSpec_def failingBootstrapAutoHealCapped_def
      NeedsGenerationUpgrade_def boot_status_defs)

lemma found_row:
  assumes "found_spec (spec_at s (repo_key repo)) = Inr p"
  shows "failures_at s repo = bs_FailureCount p" and "successes_at s repo = bs_SuccessCount p"
  using assms by (auto simp: found_spec_def failures_at_def successes_at_def rowToSpec_def split: option.splits sum.splits)

lemma failed_reads:
  assumes "failed_task en repo s t"
  shows "\<exists>p. found_spec (spec_at t (repo_key repo)) = Inr p \<and> bs_ValidationStatus p = StatusFailing \<and>
    bs_BootstrapGeneration p = CurrentBootstrapGeneration \<and> bs_SpecVersion p = 1 \<and>
    bs_FailureCount p = failures_at s repo + 1 \<and> bs_SuccessCount p = successes_at s repo \<and>
    (leaves_nothing en \<longrightarrow> [bs_SetupScript p, bs_StartScript p, bs_StopScript p, bs_HealthCheck p, bs_LessonsMD p] =
       [[], [], [], [], []])"
proof -
  obtain r h i lv created where r: "result_fits r" "leaves_nothing en \<longrightarrow> lr_PartialScripts r = no_scripts"
    and row: "spec_at t (repo_key repo) = Some (row_of (failing_spec en r repo h) i lv (successes_at s repo)
      (failures_at s repo + 1) created (Some (en_Now en)))"
    using assms unfolding failed_task_def by blast
  let ?p = "(stored_form (failing_spec en r repo h))\<lparr>bs_SuccessCount := successes_at s repo,
      bs_FailureCount := failures_at s repo + 1\<rparr>"
  have "found_spec (spec_at t (repo_key repo)) = Inr ?p"
    by (simp only: row found_spec_def option.case row_of_reads [OF failing_spec_storable [OF r(1)]])
  moreover have "bs_ValidationStatus ?p = StatusFailing" "bs_BootstrapGeneration ?p = CurrentBootstrapGeneration"
    "bs_SpecVersion ?p = 1"
    by (simp_all add: stored_form_def failing_spec_def Let_def bootstrapGenerationForSave_def CurrentBootstrapGeneration_def)
  moreover have "[bs_SetupScript ?p, bs_StartScript ?p, bs_StopScript ?p, bs_HealthCheck ?p, bs_LessonsMD ?p] = [[], [], [], [], []]"
    if "leaves_nothing en"
    using r(2) that by (simp add: stored_form_def failing_spec_def Let_def no_scripts_def)
  ultimately show ?thesis by (intro exI [of _ ?p]) simp
qed

lemma ensure_capped:
  assumes "found_spec (spec_at s (repo_key repo)) = Inr p" and "gave_up_on p"
  shows "ensureBootstrapSpec en repo rid s = (Inr p, s\<lparr>boot_notices := boot_notices s @ [(''Bootstrap auto-heal skipped'',
    ''The saved repo setup spec is still failing after '' @ itoa (bs_FailureCount p) @
    '' attempts, so Hetchy will reuse it instead of retrying auto-heal on every run.'')]\<rparr>)"
  by (simp only: ensure_reuses [OF assms(1) no_refresh(1) [OF assms(2)]] no_refresh(2) [OF assms(2)] if_True)

lemma ensure_first:
  assumes "stumbles en" and "decryptable (en_Cipher en) (secret_values s)" and none: "spec_at s (repo_key repo) = None"
  shows "\<exists>e t. ensureBootstrapSpec en repo rid s = (Inl e, t) \<and> failed_task en repo s t"
proof -
  have "int4 (failures_at s repo + 1)" "int4 (successes_at s repo)"
    using none by (simp_all add: failures_at_def successes_at_def int4_def)
  from first_stumbles [OF assms(1,2) this] show ?thesis
    using none by (auto simp: ensureBootstrapSpec_def attempt_def GetSpec_repo found_spec_def BootErrNotFound_def)
qed

lemma ensure_again:
  assumes "stumbles en" and "decryptable (en_Cipher en) (secret_values s)"
    and "found_spec (spec_at s (repo_key repo)) = Inr p" and "shouldRefreshExistingBootstrapSpec (Some p)"
    and "int4 (bs_FailureCount p + 1)" "int4 (bs_SuccessCount p)"
  shows "\<exists>t. ensureBootstrapSpec en repo rid s = (Inr p, t) \<and> failed_task en repo s t"
proof -
  obtain e t where run: "refreshExistingBootstrapSpec en repo rid p s = (Inl e, t)" "failed_task en repo s t"
    using refresh_stumbles [OF assms(1,2,4), of repo rid] assms(5,6) found_row [OF assms(3)] by auto
  define t' where "t' = snd (boot_notify ''Bootstrap check skipped''
    ''Hetchy could not refresh the saved repo setup spec before this run, so it will reuse the last saved version.'' t)"
  have "ensureBootstrapSpec en repo rid s = (Inr p, t')"
    using assms(4) by (simp add: ensureBootstrapSpec_def attempt_def GetSpec_repo assms(3) run(1) t'_def andthen_def boot_notify_def)
  moreover have "failed_task en repo s t'"
    using run(2) unfolding failed_task_def by (simp add: t'_def boot_notify_def)
  ultimately show ?thesis by blast
qed

section \<open>One task after another\<close>

fun run_tasks :: "repo_ctx \<Rightarrow> ('w boot_env \<times> string) list \<Rightarrow> 'w boot_db \<Rightarrow> 'w boot_db" where
  "run_tasks repo [] s = s"
| "run_tasks repo ((en, rid) # ts) s = run_tasks repo ts (snd (ensureBootstrapSpec en repo rid s))"

lemma run_tasks_snoc: "run_tasks repo (ts @ [(en, rid)]) s = snd (ensureBootstrapSpec en repo rid (run_tasks repo ts s))"
  by (induction repo ts s rule: run_tasks.induct) simp_all

definition failed_times :: "repo_ctx \<Rightarrow> nat \<Rightarrow> secret_value_row list \<Rightarrow> 'w boot_db \<Rightarrow> bool" where
  "failed_times repo n secrets t \<longleftrightarrow> secret_values t = secrets \<and>
     (if n = 0 then spec_at t (repo_key repo) = None
      else \<exists>p. found_spec (spec_at t (repo_key repo)) = Inr p \<and> bs_ValidationStatus p = StatusFailing \<and>
        bs_BootstrapGeneration p = CurrentBootstrapGeneration \<and> bs_SuccessCount p = 0 \<and> bs_FailureCount p = int (min n 3))"

lemma failed_once_more:
  assumes "failed_task en repo s t" and "failures_at s repo = int n" and "successes_at s repo = 0" and "n < 3"
  shows "failed_times repo (Suc n) (secret_values s) t"
proof -
  from failed_reads [OF assms(1)] assms show ?thesis unfolding failed_times_def failed_task_def by auto
qed

lemma one_task_more:
  assumes st: "stumbles en" and dec: "decryptable (en_Cipher en) secrets" and n: "failed_times repo n secrets s"
  shows "failed_times repo (Suc n) secrets (snd (ensureBootstrapSpec en repo rid s))"
proof -
  have secrets: "secret_values s = secrets" using n by (simp add: failed_times_def)
  with dec have dec': "decryptable (en_Cipher en) (secret_values s)" by simp
  show ?thesis
  proof (cases "n = 0")
    case True
    then have none: "spec_at s (repo_key repo) = None" using n by (simp add: failed_times_def)
    from ensure_first [OF st dec' this, of rid] obtain e t where "ensureBootstrapSpec en repo rid s = (Inl e, t)"
      "failed_task en repo s t" by blast
    then show ?thesis using failed_once_more [of en repo s t 0] none True secrets
      by (simp add: failures_at_def successes_at_def)
  next
    case False
    then obtain p where p: "found_spec (spec_at s (repo_key repo)) = Inr p" "bs_ValidationStatus p = StatusFailing"
      "bs_BootstrapGeneration p = CurrentBootstrapGeneration" "bs_SuccessCount p = 0" "bs_FailureCount p = int (min n 3)"
      using n by (auto simp: failed_times_def)
    show ?thesis
    proof (cases "n < 3")
      case True
      have "shouldRefreshExistingBootstrapSpec (Some p)"
        using p True by (simp add: shouldRefreshExistingBootstrapSpec_def maxFailingBootstrapAutoHealAttempts_def)
      then obtain t where "ensureBootstrapSpec en repo rid s = (Inr p, t)" "failed_task en repo s t"
        using ensure_again [OF st dec' p(1)] p(4,5) True by (auto simp: int4_def)
      then show ?thesis using failed_once_more [of en repo s t n] found_row [OF p(1)] p(4,5) True secrets by simp
    next
      case capped: False
      then have "gave_up_on p" using p by (simp add: gave_up_on_def maxFailingBootstrapAutoHealAttempts_def)
      from ensure_capped [OF p(1) this] n capped False show ?thesis by (simp add: failed_times_def)
    qed
  qed
qed

end
