(* ===== verification/Boot_Housekeeping.thy ===== *)
theory Boot_Housekeeping
  imports Boot_Healing
begin

text \<open>
  What the housekeeping after a pull request makes of a saved spec: a spec that is not there stays away, and
  improvements of the agent are saved and then marked as validated.
\<close>

section \<open>Housekeeping\<close>

lemma save_elsewhere:
  assumes "spec_at s k = None" and "k \<noteq> (bs_InstallationID q, bs_RepoID q, postgresText (bs_Path q))"
    and run: "boot_SaveSpec u clock now q s = (r, t)"
  shows "spec_at t k = None"
proof -
  obtain x :: "setup_spec_row" and g y where up: "sql_upsert setup_specs setup_specs_update setup_spec_constraints (is_spec (spec_key x)) x g s = (y, t)"
    and key: "spec_key x = (bs_InstallationID q, bs_RepoID q, postgresText (bs_Path q))" and g: "\<And>r. spec_key (g r) = spec_key r"
    using run by (auto simp: boot_SaveSpec_def UpsertRepoSetupSpec_def Let_def wrap_err_def no_result_def andthen_def
        spec_params_def spec_key_def excluded_def split: prod.splits sum.splits)
  from up show ?thesis
  proof (cases rule: specs.upsert_cases)
    case (updated r')
    then have "spec_key (g r') = spec_key x" using g by (auto simp: is_spec_def dest: find_SomeD)
    then have "find (is_spec k) (replace_rows (is_spec (spec_key x)) (g r') (setup_specs s)) = find (is_spec k) (setup_specs s)"
      using assms(2) key by (intro find_replace_other) (auto simp: is_spec_def)
    with updated assms(1) show ?thesis by (simp add: spec_at_def)
  qed (use assms(1,2) key in \<open>auto simp: spec_at_def find_append is_spec_def\<close>)
qed

lemma patched_key: "key_of (fst (patched_spec en p a b c d e reason)) = key_of p"
  by (simp add: patched_spec_def key_of_def Let_def)

lemma absent_parts:
  "keeps_inv (\<lambda>s. spec_at s k = None) (in_boot_sandbox m)" "keeps_inv (\<lambda>s. spec_at s k = None) (boot_notify a b)"
  "keeps_inv (\<lambda>s. spec_at s k = None) f \<Longrightarrow> keeps_inv (\<lambda>s. spec_at s k = None) (with_session en i f)"
  by (auto simp: keeps_inv_def in_boot_sandbox_def boot_notify_def with_session_def split_beta)

lemma absent_status: "keeps_inv (\<lambda>s. spec_at s k = None) (boot_MarkApplied clock now i n path st a b)"
proof -
  have "keeps_inv (\<lambda>s. spec_at s k = None) (UpdateRepoSetupSpecStatus now k' st v a b)" for k' st v
    unfolding UpdateRepoSetupSpecStatus_def
    by (intro keeps keeps_invI)
      (auto simp: sql_update_all_def spec_at_def find_None_iff is_spec_def split: option.splits if_splits)
  then show ?thesis unfolding boot_MarkApplied_def by (intro keeps)
qed

lemma absent_save:
  assumes "k \<noteq> (bs_InstallationID (fst x), bs_RepoID (fst x), postgresText (bs_Path (fst x)))"
  shows "keeps_inv (\<lambda>s. spec_at s k = None) (save_improvements en x)"
proof -
  obtain q changed reason where x: "x = (q, changed, reason)" by (cases x)
  have "keeps_inv (\<lambda>s. spec_at s k = None) (boot_SaveSpec u clock now q)" for u clock now
    by (rule keeps_invI) (rule save_elsewhere [OF _ assms [unfolded x fst_conv]])
  then show ?thesis
    unfolding x save_improvements_def prod.case by (intro keeps absent_parts)
qed

text \<open>What a session of the sandbox answers, the reads leave the tables alone.\<close>

lemma session_reader_run: "\<exists>x w. session_reader en i path s = (Inr x, s\<lparr>boot_sandbox := w\<rparr>)"
  by (cases "en_ReadShell en i path (boot_sandbox s)")
    (auto simp: session_reader_def attempt_def in_boot_sandbox_def Let_def split: sum.split)

lemma any_reader_rule:
  assumes "\<And>x w. Q (f x (s\<lparr>boot_sandbox := w\<rparr>))"
  shows "Q (andthen (session_reader en i path) f s)"
  using session_reader_run [of en i path s] assms by (auto simp: andthen_def)

text \<open>The first part reads the tables, and asks for a save only when the spec was there at that moment.\<close>

definition looked :: "'w boot_db \<Rightarrow> boot_spec \<Rightarrow> (go_error + pending_save option) \<times> 'w boot_db \<Rightarrow> bool" where
  "looked s p = (\<lambda>(r, t). setup_specs t = setup_specs s \<and> (\<forall>x. r = Inr (Some x) \<longrightarrow>
     (bs_InstallationID (fst x), bs_RepoID (fst x), postgresText (bs_Path (fst x))) = key_of p \<and> spec_at s (key_of p) \<noteq> None))"

lemma look_again:
  assumes "setup_specs s' = setup_specs s" and q: "key_of q = key_of p"
  shows "looked s p (attempt (boot_GetSpec (bs_InstallationID p) (bs_RepoID p) (bs_Path p))
    (\<lambda>r. case r of Inl e \<Rightarrow> ret None | Inr _ \<Rightarrow> ret (Some (q, changed, reason))) s')"
proof (cases "text_ok (bs_Path p)")
  case False
  then have "\<exists>e. boot_GetSpec (bs_InstallationID p) (bs_RepoID p) (bs_Path p) s' = (Inl e, s')"
    by (simp add: boot_GetSpec_def GetRepoSetupSpec_def with_texts_def attempt_def)
  then show ?thesis using assms(1) by (auto simp: looked_def attempt_def)
next
  case True
  then show ?thesis
    using assms by (auto simp: looked_def attempt_def GetSpec_answers found_spec_def key_of_def spec_at_def split: sum.split option.splits)
qed

lemma wanted_looks: "looked s p (improvements_wanted en (session_reader en i) p s)"
proof -
  note reads = any_reader_rule [where Q = "looked s p"]
  show ?thesis
    unfolding improvements_wanted_def
    apply (rule reads)
    apply (simp only: split_beta)
    apply (split if_split, intro conjI impI)
     apply (simp add: andthen_def boot_notify_def looked_def)
    apply (rule reads)+
    apply (simp only: split_beta Let_def)
    apply (split if_split, intro conjI impI)
     apply (simp add: looked_def)
    apply (rule look_again)
     apply simp
    apply (rule patched_key)
    done
qed

section \<open>Housekeeping and resets, statement by statement\<close>

text \<open>
  Any number of tasks that finish, each with its own steps: the second look, the save it asks for, which
  waits until it is its turn, and the status. What a sandbox does in between is a step too.
\<close>

type_synonym 'w waiting = "('w boot_env \<times> pending_save) list"

inductive house_step :: "'w boot_db \<times> 'w waiting \<Rightarrow> 'w boot_db \<times> 'w waiting \<Rightarrow> bool" where
  look: "improvements_wanted en (session_reader en i) p s = (Inr (Some x), t) \<Longrightarrow> house_step (s, ps) (t, (en, x) # ps)"
| nothing: "improvements_wanted en (session_reader en i) p s = (r, t) \<Longrightarrow> \<forall>x. r \<noteq> Inr (Some x) \<Longrightarrow> house_step (s, ps) (t, ps)"
| save: "(en, x) \<in> set ps \<Longrightarrow> save_improvements en x s = (r', t) \<Longrightarrow> house_step (s, ps) (t, remove1 (en, x) ps)"
| status: "boot_MarkApplied clock now i n path st a b s = (r', t) \<Longrightarrow> house_step (s, ps) (t, ps)"
| sandbox: "house_step (s, ps) (s\<lparr>boot_sandbox := w\<rparr>, ps)"

definition saves_elsewhere :: "boot_key \<Rightarrow> 'w waiting \<Rightarrow> bool" where
  "saves_elsewhere k ps \<longleftrightarrow>
     (\<forall>(en, x) \<in> set ps. (bs_InstallationID (fst x), bs_RepoID (fst x), postgresText (bs_Path (fst x))) \<noteq> k)"

definition stays_away :: "boot_key \<Rightarrow> 'w boot_db \<times> 'w waiting \<Rightarrow> bool" where
  "stays_away k = (\<lambda>(s, ps). spec_at s k = None \<and> saves_elsewhere k ps)"

lemma house_step_away: "house_step c d \<Longrightarrow> stays_away k c \<Longrightarrow> stays_away k d"
proof (induction rule: house_step.induct)
  case (look en i p s x t ps)
  with wanted_looks [of s p en i] show ?case by (cases x) (auto simp: stays_away_def saves_elsewhere_def looked_def spec_at_def)
next
  case (nothing en i p s r t ps)
  with wanted_looks [of s p en i] show ?case by (auto simp: stays_away_def looked_def spec_at_def)
next
  case (save en x ps s r' t)
  then have ne: "k \<noteq> (bs_InstallationID (fst x), bs_RepoID (fst x), postgresText (bs_Path (fst x)))"
    and none: "spec_at s k = None" by (auto simp: stays_away_def saves_elsewhere_def)
  have "spec_at t k = None" using keeps_invD [OF absent_save [OF ne] none save(2)] .
  with save show ?case by (auto simp: stays_away_def saves_elsewhere_def dest: notin_set_remove1)
next
  case (status clock now i n path st a b s r' t ps)
  then show ?case using keeps_invD [OF absent_status _ status(1)] by (simp add: stays_away_def)
next
  case (sandbox s ps w)
  then show ?case by (simp add: stays_away_def spec_at_def)
qed

lemma house_steps_away: "house_step\<^sup>*\<^sup>* c d \<Longrightarrow> stays_away k c \<Longrightarrow> stays_away k d"
  by (induction rule: rtranclp_induct) (auto intro: house_step_away)

text \<open>The housekeeping of one task is such a run.\<close>

lemma improvement_steps:
  assumes "applySpecImprovements en session p s = (r, t)"
  shows "house_step\<^sup>*\<^sup>* (s, ps) (t, ps)"
proof -
  define i where "i = session @ ''-improvements''"
  obtain c w where w: "en_CreateSession en i (boot_sandbox s) = (c, w)" by fastforce
  define u where "u = s\<lparr>boot_sandbox := w\<rparr>"
  have one: "house_step\<^sup>*\<^sup>* (s, ps) (u, ps)" unfolding u_def by (rule r_into_rtranclp, rule house_step.sandbox)
  show ?thesis
  proof (cases c)
    case (Inl e)
    then have "t = u"
      using assms by (simp add: applySpecImprovements_def Let_def i_def [symmetric] attempt_def in_boot_sandbox_def w u_def)
    with one show ?thesis by simp
  next
    case (Inr x0)
    obtain x v where v: "improvements_wanted en (session_reader en i) p u = (x, v)" by fastforce
    obtain y z where z: "applySpecImprovementsFromReader en (session_reader en i) p u = (y, z)" by fastforce
    have two: "house_step\<^sup>*\<^sup>* (u, ps) (z, ps)"
    proof (cases "\<exists>q. x = Inr (Some q)")
      case True
      then obtain q where q: "x = Inr (Some q)" by blast
      have "house_step (u, ps) (v, (en, q) # ps)" using v q by (intro house_step.look) simp
      moreover have "save_improvements en q v = (y, z)"
        using v z q by (simp add: applySpecImprovementsFromReader_def andthen_def)
      then have "house_step (v, (en, q) # ps) (z, remove1 (en, q) ((en, q) # ps))" by (intro house_step.save) simp_all
      ultimately show ?thesis by simp
    next
      case False
      then have "z = v"
        using v z by (auto simp: applySpecImprovementsFromReader_def andthen_def split: sum.splits option.splits)
      with v False show ?thesis by (intro r_into_rtranclp house_step.nothing) auto
    qed
    have "t = z\<lparr>boot_sandbox := en_DeleteSession en i (boot_sandbox z)\<rparr>"
      using assms Inr z by (simp add: applySpecImprovements_def Let_def i_def [symmetric] attempt_def in_boot_sandbox_def w
          u_def [symmetric] with_session_def)
    then have "house_step (z, ps) (t, ps)" by (simp add: house_step.sandbox)
    with one two show ?thesis by (meson rtranclp.rtrancl_into_rtrancl rtranclp_trans)
  qed
qed

lemma housekeeping_steps:
  assumes "post_pr_housekeeping en repo session p s = (r, t)"
  shows "house_step\<^sup>*\<^sup>* (s, ps) (t, ps)"
proof -
  obtain x u where u: "applySpecImprovements en session p s = (x, u)" by fastforce
  note steps = improvement_steps [OF u]
  show ?thesis
  proof (cases x)
    case (Inl e)
    then show ?thesis using assms u steps by (simp add: post_pr_housekeeping_def andthen_def)
  next
    case (Inr y)
    let ?mark = "boot_MarkApplied (en_Clock en) (en_Now en) (rc_InstallID repo) (rc_RepoID repo) (bs_Path p)
       StatusValidated (int32 (bs_SuccessCount p + 1)) (bs_FailureCount p)"
    have "?mark u = (fst (?mark u), t)"
      using assms u Inr by (simp add: post_pr_housekeeping_def andthen_def attempt_def split_beta prod_eq_iff)
    then have "house_step (u, ps) (t, ps)" by (rule house_step.status)
    with steps show ?thesis by (meson rtranclp.rtrancl_into_rtrancl)
  qed
qed

text \<open>A sandbox that hands over what the agent left in the directory of its improvements.\<close>

definition hands_over :: "'w boot_env \<Rightarrow> (string \<Rightarrow> go_error + string) \<Rightarrow> bool" where
  "hands_over en files \<longleftrightarrow> (\<forall>i w. \<exists>w'. en_CreateSession en i w = (Inr (), w')) \<and>
     (\<forall>i f w. \<exists>w'. en_ReadShell en i f w = (files f, w'))"

definition improvement :: "(string \<Rightarrow> go_error + string) \<Rightarrow> string \<Rightarrow> string \<times> bool" where
  "improvement files name = (case files (specImprovementsDir @ name) of
     Inl e \<Rightarrow> ([], False) | Inr out \<Rightarrow> (trim_space out, trim_space out \<noteq> []))"

definition suggests :: "(string \<Rightarrow> go_error + string) \<Rightarrow> bool" where
  "suggests files \<longleftrightarrow> \<not> snd (improvement files ''/none.txt'') \<and>
     list_ex (\<lambda>f. snd (improvement files f)) [''/setup.sh'', ''/start.sh'', ''/stop.sh'', ''/health.sh'', ''/lessons.md'']"

definition improved_spec :: "'w boot_env \<Rightarrow> (string \<Rightarrow> go_error + string) \<Rightarrow> boot_spec \<Rightarrow> boot_spec" where
  "improved_spec en files p = fst (patched_spec en p (improvement files ''/setup.sh'') (improvement files ''/start.sh'')
     (improvement files ''/stop.sh'') (improvement files ''/health.sh'') (improvement files ''/lessons.md'')
     (fst (improvement files ''/reason.md'')))"

lemma reader_rule:
  assumes "hands_over en files" and "\<And>w. Q (f (improvement files name) (s\<lparr>boot_sandbox := w\<rparr>))"
  shows "Q (andthen (session_reader en i (specImprovementsDir @ name)) f s)"
proof -
  obtain w' where "en_ReadShell en i (specImprovementsDir @ name) (boot_sandbox s) = (files (specImprovementsDir @ name), w')"
    using assms(1) unfolding hands_over_def by blast
  then have "session_reader en i (specImprovementsDir @ name) s = (Inr (improvement files name), s\<lparr>boot_sandbox := w'\<rparr>)"
    by (simp add: session_reader_def attempt_def in_boot_sandbox_def improvement_def Let_def split: sum.split)
  with assms(2) [of w'] show ?thesis by (simp add: boot_then_run)
qed

lemma wanted_runs:
  assumes files: "hands_over en files" "suggests files" and path: "text_ok (bs_Path p)"
    and found: "found_spec (spec_at s (key_of p)) = Inr p'"
  shows "\<exists>changed reason w. improvements_wanted en (session_reader en i) p s =
    (Inr (Some (improved_spec en files p, changed, reason)), s\<lparr>boot_sandbox := w\<rparr>)"
    (is "?Q (improvements_wanted en (session_reader en i) p s)")
proof -
  let ?q = "improved_spec en files p"
  have none: "\<not> snd (improvement files ''/none.txt'')" and some: "(\<not> snd (improvement files ''/setup.sh'') \<and>
      \<not> snd (improvement files ''/start.sh'') \<and> \<not> snd (improvement files ''/stop.sh'') \<and>
      \<not> snd (improvement files ''/health.sh'') \<and> \<not> snd (improvement files ''/lessons.md'')) = False"
    using files(2) by (auto simp: suggests_def)
  note reads = reader_rule [where Q = "?Q", OF files(1)]
  have "boot_GetSpec (bs_InstallationID p) (bs_RepoID p) (bs_Path p) (s\<lparr>boot_sandbox := w\<rparr>) = (Inr p', s\<lparr>boot_sandbox := w\<rparr>)" for w
    using found by (simp add: GetSpec_answers [OF path] key_of_def spec_at_def)
  then have look: "?Q (attempt (boot_GetSpec (bs_InstallationID p) (bs_RepoID p) (bs_Path p))
      (\<lambda>r. case r of Inl e \<Rightarrow> ret None | Inr _ \<Rightarrow> ret (Some (?q, c, re))) (s\<lparr>boot_sandbox := w\<rparr>))" for c re w
    by (simp add: attempt_def) (metis boot_db.surjective)
  have again: "s\<lparr>boot_sandbox := a, boot_sandbox := b\<rparr> = s\<lparr>boot_sandbox := b\<rparr>" for a b by simp
  show ?thesis
    unfolding improvements_wanted_def
    by (rule reads, (simp only: split_beta none if_False again)?)+
      (simp only: some if_False split_beta Let_def improved_spec_def [symmetric] again, rule look)
qed

lemma save_runs:
  assumes st: "storable q"
  shows "\<exists>t row. save_improvements en (q, changed, reason) s = (Inr (), t) \<and>
    spec_at t (key_of q) = Some row \<and> rowToSpec row = Inr (stored_form q)"
proof -
  have fit: "(stored_form q)\<lparr>bs_SuccessCount := bs_SuccessCount q, bs_FailureCount := bs_FailureCount q\<rparr> = stored_form q"
    by (simp add: stored_form_def)
  have "\<exists>t row. boot_SaveSpec (en_UUID en 0) (en_Clock en) (en_Now en) q s = (Inr (), t) \<and>
      spec_at t (key_of q) = Some row \<and> rowToSpec row = Inr (stored_form q)"
    by (rule saved_row [OF st, of "en_UUID en 0" "en_Clock en" "en_Now en" s])
      (auto simp: only_spec_changed_def row_of_reads [OF st] fit)
  then show ?thesis by (auto simp: save_improvements_def attempt_def boot_notify_def)
qed

lemma improved_key [simp]: "key_of (improved_spec en files p) = key_of p"
  by (simp add: improved_spec_def patched_key)

lemma improved_path: "storable (improved_spec en files p) \<Longrightarrow> text_ok (bs_Path p)"
  using improved_key [of en files p] by (auto simp: storable_def key_of_def)

lemma improvements_saved:
  assumes files: "hands_over en files" "suggests files" and st: "storable (improved_spec en files p)"
    and found: "found_spec (spec_at s (key_of p)) = Inr p'"
  shows "\<exists>t row. applySpecImprovementsFromReader en (session_reader en i) p s = (Inr (), t) \<and>
    spec_at t (key_of p) = Some row \<and> rowToSpec row = Inr (stored_form (improved_spec en files p))"
proof -
  obtain changed reason w where "improvements_wanted en (session_reader en i) p s =
      (Inr (Some (improved_spec en files p, changed, reason)), s\<lparr>boot_sandbox := w\<rparr>)"
    using wanted_runs [OF files improved_path [OF st] found] by blast
  then show ?thesis
    using save_runs [OF st, of en changed reason "s\<lparr>boot_sandbox := w\<rparr>"]
    by (simp add: applySpecImprovementsFromReader_def andthen_def)
qed

text \<open>A reset between the second look and the save is undone by the save.\<close>

lemma late_save:
  assumes files: "hands_over en files" "suggests files" and st: "storable (improved_spec en files p)"
    and found: "found_spec (spec_at s (key_of p)) = Inr p'"
  shows "\<exists>x t u v. improvements_wanted en (session_reader en i) p s = (Inr (Some x), t) \<and>
    boot_DeleteSpec (bs_InstallationID p) (bs_RepoID p) (bs_Path p) t = (Inr (), u) \<and>
    boot_GetSpec (bs_InstallationID p) (bs_RepoID p) (bs_Path p) u = (Inl BootErrNotFound, u) \<and>
    save_improvements en x u = (Inr (), v) \<and>
    boot_GetSpec (bs_InstallationID p) (bs_RepoID p) (bs_Path p) v = (Inr (stored_form (improved_spec en files p)), v)"
proof -
  note path = improved_path [OF st]
  obtain changed reason w where look: "improvements_wanted en (session_reader en i) p s =
      (Inr (Some (improved_spec en files p, changed, reason)), s\<lparr>boot_sandbox := w\<rparr>)"
    using wanted_runs [OF files path found] by blast
  obtain u where del: "boot_DeleteSpec (bs_InstallationID p) (bs_RepoID p) (bs_Path p) (s\<lparr>boot_sandbox := w\<rparr>) = (Inr (), u)"
    and none: "spec_at u (key_of p) = None"
    unfolding key_of_def by (rule deleted_spec [OF path])
  obtain v row where "save_improvements en (improved_spec en files p, changed, reason) u = (Inr (), v)"
    and "spec_at v (key_of p) = Some row" "rowToSpec row = Inr (stored_form (improved_spec en files p))"
    using save_runs [OF st] by fastforce
  moreover have "boot_GetSpec (bs_InstallationID p) (bs_RepoID p) (bs_Path p) u = (Inl BootErrNotFound, u)"
    using none by (simp add: GetSpec_answers [OF path] found_spec_def key_of_def)
  ultimately show ?thesis
    using look del
    by (intro exI [of _ "(improved_spec en files p, changed, reason)"] exI [of _ "s\<lparr>boot_sandbox := w\<rparr>"] exI [of _ u] exI [of _ v])
      (simp add: GetSpec_answers [OF path] found_spec_def key_of_def)
qed

lemma status_reads:
  "rowToSpec row = Inr q \<Longrightarrow> rowToSpec (row\<lparr>rs_validation_status := st, rs_last_validated_at := v, rs_success_count := a,
     rs_failure_count := b, rs_updated_at := u\<rparr>) = Inr (q\<lparr>bs_ValidationStatus := st, bs_SuccessCount := a, bs_FailureCount := b\<rparr>)"
  by (auto simp: rowToSpec_def split: sum.splits)

lemma int32_int4 [simp]: "int4 (int32 n)"
  using pos_mod_bound [of 4294967296 "n + 2147483648"] pos_mod_sign [of 4294967296 "n + 2147483648"]
  by (simp add: int4_def int32_def)

lemma housekeeping_saves:
  assumes files: "hands_over en files" "suggests files" and st: "storable (improved_spec en files p)"
    and found: "found_spec (spec_at s (key_of p)) = Inr p'" and ok: "boot_ok s"
    and repo: "rc_InstallID repo = bs_InstallationID p" "rc_RepoID repo = bs_RepoID p"
  shows "\<exists>t. post_pr_housekeeping en repo session p s = (Inr (), t) \<and>
    found_spec (spec_at t (key_of p)) = Inr ((stored_form (improved_spec en files p))\<lparr>bs_ValidationStatus := StatusValidated,
      bs_SuccessCount := int32 (bs_SuccessCount p + 1), bs_FailureCount := bs_FailureCount p\<rparr>)"
proof -
  define i where "i = session @ ''-improvements''"
  obtain w where w: "en_CreateSession en i (boot_sandbox s) = (Inr (), w)" using files(1) unfolding hands_over_def by blast
  define s1 where "s1 = s\<lparr>boot_sandbox := w\<rparr>"
  have found1: "found_spec (spec_at s1 (key_of p)) = Inr p'" using found by (simp add: s1_def)
  obtain t row where run: "applySpecImprovementsFromReader en (session_reader en i) p s1 = (Inr (), t)"
    and row: "spec_at t (key_of p) = Some row" "rowToSpec row = Inr (stored_form (improved_spec en files p))"
    using improvements_saved [OF files st found1] by blast
  define t' where "t' = t\<lparr>boot_sandbox := en_DeleteSession en i (boot_sandbox t)\<rparr>"
  have improved: "applySpecImprovements en session p s = (Inr (), t')"
    by (simp add: applySpecImprovements_def Let_def i_def [symmetric] attempt_def in_boot_sandbox_def w s1_def [symmetric]
        with_session_def run t'_def)
  have "keeps_inv boot_ok (applySpecImprovements en session p)"
    unfolding applySpecImprovements_def Let_def by (intro keeps ok.parts ok.improvements_keep ok.reader_keeps)
  from keeps_invD [OF this ok improved] have ok': "boot_ok t'" .
  have key: "key_of (improved_spec en files p) = key_of p" by (simp add: improved_spec_def patched_key)
  then have path: "text_ok (bs_Path p)" using st by (auto simp: storable_def key_of_def)
  have count: "int4 (bs_FailureCount p)"
    using st by (simp add: storable_def improved_spec_def patched_spec_def Let_def split: if_splits)
  obtain t2 where mark: "boot_MarkApplied (en_Clock en) (en_Now en) (bs_InstallationID p) (bs_RepoID p) (bs_Path p) StatusValidated
      (int32 (bs_SuccessCount p + 1)) (bs_FailureCount p) t' = (Inr (), t2)"
    and at2: "\<And>k'. spec_at t2 k' = (if k' = (bs_InstallationID p, bs_RepoID p, bs_Path p) then
      map_option (\<lambda>r. r\<lparr>rs_validation_status := StatusValidated, rs_last_validated_at := Some (en_Clock en),
        rs_success_count := int32 (bs_SuccessCount p + 1), rs_failure_count := bs_FailureCount p,
        rs_updated_at := Some (en_Now en)\<rparr>) (spec_at t' k') else spec_at t' k')"
    by (rule status_updated [OF ok' path _ _ count, of StatusValidated "int32 (bs_SuccessCount p + 1)" "en_Clock en" "en_Now en"
          "bs_InstallationID p" "bs_RepoID p"]) (simp_all add: validation_statuses_def boot_status_defs)
  have "post_pr_housekeeping en repo session p s = (Inr (), t2)"
    by (simp add: post_pr_housekeeping_def andthen_def improved attempt_def repo mark)
  moreover have "spec_at t' (key_of p) = Some row" using row(1) by (simp add: t'_def)
  ultimately show ?thesis
    using at2 [of "key_of p"] by (intro exI [of _ t2]) (simp add: key_of_def found_spec_def status_reads [OF row(2)])
qed

end
