(* ===== verification/Boot_Properties.thy ===== *)
theory Boot_Properties
  imports Boot_Housekeeping Boot_Detect
begin

text \<open>
  The results about the bootstrap of a repository: specs and secrets in the store, what failing bootstraps
  lead to, the housekeeping after a pull request, and the comments of a dev container. The demo values are
  concrete inputs.
\<close>

section \<open>Concrete inputs\<close>

text \<open>A sandbox without a file, in which the script of the bootstrap fails.\<close>

definition demo_boot_env :: "unit boot_env" where
  "demo_boot_env = \<lparr>en_Lib = \<lparr>bl_SHA256 = \<lambda>s. [length s mod 256], bl_BuildPrompt = \<lambda>h a. pa_Preamble a, bl_Script = ''bootstrap''\<rparr>,
     en_Cipher = \<lparr>aead_NonceSize = 1, aead_Seal = \<lambda>n v. v, aead_Open = \<lambda>n b. Inr b\<rparr>,
     en_CreateSession = \<lambda>i w. (Inr (), w), en_DeleteSession = \<lambda>i w. w, en_SetupClone = \<lambda>i w. (Inr (), w),
     en_Detect = \<lambda>i w. (Inr \<lparr>bh_Checkout = \<lparr>ck_ReadFile = \<lambda>f. None, ck_IsFile = \<lambda>f. False, ck_ReadDir = \<lambda>f. None\<rparr>,
       bh_DevContainer = None, bh_ReadmeExcerpt = []\<rparr>, w),
     en_Runner = \<lambda>i. \<lparr>br_Run = \<lambda>l sc ev w. ((''exit 1'', Some (ErrNew ''exit'')), w),
       br_ReadFile = \<lambda>f w. (Inl (ErrNew ''no file''), w), br_WriteFile = \<lambda>f d w. (Inr (), w)\<rparr>,
     en_ReadShell = \<lambda>i f w. (if f = specImprovementsDir @ ''/setup.sh'' then Inr ''make all'' else Inl (ErrNew ''no file''), w),
     en_UUID = \<lambda>n. ''u'', en_Clock = 70, en_Now = 71, en_RFC3339 = \<lambda>t. ''now'', en_ErrText = \<lambda>e. ''error''\<rparr>"

definition demo_files :: "string \<Rightarrow> go_error + string" where
  "demo_files f = (if f = specImprovementsDir @ ''/setup.sh'' then Inr ''make all'' else Inl (ErrNew ''no file''))"

definition demo_boot_repo :: repo_ctx where
  "demo_boot_repo = \<lparr>rc_Slug = ''acme/app'', rc_InstallID = 7, rc_RepoID = 9\<rparr>"

definition demo_spec :: boot_spec where
  "demo_spec = \<lparr>bs_InstallationID = 7, bs_RepoID = 9, bs_Path = [], bs_SpecVersion = 4, bs_BootstrapGeneration = 2,
     bs_Kind = ''web'', bs_SetupScript = ''make'', bs_StartScript = ''make run'', bs_HealthCheck = ''curl'', bs_StopScript = [],
     bs_LessonsMD = [], bs_Services = [], bs_RequiredSecrets = [], bs_DeferredCapabilities = [], bs_SuggestedRepoChanges = [],
     bs_ValidationCapability = zero_capability, bs_SourceFingerprint = ''f0'', bs_ValidationStatus = ''stale'',
     bs_SuccessCount = 2, bs_FailureCount = 1, bs_BootstrapLog = []\<rparr>"

definition demo_boot_db :: "unit boot_db" where
  "demo_boot_db = \<lparr>setup_specs = [row_of demo_spec ''1'' (Some 5) 2 1 (Some 1) (Some 2)], secret_values = [],
     boot_notices = [], boot_sandbox = ()\<rparr>"

definition demo_empty_db :: "unit boot_db" where
  "demo_empty_db = \<lparr>setup_specs = [], secret_values = [], boot_notices = [], boot_sandbox = ()\<rparr>"

lemma demo_storable: "storable demo_spec"
  by (simp add: storable_def demo_spec_def spec_texts_def nul_free_def text_ok_def capability_fits_def capability_ok_def
      zero_capability_def capability_json_def omit_bool_def omit_text_def omit_texts_def int4_def validation_statuses_def)

lemma demo_stored: "stored_form demo_spec = demo_spec"
  by (simp add: stored_form_def demo_spec_def bootstrapGenerationForSave_def text_ok_def ascii_valid between_def)

lemma demo_boot_ok: "boot_ok demo_boot_db" "boot_ok demo_empty_db"
  using row_of_legal [OF demo_storable, of 2 1 "''1''" "Some 5" "Some 1" "Some 2"]
  by (simp_all add: boot_ok_def demo_boot_db_def demo_empty_db_def table_inv_def int4_def)

lemma demo_at: "spec_at demo_boot_db (7, 9, []) = Some (row_of demo_spec ''1'' (Some 5) 2 1 (Some 1) (Some 2))"
  by (simp add: spec_at_def demo_boot_db_def is_spec_def row_of_key demo_spec_def)

lemma demo_found: "found_spec (spec_at demo_boot_db (7, 9, [])) = Inr demo_spec"
  by (simp add: demo_at found_spec_def row_of_reads [OF demo_storable] demo_stored) (simp add: demo_spec_def)

lemma demo_stumbles: "stumbles demo_boot_env" "leaves_nothing demo_boot_env"
  by (simp_all add: stumbles_def leaves_nothing_def demo_boot_env_def nul_free_def)

lemma demo_cipher: "opens_what_it_sealed (en_Cipher demo_boot_env)" "aead_NonceSize (en_Cipher demo_boot_env) = 1"
  by (simp_all add: opens_what_it_sealed_def demo_boot_env_def)

section \<open>The store of specs\<close>

text \<open>C33: a spec that can be stored reads back as it was saved, its texts made valid UTF-8 and a missing
  generation replaced by the current one; no other spec and no secret changes.\<close>

theorem saved_spec_reads_back:
  assumes st: "storable p"
  shows "\<exists>t. boot_SaveSpec u clock now p s = (Inr (), t) \<and>
    boot_GetSpec (bs_InstallationID p) (bs_RepoID p) (bs_Path p) t = (Inr (stored_form p), t) \<and>
    (list_all valid_utf8 (spec_texts p) \<longrightarrow> 0 < bs_BootstrapGeneration p \<longrightarrow> stored_form p = p) \<and>
    (\<forall>i n path. (i, n, path) \<noteq> key_of p \<longrightarrow> fst (boot_GetSpec i n path t) = fst (boot_GetSpec i n path s)) \<and>
    secret_values t = secret_values s"
proof -
  obtain t i created where saved: "boot_SaveSpec u clock now p s = (Inr (), t)"
    "only_spec_changed (key_of p) (row_of p i (validated_stamp clock p) (bs_SuccessCount p) (bs_FailureCount p) created (Some now)) s t"
    by (rule saved_row [OF st])
  have path: "text_ok (bs_Path p)" using st by (simp add: storable_def)
  have "(stored_form p)\<lparr>bs_SuccessCount := bs_SuccessCount p, bs_FailureCount := bs_FailureCount p\<rparr> = stored_form p"
    by (simp add: stored_form_def)
  then have "boot_GetSpec (bs_InstallationID p) (bs_RepoID p) (bs_Path p) t = (Inr (stored_form p), t)"
    using saved(2) by (simp add: GetSpec_answers [OF path] only_spec_changed_def key_of_def found_spec_def row_of_reads [OF st])
  moreover have "stored_form p = p" if "list_all valid_utf8 (spec_texts p)" "0 < bs_BootstrapGeneration p"
    using that by (simp add: stored_form_def spec_texts_def bootstrapGenerationForSave_def)
  moreover have "fst (boot_GetSpec i n path t) = fst (boot_GetSpec i n path s)" if "(i, n, path) \<noteq> key_of p" for i n path
    using saved(2) that unfolding only_spec_changed_def
    by (cases "text_ok path") (simp_all add: GetSpec_answers, simp add: boot_GetSpec_def GetRepoSetupSpec_def with_texts_def attempt_def)
  ultimately show ?thesis using saved unfolding only_spec_changed_def by blast
qed

theorem saved_spec_reads_back_witness:
  "\<exists>t. boot_SaveSpec ''1'' 5 6 demo_spec demo_empty_db = (Inr (), t) \<and> boot_GetSpec 7 9 [] t = (Inr demo_spec, t)"
  using saved_spec_reads_back [OF demo_storable, of "''1''" 5 6 demo_empty_db]
  by (auto simp: demo_stored) (simp add: demo_spec_def)

section \<open>Secrets\<close>

text \<open>C34: a value a user stored for a secret is what every later bootstrap gets for it, whatever the tasks,
  resets and writes to other secrets in between: declaring it again as required does not erase it.\<close>

theorem supplied_secrets_survive:
  assumes aead: "opens_what_it_sealed c" "length nonce = aead_NonceSize c" "0 < aead_NonceSize c"
    and s: "boot_ok s" "decryptable c (secret_values s)" and v: "v \<noteq> []"
    and stored: "boot_SetSecret c (Inr nonce) u now i n path name v s = (Inr (), t)"
    and steps: "(sparing_step c (i, n, path) name)\<^sup>*\<^sup>* t t'"
  shows "\<exists>m. boot_GetSecrets c i n path t' = (Inr m, t') \<and> map_of m name = Some v"
proof -
  obtain row where row: "has_secret (i, n, path) name row (secret_values t)" "Decrypt c (rv_value_encrypted row) = Inr v" "text_ok path"
    using set_secret_stores [OF stored aead] by blast
  have "decryptable c (secret_values t)"
    by (rule keeps_invD [OF writes_stay_decryptable(1) [OF aead] s(2) stored])
  from sparing_steps [OF steps aead(1,3) row(1) this]
  have later: "has_secret (i, n, path) name row (secret_values t')" "decryptable c (secret_values t')" by simp_all
  have "(boot_step c)\<^sup>*\<^sup>* t t'"
    using steps by (rule rtranclp_mono [THEN predicate2D, rotated]) (auto elim!: sparing_step.cases intro: boot_step.intros)
  moreover have "boot_ok t" by (rule keeps_invD [OF secret_writes_keep(1) s(1) stored])
  ultimately have "boot_ok t'" by (rule boot_steps_keep)
  from secrets_read [OF this later row(2) v row(3)] show ?thesis .
qed

definition demo_task :: task_request where
  "demo_task = \<lparr>rq_ValidateChanges = True, rq_BootstrapSkipped = False, rq_HasStore = True, rq_Provider = ProviderAnthropic,
     rq_HasAnthropicCredentials = True, rq_Cancelled = False\<rparr>"

definition demo_secret_db :: "unit boot_db" where
  "demo_secret_db = demo_boot_db\<lparr>secret_values := [(new_secret_row ''2'' 8 (7, 9, []) ''TOKEN'' (Some ''ns3''))]\<rparr>"

lemma demo_set_secret:
  "boot_SetSecret (en_Cipher demo_boot_env) (Inr ''n'') ''2'' 8 7 9 [] ''TOKEN'' ''s3'' demo_boot_db = (Inr (), demo_secret_db)"
  by (simp add: boot_SetSecret_def Encrypt_def UpsertRepoSecretValue_def with_texts_def no_result_def wrap_err_def andthen_def
      sql_upsert_def sql_insert_def secret_value_constraints_def secret_value_error_def demo_boot_db_def demo_secret_db_def demo_boot_env_def
      new_secret_row_def text_ok_def ascii_valid between_def split: option.split)

theorem supplied_secrets_survive_witness:
  "\<exists>m. boot_GetSecrets (en_Cipher demo_boot_env) 7 9 []
      (snd (agentBootstrapSpec demo_boot_env demo_boot_repo ''r'' demo_task demo_secret_db)) =
      (Inr m, snd (agentBootstrapSpec demo_boot_env demo_boot_repo ''r'' demo_task demo_secret_db)) \<and>
    map_of m ''TOKEN'' = Some ''s3''"
proof -
  have "sparing_step (en_Cipher demo_boot_env) (7, 9, []) ''TOKEN'' demo_secret_db
      (snd (agentBootstrapSpec demo_boot_env demo_boot_repo ''r'' demo_task demo_secret_db))"
    by (rule sparing_step.task_step, rule boot_task_step.task [OF surjective_pairing])
  then have steps: "(sparing_step (en_Cipher demo_boot_env) (7, 9, []) ''TOKEN'')\<^sup>*\<^sup>* demo_secret_db
      (snd (agentBootstrapSpec demo_boot_env demo_boot_repo ''r'' demo_task demo_secret_db))" by (rule r_into_rtranclp)
  have dec: "decryptable (en_Cipher demo_boot_env) (secret_values demo_boot_db)" by (simp add: decryptable_def demo_boot_db_def)
  show ?thesis
    by (rule supplied_secrets_survive [OF demo_cipher(1) _ _ demo_boot_ok(1) dec _ demo_set_secret steps])
      (simp_all add: demo_cipher(2))
qed

section \<open>Bootstraps that fail\<close>

text \<open>C35: for a new repository whose every task gets as far as the bootstrap script and sees it fail (the
  sandbox works, the repository is cloned and read, and what the script leaves has no zero byte and can be
  stored), each of the first three failures is counted, and from then on no task, whatever its sandbox, runs
  a bootstrap again or changes the tables; it gets the failing spec and a note. A task whose clone or
  detection fails, or whose failing spec the database refuses, counts as no failure and is not limited.\<close>

theorem failing_bootstrap_gives_up:
  assumes none: "spec_at s (repo_key repo) = None" and tasks: "es \<noteq> []"
    "\<forall>(en, rid) \<in> set es. stumbles en \<and> decryptable (en_Cipher en) (secret_values s)"
  shows "\<exists>p. boot_GetSpec (rc_InstallID repo) (rc_RepoID repo) [] (run_tasks repo es s) = (Inr p, run_tasks repo es s) \<and>
    bs_ValidationStatus p = StatusFailing \<and> bs_FailureCount p = int (min (length es) 3) \<and>
    (3 \<le> length es \<longrightarrow> (\<forall>en rid. \<exists>msg. ensureBootstrapSpec en repo rid (run_tasks repo es s) =
       (Inr p, (run_tasks repo es s)\<lparr>boot_notices := boot_notices (run_tasks repo es s) @ [(''Bootstrap auto-heal skipped'', msg)]\<rparr>)))"
proof -
  have "failed_times repo (length es) (secret_values s) (run_tasks repo es s)"
    using tasks(2)
  proof (induction es rule: rev_induct)
    case Nil
    then show ?case using none by (simp add: failed_times_def)
  next
    case (snoc x es)
    obtain en rid where x: "x = (en, rid)" by (cases x)
    have "failed_times repo (length es) (secret_values s) (run_tasks repo es s)" using snoc by simp
    from one_task_more [OF _ _ this, of en rid] show ?case using snoc.prems by (simp add: x run_tasks_snoc)
  qed
  then obtain p where p: "found_spec (spec_at (run_tasks repo es s) (repo_key repo)) = Inr p"
    "bs_ValidationStatus p = StatusFailing" "bs_BootstrapGeneration p = CurrentBootstrapGeneration"
    "bs_FailureCount p = int (min (length es) 3)"
    using tasks(1) by (auto simp: failed_times_def)
  have "gave_up_on p" if "3 \<le> length es"
    using that p by (simp add: gave_up_on_def maxFailingBootstrapAutoHealAttempts_def)
  then have "\<exists>msg. ensureBootstrapSpec en repo rid (run_tasks repo es s) = (Inr p, (run_tasks repo es s)\<lparr>boot_notices :=
      boot_notices (run_tasks repo es s) @ [(''Bootstrap auto-heal skipped'', msg)]\<rparr>)" if "3 \<le> length es" for en rid
    using ensure_capped [OF p(1), of en rid] that by blast
  with p show ?thesis by (intro exI [of _ p]) (simp add: GetSpec_repo)
qed

theorem failing_bootstrap_gives_up_witness:
  "\<exists>p. boot_GetSpec 7 9 [] (run_tasks demo_boot_repo [(demo_boot_env, ''1''), (demo_boot_env, ''2'')] demo_empty_db) =
      (Inr p, run_tasks demo_boot_repo [(demo_boot_env, ''1''), (demo_boot_env, ''2'')] demo_empty_db) \<and>
    bs_ValidationStatus p = ''failing'' \<and> bs_FailureCount p = 2"
proof -
  have "spec_at demo_empty_db (repo_key demo_boot_repo) = None" by (simp add: spec_at_def demo_empty_db_def)
  moreover have "\<forall>(en, rid) \<in> set [(demo_boot_env, ''1''), (demo_boot_env, ''2'')].
      stumbles en \<and> decryptable (en_Cipher en) (secret_values demo_empty_db)"
    using demo_stumbles by (simp add: decryptable_def demo_empty_db_def)
  ultimately show ?thesis
    using failing_bootstrap_gives_up [of demo_empty_db demo_boot_repo "[(demo_boot_env, ''1''), (demo_boot_env, ''2'')]"]
    by (auto simp: demo_boot_repo_def StatusFailing_def simp del: run_tasks.simps)
qed

text \<open>C36: a task whose healing of a saved spec fails before the agent has written a file still works with the
  spec it found, but in the store its scripts and its version are gone: the next task finds five empty
  texts, version 1 and one more failure.\<close>

theorem failed_heal_erases_the_scripts:
  assumes en: "stumbles en" "leaves_nothing en" "decryptable (en_Cipher en) (secret_values s)"
    and found: "boot_GetSpec (rc_InstallID repo) (rc_RepoID repo) [] s = (Inr p, s)"
    and refresh: "shouldRefreshExistingBootstrapSpec (Some p)"
    and counts: "int4 (bs_FailureCount p + 1)" "int4 (bs_SuccessCount p)"
  shows "\<exists>t q. ensureBootstrapSpec en repo rid s = (Inr p, t) \<and>
    boot_GetSpec (rc_InstallID repo) (rc_RepoID repo) [] t = (Inr q, t) \<and>
    [bs_SetupScript q, bs_StartScript q, bs_StopScript q, bs_HealthCheck q, bs_LessonsMD q] = [[], [], [], [], []] \<and>
    bs_SpecVersion q = 1 \<and> bs_ValidationStatus q = StatusFailing \<and> bs_FailureCount q = bs_FailureCount p + 1 \<and>
    secret_values t = secret_values s"
proof -
  have p: "found_spec (spec_at s (repo_key repo)) = Inr p" using found by (simp add: GetSpec_repo)
  from ensure_again [OF en(1,3) p refresh counts, of rid] obtain t where
    t: "ensureBootstrapSpec en repo rid s = (Inr p, t)" "failed_task en repo s t" by blast
  with failed_reads [OF t(2)] en(2) found_row(1) [OF p] show ?thesis
    by (auto simp: GetSpec_repo failed_task_def)
qed

theorem failed_heal_erases_the_scripts_witness:
  "\<exists>t q. ensureBootstrapSpec demo_boot_env demo_boot_repo ''r'' demo_boot_db = (Inr demo_spec, t) \<and>
    boot_GetSpec 7 9 [] t = (Inr q, t) \<and> bs_SetupScript q = [] \<and> bs_SpecVersion q = 1 \<and> bs_FailureCount q = 2"
proof -
  have "decryptable (en_Cipher demo_boot_env) (secret_values demo_boot_db)" by (simp add: decryptable_def demo_boot_db_def)
  moreover have "boot_GetSpec (rc_InstallID demo_boot_repo) (rc_RepoID demo_boot_repo) [] demo_boot_db = (Inr demo_spec, demo_boot_db)"
    by (simp add: GetSpec_answers demo_boot_repo_def demo_found)
  moreover have "shouldRefreshExistingBootstrapSpec (Some demo_spec)"
    by (simp add: shouldRefreshExistingBootstrapSpec_def demo_spec_def StatusStale_def)
  moreover have "int4 (bs_FailureCount demo_spec + 1)" "int4 (bs_SuccessCount demo_spec)" by (simp_all add: demo_spec_def int4_def)
  ultimately show ?thesis
    using failed_heal_erases_the_scripts [OF demo_stumbles, of demo_boot_db demo_boot_repo demo_spec "''r''"]
    by (simp add: demo_boot_repo_def) (metis (no_types, lifting) demo_spec_def boot_spec.select_convs(20) one_add_one)
qed

section \<open>After a pull request\<close>

text \<open>C37: scripts the agent rewrote during a task are saved over the ones the task ran with and then marked as
  validated, though nothing has run them; the next task on the repository takes them without a check.\<close>

theorem untested_scripts_count_as_validated:
  assumes files: "hands_over en files" "suggests files" and st: "storable (improved_spec en files p)"
    and repo: "rc_InstallID repo = bs_InstallationID p" "rc_RepoID repo = bs_RepoID p" "bs_Path p = []"
    and s: "boot_ok s" "boot_GetSpec (rc_InstallID repo) (rc_RepoID repo) [] s = (Inr p', s)"
    and current: "CurrentBootstrapGeneration \<le> bs_BootstrapGeneration p"
  shows "\<exists>t q. post_pr_housekeeping en repo session p s = (Inr (), t) \<and>
    bs_ValidationStatus q = StatusValidated \<and> bs_SpecVersion q = int32 (bs_SpecVersion p + 1) \<and>
    bs_SetupScript q = postgresText (if snd (improvement files ''/setup.sh'') then fst (improvement files ''/setup.sh'') else bs_SetupScript p) \<and>
    bs_StartScript q = postgresText (if snd (improvement files ''/start.sh'') then fst (improvement files ''/start.sh'') else bs_StartScript p) \<and>
    (\<forall>en' rid. ensureBootstrapSpec en' repo rid t = (Inr q, t))"
proof -
  define q where "q = (stored_form (improved_spec en files p))\<lparr>bs_ValidationStatus := StatusValidated,
    bs_SuccessCount := int32 (bs_SuccessCount p + 1), bs_FailureCount := bs_FailureCount p\<rparr>"
  have key: "key_of p = repo_key repo" using repo by (simp add: key_of_def repo_key_def)
  have "found_spec (spec_at s (key_of p)) = Inr p'" using s(2) by (simp add: GetSpec_repo key)
  from housekeeping_saves [OF files st this s(1) repo(1,2), of session] obtain t where
    run: "post_pr_housekeeping en repo session p s = (Inr (), t)" and "found_spec (spec_at t (key_of p)) = Inr q"
    unfolding q_def by blast
  then have found: "found_spec (spec_at t (repo_key repo)) = Inr q" by (simp add: key)
  have fields: "bs_ValidationStatus q = StatusValidated" "bs_SpecVersion q = int32 (bs_SpecVersion p + 1)"
    "bs_SetupScript q = postgresText (if snd (improvement files ''/setup.sh'') then fst (improvement files ''/setup.sh'') else bs_SetupScript p)"
    "bs_StartScript q = postgresText (if snd (improvement files ''/start.sh'') then fst (improvement files ''/start.sh'') else bs_StartScript p)"
    "bs_BootstrapGeneration q = bs_BootstrapGeneration p"
    using current by (auto simp: q_def stored_form_def improved_spec_def patched_spec_def Let_def bootstrapGenerationForSave_def
        CurrentBootstrapGeneration_def)
  then have "\<not> shouldRefreshExistingBootstrapSpec (Some q)" "\<not> failingBootstrapAutoHealCapped False False (Some q)"
    using current by (simp_all add: shouldRefreshExistingBootstrapSpec_def failingBootstrapAutoHealCapped_def
        NeedsGenerationUpgrade_def boot_status_defs)
  from ensure_reuses [OF found this(1)] this(2) have "ensureBootstrapSpec en' repo rid t = (Inr q, t)" for en' rid by simp
  with run fields show ?thesis by blast
qed

lemma demo_improvements:
  "improvement demo_files ''/setup.sh'' = (''make all'', True)" "improvement demo_files ''/start.sh'' = ([], False)"
  "improvement demo_files ''/stop.sh'' = ([], False)" "improvement demo_files ''/health.sh'' = ([], False)"
  "improvement demo_files ''/lessons.md'' = ([], False)" "improvement demo_files ''/none.txt'' = ([], False)"
  "improvement demo_files ''/reason.md'' = ([], False)"
  by code_simp+

lemma demo_improved: "improved_spec demo_boot_env demo_files demo_spec =
    demo_spec\<lparr>bs_SpecVersion := 5, bs_ValidationStatus := StatusStale, bs_SetupScript := ''make all''\<rparr>"
  by (simp add: improved_spec_def patched_spec_def demo_improvements Let_def demo_spec_def int32_def)

theorem untested_scripts_count_as_validated_witness:
  "\<exists>t q. post_pr_housekeeping demo_boot_env demo_boot_repo ''t1'' demo_spec demo_boot_db = (Inr (), t) \<and>
    bs_ValidationStatus q = ''validated'' \<and> bs_SpecVersion q = 5 \<and> bs_SetupScript q = ''make all'' \<and>
    ensureBootstrapSpec demo_boot_env demo_boot_repo ''t2'' t = (Inr q, t)"
proof -
  have files: "hands_over demo_boot_env demo_files" "suggests demo_files"
    by (simp_all add: hands_over_def demo_boot_env_def demo_files_def suggests_def demo_improvements)
  have st: "storable (improved_spec demo_boot_env demo_files demo_spec)"
    using demo_storable by (simp add: demo_improved storable_def spec_texts_def nul_free_def int4_def validation_statuses_def StatusStale_def)
  have found: "boot_GetSpec (rc_InstallID demo_boot_repo) (rc_RepoID demo_boot_repo) [] demo_boot_db = (Inr demo_spec, demo_boot_db)"
    by (simp add: GetSpec_answers demo_boot_repo_def demo_found)
  have valid: "text_ok ''make all''" by (simp add: text_ok_def ascii_valid between_def)
  have repo: "rc_InstallID demo_boot_repo = bs_InstallationID demo_spec" "rc_RepoID demo_boot_repo = bs_RepoID demo_spec"
    "bs_Path demo_spec = []" "CurrentBootstrapGeneration \<le> bs_BootstrapGeneration demo_spec"
    "int32 (bs_SpecVersion demo_spec + 1) = 5"
    by (simp_all add: demo_boot_repo_def demo_spec_def CurrentBootstrapGeneration_def int32_def)
  from untested_scripts_count_as_validated [OF files st repo(1-3) demo_boot_ok(1) found repo(4), of "''t1''"] obtain t q where
    "post_pr_housekeeping demo_boot_env demo_boot_repo ''t1'' demo_spec demo_boot_db = (Inr (), t)"
    "bs_ValidationStatus q = StatusValidated" "bs_SpecVersion q = 5" "bs_SetupScript q = postgresText ''make all''"
    "ensureBootstrapSpec demo_boot_env demo_boot_repo ''t2'' t = (Inr q, t)"
    unfolding repo(5) demo_improvements fst_conv snd_conv if_True by blast
  then show ?thesis using valid by (intro exI [of _ t] exI [of _ q]) (simp add: StatusValidated_def)
qed

text \<open>C38: once a user has reset the spec of a repository, the housekeeping of tasks that were still running
  does not bring it back, whatever they read in their sandboxes and however their second looks, saves and
  status updates follow each other, unless one of them took its second look before the reset and has its save
  still ahead of it.\<close>

theorem reset_outlives_running_tasks:
  assumes "boot_DeleteSpec i n path s = (Inr (), t)" and "saves_elsewhere (i, n, path) ps"
    and "house_step\<^sup>*\<^sup>* (t, ps) (u, qs)"
  shows "boot_GetSpec i n path u = (Inl BootErrNotFound, u)"
proof -
  have path: "text_ok path"
    using assms(1) by (auto simp: boot_DeleteSpec_def DeleteRepoSetupSpec_def with_texts_def wrap_err_def split: if_splits)
  from deleted_spec [OF this, of i n s] obtain t0 where "boot_DeleteSpec i n path s = (Inr (), t0)" "spec_at t0 (i, n, path) = None"
    by blast
  with assms(1,2) have "stays_away (i, n, path) (t, ps)" by (simp add: stays_away_def)
  from house_steps_away [OF assms(3) this] show ?thesis by (simp add: stays_away_def GetSpec_answers [OF path] found_spec_def)
qed

theorem reset_outlives_running_tasks_witness:
  "\<exists>u. snd (post_pr_housekeeping demo_boot_env demo_boot_repo ''t1'' demo_spec (snd (boot_DeleteSpec 7 9 [] demo_boot_db))) = u \<and>
    boot_GetSpec 7 9 [] u = (Inl BootErrNotFound, u)"
proof -
  obtain t where t: "boot_DeleteSpec 7 9 [] demo_boot_db = (Inr (), t)" by (rule deleted_spec [OF empty_ok])
  have "saves_elsewhere (7, 9, []) ([] :: unit waiting)" by (simp add: saves_elsewhere_def)
  from reset_outlives_running_tasks [OF t this housekeeping_steps [OF prod.collapse [symmetric]]] show ?thesis
    by (simp add: t)
qed

text \<open>C39: the second look and the save are separate statements. A user who resets the spec between them sees
  it gone, and then the save of the task brings it back, with the scripts the agent rewrote.\<close>

theorem late_save_undoes_the_reset:
  assumes "hands_over en files" "suggests files" and "storable (improved_spec en files p)"
    and "boot_GetSpec (bs_InstallationID p) (bs_RepoID p) (bs_Path p) s = (Inr p', s)"
  shows "\<exists>x t u v. improvements_wanted en (session_reader en i) p s = (Inr (Some x), t) \<and>
    boot_DeleteSpec (bs_InstallationID p) (bs_RepoID p) (bs_Path p) t = (Inr (), u) \<and>
    boot_GetSpec (bs_InstallationID p) (bs_RepoID p) (bs_Path p) u = (Inl BootErrNotFound, u) \<and>
    save_improvements en x u = (Inr (), v) \<and>
    boot_GetSpec (bs_InstallationID p) (bs_RepoID p) (bs_Path p) v = (Inr (stored_form (improved_spec en files p)), v)"
proof -
  have "found_spec (spec_at s (key_of p)) = Inr p'"
    using assms(4) by (simp add: GetSpec_answers [OF improved_path [OF assms(3)]] key_of_def)
  from late_save [OF assms(1-3) this] show ?thesis .
qed

lemma demo_files_handed: "hands_over demo_boot_env demo_files" "suggests demo_files"
  by (simp_all add: hands_over_def demo_boot_env_def demo_files_def suggests_def demo_improvements)

lemma demo_improved_storable: "storable (improved_spec demo_boot_env demo_files demo_spec)"
  using demo_storable by (simp add: demo_improved storable_def spec_texts_def nul_free_def int4_def validation_statuses_def StatusStale_def)

theorem late_save_undoes_the_reset_witness:
  "\<exists>x u v. boot_GetSpec 7 9 [] u = (Inl BootErrNotFound, u) \<and> save_improvements demo_boot_env x u = (Inr (), v) \<and>
    boot_GetSpec 7 9 [] v = (Inr (stored_form (improved_spec demo_boot_env demo_files demo_spec)), v)"
proof -
  have key: "bs_InstallationID demo_spec = 7" "bs_RepoID demo_spec = 9" "bs_Path demo_spec = []"
    by (simp_all add: demo_spec_def)
  have "boot_GetSpec (bs_InstallationID demo_spec) (bs_RepoID demo_spec) (bs_Path demo_spec) demo_boot_db = (Inr demo_spec, demo_boot_db)"
    unfolding key by (simp add: GetSpec_answers demo_found)
  from late_save_undoes_the_reset [OF demo_files_handed demo_improved_storable this] show ?thesis unfolding key by blast
qed

section \<open>Dev containers\<close>

text \<open>C40: a dev container file is made of strings, line and block comments and other characters (digits, slashes
  and white space among them), with a last line comment that no line end closes perhaps. Stripping keeps all of
  it but the comments, of which the line ends stay, and the commas whose next character, white space and
  comments skipped, closes an object or an array; a document without comments and such commas stays as it is.\<close>

theorem comments_are_stripped:
  assumes "pieces_ok tail ps" and "tail = [] \<or> tail = ''//'' @ s \<and> newline \<notin> set s"
  shows "stripJSONC (pieces_text ps @ tail) = json_left ps \<and> (tidy ps \<longrightarrow> stripJSONC (pieces_text ps @ tail) = pieces_text ps)"
  using stripJSONC_pieces [OF assms] tidy_left by simp

theorem comments_are_stripped_witness:
  "stripJSONC (''{ \"a//\": [1, 2/3, // x'' @ [newline] @ '' ], /* y */ } // z'') = ''{ \"a//\": [1, 2/3 '' @ [newline] @ '' ]  } ''"
proof -
  let ?ps = "map PChar ''{ '' @ [PString ''a//''] @ map PChar '': [1, 2/3, '' @ [PLine '' x''] @ map PChar '' ], '' @
    [PBlock '' y ''] @ map PChar '' } ''"
  have "pieces_ok (''//'' @ '' z'') ?ps" by code_simp
  moreover have "newline \<notin> set '' z''" by (simp add: newline_def)
  ultimately have "stripJSONC (pieces_text ?ps @ ''//'' @ '' z'') = json_left ?ps"
    using comments_are_stripped [of "''//'' @ '' z''" ?ps "'' z''"] by blast
  moreover have "pieces_text ?ps @ ''//'' @ '' z'' = ''{ \"a//\": [1, 2/3, // x'' @ [newline] @ '' ], /* y */ } // z''" by code_simp
  moreover have "json_left ?ps = ''{ \"a//\": [1, 2/3 '' @ [newline] @ '' ]  } ''" by code_simp
  ultimately show ?thesis by simp
qed

end
