(* ===== verification/Spec2Isabelle.thy ===== *)
theory Spec2Isabelle
  imports Billing_Properties Stripe_Properties Jobs_Properties Auto_Merge_Properties Auth_Properties Transcript_Properties Conv_Properties
    Boot_Properties
begin

text \<open>
  Verification of hetchy's core (Go, under src/): the accounting of credits, the handling of the
  payment provider's events, the scheduling of jobs, the leases of agent runs, the automatic
  merging of pull requests, the transcripts of runs with their live streams and their recovery, the
  conversations they belong to, the set-up specs of repositories with their secrets, and the accounts, sessions
  and members of organisations.

  The program runs coding agents for organisations. A run is admitted against the credits of its
  organisation (internal/billing), metered while it runs, and settled when it ends; credits come
  from a subscription or from top-ups, both bought at a payment provider whose webhooks
  (internal/bot/stripe_webhook.go) write the same tables. Workers share the runs through leases in
  the run store (internal/runstore). What a run does is a transcript of blocks: a tee passes it to a
  recorder, to the browsers that follow the run live, and to the run's stored events, from which another
  worker continues when the first one dies (internal/blocks, internal/bot/live*.go, agent_run_runtime.go). The turns are kept
  with the conversation (internal/convstore), every few seconds while the run goes on (persister.go) and when it
  ends; beside them is the state of the conversation's pull request, refreshed from GitHub
  (pr_state.go). The first run on a repository finds out how to set it up and start it; the spec and the secrets it
  needs are kept (internal/bootstrap), healed when they fail, and improved by the agents that use them
  (agent.go, spec_reflect.go). When a run has opened a pull request, the agent's assessment of it
  decides with GitHub's state whether it is merged (internal/bot/auto_merge*.go), and its outcome and
  events go to the run store. Who may do any of this is decided by internal/auth: a request carries a
  session, the session a user, and the user's membership the organisation and role.

  What models what:

  \<^item> Go_Prelude: Go's error values and their chains, the result of a state-passing call
    (\<open>go_error + 'a\<close> and the new state), transactions that roll back on an error, 32-bit and 64-bit
    conversions, times, and the string functions the program calls.
  \<^item> Sql_Tables: a table as a list of rows with the statements the queries are made of; an insert
    or update that breaks a constraint is an error and leaves the table.
  \<^item> Billing_Types (types.go, plans.go, flavor.go), Billing_Queries (internal/db/sqlc/billing.sql.go
    with the constraints of db/migrations), Billing_Store (store.go), Billing_Reservation
    (reservation.go), Billing_Topup (topup.go) and Billing_Service (service.go): one definition per
    function, with its name. A store method takes \<open>en\<close>, whether the store has a pool, and the time
    it reads from the clock.
  \<^item> Billing_Invariant, Billing_Ledger, Billing_Conservation and Billing_Outcomes: the invariant
    of the tables and that every operation keeps it; the ledger of an organisation (balance, reserved
    and captured credits) and what each operation does to it. Billing_Properties states the results.
  \<^item> Go_Json: the part of encoding/json and strconv that the event objects use. Stripe_Billing
    (stripe_billing.go), Stripe_Webhook (stripe_webhook.go) and Stripe_Plan_Switch
    (stripe_plan_switch.go): prices, metadata, objects, event handlers and plan changes over the
    interface of the billing service. Stripe_Laws and Stripe_Properties: what they do to the tables.
  \<^item> Jobs_Types, Jobs_Queries, Jobs_Store (internal/jobs and internal/db/sqlc/jobs.sql.go): scheduled
    jobs and their executions, one definition per function and query. Jobs_Invariant: the consistency
    of the tables. Jobs_Laws and Jobs_Properties: the life of an execution, claims and their order.
  \<^item> Runs_Queries (internal/db/sqlc/agent_runs.sql.go) and Runs_Store (internal/runstore): agent runs,
    their leases and their events. Runs_Invariant: the consistency of the tables. Runs_Lease: the abstract
    machine of a lease (opened, taken over, logged to, ended) and that every operation of a worker
    is steps of it. Runs_Laws and Runs_Properties: fencing, exclusion, creation, cancellation, paged reads.
  \<^item> Go_Json_Text: the text of JSON, its parser with as much fuel as the text has
    characters, and that it reads back what is written.
  \<^item> Auto_Merge_Types, Auto_Merge_Gates (auto_merge_gates.go), Auto_Merge_Parse (auto_merge_parse.go),
    Auto_Merge_Flow (auto_merge.go, auto_merge_labels.go), Auto_Merge_Outcome (auto_merge_outcome.go,
    auto_merge_blocks.go) and Auto_Merge_Recheck: an assessment, the two gates it has to pass, the
    calls to GitHub, the stored outcome, and the entry points. Auto_Merge_Laws says without the loops
    what the gates let through and what the calls can change, and that an assessment reads
    back; Auto_Merge_Runs what the entry points do to the runs; Auto_Merge_Properties has the results.
  \<^item> Auth_Types (local_helpers.go and the constants), Auth_Queries (internal/db/sqlc/local_auth.sql.go with the
    constraints of db/migrations), Auth_Members (members.go and the organisations of auth.go), Auth_Security
    (local_security.go, local_template.go), Auth_Local (local.go) and Auth_OAuth (auth.go, oauth_state.go):
    the tables of the local accounts, the operations on members in the three modes, the guards of
    the forms, sign-up, log-in, sessions, and the callback of the hosted provider. Auth_Invariant: the
    consistency of the tables and the step relation of the service. Auth_Laws and Auth_Limit: what the handlers
    decide, and the limit of attempts over time. Auth_Properties has the results.

  \<^item> Blocks_Types, Blocks_Recorder and Blocks_Tee (internal/blocks): blocks, the recorder and the tee; an
    emitter is a record of its methods on its own state. Live_Stream (live.go, live_emitter.go): the
    live run with its subscribers and the registry. Run_Emitter (agent_run_runtime.go, and
    blocksFromRunEvents of agent_run_recovery_daytona.go): the emitter that stores every frame. A
    producer is a list of calls; \<open>render\<close> is the transcript it describes. Run_Emitter_Laws: the durable
    emitter keeps the contract of a log. Run_Durability: the log when writes fail, and the live stream
    beside it. Run_Recovery: the frames of calls, once more from the stored events.
    Transcript_Properties has the results.
  \<^item> Conv_Types, Conv_Queries (internal/db/sqlc/conversations.sql.go with the constraints of db/migrations) and
    Conv_Store (convstore.go, pr_state.go): conversations and their attachments, the store, the refresh of pull
    request states, its backfill and its poll, and (persister.go and the helpers of the terminal save) the saves of a run in
    progress. Conv_Invariant: the consistency of the tables, and every
    operation as a step that keeps it. Conv_Laws: what a write merges and what a page of a search is.
    Conv_Polling and Conv_Saving: the loop over candidates and its queue, and the ticks of a persister.
    Conv_Properties has the results.
  \<^item> Boot_Text: UTF-8 as the standard library of Go reads it, and truncation. Boot_Types (internal/bootstrap/spec.go),
    Boot_Store (internal/db/sqlc/repo_bootstrap.sql.go, store.go, and the cipher of
    internal/secrets): manifests, specs and secrets. Boot_Detect (detect.go, detect_python.go): what detection
    reads from a checkout, and what stripping comments does. Boot_Loop (loop.go, drift.go): one bootstrap and its artifacts, the fingerprint,
    healing. Boot_Flow (agent.go, bootstrap_persist.go, bootstrap_messages.go, spec_reflect.go and
    saveRecoveredBootstrapSpec): the spec of a task, from the first bootstrap to the housekeeping after
    its pull request. Boot_Laws: the consistency of the tables, steps and secrets. Boot_Spec:
    what a write leaves in its row. Boot_Healing and Boot_Housekeeping: bootstraps that fail, and
    improvements. Boot_Properties has the results.

  Interfaces: the service is written over a record of store operations (\<open>service_ops\<close>, the Go
  interface serviceStore). The locale \<open>service_store\<close> collects the laws the service relies on, and
  Billing_Service interprets it on the store's own definitions. The locale \<open>lease_store\<close> is what the
  workers rely on: every step of a worker is a sequence of lease steps; Runs_Lease interprets it on
  the run store. The locale \<open>block_log\<close> is what a producer relies on: each call of an emitter adds or
  changes one block of its view; it is interpreted on the recorder and on the durable emitter with
  the blocks read back from its stored events. The locale \<open>task_invariant\<close> is what a property of the bootstrap
  tables needs to be kept by every task; it is interpreted on their consistency and on the secrets.

  Fuel and loops: AutoTopup loops without a bound in the source. Its model takes fuel and answers None
  when it runs out; auto_topup_returns shows how much is enough when each purchase brings a new
  invoice, and auto_topup_livelock that no fuel is when the webhook handles each purchase first and the
  month of the settings lasts. The loops over pages (EventsAfter, the
  listings of GitHub) are partial functions into an option: events_after_returns_all shows that the
  first returns, evaluation_gives_an_outcome and recheck_leaves_runs_alone that the others do when
  the page numbers of GitHub grow up to a last page.

  Parameters: the payment provider's calls, signature verification, SHA-256, the clock and the list of
  line items of a checkout, HMAC, the hosting service behind the state of a pull request (a record of operations on
  its own state), bcrypt, the parsers of addresses, hosts and e-mail, the identity provider (a record
  of operations on its own state), random bytes, the cron parser and the time zones, the GitHub client (a record of
  operations on its own state), url.Parse and url.PathUnescape, the lookup of a repository's
  installation, the conversations of a pull request, and the order in which Go visits a map (it only
  chooses the name in a reason), and the format of times in JSON (RFC 3339). The sandbox of a bootstrap
  is a record of operations on its own state (sessions, clone, detection, script, files); the AEAD of crypto/cipher
  is another, and that it opens what it sealed is a hypothesis where secrets are read back. Transactions are taken as serialised, which the row locks of the queries
  (FOR UPDATE) provide; connection failures of the database are not modelled. Rows that another transaction
  holds when due jobs are claimed (SKIP LOCKED) are an argument of the claim. Methods that write outside a
  transaction are sequences of statements; where another request between two of them changes the result,
  the parts are definitions of their own: the checks and the write of a removal or a change of role
  (removal_checks, removal_write, racing_removals_leave_no_admin), and the second look, the save and the status
  of the housekeeping after a pull request (improvements_wanted, save_improvements, house_step,
  late_save_undoes_the_reset). The other results about single methods take their statements in a row, with
  nothing in between. Times are nanoseconds
  and the floating-point minutes of BillableCredits are the exact quotient, which agrees for runs
  below 2^18 minutes. Strings are bytes; the verb for a quoted string is taken as quotes around it.

  Not modelled: HTTP rendering, chat transports, sandboxes, the streams of the model providers, the text of the
  bootstrap prompt and its shell script, the detection of Dockerfiles, Makefiles and TOML files, the flow of a request
  through prompts and sandboxes, and the catalogue of agents. What is left is glue over these services, or text
  that is read by a model.
\<close>

end
